(* ===== verification/Prelude.thy ===== *)
theory Prelude
  imports Main "HOL-Library.AList" "HOL-Library.Multiset"
begin

text \<open>
  Shared vocabulary of the development.

  \<^item> JavaScript values that cross the database boundary as JSON (\<open>json\<close>, \<open>jobject\<close>), the object
    spread \<open>{...a, ...b}\<close> and the SQL text accessor \<open>->>\<close>.
  \<^item> The string operations of the source (\<open>trim\<close>, \<open>toLowerCase\<close>, \<open>startsWith\<close>, \<open>endsWith\<close>).
    A string is a list of \<open>char\<close>; \<open>trim\<close> and case folding act on the ASCII range.
  \<^item> Errors: every \<open>throw\<close> of the source is the left summand of \<open>error + 'a\<close>. A message written in
    Chinese in the source appears here in English; error codes and reasons are the literals of
    the source.
  \<^item> Tables: a SQL table is the list of its rows in insertion order; \<open>update ... where\<close> is
    \<open>upd_where\<close>, \<open>select ... where\<close> is \<open>filter\<close>, \<open>order by\<close> is a stable sort.
  \<^item> Instants: a point in time is an integer number of milliseconds (\<open>Date.getTime()\<close>); the ISO
    strings of the source denote instants and are compared as instants.
  \<^item> A generic stable insertion sort for \<open>Array.prototype.sort\<close> with a comparator, and the
    generic invariant rule for step relations.
\<close>

section \<open>Types\<close>

type_synonym instant = int

datatype error =
    AppError string               \<comment> \<open>\<open>new AppError(code, ...)\<close>\<close>
  | SecurityError string string   \<comment> \<open>\<open>securityErrors.x({ reason })\<close>: code and reason\<close>
  | PlainError string             \<comment> \<open>\<open>new Error(message)\<close>\<close>
  | DbError string                \<comment> \<open>an error of PostgreSQL: its SQLSTATE\<close>

type_synonym 'a result = "error + 'a"

datatype json =
    JNull
  | JBool bool
  | JNum int
  | JStr string
  | JArr "json list"
  | JObj "(string \<times> json) list"

type_synonym jobject = "(string \<times> json) list"

named_theorems table_simps \<open>rewriting of table updates and lookups\<close>
named_theorems js_simps \<open>JavaScript string and object operations\<close>

section \<open>Strings\<close>

definition is_ws :: "char \<Rightarrow> bool" where
  "is_ws c \<longleftrightarrow> of_char c \<in> {9, 10, 11, 12, 13, 32, 160 :: nat}"

definition trim :: "string \<Rightarrow> string" where
  "trim s = rev (dropWhile is_ws (rev (dropWhile is_ws s)))"

definition lower_char :: "char \<Rightarrow> char" where
  "lower_char c = (if 65 \<le> (of_char c :: nat) \<and> (of_char c :: nat) \<le> 90
                   then char_of ((of_char c :: nat) + 32) else c)"

definition toLowerCase :: "string \<Rightarrow> string" where
  "toLowerCase s = map lower_char s"

definition upper_char :: "char \<Rightarrow> char" where
  "upper_char c = (if 97 \<le> (of_char c :: nat) \<and> (of_char c :: nat) \<le> 122
                   then char_of ((of_char c :: nat) - 32) else c)"

definition toUpperCase :: "string \<Rightarrow> string" where
  "toUpperCase s = map upper_char s"

definition startsWith :: "string \<Rightarrow> string \<Rightarrow> bool" where
  "startsWith s p \<longleftrightarrow> take (length p) s = p"

definition endsWith :: "string \<Rightarrow> string \<Rightarrow> bool" where
  "endsWith s p \<longleftrightarrow> length p \<le> length s \<and> drop (length s - length p) s = p"

definition str_includes :: "string \<Rightarrow> string \<Rightarrow> bool" where
  "str_includes s p \<longleftrightarrow> (\<exists>i \<in> set [0..<Suc (length s)]. startsWith (drop i s) p)"

text \<open>\<open>if (value)\<close> on a \<open>string | undefined\<close>: neither undefined nor empty.\<close>

definition truthy :: "string option \<Rightarrow> bool" where
  "truthy v \<longleftrightarrow> (case v of None \<Rightarrow> False | Some s \<Rightarrow> s \<noteq> [])"

text \<open>The nullish coalescing operator \<open>??\<close>, left with an optional second operand.\<close>

definition orElse :: "'a option \<Rightarrow> 'a option \<Rightarrow> 'a option" where
  "orElse a b = (case a of None \<Rightarrow> b | Some x \<Rightarrow> Some x)"

definition getOrElse :: "'a option \<Rightarrow> 'a \<Rightarrow> 'a" where
  "getOrElse a d = (case a of None \<Rightarrow> d | Some x \<Rightarrow> x)"

fun digits_of :: "nat \<Rightarrow> string" where
  "digits_of n = (if n < 10 then [char_of (48 + n)]
                  else digits_of (n div 10) @ [char_of (48 + n mod 10)])"

definition int_to_string :: "int \<Rightarrow> string" where
  "int_to_string i = (if i < 0 then CHR ''-'' # digits_of (nat (- i)) else digits_of (nat i))"

fun join :: "string \<Rightarrow> string list \<Rightarrow> string" where
  "join sep [] = []"
| "join sep [x] = x"
| "join sep (x # y # xs) = x @ sep @ join sep (y # xs)"

text \<open>\<open>s.split(c)\<close> for a separator of one character.\<close>

fun split_on :: "char \<Rightarrow> string \<Rightarrow> string list" where
  "split_on c [] = [[]]"
| "split_on c (x # xs) = (if x = c then [] # split_on c xs
     else (case split_on c xs of [] \<Rightarrow> [[x]] | p # ps \<Rightarrow> (x # p) # ps))"

section \<open>JSON objects\<close>

definition jget :: "jobject \<Rightarrow> string \<Rightarrow> json option" where
  "jget ob k = map_of ob k"

definition ojget :: "jobject option \<Rightarrow> string \<Rightarrow> json option" where
  "ojget ob k = (case ob of None \<Rightarrow> None | Some m \<Rightarrow> jget m k)"

text \<open>\<open>{ ...a, ...b }\<close> and the \<open>jsonb || jsonb\<close> concatenation of two objects.\<close>

definition spread :: "jobject \<Rightarrow> jobject \<Rightarrow> jobject" where
  "spread a b = fold (\<lambda>(k, v). AList.update k v) b a"

definition asRecord :: "json option \<Rightarrow> jobject" where
  "asRecord v = (case v of Some (JObj m) \<Rightarrow> m | _ \<Rightarrow> [])"

text \<open>A member of an object that is left out when it is undefined.\<close>

definition str_opt :: "string \<Rightarrow> string option \<Rightarrow> jobject" where
  "str_opt k v = (case v of None \<Rightarrow> [] | Some s \<Rightarrow> [(k, JStr s)])"

definition hex_digit :: "nat \<Rightarrow> char" where
  "hex_digit n = (if n < 10 then char_of (48 + n) else char_of (87 + n))"

text \<open>\<open>JSON.stringify\<close> on a string: a quote, a backslash and the control characters are escaped.\<close>

definition quote_char :: "char \<Rightarrow> string" where
  "quote_char c = (let n = (of_char c :: nat); bs = char_of (92 :: nat) in
     if n = 34 then [bs, c] else if n = 92 then [bs, bs]
     else if n = 8 then [bs, CHR ''b''] else if n = 9 then [bs, CHR ''t'']
     else if n = 10 then [bs, CHR ''n''] else if n = 12 then [bs, CHR ''f'']
     else if n = 13 then [bs, CHR ''r'']
     else if n < 32 then [bs, CHR ''u'', CHR ''0'', CHR ''0'', hex_digit (n div 16), hex_digit (n mod 16)]
     else [c])"

definition json_quote :: "string \<Rightarrow> string" where
  "json_quote s = [char_of (34 :: nat)] @ concat (map quote_char s) @ [char_of (34 :: nat)]"

fun json_str :: "json \<Rightarrow> string" where
  "json_str JNull = ''null''"
| "json_str (JBool b) = (if b then ''true'' else ''false'')"
| "json_str (JNum i) = int_to_string i"
| "json_str (JStr s) = json_quote s"
| "json_str (JArr xs) = ''['' @ join '', '' (map json_str xs) @ '']''"
| "json_str (JObj kvs) =
     ''{'' @ join '', '' (map (\<lambda>(k, v). json_quote k @ '': '' @ json_str v) kvs) @ ''}''"

text \<open>\<open>String(value)\<close>: an array is the list of its elements with commas between them, where null is empty.\<close>

fun js_string :: "json \<Rightarrow> string" where
  "js_string JNull = ''null''"
| "js_string (JBool b) = (if b then ''true'' else ''false'')"
| "js_string (JNum i) = int_to_string i"
| "js_string (JStr s) = s"
| "js_string (JArr xs) = join '','' (map (\<lambda>x. if x = JNull then [] else js_string x) xs)"
| "js_string (JObj kvs) = ''[object Object]''"

text \<open>\<open>payload->>'key'\<close>: the text of a member, NULL when it is missing or JSON null.\<close>

definition json_text :: "json \<Rightarrow> string option" where
  "json_text v = (case v of JNull \<Rightarrow> None | JStr s \<Rightarrow> Some s | _ \<Rightarrow> Some (json_str v))"

definition sql_text :: "jobject option \<Rightarrow> string \<Rightarrow> string option" where
  "sql_text ob k = Option.bind (ojget ob k) json_text"

text \<open>The SQL function \<open>trim\<close> removes spaces only.\<close>

definition sql_trim :: "string \<Rightarrow> string" where
  "sql_trim s = rev (dropWhile (\<lambda>c. c = CHR '' '') (rev (dropWhile (\<lambda>c. c = CHR '' '') s)))"

definition nullif_empty :: "string option \<Rightarrow> string option" where
  "nullif_empty v = (if v = Some [] then None else v)"

text \<open>\<open>typeof value === 'string' && value.trim() ? value.trim() : undefined\<close>, the accessor the
  source repeats for identifiers inside JSON records.\<close>

definition trimmed_string :: "json option \<Rightarrow> string option" where
  "trimmed_string v = (case v of Some (JStr s) \<Rightarrow> if trim s = [] then None else Some (trim s) | _ \<Rightarrow> None)"

section \<open>Three-valued logic\<close>

text \<open>A SQL condition is true, false or NULL; a row is selected only when its condition is true.
  A comparison with NULL is NULL.\<close>

type_synonym tri = "bool option"

definition tri_eq :: "'a option \<Rightarrow> 'a option \<Rightarrow> tri" where
  "tri_eq a b = (case a of None \<Rightarrow> None | Some x \<Rightarrow> (case b of None \<Rightarrow> None | Some y \<Rightarrow> Some (x = y)))"

definition tri_and :: "tri \<Rightarrow> tri \<Rightarrow> tri" where
  "tri_and a b = (if a = Some False \<or> b = Some False then Some False
                  else if a = Some True \<and> b = Some True then Some True else None)"

definition tri_or :: "tri \<Rightarrow> tri \<Rightarrow> tri" where
  "tri_or a b = (if a = Some True \<or> b = Some True then Some True
                 else if a = Some False \<and> b = Some False then Some False else None)"

definition tri_not :: "tri \<Rightarrow> tri" where
  "tri_not a = map_option Not a"

definition tri_ors :: "tri list \<Rightarrow> tri" where
  "tri_ors cs = foldr tri_or cs (Some False)"

definition selected :: "tri \<Rightarrow> bool" where
  "selected c \<longleftrightarrow> c = Some True"

section \<open>Tables\<close>

definition upd_where :: "('r \<Rightarrow> bool) \<Rightarrow> ('r \<Rightarrow> 'r) \<Rightarrow> 'r list \<Rightarrow> 'r list" where
  "upd_where p f rows = map (\<lambda>r. if p r then f r else r) rows"

section \<open>Sequencing\<close>

text \<open>Calls that may throw and keep what they wrote, one after the other, and the loop
  \<open>for (const x of xs) await f(x)\<close>.\<close>

definition andThen :: "'a result \<times> 's \<Rightarrow> ('a \<Rightarrow> 's \<Rightarrow> 'b result \<times> 's) \<Rightarrow> 'b result \<times> 's" where
  "andThen r k = (case r of (Inl e, s) \<Rightarrow> (Inl e, s) | (Inr x, s) \<Rightarrow> k x s)"

fun for_each :: "('a \<Rightarrow> 's \<Rightarrow> unit result \<times> 's) \<Rightarrow> 'a list \<Rightarrow> 's \<Rightarrow> unit result \<times> 's" where
  "for_each f [] s = (Inr (), s)"
| "for_each f (x # xs) s = andThen (f x s) (\<lambda>_. for_each f xs)"

section \<open>Comparator sort\<close>

text \<open>\<open>Array.prototype.sort\<close> is stable: an element moves before another only when the comparator
  says it is strictly smaller. \<open>lt x y\<close> stands for \<open>compare(x, y) < 0\<close>.\<close>

fun insert_by :: "('a \<Rightarrow> 'a \<Rightarrow> bool) \<Rightarrow> 'a \<Rightarrow> 'a list \<Rightarrow> 'a list" where
  "insert_by lt x [] = [x]"
| "insert_by lt x (y # ys) = (if lt y x then y # insert_by lt x ys else x # y # ys)"

fun sort_by :: "('a \<Rightarrow> 'a \<Rightarrow> bool) \<Rightarrow> 'a list \<Rightarrow> 'a list" where
  "sort_by lt [] = []"
| "sort_by lt (x # xs) = insert_by lt x (sort_by lt xs)"

text \<open>\<open>[...new Set(xs)]\<close>: the distinct elements in the order of their first occurrence.\<close>

fun set_dedup :: "'a list \<Rightarrow> 'a list" where
  "set_dedup [] = []"
| "set_dedup (x # xs) = x # filter (\<lambda>y. y \<noteq> x) (set_dedup xs)"

section \<open>Lemmas on strings, options and objects\<close>

lemma truthy_simps [simp, js_simps]:
  "truthy None = False" "truthy (Some s) = (s \<noteq> [])"
  by (simp_all add: truthy_def)

lemma orElse_simps [simp, js_simps]:
  "orElse None b = b" "orElse (Some x) b = Some x"
  by (simp_all add: orElse_def)

lemma getOrElse_simps [simp, js_simps]:
  "getOrElse None d = d" "getOrElse (Some x) d = x"
  by (simp_all add: getOrElse_def)

lemma trim_Nil [simp, js_simps]: "trim [] = []"
  by (simp add: trim_def)

lemma trim_eq_Nil_iff: "trim s = [] \<longleftrightarrow> (\<forall>c \<in> set s. is_ws c)"
proof
  assume "trim s = []"
  then have *: "\<forall>c \<in> set (dropWhile is_ws s). is_ws c"
    by (simp add: trim_def dropWhile_eq_Nil_conv)
  have "dropWhile is_ws s = []"
  proof (rule ccontr)
    assume ne: "dropWhile is_ws s \<noteq> []"
    then have "\<not> is_ws (hd (dropWhile is_ws s))" by (rule hd_dropWhile)
    moreover have "is_ws (hd (dropWhile is_ws s))" using * ne by auto
    ultimately show False by simp
  qed
  then show "\<forall>c \<in> set s. is_ws c" by (simp add: dropWhile_eq_Nil_conv)
next
  assume "\<forall>c \<in> set s. is_ws c"
  then show "trim s = []"
    by (auto simp: trim_def dropWhile_eq_Nil_conv dest: set_dropWhileD)
qed

lemma startsWith_append [simp, js_simps]: "startsWith (p @ s) p"
  by (simp add: startsWith_def)

lemma startsWith_iff: "startsWith s p \<longleftrightarrow> (\<exists>r. s = p @ r)"
proof
  assume "startsWith s p"
  then have "s = p @ drop (length p) s"
    by (metis append_take_drop_id startsWith_def)
  then show "\<exists>r. s = p @ r" by blast
next
  assume "\<exists>r. s = p @ r"
  then show "startsWith s p" by (auto simp: startsWith_def)
qed

lemma map_of_spread: "map_of (spread a b) = map_of a ++ map_of (rev b)"
proof (induction b arbitrary: a)
  case Nil
  then show ?case by (simp add: spread_def)
next
  case (Cons kv b)
  obtain k v where kv: "kv = (k, v)" by (cases kv)
  have "map_of (spread a (kv # b)) = map_of (AList.update k v a) ++ map_of (rev b)"
    using Cons.IH [of "AList.update k v a"] by (simp add: spread_def kv)
  then show ?case
    by (simp add: kv update_conv' map_add_def fun_eq_iff split: option.splits)
qed

lemma jget_spread_distinct:
  assumes "distinct (map fst b)"
  shows "jget (spread a b) k = orElse (jget b k) (jget a k)"
proof -
  have "map_of (rev b) = map_of b"
    using assms by (metis distinct_map map_of_inject_set rev_map set_rev distinct_rev)
  then show ?thesis
    by (simp add: jget_def map_of_spread map_add_def orElse_def split: option.splits)
qed

lemma jget_spread_single: "jget (spread a [(k, v)]) k' = (if k' = k then Some v else jget a k')"
  by (simp add: jget_spread_distinct) (simp add: jget_def)

lemma jget_update: "jget (AList.update k v a) k' = (if k' = k then Some v else jget a k')"
  by (simp add: jget_def update_conv')

lemma set_alist_update: "set (AList.update k v al) \<subseteq> insert (k, v) (set al)"
  by (induction al) auto

lemma keys_alist_update [simp]: "fst ` set (AList.update k v al) = insert k (fst ` set al)"
  by (induction al) auto

lemma tri_simps [simp]:
  "tri_not None = None" "tri_not (Some b) = Some (\<not> b)"
  "tri_or (Some True) c = Some True" "tri_or c (Some True) = Some True"
  "tri_and (Some False) c = Some False" "tri_and c (Some False) = Some False"
  "tri_and (Some True) c = c" "tri_and c (Some True) = c" "tri_or (Some False) c = c" "tri_or c (Some False) = c"
  "selected (Some b) = b" "selected None = False"
  by (auto simp: tri_not_def tri_or_def tri_and_def selected_def split: option.splits)
    (metis (full_types) not_None_eq)+

lemma selected_tri_and: "selected (tri_and a b) \<longleftrightarrow> selected a \<and> selected b"
  by (auto simp: selected_def tri_and_def)

lemma tri_ors_True: "tri_ors cs = Some True \<longleftrightarrow> Some True \<in> set cs"
  by (induction cs) (auto simp: tri_ors_def tri_or_def)

lemma tri_ors_False: "tri_ors cs = Some False \<longleftrightarrow> (\<forall>c \<in> set cs. c = Some False)"
  by (induction cs) (auto simp: tri_ors_def tri_or_def split: if_splits)

section \<open>Lemmas on tables\<close>

lemma upd_where_Nil [simp, table_simps]: "upd_where p f [] = []"
  by (simp add: upd_where_def)

lemma upd_where_Cons [simp, table_simps]:
  "upd_where p f (r # rs) = (if p r then f r else r) # upd_where p f rs"
  by (simp add: upd_where_def)

lemma upd_where_append [simp, table_simps]:
  "upd_where p f (rs @ ss) = upd_where p f rs @ upd_where p f ss"
  by (simp add: upd_where_def)

lemma length_upd_where [simp, table_simps]: "length (upd_where p f rs) = length rs"
  by (simp add: upd_where_def)

lemma in_upd_where_iff:
  "r \<in> set (upd_where p f rs) \<longleftrightarrow> (\<exists>q \<in> set rs. r = (if p q then f q else q))"
  by (auto simp: upd_where_def)

lemma upd_where_cong:
  "\<forall>r \<in> set rs. p r \<longrightarrow> f r = g r \<Longrightarrow> upd_where p f rs = upd_where p g rs"
  by (induction rs) auto

lemma upd_where_none: "\<forall>r \<in> set rs. \<not> p r \<Longrightarrow> upd_where p f rs = rs"
  by (induction rs) auto

text \<open>A column no assignment touches is unchanged, row by row.\<close>

lemma map_upd_where [table_simps]:
  assumes "\<And>r. key (f r) = key r"
  shows "map key (upd_where p f rs) = map key rs"
  by (induction rs) (auto simp: assms)

lemma map_upd_where_on:
  assumes "\<And>r. r \<in> set rs \<Longrightarrow> p r \<Longrightarrow> key (f r) = key r"
  shows "map key (upd_where p f rs) = map key rs"
  using assms by (induction rs) auto

lemma filter_upd_where_stable:
  assumes "\<And>r. r \<in> set rs \<Longrightarrow> p r \<Longrightarrow> q (f r) = q r"
    and "\<And>r. r \<in> set rs \<Longrightarrow> p r \<Longrightarrow> q r \<Longrightarrow> False"
  shows "filter q (upd_where p f rs) = filter q rs"
  using assms by (induction rs) auto

lemma find_Some_iff_first:
  "find p xs = Some x \<Longrightarrow> x \<in> set xs \<and> p x"
  by (induction xs) (auto split: if_splits)

lemma find_None_iff_all: "find p xs = None \<longleftrightarrow> (\<forall>x \<in> set xs. \<not> p x)"
  by (induction xs) auto

lemma distinct_key_eq:
  "distinct (map key xs) \<Longrightarrow> x \<in> set xs \<Longrightarrow> y \<in> set xs \<Longrightarrow> key x = key y \<Longrightarrow> x = y"
  by (auto simp: distinct_map inj_on_def)

lemma find_unique:
  assumes "distinct (map key xs)" "x \<in> set xs" "key x = k"
  shows "find (\<lambda>y. key y = k) xs = Some x"
proof (cases "find (\<lambda>y. key y = k) xs")
  case None
  then show ?thesis using assms by (auto simp: find_None_iff_all)
next
  case (Some y)
  then have "y \<in> set xs" "key y = k" by (auto dest: find_Some_iff_first)
  with assms have "y = x" by (intro distinct_key_eq [of key xs]) auto
  with Some show ?thesis by simp
qed

section \<open>Lemmas on the comparator sort\<close>

lemma mset_insert_by [simp]: "mset (insert_by lt x xs) = add_mset x (mset xs)"
  by (induction xs) auto

lemma mset_sort_by [simp]: "mset (sort_by lt xs) = mset xs"
  by (induction xs) auto

lemma set_sort_by [simp]: "set (sort_by lt xs) = set xs"
  using mset_sort_by [of lt xs] by (metis set_mset_mset)

lemma length_sort_by [simp]: "length (sort_by lt xs) = length xs"
  using mset_sort_by [of lt xs] by (metis size_mset)

lemma set_insert_by [simp]: "set (insert_by lt x xs) = insert x (set xs)"
  by (induction xs) auto

lemma insert_by_map: "(\<And>a b. lt (f a) (f b) = lt a b) \<Longrightarrow> insert_by lt (f x) (map f ys) = map f (insert_by lt x ys)"
  by (induction ys) auto

lemma sort_by_map: "(\<And>a b. lt (f a) (f b) = lt a b) \<Longrightarrow> sort_by lt (map f xs) = map f (sort_by lt xs)"
  by (induction xs) (simp_all add: insert_by_map)

text \<open>The first element is minimal: nothing in the list compares strictly below it.\<close>

lemma sorted_insert_by:
  assumes trans: "\<And>a b c. a \<in> A \<Longrightarrow> b \<in> A \<Longrightarrow> c \<in> A \<Longrightarrow> \<not> lt b a \<Longrightarrow> \<not> lt c b \<Longrightarrow> \<not> lt c a"
    and asym: "\<And>a b. a \<in> A \<Longrightarrow> b \<in> A \<Longrightarrow> lt a b \<Longrightarrow> \<not> lt b a"
    and "x \<in> A" "set xs \<subseteq> A" "sorted_wrt (\<lambda>a b. \<not> lt b a) xs"
  shows "sorted_wrt (\<lambda>a b. \<not> lt b a) (insert_by lt x xs)"
  using assms(3-5)
proof (induction xs)
  case Nil
  then show ?case by simp
next
  case (Cons y ys)
  show ?case
  proof (cases "lt y x")
    case True
    then show ?thesis using Cons asym by auto
  next
    case False
    have "\<not> lt z x" if "z \<in> set ys" for z
      using trans [of x y z] that False Cons.prems by auto
    then show ?thesis using Cons.prems False by auto
  qed
qed

lemma sorted_sort_by:
  assumes "\<And>a b c. a \<in> set xs \<Longrightarrow> b \<in> set xs \<Longrightarrow> c \<in> set xs \<Longrightarrow>
      \<not> lt b a \<Longrightarrow> \<not> lt c b \<Longrightarrow> \<not> lt c a"
    and "\<And>a b. a \<in> set xs \<Longrightarrow> b \<in> set xs \<Longrightarrow> lt a b \<Longrightarrow> \<not> lt b a"
  shows "sorted_wrt (\<lambda>a b. \<not> lt b a) (sort_by lt xs)"
proof -
  have "set ys \<subseteq> set xs \<Longrightarrow> sorted_wrt (\<lambda>a b. \<not> lt b a) (sort_by lt ys)" for ys
  proof (induction ys)
    case Nil
    then show ?case by simp
  next
    case (Cons y ys)
    then have "y \<in> set xs" and "set (sort_by lt ys) \<subseteq> set xs"
      and "sorted_wrt (\<lambda>a b. \<not> lt b a) (sort_by lt ys)" by auto
    with assms have "sorted_wrt (\<lambda>a b. \<not> lt b a) (insert_by lt y (sort_by lt ys))"
      by (intro sorted_insert_by [where A = "set xs"]) blast+
    then show ?case by simp
  qed
  then show ?thesis by simp
qed

lemma sort_by_hd_minimal:
  assumes "sorted_wrt (\<lambda>a b. \<not> lt b a) (sort_by lt xs)"
    and "sort_by lt xs = x # ys" and "y \<in> set xs" and "\<not> lt x x"
  shows "\<not> lt y x"
proof -
  have "y \<in> set (x # ys)" using assms(2,3) set_sort_by [of lt xs] by simp
  then show ?thesis using assms(1,2,4) by auto
qed

section \<open>Lemmas on \<open>set_dedup\<close>\<close>

lemma set_set_dedup [simp]: "set (set_dedup xs) = set xs"
  by (induction xs) auto

lemma distinct_set_dedup [simp]: "distinct (set_dedup xs)"
  by (induction xs) auto

section \<open>Lemmas on sequencing\<close>

lemma andThen_simps [simp]: "andThen (Inl e, s) k = (Inl e, s)" "andThen (Inr x, s) k = k x s"
  by (simp_all add: andThen_def)

lemma andThen_Inr: "andThen r k = (Inr y, t) \<longleftrightarrow> (\<exists>x s. r = (Inr x, s) \<and> k x s = (Inr y, t))"
  by (cases r; cases "fst r") auto

lemma andThen_fst: "fst r = Inr x \<Longrightarrow> andThen r k = k x (snd r)"
  by (cases r) simp

text \<open>What every call keeps, as a reflexive and transitive relation between the states before and after.\<close>

lemma andThen_rel:
  assumes "R s (snd r)" and "\<And>x s'. r = (Inr x, s') \<Longrightarrow> R s' (snd (k x s'))" and "\<And>a b c. R a b \<Longrightarrow> R b c \<Longrightarrow> R a c"
  shows "R s (snd (andThen r k))"
proof (cases "fst r")
  case (Inl e)
  then show ?thesis using assms(1) by (cases r) simp
next
  case (Inr x)
  then show ?thesis using assms(1) assms(2) [of x "snd r"] assms(3) by (cases r) auto
qed

lemma for_each_rel:
  assumes "\<And>x s. x \<in> set xs \<Longrightarrow> R s (snd (f x s))" and "\<And>s. R s s" and "\<And>a b c. R a b \<Longrightarrow> R b c \<Longrightarrow> R a c"
  shows "R s (snd (for_each f xs s))"
  using assms(1)
proof (induction xs arbitrary: s)
  case Nil
  then show ?case using assms(2) by simp
next
  case (Cons x xs)
  then show ?case by (simp) (rule andThen_rel, auto intro: assms(3))
qed

lemma andThen_inv:
  assumes "P (snd r)" and "\<And>x s. P s \<Longrightarrow> P (snd (k x s))"
  shows "P (snd (andThen r k))"
  using andThen_rel [of "\<lambda>a b. P a \<longrightarrow> P b" "snd r" r k] assms by auto

lemma for_each_inv:
  assumes "\<And>x s. x \<in> set xs \<Longrightarrow> P s \<Longrightarrow> P (snd (f x s))" and "P s"
  shows "P (snd (for_each f xs s))"
  using for_each_rel [of xs "\<lambda>a b. P a \<longrightarrow> P b" f s] assms by auto

section \<open>Invariants of step relations\<close>

locale step_invariant =
  fixes step :: "'s \<Rightarrow> 's \<Rightarrow> bool"
    and inv :: "'s \<Rightarrow> bool"
  assumes step_preserves: "step s t \<Longrightarrow> inv s \<Longrightarrow> inv t"
begin

lemma steps_preserve: "step\<^sup>*\<^sup>* s t \<Longrightarrow> inv s \<Longrightarrow> inv t"
  by (induction rule: rtranclp_induct) (auto intro: step_preserves)

lemma unreachable_violation: "inv s \<Longrightarrow> \<not> inv t \<Longrightarrow> \<not> step\<^sup>*\<^sup>* s t"
  using steps_preserve by blast

end

end
