(* ===== verification/CoreStateMachine.thy ===== *)
theory CoreStateMachine
  imports Prelude
begin

text \<open>
  The shared state machine of \<open>backend/src/shared/state-machine/core-state-machine.ts\<close> and the
  status enumerations of \<open>backend/src/shared/enums/core.enums.ts\<close>.

  A transition table is the association list of the source's object literal; states are the
  strings the source uses. \<open>canTransition\<close> reads own keys of the table only.
\<close>

section \<open>Enumerations\<close>

definition CertificateBindingStatuses :: "string list" where
  "CertificateBindingStatuses =
     [''DISCOVERED'', ''MANAGED'', ''DRIFTED'', ''EXPIRED'', ''ERROR'', ''IGNORED'']"

definition DeploymentPlanStatuses :: "string list" where
  "DeploymentPlanStatuses =
     [''DRAFT'', ''PENDING_APPROVAL'', ''READY'', ''RUNNING'', ''SUCCESS'', ''PARTIAL_SUCCESS'',
      ''FAILED'', ''CANCELLED'', ''ROLLED_BACK'']"

definition ExecutionRunStatuses :: "string list" where
  "ExecutionRunStatuses =
     [''PENDING'', ''DISPATCHED'', ''RUNNING'', ''SUCCESS'', ''FAILED'', ''TIMEOUT'', ''CANCELLED'',
      ''ROLLBACK_RUNNING'', ''ROLLBACK_SUCCESS'', ''ROLLBACK_FAILED'']"

definition ExecutionStepStatuses :: "string list" where
  "ExecutionStepStatuses =
     [''PENDING'', ''RUNNING'', ''SUCCESS'', ''FAILED'', ''SKIPPED'', ''TIMEOUT'']"

definition AgentStatuses :: "string list" where
  "AgentStatuses = [''ONLINE'', ''OFFLINE'', ''DISABLED'', ''UPGRADING'', ''UNKNOWN'']"

section \<open>Transition tables\<close>

datatype StateMachineName =
  DeploymentPlanMachine | ExecutionRunMachine | ExecutionStepMachine
  | CertificateBindingMachine | AgentMachine

type_synonym transition_map = "(string \<times> string list) list"

definition deploymentPlanTransitions :: transition_map where
  "deploymentPlanTransitions =
    [(''DRAFT'', [''PENDING_APPROVAL'', ''READY'', ''CANCELLED'']),
     (''PENDING_APPROVAL'', [''READY'', ''CANCELLED'']),
     (''READY'', [''RUNNING'', ''CANCELLED'']),
     (''RUNNING'', [''SUCCESS'', ''PARTIAL_SUCCESS'', ''FAILED'', ''CANCELLED'']),
     (''SUCCESS'', [''RUNNING'']),
     (''PARTIAL_SUCCESS'', [''RUNNING'', ''ROLLED_BACK'', ''FAILED'']),
     (''FAILED'', [''RUNNING'', ''ROLLED_BACK'']),
     (''CANCELLED'', []),
     (''ROLLED_BACK'', [''RUNNING''])]"

definition executionRunTransitions :: transition_map where
  "executionRunTransitions =
    [(''PENDING'', [''DISPATCHED'', ''FAILED'', ''CANCELLED'']),
     (''DISPATCHED'', [''RUNNING'', ''TIMEOUT'', ''CANCELLED'']),
     (''RUNNING'', [''SUCCESS'', ''FAILED'', ''TIMEOUT'', ''CANCELLED'']),
     (''SUCCESS'', [''ROLLBACK_RUNNING'']),
     (''FAILED'', [''ROLLBACK_RUNNING'']),
     (''TIMEOUT'', [''ROLLBACK_RUNNING'']),
     (''CANCELLED'', []),
     (''ROLLBACK_RUNNING'', [''ROLLBACK_SUCCESS'', ''ROLLBACK_FAILED'']),
     (''ROLLBACK_SUCCESS'', []),
     (''ROLLBACK_FAILED'', [])]"

definition executionStepTransitions :: transition_map where
  "executionStepTransitions =
    [(''PENDING'', [''RUNNING'', ''SKIPPED'']),
     (''RUNNING'', [''SUCCESS'', ''FAILED'', ''TIMEOUT'']),
     (''SUCCESS'', []),
     (''FAILED'', []),
     (''SKIPPED'', []),
     (''TIMEOUT'', [])]"

definition certificateBindingTransitions :: transition_map where
  "certificateBindingTransitions =
    [(''DISCOVERED'', [''MANAGED'', ''IGNORED'', ''ERROR'']),
     (''MANAGED'', [''DRIFTED'', ''EXPIRED'', ''ERROR'', ''IGNORED'']),
     (''DRIFTED'', [''MANAGED'', ''IGNORED'', ''ERROR'']),
     (''EXPIRED'', [''MANAGED'', ''IGNORED'', ''ERROR'']),
     (''ERROR'', [''DISCOVERED'', ''MANAGED'', ''IGNORED'']),
     (''IGNORED'', [''DISCOVERED'', ''MANAGED''])]"

definition agentTransitions :: transition_map where
  "agentTransitions =
    [(''UNKNOWN'', [''ONLINE'', ''OFFLINE'', ''DISABLED'']),
     (''ONLINE'', [''OFFLINE'', ''DISABLED'', ''UPGRADING'']),
     (''OFFLINE'', [''ONLINE'', ''DISABLED'']),
     (''DISABLED'', [''OFFLINE'', ''ONLINE'']),
     (''UPGRADING'', [''ONLINE'', ''OFFLINE'', ''DISABLED''])]"

definition machines :: "StateMachineName \<Rightarrow> transition_map" where
  "machines m = (case m of
     DeploymentPlanMachine \<Rightarrow> deploymentPlanTransitions
   | ExecutionRunMachine \<Rightarrow> executionRunTransitions
   | ExecutionStepMachine \<Rightarrow> executionStepTransitions
   | CertificateBindingMachine \<Rightarrow> certificateBindingTransitions
   | AgentMachine \<Rightarrow> agentTransitions)"

definition canTransition :: "StateMachineName \<Rightarrow> string \<Rightarrow> string \<Rightarrow> bool" where
  "canTransition m src dst =
     (case map_of (machines m) src of None \<Rightarrow> False | Some ts \<Rightarrow> dst \<in> set ts)"

definition assertTransition :: "StateMachineName \<Rightarrow> string \<Rightarrow> string \<Rightarrow> unit result" where
  "assertTransition m src dst =
     (if \<not> canTransition m src dst then Inl (PlainError ''InvalidStateTransitionError'') else Inr ())"

section \<open>Runs of a machine\<close>

text \<open>A run is the list of states visited, each move accepted by \<open>canTransition\<close>.\<close>

fun legal_run :: "StateMachineName \<Rightarrow> string list \<Rightarrow> bool" where
  "legal_run m [] = True"
| "legal_run m [s] = True"
| "legal_run m (s # t # ss) = (canTransition m s t \<and> legal_run m (t # ss))"

definition statuses_of :: "StateMachineName \<Rightarrow> string list" where
  "statuses_of m = (case m of
     DeploymentPlanMachine \<Rightarrow> DeploymentPlanStatuses
   | ExecutionRunMachine \<Rightarrow> ExecutionRunStatuses
   | ExecutionStepMachine \<Rightarrow> ExecutionStepStatuses
   | CertificateBindingMachine \<Rightarrow> CertificateBindingStatuses
   | AgentMachine \<Rightarrow> AgentStatuses)"

lemmas transition_tables =
  deploymentPlanTransitions_def executionRunTransitions_def executionStepTransitions_def
  certificateBindingTransitions_def agentTransitions_def

lemmas status_lists =
  DeploymentPlanStatuses_def ExecutionRunStatuses_def ExecutionStepStatuses_def
  CertificateBindingStatuses_def AgentStatuses_def

text \<open>Decreasing ranks: how many further moves a state of a run or of a step can make.\<close>

definition run_rank :: "string \<Rightarrow> nat" where
  "run_rank s = getOrElse (map_of
     [(''PENDING'', 5), (''DISPATCHED'', 4), (''RUNNING'', 3), (''SUCCESS'', 2), (''FAILED'', 2),
      (''TIMEOUT'', 2), (''ROLLBACK_RUNNING'', 1)] s) 0"

definition step_rank :: "string \<Rightarrow> nat" where
  "step_rank s = getOrElse (map_of [(''PENDING'', 2), (''RUNNING'', 1)] s) 0"

lemma run_rank_decreases:
  "canTransition ExecutionRunMachine s t \<Longrightarrow> run_rank t < run_rank s"
  by (auto simp: canTransition_def machines_def executionRunTransitions_def run_rank_def
        split: if_splits)

lemma step_rank_decreases:
  "canTransition ExecutionStepMachine s t \<Longrightarrow> step_rank t < step_rank s"
  by (auto simp: canTransition_def machines_def executionStepTransitions_def step_rank_def
        split: if_splits)

lemma legal_run_rank_bound:
  assumes dec: "\<And>s t. canTransition m s t \<Longrightarrow> (rank t :: nat) < rank s"
  shows "legal_run m (s # ss) \<Longrightarrow> length ss \<le> rank s"
proof (induction ss arbitrary: s)
  case Nil
  then show ?case by simp
next
  case (Cons t ss)
  then have "canTransition m s t" and "length ss \<le> rank t" by auto
  then show ?case using dec [of s t] by simp
qed

lemma run_rank_le: "run_rank s \<le> 5"
  by (auto simp: run_rank_def)

lemma step_rank_le: "step_rank s \<le> 2"
  by (auto simp: step_rank_def)

text \<open>Before \<open>RUNNING\<close> a plan that started as a draft stays in the preparation states.\<close>

definition plan_preparing :: "string \<Rightarrow> bool" where
  "plan_preparing s \<longleftrightarrow> s \<in> {''DRAFT'', ''PENDING_APPROVAL'', ''READY'', ''CANCELLED''}"

lemma plan_preparing_step:
  "canTransition DeploymentPlanMachine s t \<Longrightarrow> plan_preparing s \<Longrightarrow>
     plan_preparing t \<or> (s = ''READY'' \<and> t = ''RUNNING'')"
  by (auto simp: canTransition_def machines_def deploymentPlanTransitions_def plan_preparing_def
        split: if_splits)

lemma plan_leaves_preparation_through_ready:
  "legal_run DeploymentPlanMachine (s # ss) \<Longrightarrow> plan_preparing s \<Longrightarrow>
     \<not> plan_preparing (last (s # ss)) \<Longrightarrow>
     \<exists>us vs. s # ss = us @ [''READY'', ''RUNNING''] @ vs"
proof (induction ss arbitrary: s)
  case Nil
  then show ?case by simp
next
  case (Cons t ss)
  then have st: "canTransition DeploymentPlanMachine s t" by simp
  from plan_preparing_step [OF st] Cons.prems(2)
  consider "plan_preparing t" | "s = ''READY'' \<and> t = ''RUNNING''" by blast
  then show ?case
  proof cases
    case 1
    with Cons obtain us vs where "t # ss = us @ [''READY'', ''RUNNING''] @ vs" by fastforce
    then have "s # t # ss = (s # us) @ [''READY'', ''RUNNING''] @ vs" by simp
    then show ?thesis by blast
  next
    case 2
    then have "s # t # ss = [] @ [''READY'', ''RUNNING''] @ ss" by simp
    then show ?thesis by blast
  qed
qed

section \<open>Properties\<close>

text \<open>Every transition table is total and closed: its keys are exactly the statuses of the
  enumeration, each once, and every target of a transition is again such a status.\<close>

theorem transition_tables_total_closed:
  "distinct (map fst (machines m)) \<and> set (map fst (machines m)) = set (statuses_of m)
   \<and> (\<Union> (set ` snd ` set (machines m))) \<subseteq> set (statuses_of m)"
  by (cases m) (auto simp: machines_def statuses_of_def transition_tables status_lists)

text \<open>C40. An execution run can never move for ever: whatever legal transitions are taken, and
  including a rollback, a run visits at most six states (an execution step at most three).\<close>

theorem execution_run_moves_bounded:
  shows "(legal_run ExecutionRunMachine ss \<longrightarrow> length ss \<le> 6)
    \<and> (legal_run ExecutionStepMachine ss \<longrightarrow> length ss \<le> 3)"
proof (cases ss)
  case Nil
  then show ?thesis by simp
next
  case (Cons s rest)
  have "legal_run ExecutionRunMachine (s # rest) \<Longrightarrow> length rest \<le> 5"
    using legal_run_rank_bound [of ExecutionRunMachine run_rank s rest] run_rank_decreases run_rank_le [of s] by fastforce
  moreover have "legal_run ExecutionStepMachine (s # rest) \<Longrightarrow> length rest \<le> 2"
    using legal_run_rank_bound [of ExecutionStepMachine step_rank s rest] step_rank_decreases step_rank_le [of s] by fastforce
  ultimately show ?thesis using Cons by auto
qed

theorem execution_run_moves_bounded_witness:
  "legal_run ExecutionRunMachine
     [''PENDING'', ''DISPATCHED'', ''RUNNING'', ''FAILED'', ''ROLLBACK_RUNNING'', ''ROLLBACK_SUCCESS'']
   \<and> length [''PENDING'', ''DISPATCHED'', ''RUNNING'', ''FAILED'', ''ROLLBACK_RUNNING'', ''ROLLBACK_SUCCESS'']
       \<le> (6 :: nat)"
  using execution_run_moves_bounded
    [of "[''PENDING'', ''DISPATCHED'', ''RUNNING'', ''FAILED'', ''ROLLBACK_RUNNING'', ''ROLLBACK_SUCCESS'']"]
  by (simp add: canTransition_def machines_def executionRunTransitions_def)

text \<open>A deployment plan that starts as a draft reaches an outcome (success, partial success,
  failure or roll back) only through the move from \<open>READY\<close> to \<open>RUNNING\<close>.\<close>

theorem plan_outcome_needs_ready_and_running:
  assumes "legal_run DeploymentPlanMachine (''DRAFT'' # ss)"
    and "last (''DRAFT'' # ss) \<in> {''SUCCESS'', ''PARTIAL_SUCCESS'', ''FAILED'', ''ROLLED_BACK''}"
  shows "\<exists>us vs. ''DRAFT'' # ss = us @ [''READY'', ''RUNNING''] @ vs"
  using assms by (intro plan_leaves_preparation_through_ready) (auto simp: plan_preparing_def)

theorem plan_outcome_needs_ready_and_running_witness:
  "\<exists>us vs. [''DRAFT'', ''READY'', ''RUNNING'', ''SUCCESS''] = us @ [''READY'', ''RUNNING''] @ vs"
  by (rule plan_outcome_needs_ready_and_running)
    (simp_all add: canTransition_def machines_def deploymentPlanTransitions_def)

end
