(* ===== verification/DocumentStore.thy ===== *)
theory DocumentStore
  imports Prelude
begin

text \<open>
  The JSONB document repository of
  \<open>backend/src/persistence/repositories/pg-document-repository.ts\<close>, the store behind the RBAC,
  approval and execution grant services.

  A repository is one namespace of the table \<open>pg_documents\<close>: the list of its rows. \<open>idOf\<close> is the
  member \<open>id\<close> of the entity type; a write stores an entity under its own id, so the overlay
  \<open>{ ...payload, id: document_id }\<close> of a read is the payload itself (\<open>stored_under_own_id\<close> is kept by
  every write). \<open>now\<close> is the database clock. The lazy creation of the table is not modelled.

  The locale \<open>keyed_store\<close> states what a client may rely on; it is interpreted on the repository.
\<close>

section \<open>The repository\<close>

record 'a doc_row =
  dr_id :: string
  dr_payload :: 'a
  dr_updatedAt :: instant

type_synonym 'a docs = "'a doc_row list"

definition pg_get :: "'a docs \<Rightarrow> string \<Rightarrow> 'a option" where
  "pg_get d i = map_option dr_payload (find (\<lambda>r. dr_id r = i) d)"

definition pg_getOrThrow :: "'a docs \<Rightarrow> string \<Rightarrow> 'a result" where
  "pg_getOrThrow d i = (case pg_get d i of
     None \<Rightarrow> Inl (PlainError (''entity not found: '' @ i)) | Some e \<Rightarrow> Inr e)"

definition pg_create :: "('a \<Rightarrow> string) \<Rightarrow> instant \<Rightarrow> 'a \<Rightarrow> 'a docs \<Rightarrow> ('a \<times> 'a docs) result" where
  "pg_create idOf now e d = (case pg_get d (idOf e) of
     Some _ \<Rightarrow> Inl (PlainError (''entity already exists: '' @ idOf e))
   | None \<Rightarrow> Inr (e, d @ [\<lparr>dr_id = idOf e, dr_payload = e, dr_updatedAt = now\<rparr>]))"

definition pg_upsert :: "('a \<Rightarrow> string) \<Rightarrow> instant \<Rightarrow> 'a \<Rightarrow> 'a docs \<Rightarrow> 'a docs" where
  "pg_upsert idOf now e d =
     (if \<exists>r \<in> set d. dr_id r = idOf e
      then upd_where (\<lambda>r. dr_id r = idOf e) (\<lambda>r. r\<lparr>dr_payload := e, dr_updatedAt := now\<rparr>) d
      else d @ [\<lparr>dr_id = idOf e, dr_payload = e, dr_updatedAt = now\<rparr>])"

definition pg_compareAndSwap ::
  "('a \<Rightarrow> int option) \<Rightarrow> instant \<Rightarrow> string \<Rightarrow> int \<Rightarrow> 'a \<Rightarrow> 'a docs \<Rightarrow> bool \<times> 'a docs" where
  "pg_compareAndSwap versionOf now i expectedVersion e d =
     (let hit = (\<lambda>r. dr_id r = i \<and> versionOf (dr_payload r) = Some expectedVersion)
      in (\<exists>r \<in> set d. hit r, upd_where hit (\<lambda>r. r\<lparr>dr_payload := e, dr_updatedAt := now\<rparr>) d))"

definition pg_list :: "('a \<Rightarrow> bool) \<Rightarrow> 'a docs \<Rightarrow> 'a list" where
  "pg_list p d = filter p (map dr_payload (sort_key dr_updatedAt d))"

text \<open>\<open>update(id, patch)\<close>: the patch is a function on the entity that does not touch its id.\<close>

definition pg_update ::
  "('a \<Rightarrow> string) \<Rightarrow> instant \<Rightarrow> string \<Rightarrow> ('a \<Rightarrow> 'a) \<Rightarrow> 'a docs \<Rightarrow> ('a \<times> 'a docs) result" where
  "pg_update idOf now i patch d = (case pg_getOrThrow d i of
     Inl e \<Rightarrow> Inl e
   | Inr current \<Rightarrow> (let nxt = patch current in Inr (nxt, pg_upsert idOf now nxt d)))"

definition pg_delete :: "string \<Rightarrow> 'a docs \<Rightarrow> 'a docs" where
  "pg_delete i d = filter (\<lambda>r. dr_id r \<noteq> i) d"

definition pg_clear :: "'a docs \<Rightarrow> 'a docs" where
  "pg_clear d = []"

definition stored_under_own_id :: "('a \<Rightarrow> string) \<Rightarrow> 'a docs \<Rightarrow> bool" where
  "stored_under_own_id idOf d \<longleftrightarrow>
     distinct (map dr_id d) \<and> (\<forall>r \<in> set d. idOf (dr_payload r) = dr_id r)"

section \<open>What a client relies on\<close>

locale keyed_store =
  fixes get :: "'st \<Rightarrow> string \<Rightarrow> 'a option"
    and put :: "'a \<Rightarrow> 'st \<Rightarrow> 'st"
    and del :: "string \<Rightarrow> 'st \<Rightarrow> 'st"
    and idOf :: "'a \<Rightarrow> string"
    and invar :: "'st \<Rightarrow> bool"
  assumes get_put: "get (put e s) k = (if k = idOf e then Some e else get s k)"
    and get_del: "get (del i s) k = (if k = i then None else get s k)"
    and invar_put: "invar s \<Longrightarrow> invar (put e s)"
    and invar_del: "invar s \<Longrightarrow> invar (del i s)"
    and get_id: "invar s \<Longrightarrow> get s k = Some e \<Longrightarrow> idOf e = k"
begin

lemma get_put_same: "get (put e s) (idOf e) = Some e"
  by (simp add: get_put)

lemma get_put_other: "k \<noteq> idOf e \<Longrightarrow> get (put e s) k = get s k"
  by (simp add: get_put)

lemma get_put_put: "idOf e = idOf e' \<Longrightarrow> get (put e' (put e s)) k = get (put e' s) k"
  by (simp add: get_put)

lemma get_put_commute:
  "idOf e \<noteq> idOf e' \<Longrightarrow> get (put e' (put e s)) k = get (put e (put e' s)) k"
  by (simp add: get_put)

lemma get_after_deletes: "get (fold del is s) k = (if k \<in> set is then None else get s k)"
  by (induction "is" arbitrary: s) (auto simp: get_del)

lemma invar_deletes: "invar s \<Longrightarrow> invar (fold del is s)"
  by (induction "is" arbitrary: s) (auto intro: invar_del)

text \<open>A property of every stored entity is kept by a write of an entity that has it.\<close>

lemma all_put:
  assumes "\<forall>k e. get s k = Some e \<longrightarrow> P e" and "P e'"
  shows "\<forall>k e. get (put e' s) k = Some e \<longrightarrow> P e"
  using assms by (auto simp: get_put)

end

section \<open>The repository keeps the contract\<close>

lemma find_upd_where_key:
  assumes "\<And>r. key (f r) = key r"
  shows "find (\<lambda>r. key r = k) (upd_where (\<lambda>r. key r = k') f d)
         = map_option (\<lambda>r. if key r = k' then f r else r) (find (\<lambda>r. key r = k) d)"
  by (induction d) (auto simp: assms)

lemma find_append: "find p (xs @ ys) = orElse (find p xs) (find p ys)"
  by (induction xs) (auto simp: orElse_def)

lemma pg_get_None_iff: "pg_get d i = None \<longleftrightarrow> (\<forall>r \<in> set d. dr_id r \<noteq> i)"
  by (simp add: pg_get_def find_None_iff_all)

lemma pg_get_upsert:
  "pg_get (pg_upsert idOf now e d) k = (if k = idOf e then Some e else pg_get d k)"
proof (cases "\<exists>r \<in> set d. dr_id r = idOf e")
  case True
  let ?F = "\<lambda>r. r\<lparr>dr_payload := e, dr_updatedAt := now\<rparr>"
  have "find (\<lambda>r. dr_id r = k) (upd_where (\<lambda>r. dr_id r = idOf e) ?F d)
        = map_option (\<lambda>r. if dr_id r = idOf e then ?F r else r) (find (\<lambda>r. dr_id r = k) d)"
    by (rule find_upd_where_key) simp
  then have upd: "pg_get (pg_upsert idOf now e d) k = map_option
      (\<lambda>r. dr_payload (if dr_id r = idOf e then ?F r else r)) (find (\<lambda>r. dr_id r = k) d)"
    using True by (simp add: pg_get_def pg_upsert_def option.map_comp comp_def)
  show ?thesis
  proof (cases "find (\<lambda>r. dr_id r = k) d")
    case None
    then have "k \<noteq> idOf e" using True by (auto simp: find_None_iff_all)
    moreover have "pg_get d k = None" using None by (simp add: pg_get_def)
    ultimately show ?thesis using upd None by simp
  next
    case (Some y)
    then have "dr_id y = k" by (auto dest: find_Some_iff_first)
    moreover have "pg_get d k = Some (dr_payload y)" using Some by (simp add: pg_get_def)
    ultimately show ?thesis using upd Some by simp
  qed
next
  case False
  then have "find (\<lambda>r. dr_id r = idOf e) d = None" by (auto simp: find_None_iff_all)
  then show ?thesis using False by (simp add: pg_upsert_def pg_get_def find_append orElse_def split: option.splits)
qed

lemma pg_get_delete: "pg_get (pg_delete i d) k = (if k = i then None else pg_get d k)"
proof (cases "k = i")
  case True
  then show ?thesis by (simp add: pg_get_None_iff pg_delete_def)
next
  case False
  have "find (\<lambda>r. dr_id r = k) (filter (\<lambda>r. dr_id r \<noteq> i) d) = find (\<lambda>r. dr_id r = k) d"
    using False by (induction d) auto
  then show ?thesis using False by (simp add: pg_get_def pg_delete_def)
qed

lemma stored_upsert: "stored_under_own_id idOf d \<Longrightarrow> stored_under_own_id idOf (pg_upsert idOf now e d)"
  by (auto simp: stored_under_own_id_def pg_upsert_def map_upd_where in_upd_where_iff split: if_splits)

lemma stored_delete: "stored_under_own_id idOf d \<Longrightarrow> stored_under_own_id idOf (pg_delete i d)"
  by (auto simp: stored_under_own_id_def pg_delete_def distinct_map_filter)

lemma stored_get_id: "stored_under_own_id idOf d \<Longrightarrow> pg_get d k = Some e \<Longrightarrow> idOf e = k"
  by (auto simp: stored_under_own_id_def pg_get_def dest: find_Some_iff_first)

interpretation docs: keyed_store pg_get "pg_upsert idOf now" pg_delete idOf "stored_under_own_id idOf"
  for idOf :: "'a \<Rightarrow> string" and now :: instant
  by unfold_locales (auto simp: pg_get_upsert pg_get_delete intro: stored_upsert stored_delete stored_get_id)

section \<open>Consequences for the remaining operations\<close>

lemma pg_create_Inr:
  "pg_create idOf now e d = Inr (e', d') \<longleftrightarrow>
     e' = e \<and> pg_get d (idOf e) = None \<and> d' = pg_upsert idOf now e d"
proof (cases "pg_get d (idOf e)")
  case None
  then have "\<not> (\<exists>r \<in> set d. dr_id r = idOf e)" by (simp add: pg_get_None_iff)
  then show ?thesis using None by (auto simp: pg_create_def pg_upsert_def)
next
  case (Some x)
  then show ?thesis by (simp add: pg_create_def)
qed

lemma pg_create_stored:
  "stored_under_own_id idOf d \<Longrightarrow> pg_create idOf now e d = Inr (e', d') \<Longrightarrow> stored_under_own_id idOf d'"
  by (auto simp: pg_create_Inr intro: docs.invar_put)

lemma pg_update_Inr:
  "pg_update idOf now i patch d = Inr (e', d') \<longleftrightarrow>
     (\<exists>e. pg_get d i = Some e \<and> e' = patch e \<and> d' = pg_upsert idOf now (patch e) d)"
  by (auto simp: pg_update_def pg_getOrThrow_def Let_def split: option.splits)

lemma pg_update_get:
  assumes "pg_update idOf now i patch d = Inr (e', d')" and "stored_under_own_id idOf d"
    and "\<And>e. idOf (patch e) = idOf e"
  shows "pg_get d' k = (if k = i then Some e' else pg_get d k)"
proof -
  from assms(1) obtain e where e: "pg_get d i = Some e" "e' = patch e" "d' = pg_upsert idOf now (patch e) d"
    by (auto simp: pg_update_Inr)
  with assms(2,3) have "idOf e' = i" by (auto dest: docs.get_id)
  then show ?thesis using e by (simp add: pg_get_upsert)
qed

lemma set_pg_list:
  assumes "stored_under_own_id idOf d"
  shows "e \<in> set (pg_list p d) \<longleftrightarrow> p e \<and> pg_get d (idOf e) = Some e"
proof -
  have "e \<in> dr_payload ` set d \<longleftrightarrow> pg_get d (idOf e) = Some e"
  proof
    assume "e \<in> dr_payload ` set d"
    then obtain r where r: "r \<in> set d" "e = dr_payload r" by blast
    then have "dr_id r = idOf e" using assms by (auto simp: stored_under_own_id_def)
    then have "find (\<lambda>r. dr_id r = idOf e) d = Some r"
      using assms r by (intro find_unique) (auto simp: stored_under_own_id_def)
    then show "pg_get d (idOf e) = Some e" using r by (simp add: pg_get_def)
  next
    assume "pg_get d (idOf e) = Some e"
    then show "e \<in> dr_payload ` set d" by (auto simp: pg_get_def dest: find_Some_iff_first)
  qed
  then show ?thesis by (auto simp: pg_list_def)
qed

text \<open>Repository round trip. What \<open>create\<close>, \<open>upsert\<close> and \<open>update\<close> stored is what \<open>get\<close>
  returns and what an unfiltered \<open>list\<close> contains, every other document is untouched, and a second
  \<open>create\<close> under the same id is refused.\<close>

theorem pg_create_then_read:
  assumes "stored_under_own_id idOf d" and "pg_create idOf now e d = Inr (e', d')"
  shows "pg_get d' (idOf e) = Some e \<and> (\<forall>k. k \<noteq> idOf e \<longrightarrow> pg_get d' k = pg_get d k)
    \<and> e \<in> set (pg_list (\<lambda>_. True) d')
    \<and> pg_create idOf now2 e d' = Inl (PlainError (''entity already exists: '' @ idOf e))"
proof -
  from assms(2) have d': "d' = pg_upsert idOf now e d" by (simp add: pg_create_Inr)
  with assms(1) have "stored_under_own_id idOf d'" by (simp add: docs.invar_put)
  then show ?thesis
    unfolding d' by (auto simp: set_pg_list docs.get_put_same docs.get_put_other pg_create_def)
qed

theorem pg_create_then_read_witness:
  "pg_get [\<lparr>dr_id = ''a'', dr_payload = (''a'', 1::int), dr_updatedAt = 5\<rparr>] ''a'' = Some (''a'', 1)"
  using pg_create_then_read [of fst "[]" 5 "(''a'', 1::int)" "(''a'', 1)"
      "[\<lparr>dr_id = ''a'', dr_payload = (''a'', 1), dr_updatedAt = 5\<rparr>]" 6]
  by (simp add: stored_under_own_id_def pg_create_def pg_get_def)

text \<open>Optimistic locking. A \<open>compareAndSwap\<close> succeeds exactly when the stored document carries
  the expected version; after it installed an entity with another version, a second writer that
  still expects the old version fails and changes nothing.\<close>

theorem pg_compareAndSwap_single_winner:
  assumes "distinct (map dr_id d)"
    and "pg_compareAndSwap versionOf now i v e d = (True, d')" and "versionOf e \<noteq> Some v"
  shows "map_option versionOf (pg_get d i) = Some (Some v) \<and> pg_get d' i = Some e
    \<and> pg_compareAndSwap versionOf now2 i v e2 d' = (False, d')"
proof -
  let ?hit = "\<lambda>r. dr_id r = i \<and> versionOf (dr_payload r) = Some v"
  let ?F = "\<lambda>r. r\<lparr>dr_payload := e, dr_updatedAt := now\<rparr>"
  from assms(2) obtain r where r: "r \<in> set d" "?hit r" and d': "d' = upd_where ?hit ?F d"
    by (auto simp: pg_compareAndSwap_def Let_def)
  have found: "find (\<lambda>q. dr_id q = i) d = Some r"
    using assms(1) r by (intro find_unique) auto
  have ids: "map dr_id d' = map dr_id d" unfolding d' by (rule map_upd_where) simp
  have "?F r \<in> set d'" unfolding d' using r by (auto simp: in_upd_where_iff)
  then have found': "find (\<lambda>q. dr_id q = i) d' = Some (?F r)"
    using assms(1) ids r by (intro find_unique) auto
  have none: "\<forall>q \<in> set d'. \<not> ?hit q"
  proof
    fix q assume "q \<in> set d'"
    then show "\<not> ?hit q"
      using distinct_key_eq [of dr_id d' q "?F r"] assms(1,3) ids r \<open>?F r \<in> set d'\<close> by auto
  qed
  then have "pg_compareAndSwap versionOf now2 i v e2 d' = (False, d')"
    by (auto simp: pg_compareAndSwap_def Let_def intro: upd_where_none)
  then show ?thesis using found found' r by (simp add: pg_get_def)
qed

theorem pg_compareAndSwap_single_winner_witness:
  "pg_compareAndSwap (Some \<circ> snd) 9 ''a'' 1 (''a'', 7::int)
     [\<lparr>dr_id = ''a'', dr_payload = (''a'', 2), dr_updatedAt = 8\<rparr>]
   = (False, [\<lparr>dr_id = ''a'', dr_payload = (''a'', 2), dr_updatedAt = 8\<rparr>])"
  using pg_compareAndSwap_single_winner
    [of "[\<lparr>dr_id = ''a'', dr_payload = (''a'', 1::int), dr_updatedAt = 5\<rparr>]" "Some \<circ> snd" 8 "''a''" 1 "(''a'', 2)"
        "[\<lparr>dr_id = ''a'', dr_payload = (''a'', 2), dr_updatedAt = 8\<rparr>]" 9 "(''a'', 7)"]
  by (simp add: pg_compareAndSwap_def)

end
