(* ===== verification/ExecutionGrants.thy ===== *)
theory ExecutionGrants
  imports DocumentStore
begin

text \<open>
  Execution grants: \<open>backend/src/modules/executions/execution-grant.service.ts\<close> over the entity of
  \<open>backend/src/persistence/entities/execution-grant.entity.ts\<close>.

  The service keeps its grants in a document repository (\<open>DocumentStore\<close>). \<open>now\<close> is the clock of the
  process, \<open>i\<close> the identifier \<open>newId('grt')\<close> draws. An expiry is \<open>None\<close> when \<open>new Date(expiresAt)\<close> is
  an invalid date: its comparison with the clock is then false. A call that throws still returns
  the store, because \<open>validate\<close> writes before it throws on an expired grant.

  \<open>validate\<close> is also given as its read, decision and write phases, so that two calls can interleave
  between the awaits of the source.
\<close>

section \<open>Data\<close>

datatype ExecutionGrantStatus = GrantActive | GrantUsed | GrantExpired | GrantRevoked

record grant =
  gr_id :: string
  gr_tenantId :: "string option"
  gr_planId :: "string option"
  gr_runId :: string
  gr_stepId :: string
  gr_targetId :: "string option"
  gr_workflowVersionId :: "string option"
  gr_pluginVersionId :: "string option"
  gr_pluginId :: "string option"
  gr_capability :: "string option"
  gr_actionId :: "string option"
  gr_actionContractVersion :: "string option"
  gr_inputSchemaSha256 :: "string option"
  gr_outputSchemaSha256 :: "string option"
  gr_planDigest :: "string option"
  gr_approvalId :: "string option"
  gr_executorType :: string
  gr_allowedSecretRefs :: "string list"
  gr_allowedArtifactRefs :: "string list option"
  gr_allowedActions :: "string list"
  gr_expiresAt :: "instant option"
  gr_status :: ExecutionGrantStatus
  gr_createdAt :: instant
  gr_updatedAt :: instant

record create_grant_input =
  cg_tenantId :: string
  cg_planId :: "string option"
  cg_runId :: string
  cg_stepId :: string
  cg_targetId :: "string option"
  cg_workflowVersionId :: "string option"
  cg_pluginVersionId :: "string option"
  cg_pluginId :: "string option"
  cg_capability :: "string option"
  cg_actionId :: "string option"
  cg_actionContractVersion :: "string option"
  cg_inputSchemaSha256 :: "string option"
  cg_outputSchemaSha256 :: "string option"
  cg_planDigest :: "string option"
  cg_approvalId :: "string option"
  cg_executorType :: string
  cg_allowedSecretRefs :: "string list"
  cg_allowedArtifactRefs :: "string list option"
  cg_allowedActions :: "string list"
  cg_expiresAt :: "instant option"

record validate_grant_input =
  vg_grantId :: string
  vg_tenantId :: "string option"
  vg_planId :: "string option"
  vg_runId :: string
  vg_stepId :: string
  vg_targetId :: "string option"
  vg_workflowVersionId :: "string option"
  vg_pluginVersionId :: "string option"
  vg_pluginId :: "string option"
  vg_capability :: "string option"
  vg_actionId :: "string option"
  vg_actionContractVersion :: "string option"
  vg_inputSchemaSha256 :: "string option"
  vg_outputSchemaSha256 :: "string option"
  vg_planDigest :: "string option"
  vg_approvalId :: "string option"
  vg_executorType :: string
  vg_secretRef :: "string option"
  vg_artifactRef :: "string option"
  vg_action :: "string option"
  vg_markUsed :: bool

type_synonym grants = "grant docs"

definition executorGrantDenied :: "string \<Rightarrow> error" where
  "executorGrantDenied reason = SecurityError ''SEC_EXECUTOR_GRANT_DENIED'' reason"

section \<open>Operations\<close>

definition grant_of_input :: "instant \<Rightarrow> string \<Rightarrow> create_grant_input \<Rightarrow> grant" where
  "grant_of_input now i inp = \<lparr>
     gr_id = i, gr_tenantId = Some (cg_tenantId inp), gr_planId = cg_planId inp,
     gr_runId = cg_runId inp, gr_stepId = cg_stepId inp, gr_targetId = cg_targetId inp,
     gr_workflowVersionId = cg_workflowVersionId inp, gr_pluginVersionId = cg_pluginVersionId inp,
     gr_pluginId = cg_pluginId inp, gr_capability = cg_capability inp, gr_actionId = cg_actionId inp,
     gr_actionContractVersion = cg_actionContractVersion inp,
     gr_inputSchemaSha256 = cg_inputSchemaSha256 inp,
     gr_outputSchemaSha256 = cg_outputSchemaSha256 inp, gr_planDigest = cg_planDigest inp,
     gr_approvalId = cg_approvalId inp, gr_executorType = cg_executorType inp,
     gr_allowedSecretRefs = set_dedup (cg_allowedSecretRefs inp),
     gr_allowedArtifactRefs = Some (set_dedup (getOrElse (cg_allowedArtifactRefs inp) [])),
     gr_allowedActions = set_dedup (cg_allowedActions inp),
     gr_expiresAt = cg_expiresAt inp, gr_status = GrantActive,
     gr_createdAt = now, gr_updatedAt = now\<rparr>"

definition grant_create ::
  "instant \<Rightarrow> string \<Rightarrow> create_grant_input \<Rightarrow> grants \<Rightarrow> grant result \<times> grants" where
  "grant_create now i inp d =
    (if trim (cg_tenantId inp) = [] then (Inl (executorGrantDenied ''grant tenant required''), d)
     else if cg_executorType inp = ''plugin.action''
       \<and> (\<not> truthy (cg_workflowVersionId inp) \<or> \<not> truthy (cg_pluginVersionId inp)
          \<or> \<not> truthy (cg_pluginId inp) \<or> \<not> truthy (cg_capability inp) \<or> \<not> truthy (cg_actionId inp)
          \<or> \<not> truthy (cg_actionContractVersion inp) \<or> \<not> truthy (cg_inputSchemaSha256 inp)
          \<or> \<not> truthy (cg_outputSchemaSha256 inp) \<or> \<not> truthy (cg_planDigest inp))
     then (Inl (executorGrantDenied ''plugin action grant binding required''), d)
     else (case pg_create gr_id now (grant_of_input now i inp) d of
             Inl e \<Rightarrow> (Inl e, d) | Inr (g, d') \<Rightarrow> (Inr g, d')))"

text \<open>\<open>input.x !== undefined && grant.x !== input.x\<close>\<close>

definition binding_mismatch :: "string option \<Rightarrow> string option \<Rightarrow> bool" where
  "binding_mismatch given stored \<longleftrightarrow> given \<noteq> None \<and> stored \<noteq> given"

text \<open>\<open>input.x && !allowed.includes(input.x)\<close>\<close>

definition not_included :: "string option \<Rightarrow> string list \<Rightarrow> bool" where
  "not_included given allowed \<longleftrightarrow> truthy given \<and> the given \<notin> set allowed"

text \<open>The guards after the expiry check, in the order of the source, each with its reason.\<close>

definition validate_guards :: "grant \<Rightarrow> validate_grant_input \<Rightarrow> (bool \<times> string) list" where
  "validate_guards g v =
    [(gr_runId g \<noteq> vg_runId v \<or> gr_stepId g \<noteq> vg_stepId v \<or> gr_executorType g \<noteq> vg_executorType v,
        ''grant context mismatch''),
     (binding_mismatch (vg_tenantId v) (gr_tenantId g), ''grant tenant mismatch''),
     (binding_mismatch (vg_planId v) (gr_planId g), ''grant plan mismatch''),
     (binding_mismatch (vg_targetId v) (gr_targetId g), ''grant target mismatch''),
     (binding_mismatch (vg_workflowVersionId v) (gr_workflowVersionId g), ''grant workflow version mismatch''),
     (binding_mismatch (vg_pluginVersionId v) (gr_pluginVersionId g), ''grant plugin version mismatch''),
     (binding_mismatch (vg_pluginId v) (gr_pluginId g), ''grant plugin mismatch''),
     (binding_mismatch (vg_capability v) (gr_capability g), ''grant capability mismatch''),
     (binding_mismatch (vg_actionId v) (gr_actionId g), ''grant action mismatch''),
     (binding_mismatch (vg_actionContractVersion v) (gr_actionContractVersion g),
        ''grant action contract version mismatch''),
     (binding_mismatch (vg_inputSchemaSha256 v) (gr_inputSchemaSha256 g), ''grant input schema mismatch''),
     (binding_mismatch (vg_outputSchemaSha256 v) (gr_outputSchemaSha256 g), ''grant output schema mismatch''),
     (binding_mismatch (vg_planDigest v) (gr_planDigest g), ''grant plan digest mismatch''),
     (binding_mismatch (vg_approvalId v) (gr_approvalId g), ''grant approval mismatch''),
     (not_included (vg_secretRef v) (gr_allowedSecretRefs g), ''secretRef not allowed''),
     (not_included (vg_artifactRef v) (getOrElse (gr_allowedArtifactRefs g) []), ''artifactRef not allowed''),
     (not_included (vg_action v) (gr_allowedActions g), ''action not allowed'')]"

definition grant_past :: "instant \<Rightarrow> grant \<Rightarrow> bool" where
  "grant_past now g \<longleftrightarrow> (case gr_expiresAt g of None \<Rightarrow> False | Some t \<Rightarrow> t < now)"

datatype grant_decision = Deny string | DenyExpired | Accept

text \<open>What a call decides from the grant it read.\<close>

definition validate_decide ::
  "instant \<Rightarrow> validate_grant_input \<Rightarrow> grant option \<Rightarrow> grant_decision" where
  "validate_decide now v read = (case read of
     None \<Rightarrow> Deny ''grant not found''
   | Some g \<Rightarrow>
       if gr_status g \<noteq> GrantActive then Deny ''grant not active''
       else if grant_past now g then DenyExpired
       else (case find fst (validate_guards g v) of
               Some (_, reason) \<Rightarrow> Deny reason | None \<Rightarrow> Accept))"

definition set_grant_status :: "ExecutionGrantStatus \<Rightarrow> instant \<Rightarrow> grant \<Rightarrow> grant" where
  "set_grant_status s now g = g\<lparr>gr_status := s, gr_updatedAt := now\<rparr>"

definition grant_update ::
  "instant \<Rightarrow> string \<Rightarrow> ExecutionGrantStatus \<Rightarrow> grants \<Rightarrow> grant result \<times> grants" where
  "grant_update now i s d = (case pg_update gr_id now i (set_grant_status s now) d of
     Inl e \<Rightarrow> (Inl e, d) | Inr (g, d') \<Rightarrow> (Inr g, d'))"

text \<open>What a call writes after its decision on the grant \<open>read\<close>.\<close>

definition validate_write ::
  "instant \<Rightarrow> validate_grant_input \<Rightarrow> grant option \<Rightarrow> grants \<Rightarrow> grant result \<times> grants" where
  "validate_write now v read d = (case validate_decide now v read of
     Deny reason \<Rightarrow> (Inl (executorGrantDenied reason), d)
   | DenyExpired \<Rightarrow>
       (case grant_update now (gr_id (the read)) GrantExpired d of
          (Inl e, d') \<Rightarrow> (Inl e, d')
        | (Inr _, d') \<Rightarrow> (Inl (executorGrantDenied ''grant expired''), d'))
   | Accept \<Rightarrow>
       if vg_markUsed v then grant_update now (gr_id (the read)) GrantUsed d
       else (Inr (the read), d))"

definition grant_validate ::
  "instant \<Rightarrow> validate_grant_input \<Rightarrow> grants \<Rightarrow> grant result \<times> grants" where
  "grant_validate now v d = validate_write now v (pg_get d (vg_grantId v)) d"

definition grant_get :: "string \<Rightarrow> grants \<Rightarrow> grant option" where
  "grant_get i d = pg_get d i"

definition grant_revoke :: "instant \<Rightarrow> string \<Rightarrow> grants \<Rightarrow> grant result \<times> grants" where
  "grant_revoke now i d = (case pg_get d i of
     None \<Rightarrow> (Inl (executorGrantDenied ''grant not found''), d)
   | Some g \<Rightarrow> if gr_status g \<noteq> GrantActive then (Inr g, d) else grant_update now i GrantRevoked d)"

text \<open>A history of the service: its calls one after the other.\<close>

datatype grant_op =
    GCreate instant string create_grant_input
  | GValidate instant validate_grant_input
  | GRevoke instant string

fun grant_apply :: "grant_op \<Rightarrow> grants \<Rightarrow> grants" where
  "grant_apply (GCreate now i inp) d = snd (grant_create now i inp d)"
| "grant_apply (GValidate now v) d = snd (grant_validate now v d)"
| "grant_apply (GRevoke now i) d = snd (grant_revoke now i d)"

definition grants_ok :: "grants \<Rightarrow> bool" where
  "grants_ok d \<longleftrightarrow> stored_under_own_id gr_id d"

section \<open>Lemmas\<close>

lemma set_grant_status_simps [simp]:
  "gr_id (set_grant_status s now g) = gr_id g" "gr_status (set_grant_status s now g) = s"
  by (simp_all add: set_grant_status_def)

lemma grant_update_cases:
  "grant_update now i s d = (case pg_get d i of
     None \<Rightarrow> (Inl (PlainError (''entity not found: '' @ i)), d)
   | Some g \<Rightarrow> (Inr (set_grant_status s now g), pg_upsert gr_id now (set_grant_status s now g) d))"
  by (simp add: grant_update_def pg_update_def pg_getOrThrow_def Let_def split: option.splits)

lemma grant_update_get:
  assumes "grants_ok d" "pg_get d i = Some g"
  shows "grant_update now i s d = (Inr (set_grant_status s now g), pg_upsert gr_id now (set_grant_status s now g) d)"
    and "pg_get (snd (grant_update now i s d)) k = (if k = i then Some (set_grant_status s now g) else pg_get d k)"
  using assms docs.get_id [of gr_id d i g] by (auto simp: grant_update_cases pg_get_upsert grants_ok_def)

lemma grant_update_ok: "grants_ok d \<Longrightarrow> grants_ok (snd (grant_update now i s d))"
  by (auto simp: grant_update_cases grants_ok_def intro: docs.invar_put split: option.splits)

lemma grant_apply_ok: "grants_ok d \<Longrightarrow> grants_ok (grant_apply op d)"
proof (cases op)
  case (GCreate now i inp)
  then show "grants_ok d \<Longrightarrow> ?thesis"
    by (auto simp: grant_create_def grants_ok_def dest: pg_create_stored split: sum.splits)
next
  case (GValidate now v)
  assume "grants_ok d"
  then show ?thesis using GValidate grant_update_ok [of d]
    by (auto simp: grant_validate_def validate_write_def split: grant_decision.splits prod.splits sum.splits)
      (metis snd_conv)+
next
  case (GRevoke now i)
  then show "grants_ok d \<Longrightarrow> ?thesis"
    by (auto simp: grant_revoke_def grant_update_ok split: option.splits)
qed

text \<open>A grant that left \<open>active\<close> is final: no call changes it any more.\<close>

lemma inactive_is_final:
  assumes "grants_ok d" "pg_get d k = Some g" "gr_status g \<noteq> GrantActive"
  shows "pg_get (grant_apply op d) k = Some g"
proof (cases op)
  case (GCreate now i inp)
  then show ?thesis using assms
    by (auto simp: grant_create_def pg_create_Inr pg_get_upsert split: sum.splits)
next
  case (GValidate now v)
  have "pg_get (snd (validate_write now v (pg_get d (vg_grantId v)) d)) k = Some g"
  proof (cases "pg_get d (vg_grantId v)")
    case None
    then show ?thesis using assms by (simp add: validate_write_def validate_decide_def)
  next
    case (Some h)
    then have h: "gr_id h = vg_grantId v" using assms(1) docs.get_id by (auto simp: grants_ok_def)
    show ?thesis
    proof (cases "vg_grantId v = k")
      case True
      then show ?thesis using assms Some by (simp add: validate_write_def validate_decide_def)
    next
      case False
      then have "pg_get (snd (grant_update now (gr_id h) s d)) k = pg_get d k" for s
        using grant_update_get(2) [OF assms(1), of "gr_id h" h now s k] Some h by simp
      then show ?thesis using assms Some
        by (auto simp: validate_write_def split: grant_decision.splits prod.splits sum.splits)
          (metis snd_conv)+
    qed
  qed
  then show ?thesis using GValidate by (simp add: grant_validate_def)
next
  case (GRevoke now i)
  then show ?thesis using assms grant_update_get(2) [OF assms(1), of i _ now GrantRevoked k]
    by (auto simp: grant_revoke_def split: option.splits)
qed

lemma inactive_is_final_history:
  assumes "grants_ok d" "pg_get d k = Some g" "gr_status g \<noteq> GrantActive"
  shows "pg_get (fold grant_apply ops d) k = Some g"
  using assms(1,2)
proof (induction ops arbitrary: d)
  case Nil
  then show ?case by simp
next
  case (Cons op ops)
  then show ?case using inactive_is_final [OF _ _ assms(3)] grant_apply_ok by simp
qed

lemma binding_agrees: "binding_mismatch given stored \<longleftrightarrow> \<not> (given = None \<or> stored = given)"
  by (auto simp: binding_mismatch_def)

lemma included_iff:
  "not_included given allowed \<longleftrightarrow> \<not> (\<forall>r. given = Some r \<longrightarrow> r = [] \<or> r \<in> set allowed)"
  by (cases given) (auto simp: not_included_def)

lemma find_fst_None: "find fst xs = None \<longleftrightarrow> (\<forall>(b, s) \<in> set xs. \<not> b)"
  by (auto simp: find_None_iff_all)

lemma validate_Inr:
  assumes "grant_validate now v d = (Inr g', d')"
  obtains g where "pg_get d (vg_grantId v) = Some g" "gr_status g = GrantActive" "\<not> grant_past now g"
    "\<forall>(b, s) \<in> set (validate_guards g v). \<not> b"
    "(Inr g', d') = (if vg_markUsed v then grant_update now (gr_id g) GrantUsed d else (Inr g, d))"
proof -
  from assms have "validate_decide now v (pg_get d (vg_grantId v)) = Accept"
    by (auto simp: grant_validate_def validate_write_def split: grant_decision.splits prod.splits sum.splits)
  then obtain g where g: "pg_get d (vg_grantId v) = Some g" "gr_status g = GrantActive" "\<not> grant_past now g"
    "find fst (validate_guards g v) = None"
    by (auto simp: validate_decide_def split: option.splits if_splits)
  then have "(Inr g', d') = (if vg_markUsed v then grant_update now (gr_id g) GrantUsed d else (Inr g, d))"
    using assms by (auto simp: grant_validate_def validate_write_def validate_decide_def split: if_splits)
  with g show ?thesis by (intro that [of g]) (auto simp: find_fst_None)
qed

section \<open>Properties\<close>

text \<open>C2. A grant authorises only what it was issued for. When \<open>validate\<close> returns, the stored grant
  is active and not past its expiry, belongs to the run, step and executor of the request, agrees
  with every binding the request names (tenant, plan, target, versions, plugin, capability, action,
  schemas, digest, approval), and lists the secret, artifact and action the request wants.\<close>

theorem grant_validate_sound:
  assumes "grant_validate now v d = (Inr g', d')"
  shows "\<exists>g. grant_get (vg_grantId v) d = Some g \<and> gr_status g = GrantActive
    \<and> (\<forall>t. gr_expiresAt g = Some t \<longrightarrow> now \<le> t)
    \<and> gr_runId g = vg_runId v \<and> gr_stepId g = vg_stepId v \<and> gr_executorType g = vg_executorType v
    \<and> (\<forall>(given, stored) \<in> {(vg_tenantId v, gr_tenantId g), (vg_planId v, gr_planId g),
          (vg_targetId v, gr_targetId g), (vg_workflowVersionId v, gr_workflowVersionId g),
          (vg_pluginVersionId v, gr_pluginVersionId g), (vg_pluginId v, gr_pluginId g),
          (vg_capability v, gr_capability g), (vg_actionId v, gr_actionId g),
          (vg_actionContractVersion v, gr_actionContractVersion g),
          (vg_inputSchemaSha256 v, gr_inputSchemaSha256 g),
          (vg_outputSchemaSha256 v, gr_outputSchemaSha256 g), (vg_planDigest v, gr_planDigest g),
          (vg_approvalId v, gr_approvalId g)}. given = None \<or> stored = given)
    \<and> (\<forall>r. vg_secretRef v = Some r \<longrightarrow> r = [] \<or> r \<in> set (gr_allowedSecretRefs g))
    \<and> (\<forall>r. vg_artifactRef v = Some r \<longrightarrow> r = [] \<or> r \<in> set (getOrElse (gr_allowedArtifactRefs g) []))
    \<and> (\<forall>a. vg_action v = Some a \<longrightarrow> a = [] \<or> a \<in> set (gr_allowedActions g))"
proof -
  from assms obtain g where g: "pg_get d (vg_grantId v) = Some g" "gr_status g = GrantActive"
      "\<not> grant_past now g" and guards: "\<forall>(b, s) \<in> set (validate_guards g v). \<not> b"
    by (rule validate_Inr)
  from g(3) have "\<forall>t. gr_expiresAt g = Some t \<longrightarrow> now \<le> t"
    by (auto simp: grant_past_def)
  then show ?thesis
    using g(1,2) guards
    by (intro exI [of _ g]) (simp add: grant_get_def validate_guards_def binding_agrees included_iff)
qed

definition sample_grant_input :: create_grant_input where
  "sample_grant_input = \<lparr>cg_tenantId = ''t1'', cg_planId = None, cg_runId = ''r1'', cg_stepId = ''s1'',
     cg_targetId = None, cg_workflowVersionId = None, cg_pluginVersionId = None, cg_pluginId = None,
     cg_capability = None, cg_actionId = None, cg_actionContractVersion = None,
     cg_inputSchemaSha256 = None, cg_outputSchemaSha256 = None, cg_planDigest = None,
     cg_approvalId = None, cg_executorType = ''ssh'', cg_allowedSecretRefs = [''sec1'', ''sec1''],
     cg_allowedArtifactRefs = None, cg_allowedActions = [''deploy''], cg_expiresAt = Some 100\<rparr>"

definition sample_validate_input :: validate_grant_input where
  "sample_validate_input = \<lparr>vg_grantId = ''g1'', vg_tenantId = Some ''t1'', vg_planId = None,
     vg_runId = ''r1'', vg_stepId = ''s1'', vg_targetId = None, vg_workflowVersionId = None,
     vg_pluginVersionId = None, vg_pluginId = None, vg_capability = None, vg_actionId = None,
     vg_actionContractVersion = None, vg_inputSchemaSha256 = None, vg_outputSchemaSha256 = None,
     vg_planDigest = None, vg_approvalId = None, vg_executorType = ''ssh'', vg_secretRef = Some ''sec1'',
     vg_artifactRef = None, vg_action = Some ''deploy'', vg_markUsed = True\<rparr>"

definition sample_grants :: grants where
  "sample_grants = snd (grant_create 10 ''g1'' sample_grant_input [])"

lemmas sample_grant_simps =
  sample_grants_def sample_grant_input_def sample_validate_input_def grant_create_def
  grant_of_input_def pg_create_def pg_get_def

lemma sample_grants_get:
  "pg_get sample_grants ''g1'' = Some (grant_of_input 10 ''g1'' sample_grant_input)"
  by (simp add: sample_grant_simps trim_def is_ws_def)

lemma sample_grants_ok: "grants_ok sample_grants"
  by (simp add: sample_grant_simps trim_def is_ws_def grants_ok_def stored_under_own_id_def)

lemma sample_validate:
  "validate_decide now sample_validate_input (Some (grant_of_input 10 ''g1'' sample_grant_input))
   = (if 100 < now then DenyExpired else Accept)"
  by (simp add: validate_decide_def validate_guards_def binding_mismatch_def not_included_def
      grant_past_def grant_of_input_def sample_grant_input_def sample_validate_input_def)

lemma sample_fields [simp]:
  "vg_grantId sample_validate_input = ''g1''" "vg_markUsed sample_validate_input"
  "gr_id (grant_of_input now i inp) = i"
  by (simp_all add: sample_validate_input_def grant_of_input_def)

lemma sample_validate_result:
  "grant_validate 20 sample_validate_input sample_grants
   = grant_update 20 ''g1'' GrantUsed sample_grants"
  by (simp add: grant_validate_def validate_write_def sample_validate sample_grants_get)

theorem grant_validate_sound_witness:
  "\<exists>g. grant_get ''g1'' sample_grants = Some g \<and> ''sec1'' \<in> set (gr_allowedSecretRefs g)"
proof -
  obtain g' d' where "grant_validate 20 sample_validate_input sample_grants = (Inr g', d')"
    by (simp add: sample_validate_result grant_update_cases sample_grants_get)
  from grant_validate_sound [OF this] show ?thesis
    by (auto simp: sample_validate_input_def)
qed

text \<open>C3. A grant is used at most once by calls that run one after the other. Once \<open>validate\<close> with
  \<open>markUsed\<close> returned, no later sequence of \<open>create\<close>, \<open>validate\<close> and \<open>revoke\<close> calls makes the grant
  valid again: every further validation is denied and writes nothing.\<close>

theorem grant_single_use:
  assumes "grants_ok d" and "grant_validate now v d = (Inr g, d')" and "vg_markUsed v"
    and "vg_grantId w = vg_grantId v"
  shows "let d'' = fold grant_apply ops d' in
    grant_validate later w d'' = (Inl (executorGrantDenied ''grant not active''), d'')"
proof -
  from assms(2) obtain h where h: "pg_get d (vg_grantId v) = Some h"
    and upd: "(Inr g, d') = grant_update now (gr_id h) GrantUsed d"
    by (rule validate_Inr) (simp add: assms(3))
  have id: "gr_id h = vg_grantId v" using h assms(1) docs.get_id by (auto simp: grants_ok_def)
  have used: "pg_get d' (vg_grantId v) = Some (set_grant_status GrantUsed now h)"
    using grant_update_get(2) [OF assms(1) h, of now GrantUsed "vg_grantId v"] upd id by (metis snd_conv)
  have ok: "grants_ok d'"
    using grant_update_ok [OF assms(1), of now "gr_id h" GrantUsed] upd by (metis snd_conv)
  have "pg_get (fold grant_apply ops d') (vg_grantId w) = Some (set_grant_status GrantUsed now h)"
    using inactive_is_final_history [OF ok used] assms(4) by simp
  then show ?thesis by (simp add: Let_def grant_validate_def validate_write_def validate_decide_def)
qed

theorem grant_single_use_witness:
  "let d'' = fold grant_apply [GCreate 25 ''g1'' sample_grant_input, GRevoke 30 ''g1'']
       (snd (grant_validate 20 sample_validate_input sample_grants)) in
    grant_validate 40 sample_validate_input d''
      = (Inl (executorGrantDenied ''grant not active''), d'')"
  by (rule grant_single_use [OF sample_grants_ok, where now = 20 and v = sample_validate_input
        and g = "set_grant_status GrantUsed 20 (grant_of_input 10 ''g1'' sample_grant_input)"])
    (simp_all add: sample_validate_result grant_update_cases sample_grants_get)

text \<open>Single use does not survive interleaving. Two \<open>validate\<close> calls with \<open>markUsed\<close> that both read
  the grant before either writes are both accepted: \<open>update\<close> re-reads the document but does not
  check that it is still active.\<close>

theorem grant_validate_race:
  assumes "grants_ok d" and "pg_get d (vg_grantId v) = Some g"
    and "validate_decide now1 v (Some g) = Accept" and "validate_decide now2 v (Some g) = Accept"
    and "vg_markUsed v"
  shows "let read1 = pg_get d (vg_grantId v); read2 = pg_get d (vg_grantId v);
             (res1, d1) = validate_write now1 v read1 d; (res2, d2) = validate_write now2 v read2 d1
         in (\<exists>a. res1 = Inr a) \<and> (\<exists>b. res2 = Inr b)"
proof -
  have id: "gr_id g = vg_grantId v" using assms(1,2) docs.get_id by (auto simp: grants_ok_def)
  show ?thesis using assms(2-5) id
    by (auto simp: Let_def validate_write_def grant_update_cases pg_get_upsert split: option.splits)
qed

theorem grant_validate_race_witness:
  "let (res1, d1) = validate_write 20 sample_validate_input (pg_get sample_grants ''g1'') sample_grants;
       (res2, d2) = validate_write 21 sample_validate_input (pg_get sample_grants ''g1'') d1
   in (\<exists>a. res1 = Inr a) \<and> (\<exists>b. res2 = Inr b)"
  using grant_validate_race [OF sample_grants_ok, of sample_validate_input
      "grant_of_input 10 ''g1'' sample_grant_input" 20 21]
  by (simp add: sample_grants_get sample_validate Let_def)

text \<open>What \<open>create\<close> stores. A grant without a tenant, or a plugin action grant with a missing
  binding, is refused and nothing is stored; otherwise the grant is stored active under its new id,
  with the allowed lists free of duplicates and holding exactly the requested references.\<close>

theorem grant_create_behaviour:
  "(case grant_create now i inp d of
      (Inl e, d') \<Rightarrow> d' = d
    | (Inr g, d') \<Rightarrow> trim (cg_tenantId inp) \<noteq> [] \<and> grant_get i d' = Some g \<and> grant_get i d = None
        \<and> (\<forall>k. k \<noteq> i \<longrightarrow> grant_get k d' = grant_get k d)
        \<and> gr_status g = GrantActive \<and> gr_tenantId g = Some (cg_tenantId inp)
        \<and> distinct (gr_allowedSecretRefs g) \<and> set (gr_allowedSecretRefs g) = set (cg_allowedSecretRefs inp)
        \<and> distinct (gr_allowedActions g) \<and> set (gr_allowedActions g) = set (cg_allowedActions inp)
        \<and> (cg_executorType inp = ''plugin.action'' \<longrightarrow>
             truthy (gr_workflowVersionId g) \<and> truthy (gr_pluginVersionId g) \<and> truthy (gr_actionId g)
             \<and> truthy (gr_planDigest g)))"
proof -
  have stored: "pg_create gr_id now (grant_of_input now i inp) d = Inr (g, d') \<Longrightarrow>
      g = grant_of_input now i inp \<and> pg_get d i = None \<and> pg_get d' i = Some g
      \<and> (\<forall>k. k \<noteq> i \<longrightarrow> pg_get d' k = pg_get d k)" for g d'
    by (auto simp: pg_create_Inr pg_get_upsert grant_of_input_def)
  have fields: "gr_status (grant_of_input now i inp) = GrantActive"
    "gr_tenantId (grant_of_input now i inp) = Some (cg_tenantId inp)"
    "gr_allowedSecretRefs (grant_of_input now i inp) = set_dedup (cg_allowedSecretRefs inp)"
    "gr_allowedActions (grant_of_input now i inp) = set_dedup (cg_allowedActions inp)"
    "gr_workflowVersionId (grant_of_input now i inp) = cg_workflowVersionId inp"
    "gr_pluginVersionId (grant_of_input now i inp) = cg_pluginVersionId inp"
    "gr_actionId (grant_of_input now i inp) = cg_actionId inp"
    "gr_planDigest (grant_of_input now i inp) = cg_planDigest inp"
    by (simp_all add: grant_of_input_def)
  show ?thesis
    by (auto simp: grant_create_def grant_get_def fields dest!: stored split: sum.splits)
qed

theorem grant_create_behaviour_witness:
  "case grant_create 10 ''g1'' sample_grant_input [] of
     (Inl e, d') \<Rightarrow> False | (Inr g, d') \<Rightarrow> grant_get ''g1'' d' = Some g \<and> distinct (gr_allowedSecretRefs g)"
  using grant_create_behaviour [where now = 10 and i = "''g1''" and inp = sample_grant_input and d = "[]"]
  by (simp add: sample_grant_simps trim_def is_ws_def grant_get_def)

end
