(* ===== verification/Approvals.thy ===== *)
theory Approvals
  imports DocumentStore "HOL-Library.Char_ord" "HOL-Library.List_Lexorder"
begin

text \<open>
  Approval requests: \<open>backend/src/modules/approvals/approval.service.ts\<close>, the entity of
  \<open>backend/src/persistence/entities/approval.entity.ts\<close> and the stable serialisation
  \<open>backend/src/shared/canonical-json.ts\<close> the parameter digest is taken of.

  Parameters of the model: \<open>sha\<close> is \<open>createHash('sha256')...digest('hex')\<close>, \<open>lt a b\<close> is
  \<open>a.localeCompare(b) < 0\<close>, and \<open>audit\<close> is the audit service: the error its \<open>write\<close> throws for an entry,
  or \<open>None\<close>. The decision listener is called after the decision is stored and its failure is
  swallowed, so it changes neither the result nor the store and does not appear. Operation
  parameters are JSON values.
\<close>

section \<open>Stable serialisation\<close>

lemma json_member_size: "(k, v) \<in> set kvs \<Longrightarrow> size v < Suc (size_list (size_prod (\<lambda>_. 0) size) kvs)"
  by (induction kvs) auto

function canonicalize :: "(string \<Rightarrow> string \<Rightarrow> bool) \<Rightarrow> json \<Rightarrow> string" where
  "canonicalize lt JNull = ''null''"
| "canonicalize lt (JBool b) = (if b then ''true'' else ''false'')"
| "canonicalize lt (JNum i) = int_to_string i"
| "canonicalize lt (JStr s) = json_quote s"
| "canonicalize lt (JArr xs) = ''['' @ join '','' (map (canonicalize lt) xs) @ '']''"
| "canonicalize lt (JObj kvs) =
     (let entries = sort_by (\<lambda>a b. lt (fst a) (fst b)) kvs
      in ''{'' @ join '','' (map (\<lambda>(k, v). json_quote k @ '':'' @ canonicalize lt v) entries) @ ''}'')"
  by pat_completeness auto

termination
  by (relation "measure (\<lambda>(lt, v). size v)")
    (auto simp: json_member_size less_Suc_eq_le size_list_estimation')

section \<open>Data\<close>

datatype RiskLevel = RiskLow | RiskMedium | RiskHigh | RiskCritical

datatype ApprovalStatus =
  ApprovalPending | ApprovalApproved | ApprovalRejected | ApprovalExpired
  | ApprovalCancelled | ApprovalConsumed

datatype ApprovalDecision = DecisionApproved | DecisionRejected

record approval =
  ap_id :: string
  ap_tenantId :: "string option"
  ap_operationType :: string
  ap_resourceRefs :: "(string \<times> string) list"   \<comment> \<open>type and id\<close>
  ap_riskLevel :: RiskLevel
  ap_parameterHash :: string
  ap_status :: ApprovalStatus
  ap_requestedBy :: string
  ap_approvedBy :: "string option"
  ap_comment :: "string option"
  ap_expiresAt :: "instant option"
  ap_createdAt :: instant
  ap_updatedAt :: instant

record create_approval_input =
  ca_tenantId :: "string option"
  ca_operationType :: string
  ca_resourceRefs :: "(string \<times> string) list"
  ca_riskLevel :: RiskLevel
  ca_parameters :: json
  ca_requestedBy :: string
  ca_expiresAt :: "instant option"

record decide_approval_input =
  da_approvalId :: string
  da_tenantId :: "string option"
  da_decision :: ApprovalDecision
  da_approverId :: string
  da_comment :: "string option"
  da_forbidSelfApproval :: "bool option"

text \<open>The tenant members of a \<open>RequestContext\<close>: its own and that of the actor's scope.\<close>

record request_context =
  rc_tenantId :: "string option"
  rc_actorScopeTenantId :: "string option"

record audit_entry =
  ae_eventType :: string
  ae_actorId :: string
  ae_action :: string
  ae_resourceId :: string
  ae_result :: string
  ae_riskLevel :: RiskLevel
  ae_failClosed :: bool

type_synonym approvals = "approval docs"
type_synonym audit = "audit_entry \<Rightarrow> error option"

definition approvalInvalid :: "string \<Rightarrow> error" where
  "approvalInvalid reason = SecurityError ''SEC_APPROVAL_INVALID'' reason"

section \<open>Operations\<close>

definition resolveContextTenantId :: "request_context \<Rightarrow> string option" where
  "resolveContextTenantId c = orElse (rc_tenantId c) (rc_actorScopeTenantId c)"

definition matchesTenant :: "string option \<Rightarrow> string option \<Rightarrow> bool" where
  "matchesTenant actual expected \<longleftrightarrow> (if \<not> truthy expected then True else actual = expected)"

definition hashParameters ::
  "(string \<Rightarrow> string) \<Rightarrow> (string \<Rightarrow> string \<Rightarrow> bool) \<Rightarrow> json \<Rightarrow> string" where
  "hashParameters sha lt params = sha (canonicalize lt params)"

definition requiresApproval :: "RiskLevel \<Rightarrow> string \<Rightarrow> bool" where
  "requiresApproval risk operationType \<longleftrightarrow>
     risk = RiskHigh \<or> risk = RiskCritical
     \<or> operationType \<in> {''plugin.install'', ''plugin.enable'', ''deployment.rollback'', ''workflow_template.execute''}"

definition approval_create ::
  "(string \<Rightarrow> string) \<Rightarrow> (string \<Rightarrow> string \<Rightarrow> bool) \<Rightarrow> audit \<Rightarrow> instant \<Rightarrow> string \<Rightarrow>
   create_approval_input \<Rightarrow> request_context \<Rightarrow> approvals \<Rightarrow> approval result \<times> approvals" where
  "approval_create sha lt audit now i inp ctx d =
    (if \<not> requiresApproval (ca_riskLevel inp) (ca_operationType inp)
     then (Inl (approvalInvalid ''operation does not require approval''), d)
     else
       let a = \<lparr>ap_id = i, ap_tenantId = orElse (ca_tenantId inp) (resolveContextTenantId ctx),
                ap_operationType = ca_operationType inp, ap_resourceRefs = ca_resourceRefs inp,
                ap_riskLevel = ca_riskLevel inp, ap_parameterHash = hashParameters sha lt (ca_parameters inp),
                ap_status = ApprovalPending, ap_requestedBy = ca_requestedBy inp, ap_approvedBy = None,
                ap_comment = None, ap_expiresAt = ca_expiresAt inp, ap_createdAt = now, ap_updatedAt = now\<rparr>
       in (case pg_create ap_id now a d of
             Inl e \<Rightarrow> (Inl e, d)
           | Inr (stored, d') \<Rightarrow>
               (case audit \<lparr>ae_eventType = ''approval.created'', ae_actorId = ca_requestedBy inp,
                      ae_action = ''approval.create'', ae_resourceId = ap_id stored, ae_result = ''success'',
                      ae_riskLevel = ca_riskLevel inp, ae_failClosed = False\<rparr> of
                  Some e \<Rightarrow> (Inl e, d')
                | None \<Rightarrow> (Inr stored, d'))))"

definition approval_update ::
  "instant \<Rightarrow> string \<Rightarrow> (approval \<Rightarrow> approval) \<Rightarrow> approvals \<Rightarrow> approval result \<times> approvals" where
  "approval_update now i patch d = (case pg_update ap_id now i patch d of
     Inl e \<Rightarrow> (Inl e, d) | Inr (a, d') \<Rightarrow> (Inr a, d'))"

definition set_approval_status :: "ApprovalStatus \<Rightarrow> instant \<Rightarrow> approval \<Rightarrow> approval" where
  "set_approval_status s now a = a\<lparr>ap_status := s, ap_updatedAt := now\<rparr>"

definition approval_past :: "instant \<Rightarrow> approval \<Rightarrow> bool" where
  "approval_past now a \<longleftrightarrow> (case ap_expiresAt a of None \<Rightarrow> False | Some t \<Rightarrow> t < now)"

definition getFresh ::
  "instant \<Rightarrow> string \<Rightarrow> string option \<Rightarrow> approvals \<Rightarrow> approval result \<times> approvals" where
  "getFresh now i tenantId d = (case pg_get d i of
     None \<Rightarrow> (Inl (approvalInvalid ''approval not found''), d)
   | Some a \<Rightarrow>
       if \<not> matchesTenant (ap_tenantId a) tenantId then (Inl (approvalInvalid ''approval not found''), d)
       else if approval_past now a \<and> ap_status a = ApprovalPending
       then approval_update now i (set_approval_status ApprovalExpired now) d
       else (Inr a, d))"

definition selfApprovalAllowed :: "bool \<Rightarrow> decide_approval_input \<Rightarrow> bool" where
  "selfApprovalAllowed allowSelf inp \<longleftrightarrow> da_forbidSelfApproval inp = Some False \<or> allowSelf"

definition decision_status :: "ApprovalDecision \<Rightarrow> ApprovalStatus" where
  "decision_status dec = (case dec of DecisionApproved \<Rightarrow> ApprovalApproved | DecisionRejected \<Rightarrow> ApprovalRejected)"

definition decided :: "decide_approval_input \<Rightarrow> instant \<Rightarrow> approval \<Rightarrow> approval" where
  "decided inp now a = a\<lparr>ap_status := decision_status (da_decision inp),
     ap_approvedBy := Some (da_approverId inp), ap_comment := da_comment inp, ap_updatedAt := now\<rparr>"

definition decision_audit :: "decide_approval_input \<Rightarrow> approval \<Rightarrow> audit_entry" where
  "decision_audit inp a =
    (let ok = (da_decision inp = DecisionApproved) in
     \<lparr>ae_eventType = (if ok then ''approval.approved'' else ''approval.rejected''),
      ae_actorId = da_approverId inp,
      ae_action = ''approval.'' @ (if ok then ''approved'' else ''rejected''),
      ae_resourceId = ap_id a, ae_result = (if ok then ''success'' else ''denied''),
      ae_riskLevel = ap_riskLevel a, ae_failClosed = True\<rparr>)"

definition approval_decide ::
  "bool \<Rightarrow> audit \<Rightarrow> instant \<Rightarrow> decide_approval_input \<Rightarrow> request_context \<Rightarrow> approvals
   \<Rightarrow> approval result \<times> approvals" where
  "approval_decide allowSelf audit now inp ctx d =
    (case getFresh now (da_approvalId inp) (orElse (da_tenantId inp) (resolveContextTenantId ctx)) d of
       (Inl e, d1) \<Rightarrow> (Inl e, d1)
     | (Inr current, d1) \<Rightarrow>
         if ap_status current \<noteq> ApprovalPending then (Inl (approvalInvalid ''approval is not pending''), d1)
         else if \<not> selfApprovalAllowed allowSelf inp \<and> ap_requestedBy current = da_approverId inp
                 \<and> da_decision inp = DecisionApproved
         then (Inl (approvalInvalid ''self approval denied''), d1)
         else (case approval_update now (ap_id current) (decided inp now) d1 of
                 (Inl e, d2) \<Rightarrow> (Inl e, d2)
               | (Inr updated, d2) \<Rightarrow>
                   (case audit (decision_audit inp updated) of
                      Some e \<Rightarrow> (Inl e, d2) | None \<Rightarrow> (Inr updated, d2))))"

text \<open>The part of \<open>consume\<close> after the approval was read.\<close>

definition consume_write ::
  "(string \<Rightarrow> string) \<Rightarrow> (string \<Rightarrow> string \<Rightarrow> bool) \<Rightarrow> instant \<Rightarrow> json \<Rightarrow> approval \<Rightarrow> approvals
   \<Rightarrow> approval result \<times> approvals" where
  "consume_write sha lt now params current d =
    (if ap_status current \<noteq> ApprovalApproved then (Inl (approvalInvalid ''approval is not approved''), d)
     else if ap_parameterHash current \<noteq> hashParameters sha lt params
     then (case approval_update now (ap_id current) (set_approval_status ApprovalCancelled now) d of
             (Inl e, d') \<Rightarrow> (Inl e, d')
           | (Inr _, d') \<Rightarrow> (Inl (approvalInvalid ''parameter hash changed''), d'))
     else approval_update now (ap_id current) (set_approval_status ApprovalConsumed now) d)"

definition approval_consume ::
  "(string \<Rightarrow> string) \<Rightarrow> (string \<Rightarrow> string \<Rightarrow> bool) \<Rightarrow> instant \<Rightarrow> string \<Rightarrow> json \<Rightarrow> string option
   \<Rightarrow> approvals \<Rightarrow> approval result \<times> approvals" where
  "approval_consume sha lt now i params tenantId d = (case getFresh now i tenantId d of
     (Inl e, d1) \<Rightarrow> (Inl e, d1)
   | (Inr current, d1) \<Rightarrow> consume_write sha lt now params current d1)"

definition approval_get :: "string \<Rightarrow> string option \<Rightarrow> approvals \<Rightarrow> approval option" where
  "approval_get i tenantId d =
    (let a = pg_get d i in if matchesTenant (Option.bind a ap_tenantId) tenantId then a else None)"

definition approval_getMany ::
  "string list \<Rightarrow> string option \<Rightarrow> approvals \<Rightarrow> (string \<rightharpoonup> approval)" where
  "approval_getMany is tenantId d =
    (let idSet = filter (\<lambda>i. i \<noteq> []) is in
     if idSet = [] then Map.empty
     else map_of (rev (map (\<lambda>a. (ap_id a, a))
            (pg_list (\<lambda>a. ap_id a \<in> set idSet \<and> matchesTenant (ap_tenantId a) tenantId) d))))"

definition deleteByDeploymentPlan ::
  "string \<Rightarrow> string option \<Rightarrow> string option \<Rightarrow> approvals \<Rightarrow> string list \<times> approvals" where
  "deleteByDeploymentPlan planId approvalId tenantId d =
    (let matched = pg_list (\<lambda>a. matchesTenant (ap_tenantId a) tenantId
           \<and> (truthy approvalId \<and> Some (ap_id a) = approvalId
              \<or> (\<exists>ref \<in> set (ap_resourceRefs a). fst ref = ''deploymentPlan'' \<and> snd ref = planId))) d
     in (map ap_id matched, fold (\<lambda>a. pg_delete (ap_id a)) matched d))"

section \<open>Histories\<close>

datatype approval_op =
    ACreate instant string create_approval_input request_context
  | ADecide instant decide_approval_input request_context
  | AConsume instant string json "string option"
  | ADeleteByPlan string "string option" "string option"

text \<open>The configuration of a service: the digest, the collation, the audit service and whether the
  requester may approve.\<close>

record approval_config =
  cfg_sha :: "string \<Rightarrow> string"
  cfg_lt :: "string \<Rightarrow> string \<Rightarrow> bool"
  cfg_audit :: audit
  cfg_allowSelfApproval :: bool

fun approval_apply :: "approval_config \<Rightarrow> approval_op \<Rightarrow> approvals \<Rightarrow> approvals" where
  "approval_apply c (ACreate now i inp ctx) d =
     snd (approval_create (cfg_sha c) (cfg_lt c) (cfg_audit c) now i inp ctx d)"
| "approval_apply c (ADecide now inp ctx) d =
     snd (approval_decide (cfg_allowSelfApproval c) (cfg_audit c) now inp ctx d)"
| "approval_apply c (AConsume now i params tenantId) d =
     snd (approval_consume (cfg_sha c) (cfg_lt c) now i params tenantId d)"
| "approval_apply c (ADeleteByPlan planId approvalId tenantId) d =
     snd (deleteByDeploymentPlan planId approvalId tenantId d)"

fun permits_self :: "approval_config \<Rightarrow> approval_op \<Rightarrow> bool" where
  "permits_self c (ADecide now inp ctx) = selfApprovalAllowed (cfg_allowSelfApproval c) inp"
| "permits_self c _ = False"

fun is_delete :: "approval_op \<Rightarrow> bool" where
  "is_delete (ADeleteByPlan _ _ _) = True"
| "is_delete _ = False"

text \<open>One call of the service under the four-eyes rule: no \<open>decide\<close> lifts the rule.\<close>

inductive four_eyes_step :: "approval_config \<Rightarrow> approvals \<Rightarrow> approvals \<Rightarrow> bool"
  for c :: approval_config where
  "\<not> permits_self c op \<Longrightarrow> four_eyes_step c d (approval_apply c op d)"

inductive_cases four_eyes_stepE: "four_eyes_step c d d'"

definition approved_by_other :: "approval \<Rightarrow> bool" where
  "approved_by_other a \<longleftrightarrow>
     (ap_status a \<in> {ApprovalApproved, ApprovalConsumed, ApprovalCancelled} \<longrightarrow>
        (\<exists>u. ap_approvedBy a = Some u \<and> u \<noteq> ap_requestedBy a))"

definition approvals_inv :: "approvals \<Rightarrow> bool" where
  "approvals_inv d \<longleftrightarrow> stored_under_own_id ap_id d
     \<and> (\<forall>k a. pg_get d k = Some a \<longrightarrow> approved_by_other a)"

text \<open>The life cycle: where a status may go.\<close>

inductive approval_edge :: "ApprovalStatus \<Rightarrow> ApprovalStatus \<Rightarrow> bool" where
  "approval_edge s s"
| "approval_edge ApprovalPending ApprovalApproved"
| "approval_edge ApprovalPending ApprovalRejected"
| "approval_edge ApprovalPending ApprovalExpired"
| "approval_edge ApprovalApproved ApprovalConsumed"
| "approval_edge ApprovalApproved ApprovalCancelled"

inductive_simps approval_edge_iff: "approval_edge s t"

section \<open>Lemmas\<close>

lemma approval_patch_fields [simp]:
  "ap_id (set_approval_status s now a) = ap_id a" "ap_status (set_approval_status s now a) = s"
  "ap_requestedBy (set_approval_status s now a) = ap_requestedBy a"
  "ap_approvedBy (set_approval_status s now a) = ap_approvedBy a"
  "ap_parameterHash (set_approval_status s now a) = ap_parameterHash a"
  "ap_tenantId (set_approval_status s now a) = ap_tenantId a"
  "ap_id (decided inp now a) = ap_id a" "ap_status (decided inp now a) = decision_status (da_decision inp)"
  "ap_requestedBy (decided inp now a) = ap_requestedBy a"
  "ap_approvedBy (decided inp now a) = Some (da_approverId inp)"
  "ap_parameterHash (decided inp now a) = ap_parameterHash a"
  "ap_tenantId (decided inp now a) = ap_tenantId a"
  by (simp_all add: set_approval_status_def decided_def)

lemma approval_update_cases:
  "approval_update now i patch d = (case pg_get d i of
     None \<Rightarrow> (Inl (PlainError (''entity not found: '' @ i)), d)
   | Some a \<Rightarrow> (Inr (patch a), pg_upsert ap_id now (patch a) d))"
  by (simp add: approval_update_def pg_update_def pg_getOrThrow_def Let_def split: option.splits)

text \<open>What a call does to the store: nothing, a new pending request, one patched request, or
  deletions.\<close>

inductive approval_effect :: "approval_config \<Rightarrow> approval_op \<Rightarrow> approvals \<Rightarrow> approvals \<Rightarrow> bool"
  for c :: approval_config where
  eff_none: "approval_effect c op d d"
| eff_create: "pg_get d (ap_id a) = None \<Longrightarrow> ap_status a = ApprovalPending \<Longrightarrow>
    approval_effect c (ACreate now i inp ctx) d (pg_upsert ap_id now' a d)"
| eff_expire: "pg_get d (ap_id a) = Some a \<Longrightarrow> ap_status a = ApprovalPending \<Longrightarrow>
    approval_effect c op d (pg_upsert ap_id now (set_approval_status ApprovalExpired now' a) d)"
| eff_decide: "pg_get d (ap_id a) = Some a \<Longrightarrow> ap_status a = ApprovalPending \<Longrightarrow>
    \<not> (\<not> selfApprovalAllowed (cfg_allowSelfApproval c) inp \<and> ap_requestedBy a = da_approverId inp
       \<and> da_decision inp = DecisionApproved) \<Longrightarrow>
    approval_effect c (ADecide now inp ctx) d (pg_upsert ap_id now' (decided inp now' a) d)"
| eff_consume: "pg_get d (ap_id a) = Some a \<Longrightarrow> ap_status a = ApprovalApproved \<Longrightarrow>
    s \<in> {ApprovalCancelled, ApprovalConsumed} \<Longrightarrow>
    approval_effect c (AConsume now i params tenantId) d
      (pg_upsert ap_id now' (set_approval_status s now' a) d)"
| eff_delete: "approval_effect c (ADeleteByPlan p ai t) d (fold pg_delete is d)"

lemma getFresh_cases:
  assumes "stored_under_own_id ap_id d" and "getFresh now i t d = (res, d1)"
  obtains (failed) e where "res = Inl e" "d1 = d"
  | (expired) a where "pg_get d i = Some a" "ap_id a = i" "ap_status a = ApprovalPending"
      "res = Inr (set_approval_status ApprovalExpired now a)"
      "d1 = pg_upsert ap_id now (set_approval_status ApprovalExpired now a) d"
  | (fresh) a where "pg_get d i = Some a" "ap_id a = i" "res = Inr a" "d1 = d"
      "matchesTenant (ap_tenantId a) t"
  using assms docs.get_id [OF assms(1), of i]
  by (auto simp: getFresh_def approval_update_cases split: option.splits if_splits)

lemma approval_apply_effect:
  assumes ok: "stored_under_own_id ap_id d"
  shows "approval_effect c op d (approval_apply c op d)"
proof (cases op)
  case (ACreate now i inp ctx)
  then show ?thesis
    by (auto simp: approval_create_def Let_def pg_create_Inr intro: eff_none eff_create split: sum.splits option.splits)
next
  case (ADecide now inp ctx)
  obtain res d1 where fr: "getFresh now (da_approvalId inp) (orElse (da_tenantId inp) (resolveContextTenantId ctx)) d = (res, d1)"
    by (cases "getFresh now (da_approvalId inp) (orElse (da_tenantId inp) (resolveContextTenantId ctx)) d")
  from ok fr show ?thesis
  proof (cases rule: getFresh_cases)
    case (failed e)
    then show ?thesis using ADecide fr by (simp add: approval_decide_def eff_none)
  next
    case (expired a)
    then show ?thesis using ADecide fr by (auto simp: approval_decide_def intro: eff_expire)
  next
    case (fresh a)
    then show ?thesis using ADecide fr eff_decide [of d a c inp now ctx now] eff_none [of c op d]
      by (auto simp: approval_decide_def approval_update_cases split: option.splits)
  qed
next
  case (AConsume now i params tenantId)
  obtain res d1 where fr: "getFresh now i tenantId d = (res, d1)" by (cases "getFresh now i tenantId d")
  from ok fr show ?thesis
  proof (cases rule: getFresh_cases)
    case (failed e)
    then show ?thesis using AConsume fr by (simp add: approval_consume_def eff_none)
  next
    case (expired a)
    then show ?thesis using AConsume fr by (auto simp: approval_consume_def consume_write_def intro: eff_expire)
  next
    case (fresh a)
    then show ?thesis using AConsume fr eff_none [of c op d]
      by (auto simp: approval_consume_def consume_write_def approval_update_cases intro: eff_consume split: option.splits)
  qed
next
  case (ADeleteByPlan p ai t)
  have "approval_effect c (ADeleteByPlan p ai t) d (fold (\<lambda>a. pg_delete (ap_id a)) as d)" for as
    using eff_delete [of c p ai t d "map ap_id as"] by (simp add: fold_map comp_def)
  then show ?thesis using ADeleteByPlan by (simp add: deleteByDeploymentPlan_def Let_def)
qed

lemma approval_effect_stored:
  "approval_effect c op d d' \<Longrightarrow> stored_under_own_id ap_id d \<Longrightarrow> stored_under_own_id ap_id d'"
  by (induction rule: approval_effect.induct) (auto intro: docs.invar_put docs.invar_deletes)

lemma approval_effect_moves:
  assumes "approval_effect c op d d'" and "pg_get d k = Some a" and "pg_get d' k = Some b"
  shows "approval_edge (ap_status a) (ap_status b) \<and> ap_requestedBy b = ap_requestedBy a
    \<and> ap_parameterHash b = ap_parameterHash a \<and> ap_tenantId b = ap_tenantId a"
  using assms
proof (induction rule: approval_effect.induct)
  case (eff_decide d a c' inp)
  then show ?case
    by (auto simp: pg_get_upsert approval_edge_iff decision_status_def split: if_splits ApprovalDecision.splits)
qed (auto simp: pg_get_upsert docs.get_after_deletes approval_edge_iff split: if_splits)

lemma approval_effect_keeps:
  assumes "approval_effect c op d d'" and "\<not> is_delete op" and "pg_get d k = Some a"
  shows "\<exists>b. pg_get d' k = Some b"
  using assms by (induction rule: approval_effect.induct) (auto simp: pg_get_upsert)

lemma approval_effect_four_eyes:
  assumes "approval_effect c op d d'" and "\<not> permits_self c op"
    and "\<forall>k a. pg_get d k = Some a \<longrightarrow> approved_by_other a"
  shows "\<forall>k a. pg_get d' k = Some a \<longrightarrow> approved_by_other a"
  using assms
proof (induction rule: approval_effect.induct)
  case (eff_decide d a c' inp)
  then show ?case
    by (auto simp: pg_get_upsert approved_by_other_def decision_status_def split: if_splits ApprovalDecision.splits)
qed (auto simp: pg_get_upsert approved_by_other_def docs.get_after_deletes split: if_splits)

interpretation approvals: step_invariant "four_eyes_step c" approvals_inv for c
proof
  fix d d'
  assume "four_eyes_step c d d'" and inv: "approvals_inv d"
  then obtain op where op: "\<not> permits_self c op" "d' = approval_apply c op d"
    by (auto elim: four_eyes_stepE)
  have "approval_effect c op d d'" using inv op by (simp add: approvals_inv_def approval_apply_effect)
  then show "approvals_inv d'"
    using inv op(1) approval_effect_stored approval_effect_four_eyes unfolding approvals_inv_def by blast
qed

lemma final_status_stays:
  assumes "approval_edge\<^sup>*\<^sup>* s t" and "s \<in> {ApprovalConsumed, ApprovalCancelled, ApprovalRejected, ApprovalExpired}"
  shows "t = s"
  using assms by (induction rule: rtranclp_induct) (auto simp: approval_edge_iff)

lemma approval_history_moves:
  assumes "stored_under_own_id ap_id d" and "\<forall>op \<in> set ops. \<not> is_delete op" and "pg_get d k = Some a"
  shows "\<exists>b. pg_get (fold (approval_apply c) ops d) k = Some b
    \<and> approval_edge\<^sup>*\<^sup>* (ap_status a) (ap_status b) \<and> ap_parameterHash b = ap_parameterHash a
    \<and> ap_tenantId b = ap_tenantId a"
  using assms
proof (induction ops arbitrary: d a)
  case Nil
  then show ?case by simp
next
  case (Cons op ops)
  let ?d1 = "approval_apply c op d"
  have eff: "approval_effect c op d ?d1" using Cons.prems(1) by (rule approval_apply_effect)
  obtain b where b: "pg_get ?d1 k = Some b"
    using approval_effect_keeps [OF eff _ Cons.prems(3)] Cons.prems(2) by auto
  from Cons.IH [OF approval_effect_stored [OF eff Cons.prems(1)] _ b] Cons.prems(2)
  obtain b' where "pg_get (fold (approval_apply c) ops ?d1) k = Some b'"
    "approval_edge\<^sup>*\<^sup>* (ap_status b) (ap_status b')" "ap_parameterHash b' = ap_parameterHash b"
    "ap_tenantId b' = ap_tenantId b"
    by auto
  then show ?case using approval_effect_moves [OF eff Cons.prems(3) b]
    by (auto intro: converse_rtranclp_into_rtranclp)
qed

lemma consume_Inr:
  assumes "stored_under_own_id ap_id d" and "approval_consume sha lt now i params t d = (Inr b, d')"
  obtains a where "pg_get d i = Some a" "ap_id a = i" "ap_status a = ApprovalApproved"
    "ap_parameterHash a = hashParameters sha lt params" "matchesTenant (ap_tenantId a) t"
    "b = set_approval_status ApprovalConsumed now a" "d' = pg_upsert ap_id now b d"
proof -
  obtain res d1 where fr: "getFresh now i t d = (res, d1)" by (cases "getFresh now i t d")
  from assms(1) fr show ?thesis
  proof (cases rule: getFresh_cases)
    case (fresh a)
    then show ?thesis using assms(2) fr that [of a]
      by (auto simp: approval_consume_def consume_write_def approval_update_cases split: if_splits option.splits)
  qed (use assms(2) fr in \<open>auto simp: approval_consume_def consume_write_def\<close>)
qed

lemma consume_not_approved:
  assumes "stored_under_own_id ap_id d" and "pg_get d i = Some a" and "ap_status a \<noteq> ApprovalApproved"
  shows "\<exists>e. fst (approval_consume sha lt now i params t d) = Inl e"
proof (cases "approval_consume sha lt now i params t d")
  case (Pair res d')
  then show ?thesis using consume_Inr [OF assms(1), of sha lt now i params t _ d'] assms(2,3)
    by (cases res) fastforce+
qed

lemma insert_by_commute_keys:
  assumes trans: "\<And>a b c. lt a b \<Longrightarrow> lt b c \<Longrightarrow> lt a c" and irr: "\<And>a. \<not> lt a a"
    and tot: "\<And>a b. a \<noteq> b \<Longrightarrow> lt a b \<or> lt b a" and "fst x \<noteq> fst y"
  shows "insert_by (\<lambda>a b. lt (fst a) (fst b)) x (insert_by (\<lambda>a b. lt (fst a) (fst b)) y xs)
       = insert_by (\<lambda>a b. lt (fst a) (fst b)) y (insert_by (\<lambda>a b. lt (fst a) (fst b)) x xs)"
  using assms(4) by (induction xs) (auto; metis trans irr tot)+

section \<open>Properties\<close>

text \<open>C4. Four eyes. In every store the service reaches from an empty one, as long as no decision
  explicitly permits self approval, an approved, consumed or cancelled request was approved by
  somebody, and that somebody is not the requester.\<close>

theorem approvals_four_eyes:
  assumes "(four_eyes_step c)\<^sup>*\<^sup>* [] d" and "approval_get i None d = Some a"
    and "ap_status a \<in> {ApprovalApproved, ApprovalConsumed, ApprovalCancelled}"
  shows "\<exists>u. ap_approvedBy a = Some u \<and> u \<noteq> ap_requestedBy a"
proof -
  have "approvals_inv []" by (simp add: approvals_inv_def stored_under_own_id_def pg_get_def)
  with assms(1) have "approvals_inv d" by (rule approvals.steps_preserve)
  then show ?thesis using assms(2,3)
    by (auto simp: approvals_inv_def approved_by_other_def approval_get_def matchesTenant_def Let_def)
qed

definition sample_config :: approval_config where
  "sample_config = \<lparr>cfg_sha = id, cfg_lt = (\<lambda>a b. length a < length b), cfg_audit = (\<lambda>_. None),
     cfg_allowSelfApproval = False\<rparr>"

definition sample_request :: create_approval_input where
  "sample_request = \<lparr>ca_tenantId = Some ''t1'', ca_operationType = ''deployment.rollback'',
     ca_resourceRefs = [(''deploymentPlan'', ''p1'')], ca_riskLevel = RiskLow, ca_parameters = JBool True,
     ca_requestedBy = ''alice'', ca_expiresAt = Some 100\<rparr>"

definition sample_decision :: "string \<Rightarrow> decide_approval_input" where
  "sample_decision who = \<lparr>da_approvalId = ''a1'', da_tenantId = Some ''t1'', da_decision = DecisionApproved,
     da_approverId = who, da_comment = None, da_forbidSelfApproval = None\<rparr>"

definition no_context :: request_context where
  "no_context = \<lparr>rc_tenantId = None, rc_actorScopeTenantId = None\<rparr>"

definition sample_approved :: approval where
  "sample_approved = \<lparr>ap_id = ''a1'', ap_tenantId = Some ''t1'', ap_operationType = ''deployment.rollback'',
     ap_resourceRefs = [(''deploymentPlan'', ''p1'')], ap_riskLevel = RiskLow, ap_parameterHash = ''true'',
     ap_status = ApprovalApproved, ap_requestedBy = ''alice'', ap_approvedBy = Some ''bob'',
     ap_comment = None, ap_expiresAt = Some 100, ap_createdAt = 5, ap_updatedAt = 6\<rparr>"

definition sample_store :: approvals where
  "sample_store = [\<lparr>dr_id = ''a1'', dr_payload = sample_approved, dr_updatedAt = 6\<rparr>]"

lemma sample_hash: "hashParameters id lt (JBool True) = ''true''" "hashParameters id lt (JBool False) = ''false''"
  by (simp_all add: hashParameters_def)

lemma sample_history:
  "fold (approval_apply sample_config)
     [ACreate 5 ''a1'' sample_request no_context, ADecide 6 (sample_decision ''bob'') no_context] [] = sample_store"
  by (simp add: sample_config_def sample_request_def sample_decision_def no_context_def sample_store_def
      sample_approved_def approval_create_def requiresApproval_def pg_create_def pg_get_def Let_def sample_hash
      approval_decide_def getFresh_def matchesTenant_def approval_past_def selfApprovalAllowed_def
      approval_update_cases decided_def decision_status_def pg_upsert_def)

lemma sample_store_simps [simp]:
  "pg_get sample_store ''a1'' = Some sample_approved" "stored_under_own_id ap_id sample_store"
  "ap_status sample_approved = ApprovalApproved" "ap_id sample_approved = ''a1''"
  "ap_tenantId sample_approved = Some ''t1''" "ap_parameterHash sample_approved = ''true''"
  by (simp_all add: sample_store_def sample_approved_def pg_get_def stored_under_own_id_def)

lemma sample_consume:
  "approval_consume id lt 7 ''a1'' (JBool True) (Some ''t1'') sample_store
   = (Inr (set_approval_status ApprovalConsumed 7 sample_approved),
      pg_upsert ap_id 7 (set_approval_status ApprovalConsumed 7 sample_approved) sample_store)"
  by (simp add: approval_consume_def getFresh_def matchesTenant_def consume_write_def sample_hash approval_update_cases)

theorem approvals_four_eyes_witness:
  "\<exists>u. ap_approvedBy sample_approved = Some u \<and> u \<noteq> ap_requestedBy sample_approved"
proof (rule approvals_four_eyes)
  have "four_eyes_step sample_config [] (approval_apply sample_config (ACreate 5 ''a1'' sample_request no_context) [])"
    by (rule four_eyes_step.intros) simp
  moreover have "four_eyes_step sample_config d (approval_apply sample_config (ADecide 6 (sample_decision ''bob'') no_context) d)" for d
    by (rule four_eyes_step.intros) (simp add: selfApprovalAllowed_def sample_config_def sample_decision_def)
  ultimately show "(four_eyes_step sample_config)\<^sup>*\<^sup>* [] sample_store"
    unfolding sample_history [symmetric] by (auto intro: rtranclp.rtrancl_into_rtrancl)
  show "approval_get ''a1'' None sample_store = Some sample_approved"
    by (simp add: approval_get_def matchesTenant_def Let_def)
qed simp

text \<open>The life cycle of a request. Whatever one call does, a request that is in the store before
  and after moves only from pending to approved, rejected or expired, or from approved to consumed
  or cancelled, and its requester, tenant and parameter digest never change.\<close>

theorem approval_lifecycle:
  assumes "stored_under_own_id ap_id d" and "pg_get d k = Some a"
    and "pg_get (approval_apply c op d) k = Some b"
  shows "approval_edge (ap_status a) (ap_status b) \<and> ap_requestedBy b = ap_requestedBy a
    \<and> ap_parameterHash b = ap_parameterHash a \<and> ap_tenantId b = ap_tenantId a"
  using approval_effect_moves [OF approval_apply_effect [OF assms(1)] assms(2,3)] .

theorem approval_lifecycle_witness:
  "\<exists>b. pg_get (approval_apply sample_config (AConsume 7 ''a1'' (JBool True) (Some ''t1'')) sample_store) ''a1'' = Some b
     \<and> approval_edge ApprovalApproved (ap_status b)"
proof -
  have got: "pg_get (approval_apply sample_config (AConsume 7 ''a1'' (JBool True) (Some ''t1'')) sample_store) ''a1''
      = Some (set_approval_status ApprovalConsumed 7 sample_approved)"
    by (simp add: sample_config_def sample_consume pg_get_upsert)
  show ?thesis using approval_lifecycle [OF _ _ got] got by simp
qed

text \<open>C5. An approval is spent once and only for the parameters it was given for. When \<open>consume\<close>
  returns, the request was approved and its digest is that of the parameters; afterwards, whatever
  calls follow (deletion of the request apart), every further \<open>consume\<close> of it fails.\<close>

theorem approval_consumed_once:
  assumes "stored_under_own_id ap_id d" and "approval_consume (cfg_sha c) (cfg_lt c) now i params t d = (Inr b, d')"
    and "\<forall>op \<in> set ops. \<not> is_delete op"
  shows "(\<exists>a. pg_get d i = Some a \<and> ap_status a = ApprovalApproved
        \<and> ap_parameterHash a = hashParameters (cfg_sha c) (cfg_lt c) params \<and> matchesTenant (ap_tenantId a) t)
    \<and> (\<exists>e. fst (approval_consume (cfg_sha c) (cfg_lt c) now2 i params2 t2 (fold (approval_apply c) ops d')) = Inl e)"
proof -
  from assms(1,2) obtain a where a: "pg_get d i = Some a" "ap_id a = i" "ap_status a = ApprovalApproved"
    "ap_parameterHash a = hashParameters (cfg_sha c) (cfg_lt c) params" "matchesTenant (ap_tenantId a) t"
    "b = set_approval_status ApprovalConsumed now a" "d' = pg_upsert ap_id now b d"
    by (rule consume_Inr)
  then have got: "pg_get d' i = Some b" by (simp add: pg_get_upsert)
  have ok: "stored_under_own_id ap_id d'" using a assms(1) by (simp add: docs.invar_put)
  from approval_history_moves [OF ok assms(3) got, of c]
  obtain b' where b': "pg_get (fold (approval_apply c) ops d') i = Some b'"
    "approval_edge\<^sup>*\<^sup>* (ap_status b) (ap_status b')" by blast
  then have "ap_status b' = ApprovalConsumed" using final_status_stays a(6) by fastforce
  moreover have "stored_under_own_id ap_id (fold (approval_apply c) ops d')"
    using ok by (induction ops arbitrary: d') (auto intro: approval_effect_stored approval_apply_effect)
  ultimately show ?thesis using consume_not_approved [OF _ b'(1)] a by auto
qed

theorem approval_consumed_once_witness:
  "\<exists>e. fst (approval_consume id (cfg_lt sample_config) 9 ''a1'' (JBool True) None
     (approval_apply sample_config (ADecide 8 (sample_decision ''bob'') no_context)
       (pg_upsert ap_id 7 (set_approval_status ApprovalConsumed 7 sample_approved) sample_store))) = Inl e"
  using approval_consumed_once [where c = sample_config and now = 7 and i = "''a1''" and params = "JBool True"
      and t = "Some ''t1''" and d = sample_store and ?now2.0 = 9 and ?params2.0 = "JBool True" and ?t2.0 = None
      and ops = "[ADecide 8 (sample_decision ''bob'') no_context]"
      and b = "set_approval_status ApprovalConsumed 7 sample_approved"
      and d' = "pg_upsert ap_id 7 (set_approval_status ApprovalConsumed 7 sample_approved) sample_store"]
  by (simp add: sample_config_def sample_consume)

text \<open>Changed parameters burn the approval. \<open>consume\<close> with parameters of another digest fails with
  \<open>parameter hash changed\<close> and cancels the request, so that a later \<open>consume\<close> with the original
  parameters fails as well.\<close>

theorem approval_tampering_cancels:
  assumes "stored_under_own_id ap_id d" and "pg_get d i = Some a" and "ap_status a = ApprovalApproved"
    and "matchesTenant (ap_tenantId a) t" and "ap_parameterHash a \<noteq> hashParameters sha lt params"
  shows "\<exists>d'. approval_consume sha lt now i params t d = (Inl (approvalInvalid ''parameter hash changed''), d')
    \<and> map_option ap_status (pg_get d' i) = Some ApprovalCancelled
    \<and> (\<exists>e. fst (approval_consume sha lt now2 i params2 t2 d') = Inl e)"
proof -
  let ?b = "set_approval_status ApprovalCancelled now a"
  have id: "ap_id a = i" using assms(1,2) by (rule docs.get_id)
  then have call: "approval_consume sha lt now i params t d
      = (Inl (approvalInvalid ''parameter hash changed''), pg_upsert ap_id now ?b d)"
    using assms by (simp add: approval_consume_def getFresh_def consume_write_def approval_update_cases)
  have got: "pg_get (pg_upsert ap_id now ?b d) i = Some ?b" using id by (simp add: pg_get_upsert)
  show ?thesis
    using call got consume_not_approved [OF docs.invar_put [OF assms(1)] got] by simp
qed

theorem approval_tampering_cancels_witness:
  "\<exists>d'. approval_consume id (\<lambda>_ _. False) 7 ''a1'' (JBool False) (Some ''t1'') sample_store
       = (Inl (approvalInvalid ''parameter hash changed''), d')
     \<and> map_option ap_status (pg_get d' ''a1'') = Some ApprovalCancelled
     \<and> (\<exists>e. fst (approval_consume id (\<lambda>_ _. False) 8 ''a1'' (JBool True) None d') = Inl e)"
  by (rule approval_tampering_cancels [where a = sample_approved]) (simp_all add: matchesTenant_def sample_hash)

text \<open>The parameter digest ignores the order of object keys: two objects with the same members,
  whose keys are distinct and strictly ordered by the collation, serialise to the same text.\<close>

theorem canonicalize_key_order_irrelevant:
  assumes trans: "\<And>a b c. lt a b \<Longrightarrow> lt b c \<Longrightarrow> lt a c" and irr: "\<And>a. \<not> lt a a"
    and tot: "\<And>a b. a \<noteq> b \<Longrightarrow> lt a b \<or> lt b a"
    and "distinct (map fst kvs)" and "mset kvs = mset kvs'"
  shows "canonicalize lt (JObj kvs) = canonicalize lt (JObj kvs')"
proof -
  let ?lt = "\<lambda>a b. lt (fst a) (fst b)"
  have ins: "insert_by ?lt x (insert_by ?lt y xs) = insert_by ?lt y (insert_by ?lt x xs)"
    if "fst x \<noteq> fst y" for x y :: "string \<times> json" and xs
    using insert_by_commute_keys [of lt x y] trans irr tot that by blast
  have "sort_by ?lt xs = sort_by ?lt ys"
    if "mset xs = mset ys" "distinct (map fst xs)" for xs ys :: "(string \<times> json) list"
    using that
  proof (induction xs arbitrary: ys)
    case Nil
    then show ?case by simp
  next
    case (Cons x xs)
    have front: "sort_by ?lt (us @ x # vs) = sort_by ?lt (x # us @ vs)"
      if "\<forall>u \<in> set us. fst u \<noteq> fst x" for us vs
      using that by (induction us) (auto simp: ins)
    obtain us vs where ys: "ys = us @ x # vs"
      using Cons.prems(1) by (metis list.set_intros(1) set_mset_mset split_list)
    then have m: "mset xs = mset (us @ vs)" using Cons.prems(1) by simp
    then have "set us \<subseteq> set xs" by (metis Un_iff set_append set_mset_mset subsetI)
    then have "\<forall>u \<in> set us. fst u \<noteq> fst x"
      using Cons.prems(2) by (metis distinct.simps(2) image_eqI list.map(2) list.set_map subsetD)
    then show ?case using Cons.IH [OF m] Cons.prems(2) front ys by simp
  qed
  then show ?thesis using assms(4,5) by (simp add: Let_def)
qed

theorem canonicalize_key_order_irrelevant_witness:
  "canonicalize (<) (JObj [(''b'', JNum 1), (''a'', JNull)])
   = canonicalize (<) (JObj [(''a'', JNull), (''b'', JNum 1)])"
  by (rule canonicalize_key_order_irrelevant) (auto simp: neq_iff)

text \<open>Consumption does not survive interleaving. Two \<open>consume\<close> calls that both read the approved
  request before either writes are both accepted.\<close>

theorem approval_consume_race:
  assumes "stored_under_own_id ap_id d" and "pg_get d i = Some a" and "ap_status a = ApprovalApproved"
    and "ap_parameterHash a = hashParameters sha lt params" and "matchesTenant (ap_tenantId a) t"
  shows "let (read1, d1) = getFresh now1 i t d; (read2, d2) = getFresh now2 i t d1;
             (res1, d3) = consume_write sha lt now3 params (projr read1) d2;
             (res2, d4) = consume_write sha lt now4 params (projr read2) d3
         in isl res1 = False \<and> isl res2 = False"
proof -
  have id: "ap_id a = i" using assms(1,2) by (rule docs.get_id)
  show ?thesis using assms(2-5) id
    by (simp add: Let_def getFresh_def consume_write_def approval_update_cases pg_get_upsert)
qed

theorem approval_consume_race_witness:
  "let (res1, d3) = consume_write id (\<lambda>_ _. False) 7 (JBool True) sample_approved sample_store;
       (res2, d4) = consume_write id (\<lambda>_ _. False) 8 (JBool True) sample_approved d3
   in isl res1 = False \<and> isl res2 = False"
  using approval_consume_race [where d = sample_store and i = "''a1''" and a = sample_approved and sha = id
      and lt = "\<lambda>_ _. False" and params = "JBool True" and t = "Some ''t1''" and ?now1.0 = 5 and ?now2.0 = 6
      and ?now3.0 = 7 and ?now4.0 = 8]
  by (simp add: sample_hash matchesTenant_def getFresh_def)

end
