(* ===== verification/TenantScope.thy ===== *)
theory TenantScope
  imports Prelude "HOL-Library.Char_ord" "HOL-Library.List_Lexorder"
begin

text \<open>
  Tenant scopes: \<open>backend/src/modules/security/tenant-scope.service.ts\<close> with the entities of
  \<open>backend/src/persistence/entities/tenant.entity.ts\<close> and the scope types of
  \<open>backend/src/shared/security-types.ts\<close>.

  A JavaScript \<open>Map\<close> is an association list in insertion order: \<open>set\<close> replaces in place or appends,
  which is \<open>AList.update\<close>. \<open>lt a b\<close> stands for \<open>a.localeCompare(b) < 0\<close>.
\<close>

section \<open>Data\<close>

datatype TenantType = Group | Company
datatype TenantStatus = TenantActive | TenantSuspended

record tenant =
  te_id :: string
  te_name :: string
  te_code :: string
  te_type :: TenantType
  te_parentId :: "string option"
  te_status :: TenantStatus
  te_settings :: jobject
  te_createdAt :: instant
  te_updatedAt :: instant
  te_deletedAt :: "instant option"
  te_version :: int

datatype TenantMembershipSubjectType = SubjectUser | SubjectGroup | SubjectExternalGroup
datatype TenantMembershipType = MOwner | MAdmin | MOperator | MAuditor | MMember
datatype TenantMembershipStatus = MembershipActive | MembershipRevoked | MembershipExpired

record membership =
  me_id :: string
  me_subjectType :: TenantMembershipSubjectType
  me_subjectId :: string
  me_tenantId :: string
  me_membershipType :: TenantMembershipType
  me_status :: TenantMembershipStatus
  me_effectiveFrom :: instant
  me_effectiveUntil :: "instant option"
  me_createdAt :: instant
  me_updatedAt :: instant
  me_createdBy :: "string option"
  me_updatedBy :: "string option"
  me_revokedAt :: "instant option"
  me_revokedBy :: "string option"
  me_expiredAt :: "instant option"
  me_version :: int

datatype TenantScopeType = ScopeSelf | ScopeSubtree | ScopeExplicit | ScopeSystem
datatype ResourceOwnerType = OwnerSystem | OwnerGroup | OwnerTenant
datatype TenantMode = ModeSingle | ModeHierarchical

record tenant_scope =
  ts_type :: TenantScopeType
  ts_rootTenantId :: "string option"
  ts_tenantIds :: "string list option"

record scope_filter =
  sf_tenantIds :: "string list option"
  sf_ownerTypes :: "ResourceOwnerType list option"

record scoped_resource =
  sr_tenantId :: "string option"
  sr_ownerType :: "ResourceOwnerType option"

record tenant_context =
  tc_mode :: TenantMode
  tc_currentTenantId :: string

record accessible_tenant =
  at_tenantId :: string
  at_name :: string
  at_code :: string
  at_type :: TenantType
  at_parentTenantId :: "string option"
  at_membershipType :: TenantMembershipType
  at_membershipStatus :: TenantMembershipStatus
  at_current :: bool
  at_canSwitch :: bool
  at_mode :: TenantMode
  at_scopeType :: TenantScopeType

type_synonym tenant_index = "(string \<times> tenant) list"

definition scopeDenied :: error where
  "scopeDenied = AppError ''TENANT_SCOPE_DENIED''"

section \<open>Operations\<close>

definition allowsSubtree :: "TenantMembershipType \<Rightarrow> bool" where
  "allowsSubtree mt \<longleftrightarrow> mt = MOwner \<or> mt = MAdmin \<or> mt = MOperator"

definition buildTenantIndex :: "tenant list \<Rightarrow> tenant_index" where
  "buildTenantIndex ts = fold (\<lambda>t. AList.update (te_id t) t) (filter (\<lambda>t. te_status t = TenantActive) ts) []"

definition requireActiveTenant :: "string option \<Rightarrow> tenant_index \<Rightarrow> tenant result" where
  "requireActiveTenant tid ix =
    (case (if truthy tid then map_of ix (the tid) else None) of
       None \<Rightarrow> Inl scopeDenied | Some t \<Rightarrow> Inr t)"

definition collectSubtreeTenantIds :: "string \<Rightarrow> tenant_index \<Rightarrow> string list" where
  "collectSubtreeTenantIds rootId ix = (case map_of ix rootId of
     None \<Rightarrow> []
   | Some root \<Rightarrow>
       if te_status root \<noteq> TenantActive \<or> te_type root \<noteq> Group then []
       else te_id root # map te_id (filter (\<lambda>t. te_parentId t = Some (te_id root) \<and> te_type t = Company
              \<and> te_status t = TenantActive) (map snd ix)))"

definition resolveMembershipTenantIds :: "membership \<Rightarrow> tenant_index \<Rightarrow> string list" where
  "resolveMembershipTenantIds m ix = (case map_of ix (me_tenantId m) of
     None \<Rightarrow> []
   | Some t \<Rightarrow>
       if te_status t \<noteq> TenantActive then []
       else if te_type t = Group \<and> allowsSubtree (me_membershipType m) then collectSubtreeTenantIds (te_id t) ix
       else [te_id t])"

definition resolveAccessibleTenantIds :: "membership list \<Rightarrow> tenant list \<Rightarrow> string list" where
  "resolveAccessibleTenantIds ms ts =
    (let ix = buildTenantIndex ts in set_dedup (concat (map (\<lambda>m. resolveMembershipTenantIds m ix) ms)))"

fun all_active :: "string list \<Rightarrow> tenant_index \<Rightarrow> unit result" where
  "all_active [] ix = Inr ()"
| "all_active (i # is) ix = (case requireActiveTenant (Some i) ix of Inl e \<Rightarrow> Inl e | Inr _ \<Rightarrow> all_active is ix)"

definition normalize :: "tenant_scope \<Rightarrow> tenant list \<Rightarrow> string option \<Rightarrow> tenant_scope result" where
  "normalize scope ts currentTenantId =
    (let ix = buildTenantIndex ts in
     case ts_type scope of
       ScopeSystem \<Rightarrow> Inr \<lparr>ts_type = ScopeSystem, ts_rootTenantId = None, ts_tenantIds = None\<rparr>
     | ScopeSelf \<Rightarrow>
         (let root = orElse (ts_rootTenantId scope) currentTenantId in
          if \<not> truthy root then Inl scopeDenied
          else (case requireActiveTenant root ix of
                  Inl e \<Rightarrow> Inl e
                | Inr _ \<Rightarrow> Inr \<lparr>ts_type = ScopeSelf, ts_rootTenantId = root, ts_tenantIds = Some [the root]\<rparr>))
     | ScopeSubtree \<Rightarrow>
         (let root = ts_rootTenantId scope in
          if \<not> truthy root then Inl scopeDenied
          else (case requireActiveTenant root ix of
                  Inl e \<Rightarrow> Inl e
                | Inr t \<Rightarrow>
                    if te_type t \<noteq> Group then Inl scopeDenied
                    else Inr \<lparr>ts_type = ScopeSubtree, ts_rootTenantId = root,
                              ts_tenantIds = Some (collectSubtreeTenantIds (the root) ix)\<rparr>))
     | ScopeExplicit \<Rightarrow>
         (let is = set_dedup (getOrElse (ts_tenantIds scope) []) in
          if is = [] then Inl scopeDenied
          else (case all_active is ix of
                  Inl e \<Rightarrow> Inl e
                | Inr _ \<Rightarrow> Inr \<lparr>ts_type = ScopeExplicit, ts_rootTenantId = None, ts_tenantIds = Some is\<rparr>)))"

definition resolveManagementScope :: "string \<Rightarrow> membership list \<Rightarrow> tenant list \<Rightarrow> tenant_scope result" where
  "resolveManagementScope currentTenantId ms ts =
    (case map_of (buildTenantIndex ts) currentTenantId of
       None \<Rightarrow> Inl scopeDenied
     | Some t \<Rightarrow>
         let direct = find (\<lambda>m. me_tenantId m = currentTenantId \<and> me_status m = MembershipActive) ms;
             sub = (case direct of None \<Rightarrow> False
                    | Some m \<Rightarrow> te_type t = Group \<and> allowsSubtree (me_membershipType m))
         in normalize \<lparr>ts_type = (if sub then ScopeSubtree else ScopeSelf),
                       ts_rootTenantId = Some currentTenantId, ts_tenantIds = None\<rparr> ts None)"

definition scope_tenants :: "tenant_scope \<Rightarrow> string list" where
  "scope_tenants scope = (case ts_tenantIds scope of
     Some is \<Rightarrow> is
   | None \<Rightarrow> if truthy (ts_rootTenantId scope) then [the (ts_rootTenantId scope)] else [])"

definition allowsResource :: "tenant_scope \<Rightarrow> scoped_resource \<Rightarrow> bool" where
  "allowsResource scope r =
    (let owner = orElse (sr_ownerType r) (if truthy (sr_tenantId r) then Some OwnerTenant else None) in
     if ts_type scope = ScopeSystem then owner = Some OwnerSystem
     else if owner \<noteq> Some OwnerTenant \<or> \<not> truthy (sr_tenantId r) then False
     else the (sr_tenantId r) \<in> set (scope_tenants scope))"

definition toFilter :: "tenant_scope \<Rightarrow> scope_filter" where
  "toFilter scope =
    (if ts_type scope = ScopeSystem then \<lparr>sf_tenantIds = None, sf_ownerTypes = Some [OwnerSystem]\<rparr>
     else \<lparr>sf_tenantIds = Some (scope_tenants scope), sf_ownerTypes = Some [OwnerTenant]\<rparr>)"

definition scopeTypeForAccessibleTenant ::
  "membership \<Rightarrow> tenant \<Rightarrow> tenant_context \<Rightarrow> bool \<Rightarrow> TenantScopeType" where
  "scopeTypeForAccessibleTenant m t ctx direct =
    (if te_id t = tc_currentTenantId ctx
     then (if te_type t = Group \<and> allowsSubtree (me_membershipType m) then ScopeSubtree else ScopeSelf)
     else if direct then ScopeExplicit else ScopeSubtree)"

definition accessible_entry :: "membership \<Rightarrow> tenant \<Rightarrow> tenant_context \<Rightarrow> nat \<times> accessible_tenant" where
  "accessible_entry m t ctx =
    (let direct = (te_id t = me_tenantId m) in
     ((if te_id t = tc_currentTenantId ctx then 4 else 0) + (if direct then 2 else 0),
      \<lparr>at_tenantId = te_id t, at_name = te_name t, at_code = te_code t, at_type = te_type t,
       at_parentTenantId = te_parentId t, at_membershipType = me_membershipType m,
       at_membershipStatus = me_status m, at_current = (te_id t = tc_currentTenantId ctx),
       at_canSwitch = direct, at_mode = tc_mode ctx,
       at_scopeType = scopeTypeForAccessibleTenant m t ctx direct\<rparr>))"

text \<open>The body of the inner loop: an entry replaces another of strictly smaller priority.\<close>

definition add_accessible ::
  "tenant_index \<Rightarrow> tenant_context \<Rightarrow> membership \<times> string
   \<Rightarrow> (string \<times> (nat \<times> accessible_tenant)) list \<Rightarrow> (string \<times> (nat \<times> accessible_tenant)) list" where
  "add_accessible ix ctx mi entries = (case map_of ix (snd mi) of
     None \<Rightarrow> entries
   | Some t \<Rightarrow>
       if te_status t \<noteq> TenantActive then entries
       else let e = accessible_entry (fst mi) t ctx in
            (case map_of entries (te_id t) of
               None \<Rightarrow> AList.update (te_id t) e entries
             | Some old \<Rightarrow> if fst old < fst e then AList.update (te_id t) e entries else entries))"

definition resolveAccessibleTenants ::
  "(string \<Rightarrow> string \<Rightarrow> bool) \<Rightarrow> membership list \<Rightarrow> tenant list \<Rightarrow> tenant_context \<Rightarrow> accessible_tenant list" where
  "resolveAccessibleTenants lt ms ts ctx =
    (let ix = buildTenantIndex ts;
         entries = fold (add_accessible ix ctx)
           (concat (map (\<lambda>m. map (Pair m) (resolveMembershipTenantIds m ix)) ms)) []
     in sort_by (\<lambda>l r. lt (at_code l) (at_code r)) (map (snd \<circ> snd) entries))"

section \<open>Lemmas\<close>

text \<open>The index holds exactly the active tenants, each under its own id.\<close>

lemma fold_update_keys:
  "map_of (fold (\<lambda>t. AList.update (key t) t) ts al) k = Some t
   \<Longrightarrow> (map_of al k = Some t) \<or> (t \<in> set ts \<and> key t = k)"
  by (induction ts arbitrary: al) (fastforce simp: update_conv' split: if_splits)+

lemma fold_update_distinct:
  "distinct (map fst al) \<Longrightarrow> distinct (map fst (fold (\<lambda>t. AList.update (key t) t) ts al))"
  by (induction ts arbitrary: al) (auto simp: distinct_update)

lemma index_distinct: "distinct (map fst (buildTenantIndex ts))"
  by (simp add: buildTenantIndex_def fold_update_distinct)

lemma index_lookup:
  "map_of (buildTenantIndex ts) k = Some t \<Longrightarrow> t \<in> set ts \<and> te_id t = k \<and> te_status t = TenantActive"
  by (auto simp: buildTenantIndex_def dest!: fold_update_keys)

lemma index_values:
  "t \<in> snd ` set (buildTenantIndex ts) \<Longrightarrow> map_of (buildTenantIndex ts) (te_id t) = Some t"
proof -
  assume "t \<in> snd ` set (buildTenantIndex ts)"
  then obtain k where "map_of (buildTenantIndex ts) k = Some t"
    using index_distinct by (auto intro: map_of_is_SomeI)
  then show ?thesis using index_lookup by fastforce
qed

definition active_tenant :: "tenant list \<Rightarrow> string \<Rightarrow> bool" where
  "active_tenant ts i \<longleftrightarrow> (\<exists>t \<in> set ts. te_id t = i \<and> te_status t = TenantActive)"

lemma subtree_members:
  "i \<in> set (collectSubtreeTenantIds r (buildTenantIndex ts)) \<longleftrightarrow>
    (\<exists>root. map_of (buildTenantIndex ts) r = Some root \<and> te_type root = Group
      \<and> (i = r \<or> (\<exists>t. map_of (buildTenantIndex ts) i = Some t \<and> te_parentId t = Some r \<and> te_type t = Company)))"
proof (cases "map_of (buildTenantIndex ts) r")
  case None
  then show ?thesis by (simp add: collectSubtreeTenantIds_def)
next
  case (Some root)
  let ?ix = "buildTenantIndex ts"
  have root: "te_id root = r" "te_status root = TenantActive" using index_lookup [OF Some] by auto
  have "i \<in> te_id ` {t \<in> snd ` set ?ix. te_parentId t = Some r \<and> te_type t = Company \<and> te_status t = TenantActive}
      \<longleftrightarrow> (\<exists>t. map_of ?ix i = Some t \<and> te_parentId t = Some r \<and> te_type t = Company)"
  proof
    assume "\<exists>t. map_of ?ix i = Some t \<and> te_parentId t = Some r \<and> te_type t = Company"
    then obtain t where t: "map_of ?ix i = Some t" "te_parentId t = Some r" "te_type t = Company" by blast
    then have "t \<in> snd ` set ?ix" by (metis image_eqI map_of_SomeD snd_conv)
    then show "i \<in> te_id ` {t \<in> snd ` set ?ix. te_parentId t = Some r \<and> te_type t = Company \<and> te_status t = TenantActive}"
      using t index_lookup [OF t(1)] by auto
  qed (auto dest!: index_values)
  then show ?thesis using Some root by (auto simp: collectSubtreeTenantIds_def)
qed

lemma subtree_active: "i \<in> set (collectSubtreeTenantIds r (buildTenantIndex ts)) \<Longrightarrow> active_tenant ts i"
  by (auto simp: subtree_members active_tenant_def dest!: index_lookup)

lemma requireActive_Inr:
  "requireActiveTenant tid (buildTenantIndex ts) = Inr t \<longleftrightarrow>
     truthy tid \<and> map_of (buildTenantIndex ts) (the tid) = Some t"
  by (auto simp: requireActiveTenant_def split: option.splits if_splits)

lemma all_active_Inr:
  "all_active is ix = Inr () \<longleftrightarrow> (\<forall>i \<in> set is. \<exists>t. requireActiveTenant (Some i) ix = Inr t)"
  by (induction "is") (auto split: sum.splits)

lemma membership_ids_active:
  assumes "i \<in> set (resolveMembershipTenantIds m (buildTenantIndex ts))"
  shows "\<exists>t. map_of (buildTenantIndex ts) i = Some t"
proof (cases "map_of (buildTenantIndex ts) (me_tenantId m)")
  case None
  then show ?thesis using assms by (simp add: resolveMembershipTenantIds_def)
next
  case (Some t)
  then show ?thesis using assms index_lookup [OF Some]
    by (auto simp: resolveMembershipTenantIds_def subtree_members split: if_splits)
qed

lemma membership_ids_active_tenant:
  "i \<in> set (resolveMembershipTenantIds m (buildTenantIndex ts)) \<Longrightarrow> active_tenant ts i"
  by (auto simp: active_tenant_def dest!: membership_ids_active index_lookup)

text \<open>Normalisation produces these shapes only.\<close>

lemma normalize_cases:
  assumes "normalize scope ts cur = Inr s"
  obtains (system) "s = \<lparr>ts_type = ScopeSystem, ts_rootTenantId = None, ts_tenantIds = None\<rparr>"
  | (self) r t where "r \<noteq> []" "map_of (buildTenantIndex ts) r = Some t"
      "s = \<lparr>ts_type = ScopeSelf, ts_rootTenantId = Some r, ts_tenantIds = Some [r]\<rparr>"
  | (subtree) r t where "r \<noteq> []" "map_of (buildTenantIndex ts) r = Some t" "te_type t = Group"
      "s = \<lparr>ts_type = ScopeSubtree, ts_rootTenantId = Some r,
            ts_tenantIds = Some (collectSubtreeTenantIds r (buildTenantIndex ts))\<rparr>"
  | (explicit) "is" where "is \<noteq> []" "distinct is"
      "\<forall>i \<in> set is. i \<noteq> [] \<and> (\<exists>t. map_of (buildTenantIndex ts) i = Some t)"
      "s = \<lparr>ts_type = ScopeExplicit, ts_rootTenantId = None, ts_tenantIds = Some is\<rparr>"
proof (cases "ts_type scope")
  case ScopeSystem
  then show ?thesis using assms system by (simp add: normalize_def)
next
  case ScopeSelf
  then show ?thesis using assms self
    by (cases "orElse (ts_rootTenantId scope) cur")
      (auto simp: normalize_def Let_def requireActive_Inr split: if_splits sum.splits)
next
  case ScopeSubtree
  then show ?thesis using assms subtree
    by (cases "ts_rootTenantId scope")
      (auto simp: normalize_def Let_def requireActive_Inr split: if_splits sum.splits)
next
  case ScopeExplicit
  then show ?thesis using assms explicit [of "set_dedup (getOrElse (ts_tenantIds scope) [])"]
    by (auto simp: normalize_def Let_def all_active_Inr requireActive_Inr split: if_splits sum.splits)
qed

lemma set_dedup_distinct: "distinct xs \<Longrightarrow> set_dedup xs = xs"
proof (induction xs)
  case (Cons x xs)
  then have "filter (\<lambda>y. y \<noteq> x) xs = xs" by (auto intro: filter_True)
  then show ?case using Cons by simp
qed simp

text \<open>The loop of \<open>resolveAccessibleTenants\<close> keeps one entry per tenant.\<close>

definition entries_ok :: "(string \<times> (nat \<times> accessible_tenant)) list \<Rightarrow> bool" where
  "entries_ok entries \<longleftrightarrow> distinct (map fst entries) \<and> (\<forall>(k, p, a) \<in> set entries. at_tenantId a = k)"

lemma entries_ok_update:
  "entries_ok entries \<Longrightarrow> at_tenantId (snd e) = k \<Longrightarrow> entries_ok (AList.update k e entries)"
  using set_alist_update [of k e entries] by (fastforce simp: entries_ok_def distinct_update)

lemma add_accessible_ok:
  assumes "entries_ok entries" and "map_of (buildTenantIndex ts) i = Some t"
  shows "entries_ok (add_accessible (buildTenantIndex ts) ctx (m, i) entries)
    \<and> fst ` set (add_accessible (buildTenantIndex ts) ctx (m, i) entries) = insert i (fst ` set entries)"
proof -
  have t: "te_id t = i" "te_status t = TenantActive" using index_lookup [OF assms(2)] by auto
  have "at_tenantId (snd (accessible_entry m t ctx)) = i" by (simp add: accessible_entry_def Let_def t)
  then have "entries_ok (AList.update i (accessible_entry m t ctx) entries)"
    using assms(1) by (intro entries_ok_update)
  moreover have "map_of entries i = Some x \<Longrightarrow> i \<in> fst ` set entries" for x
    by (metis dom_map_of_conv_image_fst domI)
  ultimately show ?thesis using assms t
    by (cases "map_of entries i") (simp_all add: add_accessible_def Let_def insert_absorb)
qed

lemma add_accessible_fold:
  assumes "entries_ok entries" and "\<forall>(m, i) \<in> set mis. \<exists>t. map_of (buildTenantIndex ts) i = Some t"
  shows "entries_ok (fold (add_accessible (buildTenantIndex ts) ctx) mis entries)
    \<and> fst ` set (fold (add_accessible (buildTenantIndex ts) ctx) mis entries) = snd ` set mis \<union> fst ` set entries"
  using assms
proof (induction mis arbitrary: entries)
  case Nil
  then show ?case by simp
next
  case (Cons mi mis)
  obtain m i where mi: "mi = (m, i)" by (cases mi)
  with Cons.prems obtain t where "map_of (buildTenantIndex ts) i = Some t" by auto
  from add_accessible_ok [OF Cons.prems(1) this, of ctx m] Cons.IH Cons.prems(2) mi
  show ?case by auto
qed

section \<open>Properties\<close>


definition sample_tenant :: "string \<Rightarrow> TenantType \<Rightarrow> string option \<Rightarrow> tenant" where
  "sample_tenant i ty p = \<lparr>te_id = i, te_name = i, te_code = i, te_type = ty, te_parentId = p,
     te_status = TenantActive, te_settings = [], te_createdAt = 0, te_updatedAt = 0,
     te_deletedAt = None, te_version = 1\<rparr>"

definition sample_tenants :: "tenant list" where
  "sample_tenants = [sample_tenant ''g'' Group None, sample_tenant ''c1'' Company (Some ''g''),
     sample_tenant ''c2'' Company (Some ''h'')]"

lemma sample_subtree:
  "normalize \<lparr>ts_type = ScopeSubtree, ts_rootTenantId = Some ''g'', ts_tenantIds = None\<rparr> sample_tenants None
   = Inr \<lparr>ts_type = ScopeSubtree, ts_rootTenantId = Some ''g'', ts_tenantIds = Some [''g'', ''c1'']\<rparr>"
  by (simp add: normalize_def sample_tenants_def sample_tenant_def buildTenantIndex_def Let_def
      requireActiveTenant_def collectSubtreeTenantIds_def)


text \<open>Normalisation is idempotent: normalising a scope that \<open>normalize\<close> returned gives it back.\<close>

theorem normalize_idempotent:
  assumes "normalize scope ts cur = Inr s"
  shows "normalize s ts cur' = Inr s"
  using assms
proof (cases rule: normalize_cases)
  case (explicit "is")
  then have "all_active is (buildTenantIndex ts) = Inr ()"
    by (auto simp: all_active_Inr requireActive_Inr)
  then show ?thesis using explicit by (simp add: normalize_def set_dedup_distinct)
qed (auto simp: normalize_def requireActiveTenant_def)

theorem normalize_idempotent_witness:
  "normalize \<lparr>ts_type = ScopeSubtree, ts_rootTenantId = Some ''g'', ts_tenantIds = Some [''g'', ''c1'']\<rparr>
     sample_tenants (Some ''c2'')
   = Inr \<lparr>ts_type = ScopeSubtree, ts_rootTenantId = Some ''g'', ts_tenantIds = Some [''g'', ''c1'']\<rparr>"
  by (rule normalize_idempotent [OF sample_subtree])

text \<open>The query filter and the check in memory agree: a resource is admitted by a scope exactly
  when its owner type is among the owner types of \<open>toFilter\<close> and, where the filter names tenants, its
  tenant is a non-empty one of them.\<close>

theorem toFilter_agrees:
  "allowsResource scope r \<longleftrightarrow>
     (let owner = orElse (sr_ownerType r) (if truthy (sr_tenantId r) then Some OwnerTenant else None);
          f = toFilter scope
      in (\<exists>o'. owner = Some o' \<and> o' \<in> set (getOrElse (sf_ownerTypes f) []))
         \<and> (case sf_tenantIds f of None \<Rightarrow> True
            | Some is \<Rightarrow> truthy (sr_tenantId r) \<and> the (sr_tenantId r) \<in> set is))"
  by (auto simp: allowsResource_def toFilter_def Let_def)

text \<open>The list of accessible tenants shows each tenant once, and shows exactly the tenants of
  \<open>resolveAccessibleTenantIds\<close>, all of them active.\<close>

theorem accessible_tenants_agree:
  "distinct (map at_tenantId (resolveAccessibleTenants lt ms ts ctx))
   \<and> at_tenantId ` set (resolveAccessibleTenants lt ms ts ctx) = set (resolveAccessibleTenantIds ms ts)
   \<and> (\<forall>i \<in> set (resolveAccessibleTenantIds ms ts). active_tenant ts i)"
proof -
  let ?ix = "buildTenantIndex ts"
  let ?mis = "concat (map (\<lambda>m. map (Pair m) (resolveMembershipTenantIds m ?ix)) ms)"
  let ?es = "fold (add_accessible ?ix ctx) ?mis []"
  have "\<forall>(m, i) \<in> set ?mis. \<exists>t. map_of ?ix i = Some t" by (auto dest: membership_ids_active)
  then have ok: "entries_ok ?es" and keys: "fst ` set ?es = snd ` set ?mis"
    using add_accessible_fold [of "[]" ?mis ts ctx] by (auto simp: entries_ok_def)
  have ids: "map (at_tenantId \<circ> (snd \<circ> snd)) ?es = map fst ?es"
    using ok by (auto simp: entries_ok_def)
  have perm: "mset (map at_tenantId (resolveAccessibleTenants lt ms ts ctx)) = mset (map fst ?es)"
    by (simp add: resolveAccessibleTenants_def Let_def flip: ids) (simp add: multiset.map_comp comp_def)
  have "distinct (map at_tenantId (resolveAccessibleTenants lt ms ts ctx))"
    using perm ok mset_eq_imp_distinct_iff [OF perm] by (simp add: entries_ok_def)
  moreover have "at_tenantId ` set (resolveAccessibleTenants lt ms ts ctx) = set (resolveAccessibleTenantIds ms ts)"
    using mset_eq_setD [OF perm] keys
    by (simp add: resolveAccessibleTenantIds_def Let_def image_Union image_image)
  moreover have "\<forall>i \<in> set (resolveAccessibleTenantIds ms ts). active_tenant ts i"
    by (auto simp: resolveAccessibleTenantIds_def Let_def dest: membership_ids_active_tenant)
  ultimately show ?thesis by blast
qed

definition sample_membership :: membership where
  "sample_membership = \<lparr>me_id = ''m1'', me_subjectType = SubjectUser, me_subjectId = ''u1'',
     me_tenantId = ''g'', me_membershipType = MAdmin, me_status = MembershipActive, me_effectiveFrom = 0,
     me_effectiveUntil = None, me_createdAt = 0, me_updatedAt = 0, me_createdBy = None,
     me_updatedBy = None, me_revokedAt = None, me_revokedBy = None, me_expiredAt = None, me_version = 1\<rparr>"

theorem accessible_tenants_agree_witness:
  "at_tenantId ` set (resolveAccessibleTenants (<) [sample_membership] sample_tenants
      \<lparr>tc_mode = ModeHierarchical, tc_currentTenantId = ''g''\<rparr>) = {''g'', ''c1''}"
  using accessible_tenants_agree [of "(<)" "[sample_membership]" sample_tenants
      "\<lparr>tc_mode = ModeHierarchical, tc_currentTenantId = ''g''\<rparr>"]
  by (simp add: resolveAccessibleTenantIds_def resolveMembershipTenantIds_def sample_membership_def
      sample_tenants_def sample_tenant_def buildTenantIndex_def allowsSubtree_def collectSubtreeTenantIds_def)

end
