(* ===== verification/TenantHierarchy.thy ===== *)
theory TenantHierarchy
  imports TenantScope DocumentStore
begin

text \<open>
  The tenant hierarchy, \<open>backend/src/modules/security/domain/tenant.domain-service.ts\<close> over
  \<open>backend/src/modules/security/repository/tenant.repository.ts\<close>, with the settings of
  \<open>backend/src/shared/deployment-task-settings.ts\<close> and \<open>backend/src/shared/credential-health-settings.ts\<close>.

  \<open>tenant_db\<close> holds the rows of \<open>tenants\<close> and \<open>tenant_memberships\<close>, the subjects that exist as documents, and
  the audit entries. The keys, the check constraints and the trigger \<open>validate_tenant_hierarchy\<close> of the
  baseline migration are part of every write. No call is a transaction: what it wrote before it threw
  stays. \<open>audit\<close> is the audit service, the error its \<open>write\<close> throws for an entry; identifiers are UUIDs,
  and the empty string is the one text that is not.
\<close>

section \<open>State\<close>

record tenant_audit =
  tx_eventType :: string
  tx_actorType :: string
  tx_actorId :: string
  tx_action :: string
  tx_resourceType :: string
  tx_resourceId :: string
  tx_riskLevel :: string
  tx_detail :: jobject
  tx_tenantId :: string

record tenant_db =
  tn_tenants :: "tenant list"
  tn_memberships :: "membership list"
  tn_subjects :: "(string \<times> string) list"
  tn_audits :: "tenant_audit list"

type_synonym tenant_auditor = "tenant_audit \<Rightarrow> error option"

section \<open>Repository\<close>

definition getTenant :: "string \<Rightarrow> tenant_db \<Rightarrow> tenant option" where
  "getTenant i db = find (\<lambda>t. te_id t = i \<and> te_deletedAt t = None) (tn_tenants db)"

definition getTenantByCode :: "string \<Rightarrow> tenant_db \<Rightarrow> tenant option" where
  "getTenantByCode code db = find (\<lambda>t. te_code t = code \<and> te_deletedAt t = None) (tn_tenants db)"

definition repo_listTenants :: "(string \<Rightarrow> string \<Rightarrow> bool) \<Rightarrow> tenant_db \<Rightarrow> tenant list" where
  "repo_listTenants lt db = sort_by (\<lambda>a b. lt (te_code a) (te_code b)) (filter (\<lambda>t. te_deletedAt t = None) (tn_tenants db))"

definition row_with :: "tenant list \<Rightarrow> string \<Rightarrow> tenant option" where
  "row_with ts i = find (\<lambda>t. te_id t = i) ts"

text \<open>Following parents from \<open>cur\<close>: false when a row comes up that was visited before.\<close>

function acyclic_from :: "tenant list \<Rightarrow> string list \<Rightarrow> string option \<Rightarrow> bool" where
  "acyclic_from ts visited cur = (case cur of
     None \<Rightarrow> True
   | Some i \<Rightarrow>
       if i \<in> set visited then False
       else (case row_with ts i of None \<Rightarrow> True | Some t \<Rightarrow> acyclic_from ts (i # visited) (te_parentId t)))"
  by pat_completeness auto
termination
proof (relation "measure (\<lambda>(ts, visited, cur). card (te_id ` set ts - set visited))", goal_cases)
  case 1
  then show ?case by simp
next
  case (2 ts visited cur i t)
  then have "i \<in> te_id ` set ts" by (auto simp: row_with_def dest!: find_Some_iff_first)
  then have "te_id ` set ts - set (i # visited) \<subset> te_id ` set ts - set visited" using 2(2) by auto
  then show ?case by (simp add: psubset_card_mono)
qed

declare acyclic_from.simps [simp del]

text \<open>The trigger, on the table after the write.\<close>

definition validate_tenant_hierarchy :: "tenant list \<Rightarrow> tenant \<Rightarrow> unit result" where
  "validate_tenant_hierarchy ts new =
    (if te_status new = TenantSuspended \<and> (\<exists>t \<in> set ts. te_parentId t = Some (te_id new) \<and> te_status t = TenantActive)
     then Inl (DbError ''23514'')
     else (case te_parentId new of
       None \<Rightarrow> Inr ()
     | Some p \<Rightarrow> (case row_with ts p of
         None \<Rightarrow> Inl (DbError ''23503'')
       | Some parent \<Rightarrow>
           if te_type new \<noteq> Company \<or> te_type parent \<noteq> Group then Inl (DbError ''23514'')
           else if te_status parent \<noteq> TenantActive then Inl (DbError ''23514'')
           else if \<not> acyclic_from ts [te_id new] (Some p) then Inl (DbError ''23514'')
           else Inr ())))"

text \<open>The check constraints of a row.\<close>

definition tenant_row_ok :: "tenant \<Rightarrow> bool" where
  "tenant_row_ok t \<longleftrightarrow> (te_type t = Group) = (te_parentId t = None) \<and> te_parentId t \<noteq> Some (te_id t) \<and> 0 < te_version t"

definition repo_createTenant ::
  "instant \<Rightarrow> string \<Rightarrow> string \<Rightarrow> string \<Rightarrow> TenantType \<Rightarrow> string option \<Rightarrow> tenant_db \<Rightarrow> tenant result \<times> tenant_db" where
  "repo_createTenant now i name code type parentId db =
    (let row = \<lparr>te_id = i, te_name = name, te_code = code, te_type = type, te_parentId = parentId, te_status = TenantActive,
           te_settings = [], te_createdAt = now, te_updatedAt = now, te_deletedAt = None, te_version = 1\<rparr>;
         ts = tn_tenants db @ [row]
     in if parentId = Some [] then (Inl (DbError ''22P02''), db)
        else if i \<in> te_id ` set (tn_tenants db) \<or> code \<in> te_code ` set (tn_tenants db) then (Inl (DbError ''23505''), db)
        else if \<not> tenant_row_ok row then (Inl (DbError ''23514''), db)
        else (case validate_tenant_hierarchy ts row of
                Inl e \<Rightarrow> (Inl e, db) | Inr _ \<Rightarrow> (Inr row, db\<lparr>tn_tenants := ts\<rparr>)))"

record tenant_patch =
  pa_parentId :: "string option option"
  pa_status :: "TenantStatus option"
  pa_settings :: "jobject option"

definition patched :: "instant \<Rightarrow> tenant_patch \<Rightarrow> tenant \<Rightarrow> tenant" where
  "patched now p t = t\<lparr>te_parentId := getOrElse (pa_parentId p) (te_parentId t), te_status := getOrElse (pa_status p) (te_status t),
     te_settings := getOrElse (pa_settings p) (te_settings t), te_updatedAt := now, te_version := te_version t + 1\<rparr>"

definition updateTenant :: "instant \<Rightarrow> string \<Rightarrow> tenant_patch \<Rightarrow> tenant_db \<Rightarrow> tenant result \<times> tenant_db" where
  "updateTenant now i p db =
    (let ts = upd_where (\<lambda>t. te_id t = i) (patched now p) (tn_tenants db)
     in if pa_parentId p = Some (Some []) then (Inl (DbError ''22P02''), db)
        else (case row_with ts i of
          None \<Rightarrow> (Inl (PlainError ''cannot read the updated row''), db)
        | Some t \<Rightarrow>
            if \<not> tenant_row_ok t then (Inl (DbError ''23514''), db)
            else if pa_parentId p = None \<and> pa_status p = None then (Inr t, db\<lparr>tn_tenants := ts\<rparr>)
            else (case validate_tenant_hierarchy ts t of
                    Inl e \<Rightarrow> (Inl e, db) | Inr _ \<Rightarrow> (Inr t, db\<lparr>tn_tenants := ts\<rparr>))))"

record membership_filter =
  mf_subjectType :: "TenantMembershipSubjectType option"
  mf_subjectId :: "string option"
  mf_tenantId :: "string option"
  mf_status :: "TenantMembershipStatus option"
  mf_at :: "instant option"

definition in_force :: "instant \<Rightarrow> membership \<Rightarrow> bool" where
  "in_force at m \<longleftrightarrow> me_effectiveFrom m \<le> at \<and> (case me_effectiveUntil m of None \<Rightarrow> True | Some u \<Rightarrow> at < u)"

definition repo_listMemberships :: "membership_filter \<Rightarrow> tenant_db \<Rightarrow> membership list" where
  "repo_listMemberships f db = sort_by (\<lambda>a b. me_createdAt a < me_createdAt b) (filter (\<lambda>m.
     (mf_subjectType f = None \<or> mf_subjectType f = Some (me_subjectType m))
     \<and> (mf_subjectId f = None \<or> mf_subjectId f = Some (me_subjectId m))
     \<and> (mf_tenantId f = None \<or> mf_tenantId f = Some (me_tenantId m))
     \<and> (mf_status f = None \<or> mf_status f = Some (me_status m))
     \<and> (case mf_at f of None \<Rightarrow> True
        | Some at \<Rightarrow> mf_status f = Some MembershipRevoked \<or> mf_status f = Some MembershipExpired \<or> in_force at m))
    (tn_memberships db))"

definition same_membership :: "membership \<Rightarrow> membership \<Rightarrow> bool" where
  "same_membership a b \<longleftrightarrow> me_subjectType a = me_subjectType b \<and> me_subjectId a = me_subjectId b \<and> me_tenantId a = me_tenantId b"

record add_membership =
  am_subjectType :: TenantMembershipSubjectType
  am_subjectId :: string
  am_tenantId :: string
  am_membershipType :: TenantMembershipType
  am_actorId :: string
  am_contextTenantId :: "string option"
  am_effectiveFrom :: "instant option"
  am_effectiveUntil :: "instant option"

definition createMembership :: "instant \<Rightarrow> string \<Rightarrow> add_membership \<Rightarrow> tenant_db \<Rightarrow> membership result \<times> tenant_db" where
  "createMembership now i inp db =
    (let row = \<lparr>me_id = i, me_subjectType = am_subjectType inp, me_subjectId = am_subjectId inp, me_tenantId = am_tenantId inp,
           me_membershipType = am_membershipType inp, me_status = MembershipActive,
           me_effectiveFrom = getOrElse (am_effectiveFrom inp) now, me_effectiveUntil = am_effectiveUntil inp,
           me_createdAt = now, me_updatedAt = now, me_createdBy = None, me_updatedBy = None, me_revokedAt = None,
           me_revokedBy = None, me_expiredAt = None, me_version = 1\<rparr>
     in if (case me_effectiveUntil row of None \<Rightarrow> False | Some u \<Rightarrow> u \<le> me_effectiveFrom row) then (Inl (DbError ''23514''), db)
        else if i \<in> me_id ` set (tn_memberships db)
           \<or> (\<exists>m \<in> set (tn_memberships db). same_membership m row \<and> me_status m = MembershipActive) then (Inl (DbError ''23505''), db)
        else if am_tenantId inp \<notin> te_id ` set (tn_tenants db) then (Inl (DbError ''23503''), db)
        else (Inr row, db\<lparr>tn_memberships := tn_memberships db @ [row]\<rparr>))"

definition repo_revokeMembership :: "string \<Rightarrow> string \<Rightarrow> instant \<Rightarrow> tenant_db \<Rightarrow> membership result \<times> tenant_db" where
  "repo_revokeMembership i actorId revokedAt db =
    (let p = (\<lambda>m. me_id m = i \<and> me_status m = MembershipActive);
         f = (\<lambda>m. m\<lparr>me_status := MembershipRevoked, me_updatedAt := revokedAt, me_updatedBy := Some actorId,
                    me_revokedAt := Some revokedAt, me_revokedBy := Some actorId, me_version := me_version m + 1\<rparr>)
     in (case find p (tn_memberships db) of
           None \<Rightarrow> (Inl (PlainError ''cannot read the updated row''), db)
         | Some m \<Rightarrow> (Inr (f m), db\<lparr>tn_memberships := upd_where p f (tn_memberships db)\<rparr>)))"

definition expires :: "instant \<Rightarrow> membership \<Rightarrow> bool" where
  "expires at m \<longleftrightarrow> me_status m = MembershipActive \<and> (case me_effectiveUntil m of None \<Rightarrow> False | Some u \<Rightarrow> u \<le> at)"

definition expired_membership :: "instant \<Rightarrow> membership \<Rightarrow> membership" where
  "expired_membership at m = m\<lparr>me_status := MembershipExpired, me_updatedAt := at, me_expiredAt := me_effectiveUntil m,
     me_version := me_version m + 1\<rparr>"

definition repo_expireMemberships :: "instant \<Rightarrow> tenant_db \<Rightarrow> membership list \<times> tenant_db" where
  "repo_expireMemberships at db =
    (map (expired_membership at) (filter (expires at) (tn_memberships db)),
     db\<lparr>tn_memberships := upd_where (expires at) (expired_membership at) (tn_memberships db)\<rparr>)"

definition subjectExists :: "TenantMembershipSubjectType \<Rightarrow> string \<Rightarrow> tenant_db \<Rightarrow> bool" where
  "subjectExists st i db \<longleftrightarrow>
     ((case st of SubjectUser \<Rightarrow> ''security.users'' | SubjectGroup \<Rightarrow> ''security.groups'' | SubjectExternalGroup \<Rightarrow> ''security.groups''), i)
       \<in> set (tn_subjects db)"

section \<open>Settings\<close>

definition normalizeDeploymentTaskSettings :: "json option \<Rightarrow> jobject" where
  "normalizeDeploymentTaskSettings v =
    [(''dryRunEnabled'', JBool (jget (asRecord v) ''dryRunEnabled'' = Some (JBool True))), (''approvalEnabled'', JBool False)]"

definition mergeDeploymentTaskSettings :: "jobject \<Rightarrow> jobject \<Rightarrow> jobject" where
  "mergeDeploymentTaskSettings current patch = spread current
    [(''deploymentTasks'', JObj (normalizeDeploymentTaskSettings (Some (JObj
       (spread (spread (normalizeDeploymentTaskSettings (jget current ''deploymentTasks'')) patch) [(''approvalEnabled'', JBool False)])))))]"

text \<open>\<open>num v\<close> is \<open>Number(v)\<close> when that is an integer.\<close>

definition normalizeCredentialHealthSettings :: "(json option \<Rightarrow> int option) \<Rightarrow> json option \<Rightarrow> int" where
  "normalizeCredentialHealthSettings num v = (case num (jget (asRecord v) ''intervalMinutes'') of
     None \<Rightarrow> 720 | Some n \<Rightarrow> if 1 \<le> n \<and> n \<le> 43200 then n else 720)"

definition mergeCredentialHealthSettings :: "(json option \<Rightarrow> int option) \<Rightarrow> jobject \<Rightarrow> jobject \<Rightarrow> jobject" where
  "mergeCredentialHealthSettings num current patch = spread current
    [(''credentialHealth'', JObj [(''intervalMinutes'', JNum (normalizeCredentialHealthSettings num (Some (JObj
       (spread [(''intervalMinutes'', JNum (normalizeCredentialHealthSettings num (jget current ''credentialHealth'')))] patch)))))])]"

section \<open>Service\<close>

definition tenant_writeAudit :: "tenant_auditor \<Rightarrow> tenant_audit \<Rightarrow> tenant_db \<Rightarrow> unit result \<times> tenant_db" where
  "tenant_writeAudit audit entry db = (case audit entry of
     Some e \<Rightarrow> (Inl e, db) | None \<Rightarrow> (Inr (), db\<lparr>tn_audits := tn_audits db @ [entry]\<rparr>))"

definition requireTenant :: "string \<Rightarrow> tenant_db \<Rightarrow> tenant result" where
  "requireTenant i db = (case getTenant i db of None \<Rightarrow> Inl (AppError ''RESOURCE_NOT_FOUND'') | Some t \<Rightarrow> Inr t)"

definition assertParentShape :: "TenantType \<Rightarrow> string option \<Rightarrow> tenant_db \<Rightarrow> unit result" where
  "assertParentShape type parentId db =
    (if type = Group then (if truthy parentId then Inl (AppError ''TENANT_PARENT_INVALID'') else Inr ())
     else if \<not> truthy parentId then Inl (AppError ''TENANT_PARENT_INVALID'')
     else (case requireTenant (the parentId) db of
             Inl e \<Rightarrow> Inl e
           | Inr parent \<Rightarrow> if te_type parent \<noteq> Group \<or> te_status parent \<noteq> TenantActive
                          then Inl (AppError ''TENANT_PARENT_INVALID'') else Inr ()))"

definition assertNoCycle :: "string \<Rightarrow> string \<Rightarrow> tenant_db \<Rightarrow> unit result" where
  "assertNoCycle tenantId parentId db =
    (if acyclic_from (filter (\<lambda>t. te_deletedAt t = None) (tn_tenants db)) [tenantId] (if parentId = [] then None else Some parentId)
     then Inr () else Inl (AppError ''TENANT_CYCLE_DETECTED''))"

fun type_text :: "TenantType \<Rightarrow> string" where
  "type_text Group = ''GROUP''" | "type_text Company = ''COMPANY''"

fun tenant_status_text :: "TenantStatus \<Rightarrow> string" where
  "tenant_status_text TenantActive = ''ACTIVE''" | "tenant_status_text TenantSuspended = ''SUSPENDED''"

record create_tenant =
  ct_name :: string
  ct_code :: string
  ct_type :: TenantType
  ct_parentId :: "string option"
  ct_actorId :: string
  ct_contextTenantId :: "string option"

definition createTenant ::
  "tenant_auditor \<Rightarrow> instant \<Rightarrow> string \<Rightarrow> create_tenant \<Rightarrow> tenant_db \<Rightarrow> tenant result \<times> tenant_db" where
  "createTenant audit now i inp db =
    (let name = trim (ct_name inp); code = trim (ct_code inp)
     in if name = [] \<or> code = [] then (Inl (AppError ''VALIDATION_FAILED''), db)
        else if getTenantByCode code db \<noteq> None then (Inl (AppError ''RESOURCE_ALREADY_EXISTS''), db)
        else (case assertParentShape (ct_type inp) (ct_parentId inp) db of
          Inl e \<Rightarrow> (Inl e, db)
        | Inr _ \<Rightarrow> andThen (repo_createTenant now i name code (ct_type inp) (ct_parentId inp) db) (\<lambda>t db1.
            andThen (tenant_writeAudit audit
              \<lparr>tx_eventType = ''tenant.created'', tx_actorType = ''user'', tx_actorId = ct_actorId inp, tx_action = ''tenant.create'',
               tx_resourceType = ''tenant'', tx_resourceId = te_id t, tx_riskLevel = ''medium'',
               tx_detail = [(''code'', JStr (te_code t)), (''name'', JStr (te_name t)), (''type'', JStr (type_text (te_type t)))]
                 @ str_opt ''parentId'' (te_parentId t) @ [(''status'', JStr (tenant_status_text (te_status t)))],
               tx_tenantId = getOrElse (ct_contextTenantId inp) (getOrElse (ct_parentId inp) (te_id t))\<rparr> db1)
              (\<lambda>_ db2. (Inr t, db2)))))"

definition setParent :: "instant \<Rightarrow> string \<Rightarrow> string option \<Rightarrow> tenant_db \<Rightarrow> tenant result \<times> tenant_db" where
  "setParent now tenantId parentId db = (case requireTenant tenantId db of
     Inl e \<Rightarrow> (Inl e, db)
   | Inr t \<Rightarrow> (case parentId of
       None \<Rightarrow>
         if te_type t = Company then (Inl (AppError ''TENANT_PARENT_INVALID''), db)
         else updateTenant now tenantId \<lparr>pa_parentId = Some None, pa_status = None, pa_settings = None\<rparr> db
     | Some p \<Rightarrow> (case assertNoCycle tenantId p db of
         Inl e \<Rightarrow> (Inl e, db)
       | Inr _ \<Rightarrow> (case assertParentShape (te_type t) (Some p) db of
           Inl e \<Rightarrow> (Inl e, db)
         | Inr _ \<Rightarrow> updateTenant now tenantId \<lparr>pa_parentId = Some (Some p), pa_status = None, pa_settings = None\<rparr> db))))"

definition setStatus ::
  "tenant_auditor \<Rightarrow> instant \<Rightarrow> string \<Rightarrow> TenantStatus \<Rightarrow> string \<Rightarrow> string option \<Rightarrow> tenant_db \<Rightarrow> tenant result \<times> tenant_db" where
  "setStatus audit now tenantId status actorId contextTenantId db = (case requireTenant tenantId db of
     Inl e \<Rightarrow> (Inl e, db)
   | Inr t \<Rightarrow>
       if status = TenantSuspended \<and> te_type t = Group
          \<and> (\<exists>x \<in> set (tn_tenants db). te_deletedAt x = None \<and> te_parentId x = Some tenantId \<and> te_status x = TenantActive)
       then (Inl (AppError ''TENANT_PARENT_INVALID''), db)
       else andThen (updateTenant now tenantId \<lparr>pa_parentId = None, pa_status = Some status, pa_settings = None\<rparr> db) (\<lambda>u db1.
         andThen (tenant_writeAudit audit
           \<lparr>tx_eventType = ''tenant.status.changed'', tx_actorType = ''user'', tx_actorId = actorId,
            tx_action = (if status = TenantActive then ''tenant.resume'' else ''tenant.suspend''), tx_resourceType = ''tenant'',
            tx_resourceId = te_id u, tx_riskLevel = ''medium'',
            tx_detail = [(''beforeStatus'', JStr (tenant_status_text (te_status t))),
              (''afterStatus'', JStr (tenant_status_text (te_status u))), (''tenantId'', JStr (te_id u))],
            tx_tenantId = getOrElse contextTenantId (getOrElse (te_parentId t) (te_id t))\<rparr> db1)
           (\<lambda>_ db2. (Inr u, db2))))"

definition settings_audit :: "string \<Rightarrow> string \<Rightarrow> string \<Rightarrow> string \<Rightarrow> jobject \<Rightarrow> string option \<Rightarrow> tenant_audit" where
  "settings_audit action risk tenantId actorId detail contextTenantId =
    \<lparr>tx_eventType = ''settings.updated'', tx_actorType = ''user'', tx_actorId = actorId, tx_action = action,
     tx_resourceType = ''settings'', tx_resourceId = tenantId, tx_riskLevel = risk, tx_detail = detail,
     tx_tenantId = getOrElse contextTenantId tenantId\<rparr>"

definition updateDeploymentTaskSettings ::
  "tenant_auditor \<Rightarrow> instant \<Rightarrow> string \<Rightarrow> jobject \<Rightarrow> string \<Rightarrow> string option \<Rightarrow> tenant_db \<Rightarrow> tenant result \<times> tenant_db" where
  "updateDeploymentTaskSettings audit now tenantId patch actorId contextTenantId db = (case requireTenant tenantId db of
     Inl e \<Rightarrow> (Inl e, db)
   | Inr t \<Rightarrow> andThen (updateTenant now tenantId \<lparr>pa_parentId = None, pa_status = None,
         pa_settings = Some (mergeDeploymentTaskSettings (te_settings t) patch)\<rparr> db) (\<lambda>u db1.
       andThen (tenant_writeAudit audit (settings_audit ''settings.deployment_tasks.update'' ''medium'' tenantId actorId
           [(''deploymentTasks'', JObj (normalizeDeploymentTaskSettings (jget (te_settings u) ''deploymentTasks'')))] contextTenantId) db1)
         (\<lambda>_ db2. (Inr u, db2))))"

definition getDeploymentTaskSettings :: "string \<Rightarrow> tenant_db \<Rightarrow> jobject result" where
  "getDeploymentTaskSettings tenantId db = (case requireTenant tenantId db of
     Inl e \<Rightarrow> Inl e | Inr t \<Rightarrow> Inr (normalizeDeploymentTaskSettings (jget (te_settings t) ''deploymentTasks'')))"

definition updateCredentialHealthSettings ::
  "(json option \<Rightarrow> int option) \<Rightarrow> tenant_auditor \<Rightarrow> instant \<Rightarrow> string \<Rightarrow> jobject \<Rightarrow> string \<Rightarrow> string option \<Rightarrow> tenant_db
   \<Rightarrow> tenant result \<times> tenant_db" where
  "updateCredentialHealthSettings num audit now tenantId patch actorId contextTenantId db = (case requireTenant tenantId db of
     Inl e \<Rightarrow> (Inl e, db)
   | Inr t \<Rightarrow> andThen (updateTenant now tenantId \<lparr>pa_parentId = None, pa_status = None,
         pa_settings = Some (mergeCredentialHealthSettings num (te_settings t) patch)\<rparr> db) (\<lambda>u db1.
       andThen (tenant_writeAudit audit (settings_audit ''settings.credential_health.update'' ''low'' tenantId actorId
           [(''credentialHealth'', JObj [(''intervalMinutes'',
              JNum (normalizeCredentialHealthSettings num (jget (te_settings u) ''credentialHealth'')))])] contextTenantId) db1)
         (\<lambda>_ db2. (Inr u, db2))))"

definition getCredentialHealthSettings :: "(json option \<Rightarrow> int option) \<Rightarrow> string \<Rightarrow> tenant_db \<Rightarrow> int result" where
  "getCredentialHealthSettings num tenantId db = (case requireTenant tenantId db of
     Inl e \<Rightarrow> Inl e | Inr t \<Rightarrow> Inr (normalizeCredentialHealthSettings num (jget (te_settings t) ''credentialHealth'')))"

section \<open>Memberships\<close>

fun subject_type_text :: "TenantMembershipSubjectType \<Rightarrow> string" where
  "subject_type_text SubjectUser = ''user''" | "subject_type_text SubjectGroup = ''group''"
| "subject_type_text SubjectExternalGroup = ''external_group''"

fun membership_type_text :: "TenantMembershipType \<Rightarrow> string" where
  "membership_type_text MOwner = ''owner''" | "membership_type_text MAdmin = ''admin''"
| "membership_type_text MOperator = ''operator''" | "membership_type_text MAuditor = ''auditor''"
| "membership_type_text MMember = ''member''"

definition membership_audit :: "string \<Rightarrow> string \<Rightarrow> string \<Rightarrow> string \<Rightarrow> string \<Rightarrow> membership \<Rightarrow> jobject \<Rightarrow> string \<Rightarrow> tenant_audit" where
  "membership_audit event actorType actorId action risk m extra contextTenantId =
    \<lparr>tx_eventType = event, tx_actorType = actorType, tx_actorId = actorId, tx_action = action,
     tx_resourceType = ''tenantMembership'', tx_resourceId = me_id m, tx_riskLevel = risk,
     tx_detail = [(''tenantId'', JStr (me_tenantId m)), (''subjectType'', JStr (subject_type_text (me_subjectType m))),
       (''subjectId'', JStr (me_subjectId m))] @ extra, tx_tenantId = contextTenantId\<rparr>"

fun audit_expired :: "tenant_auditor \<Rightarrow> membership list \<Rightarrow> tenant_db \<Rightarrow> unit result \<times> tenant_db" where
  "audit_expired audit [] db = (Inr (), db)"
| "audit_expired audit (m # ms) db = andThen (tenant_writeAudit audit
     (membership_audit ''tenant.membership.expired'' ''system'' ''tenant-lifecycle'' ''tenant.membership.expire'' ''low'' m
        (case me_expiredAt m of None \<Rightarrow> [] | Some x \<Rightarrow> [(''expiredAt'', JNum x)]) (me_tenantId m)) db)
     (\<lambda>_ db1. audit_expired audit ms db1)"

definition expireMemberships :: "tenant_auditor \<Rightarrow> instant \<Rightarrow> tenant_db \<Rightarrow> unit result \<times> tenant_db" where
  "expireMemberships audit at db = (let (expired, db1) = repo_expireMemberships at db in audit_expired audit expired db1)"

definition no_filter :: membership_filter where
  "no_filter = \<lparr>mf_subjectType = None, mf_subjectId = None, mf_tenantId = None, mf_status = None, mf_at = None\<rparr>"

definition addMembership ::
  "tenant_auditor \<Rightarrow> instant \<Rightarrow> string \<Rightarrow> add_membership \<Rightarrow> tenant_db \<Rightarrow> membership result \<times> tenant_db" where
  "addMembership audit now i inp db = andThen (expireMemberships audit now db) (\<lambda>_ db0.
     case requireTenant (am_tenantId inp) db0 of
       Inl e \<Rightarrow> (Inl e, db0)
     | Inr t \<Rightarrow>
         if te_status t \<noteq> TenantActive then (Inl (AppError ''TENANT_PARENT_INVALID''), db0)
         else if \<not> subjectExists (am_subjectType inp) (am_subjectId inp) db0 then (Inl (AppError ''RESOURCE_NOT_FOUND''), db0)
         else if repo_listMemberships \<lparr>mf_subjectType = Some (am_subjectType inp), mf_subjectId = Some (am_subjectId inp),
                mf_tenantId = Some (am_tenantId inp), mf_status = Some MembershipActive, mf_at = Some now\<rparr> db0 \<noteq> []
         then (Inl (AppError ''RESOURCE_ALREADY_EXISTS''), db0)
         else andThen (createMembership now i inp db0) (\<lambda>m db1.
           andThen (tenant_writeAudit audit (membership_audit ''tenant.membership.created'' ''user'' (am_actorId inp)
               ''tenant.membership.create'' ''medium'' m [(''membershipType'', JStr (membership_type_text (me_membershipType m)))]
               (getOrElse (am_contextTenantId inp) (me_tenantId m))) db1)
             (\<lambda>_ db2. (Inr m, db2))))"

definition tenant_revokeMembership ::
  "tenant_auditor \<Rightarrow> string \<Rightarrow> string \<Rightarrow> instant \<Rightarrow> string option \<Rightarrow> tenant_db \<Rightarrow> membership result \<times> tenant_db" where
  "tenant_revokeMembership audit i actorId revokedAt contextTenantId db = andThen (expireMemberships audit revokedAt db) (\<lambda>_ db0.
     case find (\<lambda>m. me_id m = i) (repo_listMemberships no_filter db0) of
       None \<Rightarrow> (Inl (AppError ''RESOURCE_NOT_FOUND''), db0)
     | Some current \<Rightarrow>
         if me_status current \<noteq> MembershipActive then (Inl (AppError ''VALIDATION_FAILED''), db0)
         else andThen (repo_revokeMembership i actorId revokedAt db0) (\<lambda>m db1.
           andThen (tenant_writeAudit audit (membership_audit ''tenant.membership.revoked'' ''user'' actorId
               ''tenant.membership.revoke'' ''medium'' m [] (getOrElse contextTenantId (me_tenantId m))) db1)
             (\<lambda>_ db2. (Inr m, db2))))"

definition tenant_listMemberships :: "tenant_auditor \<Rightarrow> instant \<Rightarrow> membership_filter \<Rightarrow> tenant_db \<Rightarrow> membership list result \<times> tenant_db" where
  "tenant_listMemberships audit now f db = andThen (expireMemberships audit now db) (\<lambda>_ db0.
     (Inr (repo_listMemberships (f\<lparr>mf_at := Some (getOrElse (mf_at f) now)\<rparr>) db0), db0))"

section \<open>Invariant\<close>

definition tenants_ok :: "tenant list \<Rightarrow> bool" where
  "tenants_ok ts \<longleftrightarrow> distinct (map te_id ts) \<and> distinct (map te_code ts)
     \<and> (\<forall>t \<in> set ts. tenant_row_ok t \<and> (\<forall>p. te_parentId t = Some p \<longrightarrow>
          (\<exists>q \<in> set ts. te_id q = p \<and> te_type q = Group \<and> (te_status t = TenantActive \<longrightarrow> te_status q = TenantActive))))"

definition memberships_ok :: "membership list \<Rightarrow> bool" where
  "memberships_ok ms \<longleftrightarrow> distinct (map me_id ms)
     \<and> (\<forall>a \<in> set ms. \<forall>b \<in> set ms. me_status a = MembershipActive \<and> me_status b = MembershipActive \<and> same_membership a b \<longrightarrow> a = b)"

definition tenant_db_ok :: "tenant_db \<Rightarrow> bool" where
  "tenant_db_ok db \<longleftrightarrow> tenants_ok (tn_tenants db) \<and> memberships_ok (tn_memberships db)
     \<and> (\<forall>m \<in> set (tn_memberships db). me_tenantId m \<in> te_id ` set (tn_tenants db))"

lemma row_with_Some: "row_with ts i = Some t \<Longrightarrow> t \<in> set ts \<and> te_id t = i"
  by (auto simp: row_with_def dest: find_Some_iff_first)

lemma row_with_unique:
  assumes "distinct (map te_id ts)" and "t \<in> set ts"
  shows "row_with ts (te_id t) = Some t"
proof (cases "row_with ts (te_id t)")
  case None
  then show ?thesis using assms(2) by (auto simp: row_with_def find_None_iff_all)
next
  case (Some x)
  then have "x = t" using assms row_with_Some [OF Some] by (auto intro: distinct_key_eq [of te_id ts])
  then show ?thesis using Some by simp
qed

lemma validate_parent:
  assumes "validate_tenant_hierarchy ts t = Inr ()"
  shows "(te_parentId t = Some p \<longrightarrow> (\<exists>q \<in> set ts. te_id q = p \<and> te_type q = Group \<and> te_status q = TenantActive))
    \<and> (te_status t = TenantSuspended \<longrightarrow> (\<forall>x \<in> set ts. te_parentId x = Some (te_id t) \<longrightarrow> te_status x \<noteq> TenantActive))"
  using assms by (auto simp: validate_tenant_hierarchy_def split: if_splits option.splits dest!: row_with_Some)

lemma tenants_ok_snoc:
  assumes "tenants_ok ts" and "te_id r \<notin> te_id ` set ts" and "te_code r \<notin> te_code ` set ts" and "tenant_row_ok r"
    and "validate_tenant_hierarchy (ts @ [r]) r = Inr ()"
  shows "tenants_ok (ts @ [r])"
proof -
  have "\<exists>q \<in> set (ts @ [r]). te_id q = p \<and> te_type q = Group \<and> (te_status t = TenantActive \<longrightarrow> te_status q = TenantActive)"
    if t: "t \<in> set (ts @ [r])" and par: "te_parentId t = Some p" for t p
  proof (cases "t \<in> set ts")
    case True
    then obtain q where "q \<in> set ts" "te_id q = p \<and> te_type q = Group \<and> (te_status t = TenantActive \<longrightarrow> te_status q = TenantActive)"
      using assms(1) par by (auto simp: tenants_ok_def)
    then show ?thesis by (intro bexI [of _ q]) simp_all
  next
    case False
    then have "te_parentId r = Some p" using t par by simp
    then show ?thesis using validate_parent [OF assms(5), of p] by blast
  qed
  moreover have "distinct (map te_id (ts @ [r])) \<and> distinct (map te_code (ts @ [r]))" using assms(1-3) by (simp add: tenants_ok_def)
  moreover have "\<forall>t \<in> set (ts @ [r]). tenant_row_ok t" using assms(1,4) by (simp add: tenants_ok_def)
  ultimately show ?thesis unfolding tenants_ok_def by blast
qed

lemma patched_simps [simp]:
  "te_id (patched now p t) = te_id t" "te_code (patched now p t) = te_code t" "te_type (patched now p t) = te_type t"
  "te_deletedAt (patched now p t) = te_deletedAt t"
  by (simp_all add: patched_def)

lemma tenants_ok_upd:
  assumes ok: "tenants_ok ts" and r: "r \<in> set ts" "te_id r = i" and row: "tenant_row_ok (patched now p r)"
    and how: "pa_parentId p = None \<and> pa_status p = None
      \<or> validate_tenant_hierarchy (upd_where (\<lambda>t. te_id t = i) (patched now p) ts) (patched now p r) = Inr ()"
  shows "tenants_ok (upd_where (\<lambda>t. te_id t = i) (patched now p) ts)"
proof -
  let ?g = "\<lambda>t. if te_id t = i then patched now p t else t"
  let ?ts = "upd_where (\<lambda>t. te_id t = i) (patched now p) ts"
  have set: "set ?ts = ?g ` set ts" by (simp add: upd_where_def)
  have d: "distinct (map te_id ts)" using ok by (simp add: tenants_ok_def)
  have g: "te_id (?g t) = te_id t" "te_code (?g t) = te_code t" "te_type (?g t) = te_type t" for t by simp_all
  have same: "t = r" if "t \<in> set ts" "te_id t = i" for t using d r that by (auto intro: distinct_key_eq [of te_id ts])
  have kept: "te_status (?g t) = te_status t \<or> t = r" if "t \<in> set ts" for t using same that by auto
  have parent: "\<exists>q \<in> set ?ts. te_id q = x \<and> te_type q = Group \<and> (te_status (?g t) = TenantActive \<longrightarrow> te_status q = TenantActive)"
    if t: "t \<in> set ts" and x: "te_parentId (?g t) = Some x" for t x
  proof (cases "t = r \<and> \<not> (pa_parentId p = None \<and> pa_status p = None)")
    case True
    then have gr: "?g t = patched now p r" using r by simp
    have "\<exists>q \<in> set ?ts. te_id q = x \<and> te_type q = Group \<and> te_status q = TenantActive"
      using how True x validate_parent [of ?ts "patched now p r" x] unfolding gr by blast
    then show ?thesis by blast
  next
    case False
    have "te_parentId t = Some x \<and> te_status (?g t) = te_status t" using False x same t
      by (cases "te_id t = i") (auto simp: patched_def getOrElse_def)
    then obtain q where q: "q \<in> set ts" "te_id q = x" "te_type q = Group" "te_status (?g t) = TenantActive \<longrightarrow> te_status q = TenantActive"
      using ok t by (auto simp: tenants_ok_def)
    have "te_status (?g q) = TenantActive" if act: "te_status (?g t) = TenantActive"
    proof (rule ccontr)
      assume n: "te_status (?g q) \<noteq> TenantActive"
      then have "q = r" using kept [OF q(1)] q(4) act by auto
      then have gq: "?g q = patched now p r" using r by simp
      have "te_status (patched now p r) = TenantSuspended" using n unfolding gq by (cases "te_status (patched now p r)") auto
      moreover have "pa_status p \<noteq> None" using n q(4) act \<open>q = r\<close> unfolding gq
        by (cases "pa_status p") (auto simp: patched_def getOrElse_def)
      then have "validate_tenant_hierarchy ?ts (patched now p r) = Inr ()" using how by auto
      ultimately have "\<forall>z \<in> set ?ts. te_parentId z = Some (te_id (patched now p r)) \<longrightarrow> te_status z \<noteq> TenantActive"
        using validate_parent by blast
      moreover have "?g t \<in> set ?ts" using t set by blast
      ultimately show False using act x q(2) \<open>q = r\<close> by simp
    qed
    then show ?thesis using q g by (intro bexI [of _ "?g q"]) (simp_all add: set)
  qed
  have rows: "tenant_row_ok (?g t)" if "t \<in> set ts" for t using same that row ok by (auto simp: tenants_ok_def)
  have "tenant_row_ok t' \<and> (\<forall>x. te_parentId t' = Some x \<longrightarrow> (\<exists>q \<in> set ?ts. te_id q = x \<and> te_type q = Group
      \<and> (te_status t' = TenantActive \<longrightarrow> te_status q = TenantActive)))" if t': "t' \<in> set ?ts" for t'
  proof -
    obtain t where t: "t \<in> set ts" "t' = ?g t" using t' unfolding set by (rule imageE)
    show ?thesis using rows [OF t(1)] parent [OF t(1)] unfolding t(2) by blast
  qed
  moreover have "map te_id ?ts = map te_id ts" "map te_code ?ts = map te_code ts" by (simp_all add: upd_where_def)
  ultimately show ?thesis using ok unfolding tenants_ok_def by auto
qed

lemma memberships_ok_upd:
  assumes "memberships_ok ms" and "\<And>m. me_id (f m) = me_id m" and "\<And>m. me_status (f m) \<noteq> MembershipActive"
  shows "memberships_ok (upd_where p f ms)"
proof -
  have "map me_id (upd_where p f ms) = map me_id ms" using assms(2) by (simp add: upd_where_def)
  moreover have "m \<in> set ms" if "m \<in> set (upd_where p f ms)" "me_status m = MembershipActive" for m
    using that assms(3) by (auto simp: upd_where_def)
  ultimately show ?thesis using assms(1) by (simp add: memberships_ok_def)
qed

section \<open>Operations keep the invariant\<close>

lemma andThen_ok:
  assumes "P (snd r)" and "\<And>x s. r = (Inr x, s) \<Longrightarrow> P s \<Longrightarrow> P (snd (k x s))"
  shows "P (snd (andThen r k))"
  using assms by (auto simp: andThen_def split: prod.splits sum.splits)

lemma repo_createTenant_ok:
  assumes "tenant_db_ok db"
  shows "tenant_db_ok (snd (repo_createTenant now i name code type parentId db))"
  using assms by (auto simp: repo_createTenant_def tenant_db_ok_def Let_def split: sum.splits intro!: tenants_ok_snoc)

lemma updateTenant_ok:
  assumes "tenant_db_ok db"
  shows "tenant_db_ok (snd (updateTenant now i p db))"
proof (cases "row_with (tn_tenants db) i")
  case None
  then have "row_with (upd_where (\<lambda>t. te_id t = i) (patched now p) (tn_tenants db)) i = None"
    by (auto simp: row_with_def find_None_iff_all upd_where_def)
  then show ?thesis using assms by (simp add: updateTenant_def Let_def)
next
  case (Some r)
  let ?ts = "upd_where (\<lambda>t. te_id t = i) (patched now p) (tn_tenants db)"
  have r: "r \<in> set (tn_tenants db)" "te_id r = i" using row_with_Some [OF Some] by auto
  have "find (\<lambda>t. te_id t = i) ?ts = Some (patched now p r)"
    using Some r(2) by (simp add: row_with_def find_upd_where_key)
  then have row: "row_with ?ts i = Some (patched now p r)" by (simp add: row_with_def)
  have "map te_id ?ts = map te_id (tn_tenants db)" by (simp add: upd_where_def)
  then have ids: "te_id ` set ?ts = te_id ` set (tn_tenants db)" by (metis set_map)
  have "tenants_ok ?ts" if "tenant_row_ok (patched now p r)"
    "pa_parentId p = None \<and> pa_status p = None \<or> validate_tenant_hierarchy ?ts (patched now p r) = Inr ()"
    using tenants_ok_upd [OF _ r that] assms by (simp add: tenant_db_ok_def)
  then show ?thesis using assms row ids
    by (auto simp: updateTenant_def Let_def tenant_db_ok_def split: sum.splits)
qed

lemma writeAudit_ok: "tenant_db_ok db \<Longrightarrow> tenant_db_ok (snd (tenant_writeAudit audit entry db))"
  by (simp add: tenant_writeAudit_def tenant_db_ok_def split: option.splits)

lemma audit_expired_ok: "tenant_db_ok db \<Longrightarrow> tenant_db_ok (snd (audit_expired audit ms db))"
proof (induction ms arbitrary: db)
  case Nil
  then show ?case by simp
next
  case (Cons m ms)
  show ?case unfolding audit_expired.simps by (rule andThen_ok [where P = tenant_db_ok]) (auto intro: writeAudit_ok Cons)
qed

lemma expireMemberships_ok:
  assumes "tenant_db_ok db"
  shows "tenant_db_ok (snd (expireMemberships audit at db))"
proof -
  have "memberships_ok (upd_where (expires at) (expired_membership at) (tn_memberships db))"
    using assms by (intro memberships_ok_upd) (simp_all add: tenant_db_ok_def expired_membership_def)
  moreover have "me_tenantId m \<in> te_id ` set (tn_tenants db)"
    if "m \<in> set (upd_where (expires at) (expired_membership at) (tn_memberships db))" for m
    using that assms by (auto simp: upd_where_def expired_membership_def tenant_db_ok_def)
  ultimately have "tenant_db_ok (db\<lparr>tn_memberships := upd_where (expires at) (expired_membership at) (tn_memberships db)\<rparr>)"
    using assms by (simp add: tenant_db_ok_def)
  then show ?thesis by (simp add: expireMemberships_def repo_expireMemberships_def audit_expired_ok)
qed

lemma createMembership_ok:
  assumes "tenant_db_ok db"
  shows "tenant_db_ok (snd (createMembership now i inp db))"
  using assms
  by (fastforce simp: createMembership_def tenant_db_ok_def memberships_ok_def same_membership_def Let_def split: option.splits)

lemma repo_revokeMembership_ok:
  assumes "tenant_db_ok db"
  shows "tenant_db_ok (snd (repo_revokeMembership i actor at db))"
  using assms by (auto simp: repo_revokeMembership_def tenant_db_ok_def Let_def upd_where_def split: option.splits
      intro!: memberships_ok_upd [unfolded upd_where_def])

datatype tenant_op =
    TCreate instant string create_tenant
  | TSetParent instant string "string option"
  | TSetStatus instant string TenantStatus string "string option"
  | TDeploymentSettings instant string jobject string "string option"
  | TCredentialSettings instant string jobject string "string option"
  | TAddMembership instant string add_membership
  | TRevokeMembership string string instant "string option"
  | TListMemberships instant membership_filter

fun tenant_apply :: "(json option \<Rightarrow> int option) \<Rightarrow> tenant_auditor \<Rightarrow> tenant_op \<Rightarrow> tenant_db \<Rightarrow> tenant_db" where
  "tenant_apply num audit (TCreate now i inp) db = snd (createTenant audit now i inp db)"
| "tenant_apply num audit (TSetParent now i p) db = snd (setParent now i p db)"
| "tenant_apply num audit (TSetStatus now i s actor ctx) db = snd (setStatus audit now i s actor ctx db)"
| "tenant_apply num audit (TDeploymentSettings now i patch actor ctx) db = snd (updateDeploymentTaskSettings audit now i patch actor ctx db)"
| "tenant_apply num audit (TCredentialSettings now i patch actor ctx) db = snd (updateCredentialHealthSettings num audit now i patch actor ctx db)"
| "tenant_apply num audit (TAddMembership now i inp) db = snd (addMembership audit now i inp db)"
| "tenant_apply num audit (TRevokeMembership i actor at ctx) db = snd (tenant_revokeMembership audit i actor at ctx db)"
| "tenant_apply num audit (TListMemberships now f) db = snd (tenant_listMemberships audit now f db)"

lemmas tenant_keeps = repo_createTenant_ok updateTenant_ok writeAudit_ok expireMemberships_ok createMembership_ok repo_revokeMembership_ok

lemma tenant_apply_ok:
  assumes "tenant_db_ok db"
  shows "tenant_db_ok (tenant_apply num audit op db)"
  using assms
  by (cases op) (auto simp: createTenant_def setParent_def setStatus_def updateDeploymentTaskSettings_def
      updateCredentialHealthSettings_def addMembership_def tenant_revokeMembership_def tenant_listMemberships_def Let_def
      split: sum.splits option.splits intro!: andThen_ok [where P = tenant_db_ok] tenant_keeps)

inductive tenant_step :: "(json option \<Rightarrow> int option) \<Rightarrow> tenant_auditor \<Rightarrow> tenant_db \<Rightarrow> tenant_db \<Rightarrow> bool" for num audit where
  "tenant_step num audit db (tenant_apply num audit op db)"

inductive_cases tenant_stepE: "tenant_step num audit db db'"

interpretation hierarchy: step_invariant "tenant_step num audit" tenant_db_ok for num audit
  by unfold_locales (auto elim!: tenant_stepE intro: tenant_apply_ok)

lemma tenants_ok_acyclic:
  assumes "tenants_ok ts"
  shows "acyclic_from ts [] (Some i)"
proof (cases "row_with ts i")
  case None
  then show ?thesis by (simp add: acyclic_from.simps)
next
  case (Some t)
  then have t: "t \<in> set ts" "te_id t = i" using row_with_Some by auto
  show ?thesis
  proof (cases "te_parentId t")
    case None
    then show ?thesis using Some by (simp add: acyclic_from.simps)
  next
    case (Some p)
    then obtain q where q: "q \<in> set ts" "te_id q = p" "te_type q = Group" using assms t by (auto simp: tenants_ok_def)
    then have "te_parentId q = None" "te_parentId t \<noteq> Some (te_id t)" using assms t by (auto simp: tenants_ok_def tenant_row_ok_def)
    moreover have "row_with ts p = Some q" using row_with_unique q assms by (auto simp: tenants_ok_def)
    ultimately show ?thesis using Some \<open>row_with ts i = Some t\<close> t(2) by (simp add: acyclic_from.simps)
  qed
qed

section \<open>Properties\<close>

text \<open>C39. The tenant forest. In every database the service can reach from empty tables, whether its calls succeed
  or throw, identifiers and codes are unique, groups are roots, every company hangs under an existing
  group, an active company never hangs under a suspended group, following parents ends, and a subject
  has at most one active membership in a tenant.\<close>

theorem tenant_forest:
  assumes "(tenant_step num audit)\<^sup>*\<^sup>* db0 db" and "tn_tenants db0 = []" and "tn_memberships db0 = []"
  shows "distinct (map te_id (tn_tenants db)) \<and> distinct (map te_code (tn_tenants db))
    \<and> (\<forall>t \<in> set (tn_tenants db). (case te_parentId t of
         None \<Rightarrow> te_type t = Group
       | Some p \<Rightarrow> te_type t = Company \<and> (\<exists>g \<in> set (tn_tenants db). te_id g = p \<and> te_type g = Group
           \<and> (te_status t = TenantActive \<longrightarrow> te_status g = TenantActive))))
    \<and> acyclic_from (tn_tenants db) [] (Some i)
    \<and> (\<forall>a \<in> set (tn_memberships db). \<forall>b \<in> set (tn_memberships db). me_status a = MembershipActive \<and> me_status b = MembershipActive
         \<and> me_subjectType a = me_subjectType b \<and> me_subjectId a = me_subjectId b \<and> me_tenantId a = me_tenantId b \<longrightarrow> a = b)"
proof -
  have "tenant_db_ok db0" using assms(2,3) by (simp add: tenant_db_ok_def tenants_ok_def memberships_ok_def)
  with assms(1) have ok: "tenant_db_ok db" by (rule hierarchy.steps_preserve)
  then have ts: "tenants_ok (tn_tenants db)" and ms: "memberships_ok (tn_memberships db)" by (simp_all add: tenant_db_ok_def)
  have "case te_parentId t of None \<Rightarrow> te_type t = Group
      | Some p \<Rightarrow> te_type t = Company \<and> (\<exists>g \<in> set (tn_tenants db). te_id g = p \<and> te_type g = Group
           \<and> (te_status t = TenantActive \<longrightarrow> te_status g = TenantActive))" if t: "t \<in> set (tn_tenants db)" for t
  proof (cases "te_parentId t")
    case None
    then show ?thesis using ts t by (simp add: tenants_ok_def tenant_row_ok_def)
  next
    case (Some p)
    then have "te_type t = Company" using ts t by (cases "te_type t") (simp_all add: tenants_ok_def tenant_row_ok_def)
    then show ?thesis using Some ts t unfolding tenants_ok_def by simp
  qed
  moreover have "distinct (map te_id (tn_tenants db)) \<and> distinct (map te_code (tn_tenants db))" using ts by (simp add: tenants_ok_def)
  moreover note tenants_ok_acyclic [OF ts, of i]
  ultimately show ?thesis using ms by (simp add: memberships_ok_def same_membership_def)
qed

definition group_input :: create_tenant where
  "group_input = \<lparr>ct_name = ''Acme'', ct_code = ''acme'', ct_type = Group, ct_parentId = None, ct_actorId = ''root'', ct_contextTenantId = None\<rparr>"

definition empty_tenants :: tenant_db where
  "empty_tenants = \<lparr>tn_tenants = [], tn_memberships = [], tn_subjects = [], tn_audits = []\<rparr>"

lemma group_created:
  "\<exists>t. tn_tenants (tenant_apply num (\<lambda>_. None) (TCreate 5 ''g1'' group_input) empty_tenants) = [t] \<and> te_id t = ''g1'' \<and> te_parentId t = None"
  by (simp add: createTenant_def group_input_def empty_tenants_def getTenantByCode_def assertParentShape_def truthy_def andThen_def
      repo_createTenant_def tenant_row_ok_def validate_tenant_hierarchy_def tenant_writeAudit_def trim_def is_ws_def Let_def)

theorem tenant_forest_witness:
  "acyclic_from (tn_tenants (tenant_apply (\<lambda>_. None) (\<lambda>_. None) (TCreate 5 ''g1'' group_input) empty_tenants)) [] (Some ''g1'')"
proof -
  have "(tenant_step (\<lambda>_. None) (\<lambda>_. None))\<^sup>*\<^sup>* empty_tenants (tenant_apply (\<lambda>_. None) (\<lambda>_. None) (TCreate 5 ''g1'' group_input) empty_tenants)"
    by (rule r_into_rtranclp) (rule tenant_step.intros)
  from tenant_forest [OF this, of "''g1''"] show ?thesis by (simp add: empty_tenants_def)
qed

text \<open>Settings read back: the internal approval stays off whatever is stored or sent, and the interval of the
  credential checks is between one minute and thirty days whatever \<open>Number\<close> makes of the stored value.\<close>

lemma deployment_settings_approval_off:
  "jget (normalizeDeploymentTaskSettings v) ''approvalEnabled'' = Some (JBool False)"
  by (simp add: normalizeDeploymentTaskSettings_def jget_def)

lemma map_of_rev_distinct: "distinct (map fst xs) \<Longrightarrow> map_of (rev xs) = map_of xs"
  by (rule map_of_inject_set [THEN iffD2]) (simp_all add: rev_map [symmetric])

lemma deployment_settings_roundtrip:
  assumes "map_of patch ''dryRunEnabled'' = Some (JBool b)" and "distinct (map fst patch)"
  shows "normalizeDeploymentTaskSettings (jget (mergeDeploymentTaskSettings current patch) ''deploymentTasks'')
    = [(''dryRunEnabled'', JBool b), (''approvalEnabled'', JBool False)]"
proof -
  have "map_of (rev patch) ''dryRunEnabled'' = Some (JBool b)" using assms by (simp add: map_of_rev_distinct)
  then show ?thesis
    by (simp add: mergeDeploymentTaskSettings_def jget_def map_of_spread map_add_def normalizeDeploymentTaskSettings_def asRecord_def)
qed

lemma credential_interval_bounds:
  "1 \<le> normalizeCredentialHealthSettings num v \<and> normalizeCredentialHealthSettings num v \<le> 43200"
  by (simp add: normalizeCredentialHealthSettings_def split: option.splits)

end
