(* ===== verification/Rbac.thy ===== *)
theory Rbac
  imports DocumentStore TenantScope Approvals
begin

text \<open>
  Role based access control: \<open>backend/src/modules/rbac/rbac.service.ts\<close> over the entities of
  \<open>backend/src/persistence/entities/rbac.entity.ts\<close>, with the action aliases of
  \<open>backend/src/modules/security/business-permission.registry.ts\<close>.

  The state is the four document repositories of the service. The business permission resolver is
  attached from outside and is an optional argument of \<open>can\<close>. A refusal is audited and a failure of
  that audit is swallowed, so \<open>can\<close> returns the decision with the entry it writes, if any.
\<close>

section \<open>Data\<close>

datatype UserStatus = UserActive | UserDisabled

record user_entity =
  us_id :: string
  us_username :: string
  us_displayName :: string
  us_email :: "string option"
  us_tenantId :: "string option"
  us_tenantName :: "string option"
  us_identityProvider :: "string option"
  us_externalId :: "string option"
  us_externalSourceId :: "string option"
  us_lastSyncedAt :: "instant option"
  us_syncSource :: "string option"
  us_preferences :: "jobject option"
  us_status :: UserStatus
  us_createdAt :: instant
  us_updatedAt :: instant

record role_entity =
  ro_id :: string
  ro_code :: string
  ro_name :: string
  ro_description :: "string option"
  ro_builtin :: bool

record user_role =
  ur_id :: string
  ur_userId :: string
  ur_roleId :: string
  ur_createdAt :: instant

datatype SubjectKind = KUser | KGroup | KRole | KPlugin | KExecutor | KSystem
datatype Effect = AllowEffect | DenyEffect

record resource_scope =
  rs_tenantId :: "string option"
  rs_ownerType :: "ResourceOwnerType option"
  rs_tenantScope :: "tenant_scope option"
  rs_trustDomainId :: "string option"
  rs_caId :: "string option"
  rs_providerId :: "string option"
  rs_resourceType :: "string option"
  rs_resourceId :: "string option"
  rs_teamId :: "string option"
  rs_environment :: "string option"
  rs_zoneId :: "string option"
  rs_assetTag :: "string option"
  rs_ownerId :: "string option"

record policy =
  po_id :: string
  po_subjectType :: SubjectKind
  po_subjectId :: string
  po_effect :: Effect
  po_actions :: "string list"
  po_resourceTypes :: "string list"
  po_scope :: resource_scope
  po_conditions :: "jobject option"

record subject =
  su_id :: string
  su_type :: SubjectKind
  su_roleIds :: "string list option"
  su_scope :: "resource_scope option"

record resource =
  re_type :: string
  re_id :: "string option"
  re_scope :: "resource_scope option"

record business_resource =
  br_type :: string
  br_id :: "string option"
  br_tenantId :: "string option"

record business_resolver =
  isActionAllowed :: "subject \<Rightarrow> string \<Rightarrow> business_resource \<Rightarrow> bool"
  isActionExplicitlyDenied :: "subject \<Rightarrow> string \<Rightarrow> business_resource \<Rightarrow> bool"

record decision =
  de_allowed :: bool
  de_reason :: string
  de_matchedPolicyIds :: "string list"

record deny_audit =
  dn_actorType :: string
  dn_actorId :: string
  dn_action :: string
  dn_resourceType :: string
  dn_resourceId :: "string option"
  dn_reason :: string

record rbac =
  rb_users :: "user_entity docs"
  rb_roles :: "role_entity docs"
  rb_userRoles :: "user_role docs"
  rb_policies :: "policy docs"

definition empty_scope :: resource_scope where
  "empty_scope = \<lparr>rs_tenantId = None, rs_ownerType = None, rs_tenantScope = None, rs_trustDomainId = None,
     rs_caId = None, rs_providerId = None, rs_resourceType = None, rs_resourceId = None, rs_teamId = None,
     rs_environment = None, rs_zoneId = None, rs_assetTag = None, rs_ownerId = None\<rparr>"

section \<open>Users, roles and assignments\<close>

definition isEntityExistsError :: "error \<Rightarrow> bool" where
  "isEntityExistsError e = (case e of PlainError msg \<Rightarrow> startsWith msg ''entity already exists:'' | _ \<Rightarrow> False)"

text \<open>The shape the \<open>IfAbsent\<close> operations share: read, create, and on a lost race read again.\<close>

definition create_if_absent :: "('a \<Rightarrow> string) \<Rightarrow> instant \<Rightarrow> 'a \<Rightarrow> 'a docs \<Rightarrow> 'a result \<times> 'a docs" where
  "create_if_absent idOf now e d = (case pg_get d (idOf e) of
     Some x \<Rightarrow> (Inr x, d)
   | None \<Rightarrow> (case pg_create idOf now e d of
       Inr (x, d') \<Rightarrow> (Inr x, d')
     | Inl err \<Rightarrow> (case pg_get d (idOf e) of
         Some created \<Rightarrow> if isEntityExistsError err then (Inr created, d) else (Inl err, d)
       | None \<Rightarrow> (Inl err, d))))"

definition createUser :: "instant \<Rightarrow> user_entity \<Rightarrow> rbac \<Rightarrow> user_entity result \<times> rbac" where
  "createUser now u s = (case pg_create us_id now (u\<lparr>us_createdAt := now, us_updatedAt := now\<rparr>) (rb_users s) of
     Inl e \<Rightarrow> (Inl e, s) | Inr (x, d) \<Rightarrow> (Inr x, s\<lparr>rb_users := d\<rparr>))"

definition createUserIfAbsent :: "instant \<Rightarrow> user_entity \<Rightarrow> rbac \<Rightarrow> user_entity result \<times> rbac" where
  "createUserIfAbsent now u s =
    (let (r, d) = create_if_absent us_id now (u\<lparr>us_createdAt := now, us_updatedAt := now\<rparr>) (rb_users s)
     in (r, s\<lparr>rb_users := d\<rparr>))"

definition updateUser ::
  "instant \<Rightarrow> string \<Rightarrow> (user_entity \<Rightarrow> user_entity) \<Rightarrow> rbac \<Rightarrow> user_entity result \<times> rbac" where
  "updateUser now i patch s =
    (case pg_update us_id now i (\<lambda>u. (patch u)\<lparr>us_updatedAt := now\<rparr>) (rb_users s) of
       Inl e \<Rightarrow> (Inl e, s) | Inr (x, d) \<Rightarrow> (Inr x, s\<lparr>rb_users := d\<rparr>))"

definition deleteUser :: "string \<Rightarrow> rbac \<Rightarrow> rbac" where
  "deleteUser userId s =
    (let links = pg_list (\<lambda>r. ur_userId r = userId) (rb_userRoles s)
     in s\<lparr>rb_userRoles := fold pg_delete (map ur_id links) (rb_userRoles s),
          rb_users := pg_delete userId (rb_users s)\<rparr>)"

definition getUser :: "string \<Rightarrow> rbac \<Rightarrow> user_entity option" where
  "getUser i s = pg_get (rb_users s) i"

definition first_of :: "'a list \<Rightarrow> 'a option" where
  "first_of xs = (case xs of [] \<Rightarrow> None | x # _ \<Rightarrow> Some x)"

definition findUserByUsername :: "string \<Rightarrow> rbac \<Rightarrow> user_entity option" where
  "findUserByUsername username s =
    (let normalized = toLowerCase (trim username)
     in first_of (pg_list (\<lambda>u. toLowerCase (us_username u) = normalized) (rb_users s)))"

definition findUserByExternalIdentity :: "string \<Rightarrow> string \<Rightarrow> rbac \<Rightarrow> user_entity option" where
  "findUserByExternalIdentity sourceId externalId s =
    first_of (pg_list (\<lambda>u. us_externalSourceId u = Some sourceId \<and> us_externalId u = Some externalId) (rb_users s))"

definition listUsers :: "rbac \<Rightarrow> user_entity list" where
  "listUsers s = pg_list (\<lambda>_. True) (rb_users s)"

definition updateUserStatus :: "instant \<Rightarrow> string \<Rightarrow> UserStatus \<Rightarrow> rbac \<Rightarrow> user_entity result \<times> rbac" where
  "updateUserStatus now i st s = updateUser now i (\<lambda>u. u\<lparr>us_status := st\<rparr>) s"

definition updateUserPreferences :: "instant \<Rightarrow> string \<Rightarrow> jobject \<Rightarrow> rbac \<Rightarrow> user_entity result \<times> rbac" where
  "updateUserPreferences now i prefs s = updateUser now i (\<lambda>u. u\<lparr>us_preferences := Some prefs\<rparr>) s"

definition createRole :: "instant \<Rightarrow> role_entity \<Rightarrow> rbac \<Rightarrow> role_entity result \<times> rbac" where
  "createRole now r s = (case pg_create ro_id now r (rb_roles s) of
     Inl e \<Rightarrow> (Inl e, s) | Inr (x, d) \<Rightarrow> (Inr x, s\<lparr>rb_roles := d\<rparr>))"

definition createRoleIfAbsent :: "instant \<Rightarrow> role_entity \<Rightarrow> rbac \<Rightarrow> role_entity result \<times> rbac" where
  "createRoleIfAbsent now r s =
    (let (res, d) = create_if_absent ro_id now r (rb_roles s) in (res, s\<lparr>rb_roles := d\<rparr>))"

definition listRoles :: "rbac \<Rightarrow> role_entity list" where
  "listRoles s = pg_list (\<lambda>_. True) (rb_roles s)"

definition getRole :: "string \<Rightarrow> rbac \<Rightarrow> role_entity option" where
  "getRole i s = pg_get (rb_roles s) i"

definition deleteRole :: "string \<Rightarrow> rbac \<Rightarrow> rbac" where
  "deleteRole roleId s =
    (let links = pg_list (\<lambda>r. ur_roleId r = roleId) (rb_userRoles s);
         pols = pg_list (\<lambda>p. po_subjectType p = KRole \<and> po_subjectId p = roleId) (rb_policies s)
     in s\<lparr>rb_userRoles := fold pg_delete (map ur_id links) (rb_userRoles s),
          rb_policies := fold pg_delete (map po_id pols) (rb_policies s),
          rb_roles := pg_delete roleId (rb_roles s)\<rparr>)"

definition user_role_key :: "string \<Rightarrow> string \<Rightarrow> string" where
  "user_role_key userId roleId = userId @ '':'' @ roleId"

definition assignRole :: "instant \<Rightarrow> string \<Rightarrow> string \<Rightarrow> rbac \<Rightarrow> unit result \<times> rbac" where
  "assignRole now userId roleId s =
    (let (res, d) = create_if_absent ur_id now
           \<lparr>ur_id = user_role_key userId roleId, ur_userId = userId, ur_roleId = roleId, ur_createdAt = now\<rparr>
           (rb_userRoles s)
     in (case res of Inl e \<Rightarrow> (Inl e, s) | Inr _ \<Rightarrow> (Inr (), s\<lparr>rb_userRoles := d\<rparr>)))"

definition userHasRole :: "string \<Rightarrow> string \<Rightarrow> rbac \<Rightarrow> bool" where
  "userHasRole userId roleId s \<longleftrightarrow> pg_get (rb_userRoles s) (user_role_key userId roleId) \<noteq> None"

definition rolesForUser :: "string \<Rightarrow> rbac \<Rightarrow> role_entity list" where
  "rolesForUser userId s =
    (let roleIds = map ur_roleId (pg_list (\<lambda>r. ur_userId r = userId) (rb_userRoles s))
     in pg_list (\<lambda>r. ro_id r \<in> set roleIds) (rb_roles s))"

definition listUserRoles :: "rbac \<Rightarrow> user_role list" where
  "listUserRoles s = pg_list (\<lambda>_. True) (rb_userRoles s)"

section \<open>Policies\<close>

text \<open>\<open>createPolicy\<close> takes the policy with its identifier already chosen (\<open>input.id ?? newId('pol')\<close>).\<close>

definition createPolicy :: "instant \<Rightarrow> policy \<Rightarrow> rbac \<Rightarrow> policy result \<times> rbac" where
  "createPolicy now p s = (case pg_create po_id now p (rb_policies s) of
     Inl e \<Rightarrow> (Inl e, s) | Inr (x, d) \<Rightarrow> (Inr x, s\<lparr>rb_policies := d\<rparr>))"

definition createPolicyIfAbsent :: "instant \<Rightarrow> policy \<Rightarrow> rbac \<Rightarrow> policy result \<times> rbac" where
  "createPolicyIfAbsent now p s =
    (let (res, d) = create_if_absent po_id now p (rb_policies s) in (res, s\<lparr>rb_policies := d\<rparr>))"

definition listPolicies :: "rbac \<Rightarrow> policy list" where
  "listPolicies s = pg_list (\<lambda>_. True) (rb_policies s)"

definition subjectIds :: "subject \<Rightarrow> rbac \<Rightarrow> string list" where
  "subjectIds sub s = set_dedup (su_id sub # getOrElse (su_roleIds sub) []
     @ (if su_type sub = KUser
        then map ur_roleId (pg_list (\<lambda>r. ur_userId r = su_id sub) (rb_userRoles s)) else []))"

definition permissionsForSubject :: "subject \<Rightarrow> rbac \<Rightarrow> string list" where
  "permissionsForSubject sub s =
    (let pols = pg_list (\<lambda>p. po_subjectId p \<in> set (subjectIds sub s)) (rb_policies s);
         denied = concat (map po_actions (filter (\<lambda>p. po_effect p = DenyEffect) pols));
         allowed = set_dedup (concat (map po_actions (filter (\<lambda>p. po_effect p \<noteq> DenyEffect) pols)))
     in sort (filter (\<lambda>a. a \<notin> set denied) allowed))"

definition BUSINESS_PERMISSION_ACTION_ALIASES :: "(string \<times> string) list" where
  "BUSINESS_PERMISSION_ACTION_ALIASES =
    [(''certificate.format.create'', ''certificate.artifact.export''),
     (''binding.read'', ''application.certificate.read''),
     (''binding.manage'', ''application.certificate.update''),
     (''service_asset.read'', ''application.read''),
     (''service_asset.manage'', ''application.update'')]"

definition canonicalBusinessPermissionAction :: "string \<Rightarrow> string" where
  "canonicalBusinessPermissionAction action = getOrElse (map_of BUSINESS_PERMISSION_ACTION_ALIASES action) action"

definition matchesAction :: "string list \<Rightarrow> string \<Rightarrow> bool" where
  "matchesAction actions action \<longleftrightarrow> ''*'' \<in> set actions
     \<or> (\<exists>candidate \<in> set actions.
          let canonical = canonicalBusinessPermissionAction candidate
          in canonical = action \<or> endsWith canonical ''.*'' \<and> startsWith action (butlast canonical))"

definition matchesResource :: "string list \<Rightarrow> string \<Rightarrow> bool" where
  "matchesResource resourceTypes resourceType \<longleftrightarrow>
     ''*'' \<in> set resourceTypes \<or> resourceType \<in> set resourceTypes"

definition scoped_of :: "resource_scope \<Rightarrow> scoped_resource" where
  "scoped_of rs = \<lparr>sr_tenantId = rs_tenantId rs, sr_ownerType = rs_ownerType rs\<rparr>"

definition scope_field_ok :: "string option \<Rightarrow> string option \<Rightarrow> bool" where
  "scope_field_ok policyValue resourceValue \<longleftrightarrow>
     policyValue = None \<or> policyValue = Some ''*'' \<or> resourceValue = policyValue"

definition matchesScope :: "resource_scope \<Rightarrow> resource_scope \<Rightarrow> bool" where
  "matchesScope p r \<longleftrightarrow>
     (case rs_tenantScope p of None \<Rightarrow> True | Some ts \<Rightarrow> allowsResource ts (scoped_of r))
     \<and> scope_field_ok (rs_tenantId p) (rs_tenantId r)
     \<and> (rs_ownerType p = None \<or> rs_ownerType r = rs_ownerType p)
     \<and> scope_field_ok (rs_trustDomainId p) (rs_trustDomainId r)
     \<and> scope_field_ok (rs_caId p) (rs_caId r)
     \<and> scope_field_ok (rs_providerId p) (rs_providerId r)
     \<and> scope_field_ok (rs_resourceType p) (rs_resourceType r)
     \<and> scope_field_ok (rs_resourceId p) (rs_resourceId r)
     \<and> scope_field_ok (rs_teamId p) (rs_teamId r)
     \<and> scope_field_ok (rs_environment p) (rs_environment r)
     \<and> scope_field_ok (rs_zoneId p) (rs_zoneId r)
     \<and> scope_field_ok (rs_assetTag p) (rs_assetTag r)
     \<and> scope_field_ok (rs_ownerId p) (rs_ownerId r)"

section \<open>Decisions\<close>

definition toAuditActorType :: "SubjectKind \<Rightarrow> string" where
  "toAuditActorType k = (case k of KPlugin \<Rightarrow> ''plugin'' | KExecutor \<Rightarrow> ''executor'' | KSystem \<Rightarrow> ''system'' | _ \<Rightarrow> ''user'')"

definition auditDeny :: "subject \<Rightarrow> string \<Rightarrow> resource \<Rightarrow> string \<Rightarrow> deny_audit" where
  "auditDeny sub action res reason =
    \<lparr>dn_actorType = toAuditActorType (su_type sub), dn_actorId = su_id sub, dn_action = action,
     dn_resourceType = re_type res, dn_resourceId = re_id res, dn_reason = reason\<rparr>"

definition resource_scope_of :: "resource \<Rightarrow> resource_scope" where
  "resource_scope_of res = getOrElse (re_scope res) empty_scope"

definition subjectPolicies :: "subject \<Rightarrow> rbac \<Rightarrow> policy list" where
  "subjectPolicies sub s = pg_list (\<lambda>p. po_subjectId p \<in> set (subjectIds sub s)) (rb_policies s)"

definition adminWildcard :: "policy list \<Rightarrow> bool" where
  "adminWildcard pols \<longleftrightarrow>
     (\<exists>p \<in> set pols. po_effect p = AllowEffect \<and> ''*'' \<in> set (po_actions p) \<and> ''*'' \<in> set (po_resourceTypes p))"

definition policy_matches :: "subject \<Rightarrow> string \<Rightarrow> resource \<Rightarrow> rbac \<Rightarrow> policy \<Rightarrow> bool" where
  "policy_matches sub action res s p \<longleftrightarrow>
     po_subjectId p \<in> set (subjectIds sub s)
     \<and> (po_subjectType p = su_type sub \<or> po_subjectType p = KRole)
     \<and> matchesAction (po_actions p) action
     \<and> matchesResource (po_resourceTypes p) (re_type res)
     \<and> matchesScope (po_scope p) (resource_scope_of res)"

definition subject_tenant_scope :: "subject \<Rightarrow> tenant_scope option" where
  "subject_tenant_scope sub = Option.bind (su_scope sub) rs_tenantScope"

definition user_blocked :: "subject \<Rightarrow> rbac \<Rightarrow> bool" where
  "user_blocked sub s \<longleftrightarrow> su_type sub = KUser
     \<and> (case pg_get (rb_users s) (su_id sub) of None \<Rightarrow> False | Some u \<Rightarrow> us_status u \<noteq> UserActive)"

definition tenant_gate_closed :: "subject \<Rightarrow> resource \<Rightarrow> rbac \<Rightarrow> bool" where
  "tenant_gate_closed sub res s \<longleftrightarrow>
     (case subject_tenant_scope sub of None \<Rightarrow> False
      | Some ts \<Rightarrow> \<not> adminWildcard (subjectPolicies sub s)
          \<and> \<not> allowsResource ts (scoped_of (resource_scope_of res)))"

definition business_of :: "resource \<Rightarrow> business_resource" where
  "business_of res = \<lparr>br_type = re_type res, br_id = re_id res,
     br_tenantId = Option.bind (re_scope res) rs_tenantId\<rparr>"

definition business_denied :: "business_resolver option \<Rightarrow> subject \<Rightarrow> string \<Rightarrow> resource \<Rightarrow> bool" where
  "business_denied rv sub action res =
    (case rv of None \<Rightarrow> False | Some b \<Rightarrow> isActionExplicitlyDenied b sub action (business_of res))"

definition business_allowed :: "business_resolver option \<Rightarrow> subject \<Rightarrow> string \<Rightarrow> resource \<Rightarrow> bool" where
  "business_allowed rv sub action res =
    (case rv of None \<Rightarrow> False | Some b \<Rightarrow> isActionAllowed b sub action (business_of res))"

definition can ::
  "business_resolver option \<Rightarrow> subject \<Rightarrow> string \<Rightarrow> resource \<Rightarrow> rbac \<Rightarrow> decision \<times> deny_audit option" where
  "can rv sub requestedAction res s =
    (let action = canonicalBusinessPermissionAction requestedAction;
         refuse = (\<lambda>reason ids entry. (\<lparr>de_allowed = False, de_reason = reason, de_matchedPolicyIds = ids\<rparr>, Some entry));
         pols = subjectPolicies sub s
     in if user_blocked sub s
        then refuse ''user disabled'' [] (auditDeny sub requestedAction res ''user disabled'')
        else if tenant_gate_closed sub res s
        then refuse ''tenant scope denied'' [] (auditDeny sub action res ''tenant scope denied'')
        else
          let matched = filter (policy_matches sub action res s) pols;
              denied = filter (\<lambda>p. po_effect p = DenyEffect) matched;
              allowed = filter (\<lambda>p. po_effect p = AllowEffect) matched
          in if denied \<noteq> []
             then refuse ''explicit deny'' (map po_id denied) (auditDeny sub action res ''explicit deny'')
             else if business_denied rv sub action res
             then refuse ''explicit deny'' [] (auditDeny sub requestedAction res ''explicit business deny'')
             else if allowed \<noteq> []
             then (\<lparr>de_allowed = True, de_reason = ''allow'', de_matchedPolicyIds = map po_id allowed\<rparr>, None)
             else if business_allowed rv sub action res
             then (\<lparr>de_allowed = True, de_reason = ''business permission allow'', de_matchedPolicyIds = []\<rparr>, None)
             else refuse ''no allow policy'' [] (auditDeny sub requestedAction res ''no allow policy''))"

definition assertCan ::
  "business_resolver option \<Rightarrow> subject \<Rightarrow> string \<Rightarrow> resource \<Rightarrow> rbac \<Rightarrow> unit result" where
  "assertCan rv sub action res s =
    (let d = fst (can rv sub action res s)
     in if \<not> de_allowed d then Inl (SecurityError ''SEC_PERMISSION_DENIED'' (de_reason d)) else Inr ())"

section \<open>Lemmas\<close>

definition rbac_ok :: "rbac \<Rightarrow> bool" where
  "rbac_ok s \<longleftrightarrow> stored_under_own_id us_id (rb_users s) \<and> stored_under_own_id ro_id (rb_roles s)
     \<and> stored_under_own_id ur_id (rb_userRoles s) \<and> stored_under_own_id po_id (rb_policies s)"

text \<open>In a store that nobody else writes, the second read of \<open>create_if_absent\<close> is never reached.\<close>

lemma create_if_absent_eq:
  "create_if_absent idOf now e d = (case pg_get d (idOf e) of
     Some x \<Rightarrow> (Inr x, d) | None \<Rightarrow> (Inr e, pg_upsert idOf now e d))"
proof (cases "pg_get d (idOf e)")
  case None
  then have "pg_create idOf now e d = Inr (e, pg_upsert idOf now e d)" by (simp add: pg_create_Inr)
  then show ?thesis using None by (simp add: create_if_absent_def)
qed (simp add: create_if_absent_def)

lemma can_allowed_iff:
  "de_allowed (fst (can rv sub requested res s)) \<longleftrightarrow>
     (let action = canonicalBusinessPermissionAction requested; ps = set (subjectPolicies sub s) in
      \<not> user_blocked sub s \<and> \<not> tenant_gate_closed sub res s
      \<and> (\<forall>p \<in> ps. policy_matches sub action res s p \<longrightarrow> po_effect p \<noteq> DenyEffect)
      \<and> \<not> business_denied rv sub action res
      \<and> ((\<exists>p \<in> ps. policy_matches sub action res s p \<and> po_effect p = AllowEffect)
         \<or> business_allowed rv sub action res))"
  by (auto simp: can_def Let_def filter_empty_conv)

lemma get_after_create_policy:
  assumes "rbac_ok s" and "createPolicy now p s = (Inr x, s')"
  shows "rb_users s' = rb_users s \<and> rb_userRoles s' = rb_userRoles s
    \<and> (\<forall>f. set (pg_list f (rb_policies s')) = set (pg_list f (rb_policies s)) \<union> {q. q = p \<and> f p})"
proof -
  from assms(2) have new: "pg_get (rb_policies s) (po_id p) = None"
    and s': "s' = s\<lparr>rb_policies := pg_upsert po_id now p (rb_policies s)\<rparr>"
    by (auto simp: createPolicy_def pg_create_Inr split: sum.splits)
  have ok: "stored_under_own_id po_id (rb_policies s)" using assms(1) by (simp add: rbac_ok_def)
  have "q \<in> set (pg_list f (rb_policies s')) \<longleftrightarrow> q \<in> set (pg_list f (rb_policies s)) \<or> (q = p \<and> f p)" for f q
    using new by (cases "po_id q = po_id p")
      (auto simp: s' set_pg_list [OF ok] set_pg_list [OF docs.invar_put [OF ok]] docs.get_put_other pg_get_upsert)
  then show ?thesis by (auto simp: s')
qed

lemma create_policy_context:
  assumes "rbac_ok s" and "createPolicy now p s = (Inr x, s')"
  shows "subjectIds sub s' = subjectIds sub s" and "user_blocked sub s' = user_blocked sub s"
    and "policy_matches sub action res s' = policy_matches sub action res s"
    and "set (subjectPolicies sub s') = set (subjectPolicies sub s) \<union> {q. q = p \<and> po_subjectId p \<in> set (subjectIds sub s)}"
proof -
  note eq = get_after_create_policy [OF assms]
  show ids: "subjectIds sub s' = subjectIds sub s" for sub using eq by (simp add: subjectIds_def)
  show "user_blocked sub s' = user_blocked sub s" using eq by (simp add: user_blocked_def)
  show "policy_matches sub action res s' = policy_matches sub action res s"
    by (auto simp: policy_matches_def ids)
  show "set (subjectPolicies sub s') = set (subjectPolicies sub s) \<union> {q. q = p \<and> po_subjectId p \<in> set (subjectIds sub s)}"
    using eq ids by (simp add: subjectPolicies_def)
qed

lemma list_after_deletes:
  assumes "stored_under_own_id idOf d"
  shows "e \<in> set (pg_list f (fold pg_delete (map idOf (pg_list g d)) d)) \<longleftrightarrow> e \<in> set (pg_list f d) \<and> \<not> g e"
proof -
  have ok: "stored_under_own_id idOf (fold pg_delete (map idOf (pg_list g d)) d)"
    using assms by (rule docs.invar_deletes)
  have "idOf e \<in> idOf ` set (pg_list g d) \<longleftrightarrow> g e" if "pg_get d (idOf e) = Some e"
    using that by (auto simp: set_pg_list [OF assms])
  then show ?thesis
    by (auto simp: set_pg_list [OF ok] set_pg_list [OF assms] docs.get_after_deletes split: if_splits)
qed

lemma butlast_dot_star: "butlast (p @ ''.*'') = p @ ''.''"
  by (simp add: butlast_append)

section \<open>Properties\<close>


definition sample_policy :: "string \<Rightarrow> Effect \<Rightarrow> string list \<Rightarrow> resource_scope \<Rightarrow> policy" where
  "sample_policy i eff acts sc = \<lparr>po_id = i, po_subjectType = KRole, po_subjectId = ''ops'', po_effect = eff,
     po_actions = acts, po_resourceTypes = [''*''], po_scope = sc, po_conditions = None\<rparr>"

definition sample_rbac :: "policy list \<Rightarrow> rbac" where
  "sample_rbac ps = \<lparr>rb_users = [], rb_roles = [],
     rb_userRoles = [\<lparr>dr_id = ''u1:ops'', dr_payload = \<lparr>ur_id = ''u1:ops'', ur_userId = ''u1'', ur_roleId = ''ops'',
        ur_createdAt = 0\<rparr>, dr_updatedAt = 0\<rparr>],
     rb_policies = map (\<lambda>p. \<lparr>dr_id = po_id p, dr_payload = p, dr_updatedAt = 0\<rparr>) ps\<rparr>"

definition sample_subject :: "tenant_scope option \<Rightarrow> subject" where
  "sample_subject ts = \<lparr>su_id = ''u1'', su_type = KUser, su_roleIds = None,
     su_scope = Some (empty_scope\<lparr>rs_tenantScope := ts\<rparr>)\<rparr>"

definition sample_resource :: "string \<Rightarrow> resource" where
  "sample_resource t = \<lparr>re_type = ''certificate'', re_id = None, re_scope = Some (empty_scope\<lparr>rs_tenantId := Some t\<rparr>)\<rparr>"

lemma sample_subject_ids: "subjectIds (sample_subject ts) (sample_rbac ps) = [''u1'', ''ops'']"
  by (simp add: subjectIds_def sample_subject_def sample_rbac_def pg_list_def)

lemma sample_rbac_ok: "distinct (map po_id ps) \<Longrightarrow> rbac_ok (sample_rbac ps)"
  by (auto simp: rbac_ok_def sample_rbac_def stored_under_own_id_def comp_def)

lemma insort_key_const: "\<forall>y \<in> set ys. f y = f x \<Longrightarrow> insort_key f x ys = x # ys"
  by (cases ys) auto

lemma sort_key_const: "\<forall>y \<in> set ys. f y = c \<Longrightarrow> sort_key f ys = ys"
  by (induction ys) (auto simp: insort_key_const)

lemma sample_policies:
  "subjectPolicies (sample_subject ts) (sample_rbac ps) = filter (\<lambda>p. po_subjectId p \<in> {''u1'', ''ops''}) ps"
  by (simp add: subjectPolicies_def sample_subject_ids pg_list_def, simp add: sample_rbac_def)
    (subst sort_key_const, auto simp: comp_def)

lemma sample_not_blocked: "\<not> user_blocked (sample_subject ts) (sample_rbac ps)"
  by (simp add: user_blocked_def sample_rbac_def pg_get_def)

lemma sample_scope:
  "matchesScope empty_scope (empty_scope\<lparr>rs_tenantId := Some t\<rparr>)"
  "matchesScope (empty_scope\<lparr>rs_tenantId := Some u\<rparr>) (empty_scope\<lparr>rs_tenantId := Some t\<rparr>) \<longleftrightarrow> u = ''*'' \<or> t = u"
  by (simp_all add: matchesScope_def scope_field_ok_def empty_scope_def)

lemma sample_matches:
  "policy_matches (sample_subject ts) a (sample_resource t) (sample_rbac ps) (sample_policy i e acts sc) \<longleftrightarrow>
     matchesAction acts a \<and> matchesScope sc (empty_scope\<lparr>rs_tenantId := Some t\<rparr>)"
  by (simp add: policy_matches_def sample_subject_ids matchesResource_def, simp add: sample_policy_def
      sample_resource_def resource_scope_of_def)

lemma sample_actions:
  "matchesAction [''certificate.*''] ''certificate.read''" "matchesAction [''certificate.read''] ''certificate.read''"
  "matchesAction [''*''] a" "canonicalBusinessPermissionAction ''certificate.read'' = ''certificate.read''"
  by (simp_all add: matchesAction_def canonicalBusinessPermissionAction_def BUSINESS_PERMISSION_ACTION_ALIASES_def
      endsWith_def startsWith_def)

lemma sample_policy_fields:
  "po_effect (sample_policy i e acts sc) = e" "po_subjectId (sample_policy i e acts sc) = ''ops''"
  "po_actions (sample_policy i e acts sc) = acts" "po_resourceTypes (sample_policy i e acts sc) = [''*'']"
  by (simp_all add: sample_policy_def)

lemma sample_gate:
  "tenant_gate_closed (sample_subject ts) (sample_resource t) (sample_rbac ps) \<longleftrightarrow>
     (case ts of None \<Rightarrow> False | Some sc \<Rightarrow> \<not> adminWildcard (filter (\<lambda>p. po_subjectId p \<in> {''u1'', ''ops''}) ps)
        \<and> \<not> allowsResource sc \<lparr>sr_tenantId = Some t, sr_ownerType = None\<rparr>)"
proof -
  have "subject_tenant_scope (sample_subject ts) = ts"
    by (simp add: subject_tenant_scope_def sample_subject_def)
  moreover have "scoped_of (resource_scope_of (sample_resource t)) = \<lparr>sr_tenantId = Some t, sr_ownerType = None\<rparr>"
    by (simp add: resource_scope_of_def sample_resource_def scoped_of_def empty_scope_def)
  ultimately show ?thesis by (cases ts) (simp_all add: tenant_gate_closed_def sample_policies)
qed

lemmas sample_rbac_simps =
  sample_policies sample_not_blocked sample_scope sample_matches sample_actions sample_policy_fields sample_gate
  business_denied_def business_allowed_def adminWildcard_def


text \<open>Policies are monotone. Storing one more deny policy never turns a refusal into a
  permission, and storing one more allow policy never turns a permission into a refusal, whatever
  the subject, action and resource.\<close>

theorem policies_monotone:
  assumes "rbac_ok s" and "createPolicy now p s = (Inr x, s')"
  shows "(po_effect p = DenyEffect \<longrightarrow>
       de_allowed (fst (can rv sub action res s')) \<longrightarrow> de_allowed (fst (can rv sub action res s)))
    \<and> (po_effect p = AllowEffect \<longrightarrow>
       de_allowed (fst (can rv sub action res s)) \<longrightarrow> de_allowed (fst (can rv sub action res s')))"
proof -
  note ctx = create_policy_context [OF assms]
  have gate: "tenant_gate_closed sub res s' \<Longrightarrow> tenant_gate_closed sub res s"
    "po_effect p = DenyEffect \<Longrightarrow> tenant_gate_closed sub res s' = tenant_gate_closed sub res s"
    using ctx(4) by (auto simp: tenant_gate_closed_def adminWildcard_def split: option.splits)
  have mono: "de_allowed (fst (can rv sub action res s))"
    if "po_effect p = DenyEffect" "de_allowed (fst (can rv sub action res s'))"
    using that(2) unfolding can_allowed_iff Let_def ctx gate(2) [OF that(1)]
    using that(1) by (auto simp only: Effect.distinct Un_iff mem_Collect_eq)
  have "de_allowed (fst (can rv sub action res s'))"
    if "po_effect p = AllowEffect" "de_allowed (fst (can rv sub action res s))"
    using that(2) unfolding can_allowed_iff Let_def ctx
    using that(1) gate(1) by (auto simp only: Effect.distinct Un_iff mem_Collect_eq)
  with mono show ?thesis by blast
qed

theorem policies_monotone_witness:
  "de_allowed (fst (can None (sample_subject None) ''certificate.read'' (sample_resource ''t1'')
     (snd (createPolicy 5 (sample_policy ''p2'' AllowEffect [''audit.read''] empty_scope)
       (sample_rbac [sample_policy ''p1'' AllowEffect [''certificate.*''] empty_scope])))))"
proof -
  let ?s = "sample_rbac [sample_policy ''p1'' AllowEffect [''certificate.*''] empty_scope]"
  let ?p = "sample_policy ''p2'' AllowEffect [''audit.read''] empty_scope"
  have "rbac_ok ?s" by (rule sample_rbac_ok) simp
  moreover have "createPolicy 5 ?p ?s = (Inr ?p, snd (createPolicy 5 ?p ?s))"
    by (simp add: createPolicy_def pg_create_def pg_get_def sample_rbac_def sample_policy_def)
  moreover have "de_allowed (fst (can None (sample_subject None) ''certificate.read'' (sample_resource ''t1'') ?s))"
    by (simp add: can_allowed_iff sample_rbac_simps)
  ultimately show ?thesis
    using policies_monotone [of ?s 5 ?p ?p] by (simp add: sample_policy_fields)
qed

text \<open>Deleting a role leaves nothing behind: afterwards no user has the role, no role policy
  speaks of it, and the assignments and policies of every other role are unchanged.\<close>

theorem deleteRole_complete:
  assumes "rbac_ok s"
  shows "(\<forall>l \<in> set (listUserRoles (deleteRole r s)). ur_roleId l \<noteq> r)
    \<and> (\<forall>p \<in> set (listPolicies (deleteRole r s)). \<not> (po_subjectType p = KRole \<and> po_subjectId p = r))
    \<and> getRole r (deleteRole r s) = None
    \<and> (\<forall>l. ur_roleId l \<noteq> r \<longrightarrow> (l \<in> set (listUserRoles (deleteRole r s)) \<longleftrightarrow> l \<in> set (listUserRoles s)))
    \<and> (\<forall>p. \<not> (po_subjectType p = KRole \<and> po_subjectId p = r) \<longrightarrow>
          (p \<in> set (listPolicies (deleteRole r s)) \<longleftrightarrow> p \<in> set (listPolicies s)))
    \<and> (\<forall>q. q \<noteq> r \<longrightarrow> getRole q (deleteRole r s) = getRole q s)"
proof -
  have ok: "stored_under_own_id ur_id (rb_userRoles s)" "stored_under_own_id po_id (rb_policies s)"
    using assms by (simp_all add: rbac_ok_def)
  show ?thesis
    by (simp add: deleteRole_def Let_def listUserRoles_def listPolicies_def getRole_def pg_get_delete
        list_after_deletes [OF ok(1)] list_after_deletes [OF ok(2)])
qed

theorem deleteRole_complete_witness:
  "filter (\<lambda>l. ur_roleId l = ''ops'') (listUserRoles (deleteRole ''ops'' (sample_rbac []))) = []"
  using deleteRole_complete [OF sample_rbac_ok, of "[]" "''ops''"] by (auto simp: filter_empty_conv)

text \<open>A wildcard action covers exactly its name space: for a prefix that is not an alias, the
  candidate \<open>prefix.*\<close> alone matches the actions that begin with \<open>prefix.\<close> and the literal candidate
  itself.\<close>

theorem wildcard_namespace:
  assumes "map_of BUSINESS_PERMISSION_ACTION_ALIASES (prefix @ ''.*'') = None" and "prefix \<noteq> []"
  shows "matchesAction [prefix @ ''.*''] action \<longleftrightarrow> (\<exists>rest. action = prefix @ ''.'' @ rest)"
proof -
  have "canonicalBusinessPermissionAction (prefix @ ''.*'') = prefix @ ''.*''"
    using assms(1) by (simp add: canonicalBusinessPermissionAction_def)
  moreover have "endsWith (prefix @ ''.*'') ''.*''" by (simp add: endsWith_def)
  moreover have "prefix @ ''.*'' \<noteq> ''*''" using assms(2) by (cases prefix) auto
  ultimately show ?thesis
    by (auto simp: matchesAction_def Let_def butlast_dot_star startsWith_iff)
qed

theorem wildcard_namespace_witness:
  "matchesAction [''certificate.*''] ''certificate.read'' \<and> \<not> matchesAction [''certificate.*''] ''certificates''"
  using wildcard_namespace [of "''certificate''" "''certificate.read''"]
    wildcard_namespace [of "''certificate''" "''certificates''"]
  by (simp add: BUSINESS_PERMISSION_ACTION_ALIASES_def)

lemma user_role_key_inj:
  assumes "CHR '':'' \<notin> set u" "CHR '':'' \<notin> set v" and "user_role_key u r = user_role_key v q"
  shows "u = v \<and> r = q"
  using assms
proof (induction u arbitrary: v)
  case Nil
  then show ?case by (cases v) (auto simp: user_role_key_def)
next
  case (Cons c u)
  then show ?case by (cases v) (auto simp: user_role_key_def)
qed

text \<open>Assigning a role. Afterwards the user has the role and a second assignment changes nothing;
  for user identifiers without a colon, the membership test of every other pair is unaffected.\<close>

theorem assignRole_behaviour:
  assumes "CHR '':'' \<notin> set u" and "assignRole now u r s = (res, s')"
  shows "res = Inr () \<and> userHasRole u r s' \<and> assignRole later u r s' = (Inr (), s')
    \<and> (\<forall>v q. CHR '':'' \<notin> set v \<longrightarrow> (v, q) \<noteq> (u, r) \<longrightarrow> userHasRole v q s' = userHasRole v q s)"
proof -
  let ?l = "\<lparr>ur_id = user_role_key u r, ur_userId = u, ur_roleId = r, ur_createdAt = now\<rparr>"
  have s': "res = Inr ()" "s' = (if userHasRole u r s then s
      else s\<lparr>rb_userRoles := pg_upsert ur_id now ?l (rb_userRoles s)\<rparr>)"
    using assms(2) by (auto simp: assignRole_def create_if_absent_eq userHasRole_def split: option.splits)
  have others: "userHasRole v q s' = userHasRole v q s" if "CHR '':'' \<notin> set v" "(v, q) \<noteq> (u, r)" for v q
    using user_role_key_inj [of v u q r] that assms(1) by (auto simp: s' userHasRole_def pg_get_upsert)
  have has: "userHasRole u r s'" by (simp add: s' userHasRole_def pg_get_upsert)
  then have "assignRole later u r s' = (Inr (), s')"
    by (auto simp: assignRole_def create_if_absent_eq userHasRole_def split: option.splits)
  then show ?thesis using s' has others by blast
qed

theorem assignRole_behaviour_witness:
  "userHasRole ''u2'' ''ops'' (snd (assignRole 5 ''u2'' ''ops'' (sample_rbac [])))"
  using assignRole_behaviour [of "''u2''" 5 "''ops''" "sample_rbac []"
      "fst (assignRole 5 ''u2'' ''ops'' (sample_rbac []))" "snd (assignRole 5 ''u2'' ''ops'' (sample_rbac []))"]
  by simp

text \<open>The membership key is ambiguous. With a colon in an identifier two different pairs share
  their key: after user \<open>a\<close> got role \<open>b:c\<close>, the test says that user \<open>a:b\<close> has role \<open>c\<close>, and assigning
  that role to that user stores nothing.\<close>

theorem assignRole_key_collision:
  "let s = snd (assignRole now ''a'' ''b:c'' (sample_rbac []))
   in userHasRole ''a:b'' ''c'' s \<and> assignRole later ''a:b'' ''c'' s = (Inr (), s)
      \<and> rolesForUser ''a:b'' (snd (createRole later \<lparr>ro_id = ''c'', ro_code = [], ro_name = [], ro_description = None,
           ro_builtin = False\<rparr> s)) = []"
  by (simp add: Let_def assignRole_def create_if_absent_eq userHasRole_def user_role_key_def sample_rbac_def
      pg_get_def pg_upsert_def createRole_def pg_create_def rolesForUser_def pg_list_def image_iff) auto

text \<open>The tenant gate is lifted by any wildcard policy. A policy that allows every action on every
  resource type only inside tenant \<open>t1\<close> opens the tenant gate of its subject everywhere: with a
  second, unscoped policy for reading certificates, a subject confined to tenant \<open>t1\<close> may read the
  certificates of tenant \<open>t2\<close>, which it may not without the wildcard policy.\<close>

theorem scoped_wildcard_lifts_tenant_gate:
  "let self = Some \<lparr>ts_type = ScopeSelf, ts_rootTenantId = Some ''t1'', ts_tenantIds = Some [''t1'']\<rparr>;
       readAll = sample_policy ''p1'' AllowEffect [''certificate.read''] empty_scope;
       adminT1 = sample_policy ''p2'' AllowEffect [''*''] (empty_scope\<lparr>rs_tenantId := Some ''t1''\<rparr>)
   in \<not> de_allowed (fst (can None (sample_subject self) ''certificate.read'' (sample_resource ''t2'') (sample_rbac [readAll])))
      \<and> de_allowed (fst (can None (sample_subject self) ''certificate.read'' (sample_resource ''t2'') (sample_rbac [readAll, adminT1])))"
  by (simp add: can_allowed_iff sample_rbac_simps allowsResource_def scope_tenants_def)

end
