(* ===== verification/TaskModel.thy ===== *)
theory TaskModel
  imports Approvals
begin

text \<open>
  Data of the task control plane: the types of \<open>backend/src/modules/tasks/task.types.ts\<close>, the task
  definitions of \<open>backend/src/modules/tasks/task.registry.ts\<close>, the idempotency records of
  \<open>backend/src/shared/idempotency.ts\<close> and the redaction of event data in
  \<open>backend/src/modules/tasks/task.repository.ts\<close>.

  One record stands for a row of a table and for the object it is mapped to: SQL NULL and
  \<open>undefined\<close> are both \<open>None\<close>. \<open>now\<close> is the clock of the database, \<open>clk\<close> that of the process. The
  identifiers \<open>newId\<close> draws for tasks and attempts are arguments and the primary keys are checked;
  those of events and idempotency records carry no behaviour and are left out.
\<close>

section \<open>Tasks, attempts and events\<close>

datatype TaskCategory = EXECUTION | MONITORING | SYSTEM

datatype TaskStatus =
  QUEUED | RUNNING | RETRY_WAITING | WAITING_RESULT | AWAITING_CONFIRMATION | CANCELLING
  | SUCCEEDED | FAILED | CANCELLED

datatype TaskAttemptStatus =
  AT_RUNNING | AT_WAITING | AT_SUCCEEDED | AT_FAILED | AT_EXPIRED | AT_CANCELLED

record task_run =
  tr_id :: string
  tr_tenantId :: string
  tr_taskType :: string
  tr_definitionVersion :: int
  tr_category :: TaskCategory
  tr_status :: TaskStatus
  tr_requestedBy :: "string option"
  tr_triggerSource :: string
  tr_resourceSummary :: "jobject option"
  tr_idempotencyKey :: "string option"
  tr_parentTaskId :: "string option"
  tr_payload :: jobject
  tr_progress :: "jobject option"
  tr_availableAt :: instant
  tr_nextAttemptAt :: "instant option"
  tr_leaseOwner :: "string option"
  tr_leaseExpiresAt :: "instant option"
  tr_createdAt :: instant
  tr_startedAt :: "instant option"
  tr_finishedAt :: "instant option"
  tr_lastErrorCode :: "string option"
  tr_lastErrorMessage :: "string option"

record task_attempt =
  ta_id :: string
  ta_taskRunId :: string
  ta_attemptNo :: int
  ta_workerId :: string
  ta_leaseExpiresAt :: instant
  ta_status :: TaskAttemptStatus
  ta_startedAt :: instant
  ta_finishedAt :: "instant option"
  ta_errorCode :: "string option"
  ta_errorSummary :: "string option"

record task_event =
  tv_taskRunId :: string
  tv_attemptId :: "string option"
  tv_eventType :: string
  tv_eventData :: jobject
  tv_actorType :: string
  tv_actorId :: "string option"
  tv_createdAt :: instant

record resource_ref =
  rf_resourceType :: string
  rf_resourceId :: string
  rf_displayKey :: "string option"

record idempotency_scope =
  is_actionType :: string
  is_resourceType :: string
  is_resourceId :: string

text \<open>\<open>availableAt\<close> of a request is a text and the instant it denotes.\<close>

record enqueue_input =
  ei_tenantId :: string
  ei_taskType :: string
  ei_requestedBy :: "string option"
  ei_triggerSource :: string
  ei_payload :: "jobject option"
  ei_resourceSummary :: "jobject option"
  ei_resourceRefs :: "resource_ref list option"
  ei_idempotencyKey :: "string option"
  ei_idempotencyScope :: "idempotency_scope option"
  ei_parentTaskId :: "string option"
  ei_definitionVersion :: "int option"
  ei_availableAt :: "(string \<times> instant) option"
  ei_initialStatus :: "TaskStatus option"
  ei_initialProgress :: "jobject option"

definition ACTIVE_TASK_STATUSES :: "TaskStatus list" where
  "ACTIVE_TASK_STATUSES = [QUEUED, RUNNING, RETRY_WAITING, WAITING_RESULT, AWAITING_CONFIRMATION, CANCELLING]"

definition terminal :: "TaskStatus \<Rightarrow> bool" where
  "terminal s \<longleftrightarrow> s = SUCCEEDED \<or> s = FAILED \<or> s = CANCELLED"

definition firstRecordString :: "jobject option \<Rightarrow> string \<Rightarrow> string option" where
  "firstRecordString rec key = trimmed_string (ojget rec key)"

definition isPendingApprovalTask :: "task_run \<Rightarrow> bool" where
  "isPendingApprovalTask t =
    (let first = (\<lambda>key. orElse (firstRecordString (tr_progress t) key) (firstRecordString (tr_resourceSummary t) key))
     in tr_status t \<in> set ACTIVE_TASK_STATUSES \<and> first ''approvalId'' \<noteq> None
        \<and> (first ''status'' = Some ''waiting_approval'' \<or> first ''approvalStatus'' = Some ''pending''
           \<or> ojget (tr_progress t) ''approvalPending'' = Some (JBool True)
           \<or> ojget (tr_resourceSummary t) ''approvalPending'' = Some (JBool True)))"

section \<open>Task definitions\<close>

record task_definition =
  td_id :: string
  td_taskType :: string
  td_version :: int
  td_category :: TaskCategory
  td_displayKey :: string
  td_executorKey :: string
  td_timeoutSeconds :: int
  td_maxAttempts :: int
  td_backoffSeconds :: int
  td_permissionKey :: string
  td_sensitivePaths :: "string list"
  td_enabled :: bool

definition standard_definition :: "string \<times> TaskCategory \<times> string \<times> string \<times> string \<Rightarrow> task_definition" where
  "standard_definition d = (case d of (taskType, category, displayKey, executorKey, permissionKey) \<Rightarrow>
    \<lparr>td_id = ''task-definition-'' @ toLowerCase taskType, td_taskType = taskType, td_version = 1,
     td_category = category, td_displayKey = displayKey, td_executorKey = executorKey,
     td_timeoutSeconds = 1800, td_maxAttempts = 3, td_backoffSeconds = 30, td_permissionKey = permissionKey,
     td_sensitivePaths = [''payload.secret'', ''payload.password'', ''payload.privateKey'', ''payload.token''],
     td_enabled = True\<rparr>)"

definition defaultDefinitions :: "task_definition list" where
  "defaultDefinitions = map standard_definition [
     (''CERTIFICATE_DRY_RUN'', EXECUTION, ''tasks.types.certificateDryRun'', ''certificate.dry-run'', ''certificate.read''),
     (''CERTIFICATE_DEPLOY'', EXECUTION, ''tasks.types.certificateDeploy'', ''certificate.deploy'', ''deployment.plan.execute''),
     (''DEPLOYMENT_APPROVAL'', EXECUTION, ''tasks.types.deploymentApproval'', ''deployment.approval'', ''approval.decide''),
     (''CERTIFICATE_VERIFY'', EXECUTION, ''tasks.types.certificateVerify'', ''certificate.verify'', ''execution.run.read''),
     (''CERTIFICATE_ISSUE'', SYSTEM, ''tasks.types.certificateIssue'', ''certificate.issue'', ''ca.request.retry''),
     (''APPLICATION_CERTIFICATE_SUPPLY'', EXECUTION, ''tasks.types.applicationCertificateSupply'', ''application.certificate-supply'', ''application.deployment.execute''),
     (''APPLICATION_CERTIFICATE_DEPLOY'', EXECUTION, ''tasks.types.applicationCertificateDeploy'', ''application.certificate-deploy'', ''application.deployment.execute''),
     (''CERTIFICATE_ROLLBACK'', EXECUTION, ''tasks.types.certificateRollback'', ''certificate.rollback'', ''execution.rollback''),
     (''AGENT_INSTALL'', EXECUTION, ''tasks.types.agentInstall'', ''agent.install'', ''agent.write''),
     (''AGENT_UPDATE'', EXECUTION, ''tasks.types.agentUpdate'', ''agent.update'', ''agent.write''),
     (''CA_NODE_TASK'', SYSTEM, ''tasks.types.caNodeTask'', ''ca.node-task'', ''ca.operations.read''),
     (''ACME_CERTIFICATE_ISSUE'', SYSTEM, ''tasks.types.acmeCertificateIssue'', ''acme.issue'', ''ca.request.retry''),
     (''ACME_CERTIFICATE_RENEWAL'', SYSTEM, ''tasks.types.acmeCertificateRenewal'', ''acme.renewal'', ''ca.request.retry''),
     (''PLUGIN_REFERENCE_REFRESH'', EXECUTION, ''tasks.types.pluginReferenceRefresh'', ''plugin.reference-refresh'', ''plugin.manage''),
     (''DEPLOYMENT_PLAN_REFRESH'', EXECUTION, ''tasks.types.deploymentPlanRefresh'', ''deployment.plan.refresh'', ''deployment.plan.write''),
     (''MONITORING_BATCH'', MONITORING, ''tasks.types.monitoringBatch'', ''monitoring.batch'', ''monitor.dashboard.read''),
     (''MONITORING_PROBE'', MONITORING, ''tasks.types.monitoringProbe'', ''monitoring.probe'', ''monitor.target.read''),
     (''CREDENTIAL_HEALTH_CHECK'', MONITORING, ''tasks.types.credentialHealthCheck'', ''credential.health-check'', ''credential.health-check''),
     (''CERTIFICATE_REVOCATION'', SYSTEM, ''tasks.types.certificateRevocation'', ''certificate.revocation'', ''certificate.lifecycle''),
     (''CRL_PUBLISH'', SYSTEM, ''tasks.types.crlPublish'', ''ca.crl-publish'', ''certificate.lifecycle''),
     (''TRUST_DISTRIBUTION'', SYSTEM, ''tasks.types.trustDistribution'', ''certificate.trust-distribution'', ''certificate.lifecycle''),
     (''GATEWAY_DELEGATION'', SYSTEM, ''tasks.types.gatewayDelegation'', ''gateway.delegate'', ''gateway.read''),
     (''WORKFLOW_RUN'', SYSTEM, ''tasks.types.workflowRun'', ''workflow.run'', ''workflow.read''),
     (''AUTOMATION_TRIGGER_DELIVERY'', SYSTEM, ''tasks.types.automationTriggerDelivery'', ''automation.trigger-delivery'', ''automation.read''),
     (''AUTOMATION_RUN'', EXECUTION, ''tasks.types.automationRun'', ''automation.run'', ''automation.read''),
     (''REPORT_EXPORT'', SYSTEM, ''tasks.types.reportExport'', ''report.export'', ''report.read''),
     (''NOTIFICATION_DELIVERY'', SYSTEM, ''tasks.types.notificationDelivery'', ''notification.delivery'', ''notification.channel.read'')]"

text \<open>The registry is its map in insertion order.\<close>

type_synonym task_registry = "(string \<times> task_definition) list"

definition definition_key :: "task_definition \<Rightarrow> string" where
  "definition_key d = td_taskType d @ '':'' @ int_to_string (td_version d)"

definition registry_register :: "task_definition \<Rightarrow> task_registry \<Rightarrow> task_registry result" where
  "registry_register d reg =
    (if definition_key d \<in> fst ` set reg then Inl (AppError ''RESOURCE_ALREADY_EXISTS'')
     else if td_taskType d = [] \<or> td_executorKey d = [] \<or> td_permissionKey d = [] \<or> td_version d < 1
        \<or> td_timeoutSeconds d < 1 \<or> td_maxAttempts d < 1 \<or> td_backoffSeconds d < 0
     then Inl (AppError ''VALIDATION_FAILED'')
     else Inr (reg @ [(definition_key d, d)]))"

fun registry_of :: "task_definition list \<Rightarrow> task_registry \<Rightarrow> task_registry result" where
  "registry_of [] reg = Inr reg"
| "registry_of (d # ds) reg = (case registry_register d reg of Inl e \<Rightarrow> Inl e | Inr reg' \<Rightarrow> registry_of ds reg')"

definition registry_get :: "string \<Rightarrow> int option \<Rightarrow> task_registry \<Rightarrow> task_definition result" where
  "registry_get taskType version reg =
    (let candidates = sort_by (\<lambda>l r. td_version r < td_version l) (filter (\<lambda>d. td_taskType d = taskType) (map snd reg))
     in case find (\<lambda>d. version = None \<or> version = Some (td_version d)) candidates of
          None \<Rightarrow> Inl (AppError ''TASK_TYPE_NOT_REGISTERED'')
        | Some d \<Rightarrow> if \<not> td_enabled d then Inl (AppError ''TASK_TYPE_DISABLED'') else Inr d)"

definition registry_list :: "task_registry \<Rightarrow> task_definition list" where
  "registry_list reg = map snd reg"

section \<open>Redaction\<close>

text \<open>The test \<open>/password|secret|token|private.?key|authorization/i\<close>.\<close>

definition private_key_at :: "string \<Rightarrow> bool" where
  "private_key_at s \<longleftrightarrow> startsWith s ''privatekey''
     \<or> (startsWith s ''private'' \<and> length s > 7 \<and> s ! 7 \<noteq> char_of (10 :: nat) \<and> s ! 7 \<noteq> char_of (13 :: nat)
        \<and> startsWith (drop 8 s) ''key'')"

definition sensitive_key :: "string \<Rightarrow> bool" where
  "sensitive_key key =
    (let k = toLowerCase key
     in str_includes k ''password'' \<or> str_includes k ''secret'' \<or> str_includes k ''token''
        \<or> (\<exists>i \<in> set [0..<length k]. private_key_at (drop i k)) \<or> str_includes k ''authorization'')"

fun redact_json :: "json \<Rightarrow> json" where
  "redact_json (JObj kvs) =
     JObj (map (\<lambda>(k, v). (k, if sensitive_key k then JStr ''[REDACTED]'' else redact_json v)) kvs)"
| "redact_json v = v"

definition redactRecord :: "jobject \<Rightarrow> jobject" where
  "redactRecord kvs = map (\<lambda>(k, v). (k, if sensitive_key k then JStr ''[REDACTED]'' else redact_json v)) kvs"

section \<open>Idempotency records\<close>

record idempotency_record =
  ir_tenantId :: string
  ir_scope :: idempotency_scope
  ir_idempotencyKey :: string
  ir_requestHash :: string
  ir_statusCode :: int
  ir_responseSummary :: jobject
  ir_createdAt :: instant
  ir_expiresAt :: instant

definition DEFAULT_TTL_SECONDS :: int where
  "DEFAULT_TTL_SECONDS = 24 * 60 * 60"

definition requestHash :: "(string \<Rightarrow> string) \<Rightarrow> (string \<Rightarrow> string \<Rightarrow> bool) \<Rightarrow> json \<Rightarrow> string" where
  "requestHash sha lt v = ''sha256:'' @ sha (canonicalize lt v)"

definition same_idempotency :: "string \<Rightarrow> idempotency_scope \<Rightarrow> string \<Rightarrow> idempotency_record \<Rightarrow> bool" where
  "same_idempotency tenantId scope key r \<longleftrightarrow>
     ir_tenantId r = tenantId \<and> ir_scope r = scope \<and> ir_idempotencyKey r = key"

definition deleteExpiredIdempotencyRecord ::
  "instant \<Rightarrow> string \<Rightarrow> idempotency_scope \<Rightarrow> string \<Rightarrow> idempotency_record list \<Rightarrow> idempotency_record list" where
  "deleteExpiredIdempotencyRecord now tenantId scope key rs =
    filter (\<lambda>r. \<not> (same_idempotency tenantId scope key r \<and> ir_expiresAt r \<le> now)) rs"

definition findIdempotencyRecord ::
  "instant \<Rightarrow> string \<Rightarrow> idempotency_scope \<Rightarrow> string \<Rightarrow> idempotency_record list
   \<Rightarrow> idempotency_record option \<times> idempotency_record list" where
  "findIdempotencyRecord now tenantId scope key rs =
    (let rs' = deleteExpiredIdempotencyRecord now tenantId scope key rs
     in (find (\<lambda>r. same_idempotency tenantId scope key r \<and> now < ir_expiresAt r) rs', rs'))"

definition saveIdempotencyRecord ::
  "instant \<Rightarrow> string \<Rightarrow> idempotency_scope \<Rightarrow> string \<Rightarrow> string \<Rightarrow> int \<Rightarrow> jobject \<Rightarrow> int option
   \<Rightarrow> idempotency_record list \<Rightarrow> idempotency_record list result" where
  "saveIdempotencyRecord clk tenantId scope key hash code summary ttl rs =
    (if \<exists>r \<in> set rs. same_idempotency tenantId scope key r then Inl (DbError ''23505'')
     else Inr (rs @ [\<lparr>ir_tenantId = tenantId, ir_scope = scope, ir_idempotencyKey = key, ir_requestHash = hash,
        ir_statusCode = code, ir_responseSummary = summary, ir_createdAt = clk,
        ir_expiresAt = clk + getOrElse ttl DEFAULT_TTL_SECONDS * 1000\<rparr>]))"

definition assertSameRequest :: "idempotency_record \<Rightarrow> string \<Rightarrow> unit result" where
  "assertSameRequest r hash = (if ir_requestHash r \<noteq> hash then Inl (AppError ''IDEMPOTENCY_CONFLICT'') else Inr ())"

definition isUniqueViolation :: "error \<Rightarrow> bool" where
  "isUniqueViolation e = (case e of
     DbError code \<Rightarrow> code = ''23505''
   | PlainError msg \<Rightarrow> str_includes msg ''unique constraint''
   | _ \<Rightarrow> False)"

definition defaultTaskIdempotencyScope :: "string \<Rightarrow> idempotency_scope" where
  "defaultTaskIdempotencyScope taskType =
    \<lparr>is_actionType = ''task.enqueue.'' @ taskType, is_resourceType = ''task'', is_resourceId = taskType\<rparr>"

fun unique_refs_from :: "string list \<Rightarrow> resource_ref list \<Rightarrow> resource_ref list" where
  "unique_refs_from seen [] = []"
| "unique_refs_from seen (r # rs) =
     (let key = rf_resourceType r @ '':'' @ rf_resourceId r
      in if key \<in> set seen then unique_refs_from seen rs else r # unique_refs_from (key # seen) rs)"

definition uniqueRefs :: "resource_ref list \<Rightarrow> resource_ref list" where
  "uniqueRefs refs = unique_refs_from [] refs"

definition jopt :: "string option \<Rightarrow> json" where
  "jopt v = (case v of None \<Rightarrow> JNull | Some s \<Rightarrow> JStr s)"

fun status_text :: "TaskStatus \<Rightarrow> string" where
  "status_text QUEUED = ''QUEUED''" | "status_text RUNNING = ''RUNNING''"
| "status_text RETRY_WAITING = ''RETRY_WAITING''" | "status_text WAITING_RESULT = ''WAITING_RESULT''"
| "status_text AWAITING_CONFIRMATION = ''AWAITING_CONFIRMATION''" | "status_text CANCELLING = ''CANCELLING''"
| "status_text SUCCEEDED = ''SUCCEEDED''" | "status_text FAILED = ''FAILED''" | "status_text CANCELLED = ''CANCELLED''"

fun category_text :: "TaskCategory \<Rightarrow> string" where
  "category_text EXECUTION = ''EXECUTION''" | "category_text MONITORING = ''MONITORING''" | "category_text SYSTEM = ''SYSTEM''"

definition scope_json :: "idempotency_scope \<Rightarrow> json" where
  "scope_json s = JObj [(''actionType'', JStr (is_actionType s)), (''resourceType'', JStr (is_resourceType s)),
     (''resourceId'', JStr (is_resourceId s))]"

definition taskRequestHash ::
  "(string \<Rightarrow> string) \<Rightarrow> (string \<Rightarrow> string \<Rightarrow> bool) \<Rightarrow> enqueue_input \<Rightarrow> int \<Rightarrow> string" where
  "taskRequestHash sha lt inp version = requestHash sha lt (JObj
    [(''tenantId'', JStr (ei_tenantId inp)),
     (''taskType'', JStr (ei_taskType inp)),
     (''definitionVersion'', JNum version),
     (''requestedBy'', jopt (ei_requestedBy inp)),
     (''triggerSource'', JStr (ei_triggerSource inp)),
     (''payload'', JObj (getOrElse (ei_payload inp) [])),
     (''resourceSummary'', JObj (getOrElse (ei_resourceSummary inp) [])),
     (''resourceRefs'', JArr (map (\<lambda>r. JObj [(''resourceType'', JStr (rf_resourceType r)),
         (''resourceId'', JStr (rf_resourceId r)), (''displayKey'', jopt (rf_displayKey r))])
       (uniqueRefs (getOrElse (ei_resourceRefs inp) [])))),
     (''parentTaskId'', jopt (ei_parentTaskId inp)),
     (''availableAt'', jopt (map_option fst (ei_availableAt inp))),
     (''initialStatus'', JStr (status_text (getOrElse (ei_initialStatus inp) QUEUED))),
     (''initialProgress'', (case ei_initialProgress inp of None \<Rightarrow> JNull | Some p \<Rightarrow> JObj p)),
     (''idempotencyScope'', scope_json (getOrElse (ei_idempotencyScope inp) (defaultTaskIdempotencyScope (ei_taskType inp))))])"

section \<open>Lemmas\<close>

lemma terminal_iff_not_active: "terminal s \<longleftrightarrow> s \<notin> set ACTIVE_TASK_STATUSES"
  by (cases s) (auto simp: terminal_def ACTIVE_TASK_STATUSES_def)

lemma terminal_simps [simp]:
  "terminal SUCCEEDED" "terminal FAILED" "terminal CANCELLED" "\<not> terminal QUEUED" "\<not> terminal RUNNING"
  "\<not> terminal RETRY_WAITING" "\<not> terminal WAITING_RESULT" "\<not> terminal AWAITING_CONFIRMATION" "\<not> terminal CANCELLING"
  by (simp_all add: terminal_def)

lemma findIdempotencyRecord_live:
  assumes "findIdempotencyRecord now tenantId scope key rs = (Some r, rs')"
  shows "r \<in> set rs \<and> same_idempotency tenantId scope key r \<and> now < ir_expiresAt r"
  using assms by (auto simp: findIdempotencyRecord_def Let_def deleteExpiredIdempotencyRecord_def dest: find_Some_iff_first)

text \<open>Where the redacted value may still show a secret: under a key that is not sensitive and that is
  not itself an object.\<close>

fun leaves :: "json \<Rightarrow> (string list \<times> json) list" where
  "leaves (JObj kvs) = concat (map (\<lambda>(k, v). map (\<lambda>(p, l). (k # p, l)) (leaves v)) kvs)"
| "leaves v = [([], v)]"

lemma redact_leaves:
  "(p, l) \<in> set (leaves (redact_json v)) \<Longrightarrow> l = JStr ''[REDACTED]'' \<or> (\<forall>k \<in> set p. \<not> sensitive_key k)"
proof (induction v arbitrary: p l rule: redact_json.induct)
  case (1 kvs)
  then obtain k v q where kv: "(k, v) \<in> set kvs" and p: "p = k # q"
    and ql: "(q, l) \<in> set (leaves (if sensitive_key k then JStr ''[REDACTED]'' else redact_json v))"
    by auto
  show ?case
  proof (cases "sensitive_key k")
    case True
    then show ?thesis using ql by simp
  next
    case False
    then show ?thesis using "1.IH" [OF kv refl] ql p by auto
  qed
qed auto

end
