(* ===== verification/TaskRepository.thy ===== *)
theory TaskRepository
  imports TaskModel
begin

text \<open>
  The task repository: \<open>backend/src/modules/tasks/task.repository.ts\<close>.

  \<open>task_db\<close> is the part of the database the repository works on: the tables \<open>task_runs\<close>,
  \<open>task_attempts\<close>, \<open>task_events\<close>, \<open>task_resource_refs\<close>, \<open>idempotency_records\<close>, \<open>task_definitions\<close> and
  the documents of the execution steps. A transaction is atomic: an operation that throws leaves the
  database as it was. The primary keys, the unique key of the idempotency records and the partial
  unique index \<open>uq_task_runs_active_idempotency\<close> (one active task per tenant, type and key) of the
  baseline migration are checked wherever a write can break them. SQL conditions over JSON members
  are three-valued. \<open>locked\<close> tells which task rows other transactions hold when \<open>skip locked\<close> skips
  them. Rows with equal sort keys come in insertion order.
\<close>

section \<open>The database\<close>

record task_db =
  db_runs :: "task_run list"
  db_attempts :: "task_attempt list"
  db_events :: "task_event list"
  db_refs :: "(string \<times> resource_ref) list"
  db_idempotency :: "idempotency_record list"
  db_steps :: "jobject list"
  db_definitions :: "task_definition list"

definition getById :: "string \<Rightarrow> string \<Rightarrow> task_db \<Rightarrow> task_run option" where
  "getById tenantId i db = find (\<lambda>r. tr_tenantId r = tenantId \<and> tr_id r = i) (db_runs db)"

definition appendEvent ::
  "instant \<Rightarrow> string \<Rightarrow> string \<Rightarrow> jobject \<Rightarrow> string option \<Rightarrow> string option \<Rightarrow> task_db \<Rightarrow> task_db" where
  "appendEvent now taskRunId eventType eventData actorId attemptId db =
    db\<lparr>db_events := db_events db @ [\<lparr>tv_taskRunId = taskRunId, tv_attemptId = attemptId, tv_eventType = eventType,
       tv_eventData = redactRecord eventData, tv_actorType = (if truthy actorId then ''USER'' else ''SYSTEM''),
       tv_actorId = actorId, tv_createdAt = now\<rparr>]\<rparr>"

definition update_runs :: "(task_run \<Rightarrow> bool) \<Rightarrow> (task_run \<Rightarrow> task_run) \<Rightarrow> task_db \<Rightarrow> task_db" where
  "update_runs p f db = db\<lparr>db_runs := upd_where p f (db_runs db)\<rparr>"

definition update_attempts :: "(task_attempt \<Rightarrow> bool) \<Rightarrow> (task_attempt \<Rightarrow> task_attempt) \<Rightarrow> task_db \<Rightarrow> task_db" where
  "update_attempts p f db = db\<lparr>db_attempts := upd_where p f (db_attempts db)\<rparr>"

text \<open>The key of the partial unique index, for a row the index covers.\<close>

definition active_key :: "task_run \<Rightarrow> (string \<times> string \<times> string) option" where
  "active_key r = (case tr_idempotencyKey r of
     None \<Rightarrow> None
   | Some k \<Rightarrow> if terminal (tr_status r) then None else Some (tr_tenantId r, tr_taskType r, k))"

definition unique_active :: "task_run list \<Rightarrow> bool" where
  "unique_active rs = distinct (List.map_filter active_key rs)"

definition checked_update :: "(task_run \<Rightarrow> bool) \<Rightarrow> (task_run \<Rightarrow> task_run) \<Rightarrow> task_db \<Rightarrow> task_db result" where
  "checked_update p f db =
    (let db' = update_runs p f db in if unique_active (db_runs db') then Inr db' else Inl (DbError ''23505''))"

definition eventForStatus :: "TaskStatus \<Rightarrow> string" where
  "eventForStatus s =
    (if s = SUCCEEDED then ''SUCCEEDED'' else if s = FAILED then ''FAILED'' else if s = CANCELLED then ''CANCELLED''
     else if s = WAITING_RESULT then ''WAITING_RESULT''
     else if s = AWAITING_CONFIRMATION then ''AWAITING_CONFIRMATION'' else ''RETRY_SCHEDULED'')"

section \<open>Definitions and lookups\<close>

definition upsert_definition :: "task_definition \<Rightarrow> task_definition list \<Rightarrow> task_definition list" where
  "upsert_definition d ds =
    (if \<exists>x \<in> set ds. td_taskType x = td_taskType d \<and> td_version x = td_version d
     then upd_where (\<lambda>x. td_taskType x = td_taskType d \<and> td_version x = td_version d)
       (\<lambda>x. x\<lparr>td_displayKey := td_displayKey d, td_executorKey := td_executorKey d,
              td_timeoutSeconds := td_timeoutSeconds d, td_maxAttempts := td_maxAttempts d,
              td_backoffSeconds := td_backoffSeconds d, td_permissionKey := td_permissionKey d,
              td_sensitivePaths := td_sensitivePaths d, td_enabled := td_enabled d\<rparr>) ds
     else ds @ [d])"

definition ensureDefinitions :: "task_definition list \<Rightarrow> task_db \<Rightarrow> task_db" where
  "ensureDefinitions ds db = db\<lparr>db_definitions := fold upsert_definition ds (db_definitions db)\<rparr>"

text \<open>The columns the schema has are an argument.\<close>

definition requiredColumns :: "string list" where
  "requiredColumns = [''id'', ''tenant_id'', ''action_type'', ''resource_type'', ''resource_id'', ''idempotency_key'',
     ''request_hash'', ''status_code'', ''response_summary'', ''created_at'', ''expires_at'']"

definition assertIdempotencyRecordsSchema :: "string list \<Rightarrow> unit result" where
  "assertIdempotencyRecordsSchema available =
    (let missing = filter (\<lambda>c. c \<notin> set available) requiredColumns
     in if missing = [] then Inr () else Inl (PlainError (''idempotency_records lacks '' @ join '', '' missing)))"

definition ensureControlPlaneSchema :: "string list \<Rightarrow> task_definition list \<Rightarrow> task_db \<Rightarrow> unit result \<times> task_db" where
  "ensureControlPlaneSchema available ds db =
    (let db' = ensureDefinitions ds db in (assertIdempotencyRecordsSchema available, db'))"

definition newest_first :: "task_run list \<Rightarrow> task_run list" where
  "newest_first rs = sort_by (\<lambda>a b. tr_createdAt b < tr_createdAt a) rs"

definition head_option :: "'a list \<Rightarrow> 'a option" where
  "head_option xs = (case xs of [] \<Rightarrow> None | x # _ \<Rightarrow> Some x)"

definition findActiveByIdempotency :: "string \<Rightarrow> string \<Rightarrow> string \<Rightarrow> task_db \<Rightarrow> task_run option" where
  "findActiveByIdempotency tenantId taskType key db =
    head_option (newest_first (filter (\<lambda>r. tr_tenantId r = tenantId \<and> tr_taskType r = taskType
      \<and> tr_idempotencyKey r = Some key \<and> \<not> terminal (tr_status r)) (db_runs db)))"

definition findByIdempotencyKey :: "string \<Rightarrow> string \<Rightarrow> string \<Rightarrow> task_db \<Rightarrow> task_run option" where
  "findByIdempotencyKey tenantId taskType key db =
    head_option (newest_first (filter (\<lambda>r. tr_tenantId r = tenantId \<and> tr_taskType r = taskType
      \<and> tr_idempotencyKey r = Some key) (db_runs db)))"

definition findByIdempotency ::
  "instant \<Rightarrow> string \<Rightarrow> string \<Rightarrow> string \<Rightarrow> idempotency_scope \<Rightarrow> task_db
   \<Rightarrow> (task_run \<times> idempotency_record) option \<times> task_db" where
  "findByIdempotency now tenantId taskType key scope db =
    (let (found, rs) = findIdempotencyRecord now tenantId scope key (db_idempotency db);
         db' = db\<lparr>db_idempotency := rs\<rparr>
     in (case found of
           None \<Rightarrow> (None, db')
         | Some rec \<Rightarrow>
             let taskId = (case jget (ir_responseSummary rec) ''id'' of Some (JStr i) \<Rightarrow> i | _ \<Rightarrow> is_resourceId (ir_scope rec))
             in (case getById tenantId taskId db' of
                   None \<Rightarrow> (None, db')
                 | Some t \<Rightarrow> if tr_taskType t = taskType then (Some (t, rec), db') else (None, db'))))"

section \<open>Creation\<close>

definition jobj_opt :: "string \<Rightarrow> json option \<Rightarrow> jobject" where
  "jobj_opt k v = (case v of None \<Rightarrow> [] | Some j \<Rightarrow> [(k, j)])"

text \<open>The task as the JSON object that is kept as the response summary; instants are numbers.\<close>

definition task_json :: "task_run \<Rightarrow> jobject" where
  "task_json t =
    [(''id'', JStr (tr_id t)), (''tenantId'', JStr (tr_tenantId t)), (''taskType'', JStr (tr_taskType t)),
     (''definitionVersion'', JNum (tr_definitionVersion t)), (''category'', JStr (category_text (tr_category t))),
     (''status'', JStr (status_text (tr_status t)))]
    @ jobj_opt ''requestedBy'' (map_option JStr (tr_requestedBy t))
    @ [(''triggerSource'', JStr (tr_triggerSource t))]
    @ jobj_opt ''resourceSummary'' (map_option JObj (tr_resourceSummary t))
    @ jobj_opt ''idempotencyKey'' (map_option JStr (tr_idempotencyKey t))
    @ jobj_opt ''parentTaskId'' (map_option JStr (tr_parentTaskId t))
    @ [(''payload'', JObj (tr_payload t))]
    @ jobj_opt ''progress'' (map_option JObj (tr_progress t))
    @ [(''availableAt'', JNum (tr_availableAt t))]
    @ jobj_opt ''nextAttemptAt'' (map_option JNum (tr_nextAttemptAt t))
    @ jobj_opt ''leaseOwner'' (map_option JStr (tr_leaseOwner t))
    @ jobj_opt ''leaseExpiresAt'' (map_option JNum (tr_leaseExpiresAt t))
    @ [(''createdAt'', JNum (tr_createdAt t))]
    @ jobj_opt ''startedAt'' (map_option JNum (tr_startedAt t))
    @ jobj_opt ''finishedAt'' (map_option JNum (tr_finishedAt t))
    @ jobj_opt ''lastErrorCode'' (map_option JStr (tr_lastErrorCode t))
    @ jobj_opt ''lastErrorMessage'' (map_option JStr (tr_lastErrorMessage t))"

definition new_run :: "instant \<Rightarrow> string \<Rightarrow> enqueue_input \<Rightarrow> task_definition \<Rightarrow> task_run" where
  "new_run now i inp d =
    \<lparr>tr_id = i, tr_tenantId = ei_tenantId inp, tr_taskType = ei_taskType inp, tr_definitionVersion = td_version d,
     tr_category = td_category d, tr_status = getOrElse (ei_initialStatus inp) QUEUED,
     tr_requestedBy = ei_requestedBy inp, tr_triggerSource = ei_triggerSource inp,
     tr_resourceSummary = Some (getOrElse (ei_resourceSummary inp) []), tr_idempotencyKey = ei_idempotencyKey inp,
     tr_parentTaskId = ei_parentTaskId inp, tr_payload = getOrElse (ei_payload inp) [],
     tr_progress = ei_initialProgress inp,
     tr_availableAt = (case ei_availableAt inp of None \<Rightarrow> now | Some (_, t) \<Rightarrow> t),
     tr_nextAttemptAt = None, tr_leaseOwner = None, tr_leaseExpiresAt = None, tr_createdAt = now,
     tr_startedAt = None, tr_finishedAt = None, tr_lastErrorCode = None, tr_lastErrorMessage = None\<rparr>"

definition insert_run :: "task_run \<Rightarrow> task_db \<Rightarrow> task_db result" where
  "insert_run r db =
    (if tr_id r \<in> tr_id ` set (db_runs db) \<or> \<not> unique_active (db_runs db @ [r]) then Inl (DbError ''23505'')
     else Inr (db\<lparr>db_runs := db_runs db @ [r]\<rparr>))"

definition insert_ref :: "string \<Rightarrow> resource_ref \<Rightarrow> task_db \<Rightarrow> task_db" where
  "insert_ref taskId ref db =
    (if \<exists>(t, x) \<in> set (db_refs db). t = taskId \<and> rf_resourceType x = rf_resourceType ref \<and> rf_resourceId x = rf_resourceId ref
     then db else db\<lparr>db_refs := db_refs db @ [(taskId, ref)]\<rparr>)"

definition task_create ::
  "(string \<Rightarrow> string) \<Rightarrow> (string \<Rightarrow> string \<Rightarrow> bool) \<Rightarrow> instant \<Rightarrow> instant \<Rightarrow> string \<Rightarrow> enqueue_input \<Rightarrow> task_definition
   \<Rightarrow> task_db \<Rightarrow> (task_run \<times> task_db) result" where
  "task_create sha lt now clk i inp d db =
    (case insert_run (new_run now i inp d) db of
       Inl e \<Rightarrow> Inl e
     | Inr db1 \<Rightarrow>
         let db2 = fold (insert_ref i) (uniqueRefs (getOrElse (ei_resourceRefs inp) [])) db1;
             db3 = appendEvent now i ''CREATED'' [(''taskType'', JStr (ei_taskType inp)),
                     (''category'', JStr (category_text (td_category d))),
                     (''triggerSource'', JStr (ei_triggerSource inp))] (ei_requestedBy inp) None db2
         in (case getById (ei_tenantId inp) i db3 of
               None \<Rightarrow> Inl (PlainError ''task not readable after creation'')
             | Some created \<Rightarrow>
                 if truthy (ei_idempotencyKey inp)
                 then (case saveIdempotencyRecord clk (ei_tenantId inp)
                         (getOrElse (ei_idempotencyScope inp) (defaultTaskIdempotencyScope (ei_taskType inp)))
                         (the (ei_idempotencyKey inp)) (taskRequestHash sha lt inp (td_version d)) 202
                         (redactRecord (task_json created)) None (db_idempotency db3) of
                         Inl e \<Rightarrow> Inl e
                       | Inr rs \<Rightarrow> Inr (created, db3\<lparr>db_idempotency := rs\<rparr>))
                 else Inr (created, db3)))"

section \<open>Claiming\<close>

text \<open>The rows of the join in \<open>recoverExpiredLeases\<close>, and the work on one of them.\<close>

definition expired_rows :: "instant \<Rightarrow> (string \<Rightarrow> bool) \<Rightarrow> task_db \<Rightarrow> (string \<times> string) list" where
  "expired_rows now locked db = concat (map (\<lambda>r. map (\<lambda>a. (tr_id r, ta_id a))
      (filter (\<lambda>a. ta_taskRunId a = tr_id r \<and> ta_status a = AT_RUNNING) (db_attempts db)))
    (filter (\<lambda>r. (tr_status r = RUNNING \<or> tr_status r = CANCELLING) \<and> \<not> locked (tr_id r)
        \<and> (case tr_leaseExpiresAt r of None \<Rightarrow> False | Some t \<Rightarrow> t \<le> now)) (db_runs db)))"

definition recovered :: "instant \<Rightarrow> TaskStatus \<Rightarrow> task_run \<Rightarrow> task_run" where
  "recovered now s r =
    (if s = RETRY_WAITING
     then r\<lparr>tr_status := s, tr_leaseOwner := None, tr_leaseExpiresAt := None, tr_nextAttemptAt := Some now,
            tr_lastErrorCode := Some ''TASK_LEASE_EXPIRED'', tr_lastErrorMessage := Some ''lease expired, task recovered''\<rparr>
     else r\<lparr>tr_status := s, tr_leaseOwner := None, tr_leaseExpiresAt := None, tr_nextAttemptAt := None,
            tr_finishedAt := Some now\<rparr>)"

definition recover_one :: "instant \<Rightarrow> string \<times> string \<Rightarrow> task_db \<Rightarrow> task_db result" where
  "recover_one now row db = (case row of (taskId, attemptId) \<Rightarrow>
    (let cancelling = (taskId \<noteq> [] \<and> map_option tr_status (find (\<lambda>r. tr_id r = taskId) (db_runs db)) = Some CANCELLING);
         nextStatus = (if cancelling then CANCELLED else RETRY_WAITING);
         db1 = update_attempts (\<lambda>a. ta_id a = attemptId \<and> ta_status a = AT_RUNNING)
           (\<lambda>a. a\<lparr>ta_status := (if cancelling then AT_CANCELLED else AT_EXPIRED), ta_finishedAt := Some now,
                  ta_errorCode := Some ''TASK_LEASE_EXPIRED'', ta_errorSummary := Some ''lease expired''\<rparr>) db
     in (case checked_update (\<lambda>r. tr_id r = taskId) (recovered now nextStatus) db1 of
           Inl e \<Rightarrow> Inl e
         | Inr db2 \<Rightarrow> Inr (appendEvent now taskId (if cancelling then ''CANCELLED'' else ''EXPIRED'')
             [(''errorCode'', JStr ''TASK_LEASE_EXPIRED''), (''reason'', JStr ''lease expired'')] None None db2))))"

fun recover_all :: "instant \<Rightarrow> (string \<times> string) list \<Rightarrow> task_db \<Rightarrow> task_db result" where
  "recover_all now [] db = Inr db"
| "recover_all now (row # rows) db = (case recover_one now row db of Inl e \<Rightarrow> Inl e | Inr db' \<Rightarrow> recover_all now rows db')"

definition recoverExpiredLeases :: "instant \<Rightarrow> (string \<Rightarrow> bool) \<Rightarrow> task_db \<Rightarrow> task_db result" where
  "recoverExpiredLeases now locked db = recover_all now (expired_rows now locked db) db"

text \<open>The filter of the queries on tasks that wait for an approval, three-valued.\<close>

definition sql_approval_flags :: "task_run \<Rightarrow> tri" where
  "sql_approval_flags r = tri_ors
    [tri_eq (sql_text (tr_progress r) ''status'') (Some ''waiting_approval''),
     tri_eq (sql_text (tr_resourceSummary r) ''status'') (Some ''waiting_approval''),
     tri_eq (sql_text (tr_progress r) ''approvalStatus'') (Some ''pending''),
     tri_eq (sql_text (tr_resourceSummary r) ''approvalStatus'') (Some ''pending''),
     tri_eq (sql_text (tr_progress r) ''approvalPending'') (Some ''true''),
     tri_eq (sql_text (tr_resourceSummary r) ''approvalPending'') (Some ''true'')]"

definition sql_has_approval :: "task_run \<Rightarrow> bool" where
  "sql_has_approval r \<longleftrightarrow>
     nullif_empty (orElse (sql_text (tr_progress r) ''approvalId'') (sql_text (tr_resourceSummary r) ''approvalId'')) \<noteq> None"

definition sql_pending_approval :: "task_run \<Rightarrow> tri" where
  "sql_pending_approval r = tri_and (Some (sql_has_approval r)) (sql_approval_flags r)"

definition tenant_matches :: "string option \<Rightarrow> task_run \<Rightarrow> bool" where
  "tenant_matches tenantId r \<longleftrightarrow> (truthy tenantId \<longrightarrow> Some (tr_tenantId r) = tenantId)"

definition due :: "instant \<Rightarrow> instant option \<Rightarrow> bool" where
  "due now t = (case t of None \<Rightarrow> True | Some x \<Rightarrow> x \<le> now)"

definition claimable :: "instant \<Rightarrow> string option \<Rightarrow> task_run \<Rightarrow> bool" where
  "claimable now tenantId r \<longleftrightarrow>
     (tr_status r = QUEUED \<or> tr_status r = RETRY_WAITING \<or> tr_status r = WAITING_RESULT)
     \<and> selected (tri_not (sql_pending_approval r))
     \<and> tr_availableAt r \<le> now \<and> due now (tr_nextAttemptAt r) \<and> due now (tr_leaseExpiresAt r)
     \<and> tenant_matches tenantId r"

definition earlier :: "task_run \<Rightarrow> task_run \<Rightarrow> bool" where
  "earlier a b \<longleftrightarrow> tr_availableAt a < tr_availableAt b
     \<or> (tr_availableAt a = tr_availableAt b \<and> tr_createdAt a < tr_createdAt b)"

definition backfill_waiting :: "instant \<Rightarrow> string option \<Rightarrow> task_db \<Rightarrow> task_db" where
  "backfill_waiting now tenantId db = update_runs
    (\<lambda>r. tr_status r = WAITING_RESULT \<and> tr_nextAttemptAt r = None \<and> tr_leaseOwner r = None \<and> tenant_matches tenantId r)
    (\<lambda>r. r\<lparr>tr_nextAttemptAt := Some (now + 10 * 1000)\<rparr>) db"

definition select_claim :: "instant \<Rightarrow> (string \<Rightarrow> bool) \<Rightarrow> string option \<Rightarrow> task_db \<Rightarrow> task_run option" where
  "select_claim now locked tenantId db =
    head_option (sort_by earlier (filter (\<lambda>r. claimable now tenantId r \<and> \<not> locked (tr_id r)) (db_runs db)))"

definition next_attempt_no :: "string \<Rightarrow> task_db \<Rightarrow> int" where
  "next_attempt_no taskId db =
    (let nos = map ta_attemptNo (filter (\<lambda>a. ta_taskRunId a = taskId) (db_attempts db))
     in (if nos = [] then 0 else Max (set nos)) + 1)"

definition insert_attempt :: "task_attempt \<Rightarrow> task_db \<Rightarrow> task_db result" where
  "insert_attempt a db =
    (if ta_id a \<in> ta_id ` set (db_attempts db)
        \<or> (ta_taskRunId a, ta_attemptNo a) \<in> (\<lambda>x. (ta_taskRunId x, ta_attemptNo x)) ` set (db_attempts db)
     then Inl (DbError ''23505'') else Inr (db\<lparr>db_attempts := db_attempts db @ [a]\<rparr>))"

definition new_attempt :: "instant \<Rightarrow> string \<Rightarrow> string \<Rightarrow> int \<Rightarrow> string \<Rightarrow> instant \<Rightarrow> task_attempt" where
  "new_attempt startedAt i taskId no workerId expiresAt =
    \<lparr>ta_id = i, ta_taskRunId = taskId, ta_attemptNo = no, ta_workerId = workerId, ta_leaseExpiresAt = expiresAt,
     ta_status = AT_RUNNING, ta_startedAt = startedAt, ta_finishedAt = None, ta_errorCode = None, ta_errorSummary = None\<rparr>"

definition take_lease :: "instant \<Rightarrow> string \<Rightarrow> instant \<Rightarrow> task_run \<Rightarrow> task_run" where
  "take_lease now workerId expiresAt r =
    r\<lparr>tr_status := RUNNING, tr_leaseOwner := Some workerId, tr_leaseExpiresAt := Some expiresAt,
      tr_startedAt := orElse (tr_startedAt r) (Some now), tr_nextAttemptAt := None\<rparr>"

definition claimNext ::
  "instant \<Rightarrow> instant \<Rightarrow> (string \<Rightarrow> bool) \<Rightarrow> string \<Rightarrow> string option \<Rightarrow> string \<Rightarrow> int \<Rightarrow> task_db
   \<Rightarrow> ((task_run \<times> task_attempt) option \<times> task_db) result" where
  "claimNext now clk locked attemptId tenantId workerId leaseSeconds db =
    (case recoverExpiredLeases now locked db of
       Inl e \<Rightarrow> Inl e
     | Inr db1 \<Rightarrow>
         let db2 = backfill_waiting now tenantId db1 in
         (case select_claim now locked tenantId db2 of
            None \<Rightarrow> Inr (None, db2)
          | Some row \<Rightarrow>
              let no = next_attempt_no (tr_id row) db2;
                  expiresAt = clk + leaseSeconds * 1000
              in (case insert_attempt (new_attempt now attemptId (tr_id row) no workerId expiresAt) db2 of
                    Inl e \<Rightarrow> Inl e
                  | Inr db3 \<Rightarrow>
                      let db4 = update_runs (\<lambda>r. tr_id r = tr_id row) (take_lease now workerId expiresAt) db3;
                          db5 = appendEvent now (tr_id row) ''CLAIMED''
                            [(''workerId'', JStr workerId), (''attemptNo'', JNum no)] None (Some attemptId) db4
                      in (case getById (tr_tenantId row) (tr_id row) db5 of
                            None \<Rightarrow> Inl (PlainError ''task missing after claim'')
                          | Some t \<Rightarrow> Inr (Some (t, new_attempt clk attemptId (tr_id row) no workerId expiresAt), db5)))))"

section \<open>Lease holders\<close>

definition holds_lease :: "task_run \<Rightarrow> string \<Rightarrow> task_run \<Rightarrow> bool" where
  "holds_lease t workerId r \<longleftrightarrow> tr_id r = tr_id t \<and> tr_tenantId r = tr_tenantId t
     \<and> tr_leaseOwner r = Some workerId \<and> tr_status r = RUNNING"

definition heartbeat ::
  "instant \<Rightarrow> instant \<Rightarrow> task_run \<Rightarrow> task_attempt \<Rightarrow> string \<Rightarrow> int \<Rightarrow> jobject option \<Rightarrow> task_db \<Rightarrow> task_db result" where
  "heartbeat now clk t a workerId leaseSeconds progress db =
    (let expiresAt = clk + leaseSeconds * 1000 in
     if \<not> (\<exists>r \<in> set (db_runs db). holds_lease t workerId r) then Inl (PlainError ''TASK_LEASE_LOST'')
     else
       let db1 = update_runs (holds_lease t workerId)
             (\<lambda>r. r\<lparr>tr_leaseExpiresAt := Some expiresAt, tr_progress := orElse progress (tr_progress r)\<rparr>) db;
           db2 = update_attempts (\<lambda>x. ta_id x = ta_id a \<and> ta_status x = AT_RUNNING)
             (\<lambda>x. x\<lparr>ta_leaseExpiresAt := expiresAt\<rparr>) db1
       in Inr (appendEvent now (tr_id t) (if progress \<noteq> None then ''PROGRESS'' else ''HEARTBEAT'')
            (getOrElse progress [(''workerId'', JStr workerId)]) None (Some (ta_id a)) db2))"

record task_outcome =
  to_errorCode :: "string option"
  to_errorMessage :: "string option"
  to_detail :: "jobject option"

definition finished_run ::
  "instant \<Rightarrow> TaskStatus \<Rightarrow> task_outcome \<Rightarrow> instant option \<Rightarrow> int option \<Rightarrow> task_run \<Rightarrow> task_run" where
  "finished_run now s res nextAttemptAt retryAfterSeconds r =
    r\<lparr>tr_status := s, tr_leaseOwner := None, tr_leaseExpiresAt := None,
      tr_nextAttemptAt := (case retryAfterSeconds of Some n \<Rightarrow> Some (now + n * 1000) | None \<Rightarrow> nextAttemptAt),
      tr_finishedAt := (if terminal s then Some now else tr_finishedAt r),
      tr_lastErrorCode := to_errorCode res, tr_lastErrorMessage := to_errorMessage res,
      tr_progress := orElse (to_detail res) (tr_progress r)\<rparr>"

definition attempt_status_for :: "TaskStatus \<Rightarrow> TaskAttemptStatus" where
  "attempt_status_for s =
    (if s = SUCCEEDED then AT_SUCCEEDED else if s = CANCELLED then AT_CANCELLED
     else if s = WAITING_RESULT \<or> s = AWAITING_CONFIRMATION then AT_WAITING else AT_FAILED)"

definition task_finish ::
  "instant \<Rightarrow> task_run \<Rightarrow> task_attempt \<Rightarrow> string \<Rightarrow> TaskStatus \<Rightarrow> task_outcome \<Rightarrow> instant option \<Rightarrow> int option
   \<Rightarrow> task_db \<Rightarrow> task_db result" where
  "task_finish now t a workerId s res nextAttemptAt retryAfterSeconds db =
    (if \<not> (\<exists>r \<in> set (db_runs db). holds_lease t workerId r) then Inl (PlainError ''TASK_LEASE_LOST'')
     else
       let db1 = update_runs (holds_lease t workerId) (finished_run now s res nextAttemptAt retryAfterSeconds) db;
           db2 = update_attempts (\<lambda>x. ta_id x = ta_id a \<and> ta_status x = AT_RUNNING)
             (\<lambda>x. x\<lparr>ta_status := attempt_status_for s, ta_finishedAt := Some now,
                    ta_errorCode := to_errorCode res, ta_errorSummary := to_errorMessage res\<rparr>) db1
       in Inr (appendEvent now (tr_id t) (eventForStatus s)
            (getOrElse (to_detail res) (jobj_opt ''errorCode'' (map_option JStr (to_errorCode res))
               @ jobj_opt ''errorMessage'' (map_option JStr (to_errorMessage res)))) None (Some (ta_id a)) db2))"

section \<open>Cancellation and retry\<close>

definition of_row :: "string \<Rightarrow> string \<Rightarrow> task_run \<Rightarrow> bool" where
  "of_row tenantId i r \<longleftrightarrow> tr_id r = i \<and> tr_tenantId r = tenantId"

definition requestCancel ::
  "instant \<Rightarrow> string \<Rightarrow> string \<Rightarrow> string option \<Rightarrow> string option \<Rightarrow> task_db \<Rightarrow> (task_run \<times> task_db) result" where
  "requestCancel now tenantId i actorId reason db = (case getById tenantId i db of
     None \<Rightarrow> Inl (PlainError ''NOT_FOUND'')
   | Some t \<Rightarrow>
       if terminal (tr_status t) then Inr (t, db)
       else
         let s = (if tr_status t = RUNNING then CANCELLING else CANCELLED);
             db1 = update_runs (of_row tenantId i)
               (\<lambda>r. r\<lparr>tr_status := s, tr_finishedAt := (if s = CANCELLED then Some now else tr_finishedAt r)\<rparr>) db;
             db2 = appendEvent now i ''CANCEL_REQUESTED''
               ([(''status'', JStr (status_text s))] @ (if truthy reason then [(''reason'', JStr (the reason))] else []))
               actorId None db1
         in (case getById tenantId i db2 of
               None \<Rightarrow> Inl (PlainError ''task not readable after cancel'') | Some x \<Rightarrow> Inr (x, db2)))"

definition force_message :: "string option \<Rightarrow> string" where
  "force_message reason = getOrElse reason ''task ended by an operator''"

definition repo_forceCancel ::
  "instant \<Rightarrow> string \<Rightarrow> string \<Rightarrow> string option \<Rightarrow> string option \<Rightarrow> task_db \<Rightarrow> (task_run \<times> task_db) result" where
  "repo_forceCancel now tenantId i actorId reason db = (case getById tenantId i db of
     None \<Rightarrow> Inl (PlainError ''NOT_FOUND'')
   | Some t \<Rightarrow>
       if terminal (tr_status t) then Inr (t, db)
       else
         let db1 = update_runs (of_row tenantId i)
               (\<lambda>r. r\<lparr>tr_status := CANCELLED, tr_leaseOwner := None, tr_leaseExpiresAt := None, tr_nextAttemptAt := None,
                      tr_finishedAt := Some now, tr_lastErrorCode := Some ''TASK_FORCE_CANCELLED'',
                      tr_lastErrorMessage := Some (force_message reason)\<rparr>) db;
             db2 = update_attempts (\<lambda>a. ta_taskRunId a = i \<and> ta_status a = AT_RUNNING)
               (\<lambda>a. a\<lparr>ta_status := AT_CANCELLED, ta_finishedAt := Some now, ta_errorCode := Some ''TASK_FORCE_CANCELLED'',
                      ta_errorSummary := Some (force_message reason)\<rparr>) db1;
             db3 = appendEvent now i ''CANCELLED'' [(''status'', JStr ''CANCELLED''), (''force'', JBool True),
               (''reason'', JStr (force_message reason))] actorId None db2
         in (case getById tenantId i db3 of
               None \<Rightarrow> Inl (PlainError ''task not readable after forced cancel'') | Some x \<Rightarrow> Inr (x, db3)))"

definition repo_retry ::
  "instant \<Rightarrow> string \<Rightarrow> string \<Rightarrow> string option \<Rightarrow> task_db \<Rightarrow> (task_run \<times> task_db) result" where
  "repo_retry now tenantId i actorId db = (case getById tenantId i db of
     None \<Rightarrow> Inl (PlainError ''NOT_FOUND'')
   | Some t \<Rightarrow>
       if \<not> (tr_status t = FAILED \<or> tr_status t = CANCELLED) then Inl (PlainError ''NOT_RETRYABLE'')
       else (case checked_update (of_row tenantId i)
               (\<lambda>r. r\<lparr>tr_status := QUEUED, tr_availableAt := now, tr_nextAttemptAt := None, tr_finishedAt := None,
                      tr_lastErrorCode := None, tr_lastErrorMessage := None\<rparr>) db of
               Inl e \<Rightarrow> Inl e
             | Inr db1 \<Rightarrow>
                 let db2 = appendEvent now i ''RETRY_SCHEDULED'' (jobj_opt ''actorId'' (map_option JStr actorId)) actorId None db1
                 in (case getById tenantId i db2 of
                       None \<Rightarrow> Inl (PlainError ''task not readable after retry'') | Some x \<Rightarrow> Inr (x, db2))))"

end
