(* ===== verification/TaskResolution.thy ===== *)
theory TaskResolution
  imports TaskRepository
begin

text \<open>
  The remaining operations of \<open>backend/src/modules/tasks/task.repository.ts\<close>: adoption of an
  idempotency key, recovery of executions with an unknown result, resolution of waiting, approval and
  automation tasks, and the queries.

  The steps of executions are read as JSON documents. \<open>jpath\<close> follows \<open>->\<close>; an operand of
  \<open>jsonb_array_elements\<close> that is not an array has no elements here.
\<close>

section \<open>Adoption of an idempotency key\<close>

definition adopted_record :: "instant \<Rightarrow> string \<Rightarrow> idempotency_record \<Rightarrow> idempotency_record" where
  "adopted_record now nextKey rec =
    rec\<lparr>ir_idempotencyKey := nextKey,
        ir_responseSummary := spread (ir_responseSummary rec) [(''idempotencyKey'', JStr nextKey)],
        ir_expiresAt := max (ir_expiresAt rec) (now + 24 * 60 * 60 * 1000)\<rparr>"

text \<open>The copy of the previous record; the newest one when there were several, and no copy when the
  new key already has a record.\<close>

definition copy_idempotency :: "instant \<Rightarrow> task_run \<Rightarrow> string \<Rightarrow> idempotency_record list \<Rightarrow> idempotency_record list" where
  "copy_idempotency now t nextKey rs =
    (if \<not> truthy (tr_idempotencyKey t) then rs
     else (case head_option (sort_by (\<lambda>a b. ir_createdAt b < ir_createdAt a)
             (filter (same_idempotency (tr_tenantId t) (defaultTaskIdempotencyScope (tr_taskType t)) (the (tr_idempotencyKey t))) rs)) of
             None \<Rightarrow> rs
           | Some rec \<Rightarrow>
               if \<exists>r \<in> set rs. same_idempotency (tr_tenantId t) (ir_scope rec) nextKey r then rs
               else rs @ [adopted_record now nextKey rec]))"

definition repo_adoptIdempotencyKey ::
  "instant \<Rightarrow> string \<Rightarrow> string \<Rightarrow> string \<Rightarrow> string option \<Rightarrow> string option \<Rightarrow> task_db \<Rightarrow> (task_run \<times> task_db) result" where
  "repo_adoptIdempotencyKey now tenantId i key actorId reason db =
    (let nextKey = trim key in
     if nextKey = [] then Inl (PlainError ''idempotency key required'')
     else (case getById tenantId i db of
       None \<Rightarrow> Inl (PlainError ''NOT_FOUND'')
     | Some t \<Rightarrow>
         if tr_idempotencyKey t = Some nextKey then Inr (t, db)
         else if terminal (tr_status t) then Inl (PlainError ''TASK_NOT_ACTIVE'')
         else if \<exists>r \<in> set (db_runs db). tr_tenantId r = tenantId \<and> tr_taskType r = tr_taskType t
                 \<and> tr_idempotencyKey r = Some nextKey \<and> tr_id r \<noteq> i \<and> \<not> terminal (tr_status r)
         then Inl (PlainError ''IDEMPOTENCY_CONFLICT'')
         else (case checked_update (of_row tenantId i) (\<lambda>r. r\<lparr>tr_idempotencyKey := Some nextKey\<rparr>) db of
           Inl e \<Rightarrow> Inl e
         | Inr db1 \<Rightarrow>
             let db2 = db1\<lparr>db_idempotency := copy_idempotency now t nextKey (db_idempotency db1)\<rparr>;
                 db3 = appendEvent now i ''PROGRESS''
                   ([(''source'', JStr ''task-governance''), (''action'', JStr ''idempotency-key-adopted'')]
                    @ jobj_opt ''previousIdempotencyKey'' (map_option JStr (tr_idempotencyKey t))
                    @ [(''idempotencyKey'', JStr nextKey)]
                    @ (if truthy reason then [(''reason'', JStr (the reason))] else [])) actorId None db2
             in (case getById tenantId i db3 of
                   None \<Rightarrow> Inl (PlainError ''task not readable after adoption'') | Some x \<Rightarrow> Inr (x, db3)))))"

section \<open>Executions with an unknown result\<close>

fun jpath :: "json option \<Rightarrow> string list \<Rightarrow> json option" where
  "jpath v [] = v"
| "jpath (Some (JObj ob)) (k # ks) = jpath (jget ob k) ks"
| "jpath _ (k # ks) = None"

definition jtext :: "jobject \<Rightarrow> string list \<Rightarrow> string option" where
  "jtext step path = Option.bind (jpath (Some (JObj step)) path) json_text"

definition jelements :: "json option \<Rightarrow> json list" where
  "jelements v = (case v of Some (JArr xs) \<Rightarrow> xs | _ \<Rightarrow> [])"

definition writeOperations :: "string list" where
  "writeOperations = [''filesystem.atomic_replace'', ''filesystem.restore'', ''certificate.store.install'',
     ''service.start'', ''service.stop'', ''service.restart'', ''service.reload'', ''command.execute_allowlisted'']"

definition member_text :: "json \<Rightarrow> string \<Rightarrow> string option" where
  "member_text v k = Option.bind (jpath (Some v) [k]) json_text"

definition task_run_ref :: "task_run \<Rightarrow> string option" where
  "task_run_ref t = orElse (sql_text (Some (tr_payload t)) ''runId'')
     (orElse (sql_text (tr_resourceSummary t) ''runId'') (sql_text (tr_progress t) ''runId''))"

definition step_unknown :: "task_run \<Rightarrow> jobject \<Rightarrow> bool" where
  "step_unknown t step \<longleftrightarrow>
     selected (tri_eq (jtext step [''executionRunId'']) (task_run_ref t))
     \<and> jtext step [''status''] = Some ''RUNNING''
     \<and> (jtext step [''inputSnapshot'', ''resultDetail'', ''executionStatus''] = Some ''UNKNOWN''
        \<or> jtext step [''inputSnapshot'', ''resultDetail'', ''mayBeUnknown''] = Some ''true''
        \<or> jtext step [''lastErrorCode''] = Some ''PLUGIN_OPERATION_UNKNOWN_STATE'')"

definition expected_fingerprint :: "jobject \<Rightarrow> string option" where
  "expected_fingerprint step = nullif_empty (map_option sql_trim
    (orElse (jtext step [''inputSnapshot'', ''certificateVerification'', ''expectedFingerprintSha256''])
    (orElse (jtext step [''inputSnapshot'', ''deploymentArtifact'', ''expectedFingerprintSha256''])
    (orElse (jtext step [''inputSnapshot'', ''artifact'', ''expectedFingerprintSha256''])
       (jtext step [''inputSnapshot'', ''executionRuntimeSnapshot'', ''deploymentArtifact'', ''expectedFingerprintSha256''])))))"

definition operation_results :: "jobject \<Rightarrow> json list" where
  "operation_results step = jelements (orElse
     (jpath (Some (JObj step)) [''inputSnapshot'', ''resultDetail'', ''operationResults''])
     (jpath (Some (JObj step)) [''inputSnapshot'', ''resultDetail'', ''operations'']))"

definition succeeded_op :: "json \<Rightarrow> bool" where
  "succeeded_op v \<longleftrightarrow> map_option (map upper_char) (member_text v ''status'') = Some ''SUCCEEDED''"

definition plan_writes :: "jobject \<Rightarrow> tri" where
  "plan_writes step = tri_and
    (tri_eq (jtext step [''inputSnapshot'', ''actionType'']) (Some ''agent.plan.execute''))
    (Some (\<exists>v \<in> set (jelements (jpath (Some (JObj step)) [''inputSnapshot'', ''plan'', ''operations''])).
       \<exists>op \<in> set writeOperations. member_text v ''operationType'' = Some op))"

definition writes_confirmed :: "jobject \<Rightarrow> bool" where
  "writes_confirmed step \<longleftrightarrow>
     (\<exists>v \<in> set (operation_results step). (\<exists>op \<in> set writeOperations. member_text v ''operationType'' = Some op) \<and> succeeded_op v)
     \<and> (\<exists>v \<in> set (operation_results step). member_text v ''operationType'' = Some ''service.reload'' \<and> succeeded_op v)"

definition automatic_recovery :: "task_run \<Rightarrow> task_db \<Rightarrow> bool" where
  "automatic_recovery t db \<longleftrightarrow> (\<exists>step \<in> set (db_steps db).
     step_unknown t step
     \<and> jtext step [''inputSnapshot'', ''certificateVerification'', ''capabilityKey''] = Some ''certificate.verify''
     \<and> jtext step [''inputSnapshot'', ''certificateVerification'', ''schemaVersion''] = Some ''1.0''
     \<and> expected_fingerprint step \<noteq> None
     \<and> selected (tri_or (tri_not (plan_writes step)) (Some (writes_confirmed step))))"

definition promotion_candidate :: "string option \<Rightarrow> task_db \<Rightarrow> task_run \<Rightarrow> bool" where
  "promotion_candidate tenantId db t \<longleftrightarrow>
     (tr_status t = RETRY_WAITING \<or> tr_status t = WAITING_RESULT \<or> tr_status t = AWAITING_CONFIRMATION)
     \<and> tr_taskType t = ''CERTIFICATE_DEPLOY'' \<and> tr_leaseOwner t = None \<and> tenant_matches tenantId t
     \<and> (\<exists>step \<in> set (db_steps db). step_unknown t step)"

definition promotable :: "string option \<Rightarrow> task_db \<Rightarrow> task_run \<Rightarrow> bool" where
  "promotable tenantId db t \<longleftrightarrow> promotion_candidate tenantId db t
     \<and> (tr_status t = RETRY_WAITING \<or> tr_status t = WAITING_RESULT \<or> automatic_recovery t db)"

definition promoted :: "instant \<Rightarrow> task_db \<Rightarrow> task_run \<Rightarrow> task_run" where
  "promoted now db t =
    (let auto = automatic_recovery t db; s = (if auto then WAITING_RESULT else AWAITING_CONFIRMATION) in
     t\<lparr>tr_status := s, tr_nextAttemptAt := (if auto then Some now else None),
       tr_lastErrorCode := orElse (tr_lastErrorCode t) (Some ''EXECUTION_RESULT_UNCONFIRMED''),
       tr_lastErrorMessage := (if auto then Some ''result unconfirmed, the control plane verifies the target certificate''
          else orElse (tr_lastErrorMessage t) (Some ''result unconfirmed, verify the target certificate'')),
       tr_progress := Some (spread (getOrElse (tr_progress t) [])
          [(''pending'', JBool True), (''waitingStatus'', JStr (status_text s)), (''automaticRecovery'', JBool auto)])\<rparr>)"

definition promote_followup :: "instant \<Rightarrow> task_run \<Rightarrow> task_db \<Rightarrow> task_db" where
  "promote_followup now t db =
    appendEvent now (tr_id t) (status_text (tr_status t))
      [(''waitingStatus'', JStr (status_text (tr_status t))), (''automaticRecovery'', JBool (tr_status t = WAITING_RESULT)),
       (''source'', JStr ''task.recovery.promote_unknown_certificate_execution'')] None None
      (update_attempts (\<lambda>a. ta_taskRunId a = tr_id t \<and> ta_status a = AT_FAILED
          \<and> ta_errorCode a \<in> {Some ''EXECUTION_PENDING'', Some ''PLUGIN_OPERATION_UNKNOWN_STATE'', Some ''TASK_LEASE_EXPIRED''})
        (\<lambda>a. a\<lparr>ta_status := AT_WAITING\<rparr>) db)"

definition promoteRecoverableExecutionTasks :: "instant \<Rightarrow> string option \<Rightarrow> task_db \<Rightarrow> nat \<times> task_db" where
  "promoteRecoverableExecutionTasks now tenantId db =
    (let rows = map (promoted now db) (filter (promotable tenantId db) (db_runs db));
         db1 = update_runs (promotable tenantId db) (promoted now db) db
     in (length rows, fold (promote_followup now) rows db1))"

record resolve_waiting_input =
  rw_tenantId :: string
  rw_taskId :: string
  rw_success :: bool
  rw_actorId :: "string option"
  rw_errorCode :: "string option"
  rw_errorMessage :: "string option"
  rw_detail :: "jobject option"

definition rw_code :: "resolve_waiting_input \<Rightarrow> string option" where
  "rw_code inp = (if rw_success inp then None else Some (getOrElse (rw_errorCode inp) ''EXECUTION_RESULT_UNCONFIRMED''))"

definition rw_message :: "resolve_waiting_input \<Rightarrow> string option" where
  "rw_message inp = (if rw_success inp then None
     else Some (getOrElse (rw_errorMessage inp) ''verification of the execution result failed''))"

definition last_waiting_attempt :: "string \<Rightarrow> task_db \<Rightarrow> string option" where
  "last_waiting_attempt taskId db = map_option ta_id (head_option (sort_by (\<lambda>a b. ta_attemptNo b < ta_attemptNo a)
     (filter (\<lambda>a. ta_taskRunId a = taskId \<and> ta_status a = AT_WAITING) (db_attempts db))))"

definition repo_resolveWaitingExecutionTask ::
  "instant \<Rightarrow> resolve_waiting_input \<Rightarrow> task_db \<Rightarrow> task_run option \<times> task_db" where
  "repo_resolveWaitingExecutionTask now inp db = (case getById (rw_tenantId inp) (rw_taskId inp) db of
     None \<Rightarrow> (None, db)
   | Some current \<Rightarrow>
       if tr_status current \<noteq> AWAITING_CONFIRMATION then (Some current, db)
       else
         let s = (if rw_success inp then SUCCEEDED else FAILED);
             db1 = update_runs (\<lambda>r. of_row (rw_tenantId inp) (rw_taskId inp) r \<and> tr_status r = AWAITING_CONFIRMATION)
               (\<lambda>r. r\<lparr>tr_status := s, tr_leaseOwner := None, tr_leaseExpiresAt := None, tr_nextAttemptAt := None,
                      tr_finishedAt := Some now, tr_lastErrorCode := rw_code inp, tr_lastErrorMessage := rw_message inp,
                      tr_progress := orElse (rw_detail inp) (tr_progress r)\<rparr>) db;
             db2 = update_attempts (\<lambda>a. Some (ta_id a) = last_waiting_attempt (rw_taskId inp) db1)
               (\<lambda>a. a\<lparr>ta_status := (if rw_success inp then AT_SUCCEEDED else AT_FAILED), ta_errorCode := rw_code inp,
                      ta_errorSummary := rw_message inp, ta_finishedAt := orElse (ta_finishedAt a) (Some now)\<rparr>) db1;
             db3 = appendEvent now (rw_taskId inp) (status_text s)
               (spread (spread [(''source'', JStr ''execution.unknown_result.recovery'')] (getOrElse (rw_detail inp) []))
                  ((if truthy (rw_errorCode inp) then [(''errorCode'', JStr (the (rw_errorCode inp)))] else [])
                   @ (if truthy (rw_errorMessage inp) then [(''errorMessage'', JStr (the (rw_errorMessage inp)))] else [])))
               (rw_actorId inp) None db2
         in (getById (rw_tenantId inp) (rw_taskId inp) db3, db3))"

section \<open>Approval and automation tasks\<close>

definition decision_text :: "ApprovalDecision \<Rightarrow> string" where
  "decision_text d = (case d of DecisionApproved \<Rightarrow> ''approved'' | DecisionRejected \<Rightarrow> ''rejected'')"

definition approval_task_row :: "string \<Rightarrow> string \<Rightarrow> string \<Rightarrow> task_db \<Rightarrow> task_run option" where
  "approval_task_row tenantId resourceType resourceId db =
    head_option (newest_first (filter (\<lambda>r. tr_tenantId r = tenantId \<and> \<not> terminal (tr_status r)
      \<and> (\<exists>(t, ref) \<in> set (db_refs db). t = tr_id r \<and> rf_resourceType ref = resourceType \<and> rf_resourceId ref = resourceId)
      \<and> (tr_taskType r = ''DEPLOYMENT_APPROVAL''
         \<or> orElse (sql_text (Some (tr_payload r)) ''executionType'') (sql_text (tr_resourceSummary r) ''executionType'')
             = Some ''approval'')) (db_runs db)))"

definition repo_resolveApprovalTask ::
  "instant \<Rightarrow> string \<Rightarrow> string \<Rightarrow> string \<Rightarrow> jobject \<Rightarrow> ApprovalDecision \<Rightarrow> (string option \<times> string) option \<Rightarrow> task_db
   \<Rightarrow> task_run option \<times> task_db" where
  "repo_resolveApprovalTask now tenantId resourceType resourceId summary dec failure db =
    (case approval_task_row tenantId resourceType resourceId db of
       None \<Rightarrow> (None, db)
     | Some current \<Rightarrow>
         let s = (if dec = DecisionApproved \<and> failure = None then SUCCEEDED else FAILED);
             progress = spread (spread (getOrElse (tr_progress current) []) summary)
               [(''approvalPending'', JBool False), (''approvalStatus'', JStr (decision_text dec))];
             code = getOrElse (Option.bind failure fst)
               (if dec = DecisionRejected then ''APPROVAL_REJECTED'' else ''DEPLOYMENT_EXECUTION_ENQUEUE_FAILED'');
             message = getOrElse (map_option snd failure)
               (if dec = DecisionRejected then ''deployment approval rejected'' else ''approved, but no deployment task could be created'');
             db1 = update_runs (of_row tenantId (tr_id current))
               (\<lambda>r. r\<lparr>tr_status := s, tr_leaseOwner := None, tr_leaseExpiresAt := None, tr_nextAttemptAt := None,
                      tr_finishedAt := Some now, tr_lastErrorCode := (if s = FAILED then Some code else None),
                      tr_lastErrorMessage := (if s = FAILED then Some message else None),
                      tr_resourceSummary := Some progress, tr_progress := Some progress\<rparr>) db;
             db2 = appendEvent now (tr_id current) (status_text s)
               ([(''source'', JStr (if failure \<noteq> None then ''approval.execution.enqueue'' else ''approval.decision'')),
                 (''decision'', JStr (decision_text dec)), (''approvalPending'', JBool False)]
                @ (case failure of None \<Rightarrow> []
                   | Some (c, msg) \<Rightarrow> [(''executionEnqueueFailed'', JBool True),
                       (''errorCode'', JStr (getOrElse c ''DEPLOYMENT_EXECUTION_ENQUEUE_FAILED'')), (''errorMessage'', JStr msg)]))
               None None db1
         in (getById tenantId (tr_id current) db2, db2))"

definition automation_resolved :: "instant \<Rightarrow> ApprovalDecision \<Rightarrow> jobject \<Rightarrow> task_run \<Rightarrow> task_run" where
  "automation_resolved now dec summary r =
    (let s = (if dec = DecisionApproved then QUEUED else FAILED);
         pending = (tr_status r = QUEUED \<or> tr_status r = RETRY_WAITING);
         data = spread summary [(''approvalPending'', JBool False), (''approvalStatus'', JStr (decision_text dec))]
     in r\<lparr>tr_status := (if pending then s else tr_status r),
          tr_availableAt := (if s = QUEUED \<and> pending then now else tr_availableAt r),
          tr_nextAttemptAt := (if s = QUEUED \<and> pending then None else tr_nextAttemptAt r),
          tr_finishedAt := (if s = FAILED then Some now else tr_finishedAt r),
          tr_lastErrorCode := (if s = FAILED then Some ''AUTOMATION_APPROVAL_REJECTED'' else None),
          tr_lastErrorMessage := (if s = FAILED then Some ''automation approval rejected'' else None),
          tr_progress := Some (spread (getOrElse (tr_progress r) []) data),
          tr_resourceSummary := Some data\<rparr>)"

definition resolveAutomationRun ::
  "instant \<Rightarrow> string \<Rightarrow> string \<Rightarrow> jobject \<Rightarrow> ApprovalDecision \<Rightarrow> task_db \<Rightarrow> task_run option \<times> task_db" where
  "resolveAutomationRun now tenantId i summary dec db = (case getById tenantId i db of
     None \<Rightarrow> (None, db)
   | Some current \<Rightarrow>
       if terminal (tr_status current) then (Some current, db)
       else
         let db1 = update_runs (of_row tenantId i) (automation_resolved now dec summary) db;
             db2 = appendEvent now i ''PROGRESS''
               ([(''source'', JStr ''approval.decision'')] @ jobj_opt ''status'' (jget summary ''status'')
                @ [(''approvalPending'', JBool False), (''decision'', JStr (decision_text dec))]) None None db1
         in (getById tenantId i db2, db2))"

section \<open>Queries\<close>

record task_query =
  tq_tenantId :: string
  tq_category :: "TaskCategory option"
  tq_taskType :: "string option"
  tq_status :: "TaskStatus option"
  tq_resourceType :: "string option"
  tq_resourceId :: "string option"
  tq_requestedBy :: "string option"
  tq_includePendingApprovals :: bool
  tq_taskId :: "string option"
  tq_keyword :: "string option"
  tq_createdFrom :: "instant option"
  tq_createdTo :: "instant option"
  tq_page :: "int option"
  tq_pageSize :: "int option"

record task_page =
  tp_items :: "task_run list"
  tp_page :: int
  tp_pageSize :: int
  tp_total :: nat

text \<open>The pattern language of \<open>LIKE\<close>: \<open>%\<close> any text, \<open>_\<close> one character, a backslash quotes.\<close>

function like :: "string \<Rightarrow> string \<Rightarrow> bool" where
  "like [] s = (s = [])"
| "like (p # ps) s =
     (if p = CHR ''%'' then like ps s \<or> (case s of [] \<Rightarrow> False | c # t \<Rightarrow> like (p # ps) t)
      else (case s of [] \<Rightarrow> False
            | c # t \<Rightarrow>
                if p = CHR ''_'' then like ps t
                else if p = char_of (92 :: nat) \<and> ps \<noteq> [] then c = hd ps \<and> like (tl ps) t
                else c = p \<and> like ps t))"
  by pat_completeness auto
termination
  by (relation "measure (\<lambda>(p, s). length p + length s)") auto

definition ilike :: "string \<Rightarrow> string \<Rightarrow> bool" where
  "ilike s pat = like (toLowerCase pat) (toLowerCase s)"

definition sql_pending_visible :: "task_run \<Rightarrow> bool" where
  "sql_pending_visible r \<longleftrightarrow> \<not> terminal (tr_status r) \<and> selected (sql_pending_approval r)"

definition opt_filter :: "string option \<Rightarrow> (string \<Rightarrow> bool) \<Rightarrow> bool" where
  "opt_filter v p \<longleftrightarrow> (truthy v \<longrightarrow> p (the v))"

definition list_matches :: "task_query \<Rightarrow> task_db \<Rightarrow> task_run \<Rightarrow> bool" where
  "list_matches q db r \<longleftrightarrow>
     tr_tenantId r = tq_tenantId q
     \<and> (case tq_category q of None \<Rightarrow> True | Some c \<Rightarrow> tr_category r = c)
     \<and> opt_filter (tq_taskType q) (\<lambda>v. tr_taskType r = v)
     \<and> (case tq_status q of None \<Rightarrow> True | Some s \<Rightarrow> tr_status r = s)
     \<and> opt_filter (tq_requestedBy q) (\<lambda>v. tr_requestedBy r = Some v
          \<or> (tq_includePendingApprovals q \<and> sql_pending_visible r))
     \<and> opt_filter (tq_taskId q) (\<lambda>v. tr_id r = v)
     \<and> (case tq_createdFrom q of None \<Rightarrow> True | Some t \<Rightarrow> t \<le> tr_createdAt r)
     \<and> (case tq_createdTo q of None \<Rightarrow> True | Some t \<Rightarrow> tr_createdAt r \<le> t)
     \<and> opt_filter (tq_keyword q) (\<lambda>v. let pat = ''%'' @ v @ ''%'' in
          ilike (tr_id r) pat \<or> ilike (tr_taskType r) pat \<or> ilike (getOrElse (tr_lastErrorMessage r) []) pat)
     \<and> (truthy (tq_resourceType q) \<or> truthy (tq_resourceId q) \<longrightarrow>
          (\<exists>(t, ref) \<in> set (db_refs db). t = tr_id r \<and> opt_filter (tq_resourceType q) (\<lambda>v. rf_resourceType ref = v)
             \<and> opt_filter (tq_resourceId q) (\<lambda>v. rf_resourceId ref = v)))"

definition repo_list :: "task_query \<Rightarrow> task_db \<Rightarrow> task_page result" where
  "repo_list q db =
    (let page = getOrElse (tq_page q) 1; pageSize = getOrElse (tq_pageSize q) 20;
         rows = filter (list_matches q db) (db_runs db); offset = (page - 1) * pageSize
     in if pageSize < 0 then Inl (DbError ''2201W'') else if offset < 0 then Inl (DbError ''2201X'')
        else Inr \<lparr>tp_items = take (nat pageSize) (drop (nat offset) (newest_first rows)),
                  tp_page = page, tp_pageSize = pageSize, tp_total = length rows\<rparr>)"

definition repo_listActiveExecutionTasks :: "string \<Rightarrow> string option \<Rightarrow> bool \<Rightarrow> task_db \<Rightarrow> task_run list" where
  "repo_listActiveExecutionTasks tenantId requestedBy includePending db =
    take 200 (newest_first (filter (\<lambda>r. tr_tenantId r = tenantId \<and> \<not> terminal (tr_status r)
      \<and> opt_filter requestedBy (\<lambda>v. tr_requestedBy r = Some v \<or> (includePending \<and> sql_pending_visible r))) (db_runs db)))"

definition repo_listRecentTaskRuns :: "string \<Rightarrow> string option \<Rightarrow> task_db \<Rightarrow> task_run list" where
  "repo_listRecentTaskRuns tenantId requestedBy db =
    (let at = (\<lambda>r. getOrElse (tr_finishedAt r) (tr_createdAt r)) in
     take 50 (sort_by (\<lambda>a b. at b < at a) (filter (\<lambda>r. tr_tenantId r = tenantId \<and> terminal (tr_status r)
       \<and> (tr_category r = EXECUTION \<or> tr_taskType r \<in> {''AUTOMATION_RUN'', ''CERTIFICATE_ISSUE'',
            ''ACME_CERTIFICATE_ISSUE'', ''ACME_CERTIFICATE_RENEWAL''})
       \<and> opt_filter requestedBy (\<lambda>v. tr_requestedBy r = Some v)) (db_runs db))))"

record task_detail =
  dt_task :: task_run
  dt_attempts :: "task_attempt list"
  dt_events :: "task_event list"
  dt_childTasks :: "task_run list"
  dt_resourceRefs :: "resource_ref list"
  dt_auditEvents :: "jobject list"

text \<open>\<open>audits\<close> are the audit documents of the task, oldest first.\<close>

definition repo_detail :: "string \<Rightarrow> string \<Rightarrow> jobject list \<Rightarrow> task_db \<Rightarrow> task_detail option" where
  "repo_detail tenantId i audits db = (case getById tenantId i db of
     None \<Rightarrow> None
   | Some t \<Rightarrow> Some \<lparr>dt_task = t,
       dt_attempts = sort_by (\<lambda>a b. ta_attemptNo a < ta_attemptNo b) (filter (\<lambda>a. ta_taskRunId a = i) (db_attempts db)),
       dt_events = map (\<lambda>e. e\<lparr>tv_eventData := redactRecord (tv_eventData e)\<rparr>)
         (sort_by (\<lambda>a b. tv_createdAt a < tv_createdAt b)
            (filter (\<lambda>e. tv_taskRunId e = i \<and> (tr_category t = MONITORING \<longrightarrow> tv_eventType e \<noteq> ''LOG'')) (db_events db))),
       dt_childTasks = sort_by (\<lambda>a b. tr_createdAt a < tr_createdAt b)
         (filter (\<lambda>r. tr_tenantId r = tenantId \<and> tr_parentTaskId r = Some i) (db_runs db)),
       dt_resourceRefs = map snd (filter (\<lambda>(t', ref). t' = i) (db_refs db)),
       dt_auditEvents = map redactRecord audits\<rparr>)"

end
