(* ===== verification/TaskInvariants.thy ===== *)
theory TaskInvariants
  imports TaskResolution
begin

text \<open>
  What every operation of the task repository keeps.

  \<open>task_op\<close> lists the operations that write and \<open>task_apply\<close> runs one of them on the database, a throw
  leaving it as it was. \<open>changes_only\<close> says which rows of \<open>task_runs\<close> a write may touch; from it follow
  that finished tasks are frozen, that a live lease is respected and that the identity of a task never
  changes. \<open>db_ok\<close> collects the key constraints; it is an invariant of \<open>task_step\<close>.
\<close>

section \<open>Operations as data\<close>

datatype task_op =
    OpCreate instant instant string enqueue_input task_definition
  | OpFind instant string string string idempotency_scope
  | OpClaim instant instant "string \<Rightarrow> bool" string "string option" string int
  | OpHeartbeat instant instant task_run task_attempt string int "jobject option"
  | OpFinish instant task_run task_attempt string TaskStatus task_outcome "instant option" "int option"
  | OpRequestCancel instant string string "string option" "string option"
  | OpForceCancel instant string string "string option" "string option"
  | OpRetry instant string string "string option"
  | OpAdopt instant string string string "string option" "string option"
  | OpPromote instant "string option"
  | OpResolveWaiting instant resolve_waiting_input
  | OpResolveApproval instant string string string jobject ApprovalDecision "(string option \<times> string) option"
  | OpResolveAutomation instant string string jobject ApprovalDecision

definition settle :: "('a \<times> task_db) result \<Rightarrow> task_db \<Rightarrow> task_db" where
  "settle res db = (case res of Inl e \<Rightarrow> db | Inr (x, db') \<Rightarrow> db')"

definition settle_db :: "task_db result \<Rightarrow> task_db \<Rightarrow> task_db" where
  "settle_db res db = (case res of Inl e \<Rightarrow> db | Inr db' \<Rightarrow> db')"

fun task_apply ::
  "(string \<Rightarrow> string) \<Rightarrow> (string \<Rightarrow> string \<Rightarrow> bool) \<Rightarrow> task_op \<Rightarrow> task_db \<Rightarrow> task_db" where
  "task_apply sha lt (OpCreate now clk i inp d) db = settle (task_create sha lt now clk i inp d db) db"
| "task_apply sha lt (OpFind now tenantId taskType key scope) db = snd (findByIdempotency now tenantId taskType key scope db)"
| "task_apply sha lt (OpClaim now clk locked aid tenantId workerId lease) db =
     settle (claimNext now clk locked aid tenantId workerId lease db) db"
| "task_apply sha lt (OpHeartbeat now clk t a workerId lease progress) db =
     settle_db (heartbeat now clk t a workerId lease progress db) db"
| "task_apply sha lt (OpFinish now t a workerId s res na ra) db = settle_db (task_finish now t a workerId s res na ra db) db"
| "task_apply sha lt (OpRequestCancel now tenantId i actor reason) db = settle (requestCancel now tenantId i actor reason db) db"
| "task_apply sha lt (OpForceCancel now tenantId i actor reason) db = settle (repo_forceCancel now tenantId i actor reason db) db"
| "task_apply sha lt (OpRetry now tenantId i actor) db = settle (repo_retry now tenantId i actor db) db"
| "task_apply sha lt (OpAdopt now tenantId i key actor reason) db =
     settle (repo_adoptIdempotencyKey now tenantId i key actor reason db) db"
| "task_apply sha lt (OpPromote now tenantId) db = snd (promoteRecoverableExecutionTasks now tenantId db)"
| "task_apply sha lt (OpResolveWaiting now inp) db = snd (repo_resolveWaitingExecutionTask now inp db)"
| "task_apply sha lt (OpResolveApproval now tenantId rt ri summary dec failure) db =
     snd (repo_resolveApprovalTask now tenantId rt ri summary dec failure db)"
| "task_apply sha lt (OpResolveAutomation now tenantId i summary dec) db =
     snd (resolveAutomationRun now tenantId i summary dec db)"

section \<open>Which rows an operation touches\<close>

definition same_identity :: "task_run \<Rightarrow> task_run \<Rightarrow> bool" where
  "same_identity r r' \<longleftrightarrow> tr_id r' = tr_id r \<and> tr_tenantId r' = tr_tenantId r \<and> tr_taskType r' = tr_taskType r
     \<and> tr_definitionVersion r' = tr_definitionVersion r \<and> tr_category r' = tr_category r
     \<and> tr_requestedBy r' = tr_requestedBy r \<and> tr_triggerSource r' = tr_triggerSource r
     \<and> tr_parentTaskId r' = tr_parentTaskId r \<and> tr_payload r' = tr_payload r \<and> tr_createdAt r' = tr_createdAt r"

definition changes_only :: "string set \<Rightarrow> task_db \<Rightarrow> task_db \<Rightarrow> bool" where
  "changes_only S db db' \<longleftrightarrow> (\<exists>f. db_runs db' = map f (db_runs db)
     \<and> (\<forall>r \<in> set (db_runs db). same_identity r (f r) \<and> (tr_id r \<notin> S \<longrightarrow> f r = r)))"

named_theorems frame \<open>which tables an elementary write leaves alone\<close>

lemma frame_appendEvent [simp, frame]:
  "db_runs (appendEvent now i ty data actor aid db) = db_runs db"
  "db_attempts (appendEvent now i ty data actor aid db) = db_attempts db"
  "db_refs (appendEvent now i ty data actor aid db) = db_refs db"
  "db_idempotency (appendEvent now i ty data actor aid db) = db_idempotency db"
  "db_steps (appendEvent now i ty data actor aid db) = db_steps db"
  by (simp_all add: appendEvent_def)

lemma frame_update_attempts [simp, frame]:
  "db_runs (update_attempts p g db) = db_runs db"
  "db_events (update_attempts p g db) = db_events db"
  "db_refs (update_attempts p g db) = db_refs db"
  "db_idempotency (update_attempts p g db) = db_idempotency db"
  "db_attempts (update_attempts p g db) = upd_where p g (db_attempts db)"
  by (simp_all add: update_attempts_def)

lemma frame_update_runs [simp, frame]:
  "db_attempts (update_runs p g db) = db_attempts db"
  "db_events (update_runs p g db) = db_events db"
  "db_refs (update_runs p g db) = db_refs db"
  "db_idempotency (update_runs p g db) = db_idempotency db"
  "db_runs (update_runs p g db) = upd_where p g (db_runs db)"
  by (simp_all add: update_runs_def)

lemma same_identity_refl [simp]: "same_identity r r"
  by (simp add: same_identity_def)

lemma changes_only_refl: "db_runs db' = db_runs db \<Longrightarrow> changes_only S db db'"
  by (auto simp: changes_only_def intro: exI [of _ id])

lemma changes_only_mono: "changes_only S db db' \<Longrightarrow> S \<subseteq> T \<Longrightarrow> changes_only T db db'"
  unfolding changes_only_def by blast

lemma changes_only_cong:
  "changes_only S db db' \<Longrightarrow> db_runs db'' = db_runs db' \<Longrightarrow> changes_only S db db''"
  by (simp add: changes_only_def)

lemma changes_only_update:
  assumes "\<And>r. same_identity r (g r)"
  shows "changes_only {tr_id r |r. r \<in> set (db_runs db) \<and> p r} db (update_runs p g db)"
  unfolding changes_only_def
  by (rule exI [of _ "\<lambda>r. if p r then g r else r"]) (auto simp: upd_where_def assms)

lemma changes_only_trans:
  assumes "changes_only S db db1" and "changes_only T db1 db2"
  shows "changes_only (S \<union> T) db db2"
proof -
  from assms(1) obtain f where
    f: "db_runs db1 = map f (db_runs db)" "\<forall>r \<in> set (db_runs db). same_identity r (f r) \<and> (tr_id r \<notin> S \<longrightarrow> f r = r)"
    unfolding changes_only_def by blast
  from assms(2) obtain g where
    g: "db_runs db2 = map g (db_runs db1)" "\<forall>r \<in> set (db_runs db1). same_identity r (g r) \<and> (tr_id r \<notin> T \<longrightarrow> g r = r)"
    unfolding changes_only_def by blast
  have "same_identity r (g (f r)) \<and> (tr_id r \<notin> S \<union> T \<longrightarrow> g (f r) = r)" if "r \<in> set (db_runs db)" for r
  proof -
    have fr: "same_identity r (f r)" "tr_id r \<notin> S \<longrightarrow> f r = r" using f that by auto
    have gr: "same_identity (f r) (g (f r))" "tr_id (f r) \<notin> T \<longrightarrow> g (f r) = f r" using f g that by auto
    from fr(1) gr(1) have "same_identity r (g (f r))" by (simp add: same_identity_def)
    moreover have "tr_id (f r) = tr_id r" using fr(1) by (simp add: same_identity_def)
    ultimately show ?thesis using fr gr by auto
  qed
  moreover have "db_runs db2 = map (g \<circ> f) (db_runs db)" using f g by simp
  ultimately show ?thesis unfolding changes_only_def by (intro exI [of _ "g \<circ> f"]) simp
qed

lemma changes_only_ids: "changes_only S db db' \<Longrightarrow> map tr_id (db_runs db') = map tr_id (db_runs db)"
  by (auto simp: changes_only_def same_identity_def)

lemma changes_only_origin:
  assumes "changes_only S db db'" and "r' \<in> set (db_runs db')"
  shows "tr_id r' \<in> S \<or> r' \<in> set (db_runs db)"
proof -
  from assms obtain f r where "r \<in> set (db_runs db)" "r' = f r" "same_identity r (f r)" "tr_id r \<notin> S \<longrightarrow> f r = r"
    by (auto simp: changes_only_def)
  then show ?thesis by (auto simp: same_identity_def)
qed

lemma changes_only_keeps:
  assumes "changes_only S db db'" and "r \<in> set (db_runs db)" and "tr_id r \<notin> S"
  shows "r \<in> set (db_runs db')"
  using assms by (force simp: changes_only_def)

lemma changes_only_image:
  assumes "changes_only S db db'" and "r \<in> set (db_runs db)"
  shows "\<exists>r' \<in> set (db_runs db'). same_identity r r'"
  using assms by (auto simp: changes_only_def)

section \<open>Footprints of the operations\<close>

text \<open>The rows a claim may touch: those waiting for a worker and those whose lease has expired.\<close>

definition idle :: "instant \<Rightarrow> task_run \<Rightarrow> bool" where
  "idle now r \<longleftrightarrow> tr_status r \<in> {QUEUED, RETRY_WAITING, WAITING_RESULT}
     \<or> (tr_status r \<in> {RUNNING, CANCELLING} \<and> (\<exists>t. tr_leaseExpiresAt r = Some t \<and> t \<le> now))"

definition ids_where :: "(task_run \<Rightarrow> bool) \<Rightarrow> task_db \<Rightarrow> string set" where
  "ids_where p db = {tr_id r |r. r \<in> set (db_runs db) \<and> p r}"

lemma recovered_identity: "same_identity r (recovered now s r)"
  by (simp add: recovered_def same_identity_def)

lemma recover_one_changes:
  assumes "recover_one now (i, a) db = Inr db'"
  shows "changes_only {i} db db'"
proof -
  let ?c = "i \<noteq> [] \<and> map_option tr_status (find (\<lambda>r. tr_id r = i) (db_runs db)) = Some CANCELLING"
  let ?s = "if ?c then CANCELLED else RETRY_WAITING"
  from assms have "db_runs db' = upd_where (\<lambda>r. tr_id r = i) (recovered now ?s) (db_runs db)"
    by (auto simp: recover_one_def checked_update_def Let_def split: if_splits sum.splits)
  then have "db_runs db' = db_runs (update_runs (\<lambda>r. tr_id r = i) (recovered now ?s) db)" by simp
  moreover have "changes_only {i} db (update_runs (\<lambda>r. tr_id r = i) (recovered now ?s) db)"
    by (rule changes_only_mono [OF changes_only_update [OF recovered_identity]]) auto
  ultimately show ?thesis by (rule changes_only_cong [rotated])
qed

lemma recover_all_changes:
  "recover_all now rows db = Inr db' \<Longrightarrow> changes_only (fst ` set rows) db db'"
proof (induction rows arbitrary: db)
  case Nil
  then show ?case by (simp add: changes_only_refl)
next
  case (Cons row rows)
  then obtain db1 where one: "recover_one now row db = Inr db1" and rest: "recover_all now rows db1 = Inr db'"
    by (auto split: sum.splits)
  have "changes_only {fst row} db db1" using one by (cases row) (simp add: recover_one_changes)
  from changes_only_trans [OF this Cons.IH [OF rest]] show ?case by simp
qed

lemma expired_rows_idle: "fst ` set (expired_rows now locked db) \<subseteq> ids_where (idle now) db"
  by (auto simp: expired_rows_def ids_where_def idle_def split: option.splits)

lemma recoverExpiredLeases_changes:
  "recoverExpiredLeases now locked db = Inr db' \<Longrightarrow> changes_only (ids_where (idle now) db) db db'"
  unfolding recoverExpiredLeases_def using recover_all_changes expired_rows_idle by (blast intro: changes_only_mono)

lemma take_lease_identity: "same_identity r (take_lease now w e r)"
  by (simp add: take_lease_def same_identity_def)

text \<open>A write to rows that are idle after earlier writes to idle rows is a write to idle rows.\<close>

lemma idle_step:
  assumes "changes_only (ids_where (idle now) db) db db1" and "\<And>r. same_identity r (g r)"
    and "\<And>r. r \<in> set (db_runs db1) \<Longrightarrow> p r \<Longrightarrow> idle now r"
  shows "changes_only (ids_where (idle now) db) db (update_runs p g db1)"
proof -
  let ?T = "{tr_id r |r. r \<in> set (db_runs db1) \<and> p r}"
  have "?T \<subseteq> ids_where (idle now) db"
  proof
    fix i assume "i \<in> ?T"
    then obtain r where r: "r \<in> set (db_runs db1)" "p r" "i = tr_id r" by blast
    with changes_only_origin [OF assms(1) r(1)] assms(3) show "i \<in> ids_where (idle now) db"
      by (auto simp: ids_where_def)
  qed
  then show ?thesis
    using changes_only_trans [OF assms(1) changes_only_update [OF assms(2), of db1 p]]
    by (simp add: Un_absorb2)
qed

lemma head_option_in: "head_option xs = Some x \<Longrightarrow> x \<in> set xs"
  by (cases xs) (auto simp: head_option_def)

lemma select_claim_in:
  "select_claim now locked tenantId db = Some row \<Longrightarrow>
     row \<in> set (db_runs db) \<and> claimable now tenantId row \<and> \<not> locked (tr_id row)"
  by (auto simp: select_claim_def dest!: head_option_in)

text \<open>The shape of a claim that found a task.\<close>

lemma claimNext_Some:
  assumes "claimNext now clk locked aid tenantId w lease db = Inr (Some (t, a), db')"
  obtains db1 db2 row where "recoverExpiredLeases now locked db = Inr db1" "db2 = backfill_waiting now tenantId db1"
    "select_claim now locked tenantId db2 = Some row"
    "aid \<notin> ta_id ` set (db_attempts db2)"
    "a = new_attempt clk aid (tr_id row) (next_attempt_no (tr_id row) db2) w (clk + lease * 1000)"
    "db_runs db' = upd_where (\<lambda>r. tr_id r = tr_id row) (take_lease now w (clk + lease * 1000)) (db_runs db2)"
    "db_attempts db' = db_attempts db2 @ [new_attempt now aid (tr_id row) (next_attempt_no (tr_id row) db2) w (clk + lease * 1000)]"
    "getById (tr_tenantId row) (tr_id row) db' = Some t"
proof -
  from assms obtain db1 where rec: "recoverExpiredLeases now locked db = Inr db1"
    by (auto simp: claimNext_def split: sum.splits)
  let ?db2 = "backfill_waiting now tenantId db1"
  from assms rec obtain row where row: "select_claim now locked tenantId ?db2 = Some row"
    by (auto simp: claimNext_def Let_def split: option.splits)
  let ?a = "\<lambda>c. new_attempt c aid (tr_id row) (next_attempt_no (tr_id row) ?db2) w (clk + lease * 1000)"
  from assms rec row obtain db3 where ins: "insert_attempt (?a now) ?db2 = Inr db3"
    by (auto simp: claimNext_def Let_def split: sum.splits)
  then have db3: "db3 = ?db2\<lparr>db_attempts := db_attempts ?db2 @ [?a now]\<rparr>" "aid \<notin> ta_id ` set (db_attempts ?db2)"
    by (auto simp: insert_attempt_def new_attempt_def split: if_splits)
  from assms rec row ins have fin: "a = ?a clk" "getById (tr_tenantId row) (tr_id row) db' = Some t"
    "db_runs db' = upd_where (\<lambda>r. tr_id r = tr_id row) (take_lease now w (clk + lease * 1000)) (db_runs db3)"
    "db_attempts db' = db_attempts db3"
    by (auto simp: claimNext_def Let_def split: option.splits)
  show ?thesis by (rule that [OF rec refl row db3(2) fin(1)]) (use fin db3(1) in simp_all)
qed

lemma claimNext_Some_from:
  assumes "claimNext now clk locked aid tenantId w lease db = Inr (Some (t, a), db')"
    and "recoverExpiredLeases now locked db = Inr db1"
  obtains row where "select_claim now locked tenantId (backfill_waiting now tenantId db1) = Some row"
    "aid \<notin> ta_id ` set (db_attempts (backfill_waiting now tenantId db1))"
    "a = new_attempt clk aid (tr_id row) (next_attempt_no (tr_id row) (backfill_waiting now tenantId db1)) w (clk + lease * 1000)"
    "db_runs db' = upd_where (\<lambda>r. tr_id r = tr_id row) (take_lease now w (clk + lease * 1000))
       (db_runs (backfill_waiting now tenantId db1))"
    "db_attempts db' = db_attempts (backfill_waiting now tenantId db1) @
       [new_attempt now aid (tr_id row) (next_attempt_no (tr_id row) (backfill_waiting now tenantId db1)) w (clk + lease * 1000)]"
    "getById (tr_tenantId row) (tr_id row) db' = Some t"
proof -
  from assms(1) obtain db1' db2 row where s: "recoverExpiredLeases now locked db = Inr db1'"
    "db2 = backfill_waiting now tenantId db1'" "select_claim now locked tenantId db2 = Some row"
    "aid \<notin> ta_id ` set (db_attempts db2)"
    "a = new_attempt clk aid (tr_id row) (next_attempt_no (tr_id row) db2) w (clk + lease * 1000)"
    "db_runs db' = upd_where (\<lambda>r. tr_id r = tr_id row) (take_lease now w (clk + lease * 1000)) (db_runs db2)"
    "db_attempts db' = db_attempts db2 @ [new_attempt now aid (tr_id row) (next_attempt_no (tr_id row) db2) w (clk + lease * 1000)]"
    "getById (tr_tenantId row) (tr_id row) db' = Some t"
    by (rule claimNext_Some)
  have "db1' = db1" using s(1) assms(2) by simp
  then show ?thesis using that [of row] s by simp
qed

lemma claimNext_changes:
  assumes "claimNext now clk locked aid tenantId w lease db = Inr (res, db')"
  shows "changes_only (ids_where (idle now) db) db db'"
proof -
  obtain db1 where db1: "recoverExpiredLeases now locked db = Inr db1"
    using assms by (auto simp: claimNext_def split: sum.splits)
  let ?db2 = "backfill_waiting now tenantId db1"
  have two: "changes_only (ids_where (idle now) db) db ?db2"
    unfolding backfill_waiting_def
    by (rule idle_step [OF recoverExpiredLeases_changes [OF db1]]) (auto simp: same_identity_def idle_def)
  show ?thesis
  proof (cases res)
    case None
    then have "db' = ?db2"
      using assms db1 by (auto simp: claimNext_def Let_def split: sum.splits option.splits)
    then show ?thesis using two by simp
  next
    case (Some ta)
    obtain t a where "ta = (t, a)" by (cases ta)
    then have "claimNext now clk locked aid tenantId w lease db = Inr (Some (t, a), db')" using assms Some by simp
    then obtain row where row: "select_claim now locked tenantId ?db2 = Some row"
      and runs: "db_runs db' = upd_where (\<lambda>r. tr_id r = tr_id row) (take_lease now w (clk + lease * 1000)) (db_runs ?db2)"
      by (elim claimNext_Some_from [OF _ db1])
    have "changes_only (ids_where (idle now) db) db
        (update_runs (\<lambda>r. tr_id r = tr_id row \<and> tr_id r \<in> ids_where (idle now) db) (take_lease now w (clk + lease * 1000)) ?db2)"
      using changes_only_trans [OF two changes_only_update [OF take_lease_identity]]
      by (rule changes_only_mono) auto
    moreover have "tr_id row \<in> ids_where (idle now) db"
      using changes_only_origin [OF two] select_claim_in [OF row] by (auto simp: ids_where_def idle_def claimable_def)
    then have "db_runs db' = db_runs (update_runs (\<lambda>r. tr_id r = tr_id row \<and> tr_id r \<in> ids_where (idle now) db)
        (take_lease now w (clk + lease * 1000)) ?db2)"
      using runs by (auto simp: upd_where_def)
    ultimately show ?thesis by (rule changes_only_cong)
  qed
qed

section \<open>The footprint of an operation\<close>

text \<open>The rows an operation may write, as a predicate on the row before.\<close>

fun writable :: "task_op \<Rightarrow> task_run \<Rightarrow> bool" where
  "writable (OpCreate now clk i inp d) r = False"
| "writable (OpFind now tenantId taskType key scope) r = False"
| "writable (OpClaim now clk locked aid tenantId workerId lease) r = idle now r"
| "writable (OpHeartbeat now clk t a workerId lease progress) r = holds_lease t workerId r"
| "writable (OpFinish now t a workerId s res na ra) r = holds_lease t workerId r"
| "writable (OpRequestCancel now tenantId i actor reason) r = (of_row tenantId i r \<and> \<not> terminal (tr_status r))"
| "writable (OpForceCancel now tenantId i actor reason) r = (of_row tenantId i r \<and> \<not> terminal (tr_status r))"
| "writable (OpRetry now tenantId i actor) r = (of_row tenantId i r \<and> (tr_status r = FAILED \<or> tr_status r = CANCELLED))"
| "writable (OpAdopt now tenantId i key actor reason) r = (of_row tenantId i r \<and> \<not> terminal (tr_status r))"
| "writable (OpPromote now tenantId) r = (tenant_matches tenantId r \<and> tr_leaseOwner r = None
     \<and> tr_taskType r = ''CERTIFICATE_DEPLOY'' \<and> tr_status r \<in> {RETRY_WAITING, WAITING_RESULT, AWAITING_CONFIRMATION})"
| "writable (OpResolveWaiting now inp) r = (of_row (rw_tenantId inp) (rw_taskId inp) r \<and> tr_status r = AWAITING_CONFIRMATION)"
| "writable (OpResolveApproval now tenantId rt ri summary dec failure) r =
     (tr_tenantId r = tenantId \<and> \<not> terminal (tr_status r))"
| "writable (OpResolveAutomation now tenantId i summary dec) r = (of_row tenantId i r \<and> \<not> terminal (tr_status r))"

lemma getById_Some:
  "getById tenantId i db = Some t \<Longrightarrow> t \<in> set (db_runs db) \<and> of_row tenantId i t"
  by (auto simp: getById_def of_row_def dest: find_Some_iff_first)

lemma getById_frame: "db_runs db' = db_runs db \<Longrightarrow> getById tenantId i db' = getById tenantId i db"
  by (simp add: getById_def)

lemma changes_only_rows:
  assumes "db_runs db' = upd_where p g (db_runs db)" and "\<And>r. same_identity r (g r)"
    and "\<And>r. r \<in> set (db_runs db) \<Longrightarrow> p r \<Longrightarrow> q r"
  shows "changes_only (ids_where q db) db db'"
proof -
  have "changes_only (ids_where q db) db (update_runs p g db)"
    by (rule changes_only_mono [OF changes_only_update [OF assms(2)]]) (auto simp: ids_where_def assms(3))
  then show ?thesis by (rule changes_only_cong) (simp add: assms(1))
qed

lemma changes_only_row:
  assumes "distinct (map tr_id (db_runs db))" and "getById tenantId i db = Some t" and "q t"
    and "db_runs db' = upd_where (of_row tenantId i) g (db_runs db)" and "\<And>r. same_identity r (g r)"
  shows "changes_only (ids_where (\<lambda>r. of_row tenantId i r \<and> q r) db) db db'"
proof (rule changes_only_rows [OF assms(4,5)])
  fix r assume r: "r \<in> set (db_runs db)" "of_row tenantId i r"
  have "t \<in> set (db_runs db)" "of_row tenantId i t" using getById_Some [OF assms(2)] by auto
  then have "r = t" using assms(1) r distinct_key_eq [of tr_id "db_runs db" r t] by (simp add: of_row_def)
  then show "of_row tenantId i r \<and> q r" using r assms(3) by simp
qed

lemma changes_only_same: "changes_only S db db"
  by (simp add: changes_only_refl)

lemma fold_promote_frame:
  "db_runs (fold (promote_followup now) rows db) = db_runs db"
  by (induction rows arbitrary: db) (simp_all add: promote_followup_def)

lemma footprint_requestCancel:
  assumes "distinct (map tr_id (db_runs db))"
  shows "changes_only (ids_where (writable (OpRequestCancel now tenantId i actor reason)) db) db
    (task_apply sha lt (OpRequestCancel now tenantId i actor reason) db)"
proof (cases "getById tenantId i db")
  case None
  then show ?thesis by (simp add: requestCancel_def settle_def changes_only_same)
next
  case (Some t)
  show ?thesis
  proof (cases "terminal (tr_status t)")
    case True
    then show ?thesis using Some by (simp add: requestCancel_def settle_def changes_only_same)
  next
    case False
    let ?s = "if tr_status t = RUNNING then CANCELLING else CANCELLED"
    let ?g = "\<lambda>r. r\<lparr>tr_status := ?s, tr_finishedAt := (if ?s = CANCELLED then Some now else tr_finishedAt r)\<rparr>"
    have "db_runs (settle (requestCancel now tenantId i actor reason db) db) = db_runs db
        \<or> db_runs (settle (requestCancel now tenantId i actor reason db) db) = upd_where (of_row tenantId i) ?g (db_runs db)"
      using Some False by (auto simp: requestCancel_def settle_def Let_def split: option.splits)
    then show ?thesis
      using changes_only_row [OF assms Some, of "\<lambda>r. \<not> terminal (tr_status r)" _ ?g] False
      by (auto simp: same_identity_def changes_only_refl ids_where_def)
  qed
qed

lemma footprint_forceCancel:
  assumes "distinct (map tr_id (db_runs db))"
  shows "changes_only (ids_where (writable (OpForceCancel now tenantId i actor reason)) db) db
    (task_apply sha lt (OpForceCancel now tenantId i actor reason) db)"
proof (cases "getById tenantId i db")
  case None
  then show ?thesis by (simp add: repo_forceCancel_def settle_def changes_only_same)
next
  case (Some t)
  let ?g = "\<lambda>r. r\<lparr>tr_status := CANCELLED, tr_leaseOwner := None, tr_leaseExpiresAt := None, tr_nextAttemptAt := None,
     tr_finishedAt := Some now, tr_lastErrorCode := Some ''TASK_FORCE_CANCELLED'',
     tr_lastErrorMessage := Some (force_message reason)\<rparr>"
  have "db_runs (settle (repo_forceCancel now tenantId i actor reason db) db) = db_runs db
      \<or> (\<not> terminal (tr_status t) \<and>
         db_runs (settle (repo_forceCancel now tenantId i actor reason db) db) = upd_where (of_row tenantId i) ?g (db_runs db))"
    using Some by (auto simp: repo_forceCancel_def settle_def Let_def split: option.splits)
  then show ?thesis
    using changes_only_row [OF assms Some, of "\<lambda>r. \<not> terminal (tr_status r)" _ ?g]
    by (auto simp: same_identity_def changes_only_refl ids_where_def)
qed

lemma footprint_retry:
  assumes "distinct (map tr_id (db_runs db))"
  shows "changes_only (ids_where (writable (OpRetry now tenantId i actor)) db) db
    (task_apply sha lt (OpRetry now tenantId i actor) db)"
proof (cases "getById tenantId i db")
  case None
  then show ?thesis by (simp add: repo_retry_def settle_def changes_only_same)
next
  case (Some t)
  let ?g = "\<lambda>r. r\<lparr>tr_status := QUEUED, tr_availableAt := now, tr_nextAttemptAt := None, tr_finishedAt := None,
     tr_lastErrorCode := None, tr_lastErrorMessage := None\<rparr>"
  have "db_runs (settle (repo_retry now tenantId i actor db) db) = db_runs db
      \<or> ((tr_status t = FAILED \<or> tr_status t = CANCELLED) \<and>
         db_runs (settle (repo_retry now tenantId i actor db) db) = upd_where (of_row tenantId i) ?g (db_runs db))"
    using Some by (auto simp: repo_retry_def settle_def checked_update_def Let_def split: option.splits sum.splits if_splits)
  then show ?thesis
    using changes_only_row [OF assms Some, of "\<lambda>r. tr_status r = FAILED \<or> tr_status r = CANCELLED" _ ?g]
    by (auto simp: same_identity_def changes_only_refl ids_where_def)
qed

lemma footprint_adopt:
  assumes "distinct (map tr_id (db_runs db))"
  shows "changes_only (ids_where (writable (OpAdopt now tenantId i key actor reason)) db) db
    (task_apply sha lt (OpAdopt now tenantId i key actor reason) db)"
proof (cases "getById tenantId i db")
  case None
  then show ?thesis by (simp add: repo_adoptIdempotencyKey_def settle_def Let_def changes_only_same)
next
  case (Some t)
  let ?g = "\<lambda>r. r\<lparr>tr_idempotencyKey := Some (trim key)\<rparr>"
  have "db_runs (settle (repo_adoptIdempotencyKey now tenantId i key actor reason db) db) = db_runs db
      \<or> (\<not> terminal (tr_status t) \<and>
         db_runs (settle (repo_adoptIdempotencyKey now tenantId i key actor reason db) db) = upd_where (of_row tenantId i) ?g (db_runs db))"
    using Some by (auto simp: repo_adoptIdempotencyKey_def settle_def checked_update_def Let_def split: option.splits sum.splits if_splits)
  then show ?thesis
    using changes_only_row [OF assms Some, of "\<lambda>r. \<not> terminal (tr_status r)" _ ?g]
    by (auto simp: same_identity_def changes_only_refl ids_where_def)
qed

lemma footprint_promote:
  "changes_only (ids_where (writable (OpPromote now tenantId)) db) db (task_apply sha lt (OpPromote now tenantId) db)"
proof (rule changes_only_rows)
  show "db_runs (task_apply sha lt (OpPromote now tenantId) db)
      = upd_where (promotable tenantId db) (promoted now db) (db_runs db)"
    by (simp add: promoteRecoverableExecutionTasks_def Let_def fold_promote_frame)
  show "same_identity r (promoted now db r)" for r
    by (simp add: promoted_def Let_def same_identity_def)
  show "promotable tenantId db r \<Longrightarrow> writable (OpPromote now tenantId) r" for r
    by (auto simp: promotable_def promotion_candidate_def)
qed

lemma footprint_resolveWaiting:
  "changes_only (ids_where (writable (OpResolveWaiting now inp)) db) db (task_apply sha lt (OpResolveWaiting now inp) db)"
proof (cases "getById (rw_tenantId inp) (rw_taskId inp) db")
  case None
  then show ?thesis by (simp add: repo_resolveWaitingExecutionTask_def changes_only_same)
next
  case (Some t)
  show ?thesis
  proof (cases "tr_status t = AWAITING_CONFIRMATION")
    case False
    then show ?thesis using Some by (simp add: repo_resolveWaitingExecutionTask_def changes_only_same)
  next
    case True
    show ?thesis
      by (rule changes_only_rows [where p = "\<lambda>r. of_row (rw_tenantId inp) (rw_taskId inp) r \<and> tr_status r = AWAITING_CONFIRMATION"
            and g = "\<lambda>r. r\<lparr>tr_status := (if rw_success inp then SUCCEEDED else FAILED), tr_leaseOwner := None,
               tr_leaseExpiresAt := None, tr_nextAttemptAt := None, tr_finishedAt := Some now,
               tr_lastErrorCode := rw_code inp, tr_lastErrorMessage := rw_message inp,
               tr_progress := orElse (rw_detail inp) (tr_progress r)\<rparr>"])
        (use Some True in \<open>simp_all add: repo_resolveWaitingExecutionTask_def Let_def same_identity_def\<close>)
  qed
qed

lemma approval_task_row_Some:
  "approval_task_row tenantId rt ri db = Some t \<Longrightarrow>
     t \<in> set (db_runs db) \<and> tr_tenantId t = tenantId \<and> \<not> terminal (tr_status t)"
  by (auto simp: approval_task_row_def newest_first_def dest!: head_option_in)

lemma footprint_resolveApproval:
  assumes "distinct (map tr_id (db_runs db))"
  shows "changes_only (ids_where (writable (OpResolveApproval now tenantId rt ri summary dec failure)) db) db
    (task_apply sha lt (OpResolveApproval now tenantId rt ri summary dec failure) db)"
proof (cases "approval_task_row tenantId rt ri db")
  case None
  then show ?thesis by (simp add: repo_resolveApprovalTask_def changes_only_same)
next
  case (Some t)
  note t = approval_task_row_Some [OF Some]
  obtain g where g: "db_runs (task_apply sha lt (OpResolveApproval now tenantId rt ri summary dec failure) db)
      = upd_where (of_row tenantId (tr_id t)) g (db_runs db)" "\<And>r. same_identity r (g r)"
    using Some by (simp add: repo_resolveApprovalTask_def Let_def same_identity_def)
  show ?thesis
  proof (rule changes_only_rows [OF g])
    fix r assume "r \<in> set (db_runs db)" "of_row tenantId (tr_id t) r"
    then have "r = t" using assms t distinct_key_eq [of tr_id "db_runs db" r t] by (simp add: of_row_def)
    then show "writable (OpResolveApproval now tenantId rt ri summary dec failure) r" using t by simp
  qed
qed

lemma automation_resolved_identity: "same_identity r (automation_resolved now dec summary r)"
  by (simp add: automation_resolved_def Let_def same_identity_def)

lemma footprint_resolveAutomation:
  assumes "distinct (map tr_id (db_runs db))"
  shows "changes_only (ids_where (writable (OpResolveAutomation now tenantId i summary dec)) db) db
    (task_apply sha lt (OpResolveAutomation now tenantId i summary dec) db)"
proof (cases "getById tenantId i db")
  case None
  then show ?thesis by (simp add: resolveAutomationRun_def changes_only_same)
next
  case (Some t)
  show ?thesis
  proof (cases "terminal (tr_status t)")
    case True
    then show ?thesis using Some by (simp add: resolveAutomationRun_def changes_only_same)
  next
    case False
    then show ?thesis
      using changes_only_row [OF assms Some, of "\<lambda>r. \<not> terminal (tr_status r)" _ "automation_resolved now dec summary"] Some
      by (simp add: resolveAutomationRun_def Let_def automation_resolved_identity ids_where_def)
  qed
qed

lemma footprint_lease:
  "changes_only (ids_where (writable (OpHeartbeat now clk t a w lease progress)) db) db
     (task_apply sha lt (OpHeartbeat now clk t a w lease progress) db)"
  "changes_only (ids_where (writable (OpFinish now t a w s res na ra)) db) db
     (task_apply sha lt (OpFinish now t a w s res na ra) db)"
  by (auto simp: heartbeat_def task_finish_def settle_db_def Let_def changes_only_same finished_run_def same_identity_def
      intro!: changes_only_rows [where p = "holds_lease t w"])

lemma footprint_claim:
  "changes_only (ids_where (writable (OpClaim now clk locked aid tenantId w lease)) db) db
     (task_apply sha lt (OpClaim now clk locked aid tenantId w lease) db)"
proof (cases "claimNext now clk locked aid tenantId w lease db")
  case (Inl e)
  then show ?thesis by (simp add: settle_def changes_only_same)
next
  case (Inr x)
  then show ?thesis using claimNext_changes by (cases x) (simp add: settle_def ids_where_def)
qed

lemma footprint_find:
  "changes_only S db (task_apply sha lt (OpFind now tenantId taskType key scope) db)"
  by (rule changes_only_refl)
    (simp add: findByIdempotency_def Let_def split: prod.splits option.splits)

fun is_create :: "task_op \<Rightarrow> bool" where
  "is_create (OpCreate _ _ _ _ _) = True"
| "is_create _ = False"

fun is_retry :: "task_op \<Rightarrow> bool" where
  "is_retry (OpRetry _ _ _ _) = True"
| "is_retry _ = False"

lemma task_footprint:
  assumes "distinct (map tr_id (db_runs db))" and "\<not> is_create op"
  shows "changes_only (ids_where (writable op) db) db (task_apply sha lt op db)"
  using assms(2)
  by (cases op) (simp_all only: is_create.simps not_True_eq_False footprint_find footprint_claim footprint_lease
      footprint_requestCancel [OF assms(1)] footprint_forceCancel [OF assms(1)] footprint_retry [OF assms(1)]
      footprint_adopt [OF assms(1)] footprint_promote footprint_resolveWaiting footprint_resolveApproval [OF assms(1)]
      footprint_resolveAutomation [OF assms(1)])

section \<open>Key constraints\<close>

definition attempt_key :: "task_attempt \<Rightarrow> string \<times> int" where
  "attempt_key a = (ta_taskRunId a, ta_attemptNo a)"

definition db_ok :: "task_db \<Rightarrow> bool" where
  "db_ok db \<longleftrightarrow> distinct (map tr_id (db_runs db)) \<and> distinct (map ta_id (db_attempts db))
     \<and> distinct (map attempt_key (db_attempts db)) \<and> unique_active (db_runs db)"

lemma unique_active_upd:
  assumes "unique_active rs"
    and "\<And>r. r \<in> set rs \<Longrightarrow> p r \<Longrightarrow> active_key (g r) = active_key r \<or> active_key (g r) = None"
  shows "unique_active (upd_where p g rs)"
proof -
  have "distinct (List.map_filter active_key (upd_where p g rs))
      \<and> set (List.map_filter active_key (upd_where p g rs)) \<subseteq> set (List.map_filter active_key rs)"
    using assms
  proof (induction rs)
    case Nil
    then show ?case by (simp add: unique_active_def)
  next
    case (Cons r rs)
    then have "unique_active rs"
      by (auto simp: unique_active_def map_filter_simps split: option.splits)
    then have IH: "distinct (List.map_filter active_key (upd_where p g rs))"
      "set (List.map_filter active_key (upd_where p g rs)) \<subseteq> set (List.map_filter active_key rs)"
      using Cons by auto
    let ?r = "if p r then g r else r"
    have key: "active_key ?r = active_key r \<or> active_key ?r = None" using Cons.prems(2) [of r] by auto
    have "x \<notin> set (List.map_filter active_key rs)" if "active_key r = Some x" for x
      using Cons.prems(1) that by (simp add: unique_active_def map_filter_simps)
    then show ?case using IH key
      by (cases "active_key ?r") (auto simp: map_filter_simps split: option.splits)
  qed
  then show ?thesis by (simp add: unique_active_def)
qed

lemma active_key_terminal: "terminal (tr_status r) \<Longrightarrow> active_key r = None"
  by (simp add: active_key_def split: option.splits)

lemma active_key_cong:
  "tr_idempotencyKey r' = tr_idempotencyKey r \<Longrightarrow> same_identity r r' \<Longrightarrow> \<not> terminal (tr_status r) \<Longrightarrow>
   active_key r' = active_key r \<or> active_key r' = None"
  by (auto simp: active_key_def same_identity_def split: option.splits)

lemma checked_update_unique: "checked_update p g db = Inr db' \<Longrightarrow> unique_active (db_runs db')"
  by (auto simp: checked_update_def Let_def split: if_splits)

lemma recover_one_unique: "recover_one now row db = Inr db' \<Longrightarrow> unique_active (db_runs db')"
  by (auto simp: recover_one_def Let_def split: sum.splits prod.splits dest!: checked_update_unique)

lemma recover_all_unique:
  "recover_all now rows db = Inr db' \<Longrightarrow> unique_active (db_runs db) \<Longrightarrow> unique_active (db_runs db')"
  by (induction rows arbitrary: db) (auto split: sum.splits dest: recover_one_unique)

lemma recover_all_attempts:
  "recover_all now rows db = Inr db' \<Longrightarrow>
     map ta_id (db_attempts db') = map ta_id (db_attempts db) \<and> map attempt_key (db_attempts db') = map attempt_key (db_attempts db)"
proof (induction rows arbitrary: db)
  case Nil
  then show ?case by simp
next
  case (Cons row rows)
  then obtain db1 where one: "recover_one now row db = Inr db1" and rest: "recover_all now rows db1 = Inr db'"
    by (auto split: sum.splits)
  have "map ta_id (db_attempts db1) = map ta_id (db_attempts db) \<and> map attempt_key (db_attempts db1) = map attempt_key (db_attempts db)"
    using one by (auto simp: recover_one_def checked_update_def Let_def attempt_key_def
        split: sum.splits prod.splits if_splits intro!: map_upd_where)
  then show ?case using Cons.IH [OF rest] by simp
qed

lemma next_attempt_no_fresh:
  "a \<in> set (db_attempts db) \<Longrightarrow> ta_taskRunId a = i \<Longrightarrow> ta_attemptNo a < next_attempt_no i db"
proof -
  assume a: "a \<in> set (db_attempts db)" "ta_taskRunId a = i"
  let ?nos = "map ta_attemptNo (filter (\<lambda>a. ta_taskRunId a = i) (db_attempts db))"
  have mem: "ta_attemptNo a \<in> set ?nos" using a by auto
  then have "ta_attemptNo a \<le> Max (set ?nos)" by (intro Max_ge) auto
  moreover have "?nos \<noteq> []" using mem by (metis empty_iff empty_set)
  ultimately show ?thesis by (simp add: next_attempt_no_def Let_def)
qed

lemma claimNext_ok:
  assumes "db_ok db" and "claimNext now clk locked aid tenantId w lease db = Inr (res, db')"
  shows "db_ok db'"
proof -
  obtain db1 where rec: "recoverExpiredLeases now locked db = Inr db1"
    using assms(2) by (auto simp: claimNext_def split: sum.splits)
  let ?db2 = "backfill_waiting now tenantId db1"
  have ids: "map tr_id (db_runs db') = map tr_id (db_runs db)"
    using claimNext_changes [OF assms(2)] by (rule changes_only_ids)
  have ids1: "map tr_id (db_runs db1) = map tr_id (db_runs db)"
    using recoverExpiredLeases_changes [OF rec] by (rule changes_only_ids)
  have "unique_active (db_runs db1)"
    using recover_all_unique rec assms(1) by (simp add: recoverExpiredLeases_def db_ok_def)
  then have u2: "unique_active (db_runs ?db2)"
    unfolding backfill_waiting_def frame_update_runs
    by (rule unique_active_upd) (rule active_key_cong, simp_all add: same_identity_def)
  have at2: "map ta_id (db_attempts ?db2) = map ta_id (db_attempts db)" "map attempt_key (db_attempts ?db2) = map attempt_key (db_attempts db)"
    using recover_all_attempts rec by (auto simp: recoverExpiredLeases_def backfill_waiting_def)
  show ?thesis
  proof (cases res)
    case None
    then have "db' = ?db2" using assms(2) rec by (auto simp: claimNext_def Let_def split: sum.splits option.splits)
    then show ?thesis using ids u2 at2 assms(1) by (simp add: db_ok_def)
  next
    case (Some x)
    obtain t a where "x = (t, a)" by (cases x)
    then have "claimNext now clk locked aid tenantId w lease db = Inr (Some (t, a), db')" using assms(2) Some by simp
    then obtain row where row: "select_claim now locked tenantId ?db2 = Some row"
      and aid: "aid \<notin> ta_id ` set (db_attempts ?db2)"
      and runs: "db_runs db' = upd_where (\<lambda>r. tr_id r = tr_id row) (take_lease now w (clk + lease * 1000)) (db_runs ?db2)"
      and att: "db_attempts db' = db_attempts ?db2 @ [new_attempt now aid (tr_id row) (next_attempt_no (tr_id row) ?db2) w (clk + lease * 1000)]"
      by (elim claimNext_Some_from [OF _ rec])
    have d2: "distinct (map tr_id (db_runs ?db2))"
      using ids1 assms(1) by (simp add: db_ok_def backfill_waiting_def map_upd_where)
    have "unique_active (db_runs db')"
      unfolding runs
    proof (rule unique_active_upd [OF u2])
      fix r assume "r \<in> set (db_runs ?db2)" "tr_id r = tr_id row"
      then have "r = row" using d2 select_claim_in [OF row] by (auto intro: distinct_key_eq)
      then have "\<not> terminal (tr_status r)" using select_claim_in [OF row] by (auto simp: claimable_def)
      then show "active_key (take_lease now w (clk + lease * 1000) r) = active_key r
          \<or> active_key (take_lease now w (clk + lease * 1000) r) = None"
        by (intro active_key_cong) (simp_all add: take_lease_identity, simp add: take_lease_def)
    qed
    moreover have "(tr_id row, next_attempt_no (tr_id row) ?db2) \<notin> set (map attempt_key (db_attempts ?db2))"
      using next_attempt_no_fresh [of _ ?db2 "tr_id row"] by (fastforce simp: attempt_key_def)
    moreover have "aid \<notin> set (map ta_id (db_attempts ?db2))" using aid by simp
    ultimately show ?thesis using ids at2 assms(1)
      by (simp add: db_ok_def att new_attempt_def attempt_key_def)
  qed
qed

lemma unique_row:
  assumes "db_ok db" and "getById tenantId i db = Some t" and "\<not> terminal (tr_status t)"
    and "\<And>r. same_identity r (g r) \<and> tr_idempotencyKey (g r) = tr_idempotencyKey r"
  shows "unique_active (upd_where (of_row tenantId i) g (db_runs db))"
proof (rule unique_active_upd)
  show "unique_active (db_runs db)" using assms(1) by (simp add: db_ok_def)
  fix r assume r: "r \<in> set (db_runs db)" "of_row tenantId i r"
  have "t \<in> set (db_runs db)" "of_row tenantId i t" using getById_Some [OF assms(2)] by auto
  then have "r = t" using assms(1) r distinct_key_eq [of tr_id "db_runs db" r t] by (simp add: of_row_def db_ok_def)
  then show "active_key (g r) = active_key r \<or> active_key (g r) = None"
    using assms(3,4) by (intro active_key_cong) auto
qed

lemma unique_lease:
  assumes "db_ok db" and "\<And>r. same_identity r (g r) \<and> tr_idempotencyKey (g r) = tr_idempotencyKey r"
  shows "unique_active (upd_where (holds_lease t w) g (db_runs db))"
  using assms by (intro unique_active_upd active_key_cong) (auto simp: db_ok_def holds_lease_def)

lemma insert_run_ok: "insert_run r db = Inr db' \<Longrightarrow> db_ok db \<Longrightarrow> db_ok db'"
  by (auto simp: insert_run_def db_ok_def split: if_splits)

lemma insert_refs_frame:
  "db_runs (fold (insert_ref i) refs db) = db_runs db \<and> db_attempts (fold (insert_ref i) refs db) = db_attempts db
   \<and> db_events (fold (insert_ref i) refs db) = db_events db \<and> db_idempotency (fold (insert_ref i) refs db) = db_idempotency db"
  by (induction refs arbitrary: db) (auto simp: insert_ref_def)

text \<open>A successful creation, table by table.\<close>

lemma task_create_Inr:
  assumes "task_create sha lt now clk i inp d db = Inr (t, db')"
  shows "insert_run (new_run now i inp d) db = Inr (db\<lparr>db_runs := db_runs db @ [new_run now i inp d]\<rparr>)"
    and "db_runs db' = db_runs db @ [new_run now i inp d]" and "db_attempts db' = db_attempts db"
    and "getById (ei_tenantId inp) i db' = Some t"
proof -
  from assms show ins: "insert_run (new_run now i inp d) db = Inr (db\<lparr>db_runs := db_runs db @ [new_run now i inp d]\<rparr>)"
    by (auto simp: task_create_def insert_run_def split: if_splits)
  show "db_runs db' = db_runs db @ [new_run now i inp d]" "db_attempts db' = db_attempts db"
    "getById (ei_tenantId inp) i db' = Some t"
    using assms by (auto simp: task_create_def ins Let_def insert_refs_frame getById_def
        split: option.splits sum.splits if_splits)
qed

lemma promote_attempts:
  "map ta_id (db_attempts (fold (promote_followup now) rows db)) = map ta_id (db_attempts db)
   \<and> map attempt_key (db_attempts (fold (promote_followup now) rows db)) = map attempt_key (db_attempts db)"
  by (induction rows arbitrary: db) (simp_all add: promote_followup_def map_upd_where attempt_key_def)

text \<open>The attempts keep their keys under every operation but a claim.\<close>

lemma attempts_keys:
  assumes "\<And>now clk locked aid tenantId w lease. op \<noteq> OpClaim now clk locked aid tenantId w lease"
  shows "map ta_id (db_attempts (task_apply sha lt op db)) = map ta_id (db_attempts db)
    \<and> map attempt_key (db_attempts (task_apply sha lt op db)) = map attempt_key (db_attempts db)"
proof (cases op)
  case (OpCreate now clk i inp d)
  then show ?thesis
    by (auto simp: settle_def dest: task_create_Inr(3) split: sum.splits)
next
  case (OpPromote now tenantId)
  then show ?thesis using promote_attempts by (simp add: promoteRecoverableExecutionTasks_def Let_def)
qed (use assms in \<open>auto simp: settle_def settle_db_def findByIdempotency_def heartbeat_def task_finish_def requestCancel_def
    repo_forceCancel_def repo_retry_def repo_adoptIdempotencyKey_def repo_resolveWaitingExecutionTask_def
    repo_resolveApprovalTask_def resolveAutomationRun_def checked_update_def Let_def attempt_key_def
    split: option.splits sum.splits prod.splits if_splits intro!: map_upd_where\<close>)

lemma unique_after:
  assumes ok: "db_ok db" and "\<And>now clk locked aid tenantId w lease. op \<noteq> OpClaim now clk locked aid tenantId w lease"
  shows "unique_active (db_runs (task_apply sha lt op db))"
proof -
  have u: "unique_active (db_runs db)" using ok by (simp add: db_ok_def)
  show ?thesis
  proof (cases op)
    case (OpCreate now clk i inp d)
    have "unique_active (db_runs db')" if "task_create sha lt now clk i inp d db = Inr (t, db')" for t db'
      using insert_run_ok [OF task_create_Inr(1) [OF that] ok] task_create_Inr(2) [OF that] by (simp add: db_ok_def)
    then show ?thesis using OpCreate u by (auto simp: settle_def split: sum.splits)
  next
    case (OpRequestCancel now tenantId i actor reason)
    then show ?thesis using u
      by (auto simp: requestCancel_def settle_def Let_def same_identity_def split: option.splits intro!: unique_row [OF ok])
  next
    case (OpForceCancel now tenantId i actor reason)
    then show ?thesis using u
      by (auto simp: repo_forceCancel_def settle_def Let_def same_identity_def split: option.splits intro!: unique_row [OF ok])
  next
    case (OpResolveAutomation now tenantId i summary dec)
    then show ?thesis using u automation_resolved_identity
      by (auto simp: resolveAutomationRun_def Let_def split: option.splits intro!: unique_row [OF ok])
        (simp add: automation_resolved_def Let_def)
  next
    case (OpResolveApproval now tenantId rt ri summary dec failure)
    then show ?thesis using u
      by (auto simp: repo_resolveApprovalTask_def Let_def split: option.splits intro!: unique_active_upd active_key_terminal)
  next
    case (OpResolveWaiting now inp)
    then show ?thesis using u
      by (auto simp: repo_resolveWaitingExecutionTask_def Let_def split: option.splits intro!: unique_active_upd active_key_terminal)
  next
    case (OpPromote now tenantId)
    have "unique_active (upd_where (promotable tenantId db) (promoted now db) (db_runs db))"
      by (rule unique_active_upd [OF u], rule active_key_cong)
        (auto simp: promoted_def promotable_def promotion_candidate_def Let_def same_identity_def)
    then show ?thesis using OpPromote by (simp add: promoteRecoverableExecutionTasks_def Let_def fold_promote_frame)
  next
    case (OpHeartbeat now clk t a w lease progress)
    then show ?thesis using u
      by (auto simp: heartbeat_def settle_db_def Let_def same_identity_def intro!: unique_lease [OF ok])
  next
    case (OpFinish now t a w s res na ra)
    then show ?thesis using u
      by (auto simp: task_finish_def settle_db_def Let_def same_identity_def finished_run_def intro!: unique_lease [OF ok])
  next
    case (OpRetry now tenantId i actor)
    then show ?thesis using u
      by (auto simp: repo_retry_def settle_def Let_def split: option.splits sum.splits dest!: checked_update_unique)
  next
    case (OpAdopt now tenantId i key actor reason)
    then show ?thesis using u
      by (auto simp: repo_adoptIdempotencyKey_def settle_def Let_def split: option.splits sum.splits if_splits dest!: checked_update_unique)
  next
    case (OpFind now tenantId taskType key scope)
    then show ?thesis using u by (auto simp: findByIdempotency_def Let_def split: prod.splits option.splits)
  qed (use assms(2) in simp)
qed

lemma task_apply_ok:
  assumes "db_ok db"
  shows "db_ok (task_apply sha lt op db)"
proof (cases "\<exists>now clk locked aid tenantId w lease. op = OpClaim now clk locked aid tenantId w lease")
  case True
  then show ?thesis using assms claimNext_ok by (auto simp: settle_def split: sum.splits)
next
  case False
  have "distinct (map tr_id (db_runs (task_apply sha lt op db)))"
  proof (cases "is_create op")
    case True
    then obtain now clk i inp d where op: "op = OpCreate now clk i inp d" by (cases op) auto
    show ?thesis
    proof (cases "task_create sha lt now clk i inp d db")
      case (Inl e)
      then show ?thesis using op assms by (simp add: settle_def db_ok_def)
    next
      case (Inr x)
      obtain t db' where x: "x = (t, db')" by (cases x)
      from insert_run_ok [OF task_create_Inr(1) [OF Inr [unfolded x]] assms] task_create_Inr(2) [OF Inr [unfolded x]]
      show ?thesis using op Inr x by (simp add: settle_def db_ok_def)
    qed
  next
    case False
    then show ?thesis using changes_only_ids [OF task_footprint [of db op sha lt]] assms by (simp add: db_ok_def)
  qed
  then show ?thesis
    using attempts_keys [of op sha lt db] unique_after [OF assms, of op sha lt] False assms by (simp add: db_ok_def)
qed

inductive task_step :: "(string \<Rightarrow> string) \<Rightarrow> (string \<Rightarrow> string \<Rightarrow> bool) \<Rightarrow> task_db \<Rightarrow> task_db \<Rightarrow> bool"
  for sha lt where
  "task_step sha lt db (task_apply sha lt op db)"

inductive_cases task_stepE: "task_step sha lt db db'"

interpretation tasks: step_invariant "task_step sha lt" db_ok for sha lt
  by unfold_locales (auto elim!: task_stepE intro: task_apply_ok)

end
