(* ===== verification/TaskProperties.thy ===== *)
theory TaskProperties
  imports TaskInvariants
begin

text \<open>
  Properties of the task repository, proved from the footprints and the key constraints of
  \<open>TaskInvariants\<close>: what a claim returns, who may write back, what is final, what stays separate, and
  what the event log shows.
\<close>

section \<open>Lemmas\<close>

lemma apply_keeps_row:
  assumes "db_ok db" and "r \<in> set (db_runs db)" and "\<not> writable op r"
  shows "r \<in> set (db_runs (task_apply sha lt op db))"
proof (cases "is_create op")
  case True
  then obtain now clk i inp d where op: "op = OpCreate now clk i inp d" by (cases op) auto
  then show ?thesis using assms(2) by (auto simp: settle_def dest: task_create_Inr(2) split: sum.splits)
next
  case False
  have d: "distinct (map tr_id (db_runs db))" using assms(1) by (simp add: db_ok_def)
  have "tr_id r \<notin> ids_where (writable op) db"
    using assms(2,3) d distinct_key_eq [of tr_id "db_runs db" r] by (auto simp: ids_where_def)
  then show ?thesis using changes_only_keeps [OF task_footprint [OF d False] assms(2)] by blast
qed

lemma writable_not_terminal: "writable op r \<Longrightarrow> \<not> is_retry op \<Longrightarrow> \<not> terminal (tr_status r)"
  by (cases op) (auto simp: idle_def holds_lease_def terminal_def)

lemma fold_apply_ok: "db_ok db \<Longrightarrow> db_ok (fold (task_apply sha lt) ops db)"
  by (induction ops arbitrary: db) (auto intro: task_apply_ok)

lemma terminal_frozen:
  assumes "db_ok db" and "r \<in> set (db_runs db)" and "terminal (tr_status r)"
    and "\<forall>op \<in> set ops. \<not> is_retry op"
  shows "r \<in> set (db_runs (fold (task_apply sha lt) ops db))"
  using assms(1,2,4)
proof (induction ops arbitrary: db)
  case Nil
  then show ?case by simp
next
  case (Cons op ops)
  have "\<not> writable op r" using writable_not_terminal [of op r] Cons.prems(3) assms(3) by auto
  then have "r \<in> set (db_runs (task_apply sha lt op db))"
    using apply_keeps_row [OF Cons.prems(1,2)] by blast
  then show ?case using Cons.IH [OF task_apply_ok [OF Cons.prems(1)]] Cons.prems(3) by simp
qed

lemma getById_row:
  assumes "distinct (map tr_id (db_runs db))" and "r \<in> set (db_runs db)"
  shows "getById (tr_tenantId r) (tr_id r) db = Some r"
proof (cases "getById (tr_tenantId r) (tr_id r) db")
  case None
  then show ?thesis using assms(2) by (auto simp: getById_def find_None_iff_all)
next
  case (Some x)
  then have "x \<in> set (db_runs db)" "tr_id x = tr_id r" using getById_Some [OF Some] by (auto simp: of_row_def)
  then have "x = r" using assms by (intro distinct_key_eq [of tr_id "db_runs db"])
  then show ?thesis using Some by simp
qed

lemma lost_lease:
  assumes "db_ok db" and "r \<in> set (db_runs db)" and "tr_id x = tr_id r"
    and "tr_status r \<noteq> RUNNING \<or> tr_leaseOwner r \<noteq> Some w"
  shows "task_finish now x a w s res na ra db = Inl (PlainError ''TASK_LEASE_LOST'')"
    and "heartbeat now clk x a w lease progress db = Inl (PlainError ''TASK_LEASE_LOST'')"
proof -
  have "\<not> holds_lease x w q" if "q \<in> set (db_runs db)" for q
  proof
    assume h: "holds_lease x w q"
    then have "q = r" using assms(1,2,3) that distinct_key_eq [of tr_id "db_runs db" q r]
      by (auto simp: db_ok_def holds_lease_def)
    then show False using h assms(4) by (auto simp: holds_lease_def)
  qed
  then show "task_finish now x a w s res na ra db = Inl (PlainError ''TASK_LEASE_LOST'')"
    "heartbeat now clk x a w lease progress db = Inl (PlainError ''TASK_LEASE_LOST'')"
    by (auto simp: task_finish_def heartbeat_def)
qed

lemma forceCancel_Inr:
  assumes "db_ok db" and "repo_forceCancel now tenantId i actor reason db = Inr (t, db')"
  shows "t \<in> set (db_runs db') \<and> tr_id t = i \<and> tr_tenantId t = tenantId \<and> terminal (tr_status t)"
proof -
  obtain r where r: "getById tenantId i db = Some r"
    using assms(2) by (auto simp: repo_forceCancel_def split: option.splits)
  show ?thesis
  proof (cases "terminal (tr_status r)")
    case True
    then show ?thesis using assms(2) r getById_Some [OF r] by (auto simp: repo_forceCancel_def of_row_def)
  next
    case False
    then have got: "getById tenantId i db' = Some t"
      and runs: "db_runs db' = upd_where (of_row tenantId i) (\<lambda>r. r\<lparr>tr_status := CANCELLED, tr_leaseOwner := None,
          tr_leaseExpiresAt := None, tr_nextAttemptAt := None, tr_finishedAt := Some now,
          tr_lastErrorCode := Some ''TASK_FORCE_CANCELLED'', tr_lastErrorMessage := Some (force_message reason)\<rparr>) (db_runs db)"
      using assms(2) r by (auto simp: repo_forceCancel_def Let_def split: option.splits)
    note t = getById_Some [OF got]
    then obtain q where q: "q \<in> set (db_runs db)" "t = (if of_row tenantId i q then q\<lparr>tr_status := CANCELLED,
          tr_leaseOwner := None, tr_leaseExpiresAt := None, tr_nextAttemptAt := None, tr_finishedAt := Some now,
          tr_lastErrorCode := Some ''TASK_FORCE_CANCELLED'', tr_lastErrorMessage := Some (force_message reason)\<rparr> else q)"
      using runs by (auto simp: in_upd_where_iff)
    then have "terminal (tr_status t)" using t by (auto split: if_splits)
    then show ?thesis using t by (auto simp: of_row_def)
  qed
qed

text \<open>What the state before a claim says about the rows the claim chooses from.\<close>

lemma claim_pool:
  assumes "db_ok db" and "recoverExpiredLeases now locked db = Inr db1"
    and "r \<in> set (db_runs db)" and "tr_status r \<notin> {RUNNING, CANCELLING}"
  shows "r \<in> set (db_runs db1)"
proof -
  have ch: "changes_only (fst ` set (expired_rows now locked db)) db db1"
    using assms(2) by (auto simp: recoverExpiredLeases_def intro: recover_all_changes)
  have "tr_id r \<notin> fst ` set (expired_rows now locked db)"
  proof
    assume "tr_id r \<in> fst ` set (expired_rows now locked db)"
    then obtain q where "q \<in> set (db_runs db)" "tr_id q = tr_id r" "tr_status q = RUNNING \<or> tr_status q = CANCELLING"
      by (auto simp: expired_rows_def)
    then have "q = r" using assms(1,3) by (auto simp: db_ok_def intro: distinct_key_eq)
    then show False using assms(4) \<open>tr_status q = RUNNING \<or> tr_status q = CANCELLING\<close> by auto
  qed
  then show ?thesis using changes_only_keeps [OF ch assms(3)] by blast
qed

lemma earlier_order:
  "\<not> earlier b a \<Longrightarrow> \<not> earlier c b \<Longrightarrow> \<not> earlier c a" "earlier a b \<Longrightarrow> \<not> earlier b a" "\<not> earlier a a"
  unfolding earlier_def by linarith+

lemma select_claim_minimal:
  assumes "select_claim now locked tenantId db = Some row" and "r \<in> set (db_runs db)"
    and "claimable now tenantId r" and "\<not> locked (tr_id r)"
  shows "\<not> earlier r row"
proof -
  let ?xs = "filter (\<lambda>r. claimable now tenantId r \<and> \<not> locked (tr_id r)) (db_runs db)"
  obtain ys where ys: "sort_by earlier ?xs = row # ys"
    using assms(1) by (cases "sort_by earlier ?xs") (auto simp: select_claim_def head_option_def)
  have "sorted_wrt (\<lambda>a b. \<not> earlier b a) (sort_by earlier ?xs)"
  proof (rule sorted_sort_by)
    show "\<And>a b c. \<not> earlier b a \<Longrightarrow> \<not> earlier c b \<Longrightarrow> \<not> earlier c a" by (rule earlier_order(1))
    show "\<And>a b. earlier a b \<Longrightarrow> \<not> earlier b a" by (rule earlier_order(2))
  qed
  moreover have "r \<in> set ?xs" using assms(2-4) by simp
  ultimately show ?thesis using sort_by_hd_minimal [OF _ ys] earlier_order(3) by blast
qed

lemma claimNext_row:
  assumes "db_ok db" and "claimNext now clk locked aid tenantId w lease db = Inr (Some (t, a), db')"
  obtains db1 row where "recoverExpiredLeases now locked db = Inr db1"
    "select_claim now locked tenantId (backfill_waiting now tenantId db1) = Some row"
    "t = take_lease now w (clk + lease * 1000) row" "t \<in> set (db_runs db')"
    "distinct (map tr_id (db_runs (backfill_waiting now tenantId db1)))"
    "a = new_attempt clk aid (tr_id row) (next_attempt_no (tr_id row) (backfill_waiting now tenantId db1)) w (clk + lease * 1000)"
    "map attempt_key (db_attempts (backfill_waiting now tenantId db1)) = map attempt_key (db_attempts db)"
    "db_attempts db' = db_attempts (backfill_waiting now tenantId db1) @
       [new_attempt now aid (tr_id row) (next_attempt_no (tr_id row) (backfill_waiting now tenantId db1)) w (clk + lease * 1000)]"
proof -
  from assms(2) obtain db1 where rec: "recoverExpiredLeases now locked db = Inr db1"
    by (auto simp: claimNext_def split: sum.splits)
  let ?db2 = "backfill_waiting now tenantId db1"
  from assms(2) rec obtain row where row: "select_claim now locked tenantId ?db2 = Some row"
    and a: "a = new_attempt clk aid (tr_id row) (next_attempt_no (tr_id row) ?db2) w (clk + lease * 1000)"
    and runs: "db_runs db' = upd_where (\<lambda>r. tr_id r = tr_id row) (take_lease now w (clk + lease * 1000)) (db_runs ?db2)"
    and att: "db_attempts db' = db_attempts ?db2 @
       [new_attempt now aid (tr_id row) (next_attempt_no (tr_id row) ?db2) w (clk + lease * 1000)]"
    and got: "getById (tr_tenantId row) (tr_id row) db' = Some t"
    by (rule claimNext_Some_from)
  have d: "distinct (map tr_id (db_runs ?db2))"
    using changes_only_ids [OF recoverExpiredLeases_changes [OF rec]] assms(1)
    by (simp add: db_ok_def backfill_waiting_def map_upd_where)
  have d': "distinct (map tr_id (db_runs db'))"
    using claimNext_ok [OF assms] by (simp add: db_ok_def)
  have mem: "take_lease now w (clk + lease * 1000) row \<in> set (db_runs db')"
    using select_claim_in [OF row] by (auto simp: runs in_upd_where_iff)
  then have "getById (tr_tenantId row) (tr_id row) db' = Some (take_lease now w (clk + lease * 1000) row)"
    using getById_row [OF d' mem] by (simp add: take_lease_def)
  then have "t = take_lease now w (clk + lease * 1000) row" using got by simp
  moreover have "map attempt_key (db_attempts ?db2) = map attempt_key (db_attempts db)"
    using rec recover_all_attempts by (auto simp: recoverExpiredLeases_def backfill_waiting_def)
  ultimately show ?thesis using that [OF rec row _ _ d a _ att] mem by simp
qed

section \<open>Samples\<close>

definition sample_def :: task_definition where
  "sample_def = standard_definition (''AUTOMATION_RUN'', EXECUTION, ''tasks.types.automationRun'', ''automation.run'', ''automation.read'')"

definition sample_enqueue :: enqueue_input where
  "sample_enqueue = \<lparr>ei_tenantId = ''t1'', ei_taskType = ''AUTOMATION_RUN'', ei_requestedBy = Some ''alice'',
     ei_triggerSource = ''ui'', ei_payload = None, ei_resourceSummary = None, ei_resourceRefs = None,
     ei_idempotencyKey = None, ei_idempotencyScope = None, ei_parentTaskId = None, ei_definitionVersion = None,
     ei_availableAt = None, ei_initialStatus = None, ei_initialProgress = None\<rparr>"

definition empty_db :: task_db where
  "empty_db = \<lparr>db_runs = [], db_attempts = [], db_events = [], db_refs = [], db_idempotency = [], db_steps = [],
     db_definitions = []\<rparr>"

definition sample_run :: "string \<Rightarrow> TaskStatus \<Rightarrow> task_run" where
  "sample_run i s = (new_run 10 i sample_enqueue sample_def)\<lparr>tr_status := s\<rparr>"

definition sample_db :: "task_run list \<Rightarrow> task_db" where
  "sample_db rs = empty_db\<lparr>db_runs := rs\<rparr>"

lemma sample_run_simps [simp]:
  "tr_id (sample_run i s) = i" "tr_tenantId (sample_run i s) = ''t1''" "tr_status (sample_run i s) = s"
  "tr_idempotencyKey (sample_run i s) = None" "tr_leaseOwner (sample_run i s) = None"
  "tr_leaseExpiresAt (sample_run i s) = None" "tr_progress (sample_run i s) = None"
  "tr_resourceSummary (sample_run i s) = Some []" "tr_availableAt (sample_run i s) = 10"
  "tr_createdAt (sample_run i s) = 10" "tr_nextAttemptAt (sample_run i s) = None"
  by (simp_all add: sample_run_def new_run_def sample_enqueue_def)

lemma sample_db_simps [simp]:
  "db_runs (sample_db rs) = rs" "db_attempts (sample_db rs) = []" "db_events (sample_db rs) = []"
  by (simp_all add: sample_db_def empty_db_def)

lemma sample_db_ok: "distinct (map tr_id rs) \<Longrightarrow> \<forall>r \<in> set rs. tr_idempotencyKey r = None \<Longrightarrow> db_ok (sample_db rs)"
proof -
  assume d: "distinct (map tr_id rs)" and n: "\<forall>r \<in> set rs. tr_idempotencyKey r = None"
  have "List.map_filter active_key rs = []"
    using n by (induction rs) (auto simp: map_filter_simps active_key_def)
  then show ?thesis using d by (simp add: db_ok_def unique_active_def)
qed

text \<open>A task that worker \<open>w1\<close> holds until instant 50.\<close>

definition held_run :: task_run where
  "held_run = (sample_run ''a'' RUNNING)\<lparr>tr_leaseOwner := Some ''w1'', tr_leaseExpiresAt := Some 50\<rparr>"

lemma held_run_simps [simp]:
  "tr_id held_run = ''a''" "tr_status held_run = RUNNING" "tr_leaseOwner held_run = Some ''w1''"
  "tr_leaseExpiresAt held_run = Some 50" "tr_tenantId held_run = ''t1''" "tr_idempotencyKey held_run = None"
  by (simp_all add: held_run_def)

lemma held_db_ok: "db_ok (sample_db [held_run])"
  by (rule sample_db_ok) simp_all

section \<open>Properties\<close>


lemma sample_claim:
  "claimNext 20 20 (\<lambda>_. False) ''x1'' None ''w1'' 60 (sample_db [sample_run ''b'' QUEUED])
   = Inr (Some (take_lease 20 ''w1'' 60020 (sample_run ''b'' QUEUED), new_attempt 20 ''x1'' ''b'' 1 ''w1'' 60020),
       appendEvent 20 ''b'' ''CLAIMED'' [(''workerId'', JStr ''w1''), (''attemptNo'', JNum 1)] None (Some ''x1'')
         ((sample_db [take_lease 20 ''w1'' 60020 (sample_run ''b'' QUEUED)])\<lparr>db_attempts := [new_attempt 20 ''x1'' ''b'' 1 ''w1'' 60020]\<rparr>))"
  by (simp add: claimNext_def recoverExpiredLeases_def expired_rows_def backfill_waiting_def update_runs_def
      select_claim_def claimable_def sql_pending_approval_def sql_has_approval_def nullif_empty_def sql_text_def
      ojget_def jget_def due_def tenant_matches_def head_option_def next_attempt_no_def insert_attempt_def
      getById_def sample_db_def empty_db_def appendEvent_def take_lease_def)


text \<open>A live lease is respected. A claim neither changes nor returns a task that is running under a
  lease that has not expired, whoever asks.\<close>

theorem live_lease_respected:
  assumes "db_ok db" and "r \<in> set (db_runs db)" and "tr_status r = RUNNING"
    and "tr_leaseExpiresAt r = Some e" and "now < e"
    and "claimNext now clk locked aid tenantId w lease db = Inr (res, db')"
  shows "r \<in> set (db_runs db') \<and> (case res of None \<Rightarrow> True | Some (t, a) \<Rightarrow> tr_id t \<noteq> tr_id r)"
proof -
  have "\<not> idle now r" using assms(3-5) by (simp add: idle_def)
  moreover have "tr_id r \<in> ids_where (idle now) db \<Longrightarrow> idle now r"
    using assms(1,2) distinct_key_eq [of tr_id "db_runs db" r] by (auto simp: ids_where_def db_ok_def)
  ultimately have "tr_id r \<notin> ids_where (idle now) db" by blast
  then have kept: "r \<in> set (db_runs db')" using changes_only_keeps [OF claimNext_changes [OF assms(6)] assms(2)] by blast
  have "tr_id t \<noteq> tr_id r" if "res = Some (t, a)" for t a
  proof
    assume same: "tr_id t = tr_id r"
    have claimed: "claimNext now clk locked aid tenantId w lease db = Inr (Some (t, a), db')" using assms(6) that by simp
    obtain db1 row where rec:  "recoverExpiredLeases now locked db = Inr db1"
      and row: "select_claim now locked tenantId (backfill_waiting now tenantId db1) = Some row"
      and t: "t = take_lease now w (clk + lease * 1000) row"
      and d: "distinct (map tr_id (db_runs (backfill_waiting now tenantId db1)))"
      by (rule claimNext_row [OF assms(1) claimed])
    from rec have "changes_only (ids_where (idle now) db) db (backfill_waiting now tenantId db1)"
      unfolding backfill_waiting_def
      by (intro idle_step recoverExpiredLeases_changes) (auto simp: same_identity_def idle_def)
    then have "r \<in> set (db_runs (backfill_waiting now tenantId db1))"
      using changes_only_keeps assms(2) \<open>tr_id r \<notin> ids_where (idle now) db\<close> by blast
    then have "row = r"
      using d select_claim_in [OF row] same t by (auto simp: take_lease_def intro: distinct_key_eq)
    then show False using select_claim_in [OF row] assms(3) by (simp add: claimable_def)
  qed
  then show ?thesis using kept by (auto split: option.splits)
qed

lemma held_claim:
  "claimNext 20 20 (\<lambda>_. False) ''x1'' None ''w2'' 60 (sample_db [held_run]) = Inr (None, sample_db [held_run])"
  by (simp add: claimNext_def recoverExpiredLeases_def expired_rows_def backfill_waiting_def update_runs_def
      select_claim_def claimable_def head_option_def)

theorem live_lease_respected_witness:
  "held_run \<in> set (db_runs (sample_db [held_run]))"
  using live_lease_respected [OF held_db_ok _ _ _ _ held_claim, of held_run 50] by simp

text \<open>A finished task is final. Whatever operations follow, as long as none of them is a retry, a
  task that succeeded, failed or was cancelled keeps its row exactly as it is.\<close>

theorem finished_task_final:
  assumes "db_ok db" and "getById tenantId i db = Some r" and "terminal (tr_status r)"
    and "\<forall>op \<in> set ops. \<not> is_retry op"
  shows "getById tenantId i (fold (task_apply sha lt) ops db) = Some r"
proof -
  have r: "r \<in> set (db_runs db)" "tr_id r = i" "tr_tenantId r = tenantId"
    using getById_Some [OF assms(2)] by (auto simp: of_row_def)
  have "r \<in> set (db_runs (fold (task_apply sha lt) ops db))" by (rule terminal_frozen [OF assms(1) r(1) assms(3,4)])
  moreover have "distinct (map tr_id (db_runs (fold (task_apply sha lt) ops db)))"
    using fold_apply_ok [OF assms(1)] by (simp add: db_ok_def)
  ultimately show ?thesis using getById_row r by blast
qed

theorem finished_task_final_witness:
  "getById ''t1'' ''b'' (fold (task_apply id (\<lambda>_ _. False))
     [OpClaim 20 20 (\<lambda>_. False) ''x1'' None ''w1'' 60, OpForceCancel 30 ''t1'' ''b'' None None]
     (sample_db [sample_run ''b'' FAILED])) = Some (sample_run ''b'' FAILED)"
  by (rule finished_task_final) (simp_all add: sample_db_ok getById_def)

text \<open>C36. A forced cancellation fences the worker. After \<open>forceCancel\<close> returned, every later heartbeat
  and completion for the task fails with \<open>TASK_LEASE_LOST\<close>, whichever worker sends it, until somebody
  retries the task.\<close>

theorem forced_cancel_fences:
  assumes "db_ok db" and "repo_forceCancel now tenantId i actor reason db = Inr (t, db')"
    and "\<forall>op \<in> set ops. \<not> is_retry op" and "tr_id x = i"
  shows "let db'' = fold (task_apply sha lt) ops db' in
    task_finish now2 x a w s res na ra db'' = Inl (PlainError ''TASK_LEASE_LOST'')
    \<and> heartbeat now2 clk x a w lease progress db'' = Inl (PlainError ''TASK_LEASE_LOST'')"
proof -
  have t: "t \<in> set (db_runs db')" "tr_id t = i" "terminal (tr_status t)"
    using forceCancel_Inr [OF assms(1,2)] by auto
  have ok: "db_ok db'"
    using task_apply_ok [OF assms(1), of id "\<lambda>_ _. False" "OpForceCancel now tenantId i actor reason"] assms(2)
    by (simp add: settle_def)
  have "t \<in> set (db_runs (fold (task_apply sha lt) ops db'))" by (rule terminal_frozen [OF ok t(1,3) assms(3)])
  moreover have "tr_status t \<noteq> RUNNING" using t(3) by auto
  ultimately show ?thesis using lost_lease [OF fold_apply_ok [OF ok]] t(2) assms(4) by (simp add: Let_def)
qed

theorem forced_cancel_fences_witness:
  "task_finish 60 held_run (new_attempt 10 ''x1'' ''a'' 1 ''w1'' 50) ''w1'' SUCCEEDED
     \<lparr>to_errorCode = None, to_errorMessage = None, to_detail = None\<rparr> None None
     (settle (repo_forceCancel 30 ''t1'' ''a'' None None (sample_db [held_run])) empty_db)
   = Inl (PlainError ''TASK_LEASE_LOST'')"
proof -
  obtain t db' where "repo_forceCancel 30 ''t1'' ''a'' None None (sample_db [held_run]) = Inr (t, db')"
    by (simp add: repo_forceCancel_def getById_def of_row_def Let_def)
  then show ?thesis
    using forced_cancel_fences [OF held_db_ok, of 30 "''t1''" "''a''" None None t db' "[]" held_run]
    by (simp add: Let_def settle_def)
qed

section \<open>Reachable databases\<close>

lemma map_filter_image: "y \<in> set xs \<Longrightarrow> f y = Some k \<Longrightarrow> k \<in> set (List.map_filter f xs)"
  by (induction xs) (auto simp: map_filter_simps split: option.splits)

lemma active_key_eq:
  assumes "unique_active rs" and "r \<in> set rs" and "q \<in> set rs"
    and "active_key r = Some k" and "active_key q = Some k"
  shows "r = q"
  using assms
proof (induction rs)
  case Nil
  then show ?case by simp
next
  case (Cons x xs)
  have in_keys: "y \<in> set xs \<Longrightarrow> active_key y = Some k \<Longrightarrow> k \<in> set (List.map_filter active_key xs)" for y
    using map_filter_image [of y xs active_key k] by blast
  have "unique_active xs" using Cons.prems(1) by (auto simp: unique_active_def map_filter_simps split: option.splits)
  moreover have "active_key x = Some k \<Longrightarrow> k \<notin> set (List.map_filter active_key xs)"
    using Cons.prems(1) by (simp add: unique_active_def map_filter_simps)
  ultimately show ?case using Cons.IH Cons.prems(2-5) in_keys by auto
qed

lemma empty_db_ok: "db_ok empty_db"
  by (simp add: db_ok_def empty_db_def unique_active_def map_filter_simps)


definition keyed_db :: task_db where
  "keyed_db = task_apply (\<lambda>_. ''h'') (\<lambda>_ _. False)
     (OpCreate 10 10 ''a'' (sample_enqueue\<lparr>ei_idempotencyKey := Some ''k''\<rparr>) sample_def) empty_db"

lemma keyed_db_runs: "db_runs keyed_db = [(sample_run ''a'' QUEUED)\<lparr>tr_idempotencyKey := Some ''k''\<rparr>]"
  by (simp add: keyed_db_def settle_def task_create_def insert_run_def sample_run_def new_run_def sample_enqueue_def empty_db_def
      unique_active_def map_filter_simps active_key_def getOrElse_def uniqueRefs_def
      getById_def truthy_def saveIdempotencyRecord_def deleteExpiredIdempotencyRecord_def)


section \<open>Tenants\<close>

text \<open>The tenant an operation acts for; creation and the clean-up inside a claim act on no existing row
  of a tenant that did not ask.\<close>

fun op_tenant :: "task_op \<Rightarrow> string option" where
  "op_tenant (OpCreate now clk i inp d) = Some (ei_tenantId inp)"
| "op_tenant (OpFind now tenantId taskType key scope) = Some tenantId"
| "op_tenant (OpClaim now clk locked aid tenantId w lease) = (if truthy tenantId then tenantId else None)"
| "op_tenant (OpHeartbeat now clk t a w lease progress) = Some (tr_tenantId t)"
| "op_tenant (OpFinish now t a w s res na ra) = Some (tr_tenantId t)"
| "op_tenant (OpRequestCancel now tenantId i actor reason) = Some tenantId"
| "op_tenant (OpForceCancel now tenantId i actor reason) = Some tenantId"
| "op_tenant (OpRetry now tenantId i actor) = Some tenantId"
| "op_tenant (OpAdopt now tenantId i key actor reason) = Some tenantId"
| "op_tenant (OpPromote now tenantId) = (if truthy tenantId then tenantId else None)"
| "op_tenant (OpResolveWaiting now inp) = Some (rw_tenantId inp)"
| "op_tenant (OpResolveApproval now tenantId rt ri summary dec failure) = Some tenantId"
| "op_tenant (OpResolveAutomation now tenantId i summary dec) = Some tenantId"

fun is_claim :: "task_op \<Rightarrow> bool" where
  "is_claim (OpClaim _ _ _ _ _ _ _) = True"
| "is_claim _ = False"

lemma writable_tenant:
  "op_tenant op = Some x \<Longrightarrow> \<not> is_claim op \<Longrightarrow> writable op r \<Longrightarrow> tr_tenantId r = x"
  by (cases op) (auto simp: of_row_def holds_lease_def tenant_matches_def split: if_splits)

text \<open>Tenants are isolated. A sequence of operations that act for one tenant, claims apart, leaves every
  task of every other tenant exactly as it was.\<close>

theorem tenant_isolation:
  assumes "db_ok db" and "r \<in> set (db_runs db)" and "tr_tenantId r \<noteq> x"
    and "\<forall>op \<in> set ops. op_tenant op = Some x \<and> \<not> is_claim op"
  shows "r \<in> set (db_runs (fold (task_apply sha lt) ops db))"
  using assms(1,2,4)
proof (induction ops arbitrary: db)
  case Nil
  then show ?case by simp
next
  case (Cons op ops)
  have "\<not> writable op r" using writable_tenant [of op x r] Cons.prems(3) assms(3) by auto
  then have "r \<in> set (db_runs (task_apply sha lt op db))"
    using apply_keeps_row [OF Cons.prems(1,2)] by blast
  then show ?case using Cons.IH [OF task_apply_ok [OF Cons.prems(1)]] Cons.prems(3) by simp
qed

theorem tenant_isolation_witness:
  "sample_run ''b'' QUEUED \<in> set (db_runs (fold (task_apply (\<lambda>s. s) (\<lambda>_ _. False))
     [OpForceCancel 20 ''t2'' ''b'' None None, OpRetry 30 ''t2'' ''b'' None] (sample_db [sample_run ''b'' QUEUED])))"
  by (rule tenant_isolation [where x = "''t2''"]) (auto intro!: sample_db_ok)

section \<open>The event log\<close>

definition redacted :: "jobject \<Rightarrow> bool" where
  "redacted ob \<longleftrightarrow> (\<forall>(p, l) \<in> set (leaves (JObj ob)). l = JStr ''[REDACTED]'' \<or> (\<forall>k \<in> set p. \<not> sensitive_key k))"

definition extends_log :: "task_db \<Rightarrow> task_db \<Rightarrow> bool" where
  "extends_log db db' \<longleftrightarrow> (\<exists>es. db_events db' = db_events db @ es \<and> (\<forall>e \<in> set es. redacted (tv_eventData e)))"

lemma redacted_redactRecord: "redacted (redactRecord ob)"
proof -
  have "JObj (redactRecord ob) = redact_json (JObj ob)" by (simp add: redactRecord_def)
  then show ?thesis using redact_leaves [of _ _ "JObj ob"] by (auto simp: redacted_def simp del: leaves.simps)
qed

lemma extends_log_same: "db_events db' = db_events db \<Longrightarrow> extends_log db db'"
  by (simp add: extends_log_def)

lemma events_appendEvent:
  "\<exists>e. db_events (appendEvent now i ty data actor aid db) = db_events db @ [e] \<and> redacted (tv_eventData e)"
  by (simp add: appendEvent_def redacted_redactRecord)

lemma extends_log_append:
  "db_events db' = db_events db \<Longrightarrow> extends_log db (appendEvent now i ty data actor aid db')"
  "db_events db' = db_events db \<Longrightarrow> extends_log db (appendEvent now i ty data actor aid db'\<lparr>db_idempotency := rs\<rparr>)"
  using events_appendEvent [of now i ty data actor aid db'] by (auto simp: extends_log_def)

lemma extends_log_trans: "extends_log a b \<Longrightarrow> extends_log b c \<Longrightarrow> extends_log a c"
  by (fastforce simp: extends_log_def)

lemma events_frame [simp, frame]:
  "db_events (update_runs p f db) = db_events db" "db_events (update_attempts q g db) = db_events db"
  by (simp_all add: update_runs_def update_attempts_def)

lemma events_checked: "checked_update p f db = Inr db' \<Longrightarrow> db_events db' = db_events db"
  by (auto simp: checked_update_def Let_def split: if_splits)

lemma events_insert:
  "insert_run r db = Inr db' \<Longrightarrow> db_events db' = db_events db"
  "insert_attempt a db = Inr db' \<Longrightarrow> db_events db' = db_events db"
  "db_events (insert_ref i ref db) = db_events db"
  by (auto simp: insert_run_def insert_attempt_def insert_ref_def split: if_splits)

lemma events_insert_refs: "db_events (fold (insert_ref i) refs db) = db_events db"
  by (induction refs arbitrary: db) (simp_all add: events_insert)

lemmas log_simps = extends_log_append extends_log_same events_insert_refs backfill_waiting_def

lemma extends_log_recover: "recover_all now rows db = Inr db' \<Longrightarrow> extends_log db db'"
proof (induction rows arbitrary: db)
  case Nil
  then show ?case by (simp add: extends_log_same)
next
  case (Cons row rows)
  then obtain db1 where one: "recover_one now row db = Inr db1" and rest: "recover_all now rows db1 = Inr db'"
    by (auto split: sum.splits)
  have "extends_log db db1"
    using one by (auto simp: recover_one_def Let_def split: prod.splits sum.splits dest!: events_checked simp: log_simps)
  then show ?case using Cons.IH [OF rest] by (rule extends_log_trans)
qed

lemma extends_log_claim:
  assumes "claimNext now clk locked aid tenantId w lease db = Inr (res, db')"
  shows "extends_log db db'"
proof -
  obtain db1 where rec: "recover_all now (expired_rows now locked db) db = Inr db1"
    using assms by (auto simp: claimNext_def recoverExpiredLeases_def split: sum.splits)
  have "extends_log db1 db'"
    using assms rec by (auto simp: claimNext_def recoverExpiredLeases_def Let_def log_simps
        split: option.splits sum.splits dest!: events_insert(2))
  then show ?thesis using extends_log_recover [OF rec] extends_log_trans by blast
qed

lemma extends_log_create: "task_create sha lt now clk i inp d db = Inr (t, db') \<Longrightarrow> extends_log db db'"
  by (auto simp: task_create_def Let_def log_simps dest!: events_insert(1) split: sum.splits option.splits if_splits)

lemma extends_log_promote: "extends_log db (fold (promote_followup now) rows db)"
proof (induction rows arbitrary: db)
  case Nil
  then show ?case by (simp add: extends_log_same)
next
  case (Cons t rows)
  have "extends_log db (promote_followup now t db)" by (simp add: promote_followup_def log_simps)
  then show ?case using Cons.IH [of "promote_followup now t db"] by (auto intro: extends_log_trans)
qed

lemma extends_log_apply: "extends_log db (task_apply sha lt op db)"
proof (cases op)
  case (OpCreate now clk i inp d)
  then show ?thesis by (auto simp: settle_def extends_log_same split: sum.splits intro: extends_log_create)
next
  case (OpClaim now clk locked aid tenantId w lease)
  then show ?thesis by (auto simp: settle_def extends_log_same split: sum.splits intro: extends_log_claim)
next
  case (OpPromote now tenantId)
  then show ?thesis
    using extends_log_trans [OF extends_log_same extends_log_promote]
    by (simp add: promoteRecoverableExecutionTasks_def Let_def)
next
  case (OpRetry now tenantId i actor)
  then show ?thesis
    by (auto simp: settle_def repo_retry_def Let_def log_simps dest!: events_checked split: sum.splits option.splits)
next
  case (OpAdopt now tenantId i key actor reason)
  then show ?thesis
    by (auto simp: settle_def repo_adoptIdempotencyKey_def Let_def log_simps dest!: events_checked split: sum.splits option.splits)
qed (simp_all add: settle_def settle_db_def heartbeat_def task_finish_def requestCancel_def repo_forceCancel_def
    findByIdempotency_def repo_resolveWaitingExecutionTask_def repo_resolveApprovalTask_def resolveAutomationRun_def
    Let_def log_simps split: sum.splits option.splits prod.splits)

lemma extends_log_steps: "(task_step sha lt)\<^sup>*\<^sup>* db db' \<Longrightarrow> extends_log db db'"
  by (induction rule: rtranclp_induct)
    (auto intro: extends_log_same extends_log_trans extends_log_apply elim!: task_stepE)

text \<open>The event log. Operations only append to the log, in whatever order they run, and no appended
  event shows the value of a member whose name matches the pattern of sensitive names, however deep
  in nested objects the member is.\<close>

theorem event_log_append_only:
  assumes "(task_step sha lt)\<^sup>*\<^sup>* db db'"
  shows "\<exists>es. db_events db' = db_events db @ es
     \<and> (\<forall>e \<in> set es. \<forall>(p, l) \<in> set (leaves (JObj (tv_eventData e))).
          l = JStr ''[REDACTED]'' \<or> (\<forall>k \<in> set p. \<not> sensitive_key k))"
  using extends_log_steps [OF assms] by (simp add: extends_log_def redacted_def)

theorem event_log_append_only_witness:
  "take (length (db_events keyed_db)) (db_events (task_apply (\<lambda>s. s) (\<lambda>_ _. False) (OpRetry 30 ''t2'' ''b'' None) keyed_db))
   = db_events keyed_db"
proof -
  have "(task_step (\<lambda>s. s) (\<lambda>_ _. False))\<^sup>*\<^sup>* keyed_db
     (task_apply (\<lambda>s. s) (\<lambda>_ _. False) (OpRetry 30 ''t2'' ''b'' None) keyed_db)"
    by (rule r_into_rtranclp) (rule task_step.intros)
  from event_log_append_only [OF this] show ?thesis by auto
qed

end
