(* ===== verification/AutomationProgress.thy ===== *)
theory AutomationProgress
  imports TaskProperties
begin

text \<open>
  The progress documents of automation tasks,
  \<open>backend/src/modules/automations/application/automation-task-progress.ts\<close>, and how the claim query of
  the task repository reads them.

  \<open>automation_run\<close> and \<open>automation_run_target\<close> have the members of the DTOs that the builders read. The
  floating-point expression \<open>Math.round((completed / total) * 100)\<close> is the parameter \<open>pct\<close>. A member
  whose value is \<open>undefined\<close> is dropped when the object is stored as JSON and is absent here. The
  sentences of \<open>buildSummary\<close> are in English.
\<close>

section \<open>Data\<close>

datatype AutomationRunStatus =
    AR_queued | AR_running | AR_waiting_approval | AR_succeeded | AR_partially_succeeded | AR_failed
  | AR_needs_attention | AR_stopped | AR_cancelled

fun run_status_text :: "AutomationRunStatus \<Rightarrow> string" where
  "run_status_text AR_queued = ''queued''"
| "run_status_text AR_running = ''running''"
| "run_status_text AR_waiting_approval = ''waiting_approval''"
| "run_status_text AR_succeeded = ''succeeded''"
| "run_status_text AR_partially_succeeded = ''partially_succeeded''"
| "run_status_text AR_failed = ''failed''"
| "run_status_text AR_needs_attention = ''needs_attention''"
| "run_status_text AR_stopped = ''stopped''"
| "run_status_text AR_cancelled = ''cancelled''"

record target_summary =
  sm_total :: int
  sm_pending :: int
  sm_running :: int
  sm_waitingApproval :: int
  sm_succeeded :: int
  sm_failed :: int
  sm_skipped :: int
  sm_cancelled :: int

record automation_run =
  ar_id :: string
  ar_automationId :: string
  ar_automationNameSnapshot :: string
  ar_scheduledAt :: "string option"
  ar_approvalId :: "string option"
  ar_status :: AutomationRunStatus
  ar_targetSummary :: target_summary

record automation_run_target =
  rt_deploymentPlanId :: "string option"
  rt_executionRunId :: "string option"
  rt_notificationRequestIds :: "string list"
  rt_assetName :: "string option"
  rt_certificateName :: string

section \<open>The builders\<close>

definition finiteCount :: "int \<Rightarrow> int" where
  "finiteCount n = max 0 n"

definition uniqueCount :: "string option list \<Rightarrow> nat" where
  "uniqueCount vs = length (remdups (filter (\<lambda>v. trim v \<noteq> []) (List.map_filter (\<lambda>v. v) vs)))"

definition computePercent :: "(int \<Rightarrow> int \<Rightarrow> int) \<Rightarrow> automation_run \<Rightarrow> int" where
  "computePercent pct run =
    (let s = ar_targetSummary run; total = finiteCount (sm_total s);
         completed = finiteCount (sm_succeeded s) + finiteCount (sm_failed s) + finiteCount (sm_skipped s)
           + finiteCount (sm_cancelled s)
     in if total \<le> 0
        then (if ar_status run \<in> {AR_succeeded, AR_partially_succeeded, AR_failed, AR_needs_attention, AR_stopped, AR_cancelled}
              then 100 else 0)
        else if total \<le> completed then 100
        else if ar_status run = AR_queued then 5
        else if ar_status run = AR_running then max 10 (pct completed total)
        else if ar_status run = AR_waiting_approval then max 15 (pct completed total)
        else pct completed total)"

definition buildSummary :: "automation_run \<Rightarrow> string" where
  "buildSummary run =
    (let s = ar_targetSummary run; total = finiteCount (sm_total s); succeeded = finiteCount (sm_succeeded s);
         failed = finiteCount (sm_failed s); skipped = finiteCount (sm_skipped s);
         waitingApproval = finiteCount (sm_waitingApproval s); running = finiteCount (sm_running s);
         pending = finiteCount (sm_pending s); n = int_to_string
     in (case ar_status run of
           AR_waiting_approval \<Rightarrow> ''waiting for approval, '' @ n (max waitingApproval 1) @ '' targets to go''
         | AR_queued \<Rightarrow> ''automation run created, '' @ n (max pending total) @ '' targets to process''
         | AR_running \<Rightarrow> ''processing, '' @ n (succeeded + failed + skipped) @ ''/'' @ n total @ '' targets done''
         | AR_succeeded \<Rightarrow> ''all done, '' @ n succeeded @ ''/'' @ n total @ '' targets succeeded''
         | AR_partially_succeeded \<Rightarrow> ''partly done, '' @ n succeeded @ '' succeeded, '' @ n failed @ '' failed''
         | AR_failed \<Rightarrow> ''failed, '' @ n (if failed = 0 then total else failed) @ '' targets not done''
         | AR_needs_attention \<Rightarrow> ''needs attention, '' @ n failed @ '' failed, '' @ n (waitingApproval + running + pending) @ '' waiting''
         | AR_stopped \<Rightarrow> ''stopped, '' @ n succeeded @ '' succeeded, '' @ n (skipped + pending) @ '' skipped''
         | AR_cancelled \<Rightarrow> ''cancelled''))"

definition approval_pending :: "automation_run \<Rightarrow> bool" where
  "approval_pending run \<longleftrightarrow> ar_status run = AR_waiting_approval \<and> truthy (ar_approvalId run)"

definition buildAutomationTaskResourceSummary :: "(int \<Rightarrow> int \<Rightarrow> int) \<Rightarrow> automation_run \<Rightarrow> jobject" where
  "buildAutomationTaskResourceSummary pct run =
    (let s = ar_targetSummary run; pending = approval_pending run in
     [(''displayName'', JStr (ar_automationNameSnapshot run)), (''automationId'', JStr (ar_automationId run)),
      (''automationRunId'', JStr (ar_id run))]
     @ jobj_opt ''approvalId'' (map_option JStr (ar_approvalId run))
     @ [(''approvalPending'', JBool pending)]
     @ (if pending then [(''approvalStatus'', JStr ''pending'')] else [])
     @ [(''summary'', JStr (buildSummary run)), (''percent'', JNum (computePercent pct run)),
        (''totalTargets'', JNum (finiteCount (sm_total s))), (''succeededTargets'', JNum (finiteCount (sm_succeeded s))),
        (''failedTargets'', JNum (finiteCount (sm_failed s))), (''skippedTargets'', JNum (finiteCount (sm_skipped s))),
        (''waitingApprovalTargets'', JNum (finiteCount (sm_waitingApproval s))),
        (''runningTargets'', JNum (finiteCount (sm_running s))), (''pendingTargets'', JNum (finiteCount (sm_pending s))),
        (''status'', JStr (run_status_text (ar_status run)))]
     @ (if truthy (ar_scheduledAt run) then [(''scheduledAt'', JStr (the (ar_scheduledAt run)))] else []))"

text \<open>Of an action result the builder reads the status only.\<close>

definition buildAutomationTaskProgress ::
  "(int \<Rightarrow> int \<Rightarrow> int) \<Rightarrow> automation_run \<Rightarrow> automation_run_target list \<Rightarrow> string list \<Rightarrow> jobject" where
  "buildAutomationTaskProgress pct run targets actionResults =
    (let pending = approval_pending run; count = (\<lambda>s. JNum (int (length (filter (\<lambda>x. x = s) actionResults)))) in
     spread (buildAutomationTaskResourceSummary pct run)
       ([(''message'', JStr (buildSummary run)), (''approvalPending'', JBool pending)]
        @ (if pending then [(''approvalStatus'', JStr ''pending'')] else [])
        @ [(''deploymentPlanCount'', JNum (int (uniqueCount (map rt_deploymentPlanId targets)))),
           (''executionRunCount'', JNum (int (uniqueCount (map rt_executionRunId targets)))),
           (''notificationRequestCount'', JNum (int (sum_list (map (\<lambda>t. length (rt_notificationRequestIds t)) targets)))),
           (''actionResultCount'', JNum (int (length actionResults))),
           (''succeededActionCount'', count ''succeeded''), (''failedActionCount'', count ''failed''),
           (''runningActionCount'', count ''running''),
           (''targetNames'', JArr (map JStr (take 5 (filter (\<lambda>v. trim v \<noteq> [])
              (map (\<lambda>t. getOrElse (rt_assetName t) (rt_certificateName t)) targets)))))]))"

section \<open>How the claim query reads the documents\<close>

lemma claim_filter_exact:
  "selected (tri_not (sql_pending_approval r)) \<longleftrightarrow>
     \<not> sql_has_approval r \<or> sql_approval_flags r = Some False"
  by (cases "sql_approval_flags r") (auto simp: sql_pending_approval_def selected_def tri_and_def tri_not_def)

text \<open>A task the filter rejects is not returned by a claim.\<close>

lemma rejected_not_claimed:
  assumes "db_ok db" and "r \<in> set (db_runs db)" and "tr_status r \<noteq> RUNNING" and "tr_status r \<noteq> CANCELLING"
    and "\<not> selected (tri_not (sql_pending_approval r))"
    and "claimNext now clk locked aid tenantId w lease db = Inr (Some (t, a), db')"
  shows "tr_id t \<noteq> tr_id r"
proof
  assume same: "tr_id t = tr_id r"
  obtain db1 row where rec: "recoverExpiredLeases now locked db = Inr db1"
    and row: "select_claim now locked tenantId (backfill_waiting now tenantId db1) = Some row"
    and t: "t = take_lease now w (clk + lease * 1000) row"
    and d: "distinct (map tr_id (db_runs (backfill_waiting now tenantId db1)))"
    by (rule claimNext_row [OF assms(1,6)])
  have "r \<in> set (db_runs db1)" using claim_pool [OF assms(1) rec assms(2)] assms(3,4) by simp
  define r' where "r' = (if tr_status r = WAITING_RESULT \<and> tr_nextAttemptAt r = None \<and> tr_leaseOwner r = None
      \<and> tenant_matches tenantId r then r\<lparr>tr_nextAttemptAt := Some (now + 10 * 1000)\<rparr> else r)"
  with \<open>r \<in> set (db_runs db1)\<close> have "r' \<in> set (db_runs (backfill_waiting now tenantId db1))"
    by (simp add: backfill_waiting_def update_runs_def upd_where_def image_iff bexI [of _ r])
  then have r': "r' \<in> set (db_runs (backfill_waiting now tenantId db1))" "tr_id r' = tr_id r"
      "tr_progress r' = tr_progress r" "tr_resourceSummary r' = tr_resourceSummary r"
    by (simp_all add: r'_def)
  have "row = r'" using d select_claim_in [OF row] same t r' by (auto simp: take_lease_def intro: distinct_key_eq)
  then have "sql_pending_approval row = sql_pending_approval r"
    using r' by (simp add: sql_pending_approval_def sql_has_approval_def sql_approval_flags_def)
  then show False using select_claim_in [OF row] assms(5) by (simp add: claimable_def)
qed

text \<open>The approval gate of the queue. A waiting task with an approval id that one of its documents
  marks as pending is never handed to a worker, whatever its other members are and whoever asks.\<close>

theorem approval_gate:
  assumes "db_ok db" and "r \<in> set (db_runs db)" and "tr_status r \<noteq> RUNNING" and "tr_status r \<noteq> CANCELLING"
    and "sql_text (tr_progress r) ''approvalId'' = Some i" and "i \<noteq> []"
    and "sql_text (tr_progress r) ''approvalStatus'' = Some ''pending''
         \<or> sql_text (tr_progress r) ''approvalPending'' = Some ''true''
         \<or> sql_text (tr_progress r) ''status'' = Some ''waiting_approval''"
    and "claimNext now clk locked aid tenantId w lease db = Inr (Some (t, a), db')"
  shows "tr_id t \<noteq> tr_id r"
proof (rule rejected_not_claimed [OF assms(1-4) _ assms(8)])
  have "sql_has_approval r" using assms(5,6) by (simp add: sql_has_approval_def orElse_def nullif_empty_def)
  moreover have "sql_approval_flags r = Some True"
    using assms(7) unfolding sql_approval_flags_def tri_ors_True by (auto simp: tri_eq_def)
  ultimately show "\<not> selected (tri_not (sql_pending_approval r))" by (simp add: claim_filter_exact)
qed

text \<open>The document of a run that has an approval and does not wait for it.\<close>

lemma progress_members:
  assumes "ar_approvalId run = Some i" and "i \<noteq> []" and "ar_status run \<noteq> AR_waiting_approval"
  shows "sql_text (Some (buildAutomationTaskProgress pct run targets results)) ''approvalId'' = Some i"
    and "sql_text (Some (buildAutomationTaskProgress pct run targets results)) ''approvalStatus'' = None"
    and "sql_text (Some (buildAutomationTaskProgress pct run targets results)) ''approvalPending'' = Some ''false''"
    and "sql_text (Some (buildAutomationTaskProgress pct run targets results)) ''status'' \<noteq> Some ''waiting_approval''"
proof -
  have p: "\<not> approval_pending run" using assms(3) by (simp add: approval_pending_def)
  let ?p = "buildAutomationTaskProgress pct run targets results"
  have "map_of ?p ''approvalId'' = Some (JStr i)" "map_of ?p ''approvalStatus'' = None"
    "map_of ?p ''approvalPending'' = Some (JBool False)" "map_of ?p ''status'' = Some (JStr (run_status_text (ar_status run)))"
    by (simp_all add: buildAutomationTaskProgress_def buildAutomationTaskResourceSummary_def p assms(1)
        map_of_spread map_add_def jobj_opt_def Let_def)
  moreover have "run_status_text (ar_status run) \<noteq> ''waiting_approval''" using assms(3) by (cases "ar_status run") simp_all
  ultimately show "sql_text (Some ?p) ''approvalId'' = Some i" "sql_text (Some ?p) ''approvalStatus'' = None"
    "sql_text (Some ?p) ''approvalPending'' = Some ''false''" "sql_text (Some ?p) ''status'' \<noteq> Some ''waiting_approval''"
    by (simp_all add: sql_text_def ojget_def jget_def json_text_def)
qed

lemma stranded_filter:
  assumes "to_detail res = Some (buildAutomationTaskProgress pct run targets results)"
    and "ar_approvalId run = Some i" and "i \<noteq> []" and "ar_status run \<noteq> AR_waiting_approval"
  shows "\<not> selected (tri_not (sql_pending_approval (finished_run now s res na ra r)))"
proof -
  let ?r = "finished_run now s res na ra r"
  have p: "tr_progress ?r = Some (buildAutomationTaskProgress pct run targets results)"
    using assms(1) by (simp add: finished_run_def orElse_def)
  then have "sql_has_approval ?r"
    using progress_members(1) [OF assms(2-4)] assms(3) by (simp add: sql_has_approval_def orElse_def nullif_empty_def)
  moreover have "sql_approval_flags ?r \<noteq> Some False"
    using p progress_members(2) [OF assms(2-4)] unfolding sql_approval_flags_def tri_ors_False by (auto simp: tri_eq_def)
  ultimately show ?thesis by (simp add: claim_filter_exact)
qed

text \<open>A run that was approved once is lost to the queue. When a worker hands an automation task back to
  wait or to be retried, with the document the builder makes for a run that has an approval id and is
  not waiting for approval, no later claim returns the task: the member \<open>approvalStatus\<close> is absent, the
  comparison with it is NULL, and so is the negated filter.\<close>

theorem approved_run_stranded:
  assumes "db_ok db" and "r \<in> set (db_runs db)" and "holds_lease t w r"
    and "task_finish now t a w s res na ra db = Inr db'"
    and "s = WAITING_RESULT \<or> s = RETRY_WAITING"
    and "to_detail res = Some (buildAutomationTaskProgress pct run targets results)"
    and "ar_approvalId run = Some i" and "i \<noteq> []" and "ar_status run \<noteq> AR_waiting_approval"
    and "claimNext now' clk locked aid tenantId w' lease db' = Inr (Some (t', a'), db'')"
  shows "tr_id t' \<noteq> tr_id t"
proof -
  let ?r = "finished_run now s res na ra r"
  have ok: "db_ok db'" using task_apply_ok [OF assms(1), of _ _ "OpFinish now t a w s res na ra"] assms(4)
    by (simp add: settle_db_def)
  have "?r \<in> set (db_runs db')"
    using assms(2-4) by (auto simp: task_finish_def Let_def update_runs_def upd_where_def split: if_splits)
  moreover have "tr_id ?r = tr_id t" "tr_status ?r = s"
    using assms(3) by (simp_all add: finished_run_def holds_lease_def)
  moreover have "\<not> selected (tri_not (sql_pending_approval ?r))"
    by (rule stranded_filter [OF assms(6-9)])
  ultimately show ?thesis
    using rejected_not_claimed [OF ok _ _ _ _ assms(10), of ?r] assms(5) by auto
qed

section \<open>Samples\<close>

definition gated_run :: task_run where
  "gated_run = (sample_run ''p'' QUEUED)\<lparr>tr_progress := Some [(''approvalId'', JStr ''ap1''), (''approvalStatus'', JStr ''pending'')]\<rparr>"

definition approved_run :: automation_run where
  "approved_run = \<lparr>ar_id = ''run1'', ar_automationId = ''au1'', ar_automationNameSnapshot = ''renew'', ar_scheduledAt = None,
     ar_approvalId = Some ''ap1'', ar_status = AR_running,
     ar_targetSummary = \<lparr>sm_total = 2, sm_pending = 0, sm_running = 1, sm_waitingApproval = 0, sm_succeeded = 1,
       sm_failed = 0, sm_skipped = 0, sm_cancelled = 0\<rparr>\<rparr>"

definition approved_progress :: jobject where
  "approved_progress = buildAutomationTaskProgress (\<lambda>a b. a * 100 div b) approved_run [] []"

definition approved_outcome :: task_outcome where
  "approved_outcome = \<lparr>to_errorCode = Some ''AUTOMATION_RUN_PENDING'', to_errorMessage = None, to_detail = Some approved_progress\<rparr>"

text \<open>A claim that finds one claimable task and one it rejects.\<close>

lemma claim_second:
  assumes "tr_id r = ''p''" and "tr_status r = QUEUED \<or> (tr_status r = WAITING_RESULT \<and> tr_nextAttemptAt r \<noteq> None)"
    and "tr_leaseExpiresAt r = None" and "\<not> selected (tri_not (sql_pending_approval r))"
    and "db_runs db = [r, sample_run ''b'' QUEUED]" and "db_attempts db = []"
  shows "\<exists>db'. claimNext 99 99 (\<lambda>_. False) ''x1'' None ''w1'' 60 db
     = Inr (Some (take_lease 99 ''w1'' 60099 (sample_run ''b'' QUEUED), new_attempt 99 ''x1'' ''b'' 1 ''w1'' 60099), db')"
proof -
  have "expired_rows 99 (\<lambda>_. False) db = []" using assms by (auto simp: expired_rows_def)
  then have rec: "recoverExpiredLeases 99 (\<lambda>_. False) db = Inr db" by (simp add: recoverExpiredLeases_def)
  have "upd_where (\<lambda>r. tr_status r = WAITING_RESULT \<and> tr_nextAttemptAt r = None \<and> tr_leaseOwner r = None
      \<and> tenant_matches None r) f (db_runs db) = db_runs db" for f
    using assms(2) unfolding assms(5) by auto
  then have bf: "backfill_waiting 99 None db = db" by (simp add: backfill_waiting_def update_runs_def)
  have b: "claimable 99 None (sample_run ''b'' QUEUED)"
    by (simp add: claimable_def sql_pending_approval_def sql_has_approval_def nullif_empty_def sql_text_def
        ojget_def jget_def due_def tenant_matches_def truthy_def orElse_def)
  have "\<not> claimable 99 None r" using assms(4) by (simp add: claimable_def)
  with b have chosen: "select_claim 99 (\<lambda>_. False) None db = Some (sample_run ''b'' QUEUED)"
    by (simp add: select_claim_def assms(5) head_option_def)
  show ?thesis
    using assms(1,6) by (simp add: claimNext_def rec bf chosen Let_def next_attempt_no_def insert_attempt_def assms(5)
        getById_def update_runs_def appendEvent_def take_lease_def)
qed

theorem approval_gate_witness:
  "tr_id (take_lease 99 ''w1'' 60099 (sample_run ''b'' QUEUED)) \<noteq> tr_id gated_run"
proof -
  have ok: "db_ok (sample_db [gated_run, sample_run ''b'' QUEUED])"
    by (rule sample_db_ok) (simp_all add: gated_run_def)
  have "\<not> selected (tri_not (sql_pending_approval gated_run))"
    by (simp add: claim_filter_exact sql_has_approval_def sql_approval_flags_def gated_run_def sql_text_def ojget_def
        jget_def json_text_def nullif_empty_def orElse_def tri_ors_def tri_eq_def)
  then obtain db' where c: "claimNext 99 99 (\<lambda>_. False) ''x1'' None ''w1'' 60 (sample_db [gated_run, sample_run ''b'' QUEUED])
     = Inr (Some (take_lease 99 ''w1'' 60099 (sample_run ''b'' QUEUED), new_attempt 99 ''x1'' ''b'' 1 ''w1'' 60099), db')"
    using claim_second [of gated_run "sample_db [gated_run, sample_run ''b'' QUEUED]"] by (auto simp: gated_run_def)
  show ?thesis
    by (rule approval_gate [OF ok _ _ _ _ _ _ c, where i = "''ap1''"])
      (simp_all add: gated_run_def sql_text_def ojget_def jget_def json_text_def)
qed

theorem approved_run_stranded_witness:
  "tr_id (take_lease 99 ''w1'' 60099 (sample_run ''b'' QUEUED)) \<noteq> tr_id (held_run\<lparr>tr_id := ''p''\<rparr>)"
proof -
  let ?h = "held_run\<lparr>tr_id := ''p''\<rparr>"
  let ?a = "new_attempt 10 ''x0'' ''p'' 1 ''w1'' 50"
  let ?db = "sample_db [?h, sample_run ''b'' QUEUED]"
  have ok: "db_ok ?db" by (rule sample_db_ok) simp_all
  obtain db' where fin: "task_finish 20 ?h ?a ''w1'' WAITING_RESULT approved_outcome None (Some 5) ?db = Inr db'"
    and runs: "db_runs db' = [finished_run 20 WAITING_RESULT approved_outcome None (Some 5) ?h, sample_run ''b'' QUEUED]"
    and att: "db_attempts db' = []"
    by (simp add: task_finish_def holds_lease_def update_runs_def update_attempts_def appendEvent_def Let_def)
  let ?r = "finished_run 20 WAITING_RESULT approved_outcome None (Some 5) ?h"
  have det: "to_detail approved_outcome = Some (buildAutomationTaskProgress (\<lambda>a b. a * 100 div b) approved_run [] [])"
    by (simp add: approved_outcome_def approved_progress_def)
  have ap: "ar_approvalId approved_run = Some ''ap1''" "ar_status approved_run \<noteq> AR_waiting_approval"
    by (simp_all add: approved_run_def)
  have "\<not> selected (tri_not (sql_pending_approval ?r))"
    by (rule stranded_filter [OF det ap(1) _ ap(2)]) simp
  then obtain db'' where c: "claimNext 99 99 (\<lambda>_. False) ''x1'' None ''w1'' 60 db'
     = Inr (Some (take_lease 99 ''w1'' 60099 (sample_run ''b'' QUEUED), new_attempt 99 ''x1'' ''b'' 1 ''w1'' 60099), db'')"
    using claim_second [OF _ _ _ _ runs att] by (auto simp: finished_run_def)
  show ?thesis
    by (rule approved_run_stranded [OF ok _ _ fin _ det ap(1) _ ap(2) c, where r = ?h]) (simp_all add: holds_lease_def)
qed

end
