(* ===== verification/TaskService.thy ===== *)
theory TaskService
  imports TaskProperties
begin

text \<open>
  The task service, \<open>backend/src/modules/tasks/task.application-service.ts\<close>.

  \<open>task_service\<close> is the state of the service with the database behind it: the life cycle of the control
  plane, the cancellation handlers that are set, and what the service sent out (audit entries, realtime
  events, calls of the handlers). A call that throws is an \<open>Inl\<close> beside the state it leaves behind,
  because the transactions it completed before stay. \<open>audit\<close> is the audit service, the error its \<open>write\<close>
  throws for an entry. A handler's own error is caught and logged, so only the call is kept.

  Calls run one at a time, but other actors work on the database between the transactions of one call:
  \<open>en_between\<close> and \<open>rn_between\<close> list the repository operations that run between the lookup and the
  insertion of \<open>enqueue\<close>, and while the executor of \<open>runNext\<close> works. The instants a call reads from the
  clocks and the identifiers it draws are arguments.
\<close>

section \<open>State\<close>

datatype TaskControlPlaneStatus = MIGRATION_PENDING | INITIALIZING | READY | LC_FAILED

record lifecycle =
  lc_status :: TaskControlPlaneStatus
  lc_error :: "(string \<times> string) option"

record task_audit =
  au_eventType :: string
  au_actorType :: string
  au_actorId :: string
  au_action :: string
  au_resourceId :: string
  au_riskLevel :: string
  au_detail :: jobject

record task_config =
  tc_sha :: "string \<Rightarrow> string"
  tc_lt :: "string \<Rightarrow> string \<Rightarrow> bool"
  tc_registry :: task_registry
  tc_columns :: "string list"
  tc_audit :: "(task_audit \<Rightarrow> error option) option"
  tc_realtime :: bool

record task_service =
  sv_db :: task_db
  sv_lifecycle :: lifecycle
  sv_executionHandler :: bool
  sv_upgradeHandler :: bool
  sv_audits :: "task_audit list"
  sv_published :: "task_run list"
  sv_cancelledRuns :: "(string \<times> string \<times> string) list"
  sv_cancelledUpgrades :: "(string \<times> string \<times> string \<times> string \<times> string option) list"

section \<open>Life cycle\<close>

definition error_name :: "error \<Rightarrow> string" where
  "error_name e = (case e of AppError _ \<Rightarrow> ''AppError'' | SecurityError _ _ \<Rightarrow> ''SecurityError''
     | PlainError _ \<Rightarrow> ''Error'' | DbError _ \<Rightarrow> ''error'')"

definition error_message :: "error \<Rightarrow> string" where
  "error_message e = (case e of AppError m \<Rightarrow> m | SecurityError _ m \<Rightarrow> m | PlainError m \<Rightarrow> m | DbError m \<Rightarrow> m)"

definition getLifecycle :: "task_service \<Rightarrow> lifecycle" where
  "getLifecycle s = sv_lifecycle s"

definition setExecutionCancellationHandler :: "task_service \<Rightarrow> task_service" where
  "setExecutionCancellationHandler s = s\<lparr>sv_executionHandler := True\<rparr>"

definition setAgentUpgradeCancellationHandler :: "task_service \<Rightarrow> task_service" where
  "setAgentUpgradeCancellationHandler s = s\<lparr>sv_upgradeHandler := True\<rparr>"

text \<open>No initialisation is in flight when a call starts.\<close>

definition initialize :: "task_config \<Rightarrow> task_service \<Rightarrow> unit result \<times> task_service" where
  "initialize cfg s =
    (if lc_status (sv_lifecycle s) = READY then (Inr (), s)
     else
       let (res, db') = ensureControlPlaneSchema (tc_columns cfg) (registry_list (tc_registry cfg)) (sv_db s)
       in (case res of
             Inr _ \<Rightarrow> (Inr (), s\<lparr>sv_db := db', sv_lifecycle := \<lparr>lc_status = READY, lc_error = None\<rparr>\<rparr>)
           | Inl e \<Rightarrow> (Inl e, s\<lparr>sv_db := db', sv_lifecycle :=
               \<lparr>lc_status = LC_FAILED, lc_error = Some (error_name e, error_message e)\<rparr>\<rparr>)))"

section \<open>Audit and realtime\<close>

definition shouldWriteTaskAudit :: "task_run \<Rightarrow> bool" where
  "shouldWriteTaskAudit t \<longleftrightarrow> tr_category t \<noteq> MONITORING"

definition write_audit :: "task_config \<Rightarrow> task_audit \<Rightarrow> task_service \<Rightarrow> unit result \<times> task_service" where
  "write_audit cfg entry s = (case tc_audit cfg of
     None \<Rightarrow> (Inr (), s)
   | Some audit \<Rightarrow> (case audit entry of
       Some e \<Rightarrow> (Inl e, s)
     | None \<Rightarrow> (Inr (), s\<lparr>sv_audits := sv_audits s @ [entry]\<rparr>)))"

definition publishTask :: "task_config \<Rightarrow> task_run \<Rightarrow> task_service \<Rightarrow> task_service" where
  "publishTask cfg t s = (if tc_realtime cfg then s\<lparr>sv_published := sv_published s @ [t]\<rparr> else s)"

definition publish_option :: "task_config \<Rightarrow> task_run option \<Rightarrow> task_service \<Rightarrow> task_service" where
  "publish_option cfg t s = (case t of None \<Rightarrow> s | Some x \<Rightarrow> publishTask cfg x s)"

text \<open>The end of the operations on one task: audit unless it is a monitoring task, publish, return.\<close>

definition announce :: "task_config \<Rightarrow> task_run \<Rightarrow> task_audit \<Rightarrow> task_service \<Rightarrow> task_run result \<times> task_service" where
  "announce cfg t entry s =
    (case (if shouldWriteTaskAudit t then write_audit cfg entry s else (Inr (), s)) of
       (Inl e, s1) \<Rightarrow> (Inl e, s1)
     | (Inr _, s1) \<Rightarrow> (Inr t, publishTask cfg t s1))"

definition task_audit_entry :: "string \<Rightarrow> string \<Rightarrow> string option \<Rightarrow> string \<Rightarrow> jobject \<Rightarrow> task_audit" where
  "task_audit_entry eventType action actorId i detail =
    \<lparr>au_eventType = eventType, au_actorType = ''user'', au_actorId = getOrElse actorId ''system'', au_action = action,
     au_resourceId = i, au_riskLevel = ''high'', au_detail = detail\<rparr>"

definition reason_json :: "string option \<Rightarrow> jobject" where
  "reason_json reason = jobj_opt ''reason'' (map_option JStr reason)"

text \<open>The \<open>catch\<close> blocks: a message of the repository becomes an error code of the API. The messages of the
  other errors are none of those the table names.\<close>

definition rename_error :: "(string \<times> string) list \<Rightarrow> error \<Rightarrow> error" where
  "rename_error tab e = (case e of
     PlainError msg \<Rightarrow> (case map_of tab msg of None \<Rightarrow> e | Some code \<Rightarrow> AppError code) | _ \<Rightarrow> e)"

definition renamed :: "(string \<times> string) list \<Rightarrow> 'a result \<times> task_service \<Rightarrow> 'a result \<times> task_service" where
  "renamed tab r = (case r of (Inl e, s) \<Rightarrow> (Inl (rename_error tab e), s) | (Inr x, s) \<Rightarrow> (Inr x, s))"

section \<open>Enqueue\<close>

record enqueue_env =
  en_id :: string
  en_findAt :: instant
  en_between :: "task_op list"
  en_createAt :: instant
  en_clk :: instant
  en_againAt :: instant

text \<open>Creation under an idempotency key: look up, else create, else look up what won the race. The flag of
  the result tells whether this call created.\<close>

definition reply :: "string \<Rightarrow> 't \<Rightarrow> idempotency_record \<Rightarrow> 's \<Rightarrow> ('t \<times> bool) result \<times> 's" where
  "reply hash t rec s = (case assertSameRequest rec hash of Inl e \<Rightarrow> (Inl e, s) | Inr _ \<Rightarrow> (Inr (t, False), s))"

definition create_once ::
  "('s \<Rightarrow> ('t \<times> idempotency_record) option \<times> 's) \<Rightarrow> ('s \<Rightarrow> 's) \<Rightarrow> ('s \<Rightarrow> ('t \<times> 's) result)
   \<Rightarrow> ('s \<Rightarrow> ('t \<times> idempotency_record) option \<times> 's) \<Rightarrow> string \<Rightarrow> 's \<Rightarrow> ('t \<times> bool) result \<times> 's" where
  "create_once look race create again hash s = (case look s of
     (Some (t, rec), s1) \<Rightarrow> reply hash t rec s1
   | (None, s1) \<Rightarrow>
       (case create (race s1) of
          Inr (t, s2) \<Rightarrow> (Inr (t, True), s2)
        | Inl e \<Rightarrow>
            if \<not> isUniqueViolation e then (Inl e, race s1)
            else (case again (race s1) of
                    (None, s2) \<Rightarrow> (Inl e, s2)
                  | (Some (t, rec), s2) \<Rightarrow> reply hash t rec s2)))"

definition enqueue_scope :: "enqueue_input \<Rightarrow> idempotency_scope" where
  "enqueue_scope inp = getOrElse (ei_idempotencyScope inp)
    \<lparr>is_actionType = ''task.enqueue.'' @ ei_taskType inp, is_resourceType = ''task'', is_resourceId = ei_taskType inp\<rparr>"

definition enqueue_create ::
  "task_config \<Rightarrow> enqueue_env \<Rightarrow> enqueue_input \<Rightarrow> task_definition \<Rightarrow> task_db \<Rightarrow> (task_run \<times> bool) result \<times> task_db" where
  "enqueue_create cfg env inp d db =
    (let create = task_create (tc_sha cfg) (tc_lt cfg) (en_createAt env) (en_clk env) (en_id env)
           (inp\<lparr>ei_idempotencyScope := Some (enqueue_scope inp)\<rparr>) d;
         race = fold (task_apply (tc_sha cfg) (tc_lt cfg)) (en_between env);
         look = (\<lambda>at. findByIdempotency at (ei_tenantId inp) (ei_taskType inp) (the (ei_idempotencyKey inp)) (enqueue_scope inp))
     in if truthy (ei_idempotencyKey inp)
        then create_once (look (en_findAt env)) race create (look (en_againAt env))
               (taskRequestHash (tc_sha cfg) (tc_lt cfg) inp (td_version d)) db
        else (case create (race db) of Inl e \<Rightarrow> (Inl e, race db) | Inr (t, db') \<Rightarrow> (Inr (t, True), db')))"

definition parent_missing :: "enqueue_input \<Rightarrow> task_db \<Rightarrow> bool" where
  "parent_missing inp db \<longleftrightarrow> truthy (ei_parentTaskId inp) \<and> getById (ei_tenantId inp) (the (ei_parentTaskId inp)) db = None"

text \<open>The acting subject is its type and its identifier.\<close>

definition created_audit :: "(string \<times> string) option \<Rightarrow> enqueue_input \<Rightarrow> task_run \<Rightarrow> task_audit" where
  "created_audit actor inp t =
    \<lparr>au_eventType = ''task.created'',
     au_actorType = (if map_option fst actor = Some ''system'' then ''system'' else ''user''),
     au_actorId = getOrElse (map_option snd actor) (getOrElse (ei_requestedBy inp) ''system''),
     au_action = ''task.create'', au_resourceId = tr_id t, au_riskLevel = ''medium'',
     au_detail = [(''taskType'', JStr (tr_taskType t)), (''category'', JStr (category_text (tr_category t))),
       (''triggerSource'', JStr (tr_triggerSource t))]\<rparr>"

definition enqueue ::
  "task_config \<Rightarrow> enqueue_env \<Rightarrow> (string \<times> string) option \<Rightarrow> enqueue_input \<Rightarrow> task_service \<Rightarrow> task_run result \<times> task_service" where
  "enqueue cfg env actor inp s = (case initialize cfg s of
     (Inl e, s0) \<Rightarrow> (Inl e, s0)
   | (Inr _, s0) \<Rightarrow> (case registry_get (ei_taskType inp) (ei_definitionVersion inp) (tc_registry cfg) of
       Inl e \<Rightarrow> (Inl e, s0)
     | Inr d \<Rightarrow>
         if parent_missing inp (sv_db s0) then (Inl (AppError ''RESOURCE_NOT_FOUND''), s0)
         else (case enqueue_create cfg env inp d (sv_db s0) of
           (Inl e, db1) \<Rightarrow> (Inl e, s0\<lparr>sv_db := db1\<rparr>)
         | (Inr (t, fresh), db1) \<Rightarrow>
             if fresh then announce cfg t (created_audit actor inp t) (s0\<lparr>sv_db := db1\<rparr>)
             else (Inr t, s0\<lparr>sv_db := db1\<rparr>))))"

section \<open>Queries\<close>

definition svc_findActiveByIdempotency ::
  "task_config \<Rightarrow> string \<Rightarrow> string \<Rightarrow> string \<Rightarrow> task_service \<Rightarrow> task_run option result \<times> task_service" where
  "svc_findActiveByIdempotency cfg tenantId taskType key s = (case initialize cfg s of
     (Inl e, s0) \<Rightarrow> (Inl e, s0)
   | (Inr _, s0) \<Rightarrow> (Inr (findActiveByIdempotency tenantId taskType key (sv_db s0)), s0))"

definition svc_findByIdempotencyKey ::
  "task_config \<Rightarrow> string \<Rightarrow> string \<Rightarrow> string \<Rightarrow> task_service \<Rightarrow> task_run option result \<times> task_service" where
  "svc_findByIdempotencyKey cfg tenantId taskType key s = (case initialize cfg s of
     (Inl e, s0) \<Rightarrow> (Inl e, s0)
   | (Inr _, s0) \<Rightarrow> (Inr (findByIdempotencyKey tenantId taskType key (sv_db s0)), s0))"

definition svc_detail :: "string \<Rightarrow> string \<Rightarrow> jobject list \<Rightarrow> task_service \<Rightarrow> task_detail result" where
  "svc_detail tenantId i audits s = (case repo_detail tenantId i audits (sv_db s) of
     None \<Rightarrow> Inl (AppError ''RESOURCE_NOT_FOUND'') | Some d \<Rightarrow> Inr d)"

section \<open>Cancellation, adoption, retry\<close>

definition cancel ::
  "task_config \<Rightarrow> instant \<Rightarrow> string \<Rightarrow> string \<Rightarrow> string option \<Rightarrow> string option \<Rightarrow> task_service \<Rightarrow> task_run result \<times> task_service" where
  "cancel cfg now tenantId i actorId reason s = renamed [(''NOT_FOUND'', ''RESOURCE_NOT_FOUND'')]
    (case requestCancel now tenantId i actorId reason (sv_db s) of
       Inl e \<Rightarrow> (Inl e, s)
     | Inr (t, db') \<Rightarrow> announce cfg t (task_audit_entry ''task.cancelled'' ''task.cancel'' actorId i
         ([(''taskId'', JStr i)] @ reason_json reason)) (s\<lparr>sv_db := db'\<rparr>))"

definition read_id :: "string \<Rightarrow> jobject option \<Rightarrow> string option" where
  "read_id key ob = (case ojget ob key of Some (JStr v) \<Rightarrow> if trim v \<noteq> [] then Some (trim v) else None | _ \<Rightarrow> None)"

definition linked_id :: "string \<Rightarrow> task_run \<Rightarrow> string option" where
  "linked_id key t = orElse (read_id key (Some (tr_payload t))) (read_id key (tr_resourceSummary t))"

definition cancelLinkedExecution :: "task_run \<Rightarrow> string \<Rightarrow> task_service \<Rightarrow> task_service" where
  "cancelLinkedExecution t actorId s =
    (if \<not> sv_executionHandler s \<or> terminal (tr_status t)
        \<or> tr_taskType t \<notin> {''CERTIFICATE_DEPLOY'', ''CERTIFICATE_DRY_RUN'', ''CERTIFICATE_VERIFY'', ''CERTIFICATE_ROLLBACK''}
     then s
     else (case linked_id ''runId'' t of
       None \<Rightarrow> s
     | Some runId \<Rightarrow> s\<lparr>sv_cancelledRuns := sv_cancelledRuns s @ [(runId, actorId, tr_tenantId t)]\<rparr>))"

definition cancelLinkedAgentUpgrade :: "task_run \<Rightarrow> string \<Rightarrow> string option \<Rightarrow> task_service \<Rightarrow> task_service" where
  "cancelLinkedAgentUpgrade t actorId reason s =
    (if \<not> sv_upgradeHandler s \<or> tr_taskType t \<noteq> ''AGENT_UPDATE'' then s
     else (case (linked_id ''agentId'' t, linked_id ''planId'' t) of
       (Some agentId, Some planId) \<Rightarrow>
         s\<lparr>sv_cancelledUpgrades := sv_cancelledUpgrades s @ [(tr_tenantId t, agentId, planId, actorId, reason)]\<rparr>
     | _ \<Rightarrow> s))"

text \<open>\<open>between\<close> are the operations of others between the read and the cancellation.\<close>

definition forceCancel ::
  "task_config \<Rightarrow> instant \<Rightarrow> task_op list \<Rightarrow> string \<Rightarrow> string \<Rightarrow> string option \<Rightarrow> string option \<Rightarrow> task_service
   \<Rightarrow> task_run result \<times> task_service" where
  "forceCancel cfg now between tenantId i actorId reason s = renamed [(''NOT_FOUND'', ''RESOURCE_NOT_FOUND'')]
    (let current = getById tenantId i (sv_db s);
         db1 = fold (task_apply (tc_sha cfg) (tc_lt cfg)) between (sv_db s)
     in (case repo_forceCancel now tenantId i actorId reason db1 of
           Inl e \<Rightarrow> (Inl e, s\<lparr>sv_db := db1\<rparr>)
         | Inr (t, db2) \<Rightarrow>
             let actor = getOrElse actorId ''system'';
                 s1 = cancelLinkedExecution (getOrElse current t) actor (s\<lparr>sv_db := db2\<rparr>);
                 s2 = cancelLinkedAgentUpgrade (getOrElse current t) actor reason s1
             in announce cfg t (task_audit_entry ''task.cancelled'' ''task.force_cancel'' actorId i
                  ([(''taskId'', JStr i)] @ reason_json reason @ [(''force'', JBool True)])) s2))"

definition adoptIdempotencyKey ::
  "task_config \<Rightarrow> instant \<Rightarrow> string \<Rightarrow> string \<Rightarrow> string \<Rightarrow> string option \<Rightarrow> string option \<Rightarrow> task_service
   \<Rightarrow> task_run result \<times> task_service" where
  "adoptIdempotencyKey cfg now tenantId i key actorId reason s =
    renamed [(''NOT_FOUND'', ''RESOURCE_NOT_FOUND''), (''TASK_NOT_ACTIVE'', ''TASK_NOT_RETRYABLE''),
             (''IDEMPOTENCY_CONFLICT'', ''IDEMPOTENCY_CONFLICT'')]
    (case repo_adoptIdempotencyKey now tenantId i key actorId reason (sv_db s) of
       Inl e \<Rightarrow> (Inl e, s)
     | Inr (t, db') \<Rightarrow> announce cfg t (task_audit_entry ''task.idempotency_adopted'' ''task.idempotency_adopt'' actorId i
         ([(''taskId'', JStr i), (''idempotencyKey'', JStr key)] @ reason_json reason)) (s\<lparr>sv_db := db'\<rparr>))"

definition retry :: "task_config \<Rightarrow> instant \<Rightarrow> string \<Rightarrow> string \<Rightarrow> string option \<Rightarrow> task_service \<Rightarrow> task_run result \<times> task_service" where
  "retry cfg now tenantId i actorId s =
    renamed [(''NOT_FOUND'', ''RESOURCE_NOT_FOUND''), (''NOT_RETRYABLE'', ''TASK_NOT_RETRYABLE'')]
    (case repo_retry now tenantId i actorId (sv_db s) of
       Inl e \<Rightarrow> (Inl e, s)
     | Inr (t, db') \<Rightarrow> announce cfg t (task_audit_entry ''task.retried'' ''task.retry'' actorId i [(''taskId'', JStr i)])
         (s\<lparr>sv_db := db'\<rparr>))"

section \<open>Resolution\<close>

definition resolveWaitingExecutionTask ::
  "task_config \<Rightarrow> instant \<Rightarrow> resolve_waiting_input \<Rightarrow> task_service \<Rightarrow> task_run option \<times> task_service" where
  "resolveWaitingExecutionTask cfg now inp s =
    (let (t, db') = repo_resolveWaitingExecutionTask now inp (sv_db s) in (t, publish_option cfg t (s\<lparr>sv_db := db'\<rparr>)))"

definition resolveApprovalTask ::
  "task_config \<Rightarrow> instant \<Rightarrow> string \<Rightarrow> string \<Rightarrow> string \<Rightarrow> jobject \<Rightarrow> ApprovalDecision \<Rightarrow> (string option \<times> string) option
   \<Rightarrow> task_service \<Rightarrow> task_run option \<times> task_service" where
  "resolveApprovalTask cfg now tenantId resourceType resourceId summary dec failure s =
    (let (t, db') = repo_resolveApprovalTask now tenantId resourceType resourceId summary dec failure (sv_db s)
     in (t, publish_option cfg t (s\<lparr>sv_db := db'\<rparr>)))"

definition automation_run_query :: "string \<Rightarrow> string \<Rightarrow> task_query" where
  "automation_run_query tenantId runId =
    \<lparr>tq_tenantId = tenantId, tq_category = None, tq_taskType = Some ''AUTOMATION_RUN'', tq_status = None,
     tq_resourceType = Some ''automationRun'', tq_resourceId = Some runId, tq_requestedBy = None,
     tq_includePendingApprovals = False, tq_taskId = None, tq_keyword = None, tq_createdFrom = None, tq_createdTo = None,
     tq_page = Some 1, tq_pageSize = Some 20\<rparr>"

definition resolveAutomationRunTask ::
  "task_config \<Rightarrow> instant \<Rightarrow> string \<Rightarrow> string \<Rightarrow> jobject \<Rightarrow> ApprovalDecision \<Rightarrow> task_service
   \<Rightarrow> task_run option result \<times> task_service" where
  "resolveAutomationRunTask cfg now tenantId runId summary dec s =
    (case repo_list (automation_run_query tenantId runId) (sv_db s) of
       Inl e \<Rightarrow> (Inl e, s)
     | Inr page \<Rightarrow> (case find (\<lambda>t. tr_taskType t = ''AUTOMATION_RUN'') (tp_items page) of
         None \<Rightarrow> (Inr None, s)
       | Some t \<Rightarrow> let (u, db') = resolveAutomationRun now tenantId (tr_id t) summary dec (sv_db s)
                   in (Inr u, publish_option cfg u (s\<lparr>sv_db := db'\<rparr>))))"

section \<open>Running the next task\<close>

record execution_result =
  er_success :: bool
  er_retryable :: "bool option"
  er_waitingStatus :: "TaskStatus option"
  er_retryAfterSeconds :: "int option"
  er_nextAttemptAt :: "instant option"
  er_errorCode :: "string option"
  er_errorMessage :: "string option"
  er_detail :: "jobject option"

text \<open>What an executor throws: whether it is an \<open>AppError\<close>, its code, its message and its details.\<close>

record thrown =
  th_isAppError :: bool
  th_errorCode :: "string option"
  th_message :: string
  th_details :: "jobject option"

type_synonym task_executor = "task_run \<Rightarrow> task_attempt \<Rightarrow> thrown + execution_result"

definition async_pending :: "jobject option \<Rightarrow> bool" where
  "async_pending details \<longleftrightarrow> ojget details ''asyncPending'' = Some (JBool True)"

definition waiting_result :: "string option \<Rightarrow> string \<Rightarrow> jobject option \<Rightarrow> execution_result" where
  "waiting_result code message details =
    \<lparr>er_success = False, er_retryable = None, er_waitingStatus = Some WAITING_RESULT, er_retryAfterSeconds = Some 10,
     er_nextAttemptAt = None, er_errorCode = code, er_errorMessage = Some message, er_detail = details\<rparr>"

definition thrown_result :: "string \<Rightarrow> execution_result" where
  "thrown_result message =
    \<lparr>er_success = False, er_retryable = None, er_waitingStatus = None, er_retryAfterSeconds = None,
     er_nextAttemptAt = None, er_errorCode = Some ''TASK_EXECUTOR_THROWN'', er_errorMessage = Some message, er_detail = None\<rparr>"

definition catch_thrown :: "thrown \<Rightarrow> execution_result" where
  "catch_thrown th =
    (let details = (if th_isAppError th then th_details th else None)
     in if async_pending details then waiting_result (th_errorCode th) (th_message th) details
        else thrown_result (th_message th))"

definition settle_executor :: "thrown + execution_result \<Rightarrow> execution_result" where
  "settle_executor r = (case r of Inl th \<Rightarrow> catch_thrown th | Inr x \<Rightarrow> x)"

definition outcome_of :: "execution_result \<Rightarrow> task_outcome" where
  "outcome_of r = \<lparr>to_errorCode = er_errorCode r, to_errorMessage = er_errorMessage r, to_detail = er_detail r\<rparr>"

text \<open>The arguments of \<open>finish\<close> the service chooses for a result: status, outcome, next attempt.\<close>

definition finish_args ::
  "task_definition \<Rightarrow> int \<Rightarrow> execution_result \<Rightarrow> TaskStatus \<times> task_outcome \<times> instant option \<times> int option" where
  "finish_args d attemptNo r = (case er_waitingStatus r of
     Some w \<Rightarrow>
       let na = (if w = WAITING_RESULT then er_nextAttemptAt r else None);
           ra = (if w = WAITING_RESULT \<and> na = None then Some (getOrElse (er_retryAfterSeconds r) (td_backoffSeconds d)) else None)
       in (w, outcome_of r, na, ra)
   | None \<Rightarrow>
       if er_success r
       then (SUCCEEDED, \<lparr>to_errorCode = None, to_errorMessage = None, to_detail = er_detail r\<rparr>, None, None)
       else
         let shouldRetry = (er_retryable r \<noteq> Some False \<and> attemptNo < td_maxAttempts d);
             na = (if shouldRetry then er_nextAttemptAt r else None);
             ra = (if shouldRetry \<and> na = None
                   then Some (getOrElse (er_retryAfterSeconds r) (td_backoffSeconds d * max 1 attemptNo)) else None)
         in (if shouldRetry then RETRY_WAITING else FAILED, outcome_of r, na, ra))"

record run_env =
  rn_promoteAt :: instant
  rn_now :: instant
  rn_clk :: instant
  rn_locked :: "string \<Rightarrow> bool"
  rn_attemptId :: string
  rn_between :: "task_op list"
  rn_finishAt :: instant

text \<open>The second half of \<open>runNext\<close>, after the executor settled.\<close>

definition complete_run ::
  "task_config \<Rightarrow> instant \<Rightarrow> task_run \<Rightarrow> task_attempt \<Rightarrow> string \<Rightarrow> execution_result \<Rightarrow> task_service
   \<Rightarrow> task_run option result \<times> task_service" where
  "complete_run cfg now t a workerId r s =
    (case registry_get (tr_taskType t) (Some (tr_definitionVersion t)) (tc_registry cfg) of
       Inl e \<Rightarrow> (Inl e, s)
     | Inr d \<Rightarrow> (case finish_args d (ta_attemptNo a) r of
         (status, outcome, na, ra) \<Rightarrow>
           (case task_finish now t a workerId status outcome na ra (sv_db s) of
              Inl e \<Rightarrow>
                if e \<noteq> PlainError ''TASK_LEASE_LOST'' then (Inl e, s)
                else let x = getById (tr_tenantId t) (tr_id t) (sv_db s) in (Inr x, publish_option cfg x s)
            | Inr db' \<Rightarrow>
                let x = getById (tr_tenantId t) (tr_id t) db' in (Inr x, publish_option cfg x (s\<lparr>sv_db := db'\<rparr>)))))"

definition runNext ::
  "task_config \<Rightarrow> run_env \<Rightarrow> string \<Rightarrow> task_executor \<Rightarrow> string option \<Rightarrow> task_service \<Rightarrow> task_run option result \<times> task_service" where
  "runNext cfg env workerId executor tenantId s =
    (let db1 = snd (promoteRecoverableExecutionTasks (rn_promoteAt env) tenantId (sv_db s)) in
     (case claimNext (rn_now env) (rn_clk env) (rn_locked env) (rn_attemptId env) tenantId workerId 60 db1 of
        Inl e \<Rightarrow> (Inl e, s\<lparr>sv_db := db1\<rparr>)
      | Inr (None, db2) \<Rightarrow> (Inr None, s\<lparr>sv_db := db2\<rparr>)
      | Inr (Some (t, a), db2) \<Rightarrow>
          let s1 = publishTask cfg t (s\<lparr>sv_db := db2\<rparr>);
              r = settle_executor (executor t a);
              s2 = s1\<lparr>sv_db := fold (task_apply (tc_sha cfg) (tc_lt cfg)) (rn_between env) db2\<rparr>
          in complete_run cfg (rn_finishAt env) t a workerId r s2))"

section \<open>Idempotent creation\<close>

text \<open>What the service relies on: what was created under a key is found under it until the record expires,
  with the digest of the request that created it.\<close>

locale idempotent_store =
  fixes inv :: "'s \<Rightarrow> bool"
    and look :: "instant \<Rightarrow> 's \<Rightarrow> ('t \<times> idempotency_record) option \<times> 's"
    and create :: "instant \<Rightarrow> instant \<Rightarrow> string \<Rightarrow> 's \<Rightarrow> ('t \<times> 's) result"
    and hash :: string
    and ttl :: instant
  assumes created_found:
    "inv s \<Longrightarrow> create now clk i s = Inr (t, s') \<Longrightarrow> at < clk + ttl \<Longrightarrow>
     \<exists>rec. look at s' = (Some (t, rec), s') \<and> ir_requestHash rec = hash"
begin

lemma created_then_found:
  assumes "inv s" and "create now clk i s = Inr (t, s')" and "at < clk + ttl"
  shows "create_once (look at) race f g hash' s'
    = (if hash' = hash then (Inr (t, False), s') else (Inl (AppError ''IDEMPOTENCY_CONFLICT''), s'))"
  using created_found [OF assms] by (auto simp: create_once_def reply_def assertSameRequest_def)

lemma again_same:
  assumes "inv (race (snd (look at1 s)))"
    and "create_once (look at1) race (create now clk i) g hash s = (Inr (t, True), s')"
    and "at2 < clk + ttl"
  shows "create_once (look at2) race' f' g' hash' s'
    = (if hash' = hash then (Inr (t, False), s') else (Inl (AppError ''IDEMPOTENCY_CONFLICT''), s'))"
proof -
  obtain s1 where s1: "look at1 s = (None, s1)" "create now clk i (race s1) = Inr (t, s')"
    using assms(2) by (auto simp: create_once_def reply_def split: sum.splits prod.splits option.splits if_splits)
  then show ?thesis using created_then_found assms(1,3) by simp
qed

lemma lost_race:
  assumes "look at1 s = (None, s1)" and "inv s1" and "create now' clk' j s1 = Inr (t, race s1)"
    and "create' (race s1) = Inl e" and "isUniqueViolation e" and "at2 < clk' + ttl"
  shows "create_once (look at1) race create' (look at2) hash' s
    = (if hash' = hash then (Inr (t, False), race s1) else (Inl (AppError ''IDEMPOTENCY_CONFLICT''), race s1))"
  using created_found [OF assms(2,3,6)] assms(1,4,5) by (auto simp: create_once_def reply_def assertSameRequest_def)

end

lemma id_not_sensitive: "sensitive_key ''id'' = False"
  by code_simp

lemma redactRecord_plain_id: "jget (redactRecord ((''id'', JStr i) # kvs)) ''id'' = Some (JStr i)"
  by (simp add: redactRecord_def jget_def id_not_sensitive)

lemma hash_with_scope:
  "taskRequestHash sha lt (inp\<lparr>ei_idempotencyScope := Some (enqueue_scope inp)\<rparr>) v = taskRequestHash sha lt inp v"
  by (simp add: taskRequestHash_def enqueue_scope_def defaultTaskIdempotencyScope_def getOrElse_def split: option.splits)

lemma task_create_value:
  assumes "task_create sha lt now clk i inp d db = Inr (t, db')"
  shows "t = new_run now i inp d"
proof -
  have "i \<notin> tr_id ` set (db_runs db)"
    using task_create_Inr(1) [OF assms] by (auto simp: insert_run_def new_run_def split: if_splits)
  then have "find (\<lambda>r. tr_tenantId r = ei_tenantId inp \<and> tr_id r = i) (db_runs db) = None"
    by (auto simp: find_None_iff)
  then show ?thesis
    using task_create_Inr(2,4) [OF assms] by (simp add: getById_def find_append orElse_def new_run_def)
qed

lemma task_create_found:
  assumes "ei_idempotencyKey inp = Some key" and "key \<noteq> []"
    and "task_create sha lt now clk i (inp\<lparr>ei_idempotencyScope := Some (enqueue_scope inp)\<rparr>) d db = Inr (t, db')"
    and "at < clk + DEFAULT_TTL_SECONDS * 1000"
  shows "\<exists>rec. findByIdempotency at (ei_tenantId inp) (ei_taskType inp) key (enqueue_scope inp) db' = (Some (t, rec), db')
     \<and> ir_requestHash rec = taskRequestHash sha lt inp (td_version d)"
proof -
  let ?inp = "inp\<lparr>ei_idempotencyScope := Some (enqueue_scope inp)\<rparr>"
  obtain db3 rs where g: "getById (ei_tenantId inp) i db3 = Some t"
    and sv: "saveIdempotencyRecord clk (ei_tenantId inp) (enqueue_scope inp) key (taskRequestHash sha lt ?inp (td_version d)) 202
        (redactRecord (task_json t)) None (db_idempotency db3) = Inr rs" and db': "db' = db3\<lparr>db_idempotency := rs\<rparr>"
    using assms(1-3) by (auto simp: task_create_def Let_def truthy_def getOrElse_def split: sum.splits option.splits if_splits)
  have id: "tr_id t = i" using getById_Some [OF g] by (simp add: of_row_def)
  from sv obtain rec where rs: "rs = db_idempotency db3 @ [rec]"
      "\<forall>r \<in> set (db_idempotency db3). \<not> same_idempotency (ei_tenantId inp) (enqueue_scope inp) key r"
    and rec: "same_idempotency (ei_tenantId inp) (enqueue_scope inp) key rec"
      "ir_requestHash rec = taskRequestHash sha lt ?inp (td_version d)"
      "ir_responseSummary rec = redactRecord (task_json t)" "ir_expiresAt rec = clk + DEFAULT_TTL_SECONDS * 1000"
    by (auto simp: saveIdempotencyRecord_def same_idempotency_def getOrElse_def split: if_splits)
  have "filter (\<lambda>r. \<not> (same_idempotency (ei_tenantId inp) (enqueue_scope inp) key r \<and> ir_expiresAt r \<le> at)) rs = rs"
    unfolding filter_id_conv using rs rec(4) assms(4) by auto
  then have kept: "deleteExpiredIdempotencyRecord at (ei_tenantId inp) (enqueue_scope inp) key rs = rs"
    by (simp add: deleteExpiredIdempotencyRecord_def)
  have "find (\<lambda>r. same_idempotency (ei_tenantId inp) (enqueue_scope inp) key r \<and> at < ir_expiresAt r) (db_idempotency db3) = None"
    using rs(2) by (auto simp: find_None_iff)
  then have "findIdempotencyRecord at (ei_tenantId inp) (enqueue_scope inp) key rs = (Some rec, rs)"
    using rec(1,4) assms(4) unfolding findIdempotencyRecord_def Let_def kept
    by (simp add: rs(1) find_append orElse_def)
  moreover have "jget (ir_responseSummary rec) ''id'' = Some (JStr i)"
    using redactRecord_plain_id id by (simp add: rec(3) task_json_def)
  moreover have "tr_taskType t = ei_taskType inp"
    using task_create_value [OF assms(3)] by (simp add: new_run_def)
  ultimately show ?thesis
    using g rec(2) by (simp add: findByIdempotency_def db' getById_def hash_with_scope)
qed

interpretation enqueues: idempotent_store db_ok
  "\<lambda>at. findByIdempotency at (ei_tenantId inp) (ei_taskType inp) (c # key) (enqueue_scope inp)"
  "\<lambda>now clk i. task_create sha lt now clk i (inp\<lparr>ei_idempotencyKey := Some (c # key), ei_idempotencyScope := Some (enqueue_scope inp)\<rparr>) d"
  "taskRequestHash sha lt (inp\<lparr>ei_idempotencyKey := Some (c # key)\<rparr>) (td_version d)"
  "DEFAULT_TTL_SECONDS * 1000"
  for sha lt inp c key d
proof (unfold_locales, goal_cases)
  case (1 s now clk i t s' at)
  let ?inp = "inp\<lparr>ei_idempotencyKey := Some (c # key)\<rparr>"
  have "enqueue_scope ?inp = enqueue_scope inp" by (simp add: enqueue_scope_def)
  then show ?case using task_create_found [of ?inp "c # key" sha lt now clk i d s t s' at] 1 by simp
qed

end
