(* ===== verification/TaskSupervisor.thy ===== *)
theory TaskSupervisor
  imports TaskService
begin

text \<open>
  The executor registry and the worker supervisor, \<open>backend/src/modules/tasks/task-worker-supervisor.ts\<close>.

  \<open>supervisor\<close> has the fields of the class; the log lines are left out. A call of \<open>runOnce\<close> takes the
  environment of each iteration as a function of its index. Its \<open>finally\<close> resets \<open>running\<close> on every path.
\<close>

section \<open>Executor registry\<close>

type_synonym executor_registry = "(string \<times> task_executor) list"

definition executor_register :: "string \<Rightarrow> task_executor \<Rightarrow> executor_registry \<Rightarrow> executor_registry result" where
  "executor_register key ex reg =
    (let normalized = trim key
     in if normalized = [] then Inl (PlainError ''executor key required'')
        else if normalized \<in> fst ` set reg then Inl (PlainError (''executor registered twice: '' @ normalized))
        else Inr (reg @ [(normalized, ex)]))"

definition executor_has :: "string \<Rightarrow> executor_registry \<Rightarrow> bool" where
  "executor_has key reg \<longleftrightarrow> key \<in> fst ` set reg"

definition executor_get :: "string \<Rightarrow> executor_registry \<Rightarrow> task_executor result" where
  "executor_get key reg = (case map_of reg key of
     None \<Rightarrow> Inl (PlainError (''executor not registered: '' @ key)) | Some ex \<Rightarrow> Inr ex)"

text \<open>\<open>lt\<close> is the order of \<open>Array.prototype.sort\<close> on strings.\<close>

definition executor_keys :: "(string \<Rightarrow> string \<Rightarrow> bool) \<Rightarrow> executor_registry \<Rightarrow> string list" where
  "executor_keys lt reg = sort_by lt (map fst reg)"

section \<open>Supervisor\<close>

definition positiveInteger :: "int option \<Rightarrow> int \<Rightarrow> int" where
  "positiveInteger v fallback = (case v of Some n \<Rightarrow> if n > 0 then n else fallback | None \<Rightarrow> fallback)"

record supervisor =
  su_config :: task_config
  su_executors :: executor_registry
  su_workerId :: string
  su_maxTasksPerTick :: int
  su_running :: bool

definition new_supervisor :: "task_config \<Rightarrow> executor_registry \<Rightarrow> string \<Rightarrow> int option \<Rightarrow> supervisor" where
  "new_supervisor cfg executors workerId maxTasks =
    \<lparr>su_config = cfg, su_executors = executors, su_workerId = workerId,
     su_maxTasksPerTick = positiveInteger maxTasks 10, su_running = False\<rparr>"

definition thrown_of :: "error \<Rightarrow> thrown" where
  "thrown_of e = \<lparr>th_isAppError = (case e of AppError _ \<Rightarrow> True | _ \<Rightarrow> False),
     th_errorCode = (case e of AppError c \<Rightarrow> Some c | _ \<Rightarrow> None), th_message = error_message e, th_details = None\<rparr>"

text \<open>What the executor threw, turned into a result.\<close>

definition caught :: "thrown \<Rightarrow> execution_result" where
  "caught th =
    (if async_pending (th_details th)
     then waiting_result (Some (getOrElse (th_errorCode th) ''EXECUTION_TARGET_UNAVAILABLE'')) (th_message th) (th_details th)
     else thrown_result (th_message th))"

definition execute :: "supervisor \<Rightarrow> task_executor" where
  "execute su t a =
    (case registry_get (tr_taskType t) (Some (tr_definitionVersion t)) (tc_registry (su_config su)) of
       Inl e \<Rightarrow> Inl (thrown_of e)
     | Inr d \<Rightarrow> (case executor_get (td_executorKey d) (su_executors su) of
         Inl e \<Rightarrow> Inl (thrown_of e)
       | Inr ex \<Rightarrow> Inr (case ex t a of Inr r \<Rightarrow> r | Inl th \<Rightarrow> caught th)))"

text \<open>The loop of \<open>runOnce\<close> from iteration \<open>k\<close> with \<open>n\<close> iterations to go.\<close>

fun run_loop :: "supervisor \<Rightarrow> (nat \<Rightarrow> run_env) \<Rightarrow> nat \<Rightarrow> nat \<Rightarrow> task_service \<Rightarrow> nat result \<times> task_service" where
  "run_loop su envs k 0 s = (Inr 0, s)"
| "run_loop su envs k (Suc n) s = (case runNext (su_config su) (envs k) (su_workerId su) (execute su) None s of
     (Inl e, s1) \<Rightarrow> (Inl e, s1)
   | (Inr None, s1) \<Rightarrow> (Inr 0, s1)
   | (Inr (Some t), s1) \<Rightarrow> (case run_loop su envs (Suc k) n s1 of
       (Inl e, s2) \<Rightarrow> (Inl e, s2) | (Inr c, s2) \<Rightarrow> (Inr (Suc c), s2)))"

definition runOnce ::
  "int option \<Rightarrow> (nat \<Rightarrow> run_env) \<Rightarrow> supervisor \<Rightarrow> task_service \<Rightarrow> nat result \<times> supervisor \<times> task_service" where
  "runOnce maxTasks envs su s =
    (if su_running su then (Inr 0, su, s)
     else
       let limit = positiveInteger maxTasks (su_maxTasksPerTick su);
           (res, s') = run_loop su envs 0 (nat limit) s
       in (res, su\<lparr>su_running := False\<rparr>, s'))"

end
