(* ===== verification/TaskServiceProperties.thy ===== *)
theory TaskServiceProperties
  imports TaskSupervisor
begin

text \<open>
  Properties of the task service and the supervisor: \<open>enqueue\<close> is idempotent, also under a race, the result of
  a task that was ended meanwhile is dropped, what a run writes back, and how far one tick of the
  supervisor goes.
\<close>

section \<open>Enqueue\<close>

lemma keyed_input_cases:
  assumes "ei_idempotencyKey inp = Some key" and "key \<noteq> []"
  obtains c k where "key = c # k" "inp\<lparr>ei_idempotencyKey := Some (c # k)\<rparr> = inp"
  using assms by (cases key) auto

lemma find_ok: "db_ok db \<Longrightarrow> db_ok (snd (findByIdempotency now tenantId taskType key scope db))"
  using task_apply_ok [of db _ _ "OpFind now tenantId taskType key scope"] by simp

lemma enqueue_ready:
  assumes "lc_status (sv_lifecycle s) = READY"
    and "registry_get (ei_taskType inp) (ei_definitionVersion inp) (tc_registry cfg) = Inr d"
    and "\<not> parent_missing inp (sv_db s)"
  shows "enqueue cfg env actor inp s = (case enqueue_create cfg env inp d (sv_db s) of
     (Inl e, db1) \<Rightarrow> (Inl e, s\<lparr>sv_db := db1\<rparr>)
   | (Inr (t, fresh), db1) \<Rightarrow>
       if fresh then announce cfg t (created_audit actor inp t) (s\<lparr>sv_db := db1\<rparr>) else (Inr t, s\<lparr>sv_db := db1\<rparr>))"
  using assms by (simp add: enqueue_def initialize_def)

lemma announce_frame:
  "announce cfg t entry s = (res, s') \<Longrightarrow> sv_db s' = sv_db s \<and> sv_lifecycle s' = sv_lifecycle s"
  by (auto simp: announce_def write_audit_def publishTask_def split: if_splits option.splits)

lemma enqueue_create_again:
  assumes "db_ok db" and "ei_idempotencyKey inp = Some key" and "key \<noteq> []"
    and "enqueue_create cfg env inp d db = (Inr (t, True), db')"
    and "ei_idempotencyKey inp2 = Some key" and "ei_tenantId inp2 = ei_tenantId inp" and "ei_taskType inp2 = ei_taskType inp"
    and "enqueue_scope inp2 = enqueue_scope inp" and "en_findAt env2 < en_clk env + DEFAULT_TTL_SECONDS * 1000"
  shows "enqueue_create cfg env2 inp2 d2 db'
    = (if taskRequestHash (tc_sha cfg) (tc_lt cfg) inp2 (td_version d2) = taskRequestHash (tc_sha cfg) (tc_lt cfg) inp (td_version d)
       then (Inr (t, False), db') else (Inl (AppError ''IDEMPOTENCY_CONFLICT''), db'))"
proof -
  obtain c k where k: "key = c # k" "inp\<lparr>ei_idempotencyKey := Some (c # k)\<rparr> = inp" using assms(2,3) by (rule keyed_input_cases)
  have inp: "inp\<lparr>ei_idempotencyKey := Some (c # k), ei_idempotencyScope := Some (enqueue_scope inp)\<rparr>
      = inp\<lparr>ei_idempotencyScope := Some (enqueue_scope inp)\<rparr>" using assms(2) k(1) by simp
  note again = enqueues.again_same [of "fold (task_apply (tc_sha cfg) (tc_lt cfg)) (en_between env)" "en_findAt env" inp c k db
      "tc_sha cfg" "tc_lt cfg" "en_createAt env" "en_clk env" "en_id env" d, unfolded k(2) inp, folded k(1)]
  show ?thesis
    using assms again [OF fold_apply_ok [OF find_ok [OF assms(1)]]] by (simp add: enqueue_create_def truthy_def Let_def k(1))
qed

text \<open>\<open>enqueue\<close> is idempotent. After a call created a task under an idempotency key, a second call with the
  same tenant, type, key and scope, made within a day, creates nothing and changes nothing: it returns
  the task of the first call when the two requests have the same digest, and fails with
  \<open>IDEMPOTENCY_CONFLICT\<close> otherwise.\<close>

theorem enqueue_idempotent:
  assumes "db_ok (sv_db s)" and "lc_status (sv_lifecycle s) = READY"
    and "registry_get (ei_taskType inp) (ei_definitionVersion inp) (tc_registry cfg) = Inr d" and "\<not> parent_missing inp (sv_db s)"
    and "ei_idempotencyKey inp = Some key" and "key \<noteq> []"
    and "enqueue_create cfg env inp d (sv_db s) = (Inr (t, True), db1)"
    and "enqueue cfg env actor inp s = (res, s')"
    and "ei_idempotencyKey inp2 = Some key" and "ei_tenantId inp2 = ei_tenantId inp" and "ei_taskType inp2 = ei_taskType inp"
    and "enqueue_scope inp2 = enqueue_scope inp" and "en_findAt env2 < en_clk env + 24 * 60 * 60 * 1000"
    and "registry_get (ei_taskType inp2) (ei_definitionVersion inp2) (tc_registry cfg) = Inr d2"
    and "\<not> parent_missing inp2 (sv_db s')"
  shows "enqueue cfg env2 actor2 inp2 s' =
    (if taskRequestHash (tc_sha cfg) (tc_lt cfg) inp2 (td_version d2) = taskRequestHash (tc_sha cfg) (tc_lt cfg) inp (td_version d)
     then Inr t else Inl (AppError ''IDEMPOTENCY_CONFLICT''), s')"
proof -
  have "announce cfg t (created_audit actor inp t) (s\<lparr>sv_db := db1\<rparr>) = (res, s')"
    using assms(7,8) by (simp add: enqueue_ready [OF assms(2-4)])
  then have s': "sv_db s' = db1" "lc_status (sv_lifecycle s') = READY"
    using announce_frame assms(2) by fastforce+
  have ttl: "en_findAt env2 < en_clk env + DEFAULT_TTL_SECONDS * 1000" using assms(13) by (simp add: DEFAULT_TTL_SECONDS_def)
  show ?thesis
    using enqueue_create_again [OF assms(1,5,6,7,9-12) ttl] s'
    by (simp add: enqueue_ready [OF s'(2) assms(14,15)])
qed

text \<open>Once the key is recorded, creating under it again fails on a unique key.\<close>

lemma create_recorded_fails:
  assumes "ei_idempotencyKey inp = Some key" and "key \<noteq> []"
    and "rec \<in> set (db_idempotency db)" and "same_idempotency (ei_tenantId inp) scope key rec"
  shows "task_create sha lt now clk i (inp\<lparr>ei_idempotencyScope := Some scope\<rparr>) d db = Inl (DbError ''23505'')"
proof -
  let ?inp = "inp\<lparr>ei_idempotencyScope := Some scope\<rparr>"
  show ?thesis
  proof (cases "insert_run (new_run now i ?inp d) db")
    case (Inl e)
    then show ?thesis by (auto simp: task_create_def insert_run_def split: if_splits)
  next
    case (Inr db1)
    then have fresh: "find (\<lambda>r. tr_tenantId r = ei_tenantId inp \<and> tr_id r = i) (db_runs db) = None"
      and db1: "db1 = db\<lparr>db_runs := db_runs db @ [new_run now i ?inp d]\<rparr>"
      by (auto simp: insert_run_def find_None_iff new_run_def split: if_splits)
    let ?db3 = "\<lambda>refs. appendEvent now i ''CREATED'' refs (ei_requestedBy inp) None
        (fold (insert_ref i) (uniqueRefs (getOrElse (ei_resourceRefs inp) [])) db1)"
    have "getById (ei_tenantId inp) i (?db3 refs) = Some (new_run now i ?inp d)" for refs
      using fresh by (simp add: getById_def insert_refs_frame db1 find_append orElse_def new_run_def)
    moreover have "db_idempotency (?db3 refs) = db_idempotency db" for refs by (simp add: insert_refs_frame db1)
    ultimately show ?thesis
      using assms Inr by (auto simp: task_create_def Let_def truthy_def getOrElse_def saveIdempotencyRecord_def)
  qed
qed

text \<open>\<open>enqueue\<close> under a race. When another caller creates a task from the same request after the lookup and
  before the insertion, the call does not fail and does not create a second task: it returns the task
  the other caller created, and the database stays as that caller left it.\<close>

theorem enqueue_race:
  assumes "db_ok (sv_db s)" and "lc_status (sv_lifecycle s) = READY"
    and "registry_get (ei_taskType inp) (ei_definitionVersion inp) (tc_registry cfg) = Inr d" and "\<not> parent_missing inp (sv_db s)"
    and "ei_idempotencyKey inp = Some key" and "key \<noteq> []"
    and "findByIdempotency (en_findAt env) (ei_tenantId inp) (ei_taskType inp) key (enqueue_scope inp) (sv_db s) = (None, db0)"
    and "en_between env = [OpCreate now clk j (inp\<lparr>ei_idempotencyScope := Some (enqueue_scope inp)\<rparr>) d]"
    and "task_create (tc_sha cfg) (tc_lt cfg) now clk j (inp\<lparr>ei_idempotencyScope := Some (enqueue_scope inp)\<rparr>) d db0 = Inr (t, db1)"
    and "en_againAt env < clk + 24 * 60 * 60 * 1000"
  shows "enqueue cfg env actor inp s = (Inr t, s\<lparr>sv_db := db1\<rparr>)"
proof -
  have ttl: "en_againAt env < clk + DEFAULT_TTL_SECONDS * 1000" using assms(10) by (simp add: DEFAULT_TTL_SECONDS_def)
  obtain rec where found: "findByIdempotency (en_againAt env) (ei_tenantId inp) (ei_taskType inp) key (enqueue_scope inp) db1
      = (Some (t, rec), db1)" and hash: "ir_requestHash rec = taskRequestHash (tc_sha cfg) (tc_lt cfg) inp (td_version d)"
    using task_create_found [OF assms(5,6,9) ttl] by blast
  then have "rec \<in> set (db_idempotency db1) \<and> same_idempotency (ei_tenantId inp) (enqueue_scope inp) key rec"
    by (auto simp: findByIdempotency_def Let_def split: prod.splits option.splits if_splits dest!: findIdempotencyRecord_live)
  then have fails: "task_create (tc_sha cfg) (tc_lt cfg) (en_createAt env) (en_clk env) (en_id env)
      (inp\<lparr>ei_idempotencyScope := Some (enqueue_scope inp)\<rparr>) d db1 = Inl (DbError ''23505'')"
    using create_recorded_fails [OF assms(5,6)] by blast
  have "fold (task_apply (tc_sha cfg) (tc_lt cfg)) (en_between env) db0 = db1" using assms(8,9) by (simp add: settle_def)
  then have "enqueue_create cfg env inp d (sv_db s) = (Inr (t, False), db1)"
    using assms(5-7) fails found hash
    by (simp add: enqueue_create_def create_once_def truthy_def Let_def isUniqueViolation_def reply_def assertSameRequest_def)
  then show ?thesis by (simp add: enqueue_ready [OF assms(2-4)])
qed

section \<open>Running a task\<close>

lemma rows_persist:
  assumes "db_ok db" and "r \<in> set (db_runs db)"
  shows "\<exists>r' \<in> set (db_runs (task_apply sha lt op db)). same_identity r r'"
proof (cases "is_create op")
  case True
  then have "\<not> writable op r" by (cases op) auto
  then show ?thesis using apply_keeps_row [OF assms] by (auto simp: same_identity_def)
next
  case False
  have "changes_only (ids_where (writable op) db) db (task_apply sha lt op db)"
    using task_footprint False assms(1) by (auto simp: db_ok_def)
  then show ?thesis using assms(2) by (auto simp: changes_only_def)
qed

lemma same_identity_trans: "same_identity a b \<Longrightarrow> same_identity b c \<Longrightarrow> same_identity a c"
  by (simp add: same_identity_def)

lemma rows_persist_fold:
  assumes "db_ok db" and "r \<in> set (db_runs db)"
  shows "\<exists>r' \<in> set (db_runs (fold (task_apply sha lt) ops db)). same_identity r r'"
  using assms
proof (induction ops arbitrary: db r)
  case Nil
  then show ?case by (auto simp: same_identity_def)
next
  case (Cons op ops)
  obtain q where q: "q \<in> set (db_runs (task_apply sha lt op db))" "same_identity r q"
    using rows_persist [OF Cons.prems] by blast
  then show ?case using Cons.IH [OF task_apply_ok [OF Cons.prems(1)] q(1)] same_identity_trans [OF q(2)] by auto
qed

lemma getById_upd:
  assumes "getById tenantId i db = Some r" and "\<And>r. tr_id (f r) = tr_id r \<and> tr_tenantId (f r) = tr_tenantId r"
    and "db_runs db' = upd_where p f (db_runs db)"
  shows "getById tenantId i db' \<noteq> None"
proof -
  have "(if p r then f r else r) \<in> set (db_runs db')"
    using getById_Some [OF assms(1)] assms(3) by (auto simp: upd_where_def)
  moreover have "tr_id (if p r then f r else r) = i \<and> tr_tenantId (if p r then f r else r) = tenantId"
    using getById_Some [OF assms(1)] assms(2) [of r] by (auto simp: of_row_def)
  ultimately show ?thesis by (auto simp: getById_def find_None_iff)
qed

lemma force_cancel_ends:
  assumes "db_ok db" and "r \<in> set (db_runs db)"
  shows "\<exists>r' \<in> set (db_runs (task_apply sha lt (OpForceCancel now (tr_tenantId r) (tr_id r) actor reason) db)).
    tr_id r' = tr_id r \<and> tr_tenantId r' = tr_tenantId r \<and> terminal (tr_status r')"
proof -
  have d: "distinct (map tr_id (db_runs db))" using assms(1) by (simp add: db_ok_def)
  have g: "getById (tr_tenantId r) (tr_id r) db = Some r" by (rule getById_row [OF d assms(2)])
  show ?thesis
  proof (cases "repo_forceCancel now (tr_tenantId r) (tr_id r) actor reason db")
    case (Inl e)
    have "terminal (tr_status r)"
    proof (rule ccontr)
      assume "\<not> terminal (tr_status r)"
      then show False using Inl g
        by (auto simp: repo_forceCancel_def Let_def split: option.splits)
          (erule notE [OF getById_upd [OF g], rotated 2], simp_all add: update_runs_def update_attempts_def)
    qed
    then show ?thesis using Inl assms(2) by (auto simp: settle_def)
  next
    case (Inr x)
    obtain t db' where x: "x = (t, db')" by (cases x)
    show ?thesis using forceCancel_Inr [OF assms(1) Inr [unfolded x]] Inr x by (auto simp: settle_def)
  qed
qed

lemma claimed_row:
  assumes "db_ok db" and "claimNext now clk locked aid tenantId w lease db = Inr (Some (t, a), db')"
  shows "t \<in> set (db_runs db') \<and> holds_lease t w t"
proof -
  obtain db1 row where "t = take_lease now w (clk + lease * 1000) row" "t \<in> set (db_runs db')"
    by (rule claimNext_row [OF assms])
  then show ?thesis by (simp add: holds_lease_def take_lease_def)
qed

lemma finish_by_holder:
  assumes "r \<in> set (db_runs db)" and "holds_lease t w r"
  shows "\<exists>db'. task_finish now t a w s res na ra db = Inr db'
    \<and> db_runs db' = upd_where (holds_lease t w) (finished_run now s res na ra) (db_runs db)
    \<and> (\<forall>x \<in> set (db_attempts db'). ta_id x = ta_id a \<longrightarrow> ta_status x \<noteq> AT_RUNNING)"
proof -
  have "\<exists>r \<in> set (db_runs db). holds_lease t w r" using assms by blast
  then show ?thesis
    by (simp add: task_finish_def Let_def update_runs_def update_attempts_def)
      (auto simp: upd_where_def attempt_status_for_def)
qed

text \<open>A late result is dropped. When a task is ended by force while its executor works and nobody retries
  it before the executor returns, the result is not written: the database is what the other operations
  left, and \<open>runNext\<close> returns the ended task instead of failing.\<close>

theorem late_result_dropped:
  assumes "db_ok (sv_db s)"
    and "claimNext (rn_now env) (rn_clk env) (rn_locked env) (rn_attemptId env) tenantId w 60
          (snd (promoteRecoverableExecutionTasks (rn_promoteAt env) tenantId (sv_db s))) = Inr (Some (t, a), db2)"
    and "registry_get (tr_taskType t) (Some (tr_definitionVersion t)) (tc_registry cfg) = Inr d"
    and "rn_between env = ops1 @ OpForceCancel now (tr_tenantId t) (tr_id t) actor reason # ops2"
    and "\<forall>op \<in> set ops2. \<not> is_retry op"
    and "runNext cfg env w executor tenantId s = (res, s')"
  shows "sv_db s' = fold (task_apply (tc_sha cfg) (tc_lt cfg)) (rn_between env) db2
    \<and> (\<exists>c. res = Inr (Some c) \<and> tr_id c = tr_id t \<and> terminal (tr_status c))"
proof -
  let ?apply = "task_apply (tc_sha cfg) (tc_lt cfg)"
  let ?db1 = "snd (promoteRecoverableExecutionTasks (rn_promoteAt env) tenantId (sv_db s))"
  let ?db3 = "fold ?apply (rn_between env) db2"
  have "db_ok ?db1" using task_apply_ok [OF assms(1), of _ _ "OpPromote (rn_promoteAt env) tenantId"] by simp
  then have t: "t \<in> set (db_runs db2)" and ok2: "db_ok db2"
    using claimed_row [OF _ assms(2)] claimNext_ok [OF _ assms(2)] by blast+
  have okm: "db_ok (fold ?apply ops1 db2)" by (rule fold_apply_ok [OF ok2])
  obtain q where q: "q \<in> set (db_runs (fold ?apply ops1 db2))" "tr_id q = tr_id t" "tr_tenantId q = tr_tenantId t"
    using rows_persist_fold [OF ok2 t, of "tc_sha cfg" "tc_lt cfg" ops1] by (auto simp: same_identity_def)
  obtain c where c: "c \<in> set (db_runs (?apply (OpForceCancel now (tr_tenantId t) (tr_id t) actor reason) (fold ?apply ops1 db2)))"
      "tr_id c = tr_id t" "tr_tenantId c = tr_tenantId t" "terminal (tr_status c)"
    using force_cancel_ends [OF okm q(1), of "tc_sha cfg" "tc_lt cfg" now actor reason] q(2,3) by auto
  have c3: "c \<in> set (db_runs ?db3)" using terminal_frozen [OF task_apply_ok [OF okm] c(1,4) assms(5)] by (simp add: assms(4))
  have ok3: "db_ok ?db3" by (rule fold_apply_ok [OF ok2])
  have "tr_status c \<noteq> RUNNING" using c(4) by auto
  then have lost: "task_finish n t a w st out na ra ?db3 = Inl (PlainError ''TASK_LEASE_LOST'')" for n st out na ra
    using lost_lease(1) [OF ok3 c3] c(2) by simp
  have g: "getById (tr_tenantId t) (tr_id t) ?db3 = Some c"
    using getById_row [of ?db3 c] ok3 c3 c(2,3) by (simp add: db_ok_def)
  have "runNext cfg env w executor tenantId s
      = (Inr (Some c), publishTask cfg c ((publishTask cfg t (s\<lparr>sv_db := db2\<rparr>))\<lparr>sv_db := ?db3\<rparr>))"
    using assms(2,3) lost g
    by (simp add: runNext_def complete_run_def Let_def publish_option_def split: prod.splits)
  then show ?thesis using assms(6) c by (auto simp: publishTask_def)
qed

text \<open>What a run writes back. When nobody touches the task while its executor works, \<open>runNext\<close> releases
  the lease, ends the attempt and gives the task the status the result calls for; in particular a
  failure is retried only while the attempt number is below the limit of the task definition, so the
  last permitted attempt never leads to another one.\<close>

theorem run_writes_result:
  assumes "db_ok (sv_db s)"
    and "claimNext (rn_now env) (rn_clk env) (rn_locked env) (rn_attemptId env) tenantId w 60
          (snd (promoteRecoverableExecutionTasks (rn_promoteAt env) tenantId (sv_db s))) = Inr (Some (t, a), db2)"
    and "registry_get (tr_taskType t) (Some (tr_definitionVersion t)) (tc_registry cfg) = Inr d"
    and "rn_between env = []" and "settle_executor (executor t a) = r"
    and "runNext cfg env w executor tenantId s = (res, s')"
  shows "\<exists>c. res = Inr (Some c) \<and> c \<in> set (db_runs (sv_db s')) \<and> tr_id c = tr_id t \<and> tr_leaseOwner c = None
    \<and> tr_status c = (case er_waitingStatus r of Some ws \<Rightarrow> ws
        | None \<Rightarrow> if er_success r then SUCCEEDED
                 else if er_retryable r \<noteq> Some False \<and> ta_attemptNo a < td_maxAttempts d then RETRY_WAITING else FAILED)
    \<and> (\<forall>x \<in> set (db_attempts (sv_db s')). ta_id x = ta_id a \<longrightarrow> ta_status x \<noteq> AT_RUNNING)"
proof -
  let ?db1 = "snd (promoteRecoverableExecutionTasks (rn_promoteAt env) tenantId (sv_db s))"
  have "db_ok ?db1" using task_apply_ok [OF assms(1), of _ _ "OpPromote (rn_promoteAt env) tenantId"] by simp
  then have t: "t \<in> set (db_runs db2)" "holds_lease t w t" and ok2: "db_ok db2"
    using claimed_row [OF _ assms(2)] claimNext_ok [OF _ assms(2)] by blast+
  obtain st out na ra where args: "finish_args d (ta_attemptNo a) r = (st, out, na, ra)" by (cases "finish_args d (ta_attemptNo a) r")
  let ?c = "finished_run (rn_finishAt env) st out na ra t"
  obtain db3 where fin: "task_finish (rn_finishAt env) t a w st out na ra db2 = Inr db3"
    and runs: "db_runs db3 = upd_where (holds_lease t w) (finished_run (rn_finishAt env) st out na ra) (db_runs db2)"
    and att: "\<forall>x \<in> set (db_attempts db3). ta_id x = ta_id a \<longrightarrow> ta_status x \<noteq> AT_RUNNING"
    using finish_by_holder [OF t(1) t(2)] by blast
  have c: "?c \<in> set (db_runs db3)" using t runs by (auto simp: upd_where_def)
  have "db_ok db3" using task_apply_ok [OF ok2, of _ _ "OpFinish (rn_finishAt env) t a w st out na ra"] fin
    by (simp add: settle_db_def)
  then have g: "getById (tr_tenantId t) (tr_id t) db3 = Some ?c"
    using getById_row [OF _ c] by (simp add: db_ok_def finished_run_def)
  have "runNext cfg env w executor tenantId s
      = (Inr (Some ?c), publishTask cfg ?c ((publishTask cfg t (s\<lparr>sv_db := db2\<rparr>))\<lparr>sv_db := db3\<rparr>))"
    using assms(2-5) args fin g by (simp add: runNext_def complete_run_def Let_def publish_option_def)
  moreover have "st = (case er_waitingStatus r of Some ws \<Rightarrow> ws
        | None \<Rightarrow> if er_success r then SUCCEEDED
                 else if er_retryable r \<noteq> Some False \<and> ta_attemptNo a < td_maxAttempts d then RETRY_WAITING else FAILED)"
    using args by (auto simp: finish_args_def Let_def split: option.splits if_splits)
  ultimately show ?thesis using assms(6) c att by (auto simp: publishTask_def finished_run_def)
qed

section \<open>The supervisor\<close>

lemma publishTask_db [simp]: "sv_db (publishTask cfg t s) = sv_db s"
  by (simp add: publishTask_def)

lemma publish_option_db [simp]: "sv_db (publish_option cfg x s) = sv_db s"
  by (simp add: publish_option_def split: option.splits)

lemma complete_run_ok:
  assumes "db_ok (sv_db s)" and "complete_run cfg now t a w r s = (res, s')"
  shows "db_ok (sv_db s')"
proof -
  have "db_ok db'" if "task_finish now t a w st out na ra (sv_db s) = Inr db'" for st out na ra db'
    using task_apply_ok [OF assms(1), of _ _ "OpFinish now t a w st out na ra"] that by (simp add: settle_db_def)
  then show ?thesis using assms
    by (auto simp: complete_run_def Let_def split: sum.splits prod.splits if_splits)
qed

lemma runNext_ok:
  assumes "db_ok (sv_db s)" and "runNext cfg env w ex tenantId s = (res, s')"
  shows "db_ok (sv_db s')"
proof -
  let ?db1 = "snd (promoteRecoverableExecutionTasks (rn_promoteAt env) tenantId (sv_db s))"
  have ok1: "db_ok ?db1" using task_apply_ok [OF assms(1), of _ _ "OpPromote (rn_promoteAt env) tenantId"] by simp
  show ?thesis
  proof (cases "claimNext (rn_now env) (rn_clk env) (rn_locked env) (rn_attemptId env) tenantId w 60 ?db1")
    case (Inl e)
    then show ?thesis using assms(2) ok1 by (auto simp: runNext_def Let_def)
  next
    case (Inr y)
    obtain x db2 where y: "y = (x, db2)" by (cases y)
    have ok2: "db_ok db2" using claimNext_ok [OF ok1 Inr [unfolded y]] .
    show ?thesis
    proof (cases x)
      case None
      then show ?thesis using assms(2) Inr y ok2 by (auto simp: runNext_def Let_def)
    next
      case (Some ta)
      obtain t a where ta: "ta = (t, a)" by (cases ta)
      have "complete_run cfg (rn_finishAt env) t a w (settle_executor (ex t a)) ((publishTask cfg t (s\<lparr>sv_db := db2\<rparr>))
          \<lparr>sv_db := fold (task_apply (tc_sha cfg) (tc_lt cfg)) (rn_between env) db2\<rparr>) = (res, s')"
        using assms(2) Inr y Some ta by (simp add: runNext_def Let_def)
      then show ?thesis by (rule complete_run_ok [rotated]) (simp add: fold_apply_ok [OF ok2])
    qed
  qed
qed

lemma run_loop_bound:
  assumes "run_loop su envs k n s = (res, s')" and "db_ok (sv_db s)"
  shows "db_ok (sv_db s') \<and> (\<forall>c. res = Inr c \<longrightarrow> c \<le> n \<and> (c < n \<longrightarrow>
     (\<exists>s1. runNext (su_config su) (envs (k + c)) (su_workerId su) (execute su) None s1 = (Inr None, s'))))"
  using assms
proof (induction n arbitrary: k s res s')
  case 0
  then show ?case by auto
next
  case (Suc n)
  obtain r1 s1 where one: "runNext (su_config su) (envs k) (su_workerId su) (execute su) None s = (r1, s1)"
    by (cases "runNext (su_config su) (envs k) (su_workerId su) (execute su) None s")
  have ok1: "db_ok (sv_db s1)" by (rule runNext_ok [OF Suc.prems(2) one])
  consider (thrown) e where "r1 = Inl e" | (idle) "r1 = Inr None" | (ran) t where "r1 = Inr (Some t)"
    by (cases r1) (auto split: option.splits elim: option.exhaust)
  then show ?case
  proof cases
    case thrown
    then show ?thesis using Suc.prems one ok1 by auto
  next
    case idle
    then show ?thesis using Suc.prems one ok1 by auto
  next
    case ran
    obtain r2 s2 where two: "run_loop su envs (Suc k) n s1 = (r2, s2)" by (cases "run_loop su envs (Suc k) n s1")
    show ?thesis using Suc.prems(1) one ran two Suc.IH [OF two ok1] by (auto split: sum.splits)
  qed
qed

text \<open>One tick of the supervisor. A tick runs at most as many tasks as it was given, or ten when nobody said;
  when it returns fewer, its last claim found nothing to do. It always ends with the running flag down,
  keeps the key constraints of the database, and does nothing at all while another tick is running.\<close>

theorem run_once_bounded:
  assumes "db_ok (sv_db s)" and "0 < su_maxTasksPerTick su"
    and "runOnce maxTasks envs su s = (res, su', s')"
  shows "if su_running su then res = Inr 0 \<and> su' = su \<and> s' = s
    else \<not> su_running su' \<and> db_ok (sv_db s') \<and>
      (\<forall>c. res = Inr c \<longrightarrow> int c \<le> positiveInteger maxTasks (su_maxTasksPerTick su)
        \<and> (int c < positiveInteger maxTasks (su_maxTasksPerTick su) \<longrightarrow>
            (\<exists>s1. runNext (su_config su) (envs c) (su_workerId su) (execute su) None s1 = (Inr None, s'))))"
proof (cases "su_running su")
  case True
  then show ?thesis using assms(3) by (auto simp: runOnce_def)
next
  case False
  let ?n = "positiveInteger maxTasks (su_maxTasksPerTick su)"
  have pos: "0 < ?n" using assms(2) by (auto simp: positiveInteger_def split: option.splits)
  obtain r1 s1 where loop: "run_loop su envs 0 (nat ?n) s = (r1, s1)" by (cases "run_loop su envs 0 (nat ?n) s")
  then have "res = r1" "s' = s1" "su' = su\<lparr>su_running := False\<rparr>"
    using assms(3) False by (auto simp: runOnce_def Let_def)
  then show ?thesis using run_loop_bound [OF loop assms(1)] pos False by auto
qed

section \<open>Samples\<close>

definition service_config :: task_config where
  "service_config = \<lparr>tc_sha = (\<lambda>_. ''h''), tc_lt = (\<lambda>_ _. False), tc_registry = [(''AUTOMATION_RUN:1'', sample_def)],
     tc_columns = requiredColumns, tc_audit = Some (\<lambda>_. None), tc_realtime = True\<rparr>"

definition sample_service :: "task_run list \<Rightarrow> task_service" where
  "sample_service rs = \<lparr>sv_db = sample_db rs, sv_lifecycle = \<lparr>lc_status = READY, lc_error = None\<rparr>, sv_executionHandler = False,
     sv_upgradeHandler = False, sv_audits = [], sv_published = [], sv_cancelledRuns = [], sv_cancelledUpgrades = []\<rparr>"

definition keyed_input :: enqueue_input where
  "keyed_input = sample_enqueue\<lparr>ei_idempotencyKey := Some ''k''\<rparr>"

definition sample_env :: "string \<Rightarrow> instant \<Rightarrow> enqueue_env" where
  "sample_env i at = \<lparr>en_id = i, en_findAt = at, en_between = [], en_createAt = at, en_clk = at, en_againAt = at\<rparr>"

definition keyed_run :: task_run where
  "keyed_run = (sample_run ''a'' QUEUED)\<lparr>tr_idempotencyKey := Some ''k''\<rparr>"

lemma sample_registry: "registry_get ''AUTOMATION_RUN'' v (tc_registry service_config) = (if v = None \<or> v = Some 1 then Inr sample_def
     else Inl (AppError ''TASK_TYPE_NOT_REGISTERED''))"
  by (auto simp: service_config_def registry_get_def sample_def_def standard_definition_def)

lemma sample_service_simps [simp]:
  "sv_db (sample_service rs) = sample_db rs" "lc_status (sv_lifecycle (sample_service rs)) = READY"
  by (simp_all add: sample_service_def)

lemma sample_enqueue_simps [simp]:
  "ei_taskType sample_enqueue = ''AUTOMATION_RUN''" "ei_definitionVersion sample_enqueue = None" "ei_tenantId sample_enqueue = ''t1''"
  "ei_parentTaskId sample_enqueue = None" "ei_idempotencyScope sample_enqueue = None" "ei_idempotencyKey sample_enqueue = None"
  by (simp_all add: sample_enqueue_def)

lemma sample_created:
  "\<exists>db1. task_create (\<lambda>_. ''h'') (\<lambda>_ _. False) 10 10 ''a'' (keyed_input\<lparr>ei_idempotencyScope := Some (enqueue_scope keyed_input)\<rparr>)
     sample_def (sample_db []) = Inr (keyed_run, db1)"
  by (simp add: task_create_def insert_run_def keyed_run_def sample_run_def new_run_def keyed_input_def sample_enqueue_def
      sample_db_def empty_db_def unique_active_def map_filter_simps active_key_def getOrElse_def uniqueRefs_def
      getById_def truthy_def saveIdempotencyRecord_def)

lemma sample_lookup: "findByIdempotency at tenantId taskType key scope (sample_db []) = (None, sample_db [])"
  by (simp add: findByIdempotency_def findIdempotencyRecord_def deleteExpiredIdempotencyRecord_def sample_db_def empty_db_def)

theorem enqueue_idempotent_witness:
  "fst (enqueue service_config (sample_env ''b'' 500) None keyed_input
     (snd (enqueue service_config (sample_env ''a'' 10) None keyed_input (sample_service [])))) = Inr keyed_run"
proof -
  obtain db1 where "task_create (\<lambda>_. ''h'') (\<lambda>_ _. False) 10 10 ''a'' (keyed_input\<lparr>ei_idempotencyScope := Some (enqueue_scope keyed_input)\<rparr>)
     sample_def (sample_db []) = Inr (keyed_run, db1)" using sample_created by blast
  then have created: "enqueue_create service_config (sample_env ''a'' 10) keyed_input sample_def (sv_db (sample_service [])) = (Inr (keyed_run, True), db1)"
    by (simp add: enqueue_create_def service_config_def sample_env_def truthy_def create_once_def sample_lookup keyed_input_def)
  obtain res s' where call: "enqueue service_config (sample_env ''a'' 10) None keyed_input (sample_service []) = (res, s')"
    by (cases "enqueue service_config (sample_env ''a'' 10) None keyed_input (sample_service [])")
  have k: "ei_taskType keyed_input = ''AUTOMATION_RUN''" "ei_definitionVersion keyed_input = None" "ei_parentTaskId keyed_input = None"
    "ei_idempotencyKey keyed_input = Some ''k''"
    by (simp_all add: keyed_input_def)
  have ok: "db_ok (sv_db (sample_service []))" by (simp add: sample_db_ok)
  have reg: "registry_get (ei_taskType keyed_input) (ei_definitionVersion keyed_input) (tc_registry service_config) = Inr sample_def"
    by (simp add: k sample_registry)
  have parent: "\<not> parent_missing keyed_input db" for db by (simp add: parent_missing_def k truthy_def)
  show ?thesis
    using enqueue_idempotent [OF ok _ reg parent k(4) _ created call k(4) refl refl refl _ reg parent, of "sample_env ''b'' 500" None] call
    by (simp add: sample_env_def)
qed

theorem enqueue_race_witness:
  "fst (enqueue service_config (\<lparr>en_id = ''b'', en_findAt = 5,
       en_between = [OpCreate 10 10 ''a'' (keyed_input\<lparr>ei_idempotencyScope := Some (enqueue_scope keyed_input)\<rparr>) sample_def],
       en_createAt = 12, en_clk = 12, en_againAt = 12\<rparr>) None keyed_input (sample_service [])) = Inr keyed_run"
proof -
  obtain db1 where created: "task_create (tc_sha service_config) (tc_lt service_config) 10 10 ''a''
     (keyed_input\<lparr>ei_idempotencyScope := Some (enqueue_scope keyed_input)\<rparr>) sample_def (sample_db []) = Inr (keyed_run, db1)"
    using sample_created by (auto simp: service_config_def)
  have k: "ei_taskType keyed_input = ''AUTOMATION_RUN''" "ei_definitionVersion keyed_input = None" "ei_parentTaskId keyed_input = None"
    "ei_idempotencyKey keyed_input = Some ''k''"
    by (simp_all add: keyed_input_def)
  have reg: "registry_get (ei_taskType keyed_input) (ei_definitionVersion keyed_input) (tc_registry service_config) = Inr sample_def"
    by (simp add: k sample_registry)
  show ?thesis
    by (subst enqueue_race [OF _ _ reg _ k(4) _ _ _ created])
      (simp_all add: sample_db_ok sample_lookup parent_missing_def k truthy_def)
qed

definition ok_result :: execution_result where
  "ok_result = \<lparr>er_success = True, er_retryable = None, er_waitingStatus = None, er_retryAfterSeconds = None,
     er_nextAttemptAt = None, er_errorCode = None, er_errorMessage = None, er_detail = None\<rparr>"

definition sample_run_env :: "task_op list \<Rightarrow> run_env" where
  "sample_run_env ops = \<lparr>rn_promoteAt = 20, rn_now = 20, rn_clk = 20, rn_locked = (\<lambda>_. False), rn_attemptId = ''x1'',
     rn_between = ops, rn_finishAt = 40\<rparr>"

lemma sample_promote: "snd (promoteRecoverableExecutionTasks now None (sample_db rs)) = sample_db rs"
proof -
  have "promotable None (sample_db rs) r = False" for r
    by (simp add: promotable_def promotion_candidate_def sample_db_def empty_db_def)
  then have "upd_where (promotable None (sample_db rs)) f rs = rs" for f by (simp add: upd_where_def)
  then show ?thesis
    by (simp add: promoteRecoverableExecutionTasks_def Let_def \<open>\<And>r. promotable None (sample_db rs) r = False\<close> update_runs_def)
qed

abbreviation claimed_run :: task_run where
  "claimed_run \<equiv> take_lease 20 ''w1'' 60020 (sample_run ''b'' QUEUED)"

lemma sample_run_claim:
  "\<exists>db2. claimNext (rn_now (sample_run_env ops)) (rn_clk (sample_run_env ops)) (rn_locked (sample_run_env ops))
     (rn_attemptId (sample_run_env ops)) None ''w1'' 60
     (snd (promoteRecoverableExecutionTasks (rn_promoteAt (sample_run_env ops)) None (sv_db (sample_service [sample_run ''b'' QUEUED]))))
   = Inr (Some (claimed_run, new_attempt 20 ''x1'' ''b'' 1 ''w1'' 60020), db2)"
  using sample_claim by (simp add: sample_promote sample_run_env_def)

lemma claimed_registry:
  "registry_get (tr_taskType claimed_run) (Some (tr_definitionVersion claimed_run)) (tc_registry service_config) = Inr sample_def"
  by (simp add: take_lease_def sample_run_def new_run_def sample_registry sample_def_def standard_definition_def)

theorem late_result_dropped_witness:
  "\<exists>c. fst (runNext service_config (sample_run_env [OpForceCancel 30 ''t1'' ''b'' None None]) ''w1'' (\<lambda>_ _. Inr ok_result) None
     (sample_service [sample_run ''b'' QUEUED])) = Inr (Some c) \<and> tr_id c = ''b'' \<and> terminal (tr_status c)"
proof -
  let ?env = "sample_run_env [OpForceCancel 30 ''t1'' ''b'' None None]"
  let ?s = "sample_service [sample_run ''b'' QUEUED]"
  obtain db2 where claim: "claimNext (rn_now ?env) (rn_clk ?env) (rn_locked ?env) (rn_attemptId ?env) None ''w1'' 60
     (snd (promoteRecoverableExecutionTasks (rn_promoteAt ?env) None (sv_db ?s)))
     = Inr (Some (claimed_run, new_attempt 20 ''x1'' ''b'' 1 ''w1'' 60020), db2)"
    using sample_run_claim by blast
  have "rn_between ?env = [] @ OpForceCancel 30 (tr_tenantId claimed_run) (tr_id claimed_run) None None # []"
    by (simp add: sample_run_env_def take_lease_def)
  from late_result_dropped [OF _ claim claimed_registry this _ prod.collapse [symmetric], of "\<lambda>_ _. Inr ok_result"]
  show ?thesis by (simp add: sample_db_ok take_lease_def)
qed

theorem run_writes_result_witness:
  "\<exists>c. fst (runNext service_config (sample_run_env []) ''w1'' (\<lambda>_ _. Inr ok_result) None (sample_service [sample_run ''b'' QUEUED]))
     = Inr (Some c) \<and> tr_id c = ''b'' \<and> tr_status c = SUCCEEDED"
proof -
  let ?env = "sample_run_env []"
  let ?s = "sample_service [sample_run ''b'' QUEUED]"
  obtain db2 where claim: "claimNext (rn_now ?env) (rn_clk ?env) (rn_locked ?env) (rn_attemptId ?env) None ''w1'' 60
     (snd (promoteRecoverableExecutionTasks (rn_promoteAt ?env) None (sv_db ?s)))
     = Inr (Some (claimed_run, new_attempt 20 ''x1'' ''b'' 1 ''w1'' 60020), db2)"
    using sample_run_claim by blast
  have "rn_between ?env = []" by (simp add: sample_run_env_def)
  from run_writes_result [OF _ claim claimed_registry this _ prod.collapse [symmetric], of "\<lambda>_ _. Inr ok_result" ok_result]
  show ?thesis by (auto simp: sample_db_ok take_lease_def settle_executor_def ok_result_def)
qed

definition sample_supervisor :: supervisor where
  "sample_supervisor = new_supervisor service_config [] ''w1'' None"

theorem run_once_bounded_witness:
  "\<not> su_running (fst (snd (runOnce (Some 3) (\<lambda>_. sample_run_env []) sample_supervisor (sample_service []))))"
proof -
  obtain res su' s' where call: "runOnce (Some 3) (\<lambda>_. sample_run_env []) sample_supervisor (sample_service []) = (res, su', s')"
    by (cases "runOnce (Some 3) (\<lambda>_. sample_run_env []) sample_supervisor (sample_service [])") auto
  have "0 < su_maxTasksPerTick sample_supervisor" "\<not> su_running sample_supervisor"
    by (simp_all add: sample_supervisor_def new_supervisor_def positiveInteger_def)
  then show ?thesis using run_once_bounded [OF _ _ call] by (simp add: sample_db_ok call)
qed

end
