(* ===== verification/JobQueue.thy ===== *)
theory JobQueue
  imports Prelude
begin

text \<open>
  The persistent job queue, \<open>backend/src/queue/pg-job-runner.ts\<close> and \<open>backend/src/queue/job.types.ts\<close>.

  The table \<open>job_queue\<close> is the list of its rows in insertion order, with the primary key and the unique
  index on \<open>idempotency_key\<close> that \<open>ensureTable\<close> creates. A worker is a function from the leased job to a
  result or to the message of what it threw. \<open>runNext\<close> is the transaction that leases a job
  (\<open>select_job\<close> and \<open>lease_write\<close>), the worker, and the update that finishes the job.

  \<open>pending\<close> abstracts the table to a list of job ids with the attempts they have left; \<open>run_abs\<close> is what
  one call does to that list, and the refinement lemma connects the two.
\<close>

section \<open>Data\<close>

datatype JobType =
    CERTIFICATE_PARSE | CERTIFICATE_IMPORT | ASSET_DISCOVER | CAPABILITY_PROBE | DEPLOYMENT_EXECUTE
  | AGENT_COMMAND_DISPATCH | MONITOR_CHECK | WORKFLOW_RUN | REPORT_EXPORT

datatype JobStatus = JobQueued | JobRunning | JobSucceeded | JobFailed | JobRetrying

record retry_policy =
  rp_maxAttempts :: int
  rp_backoffSeconds :: int

record job =
  jp_jobId :: string
  jp_jobType :: JobType
  jp_attempt :: int
  jp_status :: JobStatus
  jp_tenantId :: "string option"
  jp_actorId :: "string option"
  jp_requestId :: string
  jp_traceId :: "string option"
  jp_resourceType :: "string option"
  jp_resourceId :: "string option"
  jp_idempotencyKey :: "string option"
  jp_payload :: jobject
  jp_retryPolicy :: retry_policy
  jp_timeoutSeconds :: int

record job_result =
  jr_jobId :: string
  jr_success :: bool
  jr_attempt :: "int option"
  jr_willRetry :: "bool option"
  jr_errorCode :: "string option"
  jr_details :: "json option"

record enqueue_job =
  ej_jobType :: JobType
  ej_resourceType :: "string option"
  ej_resourceId :: "string option"
  ej_idempotencyKey :: "string option"
  ej_payload :: jobject
  ej_retryPolicy :: "retry_policy option"
  ej_timeoutSeconds :: "int option"

record job_row =
  jq_job_id :: string
  jq_status :: JobStatus
  jq_payload :: job
  jq_result :: "job_result option"
  jq_idempotency_key :: "string option"
  jq_created_at :: instant

type_synonym job_queue = "job_row list"
type_synonym job_worker = "job \<Rightarrow> string + job_result"

text \<open>The part of the request context the queue reads.\<close>

record job_context =
  jc_tenantId :: "string option"
  jc_actorId :: "string option"
  jc_requestId :: string
  jc_traceId :: string

section \<open>Enqueue\<close>

definition new_job :: "string \<Rightarrow> string \<Rightarrow> job_context option \<Rightarrow> enqueue_job \<Rightarrow> job" where
  "new_job i requestUuid ctx inp =
    \<lparr>jp_jobId = i, jp_jobType = ej_jobType inp, jp_attempt = 0, jp_status = JobQueued,
     jp_tenantId = Option.bind ctx jc_tenantId, jp_actorId = Option.bind ctx jc_actorId,
     jp_requestId = getOrElse (map_option jc_requestId ctx) (''req_job_'' @ requestUuid),
     jp_traceId = map_option jc_traceId ctx, jp_resourceType = ej_resourceType inp, jp_resourceId = ej_resourceId inp,
     jp_idempotencyKey = ej_idempotencyKey inp, jp_payload = ej_payload inp,
     jp_retryPolicy = getOrElse (ej_retryPolicy inp) \<lparr>rp_maxAttempts = 3, rp_backoffSeconds = 30\<rparr>,
     jp_timeoutSeconds = getOrElse (ej_timeoutSeconds inp) 1800\<rparr>"

definition insert_job :: "job_row \<Rightarrow> job_queue \<Rightarrow> job_queue result" where
  "insert_job r q =
    (if jq_job_id r \<in> jq_job_id ` set q
        \<or> (jq_idempotency_key r \<noteq> None \<and> jq_idempotency_key r \<in> jq_idempotency_key ` set q)
     then Inl (DbError ''23505'') else Inr (q @ [r]))"

definition job_enqueue ::
  "instant \<Rightarrow> string \<Rightarrow> string \<Rightarrow> job_context option \<Rightarrow> enqueue_job \<Rightarrow> job_queue \<Rightarrow> (job \<times> job_queue) result" where
  "job_enqueue now i requestUuid ctx inp q =
    (if truthy (ej_idempotencyKey inp) \<and> ej_idempotencyKey inp \<in> jq_idempotency_key ` set q
     then Inl (AppError ''IDEMPOTENCY_CONFLICT'')
     else
       let job = new_job i requestUuid ctx inp
       in (case insert_job \<lparr>jq_job_id = jp_jobId job, jq_status = jp_status job, jq_payload = job, jq_result = None,
                  jq_idempotency_key = jp_idempotencyKey job, jq_created_at = now\<rparr> q of
             Inl e \<Rightarrow> Inl e | Inr q' \<Rightarrow> Inr (job, q')))"

section \<open>Running a job\<close>

text \<open>\<open>accepted\<close> are the job types the runner takes, all of them when the list is absent or empty.\<close>

definition accepts :: "JobType list option \<Rightarrow> job_row \<Rightarrow> bool" where
  "accepts accepted r \<longleftrightarrow> (case accepted of None \<Rightarrow> True | Some ts \<Rightarrow> ts = [] \<or> jp_jobType (jq_payload r) \<in> set ts)"

definition runnable :: "JobType list option \<Rightarrow> job_row \<Rightarrow> bool" where
  "runnable accepted r \<longleftrightarrow> (jq_status r = JobQueued \<or> jq_status r = JobRetrying) \<and> accepts accepted r"

definition older :: "job_row \<Rightarrow> job_row \<Rightarrow> bool" where
  "older a b \<longleftrightarrow> jq_created_at a < jq_created_at b"

definition select_job :: "JobType list option \<Rightarrow> job_queue \<Rightarrow> job_row option" where
  "select_job accepted q = (case sort_by older (filter (runnable accepted) q) of [] \<Rightarrow> None | r # _ \<Rightarrow> Some r)"

definition running_job :: "job_row \<Rightarrow> job" where
  "running_job r = (jq_payload r)\<lparr>jp_attempt := jp_attempt (jq_payload r) + 1, jp_status := JobRunning\<rparr>"

definition lease_write :: "job_row \<Rightarrow> job_queue \<Rightarrow> job_queue" where
  "lease_write r q = upd_where (\<lambda>x. jq_job_id x = jq_job_id r)
     (\<lambda>x. x\<lparr>jq_status := JobRunning, jq_payload := running_job r\<rparr>) q"

definition lease_job :: "JobType list option \<Rightarrow> job_queue \<Rightarrow> job option \<times> job_queue" where
  "lease_job accepted q = (case select_job accepted q of
     None \<Rightarrow> (None, q) | Some r \<Rightarrow> (Some (running_job r), lease_write r q))"

definition finishJob :: "job \<Rightarrow> JobStatus \<Rightarrow> job_result \<Rightarrow> job \<Rightarrow> job_queue \<Rightarrow> job_queue" where
  "finishJob j s res nextPayload q = upd_where (\<lambda>x. jq_job_id x = jp_jobId j)
     (\<lambda>x. x\<lparr>jq_status := s, jq_payload := nextPayload, jq_result := Some res\<rparr>) q"

definition handleFailure :: "job \<Rightarrow> job_result \<Rightarrow> job_queue \<Rightarrow> job_result \<times> job_queue" where
  "handleFailure j res q =
    (let willRetry = jp_attempt j < rp_maxAttempts (jp_retryPolicy j);
         failed = res\<lparr>jr_jobId := jp_jobId j, jr_success := False, jr_attempt := Some (jp_attempt j),
                      jr_willRetry := Some willRetry\<rparr>;
         nextStatus = (if willRetry then JobRetrying else JobFailed)
     in (failed, finishJob j nextStatus failed (j\<lparr>jp_status := nextStatus\<rparr>) q))"

definition complete_job :: "job \<Rightarrow> string + job_result \<Rightarrow> job_queue \<Rightarrow> job_result \<times> job_queue" where
  "complete_job j outcome q = (case outcome of
     Inr res \<Rightarrow>
       if jr_success res
       then (let succeeded = res\<lparr>jr_jobId := jp_jobId j, jr_attempt := Some (jp_attempt j), jr_willRetry := Some False\<rparr>
             in (succeeded, finishJob j JobSucceeded succeeded (j\<lparr>jp_status := JobSucceeded\<rparr>) q))
       else handleFailure j res q
   | Inl message \<Rightarrow> handleFailure j
       \<lparr>jr_jobId = jp_jobId j, jr_success = False, jr_attempt = None, jr_willRetry = None,
        jr_errorCode = Some ''JOB_WORKER_THROWN'', jr_details = Some (JObj [(''message'', JStr message)])\<rparr> q)"

definition job_runNext :: "job_worker \<Rightarrow> JobType list option \<Rightarrow> job_queue \<Rightarrow> job_result option \<times> job_queue" where
  "job_runNext worker accepted q = (case lease_job accepted q of
     (None, q1) \<Rightarrow> (None, q1)
   | (Some j, q1) \<Rightarrow> (case complete_job j (worker j) q1 of (res, q2) \<Rightarrow> (Some res, q2)))"

definition job_size :: "job_queue \<Rightarrow> nat" where
  "job_size q = length (filter (\<lambda>r. jq_status r = JobQueued \<or> jq_status r = JobRetrying) q)"

definition job_getResult :: "string \<Rightarrow> job_queue \<Rightarrow> job_result option" where
  "job_getResult i q = (case find (\<lambda>r. jq_job_id r = i) q of None \<Rightarrow> None | Some r \<Rightarrow> jq_result r)"

definition attempts_left :: "job_row \<Rightarrow> int" where
  "attempts_left r = rp_maxAttempts (jp_retryPolicy (jq_payload r)) - jp_attempt (jq_payload r)"

section \<open>Well-formed tables\<close>

text \<open>The status in the payload is that of the row, and the attempts stay within the policy.\<close>

definition row_ok :: "job_row \<Rightarrow> bool" where
  "row_ok r \<longleftrightarrow> jp_jobId (jq_payload r) = jq_job_id r \<and> jp_status (jq_payload r) = jq_status r
     \<and> (if jq_status r = JobQueued then jp_attempt (jq_payload r) = 0 else 0 < jp_attempt (jq_payload r))
     \<and> (jq_status r = JobRetrying \<longrightarrow> 0 < attempts_left r)
     \<and> jp_attempt (jq_payload r) \<le> max 1 (rp_maxAttempts (jp_retryPolicy (jq_payload r)))"

definition queue_ok :: "job_queue \<Rightarrow> bool" where
  "queue_ok q \<longleftrightarrow> distinct (map jq_job_id q) \<and> distinct (List.map_filter jq_idempotency_key q) \<and> (\<forall>r \<in> set q. row_ok r)"

section \<open>Abstraction\<close>

text \<open>The jobs that wait, oldest first, with the attempts they have left.\<close>

definition pending :: "JobType list option \<Rightarrow> job_queue \<Rightarrow> (string \<times> int) list" where
  "pending accepted q = map (\<lambda>r. (jq_job_id r, attempts_left r)) (sort_by older (filter (runnable accepted) q))"

text \<open>One call on the abstract queue: the first job runs; it leaves the queue when it succeeds or has no
  attempt left after this one, else it stays in front with one attempt less.\<close>

fun run_abs :: "bool \<Rightarrow> (string \<times> int) list \<Rightarrow> (string \<times> int) list" where
  "run_abs succeeded [] = []"
| "run_abs succeeded ((i, k) # xs) = (if succeeded \<or> k \<le> 1 then xs else (i, k - 1) # xs)"

section \<open>Lemmas\<close>

lemma insert_by_insort: "insert_by (\<lambda>a b. f a < f b) x ys = insort_key f x (ys :: 'a list)" for f :: "'a \<Rightarrow> int"
  by (induction ys) auto

lemma sort_by_sort_key: "sort_by (\<lambda>a b. f a < f b) xs = sort_key f xs" for f :: "'a \<Rightarrow> int"
  by (induction xs) (simp_all add: insert_by_insort)

lemma sort_older: "sort_by older xs = sort_key jq_created_at xs"
  using sort_by_sort_key [of jq_created_at] by (simp add: older_def [abs_def])

lemma insort_key_map: "(\<And>x. f (g x) = f x) \<Longrightarrow> insort_key f (g x) (map g ys) = map g (insort_key f x ys)"
  by (induction ys) auto

lemma sort_key_map: "(\<And>x. f (g x) = f x) \<Longrightarrow> sort_key f (map g xs) = map g (sort_key f xs)"
  by (induction xs) (simp_all add: insort_key_map)

lemma insort_key_snoc: "f y \<le> f x \<Longrightarrow> insort_key f y (ys @ [x]) = insort_key f y ys @ [x]" for f :: "'a \<Rightarrow> int"
  by (induction ys) auto

lemma sort_key_snoc: "\<forall>y \<in> set ys. f y \<le> f x \<Longrightarrow> sort_key f (ys @ [x]) = sort_key f ys @ [x]" for f :: "'a \<Rightarrow> int"
  by (induction ys) (simp_all add: insort_key_snoc)

lemma select_job_first:
  assumes "select_job accepted q = Some r"
  obtains ys where "sort_key jq_created_at (filter (runnable accepted) q) = r # ys"
  using assms by (auto simp: select_job_def sort_older split: list.splits)

lemma select_job_in:
  assumes "select_job accepted q = Some r"
  shows "r \<in> set q \<and> runnable accepted r"
proof -
  obtain ys where "sort_key jq_created_at (filter (runnable accepted) q) = r # ys" using assms by (rule select_job_first)
  then have "r \<in> set (sort_key jq_created_at (filter (runnable accepted) q))" by simp
  then show ?thesis by simp
qed

text \<open>Replacing the first waiting row by one with the same identifier and date.\<close>

lemma sort_replace_first:
  assumes d: "distinct (map jq_job_id q)" and s: "sort_key jq_created_at (filter p q) = r # ys"
    and g: "\<And>x. g x = (if jq_job_id x = jq_job_id r then r' x else x)"
    and r': "\<And>x. jq_job_id (r' x) = jq_job_id x" "\<And>x. jq_created_at (r' x) = jq_created_at x"
  shows "sort_key jq_created_at (filter p (map g q)) = (if p (r' r) then r' r # ys else ys)"
proof -
  have mem: "r \<in> set q" "p r" using arg_cong [OF s, of set] by auto
  have same: "x = r" if "x \<in> set q" "jq_job_id x = jq_job_id r" for x
    using d mem that by (auto intro: distinct_key_eq [of jq_job_id q])
  have "distinct (map jq_job_id (filter p q))" using d by (simp add: distinct_map_filter)
  then have "distinct (map jq_job_id (r # ys))"
    using s by (metis distinct_map distinct_sort set_sort)
  then have "\<forall>x \<in> set ys. jq_job_id x \<noteq> jq_job_id r" by simp (metis imageI)
  then have ys: "map g ys = ys" "filter (\<lambda>x. jq_job_id x \<noteq> jq_job_id r) (r # ys) = ys"
    by (simp_all add: g map_idI filter_id_conv)
  have fg: "jq_created_at (g x) = jq_created_at x" for x using r' by (simp add: g)
  show ?thesis
  proof (cases "p (r' r)")
    case True
    have "p (g x) = p x" if "x \<in> set q" for x using same that True mem by (auto simp: g)
    then have "filter (p \<circ> g) q = filter p q" by (auto intro: filter_cong)
    then have "filter p (map g q) = map g (filter p q)" by (simp add: filter_map)
    then show ?thesis using True ys by (simp add: sort_key_map [where f = jq_created_at and g = g, OF fg] s g)
  next
    case False
    have "p (g x) = (jq_job_id x \<noteq> jq_job_id r \<and> p x)" if "x \<in> set q" for x using same that False mem by (auto simp: g)
    then have "filter (p \<circ> g) q = filter (\<lambda>x. jq_job_id x \<noteq> jq_job_id r) (filter p q)"
      by (auto intro: filter_cong simp: conj_commute)
    then have "filter p (map g q) = map g (filter (\<lambda>x. jq_job_id x \<noteq> jq_job_id r) (filter p q))" by (simp add: filter_map)
    then have "sort_key jq_created_at (filter p (map g q)) = map g (filter (\<lambda>x. jq_job_id x \<noteq> jq_job_id r) (r # ys))"
      using filter_sort [of "\<lambda>x. jq_job_id x \<noteq> jq_job_id r" jq_created_at "filter p q"]
      by (simp only: sort_key_map [where f = jq_created_at and g = g, OF fg] s)
    then show ?thesis using False ys by simp
  qed
qed

text \<open>The table after a whole call: the row of the leased job with its final status.\<close>

definition settled :: "job_result \<Rightarrow> JobStatus \<Rightarrow> job_row \<Rightarrow> job_row \<Rightarrow> job_row" where
  "settled res s r x = x\<lparr>jq_status := s, jq_payload := (running_job r)\<lparr>jp_status := s\<rparr>, jq_result := Some res\<rparr>"

lemma complete_job_shape:
  assumes "complete_job j outcome q = (out, q')"
  shows "jr_jobId out = jp_jobId j \<and> jr_attempt out = Some (jp_attempt j)
    \<and> jr_success out = (case outcome of Inr x \<Rightarrow> jr_success x | Inl _ \<Rightarrow> False)
    \<and> jr_willRetry out = Some (\<not> jr_success out \<and> jp_attempt j < rp_maxAttempts (jp_retryPolicy j))
    \<and> (let s = (if jr_success out then JobSucceeded
                else if jp_attempt j < rp_maxAttempts (jp_retryPolicy j) then JobRetrying else JobFailed)
       in q' = finishJob j s out (j\<lparr>jp_status := s\<rparr>) q)"
  using assms by (cases outcome) (auto simp: complete_job_def handleFailure_def Let_def split: if_splits)

lemma runNext_table:
  assumes "queue_ok q" and "job_runNext worker accepted q = (res, q')"
  shows "case select_job accepted q of
      None \<Rightarrow> res = None \<and> q' = q
    | Some r \<Rightarrow> (\<exists>out. res = Some out \<and> jr_jobId out = jq_job_id r \<and> jr_attempt out = Some (jp_attempt (jq_payload r) + 1)
        \<and> jr_success out = (case worker (running_job r) of Inr x \<Rightarrow> jr_success x | Inl _ \<Rightarrow> False)
        \<and> jr_willRetry out = Some (\<not> jr_success out \<and> 1 < attempts_left r)
        \<and> q' = map (\<lambda>x. if jq_job_id x = jq_job_id r
             then settled out (if jr_success out then JobSucceeded else if 1 < attempts_left r then JobRetrying else JobFailed) r x
             else x) q)"
proof (cases "select_job accepted q")
  case None
  then show ?thesis using assms(2) by (simp add: job_runNext_def lease_job_def)
next
  case (Some r)
  have id: "jp_jobId (running_job r) = jq_job_id r"
    using assms(1) select_job_in [OF Some] by (simp add: queue_ok_def row_ok_def running_job_def)
  have left: "rp_maxAttempts (jp_retryPolicy (running_job r)) = attempts_left r + jp_attempt (jq_payload r)"
    by (simp add: attempts_left_def running_job_def)
  have att: "jp_attempt (running_job r) = jp_attempt (jq_payload r) + 1" by (simp add: running_job_def)
  obtain out where out: "complete_job (running_job r) (worker (running_job r)) (lease_write r q) = (out, q')" "res = Some out"
    using assms(2) Some by (auto simp: job_runNext_def lease_job_def split: prod.splits)
  have "finishJob (running_job r) s out ((running_job r)\<lparr>jp_status := s\<rparr>) (lease_write r q)
      = map (\<lambda>x. if jq_job_id x = jq_job_id r then settled out s r x else x) q" for s
    by (simp add: finishJob_def lease_write_def upd_where_def settled_def id)
  then show ?thesis
    using complete_job_shape [OF out(1)] out(2) Some by (simp add: id left att)
qed

lemma runnable_settled:
  "runnable accepted r \<Longrightarrow> runnable accepted (settled out s r r) = (s = JobQueued \<or> s = JobRetrying)"
  by (auto simp: runnable_def settled_def running_job_def accepts_def split: option.splits)

section \<open>Refinement\<close>

text \<open>What the worker makes of the job that comes next, when there is one.\<close>

definition next_succeeds :: "job_worker \<Rightarrow> JobType list option \<Rightarrow> job_queue \<Rightarrow> bool" where
  "next_succeeds worker accepted q = (case select_job accepted q of None \<Rightarrow> True
     | Some r \<Rightarrow> (case worker (running_job r) of Inr x \<Rightarrow> jr_success x | Inl _ \<Rightarrow> False))"

lemma pending_empty_iff: "pending accepted q = [] \<longleftrightarrow> select_job accepted q = None"
  by (auto simp: pending_def select_job_def split: list.splits)

lemma pending_run:
  assumes "queue_ok q" and "job_runNext worker accepted q = (res, q')"
  shows "pending accepted q' = run_abs (next_succeeds worker accepted q) (pending accepted q)"
proof (cases "select_job accepted q")
  case None
  then show ?thesis using runNext_table [OF assms] pending_empty_iff [of accepted q] by simp
next
  case (Some r)
  obtain ys where ys: "sort_key jq_created_at (filter (runnable accepted) q) = r # ys" using Some by (rule select_job_first)
  obtain out s where out: "jr_success out = next_succeeds worker accepted q"
    and s: "s = (if jr_success out then JobSucceeded else if 1 < attempts_left r then JobRetrying else JobFailed)"
    and q': "q' = map (\<lambda>x. if jq_job_id x = jq_job_id r then settled out s r x else x) q"
    using runNext_table [OF assms] Some by (auto simp: next_succeeds_def)
  have "sort_key jq_created_at (filter (runnable accepted) q') = (if runnable accepted (settled out s r r) then settled out s r r # ys else ys)"
    unfolding q' by (rule sort_replace_first [OF _ ys]) (use assms(1) in \<open>simp_all add: queue_ok_def settled_def\<close>)
  moreover have "runnable accepted (settled out s r r) = (\<not> next_succeeds worker accepted q \<and> 1 < attempts_left r)"
    using select_job_in [OF Some] by (simp add: runnable_settled s out)
  moreover have "jq_job_id (settled out s r r) = jq_job_id r" "attempts_left (settled out s r r) = attempts_left r - 1"
    by (simp_all add: settled_def attempts_left_def running_job_def)
  ultimately show ?thesis using ys by (simp add: pending_def sort_older)
qed

lemma pending_enqueue:
  assumes "job_enqueue now i u ctx inp q = Inr (j, q')" and "\<forall>r \<in> set q. jq_created_at r \<le> now"
  shows "pending None q' = pending None q @ [(i, rp_maxAttempts (jp_retryPolicy j))]"
proof -
  let ?r = "\<lparr>jq_job_id = jp_jobId j, jq_status = jp_status j, jq_payload = j, jq_result = None,
      jq_idempotency_key = jp_idempotencyKey j, jq_created_at = now\<rparr>"
  have j: "j = new_job i u ctx inp" and q': "q' = q @ [?r]"
    using assms(1) by (auto simp: job_enqueue_def insert_job_def Let_def split: if_splits)
  have "sort_key jq_created_at (filter (runnable None) q @ [?r]) = sort_key jq_created_at (filter (runnable None) q) @ [?r]"
    using assms(2) by (intro sort_key_snoc) auto
  then show ?thesis by (simp add: pending_def sort_older q') (simp add: runnable_def accepts_def attempts_left_def j new_job_def)
qed

section \<open>Progress\<close>

fun runs_needed :: "(string \<times> int) list \<Rightarrow> nat" where
  "runs_needed [] = 0"
| "runs_needed ((i, k) # xs) = max 1 (nat k) + runs_needed xs"

lemma run_abs_progress: "xs \<noteq> [] \<Longrightarrow> runs_needed (run_abs b xs) < runs_needed xs"
  by (cases xs) auto

lemma runs_needed_0: "runs_needed xs = 0 \<longleftrightarrow> xs = []"
  by (cases xs) auto

section \<open>Invariant\<close>

text \<open>The operations interleaved: leasing is one transaction, finishing another, and a leased job is finished
  once. The second component lists the jobs that workers hold. The leasing transactions do not overlap, as
  on the single connection of \<open>PgliteDatabase\<close>: \<open>runNext\<close> selects without locking the row.\<close>

inductive job_step :: "job_queue \<times> job list \<Rightarrow> job_queue \<times> job list \<Rightarrow> bool" where
  step_enqueue: "job_enqueue now i u ctx inp q = Inr (j, q') \<Longrightarrow> job_step (q, held) (q', held)"
| step_lease: "lease_job accepted q = (Some j, q') \<Longrightarrow> job_step (q, held) (q', j # held)"
| step_complete: "complete_job j outcome q = (out, q') \<Longrightarrow> job_step (q, xs @ j # ys) (q', xs @ ys)"

inductive_cases job_stepE: "job_step s t"

text \<open>A held job is the payload of its running row.\<close>

definition held_ok :: "job_queue \<times> job list \<Rightarrow> bool" where
  "held_ok s \<longleftrightarrow> (case s of (q, held) \<Rightarrow>
     queue_ok q \<and> distinct (map jp_jobId held)
     \<and> (\<forall>j \<in> set held. \<exists>r \<in> set q. jq_status r = JobRunning \<and> jq_payload r = j))"

lemma queue_ok_upd:
  assumes "queue_ok q" and "\<And>x. x \<in> set q \<Longrightarrow> p x \<Longrightarrow> jq_job_id (f x) = jq_job_id x \<and> jq_idempotency_key (f x) = jq_idempotency_key x
      \<and> row_ok (f x)"
  shows "queue_ok (upd_where p f q)"
proof -
  have "map jq_job_id (upd_where p f q) = map jq_job_id q" using assms(2) by (auto simp: upd_where_def)
  moreover have "List.map_filter jq_idempotency_key (upd_where p f xs) = List.map_filter jq_idempotency_key xs" if "set xs \<subseteq> set q" for xs
    using that by (induction xs) (use assms(2) in \<open>auto simp: map_filter_simps split: option.splits\<close>)
  moreover have "\<forall>r \<in> set (upd_where p f q). row_ok r" using assms by (auto simp: upd_where_def queue_ok_def)
  ultimately show ?thesis using assms(1) by (simp add: queue_ok_def)
qed

lemma lease_write_ok:
  assumes "queue_ok q" and "select_job accepted q = Some r"
  shows "queue_ok (lease_write r q)"
  unfolding lease_write_def
proof (rule queue_ok_upd [OF assms(1)])
  have r: "r \<in> set q" "runnable accepted r" using select_job_in [OF assms(2)] by auto
  fix x assume "x \<in> set q" "jq_job_id x = jq_job_id r"
  then have "x = r" using assms(1) r(1) by (auto simp: queue_ok_def intro: distinct_key_eq)
  moreover have "row_ok r" using assms(1) r(1) by (simp add: queue_ok_def)
  ultimately show "jq_job_id (x\<lparr>jq_status := JobRunning, jq_payload := running_job r\<rparr>) = jq_job_id x
      \<and> jq_idempotency_key (x\<lparr>jq_status := JobRunning, jq_payload := running_job r\<rparr>) = jq_idempotency_key x
      \<and> row_ok (x\<lparr>jq_status := JobRunning, jq_payload := running_job r\<rparr>)"
    using r(2) by (auto simp: row_ok_def running_job_def runnable_def attempts_left_def)
qed

lemma complete_ok:
  assumes "queue_ok q" and "complete_job j outcome q = (out, q')"
    and "r \<in> set q" and "jq_payload r = j" and "jq_status r = JobRunning"
  shows "queue_ok q'"
proof -
  define s where "s = (if jr_success out then JobSucceeded
      else if jp_attempt j < rp_maxAttempts (jp_retryPolicy j) then JobRetrying else JobFailed)"
  then have q': "q' = finishJob j s out (j\<lparr>jp_status := s\<rparr>) q" using complete_job_shape [OF assms(2)] by (simp add: Let_def)
  have ok: "row_ok r" using assms(1,3) by (simp add: queue_ok_def)
  show ?thesis unfolding q' finishJob_def
  proof (rule queue_ok_upd [OF assms(1)])
    fix x assume "x \<in> set q" "jq_job_id x = jp_jobId j"
    then have "x = r" using assms(1,3,4) ok by (auto simp: queue_ok_def row_ok_def intro: distinct_key_eq)
    then show "jq_job_id (x\<lparr>jq_status := s, jq_payload := j\<lparr>jp_status := s\<rparr>, jq_result := Some out\<rparr>) = jq_job_id x
        \<and> jq_idempotency_key (x\<lparr>jq_status := s, jq_payload := j\<lparr>jp_status := s\<rparr>, jq_result := Some out\<rparr>) = jq_idempotency_key x
        \<and> row_ok (x\<lparr>jq_status := s, jq_payload := j\<lparr>jp_status := s\<rparr>, jq_result := Some out\<rparr>)"
      using ok assms(4,5) by (auto simp: row_ok_def s_def attempts_left_def)
  qed
qed

lemma enqueue_ok:
  assumes "queue_ok q" and "job_enqueue now i u ctx inp q = Inr (j, q')"
  shows "queue_ok q'"
proof -
  have keys: "Some k \<in> jq_idempotency_key ` set q" if "k \<in> set (List.map_filter jq_idempotency_key q)" for k
    using that by (induction q) (auto simp: map_filter_simps split: option.splits)
  have append: "List.map_filter f (xs @ ys) = List.map_filter f xs @ List.map_filter f ys" for f :: "job_row \<Rightarrow> string option" and xs ys
    by (simp add: List.map_filter_def)
  show ?thesis
    using assms keys
    by (auto simp: job_enqueue_def insert_job_def Let_def queue_ok_def append map_filter_simps row_ok_def new_job_def
        split: if_splits option.splits)
qed

lemma lease_running:
  assumes "queue_ok q" and "select_job accepted q = Some r"
  shows "\<exists>x \<in> set (lease_write r q). jq_status x = JobRunning \<and> jq_payload x = running_job r"
proof -
  have "r\<lparr>jq_status := JobRunning, jq_payload := running_job r\<rparr> \<in> set (lease_write r q)"
    using select_job_in [OF assms(2)] by (auto simp: lease_write_def upd_where_def)
  then show ?thesis by (rule rev_bexI) simp
qed

interpretation jobs: step_invariant job_step held_ok
proof
  fix s t assume "job_step s t" and ok: "held_ok s"
  then show "held_ok t"
  proof cases
    case (step_enqueue now i u ctx inp q j q' held)
    then have q: "queue_ok q" using ok by (simp add: held_ok_def)
    have "set q \<subseteq> set q'"
      using step_enqueue(3) by (auto simp: job_enqueue_def insert_job_def Let_def split: if_splits)
    then show ?thesis using ok step_enqueue enqueue_ok [OF q step_enqueue(3)] by (fastforce simp: held_ok_def)
  next
    case (step_lease accepted q j q' held)
    then obtain r where r: "select_job accepted q = Some r" "j = running_job r" "q' = lease_write r q"
      by (auto simp: lease_job_def split: option.splits)
    have q: "queue_ok q" and held: "distinct (map jp_jobId held)" "\<And>h. h \<in> set held \<Longrightarrow> \<exists>x \<in> set q. jq_status x = JobRunning \<and> jq_payload x = h"
      using ok step_lease by (auto simp: held_ok_def)
    have other: "jp_jobId h \<noteq> jq_job_id r" if h: "h \<in> set held" for h
    proof
      assume same: "jp_jobId h = jq_job_id r"
      obtain x where x: "x \<in> set q" "jq_status x = JobRunning" "jq_payload x = h" using held(2) [OF h] by blast
      then have "x = r" using q select_job_in [OF r(1)] same by (auto simp: queue_ok_def row_ok_def intro: distinct_key_eq)
      then show False using x(2) select_job_in [OF r(1)] by (simp add: runnable_def)
    qed
    have "\<exists>x \<in> set q'. jq_status x = JobRunning \<and> jq_payload x = h" if "h \<in> set held" for h
    proof -
      obtain x where x: "x \<in> set q" "jq_status x = JobRunning" "jq_payload x = h" using held(2) \<open>h \<in> set held\<close> by blast
      then have "jq_job_id x \<noteq> jq_job_id r" using other \<open>h \<in> set held\<close> q by (auto simp: queue_ok_def row_ok_def)
      then show ?thesis using x by (auto simp: r lease_write_def upd_where_def intro!: bexI [of _ x])
    qed
    moreover have "jp_jobId j = jq_job_id r" using q select_job_in [OF r(1)] by (simp add: r queue_ok_def row_ok_def running_job_def)
    then have "jp_jobId j \<notin> jp_jobId ` set held" using other by (metis imageE)
    ultimately show ?thesis
      using step_lease held(1) lease_write_ok [OF q r(1)] lease_running [OF q r(1)] by (simp add: held_ok_def r)
  next
    case (step_complete j outcome q out q' xs ys)
    then have q: "queue_ok q" and held: "distinct (map jp_jobId (xs @ j # ys))"
      "\<And>h. h \<in> set (xs @ j # ys) \<Longrightarrow> \<exists>x \<in> set q. jq_status x = JobRunning \<and> jq_payload x = h"
      using ok by (auto simp: held_ok_def)
    obtain r where r: "r \<in> set q" "jq_status r = JobRunning" "jq_payload r = j" using held(2) by auto
    have "\<exists>x \<in> set q'. jq_status x = JobRunning \<and> jq_payload x = h" if "h \<in> set (xs @ ys)" for h
    proof -
      obtain x where x: "x \<in> set q" "jq_status x = JobRunning" "jq_payload x = h" using held(2) \<open>h \<in> set (xs @ ys)\<close> by auto
      have "jp_jobId h \<noteq> jp_jobId j" using held(1) \<open>h \<in> set (xs @ ys)\<close> by (auto simp: image_iff)
      then have "jq_job_id x \<noteq> jp_jobId j" using x q by (auto simp: queue_ok_def row_ok_def)
      then show ?thesis
        using x complete_job_shape [OF step_complete(3)] by (auto simp: Let_def finishJob_def upd_where_def intro!: bexI [of _ x])
    qed
    moreover have "distinct (map jp_jobId (xs @ ys))" using held(1) by simp
    ultimately show ?thesis using step_complete(2) complete_ok [OF q step_complete(3) r(1,3,2)] by (simp add: held_ok_def)
  qed
qed

lemma queue_ok_run:
  assumes "queue_ok q" and "job_runNext worker accepted q = (res, q')"
  shows "queue_ok q'"
proof (cases "select_job accepted q")
  case None
  then show ?thesis using assms by (simp add: job_runNext_def lease_job_def)
next
  case (Some r)
  obtain out where "complete_job (running_job r) (worker (running_job r)) (lease_write r q) = (out, q')"
    using assms(2) Some by (auto simp: job_runNext_def lease_job_def split: prod.splits)
  then show ?thesis using complete_ok [OF lease_write_ok [OF assms(1) Some]] lease_running [OF assms(1) Some] by blast
qed

lemma pending_drains:
  assumes "queue_ok q" and "runs_needed (pending accepted q) \<le> length ws"
  shows "pending accepted (fold (\<lambda>w q. snd (job_runNext w accepted q)) ws q) = []"
  using assms
proof (induction ws arbitrary: q)
  case Nil
  then show ?case by (simp add: runs_needed_0)
next
  case (Cons w ws)
  obtain res q' where run: "job_runNext w accepted q = (res, q')" by (cases "job_runNext w accepted q")
  have "runs_needed (pending accepted q') \<le> length ws"
  proof (cases "pending accepted q = []")
    case True
    then show ?thesis using pending_run [OF Cons.prems(1) run] by simp
  next
    case False
    then show ?thesis using run_abs_progress [OF False] pending_run [OF Cons.prems(1) run] Cons.prems(2)
      by (metis (no_types, lifting) less_Suc_eq_le list.size(4) add.right_neutral add_Suc_right order_less_le_trans)
  qed
  then show ?case using Cons.IH [OF queue_ok_run [OF Cons.prems(1) run]] run by simp
qed

section \<open>Samples\<close>

definition sample_job :: "enqueue_job" where
  "sample_job = \<lparr>ej_jobType = REPORT_EXPORT, ej_resourceType = None, ej_resourceId = None, ej_idempotencyKey = Some ''k'',
     ej_payload = [], ej_retryPolicy = Some \<lparr>rp_maxAttempts = 2, rp_backoffSeconds = 30\<rparr>, ej_timeoutSeconds = None\<rparr>"

definition sample_job_row :: job_row where
  "sample_job_row = \<lparr>jq_job_id = ''j1'', jq_status = JobQueued, jq_payload = new_job ''j1'' ''u'' None sample_job, jq_result = None,
     jq_idempotency_key = Some ''k'', jq_created_at = 5\<rparr>"

definition failing_worker :: job_worker where
  "failing_worker j = Inl ''boom''"

lemma sample_queue_ok: "queue_ok [sample_job_row]"
  by (simp add: queue_ok_def row_ok_def sample_job_row_def new_job_def sample_job_def map_filter_simps)

lemma sample_pending: "pending None [sample_job_row] = [(''j1'', 2)]"
  by (simp add: pending_def runnable_def accepts_def sample_job_row_def attempts_left_def new_job_def sample_job_def getOrElse_def)

section \<open>Properties\<close>

text \<open>C38. The queue refines an abstract one. Seen as the list of waiting jobs with the attempts they have left, a
  call of \<open>runNext\<close> is one step of \<open>run_abs\<close>: it runs the oldest waiting job the runner accepts, reports
  that job, takes it out when it succeeded or its attempts are used up, and leaves it in front with one
  attempt less otherwise. With nothing to run it returns nothing and changes nothing.\<close>

theorem job_queue_refines:
  assumes "queue_ok q" and "job_runNext worker accepted q = (res, q')"
  shows "queue_ok q' \<and> pending accepted q' = run_abs (next_succeeds worker accepted q) (pending accepted q)
    \<and> (case pending accepted q of
         [] \<Rightarrow> res = None \<and> q' = q
       | (i, k) # _ \<Rightarrow> \<exists>out. res = Some out \<and> jr_jobId out = i \<and> jr_success out = next_succeeds worker accepted q
           \<and> jr_willRetry out = Some (\<not> jr_success out \<and> 1 < k) \<and> job_getResult i q' = Some out)"
proof (cases "select_job accepted q")
  case None
  then show ?thesis
    using runNext_table [OF assms] pending_empty_iff [of accepted q] assms(1) by simp
next
  case (Some r)
  obtain ys where ys: "sort_key jq_created_at (filter (runnable accepted) q) = r # ys" using Some by (rule select_job_first)
  then have p: "pending accepted q = (jq_job_id r, attempts_left r) # map (\<lambda>r. (jq_job_id r, attempts_left r)) ys"
    by (simp add: pending_def sort_older)
  obtain out s where out: "res = Some out" "jr_jobId out = jq_job_id r" "jr_success out = next_succeeds worker accepted q"
      "jr_willRetry out = Some (\<not> jr_success out \<and> 1 < attempts_left r)"
    and "s = (if jr_success out then JobSucceeded else if 1 < attempts_left r then JobRetrying else JobFailed)"
    and q': "q' = map (\<lambda>x. if jq_job_id x = jq_job_id r then settled out s r x else x) q"
    using runNext_table [OF assms] Some by (auto simp: next_succeeds_def)
  have "find (\<lambda>x. jq_job_id x = jq_job_id r) q' \<noteq> None"
    using select_job_in [OF Some] by (auto simp: q' find_None_iff settled_def)
  then obtain y where y: "find (\<lambda>x. jq_job_id x = jq_job_id r) q' = Some y" by blast
  then have "y \<in> set q'" "jq_job_id y = jq_job_id r" by (auto dest: find_Some_iff_first)
  then have "jq_result y = Some out" by (auto simp: q' settled_def split: if_splits)
  then have "job_getResult (jq_job_id r) q' = Some out" using y by (simp add: job_getResult_def)
  then show ?thesis using pending_run [OF assms] queue_ok_run [OF assms] out p by auto
qed

theorem job_queue_refines_witness:
  "pending None (snd (job_runNext failing_worker None [sample_job_row])) = [(''j1'', 1)]"
proof -
  have "next_succeeds failing_worker None [sample_job_row] = False"
    by (simp add: next_succeeds_def select_job_def runnable_def accepts_def sample_job_row_def failing_worker_def)
  then show ?thesis
    using job_queue_refines [OF sample_queue_ok, of failing_worker None] sample_pending
    by (cases "job_runNext failing_worker None [sample_job_row]") auto
qed

text \<open>The queue drains. However the workers behave, as many calls as the waiting jobs have attempts left (at
  least one each) leave no job waiting: every job has succeeded or failed for good.\<close>

theorem job_queue_drains:
  assumes "queue_ok q" and "runs_needed (pending accepted q) \<le> length ws"
  shows "select_job accepted (fold (\<lambda>w q. snd (job_runNext w accepted q)) ws q) = None"
  using pending_drains [OF assms] pending_empty_iff by blast

theorem job_queue_drains_witness:
  "select_job None (fold (\<lambda>w q. snd (job_runNext w None q)) [failing_worker, failing_worker] [sample_job_row]) = None"
  by (rule job_queue_drains [OF sample_queue_ok]) (simp add: sample_pending)

text \<open>Jobs in flight. In every state that enqueuing, leasing and finishing can reach in any interleaving of these
  steps (leasing transactions do not overlap), a job is held by at most one worker, a held job is the payload of its running row, no job was started
  more often than its policy allows (once when the policy allows less), and no idempotency key occurs
  twice.\<close>

theorem jobs_in_flight:
  assumes "job_step\<^sup>*\<^sup>* ([], []) (q, held)"
  shows "distinct (map jp_jobId held) \<and> distinct (List.map_filter jq_idempotency_key q)
    \<and> (\<forall>j \<in> set held. \<exists>r \<in> set q. jq_job_id r = jp_jobId j \<and> jq_status r = JobRunning \<and> jq_payload r = j)
    \<and> (\<forall>r \<in> set q. jp_attempt (jq_payload r) \<le> max 1 (rp_maxAttempts (jp_retryPolicy (jq_payload r))))"
proof -
  have "held_ok ([], [])" by (simp add: held_ok_def queue_ok_def map_filter_simps)
  with assms have "held_ok (q, held)" by (rule jobs.steps_preserve)
  then show ?thesis by (fastforce simp: held_ok_def queue_ok_def row_ok_def)
qed

theorem jobs_in_flight_witness:
  "distinct (map jp_jobId [running_job sample_job_row])"
proof -
  have "job_enqueue 5 ''j1'' ''u'' None sample_job [] = Inr (new_job ''j1'' ''u'' None sample_job, [sample_job_row])"
    by (simp add: job_enqueue_def insert_job_def Let_def sample_job_row_def new_job_def sample_job_def)
  then have "job_step ([], []) ([sample_job_row], [])" by (rule step_enqueue)
  moreover have "lease_job None [sample_job_row] = (Some (running_job sample_job_row), lease_write sample_job_row [sample_job_row])"
    by (simp add: lease_job_def select_job_def runnable_def accepts_def sample_job_row_def)
  then have "job_step ([sample_job_row], []) (lease_write sample_job_row [sample_job_row], [running_job sample_job_row])"
    by (rule step_lease)
  ultimately have "job_step\<^sup>*\<^sup>* ([], []) (lease_write sample_job_row [sample_job_row], [running_job sample_job_row])" by simp
  then show ?thesis using jobs_in_flight by blast
qed

end
