(* ===== verification/StepGraph.thy ===== *)
theory StepGraph
  imports CoreStateMachine
begin

text \<open>
  Scheduling of execution steps: \<open>backend/src/modules/executions/schema/executions.schema.ts\<close> (the records),
  \<open>application/step-graph-builder.ts\<close>, \<open>application/scheduler.ts\<close>, \<open>application/failure-policy-engine.ts\<close>, the
  step tests of \<open>application/run-recovery-worker.ts\<close> and \<open>domain/executions.domain-service.ts\<close>.

  A step depends on the step numbers of \<open>dependsOn\<close>, or on the previous step of the same target. The map
  \<open>stepByNo\<close> keeps the last step of a number. \<open>visit\<close> is the depth-first search of \<open>assertNoCycles\<close>; its
  sets \<open>visiting\<close> and \<open>visited\<close> are lists, and deleting a number from \<open>visiting\<close> on the way back is the end of the
  scope of the longer list. \<open>grounded\<close> is the reference notion: a step all of whose dependencies exist and
  are grounded, so that a schedule can reach it.
\<close>

section \<open>Records\<close>

record execution_step =
  es_id :: string
  es_tenantId :: "string option"
  es_executionRunId :: string
  es_deploymentPlanTargetId :: "string option"
  es_stepNo :: int
  es_stepType :: string
  es_name :: string
  es_dependsOn :: "int list option"
  es_idempotent :: "bool option"
  es_attemptCount :: int
  es_maxAttempts :: int
  es_lastFailureCategory :: "string option"
  es_lastErrorCode :: "string option"
  es_lastErrorMessage :: "string option"
  es_lastErrorDetails :: "jobject option"
  es_inputSnapshot :: jobject
  es_status :: string
  es_startedAt :: "instant option"
  es_finishedAt :: "instant option"
  es_createdAt :: instant
  es_updatedAt :: instant
  es_createdBy :: "string option"
  es_updatedBy :: "string option"
  es_version :: int

record step_result =
  sx_success :: bool
  sx_asyncPending :: bool
  sx_errorCode :: "string option"
  sx_errorMessage :: "string option"
  sx_detail :: "jobject option"

section \<open>Step graph\<close>

record step_graph =
  sg_runnable :: "execution_step list"
  sg_blocked :: "execution_step list"
  sg_running :: "execution_step list"
  sg_terminal :: "execution_step list"

definition isTerminal :: "string \<Rightarrow> bool" where
  "isTerminal status \<longleftrightarrow> status \<in> set [''SUCCESS'', ''FAILED'', ''TIMEOUT'', ''SKIPPED'']"

definition terminalSatisfied :: "string \<Rightarrow> bool" where
  "terminalSatisfied status \<longleftrightarrow> status \<in> set [''SUCCESS'', ''SKIPPED'']"

definition sort_steps :: "execution_step list \<Rightarrow> execution_step list" where
  "sort_steps = sort_by (\<lambda>a b. es_stepNo a < es_stepNo b)"

definition stepByNo :: "execution_step list \<Rightarrow> int \<Rightarrow> execution_step option" where
  "stepByNo ordered n = find (\<lambda>s. es_stepNo s = n) (rev ordered)"

definition getDependencies :: "execution_step \<Rightarrow> execution_step list \<Rightarrow> int list" where
  "getDependencies step ordered =
    (if getOrElse (es_dependsOn step) [] \<noteq> [] then sort_by (<) (set_dedup (the (es_dependsOn step)))
     else (case sort_by (\<lambda>a b. es_stepNo b < es_stepNo a)
             (filter (\<lambda>c. es_stepNo c < es_stepNo step \<and> es_deploymentPlanTargetId c = es_deploymentPlanTargetId step) ordered) of
       [] \<Rightarrow> [] | previous # _ \<Rightarrow> [es_stepNo previous]))"

text \<open>\<open>visit\<close> returns the visited numbers after the call, or the error it threw.\<close>

function visit :: "execution_step list \<Rightarrow> int list \<Rightarrow> int list \<Rightarrow> int \<Rightarrow> int list result"
  and visit_all :: "execution_step list \<Rightarrow> int list \<Rightarrow> int list \<Rightarrow> int list \<Rightarrow> int list result"
where
  "visit ordered visiting visited n =
    (if n \<in> set visited then Inr visited
     else if n \<in> set visiting then Inl (AppError ''VALIDATION_FAILED'')
     else (case stepByNo ordered n of
       None \<Rightarrow> Inl (AppError ''VALIDATION_FAILED'')
     | Some step \<Rightarrow> (case visit_all ordered (n # visiting) visited (getDependencies step ordered) of
         Inl e \<Rightarrow> Inl e | Inr visited' \<Rightarrow> Inr (n # visited'))))"
| "visit_all ordered visiting visited [] = Inr visited"
| "visit_all ordered visiting visited (d # ds) =
    (if stepByNo ordered d = None then Inl (AppError ''VALIDATION_FAILED'')
     else (case visit ordered visiting visited d of
       Inl e \<Rightarrow> Inl e | Inr visited' \<Rightarrow> visit_all ordered visiting visited' ds))"
  by pat_completeness auto
termination
proof (relation "(\<lambda>x. case x of
    Inl (ordered, visiting, visited, n) \<Rightarrow> card (es_stepNo ` set ordered - set visiting)
  | Inr (ordered, visiting, visited, ds) \<Rightarrow> card (es_stepNo ` set ordered - set visiting)) <*mlex*>
    measure (\<lambda>x. case x of Inl _ \<Rightarrow> 0 | Inr (ordered, visiting, visited, ds) \<Rightarrow> Suc (length ds))", goal_cases)
  case 1
  then show ?case by (simp add: wf_mlex)
next
  case (2 ordered visiting visited n step)
  then have "n \<in> es_stepNo ` set ordered" by (auto simp: stepByNo_def dest!: find_Some_iff_first)
  then have "es_stepNo ` set ordered - set (n # visiting) \<subset> es_stepNo ` set ordered - set visiting" using 2(2) by auto
  then show ?case by (simp add: mlex_prod_def psubset_card_mono)
next
  case 3
  then show ?case by (simp add: mlex_prod_def)
next
  case 4
  then show ?case by (simp add: mlex_prod_def)
qed

declare visit.simps [simp del]

fun assert_each :: "execution_step list \<Rightarrow> int list \<Rightarrow> execution_step list \<Rightarrow> unit result" where
  "assert_each ordered visited [] = Inr ()"
| "assert_each ordered visited (s # ss) = (case visit ordered [] visited (es_stepNo s) of
     Inl e \<Rightarrow> Inl e | Inr visited' \<Rightarrow> assert_each ordered visited' ss)"

definition assertNoCycles :: "execution_step list \<Rightarrow> unit result" where
  "assertNoCycles ordered = assert_each ordered [] ordered"

definition satisfied :: "execution_step list \<Rightarrow> execution_step \<Rightarrow> bool" where
  "satisfied ordered step \<longleftrightarrow> (\<forall>d \<in> set (getDependencies step ordered).
     terminalSatisfied (case stepByNo ordered d of None \<Rightarrow> ''FAILED'' | Some s \<Rightarrow> es_status s))"

fun classify_steps :: "execution_step list \<Rightarrow> execution_step list \<Rightarrow> step_graph" where
  "classify_steps ordered [] = \<lparr>sg_runnable = [], sg_blocked = [], sg_running = [], sg_terminal = []\<rparr>"
| "classify_steps ordered (s # ss) = (let g = classify_steps ordered ss in
     if es_status s = ''RUNNING'' then g\<lparr>sg_running := s # sg_running g\<rparr>
     else if isTerminal (es_status s) then g\<lparr>sg_terminal := s # sg_terminal g\<rparr>
     else if es_status s \<noteq> ''PENDING'' then g\<lparr>sg_blocked := s # sg_blocked g\<rparr>
     else if satisfied ordered s then g\<lparr>sg_runnable := s # sg_runnable g\<rparr>
     else g\<lparr>sg_blocked := s # sg_blocked g\<rparr>)"

definition build :: "execution_step list \<Rightarrow> step_graph result" where
  "build steps = (let ordered = sort_steps steps in
     case assertNoCycles ordered of Inl e \<Rightarrow> Inl e | Inr _ \<Rightarrow> Inr (classify_steps ordered ordered))"

section \<open>Scheduler\<close>

record scheduler_pick =
  pk_selected :: "execution_step list"
  pk_runningCount :: nat
  pk_runnableCount :: nat
  pk_blockedCount :: nat

definition pickNext :: "execution_step list \<Rightarrow> int \<Rightarrow> scheduler_pick result" where
  "pickNext steps concurrencyLimit = (case build steps of
     Inl e \<Rightarrow> Inl e
   | Inr graph \<Rightarrow>
       let runningCount = length (sg_running graph);
           availableSlots = max (concurrencyLimit - int runningCount) 0
       in Inr \<lparr>pk_selected = take (nat availableSlots) (sg_runnable graph), pk_runningCount = runningCount,
               pk_runnableCount = length (sg_runnable graph), pk_blockedCount = length (sg_blocked graph)\<rparr>)"

section \<open>Failure policy\<close>

definition failure_bucket :: "step_result \<Rightarrow> string" where
  "failure_bucket r = toLowerCase (getOrElse (sx_errorCode r) [] @ '' '' @ getOrElse (sx_errorMessage r) [])"

text \<open>The category of a failure and whether the step is retried.\<close>

definition classify_failure :: "execution_step \<Rightarrow> step_result \<Rightarrow> string \<times> bool" where
  "classify_failure step r = (let bucket = failure_bucket r in
     if str_includes bucket ''cancel'' then (''cancelled'', False)
     else if str_includes bucket ''timeout'' then (''timeout'', es_attemptCount step < es_maxAttempts step)
     else if str_includes bucket ''unsafe'' \<or> str_includes bucket ''non_idempotent'' \<or> str_includes bucket ''destructive''
     then (''unsafe'', False)
     else (''transient'', es_attemptCount step < es_maxAttempts step))"

section \<open>Recovery after a restart\<close>

definition json_nullish :: "json option \<Rightarrow> string" where
  "json_nullish v = (case v of None \<Rightarrow> [] | Some JNull \<Rightarrow> [] | Some x \<Rightarrow> js_string x)"

definition hasUnknownResult :: "execution_step \<Rightarrow> bool" where
  "hasUnknownResult step = (case jget (es_inputSnapshot step) ''resultDetail'' of
     Some (JObj detail) \<Rightarrow> toUpperCase (json_nullish (jget detail ''executionStatus'')) = ''UNKNOWN''
   | _ \<Rightarrow> False)"

definition isPotentiallyUnknownWriteStep :: "execution_step \<Rightarrow> bool" where
  "isPotentiallyUnknownWriteStep step = (let snapshot = es_inputSnapshot step in
     jget snapshot ''writeEffect'' = Some (JBool True)
     \<or> jget (asRecord (jget snapshot ''plan'')) ''writeEffect'' = Some (JBool True)
     \<or> (case jget snapshot ''actionType'' of Some (JStr s) \<Rightarrow> toLowerCase (trim s) = ''agent.plan.execute'' | _ \<Rightarrow> False))"

definition canResume :: "execution_step \<Rightarrow> bool" where
  "canResume step =
    (if es_status step = ''PENDING'' then \<not> hasUnknownResult step
     else if es_status step \<noteq> ''RUNNING'' then False
     else if hasUnknownResult step \<or> isPotentiallyUnknownWriteStep step then False
     else es_idempotent step \<noteq> Some False)"

record recovery_plan =
  ry_stepsToResume :: "execution_step list"
  ry_skippedStepIds :: "string list"
  ry_unknownStepIds :: "string list"

definition recovery_of :: "execution_step list \<Rightarrow> recovery_plan" where
  "recovery_of listed = (let steps = sort_steps listed in
     \<lparr>ry_stepsToResume = filter canResume steps,
      ry_skippedStepIds = map es_id (filter (\<lambda>s. es_status s = ''RUNNING'' \<and> es_idempotent s = Some False) steps),
      ry_unknownStepIds = map es_id (filter (\<lambda>s. es_status s = ''RUNNING'' \<and> isPotentiallyUnknownWriteStep s) steps)\<rparr>)"

section \<open>Domain service\<close>

definition transitionRun :: "string \<Rightarrow> string \<Rightarrow> unit result" where
  "transitionRun current nxt = (case assertTransition ExecutionRunMachine current nxt of
     Inl _ \<Rightarrow> Inl (AppError ''DEPLOYMENT_INVALID_STATE'') | Inr _ \<Rightarrow> Inr ())"

definition transitionStep :: "string \<Rightarrow> string \<Rightarrow> unit result" where
  "transitionStep current nxt = (case assertTransition ExecutionStepMachine current nxt of
     Inl _ \<Rightarrow> Inl (AppError ''DEPLOYMENT_INVALID_STATE'') | Inr _ \<Rightarrow> Inr ())"

definition assertRollbackAllowed :: "string \<Rightarrow> unit result" where
  "assertRollbackAllowed status =
    (if status \<in> set [''SUCCESS'', ''FAILED'', ''TIMEOUT''] then Inr () else Inl (AppError ''DEPLOYMENT_INVALID_STATE''))"

section \<open>The cycle check is exact\<close>

inductive grounded :: "execution_step list \<Rightarrow> int \<Rightarrow> bool" for ordered where
  "stepByNo ordered n = Some s \<Longrightarrow> \<forall>d \<in> set (getDependencies s ordered). grounded ordered d \<Longrightarrow> grounded ordered n"

inductive_cases groundedE: "grounded ordered n"

definition dep_edges :: "execution_step list \<Rightarrow> (int \<times> int) set" where
  "dep_edges ordered = {(d, n). \<exists>s. stepByNo ordered n = Some s \<and> d \<in> set (getDependencies s ordered)}"

lemma grounded_no_cycle: "grounded ordered n \<Longrightarrow> (n, n) \<notin> (dep_edges ordered)\<^sup>+"
proof (induction rule: grounded.induct)
  case (1 n s)
  show ?case
  proof
    assume "(n, n) \<in> (dep_edges ordered)\<^sup>+"
    then obtain d where d: "(n, d) \<in> (dep_edges ordered)\<^sup>*" "(d, n) \<in> dep_edges ordered" by (meson tranclD2)
    then have "(d, d) \<in> (dep_edges ordered)\<^sup>+" by (meson rtrancl_into_trancl2)
    moreover have "d \<in> set (getDependencies s ordered)" using d(2) 1(1) by (auto simp: dep_edges_def)
    ultimately show False using 1(2) by blast
  qed
qed

lemma visit_sound:
  "visit ordered visiting visited n = Inr v \<Longrightarrow> \<forall>m \<in> set visited. grounded ordered m
    \<Longrightarrow> n \<in> set v \<and> set visited \<subseteq> set v \<and> (\<forall>m \<in> set v. grounded ordered m)"
  "visit_all ordered visiting visited ds = Inr v \<Longrightarrow> \<forall>m \<in> set visited. grounded ordered m
    \<Longrightarrow> set ds \<subseteq> set v \<and> set visited \<subseteq> set v \<and> (\<forall>m \<in> set v. grounded ordered m)"
proof (induction ordered visiting visited n and ordered visiting visited ds arbitrary: v and v rule: visit_visit_all.induct)
  case (1 ordered visiting visited n)
  show ?case
  proof (cases "n \<in> set visited")
    case True
    then show ?thesis using 1(2,3) by (simp add: visit.simps)
  next
    case False
    then obtain s v' where s: "n \<notin> set visiting" "stepByNo ordered n = Some s"
      "visit_all ordered (n # visiting) visited (getDependencies s ordered) = Inr v'" "v = n # v'"
      using 1(2) by (subst (asm) visit.simps) (auto split: if_splits option.splits sum.splits)
    have "set (getDependencies s ordered) \<subseteq> set v' \<and> set visited \<subseteq> set v' \<and> (\<forall>m \<in> set v'. grounded ordered m)"
      using 1(1) [OF False s(1,2,3)] 1(3) by blast
    moreover from this have "grounded ordered n" using s(2) by (intro grounded.intros [of ordered n s]) auto
    ultimately show ?thesis using s(4) by auto
  qed
next
  case (2 ordered visiting visited)
  then show ?case by simp
next
  case (3 ordered visiting visited d ds)
  then obtain v' where v': "stepByNo ordered d \<noteq> None" "visit ordered visiting visited d = Inr v'"
    "visit_all ordered visiting v' ds = Inr v" by (auto split: if_splits sum.splits)
  then show ?case using 3(1) [OF v'(1,2)] 3(2) [OF v'(1,2,3)] 3(4) by auto
qed

lemma visit_complete:
  "grounded ordered n \<Longrightarrow> \<forall>m \<in> set visiting. (n, m) \<in> (dep_edges ordered)\<^sup>+ \<Longrightarrow> \<exists>v. visit ordered visiting visited n = Inr v"
  "\<forall>d \<in> set ds. grounded ordered d \<and> (\<forall>m \<in> set visiting. (d, m) \<in> (dep_edges ordered)\<^sup>+)
    \<Longrightarrow> \<exists>v. visit_all ordered visiting visited ds = Inr v"
proof (induction ordered visiting visited n and ordered visiting visited ds rule: visit_visit_all.induct)
  case (1 ordered visiting visited n)
  have free: "n \<notin> set visiting" using grounded_no_cycle [OF 1(2)] 1(3) by blast
  obtain s where s: "stepByNo ordered n = Some s" "\<forall>d \<in> set (getDependencies s ordered). grounded ordered d"
    using 1(2) by (auto elim: groundedE)
  have edge: "(d, n) \<in> dep_edges ordered" if "d \<in> set (getDependencies s ordered)" for d
    using that s(1) by (auto simp: dep_edges_def)
  have "(d, m) \<in> (dep_edges ordered)\<^sup>+" if "d \<in> set (getDependencies s ordered)" "m \<in> set (n # visiting)" for d m
    using edge [OF that(1)] that(2) 1(3) by (auto intro: trancl_into_trancl2)
  then have "\<exists>v. visit_all ordered (n # visiting) visited (getDependencies s ordered) = Inr v" if "n \<notin> set visited"
    using 1(1) [OF that free s(1)] s(2) by blast
  then show ?case using free s(1) by (subst visit.simps) auto
next
  case (2 ordered visiting visited)
  then show ?case by simp
next
  case (3 ordered visiting visited d ds)
  then have there: "stepByNo ordered d \<noteq> None" by (auto elim: groundedE)
  obtain v where v: "visit ordered visiting visited d = Inr v" using 3(1) [OF there] 3(3) by auto
  then show ?case using 3(2) [OF there v] 3(3) there by auto
qed

lemma assert_each_sound:
  "assert_each ordered visited ss = Inr () \<Longrightarrow> \<forall>m \<in> set visited. grounded ordered m \<Longrightarrow> \<forall>s \<in> set ss. grounded ordered (es_stepNo s)"
proof (induction ss arbitrary: visited)
  case Nil
  then show ?case by simp
next
  case (Cons s ss)
  then obtain v where v: "visit ordered [] visited (es_stepNo s) = Inr v" "assert_each ordered v ss = Inr ()"
    by (auto split: sum.splits)
  then show ?case using visit_sound(1) [OF v(1) Cons.prems(2)] Cons.IH [OF v(2)] by auto
qed

lemma assert_each_complete: "\<forall>s \<in> set ss. grounded ordered (es_stepNo s) \<Longrightarrow> assert_each ordered visited ss = Inr ()"
proof (induction ss arbitrary: visited)
  case Nil
  then show ?case by simp
next
  case (Cons s ss)
  then obtain v where "visit ordered [] visited (es_stepNo s) = Inr v" using visit_complete(1) [of ordered "es_stepNo s" "[]" visited] by auto
  then show ?case using Cons by auto
qed

lemma stepByNo_Some: "stepByNo ordered n = Some s \<Longrightarrow> s \<in> set ordered \<and> es_stepNo s = n"
  by (auto simp: stepByNo_def dest: find_Some_iff_first)

lemma stepByNo_None: "stepByNo ordered n = None \<longleftrightarrow> n \<notin> es_stepNo ` set ordered"
  by (auto simp: stepByNo_def find_None_iff_all)

lemma finite_dep_edges: "finite (dep_edges ordered)"
proof -
  have "dep_edges ordered \<subseteq> (\<Union>s \<in> set ordered. (\<lambda>d. (d, es_stepNo s)) ` set (getDependencies s ordered))"
    by (auto simp: dep_edges_def dest!: stepByNo_Some)
  then show ?thesis by (rule finite_subset) simp
qed

lemma grounded_iff_acyclic:
  "(\<forall>s \<in> set ordered. grounded ordered (es_stepNo s)) \<longleftrightarrow>
   acyclic (dep_edges ordered) \<and> fst ` dep_edges ordered \<subseteq> es_stepNo ` set ordered"
proof
  assume all: "\<forall>s \<in> set ordered. grounded ordered (es_stepNo s)"
  have "(n, n) \<notin> (dep_edges ordered)\<^sup>+" for n
  proof
    assume cyc: "(n, n) \<in> (dep_edges ordered)\<^sup>+"
    then obtain d where "(d, n) \<in> dep_edges ordered" by (meson tranclD2)
    then have "grounded ordered n" using all by (auto simp: dep_edges_def dest!: stepByNo_Some)
    then show False using grounded_no_cycle cyc by blast
  qed
  moreover have "d \<in> es_stepNo ` set ordered" if e: "(d, n) \<in> dep_edges ordered" for d n
  proof -
    obtain s where s: "stepByNo ordered n = Some s" "d \<in> set (getDependencies s ordered)" using e by (auto simp: dep_edges_def)
    then have "grounded ordered n" using all stepByNo_Some by blast
    then have "grounded ordered d" using s by (auto elim: groundedE)
    then show ?thesis by (rule groundedE) (auto dest!: stepByNo_Some)
  qed
  ultimately show "acyclic (dep_edges ordered) \<and> fst ` dep_edges ordered \<subseteq> es_stepNo ` set ordered"
    by (auto simp: acyclic_def)
next
  assume "acyclic (dep_edges ordered) \<and> fst ` dep_edges ordered \<subseteq> es_stepNo ` set ordered"
  then have wf: "wf (dep_edges ordered)" and closed: "\<And>d n. (d, n) \<in> dep_edges ordered \<Longrightarrow> d \<in> es_stepNo ` set ordered"
    using finite_dep_edges finite_acyclic_wf by (blast, force)
  have "n \<in> es_stepNo ` set ordered \<longrightarrow> grounded ordered n" for n
    using wf
  proof (induction n rule: wf_induct_rule)
    case (less n)
    show ?case
    proof
      assume "n \<in> es_stepNo ` set ordered"
      then obtain s where s: "stepByNo ordered n = Some s" using stepByNo_None by blast
      then have "grounded ordered d" if "d \<in> set (getDependencies s ordered)" for d
        using less [of d] closed [of d n] that by (auto simp: dep_edges_def)
      then show "grounded ordered n" using s by (auto intro: grounded.intros)
    qed
  qed
  then show "\<forall>s \<in> set ordered. grounded ordered (es_stepNo s)" by blast
qed

lemma assertNoCycles_iff: "assertNoCycles ordered = Inr () \<longleftrightarrow> (\<forall>s \<in> set ordered. grounded ordered (es_stepNo s))"
  using assert_each_sound [of ordered "[]" ordered] assert_each_complete [of ordered ordered "[]"] by (auto simp: assertNoCycles_def)

section \<open>The graph and the pick\<close>

lemma classify_fields:
  "sg_running (classify_steps ordered ss) = filter (\<lambda>s. es_status s = ''RUNNING'') ss"
  "sg_terminal (classify_steps ordered ss) = filter (\<lambda>s. isTerminal (es_status s)) ss"
  "sg_runnable (classify_steps ordered ss) = filter (\<lambda>s. es_status s = ''PENDING'' \<and> satisfied ordered s) ss"
  "sg_blocked (classify_steps ordered ss) = filter (\<lambda>s. es_status s \<noteq> ''RUNNING'' \<and> \<not> isTerminal (es_status s)
     \<and> (es_status s = ''PENDING'' \<longrightarrow> \<not> satisfied ordered s)) ss"
  by (induction ss) (auto simp: Let_def isTerminal_def)

lemma set_sort_steps [simp]: "set (sort_steps steps) = set steps"
  by (simp add: sort_steps_def)

lemma mset_sort_steps [simp]: "mset (sort_steps steps) = mset steps"
  by (simp add: sort_steps_def)

lemma length_filter_sort_steps [simp]: "length (filter p (sort_steps steps)) = length (filter p steps)"
  by (metis mset_filter mset_sort_steps size_mset)

lemma sorted_sort_steps: "sorted (map es_stepNo (sort_steps steps))"
proof -
  have "sorted_wrt (\<lambda>a b. \<not> es_stepNo b < es_stepNo a) (sort_steps steps)"
    unfolding sort_steps_def by (rule sorted_sort_by) auto
  then show ?thesis by (simp add: sorted_map not_less)
qed

lemma build_iff:
  "build steps = Inr g \<longleftrightarrow> (\<forall>s \<in> set steps. grounded (sort_steps steps) (es_stepNo s))
     \<and> g = classify_steps (sort_steps steps) (sort_steps steps)"
  using assertNoCycles_iff [of "sort_steps steps"] by (auto simp: build_def Let_def split: sum.splits)

lemma visit_error:
  "visit ordered visiting visited n = Inl e \<Longrightarrow> e = AppError ''VALIDATION_FAILED''"
  "visit_all ordered visiting visited ds = Inl e \<Longrightarrow> e = AppError ''VALIDATION_FAILED''"
proof (induction ordered visiting visited n and ordered visiting visited ds rule: visit_visit_all.induct)
  case (1 ordered visiting visited n)
  then show ?case by (simp add: visit.simps [of ordered visiting visited n] split: if_splits option.splits sum.splits)
qed (auto split: if_splits sum.splits)

lemma assert_each_error: "assert_each ordered visited ss = Inl e \<Longrightarrow> e = AppError ''VALIDATION_FAILED''"
  by (induction ss arbitrary: visited) (auto dest: visit_error split: sum.splits)

lemma pickNext_fields:
  assumes "pickNext steps limit = Inr p"
  shows "\<exists>g. build steps = Inr g \<and> pk_selected p = take (nat (limit - int (length (sg_running g)))) (sg_runnable g)
    \<and> pk_runningCount p = length (sg_running g)"
proof -
  have "nat (max x 0) = nat x" for x :: int by simp
  then show ?thesis using assms by (auto simp: pickNext_def Let_def split: sum.splits)
qed

section \<open>Progress\<close>

text \<open>The steps of a batch end with success, told apart by their numbers.\<close>

definition finish_batch :: "execution_step list \<Rightarrow> execution_step list \<Rightarrow> execution_step list" where
  "finish_batch batch steps = map (\<lambda>s. if es_stepNo s \<in> es_stepNo ` set batch then s\<lparr>es_status := ''SUCCESS''\<rparr> else s) steps"

text \<open>Batches picked and finished one after the other.\<close>

fun drive :: "nat \<Rightarrow> int \<Rightarrow> execution_step list \<Rightarrow> execution_step list result" where
  "drive 0 limit steps = Inr steps"
| "drive (Suc k) limit steps = (case pickNext steps limit of
     Inl e \<Rightarrow> Inl e | Inr p \<Rightarrow> drive k limit (finish_batch (pk_selected p) steps))"

definition pending_steps :: "execution_step list \<Rightarrow> execution_step list" where
  "pending_steps steps = filter (\<lambda>s. es_status s = ''PENDING'') steps"

text \<open>No step has failed, runs or waits for something other than its dependencies.\<close>

definition undisturbed :: "execution_step list \<Rightarrow> bool" where
  "undisturbed steps \<longleftrightarrow> distinct (map es_stepNo steps) \<and> (\<forall>s \<in> set steps. es_status s \<in> {''PENDING'', ''SUCCESS'', ''SKIPPED''})"

lemma stepByNo_unique:
  assumes "distinct (map es_stepNo ordered)" and "s \<in> set ordered"
  shows "stepByNo ordered (es_stepNo s) = Some s"
  unfolding stepByNo_def using assms by (intro find_unique) (simp_all add: distinct_map)

lemma distinct_sort_steps: "distinct (map es_stepNo steps) \<Longrightarrow> distinct (map es_stepNo (sort_steps steps))"
  by (metis mset_eq_imp_distinct_iff mset_map mset_sort_steps)

lemma pending_has_runnable:
  assumes g: "grounded ordered n" and s: "stepByNo ordered n = Some s" "es_status s = ''PENDING''"
    and calm: "undisturbed ordered"
  shows "\<exists>r \<in> set ordered. es_status r = ''PENDING'' \<and> satisfied ordered r"
  using g s
proof (induction arbitrary: s rule: grounded.induct)
  case (1 n s')
  show ?case
  proof (cases "satisfied ordered s")
    case True
    then show ?thesis using 1(4) stepByNo_Some [OF 1(3)] by blast
  next
    case False
    then obtain d where d: "d \<in> set (getDependencies s ordered)"
      "\<not> terminalSatisfied (case stepByNo ordered d of None \<Rightarrow> ''FAILED'' | Some s \<Rightarrow> es_status s)" by (auto simp: satisfied_def)
    have gd: "grounded ordered d" using 1(1,2,3) d(1) by auto
    then obtain t where t: "stepByNo ordered d = Some t" by (auto elim: groundedE)
    then have "es_status t = ''PENDING''"
      using d(2) calm stepByNo_Some [OF t] by (auto simp: undisturbed_def terminalSatisfied_def)
    then show ?thesis using 1(1,2,3) d(1) t by auto
  qed
qed

lemma pick_progress:
  assumes "build steps = Inr g" and calm: "undisturbed steps" and "pending_steps steps \<noteq> []" and "0 < limit"
  shows "\<exists>p. pickNext steps limit = Inr p \<and> pk_selected p \<noteq> []"
proof -
  let ?o = "sort_steps steps"
  have oc: "undisturbed ?o" using calm distinct_sort_steps by (simp add: undisturbed_def)
  obtain s where s: "s \<in> set steps" "es_status s = ''PENDING''"
    using assms(3) by (auto simp: pending_steps_def filter_empty_conv)
  have "stepByNo ?o (es_stepNo s) = Some s" using oc s(1) by (intro stepByNo_unique) (auto simp: undisturbed_def)
  then obtain r where "r \<in> set ?o" "es_status r = ''PENDING''" "satisfied ?o r"
    using pending_has_runnable [OF _ _ s(2) oc] assms(1) s(1) by (auto simp: build_iff)
  moreover have "sg_runnable g = filter (\<lambda>s. es_status s = ''PENDING'' \<and> satisfied ?o s) ?o"
    using assms(1) by (simp add: build_iff classify_fields)
  ultimately have "sg_runnable g \<noteq> []" by (auto simp: filter_empty_conv)
  moreover have "sg_running g = []"
    using assms(1) calm by (auto simp: build_iff classify_fields filter_empty_conv undisturbed_def)
  ultimately show ?thesis using assms(1,4) by (simp add: pickNext_def Let_def)
qed

text \<open>A batch that ends changes neither the order nor the dependencies.\<close>

lemma sort_steps_finish: "sort_steps (finish_batch batch steps) = finish_batch batch (sort_steps steps)"
  unfolding sort_steps_def finish_batch_def by (rule sort_by_map) simp

lemma find_map_same:
  "(\<And>x. p (f x) = p x) \<Longrightarrow> find p (map f xs) = map_option f (find p xs)"
  by (induction xs) auto

lemma stepByNo_finish:
  "stepByNo (finish_batch batch ordered) n =
    map_option (\<lambda>s. if es_stepNo s \<in> es_stepNo ` set batch then s\<lparr>es_status := ''SUCCESS''\<rparr> else s) (stepByNo ordered n)"
  unfolding stepByNo_def finish_batch_def rev_map by (rule find_map_same) simp

lemma getDependencies_finish:
  "getDependencies (if b then s\<lparr>es_status := x\<rparr> else s) (finish_batch batch ordered) = getDependencies s ordered"
proof -
  let ?f = "\<lambda>s. if es_stepNo s \<in> es_stepNo ` set batch then s\<lparr>es_status := ''SUCCESS''\<rparr> else s"
  let ?p = "\<lambda>c. es_stepNo c < es_stepNo s \<and> es_deploymentPlanTargetId c = es_deploymentPlanTargetId s"
  have "filter ?p (map ?f ordered) = map ?f (filter ?p ordered)" by (simp add: filter_map comp_def if_distrib cong: if_cong)
  then have "sort_by (\<lambda>a b. es_stepNo b < es_stepNo a) (filter ?p (finish_batch batch ordered))
      = map ?f (sort_by (\<lambda>a b. es_stepNo b < es_stepNo a) (filter ?p ordered))"
    by (simp only: finish_batch_def) (rule sort_by_map, simp)
  then show ?thesis by (auto simp: getDependencies_def split: list.splits)
qed

lemma grounded_finish: "grounded ordered n \<Longrightarrow> grounded (finish_batch batch ordered) n"
proof (induction rule: grounded.induct)
  case (1 n s)
  then show ?case
    by (intro grounded.intros [OF stepByNo_finish [of batch ordered n, unfolded 1(1) option.map(2)]]) (simp add: getDependencies_finish)
qed

lemma finish_batch_undisturbed: "undisturbed steps \<Longrightarrow> undisturbed (finish_batch batch steps)"
  by (auto simp: undisturbed_def finish_batch_def comp_def if_distrib cong: if_cong)

lemma build_finish:
  assumes "build steps = Inr g"
  shows "\<exists>g'. build (finish_batch batch steps) = Inr g'"
proof -
  have "\<forall>s \<in> set (finish_batch batch steps). grounded (finish_batch batch (sort_steps steps)) (es_stepNo s)"
    using assms grounded_finish by (auto simp: build_iff finish_batch_def)
  then show ?thesis by (auto simp: build_iff sort_steps_finish)
qed

lemma finish_batch_pending:
  assumes "batch \<noteq> []" and "set batch \<subseteq> set (pending_steps steps)"
  shows "length (pending_steps (finish_batch batch steps)) < length (pending_steps steps)"
proof -
  have eq: "pending_steps (finish_batch batch steps) = filter (\<lambda>s. es_stepNo s \<notin> es_stepNo ` set batch) (pending_steps steps)"
    by (induction steps) (auto simp: pending_steps_def finish_batch_def)
  obtain b where "b \<in> set batch" using assms(1) by (cases batch) auto
  then have "b \<in> set (pending_steps steps)" "\<not> es_stepNo b \<notin> es_stepNo ` set batch" using assms(2) by auto
  then show ?thesis unfolding eq by (rule length_filter_less)
qed

lemma picked_pending:
  assumes "pickNext steps limit = Inr p"
  shows "set (pk_selected p) \<subseteq> set (pending_steps steps)"
  using pickNext_fields [OF assms] by (auto simp: build_iff classify_fields pending_steps_def dest!: in_set_takeD)

lemma drive_completes:
  assumes "build steps = Inr g" and "undisturbed steps" and "0 < limit" and "length (pending_steps steps) \<le> k"
  shows "\<exists>done. drive k limit steps = Inr done \<and> map es_stepNo done = map es_stepNo steps
    \<and> (\<forall>s \<in> set done. es_status s \<in> {''SUCCESS'', ''SKIPPED''})"
  using assms
proof (induction k arbitrary: steps g)
  case 0
  then show ?case by (auto simp: undisturbed_def pending_steps_def filter_empty_conv)
next
  case (Suc k)
  obtain p where p: "pickNext steps limit = Inr p" using Suc.prems(1) by (auto simp: pickNext_def Let_def)
  let ?next = "finish_batch (pk_selected p) steps"
  obtain g' where g': "build ?next = Inr g'" using build_finish [OF Suc.prems(1)] by blast
  have "length (pending_steps ?next) \<le> k"
  proof (cases "pending_steps steps = []")
    case True
    then have "pk_selected p = []" using picked_pending [OF p] by simp
    then show ?thesis using True by (simp add: finish_batch_def)
  next
    case False
    then have "pk_selected p \<noteq> []" using pick_progress [OF Suc.prems(1,2) False Suc.prems(3)] p by auto
    then show ?thesis using finish_batch_pending [OF _ picked_pending [OF p]] Suc.prems(4) by fastforce
  qed
  moreover have "map es_stepNo ?next = map es_stepNo steps" by (simp add: finish_batch_def comp_def if_distrib cong: if_cong)
  ultimately show ?case
    using Suc.IH [OF g' finish_batch_undisturbed [OF Suc.prems(2)] Suc.prems(3)] p by simp
qed

section \<open>Properties\<close>

definition sample_step :: "int \<Rightarrow> int list \<Rightarrow> string \<Rightarrow> execution_step" where
  "sample_step n deps status =
    \<lparr>es_id = [], es_tenantId = None, es_executionRunId = ''run'', es_deploymentPlanTargetId = Some ''t'', es_stepNo = n,
     es_stepType = ''INSTALL'', es_name = [], es_dependsOn = Some deps, es_idempotent = None, es_attemptCount = 0, es_maxAttempts = 1,
     es_lastFailureCategory = None, es_lastErrorCode = None, es_lastErrorMessage = None, es_lastErrorDetails = None,
     es_inputSnapshot = [(''writeEffect'', JBool True)], es_status = status, es_startedAt = None, es_finishedAt = None, es_createdAt = 0,
     es_updatedAt = 0, es_createdBy = None, es_updatedBy = None, es_version = 1\<rparr>"

definition sample_steps :: "execution_step list" where
  "sample_steps = [sample_step 3 [1, 2] ''PENDING'', sample_step 1 [] ''PENDING'', sample_step 2 [1] ''PENDING'']"

lemma sample_build:
  "\<exists>g. build sample_steps = Inr g \<and> sg_runnable g = [sample_step 1 [] ''PENDING'']"
  by (simp add: build_def sample_steps_def sort_steps_def sample_step_def assertNoCycles_def visit.simps stepByNo_def
      getDependencies_def satisfied_def terminalSatisfied_def isTerminal_def Let_def)

text \<open>C9. The step graph is built exactly when it should be. \<open>build\<close> refuses the steps of a run, with
  \<open>VALIDATION_FAILED\<close>, if and only if their dependencies have a cycle or name a step that does not
  exist. Otherwise it sorts the steps by number into those that run, those that have ended, those that
  wait and have every dependency ended with success or skipped, and the rest.\<close>

theorem step_graph_exact:
  "build steps = (let ordered = sort_steps steps in
     if acyclic (dep_edges ordered) \<and> fst ` dep_edges ordered \<subseteq> es_stepNo ` set steps
     then Inr \<lparr>sg_runnable = filter (\<lambda>s. es_status s = ''PENDING'' \<and> satisfied ordered s) ordered,
               sg_blocked = filter (\<lambda>s. \<not> (es_status s = ''PENDING'' \<and> satisfied ordered s) \<and> es_status s \<noteq> ''RUNNING''
                 \<and> es_status s \<notin> {''SUCCESS'', ''FAILED'', ''TIMEOUT'', ''SKIPPED''}) ordered,
               sg_running = filter (\<lambda>s. es_status s = ''RUNNING'') ordered,
               sg_terminal = filter (\<lambda>s. es_status s \<in> {''SUCCESS'', ''FAILED'', ''TIMEOUT'', ''SKIPPED''}) ordered\<rparr>
     else Inl (AppError ''VALIDATION_FAILED''))"
proof (cases "\<exists>g. build steps = Inr g")
  case True
  then obtain g where g: "build steps = Inr g" by blast
  have "filter (\<lambda>s. \<not> (es_status s = ''PENDING'' \<and> satisfied xs s) \<and> es_status s \<noteq> ''RUNNING'' \<and> \<not> isTerminal (es_status s)) xs
      = sg_blocked (classify_steps xs xs)" for xs
    unfolding classify_fields by (rule filter_cong) auto
  then show ?thesis
    using g grounded_iff_acyclic [of "sort_steps steps"]
    by (simp add: build_iff Let_def classify_fields(1-3) [symmetric] isTerminal_def [symmetric, simplified])
next
  case False
  then have "\<not> (acyclic (dep_edges (sort_steps steps)) \<and> fst ` dep_edges (sort_steps steps) \<subseteq> es_stepNo ` set steps)"
    using grounded_iff_acyclic [of "sort_steps steps"] by (simp add: build_iff) blast
  moreover obtain e where "build steps = Inl e" using False by (cases "build steps") auto
  moreover from this have "e = AppError ''VALIDATION_FAILED''"
    by (auto simp: build_def Let_def assertNoCycles_def dest: assert_each_error split: sum.splits)
  ultimately show ?thesis by (auto simp: Let_def)
qed

text \<open>The scheduler starts only what may start. The steps \<open>pickNext\<close> selects are waiting steps of the run,
  in the order of their numbers, every step they depend on exists and ended with success or was
  skipped, and together with the running steps they stay within the concurrency limit.\<close>

theorem pick_is_safe:
  assumes "pickNext steps limit = Inr p"
  shows "set (pk_selected p) \<subseteq> set steps \<and> sorted (map es_stepNo (pk_selected p))
    \<and> (\<forall>s \<in> set (pk_selected p). es_status s = ''PENDING''
        \<and> (\<forall>d \<in> set (getDependencies s (sort_steps steps)). \<exists>t \<in> set steps. es_stepNo t = d \<and> es_status t \<in> {''SUCCESS'', ''SKIPPED''}))
    \<and> pk_runningCount p = length (filter (\<lambda>s. es_status s = ''RUNNING'') steps)
    \<and> int (pk_runningCount p + length (pk_selected p)) \<le> max limit (int (pk_runningCount p))"
proof -
  obtain g where g: "build steps = Inr g" "pk_runningCount p = length (sg_running g)"
    and sel: "pk_selected p = take (nat (limit - int (length (sg_running g)))) (sg_runnable g)"
    using pickNext_fields [OF assms] by blast
  have run: "sg_runnable g = filter (\<lambda>s. es_status s = ''PENDING'' \<and> satisfied (sort_steps steps) s) (sort_steps steps)"
    and running: "sg_running g = filter (\<lambda>s. es_status s = ''RUNNING'') (sort_steps steps)"
    using g(1) by (simp_all add: build_iff classify_fields)
  have mem: "s \<in> set steps \<and> es_status s = ''PENDING'' \<and> satisfied (sort_steps steps) s" if "s \<in> set (pk_selected p)" for s
    using that run by (auto simp: sel dest!: in_set_takeD)
  have deps: "\<exists>t \<in> set steps. es_stepNo t = d \<and> es_status t \<in> {''SUCCESS'', ''SKIPPED''}"
    if s: "satisfied (sort_steps steps) s" "d \<in> set (getDependencies s (sort_steps steps))" for s d
  proof -
    have "terminalSatisfied (case stepByNo (sort_steps steps) d of None \<Rightarrow> ''FAILED'' | Some s \<Rightarrow> es_status s)"
      using s by (simp add: satisfied_def)
    then show ?thesis by (auto simp: terminalSatisfied_def split: option.splits dest!: stepByNo_Some)
  qed
  have "sorted (map es_stepNo (sg_runnable g))"
    unfolding run using sorted_sort_steps [of steps] by (intro sorted_filter)
  then have "sorted (map es_stepNo (pk_selected p))" unfolding sel by (simp add: sorted_wrt_take take_map [symmetric])
  moreover have "int (pk_runningCount p + length (pk_selected p)) \<le> max limit (int (pk_runningCount p))"
    using g(2) by (simp add: sel)
  ultimately show ?thesis using mem deps g(2) running by (intro conjI subsetI ballI) (blast, assumption, blast, blast, simp, assumption)
qed

theorem pick_is_safe_witness:
  "\<exists>p. pickNext sample_steps 2 = Inr p \<and> pk_selected p = [sample_step 1 [] ''PENDING''] \<and> sorted (map es_stepNo (pk_selected p))"
proof -
  obtain g where "build sample_steps = Inr g" "sg_runnable g = [sample_step 1 [] ''PENDING'']" using sample_build by blast
  moreover from this have "sg_running g = []"
    by (auto simp: build_iff classify_fields filter_empty_conv) (auto simp: sample_steps_def sample_step_def)
  ultimately obtain p where "pickNext sample_steps 2 = Inr p" "pk_selected p = [sample_step 1 [] ''PENDING'']"
    by (simp add: pickNext_def Let_def)
  then show ?thesis using pick_is_safe [of sample_steps 2 p] by auto
qed

text \<open>C19. No deadlock. When the graph is accepted, step numbers are unique, nothing has failed or hangs and the
  concurrency limit is positive, picking a batch and letting it succeed, at most once for each waiting
  step, ends every step of the run.\<close>

theorem schedule_completes:
  assumes "build steps = Inr g" and "distinct (map es_stepNo steps)"
    and "\<forall>s \<in> set steps. es_status s \<in> {''PENDING'', ''SUCCESS'', ''SKIPPED''}"
    and "0 < limit" and "length (pending_steps steps) \<le> k"
  shows "\<exists>done. drive k limit steps = Inr done \<and> map es_stepNo done = map es_stepNo steps
    \<and> (\<forall>s \<in> set done. es_status s \<in> {''SUCCESS'', ''SKIPPED''})"
  using assms by (intro drive_completes [of steps g]) (simp_all add: undisturbed_def)

theorem schedule_completes_witness:
  "\<exists>done. drive 3 1 sample_steps = Inr done \<and> map es_stepNo done = [3, 1, 2]"
proof -
  obtain g where g: "build sample_steps = Inr g" using sample_build by blast
  have "distinct (map es_stepNo sample_steps)" "\<forall>s \<in> set sample_steps. es_status s \<in> {''PENDING'', ''SUCCESS'', ''SKIPPED''}"
    "length (pending_steps sample_steps) \<le> 3" by (simp_all add: sample_steps_def sample_step_def pending_steps_def)
  then show ?thesis using schedule_completes [OF g, of 1 3] by (auto simp: sample_steps_def sample_step_def)
qed

text \<open>Recovery replays no write. After a restart a step is taken up again only if it is waiting, or was
  running, may run twice and cannot have written anything; never if its result is recorded as unknown.
  Every running step that may have written is reported as unknown.\<close>

theorem recovery_spares_unknown_writes:
  "set (ry_stepsToResume (recovery_of steps)) = {s \<in> set steps. \<not> hasUnknownResult s \<and>
      (es_status s = ''PENDING'' \<or> es_status s = ''RUNNING'' \<and> es_idempotent s \<noteq> Some False \<and> \<not> isPotentiallyUnknownWriteStep s)}
   \<and> set (ry_unknownStepIds (recovery_of steps)) = es_id ` {s \<in> set steps. es_status s = ''RUNNING'' \<and> isPotentiallyUnknownWriteStep s}"
  by (auto simp: recovery_of_def Let_def canResume_def)

end
