(* ===== verification/ResourceLocks.thy ===== *)
theory ResourceLocks
  imports Prelude
begin

text \<open>
  Locks on devices and managed targets, \<open>backend/src/modules/executions/application/plugin-resource-lock.service.ts\<close>.

  The table \<open>plugin_resource_locks\<close> is the list of its rows, with its primary key and the unique key on tenant,
  resource and owner. \<open>now\<close> is the clock of the service and \<open>i\<close> the random part of a new identifier.
  \<open>acquire\<close> is one transaction; the step relation runs the operations one after the other, at times that do
  not decrease, as on the single connection of \<open>PgliteDatabase\<close>.
\<close>

section \<open>State\<close>

datatype LockMode = LockRead | LockWrite

record resource_lock =
  lk_id :: string
  lk_tenantId :: string
  lk_resourceKey :: string
  lk_mode :: LockMode
  lk_ownerRunId :: string
  lk_ownerStepId :: string
  lk_fencingToken :: int
  lk_expiresAt :: instant
  lk_createdAt :: instant
  lk_updatedAt :: instant

type_synonym lock_table = "resource_lock list"

record lock_input =
  li_tenantId :: string
  li_resourceKey :: string
  li_mode :: LockMode
  li_ownerRunId :: string
  li_ownerStepId :: string
  li_ttlSeconds :: int

section \<open>Operations\<close>

text \<open>\<open>/^tenant:[^:]+:(device|managed-target|standalone):[^:]+$/\<close>\<close>

definition key_format :: "string \<Rightarrow> bool" where
  "key_format key = (case split_on (CHR '':'') key of
     [a, b, c, d] \<Rightarrow> a = ''tenant'' \<and> b \<noteq> [] \<and> c \<in> set [''device'', ''managed-target'', ''standalone''] \<and> d \<noteq> []
   | _ \<Rightarrow> False)"

definition valid_ttl :: "int \<Rightarrow> bool" where
  "valid_ttl ttl \<longleftrightarrow> \<not> (ttl < 5 \<or> ttl > 3600)"

definition validateLockInput :: "lock_input \<Rightarrow> unit result" where
  "validateLockInput inp =
    (if trim (li_tenantId inp) = [] \<or> trim (li_resourceKey inp) = [] then Inl (AppError ''VALIDATION_FAILED'')
     else if \<not> key_format (li_resourceKey inp) then Inl (AppError ''VALIDATION_FAILED'')
     else if \<not> valid_ttl (li_ttlSeconds inp) then Inl (AppError ''VALIDATION_FAILED'')
     else Inr ())"

definition same_resource :: "string \<Rightarrow> string \<Rightarrow> resource_lock \<Rightarrow> bool" where
  "same_resource tenantId key r \<longleftrightarrow> lk_tenantId r = tenantId \<and> lk_resourceKey r = key"

definition owned_by :: "lock_input \<Rightarrow> resource_lock \<Rightarrow> bool" where
  "owned_by inp r \<longleftrightarrow> same_resource (li_tenantId inp) (li_resourceKey inp) r
     \<and> lk_ownerRunId r = li_ownerRunId inp \<and> lk_ownerStepId r = li_ownerStepId inp"

definition active_locks :: "instant \<Rightarrow> string \<Rightarrow> string \<Rightarrow> lock_table \<Rightarrow> lock_table" where
  "active_locks now tenantId key d = filter (\<lambda>r. same_resource tenantId key r \<and> now < lk_expiresAt r) d"

definition conflicts :: "LockMode \<Rightarrow> lock_table \<Rightarrow> bool" where
  "conflicts mode active \<longleftrightarrow> (if mode = LockWrite then active \<noteq> [] else \<exists>r \<in> set active. lk_mode r = LockWrite)"

definition next_token :: "string \<Rightarrow> string \<Rightarrow> lock_table \<Rightarrow> int" where
  "next_token tenantId key d = (case map lk_fencingToken (filter (same_resource tenantId key) d) of
     [] \<Rightarrow> 0 | t # ts \<Rightarrow> fold max ts t) + 1"

definition insert_lock :: "resource_lock \<Rightarrow> lock_table \<Rightarrow> lock_table result" where
  "insert_lock r d =
    (if \<exists>x \<in> set d. lk_id x = lk_id r \<or> (same_resource (lk_tenantId r) (lk_resourceKey r) x
          \<and> lk_ownerRunId x = lk_ownerRunId r \<and> lk_ownerStepId x = lk_ownerStepId r)
     then Inl (DbError ''23505'') else Inr (d @ [r]))"

definition new_lock :: "instant \<Rightarrow> string \<Rightarrow> lock_input \<Rightarrow> lock_table \<Rightarrow> resource_lock" where
  "new_lock now i inp d = \<lparr>lk_id = ''plock_'' @ i, lk_tenantId = li_tenantId inp, lk_resourceKey = li_resourceKey inp,
     lk_mode = li_mode inp, lk_ownerRunId = li_ownerRunId inp, lk_ownerStepId = li_ownerStepId inp,
     lk_fencingToken = next_token (li_tenantId inp) (li_resourceKey inp) d,
     lk_expiresAt = now + li_ttlSeconds inp * 1000, lk_createdAt = now, lk_updatedAt = now\<rparr>"

definition without_own :: "lock_input \<Rightarrow> lock_table \<Rightarrow> lock_table" where
  "without_own inp d = filter (\<lambda>x. case find (owned_by inp) d of None \<Rightarrow> True | Some r \<Rightarrow> lk_id x \<noteq> lk_id r) d"

definition acquire :: "instant \<Rightarrow> string \<Rightarrow> lock_input \<Rightarrow> lock_table \<Rightarrow> (resource_lock \<times> lock_table) result" where
  "acquire now i inp d = (case validateLockInput inp of
     Inl e \<Rightarrow> Inl e
   | Inr _ \<Rightarrow>
       if (case find (owned_by inp) d of None \<Rightarrow> False | Some r \<Rightarrow> now < lk_expiresAt r) then Inr (the (find (owned_by inp) d), d)
       else if conflicts (li_mode inp) (active_locks now (li_tenantId inp) (li_resourceKey inp) d)
       then Inl (AppError ''RESOURCE_VERSION_CONFLICT'')
       else (case insert_lock (new_lock now i inp d) (without_own inp d) of
               Inl e \<Rightarrow> Inl e | Inr d2 \<Rightarrow> Inr (new_lock now i inp d, d2)))"

definition lock_of :: "string \<Rightarrow> string \<Rightarrow> string \<Rightarrow> string \<Rightarrow> resource_lock \<Rightarrow> bool" where
  "lock_of tenantId lockId ownerRunId ownerStepId r \<longleftrightarrow>
     lk_tenantId r = tenantId \<and> lk_id r = lockId \<and> lk_ownerRunId r = ownerRunId \<and> lk_ownerStepId r = ownerStepId"

definition renew ::
  "instant \<Rightarrow> string \<Rightarrow> string \<Rightarrow> string \<Rightarrow> string \<Rightarrow> int \<Rightarrow> lock_table \<Rightarrow> (resource_lock \<times> lock_table) result" where
  "renew now tenantId lockId ownerRunId ownerStepId ttlSeconds d =
    (if \<not> valid_ttl ttlSeconds then Inl (AppError ''VALIDATION_FAILED'')
     else
       let p = (\<lambda>r. lock_of tenantId lockId ownerRunId ownerStepId r \<and> now < lk_expiresAt r);
           f = (\<lambda>r. r\<lparr>lk_expiresAt := now + ttlSeconds * 1000, lk_updatedAt := now\<rparr>)
       in (case find p d of
             None \<Rightarrow> Inl (AppError ''RESOURCE_VERSION_CONFLICT'')
           | Some r \<Rightarrow> Inr (f r, upd_where p f d)))"

definition release_lock :: "string \<Rightarrow> string \<Rightarrow> string \<Rightarrow> string \<Rightarrow> lock_table \<Rightarrow> lock_table" where
  "release_lock tenantId lockId ownerRunId ownerStepId d = filter (\<lambda>r. \<not> lock_of tenantId lockId ownerRunId ownerStepId r) d"

section \<open>Exclusion\<close>

text \<open>The operations at times that do not decrease; a call that fails changes nothing.\<close>

inductive lock_step :: "instant \<times> lock_table \<Rightarrow> instant \<times> lock_table \<Rightarrow> bool" where
  step_acquire: "t \<le> now \<Longrightarrow> acquire now i inp d = Inr (r, d') \<Longrightarrow> lock_step (t, d) (now, d')"
| step_renew: "t \<le> now \<Longrightarrow> renew now ten l run stp ttl d = Inr (r, d') \<Longrightarrow> lock_step (t, d) (now, d')"
| step_release: "t \<le> now \<Longrightarrow> lock_step (t, d) (now, release_lock ten l run stp d)"
| step_time: "t \<le> now \<Longrightarrow> lock_step (t, d) (now, d)"

inductive_cases lock_stepE: "lock_step s s'"

definition exclusive :: "instant \<Rightarrow> lock_table \<Rightarrow> bool" where
  "exclusive now d \<longleftrightarrow> (\<forall>a \<in> set d. \<forall>b \<in> set d. lk_id a \<noteq> lk_id b \<and> lk_tenantId a = lk_tenantId b \<and> lk_resourceKey a = lk_resourceKey b
     \<and> now < lk_expiresAt a \<and> now < lk_expiresAt b \<longrightarrow> lk_mode a = LockRead \<and> lk_mode b = LockRead)"

definition locks_ok :: "instant \<times> lock_table \<Rightarrow> bool" where
  "locks_ok s \<longleftrightarrow> (case s of (now, d) \<Rightarrow> distinct (map lk_id d) \<and> exclusive now d
     \<and> (\<forall>a \<in> set d. \<forall>b \<in> set d. lk_id a \<noteq> lk_id b \<and> lk_tenantId a = lk_tenantId b \<and> lk_resourceKey a = lk_resourceKey b
          \<longrightarrow> lk_fencingToken a \<noteq> lk_fencingToken b))"

lemma fold_max_ge: "fold max ts t \<ge> t \<and> (\<forall>x \<in> set ts. x \<le> fold max ts (t :: int))"
  by (induction ts arbitrary: t) (auto, (meson max.boundedE order_trans)+)

lemma next_token_above: "r \<in> set d \<Longrightarrow> same_resource tenantId key r \<Longrightarrow> lk_fencingToken r < next_token tenantId key d"
proof -
  assume r: "r \<in> set d" "same_resource tenantId key r"
  then have "lk_fencingToken r \<in> set (map lk_fencingToken (filter (same_resource tenantId key) d))" by simp
  then obtain t ts where ts: "map lk_fencingToken (filter (same_resource tenantId key) d) = t # ts" "lk_fencingToken r \<in> set (t # ts)"
    by (cases "map lk_fencingToken (filter (same_resource tenantId key) d)") auto
  then have "lk_fencingToken r \<le> fold max ts t" using fold_max_ge [of t ts] by auto
  then show ?thesis using ts(1) by (simp add: next_token_def)
qed

lemma exclusive_later: "exclusive t d \<Longrightarrow> t \<le> now \<Longrightarrow> exclusive now d"
  unfolding exclusive_def by (meson le_less_trans)

lemma exclusive_subset: "exclusive now d \<Longrightarrow> set d' \<subseteq> set d \<Longrightarrow> exclusive now d'"
  unfolding exclusive_def by (meson subsetD)

lemma locks_ok_filter: "locks_ok (now, d) \<Longrightarrow> locks_ok (now, filter p d)"
  by (auto simp: locks_ok_def distinct_map_filter intro: exclusive_subset)

lemma new_lock_simps [simp]:
  "lk_tenantId (new_lock now i inp d) = li_tenantId inp" "lk_resourceKey (new_lock now i inp d) = li_resourceKey inp"
  "lk_mode (new_lock now i inp d) = li_mode inp" "lk_expiresAt (new_lock now i inp d) = now + li_ttlSeconds inp * 1000"
  "lk_fencingToken (new_lock now i inp d) = next_token (li_tenantId inp) (li_resourceKey inp) d"
  "owned_by inp (new_lock now i inp d)"
  by (simp_all add: new_lock_def owned_by_def same_resource_def)

lemma acquire_cases:
  assumes "acquire now i inp d = Inr (r, d')"
  obtains (held) "find (owned_by inp) d = Some r" "now < lk_expiresAt r" "d' = d"
  | (fresh) "r = new_lock now i inp d" "d' = without_own inp d @ [r]" "lk_id r \<notin> lk_id ` set (without_own inp d)"
      "\<not> conflicts (li_mode inp) (active_locks now (li_tenantId inp) (li_resourceKey inp) d)"
proof -
  have valid: "validateLockInput inp = Inr ()" using assms by (cases "validateLockInput inp") (simp_all add: acquire_def)
  let ?live = "case find (owned_by inp) d of None \<Rightarrow> False | Some r \<Rightarrow> now < lk_expiresAt r"
  show ?thesis
  proof (cases ?live)
    case True
    then obtain x where x: "find (owned_by inp) d = Some x" "now < lk_expiresAt x" by (auto split: option.splits)
    then have "x = r" "d' = d" using assms valid by (simp_all add: acquire_def)
    then show ?thesis using x held by blast
  next
    case False
    have free: "\<not> conflicts (li_mode inp) (active_locks now (li_tenantId inp) (li_resourceKey inp) d)"
    proof
      assume "conflicts (li_mode inp) (active_locks now (li_tenantId inp) (li_resourceKey inp) d)"
      with assms False show False unfolding acquire_def valid by simp
    qed
    have ins: "(case insert_lock (new_lock now i inp d) (without_own inp d) of Inl e \<Rightarrow> Inl e | Inr d2 \<Rightarrow> Inr (new_lock now i inp d, d2)) = Inr (r, d')"
      using assms unfolding acquire_def valid sum.case(2) if_not_P [OF False] if_not_P [OF free] .
    show ?thesis
    proof (rule fresh)
      show "r = new_lock now i inp d" "d' = without_own inp d @ [r]" "lk_id r \<notin> lk_id ` set (without_own inp d)"
        using ins unfolding insert_lock_def by (auto split: if_splits)
    qed (rule free)
  qed
qed

lemma fresh_lock_reads:
  assumes "\<not> conflicts (li_mode inp) (active_locks now (li_tenantId inp) (li_resourceKey inp) d)"
    and "x \<in> set d" "lk_tenantId x = li_tenantId inp" "lk_resourceKey x = li_resourceKey inp" "now < lk_expiresAt x"
  shows "lk_mode x = LockRead \<and> li_mode inp = LockRead"
proof -
  have "x \<in> set (active_locks now (li_tenantId inp) (li_resourceKey inp) d)"
    using assms(2-) by (simp add: active_locks_def same_resource_def)
  then have "li_mode inp \<noteq> LockWrite" "lk_mode x \<noteq> LockWrite" using assms(1) by (auto simp: conflicts_def split: if_splits)
  then show ?thesis by (cases "li_mode inp"; cases "lk_mode x") auto
qed

lemma locks_ok_acquire:
  assumes ok: "locks_ok (now, d)" and "acquire now i inp d = Inr (r, d')"
  shows "locks_ok (now, d')"
  using assms(2)
proof (cases rule: acquire_cases)
  case held
  then show ?thesis using ok by simp
next
  case fresh
  let ?d1 = "without_own inp d"
  have ok1: "locks_ok (now, ?d1)" unfolding without_own_def by (rule locks_ok_filter [OF ok])
  have sub: "set ?d1 \<subseteq> set d" by (auto simp: without_own_def)
  have r: "lk_tenantId r = li_tenantId inp" "lk_resourceKey r = li_resourceKey inp" "lk_mode r = li_mode inp" by (simp_all add: fresh(1))
  have reads: "lk_mode x = LockRead \<and> lk_mode r = LockRead" if "x \<in> set ?d1" "lk_tenantId x = lk_tenantId r"
      "lk_resourceKey x = lk_resourceKey r" "now < lk_expiresAt x" for x
    using fresh_lock_reads [OF fresh(4), of x] that sub r by auto
  have above: "lk_fencingToken x < lk_fencingToken r" if "x \<in> set ?d1" "lk_tenantId x = lk_tenantId r" "lk_resourceKey x = lk_resourceKey r" for x
    using that sub next_token_above [of x d "li_tenantId inp" "li_resourceKey inp"] by (auto simp: fresh(1) same_resource_def)
  have "exclusive now (?d1 @ [r])"
    using ok1 reads unfolding locks_ok_def exclusive_def by auto
  moreover have "lk_fencingToken a \<noteq> lk_fencingToken b"
    if "a \<in> set (?d1 @ [r])" "b \<in> set (?d1 @ [r])" "lk_id a \<noteq> lk_id b" "lk_tenantId a = lk_tenantId b" "lk_resourceKey a = lk_resourceKey b" for a b
    using that ok1 above [of a] above [of b] by (auto simp: locks_ok_def)
  moreover have "distinct (map lk_id (?d1 @ [r]))" using ok1 fresh(3) by (simp add: locks_ok_def)
  ultimately show ?thesis unfolding fresh(2) locks_ok_def by blast
qed

lemma locks_ok_map:
  assumes ok: "locks_ok (now, d)"
    and same: "\<And>x. lk_id (f x) = lk_id x \<and> lk_tenantId (f x) = lk_tenantId x \<and> lk_resourceKey (f x) = lk_resourceKey x
      \<and> lk_mode (f x) = lk_mode x \<and> lk_fencingToken (f x) = lk_fencingToken x"
    and live: "\<And>x. now < lk_expiresAt (f x) \<Longrightarrow> now < lk_expiresAt x"
  shows "locks_ok (now, map f d)"
proof -
  have "exclusive now (map f d)"
    using ok live unfolding locks_ok_def exclusive_def by (simp add: same)
  then show ?thesis using ok unfolding locks_ok_def by (simp add: comp_def same)
qed

lemma locks_ok_renew:
  assumes "locks_ok (now, d)" and "renew now ten l run stp ttl d = Inr (r, d')"
  shows "locks_ok (now, d')"
proof -
  have d': "d' = upd_where (\<lambda>r. lock_of ten l run stp r \<and> now < lk_expiresAt r)
      (\<lambda>r. r\<lparr>lk_expiresAt := now + ttl * 1000, lk_updatedAt := now\<rparr>) d"
    using assms(2) by (auto simp: renew_def Let_def split: if_splits option.splits)
  show ?thesis unfolding d' upd_where_def by (rule locks_ok_map [OF assms(1)]) (auto split: if_splits)
qed

interpretation locks: step_invariant lock_step locks_ok
proof
  fix s s' assume "lock_step s s'" and ok: "locks_ok s"
  have later: "locks_ok (now, d)" if "s = (t, d)" "t \<le> now" for t now d
    using ok that exclusive_later by (auto simp: locks_ok_def)
  from \<open>lock_step s s'\<close> show "locks_ok s'"
  proof cases
    case (step_acquire t now i inp d r d')
    then show ?thesis using locks_ok_acquire [OF later [OF step_acquire(1,3)] step_acquire(4)] by simp
  next
    case (step_renew t now ten l run stp ttl d r d')
    then show ?thesis using locks_ok_renew [OF later [OF step_renew(1,3)] step_renew(4)] by simp
  next
    case (step_release t now d ten l run stp)
    then show ?thesis using locks_ok_filter [OF later [OF step_release(1,3)]] by (simp add: release_lock_def)
  next
    case (step_time t now d)
    then show ?thesis using later by simp
  qed
qed

section \<open>Properties\<close>

definition sample_lock_input :: "string \<Rightarrow> LockMode \<Rightarrow> lock_input" where
  "sample_lock_input run mode = \<lparr>li_tenantId = ''t'', li_resourceKey = ''tenant:t:device:d'', li_mode = mode, li_ownerRunId = run,
     li_ownerStepId = ''s'', li_ttlSeconds = 60\<rparr>"

definition sample_lock :: "string \<Rightarrow> string \<Rightarrow> LockMode \<Rightarrow> instant \<Rightarrow> resource_lock" where
  "sample_lock i run mode at = \<lparr>lk_id = ''plock_'' @ i, lk_tenantId = ''t'', lk_resourceKey = ''tenant:t:device:d'', lk_mode = mode,
     lk_ownerRunId = run, lk_ownerStepId = ''s'', lk_fencingToken = 1, lk_expiresAt = at + 60000, lk_createdAt = at, lk_updatedAt = at\<rparr>"

lemma sample_valid: "validateLockInput (sample_lock_input run mode) = Inr ()"
  by (simp add: validateLockInput_def sample_lock_input_def trim_def is_ws_def key_format_def valid_ttl_def)

lemma sample_acquire_empty: "acquire at i (sample_lock_input run mode) [] = Inr (sample_lock i run mode at, [sample_lock i run mode at])"
  unfolding acquire_def sample_valid
  by (simp add: conflicts_def active_locks_def insert_lock_def without_own_def new_lock_def sample_lock_def sample_lock_input_def next_token_def)

text \<open>C32. Locks exclude each other. Whatever sequence of acquiring, renewing and releasing runs while the clock does
  not go back, two different locks on a resource that are both in force are both read locks, and no two
  locks on a resource carry the same fencing token.\<close>

theorem locks_exclude:
  assumes "lock_step\<^sup>*\<^sup>* (t, []) (now, d)" and "a \<in> set d" and "b \<in> set d" and "a \<noteq> b"
    and "lk_tenantId a = lk_tenantId b" and "lk_resourceKey a = lk_resourceKey b"
  shows "(now < lk_expiresAt a \<and> now < lk_expiresAt b \<longrightarrow> lk_mode a = LockRead \<and> lk_mode b = LockRead)
    \<and> lk_fencingToken a \<noteq> lk_fencingToken b"
proof -
  have "locks_ok (t, [])" by (simp add: locks_ok_def exclusive_def)
  with assms(1) have ok: "locks_ok (now, d)" by (rule locks.steps_preserve)
  then have "lk_id a \<noteq> lk_id b" using assms(2-4) distinct_key_eq by (fastforce simp: locks_ok_def)
  then show ?thesis using ok assms(2,3,5,6) unfolding locks_ok_def exclusive_def by blast
qed

theorem locks_exclude_witness:
  "\<exists>d. lock_step\<^sup>*\<^sup>* (0, []) (0, d) \<and> length d = 2 \<and> lk_fencingToken (d ! 0) \<noteq> lk_fencingToken (d ! 1)"
proof -
  let ?a = "sample_lock ''1'' ''r1'' LockRead 0"
  let ?b = "(sample_lock ''2'' ''r2'' LockRead 0)\<lparr>lk_fencingToken := 2\<rparr>"
  have "acquire 0 ''1'' (sample_lock_input ''r1'' LockRead) [] = Inr (?a, [?a])" by (rule sample_acquire_empty)
  then have one: "lock_step (0, []) (0, [?a])" by (rule step_acquire [rotated]) simp
  have "acquire 0 ''2'' (sample_lock_input ''r2'' LockRead) [?a] = Inr (?b, [?a, ?b])"
    unfolding acquire_def sample_valid
    by (simp add: conflicts_def active_locks_def insert_lock_def without_own_def new_lock_def sample_lock_def sample_lock_input_def
        next_token_def same_resource_def owned_by_def)
  then have "lock_step (0, [?a]) (0, [?a, ?b])" by (rule step_acquire [rotated]) simp
  with one have "lock_step\<^sup>*\<^sup>* (0, []) (0, [?a, ?b])" by simp
  moreover from this have "lk_fencingToken ?a \<noteq> lk_fencingToken ?b"
    using locks_exclude [of 0 0 "[?a, ?b]" ?a ?b] by (simp add: sample_lock_def)
  ultimately show ?thesis by (intro exI [of _ "[?a, ?b]"]) simp
qed

text \<open>What \<open>acquire\<close> does with a valid request, on every branch. A lock the owner already holds is returned as it
  is, whatever mode and duration were asked for. Otherwise the request conflicts exactly when a lock of
  another owner is in force and one of the two is a write lock. Without conflict, and with a fresh
  identifier, the new lock is stored for the requested mode and duration, in place of an expired lock of
  the same owner, with a fencing token above those of all stored locks on the resource.\<close>

theorem acquire_behaviour:
  assumes "validateLockInput inp = Inr ()" and "locks_ok (now, d)" and "''plock_'' @ i \<notin> lk_id ` set d"
    and "\<forall>a \<in> set d. \<forall>b \<in> set d. owned_by inp a \<and> owned_by inp b \<longrightarrow> a = b"
  shows "(case find (\<lambda>r. owned_by inp r \<and> now < lk_expiresAt r) d of
      Some r \<Rightarrow> acquire now i inp d = Inr (r, d)
    | None \<Rightarrow>
        if \<exists>r \<in> set d. lk_tenantId r = li_tenantId inp \<and> lk_resourceKey r = li_resourceKey inp \<and> now < lk_expiresAt r
             \<and> (li_mode inp = LockWrite \<or> lk_mode r = LockWrite)
        then acquire now i inp d = Inl (AppError ''RESOURCE_VERSION_CONFLICT'')
        else \<exists>r. acquire now i inp d = Inr (r, filter (\<lambda>x. \<not> owned_by inp x) d @ [r]) \<and> owned_by inp r \<and> lk_mode r = li_mode inp
          \<and> lk_expiresAt r = now + li_ttlSeconds inp * 1000
          \<and> (\<forall>x \<in> set d. lk_tenantId x = li_tenantId inp \<and> lk_resourceKey x = li_resourceKey inp \<longrightarrow> lk_fencingToken x < lk_fencingToken r))"
proof (cases "find (\<lambda>r. owned_by inp r \<and> now < lk_expiresAt r) d")
  case (Some r)
  then have r: "r \<in> set d" "owned_by inp r" "now < lk_expiresAt r" by (auto dest: find_Some_iff_first)
  obtain x where x: "find (owned_by inp) d = Some x" using r find_None_iff_all [of "owned_by inp" d] by (cases "find (owned_by inp) d") auto
  then have "x = r" using r assms(4) find_Some_iff_first [OF x] by blast
  then show ?thesis using Some x r(3) assms(1) by (simp add: acquire_def)
next
  case None
  then have stale: "\<not> (case find (owned_by inp) d of None \<Rightarrow> False | Some r \<Rightarrow> now < lk_expiresAt r)"
    by (auto simp: find_None_iff_all split: option.splits dest: find_Some_iff_first)
  have own: "without_own inp d = filter (\<lambda>x. \<not> owned_by inp x) d"
  proof (cases "find (owned_by inp) d")
    case None
    then have "\<forall>x \<in> set d. \<not> owned_by inp x" by (simp add: find_None_iff_all)
    then show ?thesis using None by (simp add: without_own_def)
  next
    case (Some x)
    then have x: "x \<in> set d" "owned_by inp x" by (auto dest: find_Some_iff_first)
    have "lk_id y \<noteq> lk_id x \<longleftrightarrow> \<not> owned_by inp y" if "y \<in> set d" for y
      using x that assms(2,4) distinct_key_eq [of lk_id d y x] by (auto simp: locks_ok_def)
    then show ?thesis using Some by (auto simp: without_own_def intro!: filter_cong)
  qed
  have con: "conflicts (li_mode inp) (active_locks now (li_tenantId inp) (li_resourceKey inp) d) \<longleftrightarrow>
      (\<exists>r \<in> set d. lk_tenantId r = li_tenantId inp \<and> lk_resourceKey r = li_resourceKey inp \<and> now < lk_expiresAt r
         \<and> (li_mode inp = LockWrite \<or> lk_mode r = LockWrite))"
    by (auto simp: conflicts_def active_locks_def same_resource_def filter_empty_conv)
  have new_id: "\<And>x. x \<in> set d \<Longrightarrow> lk_id x \<noteq> ''plock_'' @ i" using assms(3) by (metis imageI)
  have ins: "insert_lock (new_lock now i inp d) (without_own inp d) = Inr (without_own inp d @ [new_lock now i inp d])"
    using new_id by (auto simp: insert_lock_def own new_lock_def same_resource_def owned_by_def)
  have acq: "acquire now i inp d = (if conflicts (li_mode inp) (active_locks now (li_tenantId inp) (li_resourceKey inp) d)
      then Inl (AppError ''RESOURCE_VERSION_CONFLICT'') else Inr (new_lock now i inp d, without_own inp d @ [new_lock now i inp d]))"
    unfolding acquire_def assms(1) sum.case(2) if_not_P [OF stale] ins by simp
  have "\<forall>x \<in> set d. lk_tenantId x = li_tenantId inp \<and> lk_resourceKey x = li_resourceKey inp
      \<longrightarrow> lk_fencingToken x < lk_fencingToken (new_lock now i inp d)"
    by (auto simp: same_resource_def intro!: next_token_above)
  then show ?thesis unfolding None option.case(1) acq con own by auto
qed

theorem acquire_behaviour_witness:
  "acquire 5 ''2'' (sample_lock_input ''r2'' LockWrite) [sample_lock ''1'' ''r1'' LockRead 0] = Inl (AppError ''RESOURCE_VERSION_CONFLICT'')"
proof -
  have "locks_ok (5, [sample_lock ''1'' ''r1'' LockRead 0])" by (simp add: locks_ok_def exclusive_def)
  then show ?thesis
    using acquire_behaviour [OF sample_valid [of "''r2''" LockWrite], of 5 "[sample_lock ''1'' ''r1'' LockRead 0]" "''2''"]
    by (simp add: sample_lock_def sample_lock_input_def owned_by_def same_resource_def)
qed

text \<open>A fencing token comes back. After a write lock is released, the next owner of the resource gets the very
  token the first one had, because the next token is counted over the rows that are left.\<close>

theorem fencing_token_reused:
  "\<exists>a b d1 d2. acquire 0 ''1'' (sample_lock_input ''r1'' LockWrite) [] = Inr (a, d1)
    \<and> acquire 1 ''2'' (sample_lock_input ''r2'' LockWrite) (release_lock ''t'' (lk_id a) ''r1'' ''s'' d1) = Inr (b, d2)
    \<and> lk_ownerRunId a \<noteq> lk_ownerRunId b \<and> lk_fencingToken a = lk_fencingToken b"
proof -
  have "release_lock ''t'' (lk_id (sample_lock ''1'' ''r1'' LockWrite 0)) ''r1'' ''s'' [sample_lock ''1'' ''r1'' LockWrite 0] = []"
    by (simp add: release_lock_def lock_of_def sample_lock_def)
  then show ?thesis using sample_acquire_empty [of 0 "''1''" "''r1''" LockWrite] sample_acquire_empty [of 1 "''2''" "''r2''" LockWrite]
    by (auto simp: sample_lock_def)
qed

end
