(* ===== verification/RecoveryLedger.thy ===== *)
theory RecoveryLedger
  imports Approvals
begin

text \<open>
  The recovery ledger of workflows, \<open>backend/src/modules/executions/application/workflow-recovery-ledger.service.ts\<close>.

  \<open>ledger_db\<close> holds the tables \<open>plugin_workflow_ledgers\<close> and \<open>plugin_workflow_checkpoints\<close> with their primary and
  unique keys and the foreign key from a checkpoint to its ledger. Every call is one transaction; \<open>now\<close> is the
  clock of the service, \<open>i\<close> the random part of a new identifier and \<open>sha\<close> the digest SHA-256 in hexadecimal.
  Captured values are JSON, so the test for a \<open>Buffer\<close> has nothing to find.
\<close>

section \<open>Data\<close>

datatype WorkflowLedgerStatus = LedgerActive | LedgerCompleted | LedgerRollbackRunning | LedgerRolledBack | LedgerManual

datatype WorkflowRecoveryClassification = Resumable | RollbackRequired | ManualIntervention

record ledger =
  lg_id :: string
  lg_tenantId :: string
  lg_executionRunId :: string
  lg_executionStepId :: string
  lg_deploymentPlanTargetId :: "string option"
  lg_pluginVersionId :: string
  lg_workflowVersionId :: string
  lg_capabilityKey :: string
  lg_targetHash :: string
  lg_planHash :: string
  lg_inputHash :: string
  lg_status :: WorkflowLedgerStatus
  lg_recoveryClassification :: WorkflowRecoveryClassification
  lg_completedStepIds :: "string list"
  lg_compensationStepIds :: "string list"
  lg_createdAt :: instant
  lg_updatedAt :: instant

record checkpoint =
  cp_id :: string
  cp_tenantId :: string
  cp_ledgerId :: string
  cp_checkpointName :: string
  cp_workflowStepName :: string
  cp_capture :: jobject
  cp_captureHash :: string
  cp_requiredForRollback :: bool
  cp_createdAt :: instant

record ledger_db =
  ld_ledgers :: "ledger list"
  ld_checkpoints :: "checkpoint list"

record begin_input =
  bi_tenantId :: string
  bi_executionRunId :: string
  bi_executionStepId :: string
  bi_deploymentPlanTargetId :: "string option"
  bi_pluginVersionId :: string
  bi_workflowVersionId :: string
  bi_capabilityKey :: string
  bi_target :: json
  bi_plan :: json
  bi_runtimeInput :: json

record checkpoint_input =
  ci_tenantId :: string
  ci_ledgerId :: string
  ci_checkpointName :: string
  ci_workflowStepName :: string
  ci_capture :: jobject
  ci_captureHash :: string
  ci_requiredForRollback :: bool

section \<open>Digests and the check of captures\<close>

text \<open>\<open>Object.keys(value).sort()\<close> orders by code units, which on characters is the lexicographic order.\<close>

definition stableStringify :: "json \<Rightarrow> string" where
  "stableStringify = canonicalize (<)"

definition sha256 :: "(string \<Rightarrow> string) \<Rightarrow> json \<Rightarrow> string" where
  "sha256 sha v = sha (stableStringify v)"

definition letter_or_space :: "char \<Rightarrow> bool" where
  "letter_or_space c \<longleftrightarrow> c = CHR '' '' \<or> (97 \<le> (of_char c :: nat) \<and> (of_char c :: nat) \<le> 122)"

text \<open>\<open>/-----BEGIN [A-Z ]*PRIVATE KEY-----|secret:\/\//i\<close> on a text in lower case.\<close>

definition key_header_at :: "string \<Rightarrow> bool" where
  "key_header_at s \<longleftrightarrow> startsWith s ''-----begin ''
     \<and> (\<exists>j \<in> set [0..<Suc (length s)]. (\<forall>c \<in> set (take j (drop 11 s)). letter_or_space c)
          \<and> startsWith (drop j (drop 11 s)) ''private key-----'')"

definition secret_text :: "string \<Rightarrow> bool" where
  "secret_text s = (let l = toLowerCase s in
     (\<exists>i \<in> set [0..<Suc (length l)]. key_header_at (drop i l)) \<or> str_includes l ''secret://'')"

definition checkpoint_sensitive_key :: "string \<Rightarrow> bool" where
  "checkpoint_sensitive_key k \<longleftrightarrow> (\<exists>w \<in> set [''password'', ''token'', ''privatekey'', ''authorization'', ''credential'', ''secret'', ''pfx'', ''jks'', ''content''].
     str_includes (toLowerCase k) w)"

fun assertCheckpointSafe :: "json \<Rightarrow> bool" where
  "assertCheckpointSafe (JStr s) = (\<not> secret_text s)"
| "assertCheckpointSafe (JArr xs) = list_all assertCheckpointSafe xs"
| "assertCheckpointSafe (JObj kvs) = list_all (\<lambda>(k, v). \<not> checkpoint_sensitive_key k \<and> assertCheckpointSafe v) kvs"
| "assertCheckpointSafe _ = True"

section \<open>Queries\<close>

definition findLedger :: "string \<Rightarrow> string \<Rightarrow> string \<Rightarrow> ledger_db \<Rightarrow> ledger option" where
  "findLedger tenantId runId stepId db =
    find (\<lambda>l. lg_tenantId l = tenantId \<and> lg_executionRunId l = runId \<and> lg_executionStepId l = stepId) (ld_ledgers db)"

definition getLedger :: "string \<Rightarrow> string \<Rightarrow> ledger_db \<Rightarrow> ledger result" where
  "getLedger tenantId ledgerId db = (case find (\<lambda>l. lg_tenantId l = tenantId \<and> lg_id l = ledgerId) (ld_ledgers db) of
     None \<Rightarrow> Inl (AppError ''RESOURCE_NOT_FOUND'') | Some l \<Rightarrow> Inr l)"

definition findCheckpoint :: "string \<Rightarrow> string \<Rightarrow> ledger_db \<Rightarrow> checkpoint option" where
  "findCheckpoint ledgerId name db = find (\<lambda>c. cp_ledgerId c = ledgerId \<and> cp_checkpointName c = name) (ld_checkpoints db)"

definition listCheckpoints :: "string \<Rightarrow> string \<Rightarrow> ledger_db \<Rightarrow> checkpoint list" where
  "listCheckpoints tenantId ledgerId db =
    sort_by (\<lambda>a b. cp_createdAt a < cp_createdAt b \<or> cp_createdAt a = cp_createdAt b \<and> cp_id a < cp_id b)
      (filter (\<lambda>c. cp_tenantId c = tenantId \<and> cp_ledgerId c = ledgerId) (ld_checkpoints db))"

definition getCheckpoint :: "string \<Rightarrow> string \<Rightarrow> ledger_db \<Rightarrow> checkpoint result" where
  "getCheckpoint tenantId checkpointId db = (case find (\<lambda>c. cp_tenantId c = tenantId \<and> cp_id c = checkpointId) (ld_checkpoints db) of
     None \<Rightarrow> Inl (AppError ''RESOURCE_NOT_FOUND'') | Some c \<Rightarrow> Inr c)"

definition ledger_get :: "string \<Rightarrow> string \<Rightarrow> ledger_db \<Rightarrow> (ledger \<times> checkpoint list) result" where
  "ledger_get tenantId ledgerId db = (case getLedger tenantId ledgerId db of
     Inl e \<Rightarrow> Inl e | Inr l \<Rightarrow> Inr (l, listCheckpoints tenantId ledgerId db))"

section \<open>Operations\<close>

definition same_ledger_identity :: "(string \<Rightarrow> string) \<Rightarrow> begin_input \<Rightarrow> ledger \<Rightarrow> bool" where
  "same_ledger_identity sha inp l \<longleftrightarrow> lg_pluginVersionId l = bi_pluginVersionId inp \<and> lg_workflowVersionId l = bi_workflowVersionId inp
     \<and> lg_capabilityKey l = bi_capabilityKey inp \<and> lg_targetHash l = sha256 sha (bi_target inp)
     \<and> lg_planHash l = sha256 sha (bi_plan inp) \<and> lg_inputHash l = sha256 sha (bi_runtimeInput inp)"

definition new_ledger :: "(string \<Rightarrow> string) \<Rightarrow> instant \<Rightarrow> string \<Rightarrow> begin_input \<Rightarrow> ledger" where
  "new_ledger sha now i inp =
    \<lparr>lg_id = ''wfledger_'' @ i, lg_tenantId = bi_tenantId inp, lg_executionRunId = bi_executionRunId inp,
     lg_executionStepId = bi_executionStepId inp, lg_deploymentPlanTargetId = bi_deploymentPlanTargetId inp,
     lg_pluginVersionId = bi_pluginVersionId inp, lg_workflowVersionId = bi_workflowVersionId inp,
     lg_capabilityKey = bi_capabilityKey inp, lg_targetHash = sha256 sha (bi_target inp), lg_planHash = sha256 sha (bi_plan inp),
     lg_inputHash = sha256 sha (bi_runtimeInput inp), lg_status = LedgerActive, lg_recoveryClassification = Resumable,
     lg_completedStepIds = [], lg_compensationStepIds = [], lg_createdAt = now, lg_updatedAt = now\<rparr>"

definition ledger_begin :: "(string \<Rightarrow> string) \<Rightarrow> instant \<Rightarrow> string \<Rightarrow> begin_input \<Rightarrow> ledger_db \<Rightarrow> ledger result \<times> ledger_db" where
  "ledger_begin sha now i inp db = (case findLedger (bi_tenantId inp) (bi_executionRunId inp) (bi_executionStepId inp) db of
     Some l \<Rightarrow> if \<not> same_ledger_identity sha inp l then (Inl (AppError ''IDEMPOTENCY_CONFLICT''), db) else (Inr l, db)
   | None \<Rightarrow>
       let l = new_ledger sha now i inp
       in if lg_id l \<in> lg_id ` set (ld_ledgers db) then (Inl (DbError ''23505''), db)
          else (Inr l, db\<lparr>ld_ledgers := ld_ledgers db @ [l]\<rparr>))"

definition new_checkpoint :: "instant \<Rightarrow> string \<Rightarrow> checkpoint_input \<Rightarrow> checkpoint" where
  "new_checkpoint now i inp =
    \<lparr>cp_id = ''wfcheckpoint_'' @ i, cp_tenantId = ci_tenantId inp, cp_ledgerId = ci_ledgerId inp,
     cp_checkpointName = ci_checkpointName inp, cp_workflowStepName = ci_workflowStepName inp, cp_capture = ci_capture inp,
     cp_captureHash = ci_captureHash inp, cp_requiredForRollback = ci_requiredForRollback inp, cp_createdAt = now\<rparr>"

definition recordCheckpoint ::
  "(string \<Rightarrow> string) \<Rightarrow> instant \<Rightarrow> string \<Rightarrow> checkpoint_input \<Rightarrow> ledger_db \<Rightarrow> checkpoint result \<times> ledger_db" where
  "recordCheckpoint sha now i inp db =
    (if \<not> assertCheckpointSafe (JObj (ci_capture inp)) then (Inl (AppError ''VALIDATION_FAILED''), db)
     else if sha256 sha (JObj (ci_capture inp)) \<noteq> ci_captureHash inp then (Inl (AppError ''VALIDATION_FAILED''), db)
     else (case getLedger (ci_tenantId inp) (ci_ledgerId inp) db of
       Inl e \<Rightarrow> (Inl e, db)
     | Inr l \<Rightarrow>
         if lg_status l \<noteq> LedgerActive \<and> lg_status l \<noteq> LedgerRollbackRunning then (Inl (AppError ''VALIDATION_FAILED''), db)
         else (case findCheckpoint (ci_ledgerId inp) (ci_checkpointName inp) db of
           Some c \<Rightarrow> if cp_captureHash c \<noteq> ci_captureHash inp then (Inl (AppError ''VALIDATION_FAILED''), db) else (Inr c, db)
         | None \<Rightarrow>
             let c = new_checkpoint now i inp
             in if cp_id c \<in> cp_id ` set (ld_checkpoints db) then (Inl (DbError ''23505''), db)
                else (Inr c, db\<lparr>ld_checkpoints := ld_checkpoints db @ [c]\<rparr>))))"

definition of_ledger :: "string \<Rightarrow> string \<Rightarrow> ledger \<Rightarrow> bool" where
  "of_ledger tenantId ledgerId l \<longleftrightarrow> lg_id l = ledgerId \<and> lg_tenantId l = tenantId"

definition add_step :: "string \<Rightarrow> string list \<Rightarrow> string list" where
  "add_step name values = (if name \<in> set values then values else values @ [name])"

definition markStepCompleted :: "instant \<Rightarrow> string \<Rightarrow> string \<Rightarrow> string \<Rightarrow> bool \<Rightarrow> ledger_db \<Rightarrow> ledger result \<times> ledger_db" where
  "markStepCompleted now tenantId ledgerId name compensation db = (case getLedger tenantId ledgerId db of
     Inl e \<Rightarrow> (Inl e, db)
   | Inr l \<Rightarrow>
       let next = add_step name (if compensation then lg_compensationStepIds l else lg_completedStepIds l);
           f = (\<lambda>x. if compensation then x\<lparr>lg_compensationStepIds := next, lg_updatedAt := now\<rparr>
                    else x\<lparr>lg_completedStepIds := next, lg_updatedAt := now\<rparr>)
       in (Inr (f l), db\<lparr>ld_ledgers := upd_where (of_ledger tenantId ledgerId) f (ld_ledgers db)\<rparr>))"

definition ledger_finish :: "instant \<Rightarrow> string \<Rightarrow> string \<Rightarrow> WorkflowLedgerStatus \<Rightarrow> ledger_db \<Rightarrow> ledger result \<times> ledger_db" where
  "ledger_finish now tenantId ledgerId status db =
    (let classification = (if status = LedgerCompleted \<or> status = LedgerRolledBack then Resumable else ManualIntervention);
         f = (\<lambda>x. x\<lparr>lg_status := status, lg_recoveryClassification := classification, lg_updatedAt := now\<rparr>)
     in (case find (of_ledger tenantId ledgerId) (ld_ledgers db) of
           None \<Rightarrow> (Inl (AppError ''RESOURCE_NOT_FOUND''), db)
         | Some l \<Rightarrow> (Inr (f l), db\<lparr>ld_ledgers := upd_where (of_ledger tenantId ledgerId) f (ld_ledgers db)\<rparr>)))"

definition classifyInterrupted :: "instant \<Rightarrow> string \<Rightarrow> string \<Rightarrow> string option \<Rightarrow> bool \<Rightarrow> ledger_db \<Rightarrow> ledger result \<times> ledger_db" where
  "classifyInterrupted now tenantId ledgerId runningStepId idempotent db = (case getLedger tenantId ledgerId db of
     Inl e \<Rightarrow> (Inl e, db)
   | Inr l \<Rightarrow>
       let hasRollback = (\<exists>c \<in> set (listCheckpoints tenantId (lg_id l) db). cp_requiredForRollback c);
           classification = (if truthy runningStepId \<and> \<not> idempotent
             then (if hasRollback then RollbackRequired else ManualIntervention) else Resumable);
           status = (if classification = ManualIntervention then LedgerManual else lg_status l);
           f = (\<lambda>x. x\<lparr>lg_recoveryClassification := classification, lg_status := status, lg_updatedAt := now\<rparr>)
       in (Inr (f l), db\<lparr>ld_ledgers := upd_where (of_ledger tenantId (lg_id l)) f (ld_ledgers db)\<rparr>))"

section \<open>Invariants\<close>

inductive ledger_step :: "(string \<Rightarrow> string) \<Rightarrow> ledger_db \<Rightarrow> ledger_db \<Rightarrow> bool" for sha where
  step_begin: "ledger_step sha db (snd (ledger_begin sha now i inp db))"
| step_checkpoint: "ledger_step sha db (snd (recordCheckpoint sha now i cinp db))"
| step_mark: "ledger_step sha db (snd (markStepCompleted now ten l name cmp db))"
| step_finish: "ledger_step sha db (snd (ledger_finish now ten l status db))"
| step_classify: "ledger_step sha db (snd (classifyInterrupted now ten l running idem db))"

inductive_cases ledger_stepE: "ledger_step sha db db'"

definition checkpoint_ok :: "(string \<Rightarrow> string) \<Rightarrow> ledger_db \<Rightarrow> checkpoint \<Rightarrow> bool" where
  "checkpoint_ok sha db c \<longleftrightarrow> sha256 sha (JObj (cp_capture c)) = cp_captureHash c \<and> assertCheckpointSafe (JObj (cp_capture c))
     \<and> (cp_ledgerId c, cp_tenantId c) \<in> (\<lambda>l. (lg_id l, lg_tenantId l)) ` set (ld_ledgers db)"

definition ledger_key :: "ledger \<Rightarrow> string \<times> string \<times> string" where
  "ledger_key l = (lg_tenantId l, lg_executionRunId l, lg_executionStepId l)"

definition checkpoint_key :: "checkpoint \<Rightarrow> string \<times> string" where
  "checkpoint_key c = (cp_ledgerId c, cp_checkpointName c)"

definition ledger_ok :: "(string \<Rightarrow> string) \<Rightarrow> ledger_db \<Rightarrow> bool" where
  "ledger_ok sha db \<longleftrightarrow> distinct (map lg_id (ld_ledgers db)) \<and> distinct (map ledger_key (ld_ledgers db))
     \<and> distinct (map checkpoint_key (ld_checkpoints db)) \<and> (\<forall>c \<in> set (ld_checkpoints db). checkpoint_ok sha db c)
     \<and> (\<forall>l \<in> set (ld_ledgers db). distinct (lg_completedStepIds l) \<and> distinct (lg_compensationStepIds l))"

text \<open>What later operations keep of a ledger: its identity, and the steps that were done.\<close>

definition later :: "ledger \<Rightarrow> ledger \<Rightarrow> bool" where
  "later l l' \<longleftrightarrow> lg_id l' = lg_id l \<and> ledger_key l' = ledger_key l \<and> lg_pluginVersionId l' = lg_pluginVersionId l
     \<and> lg_workflowVersionId l' = lg_workflowVersionId l \<and> lg_capabilityKey l' = lg_capabilityKey l \<and> lg_targetHash l' = lg_targetHash l
     \<and> lg_planHash l' = lg_planHash l \<and> lg_inputHash l' = lg_inputHash l
     \<and> set (lg_completedStepIds l) \<subseteq> set (lg_completedStepIds l') \<and> set (lg_compensationStepIds l) \<subseteq> set (lg_compensationStepIds l')"

definition later_db :: "ledger_db \<Rightarrow> ledger_db \<Rightarrow> bool" where
  "later_db db db' \<longleftrightarrow> (\<exists>new. ld_checkpoints db' = ld_checkpoints db @ new)
     \<and> (\<exists>f new. ld_ledgers db' = map f (ld_ledgers db) @ new \<and> (\<forall>l \<in> set (ld_ledgers db). later l (f l)))"

lemma later_refl [simp]: "later l l"
  by (simp add: later_def)

lemma later_trans: "later a b \<Longrightarrow> later b c \<Longrightarrow> later a c"
  unfolding later_def by auto

lemma later_db_refl: "later_db db db"
  unfolding later_db_def by (metis append_Nil2 later_refl list.map_ident)

lemma later_db_trans:
  assumes "later_db a b" and "later_db b c"
  shows "later_db a c"
proof -
  obtain n1 f1 m1 where a: "ld_checkpoints b = ld_checkpoints a @ n1" "ld_ledgers b = map f1 (ld_ledgers a) @ m1"
    "\<forall>l \<in> set (ld_ledgers a). later l (f1 l)" using assms(1) unfolding later_db_def by blast
  obtain n2 f2 m2 where b: "ld_checkpoints c = ld_checkpoints b @ n2" "ld_ledgers c = map f2 (ld_ledgers b) @ m2"
    "\<forall>l \<in> set (ld_ledgers b). later l (f2 l)" using assms(2) unfolding later_db_def by blast
  have "ld_ledgers c = map (f2 \<circ> f1) (ld_ledgers a) @ map f2 m1 @ m2" using a(2) b(2) by simp
  moreover have "\<forall>l \<in> set (ld_ledgers a). later l ((f2 \<circ> f1) l)" using a(2,3) b(3) by (auto intro: later_trans)
  ultimately show ?thesis unfolding later_db_def using a(1) b(1) by (metis append_assoc)
qed

lemma later_db_upd:
  assumes "\<And>l. l \<in> set (ld_ledgers db) \<Longrightarrow> p l \<Longrightarrow> later l (f l)"
  shows "later_db db (db\<lparr>ld_ledgers := upd_where p f (ld_ledgers db)\<rparr>)"
  unfolding later_db_def upd_where_def using assms
  by (intro conjI exI [of _ "\<lambda>r. if p r then f r else r"] exI [of _ "[]"]) auto

lemma getLedger_Inr: "getLedger tenantId ledgerId db = Inr l \<Longrightarrow> l \<in> set (ld_ledgers db) \<and> of_ledger tenantId ledgerId l"
  by (auto simp: getLedger_def of_ledger_def split: option.splits dest: find_Some_iff_first)

lemma of_ledger_unique:
  "ledger_ok sha db \<Longrightarrow> l \<in> set (ld_ledgers db) \<Longrightarrow> m \<in> set (ld_ledgers db) \<Longrightarrow> of_ledger t i l \<Longrightarrow> of_ledger t i m \<Longrightarrow> l = m"
  by (auto simp: ledger_ok_def of_ledger_def intro: distinct_key_eq [of lg_id])

lemma set_add_step [simp]: "set (add_step name xs) = insert name (set xs)"
  by (auto simp: add_step_def)

lemma distinct_add_step [simp]: "distinct (add_step name xs) = distinct xs"
  by (auto simp: add_step_def)

text \<open>An update of the ledgers that keeps their identity and the lists without repetition keeps the invariant.\<close>

lemma ledger_ok_upd:
  assumes ok: "ledger_ok sha db" and f: "\<And>l. l \<in> set (ld_ledgers db) \<Longrightarrow> p l \<Longrightarrow>
      later l (f l) \<and> distinct (lg_completedStepIds (f l)) \<and> distinct (lg_compensationStepIds (f l))"
  shows "ledger_ok sha (db\<lparr>ld_ledgers := upd_where p f (ld_ledgers db)\<rparr>)"
proof -
  have same: "map lg_id (upd_where p f (ld_ledgers db)) = map lg_id (ld_ledgers db)"
    "map ledger_key (upd_where p f (ld_ledgers db)) = map ledger_key (ld_ledgers db)"
    using f by (auto intro!: map_upd_where_on simp: later_def)
  have "map (\<lambda>l. (lg_id l, lg_tenantId l)) (upd_where p f (ld_ledgers db)) = map (\<lambda>l. (lg_id l, lg_tenantId l)) (ld_ledgers db)"
    using f by (intro map_upd_where_on) (auto simp: later_def ledger_key_def)
  then have "(\<lambda>l. (lg_id l, lg_tenantId l)) ` set (upd_where p f (ld_ledgers db)) = (\<lambda>l. (lg_id l, lg_tenantId l)) ` set (ld_ledgers db)"
    by (metis list.set_map)
  then show ?thesis using ok f by (auto simp: ledger_ok_def checkpoint_ok_def same in_upd_where_iff)
qed

lemma begin_keeps:
  assumes ok: "ledger_ok sha db"
  shows "ledger_ok sha (snd (ledger_begin sha now i inp db)) \<and> later_db db (snd (ledger_begin sha now i inp db))"
proof (cases "findLedger (bi_tenantId inp) (bi_executionRunId inp) (bi_executionStepId inp) db = None
    \<and> lg_id (new_ledger sha now i inp) \<notin> lg_id ` set (ld_ledgers db)")
  case True
  let ?db = "db\<lparr>ld_ledgers := ld_ledgers db @ [new_ledger sha now i inp]\<rparr>"
  have "ledger_key (new_ledger sha now i inp) \<notin> ledger_key ` set (ld_ledgers db)"
    using True by (auto simp: findLedger_def find_None_iff_all new_ledger_def ledger_key_def)
  then have "ledger_ok sha ?db" using ok True by (auto simp: ledger_ok_def checkpoint_ok_def) (simp_all add: new_ledger_def)
  moreover have "later_db db ?db" unfolding later_db_def by (auto intro!: exI [of _ "\<lambda>x. x"])
  ultimately show ?thesis using True by (simp add: ledger_begin_def Let_def)
next
  case False
  then have "snd (ledger_begin sha now i inp db) = db" by (auto simp: ledger_begin_def Let_def split: option.splits)
  then show ?thesis using ok later_db_refl by simp
qed

lemma checkpoint_keeps:
  assumes ok: "ledger_ok sha db"
  shows "ledger_ok sha (snd (recordCheckpoint sha now i inp db)) \<and> later_db db (snd (recordCheckpoint sha now i inp db))"
proof (cases "snd (recordCheckpoint sha now i inp db) = db")
  case True
  then show ?thesis using ok later_db_refl by simp
next
  case False
  then obtain l where l: "getLedger (ci_tenantId inp) (ci_ledgerId inp) db = Inr l"
    "findCheckpoint (ci_ledgerId inp) (ci_checkpointName inp) db = None"
    "assertCheckpointSafe (JObj (ci_capture inp))" "sha256 sha (JObj (ci_capture inp)) = ci_captureHash inp"
    "snd (recordCheckpoint sha now i inp db) = db\<lparr>ld_checkpoints := ld_checkpoints db @ [new_checkpoint now i inp]\<rparr>"
    by (auto simp: recordCheckpoint_def Let_def split: if_splits sum.splits option.splits)
  have "checkpoint_key (new_checkpoint now i inp) \<notin> checkpoint_key ` set (ld_checkpoints db)"
    using l(2) by (auto simp: findCheckpoint_def find_None_iff_all checkpoint_key_def new_checkpoint_def)
  moreover have "checkpoint_ok sha db (new_checkpoint now i inp)"
    using l(3,4) getLedger_Inr [OF l(1)] by (auto simp: checkpoint_ok_def new_checkpoint_def of_ledger_def image_iff intro!: bexI [of _ l])
  ultimately have "ledger_ok sha (snd (recordCheckpoint sha now i inp db))" using ok by (auto simp: l(5) ledger_ok_def checkpoint_ok_def)
  moreover have "later_db db (snd (recordCheckpoint sha now i inp db))" unfolding later_db_def l(5) by (auto intro!: exI [of _ "\<lambda>x. x"])
  ultimately show ?thesis ..
qed

lemma step_ledger_ok:
  assumes "ledger_step sha db db'" and ok: "ledger_ok sha db"
  shows "ledger_ok sha db' \<and> later_db db db'"
proof -
  have d: "distinct (lg_completedStepIds x)" "distinct (lg_compensationStepIds x)" if "x \<in> set (ld_ledgers db)" for x
    using ok that by (auto simp: ledger_ok_def)
  have only: "x = l" if "getLedger ten i db = Inr l" "x \<in> set (ld_ledgers db)" "of_ledger ten i x" for x l ten i
    using of_ledger_unique [OF ok that(2) _ that(3)] getLedger_Inr [OF that(1)] by blast
  show ?thesis
    using assms(1)
  proof cases
    case step_begin
    then show ?thesis using begin_keeps [OF ok] by simp
  next
    case step_checkpoint
    then show ?thesis using checkpoint_keeps [OF ok] by simp
  next
    case (step_mark now ten i name cmp)
    show ?thesis
    proof (cases "getLedger ten i db")
      case (Inl e)
      then show ?thesis using step_mark ok later_db_refl by (simp add: markStepCompleted_def)
    next
      case (Inr l)
      have "\<And>x. x \<in> set (ld_ledgers db) \<Longrightarrow> of_ledger ten i x \<Longrightarrow> x = l" using only [OF Inr] by blast
      then show ?thesis
        using step_mark Inr d
        by (auto simp: markStepCompleted_def Let_def later_def ledger_key_def intro!: ledger_ok_upd [OF ok] later_db_upd)
    qed
  next
    case step_finish
    then show ?thesis
      using d ok later_db_refl
      by (auto simp: ledger_finish_def Let_def later_def ledger_key_def split: option.splits intro!: ledger_ok_upd [OF ok] later_db_upd)
  next
    case step_classify
    then show ?thesis
      using d ok later_db_refl
      by (auto simp: classifyInterrupted_def Let_def later_def ledger_key_def split: sum.splits intro!: ledger_ok_upd [OF ok] later_db_upd)
  qed
qed

interpretation ledgers: step_invariant "ledger_step sha" "\<lambda>db. ledger_ok sha db \<and> later_db db0 db" for sha db0
  by unfold_locales (meson step_ledger_ok later_db_trans)

lemma begun_ledger:
  assumes "ledger_begin sha now i inp db = (Inr l, db')"
  shows "l \<in> set (ld_ledgers db') \<and> same_ledger_identity sha inp l
    \<and> ledger_key l = (bi_tenantId inp, bi_executionRunId inp, bi_executionStepId inp)"
  using assms
  by (auto simp: ledger_begin_def Let_def findLedger_def ledger_key_def split: option.splits if_splits dest!: find_Some_iff_first)
    (simp_all add: new_ledger_def same_ledger_identity_def)

lemma findLedger_key:
  assumes "ledger_ok sha db" and "l \<in> set (ld_ledgers db)" and "ledger_key l = (t, r, s)"
  shows "findLedger t r s db = Some l"
proof -
  have "find (\<lambda>x. ledger_key x = (t, r, s)) (ld_ledgers db) = Some l"
    using assms by (intro find_unique) (auto simp: ledger_ok_def)
  then show ?thesis by (simp add: findLedger_def ledger_key_def)
qed

section \<open>Properties\<close>

definition empty_ledgers :: ledger_db where
  "empty_ledgers = \<lparr>ld_ledgers = [], ld_checkpoints = []\<rparr>"

definition sample_begin :: "json \<Rightarrow> begin_input" where
  "sample_begin target = \<lparr>bi_tenantId = ''t'', bi_executionRunId = ''r'', bi_executionStepId = ''s'', bi_deploymentPlanTargetId = None,
     bi_pluginVersionId = ''p1'', bi_workflowVersionId = ''w1'', bi_capabilityKey = ''certificate.deploy'', bi_target = target,
     bi_plan = JNull, bi_runtimeInput = JNull\<rparr>"

definition sample_checkpoint :: checkpoint_input where
  "sample_checkpoint = \<lparr>ci_tenantId = ''t'', ci_ledgerId = ''wfledger_1'', ci_checkpointName = ''before'', ci_workflowStepName = ''backup'',
     ci_capture = [(''path'', JStr ''x'')], ci_captureHash = sha256 id (JObj [(''path'', JStr ''x'')]), ci_requiredForRollback = True\<rparr>"

lemma empty_ledger_ok: "ledger_ok sha empty_ledgers"
  by (simp add: ledger_ok_def empty_ledgers_def)

lemma sample_begin_runs:
  "ledger_begin id 1 ''1'' (sample_begin target) empty_ledgers
    = (Inr (new_ledger id 1 ''1'' (sample_begin target)), \<lparr>ld_ledgers = [new_ledger id 1 ''1'' (sample_begin target)], ld_checkpoints = []\<rparr>)"
  by (simp add: ledger_begin_def findLedger_def empty_ledgers_def sample_begin_def Let_def)

text \<open>C33. Checkpoints are sealed. Whatever operations run, failed ones included, a checkpoint that was recorded stays
  as it is, in place; its digest is that of its content, its content holds no text that looks like a private key
  or a secret reference and no member with a sensitive name, it belongs to a ledger of its tenant, and a
  name occurs once in a ledger.\<close>

theorem checkpoints_sealed:
  assumes "(ledger_step sha)\<^sup>*\<^sup>* empty_ledgers db" and "(ledger_step sha)\<^sup>*\<^sup>* db db'"
  shows "(\<exists>new. ld_checkpoints db' = ld_checkpoints db @ new)
    \<and> (\<forall>c \<in> set (ld_checkpoints db). cp_captureHash c = sha256 sha (JObj (cp_capture c)) \<and> assertCheckpointSafe (JObj (cp_capture c))
        \<and> (\<exists>l \<in> set (ld_ledgers db). lg_id l = cp_ledgerId c \<and> lg_tenantId l = cp_tenantId c))
    \<and> distinct (map (\<lambda>c. (cp_ledgerId c, cp_checkpointName c)) (ld_checkpoints db))"
proof -
  have ok: "ledger_ok sha db"
    using ledgers.steps_preserve [OF assms(1), of empty_ledgers] empty_ledger_ok later_db_refl by blast
  moreover have "later_db db db'" using ledgers.steps_preserve [OF assms(2), of db] ok later_db_refl by blast
  moreover have "\<exists>l \<in> set (ld_ledgers db). lg_id l = cp_ledgerId c \<and> lg_tenantId l = cp_tenantId c" if "checkpoint_ok sha db c" for c
    using that by (force simp: checkpoint_ok_def)
  ultimately show ?thesis
    by (auto simp: ledger_ok_def later_db_def checkpoint_key_def [abs_def]) (simp_all add: checkpoint_ok_def)
qed

theorem checkpoints_sealed_witness:
  "\<exists>db c. (ledger_step id)\<^sup>*\<^sup>* empty_ledgers db \<and> ld_checkpoints db = [c] \<and> cp_captureHash c = sha256 id (JObj (cp_capture c))"
proof -
  let ?db1 = "\<lparr>ld_ledgers = [new_ledger id 1 ''1'' (sample_begin JNull)], ld_checkpoints = []\<rparr>"
  let ?db2 = "?db1\<lparr>ld_checkpoints := [new_checkpoint 2 ''2'' sample_checkpoint]\<rparr>"
  have one: "ledger_step id empty_ledgers ?db1" using step_begin [of id empty_ledgers 1 "''1''" "sample_begin JNull"] by (simp add: sample_begin_runs)
  have "assertCheckpointSafe (JObj [(''path'', JStr ''x'')])" by code_simp
  then have "snd (recordCheckpoint id 2 ''2'' sample_checkpoint ?db1) = ?db2"
    by (simp add: recordCheckpoint_def sample_checkpoint_def getLedger_def findCheckpoint_def new_ledger_def sample_begin_def Let_def)
  then have "ledger_step id ?db1 ?db2" using step_checkpoint [of id ?db1 2 "''2''" sample_checkpoint] by simp
  with one have run: "(ledger_step id)\<^sup>*\<^sup>* empty_ledgers ?db2" by simp
  then show ?thesis using checkpoints_sealed [OF run rtranclp.rtrancl_refl] by auto
qed

text \<open>A ledger is bound to its inputs. After \<open>begin\<close> returned a ledger, whatever operations follow, \<open>begin\<close> for the
  same run and step changes nothing: it returns that ledger, with the steps completed before still in it,
  when versions, capability and digests of target, plan and input are the same, and \<open>IDEMPOTENCY_CONFLICT\<close>
  when one of them differs.\<close>

theorem begin_binds_inputs:
  assumes "(ledger_step sha)\<^sup>*\<^sup>* empty_ledgers db" and "ledger_begin sha now i inp db = (Inr l, db1)"
    and "(ledger_step sha)\<^sup>*\<^sup>* db1 db2"
    and "bi_tenantId inp2 = bi_tenantId inp" and "bi_executionRunId inp2 = bi_executionRunId inp"
    and "bi_executionStepId inp2 = bi_executionStepId inp"
  shows "if same_ledger_identity sha inp2 l
    then (\<exists>l2. ledger_begin sha now2 i2 inp2 db2 = (Inr l2, db2) \<and> lg_id l2 = lg_id l \<and> set (lg_completedStepIds l) \<subseteq> set (lg_completedStepIds l2))
    else ledger_begin sha now2 i2 inp2 db2 = (Inl (AppError ''IDEMPOTENCY_CONFLICT''), db2)"
proof -
  have "ledger_ok sha db" using ledgers.steps_preserve [OF assms(1), of empty_ledgers] empty_ledger_ok later_db_refl by blast
  then have ok1: "ledger_ok sha db1" using begin_keeps [of sha db now i inp] assms(2) by simp
  then have ok2: "ledger_ok sha db2" and late: "later_db db1 db2" using ledgers.steps_preserve [OF assms(3), of db1] later_db_refl by blast+
  have l: "l \<in> set (ld_ledgers db1)" "ledger_key l = (bi_tenantId inp, bi_executionRunId inp, bi_executionStepId inp)"
    using begun_ledger [OF assms(2)] by auto
  then obtain l2 where l2: "l2 \<in> set (ld_ledgers db2)" "later l l2" using late by (fastforce simp: later_db_def)
  then have "findLedger (bi_tenantId inp2) (bi_executionRunId inp2) (bi_executionStepId inp2) db2 = Some l2"
    using l(2) assms(4-6) by (intro findLedger_key [OF ok2]) (simp_all add: later_def)
  moreover have "same_ledger_identity sha inp2 l2 = same_ledger_identity sha inp2 l" using l2(2) by (simp add: later_def same_ledger_identity_def)
  ultimately show ?thesis using l2(2) by (simp add: ledger_begin_def later_def)
qed

theorem begin_binds_inputs_witness:
  "fst (ledger_begin id 5 ''2'' (sample_begin (JBool True)) (snd (ledger_begin id 1 ''1'' (sample_begin JNull) empty_ledgers)))
    = Inl (AppError ''IDEMPOTENCY_CONFLICT'')"
proof -
  have "\<not> same_ledger_identity id (sample_begin (JBool True)) (new_ledger id 1 ''1'' (sample_begin JNull))"
    by (simp add: same_ledger_identity_def new_ledger_def sample_begin_def sha256_def stableStringify_def)
  then show ?thesis
    using begin_binds_inputs [OF rtranclp.rtrancl_refl sample_begin_runs rtranclp.rtrancl_refl, of "sample_begin (JBool True)" JNull 5 "''2''"]
    by (simp add: sample_begin_runs) (simp add: sample_begin_def)
qed

text \<open>An interrupted step is resumed only when that is safe. After an interruption the ledger is classified as
  resumable exactly when no step was running or the running one may run twice; otherwise a roll back is
  required when a checkpoint for it was recorded, and else the ledger goes to manual intervention. Other
  ledgers and all checkpoints stay as they are.\<close>

theorem interrupted_classification:
  assumes "ledger_ok sha db" and "l \<in> set (ld_ledgers db)"
  shows "\<exists>l2. classifyInterrupted now (lg_tenantId l) (lg_id l) running idem db = (Inr l2,
      db\<lparr>ld_ledgers := map (\<lambda>x. if x = l then l2 else x) (ld_ledgers db)\<rparr>)
    \<and> (lg_recoveryClassification l2 = Resumable \<longleftrightarrow> running = None \<or> running = Some [] \<or> idem)
    \<and> (lg_recoveryClassification l2 = RollbackRequired \<longrightarrow>
        (\<exists>c \<in> set (ld_checkpoints db). cp_ledgerId c = lg_id l \<and> cp_requiredForRollback c))
    \<and> lg_status l2 = (if lg_recoveryClassification l2 = ManualIntervention then LedgerManual else lg_status l)"
proof -
  have "find (\<lambda>x. lg_tenantId x = lg_tenantId l \<and> lg_id x = lg_id l) (ld_ledgers db) = Some l"
  proof (cases "find (\<lambda>x. lg_tenantId x = lg_tenantId l \<and> lg_id x = lg_id l) (ld_ledgers db)")
    case None
    then show ?thesis using assms(2) by (auto simp: find_None_iff_all)
  next
    case (Some x)
    then have "x = l" using assms by (auto dest!: find_Some_iff_first simp: ledger_ok_def intro: distinct_key_eq [of lg_id])
    then show ?thesis using Some by simp
  qed
  then have get: "getLedger (lg_tenantId l) (lg_id l) db = Inr l" by (simp add: getLedger_def)
  have upd: "upd_where (of_ledger (lg_tenantId l) (lg_id l)) f (ld_ledgers db) = map (\<lambda>x. if x = l then f l else x) (ld_ledgers db)" for f
    using assms by (auto simp: upd_where_def of_ledger_def ledger_ok_def intro: distinct_key_eq [of lg_id])
  show ?thesis
    unfolding classifyInterrupted_def get sum.case(2) upd by (cases running) (auto simp: Let_def listCheckpoints_def)
qed

theorem interrupted_classification_witness:
  "\<exists>l2. fst (classifyInterrupted 3 ''t'' ''wfledger_1'' (Some ''write'') False
      \<lparr>ld_ledgers = [new_ledger id 1 ''1'' (sample_begin JNull)], ld_checkpoints = []\<rparr>) = Inr l2 \<and> lg_recoveryClassification l2 \<noteq> Resumable"
proof -
  let ?l = "new_ledger id 1 ''1'' (sample_begin JNull)"
  have "ledger_ok id \<lparr>ld_ledgers = [?l], ld_checkpoints = []\<rparr>" by (simp add: ledger_ok_def new_ledger_def)
  from interrupted_classification [OF this, of ?l 3 "Some ''write''" False] show ?thesis
    by (auto simp: new_ledger_def sample_begin_def)
qed

end
