(* ===== verification/ZoneRouting.thy ===== *)
theory ZoneRouting
  imports Complex_Main Prelude
begin

text \<open>
  Routing to a gateway of a zone: \<open>backend/src/modules/gateway-agents/zone-router.ts\<close>, \<open>reachability.service.ts\<close>,
  \<open>failover.service.ts\<close> and the types and channel checks of \<open>gateway-agent.types.ts\<close>.

  Parameters of the model: \<open>fl\<close> is the rounding of one floating point operation, so that the score is computed
  operation by operation as the source does; \<open>clock now zone\<close> is the weekday, hour and minute \<open>Intl.DateTimeFormat\<close>
  shows for an instant in a time zone; \<open>num s\<close> is \<open>Number(s)\<close> when that is an integer; \<open>lt a b\<close> is
  \<open>a.localeCompare(b) < 0\<close>. The map of reachability records keeps the keys the source builds.
\<close>

section \<open>Types\<close>

datatype GatewayStatus = GwOnline | GwOffline | GwDisabled | GwRevoked | GwUpgrading

datatype ReachabilityStatus = Reachable | Unreachable | ReachUnknown | ReachExpired

record maintenance_window =
  mw_start :: string
  mw_end :: string
  mw_timeZone :: "string option"
  mw_daysOfWeek :: "int list option"

record zone_policy =
  zp_priority :: "rat option"
  zp_requireApproval :: bool
  zp_allowedAdapters :: "string list option"
  zp_allowedTargets :: "string list option"
  zp_allowedPorts :: "int list option"
  zp_allowedActions :: "string list option"
  zp_maxConcurrentTasks :: "int option"
  zp_maintenanceWindow :: "maintenance_window option"

record zone =
  zn_id :: string
  zn_policy :: zone_policy
  zn_enabled :: bool

record gateway =
  gw_id :: string
  gw_zoneIds :: "string list"
  gw_status :: GatewayStatus
  gw_adapters :: "string list"
  gw_capabilities :: "string list"
  gw_currentLoad :: int
  gw_maxConcurrentTasks :: int
  gw_successRate :: rat

record reachability =
  rc_id :: string
  rc_gatewayId :: string
  rc_targetId :: string
  rc_protocol :: string
  rc_port :: "int option"
  rc_status :: ReachabilityStatus
  rc_latencyMs :: "int option"
  rc_checkedAt :: instant
  rc_expiresAt :: instant

record zone_request =
  zq_zoneId :: string
  zq_targetId :: string
  zq_protocols :: "string list"
  zq_targetPort :: "int option"
  zq_requiredCapabilities :: "string list"
  zq_action :: "string option"
  zq_destructive :: bool
  zq_lockedTargetIds :: "string list"

record candidate =
  cn_gateway :: gateway
  cn_reachability :: reachability
  cn_score :: rat
  cn_reasons :: "string list"

datatype ZoneRouteStatus = RouteSelected | RouteBlocked | RouteApprovalRequired

record zone_route =
  zr_status :: ZoneRouteStatus
  zr_selectedGateway :: "gateway option"
  zr_candidateGateways :: "candidate list"
  zr_missingCapabilities :: "string list"
  zr_fallbackSuggestions :: "string list"
  zr_blockedReason :: "string option"
  zr_approvalReason :: "string option"

section \<open>Channels\<close>

definition assertGatewayRouteChannel :: "string \<Rightarrow> string result" where
  "assertGatewayRouteChannel value = (let normalized = toLowerCase (trim value) in
     if normalized \<in> set [''relay.tcp'', ''probe.tcp'', ''probe.http'', ''probe.agent'', ''forward.agent_task''] then Inr normalized
     else Inl (AppError ''VALIDATION_FAILED''))"

definition assertGatewayRelayRouteChannel :: "string \<Rightarrow> string result" where
  "assertGatewayRelayRouteChannel value = (let normalized = toLowerCase (trim value) in
     if normalized = ''relay.tcp'' then Inr normalized else Inl (AppError ''VALIDATION_FAILED''))"

fun relay_channels :: "string list \<Rightarrow> string list result" where
  "relay_channels [] = Inr []"
| "relay_channels (p # ps) = (case assertGatewayRelayRouteChannel p of
     Inl e \<Rightarrow> Inl e
   | Inr c \<Rightarrow> (case relay_channels ps of Inl e \<Rightarrow> Inl e | Inr cs \<Rightarrow> Inr (c # cs)))"

section \<open>Reachability\<close>

type_synonym reach_map = "(string \<times> reachability) list"

definition reach_key :: "string \<Rightarrow> string \<Rightarrow> string \<Rightarrow> string" where
  "reach_key gatewayId targetId protocol = gatewayId @ '':'' @ targetId @ '':'' @ protocol"

definition findRaw :: "string \<Rightarrow> string \<Rightarrow> string \<Rightarrow> reach_map \<Rightarrow> reachability option" where
  "findRaw gatewayId targetId protocol m = map_of m (reach_key gatewayId targetId protocol)"

definition reach_upsert ::
  "string \<Rightarrow> instant \<Rightarrow> string \<Rightarrow> string \<Rightarrow> string \<Rightarrow> int option \<Rightarrow> ReachabilityStatus \<Rightarrow> int option \<Rightarrow> int \<Rightarrow> reach_map \<Rightarrow> reachability \<times> reach_map" where
  "reach_upsert i now gatewayId targetId protocol port status latencyMs ttlSeconds m =
    (let record = \<lparr>rc_id = (case findRaw gatewayId targetId protocol m of None \<Rightarrow> i | Some r \<Rightarrow> rc_id r), rc_gatewayId = gatewayId,
           rc_targetId = targetId, rc_protocol = protocol, rc_port = port, rc_status = status, rc_latencyMs = latencyMs,
           rc_checkedAt = now, rc_expiresAt = now + ttlSeconds * 1000\<rparr>
     in (record, AList.update (reach_key gatewayId targetId protocol) record m))"

definition reach_isExpired :: "reachability \<Rightarrow> instant \<Rightarrow> bool" where
  "reach_isExpired r now \<longleftrightarrow> rc_expiresAt r \<le> now"

definition reach_find :: "string \<Rightarrow> string \<Rightarrow> string \<Rightarrow> instant \<Rightarrow> reach_map \<Rightarrow> reachability option" where
  "reach_find gatewayId targetId protocol now m = (case findRaw gatewayId targetId protocol m of
     None \<Rightarrow> None | Some r \<Rightarrow> Some (if reach_isExpired r now then r\<lparr>rc_status := ReachExpired\<rparr> else r))"

definition reach_findAny :: "string \<Rightarrow> string \<Rightarrow> string list \<Rightarrow> instant \<Rightarrow> reach_map \<Rightarrow> reachability option" where
  "reach_findAny gatewayId targetId protocols now m =
    (case find (\<lambda>r. r \<noteq> None) (map (\<lambda>p. reach_find gatewayId targetId p now m) protocols) of None \<Rightarrow> None | Some r \<Rightarrow> r)"

definition reach_list :: "reach_map \<Rightarrow> reachability list" where
  "reach_list m = map snd m"

section \<open>Failover\<close>

definition ranks_before :: "(string \<Rightarrow> string \<Rightarrow> bool) \<Rightarrow> candidate \<Rightarrow> candidate \<Rightarrow> bool" where
  "ranks_before lt a b =
    (if cn_score b \<noteq> cn_score a then cn_score b < cn_score a
     else if gw_currentLoad (cn_gateway a) \<noteq> gw_currentLoad (cn_gateway b)
     then gw_currentLoad (cn_gateway a) < gw_currentLoad (cn_gateway b)
     else lt (gw_id (cn_gateway a)) (gw_id (cn_gateway b)))"

definition rankCandidates :: "(string \<Rightarrow> string \<Rightarrow> bool) \<Rightarrow> candidate list \<Rightarrow> candidate list" where
  "rankCandidates lt cs = sort_by (ranks_before lt) cs"

definition fallbackFor :: "string \<Rightarrow> string list" where
  "fallbackFor reason = []"

section \<open>Maintenance window\<close>

definition parseClockMinute :: "(string \<Rightarrow> int option) \<Rightarrow> string \<Rightarrow> int result" where
  "parseClockMinute num value = (case split_on (CHR '':'') value of
     h # m # _ \<Rightarrow> (case (num h, num m) of
       (Some hour, Some minute) \<Rightarrow>
         if hour < 0 \<or> hour > 23 \<or> minute < 0 \<or> minute > 59 then Inl (PlainError ''maintenance window'') else Inr (hour * 60 + minute)
     | _ \<Rightarrow> Inl (PlainError ''maintenance window''))
   | _ \<Rightarrow> Inl (PlainError ''maintenance window''))"

definition isInsideMaintenanceWindow ::
  "(instant \<Rightarrow> string \<Rightarrow> int \<times> int \<times> int) \<Rightarrow> (string \<Rightarrow> int option) \<Rightarrow> maintenance_window option \<Rightarrow> instant \<Rightarrow> bool result" where
  "isInsideMaintenanceWindow clock num window now = (case window of
     None \<Rightarrow> Inr True
   | Some w \<Rightarrow> (case clock now (getOrElse (mw_timeZone w) ''UTC'') of (weekday, hour, minute) \<Rightarrow>
       if (case mw_daysOfWeek w of None \<Rightarrow> False | Some ds \<Rightarrow> weekday \<notin> set ds) then Inr False
       else (case parseClockMinute num (mw_start w) of
         Inl e \<Rightarrow> Inl e
       | Inr startMinute \<Rightarrow> (case parseClockMinute num (mw_end w) of
           Inl e \<Rightarrow> Inl e
         | Inr endMinute \<Rightarrow> (let currentMinute = hour * 60 + minute in Inr (
             if startMinute = endMinute then True
             else if startMinute < endMinute then startMinute \<le> currentMinute \<and> currentMinute < endMinute
             else startMinute \<le> currentMinute \<or> currentMinute < endMinute))))))"

section \<open>Route\<close>

definition needsApproval :: "zone_request \<Rightarrow> bool" where
  "needsApproval q \<longleftrightarrow> zq_destructive q
     \<or> (truthy (zq_action q) \<and> the (zq_action q) \<in> set [''write'', ''install'', ''upgrade'', ''delete'', ''remove'', ''exec'', ''upload''])"

definition isActionAllowed :: "string list option \<Rightarrow> string \<Rightarrow> bool" where
  "isActionAllowed allowed action = (case allowed of None \<Rightarrow> True | Some xs \<Rightarrow> action \<in> set xs)"

definition route_blocked :: "string \<Rightarrow> zone_route" where
  "route_blocked reason = \<lparr>zr_status = RouteBlocked, zr_selectedGateway = None, zr_candidateGateways = [], zr_missingCapabilities = [],
     zr_fallbackSuggestions = fallbackFor reason, zr_blockedReason = Some reason, zr_approvalReason = None\<rparr>"

definition route_score :: "(rat \<Rightarrow> rat) \<Rightarrow> zone_policy \<Rightarrow> gateway \<Rightarrow> reachability \<Rightarrow> rat" where
  "route_score fl policy g r =
    (let loadPenalty = (if gw_maxConcurrentTasks g = 0 then 1 else fl (of_int (gw_currentLoad g) / of_int (gw_maxConcurrentTasks g)));
         latencyPenalty = min (fl (of_int (getOrElse (rc_latencyMs r) 100) / 1000)) 1
     in fl (fl (fl (fl (gw_successRate g * 100) + getOrElse (zp_priority policy) 0) - fl (loadPenalty * 30)) - fl (latencyPenalty * 10)))"

record route_scan =
  zs_candidates :: "candidate list"
  zs_missing :: "string list"
  zs_expired :: bool
  zs_capable :: bool
  zs_port :: bool

definition scan_reachable ::
  "(rat \<Rightarrow> rat) \<Rightarrow> zone_policy \<Rightarrow> zone_request \<Rightarrow> instant \<Rightarrow> gateway \<Rightarrow> reachability \<Rightarrow> route_scan \<Rightarrow> route_scan" where
  "scan_reachable fl policy q now g r st =
    (if zq_targetPort q \<noteq> None \<and> rc_port r \<noteq> zq_targetPort q then st\<lparr>zs_port := True\<rparr>
     else if rc_status r = ReachExpired then st\<lparr>zs_expired := True\<rparr>
     else if rc_status r \<noteq> Reachable then st
     else if zq_destructive q \<and> reach_isExpired r now then st\<lparr>zs_expired := True\<rparr>
     else st\<lparr>zs_candidates := zs_candidates st @ [\<lparr>cn_gateway = g, cn_reachability = r, cn_score = route_score fl policy g r,
            cn_reasons = [''zone_matched'', ''capability_matched'', ''reachable'', ''load_acceptable'']\<rparr>]\<rparr>)"

definition scan_gateway ::
  "(rat \<Rightarrow> rat) \<Rightarrow> zone_policy \<Rightarrow> zone_request \<Rightarrow> string list \<Rightarrow> instant \<Rightarrow> reach_map \<Rightarrow> gateway \<Rightarrow> route_scan \<Rightarrow> route_scan" where
  "scan_gateway fl policy q protocols now m g st =
    (if gw_status g \<noteq> GwOnline then st
     else if gw_zoneIds g = [] then st
     else if gw_currentLoad g \<ge> gw_maxConcurrentTasks g then st
     else
       let missing = filter (\<lambda>c. c \<notin> set (gw_capabilities g)) (zq_requiredCapabilities q);
           st1 = st\<lparr>zs_missing := zs_missing st @ missing\<rparr>
       in if missing \<noteq> [] then st1
          else if \<not> (\<exists>p \<in> set protocols. p \<in> set (gw_adapters g)) then st1
          else
            let st2 = st1\<lparr>zs_capable := True\<rparr>
            in if (case zp_allowedAdapters policy of None \<Rightarrow> False | Some as \<Rightarrow> \<not> (\<exists>p \<in> set protocols. p \<in> set as)) then st2
               else (case reach_findAny (gw_id g) (zq_targetId q) protocols now m of
                       None \<Rightarrow> st2 | Some r \<Rightarrow> scan_reachable fl policy q now g r st2))"

definition route_outcome :: "(string \<Rightarrow> string \<Rightarrow> bool) \<Rightarrow> route_scan \<Rightarrow> zone_route" where
  "route_outcome lt st = (case rankCandidates lt (zs_candidates st) of
     best # rest \<Rightarrow> \<lparr>zr_status = RouteSelected, zr_selectedGateway = Some (cn_gateway best), zr_candidateGateways = best # rest,
        zr_missingCapabilities = [], zr_fallbackSuggestions = [], zr_blockedReason = None, zr_approvalReason = None\<rparr>
   | [] \<Rightarrow>
       let reason = (if zs_port st then ''target_endpoint_mismatch'' else if zs_expired st then ''reachability_expired''
             else if zs_capable st then ''unreachable'' else ''capability_missing'')
       in (route_blocked reason)\<lparr>zr_missingCapabilities := set_dedup (zs_missing st)\<rparr>)"

text \<open>The early returns of \<open>route\<close> before the maintenance window is read, and those after it.\<close>

definition zone_guards :: "zone_request \<Rightarrow> zone \<Rightarrow> (bool \<times> string) list" where
  "zone_guards q z = (let policy = zn_policy z in
    [(\<not> zn_enabled z, ''zone_disabled''),
     (zq_targetId q \<in> set (zq_lockedTargetIds q), ''target_locked''),
     (case zp_allowedTargets policy of None \<Rightarrow> False | Some ts \<Rightarrow> zq_targetId q \<notin> set ts, ''target_not_allowed''),
     (case zp_allowedPorts policy of None \<Rightarrow> False
        | Some ps \<Rightarrow> zq_targetPort q = None \<or> zq_targetPort q = Some 0 \<or> the (zq_targetPort q) \<notin> set ps, ''port_not_allowed''),
     (truthy (zq_action q) \<and> \<not> isActionAllowed (zp_allowedActions policy) (the (zq_action q)), ''action_not_allowed'')])"

definition pool_guards :: "zone_policy \<Rightarrow> gateway list \<Rightarrow> (bool \<times> string) list" where
  "pool_guards policy pool =
    [(pool = [], ''no_gateway''),
     (case zp_maxConcurrentTasks policy of None \<Rightarrow> False | Some k \<Rightarrow> sum_list (map gw_currentLoad pool) \<ge> k, ''zone_concurrency_limit'')]"

definition first_guard :: "(bool \<times> string) list \<Rightarrow> string option" where
  "first_guard guards = map_option snd (find fst guards)"

definition zone_pool :: "gateway list \<Rightarrow> zone_request \<Rightarrow> gateway list" where
  "zone_pool gateways q = filter (\<lambda>g. zq_zoneId q \<in> set (gw_zoneIds g)) gateways"

definition route_pool ::
  "(rat \<Rightarrow> rat) \<Rightarrow> (string \<Rightarrow> string \<Rightarrow> bool) \<Rightarrow> zone_policy \<Rightarrow> zone_request \<Rightarrow> string list \<Rightarrow> instant \<Rightarrow> reach_map \<Rightarrow> gateway list \<Rightarrow> zone_route" where
  "route_pool fl lt policy q protocols now m pool = (case first_guard (pool_guards policy pool) of
     Some reason \<Rightarrow> route_blocked reason
   | None \<Rightarrow>
       if zp_requireApproval policy \<and> needsApproval q
       then \<lparr>zr_status = RouteApprovalRequired, zr_selectedGateway = None, zr_candidateGateways = [], zr_missingCapabilities = [],
              zr_fallbackSuggestions = [], zr_blockedReason = None, zr_approvalReason = Some ''zone_requires_approval''\<rparr>
       else route_outcome lt (fold (scan_gateway fl policy q protocols now m) pool
              \<lparr>zs_candidates = [], zs_missing = [], zs_expired = False, zs_capable = False, zs_port = False\<rparr>))"

definition route ::
  "(rat \<Rightarrow> rat) \<Rightarrow> (instant \<Rightarrow> string \<Rightarrow> int \<times> int \<times> int) \<Rightarrow> (string \<Rightarrow> int option) \<Rightarrow> (string \<Rightarrow> string \<Rightarrow> bool) \<Rightarrow>
   zone list \<Rightarrow> gateway list \<Rightarrow> reach_map \<Rightarrow> zone_request \<Rightarrow> instant \<Rightarrow> zone_route result" where
  "route fl clock num lt zones gateways m q now = (case relay_channels (zq_protocols q) of
     Inl e \<Rightarrow> Inl e
   | Inr protocols \<Rightarrow> (case find (\<lambda>z. zn_id z = zq_zoneId q) zones of
       None \<Rightarrow> Inr (route_blocked ''zone_disabled'')
     | Some z \<Rightarrow> (case first_guard (zone_guards q z) of
         Some reason \<Rightarrow> Inr (route_blocked reason)
       | None \<Rightarrow> (case isInsideMaintenanceWindow clock num (zp_maintenanceWindow (zn_policy z)) now of
           Inl e \<Rightarrow> Inl e
         | Inr inside \<Rightarrow>
             if \<not> inside then Inr (route_blocked ''maintenance_window_closed'')
             else Inr (route_pool fl lt (zn_policy z) q protocols now m (zone_pool gateways q))))))"

section \<open>Reference\<close>

text \<open>A gateway may take the request with the reachability record \<open>r\<close>.\<close>

definition eligible :: "zone_policy \<Rightarrow> zone_request \<Rightarrow> string list \<Rightarrow> instant \<Rightarrow> reach_map \<Rightarrow> gateway \<Rightarrow> reachability \<Rightarrow> bool" where
  "eligible policy q protocols now m g r \<longleftrightarrow> gw_status g = GwOnline \<and> gw_currentLoad g < gw_maxConcurrentTasks g
     \<and> set (zq_requiredCapabilities q) \<subseteq> set (gw_capabilities g) \<and> set protocols \<inter> set (gw_adapters g) \<noteq> {}
     \<and> (\<forall>as. zp_allowedAdapters policy = Some as \<longrightarrow> set protocols \<inter> set as \<noteq> {})
     \<and> reach_findAny (gw_id g) (zq_targetId q) protocols now m = Some r
     \<and> (zq_targetPort q = None \<or> rc_port r = zq_targetPort q) \<and> rc_status r = Reachable \<and> now < rc_expiresAt r"

text \<open>The zone admits the request now, and without an approval.\<close>

definition zone_open ::
  "(instant \<Rightarrow> string \<Rightarrow> int \<times> int \<times> int) \<Rightarrow> (string \<Rightarrow> int option) \<Rightarrow> gateway list \<Rightarrow> zone \<Rightarrow> zone_request \<Rightarrow> instant \<Rightarrow> bool" where
  "zone_open clock num gateways z q now \<longleftrightarrow> zn_enabled z \<and> zq_targetId q \<notin> set (zq_lockedTargetIds q)
     \<and> (\<forall>ts. zp_allowedTargets (zn_policy z) = Some ts \<longrightarrow> zq_targetId q \<in> set ts)
     \<and> (\<forall>ps. zp_allowedPorts (zn_policy z) = Some ps \<longrightarrow> (\<exists>p \<in> set ps. p \<noteq> 0 \<and> zq_targetPort q = Some p))
     \<and> (\<forall>as a. zp_allowedActions (zn_policy z) = Some as \<and> zq_action q = Some a \<and> a \<noteq> [] \<longrightarrow> a \<in> set as)
     \<and> isInsideMaintenanceWindow clock num (zp_maintenanceWindow (zn_policy z)) now = Inr True
     \<and> (\<forall>k. zp_maxConcurrentTasks (zn_policy z) = Some k \<longrightarrow>
          sum_list (map gw_currentLoad (filter (\<lambda>g. zq_zoneId q \<in> set (gw_zoneIds g)) gateways)) < k)
     \<and> \<not> (zp_requireApproval (zn_policy z) \<and> needsApproval q)"

section \<open>Lemmas\<close>

lemma reach_findAny_Some:
  assumes "reach_findAny gatewayId targetId protocols now m = Some r"
  shows "\<exists>p \<in> set protocols. reach_find gatewayId targetId p now m = Some r"
proof -
  obtain x where x: "find (\<lambda>r. r \<noteq> None) (map (\<lambda>p. reach_find gatewayId targetId p now m) protocols) = Some x" "x = Some r"
    using assms by (auto simp: reach_findAny_def split: option.splits)
  then show ?thesis using find_Some_iff_first [OF x(1)] by auto
qed

lemma reachable_unexpired:
  assumes "reach_findAny gatewayId targetId protocols now m = Some r" and "rc_status r = Reachable"
  shows "now < rc_expiresAt r"
proof -
  obtain p y where "findRaw gatewayId targetId p m = Some y" "r = (if reach_isExpired y now then y\<lparr>rc_status := ReachExpired\<rparr> else y)"
    using reach_findAny_Some [OF assms(1)] by (auto simp: reach_find_def split: option.splits)
  then show ?thesis using assms(2) by (auto simp: reach_isExpired_def split: if_splits)
qed

definition candidate_of :: "(rat \<Rightarrow> rat) \<Rightarrow> zone_policy \<Rightarrow> gateway \<Rightarrow> reachability \<Rightarrow> candidate" where
  "candidate_of fl policy g r = \<lparr>cn_gateway = g, cn_reachability = r, cn_score = route_score fl policy g r,
     cn_reasons = [''zone_matched'', ''capability_matched'', ''reachable'', ''load_acceptable'']\<rparr>"

definition candidates_of :: "(rat \<Rightarrow> rat) \<Rightarrow> zone_policy \<Rightarrow> zone_request \<Rightarrow> string list \<Rightarrow> instant \<Rightarrow> reach_map \<Rightarrow> gateway \<Rightarrow> candidate list" where
  "candidates_of fl policy q protocols now m g = (case reach_findAny (gw_id g) (zq_targetId q) protocols now m of
     None \<Rightarrow> [] | Some r \<Rightarrow> if eligible policy q protocols now m g r then [candidate_of fl policy g r] else [])"

lemma scan_reachable_candidates:
  assumes "reach_findAny (gw_id g) (zq_targetId q) protocols now m = Some r"
  shows "zs_candidates (scan_reachable fl policy q now g r st) = zs_candidates st @
    (if (zq_targetPort q = None \<or> rc_port r = zq_targetPort q) \<and> rc_status r = Reachable then [candidate_of fl policy g r] else [])"
  using reachable_unexpired [OF assms] by (auto simp: scan_reachable_def candidate_of_def reach_isExpired_def)

lemma scan_gateway_candidates:
  assumes "gw_zoneIds g \<noteq> []"
  shows "zs_candidates (scan_gateway fl policy q protocols now m g st) = zs_candidates st @ candidates_of fl policy q protocols now m g"
proof (cases "gw_status g = GwOnline \<and> gw_currentLoad g < gw_maxConcurrentTasks g
    \<and> filter (\<lambda>c. c \<notin> set (gw_capabilities g)) (zq_requiredCapabilities q) = [] \<and> set protocols \<inter> set (gw_adapters g) \<noteq> {}
    \<and> (\<forall>as. zp_allowedAdapters policy = Some as \<longrightarrow> set protocols \<inter> set as \<noteq> {})")
  case True
  then have caps: "set (zq_requiredCapabilities q) \<subseteq> set (gw_capabilities g)" by (auto simp: filter_empty_conv)
  have adapters: "\<exists>p \<in> set protocols. p \<in> set (gw_adapters g)" using True by blast
  have zone: "\<not> (case zp_allowedAdapters policy of None \<Rightarrow> False | Some as \<Rightarrow> \<not> (\<exists>p \<in> set protocols. p \<in> set as))"
    using True by (auto split: option.splits)
  have "scan_gateway fl policy q protocols now m g st = (case reach_findAny (gw_id g) (zq_targetId q) protocols now m of
      None \<Rightarrow> st\<lparr>zs_capable := True\<rparr>
    | Some r \<Rightarrow> scan_reachable fl policy q now g r (st\<lparr>zs_capable := True\<rparr>))"
    unfolding scan_gateway_def using True adapters zone assms by (auto simp: Let_def not_le)
  moreover have "eligible policy q protocols now m g r \<longleftrightarrow> (zq_targetPort q = None \<or> rc_port r = zq_targetPort q) \<and> rc_status r = Reachable"
    if "reach_findAny (gw_id g) (zq_targetId q) protocols now m = Some r" for r
    using that True caps reachable_unexpired [OF that] by (auto simp: eligible_def)
  ultimately show ?thesis
    by (cases "reach_findAny (gw_id g) (zq_targetId q) protocols now m") (simp_all add: candidates_of_def scan_reachable_candidates)
next
  case False
  have "\<not> eligible policy q protocols now m g r" for r using False by (auto simp: eligible_def filter_empty_conv)
  then have "candidates_of fl policy q protocols now m g = []" by (simp add: candidates_of_def split: option.splits)
  moreover have "zs_candidates (scan_gateway fl policy q protocols now m g st) = zs_candidates st"
    using False by (auto simp: scan_gateway_def Let_def split: option.splits)
  ultimately show ?thesis by simp
qed

lemma fold_candidates:
  assumes "\<forall>g \<in> set pool. gw_zoneIds g \<noteq> []"
  shows "zs_candidates (fold (scan_gateway fl policy q protocols now m) pool st)
    = zs_candidates st @ concat (map (candidates_of fl policy q protocols now m) pool)"
  using assms by (induction pool arbitrary: st) (simp_all add: scan_gateway_candidates)

lemma set_candidates:
  "c \<in> set (concat (map (candidates_of fl policy q protocols now m) pool)) \<longleftrightarrow>
   (\<exists>g \<in> set pool. \<exists>r. eligible policy q protocols now m g r \<and> c = candidate_of fl policy g r)"
proof -
  have "c \<in> set (candidates_of fl policy q protocols now m g) \<longleftrightarrow> (\<exists>r. eligible policy q protocols now m g r \<and> c = candidate_of fl policy g r)" for g
    by (auto simp: candidates_of_def eligible_def split: option.splits)
  then show ?thesis by auto
qed

definition all_candidates ::
  "(rat \<Rightarrow> rat) \<Rightarrow> zone_policy \<Rightarrow> zone_request \<Rightarrow> string list \<Rightarrow> instant \<Rightarrow> reach_map \<Rightarrow> gateway list \<Rightarrow> candidate list" where
  "all_candidates fl policy q protocols now m gateways = concat (map (candidates_of fl policy q protocols now m) (zone_pool gateways q))"

lemma route_outcome_status: "zr_status (route_outcome lt st) = RouteSelected \<longleftrightarrow> zs_candidates st \<noteq> []"
proof -
  have "rankCandidates lt (zs_candidates st) = [] \<longleftrightarrow> zs_candidates st = []"
    by (metis length_0_conv length_sort_by rankCandidates_def)
  then show ?thesis by (auto simp: route_outcome_def Let_def route_blocked_def split: list.splits)
qed

lemma pool_zones: "\<forall>g \<in> set (zone_pool gateways q). gw_zoneIds g \<noteq> []"
  by (auto simp: zone_pool_def)

lemma all_candidates_iff:
  "c \<in> set (all_candidates fl policy q protocols now m gateways) \<longleftrightarrow> (\<exists>g \<in> set gateways. zq_zoneId q \<in> set (gw_zoneIds g)
     \<and> (\<exists>r. eligible policy q protocols now m g r \<and> c = candidate_of fl policy g r))"
  unfolding all_candidates_def set_candidates by (auto simp: zone_pool_def)

lemma first_guard_None: "first_guard guards = None \<longleftrightarrow> (\<forall>g \<in> set guards. \<not> fst g)"
  by (simp add: first_guard_def find_None_iff_all)

lemma zone_guards_pass:
  "first_guard (zone_guards q z) = None \<longleftrightarrow> zn_enabled z \<and> zq_targetId q \<notin> set (zq_lockedTargetIds q)
     \<and> (\<forall>ts. zp_allowedTargets (zn_policy z) = Some ts \<longrightarrow> zq_targetId q \<in> set ts)
     \<and> (\<forall>ps. zp_allowedPorts (zn_policy z) = Some ps \<longrightarrow> (\<exists>p \<in> set ps. p \<noteq> 0 \<and> zq_targetPort q = Some p))
     \<and> (\<forall>as a. zp_allowedActions (zn_policy z) = Some as \<and> zq_action q = Some a \<and> a \<noteq> [] \<longrightarrow> a \<in> set as)"
proof -
  have "(case zp_allowedPorts (zn_policy z) of None \<Rightarrow> False
      | Some ps \<Rightarrow> zq_targetPort q = None \<or> zq_targetPort q = Some 0 \<or> the (zq_targetPort q) \<notin> set ps) \<longleftrightarrow>
      \<not> (\<forall>ps. zp_allowedPorts (zn_policy z) = Some ps \<longrightarrow> (\<exists>p \<in> set ps. p \<noteq> 0 \<and> zq_targetPort q = Some p))"
    by (cases "zq_targetPort q") (auto split: option.splits)
  moreover have "(truthy (zq_action q) \<and> \<not> isActionAllowed (zp_allowedActions (zn_policy z)) (the (zq_action q))) \<longleftrightarrow>
      \<not> (\<forall>as a. zp_allowedActions (zn_policy z) = Some as \<and> zq_action q = Some a \<and> a \<noteq> [] \<longrightarrow> a \<in> set as)"
    by (cases "zq_action q") (auto simp: isActionAllowed_def split: option.splits)
  moreover have "(case zp_allowedTargets (zn_policy z) of None \<Rightarrow> False | Some ts \<Rightarrow> zq_targetId q \<notin> set ts) \<longleftrightarrow>
      \<not> (\<forall>ts. zp_allowedTargets (zn_policy z) = Some ts \<longrightarrow> zq_targetId q \<in> set ts)" by (auto split: option.splits)
  ultimately show ?thesis unfolding first_guard_None zone_guards_def Let_def by simp blast
qed

lemma pool_guards_pass:
  "first_guard (pool_guards policy pool) = None \<longleftrightarrow> pool \<noteq> []
     \<and> (\<forall>k. zp_maxConcurrentTasks policy = Some k \<longrightarrow> sum_list (map gw_currentLoad pool) < k)"
  unfolding first_guard_None pool_guards_def by (auto split: option.splits)

lemma zone_open_alt:
  "zone_open clock num gateways z q now \<longleftrightarrow> first_guard (zone_guards q z) = None
     \<and> isInsideMaintenanceWindow clock num (zp_maintenanceWindow (zn_policy z)) now = Inr True
     \<and> (\<forall>k. zp_maxConcurrentTasks (zn_policy z) = Some k \<longrightarrow> sum_list (map gw_currentLoad (zone_pool gateways q)) < k)
     \<and> \<not> (zp_requireApproval (zn_policy z) \<and> needsApproval q)"
  unfolding zone_guards_pass zone_open_def zone_pool_def by blast

text \<open>What the route is once the channels and the zone are known.\<close>

lemma route_pool_outcome:
  assumes "\<forall>k. zp_maxConcurrentTasks policy = Some k \<longrightarrow> sum_list (map gw_currentLoad (zone_pool gateways q)) < k"
    and "\<not> (zp_requireApproval policy \<and> needsApproval q)"
  shows "case rankCandidates lt (all_candidates fl policy q protocols now m gateways) of
      [] \<Rightarrow> zr_status (route_pool fl lt policy q protocols now m (zone_pool gateways q)) = RouteBlocked
    | best # rest \<Rightarrow> zr_status (route_pool fl lt policy q protocols now m (zone_pool gateways q)) = RouteSelected
        \<and> zr_selectedGateway (route_pool fl lt policy q protocols now m (zone_pool gateways q)) = Some (cn_gateway best)"
proof (cases "zone_pool gateways q = []")
  case True
  then show ?thesis
    by (simp add: all_candidates_def rankCandidates_def route_pool_def first_guard_def pool_guards_def route_blocked_def)
next
  case False
  let ?st = "fold (scan_gateway fl policy q protocols now m) (zone_pool gateways q)
      \<lparr>zs_candidates = [], zs_missing = [], zs_expired = False, zs_capable = False, zs_port = False\<rparr>"
  have cs: "zs_candidates ?st = all_candidates fl policy q protocols now m gateways"
    by (simp add: fold_candidates [OF pool_zones] all_candidates_def)
  have "first_guard (pool_guards policy (zone_pool gateways q)) = None" using False assms(1) by (simp add: pool_guards_pass)
  then have "route_pool fl lt policy q protocols now m (zone_pool gateways q) = route_outcome lt ?st"
    unfolding route_pool_def if_not_P [OF assms(2)] by simp
  then show ?thesis unfolding route_outcome_def cs by (simp add: Let_def route_blocked_def split: list.splits)
qed

lemma route_when_open:
  assumes "relay_channels (zq_protocols q) = Inr protocols" and "find (\<lambda>z. zn_id z = zq_zoneId q) zones = Some z"
    and "zone_open clock num gateways z q now"
  shows "\<exists>r. route fl clock num lt zones gateways m q now = Inr r
    \<and> (case rankCandidates lt (all_candidates fl (zn_policy z) q protocols now m gateways) of
        [] \<Rightarrow> zr_status r = RouteBlocked
      | best # rest \<Rightarrow> zr_status r = RouteSelected \<and> zr_selectedGateway r = Some (cn_gateway best))"
proof -
  have "route fl clock num lt zones gateways m q now = Inr (route_pool fl lt (zn_policy z) q protocols now m (zone_pool gateways q))"
    using assms by (simp add: route_def zone_open_alt)
  then show ?thesis using route_pool_outcome [where policy = "zn_policy z" and gateways = gateways and q = q and lt = lt and fl = fl and protocols = protocols and now = now and m = m] assms(3) by (simp add: zone_open_alt)
qed

lemma route_selected_open:
  assumes "route fl clock num lt zones gateways m q now = Inr r" and "zr_status r = RouteSelected"
  shows "\<exists>protocols z. relay_channels (zq_protocols q) = Inr protocols \<and> find (\<lambda>z. zn_id z = zq_zoneId q) zones = Some z
    \<and> zone_open clock num gateways z q now"
proof -
  have not: "zr_status (route_blocked x) \<noteq> RouteSelected" for x by (simp add: route_blocked_def)
  obtain protocols z where pz: "relay_channels (zq_protocols q) = Inr protocols" "find (\<lambda>z. zn_id z = zq_zoneId q) zones = Some z"
    "first_guard (zone_guards q z) = None" "isInsideMaintenanceWindow clock num (zp_maintenanceWindow (zn_policy z)) now = Inr True"
    and r: "r = route_pool fl lt (zn_policy z) q protocols now m (zone_pool gateways q)"
    using assms not by (auto simp: route_def split: sum.splits option.splits if_splits)
  have "first_guard (pool_guards (zn_policy z) (zone_pool gateways q)) = None \<and> \<not> (zp_requireApproval (zn_policy z) \<and> needsApproval q)"
    using assms(2) not unfolding r route_pool_def by (auto split: option.splits if_splits)
  then show ?thesis using pz by (auto simp: zone_open_alt pool_guards_pass)
qed

text \<open>\<open>localeCompare\<close> is consistent: identifiers it does not tell apart behave alike.\<close>

definition weak_order :: "(string \<Rightarrow> string \<Rightarrow> bool) \<Rightarrow> bool" where
  "weak_order lt \<longleftrightarrow> (\<forall>a b. lt a b \<longrightarrow> \<not> lt b a) \<and> (\<forall>a b c. \<not> lt b a \<and> \<not> lt c b \<longrightarrow> \<not> lt c a)"

lemma rank_best_first:
  assumes order: "weak_order lt"
    and "rankCandidates lt cs = best # rest" and "c \<in> set cs"
  shows "cn_score c \<le> cn_score best"
proof -
  have "sorted_wrt (\<lambda>a b. \<not> ranks_before lt b a) (sort_by (ranks_before lt) cs)"
  proof (rule sorted_sort_by)
    fix a b c assume "\<not> ranks_before lt b a" "\<not> ranks_before lt c b"
    moreover have "\<not> lt (gw_id (cn_gateway b)) (gw_id (cn_gateway a)) \<Longrightarrow> \<not> lt (gw_id (cn_gateway c)) (gw_id (cn_gateway b))
        \<Longrightarrow> \<not> lt (gw_id (cn_gateway c)) (gw_id (cn_gateway a))" using order unfolding weak_order_def by blast
    ultimately show "\<not> ranks_before lt c a" by (simp add: ranks_before_def split: if_splits)
  next
    fix a b assume "ranks_before lt a b"
    moreover have "lt (gw_id (cn_gateway a)) (gw_id (cn_gateway b)) \<Longrightarrow> \<not> lt (gw_id (cn_gateway b)) (gw_id (cn_gateway a))"
      using order unfolding weak_order_def by blast
    ultimately show "\<not> ranks_before lt b a" by (simp add: ranks_before_def split: if_splits)
  qed
  moreover have "\<not> lt (gw_id (cn_gateway best)) (gw_id (cn_gateway best))" using order unfolding weak_order_def by blast
  then have "\<not> ranks_before lt best best" by (simp add: ranks_before_def)
  ultimately have "\<not> ranks_before lt c best"
    using sort_by_hd_minimal [OF _ assms(2) [unfolded rankCandidates_def] assms(3)] by blast
  then show ?thesis by (auto simp: ranks_before_def split: if_splits)
qed

section \<open>Properties\<close>

text \<open>When a gateway is selected. \<open>route\<close> selects a gateway exactly when every protocol of the request is the
  relay channel, the zone exists, is enabled and admits the target, the port, the action, the time and one
  more task, no approval is needed, and some gateway of the zone is eligible: online, below its own limit, with
  all required capabilities and an admitted channel, and with a reachability record for the target that is
  positive, for the requested port and not expired.\<close>

theorem route_selects_iff:
  "(\<exists>r. route fl clock num lt zones gateways m q now = Inr r \<and> zr_status r = RouteSelected) \<longleftrightarrow>
   (\<exists>protocols z. relay_channels (zq_protocols q) = Inr protocols \<and> find (\<lambda>z. zn_id z = zq_zoneId q) zones = Some z
      \<and> zone_open clock num gateways z q now
      \<and> (\<exists>g \<in> set gateways. zq_zoneId q \<in> set (gw_zoneIds g) \<and> (\<exists>rec. eligible (zn_policy z) q protocols now m g rec)))"
    (is "?l = ?r")
proof
  assume ?l
  then obtain r where r: "route fl clock num lt zones gateways m q now = Inr r" "zr_status r = RouteSelected" by blast
  then obtain protocols z where pz: "relay_channels (zq_protocols q) = Inr protocols" "find (\<lambda>z. zn_id z = zq_zoneId q) zones = Some z"
    and op: "zone_open clock num gateways z q now" using route_selected_open by blast
  obtain best rest where "rankCandidates lt (all_candidates fl (zn_policy z) q protocols now m gateways) = best # rest"
    using route_when_open [OF pz op, of fl lt m] r by (auto split: list.splits)
  then have "best \<in> set (all_candidates fl (zn_policy z) q protocols now m gateways)"
    by (metis list.set_intros(1) rankCandidates_def set_sort_by)
  then show ?r using pz op unfolding all_candidates_iff by blast
next
  assume ?r
  then obtain protocols z g rec where pz: "relay_channels (zq_protocols q) = Inr protocols" "find (\<lambda>z. zn_id z = zq_zoneId q) zones = Some z"
    and op: "zone_open clock num gateways z q now"
    and g: "g \<in> set gateways" "zq_zoneId q \<in> set (gw_zoneIds g)" "eligible (zn_policy z) q protocols now m g rec" by blast
  have "candidate_of fl (zn_policy z) g rec \<in> set (all_candidates fl (zn_policy z) q protocols now m gateways)"
    using g unfolding all_candidates_iff by blast
  then have "rankCandidates lt (all_candidates fl (zn_policy z) q protocols now m gateways) \<noteq> []"
    by (metis list.set(1) empty_iff rankCandidates_def set_sort_by)
  then obtain best rest where "rankCandidates lt (all_candidates fl (zn_policy z) q protocols now m gateways) = best # rest"
    by (cases "rankCandidates lt (all_candidates fl (zn_policy z) q protocols now m gateways)") auto
  then show ?l using route_when_open [OF pz op, of fl lt m] by auto
qed

text \<open>The selected gateway is eligible and the best. When \<open>localeCompare\<close> orders identifiers consistently, the
  gateway that \<open>route\<close> returns belongs to the zone, is eligible for the request, and no eligible gateway of
  the zone has a higher score.\<close>

theorem route_selects_best:
  assumes order: "weak_order lt"
    and "route fl clock num lt zones gateways m q now = Inr r" and "zr_selectedGateway r = Some g"
    and "relay_channels (zq_protocols q) = Inr protocols" and "find (\<lambda>z. zn_id z = zq_zoneId q) zones = Some z"
    and "zr_status r = RouteSelected"
  shows "g \<in> set gateways \<and> zq_zoneId q \<in> set (gw_zoneIds g)
    \<and> (\<exists>rec. eligible (zn_policy z) q protocols now m g rec
        \<and> (\<forall>g' rec'. g' \<in> set gateways \<and> zq_zoneId q \<in> set (gw_zoneIds g') \<and> eligible (zn_policy z) q protocols now m g' rec'
             \<longrightarrow> route_score fl (zn_policy z) g' rec' \<le> route_score fl (zn_policy z) g rec))"
proof -
  have op: "zone_open clock num gateways z q now" using route_selected_open [OF assms(2,6)] assms(5) by auto
  let ?cs = "all_candidates fl (zn_policy z) q protocols now m gateways"
  obtain best rest where best: "rankCandidates lt ?cs = best # rest" "g = cn_gateway best"
    using route_when_open [OF assms(4,5) op, of fl lt m] assms(2,3,6) by (auto split: list.splits)
  then have "best \<in> set ?cs" by (metis list.set_intros(1) rankCandidates_def set_sort_by)
  then obtain g0 rec where g0: "g0 \<in> set gateways" "zq_zoneId q \<in> set (gw_zoneIds g0)" "eligible (zn_policy z) q protocols now m g0 rec"
    "best = candidate_of fl (zn_policy z) g0 rec" unfolding all_candidates_iff by blast
  have "route_score fl (zn_policy z) g' rec' \<le> route_score fl (zn_policy z) g0 rec"
    if g': "g' \<in> set gateways" "zq_zoneId q \<in> set (gw_zoneIds g')" "eligible (zn_policy z) q protocols now m g' rec'" for g' rec'
  proof -
    have "candidate_of fl (zn_policy z) g' rec' \<in> set ?cs" using g' unfolding all_candidates_iff by blast
    then have "cn_score (candidate_of fl (zn_policy z) g' rec') \<le> cn_score best" using rank_best_first [OF order best(1)] by blast
    then show ?thesis by (simp add: g0(4) candidate_of_def)
  qed
  moreover have "g = g0" using best(2) g0(4) by (simp add: candidate_of_def)
  ultimately show ?thesis using g0 by blast
qed

definition sample_zone :: zone where
  "sample_zone = \<lparr>zn_id = ''z'', zn_policy = \<lparr>zp_priority = None, zp_requireApproval = False, zp_allowedAdapters = None,
     zp_allowedTargets = None, zp_allowedPorts = None, zp_allowedActions = None, zp_maxConcurrentTasks = None, zp_maintenanceWindow = None\<rparr>, zn_enabled = True\<rparr>"

definition sample_gateway :: gateway where
  "sample_gateway = \<lparr>gw_id = ''g'', gw_zoneIds = [''z''], gw_status = GwOnline, gw_adapters = [''relay.tcp''], gw_capabilities = [],
     gw_currentLoad = 0, gw_maxConcurrentTasks = 4, gw_successRate = 1\<rparr>"

definition sample_reach :: reach_map where
  "sample_reach = snd (reach_upsert ''r'' 0 ''g'' ''t'' ''relay.tcp'' (Some 443) Reachable None 60 [])"

definition sample_zone_request :: zone_request where
  "sample_zone_request = \<lparr>zq_zoneId = ''z'', zq_targetId = ''t'', zq_protocols = [''relay.tcp''], zq_targetPort = Some 443,
     zq_requiredCapabilities = [], zq_action = None, zq_destructive = True, zq_lockedTargetIds = []\<rparr>"

lemma sample_relay: "relay_channels (zq_protocols sample_zone_request) = Inr [''relay.tcp'']"
  by code_simp

lemma sample_route:
  "\<exists>r. route id (\<lambda>_ _. (0, 0, 0)) (\<lambda>_. None) (\<lambda>_ _. False) [sample_zone] [sample_gateway] sample_reach sample_zone_request 5 = Inr r
     \<and> zr_status r = RouteSelected \<and> zr_selectedGateway r = Some sample_gateway"
proof -
  have "zone_open (\<lambda>_ _. (0, 0, 0)) (\<lambda>_. None) [sample_gateway] sample_zone sample_zone_request 5"
    by (simp add: zone_open_def sample_zone_def sample_zone_request_def isInsideMaintenanceWindow_def)
  moreover have "all_candidates id (zn_policy sample_zone) sample_zone_request [''relay.tcp''] 5 sample_reach [sample_gateway]
      = [candidate_of id (zn_policy sample_zone) sample_gateway (snd (hd sample_reach))]"
    by (simp add: all_candidates_def zone_pool_def candidates_of_def eligible_def sample_zone_request_def sample_gateway_def sample_zone_def
        sample_reach_def reach_upsert_def Let_def reach_findAny_def reach_find_def findRaw_def reach_isExpired_def reach_key_def)
  then have "rankCandidates (\<lambda>_ _. False) (all_candidates id (zn_policy sample_zone) sample_zone_request [''relay.tcp''] 5 sample_reach [sample_gateway])
      = [candidate_of id (zn_policy sample_zone) sample_gateway (snd (hd sample_reach))]" by (simp add: rankCandidates_def)
  moreover have "find (\<lambda>z. zn_id z = zq_zoneId sample_zone_request) [sample_zone] = Some sample_zone" by (simp add: sample_zone_def sample_zone_request_def)
  ultimately show ?thesis
    using route_when_open [OF sample_relay, of "[sample_zone]" sample_zone "\<lambda>_ _. (0, 0, 0)" "\<lambda>_. None" "[sample_gateway]" 5 id "\<lambda>_ _. False" sample_reach]
    by (auto simp: candidate_of_def)
qed

theorem route_selects_best_witness:
  "\<exists>rec. eligible (zn_policy sample_zone) sample_zone_request [''relay.tcp''] 5 sample_reach sample_gateway rec"
proof -
  obtain r where r: "route id (\<lambda>_ _. (0, 0, 0)) (\<lambda>_. None) (\<lambda>_ _. False) [sample_zone] [sample_gateway] sample_reach sample_zone_request 5 = Inr r"
    "zr_selectedGateway r = Some sample_gateway" "zr_status r = RouteSelected" using sample_route by blast
  have order: "weak_order (\<lambda>_ _. False)" by (simp add: weak_order_def)
  have zone: "find (\<lambda>z. zn_id z = zq_zoneId sample_zone_request) [sample_zone] = Some sample_zone" by (simp add: sample_zone_def sample_zone_request_def)
  show ?thesis using route_selects_best [OF order r(1,2) sample_relay zone r(3)] by blast
qed

end
