(* ===== verification/ExecutionStore.thy ===== *)
theory ExecutionStore
  imports DocumentStore StepGraph
begin

text \<open>
  The stores behind deployments: \<open>backend/src/modules/executions/repository/executions.repository.ts\<close> (runs and
  steps) and \<open>backend/src/modules/deployment-plans/repository/deployment-plans.repository.ts\<close> (plans, targets
  and the log of transitions), with the records of both schema files.

  \<open>exec_db\<close> holds the five namespaces and the wall clock \<open>xd_now\<close> that \<open>new Date()\<close> and the database read. A
  patch is a function on the entity that leaves its id alone; a member the source sets to \<open>undefined\<close> becomes
  \<open>None\<close>. Events are kept in the order they were written, without the identifiers \<open>newId\<close> draws for them,
  which never collide.
\<close>

section \<open>Records\<close>

record execution_run =
  xr_id :: string
  xr_tenantId :: "string option"
  xr_deploymentPlanId :: string
  xr_executionTargetId :: "string option"
  xr_runNo :: int
  xr_type :: string
  xr_idempotencyKey :: string
  xr_requestHash :: string
  xr_externalRunId :: "string option"
  xr_status :: string
  xr_startedAt :: "instant option"
  xr_finishedAt :: "instant option"
  xr_errorCode :: "string option"
  xr_errorMessage :: "string option"
  xr_concurrencyLimit :: "int option"
  xr_recoveryAttemptCount :: "int option"
  xr_lastRecoveryAt :: "instant option"
  xr_summary :: jobject
  xr_createdAt :: instant
  xr_updatedAt :: instant
  xr_createdBy :: string
  xr_updatedBy :: "string option"
  xr_version :: int

record deployment_plan =
  xp_id :: string
  xp_tenantId :: "string option"
  xp_name :: string
  xp_planType :: string
  xp_selectionMode :: string
  xp_certificateVersionId :: string
  xp_certificateFormatId :: "string option"
  xp_status :: string
  xp_executionStatus :: "string option"
  xp_approvalStatus :: string
  xp_approvalId :: "string option"
  xp_snapshotHash :: string
  xp_idempotencyKey :: string
  xp_requestHash :: string
  xp_policy :: jobject
  xp_createdReason :: string
  xp_temporary :: "bool option"
  xp_createdAt :: instant
  xp_updatedAt :: instant
  xp_createdBy :: string
  xp_updatedBy :: "string option"
  xp_version :: int

record plan_target =
  xt_id :: string
  xt_tenantId :: "string option"
  xt_deploymentPlanId :: string
  xt_certificateBindingId :: "string option"
  xt_applicationAssetId :: "string option"
  xt_serviceAssetId :: "string option"
  xt_executionTargetId :: "string option"
  xt_executorType :: string
  xt_requiredCapabilities :: "string list"
  xt_matchResult :: "jobject option"
  xt_gatewayRoute :: "jobject option"
  xt_strategyPayload :: "jobject option"
  xt_status :: string
  xt_executionStatus :: "string option"
  xt_createdAt :: instant
  xt_updatedAt :: instant
  xt_createdBy :: "string option"
  xt_updatedBy :: "string option"
  xt_version :: int

record state_transition =
  xe_tenantId :: "string option"
  xe_entityType :: string
  xe_entityId :: string
  xe_fromStatus :: "string option"
  xe_toStatus :: string
  xe_event :: string
  xe_actorType :: string
  xe_actorId :: "string option"
  xe_createdAt :: instant

record exec_db =
  xd_now :: instant
  xd_runs :: "execution_run docs"
  xd_steps :: "execution_step docs"
  xd_plans :: "deployment_plan docs"
  xd_targets :: "plan_target docs"
  xd_transitions :: "state_transition list"

type_synonym 'a exec = "exec_db \<Rightarrow> 'a result \<times> exec_db"

section \<open>Executions repository\<close>

text \<open>A read without a tenant sees every tenant.\<close>

definition sameTenant :: "string option \<Rightarrow> string option \<Rightarrow> bool" where
  "sameTenant left right = (case right of None \<Rightarrow> True | Some t \<Rightarrow> getOrElse left [] = t)"

definition getRun :: "string \<Rightarrow> string option \<Rightarrow> exec_db \<Rightarrow> execution_run option" where
  "getRun i tenantId d = (case pg_get (xd_runs d) i of
     None \<Rightarrow> None | Some run \<Rightarrow> if sameTenant (xr_tenantId run) tenantId then Some run else None)"

definition getRunOrThrow :: "string \<Rightarrow> string option \<Rightarrow> exec_db \<Rightarrow> execution_run result" where
  "getRunOrThrow i tenantId d = (case getRun i tenantId d of
     None \<Rightarrow> Inl (AppError ''RESOURCE_NOT_FOUND'') | Some run \<Rightarrow> Inr run)"

definition run_older :: "execution_run \<Rightarrow> execution_run \<Rightarrow> bool" where
  "run_older a b \<longleftrightarrow> xr_createdAt a < xr_createdAt b"

definition listRuns :: "string option \<Rightarrow> string option \<Rightarrow> exec_db \<Rightarrow> execution_run list" where
  "listRuns tenantId deploymentPlanId d = sort_by run_older
     (filter (\<lambda>run. sameTenant (xr_tenantId run) tenantId
        \<and> (truthy deploymentPlanId \<longrightarrow> Some (xr_deploymentPlanId run) = deploymentPlanId)) (map dr_payload (xd_runs d)))"

definition findRunByIdempotencyKey :: "string option \<Rightarrow> string \<Rightarrow> exec_db \<Rightarrow> execution_run option" where
  "findRunByIdempotencyKey tenantId idempotencyKey d =
     find (\<lambda>run. xr_idempotencyKey run = idempotencyKey) (listRuns tenantId None d)"

definition createRun :: "execution_run \<Rightarrow> execution_run exec" where
  "createRun run d = (case findRunByIdempotencyKey (xr_tenantId run) (xr_idempotencyKey run) d of
     Some _ \<Rightarrow> (Inl (AppError ''IDEMPOTENCY_CONFLICT''), d)
   | None \<Rightarrow> (case pg_create xr_id (xd_now d) run (xd_runs d) of
       Inl e \<Rightarrow> (Inl e, d) | Inr (r, rows) \<Rightarrow> (Inr r, d\<lparr>xd_runs := rows\<rparr>)))"

definition updateRun :: "string \<Rightarrow> (execution_run \<Rightarrow> execution_run) \<Rightarrow> execution_run exec" where
  "updateRun i patch d = (case getRunOrThrow i None d of
     Inl e \<Rightarrow> (Inl e, d)
   | Inr current \<Rightarrow> (let updated = (patch current)\<lparr>xr_version := xr_version current + 1\<rparr>
       in (Inr updated, d\<lparr>xd_runs := pg_upsert xr_id (xd_now d) updated (xd_runs d)\<rparr>)))"

definition nextRunNo :: "string option \<Rightarrow> string \<Rightarrow> exec_db \<Rightarrow> int" where
  "nextRunNo tenantId deploymentPlanId d = fold (\<lambda>run m. max m (xr_runNo run)) (listRuns tenantId (Some deploymentPlanId) d) 0 + 1"

definition getStep :: "string \<Rightarrow> string option \<Rightarrow> exec_db \<Rightarrow> execution_step option" where
  "getStep i tenantId d = (case pg_get (xd_steps d) i of
     None \<Rightarrow> None | Some step \<Rightarrow> if sameTenant (es_tenantId step) tenantId then Some step else None)"

definition getStepOrThrow :: "string \<Rightarrow> string option \<Rightarrow> exec_db \<Rightarrow> execution_step result" where
  "getStepOrThrow i tenantId d = (case getStep i tenantId d of
     None \<Rightarrow> Inl (AppError ''RESOURCE_NOT_FOUND'') | Some step \<Rightarrow> Inr step)"

definition step_before :: "execution_step \<Rightarrow> execution_step \<Rightarrow> bool" where
  "step_before a b \<longleftrightarrow> es_stepNo a < es_stepNo b \<or> es_stepNo a = es_stepNo b \<and> es_createdAt a < es_createdAt b"

definition listSteps :: "string option \<Rightarrow> string option \<Rightarrow> exec_db \<Rightarrow> execution_step list" where
  "listSteps tenantId executionRunId d = sort_by step_before
     (filter (\<lambda>step. sameTenant (es_tenantId step) tenantId
        \<and> (truthy executionRunId \<longrightarrow> Some (es_executionRunId step) = executionRunId)) (map dr_payload (xd_steps d)))"

definition createStep :: "execution_step \<Rightarrow> execution_step exec" where
  "createStep step d =
    (if \<exists>row \<in> set (xd_steps d). es_executionRunId (dr_payload row) = es_executionRunId step
        \<and> es_stepNo (dr_payload row) = es_stepNo step \<and> es_tenantId (dr_payload row) = es_tenantId step
     then (Inl (AppError ''RESOURCE_ALREADY_EXISTS''), d)
     else (case pg_create es_id (xd_now d) step (xd_steps d) of
       Inl e \<Rightarrow> (Inl e, d) | Inr (s, rows) \<Rightarrow> (Inr s, d\<lparr>xd_steps := rows\<rparr>)))"

definition updateStep :: "string \<Rightarrow> (execution_step \<Rightarrow> execution_step) \<Rightarrow> execution_step exec" where
  "updateStep i patch d = (case getStepOrThrow i None d of
     Inl e \<Rightarrow> (Inl e, d)
   | Inr current \<Rightarrow> (let updated = (patch current)\<lparr>es_version := es_version current + 1\<rparr>
       in (Inr updated, d\<lparr>xd_steps := pg_upsert es_id (xd_now d) updated (xd_steps d)\<rparr>)))"

definition deleteRunsByDeploymentPlan :: "string option \<Rightarrow> string \<Rightarrow> exec_db \<Rightarrow> (string list \<times> string list) \<times> exec_db" where
  "deleteRunsByDeploymentPlan tenantId deploymentPlanId d =
    (let runIds = map xr_id (listRuns tenantId (Some deploymentPlanId) d) in
     if runIds = [] then (([], []), d)
     else (let stepIds = map es_id (filter (\<lambda>s. es_executionRunId s \<in> set runIds) (listSteps tenantId None d))
       in ((runIds, stepIds), d\<lparr>xd_steps := fold pg_delete stepIds (xd_steps d), xd_runs := fold pg_delete runIds (xd_runs d)\<rparr>)))"

definition executions_clear :: "exec_db \<Rightarrow> exec_db" where
  "executions_clear d = d\<lparr>xd_steps := pg_clear (xd_steps d), xd_runs := pg_clear (xd_runs d)\<rparr>"

section \<open>Deployment plans repository\<close>

text \<open>Here a read without a tenant sees only entities without one.\<close>

definition sameTenantPlan :: "string option \<Rightarrow> string option \<Rightarrow> bool" where
  "sameTenantPlan left right \<longleftrightarrow> getOrElse left [] = getOrElse right []"

definition sameTenantOrLegacyMissing :: "string option \<Rightarrow> string option \<Rightarrow> bool" where
  "sameTenantOrLegacyMissing left right \<longleftrightarrow> left = None \<or> sameTenantPlan left right"

definition tenantCondition :: "string option \<Rightarrow> string option \<Rightarrow> bool \<Rightarrow> bool" where
  "tenantCondition tenant tenantId allowLegacyMissing =
    (case tenantId of None \<Rightarrow> tenant = None
     | Some t \<Rightarrow> if allowLegacyMissing then tenant = None \<or> tenant = Some t else getOrElse tenant [] = t)"

definition createPlan :: "deployment_plan \<Rightarrow> deployment_plan exec" where
  "createPlan plan d = (case pg_create xp_id (xd_now d) plan (xd_plans d) of
     Inl e \<Rightarrow> (Inl e, d) | Inr (p, rows) \<Rightarrow> (Inr p, d\<lparr>xd_plans := rows\<rparr>))"

definition updatePlan :: "string \<Rightarrow> (deployment_plan \<Rightarrow> deployment_plan) \<Rightarrow> int option \<Rightarrow> deployment_plan exec" where
  "updatePlan i patch expectedVersion d = (case pg_getOrThrow (xd_plans d) i of
     Inl e \<Rightarrow> (Inl e, d)
   | Inr current \<Rightarrow> (let updated = (patch current)\<lparr>xp_version := xp_version current + 1\<rparr> in
       case expectedVersion of
         None \<Rightarrow> (Inr updated, d\<lparr>xd_plans := pg_upsert xp_id (xd_now d) updated (xd_plans d)\<rparr>)
       | Some v \<Rightarrow>
           if xp_version current \<noteq> v then (Inl (AppError ''RESOURCE_VERSION_CONFLICT''), d)
           else (case pg_compareAndSwap (\<lambda>p. Some (xp_version p)) (xd_now d) i v updated (xd_plans d) of
             (False, _) \<Rightarrow> (Inl (AppError ''RESOURCE_VERSION_CONFLICT''), d)
           | (True, rows) \<Rightarrow> (Inr updated, d\<lparr>xd_plans := rows\<rparr>))))"

definition deletePlan :: "string \<Rightarrow> exec_db \<Rightarrow> exec_db" where
  "deletePlan i d = d\<lparr>xd_plans := pg_delete i (xd_plans d)\<rparr>"

definition getPlan :: "string \<Rightarrow> string option \<Rightarrow> exec_db \<Rightarrow> deployment_plan option" where
  "getPlan i tenantId d = (case pg_get (xd_plans d) i of
     None \<Rightarrow> None | Some plan \<Rightarrow> if sameTenantPlan (xp_tenantId plan) tenantId then Some plan else None)"

definition getPlanOrThrow :: "string \<Rightarrow> string option \<Rightarrow> exec_db \<Rightarrow> deployment_plan result" where
  "getPlanOrThrow i tenantId d = (case getPlan i tenantId d of
     None \<Rightarrow> Inl (AppError ''RESOURCE_NOT_FOUND'') | Some plan \<Rightarrow> Inr plan)"

definition listPlans :: "string option \<Rightarrow> exec_db \<Rightarrow> deployment_plan list" where
  "listPlans tenantId d = pg_list (\<lambda>p. tenantCondition (xp_tenantId p) tenantId False) (xd_plans d)"

definition targets_asset :: "string option \<Rightarrow> string \<Rightarrow> exec_db \<Rightarrow> deployment_plan \<Rightarrow> bool" where
  "targets_asset tenantId applicationAssetId d plan \<longleftrightarrow>
    (\<exists>row \<in> set (xd_targets d). xt_applicationAssetId (dr_payload row) = Some applicationAssetId
       \<and> tenantCondition (xt_tenantId (dr_payload row)) tenantId True
       \<and> xt_deploymentPlanId (dr_payload row) = xp_id plan)"

definition listPlansByApplicationAsset :: "string option \<Rightarrow> string \<Rightarrow> exec_db \<Rightarrow> deployment_plan list" where
  "listPlansByApplicationAsset tenantId applicationAssetId d =
     pg_list (\<lambda>p. tenantCondition (xp_tenantId p) tenantId False \<and> targets_asset tenantId applicationAssetId d p) (xd_plans d)"

definition findPlanByIdempotencyKey :: "string option \<Rightarrow> string \<Rightarrow> string \<Rightarrow> exec_db \<Rightarrow> deployment_plan option" where
  "findPlanByIdempotencyKey tenantId actorId idempotencyKey d =
     find (\<lambda>p. xp_createdBy p = actorId \<and> xp_idempotencyKey p = idempotencyKey) (listPlans tenantId d)"

definition findLatestManualDraftByApplicationAsset :: "string option \<Rightarrow> string \<Rightarrow> exec_db \<Rightarrow> deployment_plan option" where
  "findLatestManualDraftByApplicationAsset tenantId applicationAssetId d =
    (case sort_by (\<lambda>a b. xp_createdAt b < xp_createdAt a)
       (filter (\<lambda>p. tenantCondition (xp_tenantId p) tenantId False \<and> xp_status p = ''DRAFT'' \<and> xp_createdReason p = ''MANUAL''
          \<and> \<not> getOrElse (xp_temporary p) False \<and> targets_asset tenantId applicationAssetId d p) (map dr_payload (xd_plans d))) of
       [] \<Rightarrow> None | p # _ \<Rightarrow> Some p)"

definition createTarget :: "plan_target \<Rightarrow> plan_target exec" where
  "createTarget target d =
    (if truthy (xt_certificateBindingId target) \<and> (\<exists>row \<in> set (xd_targets d).
          tenantCondition (xt_tenantId (dr_payload row)) (xt_tenantId target) False
          \<and> xt_deploymentPlanId (dr_payload row) = xt_deploymentPlanId target
          \<and> xt_certificateBindingId (dr_payload row) = xt_certificateBindingId target)
     then (Inl (AppError ''RESOURCE_ALREADY_EXISTS''), d)
     else (case pg_create xt_id (xd_now d) target (xd_targets d) of
       Inl e \<Rightarrow> (Inl e, d) | Inr (t, rows) \<Rightarrow> (Inr t, d\<lparr>xd_targets := rows\<rparr>)))"

definition updateTarget :: "string \<Rightarrow> (plan_target \<Rightarrow> plan_target) \<Rightarrow> plan_target exec" where
  "updateTarget i patch d = (case pg_getOrThrow (xd_targets d) i of
     Inl e \<Rightarrow> (Inl e, d)
   | Inr current \<Rightarrow> (let updated = (patch current)\<lparr>xt_version := xt_version current + 1\<rparr>
       in (Inr updated, d\<lparr>xd_targets := pg_upsert xt_id (xd_now d) updated (xd_targets d)\<rparr>)))"

definition getTarget :: "string \<Rightarrow> string option \<Rightarrow> exec_db \<Rightarrow> plan_target option" where
  "getTarget i tenantId d = (case pg_get (xd_targets d) i of
     None \<Rightarrow> None | Some target \<Rightarrow> if sameTenantOrLegacyMissing (xt_tenantId target) tenantId then Some target else None)"

definition listTargetsByPlan :: "string \<Rightarrow> string option \<Rightarrow> exec_db \<Rightarrow> plan_target list" where
  "listTargetsByPlan planId tenantId d =
     pg_list (\<lambda>t. xt_deploymentPlanId t = planId \<and> tenantCondition (xt_tenantId t) tenantId True) (xd_targets d)"

definition listTargetsByPlans :: "string list \<Rightarrow> string option \<Rightarrow> exec_db \<Rightarrow> plan_target list" where
  "listTargetsByPlans planIds tenantId d = (if planIds = [] then [] else
     pg_list (\<lambda>t. xt_deploymentPlanId t \<in> set planIds \<and> tenantCondition (xt_tenantId t) tenantId True) (xd_targets d))"

definition deleteTargetsByPlan :: "string \<Rightarrow> string option \<Rightarrow> exec_db \<Rightarrow> exec_db" where
  "deleteTargetsByPlan planId tenantId d =
     d\<lparr>xd_targets := fold pg_delete (map xt_id (listTargetsByPlan planId tenantId d)) (xd_targets d)\<rparr>"

definition createTransition :: "state_transition \<Rightarrow> exec_db \<Rightarrow> exec_db" where
  "createTransition event d = d\<lparr>xd_transitions := xd_transitions d @ [event]\<rparr>"

definition listTransitions :: "string option \<Rightarrow> exec_db \<Rightarrow> state_transition list" where
  "listTransitions entityId d = filter (\<lambda>e. truthy entityId \<longrightarrow> Some (xe_entityId e) = entityId) (xd_transitions d)"

definition deleteTransitionsByEntityIds :: "string list \<Rightarrow> string option \<Rightarrow> exec_db \<Rightarrow> nat \<times> exec_db" where
  "deleteTransitionsByEntityIds entityIds tenantId d = (if entityIds = [] then (0, d) else
    (let hit = (\<lambda>e. xe_entityId e \<in> set entityIds \<and> tenantCondition (xe_tenantId e) tenantId False)
     in (length (filter hit (xd_transitions d)), d\<lparr>xd_transitions := filter (\<lambda>e. \<not> hit e) (xd_transitions d)\<rparr>)))"

definition plans_clear :: "exec_db \<Rightarrow> exec_db" where
  "plans_clear d = d\<lparr>xd_plans := [], xd_targets := [], xd_transitions := []\<rparr>"

section \<open>What an update leaves behind\<close>

named_theorems keeps_steps \<open>calls that leave the steps alone\<close>
named_theorems keeps_runs \<open>calls that leave the runs alone\<close>

definition exec_ok :: "exec_db \<Rightarrow> bool" where
  "exec_ok d \<longleftrightarrow> stored_under_own_id es_id (xd_steps d) \<and> stored_under_own_id xr_id (xd_runs d)"

lemma sameTenant_None [simp]: "sameTenant t None"
  by (simp add: sameTenant_def)

lemma getStep_None [simp]: "getStep i None d = pg_get (xd_steps d) i"
  by (simp add: getStep_def split: option.splits)

lemma getRun_None [simp]: "getRun i None d = pg_get (xd_runs d) i"
  by (simp add: getRun_def split: option.splits)

lemma getStep_Some: "getStep i t d = Some s \<Longrightarrow> pg_get (xd_steps d) i = Some s \<and> sameTenant (es_tenantId s) t"
  by (auto simp: getStep_def split: option.splits if_splits)

lemma getRun_Some: "getRun i t d = Some r \<Longrightarrow> pg_get (xd_runs d) i = Some r \<and> sameTenant (xr_tenantId r) t"
  by (auto simp: getRun_def split: option.splits if_splits)

lemma updateStep_found:
  "pg_get (xd_steps d) i = Some s \<Longrightarrow> updateStep i patch d =
    (Inr ((patch s)\<lparr>es_version := es_version s + 1\<rparr>),
     d\<lparr>xd_steps := pg_upsert es_id (xd_now d) ((patch s)\<lparr>es_version := es_version s + 1\<rparr>) (xd_steps d)\<rparr>)"
  by (simp add: updateStep_def getStepOrThrow_def Let_def)

lemma updateStep_missing: "pg_get (xd_steps d) i = None \<Longrightarrow> updateStep i patch d = (Inl (AppError ''RESOURCE_NOT_FOUND''), d)"
  by (simp add: updateStep_def getStepOrThrow_def)

lemma updateRun_found:
  "pg_get (xd_runs d) i = Some r \<Longrightarrow> updateRun i patch d =
    (Inr ((patch r)\<lparr>xr_version := xr_version r + 1\<rparr>),
     d\<lparr>xd_runs := pg_upsert xr_id (xd_now d) ((patch r)\<lparr>xr_version := xr_version r + 1\<rparr>) (xd_runs d)\<rparr>)"
  by (simp add: updateRun_def getRunOrThrow_def Let_def)

lemma updateRun_missing: "pg_get (xd_runs d) i = None \<Longrightarrow> updateRun i patch d = (Inl (AppError ''RESOURCE_NOT_FOUND''), d)"
  by (simp add: updateRun_def getRunOrThrow_def)

lemma get_updateStep:
  assumes "stored_under_own_id es_id (xd_steps d)" and "\<And>s. es_id (patch s) = es_id s"
  shows "pg_get (xd_steps (snd (updateStep i patch d))) k =
    (if k = i then map_option (\<lambda>s. (patch s)\<lparr>es_version := es_version s + 1\<rparr>) (pg_get (xd_steps d) i) else pg_get (xd_steps d) k)"
proof (cases "pg_get (xd_steps d) i")
  case None
  then show ?thesis by (simp add: updateStep_missing)
next
  case (Some s)
  then have "es_id s = i" using assms(1) by (auto dest: docs.get_id)
  then show ?thesis using Some assms(2) by (simp add: updateStep_found pg_get_upsert)
qed

lemma get_updateRun:
  assumes "stored_under_own_id xr_id (xd_runs d)" and "\<And>r. xr_id (patch r) = xr_id r"
  shows "pg_get (xd_runs (snd (updateRun i patch d))) k =
    (if k = i then map_option (\<lambda>r. (patch r)\<lparr>xr_version := xr_version r + 1\<rparr>) (pg_get (xd_runs d) i) else pg_get (xd_runs d) k)"
proof (cases "pg_get (xd_runs d) i")
  case None
  then show ?thesis by (simp add: updateRun_missing)
next
  case (Some r)
  then have "xr_id r = i" using assms(1) by (auto dest: docs.get_id)
  then show ?thesis using Some assms(2) by (simp add: updateRun_found pg_get_upsert)
qed

lemma updateStep_keeps [simp]:
  "xd_runs (snd (updateStep i patch d)) = xd_runs d" "xd_plans (snd (updateStep i patch d)) = xd_plans d"
  "xd_targets (snd (updateStep i patch d)) = xd_targets d" "xd_transitions (snd (updateStep i patch d)) = xd_transitions d"
  "xd_now (snd (updateStep i patch d)) = xd_now d"
  by (simp_all add: updateStep_def Let_def split: sum.splits)

lemma updateRun_keeps [simp]:
  "xd_steps (snd (updateRun i patch d)) = xd_steps d" "xd_plans (snd (updateRun i patch d)) = xd_plans d"
  "xd_targets (snd (updateRun i patch d)) = xd_targets d" "xd_transitions (snd (updateRun i patch d)) = xd_transitions d"
  "xd_now (snd (updateRun i patch d)) = xd_now d"
  by (simp_all add: updateRun_def Let_def split: sum.splits)

lemma updatePlan_keeps [simp]:
  "xd_steps (snd (updatePlan i patch v d)) = xd_steps d" "xd_runs (snd (updatePlan i patch v d)) = xd_runs d"
  "xd_targets (snd (updatePlan i patch v d)) = xd_targets d" "xd_now (snd (updatePlan i patch v d)) = xd_now d"
  by (simp_all add: updatePlan_def Let_def split: sum.splits option.splits prod.splits bool.splits)

lemma updateTarget_keeps [simp]:
  "xd_steps (snd (updateTarget i patch d)) = xd_steps d" "xd_runs (snd (updateTarget i patch d)) = xd_runs d"
  "xd_plans (snd (updateTarget i patch d)) = xd_plans d" "xd_now (snd (updateTarget i patch d)) = xd_now d"
  by (simp_all add: updateTarget_def Let_def split: sum.splits)

lemma createTransition_keeps [simp]:
  "xd_steps (createTransition e d) = xd_steps d" "xd_runs (createTransition e d) = xd_runs d"
  "xd_plans (createTransition e d) = xd_plans d" "xd_targets (createTransition e d) = xd_targets d"
  "xd_now (createTransition e d) = xd_now d"
  by (simp_all add: createTransition_def)

lemma stored_updateStep:
  "stored_under_own_id es_id (xd_steps d) \<Longrightarrow> stored_under_own_id es_id (xd_steps (snd (updateStep i patch d)))"
  by (cases "pg_get (xd_steps d) i") (simp_all add: updateStep_missing updateStep_found stored_upsert)

lemma stored_updateRun:
  "stored_under_own_id xr_id (xd_runs d) \<Longrightarrow> stored_under_own_id xr_id (xd_runs (snd (updateRun i patch d)))"
  by (cases "pg_get (xd_runs d) i") (simp_all add: updateRun_missing updateRun_found stored_upsert)

lemma exec_ok_updateStep [intro]: "exec_ok d \<Longrightarrow> exec_ok (snd (updateStep i patch d))"
  by (simp add: exec_ok_def stored_updateStep)

lemma exec_ok_updateRun [intro]: "exec_ok d \<Longrightarrow> exec_ok (snd (updateRun i patch d))"
  by (simp add: exec_ok_def stored_updateRun)

text \<open>Calls in sequence that leave the steps, or the runs, alone.\<close>

lemma steps_andThen [keeps_steps]:
  "xd_steps (snd r) = S \<Longrightarrow> (\<And>x s. xd_steps s = S \<Longrightarrow> xd_steps (snd (k x s)) = S) \<Longrightarrow> xd_steps (snd (andThen r k)) = S"
  by (rule andThen_inv)

lemma steps_for_each [keeps_steps]:
  "(\<And>x s. xd_steps (snd (f x s)) = xd_steps s) \<Longrightarrow> xd_steps (snd (for_each f xs d)) = xd_steps d"
  by (rule for_each_rel [of xs "\<lambda>a b. xd_steps b = xd_steps a"]) simp_all

lemma runs_andThen [keeps_runs]:
  "xd_runs (snd r) = S \<Longrightarrow> (\<And>x s. xd_runs s = S \<Longrightarrow> xd_runs (snd (k x s)) = S) \<Longrightarrow> xd_runs (snd (andThen r k)) = S"
  by (rule andThen_inv)

lemma runs_for_each [keeps_runs]:
  "(\<And>x s. xd_runs (snd (f x s)) = xd_runs s) \<Longrightarrow> xd_runs (snd (for_each f xs d)) = xd_runs d"
  by (rule for_each_rel [of xs "\<lambda>a b. xd_runs b = xd_runs a"]) simp_all

text \<open>Listing.\<close>

lemma payload_iff_get:
  "stored_under_own_id idOf rows \<Longrightarrow> e \<in> dr_payload ` set rows \<longleftrightarrow> pg_get rows (idOf e) = Some e"
  using set_pg_list [of idOf rows e "\<lambda>_. True"] by (simp add: pg_list_def)

lemma set_listSteps:
  assumes "stored_under_own_id es_id (xd_steps d)"
  shows "s \<in> set (listSteps t r d) \<longleftrightarrow> pg_get (xd_steps d) (es_id s) = Some s \<and> sameTenant (es_tenantId s) t
    \<and> (truthy r \<longrightarrow> Some (es_executionRunId s) = r)"
  using payload_iff_get [OF assms, of s] by (auto simp: listSteps_def)

lemma set_listRuns:
  assumes "stored_under_own_id xr_id (xd_runs d)"
  shows "x \<in> set (listRuns t p d) \<longleftrightarrow> pg_get (xd_runs d) (xr_id x) = Some x \<and> sameTenant (xr_tenantId x) t
    \<and> (truthy p \<longrightarrow> Some (xr_deploymentPlanId x) = p)"
  using payload_iff_get [OF assms, of x] by (auto simp: listRuns_def)

lemma distinct_listSteps:
  assumes "stored_under_own_id es_id (xd_steps d)"
  shows "distinct (map es_id (listSteps t r d))"
proof -
  have "map es_id (map dr_payload (xd_steps d)) = map dr_id (xd_steps d)"
    using assms by (auto simp: stored_under_own_id_def)
  then have "distinct (map es_id (map dr_payload (xd_steps d)))" using assms by (simp only: stored_under_own_id_def)
  then have "distinct (map es_id (filter p (map dr_payload (xd_steps d))))" for p by (rule distinct_map_filter)
  moreover have "distinct (map es_id (sort_by lt xs)) \<longleftrightarrow> distinct (map es_id xs)" for lt and xs :: "execution_step list"
    by (rule mset_eq_imp_distinct_iff) simp
  ultimately show ?thesis by (simp only: listSteps_def)
qed

section \<open>Status and place of a step\<close>

definition status_at :: "exec_db \<Rightarrow> string \<Rightarrow> string option" where
  "status_at d k = map_option es_status (pg_get (xd_steps d) k)"

definition run_status_at :: "exec_db \<Rightarrow> string \<Rightarrow> string option" where
  "run_status_at d k = map_option xr_status (pg_get (xd_runs d) k)"

text \<open>What no operation on a stored step changes.\<close>

definition step_home :: "execution_step \<Rightarrow> execution_step" where
  "step_home s = s\<lparr>es_idempotent := None, es_attemptCount := 0, es_lastFailureCategory := None, es_lastErrorCode := None,
     es_lastErrorMessage := None, es_lastErrorDetails := None, es_inputSnapshot := [], es_status := [], es_startedAt := None,
     es_finishedAt := None, es_updatedAt := 0, es_updatedBy := None, es_version := 0\<rparr>"

lemma step_home_fields:
  "step_home s = step_home s' \<Longrightarrow> es_id s = es_id s' \<and> es_tenantId s = es_tenantId s' \<and> es_executionRunId s = es_executionRunId s'
    \<and> es_deploymentPlanTargetId s = es_deploymentPlanTargetId s' \<and> es_stepNo s = es_stepNo s' \<and> es_stepType s = es_stepType s'
    \<and> es_dependsOn s = es_dependsOn s' \<and> es_maxAttempts s = es_maxAttempts s' \<and> es_createdAt s = es_createdAt s'"
  by (cases s; cases s') (simp add: step_home_def)

lemma step_home_simps [simp]:
  "es_id (step_home s) = es_id s" "es_tenantId (step_home s) = es_tenantId s" "es_executionRunId (step_home s) = es_executionRunId s"
  "es_stepNo (step_home s) = es_stepNo s" "es_createdAt (step_home s) = es_createdAt s"
  "step_home (s\<lparr>es_version := n\<rparr>) = step_home s"
  by (simp_all add: step_home_def)

definition home_at :: "exec_db \<Rightarrow> string \<Rightarrow> execution_step option" where
  "home_at d k = map_option step_home (pg_get (xd_steps d) k)"

text \<open>The homes of all rows, in their order: they decide which steps a run has and in which order they are listed.\<close>

definition homes :: "exec_db \<Rightarrow> execution_step list" where
  "homes d = map (step_home \<circ> dr_payload) (xd_steps d)"

lemma homes_updateStep:
  assumes "stored_under_own_id es_id (xd_steps d)" and "\<And>s. step_home (patch s) = step_home s"
  shows "homes (snd (updateStep i patch d)) = homes d"
proof (cases "pg_get (xd_steps d) i")
  case None
  then show ?thesis by (simp add: updateStep_missing)
next
  case (Some s)
  have id: "es_id (patch s) = es_id s" using assms(2) [of s] step_home_fields by blast
  have si: "es_id s = i" using Some assms(1) by (auto dest: docs.get_id)
  have payload: "dr_payload r = s" if "r \<in> set (xd_steps d)" "dr_id r = i" for r
    using that Some assms(1) find_unique [of dr_id "xd_steps d" r i] by (simp add: stored_under_own_id_def pg_get_def)
  have "\<exists>r \<in> set (xd_steps d). dr_id r = i" using Some pg_get_None_iff [of "xd_steps d" i] by auto
  then show ?thesis
    using payload assms(2) [of s] by (simp add: updateStep_found [OF Some] homes_def pg_upsert_def id si upd_where_def)
qed

lemma homes_listSteps: "map step_home (listSteps t r d) = sort_by step_before
    (filter (\<lambda>h. sameTenant (es_tenantId h) t \<and> (truthy r \<longrightarrow> Some (es_executionRunId h) = r)) (homes d))"
proof -
  have "map step_home (filter (\<lambda>s. sameTenant (es_tenantId s) t \<and> (truthy r \<longrightarrow> Some (es_executionRunId s) = r)) xs)
      = filter (\<lambda>h. sameTenant (es_tenantId h) t \<and> (truthy r \<longrightarrow> Some (es_executionRunId h) = r)) (map step_home xs)" for xs
    by (induction xs) auto
  moreover have "map step_home (sort_by step_before xs) = sort_by step_before (map step_home xs)" for xs
    by (rule sort_by_map [symmetric]) (simp add: step_before_def)
  ultimately show ?thesis by (simp add: listSteps_def homes_def)
qed

lemma home_updateStep:
  assumes "stored_under_own_id es_id (xd_steps d)" and "\<And>s. step_home (patch s) = step_home s"
  shows "home_at (snd (updateStep i patch d)) k = home_at d k"
proof -
  have "es_id (patch s) = es_id s" for s using assms(2) [of s] step_home_fields by blast
  then show ?thesis using assms by (auto simp: home_at_def get_updateStep option.map_comp comp_def cong: map_option_cong)
qed

lemma status_updateStep:
  assumes "stored_under_own_id es_id (xd_steps d)" and "\<And>s. step_home (patch s) = step_home s" and "\<And>s. es_status (patch s) = st"
    and "pg_get (xd_steps d) i \<noteq> None"
  shows "status_at (snd (updateStep i patch d)) k = (if k = i then Some st else status_at d k)"
proof -
  have "es_id (patch s) = es_id s" for s using assms(2) [of s] step_home_fields by blast
  then show ?thesis using assms(1,3,4) by (auto simp: status_at_def get_updateStep option.map_comp comp_def)
qed

lemma listed_status:
  assumes "stored_under_own_id es_id (xd_steps d)" and "s \<in> set (listSteps t r d)"
  shows "status_at d (es_id s) = Some (es_status s) \<and> home_at d (es_id s) = Some (step_home s)"
  using assms by (simp add: set_listSteps status_at_def home_at_def)

text \<open>Which steps a run has depends on the places only.\<close>

lemma listed_iff_home:
  assumes "stored_under_own_id es_id (xd_steps d)"
  shows "(\<exists>s \<in> set (listSteps t r d). es_id s = k) \<longleftrightarrow>
    (\<exists>h. home_at d k = Some h \<and> es_id h = k \<and> sameTenant (es_tenantId h) t \<and> (truthy r \<longrightarrow> Some (es_executionRunId h) = r))"
proof
  assume "\<exists>s \<in> set (listSteps t r d). es_id s = k"
  then show "\<exists>h. home_at d k = Some h \<and> es_id h = k \<and> sameTenant (es_tenantId h) t \<and> (truthy r \<longrightarrow> Some (es_executionRunId h) = r)"
    using assms by (auto simp: set_listSteps home_at_def)
next
  assume "\<exists>h. home_at d k = Some h \<and> es_id h = k \<and> sameTenant (es_tenantId h) t \<and> (truthy r \<longrightarrow> Some (es_executionRunId h) = r)"
  then obtain s where "pg_get (xd_steps d) k = Some s" "es_id s = k" "sameTenant (es_tenantId s) t" "truthy r \<longrightarrow> Some (es_executionRunId s) = r"
    by (auto simp: home_at_def)
  then show "\<exists>s \<in> set (listSteps t r d). es_id s = k" using set_listSteps [OF assms] by blast
qed

lemma listed_same_homes:
  assumes "stored_under_own_id es_id (xd_steps d)" and "stored_under_own_id es_id (xd_steps d')" and "\<And>k. home_at d' k = home_at d k"
  shows "es_id ` set (listSteps t r d') = es_id ` set (listSteps t r d)"
proof -
  have mem: "k \<in> es_id ` A \<longleftrightarrow> (\<exists>s \<in> A. es_id s = k)" for k and A :: "execution_step set" by force
  have "k \<in> es_id ` set (listSteps t r d') \<longleftrightarrow> k \<in> es_id ` set (listSteps t r d)" for k
    unfolding mem listed_iff_home [OF assms(1)] listed_iff_home [OF assms(2)] assms(3) ..
  then show ?thesis by blast
qed

lemma status_at_iff: "status_at d k = Some st \<longleftrightarrow> (\<exists>s. pg_get (xd_steps d) k = Some s \<and> es_status s = st)"
  by (auto simp: status_at_def)

end
