(* ===== verification/DryRunChecks.thy ===== *)
theory DryRunChecks
  imports ExecutionStore
begin

text \<open>
  Dry run checks: \<open>backend/src/modules/executions/application/agent-v2-dry-run-result.ts\<close> and the helpers on checks of
  \<open>application/execution-result-sync.service.ts\<close>, with the accessors both files use on JSON records.

  A check is a JSON record; a \<open>Map\<close> is an association list in insertion order. The texts shown to operators are
  given in English.
\<close>

section \<open>Accessors\<close>

definition readRecord :: "json option \<Rightarrow> jobject option" where
  "readRecord v = (case v of Some (JObj m) \<Rightarrow> Some m | _ \<Rightarrow> None)"

definition readRecordArray :: "json option \<Rightarrow> jobject list" where
  "readRecordArray v = (case v of Some (JArr xs) \<Rightarrow> List.map_filter (\<lambda>x. readRecord (Some x)) xs | _ \<Rightarrow> [])"

fun read_path :: "json option \<Rightarrow> string list \<Rightarrow> json option" where
  "read_path cur [] = cur"
| "read_path cur (k # ks) = read_path (ojget (readRecord cur) k) ks"

definition readPath :: "jobject \<Rightarrow> string \<Rightarrow> json option" where
  "readPath value path = read_path (Some (JObj value)) (split_on (CHR ''.'') path)"

definition readString :: "jobject \<Rightarrow> string \<Rightarrow> string option" where
  "readString value path = trimmed_string (readPath value path)"

definition readBoolean :: "jobject \<Rightarrow> string \<Rightarrow> bool" where
  "readBoolean value path \<longleftrightarrow> readPath value path = Some (JBool True)"

definition json_truthy :: "json option \<Rightarrow> bool" where
  "json_truthy v = (case v of None \<Rightarrow> False | Some JNull \<Rightarrow> False | Some (JBool b) \<Rightarrow> b | Some (JNum n) \<Rightarrow> n \<noteq> 0
     | Some (JStr s) \<Rightarrow> s \<noteq> [] | _ \<Rightarrow> True)"

section \<open>Checks of a result\<close>

definition normalizeDryRunStatus :: "json option \<Rightarrow> string" where
  "normalizeDryRunStatus value = (let current = toLowerCase (trim (json_nullish value)) in
     if current = ''passed'' \<or> current = ''success'' then ''passed''
     else if current = ''failed'' \<or> current = ''error'' then ''failed''
     else if current = ''warning'' \<or> current = ''warn'' then ''warning''
     else ''unknown'')"

definition dryRunStatusRank :: "json option \<Rightarrow> nat" where
  "dryRunStatusRank value = (let status = normalizeDryRunStatus value in
     if status = ''failed'' then 4 else if status = ''warning'' then 3 else if status = ''unknown'' then 2 else 1)"

definition readDryRunChecks :: "jobject \<Rightarrow> jobject list" where
  "readDryRunChecks detail = readRecordArray (jget detail ''dryRunChecks'')"

definition check_key :: "jobject \<Rightarrow> string option" where
  "check_key c = orElse (readString c ''key'') (orElse (readString c ''label'') (readString c ''id''))"

definition merge_check :: "jobject \<Rightarrow> (string \<times> jobject) list \<Rightarrow> (string \<times> jobject) list" where
  "merge_check check byKey = (case check_key check of
     None \<Rightarrow> byKey
   | Some key \<Rightarrow> (case map_of byKey key of
       None \<Rightarrow> AList.update key (spread [] check) byKey
     | Some existing \<Rightarrow>
         if dryRunStatusRank (jget existing ''status'') \<le> dryRunStatusRank (jget check ''status'')
         then AList.update key (spread existing check) byKey else byKey))"

definition mergeDryRunChecks :: "jobject list list \<Rightarrow> jobject list" where
  "mergeDryRunChecks groups = map snd (fold merge_check (concat groups) [])"

definition dryRunChecksContainNoFailure :: "jobject list \<Rightarrow> bool" where
  "dryRunChecksContainNoFailure checks \<longleftrightarrow> \<not> (\<exists>c \<in> set checks. normalizeDryRunStatus (jget c ''status'') = ''failed'')"

definition task_id_of :: "execution_step \<Rightarrow> jobject \<Rightarrow> string option" where
  "task_id_of step detail = orElse (readString detail ''taskId'') (orElse (readString detail ''agentTaskId'')
     (orElse (readString (es_inputSnapshot step) ''dispatchDetail.taskId'') (readString (es_inputSnapshot step) ''dispatchDetail.agentTaskId'')))"

definition buildDryRunExecutionFailureCheck :: "string option \<Rightarrow> string option \<Rightarrow> execution_step \<Rightarrow> jobject \<Rightarrow> jobject" where
  "buildDryRunExecutionFailureCheck errorCode errorMessage step detail =
    [(''key'', JStr (getOrElse (readString (es_inputSnapshot step) ''actionType'') ''agent.plan.validate'')),
     (''label'', JStr ''Agent v2 preflight result''),
     (''status'', JStr ''failed''),
     (''detail'', JStr (let m = trim (getOrElse errorMessage []) in
        if m = [] then ''Agent v2 reported a failure without a failed preflight check'' else m)),
     (''evidence'', JObj (str_opt ''actionType'' (readString (es_inputSnapshot step) ''actionType'')
        @ [(''stepType'', JStr (es_stepType step))] @ str_opt ''taskId'' (task_id_of step detail) @ str_opt ''errorCode'' errorCode
        @ str_opt ''executor'' (readString detail ''executor'') @ str_opt ''mode'' (readString detail ''mode'')))]"

definition count_status :: "(json option \<Rightarrow> string) \<Rightarrow> jobject list \<Rightarrow> string \<Rightarrow> string \<times> json" where
  "count_status norm checks s = (s, JNum (int (length (filter (\<lambda>c. norm (jget c ''status'') = s) checks))))"

definition summarizeDryRunChecks :: "jobject list \<Rightarrow> jobject" where
  "summarizeDryRunChecks checks = map (count_status normalizeDryRunStatus checks) [''passed'', ''failed'', ''warning'', ''unknown'']"

section \<open>Checks from the results of operations\<close>

definition normalizeOperationStatus :: "json option \<Rightarrow> string" where
  "normalizeOperationStatus value = (let status = toUpperCase (trim (json_nullish value)) in
     if status = ''SUCCEEDED'' \<or> status = ''SUCCESS'' \<or> status = ''PASSED'' then ''passed''
     else if status = ''FAILED'' \<or> status = ''ERROR'' then ''failed''
     else if status = ''WARNING'' \<or> status = ''WARN'' then ''warning''
     else ''unknown'')"

definition summarizeOperationChecks :: "jobject list \<Rightarrow> jobject" where
  "summarizeOperationChecks checks = map (count_status normalizeOperationStatus checks) [''passed'', ''failed'', ''warning'', ''unknown'']"

definition requiredOperationString :: "jobject \<Rightarrow> string \<Rightarrow> string result" where
  "requiredOperationString value fld = (case trimmed_string (jget value fld) of
     None \<Rightarrow> Inl (AppError ''VALIDATION_FAILED'') | Some s \<Rightarrow> Inr s)"

definition describePreflight :: "string \<Rightarrow> string \<Rightarrow> string \<Rightarrow> jobject option \<Rightarrow> string option \<Rightarrow> string" where
  "describePreflight operationId operationType status res errorMessage =
    (let text = (\<lambda>k. trimmed_string (ojget res k)); path = text ''path''; program = text ''program'' in
     if operationType = ''preflight.assert'' \<and> path \<noteq> None then ''checked path '' @ the path
     else if operationType = ''preflight.assert'' \<and> program \<noteq> None then ''checked program '' @ the program
     else if operationType = ''file.backup'' then
       (if ojget res ''exists'' = Some (JBool False) then ''would back up '' @ getOrElse path operationId @ ''; the file is missing''
        else ''would back up '' @ getOrElse path operationId)
     else if operationType = ''file.atomic_replace'' then ''would replace '' @ getOrElse path operationId
     else if operationType = ''file.set_permissions'' then ''would set the permissions of '' @ getOrElse path operationId
     else if operationType = ''command.execute_allowlisted'' then
       (let args = (case ojget res ''args'' of Some (JArr xs) \<Rightarrow> join '' '' (map js_string xs) | _ \<Rightarrow> [])
        in ''would run '' @ join '' '' (filter (\<lambda>s. s \<noteq> []) [getOrElse program [], args]))
     else if operationType = ''service.control'' then
       ''would '' @ getOrElse (text ''plannedAction'') ''control'' @ '' service '' @ getOrElse (text ''serviceName'') operationId
       @ (if ojget res ''currentStateCheckPassed'' = Some (JBool True) then ''; active'' else ''; not confirmed active'')
     else if truthy errorMessage then the errorMessage
     else if status = ''warning'' then ''operation '' @ operationId @ '' passed with a warning''
     else if status = ''passed'' then ''operation '' @ operationId @ '' passed''
     else if status = ''failed'' then ''operation '' @ operationId @ '' failed''
     else ''operation '' @ operationId @ '' has no clear status'')"

definition operation_check :: "jobject \<Rightarrow> jobject result" where
  "operation_check operation =
    (case requiredOperationString operation ''operationId'' of Inl e \<Rightarrow> Inl e | Inr operationId \<Rightarrow>
     case requiredOperationString operation ''operationType'' of Inl e \<Rightarrow> Inl e | Inr operationType \<Rightarrow>
     case requiredOperationString operation ''stage'' of Inl e \<Rightarrow> Inl e | Inr stage \<Rightarrow>
     (let errorMessage = trimmed_string (jget operation ''errorMessage'');
          status = normalizeOperationStatus (jget operation ''status'');
          res = readRecord (jget operation ''detail'')
      in Inr [(''key'', JStr (''atomic:'' @ operationId)), (''label'', JStr (operationId @ '' - '' @ operationType)),
              (''status'', JStr status), (''detail'', JStr (describePreflight operationId operationType status res errorMessage)),
              (''evidence'', JObj ([(''operationId'', JStr operationId), (''operationType'', JStr operationType), (''stage'', JStr stage)]
                 @ (case res of None \<Rightarrow> [] | Some m \<Rightarrow> [(''result'', JObj m)])
                 @ str_opt ''errorCode'' (trimmed_string (jget operation ''errorCode''))))]))"

fun operation_checks :: "jobject list \<Rightarrow> jobject list result" where
  "operation_checks [] = Inr []"
| "operation_checks (r # rs) = (case operation_check r of Inl e \<Rightarrow> Inl e
     | Inr c \<Rightarrow> (case operation_checks rs of Inl e \<Rightarrow> Inl e | Inr cs \<Rightarrow> Inr (c # cs)))"

definition normalizeAgentV2DryRunDetail :: "jobject \<Rightarrow> jobject result" where
  "normalizeAgentV2DryRunDetail detail = (let existingChecks = readRecordArray (jget detail ''dryRunChecks'') in
     if existingChecks \<noteq> [] then
       Inr (if json_truthy (jget detail ''dryRunSummary'') then detail
            else spread detail [(''dryRunSummary'', JObj (summarizeOperationChecks existingChecks))])
     else (let operationResults = readRecordArray (jget detail ''operationResults'') in
       if operationResults = [] then Inr detail
       else (case operation_checks operationResults of
         Inl e \<Rightarrow> Inl e
       | Inr checks \<Rightarrow> Inr (spread detail
           [(''dryRunChecks'', JArr (map JObj checks)), (''dryRunSummary'', JObj (summarizeOperationChecks checks))]))))"

section \<open>A merge keeps the worst status\<close>

definition check_failed :: "jobject \<Rightarrow> bool" where
  "check_failed c \<longleftrightarrow> normalizeDryRunStatus (jget c ''status'') = ''failed''"

lemma rank_failed: "check_failed c \<longleftrightarrow> 4 \<le> dryRunStatusRank (jget c ''status'')"
  by (auto simp: check_failed_def dryRunStatusRank_def Let_def)

lemma rank_le: "dryRunStatusRank v \<le> 4"
  by (auto simp: dryRunStatusRank_def Let_def)

lemma spread_failed:
  assumes "distinct (map fst c)" and "dryRunStatusRank (jget a ''status'') \<le> dryRunStatusRank (jget c ''status'')"
  shows "check_failed (spread a c) \<longleftrightarrow> check_failed c"
proof (cases "jget c ''status''")
  case None
  then have "\<not> check_failed c" by (simp add: check_failed_def normalizeDryRunStatus_def json_nullish_def toLowerCase_def)
  moreover have "\<not> check_failed a" using calculation assms(2) by (simp add: rank_failed)
  moreover have "jget (spread a c) ''status'' = jget a ''status''" using assms(1) None by (simp add: jget_spread_distinct)
  ultimately show ?thesis by (simp add: check_failed_def)
next
  case (Some v)
  then show ?thesis using assms(1) by (simp add: check_failed_def jget_spread_distinct)
qed

lemma merge_check_failed:
  assumes "distinct (map fst c)"
  shows "(\<exists>e. map_of (merge_check c m) k = Some e \<and> check_failed e) \<longleftrightarrow>
    (\<exists>e. map_of m k = Some e \<and> check_failed e) \<or> (check_key c = Some k \<and> check_failed c)"
proof (cases "check_key c")
  case None
  then show ?thesis by (simp add: merge_check_def)
next
  case (Some key)
  show ?thesis
  proof (cases "map_of m key")
    case None
    have "check_failed (spread [] c) \<longleftrightarrow> check_failed c" using assms by (simp add: check_failed_def jget_spread_distinct) (simp add: jget_def orElse_def split: option.splits)
    then show ?thesis using Some None by (auto simp: merge_check_def update_conv')
  next
    case (Some existing)
    then show ?thesis
      using \<open>check_key c = Some key\<close> spread_failed [OF assms, of existing] rank_failed [of c] rank_failed [of existing]
        rank_le [of "jget existing ''status''"] rank_le [of "jget c ''status''"]
      by (auto simp: merge_check_def update_conv')
  qed
qed

lemma fold_merge_failed:
  assumes "\<forall>c \<in> set cs. distinct (map fst c)"
  shows "(\<exists>e. map_of (fold merge_check cs m) k = Some e \<and> check_failed e) \<longleftrightarrow>
    (\<exists>e. map_of m k = Some e \<and> check_failed e) \<or> (\<exists>c \<in> set cs. check_key c = Some k \<and> check_failed c)"
  using assms
proof (induction cs arbitrary: m)
  case Nil
  then show ?case by simp
next
  case (Cons c cs)
  then show ?case using merge_check_failed [of c m k] by simp
qed

lemma distinct_merge_check: "distinct (map fst m) \<Longrightarrow> distinct (map fst (merge_check c m))"
  by (auto simp: merge_check_def distinct_update split: option.splits)

lemma distinct_fold_merge: "distinct (map fst m) \<Longrightarrow> distinct (map fst (fold merge_check cs m))"
  by (induction cs arbitrary: m) (auto intro: distinct_merge_check)

lemma merged_failed_iff:
  assumes "\<forall>c \<in> set (concat groups). distinct (map fst c)"
  shows "(\<exists>c \<in> set (mergeDryRunChecks groups). check_failed c) \<longleftrightarrow>
    (\<exists>c \<in> set (concat groups). check_key c \<noteq> None \<and> check_failed c)"
proof -
  let ?m = "fold merge_check (concat groups) []"
  have mem: "(k, e) \<in> set ?m \<longleftrightarrow> map_of ?m k = Some e" for k e
    using distinct_fold_merge [of "[]" "concat groups"] by (simp add: map_of_eq_Some_iff)
  have "(\<exists>c \<in> set (mergeDryRunChecks groups). check_failed c) \<longleftrightarrow> (\<exists>k e. map_of ?m k = Some e \<and> check_failed e)"
    unfolding mergeDryRunChecks_def using mem by force
  also have "\<dots> \<longleftrightarrow> (\<exists>k. \<exists>c \<in> set (concat groups). check_key c = Some k \<and> check_failed c)"
    using fold_merge_failed [OF assms, of "[]"] by simp
  finally show ?thesis by auto
qed

end
