(* ===== verification/ResultSync.thy ===== *)
theory ResultSync
  imports DryRunChecks
begin

text \<open>
  How the result of a step reaches the run: \<open>applyAgentTaskResult\<close> and what it calls in
  \<open>backend/src/modules/executions/application/execution-result-sync.service.ts\<close>.

  The services it calls outside the modelled tables are the members of \<open>sync_env\<close>: the update of asset and
  binding tables (it says whether there was an asset to update), the redaction of error details, probing and
  certificate life cycle (only whether they throw), and the two runners that \<open>app.module.ts\<close> installs.
\<close>

section \<open>Collaborators and input\<close>

record result_state =
  rz_kind :: string
  rz_snapshotType :: string
  rz_snapshotStatus :: string
  rz_bindingStatus :: string
  rz_managedTargetStatus :: string
  rz_applicationAssetTargetStatus :: string
  rz_siteRuntimeStatus :: string
  rz_useTargetCertificate :: bool
  rz_manualRequired :: bool

record sync_env =
  sy_assets :: "string \<Rightarrow> execution_step \<Rightarrow> result_state \<Rightarrow> jobject \<Rightarrow> bool result"
  sy_redact :: "jobject \<Rightarrow> jobject"
  sy_probe :: "string option \<Rightarrow> string \<Rightarrow> unit result"
  sy_lifecycle :: "string \<Rightarrow> string \<Rightarrow> string \<Rightarrow> unit result"
  sy_continuationRunner :: "(string \<Rightarrow> string \<Rightarrow> string \<Rightarrow> unit exec) option"
  sy_rollbackRunner :: "(string \<Rightarrow> string \<Rightarrow> string \<Rightarrow> unit exec) option"

record task_result =
  xi_tenantId :: string
  xi_executionRunId :: string
  xi_executionStepId :: string
  xi_success :: bool
  xi_status :: "string option"
  xi_errorCode :: "string option"
  xi_errorMessage :: "string option"
  xi_detail :: "jobject option"
  xi_actorId :: string

definition lift_result :: "'a result \<Rightarrow> 'a exec" where
  "lift_result r d = (r, d)"

section \<open>Reading a result\<close>

definition sanitizeExecutionErrorDetails :: "sync_env \<Rightarrow> jobject option \<Rightarrow> jobject option" where
  "sanitizeExecutionErrorDetails env = map_option (sy_redact env)"

definition hasPersistedUnknownResult :: "execution_step \<Rightarrow> bool" where
  "hasPersistedUnknownResult step \<longleftrightarrow>
     toUpperCase (trim (json_nullish (ojget (readRecord (jget (es_inputSnapshot step) ''resultDetail'')) ''executionStatus''))) = ''UNKNOWN''"

definition status_candidates :: "string option \<Rightarrow> jobject \<Rightarrow> json option list" where
  "status_candidates status detail = [map_option JStr status, jget detail ''executionStatus'', jget detail ''status'',
     ojget (readRecord (jget detail ''receipt'')) ''status'']"

definition may_be_unknown :: "jobject \<Rightarrow> string option \<Rightarrow> bool" where
  "may_be_unknown detail errorCode \<longleftrightarrow> jget detail ''mayBeUnknown'' = Some (JBool True)
     \<or> ojget (readRecord (jget detail ''error'')) ''mayBeUnknown'' = Some (JBool True)
     \<or> errorCode = Some ''PLUGIN_OPERATION_UNKNOWN_STATE''"

definition agent_status :: "json option \<Rightarrow> bool" where
  "agent_status v \<longleftrightarrow> v \<in> set (map (\<lambda>s. Some (JStr s)) [''SUCCESS'', ''FAILED'', ''UNKNOWN'', ''CANCELLED''])"

definition resolveAgentExecutionStatus :: "task_result \<Rightarrow> string" where
  "resolveAgentExecutionStatus inp =
    (let detail = getOrElse (xi_detail inp) []; candidates = status_candidates (xi_status inp) detail in
     if \<exists>v \<in> set candidates. v = Some (JStr ''UNKNOWN'') \<or> v = Some (JStr ''CANCELLED'') then ''UNKNOWN''
     else if may_be_unknown detail (xi_errorCode inp) then ''UNKNOWN''
     else (case find agent_status candidates of
       Some (Some (JStr s)) \<Rightarrow> s | _ \<Rightarrow> if xi_success inp then ''SUCCESS'' else ''FAILED''))"

definition is_hex64 :: "string \<Rightarrow> bool" where
  "is_hex64 s \<longleftrightarrow> length s = 64 \<and> (\<forall>c \<in> set s. c \<in> set ''abcdef0123456789'')"

definition normalizeSha256 :: "string option \<Rightarrow> string option" where
  "normalizeSha256 value = (case value of None \<Rightarrow> None | Some v \<Rightarrow>
     (let normalized = toLowerCase (trim (filter (\<lambda>c. c \<noteq> CHR '':'') v)) in if is_hex64 normalized then Some normalized else None))"

definition normalizeThumbprint :: "string option \<Rightarrow> string option" where
  "normalizeThumbprint value = (case value of None \<Rightarrow> None | Some v \<Rightarrow>
     (let normalized = toUpperCase (trim (filter (\<lambda>c. c \<noteq> CHR '' '') (filter (\<lambda>c. c \<noteq> CHR '':'') v)))
      in if normalized = [] then None else Some normalized))"

text \<open>The verdict on a formal \<open>VERIFY\<close> step: \<open>None\<close> when it stands, else the error code and the recorded detail.\<close>

definition validateFormalCertificateVerification :: "execution_step \<Rightarrow> jobject \<Rightarrow> bool \<Rightarrow> bool \<Rightarrow> (string \<times> string \<times> jobject) option" where
  "validateFormalCertificateVerification step detail isDryRun submittedSuccess =
    (if isDryRun \<or> es_stepType step \<noteq> ''VERIFY'' \<or> \<not> submittedSuccess then None
     else (let verification = readRecord (jget (es_inputSnapshot step) ''certificateVerification'');
               expected = normalizeSha256 (readString (getOrElse verification []) ''expectedFingerprintSha256'');
               remote = normalizeSha256 (readString detail ''verify.remoteCertificateSha256'');
               remoteThumbprint = normalizeThumbprint (readString detail ''verify.remoteThumbprint'');
               record = str_opt ''expected'' expected @ str_opt ''remote'' remote @ str_opt ''remoteThumbprint'' remoteThumbprint
       in if expected = None then Some (''CERT_VERIFY_EXPECTED_FINGERPRINT_MISSING'', ''expected fingerprint missing'', record)
          else if remote = None then Some (''CERT_VERIFY_REMOTE_FINGERPRINT_MISSING'', ''remote fingerprint missing'', record)
          else if remote \<noteq> expected then Some (''CERT_VERIFY_FINGERPRINT_MISMATCH'', ''remote fingerprint differs'', record)
          else None))"

definition buildAgentFailureWithoutDetails :: "task_result \<Rightarrow> execution_step \<Rightarrow> jobject \<Rightarrow> (string \<times> string \<times> jobject) option" where
  "buildAgentFailureWithoutDetails inp step detail =
    (if xi_success inp \<or> truthy (xi_errorCode inp) \<or> truthy (xi_errorMessage inp) then None
     else (let taskId = task_id_of step detail in
       Some (''AGENT_TASK_FAILED_WITHOUT_ERROR'',
         ''the agent task failed without details stepType='' @ es_stepType step @ (case taskId of None \<Rightarrow> [] | Some t \<Rightarrow> '' taskId='' @ t),
         [(''stepType'', JStr (es_stepType step))] @ str_opt ''taskId'' taskId @ str_opt ''mode'' (readString detail ''mode'')
           @ str_opt ''executor'' (readString detail ''executor'') @ [(''detailKeys'', JArr (map (JStr \<circ> fst) detail))])))"

definition isWorkflowExecutionDetail :: "jobject \<Rightarrow> bool" where
  "isWorkflowExecutionDetail detail \<longleftrightarrow> readString detail ''executionMode'' = Some ''workflow'' \<or> readRecord (jget detail ''workflowRun'') \<noteq> None"

definition normalizeWorkflowRollbackDetail :: "jobject \<Rightarrow> jobject" where
  "normalizeWorkflowRollbackDetail detail =
    (if isWorkflowExecutionDetail detail \<and> readString (getOrElse (readRecord (jget detail ''workflowRun'')) []) ''status'' = Some ''rolled_back''
     then AList.update ''rolledBack'' (JBool True) detail else detail)"

definition isAgentV2Step :: "execution_step \<Rightarrow> bool" where
  "isAgentV2Step step \<longleftrightarrow> getOrElse (readString (es_inputSnapshot step) ''actionType'') []
     \<in> set [''agent.fact.collect'', ''agent.plan.validate'', ''agent.plan.execute'', ''agent.execution.receipt'']"

definition shouldSyncDeploymentState :: "string \<Rightarrow> execution_step \<Rightarrow> bool \<Rightarrow> jobject \<Rightarrow> bool" where
  "shouldSyncDeploymentState runType step success detail \<longleftrightarrow>
     es_stepType step = ''VERIFY''
     \<or> es_stepType step = ''CUSTOM'' \<and> (isWorkflowExecutionDetail detail \<or> isAgentV2Step step)
     \<or> runType = ''rollback'' \<and> es_stepType step = ''ROLLBACK'' \<and> \<not> success
     \<or> (es_stepType step = ''INSTALL'' \<or> es_stepType step = ''RELOAD'') \<and> \<not> success"

definition rolled_back_state :: result_state where
  "rolled_back_state = \<lparr>rz_kind = ''DEPLOY_FAILED_ROLLED_BACK'', rz_snapshotType = ''POST_ROLLBACK'', rz_snapshotStatus = ''ROLLED_BACK'',
     rz_bindingStatus = ''DRIFTED'', rz_managedTargetStatus = ''ACTIVE'', rz_applicationAssetTargetStatus = ''ERROR'',
     rz_siteRuntimeStatus = ''ROLLED_BACK'', rz_useTargetCertificate = False, rz_manualRequired = False\<rparr>"

definition deriveResultState :: "string \<Rightarrow> string \<Rightarrow> bool \<Rightarrow> jobject \<Rightarrow> string option \<Rightarrow> result_state" where
  "deriveResultState runType stepType success detail errorCode =
    (let rollbackSucceeded = (runType = ''rollback'' \<and> (stepType = ''VERIFY'' \<or> stepType = ''CUSTOM'') \<and> success);
         rolledBack = (rollbackSucceeded \<or> readBoolean detail ''rolledBack'');
         manualRequired = (readBoolean detail ''manualRequired'' \<or> readBoolean detail ''manualInterventionRequired''
           \<or> errorCode = Some ''ROLLBACK_FAILED'')
     in if rollbackSucceeded then rolled_back_state
        else if success then \<lparr>rz_kind = ''DEPLOY_SUCCESS'', rz_snapshotType = ''POST_DEPLOY'', rz_snapshotStatus = ''SUCCESS'',
          rz_bindingStatus = ''MANAGED'', rz_managedTargetStatus = ''ACTIVE'', rz_applicationAssetTargetStatus = ''ACTIVE'',
          rz_siteRuntimeStatus = ''DEPLOYED'', rz_useTargetCertificate = True, rz_manualRequired = False\<rparr>
        else if rolledBack \<and> \<not> manualRequired then rolled_back_state
        else \<lparr>rz_kind = ''DEPLOY_FAILED_MANUAL_REQUIRED'', rz_snapshotType = ''ERROR_STATE'', rz_snapshotStatus = ''MANUAL_REQUIRED'',
          rz_bindingStatus = ''ERROR'', rz_managedTargetStatus = ''UNREACHABLE'', rz_applicationAssetTargetStatus = ''ERROR'',
          rz_siteRuntimeStatus = ''MANUAL_INTERVENTION_REQUIRED'', rz_useTargetCertificate = False, rz_manualRequired = True\<rparr>)"

definition readRunFailurePolicy :: "jobject \<Rightarrow> string" where
  "readRunFailurePolicy summary = (let value = (case jget summary ''failurePolicy'' of None \<Rightarrow> ''stop'' | Some JNull \<Rightarrow> ''stop'' | Some v \<Rightarrow> js_string v)
     in if value = ''continue'' \<or> value = ''rollback'' then value else ''stop'')"

section \<open>Writes around a result\<close>

definition recordTransitionIfChanged ::
  "string \<Rightarrow> string \<Rightarrow> string \<Rightarrow> string \<Rightarrow> string \<Rightarrow> string \<Rightarrow> string option \<Rightarrow> unit exec" where
  "recordTransitionIfChanged entityType entityId fromStatus toStatus event actorId tenantId d =
    (Inr (), if fromStatus = toStatus then d else createTransition
       \<lparr>xe_tenantId = tenantId, xe_entityType = entityType, xe_entityId = entityId, xe_fromStatus = Some fromStatus,
        xe_toStatus = toStatus, xe_event = event, xe_actorType = ''orchestrator'', xe_actorId = Some actorId,
        xe_createdAt = xd_now d\<rparr> d)"

definition unknown_target_patch :: "string \<Rightarrow> string \<Rightarrow> instant \<Rightarrow> plan_target \<Rightarrow> plan_target \<Rightarrow> plan_target" where
  "unknown_target_patch actorId reason now target t = t\<lparr>xt_executionStatus := Some ''UNKNOWN'',
     xt_strategyPayload := Some (spread (getOrElse (xt_strategyPayload target) [])
       [(''executionStatus'', JStr ''UNKNOWN''), (''unknownReason'', JStr reason)]),
     xt_updatedAt := now, xt_updatedBy := Some actorId\<rparr>"

definition sync_persistUnknownDeploymentState :: "string \<Rightarrow> string \<Rightarrow> string option \<Rightarrow> string \<Rightarrow> string \<Rightarrow> unit exec" where
  "sync_persistUnknownDeploymentState tenantId deploymentPlanId targetId actorId reason d =
    (case getPlan deploymentPlanId (Some tenantId) d of
       None \<Rightarrow> (Inr (), d)
     | Some plan \<Rightarrow> andThen (updatePlan (xp_id plan)
           (\<lambda>p. p\<lparr>xp_executionStatus := Some ''UNKNOWN'', xp_updatedAt := xd_now d, xp_updatedBy := Some actorId\<rparr>) None d)
         (\<lambda>_ d. if \<not> truthy targetId then (Inr (), d) else
            (case getTarget (the targetId) (Some tenantId) d of
               None \<Rightarrow> (Inr (), d)
             | Some target \<Rightarrow> andThen (updateTarget (xt_id target) (unknown_target_patch actorId reason (xd_now d) target) d)
                 (\<lambda>_ d. (Inr (), d)))))"

definition unknown_reason :: "string option \<Rightarrow> string option \<Rightarrow> string \<Rightarrow> string" where
  "unknown_reason errorMessage errorCode dflt = getOrElse errorMessage (getOrElse errorCode dflt)"

definition persistUnknownAgentExecution :: "sync_env \<Rightarrow> task_result \<Rightarrow> execution_run \<Rightarrow> execution_step \<Rightarrow> unit exec" where
  "persistUnknownAgentExecution env inp run step d =
    (let now = xd_now d;
         reason = unknown_reason (xi_errorMessage inp) (xi_errorCode inp) ''the result of the agent write is unknown'';
         unknownDetail = spread (spread (getOrElse (readRecord (jget (es_inputSnapshot step) ''resultDetail'')) []) (getOrElse (xi_detail inp) []))
           [(''executionStatus'', JStr ''UNKNOWN''), (''unknownReason'', JStr reason)]
     in andThen (updateStep (es_id step) (\<lambda>s. s\<lparr>
            es_inputSnapshot := spread (es_inputSnapshot step) [(''resultDetail'', JObj unknownDetail)],
            es_lastErrorCode := Some (getOrElse (xi_errorCode inp) ''AGENT_EXECUTION_UNKNOWN''),
            es_lastErrorMessage := Some (getOrElse (xi_errorMessage inp) ''the result of the agent write is unknown, no retry and no rollback''),
            es_lastErrorDetails := sanitizeExecutionErrorDetails env (Some unknownDetail),
            es_updatedAt := now, es_updatedBy := Some (xi_actorId inp)\<rparr>) d) (\<lambda>_ d.
        andThen (updateRun (xr_id run) (\<lambda>r. r\<lparr>
            xr_summary := spread (xr_summary run) [(''executionStatus'', JStr ''UNKNOWN''), (''unknownReason'', JStr reason)],
            xr_updatedAt := now, xr_updatedBy := Some (xi_actorId inp)\<rparr>) d) (\<lambda>_ d.
        andThen (sync_persistUnknownDeploymentState (xi_tenantId inp) (xr_deploymentPlanId run) (es_deploymentPlanTargetId step)
            (xi_actorId inp) reason d) (\<lambda>_ d.
        andThen (lift_result (sy_lifecycle env (xi_tenantId inp) (xr_deploymentPlanId run) ''UNKNOWN'') d) (\<lambda>_ d.
        andThen (lift_result (getStepOrThrow (es_id step) (Some (xi_tenantId inp)) d) d) (\<lambda>_ d.
        andThen (lift_result (getRunOrThrow (xr_id run) (Some (xi_tenantId inp)) d) d) (\<lambda>_ d. (Inr (), d))))))))"

definition resolveTargetInstallDetail :: "string \<Rightarrow> execution_step \<Rightarrow> exec_db \<Rightarrow> jobject option" where
  "resolveTargetInstallDetail tenantId step d =
    (if es_stepType step \<noteq> ''VERIFY'' \<or> \<not> truthy (es_deploymentPlanTargetId step) then None
     else (case sort_by (\<lambda>a b. es_stepNo b < es_stepNo a)
          (filter (\<lambda>s. es_deploymentPlanTargetId s = es_deploymentPlanTargetId step \<and> es_stepType s = ''INSTALL'')
             (listSteps (Some tenantId) (Some (es_executionRunId step)) d)) of
        [] \<Rightarrow> None | s # _ \<Rightarrow> readRecord (jget (es_inputSnapshot s) ''resultDetail'')))"

definition skip_patch :: "execution_run \<Rightarrow> string \<Rightarrow> string \<Rightarrow> string \<Rightarrow> instant \<Rightarrow> execution_step \<Rightarrow> execution_step" where
  "skip_patch run actorId errorCode errorMessage now s = s\<lparr>es_status := ''SKIPPED'', es_finishedAt := Some now, es_updatedAt := now,
     es_updatedBy := Some actorId, es_lastFailureCategory := Some ''unsafe'', es_lastErrorCode := Some ''SKIPPED_AFTER_RUN_FAILURE'',
     es_lastErrorMessage := Some (''run '' @ xr_id run @ '' failed, step skipped; source error '' @ errorCode @ '': '' @ errorMessage)\<rparr>"

definition skip_after_failure :: "execution_run \<Rightarrow> string \<Rightarrow> string \<Rightarrow> string \<Rightarrow> string \<Rightarrow> execution_step \<Rightarrow> unit exec" where
  "skip_after_failure run actorId tenantId errorCode errorMessage step d =
    (if es_status step \<noteq> ''PENDING'' then (Inr (), d)
     else andThen (updateStep (es_id step) (skip_patch run actorId errorCode errorMessage (xd_now d)) d) (\<lambda>_ d.
       andThen (lift_result (getStepOrThrow (es_id step) (Some tenantId) d) d) (\<lambda>_.
       recordTransitionIfChanged ''executionStep'' (es_id step) (es_status step) ''SKIPPED'' ''agent.run_failed.skip_pending'' actorId (es_tenantId step))))"

definition skipPendingStepsAfterRunFailure :: "execution_run \<Rightarrow> execution_step list \<Rightarrow> string \<Rightarrow> string \<Rightarrow> string \<Rightarrow> string \<Rightarrow> unit exec" where
  "skipPendingStepsAfterRunFailure run steps actorId tenantId errorCode errorMessage =
     for_each (skip_after_failure run actorId tenantId errorCode errorMessage) steps"

definition continueRunAfterAgentResult :: "sync_env \<Rightarrow> execution_run \<Rightarrow> string \<Rightarrow> string \<Rightarrow> unit exec" where
  "continueRunAfterAgentResult env run actorId tenantId d = (case sy_continuationRunner env of
     None \<Rightarrow> (Inr (), d)
   | Some runner \<Rightarrow> if xr_status run \<in> set [''DISPATCHED'', ''RUNNING''] then runner (xr_id run) actorId tenantId d else (Inr (), d))"

text \<open>A failure of the rollback runner is logged and dropped.\<close>

definition requestAutomaticRollbackIfNeeded :: "sync_env \<Rightarrow> execution_run \<Rightarrow> string \<Rightarrow> string \<Rightarrow> unit exec" where
  "requestAutomaticRollbackIfNeeded env run actorId tenantId d = (case sy_rollbackRunner env of
     None \<Rightarrow> (Inr (), d)
   | Some runner \<Rightarrow>
       if xr_type run = ''apply'' \<and> xr_status run \<in> set [''FAILED'', ''TIMEOUT''] \<and> readRunFailurePolicy (xr_summary run) = ''rollback''
       then (Inr (), snd (runner (xr_id run) actorId tenantId d)) else (Inr (), d))"

definition uniqueTargetIds :: "execution_step list \<Rightarrow> string list" where
  "uniqueTargetIds steps = set_dedup (map the (filter truthy (map es_deploymentPlanTargetId steps)))"

definition mark_target :: "string \<Rightarrow> string \<Rightarrow> string option \<Rightarrow> string \<Rightarrow> unit exec" where
  "mark_target status actorId tenantId targetId d = (case getTarget targetId tenantId d of
     None \<Rightarrow> (Inr (), d)
   | Some target \<Rightarrow> if xt_status target = status then (Inr (), d)
       else andThen (updateTarget (xt_id target)
          (\<lambda>t. t\<lparr>xt_status := status, xt_updatedAt := xd_now d, xt_updatedBy := Some actorId\<rparr>) d) (\<lambda>_ d. (Inr (), d)))"

definition markTargets :: "string list \<Rightarrow> string \<Rightarrow> string \<Rightarrow> string option \<Rightarrow> unit exec" where
  "markTargets targetIds status actorId tenantId = for_each (mark_target status actorId tenantId) targetIds"

definition sync_transitionDeploymentPlan :: "string \<Rightarrow> string \<Rightarrow> string \<Rightarrow> string \<Rightarrow> string \<Rightarrow> string option \<Rightarrow> unit exec" where
  "sync_transitionDeploymentPlan planId fromStatus toStatus actorId event tenantId d =
    (if fromStatus = toStatus then (Inr (), d)
     else andThen (updatePlan planId (\<lambda>p. p\<lparr>xp_status := toStatus, xp_updatedAt := xd_now d, xp_updatedBy := Some actorId\<rparr>) None d)
       (\<lambda>_. recordTransitionIfChanged ''deploymentPlan'' planId fromStatus toStatus event actorId tenantId))"

definition sync_mark_source :: "string \<Rightarrow> string \<Rightarrow> execution_run \<Rightarrow> unit exec" where
  "sync_mark_source status actorId sourceRun d =
    (if xr_status sourceRun \<noteq> ''ROLLBACK_RUNNING'' then (Inr (), d)
     else andThen (updateRun (xr_id sourceRun) (\<lambda>r. r\<lparr>xr_status := status, xr_updatedAt := xd_now d, xr_updatedBy := Some actorId,
            xr_finishedAt := Some (xd_now d)\<rparr>) d)
       (\<lambda>_. recordTransitionIfChanged ''executionRun'' (xr_id sourceRun) (xr_status sourceRun) status
          (if status = ''ROLLBACK_SUCCESS'' then ''rollback.success'' else ''rollback.failed'') actorId (xr_tenantId sourceRun)))"

definition sync_markRollbackSourceRuns :: "string \<Rightarrow> string \<Rightarrow> string \<Rightarrow> string option \<Rightarrow> unit exec" where
  "sync_markRollbackSourceRuns deploymentPlanId status actorId tenantId d =
     for_each (sync_mark_source status actorId) (listRuns tenantId (Some deploymentPlanId) d) d"

definition failed_step :: "execution_step \<Rightarrow> bool" where
  "failed_step s \<longleftrightarrow> es_status s = ''FAILED'' \<or> es_status s = ''TIMEOUT''"

definition verified_step :: "execution_step \<Rightarrow> bool" where
  "verified_step s \<longleftrightarrow> es_stepType s = ''VERIFY'' \<and> es_status s = ''SUCCESS''"

definition sync_syncDeploymentPlanAfterRun :: "sync_env \<Rightarrow> execution_run \<Rightarrow> execution_step list \<Rightarrow> string \<Rightarrow> string option \<Rightarrow> unit exec" where
  "sync_syncDeploymentPlanAfterRun env run steps actorId tenantId d =
    (if xr_type run = ''dry_run'' then (Inr (), d) else
     case getPlan (xr_deploymentPlanId run) tenantId d of
       None \<Rightarrow> (Inr (), d)
     | Some plan \<Rightarrow>
       (let targetIds = uniqueTargetIds steps; lifeTenant = getOrElse tenantId (getOrElse (xr_tenantId run) []);
            planId = xr_deploymentPlanId run; move = (\<lambda>toStatus event. sync_transitionDeploymentPlan (xp_id plan) (xp_status plan) toStatus actorId event (xp_tenantId plan))
        in if xr_type run = ''rollback'' then
            (if xr_status run = ''SUCCESS'' then
               andThen (markTargets targetIds ''READY'' actorId tenantId d) (\<lambda>_ d.
               andThen (if xp_status plan = ''FAILED'' \<or> xp_status plan = ''PARTIAL_SUCCESS'' then move ''ROLLED_BACK'' ''rollback.success'' d else (Inr (), d)) (\<lambda>_.
               sync_markRollbackSourceRuns planId ''ROLLBACK_SUCCESS'' actorId tenantId))
             else if xr_status run = ''FAILED'' \<or> xr_status run = ''TIMEOUT'' then sync_markRollbackSourceRuns planId ''ROLLBACK_FAILED'' actorId tenantId d
             else (Inr (), d))
           else if xr_status run = ''SUCCESS'' then
             andThen (markTargets targetIds ''COMPLETED'' actorId tenantId d) (\<lambda>_ d.
             andThen (if xp_status plan = ''RUNNING'' then move ''SUCCESS'' ''execution.success'' d else (Inr (), d)) (\<lambda>_ d.
             andThen (lift_result (sy_probe env tenantId planId) d) (\<lambda>_.
             lift_result (sy_lifecycle env lifeTenant planId ''SUCCESS''))))
           else if xr_status run = ''FAILED'' \<or> xr_status run = ''TIMEOUT'' then
             (let failedTargetIds = uniqueTargetIds (filter failed_step steps);
                  successfulTargetIds = uniqueTargetIds (filter verified_step steps)
              in andThen (markTargets successfulTargetIds ''COMPLETED'' actorId tenantId d) (\<lambda>_ d.
                 andThen (markTargets failedTargetIds ''FAILED'' actorId tenantId d) (\<lambda>_ d.
                 andThen (if xp_status plan = ''RUNNING''
                    then move (if successfulTargetIds \<noteq> [] then ''PARTIAL_SUCCESS'' else ''FAILED'') ''execution.failed'' d else (Inr (), d)) (\<lambda>_.
                 lift_result (sy_lifecycle env lifeTenant planId (xr_status run))))))
           else (Inr (), d)))"

definition syncDeploymentAssets :: "sync_env \<Rightarrow> string \<Rightarrow> bool \<Rightarrow> string option \<Rightarrow> string \<Rightarrow> execution_step \<Rightarrow> jobject \<Rightarrow> result_state option result" where
  "syncDeploymentAssets env tenantId success errorCode runType step detail =
    (if \<not> shouldSyncDeploymentState runType step success detail then Inr None
     else (let state = deriveResultState runType (es_stepType step) success detail errorCode in
       case sy_assets env tenantId step state detail of Inl e \<Rightarrow> Inl e | Inr found \<Rightarrow> Inr (if found then Some state else None)))"

section \<open>Applying a result\<close>

record verdict =
  vd_success :: bool
  vd_errorCode :: "string option"
  vd_errorMessage :: "string option"
  vd_detail :: jobject

definition is_dry_run :: "execution_run \<Rightarrow> execution_step \<Rightarrow> bool" where
  "is_dry_run run step \<longleftrightarrow> xr_type run = ''dry_run'' \<or> jget (es_inputSnapshot step) ''dryRun'' = Some (JBool True)"

definition input_detail :: "task_result \<Rightarrow> bool \<Rightarrow> jobject result" where
  "input_detail inp isDryRun = (if isDryRun then normalizeAgentV2DryRunDetail (getOrElse (xi_detail inp) []) else Inr (getOrElse (xi_detail inp) []))"

definition dry_run_checks :: "task_result \<Rightarrow> execution_step \<Rightarrow> jobject \<Rightarrow> jobject \<Rightarrow> jobject list" where
  "dry_run_checks inp step inputDetail merged =
    (let checks = mergeDryRunChecks [readDryRunChecks (asRecord (jget (es_inputSnapshot step) ''resultDetail'')), readDryRunChecks inputDetail]
     in if \<not> xi_success inp \<and> dryRunChecksContainNoFailure checks
        then checks @ [buildDryRunExecutionFailureCheck (xi_errorCode inp) (xi_errorMessage inp) step merged] else checks)"

definition with_dry_run_checks :: "task_result \<Rightarrow> execution_step \<Rightarrow> jobject \<Rightarrow> jobject \<Rightarrow> jobject" where
  "with_dry_run_checks inp step inputDetail merged = (let checks = dry_run_checks inp step inputDetail merged
     in if checks = [] then merged
        else AList.update ''dryRunSummary'' (JObj (summarizeDryRunChecks checks)) (AList.update ''dryRunChecks'' (JArr (map JObj checks)) merged))"

definition merged_detail :: "task_result \<Rightarrow> execution_step \<Rightarrow> bool \<Rightarrow> jobject \<Rightarrow> exec_db \<Rightarrow> jobject" where
  "merged_detail inp step isDryRun inputDetail d =
    (let merged = normalizeWorkflowRollbackDetail (spread (asRecord (jget (es_inputSnapshot step) ''resultDetail'')) inputDetail);
         withInstall = (case resolveTargetInstallDetail (xi_tenantId inp) step d of
           None \<Rightarrow> merged | Some i \<Rightarrow> AList.update ''installResult'' (JObj i) merged)
     in if isDryRun then with_dry_run_checks inp step inputDetail withInstall else withInstall)"

definition judge_result :: "task_result \<Rightarrow> execution_step \<Rightarrow> bool \<Rightarrow> jobject \<Rightarrow> exec_db \<Rightarrow> verdict" where
  "judge_result inp step isDryRun inputDetail d =
    (let merged = merged_detail inp step isDryRun inputDetail d;
         accepted = (xi_success inp \<and> resolveAgentExecutionStatus inp = ''SUCCESS'');
         verification = validateFormalCertificateVerification step merged isDryRun accepted;
         failure = buildAgentFailureWithoutDetails inp step merged;
         noted = (case verification of None \<Rightarrow> merged | Some (_, _, m) \<Rightarrow> AList.update ''certificateVerification'' (JObj m) merged);
         noted' = (case failure of None \<Rightarrow> noted | Some (_, _, m) \<Rightarrow> AList.update ''failure'' (JObj m) noted)
     in \<lparr>vd_success = accepted \<and> verification = None,
         vd_errorCode = orElse (xi_errorCode inp) (orElse (map_option fst verification) (map_option fst failure)),
         vd_errorMessage = orElse (xi_errorMessage inp) (orElse (map_option (fst \<circ> snd) verification) (map_option (fst \<circ> snd) failure)),
         vd_detail = noted'\<rparr>)"

definition step_result_patch :: "sync_env \<Rightarrow> task_result \<Rightarrow> execution_step \<Rightarrow> verdict \<Rightarrow> instant \<Rightarrow> execution_step \<Rightarrow> execution_step" where
  "step_result_patch env inp step v now s =
    (let errorDetails = (if vd_success v then None else sanitizeExecutionErrorDetails env (Some (vd_detail v)))
     in s\<lparr>es_status := (if vd_success v then ''SUCCESS'' else ''FAILED''), es_lastErrorCode := vd_errorCode v,
          es_lastErrorMessage := vd_errorMessage v, es_lastErrorDetails := errorDetails, es_finishedAt := Some now,
          es_updatedAt := now, es_updatedBy := Some (xi_actorId inp),
          es_inputSnapshot := spread (es_inputSnapshot step)
            [(''resultDetail'', JObj (if vd_success v then vd_detail v else getOrElse errorDetails []))]\<rparr>)"

definition write_step_result :: "sync_env \<Rightarrow> task_result \<Rightarrow> execution_step \<Rightarrow> verdict \<Rightarrow> unit exec" where
  "write_step_result env inp step v d =
    andThen (updateStep (es_id step) (step_result_patch env inp step v (xd_now d)) d) (\<lambda>_ d.
    andThen (lift_result (getStepOrThrow (es_id step) (Some (xi_tenantId inp)) d) d) (\<lambda>_.
    recordTransitionIfChanged ''executionStep'' (es_id step) (es_status step) (if vd_success v then ''SUCCESS'' else ''FAILED'')
      (if vd_success v then ''agent.step.success'' else ''agent.step.failed'') (xi_actorId inp) (es_tenantId step)))"

definition has_failed :: "execution_step list \<Rightarrow> bool" where
  "has_failed steps \<longleftrightarrow> (\<exists>s \<in> set steps. failed_step s)"

definition all_finished :: "execution_step list \<Rightarrow> bool" where
  "all_finished steps \<longleftrightarrow> (\<forall>s \<in> set steps. es_status s \<in> set [''SUCCESS'', ''FAILED'', ''TIMEOUT'', ''SKIPPED''])"

definition finished_run_patch :: "task_result \<Rightarrow> execution_run \<Rightarrow> verdict \<Rightarrow> result_state option \<Rightarrow> bool \<Rightarrow> instant \<Rightarrow> execution_run \<Rightarrow> execution_run" where
  "finished_run_patch inp run v resultState hasFailed now r = r\<lparr>xr_status := (if hasFailed then ''FAILED'' else ''SUCCESS''),
     xr_errorCode := (if hasFailed then Some (getOrElse (vd_errorCode v) ''STEP_FAILED'') else None),
     xr_errorMessage := (if hasFailed then Some (getOrElse (vd_errorMessage v) ''agent execution failed'') else None),
     xr_finishedAt := Some now, xr_updatedAt := now, xr_updatedBy := Some (xi_actorId inp),
     xr_summary := (case resultState of None \<Rightarrow> xr_summary run
       | Some rs \<Rightarrow> spread (xr_summary run) [(''resultState'', JStr (rz_kind rs))])\<rparr>"

definition finish_run_after_result :: "sync_env \<Rightarrow> task_result \<Rightarrow> execution_run \<Rightarrow> bool \<Rightarrow> verdict \<Rightarrow> result_state option \<Rightarrow> execution_step list \<Rightarrow> unit exec" where
  "finish_run_after_result env inp run isDryRun v resultState latestSteps d =
    (let hasFailed = has_failed latestSteps
     in andThen (updateRun (xr_id run) (finished_run_patch inp run v resultState hasFailed (xd_now d)) d) (\<lambda>finishedRun d.
        andThen (lift_result (getRunOrThrow (xr_id run) (Some (xi_tenantId inp)) d) d) (\<lambda>_ d.
        andThen (recordTransitionIfChanged ''executionRun'' (xr_id run) (xr_status run) (if hasFailed then ''FAILED'' else ''SUCCESS'')
            (if hasFailed then ''agent.run.failed'' else ''agent.run.success'') (xi_actorId inp) (xr_tenantId run) d) (\<lambda>_ d.
        if isDryRun then (Inr (), d)
        else andThen (sync_syncDeploymentPlanAfterRun env finishedRun latestSteps (xi_actorId inp) (Some (xi_tenantId inp)) d) (\<lambda>_ d.
          if hasFailed then requestAutomaticRollbackIfNeeded env finishedRun (xi_actorId inp) (xi_tenantId inp) d else (Inr (), d))))))"

definition settle_run :: "sync_env \<Rightarrow> task_result \<Rightarrow> execution_run \<Rightarrow> bool \<Rightarrow> verdict \<Rightarrow> result_state option \<Rightarrow> unit exec" where
  "settle_run env inp run isDryRun v resultState d =
    (let tenantId = Some (xi_tenantId inp); latestSteps = listSteps tenantId (Some (xr_id run)) d
     in andThen (if has_failed latestSteps \<and> \<not> all_finished latestSteps
          then skipPendingStepsAfterRunFailure run latestSteps (xi_actorId inp) (xi_tenantId inp)
            (getOrElse (vd_errorCode v) ''STEP_FAILED'') (getOrElse (vd_errorMessage v) ''agent execution failed'') d
          else (Inr (), d)) (\<lambda>_ d.
        let latestSteps = listSteps tenantId (Some (xr_id run)) d in
        if \<not> all_finished latestSteps then continueRunAfterAgentResult env run (xi_actorId inp) (xi_tenantId inp) d
        else finish_run_after_result env inp run isDryRun v resultState latestSteps d))"

definition applyAgentTaskResult :: "sync_env \<Rightarrow> task_result \<Rightarrow> unit exec" where
  "applyAgentTaskResult env inp d =
    (case getStep (xi_executionStepId inp) (Some (xi_tenantId inp)) d of None \<Rightarrow> (Inr (), d) | Some step \<Rightarrow>
     case getRun (xi_executionRunId inp) (Some (xi_tenantId inp)) d of None \<Rightarrow> (Inr (), d) | Some run \<Rightarrow>
     if hasPersistedUnknownResult step then (Inr (), d)
     else if resolveAgentExecutionStatus inp = ''UNKNOWN'' then persistUnknownAgentExecution env inp run step d
     else if xr_status run = ''CANCELLED'' then (Inr (), d)
     else (let isDryRun = is_dry_run run step in
       case input_detail inp isDryRun of Inl e \<Rightarrow> (Inl e, d) | Inr inputDetail \<Rightarrow>
       (let v = judge_result inp step isDryRun inputDetail d in
        andThen (write_step_result env inp step v d) (\<lambda>_ d.
        andThen (if isDryRun then (Inr None, d)
          else lift_result (syncDeploymentAssets env (xi_tenantId inp) (vd_success v) (vd_errorCode v) (xr_type run) step (vd_detail v)) d) (\<lambda>resultState.
        settle_run env inp run isDryRun v resultState)))))"

section \<open>What the calls after a result leave alone\<close>

lemma sync_keeps_steps [simp]:
  "xd_steps (snd (lift_result r d)) = xd_steps d"
  "xd_steps (snd (recordTransitionIfChanged a b c e f g h d)) = xd_steps d"
  "xd_steps (snd (mark_target status actorId t targetId d)) = xd_steps d"
  "xd_steps (snd (sync_transitionDeploymentPlan planId fr to actorId event t d)) = xd_steps d"
  "xd_steps (snd (sync_mark_source status actorId run d)) = xd_steps d"
  by (auto simp: lift_result_def recordTransitionIfChanged_def mark_target_def sync_transitionDeploymentPlan_def sync_mark_source_def
      intro!: steps_andThen split: option.splits)

lemma sync_keeps_steps' [simp]:
  "xd_steps (snd (markTargets ids status actorId t d)) = xd_steps d"
  "xd_steps (snd (sync_markRollbackSourceRuns planId status actorId t d)) = xd_steps d"
  by (simp_all add: markTargets_def sync_markRollbackSourceRuns_def steps_for_each)

lemma sync_plan_keeps_steps [simp]: "xd_steps (snd (sync_syncDeploymentPlanAfterRun env run steps actorId t d)) = xd_steps d"
  by (auto simp: sync_syncDeploymentPlanAfterRun_def Let_def intro!: steps_andThen split: option.splits)

lemma sync_unknown_plan_keeps_steps [simp]: "xd_steps (snd (sync_persistUnknownDeploymentState t p target a r d)) = xd_steps d"
  by (auto simp: sync_persistUnknownDeploymentState_def intro!: steps_andThen split: option.splits)

lemma sync_keeps_runs [simp]:
  "xd_runs (snd (lift_result r d)) = xd_runs d"
  "xd_runs (snd (recordTransitionIfChanged a b c e f g h d)) = xd_runs d"
  "xd_runs (snd (mark_target status actorId t targetId d)) = xd_runs d"
  "xd_runs (snd (sync_transitionDeploymentPlan planId fr to actorId event t d)) = xd_runs d"
  "xd_runs (snd (skip_after_failure run actorId tenant code msg step d)) = xd_runs d"
  by (auto simp: lift_result_def recordTransitionIfChanged_def mark_target_def sync_transitionDeploymentPlan_def skip_after_failure_def
      intro!: runs_andThen split: option.splits)

lemma sync_keeps_runs' [simp]:
  "xd_runs (snd (markTargets ids status actorId t d)) = xd_runs d"
  "xd_runs (snd (skipPendingStepsAfterRunFailure run steps actorId tenant code msg d)) = xd_runs d"
  "xd_runs (snd (write_step_result env inp step v d)) = xd_runs d"
  by (auto simp: markTargets_def skipPendingStepsAfterRunFailure_def write_step_result_def Let_def intro!: runs_for_each runs_andThen)

section \<open>The effect on the steps\<close>

lemma patch_homes [simp]:
  "step_home (step_result_patch env inp step v now s) = step_home s" "step_home (skip_patch run actorId code msg now s) = step_home s"
  "es_id (step_result_patch env inp step v now s) = es_id s" "es_id (skip_patch run actorId code msg now s) = es_id s"
  "es_tenantId (step_result_patch env inp step v now s) = es_tenantId s" "es_tenantId (skip_patch run actorId code msg now s) = es_tenantId s"
  "es_status (step_result_patch env inp step v now s) = (if vd_success v then ''SUCCESS'' else ''FAILED'')"
  "es_status (skip_patch run actorId code msg now s) = ''SKIPPED''"
  by (simp_all add: step_result_patch_def skip_patch_def step_home_def Let_def)

lemma record_at [simp]:
  "status_at (snd (recordTransitionIfChanged a b c e f g h d)) = status_at d" "home_at (snd (recordTransitionIfChanged a b c e f g h d)) = home_at d"
  "fst (recordTransitionIfChanged a b c e f g h d) = Inr ()"
  by (auto simp: status_at_def home_at_def recordTransitionIfChanged_def)

text \<open>An update of a stored step followed by a read of the same step finds it.\<close>

lemma read_after_updateStep:
  assumes "stored_under_own_id es_id (xd_steps d)" and "pg_get (xd_steps d) i = Some s"
    and "\<And>s. es_id (patch s) = es_id s" and "es_tenantId (patch s) = es_tenantId s" and "sameTenant (es_tenantId s) t"
  shows "getStepOrThrow i t (snd (updateStep i patch d)) = Inr ((patch s)\<lparr>es_version := es_version s + 1\<rparr>)"
  using get_updateStep [OF assms(1,3), of i i] assms(2,4,5) by (simp add: getStepOrThrow_def getStep_def)

lemma write_step_result_eq:
  assumes "stored_under_own_id es_id (xd_steps d)" and "pg_get (xd_steps d) (es_id step) = Some step"
    and "sameTenant (es_tenantId step) (Some (xi_tenantId inp))"
  shows "write_step_result env inp step v d = recordTransitionIfChanged ''executionStep'' (es_id step) (es_status step)
      (if vd_success v then ''SUCCESS'' else ''FAILED'') (if vd_success v then ''agent.step.success'' else ''agent.step.failed'')
      (xi_actorId inp) (es_tenantId step) (snd (updateStep (es_id step) (step_result_patch env inp step v (xd_now d)) d))"
proof -
  let ?p = "step_result_patch env inp step v (xd_now d)"
  obtain d1 where up: "updateStep (es_id step) ?p d = (Inr ((?p step)\<lparr>es_version := es_version step + 1\<rparr>), d1)"
    using assms(2) by (simp add: updateStep_found)
  then have "getStepOrThrow (es_id step) (Some (xi_tenantId inp)) d1 = Inr ((?p step)\<lparr>es_version := es_version step + 1\<rparr>)"
    using read_after_updateStep [OF assms(1,2), of ?p "Some (xi_tenantId inp)"] assms(3) by simp
  then show ?thesis by (simp add: write_step_result_def lift_result_def up)
qed

lemma write_step_result_effect:
  assumes "stored_under_own_id es_id (xd_steps d)" and "pg_get (xd_steps d) (es_id step) = Some step"
    and "sameTenant (es_tenantId step) (Some (xi_tenantId inp))"
  shows "fst (write_step_result env inp step v d) = Inr ()"
    and "stored_under_own_id es_id (xd_steps (snd (write_step_result env inp step v d)))"
    and "status_at (snd (write_step_result env inp step v d)) k =
      (if k = es_id step then Some (if vd_success v then ''SUCCESS'' else ''FAILED'') else status_at d k)"
    and "home_at (snd (write_step_result env inp step v d)) k = home_at d k"
  using status_updateStep [OF assms(1), of "step_result_patch env inp step v (xd_now d)" "if vd_success v then ''SUCCESS'' else ''FAILED''" "es_id step" k]
    home_updateStep [OF assms(1), of "step_result_patch env inp step v (xd_now d)" "es_id step" k] assms(2)
  unfolding write_step_result_eq [OF assms]
  by (simp_all add: stored_updateStep assms(1))

lemma skip_after_failure_eq:
  assumes "stored_under_own_id es_id (xd_steps d)" and "pg_get (xd_steps d) (es_id step) = Some step"
    and "sameTenant (es_tenantId step) (Some tenant)"
  shows "skip_after_failure run actorId tenant code msg step d = (if es_status step \<noteq> ''PENDING'' then (Inr (), d)
    else recordTransitionIfChanged ''executionStep'' (es_id step) (es_status step) ''SKIPPED'' ''agent.run_failed.skip_pending'' actorId
      (es_tenantId step) (snd (updateStep (es_id step) (skip_patch run actorId code msg (xd_now d)) d)))"
proof -
  let ?p = "skip_patch run actorId code msg (xd_now d)"
  obtain d1 where up: "updateStep (es_id step) ?p d = (Inr ((?p step)\<lparr>es_version := es_version step + 1\<rparr>), d1)"
    using assms(2) by (simp add: updateStep_found)
  then have "getStepOrThrow (es_id step) (Some tenant) d1 = Inr ((?p step)\<lparr>es_version := es_version step + 1\<rparr>)"
    using read_after_updateStep [OF assms(1,2), of ?p "Some tenant"] assms(3) by simp
  then show ?thesis by (simp add: skip_after_failure_def lift_result_def up)
qed

lemma skip_after_failure_effect:
  assumes "stored_under_own_id es_id (xd_steps d)" and "pg_get (xd_steps d) (es_id step) = Some step"
    and "sameTenant (es_tenantId step) (Some tenant)"
  shows "fst (skip_after_failure run actorId tenant code msg step d) = Inr ()"
    and "stored_under_own_id es_id (xd_steps (snd (skip_after_failure run actorId tenant code msg step d)))"
    and "k \<noteq> es_id step \<Longrightarrow> pg_get (xd_steps (snd (skip_after_failure run actorId tenant code msg step d))) k = pg_get (xd_steps d) k"
    and "status_at (snd (skip_after_failure run actorId tenant code msg step d)) k =
      (if k = es_id step \<and> es_status step = ''PENDING'' then Some ''SKIPPED'' else status_at d k)"
    and "home_at (snd (skip_after_failure run actorId tenant code msg step d)) k = home_at d k"
  using status_updateStep [OF assms(1), of "skip_patch run actorId code msg (xd_now d)" "''SKIPPED''" "es_id step" k]
    home_updateStep [OF assms(1), of "skip_patch run actorId code msg (xd_now d)" "es_id step" k] assms(2)
    get_updateStep [OF assms(1), of "skip_patch run actorId code msg (xd_now d)" "es_id step" k]
  unfolding skip_after_failure_eq [OF assms]
  by (auto simp: stored_updateStep assms(1))

lemma skip_all_effect:
  assumes "stored_under_own_id es_id (xd_steps d)" and "distinct (map es_id steps)"
    and "\<And>s. s \<in> set steps \<Longrightarrow> pg_get (xd_steps d) (es_id s) = Some s \<and> sameTenant (es_tenantId s) (Some tenant)"
  shows "fst (skipPendingStepsAfterRunFailure run steps actorId tenant code msg d) = Inr ()
    \<and> stored_under_own_id es_id (xd_steps (snd (skipPendingStepsAfterRunFailure run steps actorId tenant code msg d)))
    \<and> (\<forall>k. status_at (snd (skipPendingStepsAfterRunFailure run steps actorId tenant code msg d)) k =
         (if k \<in> es_id ` set steps \<and> status_at d k = Some ''PENDING'' then Some ''SKIPPED'' else status_at d k))
    \<and> (\<forall>k. home_at (snd (skipPendingStepsAfterRunFailure run steps actorId tenant code msg d)) k = home_at d k)"
  using assms unfolding skipPendingStepsAfterRunFailure_def
proof (induction steps arbitrary: d)
  case Nil
  then show ?case by simp
next
  case (Cons s ss)
  let ?f = "skip_after_failure run actorId tenant code msg"
  let ?d = "snd (?f s d)"
  have here: "pg_get (xd_steps d) (es_id s) = Some s" "sameTenant (es_tenantId s) (Some tenant)" using Cons.prems(3) by auto
  note eff = skip_after_failure_effect [OF Cons.prems(1) here, where run = run and actorId = actorId and code = code and msg = msg]
  have rest: "pg_get (xd_steps ?d) (es_id x) = Some x \<and> sameTenant (es_tenantId x) (Some tenant)" if "x \<in> set ss" for x
  proof -
    have "es_id x \<noteq> es_id s" using Cons.prems(2) that by (metis distinct.simps(2) image_eqI list.simps(9) set_map)
    then show ?thesis using eff(3) [where k = "es_id x"] Cons.prems(3) [of x] that by simp
  qed
  have ih: "fst (for_each ?f ss ?d) = Inr () \<and> stored_under_own_id es_id (xd_steps (snd (for_each ?f ss ?d)))
      \<and> (\<forall>k. status_at (snd (for_each ?f ss ?d)) k = (if k \<in> es_id ` set ss \<and> status_at ?d k = Some ''PENDING'' then Some ''SKIPPED'' else status_at ?d k))
      \<and> (\<forall>k. home_at (snd (for_each ?f ss ?d)) k = home_at ?d k)"
    by (rule Cons.IH) (use eff(2) Cons.prems(2) rest in auto)
  have s: "status_at d (es_id s) = Some (es_status s)" using here(1) by (simp add: status_at_def)
  show ?case
    unfolding for_each.simps andThen_fst [OF eff(1)] using ih eff(4) eff(5) s by auto
qed

section \<open>Steps that have ended stay ended\<close>

text \<open>The runners installed by \<open>app.module.ts\<close> leave the status of a step that has ended alone.\<close>

definition leaves_ended :: "sync_env \<Rightarrow> bool" where
  "leaves_ended env \<longleftrightarrow> (\<forall>runner \<in> set_option (sy_continuationRunner env) \<union> set_option (sy_rollbackRunner env).
     \<forall>r a t d k st. status_at d k = Some st \<longrightarrow> isTerminal st \<longrightarrow> status_at (snd (runner r a t d)) k = Some st)"

lemma status_at_cong: "xd_steps d' = xd_steps d \<Longrightarrow> status_at d' = status_at d"
  by (simp add: status_at_def fun_eq_iff)

lemma skip_pending_ended:
  assumes "stored_under_own_id es_id (xd_steps d)"
  shows "fst (skipPendingStepsAfterRunFailure run (listSteps (Some tenant) r d) actorId tenant code msg d) = Inr ()
    \<and> stored_under_own_id es_id (xd_steps (snd (skipPendingStepsAfterRunFailure run (listSteps (Some tenant) r d) actorId tenant code msg d)))
    \<and> (\<forall>k. status_at (snd (skipPendingStepsAfterRunFailure run (listSteps (Some tenant) r d) actorId tenant code msg d)) k =
         (if k \<in> es_id ` set (listSteps (Some tenant) r d) \<and> status_at d k = Some ''PENDING'' then Some ''SKIPPED'' else status_at d k))
    \<and> (\<forall>k. home_at (snd (skipPendingStepsAfterRunFailure run (listSteps (Some tenant) r d) actorId tenant code msg d)) k = home_at d k)"
  by (rule skip_all_effect) (use assms in \<open>auto simp: set_listSteps distinct_listSteps\<close>)

lemma runner_ended:
  assumes "leaves_ended env" and "status_at d k = Some st" and "isTerminal st"
  shows "status_at (snd (continueRunAfterAgentResult env run actorId tenant d)) k = Some st"
    and "status_at (snd (requestAutomaticRollbackIfNeeded env run actorId tenant d)) k = Some st"
  using assms by (auto simp: leaves_ended_def continueRunAfterAgentResult_def requestAutomaticRollbackIfNeeded_def split: option.splits)

lemma finish_run_ended:
  assumes "leaves_ended env" and "status_at d k = Some st" and "isTerminal st"
  shows "status_at (snd (finish_run_after_result env inp run isDryRun v rs steps d)) k = Some st"
proof -
  let ?P = "\<lambda>d. status_at d k = Some st"
  have keep: "?P d'" if "?P d0" "xd_steps d' = xd_steps d0" for d0 d' using that status_at_cong by metis
  show ?thesis
    unfolding finish_run_after_result_def Let_def
    by (intro andThen_inv [where P = ?P] impI) (use assms runner_ended in \<open>auto intro: keep intro!: andThen_inv [where P = ?P]\<close>)
qed

lemma settle_run_ended:
  assumes "stored_under_own_id es_id (xd_steps d)" and "leaves_ended env" and "status_at d k = Some st" and "isTerminal st"
  shows "status_at (snd (settle_run env inp run isDryRun v rs d)) k = Some st"
proof -
  let ?P = "\<lambda>d. status_at d k = Some st"
  have "st \<noteq> ''PENDING''" using assms(4) by (auto simp: isTerminal_def)
  then have "?P (snd (skipPendingStepsAfterRunFailure run (listSteps (Some (xi_tenantId inp)) (Some (xr_id run)) d) actorId (xi_tenantId inp) code msg d))" for actorId code msg
    using skip_pending_ended [OF assms(1)] assms(3) by simp
  then show ?thesis
    unfolding settle_run_def Let_def
    by (intro andThen_inv [where P = ?P]) (use assms runner_ended(1) finish_run_ended in auto)
qed

lemma persistUnknown_status:
  assumes "stored_under_own_id es_id (xd_steps d)"
  shows "status_at (snd (persistUnknownAgentExecution env inp run step d)) k = status_at d k"
proof -
  have same: "status_at (snd (updateStep i patch d)) k = status_at d k"
    if "\<And>s. es_id (patch s) = es_id s" "\<And>s. es_status (patch s) = es_status s" for i patch
    using get_updateStep [OF assms that(1), of i k] that(2) by (auto simp: status_at_def option.map_comp comp_def)
  show ?thesis
    unfolding persistUnknownAgentExecution_def Let_def
  proof (rule andThen_inv [where P = "\<lambda>d'. status_at d' k = status_at d k"], goal_cases)
    case 1
    show ?case by (rule same) simp_all
  next
    case (2 x s)
    then show ?case by (subst status_at_cong [of _ s]) (auto intro!: steps_andThen)
  qed
qed

end
