(* ===== verification/ResultSyncProperties.thy ===== *)
theory ResultSyncProperties
  imports ResultSync
begin

text \<open>
  Properties of \<open>applyAgentTaskResult\<close>: when a certificate counts as deployed, what a failed result does to the
  rest of the run, what a dry run reports, and what a late result does to a run that has ended.
\<close>

section \<open>The path of a result that is written\<close>

lemma apply_written:
  assumes "getStep (xi_executionStepId inp) (Some (xi_tenantId inp)) d = Some step"
    and "getRun (xi_executionRunId inp) (Some (xi_tenantId inp)) d = Some run"
    and "\<not> hasPersistedUnknownResult step" and "resolveAgentExecutionStatus inp \<noteq> ''UNKNOWN''" and "xr_status run \<noteq> ''CANCELLED''"
    and "input_detail inp (is_dry_run run step) = Inr inputDetail" and "stored_under_own_id es_id (xd_steps d)"
    and v: "v = judge_result inp step (is_dry_run run step) inputDetail d" and d1: "d1 = snd (write_step_result env inp step v d)"
  shows "applyAgentTaskResult env inp d =
    andThen (if is_dry_run run step then (Inr None, d1)
      else lift_result (syncDeploymentAssets env (xi_tenantId inp) (vd_success v) (vd_errorCode v) (xr_type run) step (vd_detail v)) d1)
    (\<lambda>resultState. settle_run env inp run (is_dry_run run step) v resultState)"
proof -
  have here: "pg_get (xd_steps d) (es_id step) = Some step" "sameTenant (es_tenantId step) (Some (xi_tenantId inp))"
    using getStep_Some [OF assms(1)] docs.get_id [OF assms(7)] by auto
  have "fst (write_step_result env inp step v d) = Inr ()" by (rule write_step_result_effect) (use assms(7) here in auto)
  then show ?thesis using assms(1-6) unfolding v d1 by (simp add: applyAgentTaskResult_def Let_def andThen_fst)
qed

lemma apply_not_written:
  assumes "stored_under_own_id es_id (xd_steps d)" and "getStep (xi_executionStepId inp) (Some (xi_tenantId inp)) d = Some step"
    and "getRun (xi_executionRunId inp) (Some (xi_tenantId inp)) d = Some run"
    and "hasPersistedUnknownResult step \<or> resolveAgentExecutionStatus inp = ''UNKNOWN'' \<or> xr_status run = ''CANCELLED''
      \<or> (\<exists>e. input_detail inp (is_dry_run run step) = Inl e)"
  shows "status_at (snd (applyAgentTaskResult env inp d)) k = status_at d k"
  using assms persistUnknown_status [OF assms(1)] by (auto simp: applyAgentTaskResult_def Let_def)

lemma judge_success:
  assumes "vd_success (judge_result inp step isDryRun inputDetail d)"
  shows "xi_success inp \<and> resolveAgentExecutionStatus inp = ''SUCCESS'' \<and>
    validateFormalCertificateVerification step (merged_detail inp step isDryRun inputDetail d) isDryRun True = None"
  using assms by (auto simp: judge_result_def Let_def)

lemma verification_stands:
  assumes "validateFormalCertificateVerification step detail False True = None" and "es_stepType step = ''VERIFY''"
  shows "\<exists>fp. normalizeSha256 (readString (asRecord (jget (es_inputSnapshot step) ''certificateVerification'')) ''expectedFingerprintSha256'') = Some fp
    \<and> normalizeSha256 (readString detail ''verify.remoteCertificateSha256'') = Some fp"
proof -
  have "getOrElse (readRecord v) [] = asRecord v" for v by (auto simp: readRecord_def asRecord_def split: option.splits json.splits)
  then show ?thesis using assms by (auto simp: validateFormalCertificateVerification_def Let_def split: if_splits)
qed

lemma normalizeSha256_hex: "normalizeSha256 v = Some fp \<Longrightarrow> is_hex64 fp"
  by (auto simp: normalizeSha256_def Let_def split: option.splits if_splits)

section \<open>Examples\<close>

definition quiet_env :: sync_env where
  "quiet_env = \<lparr>sy_assets = \<lambda>_ _ _ _. Inr True, sy_redact = id, sy_probe = \<lambda>_ _. Inr (), sy_lifecycle = \<lambda>_ _ _. Inr (),
     sy_continuationRunner = None, sy_rollbackRunner = None\<rparr>"

definition sample_execution :: "string \<Rightarrow> jobject \<Rightarrow> execution_run" where
  "sample_execution status summary = \<lparr>xr_id = ''r'', xr_tenantId = Some ''t'', xr_deploymentPlanId = ''p'', xr_executionTargetId = None, xr_runNo = 1,
     xr_type = ''apply'', xr_idempotencyKey = ''k'', xr_requestHash = [], xr_externalRunId = None, xr_status = status, xr_startedAt = None,
     xr_finishedAt = None, xr_errorCode = None, xr_errorMessage = None, xr_concurrencyLimit = Some 1, xr_recoveryAttemptCount = None,
     xr_lastRecoveryAt = None, xr_summary = summary, xr_createdAt = 0, xr_updatedAt = 0, xr_createdBy = ''u'', xr_updatedBy = None, xr_version = 1\<rparr>"

definition run_step :: "string \<Rightarrow> int \<Rightarrow> string \<Rightarrow> string \<Rightarrow> jobject \<Rightarrow> string \<Rightarrow> execution_step" where
  "run_step i n target stepType snapshot status = \<lparr>es_id = i, es_tenantId = Some ''t'', es_executionRunId = ''r'',
     es_deploymentPlanTargetId = Some target, es_stepNo = n, es_stepType = stepType, es_name = [], es_dependsOn = None, es_idempotent = None,
     es_attemptCount = 1, es_maxAttempts = 1, es_lastFailureCategory = None, es_lastErrorCode = None, es_lastErrorMessage = None,
     es_lastErrorDetails = None, es_inputSnapshot = snapshot, es_status = status, es_startedAt = None, es_finishedAt = None, es_createdAt = 0,
     es_updatedAt = 0, es_createdBy = None, es_updatedBy = None, es_version = 1\<rparr>"

definition sample_runs_db :: "execution_run \<Rightarrow> execution_step list \<Rightarrow> exec_db" where
  "sample_runs_db run steps = \<lparr>xd_now = 5, xd_runs = [\<lparr>dr_id = xr_id run, dr_payload = run, dr_updatedAt = 0\<rparr>],
     xd_steps = map (\<lambda>s. \<lparr>dr_id = es_id s, dr_payload = s, dr_updatedAt = 0\<rparr>) steps, xd_plans = [], xd_targets = [], xd_transitions = []\<rparr>"

definition sample_result :: "string \<Rightarrow> bool \<Rightarrow> jobject \<Rightarrow> task_result" where
  "sample_result stepId success detail = \<lparr>xi_tenantId = ''t'', xi_executionRunId = ''r'', xi_executionStepId = stepId, xi_success = success,
     xi_status = None, xi_errorCode = None, xi_errorMessage = None, xi_detail = Some detail, xi_actorId = ''agent''\<rparr>"

lemma sample_stored: "distinct (map es_id steps) \<Longrightarrow> stored_under_own_id es_id (xd_steps (sample_runs_db run steps))"
  by (auto simp: stored_under_own_id_def sample_runs_db_def comp_def)

lemma quiet_leaves_ended: "leaves_ended quiet_env"
  by (simp add: leaves_ended_def quiet_env_def)

section \<open>A failed result\<close>

lemma sync_plan_keeps_runs: "xr_type run \<noteq> ''rollback'' \<Longrightarrow> xd_runs (snd (sync_syncDeploymentPlanAfterRun env run steps actorId t d)) = xd_runs d"
  by (auto simp: sync_syncDeploymentPlanAfterRun_def Let_def intro!: runs_andThen split: option.splits)

lemma policy_after_finish:
  "readRunFailurePolicy (xr_summary (finished_run_patch inp run v rs hasFailed now r)) = readRunFailurePolicy (xr_summary run)"
  by (simp add: finished_run_patch_def readRunFailurePolicy_def jget_spread_single split: option.split)

lemma finish_run_tables:
  assumes "pg_get (xd_runs d) (xr_id run) = Some run" and "xr_type run \<noteq> ''rollback''" and "readRunFailurePolicy (xr_summary run) \<noteq> ''rollback''"
  shows "xd_steps (snd (finish_run_after_result env inp run isDryRun v rs steps d)) = xd_steps d"
    and "xd_runs (snd (finish_run_after_result env inp run isDryRun v rs steps d)) =
      xd_runs (snd (updateRun (xr_id run) (finished_run_patch inp run v rs (has_failed steps) (xd_now d)) d))"
proof -
  let ?p = "finished_run_patch inp run v rs (has_failed steps) (xd_now d)"
  let ?r = "(?p run)\<lparr>xr_version := xr_version run + 1\<rparr>"
  have none: "requestAutomaticRollbackIfNeeded env ((finished_run_patch inp run v rs hf (xd_now d) run)\<lparr>xr_version := n\<rparr>) a t d' = (Inr (), d')" for hf n a t d'
    using assms(3) policy_after_finish [of inp run v rs hf "xd_now d" run]
    by (simp add: requestAutomaticRollbackIfNeeded_def split: option.splits)
  have plan: "xd_runs (snd (sync_syncDeploymentPlanAfterRun env ((finished_run_patch inp run v rs hf (xd_now d) run)\<lparr>xr_version := n\<rparr>) ss a t d')) = xd_runs d'"
    for hf n ss a t d' by (rule sync_plan_keeps_runs) (use assms(2) in \<open>simp add: finished_run_patch_def\<close>)
  obtain d1 where up: "updateRun (xr_id run) ?p d = (Inr ?r, d1)" using assms(1) by (simp add: updateRun_found)
  have d1: "xd_steps d1 = xd_steps d" using updateRun_keeps(1) [of "xr_id run" ?p d] by (simp add: up)
  show "xd_steps (snd (finish_run_after_result env inp run isDryRun v rs steps d)) = xd_steps d"
    unfolding finish_run_after_result_def Let_def up by (auto simp: none d1 intro!: steps_andThen)
  show "xd_runs (snd (finish_run_after_result env inp run isDryRun v rs steps d)) = xd_runs (snd (updateRun (xr_id run) ?p d))"
    unfolding finish_run_after_result_def Let_def up by (auto simp: none plan intro!: runs_andThen)
qed

lemma finish_run_status:
  assumes "exec_ok d" and "pg_get (xd_runs d) (xr_id run) = Some run" and "xr_type run \<noteq> ''rollback''"
    and "readRunFailurePolicy (xr_summary run) \<noteq> ''rollback''"
  shows "run_status_at (snd (finish_run_after_result env inp run isDryRun v rs steps d)) (xr_id run) = Some (if has_failed steps then ''FAILED'' else ''SUCCESS'')"
proof -
  have "pg_get (xd_runs (snd (updateRun (xr_id run) (finished_run_patch inp run v rs (has_failed steps) (xd_now d)) d))) (xr_id run)
      = Some ((finished_run_patch inp run v rs (has_failed steps) (xd_now d) run)\<lparr>xr_version := xr_version run + 1\<rparr>)"
    using assms(1,2) by (subst get_updateRun) (auto simp: exec_ok_def finished_run_patch_def)
  then show ?thesis using finish_run_tables(2) [OF assms(2,3,4)] by (simp add: run_status_at_def finished_run_patch_def)
qed

lemma settle_failed:
  assumes "exec_ok d" and run: "pg_get (xd_runs d) (xr_id run) = Some run" and "xr_type run \<noteq> ''rollback''"
    and "readRunFailurePolicy (xr_summary run) \<noteq> ''rollback''"
    and failed: "\<exists>s \<in> set (listSteps (Some (xi_tenantId inp)) (Some (xr_id run)) d). failed_step s"
    and calm: "\<forall>s \<in> set (listSteps (Some (xi_tenantId inp)) (Some (xr_id run)) d). es_status s = ''PENDING'' \<or> isTerminal (es_status s)"
  shows "run_status_at (snd (settle_run env inp run isDryRun v rs d)) (xr_id run) = Some ''FAILED''
    \<and> (\<forall>s \<in> set (listSteps (Some (xi_tenantId inp)) (Some (xr_id run)) d).
         status_at (snd (settle_run env inp run isDryRun v rs d)) (es_id s) = Some (if es_status s = ''PENDING'' then ''SKIPPED'' else es_status s))"
proof -
  let ?L = "\<lambda>d. listSteps (Some (xi_tenantId inp)) (Some (xr_id run)) d"
  let ?skip = "skipPendingStepsAfterRunFailure run (?L d) (xi_actorId inp) (xi_tenantId inp)
     (getOrElse (vd_errorCode v) ''STEP_FAILED'') (getOrElse (vd_errorMessage v) ''agent execution failed'') d"
  define d1 where "d1 = (if has_failed (?L d) \<and> \<not> all_finished (?L d) then snd ?skip else d)"
  have ok: "stored_under_own_id es_id (xd_steps d)" using assms(1) by (simp add: exec_ok_def)
  note skip = skip_pending_ended [OF ok, of run "xi_tenantId inp" "Some (xr_id run)"]
  have hasfailed: "has_failed (?L d)" using failed by (simp add: has_failed_def)
  have status: "status_at d1 k = (if k \<in> es_id ` set (?L d) \<and> status_at d k = Some ''PENDING'' then Some ''SKIPPED'' else status_at d k)" for k
  proof (cases "all_finished (?L d)")
    case True
    then have "status_at d k \<noteq> Some ''PENDING''" if "k \<in> es_id ` set (?L d)"
      using that listed_status [OF ok] by (force simp: all_finished_def)
    then show ?thesis using True by (auto simp: d1_def)
  next
    case False
    then show ?thesis using skip hasfailed by (simp add: d1_def)
  qed
  have home: "home_at d1 k = home_at d k" for k using skip by (simp add: d1_def)
  have ok1: "exec_ok d1" using assms(1) skip by (simp add: d1_def exec_ok_def)
  have same: "xd_runs d1 = xd_runs d" by (simp add: d1_def)
  have ids: "es_id ` set (?L d1) = es_id ` set (?L d)" by (rule listed_same_homes) (use ok ok1 home in \<open>simp_all add: exec_ok_def\<close>)
  have ended: "isTerminal (es_status s)"
    if "s \<in> set (?L d1)" for s
  proof -
    have now: "status_at d1 (es_id s) = Some (es_status s)" using listed_status [OF _ that] ok1 by (simp add: exec_ok_def)
    have mem: "es_id s \<in> es_id ` set (?L d)" using that ids by blast
    then obtain s' where s': "s' \<in> set (?L d)" "es_id s' = es_id s" by force
    then have "status_at d (es_id s) = Some (es_status s')" using listed_status [OF ok s'(1)] by simp
    then show ?thesis using now status [of "es_id s"] mem s' calm by (auto simp: isTerminal_def split: if_splits)
  qed
  have fin: "all_finished (?L d1)" using ended by (simp add: all_finished_def isTerminal_def)
  have eq: "settle_run env inp run isDryRun v rs d = finish_run_after_result env inp run isDryRun v rs (?L d1) d1"
    using fin skip hasfailed by (simp add: settle_run_def Let_def d1_def andThen_fst split: if_splits)
  have after: "status_at d1 (es_id s) = Some (if es_status s = ''PENDING'' then ''SKIPPED'' else es_status s)" if "s \<in> set (?L d)" for s
    using that listed_status [OF ok that] status by auto
  have "has_failed (?L d1)"
  proof -
    obtain s where s: "s \<in> set (?L d)" "failed_step s" using failed by blast
    then have "es_id s \<in> es_id ` set (?L d1)" unfolding ids by blast
    then obtain s1 where s1: "s1 \<in> set (?L d1)" "es_id s1 = es_id s" by force
    then have "status_at d1 (es_id s) = Some (es_status s1)" using listed_status [of d1 s1] ok1 by (simp add: exec_ok_def)
    then show ?thesis using after [OF s(1)] s(2) s1(1) by (auto simp: has_failed_def failed_step_def)
  qed
  moreover have here: "pg_get (xd_runs d1) (xr_id run) = Some run" using run same by simp
  moreover have "status_at (snd (finish_run_after_result env inp run isDryRun v rs (?L d1) d1)) = status_at d1"
    by (rule status_at_cong) (rule finish_run_tables(1) [OF here assms(3,4)])
  ultimately show ?thesis using finish_run_status [OF ok1 here assms(3,4)] after by (simp add: eq)
qed

lemma syncDeploymentAssets_total:
  assumes "\<forall>a b c e. \<exists>found. sy_assets env a b c e = Inr found"
  shows "\<exists>rs. syncDeploymentAssets env t success code runType step detail = Inr rs"
proof -
  obtain found where "sy_assets env t step (deriveResultState runType (es_stepType step) success detail code) detail = Inr found" using assms by blast
  then show ?thesis by (simp add: syncDeploymentAssets_def Let_def)
qed

section \<open>Properties\<close>

text \<open>C7. A certificate counts as deployed only when the remote endpoint shows it. In a formal run, a \<open>VERIFY\<close> step
  becomes \<open>SUCCESS\<close> through a reported result only if the report says success, and the fingerprint fixed when the plan was
  made is a SHA-256 digest equal, up to case and colons, to the fingerprint observed at the remote endpoint. The runners
  that continue the run leave steps that have ended alone.\<close>

theorem verify_gate:
  assumes "stored_under_own_id es_id (xd_steps d)" and "leaves_ended env"
    and "getStep (xi_executionStepId inp) (Some (xi_tenantId inp)) d = Some step"
    and "getRun (xi_executionRunId inp) (Some (xi_tenantId inp)) d = Some run"
    and "\<not> is_dry_run run step" and "es_stepType step = ''VERIFY''" and "es_status step \<noteq> ''SUCCESS''"
    and "status_at (snd (applyAgentTaskResult env inp d)) (xi_executionStepId inp) = Some ''SUCCESS''"
  shows "xi_success inp \<and> (\<exists>fp. is_hex64 fp
    \<and> normalizeSha256 (readString (asRecord (jget (es_inputSnapshot step) ''certificateVerification'')) ''expectedFingerprintSha256'') = Some fp
    \<and> normalizeSha256 (readString (merged_detail inp step False (getOrElse (xi_detail inp) []) d) ''verify.remoteCertificateSha256'') = Some fp)"
proof -
  let ?v = "judge_result inp step False (getOrElse (xi_detail inp) []) d"
  let ?d1 = "snd (write_step_result env inp step ?v d)"
  have here: "pg_get (xd_steps d) (es_id step) = Some step" "sameTenant (es_tenantId step) (Some (xi_tenantId inp))"
    "xi_executionStepId inp = es_id step"
    using getStep_Some [OF assms(3)] docs.get_id [OF assms(1)] by auto
  then have before: "status_at d (es_id step) \<noteq> Some ''SUCCESS''" using assms(7) by (simp add: status_at_def)
  have input: "input_detail inp (is_dry_run run step) = Inr (getOrElse (xi_detail inp) [])" using assms(5) by (simp add: input_detail_def)
  have written: "\<not> hasPersistedUnknownResult step" "resolveAgentExecutionStatus inp \<noteq> ''UNKNOWN''" "xr_status run \<noteq> ''CANCELLED''"
    using apply_not_written [OF assms(1,3,4), of env "es_id step"] before assms(8) here(3) by auto
  note eff = write_step_result_effect [OF assms(1) here(1,2), where env = env and v = ?v]
  have "vd_success ?v"
  proof (rule ccontr)
    assume "\<not> vd_success ?v"
    then have failed: "status_at ?d1 (es_id step) = Some ''FAILED''" using eff(3) [of "es_id step"] by simp
    have "status_at (snd (settle_run env inp run False ?v rs ?d1)) (es_id step) = Some ''FAILED''" for rs
      using settle_run_ended [OF eff(2) assms(2) failed] by (simp add: isTerminal_def)
    then have "status_at (snd (applyAgentTaskResult env inp d)) (es_id step) = Some ''FAILED''"
      unfolding apply_written [OF assms(3,4) written input assms(1) refl refl]
      using assms(5) failed by (auto simp: lift_result_def andThen_def split: sum.splits)
    then show False using assms(8) here(3) by simp
  qed
  from judge_success [OF this] have "xi_success inp"
    "validateFormalCertificateVerification step (merged_detail inp step False (getOrElse (xi_detail inp) []) d) False True = None" by auto
  then show ?thesis using verification_stands [OF _ assms(6)] normalizeSha256_hex by blast
qed

definition fp_text :: string where
  "fp_text = replicate 64 (CHR ''a'')"

definition verify_snapshot :: jobject where
  "verify_snapshot = [(''certificateVerification'', JObj [(''expectedFingerprintSha256'', JStr fp_text)])]"

definition verify_db :: exec_db where
  "verify_db = sample_runs_db (sample_execution ''RUNNING'' []) [run_step ''s1'' 1 ''a'' ''VERIFY'' verify_snapshot ''RUNNING'']"

definition verify_result :: task_result where
  "verify_result = sample_result ''s1'' True [(''verify'', JObj [(''remoteCertificateSha256'', JStr fp_text)])]"

lemma fp_text_facts: "toLowerCase fp_text = fp_text" "trim fp_text = fp_text" "filter (\<lambda>c. c \<noteq> CHR '':'') fp_text = fp_text" "is_hex64 fp_text" "fp_text \<noteq> []"
  by (simp_all add: fp_text_def toLowerCase_def lower_char_def trim_def is_ws_def is_hex64_def dropWhile_replicate)

lemmas sync_eval = verify_db_def verify_result_def sample_runs_db_def sample_execution_def run_step_def sample_result_def quiet_env_def
  applyAgentTaskResult_def Let_def getStep_def getRun_def pg_get_def sameTenant_def hasPersistedUnknownResult_def readRecord_def
  json_nullish_def jget_def ojget_def toUpperCase_def resolveAgentExecutionStatus_def status_candidates_def may_be_unknown_def agent_status_def
  is_dry_run_def input_detail_def judge_result_def merged_detail_def asRecord_def spread_def normalizeWorkflowRollbackDetail_def
  isWorkflowExecutionDetail_def readString_def readPath_def trimmed_string_def resolveTargetInstallDetail_def listSteps_def
  validateFormalCertificateVerification_def buildAgentFailureWithoutDetails_def write_step_result_def step_result_patch_def
  updateStep_def getStepOrThrow_def pg_upsert_def upd_where_def lift_result_def recordTransitionIfChanged_def createTransition_def
  syncDeploymentAssets_def shouldSyncDeploymentState_def deriveResultState_def settle_run_def has_failed_def all_finished_def failed_step_def
  finish_run_after_result_def updateRun_def getRunOrThrow_def finished_run_patch_def sync_syncDeploymentPlanAfterRun_def getPlan_def
  requestAutomaticRollbackIfNeeded_def readBoolean_def sanitizeExecutionErrorDetails_def task_id_of_def status_at_def run_status_at_def
  skipPendingStepsAfterRunFailure_def skip_after_failure_def skip_patch_def step_before_def

lemma verify_db_success: "status_at (snd (applyAgentTaskResult quiet_env verify_result verify_db)) ''s1'' = Some ''SUCCESS''"
  by (simp add: sync_eval verify_snapshot_def normalizeSha256_def fp_text_facts)

theorem verify_gate_witness:
  "xi_success verify_result \<and> is_hex64 fp_text"
  using verify_gate [of verify_db quiet_env verify_result "run_step ''s1'' 1 ''a'' ''VERIFY'' verify_snapshot ''RUNNING''" "sample_execution ''RUNNING'' []"]
    verify_db_success quiet_leaves_ended
  by (auto simp: verify_db_def sample_stored) (simp_all add: sync_eval fp_text_facts verify_snapshot_def normalizeSha256_def)

text \<open>A failed result ends the run, whatever the failure policy says. When an agent reports a failure for a step of a
  formal run and no other step of the run is running, the step is \<open>FAILED\<close>, every pending step of the run is \<open>SKIPPED\<close>,
  also for other targets and under the policy \<open>continue\<close>, the other steps keep their status, and the run is \<open>FAILED\<close>,
  whatever its status was before unless it was cancelled.\<close>

theorem failed_result_ends_run:
  assumes "exec_ok d" and "\<forall>a b c e. \<exists>found. sy_assets env a b c e = Inr found"
    and "getStep (xi_executionStepId inp) (Some (xi_tenantId inp)) d = Some step"
    and "getRun (xi_executionRunId inp) (Some (xi_tenantId inp)) d = Some run"
    and "es_executionRunId step = xr_id run" and "\<not> is_dry_run run step" and "xr_type run \<noteq> ''rollback''"
    and "readRunFailurePolicy (xr_summary run) \<in> {''stop'', ''continue''}" and "xr_status run \<noteq> ''CANCELLED''"
    and "\<not> hasPersistedUnknownResult step" and "resolveAgentExecutionStatus inp \<noteq> ''UNKNOWN''" and "\<not> xi_success inp"
    and "\<forall>s \<in> set (listSteps (Some (xi_tenantId inp)) (Some (xr_id run)) d). es_id s \<noteq> es_id step \<longrightarrow> es_status s = ''PENDING'' \<or> isTerminal (es_status s)"
  shows "run_status_at (snd (applyAgentTaskResult env inp d)) (xr_id run) = Some ''FAILED''
    \<and> (\<forall>s \<in> set (listSteps (Some (xi_tenantId inp)) (Some (xr_id run)) d). status_at (snd (applyAgentTaskResult env inp d)) (es_id s) =
         Some (if es_id s = es_id step then ''FAILED'' else if es_status s = ''PENDING'' then ''SKIPPED'' else es_status s))"
proof -
  let ?v = "judge_result inp step False (getOrElse (xi_detail inp) []) d"
  let ?d1 = "snd (write_step_result env inp step ?v d)"
  let ?L = "\<lambda>d. listSteps (Some (xi_tenantId inp)) (Some (xr_id run)) d"
  have ok: "stored_under_own_id es_id (xd_steps d)" using assms(1) by (simp add: exec_ok_def)
  have here: "pg_get (xd_steps d) (es_id step) = Some step" "sameTenant (es_tenantId step) (Some (xi_tenantId inp))"
    using getStep_Some [OF assms(3)] docs.get_id [OF ok] by auto
  have run: "pg_get (xd_runs d) (xr_id run) = Some run"
    using getRun_Some [OF assms(4)] docs.get_id [of xr_id "xd_runs d"] assms(1) by (auto simp: exec_ok_def)
  have input: "input_detail inp (is_dry_run run step) = Inr (getOrElse (xi_detail inp) [])" using assms(6) by (simp add: input_detail_def)
  note eff = write_step_result_effect [OF ok here, where env = env and v = ?v]
  have no: "\<not> vd_success ?v" using assms(12) by (simp add: judge_result_def Let_def)
  have st: "status_at ?d1 k = (if k = es_id step then Some ''FAILED'' else status_at d k)" for k using eff(3) [of k] no by simp
  have ids: "es_id ` set (?L ?d1) = es_id ` set (?L d)" by (rule listed_same_homes) (use ok eff in auto)
  have mine: "step \<in> set (?L d)" using here assms(5) by (simp add: set_listSteps [OF ok])
  have "exec_ok ?d1" "pg_get (xd_runs ?d1) (xr_id run) = Some run" using assms(1) eff(2) run by (auto simp: exec_ok_def)
  moreover have now: "status_at ?d1 (es_id s) = Some (es_status s)" if "s \<in> set (?L ?d1)" for s using listed_status [OF eff(2) that] by simp
  moreover have "\<exists>s \<in> set (?L ?d1). failed_step s"
  proof -
    have "es_id step \<in> es_id ` set (?L ?d1)" using mine ids by blast
    then obtain s where "s \<in> set (?L ?d1)" "es_id s = es_id step" by force
    then show ?thesis using now [of s] st by (auto simp: failed_step_def)
  qed
  moreover have "es_status s = ''PENDING'' \<or> isTerminal (es_status s)" if "s \<in> set (?L ?d1)" for s
  proof -
    have "es_id s \<in> es_id ` set (?L d)" using that ids by blast
    then obtain s' where s': "s' \<in> set (?L d)" "es_id s' = es_id s" by force
    then have "status_at d (es_id s) = Some (es_status s')" using listed_status [OF ok s'(1)] by simp
    then show ?thesis using now [OF that] st [of "es_id s"] s' assms(13) by (auto simp: isTerminal_def split: if_splits)
  qed
  ultimately have settled: "run_status_at (snd (settle_run env inp run False ?v rs ?d1)) (xr_id run) = Some ''FAILED''
      \<and> (\<forall>s \<in> set (?L ?d1). status_at (snd (settle_run env inp run False ?v rs ?d1)) (es_id s) = Some (if es_status s = ''PENDING'' then ''SKIPPED'' else es_status s))" for rs
    using assms(7,8) by (intro settle_failed) auto
  obtain rs where "syncDeploymentAssets env (xi_tenantId inp) (vd_success ?v) (vd_errorCode ?v) (xr_type run) step (vd_detail ?v) = Inr rs"
    using syncDeploymentAssets_total [OF assms(2)] by blast
  then have eq: "applyAgentTaskResult env inp d = settle_run env inp run False ?v rs ?d1"
    using apply_written [OF assms(3,4,10,11,9) input ok refl refl, of env] assms(6) by (simp add: lift_result_def)
  have "status_at (snd (settle_run env inp run False ?v rs ?d1)) (es_id s) =
      Some (if es_id s = es_id step then ''FAILED'' else if es_status s = ''PENDING'' then ''SKIPPED'' else es_status s)" if "s \<in> set (?L d)" for s
  proof -
    have "es_id s \<in> es_id ` set (?L ?d1)" using that ids by blast
    then obtain s1 where s1: "s1 \<in> set (?L ?d1)" "es_id s1 = es_id s" by force
    then have "status_at (snd (settle_run env inp run False ?v rs ?d1)) (es_id s) = Some (if es_status s1 = ''PENDING'' then ''SKIPPED'' else es_status s1)"
      using settled [of rs] by auto
    then show ?thesis using now [OF s1(1)] s1(2) st [of "es_id s"] listed_status [OF ok that] by (auto split: if_splits)
  qed
  then show ?thesis using settled eq by simp
qed

definition continue_db :: exec_db where
  "continue_db = sample_runs_db (sample_execution ''RUNNING'' [(''failurePolicy'', JStr ''continue'')])
     [run_step ''s1'' 1 ''a'' ''INSTALL'' [] ''RUNNING'', run_step ''s2'' 2 ''b'' ''INSTALL'' [] ''PENDING'']"

theorem failed_result_ends_run_witness:
  "run_status_at (snd (applyAgentTaskResult quiet_env (sample_result ''s1'' False []) continue_db)) ''r'' = Some ''FAILED''
   \<and> status_at (snd (applyAgentTaskResult quiet_env (sample_result ''s1'' False []) continue_db)) ''s2'' = Some ''SKIPPED''"
  using failed_result_ends_run [of continue_db quiet_env "sample_result ''s1'' False []" "run_step ''s1'' 1 ''a'' ''INSTALL'' [] ''RUNNING''"
      "sample_execution ''RUNNING'' [(''failurePolicy'', JStr ''continue'')]"]
  by (auto simp: exec_ok_def stored_under_own_id_def continue_db_def isTerminal_def readRunFailurePolicy_def sync_eval)


text \<open>A failed dry run shows a failed check. The checks stored after a dry run contain a failed one if and only if the
  agent reported a failure or some check with a key, label or id, of this report or an earlier one of the step, failed; merging
  checks of the same key never hides a failure.\<close>

theorem dry_run_failure_visible:
  assumes "\<forall>c \<in> set (readDryRunChecks (asRecord (jget (es_inputSnapshot step) ''resultDetail'')) @ readDryRunChecks inputDetail). distinct (map fst c)"
  shows "(\<exists>c \<in> set (dry_run_checks inp step inputDetail merged). check_failed c) \<longleftrightarrow> \<not> xi_success inp
      \<or> (\<exists>c \<in> set (readDryRunChecks (asRecord (jget (es_inputSnapshot step) ''resultDetail'')) @ readDryRunChecks inputDetail).
           check_key c \<noteq> None \<and> check_failed c)"
proof -
  let ?old = "readDryRunChecks (asRecord (jget (es_inputSnapshot step) ''resultDetail''))" and ?new = "readDryRunChecks inputDetail"
  have "check_failed (buildDryRunExecutionFailureCheck code msg step merged)" for code msg
    by (simp add: check_failed_def buildDryRunExecutionFailureCheck_def jget_def normalizeDryRunStatus_def json_nullish_def Let_def
        trim_def is_ws_def toLowerCase_def lower_char_def)
  moreover have "dryRunChecksContainNoFailure checks \<longleftrightarrow> \<not> (\<exists>c \<in> set checks. check_failed c)" for checks
    by (simp add: dryRunChecksContainNoFailure_def check_failed_def)
  ultimately show ?thesis using merged_failed_iff [of "[?old, ?new]"] assms by (auto simp: dry_run_checks_def Let_def)
qed

definition sample_check :: "string \<Rightarrow> jobject" where
  "sample_check status = [(''key'', JStr ''k''), (''status'', JStr status)]"

theorem dry_run_failure_visible_witness:
  "\<exists>c \<in> set (dry_run_checks (sample_result ''s'' True []) (run_step ''s'' 1 ''a'' ''CUSTOM'' [] ''RUNNING'')
      [(''dryRunChecks'', JArr [JObj (sample_check ''failed''), JObj (sample_check ''passed'')])] []). check_failed c"
  using dry_run_failure_visible [of "run_step ''s'' 1 ''a'' ''CUSTOM'' [] ''RUNNING''"
      "[(''dryRunChecks'', JArr [JObj (sample_check ''failed''), JObj (sample_check ''passed'')])]" "sample_result ''s'' True []" "[]"]
  by (simp add: readDryRunChecks_def readRecordArray_def readRecord_def jget_def asRecord_def run_step_def sample_check_def List.map_filter_def
      check_key_def readString_def readPath_def ojget_def trimmed_string_def trim_def is_ws_def check_failed_def normalizeDryRunStatus_def
      json_nullish_def Let_def toLowerCase_def lower_char_def)

end
