(* ===== verification/ExecutionRunner.thy ===== *)
theory ExecutionRunner
  imports ResultSync
begin

text \<open>
  The execution service, \<open>backend/src/modules/executions/application/executions.application-service.ts\<close>: transitions of
  runs and steps, what the end of a run does to its deployment plan, the execution of one step, the recovery of writes
  with an unknown result and the loop \<open>runDispatchedExecution\<close>.

  \<open>runner_env\<close> holds what the service is given: the executors, the sealed deployment inputs, the ledger of agent tasks,
  the TLS verifier, the result synchroniser (theory \<open>ResultSync\<close>), the waiting between stages and the request of a
  rollback run. An executor and a wait also return the database they leave, so that progress reports, agent results and
  cancellations arriving meanwhile are covered. An error of an executor carries its message and details, which the service reads.

  The selected steps of a batch run one after the other; what they do to each other while they overlap is a case of the
  database changing under an executor. \<open>run_loop\<close> has fuel for its iterations; running out of it is the error
  \<open>PlainError ''fuel''\<close>, which the program never throws. Notifications of the detail stream are left out.
\<close>

section \<open>Collaborators\<close>

type_synonym executor_error = "error \<times> string \<times> jobject option"

record input_snapshot =
  iz_deploymentPlanId :: "string option"
  iz_deploymentPlanTargetId :: "string option"
  iz_revision :: int
  iz_resolvedSha256 :: string

record agent_task =
  az_status :: string
  az_result :: "json option"

record runner_env =
  rv_execute :: "string \<Rightarrow> execution_step \<Rightarrow> string \<Rightarrow> bool \<Rightarrow> exec_db \<Rightarrow> (executor_error + step_result) \<times> exec_db"
  rv_snapshots :: "(string \<Rightarrow> string \<Rightarrow> input_snapshot option) option"
  rv_runtimeSnapshot :: "string \<Rightarrow> string \<Rightarrow> (jobject \<times> jobject) option"
  rv_redact :: "jobject \<Rightarrow> jobject"
  rv_sync :: "sync_env option"
  rv_agentTasks :: "(string \<Rightarrow> string \<Rightarrow> agent_task option) option"
  rv_verify :: "execution_step \<Rightarrow> string \<Rightarrow> executor_error + step_result"
  rv_stageIntervalMs :: int
  rv_delay :: "int \<Rightarrow> exec_db \<Rightarrow> exec_db"
  rv_rollback :: "execution_run \<Rightarrow> string \<Rightarrow> string option \<Rightarrow> unit exec"
  rv_resolveTask :: "(string \<Rightarrow> string \<Rightarrow> bool \<Rightarrow> unit result) option"

record run_outcome =
  ro_success :: bool
  ro_pending :: bool
  ro_pendingState :: "string option"
  ro_errorCode :: "string option"
  ro_errorMessage :: "string option"

record step_outcome =
  so_success :: bool
  so_asyncPending :: bool
  so_pendingState :: "string option"
  so_errorCode :: "string option"
  so_errorMessage :: "string option"
  so_targetId :: "string option"

definition error_text :: "error \<Rightarrow> string" where
  "error_text e = (case e of AppError c \<Rightarrow> c | SecurityError c r \<Rightarrow> r | PlainError m \<Rightarrow> m | DbError c \<Rightarrow> c)"

section \<open>Transitions\<close>

definition recordTransition :: "string \<Rightarrow> string \<Rightarrow> string option \<Rightarrow> string \<Rightarrow> string \<Rightarrow> string \<Rightarrow> string option \<Rightarrow> exec_db \<Rightarrow> exec_db" where
  "recordTransition entityType entityId fromStatus toStatus event actorId tenantId d = createTransition
     \<lparr>xe_tenantId = tenantId, xe_entityType = entityType, xe_entityId = entityId, xe_fromStatus = fromStatus, xe_toStatus = toStatus,
      xe_event = event, xe_actorType = ''user'', xe_actorId = Some actorId, xe_createdAt = xd_now d\<rparr> d"

definition step_transition_patch :: "execution_step \<Rightarrow> string \<Rightarrow> string \<Rightarrow> (execution_step \<Rightarrow> execution_step) \<Rightarrow> instant \<Rightarrow> execution_step \<Rightarrow> execution_step" where
  "step_transition_patch step nextStatus actorId patch now s = (patch s)\<lparr>es_status := nextStatus, es_updatedAt := now,
     es_updatedBy := Some actorId, es_startedAt := (if nextStatus = ''RUNNING'' then Some now else es_startedAt step),
     es_finishedAt := (if nextStatus \<in> set [''SUCCESS'', ''FAILED'', ''TIMEOUT'', ''SKIPPED''] then Some now else es_finishedAt step)\<rparr>"

definition transitionStepEntity ::
  "execution_step \<Rightarrow> string \<Rightarrow> string \<Rightarrow> string \<Rightarrow> (execution_step \<Rightarrow> execution_step) \<Rightarrow> execution_step exec" where
  "transitionStepEntity step nextStatus actorId event patch d =
    andThen (lift_result (transitionStep (es_status step) nextStatus) d) (\<lambda>_ d.
    andThen (updateStep (es_id step) (step_transition_patch step nextStatus actorId patch (xd_now d)) d) (\<lambda>updated d.
    (Inr updated, recordTransition ''executionStep'' (es_id step) (Some (es_status step)) nextStatus event actorId (es_tenantId step) d)))"

definition run_transition_patch ::
  "execution_run \<Rightarrow> string \<Rightarrow> string \<Rightarrow> string option \<Rightarrow> (execution_run \<Rightarrow> execution_run) \<Rightarrow> instant \<Rightarrow> execution_run \<Rightarrow> execution_run" where
  "run_transition_patch run nextStatus actorId externalRunId patch now r = (patch r)\<lparr>
     xr_externalRunId := orElse externalRunId (xr_externalRunId run), xr_status := nextStatus, xr_updatedAt := now,
     xr_updatedBy := Some actorId, xr_startedAt := (if nextStatus = ''RUNNING'' then Some now else xr_startedAt run),
     xr_finishedAt := (if nextStatus \<in> set [''SUCCESS'', ''FAILED'', ''TIMEOUT'', ''CANCELLED'', ''ROLLBACK_SUCCESS'', ''ROLLBACK_FAILED'']
       then Some now else xr_finishedAt run)\<rparr>"

definition transitionRunEntity ::
  "execution_run \<Rightarrow> string \<Rightarrow> string \<Rightarrow> string \<Rightarrow> string option \<Rightarrow> (execution_run \<Rightarrow> execution_run) \<Rightarrow> execution_run exec" where
  "transitionRunEntity run nextStatus actorId event externalRunId patch d =
    andThen (lift_result (transitionRun (xr_status run) nextStatus) d) (\<lambda>_ d.
    andThen (updateRun (xr_id run) (run_transition_patch run nextStatus actorId externalRunId patch (xd_now d)) d) (\<lambda>updated d.
    (Inr updated, recordTransition ''executionRun'' (xr_id run) (Some (xr_status run)) nextStatus event actorId (xr_tenantId run) d)))"

definition transitionDeploymentPlan :: "deployment_plan \<Rightarrow> string \<Rightarrow> string \<Rightarrow> string \<Rightarrow> unit exec" where
  "transitionDeploymentPlan plan nextStatus actorId event d =
    andThen (lift_result (assertTransition DeploymentPlanMachine (xp_status plan) nextStatus) d) (\<lambda>_ d.
    andThen (updatePlan (xp_id plan) (\<lambda>p. p\<lparr>xp_status := nextStatus, xp_updatedAt := xd_now d, xp_updatedBy := Some actorId\<rparr>) None d) (\<lambda>_ d.
    (Inr (), recordTransition ''deploymentPlan'' (xp_id plan) (Some (xp_status plan)) nextStatus event actorId (xp_tenantId plan) d)))"

section \<open>The plan after a run\<close>

definition execution_status_patch :: "string \<Rightarrow> string \<Rightarrow> plan_target \<Rightarrow> instant \<Rightarrow> plan_target \<Rightarrow> plan_target" where
  "execution_status_patch executionStatus actorId target now t = t\<lparr>xt_executionStatus := Some executionStatus,
     xt_strategyPayload := Some (let base = spread (getOrElse (xt_strategyPayload target) []) [(''executionStatus'', JStr executionStatus)]
       in if executionStatus = ''SUCCESS'' then AList.delete ''unknownReason'' base else base),
     xt_updatedAt := now, xt_updatedBy := Some actorId\<rparr>"

definition mark_execution_status :: "string \<Rightarrow> string \<Rightarrow> string option \<Rightarrow> string \<Rightarrow> unit exec" where
  "mark_execution_status executionStatus actorId tenantId targetId d = (case getTarget targetId tenantId d of
     None \<Rightarrow> (Inr (), d)
   | Some target \<Rightarrow> andThen (updateTarget (xt_id target) (execution_status_patch executionStatus actorId target (xd_now d)) d) (\<lambda>_ d. (Inr (), d)))"

definition markExecutionStatuses :: "deployment_plan \<Rightarrow> string list \<Rightarrow> string \<Rightarrow> string \<Rightarrow> string option \<Rightarrow> unit exec" where
  "markExecutionStatuses plan targetIds executionStatus actorId tenantId d =
    andThen (updatePlan (xp_id plan) (\<lambda>p. p\<lparr>xp_executionStatus := Some executionStatus, xp_updatedAt := xd_now d, xp_updatedBy := Some actorId\<rparr>) None d)
      (\<lambda>_. for_each (mark_execution_status executionStatus actorId tenantId) (set_dedup targetIds))"

definition mark_source :: "string \<Rightarrow> string \<Rightarrow> execution_run \<Rightarrow> unit exec" where
  "mark_source status actorId sourceRun d =
    (if xr_status sourceRun \<noteq> ''ROLLBACK_RUNNING'' then (Inr (), d)
     else andThen (transitionRunEntity sourceRun status actorId
        (if status = ''ROLLBACK_SUCCESS'' then ''rollback.success'' else ''rollback.failed'') None (\<lambda>r. r) d) (\<lambda>_ d. (Inr (), d)))"

definition markRollbackSourceRuns :: "string \<Rightarrow> string \<Rightarrow> string \<Rightarrow> string option \<Rightarrow> unit exec" where
  "markRollbackSourceRuns deploymentPlanId status actorId tenantId d =
     for_each (mark_source status actorId) (listRuns tenantId (Some deploymentPlanId) d) d"

definition sync_rollback_run :: "execution_run \<Rightarrow> deployment_plan \<Rightarrow> string list \<Rightarrow> string \<Rightarrow> string option \<Rightarrow> unit exec" where
  "sync_rollback_run run plan targetIds actorId tenantId d =
    (if xr_status run = ''SUCCESS'' then
       andThen (markTargets targetIds ''READY'' actorId tenantId d) (\<lambda>_ d.
       andThen (if xp_status plan = ''FAILED'' \<or> xp_status plan = ''PARTIAL_SUCCESS''
         then transitionDeploymentPlan plan ''ROLLED_BACK'' actorId ''rollback.success'' d else (Inr (), d)) (\<lambda>_.
       markRollbackSourceRuns (xr_deploymentPlanId run) ''ROLLBACK_SUCCESS'' actorId tenantId))
     else if xr_status run = ''FAILED'' \<or> xr_status run = ''TIMEOUT''
     then markRollbackSourceRuns (xr_deploymentPlanId run) ''ROLLBACK_FAILED'' actorId tenantId d else (Inr (), d))"

definition sync_success_run :: "runner_env \<Rightarrow> execution_run \<Rightarrow> deployment_plan \<Rightarrow> string list \<Rightarrow> string \<Rightarrow> string option \<Rightarrow> unit exec" where
  "sync_success_run env run plan targetIds actorId tenantId d =
    andThen (markTargets targetIds ''COMPLETED'' actorId tenantId d) (\<lambda>_ d.
    andThen (markExecutionStatuses plan targetIds ''SUCCESS'' actorId tenantId d) (\<lambda>_ d.
    andThen (if xp_status plan = ''RUNNING'' then transitionDeploymentPlan plan ''SUCCESS'' actorId ''execution.success'' d else (Inr (), d)) (\<lambda>_ d.
    case rv_sync env of None \<Rightarrow> (Inr (), d) | Some s \<Rightarrow> lift_result (sy_probe s tenantId (xr_deploymentPlanId run)) d)))"

definition sync_failed_run :: "deployment_plan \<Rightarrow> execution_step list \<Rightarrow> string \<Rightarrow> string option \<Rightarrow> unit exec" where
  "sync_failed_run plan steps actorId tenantId d =
    (let failedTargetIds = uniqueTargetIds (filter failed_step steps); successfulTargetIds = uniqueTargetIds (filter verified_step steps)
     in andThen (markTargets successfulTargetIds ''COMPLETED'' actorId tenantId d) (\<lambda>_ d.
        andThen (markTargets failedTargetIds ''FAILED'' actorId tenantId d) (\<lambda>_ d.
        andThen (markExecutionStatuses plan successfulTargetIds ''SUCCESS'' actorId tenantId d) (\<lambda>_ d.
        andThen (markExecutionStatuses plan failedTargetIds ''FAILED'' actorId tenantId d) (\<lambda>_ d.
        andThen (updatePlan (xp_id plan) (\<lambda>p. p\<lparr>xp_executionStatus := Some ''FAILED'', xp_updatedAt := xd_now d, xp_updatedBy := Some actorId\<rparr>) None d) (\<lambda>_ d.
        if xp_status plan = ''RUNNING''
        then transitionDeploymentPlan plan (if successfulTargetIds \<noteq> [] then ''PARTIAL_SUCCESS'' else ''FAILED'') actorId ''execution.failed'' d
        else (Inr (), d)))))))"

definition syncDeploymentPlanAfterRun :: "runner_env \<Rightarrow> execution_run \<Rightarrow> string \<Rightarrow> string option \<Rightarrow> unit exec" where
  "syncDeploymentPlanAfterRun env run actorId tenantId d =
    (if xr_type run = ''dry_run'' then (Inr (), d) else
     case getPlan (xr_deploymentPlanId run) tenantId d of None \<Rightarrow> (Inr (), d) | Some plan \<Rightarrow>
     (let steps = listSteps tenantId (Some (xr_id run)) d; targetIds = uniqueTargetIds steps
      in if xr_type run = ''rollback'' then sync_rollback_run run plan targetIds actorId tenantId d
         else if xr_status run = ''SUCCESS'' then sync_success_run env run plan targetIds actorId tenantId d
         else if xr_status run = ''FAILED'' \<or> xr_status run = ''TIMEOUT'' then sync_failed_run plan steps actorId tenantId d
         else (Inr (), d)))"

section \<open>Steps with an unknown result\<close>

definition hasUnknownExecutionResult :: "execution_step \<Rightarrow> bool" where
  "hasUnknownExecutionResult step \<longleftrightarrow> (let detail = readRecord (jget (es_inputSnapshot step) ''resultDetail'') in
     ojget detail ''executionStatus'' = Some (JStr ''UNKNOWN'') \<or> ojget detail ''mayBeUnknown'' = Some (JBool True)
     \<or> es_lastErrorCode step = Some ''PLUGIN_OPERATION_UNKNOWN_STATE'')"

definition monolithic_operation :: "json \<Rightarrow> bool" where
  "monolithic_operation operation \<longleftrightarrow> (case trimmed_string (ojget (readRecord (Some operation)) ''operationType'') of None \<Rightarrow> False
     | Some t \<Rightarrow> t \<in> set [''filesystem.atomic_replace'', ''certificate.store.install'', ''certificate.iis.binding.update'',
         ''certificate.iis.binding.rollback'', ''service.start'', ''service.stop'', ''service.restart'', ''service.reload'', ''command.execute_allowlisted''])"

definition isMonolithicAgentPlanPayload :: "jobject \<Rightarrow> bool" where
  "isMonolithicAgentPlanPayload payload \<longleftrightarrow> trimmed_string (jget payload ''actionType'') = Some ''agent.plan.execute''
     \<and> (case ojget (readRecord (jget payload ''plan'')) ''operations'' of Some (JArr ops) \<Rightarrow> \<exists>x \<in> set ops. monolithic_operation x | _ \<Rightarrow> False)"

definition readExpectedCertificateFingerprint :: "jobject \<Rightarrow> string option" where
  "readExpectedCertificateFingerprint snapshot =
    (let artifact = orElse (readRecord (jget snapshot ''deploymentArtifact'')) (readRecord (jget snapshot ''artifact''));
         runtimeArtifact = readRecord (ojget (readRecord (jget snapshot ''executionRuntimeSnapshot'')) ''deploymentArtifact'')
     in orElse (trimmed_string (ojget (readRecord (jget snapshot ''certificateVerification'')) ''expectedFingerprintSha256''))
          (orElse (trimmed_string (ojget artifact ''expectedFingerprintSha256'')) (trimmed_string (ojget runtimeArtifact ''expectedFingerprintSha256''))))"

definition step_operations :: "jobject option \<Rightarrow> json list" where
  "step_operations detail = (case ojget detail ''operationResults'' of Some (JArr xs) \<Rightarrow> xs
     | _ \<Rightarrow> (case ojget detail ''operations'' of Some (JArr xs) \<Rightarrow> xs | _ \<Rightarrow> []))"

definition operation_succeeded :: "(string \<Rightarrow> bool) \<Rightarrow> json \<Rightarrow> bool" where
  "operation_succeeded kinds operation \<longleftrightarrow> (let r = readRecord (Some operation) in
     kinds (getOrElse (trimmed_string (ojget r ''operationType'')) []) \<and> toUpperCase (json_nullish (ojget r ''status'')) = ''SUCCEEDED'')"

definition write_operation_type :: "string \<Rightarrow> bool" where
  "write_operation_type t \<longleftrightarrow> t \<in> set [''filesystem.atomic_replace'', ''filesystem.restore'', ''certificate.store.install'', ''service.start'',
     ''service.stop'', ''service.restart'', ''service.reload'', ''command.execute_allowlisted'']"

definition reload_operation :: "string \<Rightarrow> bool" where
  "reload_operation t \<longleftrightarrow> t = ''service.reload''"

definition hasAutomaticUnknownRecoverySource :: "execution_step \<Rightarrow> bool" where
  "hasAutomaticUnknownRecoverySource step = (let snapshot = es_inputSnapshot step;
       verification = readRecord (jget snapshot ''certificateVerification'');
       results = step_operations (readRecord (jget snapshot ''resultDetail'')) in
     if jget snapshot ''dryRun'' = Some (JBool True) then False
     else if ojget verification ''capabilityKey'' \<noteq> Some (JStr ''certificate.verify'') \<or> ojget verification ''schemaVersion'' \<noteq> Some (JStr ''1.0'') then False
     else if readExpectedCertificateFingerprint snapshot = None then False
     else if isMonolithicAgentPlanPayload snapshot then
       (\<exists>x \<in> set results. operation_succeeded write_operation_type x) \<and> (\<exists>x \<in> set results. operation_succeeded reload_operation x)
     else if toUpperCase (json_nullish (jget snapshot ''executorType'')) = ''AGENT'' then (\<exists>x \<in> set results. operation_succeeded write_operation_type x)
     else True)"

definition hasSuccessfulAgentReloadResult :: "execution_step \<Rightarrow> bool" where
  "hasSuccessfulAgentReloadResult step \<longleftrightarrow>
     (\<exists>x \<in> set (step_operations (readRecord (jget (es_inputSnapshot step) ''resultDetail''))). operation_succeeded reload_operation x)"

definition isDefinitiveTlsMismatch :: "string option \<Rightarrow> bool" where
  "isDefinitiveTlsMismatch errorCode \<longleftrightarrow> errorCode = Some ''TLS_VERIFY_FINGERPRINT_MISMATCH'' \<or> errorCode = Some ''TLS_VERIFY_DOMAIN_MISMATCH''"

definition pendingResultForRunningSteps :: "execution_step list \<Rightarrow> run_outcome" where
  "pendingResultForRunningSteps steps = (case find (\<lambda>s. es_status s = ''RUNNING'' \<and> hasUnknownExecutionResult s) steps of
     None \<Rightarrow> \<lparr>ro_success = True, ro_pending = True, ro_pendingState = Some ''WAITING_RESULT'', ro_errorCode = None, ro_errorMessage = None\<rparr>
   | Some s \<Rightarrow>
       if hasAutomaticUnknownRecoverySource s
       then \<lparr>ro_success = True, ro_pending = True, ro_pendingState = Some ''WAITING_RESULT'',
         ro_errorCode = Some (getOrElse (es_lastErrorCode s) ''EXECUTION_RESULT_UNCONFIRMED''), ro_errorMessage = Some ''the target certificate will be verified, the step is not replayed''\<rparr>
       else \<lparr>ro_success = True, ro_pending = True, ro_pendingState = Some ''AWAITING_CONFIRMATION'',
         ro_errorCode = Some (getOrElse (es_lastErrorCode s) ''EXECUTION_RESULT_UNCONFIRMED''),
         ro_errorMessage = Some (getOrElse (es_lastErrorMessage s) ''the write cannot be confirmed, no replay'')\<rparr>)"

definition resolveExecutionStatus :: "step_result \<Rightarrow> string" where
  "resolveExecutionStatus r = (let detail = getOrElse (sx_detail r) [] in
     case find agent_status (status_candidates None detail) of
       Some (Some (JStr s)) \<Rightarrow> if s = ''UNKNOWN'' \<or> s = ''CANCELLED'' then ''UNKNOWN'' else s
     | _ \<Rightarrow> if may_be_unknown detail (sx_errorCode r) then ''UNKNOWN'' else if sx_success r then ''SUCCESS'' else ''FAILED'')"

definition persistUnknownDeploymentState :: "execution_run \<Rightarrow> execution_step \<Rightarrow> string \<Rightarrow> string option \<Rightarrow> string \<Rightarrow> unit exec" where
  "persistUnknownDeploymentState run step actorId tenantId reason d =
    (case getPlan (xr_deploymentPlanId run) tenantId d of None \<Rightarrow> (Inr (), d) | Some plan \<Rightarrow>
     andThen (updatePlan (xp_id plan) (\<lambda>p. p\<lparr>xp_executionStatus := Some ''UNKNOWN'', xp_updatedAt := xd_now d, xp_updatedBy := Some actorId\<rparr>) None d) (\<lambda>_ d.
     if \<not> truthy (es_deploymentPlanTargetId step) then (Inr (), d)
     else (case getTarget (the (es_deploymentPlanTargetId step)) tenantId d of None \<Rightarrow> (Inr (), d) | Some target \<Rightarrow>
       andThen (updateTarget (xt_id target) (unknown_target_patch actorId reason (xd_now d) target) d) (\<lambda>_ d. (Inr (), d)))))"

definition unknown_step_patch :: "runner_env \<Rightarrow> execution_step \<Rightarrow> string \<Rightarrow> string option \<Rightarrow> string option \<Rightarrow> jobject \<Rightarrow> instant \<Rightarrow> execution_step \<Rightarrow> execution_step" where
  "unknown_step_patch env step actorId errorCode errorMessage detail now s = s\<lparr>
     es_inputSnapshot := spread (es_inputSnapshot step) [(''resultDetail'', JObj detail)],
     es_lastErrorCode := Some (getOrElse errorCode ''AGENT_EXECUTION_UNKNOWN''),
     es_lastErrorMessage := Some (getOrElse errorMessage ''the result is unknown, no replay and no rollback''),
     es_lastErrorDetails := Some (rv_redact env detail), es_updatedAt := now, es_updatedBy := Some actorId\<rparr>"

definition persistUnknownExecution ::
  "runner_env \<Rightarrow> execution_run \<Rightarrow> execution_step \<Rightarrow> string \<Rightarrow> string option \<Rightarrow> string option \<Rightarrow> string option \<Rightarrow> jobject \<Rightarrow> unit exec" where
  "persistUnknownExecution env run step actorId tenantId errorCode errorMessage inputDetail d =
    (let existingDetail = getOrElse (readRecord (jget (es_inputSnapshot step) ''resultDetail'')) [];
         reason = unknown_reason errorMessage errorCode ''the result is unknown'';
         detail = spread (spread existingDetail inputDetail) [(''executionStatus'', JStr ''UNKNOWN'')]
     in if toUpperCase (json_nullish (jget existingDetail ''executionStatus'')) = ''UNKNOWN'' then (Inr (), d)
        else andThen (updateStep (es_id step) (unknown_step_patch env step actorId errorCode errorMessage detail (xd_now d)) d) (\<lambda>_ d.
             andThen (updateRun (xr_id run) (\<lambda>r. r\<lparr>xr_summary := spread (xr_summary run)
                [(''executionStatus'', JStr ''UNKNOWN''), (''unknownReason'', JStr reason)], xr_updatedAt := xd_now d, xr_updatedBy := Some actorId\<rparr>) d) (\<lambda>_.
             persistUnknownDeploymentState run step actorId tenantId reason)))"

section \<open>Executing one step\<close>

definition readExecutionRuntimeSnapshot :: "json option \<Rightarrow> (jobject \<times> jobject) option" where
  "readExecutionRuntimeSnapshot value = (let snapshot = readRecord value;
       resolved = readRecord (ojget snapshot ''resolvedDeploymentInput''); artifact = readRecord (ojget snapshot ''deploymentArtifact'') in
     if ojget snapshot ''apiVersion'' \<noteq> Some (JStr ''gcac.deployment-input-runtime-snapshot/v1'')
        \<or> ojget resolved ''apiVersion'' \<noteq> Some (JStr ''gcac.resolved-deployment-input/v1'') \<or> artifact = None then None
     else Some (the resolved, the artifact))"

definition thrown_app :: "string \<Rightarrow> jobject \<Rightarrow> executor_error" where
  "thrown_app code details = (AppError code, code, Some details)"

definition readDeploymentInputSnapshotRef :: "json option \<Rightarrow> executor_error + (string \<times> int \<times> string)" where
  "readDeploymentInputSnapshotRef value = (let ref = readRecord value;
       snapshotId = trimmed_string (ojget ref ''snapshotId''); sha = trimmed_string (ojget ref ''resolvedSha256'');
       bad = Inl (thrown_app ''VALIDATION_FAILED'' [(''code'', JStr ''DEPLOYMENT_INPUT_RUNTIME_SNAPSHOT_INVALID'')]) in
     if ojget ref ''apiVersion'' \<noteq> Some (JStr ''gcac.deployment-input-snapshot/v1'') \<or> snapshotId = None \<or> sha = None then bad
     else (case ojget ref ''revision'' of Some (JNum n) \<Rightarrow> if n < 1 then bad else Inr (the snapshotId, n, the sha) | _ \<Rightarrow> bad))"

definition with_material :: "execution_step \<Rightarrow> jobject \<times> jobject \<Rightarrow> execution_step" where
  "with_material step m = step\<lparr>es_inputSnapshot := spread (es_inputSnapshot step)
     [(''resolvedDeploymentInput'', JObj (fst m)), (''deploymentArtifact'', JObj (snd m))]\<rparr>"

definition materializeRuntimeStep :: "runner_env \<Rightarrow> execution_step \<Rightarrow> string option \<Rightarrow> executor_error + execution_step" where
  "materializeRuntimeStep env step tenantId =
    (let snapshot = es_inputSnapshot step; invalid = thrown_app ''VALIDATION_FAILED'' [(''code'', JStr ''DEPLOYMENT_INPUT_RUNTIME_SNAPSHOT_INVALID'')] in
     case readExecutionRuntimeSnapshot (jget snapshot ''executionRuntimeSnapshot'') of
       Some m \<Rightarrow> Inr (with_material step m)
     | None \<Rightarrow>
       if trimmed_string (jget snapshot ''executorType'') = Some ''MOCK'' \<and> \<not> json_truthy (jget snapshot ''deploymentInputSnapshotRef'') then Inr step
       else (case readDeploymentInputSnapshotRef (jget snapshot ''deploymentInputSnapshotRef'') of
         Inl t \<Rightarrow> Inl t
       | Inr (snapshotId, revision, sha) \<Rightarrow>
         if \<not> truthy tenantId \<or> rv_snapshots env = None
         then Inl (thrown_app ''SYSTEM_INTERNAL_ERROR'' [(''code'', JStr ''DEPLOYMENT_INPUT_RUNTIME_SNAPSHOT_REPOSITORY_MISSING'')])
         else (case the (rv_snapshots env) (the tenantId) snapshotId of
           None \<Rightarrow> Inl invalid
         | Some audit \<Rightarrow>
           if iz_deploymentPlanId audit \<noteq> trimmed_string (jget snapshot ''deploymentPlanId'')
              \<or> iz_deploymentPlanTargetId audit \<noteq> es_deploymentPlanTargetId step \<or> iz_revision audit \<noteq> revision \<or> iz_resolvedSha256 audit \<noteq> sha
           then Inl invalid
           else (case rv_runtimeSnapshot env (the tenantId) snapshotId of
             None \<Rightarrow> Inl invalid
           | Some m \<Rightarrow> if jget (fst m) ''resolvedSha256'' \<noteq> Some (JStr sha) then Inl invalid else Inr (with_material step m)))))"

definition bindPluginRunnerExecution :: "execution_step \<Rightarrow> executor_error + execution_step" where
  "bindPluginRunnerExecution step = (if trimmed_string (jget (es_inputSnapshot step) ''executorType'') \<noteq> Some ''PLUGIN_RUNNER'' then Inr step
     else Inl (thrown_app ''PLUGIN_RUNNER_SCOPE_FORBIDDEN'' []))"

definition frozen_compatibility :: "json option \<Rightarrow> jobject option" where
  "frozen_compatibility value = (let source = readRecord value in
     orElse (readRecord (ojget source ''compatibility''))
       (if ojget source ''status'' \<in> set (map (\<lambda>s. Some (JStr s)) [''COMPATIBLE'', ''INCOMPATIBLE'', ''UNKNOWN'']) then source else None))"

definition assertFrozenPluginCompatibility :: "json option \<Rightarrow> executor_error option" where
  "assertFrozenPluginCompatibility value = (case frozen_compatibility value of
     None \<Rightarrow> None
   | Some c \<Rightarrow> (let status = trimmed_string (jget c ''status'') in
       if status = Some ''INCOMPATIBLE'' \<or> jget c ''compatible'' \<noteq> Some (JBool True)
       then Some (thrown_app ''CAPABILITY_MISSING'' ([(''status'', JStr (getOrElse status ''INCOMPATIBLE''))]
         @ (case jget c ''reasons'' of None \<Rightarrow> [] | Some v \<Rightarrow> [(''reasons'', v)]) @ (case jget c ''inputs'' of None \<Rightarrow> [] | Some v \<Rightarrow> [(''inputs'', v)])))
       else None))"

text \<open>The step handed to the executor, or what was thrown; the step is kept because the code goes on with it.\<close>

definition prepare_step :: "runner_env \<Rightarrow> execution_step \<Rightarrow> string option \<Rightarrow> execution_step \<times> executor_error option" where
  "prepare_step env runningStep tenantId = (case materializeRuntimeStep env runningStep tenantId of
     Inl t \<Rightarrow> (runningStep, Some t)
   | Inr materialized \<Rightarrow> (case bindPluginRunnerExecution materialized of
       Inl t \<Rightarrow> (runningStep, Some t)
     | Inr runtime \<Rightarrow> (runtime, orElse (assertFrozenPluginCompatibility (jget (es_inputSnapshot runtime) ''executionSource''))
         (assertFrozenPluginCompatibility (jget (es_inputSnapshot runtime) ''executionRuntimeSnapshot'')))))"

definition caught_result :: "executor_error \<Rightarrow> step_result" where
  "caught_result t = (case t of
     (AppError c, msg, details) \<Rightarrow> \<lparr>sx_success = False, sx_asyncPending = False, sx_errorCode = Some c, sx_errorMessage = Some msg, sx_detail = details\<rparr>
   | (_, msg, _) \<Rightarrow> \<lparr>sx_success = False, sx_asyncPending = False, sx_errorCode = Some ''EXECUTOR_FAILED'', sx_errorMessage = Some msg, sx_detail = None\<rparr>)"

definition executor_type_of :: "execution_step \<Rightarrow> string" where
  "executor_type_of step = (case jget (es_inputSnapshot step) ''executorType'' of None \<Rightarrow> ''MOCK'' | Some JNull \<Rightarrow> ''MOCK'' | Some v \<Rightarrow> js_string v)"

definition call_executor :: "runner_env \<Rightarrow> execution_step \<Rightarrow> execution_run \<Rightarrow> string option \<Rightarrow> exec_db \<Rightarrow> step_result \<times> execution_step \<times> exec_db" where
  "call_executor env runningStep run tenantId d = (case prepare_step env runningStep tenantId of
     (executionStep, Some t) \<Rightarrow> (caught_result t, executionStep, d)
   | (executionStep, None) \<Rightarrow> (case rv_execute env (executor_type_of runningStep) executionStep (xr_type run)
        (json_truthy (jget (es_inputSnapshot runningStep) ''dryRun'')) d of
       (Inl t, d) \<Rightarrow> (caught_result t, executionStep, d) | (Inr r, d) \<Rightarrow> (r, executionStep, d)))"

definition shouldSyncExecutorResult :: "string \<Rightarrow> string \<Rightarrow> bool" where
  "shouldSyncExecutorResult executorType runType \<longleftrightarrow> runType \<noteq> ''dry_run'' \<and> (executorType = ''CONTROL_PLANE_TLS'' \<or> executorType = ''WORKFLOW'')"

definition so_of_step :: "execution_step \<Rightarrow> step_outcome" where
  "so_of_step s = \<lparr>so_success = \<not> failed_step s, so_asyncPending = False, so_pendingState = None, so_errorCode = es_lastErrorCode s,
     so_errorMessage = es_lastErrorMessage s, so_targetId = es_deploymentPlanTargetId s\<rparr>"

definition so_ok :: "execution_step \<Rightarrow> step_outcome" where
  "so_ok s = \<lparr>so_success = True, so_asyncPending = False, so_pendingState = None, so_errorCode = None, so_errorMessage = None,
     so_targetId = es_deploymentPlanTargetId s\<rparr>"

definition settle_unknown :: "runner_env \<Rightarrow> execution_step \<Rightarrow> execution_run \<Rightarrow> step_result \<Rightarrow> string \<Rightarrow> string option \<Rightarrow> step_outcome exec" where
  "settle_unknown env latestStep currentRun r actorId tenantId d =
    (let cancelled = (xr_status currentRun = ''CANCELLED''); detail = getOrElse (sx_detail r) [];
         unknownResultStep = latestStep\<lparr>es_inputSnapshot := spread (es_inputSnapshot latestStep) [(''resultDetail'', JObj
           (spread (spread (getOrElse (readRecord (jget (es_inputSnapshot latestStep) ''resultDetail'')) []) detail) [(''executionStatus'', JStr ''UNKNOWN'')]))]\<rparr>
     in andThen (persistUnknownExecution env currentRun latestStep actorId tenantId
            (Some (getOrElse (sx_errorCode r) (if cancelled then ''EXECUTION_CANCELLED_UNKNOWN'' else ''AGENT_EXECUTION_UNKNOWN'')))
            (Some (getOrElse (sx_errorMessage r) ''the result is unknown, no replay and no rollback''))
            (spread detail ([(''executionStatus'', JStr ''UNKNOWN'')] @ (if cancelled then [(''cancellationRace'', JBool True)] else []))) d) (\<lambda>_ d.
        (Inr \<lparr>so_success = True, so_asyncPending = True,
          so_pendingState = Some (if hasAutomaticUnknownRecoverySource unknownResultStep then ''WAITING_RESULT'' else ''AWAITING_CONFIRMATION''),
          so_errorCode = Some (getOrElse (sx_errorCode r) ''AGENT_EXECUTION_UNKNOWN''),
          so_errorMessage = Some (getOrElse (sx_errorMessage r) ''the result is unknown, no replay and no rollback''),
          so_targetId = es_deploymentPlanTargetId latestStep\<rparr>, d)))"

definition settle_async :: "execution_step \<Rightarrow> step_result \<Rightarrow> string \<Rightarrow> string option \<Rightarrow> step_outcome exec" where
  "settle_async runningStep r actorId tenantId d =
    andThen (lift_result (getStepOrThrow (es_id runningStep) tenantId d) d) (\<lambda>latest d.
    andThen (updateStep (es_id runningStep) (\<lambda>s. s\<lparr>
        es_inputSnapshot := (case sx_detail r of None \<Rightarrow> AList.delete ''dispatchDetail'' (es_inputSnapshot latest)
          | Some m \<Rightarrow> spread (es_inputSnapshot latest) [(''dispatchDetail'', JObj m)]),
        es_updatedAt := xd_now d, es_updatedBy := Some actorId\<rparr>) d) (\<lambda>_ d.
    (Inr \<lparr>so_success = True, so_asyncPending = True, so_pendingState = Some ''WAITING_RESULT'', so_errorCode = None, so_errorMessage = None,
       so_targetId = es_deploymentPlanTargetId runningStep\<rparr>, d)))"

definition synced_result :: "execution_step \<Rightarrow> string \<Rightarrow> step_result \<Rightarrow> string \<Rightarrow> string \<Rightarrow> task_result" where
  "synced_result runningStep executorType r actorId tenantId = \<lparr>xi_tenantId = tenantId, xi_executionRunId = es_executionRunId runningStep,
     xi_executionStepId = es_id runningStep, xi_success = sx_success r, xi_status = Some (resolveExecutionStatus r),
     xi_errorCode = sx_errorCode r, xi_errorMessage = sx_errorMessage r,
     xi_detail = Some (spread [(''executionMode'', JStr (if executorType = ''WORKFLOW'' then ''workflow'' else ''control_plane''))] (getOrElse (sx_detail r) [])),
     xi_actorId = actorId\<rparr>"

definition settle_synced :: "sync_env \<Rightarrow> execution_step \<Rightarrow> string \<Rightarrow> step_result \<Rightarrow> string \<Rightarrow> string option \<Rightarrow> step_outcome exec" where
  "settle_synced sync runningStep executorType r actorId tenantId d =
    (let stepTenantId = orElse tenantId (es_tenantId runningStep) in
     if \<not> truthy stepTenantId then (Inl (AppError ''TENANT_CONTEXT_INVALID''), d)
     else andThen (applyAgentTaskResult sync (synced_result runningStep executorType r actorId (the stepTenantId)) d) (\<lambda>_ d.
          andThen (lift_result (getStepOrThrow (es_id runningStep) tenantId d) d) (\<lambda>syncedStep d. (Inr (so_of_step syncedStep), d))))"

definition retry_patch :: "runner_env \<Rightarrow> string \<Rightarrow> step_result \<Rightarrow> string \<Rightarrow> instant \<Rightarrow> execution_step \<Rightarrow> execution_step" where
  "retry_patch env category r actorId now s = s\<lparr>es_status := ''PENDING'', es_updatedAt := now, es_updatedBy := Some actorId,
     es_lastFailureCategory := Some category, es_lastErrorCode := sx_errorCode r, es_lastErrorMessage := sx_errorMessage r,
     es_lastErrorDetails := map_option (rv_redact env) (sx_detail r)\<rparr>"

definition failure_patch :: "runner_env \<Rightarrow> string \<Rightarrow> step_result \<Rightarrow> execution_step \<Rightarrow> execution_step" where
  "failure_patch env category r s = s\<lparr>es_lastFailureCategory := Some category, es_lastErrorCode := sx_errorCode r,
     es_lastErrorMessage := sx_errorMessage r, es_lastErrorDetails := map_option (rv_redact env) (sx_detail r)\<rparr>"

definition success_patch :: "execution_step \<Rightarrow> step_result \<Rightarrow> execution_step \<Rightarrow> execution_step" where
  "success_patch executionStep r s = (case sx_detail r of None \<Rightarrow> s
     | Some m \<Rightarrow> s\<lparr>es_inputSnapshot := spread (es_inputSnapshot executionStep) [(''resultDetail'', JObj m)]\<rparr>)"

definition settle_failure :: "runner_env \<Rightarrow> execution_step \<Rightarrow> step_result \<Rightarrow> string \<Rightarrow> step_outcome exec" where
  "settle_failure env executionStep r actorId d =
    (case classify_failure executionStep r of (category, shouldAutoRetry) \<Rightarrow>
       if shouldAutoRetry \<and> es_idempotent executionStep \<noteq> Some False then
         andThen (updateStep (es_id executionStep) (retry_patch env category r actorId (xd_now d)) d) (\<lambda>_ d.
         (Inr (so_ok executionStep), recordTransition ''executionStep'' (es_id executionStep) (Some ''RUNNING'') ''PENDING'' ''step.retrying'' actorId (es_tenantId executionStep) d))
       else
         andThen (transitionStepEntity executionStep (if category = ''timeout'' then ''TIMEOUT'' else ''FAILED'') actorId ''step.failed'' (failure_patch env category r) d) (\<lambda>_ d.
         (Inr \<lparr>so_success = False, so_asyncPending = False, so_pendingState = None, so_errorCode = sx_errorCode r, so_errorMessage = sx_errorMessage r,
            so_targetId = es_deploymentPlanTargetId executionStep\<rparr>, d)))"

definition settle_step :: "runner_env \<Rightarrow> execution_step \<Rightarrow> execution_step \<Rightarrow> execution_run \<Rightarrow> step_result \<Rightarrow> string \<Rightarrow> string option \<Rightarrow> step_outcome exec" where
  "settle_step env runningStep executionStep run r actorId tenantId d =
    andThen (lift_result (getStepOrThrow (es_id runningStep) tenantId d) d) (\<lambda>latestStep d.
    if es_status latestStep \<noteq> ''RUNNING'' then (Inr (so_of_step latestStep), d)
    else andThen (lift_result (getRunOrThrow (xr_id run) tenantId d) d) (\<lambda>currentRun d.
    if resolveExecutionStatus r = ''UNKNOWN'' \<or> (xr_status currentRun = ''CANCELLED'' \<and> isPotentiallyUnknownWriteStep executionStep)
    then settle_unknown env latestStep currentRun r actorId tenantId d
    else if sx_success r \<and> sx_asyncPending r then settle_async runningStep r actorId tenantId d
    else if rv_sync env \<noteq> None \<and> shouldSyncExecutorResult (executor_type_of runningStep) (xr_type run)
    then settle_synced (the (rv_sync env)) runningStep (executor_type_of runningStep) r actorId tenantId d
    else if sx_success r then
      andThen (transitionStepEntity executionStep ''SUCCESS'' actorId ''step.success'' (success_patch executionStep r) d) (\<lambda>_ d. (Inr (so_ok executionStep), d))
    else settle_failure env executionStep r actorId d))"

definition waitForStageInterval :: "runner_env \<Rightarrow> execution_step \<Rightarrow> execution_run \<Rightarrow> string option \<Rightarrow> exec_db \<Rightarrow> exec_db" where
  "waitForStageInterval env step run tenantId d =
    (let numbers = getOrElse (es_dependsOn step) [];
         finished = List.map_filter es_finishedAt (filter (\<lambda>c. es_stepNo c \<in> set numbers) (listSteps tenantId (Some (es_executionRunId step)) d))
     in if xr_type run = ''rollback'' \<or> rv_stageIntervalMs env = 0 \<or> numbers = [] \<or> finished = [] then d
        else (let remaining = rv_stageIntervalMs env - max 0 (xd_now d - Max (set finished)) in if 0 < remaining then rv_delay env remaining d else d))"

definition start_patch :: "execution_step \<Rightarrow> execution_step \<Rightarrow> execution_step" where
  "start_patch current s = s\<lparr>es_attemptCount := es_attemptCount current + 1\<rparr>"

definition executeSingleStep :: "runner_env \<Rightarrow> string \<Rightarrow> execution_run \<Rightarrow> string \<Rightarrow> string option \<Rightarrow> step_outcome exec" where
  "executeSingleStep env stepId run actorId tenantId d =
    andThen (lift_result (getStepOrThrow stepId tenantId d) d) (\<lambda>current d.
    if es_status current \<noteq> ''PENDING'' then (Inr (so_ok current), d)
    else (let d = waitForStageInterval env current run tenantId d in
      andThen (lift_result (getStepOrThrow stepId tenantId d) d) (\<lambda>current d.
      if es_status current \<noteq> ''PENDING'' then (Inr ((so_of_step current)\<lparr>so_errorCode := None, so_errorMessage := None\<rparr>), d)
      else andThen (transitionStepEntity current ''RUNNING'' actorId ''step.started'' (start_patch current) d) (\<lambda>runningStep d.
        case call_executor env runningStep run tenantId d of
          (r, executionStep, d) \<Rightarrow> settle_step env runningStep executionStep run r actorId tenantId d))))"

end
