(* ===== verification/ExecutionLoop.thy ===== *)
theory ExecutionLoop
  imports ExecutionRunner
begin

text \<open>
  The run loop of \<open>backend/src/modules/executions/application/executions.application-service.ts\<close>: how a run ends with
  a failure, how results of agents and unknown writes are polled, \<open>recoverUnknownResult\<close>, \<open>cancelRun\<close> and
  \<open>runDispatchedExecution\<close>.

  \<open>next_action\<close> is the decision an iteration takes from the run and its steps; \<open>loop_body\<close> carries it out. The
  iteration calls itself at its end, from the recovery of unknown writes, and through the result synchroniser that
  \<open>app.module.ts\<close> connects to the loop; all three are the parameter \<open>next\<close> of \<open>loop_body\<close>.
\<close>

section \<open>Ending a run\<close>

definition skip_pending_patch :: "string \<Rightarrow> string \<Rightarrow> execution_step \<Rightarrow> execution_step" where
  "skip_pending_patch errorCode errorMessage s = s\<lparr>es_lastFailureCategory := Some ''unsafe'', es_lastErrorCode := Some ''SKIPPED_AFTER_RUN_FAILURE'',
     es_lastErrorMessage := Some (''the run failed, step skipped; source error '' @ errorCode @ '': '' @ errorMessage)\<rparr>"

definition skip_pending :: "string \<Rightarrow> string \<Rightarrow> (execution_step \<Rightarrow> execution_step) \<Rightarrow> execution_step \<Rightarrow> unit exec" where
  "skip_pending actorId event patch step d = (if es_status step \<noteq> ''PENDING'' then (Inr (), d)
     else andThen (transitionStepEntity step ''SKIPPED'' actorId event patch d) (\<lambda>_ d. (Inr (), d)))"

definition skipPendingStepsForRun :: "string \<Rightarrow> string \<Rightarrow> string option \<Rightarrow> string \<Rightarrow> string \<Rightarrow> string \<Rightarrow> unit exec" where
  "skipPendingStepsForRun runId actorId tenantId event errorCode errorMessage d =
     for_each (skip_pending actorId event (skip_pending_patch errorCode errorMessage)) (listSteps tenantId (Some runId) d) d"

definition skip_target_patch :: "execution_step \<Rightarrow> execution_step" where
  "skip_target_patch s = s\<lparr>es_lastFailureCategory := Some ''transient'', es_lastErrorCode := Some ''SKIPPED_AFTER_TARGET_FAILURE'',
     es_lastErrorMessage := Some ''a step of the same target failed, failurePolicy=continue skips the rest of the target''\<rparr>"

definition skipPendingStepsForTarget :: "string \<Rightarrow> string option \<Rightarrow> string \<Rightarrow> string option \<Rightarrow> string \<Rightarrow> unit exec" where
  "skipPendingStepsForTarget runId targetId actorId tenantId event d = (if \<not> truthy targetId then (Inr (), d)
     else for_each (skip_pending actorId event skip_target_patch)
       (filter (\<lambda>s. es_deploymentPlanTargetId s = targetId) (listSteps tenantId (Some runId) d)) d)"

definition requestAutomaticRollback :: "runner_env \<Rightarrow> execution_run \<Rightarrow> string \<Rightarrow> string option \<Rightarrow> unit exec" where
  "requestAutomaticRollback env run actorId tenantId d = (case rv_rollback env run actorId tenantId d of
     (Inr _, d) \<Rightarrow> (Inr (), d)
   | (Inl e, d) \<Rightarrow> (case getRun (xr_id run) tenantId d of
       None \<Rightarrow> (Inr (), d)
     | Some source \<Rightarrow>
         if xr_status source \<in> set [''FAILED'', ''TIMEOUT''] then
           andThen (transitionRunEntity source ''ROLLBACK_RUNNING'' actorId ''rollback.auto_failed'' None
             (\<lambda>r. r\<lparr>xr_errorCode := Some ''AUTO_ROLLBACK_REQUEST_FAILED'', xr_errorMessage := Some (error_text e)\<rparr>) d) (\<lambda>_ d. (Inr (), d))
         else (Inr (), d)))"

definition triggerAutomaticRollback :: "runner_env \<Rightarrow> string \<Rightarrow> string \<Rightarrow> string option \<Rightarrow> unit exec" where
  "triggerAutomaticRollback env runId actorId tenantId d =
    andThen (lift_result (getRunOrThrow runId tenantId d) d) (\<lambda>run d.
    if xr_type run = ''apply'' \<and> readRunFailurePolicy (xr_summary run) = ''rollback'' \<and> xr_status run \<in> set [''FAILED'', ''TIMEOUT'']
    then requestAutomaticRollback env run actorId tenantId d else (Inr (), d))"

definition failed_outcome :: "string option \<Rightarrow> string option \<Rightarrow> run_outcome" where
  "failed_outcome code msg = \<lparr>ro_success = False, ro_pending = False, ro_pendingState = None, ro_errorCode = code, ro_errorMessage = msg\<rparr>"

definition failed_run_status :: "string \<Rightarrow> bool \<Rightarrow> string" where
  "failed_run_status errorCode timeout = (if timeout \<or> str_includes (toLowerCase errorCode) ''timeout'' then ''TIMEOUT'' else ''FAILED'')"

definition failed_run_patch :: "string \<Rightarrow> string \<Rightarrow> execution_run \<Rightarrow> execution_run" where
  "failed_run_patch errorCode errorMessage r = r\<lparr>xr_errorCode := Some errorCode, xr_errorMessage := Some errorMessage\<rparr>"

definition finishFailedRun :: "runner_env \<Rightarrow> execution_run \<Rightarrow> string \<Rightarrow> string option \<Rightarrow> string \<Rightarrow> string \<Rightarrow> string \<Rightarrow> bool \<Rightarrow> run_outcome exec" where
  "finishFailedRun env run actorId tenantId policy errorCode errorMessage timeout d =
    (if xr_status run = ''FAILED'' \<or> xr_status run = ''TIMEOUT''
     then (Inr (failed_outcome (Some (getOrElse (xr_errorCode run) errorCode)) (Some (getOrElse (xr_errorMessage run) errorMessage))), d)
     else andThen (skipPendingStepsForRun (xr_id run) actorId tenantId ''runner.failed.skip_pending'' errorCode errorMessage d) (\<lambda>_ d.
       andThen (transitionRunEntity run (failed_run_status errorCode timeout) actorId ''runner.failed'' None (failed_run_patch errorCode errorMessage) d) (\<lambda>failedRun d.
       andThen (syncDeploymentPlanAfterRun env failedRun actorId tenantId d) (\<lambda>_ d.
       andThen (if policy = ''rollback'' \<and> xr_type run = ''apply'' then requestAutomaticRollback env failedRun actorId tenantId d else (Inr (), d)) (\<lambda>_ d.
       (Inr (failed_outcome (xr_errorCode failedRun) (xr_errorMessage failedRun)), d))))))"

definition cancel_step :: "runner_env \<Rightarrow> execution_run \<Rightarrow> string \<Rightarrow> string option \<Rightarrow> execution_step \<Rightarrow> unit exec" where
  "cancel_step env run actorId tenantId step d =
    (if es_status step = ''PENDING'' then andThen (transitionStepEntity step ''SKIPPED'' actorId ''step.cancelled'' (\<lambda>s. s) d) (\<lambda>_ d. (Inr (), d))
     else if es_status step = ''RUNNING'' \<and> isPotentiallyUnknownWriteStep step then
       persistUnknownExecution env run step actorId tenantId (Some ''EXECUTION_CANCELLED_UNKNOWN'')
         (Some ''the cancellation races with the write, no replay'') [(''executionStatus'', JStr ''UNKNOWN''), (''cancellationRace'', JBool True)] d
     else (Inr (), d))"

definition cancelRun :: "runner_env \<Rightarrow> string \<Rightarrow> string \<Rightarrow> string option \<Rightarrow> execution_run exec" where
  "cancelRun env runId actorId tenantId d =
    andThen (lift_result (getRunOrThrow runId tenantId d) d) (\<lambda>run d.
    if xr_status run \<notin> set [''PENDING'', ''DISPATCHED'', ''RUNNING''] then (Inr run, d)
    else andThen (for_each (cancel_step env run actorId tenantId) (listSteps tenantId (Some (xr_id run)) d) d) (\<lambda>_.
      transitionRunEntity run ''CANCELLED'' actorId ''run.cancelled'' None (\<lambda>r. r)))"

section \<open>Polling\<close>

definition normalizeAgentSecurityStatus :: "json option \<Rightarrow> string" where
  "normalizeAgentSecurityStatus value = (let normalized = toUpperCase (trim (json_nullish value)) in
     if normalized \<in> set [''SUCCESS'', ''FAILED'', ''UNKNOWN'', ''CANCELLED''] then normalized else ''FAILED'')"

definition nullish_or :: "json option \<Rightarrow> json option \<Rightarrow> json option" where
  "nullish_or a b = (if a = None \<or> a = Some JNull then b else a)"

definition agent_report :: "execution_run \<Rightarrow> execution_step \<Rightarrow> string \<Rightarrow> string \<Rightarrow> agent_task \<Rightarrow> task_result" where
  "agent_report run step actorId tenantId task =
    (let taskResult = getOrElse (readRecord (az_result task)) []; detail = getOrElse (readRecord (jget taskResult ''detail'')) [];
         status = normalizeAgentSecurityStatus (nullish_or (jget taskResult ''status'') (nullish_or (jget detail ''executionStatus'') (jget detail ''status'')))
     in \<lparr>xi_tenantId = tenantId, xi_executionRunId = xr_id run, xi_executionStepId = es_id step,
         xi_success = (jget taskResult ''success'' = Some (JBool True) \<and> status \<noteq> ''FAILED'' \<and> status \<noteq> ''UNKNOWN''),
         xi_status = Some status, xi_errorCode = trimmed_string (jget taskResult ''errorCode''),
         xi_errorMessage = trimmed_string (jget taskResult ''errorMessage''), xi_detail = Some detail, xi_actorId = actorId\<rparr>)"

definition polled_task :: "(string \<Rightarrow> string \<Rightarrow> agent_task option) \<Rightarrow> string \<Rightarrow> execution_step \<Rightarrow> agent_task option" where
  "polled_task getTask tenantId step =
    (let snapshot = es_inputSnapshot step;
         taskId = orElse (trimmed_string (ojget (readRecord (jget snapshot ''dispatchDetail'')) ''taskId''))
           (trimmed_string (ojget (readRecord (jget snapshot ''resultDetail'')) ''taskId''))
     in if es_status step \<noteq> ''RUNNING'' \<or> toUpperCase (json_nullish (jget snapshot ''executorType'')) \<noteq> ''AGENT'' \<or> taskId = None then None
        else (case getTask tenantId (the taskId) of None \<Rightarrow> None
          | Some task \<Rightarrow> if toLowerCase (az_status task) \<in> set [''succeeded'', ''failed'', ''rejected''] then Some task else None))"

fun poll_agents :: "sync_env \<Rightarrow> (string \<Rightarrow> string \<Rightarrow> agent_task option) \<Rightarrow> execution_run \<Rightarrow> string \<Rightarrow> string \<Rightarrow> bool \<Rightarrow> execution_step list \<Rightarrow> bool exec" where
  "poll_agents sync getTask run actorId tenantId advanced [] d = (Inr advanced, d)"
| "poll_agents sync getTask run actorId tenantId advanced (step # steps) d = (case polled_task getTask tenantId step of
     None \<Rightarrow> poll_agents sync getTask run actorId tenantId advanced steps d
   | Some task \<Rightarrow>
       andThen (applyAgentTaskResult sync (agent_report run step actorId tenantId task) d) (\<lambda>_ d.
       andThen (lift_result (getStepOrThrow (es_id step) (Some tenantId) d) d) (\<lambda>refreshed.
       poll_agents sync getTask run actorId tenantId (advanced \<or> es_status refreshed \<noteq> ''RUNNING'') steps)))"

definition pollPendingAgentResults :: "runner_env \<Rightarrow> execution_run \<Rightarrow> execution_step list \<Rightarrow> string \<Rightarrow> string option \<Rightarrow> bool exec" where
  "pollPendingAgentResults env run steps actorId tenantId d =
    (if rv_agentTasks env = None \<or> rv_sync env = None \<or> \<not> truthy tenantId then (Inr False, d)
     else poll_agents (the (rv_sync env)) (the (rv_agentTasks env)) run actorId (the tenantId) False steps d)"

section \<open>Recovering writes with an unknown result\<close>

record reload_gate =
  rg_ready :: bool
  rg_errorCode :: "string option"
  rg_errorMessage :: "string option"
  rg_reloadStepId :: "string option"
  rg_reloadStatus :: "string option"

definition reload_gate_of :: "execution_step \<Rightarrow> reload_gate" where
  "reload_gate_of reload =
    (if es_status reload = ''SUCCESS'' \<or> es_status reload = ''SKIPPED''
     then \<lparr>rg_ready = True, rg_errorCode = None, rg_errorMessage = None, rg_reloadStepId = Some (es_id reload), rg_reloadStatus = Some (es_status reload)\<rparr>
     else if es_status reload = ''RUNNING''
     then \<lparr>rg_ready = False, rg_errorCode = Some ''SERVICE_RELOAD_RESULT_UNCONFIRMED'', rg_errorMessage = Some ''the service is still reloading'',
       rg_reloadStepId = Some (es_id reload), rg_reloadStatus = Some (es_status reload)\<rparr>
     else \<lparr>rg_ready = False, rg_errorCode = Some (getOrElse (es_lastErrorCode reload) ''SERVICE_RELOAD_FAILED''),
       rg_errorMessage = Some (getOrElse (es_lastErrorMessage reload) ''the service did not reload''),
       rg_reloadStepId = Some (es_id reload), rg_reloadStatus = Some (es_status reload)\<rparr>)"

definition ensureReloadBeforeUnknownVerification ::
  "runner_env \<Rightarrow> execution_step \<Rightarrow> execution_step list \<Rightarrow> execution_run \<Rightarrow> string \<Rightarrow> string \<Rightarrow> reload_gate exec" where
  "ensureReloadBeforeUnknownVerification env step steps run actorId tenantId d =
    (let open_gate = \<lparr>rg_ready = True, rg_errorCode = None, rg_errorMessage = None, rg_reloadStepId = None, rg_reloadStatus = None\<rparr> in
     if es_stepType step \<noteq> ''INSTALL'' then (Inr open_gate, d)
     else if isMonolithicAgentPlanPayload (es_inputSnapshot step) \<and> \<not> hasSuccessfulAgentReloadResult step
     then (Inr \<lparr>rg_ready = False, rg_errorCode = Some ''SERVICE_RELOAD_RESULT_UNCONFIRMED'',
       rg_errorMessage = Some ''the reload inside the agent plan is not confirmed'', rg_reloadStepId = None, rg_reloadStatus = None\<rparr>, d)
     else (case find (\<lambda>c. es_deploymentPlanTargetId c = es_deploymentPlanTargetId step \<and> es_stepType c = ''RELOAD'') steps of
       None \<Rightarrow> (Inr open_gate, d)
     | Some reload \<Rightarrow>
         if es_status reload \<noteq> ''PENDING'' then (Inr (reload_gate_of reload), d)
         else andThen (executeSingleStep env (es_id reload) run actorId (Some tenantId) d) (\<lambda>_ d.
              andThen (lift_result (getStepOrThrow (es_id reload) (Some tenantId) d) d) (\<lambda>refreshed d. (Inr (reload_gate_of refreshed), d)))))"

definition recovery_history :: "jobject \<Rightarrow> json list" where
  "recovery_history detail = map JObj (readRecordArray (jget detail ''recoveryHistory''))"

definition with_recovery :: "jobject \<Rightarrow> jobject \<Rightarrow> jobject \<Rightarrow> jobject" where
  "with_recovery previousDetail detail recovery =
     spread (spread previousDetail detail) [(''recoveryHistory'', JArr (recovery_history previousDetail @ [JObj recovery])), (''recovery'', JObj recovery)]"

definition verification_step :: "execution_step \<Rightarrow> execution_step" where
  "verification_step step = (let snapshot = es_inputSnapshot step; expected = readExpectedCertificateFingerprint snapshot;
       verification = getOrElse (readRecord (jget snapshot ''certificateVerification'')) [] in
     step\<lparr>es_stepType := ''VERIFY'', es_inputSnapshot := spread snapshot [(''executorType'', JStr ''CONTROL_PLANE_TLS''), (''dryRun'', JBool False),
       (''certificateVerification'', JObj (spread verification (str_opt ''expectedFingerprintSha256'' expected)))]\<rparr>)"

definition verify_result_of :: "executor_error + step_result \<Rightarrow> step_result" where
  "verify_result_of r = (case r of Inr x \<Rightarrow> x | Inl (e, msg, details) \<Rightarrow>
     \<lparr>sx_success = False, sx_asyncPending = False, sx_errorCode = Some ''TLS_VERIFY_FAILED'', sx_errorMessage = Some msg,
      sx_detail = Some [(''mode'', JStr ''control_plane_tls_recovery_failed'')]\<rparr>)"

definition recovery_record :: "runner_env \<Rightarrow> execution_step \<Rightarrow> step_result \<Rightarrow> string \<Rightarrow> instant \<Rightarrow> jobject" where
  "recovery_record env step r actorId now =
    (let detail = getOrElse (sx_detail r) []; verification = getOrElse (readRecord (jget detail ''certificateVerification'')) [];
         verify = getOrElse (orElse (readRecord (jget detail ''verify'')) (readRecord (jget detail ''target''))) []
     in [(''mode'', JStr ''CONTROL_PLANE_TLS''), (''attemptedAt'', JNum now), (''actorId'', JStr actorId),
         (''status'', JStr (if sx_success r then ''CONFIRMED'' else if isDefinitiveTlsMismatch (sx_errorCode r) then ''MISMATCH'' else ''UNAVAILABLE''))]
        @ str_opt ''errorCode'' (sx_errorCode r) @ str_opt ''errorMessage'' (sx_errorMessage r)
        @ str_opt ''target'' (orElse (trimmed_string (jget verify ''target'')) (trimmed_string (jget verify ''address'')))
        @ str_opt ''expectedFingerprintSha256'' (orElse (trimmed_string (jget verification ''expectedFingerprintSha256''))
            (readExpectedCertificateFingerprint (es_inputSnapshot step)))
        @ str_opt ''remoteCertificateSha256'' (orElse (trimmed_string (jget verification ''remoteCertificateSha256''))
            (trimmed_string (jget verify ''remoteCertificateSha256'')))
        @ [(''detail'', JObj (rv_redact env detail))])"

definition unconfirmed_patch :: "runner_env \<Rightarrow> execution_step \<Rightarrow> jobject \<Rightarrow> string option \<Rightarrow> string option \<Rightarrow> jobject \<Rightarrow> string \<Rightarrow> instant \<Rightarrow> execution_step \<Rightarrow> execution_step" where
  "unconfirmed_patch env step detail code msg errorDetails actorId now s = s\<lparr>
     es_inputSnapshot := spread (es_inputSnapshot step) [(''resultDetail'', JObj (spread detail [(''executionStatus'', JStr ''UNKNOWN'')]))],
     es_lastErrorCode := code, es_lastErrorMessage := msg, es_lastErrorDetails := Some errorDetails, es_updatedAt := now, es_updatedBy := Some actorId\<rparr>"

definition confirmed_patch :: "execution_step \<Rightarrow> jobject \<Rightarrow> execution_step \<Rightarrow> execution_step" where
  "confirmed_patch step detail s = s\<lparr>es_inputSnapshot := spread (es_inputSnapshot step) [(''resultDetail'', JObj
       (AList.delete ''cancellationRace'' (AList.delete ''errorCode'' (AList.delete ''unknownReason'' (spread detail [(''executionStatus'', JStr ''SUCCESS'')])))))],
     es_lastErrorCode := None, es_lastErrorMessage := None, es_lastErrorDetails := None\<rparr>"

definition mismatch_patch :: "runner_env \<Rightarrow> execution_step \<Rightarrow> jobject \<Rightarrow> step_result \<Rightarrow> execution_step \<Rightarrow> execution_step" where
  "mismatch_patch env step detail r s = s\<lparr>es_inputSnapshot := spread (es_inputSnapshot step) [(''resultDetail'', JObj
       (spread detail [(''executionStatus'', JStr ''FAILED'')]))], es_lastFailureCategory := Some ''unsafe'',
     es_lastErrorCode := Some (getOrElse (sx_errorCode r) ''TLS_VERIFY_FAILED''),
     es_lastErrorMessage := Some (getOrElse (sx_errorMessage r) ''the certificate did not verify''),
     es_lastErrorDetails := Some (rv_redact env (getOrElse (sx_detail r) []))\<rparr>"

definition gate_detail :: "reload_gate \<Rightarrow> jobject" where
  "gate_detail gate = [(''mode'', JStr ''control_plane_tls_deferred_until_reload'')] @ str_opt ''reloadStepId'' (rg_reloadStepId gate)
     @ str_opt ''reloadStatus'' (rg_reloadStatus gate)"

definition deferred_record :: "reload_gate \<Rightarrow> string \<Rightarrow> instant \<Rightarrow> jobject" where
  "deferred_record gate actorId now = [(''mode'', JStr ''CONTROL_PLANE_TLS''), (''attemptedAt'', JNum now), (''actorId'', JStr actorId), (''status'', JStr ''UNAVAILABLE'')]
     @ str_opt ''errorCode'' (rg_errorCode gate) @ str_opt ''errorMessage'' (rg_errorMessage gate) @ [(''detail'', JObj (gate_detail gate))]"

text \<open>One candidate; the result is the recovery record. An instant inside a record is its number of milliseconds.\<close>

definition recover_step :: "runner_env \<Rightarrow> execution_run \<Rightarrow> execution_step list \<Rightarrow> string \<Rightarrow> string \<Rightarrow> execution_step \<Rightarrow> jobject exec" where
  "recover_step env run steps actorId tenantId step d =
    (let attemptedAt = xd_now d in
     andThen (ensureReloadBeforeUnknownVerification env step steps run actorId tenantId d) (\<lambda>gate d.
    (let previousDetail = getOrElse (readRecord (jget (es_inputSnapshot step) ''resultDetail'')) [] in
     if \<not> rg_ready gate then
       (let recovery = deferred_record gate actorId attemptedAt
        in andThen (updateStep (es_id step) (unconfirmed_patch env step (with_recovery previousDetail [] recovery) (rg_errorCode gate) (rg_errorMessage gate)
             (gate_detail gate) actorId (xd_now d)) d) (\<lambda>_ d. (Inr recovery, d)))
     else
       (let r = verify_result_of (rv_verify env (verification_step step) (xr_type run)); detail = getOrElse (sx_detail r) [];
            recovery = recovery_record env step r actorId attemptedAt; nextDetail = with_recovery previousDetail detail recovery
        in if sx_success r then
             andThen (transitionStepEntity step ''SUCCESS'' actorId ''step.recovery.confirmed'' (confirmed_patch step nextDetail) d) (\<lambda>_ d. (Inr recovery, d))
           else if isDefinitiveTlsMismatch (sx_errorCode r) then
             andThen (transitionStepEntity step ''FAILED'' actorId ''step.recovery.mismatch'' (mismatch_patch env step nextDetail r) d) (\<lambda>_ d. (Inr recovery, d))
           else
             andThen (updateStep (es_id step) (unconfirmed_patch env step nextDetail (Some (getOrElse (sx_errorCode r) ''EXECUTION_RESULT_UNCONFIRMED''))
               (Some (getOrElse (sx_errorMessage r) ''the certificate cannot be verified now'')) (rv_redact env detail) actorId (xd_now d)) d) (\<lambda>_ d.
             (Inr recovery, d))))))"

fun recover_steps :: "runner_env \<Rightarrow> execution_run \<Rightarrow> execution_step list \<Rightarrow> string \<Rightarrow> string \<Rightarrow> execution_step list \<Rightarrow> jobject list exec" where
  "recover_steps env run steps actorId tenantId [] d = (Inr [], d)"
| "recover_steps env run steps actorId tenantId (c # cs) d =
    andThen (recover_step env run steps actorId tenantId c d) (\<lambda>recovery d.
    andThen (recover_steps env run steps actorId tenantId cs d) (\<lambda>rs d. (Inr (((''stepId'', JStr (es_id c)) # recovery) # rs), d)))"

text \<open>\<open>recoveries.find((item) => item.status === 'UNAVAILABLE')?.key ?? dflt\<close>\<close>

definition first_unavailable :: "jobject list \<Rightarrow> string \<Rightarrow> string \<Rightarrow> string" where
  "first_unavailable recoveries key dflt = (case find (\<lambda>r. jget r ''status'' = Some (JStr ''UNAVAILABLE'')) recoveries of
     None \<Rightarrow> dflt | Some r \<Rightarrow> (case jget r key of Some (JStr m) \<Rightarrow> m | _ \<Rightarrow> dflt))"

definition unknown_candidate :: "string option \<Rightarrow> execution_step \<Rightarrow> bool" where
  "unknown_candidate stepId s \<longleftrightarrow> es_status s = ''RUNNING'' \<and> hasUnknownExecutionResult s \<and> (truthy stepId \<longrightarrow> Some (es_id s) = stepId)"

definition isTerminalRunStatus :: "string \<Rightarrow> bool" where
  "isTerminalRunStatus status \<longleftrightarrow> status \<in> set [''SUCCESS'', ''FAILED'', ''TIMEOUT'', ''ROLLBACK_SUCCESS'', ''ROLLBACK_FAILED'']"

definition recovered_summary :: "jobject \<Rightarrow> jobject list \<Rightarrow> bool \<Rightarrow> instant \<Rightarrow> jobject" where
  "recovered_summary summary recoveries remainingUnknown now =
    (let base = spread summary [(''recovery'', JObj [(''attemptedAt'', JNum now), (''recoveries'', JArr (map JObj recoveries))])] in
     if remainingUnknown
     then spread base [(''executionStatus'', JStr ''UNKNOWN''),
       (''unknownReason'', JStr (first_unavailable recoveries ''errorMessage'' ''the certificate write is still unconfirmed''))]
     else AList.delete ''unknownReason'' (AList.delete ''executionStatus'' base))"

text \<open>The calls the loop makes back into itself: run, actor and tenant.\<close>

type_synonym dispatcher = "string \<Rightarrow> string \<Rightarrow> string option \<Rightarrow> run_outcome exec"

definition resolve_task :: "runner_env \<Rightarrow> execution_run \<Rightarrow> string \<Rightarrow> unit result" where
  "resolve_task env run tenantId =
    (if isTerminalRunStatus (xr_status run) \<and> truthy (xr_externalRunId run) \<and> rv_resolveTask env \<noteq> None
     then the (rv_resolveTask env) tenantId (the (xr_externalRunId run)) (xr_status run = ''SUCCESS'') else Inr ())"

definition recoverUnknownResult :: "runner_env \<Rightarrow> dispatcher \<Rightarrow> string \<Rightarrow> string option \<Rightarrow> string \<Rightarrow> string \<Rightarrow> bool \<Rightarrow> run_outcome exec" where
  "recoverUnknownResult env dispatch runId stepId actorId tenantId automatic d =
    andThen (lift_result (getRunOrThrow runId (Some tenantId) d) d) (\<lambda>run d.
    if xr_status run \<noteq> ''RUNNING'' then (Inl (AppError ''DEPLOYMENT_INVALID_STATE''), d)
    else (let steps = listSteps (Some tenantId) (Some (xr_id run)) d; candidates = filter (unknown_candidate stepId) steps in
      if candidates = [] then (Inl (AppError ''DEPLOYMENT_INVALID_STATE''), d)
      else andThen (recover_steps env run steps actorId tenantId candidates d) (\<lambda>recoveries d.
        andThen (lift_result (getRunOrThrow (xr_id run) (Some tenantId) d) d) (\<lambda>refreshedRun d.
        (let remainingUnknown = (\<exists>s \<in> set (listSteps (Some tenantId) (Some (xr_id run)) d). unknown_candidate None s) in
         andThen (updateRun (xr_id run) (\<lambda>r. r\<lparr>xr_summary := recovered_summary (xr_summary refreshedRun) recoveries remainingUnknown (xd_now d),
             xr_updatedAt := xd_now d, xr_updatedBy := Some actorId\<rparr>) d) (\<lambda>_ d.
         if \<not> remainingUnknown then
           andThen (dispatch (xr_id run) actorId (Some tenantId) d) (\<lambda>continuation d.
           andThen (lift_result (getRunOrThrow (xr_id run) (Some tenantId) d) d) (\<lambda>refreshedRun d.
           andThen (lift_result (resolve_task env refreshedRun tenantId) d) (\<lambda>_ d. (Inr continuation, d))))
         else (Inr \<lparr>ro_success = False, ro_pending = True,
           ro_pendingState = Some (if automatic then ''WAITING_RESULT'' else ''AWAITING_CONFIRMATION''),
           ro_errorCode = Some (first_unavailable recoveries ''errorCode'' ''EXECUTION_RESULT_UNCONFIRMED''),
           ro_errorMessage = Some (first_unavailable recoveries ''errorMessage'' ''the certificate write is still unconfirmed'')\<rparr>, d)))))))"

definition pollPendingUnknownResults :: "runner_env \<Rightarrow> dispatcher \<Rightarrow> execution_run \<Rightarrow> execution_step list \<Rightarrow> string \<Rightarrow> string option \<Rightarrow> bool exec" where
  "pollPendingUnknownResults env dispatch run steps actorId tenantId d =
    (let candidates = filter (\<lambda>s. unknown_candidate None s \<and> hasAutomaticUnknownRecoverySource s) steps in
     if \<not> truthy tenantId \<or> candidates = [] then (Inr False, d)
     else andThen (recoverUnknownResult env dispatch (xr_id run) None actorId (the tenantId) True d) (\<lambda>_ d.
       (let refreshedSteps = listSteps tenantId (Some (xr_id run)) d in
        (Inr (\<exists>c \<in> set candidates. case find (\<lambda>s. es_id s = es_id c) refreshedSteps of None \<Rightarrow> False | Some s \<Rightarrow> es_status s \<noteq> ''RUNNING''), d))))"

section \<open>The loop\<close>

datatype run_action =
    AReturn run_outcome
  | AFail string string bool
  | APoll
  | ASucceed
  | ASpin
  | ABatch "execution_step list"

definition first_failed :: "execution_step list \<Rightarrow> execution_step option" where
  "first_failed steps = find failed_step steps"

definition fail_with :: "execution_step \<Rightarrow> string \<Rightarrow> string \<Rightarrow> run_action" where
  "fail_with s code msg = AFail (getOrElse (es_lastErrorCode s) code) (getOrElse (es_lastErrorMessage s) msg) (es_status s = ''TIMEOUT'')"

definition cancelled_outcome :: run_outcome where
  "cancelled_outcome = failed_outcome (Some ''RUN_CANCELLED'') (Some ''the run was cancelled'')"

definition next_action :: "execution_run \<Rightarrow> execution_step list \<Rightarrow> run_action result" where
  "next_action currentRun listed =
    (if xr_status currentRun = ''CANCELLED'' then Inr (AReturn cancelled_outcome)
     else if isTerminalRunStatus (xr_status currentRun)
     then Inr (AReturn \<lparr>ro_success = (xr_status currentRun = ''SUCCESS''), ro_pending = False, ro_pendingState = None,
       ro_errorCode = xr_errorCode currentRun, ro_errorMessage = xr_errorMessage currentRun\<rparr>)
     else (let steps = sort_steps listed; policy = readRunFailurePolicy (xr_summary currentRun) in
       case build steps of Inl e \<Rightarrow> Inl e | Inr graph \<Rightarrow>
       if first_failed steps \<noteq> None \<and> policy \<noteq> ''continue''
       then Inr (fail_with (the (first_failed steps)) ''STEP_FAILED'' ''a step failed'')
       else if sg_runnable graph = [] \<and> sg_running graph \<noteq> [] then Inr APoll
       else if sg_runnable graph = [] \<and> sg_running graph = [] then
         (if first_failed steps \<noteq> None
          then Inr (fail_with (the (first_failed steps)) ''STEP_FAILED_CONTINUED'' ''every step that could run has run, the run ends as failed'')
          else Inr ASucceed)
       else (case pickNext steps (getOrElse (xr_concurrencyLimit currentRun) 1) of Inl e \<Rightarrow> Inl e | Inr pick \<Rightarrow>
         if pk_selected pick \<noteq> [] then Inr (ABatch (pk_selected pick))
         else if sg_running graph = [] then Inr (AFail ''STEP_DEPENDENCY_BLOCKED'' ''every step is blocked'' False)
         else Inr ASpin)))"

text \<open>Every step of a batch runs; the first error is what the batch throws.\<close>

fun run_batch :: "runner_env \<Rightarrow> execution_run \<Rightarrow> string \<Rightarrow> string option \<Rightarrow> execution_step list \<Rightarrow> step_outcome list exec" where
  "run_batch env run actorId tenantId [] d = (Inr [], d)"
| "run_batch env run actorId tenantId (s # ss) d =
    (case executeSingleStep env (es_id s) run actorId tenantId d of (r, d) \<Rightarrow>
     case run_batch env run actorId tenantId ss d of (rs, d) \<Rightarrow>
       (case r of Inl e \<Rightarrow> (Inl e, d) | Inr x \<Rightarrow> (case rs of Inl e \<Rightarrow> (Inl e, d) | Inr xs \<Rightarrow> (Inr (x # xs), d))))"

definition pending_outcome :: "step_outcome list \<Rightarrow> run_outcome" where
  "pending_outcome batch = (case find (\<lambda>o1. so_pendingState o1 = Some ''AWAITING_CONFIRMATION'') batch of
     None \<Rightarrow> \<lparr>ro_success = True, ro_pending = True, ro_pendingState = Some ''WAITING_RESULT'', ro_errorCode = None, ro_errorMessage = None\<rparr>
   | Some u \<Rightarrow> \<lparr>ro_success = True, ro_pending = True, ro_pendingState = Some ''AWAITING_CONFIRMATION'',
       ro_errorCode = Some (getOrElse (so_errorCode u) ''EXECUTION_RESULT_UNCONFIRMED''),
       ro_errorMessage = Some (getOrElse (so_errorMessage u) ''the write cannot be confirmed, no replay'')\<rparr>)"

definition skip_target_of :: "string \<Rightarrow> string \<Rightarrow> string option \<Rightarrow> step_outcome \<Rightarrow> unit exec" where
  "skip_target_of runId actorId tenantId failure = skipPendingStepsForTarget runId (so_targetId failure) actorId tenantId ''failure_policy.continue''"

definition after_batch :: "runner_env \<Rightarrow> dispatcher \<Rightarrow> string \<Rightarrow> string \<Rightarrow> string \<Rightarrow> string option \<Rightarrow> step_outcome list \<Rightarrow> run_outcome exec" where
  "after_batch env next policy runId actorId tenantId batch d =
    (let failures = filter (\<lambda>o1. \<not> so_success o1) batch in
     if \<exists>o1 \<in> set batch. so_asyncPending o1 then (Inr (pending_outcome batch), d)
     else (case failures of
       [] \<Rightarrow> next runId actorId tenantId d
     | f # _ \<Rightarrow>
         if policy = ''continue'' then
           andThen (for_each (skip_target_of runId actorId tenantId) failures d) (\<lambda>_. next runId actorId tenantId)
         else andThen (lift_result (getRunOrThrow runId tenantId d) d) (\<lambda>refreshedRun.
           finishFailedRun env refreshedRun actorId tenantId policy (getOrElse (so_errorCode f) ''STEP_FAILED'') (getOrElse (so_errorMessage f) ''a step failed'') False)))"

definition entry_checks :: "dispatcher \<Rightarrow> dispatcher" where
  "entry_checks loop runId actorId tenantId d =
    andThen (lift_result (getRunOrThrow runId tenantId d) d) (\<lambda>run d.
    if xr_status run = ''CANCELLED'' then (Inr cancelled_outcome, d)
    else if isTerminalRunStatus (xr_status run) then
      (Inr (if xr_status run = ''SUCCESS'' \<or> xr_status run = ''ROLLBACK_SUCCESS''
        then \<lparr>ro_success = True, ro_pending = False, ro_pendingState = None, ro_errorCode = None, ro_errorMessage = None\<rparr>
        else failed_outcome (Some (getOrElse (xr_errorCode run) ''EXECUTION_FAILED'')) (Some (getOrElse (xr_errorMessage run) ''the run has ended''))), d)
    else if xr_status run \<notin> set [''DISPATCHED'', ''RUNNING''] then (Inl (AppError ''DEPLOYMENT_INVALID_STATE''), d)
    else if xr_status run = ''DISPATCHED'' then
      andThen (transitionRunEntity run ''RUNNING'' actorId ''runner.started'' None (\<lambda>r. r) d) (\<lambda>run. loop (xr_id run) actorId tenantId)
    else loop (xr_id run) actorId tenantId d)"

text \<open>The synchroniser continues a run by dispatching it again; its result is not read.\<close>

definition connected :: "runner_env \<Rightarrow> dispatcher \<Rightarrow> runner_env" where
  "connected env dispatch = env\<lparr>rv_sync := map_option (\<lambda>s. s\<lparr>
     sy_continuationRunner := Some (\<lambda>runId actorId tenantId d. andThen (dispatch runId actorId (Some tenantId) d) (\<lambda>_ d. (Inr (), d))),
     sy_rollbackRunner := Some (\<lambda>runId actorId tenantId. triggerAutomaticRollback env runId actorId (Some tenantId))\<rparr>) (rv_sync env)\<rparr>"

definition loop_body :: "runner_env \<Rightarrow> dispatcher \<Rightarrow> dispatcher" where
  "loop_body env0 next runId actorId tenantId d =
    (let env = connected env0 (entry_checks next) in
     andThen (lift_result (getRunOrThrow runId tenantId d) d) (\<lambda>currentRun d.
     (let listed = listSteps tenantId (Some runId) d; steps = sort_steps listed; policy = readRunFailurePolicy (xr_summary currentRun) in
      case next_action currentRun listed of
        Inl e \<Rightarrow> (Inl e, d)
      | Inr (AReturn out) \<Rightarrow> (Inr out, d)
      | Inr (AFail code msg timeout) \<Rightarrow> finishFailedRun env currentRun actorId tenantId policy code msg timeout d
      | Inr APoll \<Rightarrow>
          andThen (pollPendingAgentResults env currentRun steps actorId tenantId d) (\<lambda>advanced d.
          if advanced then next runId actorId tenantId d
          else andThen (pollPendingUnknownResults env (entry_checks next) currentRun steps actorId tenantId d) (\<lambda>advanced d.
            if advanced then next runId actorId tenantId d else (Inr (pendingResultForRunningSteps steps), d)))
      | Inr ASucceed \<Rightarrow>
          andThen (transitionRunEntity currentRun ''SUCCESS'' actorId ''runner.success'' None (\<lambda>r. r) d) (\<lambda>successRun d.
          andThen (syncDeploymentPlanAfterRun env successRun actorId tenantId d) (\<lambda>_ d.
          (Inr \<lparr>ro_success = True, ro_pending = False, ro_pendingState = None, ro_errorCode = None, ro_errorMessage = None\<rparr>, d)))
      | Inr ASpin \<Rightarrow> next runId actorId tenantId d
      | Inr (ABatch chosen) \<Rightarrow>
          andThen (run_batch env currentRun actorId tenantId chosen d) (after_batch env next policy runId actorId tenantId))))"

fun drive_run :: "nat \<Rightarrow> runner_env \<Rightarrow> dispatcher" where
  "drive_run 0 env runId actorId tenantId d = (Inl (PlainError ''fuel''), d)"
| "drive_run (Suc n) env runId actorId tenantId d = loop_body env (drive_run n env) runId actorId tenantId d"

definition runDispatchedExecution :: "nat \<Rightarrow> runner_env \<Rightarrow> dispatcher" where
  "runDispatchedExecution fuel env = entry_checks (drive_run fuel env)"

end
