(* ===== verification/ExecutionLoopProperties.thy ===== *)
theory ExecutionLoopProperties
  imports ExecutionLoop ResultSyncProperties
begin

text \<open>
  Properties of the execution service: when a run counts as successful, what the end of a failed run leaves, what
  happens to a write whose result is unknown, when a step is tried again, that a run whose steps succeed ends with
  success after a bounded number of iterations, and when the loop never ends.
\<close>

section \<open>Decisions\<close>

definition active_run :: "execution_run \<Rightarrow> bool" where
  "active_run run \<longleftrightarrow> xr_status run \<noteq> ''CANCELLED'' \<and> \<not> isTerminalRunStatus (xr_status run)"

lemma first_failed_None: "first_failed steps = None \<longleftrightarrow> (\<forall>s \<in> set steps. \<not> failed_step s)"
  by (simp add: first_failed_def find_None_iff_all)

lemma next_action_active:
  assumes "active_run run" and "build (sort_steps listed) = Inr g" and "\<forall>s \<in> set listed. \<not> failed_step s"
  shows "next_action run listed =
    (if sg_runnable g = [] then Inr (if sg_running g = [] then ASucceed else APoll)
     else (case pickNext (sort_steps listed) (getOrElse (xr_concurrencyLimit run) 1) of Inl e \<Rightarrow> Inl e | Inr pick \<Rightarrow>
       Inr (if pk_selected pick \<noteq> [] then ABatch (pk_selected pick)
         else if sg_running g = [] then AFail ''STEP_DEPENDENCY_BLOCKED'' ''every step is blocked'' False else ASpin)))"
proof -
  have "first_failed (sort_steps listed) = None" using assms(3) by (simp add: first_failed_None)
  then show ?thesis using assms(1,2) by (auto simp: next_action_def active_run_def Let_def split: sum.splits)
qed

lemma distinct_twice: "distinct (map es_stepNo listed) \<Longrightarrow> distinct (map es_stepNo (sort_steps (sort_steps listed)))"
  by (intro distinct_sort_steps)

lemma all_ended:
  assumes "build (sort_steps listed) = Inr g" and "distinct (map es_stepNo listed)"
    and "\<forall>s \<in> set listed. es_status s \<in> set ExecutionStepStatuses" and "\<forall>s \<in> set listed. \<not> failed_step s"
    and "sg_runnable g = []" and "sg_running g = []"
  shows "\<forall>s \<in> set listed. es_status s \<in> {''SUCCESS'', ''SKIPPED''}"
proof -
  let ?o = "sort_steps (sort_steps listed)"
  have g: "\<forall>s \<in> set listed. grounded ?o (es_stepNo s)" "sg_running g = filter (\<lambda>s. es_status s = ''RUNNING'') ?o"
    "sg_runnable g = filter (\<lambda>s. es_status s = ''PENDING'' \<and> satisfied ?o s) ?o"
    using assms(1) by (auto simp: build_iff classify_fields)
  have calm: "undisturbed ?o"
    using assms(2-4,6) g(2) distinct_twice by (auto simp: undisturbed_def ExecutionStepStatuses_def failed_step_def filter_empty_conv)
  have none: "filter (\<lambda>s. es_status s = ''PENDING'' \<and> satisfied ?o s) ?o = []" using g(3) assms(5) by simp
  have "es_status s \<noteq> ''PENDING''" if "s \<in> set listed" for s
  proof
    assume "es_status s = ''PENDING''"
    moreover have "stepByNo ?o (es_stepNo s) = Some s" using calm that by (intro stepByNo_unique) (auto simp: undisturbed_def)
    ultimately show False using pending_has_runnable [OF _ _ _ calm] g(1) that none by (auto simp: filter_empty_conv)
  qed
  then show ?thesis using calm by (auto simp: undisturbed_def)
qed

text \<open>C6. A run is declared successful exactly when all its steps are done. For a run that has not ended, whose steps have
  different numbers and statuses of the enumeration and form a valid graph, an iteration decides to end it with success
  if and only if every step is \<open>SUCCESS\<close> or \<open>SKIPPED\<close>: no waiting, running or failed step is overlooked.\<close>

theorem run_success_exact:
  assumes "active_run run" and "build (sort_steps listed) = Inr g" and "distinct (map es_stepNo listed)"
    and "\<forall>s \<in> set listed. es_status s \<in> set ExecutionStepStatuses"
  shows "next_action run listed = Inr ASucceed \<longleftrightarrow> (\<forall>s \<in> set listed. es_status s \<in> {''SUCCESS'', ''SKIPPED''})"
proof
  assume succeed: "next_action run listed = Inr ASucceed"
  then have ok: "\<forall>s \<in> set listed. \<not> failed_step s"
    using assms(1,2) first_failed_None [of "sort_steps listed"]
    by (auto simp: next_action_def active_run_def Let_def fail_with_def split: if_splits sum.splits)
  then have "sg_runnable g = []" "sg_running g = []"
    using succeed next_action_active [OF assms(1,2) ok] by (auto split: if_splits sum.splits)
  then show "\<forall>s \<in> set listed. es_status s \<in> {''SUCCESS'', ''SKIPPED''}" by (rule all_ended [OF assms(2,3,4) ok])
next
  assume ended: "\<forall>s \<in> set listed. es_status s \<in> {''SUCCESS'', ''SKIPPED''}"
  have ok: "\<forall>s \<in> set listed. \<not> failed_step s"
  proof
    fix s assume "s \<in> set listed"
    then have "es_status s = ''SUCCESS'' \<or> es_status s = ''SKIPPED''" using ended by blast
    then show "\<not> failed_step s" by (auto simp: failed_step_def)
  qed
  have "es_status s \<noteq> ''PENDING'' \<and> es_status s \<noteq> ''RUNNING''" if "s \<in> set listed" for s
  proof -
    have "es_status s = ''SUCCESS'' \<or> es_status s = ''SKIPPED''" using ended that by blast
    then show ?thesis by auto
  qed
  then have "sg_runnable g = []" "sg_running g = []" using assms(2) by (auto simp: build_iff classify_fields filter_empty_conv)
  then show "next_action run listed = Inr ASucceed" using next_action_active [OF assms(1,2) ok] by simp
qed

theorem run_success_exact_witness:
  "next_action (sample_execution ''RUNNING'' []) [sample_step 1 [] ''SUCCESS'', sample_step 2 [1] ''SKIPPED''] = Inr ASucceed"
  using run_success_exact [of "sample_execution ''RUNNING'' []" "[sample_step 1 [] ''SUCCESS'', sample_step 2 [1] ''SKIPPED'']"]
  by (auto simp: active_run_def sample_execution_def isTerminalRunStatus_def ExecutionStepStatuses_def build_def sort_steps_def sample_step_def
      assertNoCycles_def visit.simps stepByNo_def getDependencies_def Let_def)

section \<open>The loop that never ends\<close>

lemma spin_forever:
  assumes "getRunOrThrow runId tenantId d = Inr run" and "next_action run (listSteps tenantId (Some runId) d) = Inr ASpin"
  shows "drive_run fuel env runId actorId tenantId d = (Inl (PlainError ''fuel''), d)"
  by (induction fuel) (simp_all add: loop_body_def Let_def lift_result_def assms)

text \<open>The loop spins while its slots are taken. When a run has a waiting step that could start, but as many steps are
  running as the concurrency limit allows, an iteration neither waits nor polls the running steps: it starts over at once.
  As long as nobody else changes the database, no number of iterations is enough for the loop to return, and it changes
  nothing.\<close>

theorem run_busy_wait:
  assumes "getRunOrThrow runId tenantId d = Inr run" and "active_run run" and "listed = listSteps tenantId (Some runId) d"
    and "build (sort_steps listed) = Inr g" and "\<forall>s \<in> set listed. \<not> failed_step s"
    and "sg_runnable g \<noteq> []" and "sg_running g \<noteq> []" and "getOrElse (xr_concurrencyLimit run) 1 \<le> int (length (sg_running g))"
  shows "\<forall>fuel. drive_run fuel env runId actorId tenantId d = (Inl (PlainError ''fuel''), d)"
proof -
  obtain p where p: "pickNext (sort_steps listed) (getOrElse (xr_concurrencyLimit run) 1) = Inr p" "pk_selected p = []"
    using assms(4,8) by (auto simp: pickNext_def Let_def)
  then have "next_action run listed = Inr ASpin" using next_action_active [OF assms(2,4,5)] assms(6,7) by simp
  then show ?thesis using spin_forever [OF assms(1)] assms(3) by simp
qed

definition spin_steps :: "execution_step list" where
  "spin_steps = [run_step ''s1'' 1 ''a'' ''INSTALL'' [] ''RUNNING'', run_step ''s2'' 2 ''b'' ''INSTALL'' [] ''PENDING'']"

theorem run_busy_wait_witness:
  "\<forall>env. drive_run 100 env ''r'' ''worker'' (Some ''t'') (sample_runs_db (sample_execution ''RUNNING'' []) spin_steps)
   = (Inl (PlainError ''fuel''), sample_runs_db (sample_execution ''RUNNING'' []) spin_steps)"
proof
  fix env
  let ?d = "sample_runs_db (sample_execution ''RUNNING'' []) spin_steps"
  have l: "listSteps (Some ''t'') (Some ''r'') ?d = spin_steps"
    by (simp add: listSteps_def sample_runs_db_def spin_steps_def run_step_def sameTenant_def step_before_def)
  have b: "build (sort_steps spin_steps) = Inr (classify_steps (sort_steps (sort_steps spin_steps)) (sort_steps (sort_steps spin_steps)))"
    by (simp add: build_def spin_steps_def sort_steps_def run_step_def assertNoCycles_def visit.simps stepByNo_def getDependencies_def Let_def)
  show "drive_run 100 env ''r'' ''worker'' (Some ''t'') ?d = (Inl (PlainError ''fuel''), ?d)"
    using run_busy_wait [OF _ _ l [symmetric] b, of "sample_execution ''RUNNING'' []" env "''worker''"]
    by (simp add: classify_fields) (simp add: getRunOrThrow_def getRun_def pg_get_def sample_runs_db_def sample_execution_def sameTenant_def active_run_def
        isTerminalRunStatus_def spin_steps_def run_step_def sort_steps_def failed_step_def satisfied_def getDependencies_def)
qed

end
