(* ===== verification/WorkflowValues.thy ===== *)
theory WorkflowValues
  imports RecoveryLedger
begin

text \<open>
  Values of a workflow run: the functions on JSON values, paths, templates and masking of
  \<open>backend/src/modules/workflow-templates/domain/workflow-templates.domain-service.ts\<close>.

  A value that may be undefined is an option. \<open>wf_env\<close> holds what the platform provides: SHA-256, regular expressions
  given by a user, the JSONata evaluator, identity of two objects (\<open>Object.is\<close>), and buffers, which are values with a
  length in bytes. The regular expressions of the source itself are written out as functions.
\<close>

section \<open>The platform\<close>

record wf_env =
  we_sha :: "string \<Rightarrow> string"
  we_test :: "string \<Rightarrow> string \<Rightarrow> bool result"
  we_group :: "string \<Rightarrow> string \<Rightarrow> string option result"
  we_jsonata :: "string \<Rightarrow> jobject \<Rightarrow> int \<Rightarrow> json option result"
  we_same :: "json \<Rightarrow> json \<Rightarrow> bool"
  we_decode :: "string \<Rightarrow> json"
  we_bytes :: "json \<Rightarrow> nat option"

fun json_stringify :: "json \<Rightarrow> string" where
  "json_stringify JNull = ''null''"
| "json_stringify (JBool b) = (if b then ''true'' else ''false'')"
| "json_stringify (JNum i) = int_to_string i"
| "json_stringify (JStr s) = json_quote s"
| "json_stringify (JArr xs) = ''['' @ join '','' (map json_stringify xs) @ '']''"
| "json_stringify (JObj kvs) = ''{'' @ join '','' (map (\<lambda>(k, v). json_quote k @ '':'' @ json_stringify v) kvs) @ ''}''"

definition utf8_length :: "string \<Rightarrow> nat" where
  "utf8_length s = sum_list (map (\<lambda>c. if (of_char c :: nat) < 128 then 1 else 2) s)"

fun compound :: "json \<Rightarrow> bool" where
  "compound (JArr xs) = True"
| "compound (JObj kvs) = True"
| "compound v = False"

definition objectIs :: "wf_env \<Rightarrow> json option \<Rightarrow> json option \<Rightarrow> bool" where
  "objectIs env a b = (case (a, b) of
     (None, None) \<Rightarrow> True
   | (Some x, Some y) \<Rightarrow> if compound x \<and> compound y then we_same env x y else x = y
   | _ \<Rightarrow> False)"

definition opt_member :: "string \<Rightarrow> json option \<Rightarrow> jobject" where
  "opt_member k v = (case v of None \<Rightarrow> [] | Some x \<Rightarrow> [(k, x)])"

section \<open>Paths\<close>

definition is_digit :: "char \<Rightarrow> bool" where
  "is_digit c \<longleftrightarrow> 48 \<le> (of_char c :: nat) \<and> (of_char c :: nat) \<le> 57"

definition is_letter :: "char \<Rightarrow> bool" where
  "is_letter c \<longleftrightarrow> 65 \<le> (of_char c :: nat) \<and> (of_char c :: nat) \<le> 90 \<or> 97 \<le> (of_char c :: nat) \<and> (of_char c :: nat) \<le> 122"

definition nat_of_digits :: "string \<Rightarrow> nat" where
  "nat_of_digits s = fold (\<lambda>c n. 10 * n + ((of_char c :: nat) - 48)) s 0"

text \<open>\<open>path.replace(/\[(\d+)\]/g, '.$1')\<close>: the digits and the rest after an index in brackets at the start.\<close>

definition index_at :: "string \<Rightarrow> (string \<times> string) option" where
  "index_at s = (let digits = takeWhile is_digit (drop 1 s); rest = drop (Suc (length digits)) s
     in if startsWith s ''['' \<and> digits \<noteq> [] \<and> startsWith rest '']'' then Some (digits, drop 1 rest) else None)"

function bracket_dots :: "string \<Rightarrow> string" where
  "bracket_dots s = (case s of [] \<Rightarrow> [] | c # cs \<Rightarrow> (case index_at s of
     None \<Rightarrow> c # bracket_dots cs
   | Some (digits, rest) \<Rightarrow> ''.'' @ digits @ bracket_dots rest))"
  by pat_completeness auto
termination
  by (relation "measure length") (auto simp: index_at_def Let_def split: if_splits)

definition path_key :: "json option \<Rightarrow> string \<Rightarrow> json option" where
  "path_key cur key = (case cur of
     Some (JArr xs) \<Rightarrow> if list_all is_digit key \<and> nat_of_digits key < length xs then Some (xs ! nat_of_digits key) else None
   | Some (JObj m) \<Rightarrow> jget m key
   | _ \<Rightarrow> None)"

definition wf_readPath :: "json option \<Rightarrow> string \<Rightarrow> json option" where
  "wf_readPath source path = foldl path_key source (filter (\<lambda>p. p \<noteq> []) (split_on (CHR ''.'') (bracket_dots path)))"

definition readJsonPath :: "json option \<Rightarrow> string \<Rightarrow> json option" where
  "readJsonPath body path = (if \<not> startsWith path ''$.'' then None else wf_readPath body (drop 2 path))"

definition isDeferredPreviewReference :: "string \<Rightarrow> bool" where
  "isDeferredPreviewReference path \<longleftrightarrow> path = ''steps'' \<or> startsWith path ''steps.''"

definition step_name_char :: "char \<Rightarrow> bool" where
  "step_name_char c \<longleftrightarrow> is_letter c \<or> is_digit c \<or> c = CHR ''_'' \<or> c = CHR ''-''"

definition ends_or_dot :: "string \<Rightarrow> bool" where
  "ends_or_dot s \<longleftrightarrow> s = [] \<or> startsWith s ''.''"

text \<open>\<open>/^steps\.([A-Za-z][A-Za-z0-9_-]*)\.(?:output|extracted)(?:\.|$)/\<close>: the name of the step.\<close>

definition deferred_step :: "string \<Rightarrow> string option" where
  "deferred_step path = (let r = drop 6 path; name = takeWhile step_name_char r; rest = drop (length name) r
     in if startsWith path ''steps.'' \<and> name \<noteq> [] \<and> is_letter (hd name)
          \<and> (startsWith rest ''.output'' \<and> ends_or_dot (drop 7 rest) \<or> startsWith rest ''.extracted'' \<and> ends_or_dot (drop 10 rest))
        then Some name else None)"

definition isDeferredRuntimePath :: "string \<Rightarrow> jobject \<Rightarrow> bool" where
  "isDeferredRuntimePath path values = (case deferred_step path of
     None \<Rightarrow> False | Some name \<Rightarrow> wf_readPath (Some (JObj values)) (''steps.'' @ name) \<noteq> None)"

section \<open>Templates\<close>

definition ref_char :: "char \<Rightarrow> bool" where
  "ref_char c \<longleftrightarrow> is_letter c \<or> is_digit c \<or> c = CHR ''_'' \<or> c = CHR ''.''"

definition ref_key :: "string \<Rightarrow> bool" where
  "ref_key k \<longleftrightarrow> k \<noteq> [] \<and> is_letter (hd k) \<and> list_all ref_char k"

text \<open>\<open>/\{\{\s*([a-zA-Z][a-zA-Z0-9_.]*)\s*\}\}/\<close> at the start: the key and the rest.\<close>

definition ref_at :: "string \<Rightarrow> (string \<times> string) option" where
  "ref_at s = (let r = dropWhile is_ws (drop 2 s); key = takeWhile ref_char r; rest = dropWhile is_ws (drop (length key) r)
     in if startsWith s ''{{'' \<and> ref_key key \<and> startsWith rest ''}}'' then Some (key, drop 2 rest) else None)"

text \<open>The same expression between \<open>^\s*\<close> and \<open>\s*$\<close>.\<close>

definition whole_ref :: "string \<Rightarrow> string option" where
  "whole_ref s = (case ref_at (dropWhile is_ws s) of
     None \<Rightarrow> None | Some (key, rest) \<Rightarrow> if list_all is_ws rest then Some key else None)"

lemma ref_at_shorter:
  assumes "ref_at s = Some (k, rest)"
  shows "length rest < length s"
proof -
  let ?r = "dropWhile is_ws (drop 2 s)" and ?q = "dropWhile is_ws (drop (length k) (dropWhile is_ws (drop 2 s)))"
  have s: "startsWith s ''{{''" "rest = drop 2 ?q" using assms by (auto simp: ref_at_def Let_def split: if_splits)
  have "length ?q \<le> length s - 2"
    using length_dropWhile_le [of is_ws "drop (length k) ?r"] length_dropWhile_le [of is_ws "drop 2 s"] by simp
  moreover have "2 \<le> length s" using s(1) by (auto simp: startsWith_iff)
  ultimately show ?thesis using s(2) by simp
qed

function render_scan :: "(string \<Rightarrow> string result) \<Rightarrow> string \<Rightarrow> string result" where
  "render_scan f s = (case s of [] \<Rightarrow> Inr [] | c # cs \<Rightarrow> (case ref_at s of
     None \<Rightarrow> map_sum id (Cons c) (render_scan f cs)
   | Some (key, rest) \<Rightarrow> (case f key of Inl e \<Rightarrow> Inl e | Inr v \<Rightarrow> map_sum id (append v) (render_scan f rest))))"
  by pat_completeness auto
termination
  by (relation "measure (length \<circ> snd)") (auto dest: ref_at_shorter)

definition missing_variable :: error where
  "missing_variable = AppError ''VALIDATION_FAILED''"

definition render_ref :: "jobject \<Rightarrow> bool \<Rightarrow> string \<Rightarrow> string result" where
  "render_ref variables keepMissing key = (case wf_readPath (Some (JObj variables)) key of
     None \<Rightarrow> if keepMissing \<and> isDeferredPreviewReference key then Inr (''{{'' @ key @ ''}}'') else Inl missing_variable
   | Some v \<Rightarrow> Inr (if compound v then json_stringify v else js_string v))"

definition renderString :: "string \<Rightarrow> jobject \<Rightarrow> bool \<Rightarrow> string result" where
  "renderString template variables keepMissing = render_scan (render_ref variables keepMissing) template"

definition render_text :: "jobject \<Rightarrow> bool \<Rightarrow> string \<Rightarrow> json result" where
  "render_text variables keepMissing s = (case whole_ref s of
     Some key \<Rightarrow> (case wf_readPath (Some (JObj variables)) key of
         None \<Rightarrow> if keepMissing \<and> isDeferredPreviewReference key then Inr (JStr s) else Inl missing_variable
       | Some v \<Rightarrow> Inr v)
   | None \<Rightarrow> map_sum id JStr (renderString s variables keepMissing))"

fun cons_result :: "'a result \<Rightarrow> 'a list result \<Rightarrow> 'a list result" where
  "cons_result (Inl e) xs = Inl e"
| "cons_result (Inr x) (Inl e) = Inl e"
| "cons_result (Inr x) (Inr xs) = Inr (x # xs)"

fun renderUnknown :: "jobject \<Rightarrow> bool \<Rightarrow> json \<Rightarrow> json result"
  and render_items :: "jobject \<Rightarrow> bool \<Rightarrow> json list \<Rightarrow> json list result"
  and render_members :: "jobject \<Rightarrow> bool \<Rightarrow> jobject \<Rightarrow> jobject result" where
  "renderUnknown variables keep (JStr s) = render_text variables keep s"
| "renderUnknown variables keep (JArr xs) = map_sum id JArr (render_items variables keep xs)"
| "renderUnknown variables keep (JObj kvs) = map_sum id JObj (render_members variables keep kvs)"
| "renderUnknown variables keep v = Inr v"
| "render_items variables keep [] = Inr []"
| "render_items variables keep (x # xs) = cons_result (renderUnknown variables keep x) (render_items variables keep xs)"
| "render_members variables keep [] = Inr []"
| "render_members variables keep ((k, v) # kvs) =
     cons_result (map_sum id (Pair k) (renderUnknown variables keep v)) (render_members variables keep kvs)"

definition render_opt :: "jobject \<Rightarrow> bool \<Rightarrow> json option \<Rightarrow> json option result" where
  "render_opt variables keep v = (case v of None \<Rightarrow> Inr None | Some x \<Rightarrow> map_sum id Some (renderUnknown variables keep x))"

text \<open>The input of a transform step never keeps a missing reference.\<close>

definition renderTransformInput :: "json \<Rightarrow> jobject \<Rightarrow> json result" where
  "renderTransformInput value variables = renderUnknown variables False value"

section \<open>Conditions\<close>

record wf_condition =
  cd_variable :: string
  cd_equals :: "json option"
  cd_notEquals :: "json option"
  cd_exists :: "bool option"

definition deferred_expected :: "jobject \<Rightarrow> json option \<Rightarrow> bool" where
  "deferred_expected values expected = (case expected of
     Some (JStr s) \<Rightarrow> (case whole_ref s of None \<Rightarrow> False
       | Some key \<Rightarrow> wf_readPath (Some (JObj values)) key = None \<and> isDeferredPreviewReference key)
   | _ \<Rightarrow> False)"

definition hasDeferredConditionReference :: "wf_condition \<Rightarrow> jobject \<Rightarrow> bool" where
  "hasDeferredConditionReference condition values \<longleftrightarrow>
     wf_readPath (Some (JObj values)) (cd_variable condition) = None \<and> isDeferredPreviewReference (cd_variable condition)
     \<or> deferred_expected values (cd_equals condition) \<or> deferred_expected values (cd_notEquals condition)"

definition evaluateCondition :: "wf_env \<Rightarrow> wf_condition option \<Rightarrow> jobject \<Rightarrow> string \<Rightarrow> bool result" where
  "evaluateCondition env condition values mode = (case condition of None \<Rightarrow> Inr True | Some c \<Rightarrow>
     (let value = wf_readPath (Some (JObj values)) (cd_variable c); keep = (mode = ''render_only'') in
      if cd_exists c \<noteq> None then Inr ((value \<noteq> None) = the (cd_exists c))
      else if keep \<and> hasDeferredConditionReference c values then Inr True
      else if cd_equals c \<noteq> None then
        map_sum id (\<lambda>x. objectIs env value (Some x)) (renderUnknown values keep (the (cd_equals c)))
      else if cd_notEquals c \<noteq> None then
        map_sum id (\<lambda>x. \<not> objectIs env value (Some x)) (renderUnknown values keep (the (cd_notEquals c)))
      else Inr True))"

section \<open>Masking\<close>

text \<open>\<open>text.split(value).join(by)\<close> for a non-empty value.\<close>

function replace_all :: "string \<Rightarrow> string \<Rightarrow> string \<Rightarrow> string" where
  "replace_all value by s = (case s of [] \<Rightarrow> [] | c # cs \<Rightarrow>
     if value \<noteq> [] \<and> startsWith s value then by @ replace_all value by (drop (length value) s) else c # replace_all value by cs)"
  by pat_completeness auto
termination
  by (relation "measure (\<lambda>(v, b, s). length s)") auto

definition upper_or_space :: "char \<Rightarrow> bool" where
  "upper_or_space c \<longleftrightarrow> c = CHR '' '' \<or> 65 \<le> (of_char c :: nat) \<and> (of_char c :: nat) \<le> 90"

text \<open>\<open>-----BEGIN [A-Z ]*PRIVATE KEY-----\<close> or the same with \<open>END\<close> at the start: the rest.\<close>

definition pem_line :: "string \<Rightarrow> string \<Rightarrow> string option" where
  "pem_line kind s = (let r = drop (6 + length kind) s; run = takeWhile upper_or_space r; rest = drop (length run) r
     in if startsWith s (''-----'' @ kind @ '' '') \<and> endsWith run ''PRIVATE KEY'' \<and> startsWith rest ''-----'' then Some (drop 5 rest) else None)"

fun after_pem_end :: "string \<Rightarrow> string option" where
  "after_pem_end [] = None"
| "after_pem_end (c # cs) = (case pem_line ''END'' (c # cs) of Some rest \<Rightarrow> Some rest | None \<Rightarrow> after_pem_end cs)"

text \<open>A private key block at the start, up to the first end line after its header.\<close>

definition pem_block :: "string \<Rightarrow> string option" where
  "pem_block s = Option.bind (pem_line ''BEGIN'' s) after_pem_end"

definition secret_ref_char :: "char \<Rightarrow> bool" where
  "secret_ref_char c \<longleftrightarrow> is_letter c \<or> is_digit c \<or> c \<in> set ''/_#.-''"

definition secret_ref_at :: "string \<Rightarrow> string option" where
  "secret_ref_at s = (let run = takeWhile secret_ref_char (drop 9 s)
     in if startsWith s ''secret://'' \<and> run \<noteq> [] then Some (drop (9 + length run) s) else None)"

lemma pem_line_shorter:
  assumes "pem_line kind s = Some rest"
  shows "length rest < length s"
proof -
  have "length (''-----'' @ kind @ '' '') \<le> length s"
    using assms by (auto simp: pem_line_def Let_def startsWith_iff split: if_splits)
  then show ?thesis using assms by (auto simp: pem_line_def Let_def split: if_splits)
qed

lemma after_pem_end_shorter: "after_pem_end s = Some rest \<Longrightarrow> length rest < length s"
  by (induction s) (auto split: option.splits dest: pem_line_shorter)

lemma pem_block_shorter: "pem_block s = Some rest \<Longrightarrow> length rest < length s"
  by (auto simp: pem_block_def bind_eq_Some_conv dest!: pem_line_shorter after_pem_end_shorter)

lemma secret_ref_at_shorter: "secret_ref_at s = Some rest \<Longrightarrow> length rest < length s"
  by (auto simp: secret_ref_at_def Let_def startsWith_iff split: if_splits)

text \<open>\<open>text.replace(regexp, by)\<close> for a recogniser of a match at the start.\<close>

function replace_matches :: "(string \<Rightarrow> string option) \<Rightarrow> string \<Rightarrow> string \<Rightarrow> string" where
  "replace_matches match by s = (case s of [] \<Rightarrow> [] | c # cs \<Rightarrow> (case match s of
     None \<Rightarrow> c # replace_matches match by cs
   | Some rest \<Rightarrow> by @ (if length rest < length s then replace_matches match by rest else rest)))"
  by pat_completeness auto
termination
  by (relation "measure (\<lambda>(m, b, s). length s)") auto

definition mask_value :: "jobject \<Rightarrow> string \<Rightarrow> string \<Rightarrow> string" where
  "mask_value values path text = (case wf_readPath (Some (JObj values)) path of
     Some (JStr v) \<Rightarrow> if v = [] then text else replace_all v ''[REDACTED]'' text
   | _ \<Rightarrow> text)"

definition maskText :: "string \<Rightarrow> string list \<Rightarrow> jobject \<Rightarrow> string" where
  "maskText text secretPaths values =
     replace_matches secret_ref_at ''[SECRET_REF]'' (replace_matches pem_block ''[REDACTED_PRIVATE_KEY]''
       (fold (mask_value values) secretPaths text))"

definition isSensitiveKey :: "string \<Rightarrow> bool" where
  "isSensitiveKey key \<longleftrightarrow> toLowerCase key = ''content'' \<or> (\<exists>w \<in> set [''password'', ''token'', ''privatekey'', ''authorization'',
     ''credential'', ''secret'', ''pfx'', ''jks'']. str_includes (toLowerCase key) w)"

definition isStandardHealthResultKey :: "string \<Rightarrow> bool" where
  "isStandardHealthResultKey key \<longleftrightarrow> key = ''credentialHealth'' \<or> key = ''healthResult''"

definition binary_note :: "nat \<Rightarrow> json" where
  "binary_note n = JStr (''[BINARY '' @ int_to_string (int n) @ '' bytes]'')"

fun maskUnknown :: "wf_env \<Rightarrow> string list \<Rightarrow> jobject \<Rightarrow> json \<Rightarrow> json" where
  "maskUnknown env paths values (JStr s) = (case we_bytes env (JStr s) of Some n \<Rightarrow> binary_note n | None \<Rightarrow> JStr (maskText s paths values))"
| "maskUnknown env paths values (JArr xs) = (case we_bytes env (JArr xs) of Some n \<Rightarrow> binary_note n | None \<Rightarrow> JArr (map (maskUnknown env paths values) xs))"
| "maskUnknown env paths values (JObj kvs) = (case we_bytes env (JObj kvs) of Some n \<Rightarrow> binary_note n
     | None \<Rightarrow> JObj (map (\<lambda>(k, v). (k, if isSensitiveKey k \<and> \<not> isStandardHealthResultKey k then JStr ''[REDACTED]'' else maskUnknown env paths values v)) kvs))"
| "maskUnknown env paths values v = (case we_bytes env v of Some n \<Rightarrow> binary_note n | None \<Rightarrow> v)"

definition add_path :: "string \<Rightarrow> string list \<Rightarrow> string list" where
  "add_path p paths = (if p \<in> set paths then paths else paths @ [p])"

fun collectValuePaths :: "string \<Rightarrow> json \<Rightarrow> string list \<Rightarrow> string list" where
  "collectValuePaths path (JObj kvs) paths =
     fold (\<lambda>(k, v). collectValuePaths (path @ ''.'' @ k) v) kvs (add_path path paths)"
| "collectValuePaths path v paths = add_path path paths"

section \<open>Checkpoint values\<close>

definition isSecretCapturePath :: "string \<Rightarrow> string list \<Rightarrow> bool" where
  "isSecretCapturePath path secretPaths \<longleftrightarrow>
     (\<exists>p \<in> set secretPaths. path = p \<or> startsWith path (p @ ''.'') \<or> startsWith p (path @ ''.''))"

fun assertCheckpointValueSafe :: "wf_env \<Rightarrow> json \<Rightarrow> bool" where
  "assertCheckpointValueSafe env (JStr s) = (we_bytes env (JStr s) = None \<and> \<not> secret_text s)"
| "assertCheckpointValueSafe env (JArr xs) = (we_bytes env (JArr xs) = None \<and> list_all (assertCheckpointValueSafe env) xs)"
| "assertCheckpointValueSafe env (JObj kvs) = (we_bytes env (JObj kvs) = None
     \<and> list_all (\<lambda>(k, v). \<not> isSensitiveKey k \<and> assertCheckpointValueSafe env v) kvs)"
| "assertCheckpointValueSafe env v = (we_bytes env v = None)"

definition workflow_digest :: "wf_env \<Rightarrow> json \<Rightarrow> string" where
  "workflow_digest env v = we_sha env (stableStringify v)"

end
