(* ===== verification/WorkflowSteps.thy ===== *)
theory WorkflowSteps
  imports WorkflowValues
begin

text \<open>
  Steps of a workflow and what is read from their output: the types of
  \<open>backend/src/modules/workflow-templates/dto/workflow-templates.dto.ts\<close>, and extractors, assertions, transforms, the default
  output of a trial run and the order of steps in \<open>domain/workflow-templates.domain-service.ts\<close>.
\<close>

section \<open>Types\<close>

record wf_extractor =
  wx_name :: string
  wx_type :: string
  wx_path :: "string option"
  wx_paths :: "string list option"
  wx_header :: "string option"
  wx_pattern :: "string option"
  wx_value :: "json option"
  wx_optional :: bool
  wx_sensitive :: bool

datatype wf_extract = ExtractList "wf_extractor list" | ExtractMap "(string \<times> wf_extractor) list"

datatype wf_assertion =
    StatusCodeIs int
  | JsonPathIs string json
  | HeaderIs string "bool option" "string option"
  | BodyContains string
  | MatchesRegex string
  | FingerprintIs string string

record wf_retry =
  rt_count :: "int option"
  rt_intervalSeconds :: "int option"
  rt_retryOnStatus :: "int list option"
  rt_retryOnNetworkError :: "bool option"

datatype http_auth =
    AuthNone
  | AuthBasic string json
  | AuthBearer json
  | AuthApiKey json "string option" string
  | AuthOther jobject

record http_request =
  hq_method :: string
  hq_url :: string
  hq_connectionRef :: string
  hq_cookieSessionRef :: "string option"
  hq_query :: "json option"
  hq_headers :: "jobject option"
  hq_headerRefs :: "jobject option"
  hq_bodyType :: "string option"
  hq_body :: "json option"
  hq_form :: "json option"
  hq_formCredentialRefs :: "jobject option"
  hq_multipart :: "json option"
  hq_auth :: "http_auth option"
  hq_tls :: "jobject option"
  hq_timeoutSeconds :: "int option"
  hq_maxResponseBytes :: "int option"
  hq_successStatusCodes :: "int list option"
  hq_failOnNon2xx :: "bool option"

record ssh_config =
  sc_connectionRef :: string
  sc_program :: string
  sc_args :: "string list"
  sc_argumentTemplate :: string
  sc_timeoutSeconds :: "int option"

record transfer_config =
  tf_direction :: string
  tf_connectionRef :: string
  tf_remotePath :: string
  tf_contentRef :: "string option"
  tf_contentEncoding :: "string option"
  tf_localPath :: "string option"
  tf_temporaryPath :: "string option"
  tf_expectedHash :: "string option"
  tf_expectedSize :: "int option"
  tf_verifyHash :: "bool option"
  tf_mode :: "string option"
  tf_owner :: "string option"
  tf_group :: "string option"
  tf_timeoutSeconds :: "int option"

record browser_extraction =
  bx_name :: string
  bx_optional :: bool
  bx_sensitive :: "bool option"
  bx_source :: jobject

record browser_config =
  bc_action :: string
  bc_url :: "string option"
  bc_extractions :: "browser_extraction list option"
  bc_verification :: "json option"

record transform_output =
  to_expression :: string
  to_format :: "string option"
  to_sensitive :: bool
  to_optional :: bool

record transform_config =
  tc_engine :: string
  tc_input :: "json option"
  tc_outputs :: "(string \<times> transform_output) list"
  tc_timeoutMs :: "int option"
  tc_maxInputBytes :: "int option"
  tc_maxOutputBytes :: "int option"

record foreach_config =
  fe_itemsPath :: string
  fe_itemVariable :: string
  fe_indexVariable :: "string option"
  fe_maxItems :: "int option"
  fe_continueOnError :: bool

record checkpoint_config =
  kc_name :: string
  kc_capture :: "(string \<times> string) list"
  kc_normalizedHash :: "bool option"
  kc_requiredForRollback :: bool

record plugin_action =
  pl_pluginId :: string
  pl_capability :: string
  pl_actionId :: string
  pl_actionContractVersion :: string
  pl_input :: jobject
  pl_inputSchemaSha256 :: string
  pl_outputSchemaSha256 :: string
  pl_timeoutSeconds :: int
  pl_writeEffect :: bool
  pl_idempotencyKeyRef :: string

datatype wf_body =
    HttpBody http_request
  | SshBody ssh_config
  | TransferBody string transfer_config
  | BrowserBody browser_config
  | ConditionBody wf_condition "string option"
  | TransformBody transform_config
  | ForeachBody foreach_config "wf_step list"
  | CheckpointBody checkpoint_config
  | CheckpointVerifyBody string string
  | WaitBody int
  | ManualBody string
  | PluginActionBody plugin_action
  and wf_step = WfStep (ws_name: string) (ws_stage: "string option") (ws_when: "wf_condition option") (ws_retry: "wf_retry option")
    (ws_extract: "wf_extract option") (ws_assert: "wf_assertion list") (ws_body: wf_body)

definition body_type :: "wf_body \<Rightarrow> string" where
  "body_type body = (case body of
     HttpBody _ \<Rightarrow> ''http'' | SshBody _ \<Rightarrow> ''ssh'' | TransferBody p _ \<Rightarrow> p | BrowserBody _ \<Rightarrow> ''browser''
   | ConditionBody _ _ \<Rightarrow> ''condition'' | TransformBody _ \<Rightarrow> ''transform'' | ForeachBody _ _ \<Rightarrow> ''foreach''
   | CheckpointBody _ \<Rightarrow> ''checkpoint'' | CheckpointVerifyBody _ _ \<Rightarrow> ''checkpoint_verify'' | WaitBody _ \<Rightarrow> ''wait''
   | ManualBody _ \<Rightarrow> ''manual'' | PluginActionBody _ \<Rightarrow> ''plugin.action'')"

definition ws_type :: "wf_step \<Rightarrow> string" where
  "ws_type step = body_type (ws_body step)"

text \<open>The output of a step: the members of a mock output, and those a dispatcher adds.\<close>

record step_output =
  wo_statusCode :: "int option"
  wo_headers :: "(string \<times> string) list option"
  wo_body :: "json option"
  wo_stdout :: "string option"
  wo_exitCode :: "int option"
  wo_success :: "bool option"
  wo_logs :: "string list option"
  wo_raw :: "json option"
  wo_errorCode :: "string option"
  wo_errorMessage :: "string option"

definition no_output :: step_output where
  "no_output = \<lparr>wo_statusCode = None, wo_headers = None, wo_body = None, wo_stdout = None, wo_exitCode = None,
     wo_success = None, wo_logs = None, wo_raw = None, wo_errorCode = None, wo_errorMessage = None\<rparr>"

definition output_json :: "step_output \<Rightarrow> jobject" where
  "output_json out = opt_member ''statusCode'' (map_option JNum (wo_statusCode out))
     @ opt_member ''headers'' (map_option (\<lambda>hs. JObj (map (\<lambda>(k, v). (k, JStr v)) hs)) (wo_headers out))
     @ opt_member ''body'' (wo_body out) @ str_opt ''stdout'' (wo_stdout out) @ opt_member ''exitCode'' (map_option JNum (wo_exitCode out))
     @ opt_member ''success'' (map_option JBool (wo_success out)) @ opt_member ''logs'' (map_option (JArr \<circ> map JStr) (wo_logs out))
     @ opt_member ''raw'' (wo_raw out) @ str_opt ''errorCode'' (wo_errorCode out) @ str_opt ''errorMessage'' (wo_errorMessage out)"

section \<open>The context of a run\<close>

record wf_context =
  wc_values :: jobject
  wc_secretPaths :: "string list"
  wc_outputs :: jobject
  wc_connections :: jobject
  wc_resolvedConnections :: jobject

record resolved_input =
  ri_executable :: bool
  ri_variables :: jobject
  ri_connections :: jobject
  ri_credentials :: jobject
  ri_artifacts :: jobject
  ri_assetContext :: jobject
  ri_sensitivePaths :: "string list"

record wf_input =
  wi_templateVersionId :: string
  wi_resolvedInput :: resolved_input
  wi_stepOutputs :: "jobject option"
  wi_systemValues :: "jobject option"
  wi_mockResponses :: "(string \<times> step_output) list"
  wi_mode :: string
  wi_dispatchInRenderOnly :: bool
  wi_executionBranch :: "string option"
  wi_tenantId :: "string option"
  wi_authorization :: "json option"

definition isCredentialBinding :: "json option \<Rightarrow> bool" where
  "isCredentialBinding value = (case value of
     Some (JObj m) \<Rightarrow> trimmed_string (jget m ''credentialId'') \<noteq> None
       \<and> (case jget m ''secretRefs'' of Some (JObj refs) \<Rightarrow>
            list_all (\<lambda>(k, v). case v of JStr s \<Rightarrow> startsWith s ''secret://'' | _ \<Rightarrow> False) refs | _ \<Rightarrow> False)
   | _ \<Rightarrow> False)"

text \<open>A non-empty string or a number other than zero, as the tests on \<open>host\<close>, \<open>username\<close> and \<open>port\<close> want it.\<close>

definition filled :: "json option \<Rightarrow> bool" where
  "filled v = (case v of Some (JStr s) \<Rightarrow> s \<noteq> [] | Some (JNum n) \<Rightarrow> n \<noteq> 0 | _ \<Rightarrow> False)"

definition runtime_connection :: "jobject \<Rightarrow> jobject \<Rightarrow> jobject option result" where
  "runtime_connection credentials resolved = (if jget resolved ''transport'' \<noteq> Some (JStr ''ssh'') then Inr None
     else (let credential = (case jget resolved ''credentialSlot'' of Some (JStr s) \<Rightarrow> if s = [] then None else jget credentials s | _ \<Rightarrow> None);
               hostKey = asRecord (jget resolved ''hostKey'')
       in if \<not> filled (jget resolved ''host'') \<or> \<not> filled (jget resolved ''username'') \<or> \<not> isCredentialBinding credential
          then Inl (AppError ''VALIDATION_FAILED'')
          else Inr (Some (opt_member ''host'' (jget resolved ''host'') @ opt_member ''port'' (jget resolved ''port'')
            @ opt_member ''username'' (jget resolved ''username'') @ opt_member ''credential'' credential
            @ opt_member ''hostKeyPolicy'' (jget hostKey ''policy'')
            @ opt_member ''expectedHostKeyFingerprint'' (jget hostKey ''expectedFingerprint'')))))"

fun runtime_connections :: "jobject \<Rightarrow> jobject \<Rightarrow> jobject result" where
  "runtime_connections credentials [] = Inr []"
| "runtime_connections credentials ((name, resolved) # rest) = (case runtime_connection credentials (asRecord (Some resolved)) of
     Inl e \<Rightarrow> Inl e
   | Inr None \<Rightarrow> runtime_connections credentials rest
   | Inr (Some c) \<Rightarrow> map_sum id (Cons (name, JObj c)) (runtime_connections credentials rest))"

definition resolveRuntimeConnections :: "resolved_input \<Rightarrow> jobject result" where
  "resolveRuntimeConnections inp = runtime_connections (ri_credentials inp) (ri_connections inp)"

definition buildRuntimeContextFromResolvedInput :: "wf_input \<Rightarrow> wf_context result" where
  "buildRuntimeContextFromResolvedInput inp = (let r = wi_resolvedInput inp in
     if \<not> ri_executable r then Inl (AppError ''VALIDATION_FAILED'')
     else map_sum id (\<lambda>connections. \<lparr>wc_values = [(''variables'', JObj (ri_variables r)), (''connections'', JObj (ri_connections r)),
         (''credentials'', JObj (ri_credentials r)), (''artifacts'', JObj (ri_artifacts r)), (''asset'', JObj (ri_assetContext r)),
         (''steps'', JObj (getOrElse (wi_stepOutputs inp) [])), (''system'', JObj (getOrElse (wi_systemValues inp) []))],
       wc_secretPaths = fold add_path (ri_sensitivePaths r) [], wc_outputs = [], wc_connections = connections,
       wc_resolvedConnections = ri_connections r\<rparr>) (resolveRuntimeConnections r))"

definition steps_of :: "jobject \<Rightarrow> jobject" where
  "steps_of values = asRecord (jget values ''steps'')"

definition withCurrentStepValues :: "jobject \<Rightarrow> string \<Rightarrow> jobject \<Rightarrow> jobject" where
  "withCurrentStepValues values stepName extracted = (if extracted = [] then values
     else AList.update ''steps'' (JObj (AList.update stepName (JObj [(''extracted'', JObj extracted)]) (steps_of values))) values)"

section \<open>Extractors\<close>

definition normalizeExtractors :: "wf_extract option \<Rightarrow> wf_extractor list" where
  "normalizeExtractors value = (case value of
     None \<Rightarrow> [] | Some (ExtractList xs) \<Rightarrow> xs | Some (ExtractMap kvs) \<Rightarrow> map (\<lambda>(name, x). x\<lparr>wx_name := name\<rparr>) kvs)"

text \<open>\<open>String(output.stdout ?? output.body ?? '')\<close>\<close>

definition output_text :: "step_output \<Rightarrow> string" where
  "output_text out = (case wo_stdout out of Some s \<Rightarrow> s
     | None \<Rightarrow> (case wo_body out of None \<Rightarrow> [] | Some JNull \<Rightarrow> [] | Some v \<Rightarrow> js_string v))"

definition readFirstAvailablePath :: "step_output \<Rightarrow> string list \<Rightarrow> json option" where
  "readFirstAvailablePath out paths =
     Option.bind (find (\<lambda>p. readJsonPath (Some (JObj (output_json out))) p \<notin> {None, Some JNull, Some (JStr [])}) paths)
       (readJsonPath (Some (JObj (output_json out))))"

definition extractor_value :: "wf_env \<Rightarrow> step_output \<Rightarrow> wf_extractor \<Rightarrow> json option result" where
  "extractor_value env out x =
    (if wx_type x = ''statusCode'' then Inr (map_option JNum (wo_statusCode out))
     else if wx_type x = ''header'' then Inr (map_option JStr (map_of (getOrElse (wo_headers out) []) (getOrElse (wx_header x) [])))
     else if wx_type x = ''jsonPath'' then Inr (readJsonPath (wo_body out) (getOrElse (wx_path x) []))
     else if wx_type x = ''outputPath'' then Inr (readJsonPath (Some (JObj (output_json out))) (getOrElse (wx_path x) []))
     else if wx_type x = ''firstOf'' then Inr (readFirstAvailablePath out (getOrElse (wx_paths x) []))
     else if wx_type x = ''regex'' then map_sum id (map_option JStr) (we_group env (getOrElse (wx_pattern x) []) (output_text out))
     else if wx_type x = ''textContains'' then
       Inr (Some (JBool (str_includes (output_text out) (case wx_value x of None \<Rightarrow> [] | Some JNull \<Rightarrow> [] | Some v \<Rightarrow> js_string v))))
     else if wx_type x = ''literal'' then Inr (wx_value x)
     else Inr None)"

definition absent :: "json option \<Rightarrow> bool" where
  "absent v \<longleftrightarrow> v = None \<or> v = Some JNull"

definition extracted_path :: "string \<Rightarrow> string \<Rightarrow> string" where
  "extracted_path stepName name = ''steps.'' @ stepName @ ''.extracted.'' @ name"

fun run_extractors :: "wf_env \<Rightarrow> string \<Rightarrow> step_output \<Rightarrow> wf_extractor list \<Rightarrow> jobject \<Rightarrow> wf_context \<Rightarrow> jobject result \<times> wf_context" where
  "run_extractors env stepName out [] extracted ctx = (Inr extracted, ctx)"
| "run_extractors env stepName out (x # xs) extracted ctx = (case extractor_value env out x of
     Inl e \<Rightarrow> (Inl e, ctx)
   | Inr value \<Rightarrow>
       if absent value \<and> \<not> wx_optional x then (Inl (AppError ''WORKFLOW_ASSERTION_FAILED''), ctx)
       else if absent value then run_extractors env stepName out xs extracted ctx
       else run_extractors env stepName out xs (AList.update (wx_name x) (the value) extracted)
         (if wx_sensitive x then ctx\<lparr>wc_secretPaths := collectValuePaths (extracted_path stepName (wx_name x)) (the value) (wc_secretPaths ctx)\<rparr> else ctx))"

definition runExtractors :: "wf_env \<Rightarrow> wf_step \<Rightarrow> step_output \<Rightarrow> wf_context \<Rightarrow> jobject result \<times> wf_context" where
  "runExtractors env step out ctx = run_extractors env (ws_name step) out (normalizeExtractors (ws_extract step)) [] ctx"

fun read_browser :: "string \<Rightarrow> jobject \<Rightarrow> browser_extraction list \<Rightarrow> jobject \<Rightarrow> wf_context \<Rightarrow> jobject result \<times> wf_context" where
  "read_browser stepName parameters [] extracted ctx = (Inr extracted, ctx)"
| "read_browser stepName parameters (x # xs) extracted ctx = (let value = jget parameters (bx_name x) in
     if absent value \<and> \<not> bx_optional x then (Inl (AppError ''CREDENTIAL_OUTPUT_INVALID''), ctx)
     else if absent value then read_browser stepName parameters xs extracted ctx
     else read_browser stepName parameters xs (AList.update (bx_name x) (the value) extracted)
       (if bx_sensitive x \<noteq> Some False
        then ctx\<lparr>wc_secretPaths := collectValuePaths (extracted_path stepName (bx_name x)) (the value) (wc_secretPaths ctx)\<rparr> else ctx))"

definition readBrowserExtractionOutputs :: "wf_step \<Rightarrow> step_output \<Rightarrow> wf_context \<Rightarrow> jobject result \<times> wf_context" where
  "readBrowserExtractionOutputs step out ctx = (case ws_body step of
     BrowserBody b \<Rightarrow> (case wo_body out of
       Some (JObj m) \<Rightarrow> (case jget m ''parameters'' of
         Some (JObj parameters) \<Rightarrow> read_browser (ws_name step) parameters (getOrElse (bc_extractions b) []) [] ctx
       | _ \<Rightarrow> (Inr [], ctx))
     | _ \<Rightarrow> (Inr [], ctx))
   | _ \<Rightarrow> (Inr [], ctx))"

section \<open>Transforms\<close>

definition defaultTransformTimeoutMs :: int where "defaultTransformTimeoutMs = 200"

definition defaultTransformMaxInputBytes :: int where "defaultTransformMaxInputBytes = 256 * 1024"

definition defaultTransformMaxOutputBytes :: int where "defaultTransformMaxOutputBytes = 256 * 1024"

definition assertJsonByteSize :: "json option \<Rightarrow> int \<Rightarrow> unit result" where
  "assertJsonByteSize value maxBytes = (if int (utf8_length (json_stringify (getOrElse value JNull))) > maxBytes
     then Inl (AppError ''WORKFLOW_ASSERTION_FAILED'') else Inr ())"

text \<open>\<open>/\$(eval|assert|error)\s*\(/i\<close>\<close>

definition forbidden_call_at :: "string \<Rightarrow> bool" where
  "forbidden_call_at s \<longleftrightarrow> (\<exists>w \<in> set [''$eval'', ''$assert'', ''$error''].
     startsWith s w \<and> startsWith (dropWhile is_ws (drop (length w) s)) ''('')"

definition assertJsonataExpressionSafe :: "string \<Rightarrow> unit result" where
  "assertJsonataExpressionSafe expression = (if 4096 < length expression then Inl (AppError ''VALIDATION_FAILED'')
     else if \<exists>i \<in> set [0..<length expression]. forbidden_call_at (drop i (toLowerCase expression)) then Inl (AppError ''VALIDATION_FAILED'')
     else Inr ())"

definition transform_scope :: "json \<Rightarrow> jobject \<Rightarrow> jobject" where
  "transform_scope inp outputs = spread (case inp of JObj m \<Rightarrow> m | v \<Rightarrow> [(''value'', v)]) outputs"

definition transform_value :: "wf_env \<Rightarrow> transform_config \<Rightarrow> json \<Rightarrow> jobject \<Rightarrow> transform_output \<Rightarrow> json option result" where
  "transform_value env t inp outputs config = (case assertJsonataExpressionSafe (to_expression config) of Inl e \<Rightarrow> Inl e | Inr _ \<Rightarrow>
    (case we_jsonata env (to_expression config) (transform_scope inp outputs) (getOrElse (tc_timeoutMs t) defaultTransformTimeoutMs) of
       Inl e \<Rightarrow> Inl e
     | Inr raw \<Rightarrow>
         if absent raw \<and> \<not> to_optional config then Inl (AppError ''WORKFLOW_ASSERTION_FAILED'')
         else (let value = (if to_format config = Some ''jsonString'' then Some (JStr (json_stringify (getOrElse raw JNull))) else raw)
           in case assertJsonByteSize value (getOrElse (tc_maxOutputBytes t) defaultTransformMaxOutputBytes) of
             Inl e \<Rightarrow> Inl e | Inr _ \<Rightarrow> Inr value)))"

fun transform_outputs :: "wf_env \<Rightarrow> transform_config \<Rightarrow> json \<Rightarrow> (string \<times> transform_output) list \<Rightarrow> jobject \<Rightarrow> jobject result" where
  "transform_outputs env t inp [] outputs = Inr outputs"
| "transform_outputs env t inp ((name, config) # rest) outputs = (case transform_value env t inp outputs config of
     Inl e \<Rightarrow> Inl e
   | Inr value \<Rightarrow> transform_outputs env t inp rest (case value of None \<Rightarrow> outputs | Some v \<Rightarrow> AList.update name v outputs))"

definition executeTransformStep :: "wf_env \<Rightarrow> transform_config \<Rightarrow> jobject \<Rightarrow> step_output result" where
  "executeTransformStep env t values = (case renderTransformInput (getOrElse (tc_input t) (JObj [])) values of Inl e \<Rightarrow> Inl e | Inr inp \<Rightarrow>
    (case assertJsonByteSize (Some inp) (getOrElse (tc_maxInputBytes t) defaultTransformMaxInputBytes) of Inl e \<Rightarrow> Inl e | Inr _ \<Rightarrow>
     map_sum id (\<lambda>outputs. no_output\<lparr>wo_statusCode := Some 200, wo_body := Some (JObj [(''success'', JBool True), (''outputs'', JObj outputs)])\<rparr>)
       (transform_outputs env t inp (tc_outputs t) [])))"

text \<open>The path collected for a sensitive output is its bare name.\<close>

definition readTransformOutputs :: "transform_config \<Rightarrow> step_output \<Rightarrow> wf_context \<Rightarrow> jobject result \<times> wf_context" where
  "readTransformOutputs t out ctx = (case wf_readPath (wo_body out) ''outputs'' of
     Some (JObj outputs) \<Rightarrow> (Inr outputs, ctx\<lparr>wc_secretPaths := fold (\<lambda>(name, config) paths.
        if to_sensitive config then (case jget outputs name of None \<Rightarrow> paths | Some v \<Rightarrow> collectValuePaths name v paths) else paths)
        (tc_outputs t) (wc_secretPaths ctx)\<rparr>)
   | _ \<Rightarrow> (Inl (AppError ''WORKFLOW_ASSERTION_FAILED''), ctx))"

section \<open>Assertions\<close>

record assertion_result =
  ar_type :: string
  ar_passed :: bool
  ar_message :: string

definition assertionResult :: "string \<Rightarrow> bool \<Rightarrow> string \<Rightarrow> assertion_result" where
  "assertionResult kind passed message = \<lparr>ar_type = kind, ar_passed = passed, ar_message = message\<rparr>"

definition text_contains :: "string \<Rightarrow> string \<Rightarrow> bool" where
  "text_contains actual expected \<longleftrightarrow> str_includes actual expected \<or> str_includes (toLowerCase actual) (toLowerCase expected)"

definition evaluate_assertion :: "wf_env \<Rightarrow> step_output \<Rightarrow> jobject \<Rightarrow> wf_assertion \<Rightarrow> assertion_result result" where
  "evaluate_assertion env out values assertion = (case assertion of
     StatusCodeIs n \<Rightarrow> Inr (assertionResult ''statusCode'' (wo_statusCode out = Some n)
       (''status='' @ (case wo_statusCode out of None \<Rightarrow> ''undefined'' | Some c \<Rightarrow> int_to_string c)))
   | JsonPathIs path equals \<Rightarrow> map_sum id (\<lambda>expected.
       assertionResult ''jsonPath'' (objectIs env (readJsonPath (wo_body out) path) (Some expected)) (''path='' @ path))
       (renderUnknown values False equals)
   | HeaderIs name exists equals \<Rightarrow> (let value = map_of (getOrElse (wo_headers out) []) name in
       Inr (assertionResult ''header'' (if equals \<noteq> None then value = equals else getOrElse exists True = (value \<noteq> None)) (''header='' @ name)))
   | BodyContains text \<Rightarrow> map_sum id (\<lambda>expected. assertionResult ''contains'' (text_contains (output_text out) expected)
       (''contains expected='' @ json_quote expected @ '' actualLength='' @ int_to_string (int (length (output_text out)))))
       (renderString text values False)
   | MatchesRegex pattern \<Rightarrow> map_sum id (\<lambda>passed. assertionResult ''regex'' passed ''regex'') (we_test env pattern (output_text out))
   | FingerprintIs actual expected \<Rightarrow> (case renderString actual values False of Inl e \<Rightarrow> Inl e | Inr a \<Rightarrow>
       map_sum id (\<lambda>e. assertionResult ''certificateFingerprint'' (a = e) ''fingerprint'') (renderString expected values False)))"

fun evaluateAssertions :: "wf_env \<Rightarrow> wf_assertion list \<Rightarrow> step_output \<Rightarrow> jobject \<Rightarrow> assertion_result list result" where
  "evaluateAssertions env [] out values = Inr []"
| "evaluateAssertions env (a # as) out values = cons_result (evaluate_assertion env out values a) (evaluateAssertions env as out values)"

section \<open>Outputs and order\<close>

definition normalizeStepOutput :: "wf_step \<Rightarrow> step_output \<Rightarrow> step_output" where
  "normalizeStepOutput step out = (if ws_type step \<noteq> ''http'' then out
     else (let bodyText = (case wo_body out of None \<Rightarrow> [] | Some (JStr s) \<Rightarrow> s | Some v \<Rightarrow> json_stringify v)
       in out\<lparr>wo_statusCode := Some (getOrElse (wo_statusCode out) 200), wo_headers := Some (getOrElse (wo_headers out) []),
            wo_body := Some (if absent (wo_body out) then JObj [] else the (wo_body out)), wo_stdout := Some (getOrElse (wo_stdout out) bodyText)\<rparr>))"

definition mock_body :: "(string \<times> json) list \<Rightarrow> step_output" where
  "mock_body m = no_output\<lparr>wo_body := Some (JObj m)\<rparr>"

definition defaultMockOutput :: "wf_step \<Rightarrow> bool \<Rightarrow> int \<Rightarrow> step_output" where
  "defaultMockOutput step rollback attempt = (case ws_body step of
     HttpBody _ \<Rightarrow> (mock_body [(''success'', JBool True), (''attempt'', JNum attempt)])
       \<lparr>wo_statusCode := Some (if rollback then 204 else 200), wo_headers := Some [(''x-workflow-mock'', ''true'')]\<rparr>
   | SshBody _ \<Rightarrow> (mock_body [(''success'', JBool True)])\<lparr>wo_exitCode := Some 0, wo_stdout := Some (''mock ssh '' @ ws_name step @ '' ok'')\<rparr>
   | TransferBody protocol t \<Rightarrow> (mock_body [(''success'', JBool True), (''attempt'', JNum attempt), (''transferResults'', JArr [JObj
         [(''direction'', JStr (tf_direction t)), (''protocol'', JStr protocol), (''remotePath'', JStr (tf_remotePath t)),
          (''localPath'', JStr (''virtual://workflow/'' @ ws_name step)), (''size'', JNum 16), (''hash'', JStr (replicate 64 (CHR ''a''))),
          (''auditDetails'', JArr [])]])])
       \<lparr>wo_exitCode := Some 0, wo_stdout := Some (toUpperCase protocol @ ''_'' @ toUpperCase (tf_direction t) @ '' '' @ tf_remotePath t @ '' ok'')\<rparr>
   | ConditionBody _ _ \<Rightarrow> mock_body [(''passed'', JBool True), (''attempt'', JNum attempt)]
   | _ \<Rightarrow> mock_body [(''success'', JBool True)])"

text \<open>\<open>order.get(stage)\<close>, where a step without a stage or with another stage comes last.\<close>

definition stage_order :: "string option \<Rightarrow> nat" where
  "stage_order stage = (if stage = Some ''prepare'' then 0 else if stage = Some ''backup'' then 1 else if stage = Some ''install'' then 2
     else if stage = Some ''refresh'' then 3 else if stage = Some ''verify'' then 4 else 2 ^ 53 - 1)"

definition orderStepsByStage :: "wf_step list \<Rightarrow> wf_step list" where
  "orderStepsByStage steps = (if \<not> (\<exists>s \<in> set steps. truthy (ws_stage s)) then steps
     else sort_by (\<lambda>a b. stage_order (ws_stage a) < stage_order (ws_stage b)) steps)"

definition resolveExecutionBranch :: "wf_step list \<Rightarrow> wf_step list option \<Rightarrow> string \<Rightarrow> wf_step list result" where
  "resolveExecutionBranch steps rollback branch = (if branch = ''deploy'' then Inr steps
     else (case rollback of Some (s # ss) \<Rightarrow> Inr (s # ss) | _ \<Rightarrow> Inl (AppError ''VALIDATION_FAILED'')))"

end
