(* ===== verification/WorkflowPlan.thy ===== *)
theory WorkflowPlan
  imports WorkflowSteps
begin

text \<open>
  The plan a step is dispatched with: \<open>adaptStep\<close> and its helpers in
  \<open>backend/src/modules/workflow-templates/domain/workflow-templates.domain-service.ts\<close>, one definition per kind of step.
  A plan is a JSON object; a member that is undefined is left out.
\<close>

section \<open>Helpers on results\<close>

definition bind_result :: "'a result \<Rightarrow> ('a \<Rightarrow> 'b result) \<Rightarrow> 'b result" where
  "bind_result r k = (case r of Inl e \<Rightarrow> Inl e | Inr x \<Rightarrow> k x)"

fun map_result :: "('a \<Rightarrow> 'b result) \<Rightarrow> 'a list \<Rightarrow> 'b list result" where
  "map_result f [] = Inr []"
| "map_result f (x # xs) = cons_result (f x) (map_result f xs)"

lemma bind_result_simps [simp]: "bind_result (Inl e) k = Inl e" "bind_result (Inr x) k = k x"
  by (simp_all add: bind_result_def)

lemma bind_result_Inr: "bind_result r k = Inr y \<longleftrightarrow> (\<exists>x. r = Inr x \<and> k x = Inr y)"
  by (cases r) auto

definition bool_opt :: "string \<Rightarrow> bool option \<Rightarrow> jobject" where
  "bool_opt k v = opt_member k (map_option JBool v)"

definition int_opt :: "string \<Rightarrow> int option \<Rightarrow> jobject" where
  "int_opt k v = opt_member k (map_option JNum v)"

definition is_dry :: "string \<Rightarrow> bool" where
  "is_dry mode \<longleftrightarrow> mode \<noteq> ''real_test''"

text \<open>\<open>x ? { key: renderString(x) } : {}\<close>\<close>

definition render_member :: "string \<Rightarrow> string option \<Rightarrow> jobject \<Rightarrow> bool \<Rightarrow> jobject result" where
  "render_member k v values keep = (if \<not> truthy v then Inr [] else map_sum id (\<lambda>s. [(k, JStr s)]) (renderString (the v) values keep))"

section \<open>Credentials and connections\<close>

definition resolveCredentialBinding :: "json \<Rightarrow> jobject \<Rightarrow> bool \<Rightarrow> jobject option result" where
  "resolveCredentialBinding value values keep =
    (if isCredentialBinding (Some value) then Inr (Some (asRecord (Some value)))
     else (case value of
       JStr s \<Rightarrow> (case whole_ref s of
         None \<Rightarrow> Inl (AppError ''VALIDATION_FAILED'')
       | Some key \<Rightarrow> (let resolved = wf_readPath (Some (JObj values)) key in
           if resolved = None \<and> keep \<and> isDeferredPreviewReference key then Inr None
           else if \<not> isCredentialBinding resolved then Inl (AppError ''VALIDATION_FAILED'')
           else Inr (Some (asRecord resolved))))
     | _ \<Rightarrow> Inl (AppError ''VALIDATION_FAILED'')))"

definition credentialToSecretRef :: "jobject \<Rightarrow> string result" where
  "credentialToSecretRef credential = (let refs = asRecord (jget credential ''secretRefs'') in
     case orElse (jget refs ''password'') (orElse (jget refs ''token'') (jget refs ''privateKey'')) of
       Some (JStr s) \<Rightarrow> if s = [] then Inl (AppError ''VALIDATION_FAILED'') else Inr s
     | _ \<Rightarrow> Inl (AppError ''VALIDATION_FAILED''))"

definition unresolved_ref :: string where
  "unresolved_ref = ''secret://credential/unresolved#current''"

definition secret_of :: "json \<Rightarrow> jobject \<Rightarrow> bool \<Rightarrow> string result" where
  "secret_of value values keep = bind_result (resolveCredentialBinding value values keep)
     (\<lambda>c. case c of None \<Rightarrow> Inr unresolved_ref | Some credential \<Rightarrow> credentialToSecretRef credential)"

definition text_member :: "jobject \<Rightarrow> string \<Rightarrow> string" where
  "text_member m k = (case jget m k of Some (JStr s) \<Rightarrow> s | _ \<Rightarrow> [])"

definition adaptSshConnection :: "jobject \<Rightarrow> jobject \<Rightarrow> bool \<Rightarrow> jobject result" where
  "adaptSshConnection connection values keep =
     bind_result (secret_of (getOrElse (jget connection ''credential'') JNull) values keep) (\<lambda>secret.
     bind_result (renderString (text_member connection ''host'') values keep) (\<lambda>host.
     bind_result (renderString (text_member connection ''username'') values keep) (\<lambda>username.
     bind_result (render_member ''expectedHostKeyFingerprint'' (case jget connection ''expectedHostKeyFingerprint'' of Some (JStr s) \<Rightarrow> Some s | _ \<Rightarrow> None) values keep) (\<lambda>fingerprint.
     Inr ([(''host'', JStr host)] @ opt_member ''port'' (jget connection ''port'') @ [(''username'', JStr username), (''credentialSecretRef'', JStr secret)]
       @ fingerprint @ opt_member ''hostKeyPolicy'' (jget connection ''hostKeyPolicy''))))))"

definition resolveStepConnection :: "string \<Rightarrow> wf_context \<Rightarrow> jobject result" where
  "resolveStepConnection connectionRef ctx = (case jget (wc_connections ctx) connectionRef of
     Some (JObj c) \<Rightarrow> Inr c | _ \<Rightarrow> Inl (AppError ''VALIDATION_FAILED''))"

definition resolveHttpConnection :: "string \<Rightarrow> wf_context \<Rightarrow> jobject result" where
  "resolveHttpConnection connectionRef ctx = (case jget (wc_resolvedConnections ctx) connectionRef of
     Some (JObj c) \<Rightarrow> if jget c ''transport'' \<noteq> Some (JStr ''http'') \<or> \<not> filled (jget c ''host'') \<or> \<not> filled (jget c ''port'')
       then Inl (AppError ''VALIDATION_FAILED'') else Inr c
   | _ \<Rightarrow> Inl (AppError ''VALIDATION_FAILED''))"

section \<open>HTTP\<close>

definition isSecretRefValue :: "string \<Rightarrow> bool" where
  "isSecretRefValue s \<longleftrightarrow> secret_ref_at s = Some []"

definition promoteSecretHeaders :: "jobject \<Rightarrow> jobject option \<Rightarrow> jobject \<times> jobject option" where
  "promoteSecretHeaders headers declaredRefs =
    (let is_ref = (\<lambda>(k, v). isSecretRefValue (js_string v));
         refs = spread (getOrElse declaredRefs []) (filter is_ref headers)
     in (filter (\<lambda>h. \<not> is_ref h) headers, if refs = [] then None else Some refs))"

definition ref_segment_char :: "char \<Rightarrow> bool" where
  "ref_segment_char c \<longleftrightarrow> is_letter c \<or> is_digit c \<or> c \<in> set ''_.-''"

definition secretRefSegment :: "string \<Rightarrow> string" where
  "secretRefSegment value = (if value = [] then ''value'' else map (\<lambda>c. if ref_segment_char c then c else CHR ''_'') value)"

definition runtime_ref :: "string \<Rightarrow> string \<Rightarrow> string" where
  "runtime_ref stepName header = ''secret://workflow/runtime/'' @ secretRefSegment stepName @ ''/'' @ secretRefSegment header"

fun materialize_refs :: "string \<Rightarrow> jobject \<Rightarrow> jobject \<Rightarrow> jobject \<Rightarrow> (jobject \<times> jobject) result" where
  "materialize_refs stepName [] resolved secrets = Inr (resolved, secrets)"
| "materialize_refs stepName ((header, v) # rest) resolved secrets =
    (if isSecretRefValue (js_string v) then materialize_refs stepName rest (AList.update header v resolved) secrets
     else (case v of
       JStr s \<Rightarrow> materialize_refs stepName rest (AList.update header (JStr (runtime_ref stepName header)) resolved)
         (AList.update (runtime_ref stepName header) v secrets)
     | _ \<Rightarrow> Inl (AppError ''VALIDATION_FAILED'')))"

definition materializeRuntimeHeaderRefs :: "jobject option \<Rightarrow> string \<Rightarrow> (jobject option \<times> jobject option) result" where
  "materializeRuntimeHeaderRefs refs stepName = (case refs of None \<Rightarrow> Inr (None, None)
   | Some rs \<Rightarrow> map_sum id (\<lambda>(resolved, secrets). (Some resolved, if secrets = [] then None else Some secrets)) (materialize_refs stepName rs [] []))"

text \<open>\<open>/^\{\{\s*([a-zA-Z][a-zA-Z0-9_.]*)\s*\}\}$/\<close>\<close>

definition exact_ref :: "string \<Rightarrow> string option" where
  "exact_ref s = (case ref_at s of Some (key, []) \<Rightarrow> Some key | _ \<Rightarrow> None)"

definition renderBoolean :: "json option \<Rightarrow> jobject \<Rightarrow> bool \<Rightarrow> json option result" where
  "renderBoolean value values keep = (case value of
     Some (JStr s) \<Rightarrow> (case exact_ref s of
       None \<Rightarrow> Inl (AppError ''VALIDATION_FAILED'')
     | Some key \<Rightarrow> (case wf_readPath (Some (JObj values)) key of
         None \<Rightarrow> if keep \<and> isDeferredPreviewReference key then Inr value else Inl (AppError ''VALIDATION_FAILED'')
       | Some (JBool b) \<Rightarrow> Inr (Some (JBool b))
       | _ \<Rightarrow> Inl (AppError ''VALIDATION_FAILED'')))
   | _ \<Rightarrow> Inr value)"

definition set_member :: "string \<Rightarrow> json option \<Rightarrow> jobject \<Rightarrow> jobject" where
  "set_member k v m = (case v of None \<Rightarrow> AList.delete k m | Some x \<Rightarrow> AList.update k x m)"

definition adaptHttpTls :: "jobject option \<Rightarrow> jobject \<Rightarrow> bool \<Rightarrow> jobject option result" where
  "adaptHttpTls tls values keep = (case tls of None \<Rightarrow> Inr None | Some t \<Rightarrow>
     bind_result (renderBoolean (jget t ''verify'') values keep) (\<lambda>verify.
     bind_result (if text_member t ''sni'' = [] then Inr None else map_sum id (\<lambda>s. Some (JStr s)) (renderString (text_member t ''sni'') values keep)) (\<lambda>sni.
     Inr (Some (set_member ''sni'' sni (set_member ''verify'' verify t))))))"

definition adaptHttpAuth :: "http_auth option \<Rightarrow> jobject \<Rightarrow> bool \<Rightarrow> json option result" where
  "adaptHttpAuth auth values keep = (case auth of
     None \<Rightarrow> Inr None
   | Some AuthNone \<Rightarrow> Inr (Some (JObj [(''type'', JStr ''none'')]))
   | Some (AuthBasic username credential) \<Rightarrow> bind_result (secret_of credential values keep) (\<lambda>ref.
       map_sum id (\<lambda>u. Some (JObj [(''type'', JStr ''basic''), (''username'', JStr u), (''secretRef'', JStr ref)])) (renderString username values keep))
   | Some (AuthBearer credential) \<Rightarrow>
       map_sum id (\<lambda>ref. Some (JObj [(''type'', JStr ''bearer''), (''secretRef'', JStr ref)])) (secret_of credential values keep)
   | Some (AuthApiKey credential place name) \<Rightarrow> bind_result (secret_of credential values keep) (\<lambda>ref.
       map_sum id (\<lambda>n. Some (JObj ([(''type'', JStr ''api_key''), (''name'', JStr n)] @ str_opt ''in'' place @ [(''secretRef'', JStr ref)])))
         (renderString name values keep))
   | Some (AuthOther m) \<Rightarrow> Inr (Some (JObj m)))"

definition adaptFormCredentialRefs :: "jobject option \<Rightarrow> jobject \<Rightarrow> bool \<Rightarrow> json option result" where
  "adaptFormCredentialRefs refs values keep = (case refs of None \<Rightarrow> Inr None
   | Some m \<Rightarrow> map_sum id (Some \<circ> JObj) (map_result (\<lambda>(k, v). map_sum id (\<lambda>ref. (k, JStr ref)) (secret_of v values keep)) m))"

fun adaptHttpResponseAssertions :: "wf_assertion list \<Rightarrow> jobject \<Rightarrow> bool \<Rightarrow> json list result" where
  "adaptHttpResponseAssertions [] values keep = Inr []"
| "adaptHttpResponseAssertions (a # as) values keep = (case a of
     StatusCodeIs n \<Rightarrow> cons_result (Inr (JObj [(''type'', JStr ''status''), (''equals'', JNum n)])) (adaptHttpResponseAssertions as values keep)
   | BodyContains text \<Rightarrow> cons_result (map_sum id (\<lambda>t. JObj [(''type'', JStr ''body_contains''), (''text'', JStr t)]) (renderString text values keep))
       (adaptHttpResponseAssertions as values keep)
   | HeaderIs name (Some True) None \<Rightarrow>
       cons_result (Inr (JObj [(''type'', JStr ''header_exists''), (''name'', JStr name)])) (adaptHttpResponseAssertions as values keep)
   | _ \<Rightarrow> adaptHttpResponseAssertions as values keep)"

definition http_extractor :: "wf_extractor \<Rightarrow> json list" where
  "http_extractor x = (let rest = [(''required'', JBool (\<not> wx_optional x)), (''secret'', JBool (wx_sensitive x))] in
     if wx_type x = ''statusCode'' then [JObj ([(''name'', JStr (wx_name x)), (''source'', JStr ''status'')] @ rest)]
     else if wx_type x = ''header'' then [JObj ([(''name'', JStr (wx_name x)), (''source'', JStr ''header'')] @ str_opt ''header'' (wx_header x) @ rest)]
     else if wx_type x = ''regex'' then [JObj ([(''name'', JStr (wx_name x)), (''source'', JStr ''body'')] @ str_opt ''pattern'' (wx_pattern x) @ rest)]
     else if wx_type x = ''jsonPath'' then [JObj ([(''name'', JStr (wx_name x)), (''source'', JStr ''json'')] @ str_opt ''path'' (wx_path x) @ rest)]
     else [])"

definition protocol_list :: "json option \<Rightarrow> json list option" where
  "protocol_list v = (case v of Some (JArr xs) \<Rightarrow> Some xs | _ \<Rightarrow> None)"

text \<open>\<open>tls.enabled ?? (includes('https') && !includes('http'))\<close>\<close>

definition tls_enabled :: "jobject \<Rightarrow> bool" where
  "tls_enabled connection = (case jget (asRecord (jget connection ''tls'')) ''enabled'' of
     Some (JBool b) \<Rightarrow> b
   | _ \<Rightarrow> (case protocol_list (jget connection ''allowedProtocols'') of None \<Rightarrow> False
       | Some ps \<Rightarrow> JStr ''https'' \<in> set ps \<and> JStr ''http'' \<notin> set ps))"

definition plan_tls :: "http_request \<Rightarrow> jobject \<Rightarrow> jobject option" where
  "plan_tls request connection = orElse (hq_tls request) (case jget connection ''tls'' of
     Some (JObj t) \<Rightarrow> Some (opt_member ''verify'' (jget t ''verifyPeer'') @ opt_member ''sni'' (jget t ''serverName'')) | _ \<Rightarrow> None)"

definition rendered_tls :: "http_request \<Rightarrow> jobject \<Rightarrow> jobject \<Rightarrow> bool \<Rightarrow> jobject option result" where
  "rendered_tls request connection values keep =
    (if jget (asRecord (jget connection ''tls'')) ''enabled'' = Some (JBool False) then Inr None
     else adaptHttpTls (plan_tls request connection) values keep)"

definition plan_connection :: "jobject \<Rightarrow> jobject" where
  "plan_connection connection = opt_member ''host'' (jget connection ''host'') @ opt_member ''port'' (jget connection ''port'')
     @ [(''tlsEnabled'', JBool (tls_enabled connection)),
        (''allowedProtocols'', JArr (getOrElse (protocol_list (jget connection ''allowedProtocols''))
          (if tls_enabled connection then [JStr ''https''] else [JStr ''http''])))]"

definition json_ints :: "int list \<Rightarrow> json" where
  "json_ints ns = JArr (map JNum ns)"

definition retry_plan :: "wf_retry option \<Rightarrow> jobject" where
  "retry_plan retry = [(''maxAttempts'', JNum (getOrElse (Option.bind retry rt_count) 0 + 1)),
     (''intervalMs'', JNum (getOrElse (Option.bind retry rt_intervalSeconds) 0 * 1000))]
     @ opt_member ''retryOnStatus'' (map_option json_ints (Option.bind retry rt_retryOnStatus))
     @ bool_opt ''retryOnNetworkError'' (Option.bind retry rt_retryOnNetworkError)"

definition http_plan :: "wf_step \<Rightarrow> http_request \<Rightarrow> wf_context \<Rightarrow> string \<Rightarrow> step_output option \<Rightarrow> json result" where
  "http_plan step request ctx mode out = (let values = wc_values ctx; keep = (mode = ''render_only'') in
     bind_result (resolveHttpConnection (hq_connectionRef request) ctx) (\<lambda>connection.
     bind_result (renderString (hq_url request) values keep) (\<lambda>url.
     bind_result (renderUnknown values keep (JObj (getOrElse (hq_headers request) []))) (\<lambda>headers.
     (let promoted = promoteSecretHeaders (asRecord (Some headers)) (hq_headerRefs request) in
     bind_result (render_opt values keep (map_option JObj (snd promoted))) (\<lambda>refs.
     bind_result (materializeRuntimeHeaderRefs (map_option (\<lambda>r. asRecord (Some r)) refs) (ws_name step)) (\<lambda>runtime.
     bind_result (map_result (render_opt values keep) [hq_query request, hq_body request, hq_form request, hq_multipart request]) (\<lambda>rendered.
     bind_result (adaptFormCredentialRefs (hq_formCredentialRefs request) values keep) (\<lambda>formRefs.
     bind_result (adaptHttpAuth (hq_auth request) values keep) (\<lambda>auth.
     bind_result (rendered_tls request connection values keep) (\<lambda>tls.
     bind_result (adaptHttpResponseAssertions (ws_assert step) values keep) (\<lambda>assertions.
     (let dry = JBool (is_dry mode); key = JStr (''workflow:'' @ ws_name step);
          template = [(''method'', JStr (hq_method request)), (''url'', JStr url)] @ str_opt ''cookieSessionRef'' (hq_cookieSessionRef request)
            @ [(''connection'', JObj (plan_connection connection))] @ opt_member ''query'' (rendered ! 0)
            @ [(''headers'', JObj (fst promoted))] @ opt_member ''headerRefs'' (map_option JObj (fst runtime))
            @ str_opt ''bodyType'' (hq_bodyType request) @ opt_member ''body'' (rendered ! 1) @ opt_member ''form'' (rendered ! 2)
            @ opt_member ''formSecretRefs'' formRefs @ opt_member ''multipart'' (rendered ! 3) @ opt_member ''auth'' auth
            @ opt_member ''tls'' (map_option JObj tls) @ [(''timeoutMs'', JNum (getOrElse (hq_timeoutSeconds request) 30 * 1000))]
            @ int_opt ''maxResponseBytes'' (hq_maxResponseBytes request);
          curl = [(''idempotencyKey'', key), (''dryRun'', dry), (''template'', JObj template)]
            @ opt_member ''secrets'' (map_option JObj (snd runtime))
            @ [(''responsePolicy'', JObj (opt_member ''successStatusCodes'' (map_option json_ints (hq_successStatusCodes request))
                 @ bool_opt ''failOnNon2xx'' (hq_failOnNon2xx request) @ [(''assertions'', JArr assertions)])),
               (''extractors'', JArr (concat (map http_extractor (normalizeExtractors (ws_extract step))))),
               (''retryPolicy'', JObj (retry_plan (ws_retry step)))]
            @ opt_member ''mockResponse'' (if mode = ''mock'' then map_option (JObj \<circ> output_json) out else None)
      in Inr (JObj [(''executor'', JStr ''017.CURL_HTTP''), (''dryRun'', dry), (''realNetwork'', JBool (mode = ''real_test'')),
           (''idempotencyKey'', key), (''curlRequest'', JObj curl), (''mode'', JStr mode)]))))))))))))))"

section \<open>SSH and file transfer\<close>

definition ssh_plan :: "wf_step \<Rightarrow> ssh_config \<Rightarrow> wf_context \<Rightarrow> string \<Rightarrow> json result" where
  "ssh_plan step ssh ctx mode = (let values = wc_values ctx; keep = (mode = ''render_only'') in
     bind_result (resolveStepConnection (sc_connectionRef ssh) ctx) (\<lambda>c.
     bind_result (adaptSshConnection c values keep) (\<lambda>connection.
     bind_result (map_result (\<lambda>a. renderString a values keep) (sc_args ssh)) (\<lambda>args.
     Inr (JObj ([(''executor'', JStr ''015.SSH''), (''dryRun'', JBool (is_dry mode)), (''realSsh'', JBool (mode = ''real_test'')),
       (''idempotencyKey'', JStr (''workflow:'' @ ws_name step))] @ str_opt ''stage'' (ws_stage step) @ [(''connection'', JObj connection),
       (''program'', JStr (sc_program ssh)), (''args'', JArr (map JStr args)), (''argumentTemplate'', JStr (sc_argumentTemplate ssh)),
       (''timeoutMs'', JNum (getOrElse (sc_timeoutSeconds ssh) 60 * 1000)), (''testMode'', JStr mode)]))))))"

definition has_open_ref :: "string \<Rightarrow> bool" where
  "has_open_ref s \<longleftrightarrow> str_includes s ''{{''"

definition renderTransferContent :: "wf_env \<Rightarrow> string \<Rightarrow> string option \<Rightarrow> jobject \<Rightarrow> bool \<Rightarrow> json result" where
  "renderTransferContent env template encoding values keep = bind_result (renderUnknown values keep (JStr template)) (\<lambda>rendered.
     if keep \<and> (case rendered of JStr s \<Rightarrow> has_open_ref s | _ \<Rightarrow> False) then Inr rendered
     else if compound rendered \<or> rendered = JNull then Inl (AppError ''VALIDATION_FAILED'')
     else Inr (if encoding = Some ''base64'' then we_decode env (js_string rendered) else JStr (js_string rendered)))"

definition transfer_item :: "wf_env \<Rightarrow> wf_step \<Rightarrow> transfer_config \<Rightarrow> jobject \<Rightarrow> bool \<Rightarrow> jobject result" where
  "transfer_item env step t values keep =
     bind_result (if truthy (tf_localPath t) then renderString (the (tf_localPath t)) values keep else Inr (''virtual://workflow/'' @ ws_name step)) (\<lambda>localPath.
     bind_result (renderString (tf_remotePath t) values keep) (\<lambda>remotePath.
     bind_result (if truthy (tf_contentRef t)
       then map_sum id (\<lambda>c. [(''content'', c)]) (renderTransferContent env (the (tf_contentRef t)) (tf_contentEncoding t) values keep) else Inr []) (\<lambda>content.
     bind_result (map_result (\<lambda>(k, v). render_member k v values keep) [(''temporaryPath'', tf_temporaryPath t), (''expectedHash'', tf_expectedHash t)]) (\<lambda>before.
     bind_result (map_result (\<lambda>(k, v). render_member k v values keep) [(''mode'', tf_mode t), (''owner'', tf_owner t), (''group'', tf_group t)]) (\<lambda>after.
     Inr ([(''direction'', JStr (tf_direction t)), (''localPath'', JStr localPath), (''remotePath'', JStr remotePath)] @ content @ concat before
       @ int_opt ''expectedSize'' (tf_expectedSize t) @ bool_opt ''verifyHash'' (tf_verifyHash t) @ concat after))))))"

text \<open>\<open>buildFileTransferStepPlan\<close>: the connection, the time limit and the request.\<close>

definition buildFileTransferStepPlan :: "wf_env \<Rightarrow> wf_step \<Rightarrow> string \<Rightarrow> transfer_config \<Rightarrow> wf_context \<Rightarrow> bool \<Rightarrow> (json \<times> json \<times> json) result" where
  "buildFileTransferStepPlan env step protocol t ctx keep = (let values = wc_values ctx in
     bind_result (resolveStepConnection (tf_connectionRef t) ctx) (\<lambda>c.
     bind_result (adaptSshConnection c values keep) (\<lambda>connection.
     bind_result (transfer_item env step t values keep) (\<lambda>item.
     (let timeout = JNum (getOrElse (tf_timeoutSeconds t) 60 * 1000) in
     Inr (JObj connection, timeout, JObj [(''connection'', JObj connection), (''timeoutMs'', timeout), (''dryRun'', JBool False),
       (protocol, JArr [JObj item])]))))))"

definition transfer_plan :: "wf_env \<Rightarrow> wf_step \<Rightarrow> string \<Rightarrow> transfer_config \<Rightarrow> wf_context \<Rightarrow> string \<Rightarrow> json result" where
  "transfer_plan env step protocol t ctx mode =
     bind_result (buildFileTransferStepPlan env step protocol t ctx (mode = ''render_only'')) (\<lambda>(connection, timeout, request).
     Inr (JObj ([(''executor'', JStr ''015.SSH''), (''dryRun'', JBool (is_dry mode)), (''realSsh'', JBool (mode = ''real_test'')),
       (''idempotencyKey'', JStr (''workflow:'' @ ws_name step))] @ str_opt ''stage'' (ws_stage step) @ [(''protocol'', JStr protocol),
       (''connection'', connection), (''timeoutMs'', timeout), (''sshRequest'', request), (''testMode'', JStr mode)])))"

section \<open>Steps without a device\<close>

definition extraction_json :: "browser_extraction \<Rightarrow> json" where
  "extraction_json x = JObj (bx_source x @ [(''name'', JStr (bx_name x)), (''optional'', JBool (bx_optional x))] @ bool_opt ''sensitive'' (bx_sensitive x))"

definition browser_plan :: "browser_config \<Rightarrow> jobject \<Rightarrow> string \<Rightarrow> json result" where
  "browser_plan b values mode = bind_result (render_member ''url'' (bc_url b) values (mode = ''render_only'')) (\<lambda>url.
     Inr (JObj ([(''executor'', JStr ''workflow.browser''), (''action'', JStr (bc_action b))] @ url
       @ opt_member ''extractions'' (map_option (JArr \<circ> map extraction_json) (bc_extractions b)) @ opt_member ''verification'' (bc_verification b)
       @ [(''mode'', JStr mode), (''dryRun'', JBool (is_dry mode))])))"

definition condition_json :: "wf_condition \<Rightarrow> json" where
  "condition_json c = JObj ([(''variable'', JStr (cd_variable c))] @ opt_member ''equals'' (cd_equals c) @ opt_member ''notEquals'' (cd_notEquals c)
     @ bool_opt ''exists'' (cd_exists c))"

definition condition_plan :: "wf_env \<Rightarrow> wf_condition \<Rightarrow> string option \<Rightarrow> jobject \<Rightarrow> string \<Rightarrow> json result" where
  "condition_plan env c description values mode = (let deferred = (mode = ''render_only'' \<and> hasDeferredConditionReference c values) in
     bind_result (if deferred then Inr None else map_sum id Some (evaluateCondition env (Some c) values mode)) (\<lambda>passed.
     Inr (JObj ([(''executor'', JStr ''workflow.condition''), (''condition'', condition_json c)] @ str_opt ''description'' description
       @ bool_opt ''passed'' passed @ (if deferred then [(''deferred'', JBool True)] else []) @ [(''mode'', JStr mode)]))))"

definition transform_plan :: "transform_config \<Rightarrow> string \<Rightarrow> json" where
  "transform_plan t mode = JObj [(''executor'', JStr ''workflow.transform''), (''engine'', JStr (tc_engine t)),
     (''outputNames'', JArr (map (JStr \<circ> fst) (tc_outputs t))), (''timeoutMs'', JNum (getOrElse (tc_timeoutMs t) defaultTransformTimeoutMs)),
     (''maxInputBytes'', JNum (getOrElse (tc_maxInputBytes t) defaultTransformMaxInputBytes)),
     (''maxOutputBytes'', JNum (getOrElse (tc_maxOutputBytes t) defaultTransformMaxOutputBytes)), (''plannedOnly'', JBool (mode = ''render_only''))]"

definition foreach_plan :: "foreach_config \<Rightarrow> wf_step list \<Rightarrow> jobject \<Rightarrow> string \<Rightarrow> json" where
  "foreach_plan f steps values mode = JObj ([(''executor'', JStr ''workflow.foreach''), (''itemsPath'', JStr (fe_itemsPath f)),
     (''itemVariable'', JStr (fe_itemVariable f))] @ str_opt ''indexVariable'' (fe_indexVariable f)
     @ [(''maxItems'', JNum (getOrElse (fe_maxItems f) 100)), (''continueOnError'', JBool (fe_continueOnError f))]
     @ (case wf_readPath (Some (JObj values)) (fe_itemsPath f) of Some (JArr xs) \<Rightarrow> [(''itemCount'', JNum (int (length xs)))] | _ \<Rightarrow> [])
     @ [(''steps'', JArr (map (\<lambda>s. JObj ([(''name'', JStr (ws_name s)), (''type'', JStr (ws_type s))] @ str_opt ''stage'' (ws_stage s))) steps)),
        (''plannedOnly'', JBool (mode = ''render_only''))])"

text \<open>The captured values and the paths that only a run can resolve.\<close>

fun capture_entries :: "wf_env \<Rightarrow> wf_context \<Rightarrow> string \<Rightarrow> (string \<times> string) list \<Rightarrow> jobject \<Rightarrow> jobject \<Rightarrow> (jobject \<times> jobject) result" where
  "capture_entries env ctx mode [] captured deferred = Inr (captured, deferred)"
| "capture_entries env ctx mode ((name, path) # rest) captured deferred =
    (if isSecretCapturePath path (wc_secretPaths ctx) then Inl (AppError ''VALIDATION_FAILED'')
     else (case wf_readPath (Some (JObj (wc_values ctx))) path of
       None \<Rightarrow> if mode = ''render_only'' \<and> isDeferredRuntimePath path (wc_values ctx)
         then capture_entries env ctx mode rest captured (AList.update name (JStr path) deferred) else Inl (AppError ''VALIDATION_FAILED'')
     | Some value \<Rightarrow> if \<not> assertCheckpointValueSafe env value then Inl (AppError ''VALIDATION_FAILED'')
         else capture_entries env ctx mode rest (AList.update name value captured) deferred))"

definition checkpoint_plan :: "wf_env \<Rightarrow> checkpoint_config \<Rightarrow> wf_context \<Rightarrow> string \<Rightarrow> json result" where
  "checkpoint_plan env k ctx mode = bind_result (capture_entries env ctx mode (kc_capture k) [] []) (\<lambda>(captured, deferred).
     (let head = [(''executor'', JStr ''workflow.checkpoint''), (''checkpointName'', JStr (kc_name k))];
          hash = (''normalizedHash'', JBool (kc_normalizedHash k \<noteq> Some False)); required = (''requiredForRollback'', JBool (kc_requiredForRollback k))
      in Inr (JObj (if deferred \<noteq> []
        then head @ [(''capturePaths'', JObj (map (\<lambda>(n, p). (n, JStr p)) (kc_capture k))), (''deferredCapturePaths'', JObj deferred), hash, required,
          (''deferred'', JBool True), (''plannedOnly'', JBool True)]
        else head @ [(''capture'', JObj captured), (''captureHash'', JStr (workflow_digest env (JObj captured))), hash, required,
          (''plannedOnly'', JBool (mode = ''render_only''))]))))"

definition checkpoint_verify_plan :: "wf_env \<Rightarrow> string \<Rightarrow> string \<Rightarrow> jobject \<Rightarrow> string \<Rightarrow> json result" where
  "checkpoint_verify_plan env valuePath expected values mode =
    (let head = [(''executor'', JStr ''workflow.checkpoint_verify''), (''valuePath'', JStr valuePath)] in
     case wf_readPath (Some (JObj values)) valuePath of
       None \<Rightarrow> if mode = ''render_only'' \<and> isDeferredRuntimePath valuePath values
         then map_sum id (\<lambda>h. JObj (head @ [(''expectedHash'', JStr h), (''deferred'', JBool True), (''plannedOnly'', JBool True)])) (renderString expected values True)
         else Inl (AppError ''VALIDATION_FAILED'')
     | Some value \<Rightarrow> if \<not> assertCheckpointValueSafe env value then Inl (AppError ''VALIDATION_FAILED'')
         else map_sum id (\<lambda>h. JObj (head @ [(''expectedHash'', JStr (toLowerCase h)), (''actualHash'', JStr (workflow_digest env value)),
           (''matched'', JBool (workflow_digest env value = toLowerCase h)), (''plannedOnly'', JBool (mode = ''render_only''))]))
           (renderString expected values (mode = ''render_only'')))"

definition plugin_plan :: "plugin_action \<Rightarrow> jobject \<Rightarrow> string \<Rightarrow> json result" where
  "plugin_plan p values mode = (let keep = (mode = ''render_only'') in
     bind_result (renderUnknown values keep (JObj (pl_input p))) (\<lambda>inp.
     bind_result (renderString (pl_idempotencyKeyRef p) values keep) (\<lambda>key.
     Inr (JObj [(''executor'', JStr ''plugin.action''), (''pluginId'', JStr (pl_pluginId p)), (''capability'', JStr (pl_capability p)),
       (''actionId'', JStr (pl_actionId p)), (''actionContractVersion'', JStr (pl_actionContractVersion p)), (''input'', inp),
       (''inputSchemaSha256'', JStr (pl_inputSchemaSha256 p)), (''outputSchemaSha256'', JStr (pl_outputSchemaSha256 p)),
       (''timeoutSeconds'', JNum (pl_timeoutSeconds p)), (''writeEffect'', JBool (pl_writeEffect p)),
       (''idempotencyKeyRef'', JStr (pl_idempotencyKeyRef p)), (''idempotencyKey'', JStr key), (''plannedOnly'', JBool keep)]))))"

definition manual_plan :: "string \<Rightarrow> jobject \<Rightarrow> string \<Rightarrow> json result" where
  "manual_plan instruction values mode = map_sum id (\<lambda>s. JObj [(''executor'', JStr ''workflow.manual''), (''instruction'', JStr s),
     (''plannedOnly'', JBool True)]) (renderString instruction values (mode = ''render_only''))"

section \<open>The plan of a step\<close>

definition adaptStep :: "wf_env \<Rightarrow> wf_step \<Rightarrow> wf_context \<Rightarrow> string \<Rightarrow> step_output option \<Rightarrow> json result" where
  "adaptStep env step ctx mode out = (case ws_body step of
     HttpBody request \<Rightarrow> http_plan step request ctx mode out
   | SshBody ssh \<Rightarrow> ssh_plan step ssh ctx mode
   | TransferBody protocol t \<Rightarrow> transfer_plan env step protocol t ctx mode
   | BrowserBody b \<Rightarrow> browser_plan b (wc_values ctx) mode
   | ConditionBody c description \<Rightarrow> condition_plan env c description (wc_values ctx) mode
   | TransformBody t \<Rightarrow> Inr (transform_plan t mode)
   | ForeachBody f steps \<Rightarrow> Inr (foreach_plan f steps (wc_values ctx) mode)
   | CheckpointBody k \<Rightarrow> checkpoint_plan env k ctx mode
   | CheckpointVerifyBody valuePath expected \<Rightarrow> checkpoint_verify_plan env valuePath expected (wc_values ctx) mode
   | PluginActionBody p \<Rightarrow> plugin_plan p (wc_values ctx) mode
   | WaitBody seconds \<Rightarrow> Inr (JObj [(''executor'', JStr ''workflow.wait''), (''seconds'', JNum seconds), (''plannedOnly'', JBool True)])
   | ManualBody instruction \<Rightarrow> manual_plan instruction (wc_values ctx) mode)"

end
