(* ===== verification/WorkflowRuntime.thy ===== *)
theory WorkflowRuntime
  imports WorkflowPlan
begin

text \<open>
  The workflow runtime of \<open>backend/src/modules/workflow-templates/domain/workflow-templates.domain-service.ts\<close>: \<open>runStep\<close>
  with its retries, \<open>runForeachStep\<close>, \<open>executeRuntime\<close> with the automatic rollback, and \<open>testStepWithDispatcher\<close>.

  The dispatcher is a parameter: it may answer every call as it likes, depending on all the calls before, or throw. The
  state of a run is the context the steps share and the calls made so far. The progress reporter, which is told the
  statuses the result contains, and the instants in a step result are left out.
\<close>

section \<open>Results and the state of a run\<close>

record run_info =
  sr_name :: string
  sr_type :: string
  sr_stage :: "string option"
  sr_status :: string
  sr_errorCode :: "string option"
  sr_errorMessage :: "string option"
  sr_attempts :: int
  sr_plan :: json
  sr_extracted :: jobject
  sr_assertions :: "assertion_result list"
  sr_logs :: "string list"

datatype step_run = StepRun (sr_info: run_info) (sr_children: "step_run list")

definition run_status :: "step_run \<Rightarrow> string" where
  "run_status r = sr_status (sr_info r)"

record rendered_step =
  rd_name :: string
  rd_type :: string
  rd_stage :: "string option"
  rd_skipped :: bool
  rd_request :: "json option"
  rd_preview :: json

record wf_dispatch =
  wd_runId :: string
  wd_step :: wf_step
  wd_plan :: json
  wd_attempt :: int
  wd_rollback :: bool
  wd_mode :: string
  wd_tenantId :: "string option"
  wd_workflowVersionId :: "string option"
  wd_authorization :: "json option"

record wf_state =
  wt_context :: wf_context
  wt_calls :: "wf_dispatch list"

record wf_runner =
  wr_env :: wf_env
  wr_input :: wf_input
  wr_runId :: string
  wr_dispatcher :: "(wf_dispatch list \<Rightarrow> wf_dispatch \<Rightarrow> step_output result) option"

type_synonym 'a wf_exec = "wf_state \<Rightarrow> 'a result \<times> wf_state"

type_synonym ran = "rendered_step \<times> step_run \<times> json"

definition wf_lift :: "'a result \<Rightarrow> 'a wf_exec" where
  "wf_lift r st = (r, st)"

definition in_context :: "(wf_context \<Rightarrow> 'a result \<times> wf_context) \<Rightarrow> 'a wf_exec" where
  "in_context f st = (case f (wt_context st) of (r, ctx) \<Rightarrow> (r, st\<lparr>wt_context := ctx\<rparr>))"

definition upd_values :: "(jobject \<Rightarrow> jobject) \<Rightarrow> wf_state \<Rightarrow> wf_state" where
  "upd_values f st = st\<lparr>wt_context := (wt_context st)\<lparr>wc_values := f (wc_values (wt_context st))\<rparr>\<rparr>"

section \<open>One step\<close>

definition emptyStepResult :: "wf_step \<Rightarrow> string \<Rightarrow> json \<Rightarrow> string list \<Rightarrow> step_run" where
  "emptyStepResult step status plan logs = StepRun \<lparr>sr_name = ws_name step, sr_type = ws_type step, sr_stage = ws_stage step, sr_status = status,
     sr_errorCode = None, sr_errorMessage = None, sr_attempts = 0, sr_plan = plan, sr_extracted = [], sr_assertions = [], sr_logs = logs\<rparr> []"

definition skipped_step :: "wf_step \<Rightarrow> ran" where
  "skipped_step step = (\<lparr>rd_name = ws_name step, rd_type = ws_type step, rd_stage = ws_stage step, rd_skipped = True, rd_request = None,
       rd_preview = JObj [(''skipped'', JBool True)]\<rparr>,
     emptyStepResult step ''skipped'' (JObj [(''skipped'', JBool True)]) [''step:skipped:condition''],
     JObj [(''skipped'', JBool True), (''reason'', JStr ''condition_not_matched'')])"

definition withWorkflowStepName :: "string \<Rightarrow> string \<Rightarrow> string" where
  "withWorkflowStepName stepName message = (if str_includes message (''step='' @ stepName) then message
     else ''step='' @ stepName @ '', '' @ message)"

definition stepOutputSuccess :: "wf_env \<Rightarrow> wf_step \<Rightarrow> step_output \<Rightarrow> jobject \<Rightarrow> bool result" where
  "stepOutputSuccess env step out values = (case ws_body step of
     HttpBody request \<Rightarrow> Inr (hq_successStatusCodes request = None \<and> hq_failOnNon2xx request = Some False
       \<or> getOrElse (wo_statusCode out) 200 \<in> set (getOrElse (hq_successStatusCodes request) [200, 201, 202, 204]))
   | SshBody _ \<Rightarrow> Inr (getOrElse (wo_exitCode out) 0 = 0)
   | ConditionBody c _ \<Rightarrow> evaluateCondition env (Some c) values ''mock''
   | CheckpointVerifyBody valuePath expected \<Rightarrow> map_sum id (\<lambda>plan. jget (asRecord (Some plan)) ''matched'' = Some (JBool True))
       (checkpoint_verify_plan env valuePath expected values ''mock'')
   | _ \<Rightarrow> Inr True)"

definition stepSnapshot :: "wf_step \<Rightarrow> string \<Rightarrow> json \<Rightarrow> jobject \<Rightarrow> json" where
  "stepSnapshot step status out extracted = JObj ([(''name'', JStr (ws_name step)), (''type'', JStr (ws_type step))] @ str_opt ''stage'' (ws_stage step)
     @ [(''status'', JStr status), (''output'', out), (''extracted'', JObj extracted)])"

definition store_snapshot :: "string \<Rightarrow> json \<Rightarrow> jobject \<Rightarrow> jobject" where
  "store_snapshot name snapshot values = AList.update ''steps'' (JObj (AList.update name snapshot (steps_of values))) values"

text \<open>A protected checkpoint is what the rollback branch of the same version reads.\<close>

definition recovery_variables :: "wf_step \<Rightarrow> json \<Rightarrow> jobject \<Rightarrow> jobject" where
  "recovery_variables step plan values = (case ws_body step of
     CheckpointBody k \<Rightarrow> (case (jget (asRecord (Some plan)) ''capture'', jget (asRecord (Some plan)) ''captureHash'') of
         (Some (JObj m), Some (JStr h)) \<Rightarrow> if kc_requiredForRollback k
           then AList.update ''variables'' (JObj (AList.update ''recoverySnapshotHash'' (JStr h) (AList.update ''recoverySnapshot'' (JObj m)
             (asRecord (jget values ''variables''))))) values else values
       | _ \<Rightarrow> values)
   | _ \<Rightarrow> values)"

definition is_transform :: "wf_step \<Rightarrow> bool" where
  "is_transform step \<longleftrightarrow> ws_type step = ''transform''"

definition dispatches :: "wf_runner \<Rightarrow> wf_step \<Rightarrow> bool" where
  "dispatches r step \<longleftrightarrow> wr_dispatcher r \<noteq> None \<and> (wi_mode (wr_input r) \<noteq> ''render_only'' \<or> wi_dispatchInRenderOnly (wr_input r))
     \<and> \<not> is_transform step"

definition renamed :: "wf_step \<Rightarrow> string \<Rightarrow> wf_step" where
  "renamed step name = WfStep name (ws_stage step) (ws_when step) (ws_retry step) (ws_extract step) (ws_assert step) (ws_body step)"

definition dispatch_of :: "wf_runner \<Rightarrow> bool \<Rightarrow> string \<Rightarrow> wf_step \<Rightarrow> json \<Rightarrow> int \<Rightarrow> wf_dispatch" where
  "dispatch_of r rollback execName step plan attempt = \<lparr>wd_runId = wr_runId r, wd_step = renamed step execName, wd_plan = plan,
     wd_attempt = attempt, wd_rollback = rollback, wd_mode = wi_mode (wr_input r), wd_tenantId = wi_tenantId (wr_input r),
     wd_workflowVersionId = (if wi_templateVersionId (wr_input r) = [] then None else Some (wi_templateVersionId (wr_input r))),
     wd_authorization = wi_authorization (wr_input r)\<rparr>"

definition dispatch_step :: "wf_runner \<Rightarrow> bool \<Rightarrow> string \<Rightarrow> wf_step \<Rightarrow> json \<Rightarrow> int \<Rightarrow> step_output option wf_exec" where
  "dispatch_step r rollback execName step plan attempt st = (if \<not> dispatches r step then (Inr None, st)
     else (let d = dispatch_of r rollback execName step plan attempt
       in (map_sum id Some (the (wr_dispatcher r) (wt_calls st) d), st\<lparr>wt_calls := wt_calls st @ [d]\<rparr>)))"

definition mock_output :: "wf_runner \<Rightarrow> bool \<Rightarrow> wf_step \<Rightarrow> int \<Rightarrow> jobject \<Rightarrow> step_output result" where
  "mock_output r rollback step attempt values =
    (let dflt = getOrElse (map_of (wi_mockResponses (wr_input r)) (ws_name step)) (defaultMockOutput step rollback attempt)
     in case ws_body step of
       TransformBody t \<Rightarrow> if wi_mode (wr_input r) \<noteq> ''render_only'' then executeTransformStep (wr_env r) t values else Inr dflt
     | _ \<Rightarrow> Inr dflt)"

definition extract_output :: "wf_runner \<Rightarrow> wf_step \<Rightarrow> step_output \<Rightarrow> bool \<Rightarrow> jobject wf_exec" where
  "extract_output r step out dispatchSucceeded st =
    (if wi_mode (wr_input r) = ''render_only'' \<or> \<not> dispatchSucceeded then (Inr [], st)
     else (case ws_body step of
       TransformBody t \<Rightarrow> in_context (readTransformOutputs t out) st
     | _ \<Rightarrow> andThen (in_context (runExtractors (wr_env r) step out) st) (\<lambda>a st.
         andThen (in_context (readBrowserExtractionOutputs step out) st) (\<lambda>b st. (Inr (spread a b), st)))))"

record attempt_outcome =
  ao_success :: bool
  ao_output :: step_output
  ao_extracted :: jobject
  ao_plan :: json
  ao_assertions :: "assertion_result list"
  ao_dispatched :: "step_output option"
  ao_values :: jobject

text \<open>The verdict on an attempt: everything up to \<open>success\<close>.\<close>

definition judge_attempt :: "wf_runner \<Rightarrow> wf_step \<Rightarrow> step_output \<Rightarrow> json \<Rightarrow> step_output option \<Rightarrow> attempt_outcome wf_exec" where
  "judge_attempt r step mock plan dispatched st =
    (let structured = normalizeStepOutput step (getOrElse dispatched mock);
         dispatchSucceeded = (case dispatched of None \<Rightarrow> True | Some out \<Rightarrow> wo_success out = Some True);
         planOnly = (wi_mode (wr_input r) = ''render_only'')
     in andThen (extract_output r step structured dispatchSucceeded st) (\<lambda>extracted st.
        let ctx = wt_context st; localValues = withCurrentStepValues (wc_values ctx) (ws_name step) extracted
        in andThen (wf_lift (if extracted \<noteq> [] then adaptStep (wr_env r) step (ctx\<lparr>wc_values := localValues\<rparr>) (wi_mode (wr_input r)) (Some structured)
              else Inr plan) st) (\<lambda>finalPlan st.
           andThen (wf_lift (if planOnly \<or> \<not> dispatchSucceeded then Inr [] else evaluateAssertions (wr_env r) (ws_assert step) structured localValues) st)
             (\<lambda>assertions st.
           andThen (wf_lift (if planOnly then Inr dispatchSucceeded
                else if \<not> dispatchSucceeded \<or> \<not> list_all ar_passed assertions then Inr False
                else stepOutputSuccess (wr_env r) step structured localValues) st) (\<lambda>success st.
           (Inr \<lparr>ao_success = success, ao_output = structured, ao_extracted = extracted, ao_plan = finalPlan, ao_assertions = assertions,
              ao_dispatched = dispatched, ao_values = localValues\<rparr>, st))))))"

definition attempt_step :: "wf_runner \<Rightarrow> bool \<Rightarrow> string \<Rightarrow> wf_step \<Rightarrow> int \<Rightarrow> attempt_outcome wf_exec" where
  "attempt_step r rollback execName step attempt st =
     andThen (wf_lift (mock_output r rollback step attempt (wc_values (wt_context st))) st) (\<lambda>mock st.
     andThen (wf_lift (adaptStep (wr_env r) step (wt_context st) (wi_mode (wr_input r)) (Some (normalizeStepOutput step mock))) st) (\<lambda>plan st.
     andThen (dispatch_step r rollback execName step plan attempt (upd_values (recovery_variables step plan) st)) (\<lambda>dispatched.
     judge_attempt r step mock plan dispatched)))"

definition failed_assertions :: "attempt_outcome \<Rightarrow> assertion_result list" where
  "failed_assertions o1 = filter (\<lambda>a. \<not> ar_passed a) (ao_assertions o1)"

definition attempt_logs :: "wf_step \<Rightarrow> int \<Rightarrow> attempt_outcome \<Rightarrow> string list" where
  "attempt_logs step attempt o1 = [''step:'' @ ws_name step @ '':attempt:'' @ int_to_string attempt @ '':status:'' @ (if ao_success o1 then ''success'' else ''failed'')]
     @ getOrElse (Option.bind (ao_dispatched o1) wo_logs) []
     @ map (\<lambda>a. ''assertion:'' @ ar_type a @ '':failed:'' @ ar_message a) (failed_assertions o1)"

definition attempt_result :: "wf_runner \<Rightarrow> wf_step \<Rightarrow> int \<Rightarrow> attempt_outcome \<Rightarrow> wf_context \<Rightarrow> step_run" where
  "attempt_result r step attempt o1 ctx =
    (let failed = \<not> ao_success o1; bad = failed_assertions o1; secretPaths = wc_secretPaths ctx; values = ao_values o1;
         message = (if failed \<and> truthy (Option.bind (ao_dispatched o1) wo_errorMessage)
           then Some (withWorkflowStepName (ws_name step) (the (Option.bind (ao_dispatched o1) wo_errorMessage))) else None);
         code = (if failed \<and> truthy (Option.bind (ao_dispatched o1) wo_errorCode) then Option.bind (ao_dispatched o1) wo_errorCode else None);
         asserted = (failed \<and> bad \<noteq> [])
     in StepRun \<lparr>sr_name = ws_name step, sr_type = ws_type step, sr_stage = ws_stage step, sr_status = (if failed then ''failed'' else ''success''),
          sr_errorCode = (if asserted then Some ''WORKFLOW_ASSERTION_FAILED'' else code),
          sr_errorMessage = (if asserted then Some (''assertion failed: step='' @ ws_name step @ '', ''
             @ join ''; '' (map (\<lambda>a. ar_type a @ '' '' @ ar_message a) bad)) else message),
          sr_attempts = attempt, sr_plan = maskUnknown (wr_env r) secretPaths values (ao_plan o1),
          sr_extracted = asRecord (Some (maskUnknown (wr_env r) secretPaths values (JObj (ao_extracted o1)))),
          sr_assertions = ao_assertions o1, sr_logs = map (\<lambda>l. maskText l secretPaths values) (attempt_logs step attempt o1)\<rparr> [])"

definition record_outputs :: "wf_step \<Rightarrow> jobject \<Rightarrow> wf_context \<Rightarrow> wf_context" where
  "record_outputs step extracted ctx = ctx\<lparr>wc_outputs := fold (\<lambda>(k, v). AList.update (ws_name step @ ''.'' @ k) v) extracted (wc_outputs ctx)\<rparr>"

definition finish_step :: "wf_runner \<Rightarrow> wf_step \<Rightarrow> int \<Rightarrow> attempt_outcome \<Rightarrow> ran wf_exec" where
  "finish_step r step attempt o1 st =
    (let ctx = wt_context st; result = attempt_result r step attempt o1 ctx; out = JObj (output_json (ao_output o1));
         snapshot = stepSnapshot step (run_status result) out (ao_extracted o1);
         st = upd_values (store_snapshot (ws_name step) snapshot) (st\<lparr>wt_context := record_outputs step (ao_extracted o1) ctx\<rparr>);
         mask = maskUnknown (wr_env r) (wc_secretPaths ctx) (wc_values (wt_context st))
     in (Inr (\<lparr>rd_name = ws_name step, rd_type = ws_type step, rd_stage = ws_stage step, rd_skipped = False, rd_request = Some (mask (ao_plan o1)),
            rd_preview = mask (ao_plan o1)\<rparr>, result, mask out), st))"

text \<open>The attempts left, and the number of the next one.\<close>

fun run_attempts :: "wf_runner \<Rightarrow> bool \<Rightarrow> string \<Rightarrow> wf_step \<Rightarrow> nat \<Rightarrow> int \<Rightarrow> ran wf_exec" where
  "run_attempts r rollback execName step 0 attempt st = (Inl (AppError ''SYSTEM_INTERNAL_ERROR''), st)"
| "run_attempts r rollback execName step (Suc n) attempt st =
     andThen (attempt_step r rollback execName step attempt st) (\<lambda>o1 st.
       if ao_success o1 \<or> n = 0 then finish_step r step attempt o1 st else run_attempts r rollback execName step n (attempt + 1) st)"

definition attempts_of :: "wf_step \<Rightarrow> nat" where
  "attempts_of step = nat (getOrElse (Option.bind (ws_retry step) rt_count) 0 + 1)"

section \<open>Loops over a list\<close>

record iteration =
  it_index :: int
  it_status :: string
  it_steps :: "step_run list"
  it_outputs :: "json list"

record foreach_acc =
  fa_iterations :: "iteration list"
  fa_logs :: "string list"
  fa_failed :: "step_run option"

record children_acc =
  ca_results :: "step_run list"
  ca_outputs :: "json list"
  ca_logs :: "string list"

definition index_name :: "string \<Rightarrow> int \<Rightarrow> string \<Rightarrow> string" where
  "index_name name index child = name @ ''['' @ int_to_string index @ ''].'' @ child"

definition set_item :: "foreach_config \<Rightarrow> int \<Rightarrow> json \<Rightarrow> jobject \<Rightarrow> jobject" where
  "set_item f index item values = (let values = AList.update (fe_itemVariable f) item values in
     if truthy (fe_indexVariable f) then AList.update (the (fe_indexVariable f)) (JNum index) values else values)"

definition restoreContextValue :: "string \<Rightarrow> json option \<Rightarrow> jobject \<Rightarrow> jobject" where
  "restoreContextValue key previous values = (case previous of Some v \<Rightarrow> AList.update key v values | None \<Rightarrow> AList.delete key values)"

definition restore_item :: "foreach_config \<Rightarrow> jobject \<Rightarrow> jobject \<Rightarrow> jobject" where
  "restore_item f before values = (let values = restoreContextValue (fe_itemVariable f) (jget before (fe_itemVariable f)) values in
     if truthy (fe_indexVariable f)
     then restoreContextValue (the (fe_indexVariable f)) (jget before (the (fe_indexVariable f))) values else values)"

definition add_child :: "string \<Rightarrow> int \<Rightarrow> wf_step \<Rightarrow> ran \<Rightarrow> children_acc \<Rightarrow> children_acc" where
  "add_child name index child rn acc = (case rn of (rendered, result, out) \<Rightarrow> acc\<lparr>ca_results := ca_results acc @ [result],
     ca_outputs := ca_outputs acc @ [JObj [(''name'', JStr (ws_name child)), (''output'', out), (''extracted'', JObj (sr_extracted (sr_info result)))]],
     ca_logs := ca_logs acc @ map (\<lambda>l. ''foreach:'' @ name @ '':index:'' @ int_to_string index @ '':'' @ l) (sr_logs (sr_info result))\<rparr>)"

definition no_children :: children_acc where
  "no_children = \<lparr>ca_results = [], ca_outputs = [], ca_logs = []\<rparr>"

definition add_iteration :: "foreach_config \<Rightarrow> int \<Rightarrow> children_acc \<Rightarrow> step_run option \<Rightarrow> foreach_acc \<Rightarrow> foreach_acc" where
  "add_iteration f index children failed acc = \<lparr>fa_iterations = fa_iterations acc @ [\<lparr>it_index = index,
       it_status = (if failed \<noteq> None then ''failed'' else if list_all (\<lambda>x. run_status x = ''skipped'') (ca_results children) then ''skipped'' else ''success''),
       it_steps = ca_results children, it_outputs = ca_outputs children\<rparr>],
     fa_logs = fa_logs acc @ ca_logs children, fa_failed = (if fe_continueOnError f then None else failed)\<rparr>"

fun step_run_json :: "step_run \<Rightarrow> json" where
  "step_run_json (StepRun i children) = JObj ([(''name'', JStr (sr_name i)), (''type'', JStr (sr_type i))] @ str_opt ''stage'' (sr_stage i)
     @ [(''status'', JStr (sr_status i))] @ str_opt ''errorCode'' (sr_errorCode i) @ str_opt ''errorMessage'' (sr_errorMessage i)
     @ [(''attempts'', JNum (sr_attempts i)), (''plan'', sr_plan i), (''extracted'', JObj (sr_extracted i)),
        (''assertions'', JArr (map (\<lambda>a. JObj [(''type'', JStr (ar_type a)), (''passed'', JBool (ar_passed a)), (''message'', JStr (ar_message a))]) (sr_assertions i))),
        (''logs'', JArr (map JStr (sr_logs i)))]
     @ (if children = [] then [] else [(''children'', JArr (map step_run_json children))]))"

definition iteration_json :: "iteration \<Rightarrow> json" where
  "iteration_json it = JObj [(''index'', JNum (it_index it)), (''status'', JStr (it_status it)), (''steps'', JArr (map step_run_json (it_steps it))),
     (''outputs'', JArr (it_outputs it))]"

definition child_result :: "string \<Rightarrow> int \<Rightarrow> step_run \<Rightarrow> step_run" where
  "child_result name index c = StepRun ((sr_info c)\<lparr>sr_name := index_name name index (sr_name (sr_info c))\<rparr>) (sr_children c)"

definition foreach_result :: "wf_runner \<Rightarrow> wf_step \<Rightarrow> json \<Rightarrow> nat \<Rightarrow> foreach_acc \<Rightarrow> wf_context \<Rightarrow> step_run" where
  "foreach_result r step plan items acc ctx =
    (let status = (if fa_failed acc = None then ''success'' else ''failed'')
     in StepRun \<lparr>sr_name = ws_name step, sr_type = ws_type step, sr_stage = ws_stage step, sr_status = status,
          sr_errorCode = Option.bind (fa_failed acc) (\<lambda>x. sr_errorCode (sr_info x)),
          sr_errorMessage = Option.bind (fa_failed acc) (\<lambda>x. sr_errorMessage (sr_info x)), sr_attempts = 1,
          sr_plan = maskUnknown (wr_env r) (wc_secretPaths ctx) (wc_values ctx) plan, sr_extracted = [], sr_assertions = [],
          sr_logs = map (\<lambda>l. maskText l (wc_secretPaths ctx) (wc_values ctx))
            ((''foreach:'' @ ws_name step @ '':count:'' @ int_to_string (int items) @ '':completed:'' @ int_to_string (int (length (fa_iterations acc)))
              @ '':status:'' @ status) # fa_logs acc)\<rparr>
        (concat (map (\<lambda>it. map (child_result (ws_name step) (it_index it)) (it_steps it)) (fa_iterations acc))))"

definition finish_foreach :: "wf_runner \<Rightarrow> wf_step \<Rightarrow> foreach_config \<Rightarrow> wf_step list \<Rightarrow> nat \<Rightarrow> foreach_acc \<Rightarrow> ran wf_exec" where
  "finish_foreach r step f steps items acc st =
    (let ctx = wt_context st; plan = foreach_plan f steps (wc_values ctx) (wi_mode (wr_input r)); result = foreach_result r step plan items acc ctx;
         out = JObj [(''count'', JNum (int items)), (''completed'', JNum (int (length (fa_iterations acc)))),
           (''iterations'', JArr (map iteration_json (fa_iterations acc)))];
         st = upd_values (store_snapshot (ws_name step) (stepSnapshot step (run_status result) out [])) st;
         mask = maskUnknown (wr_env r) (wc_secretPaths ctx) (wc_values (wt_context st))
     in (Inr (\<lparr>rd_name = ws_name step, rd_type = ws_type step, rd_stage = ws_stage step, rd_skipped = False, rd_request = Some (mask plan),
            rd_preview = mask plan\<rparr>, result, mask out), st))"

definition renderDeferredForeachStep :: "wf_runner \<Rightarrow> wf_step \<Rightarrow> foreach_config \<Rightarrow> wf_step list \<Rightarrow> ran wf_exec" where
  "renderDeferredForeachStep r step f steps st =
    (let ctx = wt_context st; plan = maskUnknown (wr_env r) (wc_secretPaths ctx) (wc_values ctx) (foreach_plan f steps (wc_values ctx) ''render_only'');
         out = JObj [(''deferred'', JBool True), (''itemsPath'', JStr (fe_itemsPath f))];
         result = StepRun \<lparr>sr_name = ws_name step, sr_type = ws_type step, sr_stage = ws_stage step, sr_status = ''success'', sr_errorCode = None,
           sr_errorMessage = None, sr_attempts = 1, sr_plan = plan, sr_extracted = [], sr_assertions = [],
           sr_logs = [''foreach:'' @ ws_name step @ '':deferred:'' @ fe_itemsPath f @ '':status:success'']\<rparr> []
     in (Inr (\<lparr>rd_name = ws_name step, rd_type = ws_type step, rd_stage = ws_stage step, rd_skipped = False, rd_request = Some plan, rd_preview = plan\<rparr>,
          result, out), upd_values (store_snapshot (ws_name step) (stepSnapshot step ''success'' out [])) st))"

text \<open>\<open>runStep\<close>; the loop over the items of a \<open>foreach\<close>; and the loop over its steps for one item.\<close>

function (sequential) run_step :: "wf_runner \<Rightarrow> bool \<Rightarrow> string \<Rightarrow> wf_step \<Rightarrow> ran wf_exec"
  and run_items :: "wf_runner \<Rightarrow> bool \<Rightarrow> string \<Rightarrow> foreach_config \<Rightarrow> wf_step list \<Rightarrow> int \<Rightarrow> json list \<Rightarrow> foreach_acc \<Rightarrow> foreach_acc wf_exec"
  and run_children :: "wf_runner \<Rightarrow> bool \<Rightarrow> string \<Rightarrow> int \<Rightarrow> wf_step list \<Rightarrow> children_acc \<Rightarrow> (children_acc \<times> step_run option) wf_exec" where
  "run_step r rollback execName step st =
    (case evaluateCondition (wr_env r) (ws_when step) (wc_values (wt_context st)) (wi_mode (wr_input r)) of
       Inl e \<Rightarrow> (Inl e, st)
     | Inr False \<Rightarrow> (Inr (skipped_step step), st)
     | Inr True \<Rightarrow> (case ws_body step of
         ForeachBody f steps \<Rightarrow>
           (let before = wc_values (wt_context st); items = wf_readPath (Some (JObj before)) (fe_itemsPath f) in
            if wi_mode (wr_input r) = ''render_only'' \<and> items = None \<and> isDeferredRuntimePath (fe_itemsPath f) before
            then renderDeferredForeachStep r step f steps st
            else (case items of
              Some (JArr xs) \<Rightarrow>
                if int (length xs) > getOrElse (fe_maxItems f) 100 then (Inl (AppError ''VALIDATION_FAILED''), st)
                else (case run_items r rollback (ws_name step) f steps 0 xs \<lparr>fa_iterations = [], fa_logs = [], fa_failed = None\<rparr> st of
                  (Inl e, st) \<Rightarrow> (Inl e, upd_values (restore_item f before) st)
                | (Inr acc, st) \<Rightarrow> finish_foreach r step f steps (length xs) acc (upd_values (restore_item f before) st))
            | _ \<Rightarrow> (Inl (AppError ''VALIDATION_FAILED''), st)))
       | _ \<Rightarrow> run_attempts r rollback execName step (attempts_of step) 1 st))"
| "run_items r rollback name f steps index [] acc st = (Inr acc, st)"
| "run_items r rollback name f steps index (x # xs) acc st =
     andThen (run_children r rollback name index steps no_children (upd_values (set_item f index x) st)) (\<lambda>(children, failed) st.
       let acc = add_iteration f index children failed acc in
       if failed \<noteq> None \<and> \<not> fe_continueOnError f then (Inr acc, st) else run_items r rollback name f steps (index + 1) xs acc st)"
| "run_children r rollback name index [] acc st = (Inr (acc, None), st)"
| "run_children r rollback name index (c # cs) acc st =
     andThen (run_step r rollback (index_name name index (ws_name c)) c st) (\<lambda>rn st.
       let acc = add_child name index c rn acc in
       if run_status (fst (snd rn)) = ''failed'' then (Inr (acc, Some (fst (snd rn))), st)
       else run_children r rollback name index cs acc st)"
  by pat_completeness auto
termination
  by (relation "inv_image (less_than <*lex*> less_than) (\<lambda>x. case x of
      Inl (r, b, n, s, st) \<Rightarrow> (size s, 0)
    | Inr (Inl (r, b, n, f, steps, i, items, acc, st)) \<Rightarrow> (size_list size steps, length items)
    | Inr (Inr (r, b, n, i, steps, acc, st)) \<Rightarrow> (size_list size steps, 0))")
    (auto, (case_tac step; simp)+)

section \<open>A run\<close>

record run_result =
  rr_mode :: string
  rr_executionBranch :: string
  rr_plannedOnly :: bool
  rr_status :: string
  rr_renderedSteps :: "rendered_step list"
  rr_stepResults :: "step_run list"
  rr_rollbackResults :: "step_run list"
  rr_logs :: "string list"

record branch_acc =
  ba_rendered :: "rendered_step list"
  ba_results :: "step_run list"
  ba_logs :: "string list"
  ba_failed :: bool

definition add_ran :: "ran \<Rightarrow> branch_acc \<Rightarrow> branch_acc" where
  "add_ran rn acc = (case rn of (rendered, result, out) \<Rightarrow> \<lparr>ba_rendered = ba_rendered acc @ [rendered], ba_results = ba_results acc @ [result],
     ba_logs = ba_logs acc @ sr_logs (sr_info result), ba_failed = (run_status result = ''failed'')\<rparr>)"

fun run_branch :: "wf_runner \<Rightarrow> bool \<Rightarrow> wf_step list \<Rightarrow> branch_acc \<Rightarrow> branch_acc wf_exec" where
  "run_branch r rollback [] acc st = (Inr acc, st)"
| "run_branch r rollback (s # ss) acc st = andThen (run_step r rollback (ws_name s) s st) (\<lambda>rn st.
     let acc = add_ran rn acc in if ba_failed acc then (Inr acc, st) else run_branch r rollback ss acc st)"

definition no_branch :: branch_acc where
  "no_branch = \<lparr>ba_rendered = [], ba_results = [], ba_logs = [], ba_failed = False\<rparr>"

record wf_content =
  wn_kind :: string
  wn_steps :: "wf_step list"
  wn_rollback :: "wf_step list option"

record wf_version =
  wv_id :: string
  wv_executionMode :: "string option"
  wv_content :: wf_content

definition run_guards :: "wf_version \<Rightarrow> unit result" where
  "run_guards version = (if wv_executionMode version = Some ''PLUGIN_RUNNER'' \<or> wn_kind (wv_content version) = ''PluginWorkflow''
     \<or> wn_kind (wv_content version) \<noteq> ''CurlSshWorkflow'' then Inl (AppError ''PLUGIN_WORKFLOW_LEGACY_EXECUTOR_FORBIDDEN'') else Inr ())"

text \<open>The automatic rollback runs only when the caller named no branch.\<close>

definition rollback_after :: "wf_runner \<Rightarrow> wf_content \<Rightarrow> branch_acc \<Rightarrow> branch_acc wf_exec" where
  "rollback_after r content acc st = (case wn_rollback content of
     Some (s # ss) \<Rightarrow> if wi_executionBranch (wr_input r) = None \<and> ba_failed acc
       then andThen (run_branch r True (s # ss) no_branch st) (\<lambda>rb st. (Inr (rb\<lparr>ba_logs := ''rollback:started'' # ba_logs rb\<rparr>), st))
       else (Inr no_branch, st)
   | _ \<Rightarrow> (Inr no_branch, st))"

definition final_status :: "bool \<Rightarrow> step_run list \<Rightarrow> string" where
  "final_status failed rollbackResults = (if \<not> failed then ''success''
     else if rollbackResults \<noteq> [] \<and> list_all (\<lambda>x. run_status x \<noteq> ''failed'') rollbackResults then ''rolled_back'' else ''failed'')"

definition finish_run :: "wf_runner \<Rightarrow> string \<Rightarrow> branch_acc \<Rightarrow> branch_acc \<Rightarrow> wf_context \<Rightarrow> run_result" where
  "finish_run r branch acc rb ctx = (let rollbackResults = (if branch = ''rollback'' then ba_results acc else []) @ ba_results rb
     in \<lparr>rr_mode = wi_mode (wr_input r), rr_executionBranch = branch, rr_plannedOnly = (wi_mode (wr_input r) = ''render_only''),
         rr_status = final_status (ba_failed acc) rollbackResults, rr_renderedSteps = ba_rendered acc,
         rr_stepResults = (if branch = ''rollback'' then [] else ba_results acc), rr_rollbackResults = rollbackResults,
         rr_logs = map (\<lambda>l. maskText l (wc_secretPaths ctx) (wc_values ctx)) (ba_logs acc @ ba_logs rb)\<rparr>)"

definition run_content :: "wf_runner \<Rightarrow> wf_content \<Rightarrow> run_result wf_exec" where
  "run_content r content st = (let branch = getOrElse (wi_executionBranch (wr_input r)) ''deploy'' in
     andThen (wf_lift (resolveExecutionBranch (wn_steps content) (wn_rollback content) branch) st) (\<lambda>branchSteps st.
     andThen (run_branch r (branch = ''rollback'') (orderStepsByStage branchSteps) no_branch st) (\<lambda>acc st.
     andThen (rollback_after r content acc st) (\<lambda>rb st.
     (Inr (finish_run r branch acc rb (wt_context st)), st)))))"

definition executeRuntime :: "wf_runner \<Rightarrow> wf_version \<Rightarrow> run_result result \<times> wf_dispatch list" where
  "executeRuntime r version = (case run_guards version of Inl e \<Rightarrow> (Inl e, []) | Inr _ \<Rightarrow>
     (case buildRuntimeContextFromResolvedInput (wr_input r) of Inl e \<Rightarrow> (Inl e, []) | Inr ctx \<Rightarrow>
      (case run_content r (wv_content version) \<lparr>wt_context = ctx, wt_calls = []\<rparr> of (res, st) \<Rightarrow> (res, wt_calls st))))"

definition preview :: "wf_runner \<Rightarrow> wf_version \<Rightarrow> run_result result \<times> wf_dispatch list" where
  "preview r version = executeRuntime (r\<lparr>wr_input := (wr_input r)\<lparr>wi_mode := ''render_only''\<rparr>, wr_dispatcher := None\<rparr>) version"

definition testStepWithDispatcher :: "wf_runner \<Rightarrow> wf_content \<Rightarrow> string \<Rightarrow> (ran \<times> string list) result \<times> wf_dispatch list" where
  "testStepWithDispatcher r content stepName =
    (case orElse (find (\<lambda>s. ws_name s = stepName) (wn_steps content)) (find (\<lambda>s. ws_name s = stepName) (getOrElse (wn_rollback content) [])) of
       None \<Rightarrow> (Inl (AppError ''RESOURCE_NOT_FOUND''), [])
     | Some step \<Rightarrow> (case buildRuntimeContextFromResolvedInput (wr_input r) of Inl e \<Rightarrow> (Inl e, []) | Inr ctx \<Rightarrow>
         (let r = r\<lparr>wr_input := (wr_input r)\<lparr>wi_templateVersionId := ''single-step-preview''\<rparr>\<rparr> in
          case run_step r False (ws_name step) step \<lparr>wt_context = ctx, wt_calls = []\<rparr> of
            (Inl e, st) \<Rightarrow> (Inl e, wt_calls st)
          | (Inr rn, st) \<Rightarrow> (Inr (rn, map (\<lambda>l. maskText l (wc_secretPaths (wt_context st)) (wc_values (wt_context st)))
              (sr_logs (sr_info (fst (snd rn))))), wt_calls st))))"

end
