(* ===== verification/WorkflowProperties.thy ===== *)
theory WorkflowProperties
  imports WorkflowRuntime
begin

text \<open>
  Properties of the workflow runtime: which calls a run makes of the dispatcher, what it reports, when it rolls back, and
  what it hides. The locale \<open>call_relation\<close> is the contract between a run and an observer of its calls: a relation that
  every single call respects is respected by a whole run.
\<close>

section \<open>The calls of a run\<close>

lemma wf_lift_simps [simp]: "fst (wf_lift r st) = r" "snd (wf_lift r st) = st"
  by (simp_all add: wf_lift_def)

lemma upd_values_calls [simp]: "wt_calls (upd_values f st) = wt_calls st"
  by (simp add: upd_values_def)

lemma in_context_calls [simp]: "wt_calls (snd (in_context f st)) = wt_calls st"
  by (simp add: in_context_def split: prod.splits)

lemma calls_andThen:
  "wt_calls (snd m) = c \<Longrightarrow> (\<And>x s. wt_calls s = c \<Longrightarrow> wt_calls (snd (k x s)) = c) \<Longrightarrow> wt_calls (snd (andThen m k)) = c"
  by (rule andThen_inv [where P = "\<lambda>s. wt_calls s = c"])

lemma extract_calls [simp]: "wt_calls (snd (extract_output r step out ok st)) = wt_calls st"
  by (auto simp: extract_output_def intro!: calls_andThen split: wf_body.splits)

lemma judge_calls [simp]: "wt_calls (snd (judge_attempt r step mock plan dispatched st)) = wt_calls st"
  by (auto simp: judge_attempt_def Let_def intro!: calls_andThen)

lemma finish_calls [simp]: "wt_calls (snd (finish_step r step attempt o1 st)) = wt_calls st"
  "wt_calls (snd (finish_foreach r step f steps n acc st)) = wt_calls st"
  "wt_calls (snd (renderDeferredForeachStep r step f steps st)) = wt_calls st"
  by (simp_all add: finish_step_def finish_foreach_def renderDeferredForeachStep_def Let_def)

locale call_relation =
  fixes r :: wf_runner and rollback :: bool and R :: "wf_state \<Rightarrow> wf_state \<Rightarrow> bool"
  assumes R_same: "wt_calls t = wt_calls s \<Longrightarrow> R s t"
    and R_trans: "R s t \<Longrightarrow> R t u \<Longrightarrow> R s u"
    and R_call: "dispatches r step \<Longrightarrow> adaptStep (wr_env r) step ctx (wi_mode (wr_input r)) out = Inr plan \<Longrightarrow>
      1 \<le> attempt \<Longrightarrow> attempt \<le> int (attempts_of step) \<Longrightarrow>
      R st (st\<lparr>wt_calls := wt_calls st @ [dispatch_of r rollback execName step plan attempt]\<rparr>)"
begin

lemma R_refl: "R s s"
  by (rule R_same) simp

lemma R_andThen: "R s (snd m) \<Longrightarrow> (\<And>x t. m = (Inr x, t) \<Longrightarrow> R t (snd (k x t))) \<Longrightarrow> R s (snd (andThen m k))"
  by (rule andThen_rel [where R = R]) (auto intro: R_trans)

lemma R_dispatch:
  assumes "adaptStep (wr_env r) step ctx (wi_mode (wr_input r)) out = Inr plan" and "1 \<le> attempt" and "attempt \<le> int (attempts_of step)"
  shows "R st (snd (dispatch_step r rollback execName step plan attempt st))"
  using R_call [OF _ assms] by (auto simp: dispatch_step_def Let_def intro: R_refl)

lemma R_attempt:
  assumes "1 \<le> attempt" and "attempt \<le> int (attempts_of step)"
  shows "R st (snd (attempt_step r rollback execName step attempt st))"
  unfolding attempt_step_def
proof (rule R_andThen, goal_cases)
  case 1
  show ?case by (rule R_same) simp
next
  case (2 mock t)
  show ?case
  proof (rule R_andThen, goal_cases)
    case 1
    show ?case by (rule R_same) simp
  next
    case (2 plan u)
    then have plan: "adaptStep (wr_env r) step (wt_context t) (wi_mode (wr_input r)) (Some (normalizeStepOutput step mock)) = Inr plan"
      by (auto simp: wf_lift_def)
    have "R u (upd_values (recovery_variables step plan) u)" by (rule R_same) simp
    then have "R u (snd (dispatch_step r rollback execName step plan attempt (upd_values (recovery_variables step plan) u)))"
      using R_dispatch [OF plan assms] by (rule R_trans)
    then show ?case by (rule R_andThen) (simp add: R_same)
  qed
qed

lemma R_attempts: "1 \<le> attempt \<Longrightarrow> attempt + int n = int (attempts_of step) + 1 \<Longrightarrow> R st (snd (run_attempts r rollback execName step n attempt st))"
proof (induction n arbitrary: attempt st)
  case 0
  then show ?case by (simp add: R_refl)
next
  case (Suc n)
  show ?case
    unfolding run_attempts.simps
  proof (rule R_andThen, goal_cases)
    case 1
    show ?case using Suc.prems by (intro R_attempt) auto
  next
    case (2 o1 t)
    then show ?case using Suc.IH [of "attempt + 1" t] Suc.prems by (auto intro: R_same)
  qed
qed

lemma R_run_all:
  "r' = r \<Longrightarrow> b = rollback \<Longrightarrow> R st (snd (run_step r' b execName step st))"
  "r' = r \<Longrightarrow> b = rollback \<Longrightarrow> R st (snd (run_items r' b name f steps index items acc st))"
  "r' = r \<Longrightarrow> b = rollback \<Longrightarrow> R st (snd (run_children r' b name index steps cacc st))"
proof (induction r' b execName step st and r' b name f steps index items acc st and r' b name index steps cacc st
    rule: run_step_run_items_run_children.induct)
  case (1 r' b execName step st)
  have attempts: "R st (snd (run_attempts r b execName step (attempts_of step) 1 st))"
    using 1(3) by (auto intro!: R_attempts)
  show ?case
  proof (cases "ws_body step")
    case (ForeachBody f steps)
    let ?before = "wc_values (wt_context st)" and ?acc = "\<lparr>fa_iterations = [], fa_logs = [], fa_failed = None\<rparr>"
    have loop: "R st (snd (run_items r' b (ws_name step) f steps 0 xs ?acc st))"
      if "evaluateCondition (wr_env r') (ws_when step) ?before (wi_mode (wr_input r')) = Inr True"
        "wf_readPath (Some (JObj ?before)) (fe_itemsPath f) = Some (JArr xs)" "\<not> getOrElse (fe_maxItems f) 100 < int (length xs)" for xs
      using 1(1) [OF that(1) refl ForeachBody refl refl _ that(2) refl that(3) 1(2,3)] that(2) by simp
    have over: "R st t" if "wt_calls t = wt_calls (snd (run_items r' b (ws_name step) f steps 0 xs ?acc st))"
        "evaluateCondition (wr_env r') (ws_when step) ?before (wi_mode (wr_input r')) = Inr True"
        "wf_readPath (Some (JObj ?before)) (fe_itemsPath f) = Some (JArr xs)" "\<not> getOrElse (fe_maxItems f) 100 < int (length xs)" for t xs
      by (rule R_trans [OF loop [OF that(2-4)] R_same [OF that(1)]])
    show ?thesis
      by (auto simp: ForeachBody Let_def R_refl intro: R_same split: sum.splits bool.splits option.splits json.splits prod.splits)
        (auto intro!: over)
  qed (use attempts 1(2) in \<open>auto simp: R_refl split: sum.splits bool.splits\<close>)
next
  case (3 r' b name f steps index x xs acc st)
  have "R st (upd_values (set_item f index x) st)" by (rule R_same) simp
  from R_trans [OF this 3(1) [OF 3(3,4)]] show ?case
    unfolding run_items.simps by (rule R_andThen) (use 3(2-4) in \<open>auto simp: Let_def R_refl\<close>)
next
  case (5 r' b name index c cs acc st)
  from 5(1) [OF 5(3,4)] show ?case
    unfolding run_children.simps by (rule R_andThen) (use 5(2-4) in \<open>auto simp: Let_def R_refl\<close>)
qed (simp_all add: R_refl)

lemma R_run: "R st (snd (run_step r rollback execName step st))"
  by (rule R_run_all) simp_all

lemma R_branch: "R st (snd (run_branch r rollback steps acc st))"
proof (induction steps arbitrary: acc st)
  case Nil
  then show ?case by (simp add: R_refl)
next
  case (Cons s ss)
  show ?case unfolding run_branch.simps by (rule R_andThen [OF R_run]) (auto simp: Let_def R_refl Cons.IH)
qed

end

declare run_step.simps [simp del] run_items.simps [simp del] run_children.simps [simp del] run_branch.simps [simp del] run_attempts.simps [simp del]

text \<open>A call the runtime may make for a step in a mode: the plan is the one \<open>adaptStep\<close> built.\<close>

definition issued :: "wf_runner \<Rightarrow> bool \<Rightarrow> wf_dispatch \<Rightarrow> bool" where
  "issued r rollback d \<longleftrightarrow> (\<exists>step ctx out execName plan attempt. dispatches r step \<and>
     adaptStep (wr_env r) step ctx (wi_mode (wr_input r)) out = Inr plan \<and> 1 \<le> attempt \<and> attempt \<le> int (attempts_of step) \<and>
     d = dispatch_of r rollback execName step plan attempt)"

definition extended_by :: "(wf_dispatch \<Rightarrow> bool) \<Rightarrow> wf_state \<Rightarrow> wf_state \<Rightarrow> bool" where
  "extended_by P s t \<longleftrightarrow> (\<exists>ds. wt_calls t = wt_calls s @ ds \<and> list_all P ds)"

lemma extended_by_call: "P d \<Longrightarrow> extended_by P s (s\<lparr>wt_calls := wt_calls s @ [d]\<rparr>)"
  by (simp add: extended_by_def)

interpretation issue: call_relation r rollback "extended_by (issued r rollback)" for r rollback
proof unfold_locales
  fix step ctx out plan attempt st execName
  assume "dispatches r step" "adaptStep (wr_env r) step ctx (wi_mode (wr_input r)) out = Inr plan" "1 \<le> attempt" "attempt \<le> int (attempts_of step)"
  then show "extended_by (issued r rollback) st (st\<lparr>wt_calls := wt_calls st @ [dispatch_of r rollback execName step plan attempt]\<rparr>)"
    by (intro extended_by_call) (unfold issued_def, blast)
qed (force simp: extended_by_def)+

lemma extended_by_mono: "(\<And>d. P d \<Longrightarrow> Q d) \<Longrightarrow> extended_by P s t \<Longrightarrow> extended_by Q s t"
  by (auto simp: extended_by_def list_all_iff)

lemma extended_by_refl: "extended_by P s s"
  by (simp add: extended_by_def)

lemma extended_by_trans: "extended_by P s t \<Longrightarrow> extended_by P t u \<Longrightarrow> extended_by P s u"
  by (force simp: extended_by_def)

lemma branch_calls: "run_branch r rollback steps acc st = (res, st') \<Longrightarrow> extended_by (issued r rollback) st st'"
  using issue.R_branch [of r rollback st steps acc] by simp

lemma rollback_calls: "rollback_after r content acc st = (res, st') \<Longrightarrow> extended_by (issued r True) st st'"
  unfolding rollback_after_def
  by (auto simp: extended_by_refl andThen_def dest!: branch_calls split: option.splits list.splits if_splits prod.splits sum.splits)

lemma content_calls:
  assumes "run_content r content st = (res, st')"
  shows "extended_by (\<lambda>d. \<exists>b. issued r b d) st st'"
proof -
  have "extended_by (\<lambda>d. \<exists>b. issued r b d) st (snd (run_content r content st))"
    unfolding run_content_def Let_def
    by (intro andThen_rel [where R = "extended_by (\<lambda>d. \<exists>b. issued r b d)"])
      (auto simp: extended_by_refl intro: extended_by_mono [OF _ branch_calls] extended_by_mono [OF _ rollback_calls] surjective_pairing extended_by_trans)
  then show ?thesis using assms by simp
qed

lemma execute_calls:
  assumes "d \<in> set (snd (executeRuntime r version))"
  obtains b where "issued r b d"
proof -
  have "\<exists>ctx. d \<in> set (wt_calls (snd (run_content r (wv_content version) \<lparr>wt_context = ctx, wt_calls = []\<rparr>)))"
    using assms by (auto simp: executeRuntime_def split: sum.splits prod.splits) (metis snd_conv)
  then obtain ctx where "d \<in> set (wt_calls (snd (run_content r (wv_content version) \<lparr>wt_context = ctx, wt_calls = []\<rparr>)))" ..
  then show ?thesis using that content_calls [of r "wv_content version" "\<lparr>wt_context = ctx, wt_calls = []\<rparr>", OF surjective_pairing] by (force simp: extended_by_def list_all_iff)
qed

definition is_loop :: "wf_step \<Rightarrow> bool" where
  "is_loop step \<longleftrightarrow> (case ws_body step of ForeachBody f steps \<Rightarrow> True | _ \<Rightarrow> False)"

lemma run_single_step:
  "\<not> is_loop step \<Longrightarrow> run_step r rollback execName step st =
    (case evaluateCondition (wr_env r) (ws_when step) (wc_values (wt_context st)) (wi_mode (wr_input r)) of
       Inl e \<Rightarrow> (Inl e, st) | Inr False \<Rightarrow> (Inr (skipped_step step), st)
     | Inr True \<Rightarrow> run_attempts r rollback execName step (attempts_of step) 1 st)"
  by (auto simp: run_step.simps is_loop_def split: wf_body.splits sum.splits bool.splits)

section \<open>A step whose call fails\<close>

lemma failed_attempt:
  assumes "dispatches r step" and "adaptStep (wr_env r) step (wt_context st) (wi_mode (wr_input r)) = (\<lambda>out. Inr (plan out))"
    and "wr_dispatcher r = Some (\<lambda>cs d. Inr answer)" and "wo_success answer \<noteq> Some True"
  shows "\<exists>o1 u plan. attempt_step r rollback execName step 1 st = (Inr o1, u) \<and> \<not> ao_success o1
    \<and> wt_calls u = wt_calls st @ [dispatch_of r rollback execName step plan 1]"
proof -
  have "\<exists>mock. mock_output r rollback step 1 (wc_values (wt_context st)) = Inr mock"
    using assms(1) by (cases "ws_body step") (auto simp: mock_output_def Let_def dispatches_def is_transform_def ws_type_def body_type_def)
  then obtain mock where "mock_output r rollback step 1 (wc_values (wt_context st)) = Inr mock" ..
  then have "attempt_step r rollback execName step 1 st = judge_attempt r step mock (plan (Some (normalizeStepOutput step mock))) (Some answer)
      ((upd_values (recovery_variables step (plan (Some (normalizeStepOutput step mock)))) st)
        \<lparr>wt_calls := wt_calls st @ [dispatch_of r rollback execName step (plan (Some (normalizeStepOutput step mock))) 1]\<rparr>)"
    using assms by (simp add: attempt_step_def wf_lift_def dispatch_step_def Let_def)
  moreover have "\<exists>o1. judge_attempt r step mock q (Some answer) t = (Inr o1, t) \<and> \<not> ao_success o1" for q t
    using assms(4) by (simp add: judge_attempt_def extract_output_def wf_lift_def Let_def)
  ultimately show ?thesis by (metis (no_types, lifting) wf_state.select_convs(2) wf_state.surjective wf_state.update_convs(2))
qed

lemma failed_call:
  assumes "dispatches r step" and "adaptStep (wr_env r) step (wt_context st) (wi_mode (wr_input r)) = (\<lambda>out. Inr (plan out))"
    and "wr_dispatcher r = Some (\<lambda>cs d. Inr answer)" and "wo_success answer \<noteq> Some True"
    and "\<not> is_loop step" and "ws_when step = None" and "attempts_of step = 1"
  obtains rn u plan where "run_step r rollback execName step st = (Inr rn, u)" and "run_status (fst (snd rn)) = ''failed''"
    and "wt_calls u = wt_calls st @ [dispatch_of r rollback execName step plan 1]"
proof -
  obtain o1 t plan where one: "attempt_step r rollback execName step 1 st = (Inr o1, t)" "\<not> ao_success o1"
    "wt_calls t = wt_calls st @ [dispatch_of r rollback execName step plan 1]" using failed_attempt [OF assms(1-4)] by blast
  have "run_step r rollback execName step st = finish_step r step 1 o1 t"
    using assms(5-7) one(1) by (simp add: run_single_step evaluateCondition_def run_attempts.simps)
  moreover have "run_status (fst (snd (projr (fst (finish_step r step 1 o1 t))))) = ''failed''"
    using one(2) by (simp add: finish_step_def attempt_result_def run_status_def Let_def)
  moreover have "isl (fst (finish_step r step 1 o1 t)) = False" by (simp add: finish_step_def Let_def)
  ultimately show ?thesis using that one(3) finish_calls(1) [of r step 1 o1 t]
    by (metis prod.collapse sum.collapse(2))
qed

text \<open>The runs the examples below are about: one step, one rollback step, and a dispatcher that fails every call.\<close>

definition demo_env :: wf_env where
  "demo_env = \<lparr>we_sha = (\<lambda>s. ''0''), we_test = (\<lambda>p s. Inr True), we_group = (\<lambda>p s. Inr None), we_jsonata = (\<lambda>e o1 t. Inr None),
     we_same = (\<lambda>a b. False), we_decode = JStr, we_bytes = (\<lambda>v. None)\<rparr>"

definition demo_request :: http_request where
  "demo_request = \<lparr>hq_method = ''POST'', hq_url = ''/c'', hq_connectionRef = ''a'', hq_cookieSessionRef = None, hq_query = None, hq_headers = None,
     hq_headerRefs = None, hq_bodyType = None, hq_body = None, hq_form = None, hq_formCredentialRefs = None, hq_multipart = None, hq_auth = None,
     hq_tls = None, hq_timeoutSeconds = None, hq_maxResponseBytes = None, hq_successStatusCodes = None, hq_failOnNon2xx = None\<rparr>"

definition demo_step :: "string \<Rightarrow> wf_body \<Rightarrow> wf_step" where
  "demo_step name body = WfStep name None None None None [] body"

definition demo_version :: "wf_body \<Rightarrow> wf_version" where
  "demo_version body = \<lparr>wv_id = ''v'', wv_executionMode = None, wv_content = \<lparr>wn_kind = ''CurlSshWorkflow'',
     wn_steps = [demo_step ''a'' body], wn_rollback = Some [demo_step ''undo'' (WaitBody 1)]\<rparr>\<rparr>"

definition demo_input :: wf_input where
  "demo_input = \<lparr>wi_templateVersionId = ''v'', wi_resolvedInput = \<lparr>ri_executable = True, ri_variables = [],
      ri_connections = [(''a'', JObj [(''transport'', JStr ''http''), (''host'', JStr ''h''), (''port'', JNum 80)])], ri_credentials = [], ri_artifacts = [],
      ri_assetContext = [], ri_sensitivePaths = []\<rparr>, wi_stepOutputs = None, wi_systemValues = None, wi_mockResponses = [], wi_mode = ''mock'',
     wi_dispatchInRenderOnly = False, wi_executionBranch = None, wi_tenantId = None, wi_authorization = None\<rparr>"

definition demo_runner :: wf_runner where
  "demo_runner = \<lparr>wr_env = demo_env, wr_input = demo_input, wr_runId = ''r'', wr_dispatcher = Some (\<lambda>cs d. Inr no_output)\<rparr>"

definition demo_context :: wf_context where
  "demo_context = \<lparr>wc_values = [(''variables'', JObj []), (''connections'', JObj (ri_connections (wi_resolvedInput demo_input))), (''credentials'', JObj []),
     (''artifacts'', JObj []), (''asset'', JObj []), (''steps'', JObj []), (''system'', JObj [])], wc_secretPaths = [], wc_outputs = [],
     wc_connections = [], wc_resolvedConnections = ri_connections (wi_resolvedInput demo_input)\<rparr>"

lemma demo_context: "buildRuntimeContextFromResolvedInput demo_input = Inr demo_context"
  by code_simp

lemma demo_simps [simp]:
  "wr_env demo_runner = demo_env" "wr_input demo_runner = demo_input" "wi_mode demo_input = ''mock''" "wi_executionBranch demo_input = None"
  "wn_steps (wv_content (demo_version body)) = [demo_step ''a'' body]" "wn_rollback (wv_content (demo_version body)) = Some [demo_step ''undo'' (WaitBody 1)]"
  "wr_dispatcher demo_runner = Some (\<lambda>cs d. Inr no_output)" "wo_success no_output = None" "ws_name (demo_step name body) = name"
  "run_guards (demo_version body) = Inr ()" "ws_when (demo_step name body) = None" "attempts_of (demo_step name body) = 1" "ws_stage (demo_step name body) = None"
  "ws_body (demo_step name body) = body" "renamed (demo_step name body) name = demo_step name body" "ws_type (demo_step name body) = body_type body"
  by (simp_all add: demo_runner_def demo_input_def demo_version_def no_output_def demo_step_def run_guards_def attempts_of_def renamed_def ws_type_def)

lemma demo_dispatches: "body_type body \<noteq> ''transform'' \<Longrightarrow> dispatches demo_runner (demo_step name body)"
  by (simp add: dispatches_def is_transform_def)

lemma demo_run:
  assumes "adaptStep demo_env (demo_step ''a'' body) demo_context ''mock'' = (\<lambda>out. Inr (plan out))"
    and "body_type body \<noteq> ''transform''" and "\<not> is_loop (demo_step ''a'' body)"
  shows "\<exists>res ds. executeRuntime demo_runner (demo_version body) = (Inr res, ds) \<and> rr_status res = ''failed''
    \<and> map (\<lambda>d. (wd_step d, wd_rollback d)) ds = [(demo_step ''a'' body, False), (demo_step ''undo'' (WaitBody 1), True)]"
proof -
  let ?st = "\<lparr>wt_context = demo_context, wt_calls = []\<rparr>"
  obtain rn u q where one: "run_step demo_runner False ''a'' (demo_step ''a'' body) ?st = (Inr rn, u)" "run_status (fst (snd rn)) = ''failed''"
    "wt_calls u = wt_calls ?st @ [dispatch_of demo_runner False ''a'' (demo_step ''a'' body) q 1]"
    by (rule failed_call [where r = demo_runner and step = "demo_step ''a'' body" and st = ?st and plan = plan and answer = no_output
        and rollback = False and execName = "''a''"]) (use assms in \<open>auto intro: demo_dispatches\<close>)
  have undo: "adaptStep demo_env (demo_step ''undo'' (WaitBody 1)) ctx ''mock''
      = (\<lambda>out. Inr (JObj [(''executor'', JStr ''workflow.wait''), (''seconds'', JNum 1), (''plannedOnly'', JBool True)]))" for ctx
    by (simp add: adaptStep_def fun_eq_iff)
  obtain rn' u' q' where two: "run_step demo_runner True ''undo'' (demo_step ''undo'' (WaitBody 1)) u = (Inr rn', u')" "run_status (fst (snd rn')) = ''failed''"
    "wt_calls u' = wt_calls u @ [dispatch_of demo_runner True ''undo'' (demo_step ''undo'' (WaitBody 1)) q' 1]"
    by (rule failed_call [where r = demo_runner and step = "demo_step ''undo'' (WaitBody 1)" and st = u and answer = no_output
        and rollback = True and execName = "''undo''" and plan = "\<lambda>_. JObj [(''executor'', JStr ''workflow.wait''), (''seconds'', JNum 1), (''plannedOnly'', JBool True)]"])
      (use undo in \<open>auto simp: body_type_def is_loop_def intro: demo_dispatches\<close>)
  have acc: "ba_failed (add_ran rn no_branch)" "ba_results (add_ran rn' no_branch) = [fst (snd rn')]" "ba_failed (add_ran rn' no_branch)"
    using one(2) two(2) by (auto simp: add_ran_def no_branch_def split: prod.split)
  have "run_content demo_runner (wv_content (demo_version body)) ?st
      = (Inr (finish_run demo_runner ''deploy'' (add_ran rn no_branch)
          (add_ran rn' no_branch\<lparr>ba_logs := ''rollback:started'' # ba_logs (add_ran rn' no_branch)\<rparr>) (wt_context u')), u')"
    using one(1) two(1) acc
    by (simp add: run_content_def wf_lift_def resolveExecutionBranch_def orderStepsByStage_def run_branch.simps rollback_after_def truthy_def getOrElse_def)
  then show ?thesis using one(3) two acc(1,2)
    by (simp add: executeRuntime_def demo_context finish_run_def Let_def final_status_def dispatch_of_def)
qed

definition demo_browser :: wf_body where
  "demo_browser = BrowserBody \<lparr>bc_action = ''open'', bc_url = None, bc_extractions = None, bc_verification = None\<rparr>"

lemma demo_browser_run: "\<exists>res ds. executeRuntime demo_runner (demo_version demo_browser) = (Inr res, ds) \<and> rr_status res = ''failed''
    \<and> map (\<lambda>d. (wd_step d, wd_rollback d)) ds = [(demo_step ''a'' demo_browser, False), (demo_step ''undo'' (WaitBody 1), True)]"
proof (rule demo_run)
  show "adaptStep demo_env (demo_step ''a'' demo_browser) demo_context ''mock'' = (\<lambda>out. Inr (projr (adaptStep demo_env (demo_step ''a'' demo_browser) demo_context ''mock'' out)))"
    by (simp add: adaptStep_def demo_browser_def browser_plan_def render_member_def truthy_def fun_eq_iff)
qed (simp_all add: demo_browser_def body_type_def is_loop_def)

section \<open>What reaches a device\<close>

text \<open>C10. A preview touches nothing: a run in mode \<open>render_only\<close> that was not asked to dispatch makes no call of the
  dispatcher, on the deploy branch, on the rollback branch or in the steps of a loop.\<close>

theorem preview_calls_nothing:
  assumes "wi_mode (wr_input r) = ''render_only''" and "\<not> wi_dispatchInRenderOnly (wr_input r)"
  shows "snd (executeRuntime r version) = []"
proof (rule ccontr)
  assume "snd (executeRuntime r version) \<noteq> []"
  then obtain d where "d \<in> set (snd (executeRuntime r version))" by (cases "snd (executeRuntime r version)") auto
  then obtain b where "issued r b d" by (rule execute_calls)
  then show False using assms by (auto simp: issued_def dispatches_def)
qed

lemma preview_calls_nothing_witness:
  "snd (executeRuntime (demo_runner\<lparr>wr_input := demo_input\<lparr>wi_mode := ''render_only''\<rparr>\<rparr>) (demo_version demo_browser)) = []"
  by (rule preview_calls_nothing) (simp_all add: demo_input_def)

text \<open>The member of the plan that tells an executor not to touch the device.\<close>

definition plan_dry :: "json \<Rightarrow> bool" where
  "plan_dry plan \<longleftrightarrow> jget (asRecord (Some plan)) ''dryRun'' = Some (JBool True)"

definition on_device :: "wf_step \<Rightarrow> bool" where
  "on_device step \<longleftrightarrow> ws_type step \<in> {''http'', ''ssh'', ''browser''} \<or> (\<exists>p t. ws_body step = TransferBody p t)"

lemma asRecord_JObj [simp]: "asRecord (Some (JObj m)) = m"
  by (simp add: asRecord_def)

lemma http_dry: "http_plan step request ctx mode out = Inr plan \<Longrightarrow> mode \<noteq> ''real_test'' \<Longrightarrow> plan_dry plan"
  by (auto simp: http_plan_def bind_result_Inr Let_def plan_dry_def is_dry_def jget_def)

lemma ssh_dry: "ssh_plan step ssh ctx mode = Inr plan \<Longrightarrow> mode \<noteq> ''real_test'' \<Longrightarrow> plan_dry plan"
  by (auto simp: ssh_plan_def bind_result_Inr Let_def plan_dry_def is_dry_def jget_def)

lemma transfer_dry: "transfer_plan env step protocol t ctx mode = Inr plan \<Longrightarrow> mode \<noteq> ''real_test'' \<Longrightarrow> plan_dry plan"
  by (auto simp: transfer_plan_def bind_result_Inr plan_dry_def is_dry_def jget_def)

lemma jget_member_skip: "k \<noteq> k' \<Longrightarrow> jget (opt_member k v @ m) k' = jget m k'"
  by (simp add: jget_def opt_member_def split: option.splits)

lemma jget_Cons: "jget ((k, v) # m) k' = (if k = k' then Some v else jget m k')"
  by (simp add: jget_def)

lemma jget_rendered_skip: "render_member k v values keep = Inr kvs \<Longrightarrow> k \<noteq> k' \<Longrightarrow> jget (kvs @ m) k' = jget m k'"
  by (auto simp: render_member_def jget_def map_sum_def split: if_splits sum.splits)

lemma browser_dry: "browser_plan b values mode = Inr plan \<Longrightarrow> mode \<noteq> ''real_test'' \<Longrightarrow> plan_dry plan"
  by (auto simp: browser_plan_def bind_result_Inr plan_dry_def is_dry_def jget_rendered_skip jget_member_skip jget_Cons)

lemma device_dry:
  assumes "adaptStep env step ctx mode out = Inr plan" and "on_device step" and "mode \<noteq> ''real_test''"
  shows "plan_dry plan"
  using assms
  by (cases "ws_body step") (auto simp: adaptStep_def on_device_def ws_type_def body_type_def intro: http_dry ssh_dry transfer_dry browser_dry)

text \<open>Only a run in mode \<open>real_test\<close> lets an executor touch a device: in every other mode each HTTP, SSH, file transfer
  or browser call carries a plan with \<open>dryRun\<close> set.\<close>

theorem trial_run_dry:
  assumes "d \<in> set (snd (executeRuntime r version))" and "on_device (wd_step d)" and "wi_mode (wr_input r) \<noteq> ''real_test''"
  shows "plan_dry (wd_plan d)"
proof -
  obtain b where "issued r b d" using assms(1) by (rule execute_calls)
  then obtain step ctx out plan where plan: "adaptStep (wr_env r) step ctx (wi_mode (wr_input r)) out = Inr plan"
    and d: "wd_plan d = plan" "ws_body (wd_step d) = ws_body step" by (auto simp: issued_def dispatch_of_def renamed_def)
  have "on_device step" using assms(2) d(2) by (simp add: on_device_def ws_type_def)
  then show ?thesis using device_dry [OF plan _ assms(3)] d(1) by simp
qed

lemma trial_run_dry_witness: "plan_dry (wd_plan (hd (snd (executeRuntime demo_runner (demo_version demo_browser)))))"
proof -
  obtain res ds where "executeRuntime demo_runner (demo_version demo_browser) = (Inr res, ds)"
    and "map (\<lambda>d. (wd_step d, wd_rollback d)) ds = [(demo_step ''a'' demo_browser, False), (demo_step ''undo'' (WaitBody 1), True)]"
    using demo_browser_run by (elim exE conjE) (rule that)
  then show ?thesis
    by (intro trial_run_dry [of _ demo_runner "demo_version demo_browser"]) (auto simp: on_device_def demo_browser_def body_type_def)
qed

section \<open>The attempts of a step\<close>

definition at_most_call :: "int \<Rightarrow> wf_state \<Rightarrow> wf_state \<Rightarrow> bool" where
  "at_most_call attempt s t \<longleftrightarrow> (\<exists>ds. wt_calls t = wt_calls s @ ds \<and> (ds = [] \<or> (\<exists>d. ds = [d] \<and> wd_attempt d = attempt)))"

lemma at_most_call_same: "wt_calls t = wt_calls s \<Longrightarrow> at_most_call attempt s t"
  by (simp add: at_most_call_def)

lemma at_most_call_then: "wt_calls t = wt_calls s \<Longrightarrow> at_most_call attempt t u \<Longrightarrow> at_most_call attempt s u"
  "at_most_call attempt s t \<Longrightarrow> wt_calls u = wt_calls t \<Longrightarrow> at_most_call attempt s u"
  by (simp_all add: at_most_call_def)

lemma dispatch_at_most_call: "at_most_call attempt st (snd (dispatch_step r rollback execName step plan attempt st))"
  by (simp add: dispatch_step_def Let_def dispatch_of_def at_most_call_def)

lemma andThen_at_most_call:
  assumes "at_most_call attempt s (snd m)" and "\<And>x t. wt_calls (snd (k x t)) = wt_calls t"
  shows "at_most_call attempt s (snd (andThen m k))"
  using assms by (cases m; cases "fst m") (auto intro: at_most_call_then(2))

lemma attempt_at_most_call: "at_most_call attempt st (snd (attempt_step r rollback execName step attempt st))"
proof -
  have "at_most_call attempt u (snd (andThen (dispatch_step r rollback execName step plan attempt (upd_values f u))
      (\<lambda>dispatched. judge_attempt r step mock plan dispatched)))" for u plan mock f
    by (rule andThen_at_most_call [OF at_most_call_then(1) [OF upd_values_calls dispatch_at_most_call] judge_calls])
  then show ?thesis
    by (cases "mock_output r rollback step attempt (wc_values (wt_context st))")
      (auto simp: attempt_step_def wf_lift_def andThen_def at_most_call_same split: sum.split)
qed

text \<open>The calls a step adds are numbered by the attempts, in order; an attempt whose call never came leaves a gap at the end only.\<close>

lemma attempts_calls:
  assumes "run_attempts r rollback execName step n attempt st = (res, st')"
  shows "\<exists>ds. wt_calls st' = wt_calls st @ ds \<and> length ds \<le> n \<and> sorted_wrt (<) (map wd_attempt ds) \<and> (\<forall>d \<in> set ds. attempt \<le> wd_attempt d)"
  using assms
proof (induction n arbitrary: attempt st)
  case 0
  then show ?case by (simp add: run_attempts.simps)
next
  case (Suc n)
  obtain o1 t where att: "attempt_step r rollback execName step attempt st = (o1, t)" by fastforce
  then obtain ds where ds: "wt_calls t = wt_calls st @ ds" "ds = [] \<or> (\<exists>d. ds = [d] \<and> wd_attempt d = attempt)"
    using attempt_at_most_call [of attempt st r rollback execName step] by (auto simp: at_most_call_def)
  show ?case
  proof (cases "wt_calls st' = wt_calls t")
    case True
    then show ?thesis using ds by (intro exI [of _ ds]) auto
  next
    case False
    have "\<exists>x. o1 = Inr x \<and> \<not> (ao_success x \<or> n = 0)"
    proof (rule ccontr)
      assume "\<not> ?thesis"
      then have "wt_calls (snd (run_attempts r rollback execName step (Suc n) attempt st)) = wt_calls t"
        by (cases o1) (auto simp: run_attempts.simps att)
      then show False using False Suc.prems by simp
    qed
    then have "run_attempts r rollback execName step n (attempt + 1) t = (res, st')" using Suc.prems by (auto simp: run_attempts.simps att)
    from Suc.IH [OF this] obtain es where es: "wt_calls st' = wt_calls t @ es" "length es \<le> n" "sorted_wrt (<) (map wd_attempt es)"
      "\<forall>d \<in> set es. attempt + 1 \<le> wd_attempt d" by blast
    then show ?thesis using ds by (intro exI [of _ "ds @ es"]) (auto simp: sorted_wrt_append)
  qed
qed

text \<open>Retries end: a step that is not a loop makes at most \<open>retry.count + 1\<close> calls of the dispatcher, numbered upwards from 1.\<close>

theorem retries_bounded:
  assumes "\<not> is_loop step" and "run_step r rollback execName step st = (res, st')"
  shows "\<exists>ds. wt_calls st' = wt_calls st @ ds \<and> length ds \<le> attempts_of step \<and> sorted_wrt (<) (map wd_attempt ds) \<and> (\<forall>d \<in> set ds. 1 \<le> wd_attempt d)"
  using assms attempts_calls [of r rollback execName step "attempts_of step" 1 st]
  by (auto simp: run_single_step split: sum.splits bool.splits)

lemma retries_bounded_witness:
  "\<forall>r st. \<exists>ds. wt_calls (snd (run_step r False ''w'' (demo_step ''w'' (WaitBody 1)) st)) = wt_calls st @ ds
     \<and> length ds \<le> attempts_of (demo_step ''w'' (WaitBody 1)) \<and> sorted_wrt (<) (map wd_attempt ds)"
  using retries_bounded [where step = "demo_step ''w'' (WaitBody 1)" and rollback = False and execName = "''w''", OF _ surjective_pairing]
  by (fastforce simp: is_loop_def)

lemma http_plan_retries:
  assumes "http_plan step request ctx mode out = Inr plan"
  shows "jget (asRecord (jget (asRecord (jget (asRecord (Some plan)) ''curlRequest'')) ''retryPolicy'')) ''maxAttempts''
    = Some (JNum (getOrElse (Option.bind (ws_retry step) rt_count) 0 + 1))"
  using assms by (auto simp: http_plan_def bind_result_Inr Let_def jget_Cons jget_member_skip retry_plan_def)

text \<open>The retries of an HTTP step multiply: every call of one is the runtime's own attempt, at most \<open>retry.count + 1\<close> of
  them, and its plan tells the HTTP executor to try \<open>retry.count + 1\<close> times again.\<close>

theorem http_retries_multiply:
  assumes "d \<in> set (snd (executeRuntime r version))" and "ws_body (wd_step d) = HttpBody request"
  shows "1 \<le> wd_attempt d \<and> wd_attempt d \<le> int (attempts_of (wd_step d)) \<and>
    jget (asRecord (jget (asRecord (jget (asRecord (Some (wd_plan d))) ''curlRequest'')) ''retryPolicy'')) ''maxAttempts''
      = Some (JNum (int (attempts_of (wd_step d))))"
proof -
  obtain b where "issued r b d" using assms(1) by (rule execute_calls)
  then obtain step ctx out where plan: "adaptStep (wr_env r) step ctx (wi_mode (wr_input r)) out = Inr (wd_plan d)"
    and d: "wd_step d = renamed step (ws_name (wd_step d))" "1 \<le> wd_attempt d" "wd_attempt d \<le> int (attempts_of step)"
    by (auto simp: issued_def dispatch_of_def renamed_def)
  have same: "ws_body (wd_step d) = ws_body step" "ws_retry (wd_step d) = ws_retry step" by (subst d(1), simp add: renamed_def)+
  have "http_plan step request ctx (wi_mode (wr_input r)) out = Inr (wd_plan d)"
    using plan same(1) [symmetric] assms(2) by (simp add: adaptStep_def)
  from http_plan_retries [OF this] show ?thesis using d(2,3) same(2) by (auto simp: attempts_of_def split: if_splits)
qed

lemma http_retries_multiply_witness:
  "jget (asRecord (jget (asRecord (jget (asRecord (Some (wd_plan (hd (snd (executeRuntime demo_runner (demo_version (HttpBody demo_request)))))))) ''curlRequest''))
     ''retryPolicy'')) ''maxAttempts'' = Some (JNum 1)"
proof -
  have "\<not> isl (adaptStep demo_env (demo_step ''a'' (HttpBody demo_request)) demo_context ''mock'' out)" for out
    by code_simp
  then have "adaptStep demo_env (demo_step ''a'' (HttpBody demo_request)) demo_context ''mock''
      = (\<lambda>out. Inr (projr (adaptStep demo_env (demo_step ''a'' (HttpBody demo_request)) demo_context ''mock'' out)))"
    by (simp add: fun_eq_iff isl_def sum.collapse(2))
  from demo_run [OF this] obtain res ds where "executeRuntime demo_runner (demo_version (HttpBody demo_request)) = (Inr res, ds)"
    and "map (\<lambda>d. (wd_step d, wd_rollback d)) ds = [(demo_step ''a'' (HttpBody demo_request), False), (demo_step ''undo'' (WaitBody 1), True)]"
    by (auto simp: body_type_def is_loop_def)
  then show ?thesis
    using http_retries_multiply [of "hd ds" demo_runner "demo_version (HttpBody demo_request)" demo_request] by auto
qed

section \<open>The order of a run\<close>

definition result_name :: "step_run \<Rightarrow> string" where
  "result_name x = sr_name (sr_info x)"

lemma skipped_info [simp]: "result_name (fst (snd (skipped_step step))) = ws_name step" "run_status (fst (snd (skipped_step step))) = ''skipped''"
  by (simp_all add: skipped_step_def emptyStepResult_def result_name_def run_status_def)

lemma run_attempts_name: "run_attempts r rollback execName step n attempt st = (Inr rn, st') \<Longrightarrow> result_name (fst (snd rn)) = ws_name step"
proof (induction n arbitrary: attempt st)
  case (Suc n)
  then show ?case
    by (auto simp: run_attempts.simps andThen_Inr finish_step_def attempt_result_def Let_def result_name_def split: if_splits)
qed (simp add: run_attempts.simps)

lemma run_loop_Inr:
  assumes "run_step r rollback execName step st = (Inr rn, st')" and "ws_body step = ForeachBody f steps"
  obtains "rn = skipped_step step" | "renderDeferredForeachStep r step f steps st = (Inr rn, st')"
  | n acc u where "finish_foreach r step f steps n acc u = (Inr rn, st')"
  using assms
  by (auto simp: run_step.simps Let_def split: sum.split_asm bool.split_asm if_split_asm option.split_asm json.split_asm prod.split_asm)

lemma run_step_name: "run_step r rollback execName step st = (Inr rn, st') \<Longrightarrow> result_name (fst (snd rn)) = ws_name step"
proof (cases "is_loop step")
  case True
  assume run: "run_step r rollback execName step st = (Inr rn, st')"
  from True obtain f steps where "ws_body step = ForeachBody f steps" by (auto simp: is_loop_def split: wf_body.split_asm)
  with run show ?thesis
    by (rule run_loop_Inr) (auto simp: renderDeferredForeachStep_def finish_foreach_def foreach_result_def Let_def, simp_all add: result_name_def)
next
  case False
  then show "run_step r rollback execName step st = (Inr rn, st') \<Longrightarrow> ?thesis"
    by (auto simp: run_single_step dest: run_attempts_name split: sum.split_asm bool.split_asm)
qed

text \<open>The results are those of an initial part of the steps, in their order; only the last of them may have failed, and when
  none has, every step ran or was skipped.\<close>

definition ran_in_order :: "wf_step list \<Rightarrow> step_run list \<Rightarrow> bool \<Rightarrow> bool" where
  "ran_in_order steps results failed \<longleftrightarrow> map result_name results = take (length results) (map ws_name steps)
     \<and> list_all (\<lambda>x. run_status x \<noteq> ''failed'') (butlast results)
     \<and> (failed \<longleftrightarrow> list_ex (\<lambda>x. run_status x = ''failed'') results) \<and> (\<not> failed \<longrightarrow> length results = length steps)"

lemma branch_in_order:
  assumes "run_branch r rollback steps acc st = (Inr acc', st')" and "\<not> ba_failed acc"
  shows "\<exists>results. ba_results acc' = ba_results acc @ results \<and> ran_in_order steps results (ba_failed acc')"
  using assms
proof (induction steps arbitrary: acc st)
  case Nil
  then show ?case by (simp add: run_branch.simps ran_in_order_def)
next
  case (Cons s ss)
  obtain rn t where rn: "run_step r rollback (ws_name s) s st = (Inr rn, t)"
    and rest: "(if ba_failed (add_ran rn acc) then (Inr (add_ran rn acc), t) else run_branch r rollback ss (add_ran rn acc) t) = (Inr acc', st')"
    using Cons.prems(1) by (auto simp: run_branch.simps andThen_Inr Let_def)
  have one: "ba_results (add_ran rn acc) = ba_results acc @ [fst (snd rn)]" "ba_failed (add_ran rn acc) \<longleftrightarrow> run_status (fst (snd rn)) = ''failed''"
    by (simp_all add: add_ran_def split: prod.splits)
  show ?case
  proof (cases "ba_failed (add_ran rn acc)")
    case True
    then show ?thesis using rest one run_step_name [OF rn] by (intro exI [of _ "[fst (snd rn)]"]) (auto simp: ran_in_order_def)
  next
    case False
    then obtain results where "ba_results acc' = ba_results (add_ran rn acc) @ results" "ran_in_order ss results (ba_failed acc')"
      using rest Cons.IH by auto
    then show ?thesis using one False run_step_name [OF rn]
      by (intro exI [of _ "fst (snd rn) # results"]) (auto simp: ran_in_order_def list_all_iff)
  qed
qed

definition branch_of :: "wf_runner \<Rightarrow> string" where
  "branch_of r = getOrElse (wi_executionBranch (wr_input r)) ''deploy''"

lemma execute_Inr:
  assumes "executeRuntime r version = (Inr res, calls)"
  obtains ctx branchSteps acc rb st st' where "resolveExecutionBranch (wn_steps (wv_content version)) (wn_rollback (wv_content version)) (branch_of r) = Inr branchSteps"
    and "run_branch r (branch_of r = ''rollback'') (orderStepsByStage branchSteps) no_branch \<lparr>wt_context = ctx, wt_calls = []\<rparr> = (Inr acc, st)"
    and "rollback_after r (wv_content version) acc st = (Inr rb, st')"
    and "res = finish_run r (branch_of r) acc rb (wt_context st')" and "calls = wt_calls st'"
  using assms
  by (auto simp: executeRuntime_def run_content_def Let_def andThen_Inr wf_lift_def branch_of_def split: sum.split_asm prod.split_asm)

lemma no_branch_simps [simp]: "ba_results no_branch = []" "ba_failed no_branch = False"
  by (simp_all add: no_branch_def)

lemma final_status_success [simp]: "final_status failed results = ''success'' \<longleftrightarrow> \<not> failed"
  by (simp add: final_status_def)

text \<open>C11. A deploy run takes its steps in the order of their stages and stops at the first that fails: its results are those of
  an initial part of the ordered steps, only the last may have failed, and it is a success exactly when none has, and then no
  step is left out.\<close>

theorem run_in_order:
  assumes "executeRuntime r version = (Inr res, calls)" and "branch_of r = ''deploy''"
  shows "ran_in_order (orderStepsByStage (wn_steps (wv_content version))) (rr_stepResults res) (rr_status res \<noteq> ''success'')"
proof -
  from assms(1) obtain ctx branchSteps acc rb st and st' :: wf_state where steps: "resolveExecutionBranch (wn_steps (wv_content version)) (wn_rollback (wv_content version)) (branch_of r) = Inr branchSteps"
    and run: "run_branch r (branch_of r = ''rollback'') (orderStepsByStage branchSteps) no_branch \<lparr>wt_context = ctx, wt_calls = []\<rparr> = (Inr acc, st)"
    and res: "res = finish_run r (branch_of r) acc rb (wt_context st')" by (rule execute_Inr) blast
  from branch_in_order [OF run] steps assms(2) have "ran_in_order (orderStepsByStage (wn_steps (wv_content version))) (ba_results acc) (ba_failed acc)"
    by (auto simp: resolveExecutionBranch_def)
  then show ?thesis using res assms(2) by (simp add: finish_run_def Let_def)
qed

lemma run_in_order_witness:
  "ran_in_order [demo_step ''a'' demo_browser] (rr_stepResults (projr (fst (executeRuntime demo_runner (demo_version demo_browser))))) True"
  using demo_browser_run run_in_order [of demo_runner "demo_version demo_browser"]
  by (fastforce simp: branch_of_def orderStepsByStage_def truthy_def)

lemma rollback_after_Inr:
  assumes "rollback_after r content acc st = (Inr rb, st')"
  obtains "rb = no_branch" "st' = st" "\<not> (wi_executionBranch (wr_input r) = None \<and> ba_failed acc \<and> getOrElse (wn_rollback content) [] \<noteq> [])"
  | rb' where "wi_executionBranch (wr_input r) = None" "ba_failed acc" "getOrElse (wn_rollback content) [] \<noteq> []"
      "run_branch r True (getOrElse (wn_rollback content) []) no_branch st = (Inr rb', st')" "ba_results rb = ba_results rb'"
  using assms
  by (auto simp: rollback_after_def andThen_Inr split: option.split_asm list.split_asm if_split_asm)

text \<open>C12. The automatic rollback: when the caller named no branch, a run with a failed step and a rollback branch takes the
  rollback steps in the order they are declared up to the first that fails, and is rolled back exactly when all of them ran
  without a failure.\<close>

theorem failed_run_rolls_back:
  assumes "executeRuntime r version = (Inr res, calls)" and "wi_executionBranch (wr_input r) = None" and "rr_status res \<noteq> ''success''"
    and "wn_rollback (wv_content version) = Some (s # ss)"
  shows "ran_in_order (s # ss) (rr_rollbackResults res) (rr_status res \<noteq> ''rolled_back'') \<and> rr_rollbackResults res \<noteq> []"
proof -
  from assms(1) obtain branchSteps acc rb st st' where after: "rollback_after r (wv_content version) acc st = (Inr rb, st')"
    and res: "res = finish_run r (branch_of r) acc rb (wt_context st')" by (rule execute_Inr) blast
  have branch: "branch_of r = ''deploy''" using assms(2) by (simp add: branch_of_def)
  then have failed: "ba_failed acc" using res assms(3) by (simp add: finish_run_def Let_def)
  obtain rb' where run: "run_branch r True (s # ss) no_branch st = (Inr rb', st')" and rb: "ba_results rb = ba_results rb'"
    using after by (rule rollback_after_Inr) (use assms(2,4) failed in auto)
  from branch_in_order [OF run] have order: "ran_in_order (s # ss) (ba_results rb) (ba_failed rb')" using rb by auto
  moreover have "ba_results rb \<noteq> []" using order by (auto simp: ran_in_order_def)
  moreover have "final_status (ba_failed acc) (ba_results rb) = ''rolled_back'' \<longleftrightarrow> \<not> ba_failed rb'"
    using order failed calculation(2) by (auto simp: final_status_def ran_in_order_def list_all_iff list_ex_iff)
  ultimately show ?thesis using res branch by (simp add: finish_run_def Let_def)
qed

lemma failed_run_rolls_back_witness:
  "ran_in_order [demo_step ''undo'' (WaitBody 1)] (rr_rollbackResults (projr (fst (executeRuntime demo_runner (demo_version demo_browser))))) True"
  using demo_browser_run failed_run_rolls_back [of demo_runner "demo_version demo_browser"] by fastforce

lemma issued_rollback: "issued r b d \<Longrightarrow> wd_rollback d = b"
  by (auto simp: issued_def dispatch_of_def)

text \<open>C13. An error thrown by a deploy step ends the run before the automatic rollback: a step whose extractor finds nothing, whose
  template names a missing variable or whose transform fails leaves what earlier steps changed as it is, and no rollback step is
  called.\<close>

theorem thrown_error_skips_rollback:
  assumes "run_branch r False (orderStepsByStage (wn_steps content)) no_branch st = (Inl e, st')" and "wi_executionBranch (wr_input r) = None"
    and "\<not> list_ex wd_rollback (wt_calls st)"
  shows "run_content r content st = (Inl e, st') \<and> \<not> list_ex wd_rollback (wt_calls st')"
proof -
  have "run_content r content st = (Inl e, st')" using assms(1,2) by (simp add: run_content_def resolveExecutionBranch_def wf_lift_def Let_def)
  moreover obtain ds where "wt_calls st' = wt_calls st @ ds" "list_all (issued r False) ds"
    using branch_calls [OF assms(1)] by (auto simp: extended_by_def)
  ultimately show ?thesis using assms(3) by (auto simp: list_ex_iff list_all_iff dest: issued_rollback)
qed

text \<open>A step that waits for a list that does not exist throws.\<close>

definition demo_loop :: wf_body where
  "demo_loop = ForeachBody \<lparr>fe_itemsPath = ''variables.none'', fe_itemVariable = ''x'', fe_indexVariable = None, fe_maxItems = None, fe_continueOnError = False\<rparr> []"

lemma thrown_error_skips_rollback_witness:
  "\<exists>e. run_content demo_runner (wv_content (demo_version demo_loop)) \<lparr>wt_context = demo_context, wt_calls = []\<rparr>
     = (Inl e, \<lparr>wt_context = demo_context, wt_calls = []\<rparr>)"
proof -
  have "wf_readPath (Some (JObj (wc_values demo_context))) ''variables.none'' = None" by code_simp
  then have "run_step demo_runner False ''a'' (demo_step ''a'' demo_loop) \<lparr>wt_context = demo_context, wt_calls = []\<rparr>
      = (Inl (AppError ''VALIDATION_FAILED''), \<lparr>wt_context = demo_context, wt_calls = []\<rparr>)"
    by (simp add: run_step.simps demo_loop_def evaluateCondition_def)
  then have "run_branch demo_runner False (orderStepsByStage (wn_steps (wv_content (demo_version demo_loop)))) no_branch \<lparr>wt_context = demo_context, wt_calls = []\<rparr>
      = (Inl (AppError ''VALIDATION_FAILED''), \<lparr>wt_context = demo_context, wt_calls = []\<rparr>)"
    by (simp add: run_branch.simps orderStepsByStage_def truthy_def)
  from thrown_error_skips_rollback [OF this] show ?thesis by simp
qed

end
