(* ===== verification/WorkflowSecrets.thy ===== *)
theory WorkflowSecrets
  imports WorkflowProperties "HOL-Library.Sublist"
begin

text \<open>
  What the workflow runtime hides and what it hands to its rollback: masking of log lines and the checkpoint that the rollback
  branch verifies.
\<close>

section \<open>Replacing by a text in brackets\<close>

text \<open>\<open>t\<close> is \<open>s\<close> with parts replaced by a text in brackets.\<close>

inductive bracketed :: "string \<Rightarrow> string \<Rightarrow> string \<Rightarrow> bool" for inner :: string where
  bracketed_nil: "bracketed inner [] []"
| bracketed_keep: "bracketed inner s t \<Longrightarrow> bracketed inner (c # s) (c # t)"
| bracketed_put: "bracketed inner s' t \<Longrightarrow> suffix s' s \<Longrightarrow> bracketed inner s (CHR ''['' # inner @ CHR '']'' # t)"

definition plain :: "string \<Rightarrow> bool" where
  "plain v \<longleftrightarrow> CHR ''['' \<notin> set v \<and> CHR '']'' \<notin> set v"

lemma str_includes_iff: "str_includes s p \<longleftrightarrow> sublist p s"
proof
  assume "str_includes s p"
  then obtain i where "startsWith (drop i s) p" unfolding str_includes_def by blast
  then have "prefix p (drop i s)" by (auto simp: startsWith_iff)
  then show "sublist p s" by (meson prefix_imp_sublist sublist_order.order.trans suffix_drop suffix_imp_sublist)
next
  assume "sublist p s"
  then obtain a b where "s = a @ p @ b" by (auto simp: sublist_def)
  then have "startsWith (drop (length a) s) p" "length a \<le> length s" by (auto simp: startsWith_iff)
  then show "str_includes s p" unfolding str_includes_def by (metis atLeastLessThan_iff le0 less_Suc_eq_le set_upt)
qed

lemma bracketed_prefix: "bracketed inner s t \<Longrightarrow> plain v \<Longrightarrow> prefix v t \<Longrightarrow> prefix v s"
  by (induction arbitrary: v rule: bracketed.induct) (auto simp: plain_def prefix_Cons)

lemma plain_in_inserted:
  assumes "plain v" and "v \<noteq> []" and "sublist v (CHR ''['' # inner @ CHR '']'' # t)"
  shows "sublist v inner \<or> sublist v t"
proof -
  have "sublist v ([CHR ''[''] @ inner @ [CHR '']''] @ t)" using assms(3) by simp
  then show ?thesis using assms(1,2)
    by (auto simp: sublist_append plain_def sublist_Cons_right prefix_Cons suffix_Cons suffix_append prefix_append)
qed

lemma bracketed_sublist:
  assumes "bracketed inner s t" and "plain v" and "v \<noteq> []" and "\<not> sublist v inner" and "sublist v t"
  shows "sublist v s"
  using assms
proof (induction rule: bracketed.induct)
  case (bracketed_keep s t c)
  then show ?case using bracketed_prefix [of inner "c # s" "c # t" v] by (auto simp: sublist_Cons_right intro: bracketed.intros)
next
  case (bracketed_put s' t s)
  then have "sublist v s'" using plain_in_inserted by blast
  then show ?case using bracketed_put(2) by (meson sublist_order.order.trans suffix_imp_sublist)
qed simp

section \<open>Masking\<close>

declare replace_all.simps [simp del] replace_matches.simps [simp del] bracket_dots.simps [simp del] render_scan.simps [simp del]

lemma replace_all_bracketed: "bracketed inner s (replace_all v (CHR ''['' # inner @ '']'') s)"
proof (induction v "CHR ''['' # inner @ '']''" s rule: replace_all.induct)
  case (1 v s)
  show ?case
  proof (cases s)
    case (Cons c cs)
    show ?thesis
    proof (cases "v \<noteq> [] \<and> startsWith s v")
      case True
      then have "bracketed inner (drop (length v) s) (replace_all v (CHR ''['' # inner @ '']'') (drop (length v) s))" using 1(1) Cons by auto
      from bracketed_put [OF this suffix_drop] show ?thesis using True Cons by (subst replace_all.simps) simp
    next
      case False
      then have "bracketed inner cs (replace_all v (CHR ''['' # inner @ '']'') cs)" using 1(2) Cons by auto
      from bracketed_keep [OF this, of c] show ?thesis using False Cons by (subst replace_all.simps) auto
    qed
  qed (simp add: bracketed_nil replace_all.simps)
qed

lemma replace_all_removes:
  assumes "plain v" and "v \<noteq> []" and "\<not> sublist v inner"
  shows "\<not> sublist v (replace_all v (CHR ''['' # inner @ '']'') s)"
proof (induction "length s" arbitrary: s rule: less_induct)
  case less
  show ?case
  proof (cases s)
    case Nil
    then show ?thesis using assms(2) by (simp add: replace_all.simps)
  next
    case (Cons c cs)
    show ?thesis
    proof (cases "startsWith s v")
      case True
      then have "\<not> sublist v (replace_all v (CHR ''['' # inner @ '']'') (drop (length v) s))"
        using assms(2) Cons by (intro less) auto
      moreover have "replace_all v (CHR ''['' # inner @ '']'') s = CHR ''['' # inner @ CHR '']'' # replace_all v (CHR ''['' # inner @ '']'') (drop (length v) s)"
        using True assms(2) Cons by (subst replace_all.simps) simp
      ultimately show ?thesis using plain_in_inserted [OF assms(1,2)] assms(3) by auto
    next
      case False
      then have eq: "replace_all v (CHR ''['' # inner @ '']'') s = c # replace_all v (CHR ''['' # inner @ '']'') cs"
        using Cons by (subst replace_all.simps) simp
      have "\<not> prefix v (replace_all v (CHR ''['' # inner @ '']'') s)"
        using bracketed_prefix [OF replace_all_bracketed assms(1)] False by (auto simp: startsWith_iff prefix_def)
      moreover have "\<not> sublist v (replace_all v (CHR ''['' # inner @ '']'') cs)" using Cons by (intro less) simp
      ultimately show ?thesis using eq by (auto simp: sublist_Cons_right)
    qed
  qed
qed

lemma bracketed_self: "bracketed inner s s"
  by (induction s) (auto intro: bracketed.intros)

lemma replace_matches_bracketed:
  assumes "\<And>s rest. match s = Some rest \<Longrightarrow> suffix rest s"
  shows "bracketed inner s (replace_matches match (CHR ''['' # inner @ '']'') s)"
proof (induction "length s" arbitrary: s rule: less_induct)
  case less
  show ?case
  proof (cases s)
    case (Cons c cs)
    show ?thesis
    proof (cases "match s")
      case None
      have "bracketed inner cs (replace_matches match (CHR ''['' # inner @ '']'') cs)" using Cons by (intro less) simp
      from bracketed_keep [OF this, of c] show ?thesis using None Cons by (subst replace_matches.simps) simp
    next
      case (Some rest)
      have "bracketed inner rest (if length rest < length s then replace_matches match (CHR ''['' # inner @ '']'') rest else rest)"
        using bracketed_self less by simp
      from bracketed_put [OF this assms [OF Some]] show ?thesis using Some Cons by (subst replace_matches.simps) simp
    qed
  qed (simp add: bracketed_nil replace_matches.simps)
qed

lemma secret_ref_suffix: "secret_ref_at s = Some rest \<Longrightarrow> suffix rest s"
  by (auto simp: secret_ref_at_def Let_def suffix_drop split: if_splits)

lemma pem_line_suffix: "pem_line kind s = Some rest \<Longrightarrow> suffix rest s"
  by (auto simp: pem_line_def Let_def suffix_drop split: if_splits)

lemma after_pem_end_suffix: "after_pem_end s = Some rest \<Longrightarrow> suffix rest s"
  by (induction s) (auto split: option.splits dest: pem_line_suffix simp: suffix_Cons)

lemma pem_block_suffix: "pem_block s = Some rest \<Longrightarrow> suffix rest s"
  by (auto simp: pem_block_def bind_eq_Some_conv dest!: pem_line_suffix after_pem_end_suffix intro: suffix_order.trans)

text \<open>A secret that the marks themselves do not spell.\<close>

definition maskable :: "string \<Rightarrow> bool" where
  "maskable v \<longleftrightarrow> v \<noteq> [] \<and> plain v \<and> \<not> sublist v ''REDACTED'' \<and> \<not> sublist v ''REDACTED_PRIVATE_KEY'' \<and> \<not> sublist v ''SECRET_REF''"

lemma mask_value_bracketed: "bracketed ''REDACTED'' s (mask_value values path s)"
  using replace_all_bracketed [of "''REDACTED''"] bracketed_self by (simp add: mask_value_def split: option.split json.split)

lemma mask_value_keeps: "maskable v \<Longrightarrow> \<not> sublist v s \<Longrightarrow> \<not> sublist v (mask_value values path s)"
  using bracketed_sublist [OF mask_value_bracketed] unfolding maskable_def by blast

lemma mask_values_remove:
  assumes "maskable v" and "path \<in> set paths" and "wf_readPath (Some (JObj values)) path = Some (JStr v)"
  shows "\<not> sublist v (fold (mask_value values) paths s)"
proof -
  obtain before after where paths: "paths = before @ path # after" using assms(2) by (meson split_list)
  have "mask_value values path t = replace_all v ''[REDACTED]'' t" for t using assms(1,3) by (simp add: mask_value_def maskable_def)
  then have "\<not> sublist v (mask_value values path t)" for t
    using assms(1) replace_all_removes [of v "''REDACTED''"] by (simp add: maskable_def)
  moreover have "\<not> sublist v t \<Longrightarrow> \<not> sublist v (fold (mask_value values) after t)" for t
    by (induction after arbitrary: t) (auto simp: mask_value_keeps [OF assms(1)])
  ultimately show ?thesis using paths by simp
qed

lemma maskText_hides:
  assumes "maskable v" and "path \<in> set paths" and "wf_readPath (Some (JObj values)) path = Some (JStr v)"
  shows "\<not> str_includes (maskText text paths values) v"
proof -
  let ?a = "fold (mask_value values) paths text"
  let ?b = "replace_matches pem_block ''[REDACTED_PRIVATE_KEY]'' ?a"
  have "\<not> sublist v ?b"
    using bracketed_sublist [of "''REDACTED_PRIVATE_KEY''" ?a ?b v] replace_matches_bracketed [of pem_block "''REDACTED_PRIVATE_KEY''" ?a]
      pem_block_suffix mask_values_remove [OF assms] assms(1) by (auto simp: maskable_def)
  then show ?thesis
    using bracketed_sublist [of "''SECRET_REF''" ?b "maskText text paths values" v] replace_matches_bracketed [of secret_ref_at "''SECRET_REF''" ?b]
      secret_ref_suffix assms(1) by (auto simp: maskable_def maskText_def str_includes_iff)
qed


text \<open>A step that is skipped, in a run that knows a secret its log line happens to spell.\<close>

definition demo_secret :: wf_state where
  "demo_secret = \<lparr>wt_context = demo_context\<lparr>wc_values := [(''variables'', JObj [(''p'', JStr ''condition'')])], wc_secretPaths := [''variables.p'']\<rparr>, wt_calls = []\<rparr>"

definition demo_skip :: wf_content where
  "demo_skip = \<lparr>wn_kind = ''CurlSshWorkflow'', wn_steps = [WfStep ''a'' None
     (Some \<lparr>cd_variable = ''x'', cd_equals = None, cd_notEquals = None, cd_exists = Some True\<rparr>) None None [] (WaitBody 1)], wn_rollback = None\<rparr>"


section \<open>Sensitive outputs of a transform\<close>

definition key_char :: "char \<Rightarrow> bool" where
  "key_char c \<longleftrightarrow> c \<noteq> CHR ''.'' \<and> c \<noteq> CHR ''[''"

lemma bracket_dots_key: "list_all key_char name \<Longrightarrow> bracket_dots (name @ rest) = name @ bracket_dots rest"
proof (induction name)
  case (Cons c cs)
  then have "index_at (c # cs @ rest) = None" by (auto simp: index_at_def startsWith_def key_char_def Let_def)
  then show ?case using Cons by (subst bracket_dots.simps) simp
qed simp

lemma split_on_key: "list_all key_char name \<Longrightarrow> split_on (CHR ''.'') name = [name]"
  "list_all key_char name \<Longrightarrow> split_on (CHR ''.'') (name @ CHR ''.'' # rest) = name # split_on (CHR ''.'') rest"
  by (induction name) (auto simp: key_char_def)

lemma path_below_missing: "foldl path_key None keys = None"
  by (induction keys) (simp_all add: path_key_def)

lemma below_missing_key:
  assumes "list_all key_char name" and "name \<noteq> []" and "jget values name = None"
  shows "wf_readPath (Some (JObj values)) name = None" and "wf_readPath (Some (JObj values)) (name @ CHR ''.'' # rest) = None"
proof -
  have "bracket_dots [] = []" by (subst bracket_dots.simps) simp
  then have "bracket_dots name = name" using bracket_dots_key [OF assms(1), of "[]"] by simp
  then show "wf_readPath (Some (JObj values)) name = None" using assms by (simp add: wf_readPath_def split_on_key path_key_def)
  have "bracket_dots (CHR ''.'' # rest) = CHR ''.'' # bracket_dots rest"
    by (subst bracket_dots.simps) (simp add: index_at_def startsWith_def Let_def)
  then show "wf_readPath (Some (JObj values)) (name @ CHR ''.'' # rest) = None"
    using assms bracket_dots_key [OF assms(1), of "CHR ''.'' # rest"] by (simp add: wf_readPath_def split_on_key path_key_def path_below_missing)
qed

text \<open>The paths collected for a value are the path of the value and paths below it.\<close>

definition at_or_below :: "string \<Rightarrow> string \<Rightarrow> bool" where
  "at_or_below path p \<longleftrightarrow> p = path \<or> (\<exists>rest. p = path @ CHR ''.'' # rest)"

lemma at_or_below_trans: "at_or_below (path @ CHR ''.'' # k) p \<Longrightarrow> at_or_below path p"
  by (auto simp: at_or_below_def)

lemma add_path_extends: "\<exists>extra. add_path p paths = paths @ extra \<and> list_all (at_or_below p) extra"
  by (simp add: add_path_def at_or_below_def)

lemma collected_extends: "\<exists>extra. collectValuePaths path v paths = paths @ extra \<and> list_all (at_or_below path) extra"
proof (induction path v paths rule: collectValuePaths.induct)
  case (1 path kvs paths)
  have "\<exists>extra. fold (\<lambda>(k, v). collectValuePaths (path @ ''.'' @ k) v) kvs' ps = ps @ extra \<and> list_all (at_or_below path) extra"
    if "set kvs' \<subseteq> set kvs" for kvs' ps
    using that
  proof (induction kvs' arbitrary: ps)
    case (Cons kv kvs')
    obtain k v where kv: "kv = (k, v)" by force
    have "\<exists>extra. collectValuePaths (path @ ''.'' @ k) v ps = ps @ extra \<and> list_all (at_or_below (path @ ''.'' @ k)) extra"
      by (rule 1) (use Cons.prems kv in auto)
    then obtain extra where "collectValuePaths (path @ ''.'' @ k) v ps = ps @ extra" "list_all (at_or_below (path @ ''.'' @ k)) extra" by blast
    moreover obtain extra' where "fold (\<lambda>(k, v). collectValuePaths (path @ ''.'' @ k) v) kvs' (ps @ extra) = (ps @ extra) @ extra'"
      "list_all (at_or_below path) extra'" using Cons.IH [of "ps @ extra"] Cons.prems by auto
    ultimately show ?case using kv by (intro exI [of _ "extra @ extra'"]) (auto simp: list_all_iff dest: at_or_below_trans)
  qed simp
  from this [OF subset_refl, of "add_path path paths"] add_path_extends [of path paths] show ?case by (auto simp: list_all_iff)
qed (use add_path_extends in simp_all)

lemma below_missing:
  "at_or_below name p \<Longrightarrow> list_all key_char name \<Longrightarrow> name \<noteq> [] \<Longrightarrow> jget values name = None \<Longrightarrow> mask_value values p text = text"
  by (auto simp: at_or_below_def mask_value_def below_missing_key)

text \<open>What a transform marks sensitive is not hidden: the paths \<open>readTransformOutputs\<close> adds are the bare names of the outputs,
  which name nothing in the values of the run, so masking with them is masking without them.\<close>

theorem sensitive_transform_leaks:
  assumes "readTransformOutputs t out ctx = (Inr outputs, ctx')"
    and "list_all (\<lambda>(name, config). list_all key_char name \<and> name \<noteq> [] \<and> jget values name = None) (tc_outputs t)"
  shows "maskText text (wc_secretPaths ctx') values = maskText text (wc_secretPaths ctx) values"
proof -
  let ?add = "\<lambda>(name, config) paths. if to_sensitive config then (case jget outputs name of None \<Rightarrow> paths | Some v \<Rightarrow> collectValuePaths name v paths) else paths"
  have "fold (mask_value values) (fold ?add configs paths) text = fold (mask_value values) paths text"
    if "set configs \<subseteq> set (tc_outputs t)" for configs paths
    using that
  proof (induction configs arbitrary: paths)
    case (Cons nc configs)
    obtain name config where nc: "nc = (name, config)" by force
    then have name: "list_all key_char name" "name \<noteq> []" "jget values name = None" using Cons.prems assms(2) by (auto simp: list_all_iff)
    have skip: "list_all (at_or_below name) extra \<Longrightarrow> fold (mask_value values) (ps @ extra) text = fold (mask_value values) ps text" for ps extra
      by (induction extra rule: rev_induct) (use below_missing name in \<open>auto simp flip: append_assoc\<close>)
    have "fold (mask_value values) (collectValuePaths name v ps) text = fold (mask_value values) ps text" for v ps
    proof -
      obtain extra where "collectValuePaths name v ps = ps @ extra" "list_all (at_or_below name) extra" using collected_extends by blast
      then show ?thesis using skip [of extra ps] by simp
    qed
    then have "fold (mask_value values) (?add nc paths) text = fold (mask_value values) paths text"
      using nc by (auto split: option.split)
    then show ?case using Cons by simp
  qed simp
  then have "fold (mask_value values) (wc_secretPaths ctx') text = fold (mask_value values) (wc_secretPaths ctx) text"
    using assms(1) by (auto simp: readTransformOutputs_def split: option.split_asm json.split_asm)
  then show ?thesis by (simp add: maskText_def)
qed

text \<open>The token a transform computes stays in the text, although its output is marked sensitive.\<close>

lemma sensitive_transform_leaks_witness:
  "maskText ''log s3cr3t'' (wc_secretPaths (snd (readTransformOutputs
     \<lparr>tc_engine = ''jsonata'', tc_input = None, tc_outputs = [(''token'', \<lparr>to_expression = ''x'', to_format = None, to_sensitive = True, to_optional = False\<rparr>)],
       tc_timeoutMs = None, tc_maxInputBytes = None, tc_maxOutputBytes = None\<rparr>
     (mock_body [(''outputs'', JObj [(''token'', JStr ''s3cr3t'')])]) demo_context)))
     [(''steps'', JObj [(''t'', JObj [(''extracted'', JObj [(''token'', JStr ''s3cr3t'')])])])] = ''log s3cr3t''"
  (is "maskText _ (wc_secretPaths (snd (readTransformOutputs ?t ?out _))) ?values = _")
proof -
  have "wf_readPath (wo_body ?out) ''outputs'' = Some (JObj [(''token'', JStr ''s3cr3t'')])" by code_simp
  then have "\<exists>ctx. readTransformOutputs ?t ?out demo_context = (Inr [(''token'', JStr ''s3cr3t'')], ctx)"
    by (simp add: readTransformOutputs_def)
  then obtain ctx where ctx: "readTransformOutputs ?t ?out demo_context = (Inr [(''token'', JStr ''s3cr3t'')], ctx)" ..
  have "maskText ''log s3cr3t'' (wc_secretPaths ctx) ?values = maskText ''log s3cr3t'' (wc_secretPaths demo_context) ?values"
    by (rule sensitive_transform_leaks [OF ctx]) (simp add: jget_def key_char_def)
  also have "\<dots> = ''log s3cr3t''" by code_simp
  finally show ?thesis using ctx by simp
qed

section \<open>Checkpoints\<close>

text \<open>What the recorded values of a checkpoint are.\<close>

lemma capture_entries_safe:
  assumes "capture_entries env ctx mode entries captured deferred = Inr (captured', deferred')" and "mode \<noteq> ''render_only''"
    and "list_all (\<lambda>(k, v). assertCheckpointValueSafe env v) captured"
  shows "deferred' = deferred \<and> list_all (\<lambda>(k, v). assertCheckpointValueSafe env v) captured' \<and> fst ` set captured' = fst ` set captured \<union> fst ` set entries"
  using assms
proof (induction env ctx mode entries captured deferred rule: capture_entries.induct)
  case (2 env ctx mode name path rest captured deferred)
  then obtain v where v: "assertCheckpointValueSafe env v"
    and rest: "capture_entries env ctx mode rest (AList.update name v captured) deferred = Inr (captured', deferred')"
    and IH: "list_all (\<lambda>(k, v). assertCheckpointValueSafe env v) (AList.update name v captured) \<Longrightarrow>
      deferred' = deferred \<and> list_all (\<lambda>(k, v). assertCheckpointValueSafe env v) captured'
        \<and> fst ` set captured' = fst ` set (AList.update name v captured) \<union> fst ` set rest"
    by (auto split: if_split_asm option.split_asm)
  have "list_all (\<lambda>(k, v). assertCheckpointValueSafe env v) (AList.update name v captured)"
    using 2(5) v set_alist_update [of name v captured] by (auto simp: list_all_iff)
  from IH [OF this] show ?case by auto
qed simp

lemma checkpoint_captured:
  assumes "checkpoint_plan env k ctx mode = Inr plan" and "mode \<noteq> ''render_only''"
  obtains captured where "jget (asRecord (Some plan)) ''capture'' = Some (JObj captured)"
    and "jget (asRecord (Some plan)) ''captureHash'' = Some (JStr (workflow_digest env (JObj captured)))"
    and "list_all (\<lambda>(k, v). assertCheckpointValueSafe env v) captured" and "fst ` set captured = fst ` set (kc_capture k)"
proof -
  obtain captured deferred where capture: "capture_entries env ctx mode (kc_capture k) [] [] = Inr (captured, deferred)"
    using assms(1) by (auto simp: checkpoint_plan_def bind_result_Inr)
  from capture_entries_safe [OF this assms(2)] have safe: "deferred = []" "list_all (\<lambda>(k, v). assertCheckpointValueSafe env v) captured"
    "fst ` set captured = fst ` set (kc_capture k)" by auto
  then show ?thesis using that [of captured] assms(1) capture by (auto simp: checkpoint_plan_def Let_def jget_Cons)
qed

text \<open>The rollback branch reads the snapshot a protected checkpoint left in the variables.\<close>

lemma read_variable:
  assumes "jget values ''variables'' = Some (JObj vars)"
  shows "wf_readPath (Some (JObj values)) ''variables.recoverySnapshot'' = jget vars ''recoverySnapshot''"
    and "wf_readPath (Some (JObj values)) ''variables.recoverySnapshotHash'' = jget vars ''recoverySnapshotHash''"
proof -
  have "split_on (CHR ''.'') (bracket_dots ''variables.recoverySnapshot'') = [''variables'', ''recoverySnapshot'']"
    "split_on (CHR ''.'') (bracket_dots ''variables.recoverySnapshotHash'') = [''variables'', ''recoverySnapshotHash'']" by code_simp+
  then show "wf_readPath (Some (JObj values)) ''variables.recoverySnapshot'' = jget vars ''recoverySnapshot''"
    "wf_readPath (Some (JObj values)) ''variables.recoverySnapshotHash'' = jget vars ''recoverySnapshotHash''"
    using assms by (simp_all add: wf_readPath_def path_key_def)
qed

lemma render_snapshot_hash:
  assumes "jget values ''variables'' = Some (JObj vars)" and "jget vars ''recoverySnapshotHash'' = Some (JStr h)"
  shows "renderString ''{{variables.recoverySnapshotHash}}'' values keep = Inr h"
proof -
  have "ref_at ''{{variables.recoverySnapshotHash}}'' = Some (''variables.recoverySnapshotHash'', [])" by code_simp
  moreover have "render_scan f [] = Inr []" for f by (subst render_scan.simps) simp
  ultimately show ?thesis
    using read_variable(2) [OF assms(1)] assms(2) by (subst renderString_def, subst render_scan.simps) (simp add: render_ref_def)
qed

lemma recovery_variables_hold:
  assumes "ws_body step = CheckpointBody k" and "kc_requiredForRollback k"
    and "jget (asRecord (Some plan)) ''capture'' = Some (JObj m)" and "jget (asRecord (Some plan)) ''captureHash'' = Some (JStr h)"
  obtains vars where "jget (recovery_variables step plan values) ''variables'' = Some (JObj vars)"
    and "jget vars ''recoverySnapshot'' = Some (JObj m)" and "jget vars ''recoverySnapshotHash'' = Some (JStr h)"
  using assms by (auto simp: recovery_variables_def jget_update)

lemma verify_snapshot:
  assumes "jget values ''variables'' = Some (JObj vars)" and "jget vars ''recoverySnapshot'' = Some (JObj m)"
    and "jget vars ''recoverySnapshotHash'' = Some (JStr h)"
  shows "checkpoint_verify_plan env ''variables.recoverySnapshot'' ''{{variables.recoverySnapshotHash}}'' values mode
    = (if assertCheckpointValueSafe env (JObj m) then Inr (JObj [(''executor'', JStr ''workflow.checkpoint_verify''), (''valuePath'', JStr ''variables.recoverySnapshot''),
         (''expectedHash'', JStr (toLowerCase h)), (''actualHash'', JStr (workflow_digest env (JObj m))),
         (''matched'', JBool (workflow_digest env (JObj m) = toLowerCase h)), (''plannedOnly'', JBool (mode = ''render_only''))])
       else Inl (AppError ''VALIDATION_FAILED''))"
  using read_variable(1) [OF assms(1)] assms(2) render_snapshot_hash [OF assms(1,3)] by (simp add: checkpoint_verify_plan_def Let_def)

text \<open>C15. A checkpoint and its verification fit: after a protected checkpoint none of whose names looks like a secret, verifying
  the snapshot it left against the hash it left succeeds.\<close>

theorem checkpoint_roundtrip:
  assumes "ws_body step = CheckpointBody k" and "kc_requiredForRollback k" and "checkpoint_plan env k ctx mode = Inr plan" and "mode \<noteq> ''render_only''"
    and "\<not> list_ex (\<lambda>(name, path). isSensitiveKey name) (kc_capture k)" and "\<And>m. we_bytes env (JObj m) = None"
    and "\<And>s. toLowerCase (we_sha env s) = we_sha env s"
  shows "stepOutputSuccess env (WfStep name stage cond retry ex asserts (CheckpointVerifyBody ''variables.recoverySnapshot'' ''{{variables.recoverySnapshotHash}}''))
    out (recovery_variables step plan values) = Inr True"
proof -
  obtain m where m: "jget (asRecord (Some plan)) ''capture'' = Some (JObj m)"
    "jget (asRecord (Some plan)) ''captureHash'' = Some (JStr (workflow_digest env (JObj m)))"
    "list_all (\<lambda>(k, v). assertCheckpointValueSafe env v) m" "fst ` set m = fst ` set (kc_capture k)"
    by (rule checkpoint_captured [OF assms(3,4)])
  obtain vars where "jget (recovery_variables step plan values) ''variables'' = Some (JObj vars)"
    "jget vars ''recoverySnapshot'' = Some (JObj m)" "jget vars ''recoverySnapshotHash'' = Some (JStr (workflow_digest env (JObj m)))"
    by (rule recovery_variables_hold [OF assms(1,2) m(1,2)])
  note verify = verify_snapshot [OF this]
  have "\<not> isSensitiveKey n" if "n \<in> fst ` set m" for n using that assms(5) m(4) by (auto simp: list_ex_iff)
  then have "assertCheckpointValueSafe env (JObj m)" using m(3) assms(6) by (fastforce simp: list_all_iff)
  then show ?thesis using assms(7) by (simp add: stepOutputSuccess_def verify jget_Cons workflow_digest_def)
qed

definition demo_checkpoint :: "string \<Rightarrow> checkpoint_config" where
  "demo_checkpoint name = \<lparr>kc_name = ''before'', kc_capture = [(name, ''system.port'')], kc_normalizedHash = None, kc_requiredForRollback = True\<rparr>"

definition demo_capture :: "string \<Rightarrow> json" where
  "demo_capture name = projr (checkpoint_plan demo_env (demo_checkpoint name) (demo_context\<lparr>wc_values := [(''system'', JObj [(''port'', JNum 443)])]\<rparr>) ''mock'')"

lemma demo_capture: "checkpoint_plan demo_env (demo_checkpoint ''port'') (demo_context\<lparr>wc_values := [(''system'', JObj [(''port'', JNum 443)])]\<rparr>) ''mock''
    = Inr (demo_capture ''port'')"
  "checkpoint_plan demo_env (demo_checkpoint ''tokenPath'') (demo_context\<lparr>wc_values := [(''system'', JObj [(''port'', JNum 443)])]\<rparr>) ''mock''
    = Inr (demo_capture ''tokenPath'')"
  unfolding demo_capture_def by code_simp+

lemma checkpoint_roundtrip_witness:
  "stepOutputSuccess demo_env (WfStep ''check'' None None None None [] (CheckpointVerifyBody ''variables.recoverySnapshot'' ''{{variables.recoverySnapshotHash}}''))
    no_output (recovery_variables (demo_step ''save'' (CheckpointBody (demo_checkpoint ''port''))) (demo_capture ''port'') []) = Inr True"
proof (rule checkpoint_roundtrip [OF _ _ demo_capture(1)])
  show "\<not> list_ex (\<lambda>(name, path). isSensitiveKey name) (kc_capture (demo_checkpoint ''port''))" by code_simp
  have "toLowerCase ''0'' = ''0''" by code_simp
  then show "toLowerCase (we_sha demo_env s) = we_sha demo_env s" for s by (simp add: demo_env_def)
qed (simp_all add: demo_checkpoint_def demo_env_def)

text \<open>A checkpoint accepts a name it cannot verify: capturing under a name that looks like a secret passes, and every
  verification of the snapshot then ends in an error, so the rollback branch that checks it first does nothing.\<close>

theorem sensitive_capture_unverifiable:
  assumes "ws_body step = CheckpointBody k" and "kc_requiredForRollback k" and "checkpoint_plan env k ctx mode = Inr plan" and "mode \<noteq> ''render_only''"
    and "list_ex (\<lambda>(name, path). isSensitiveKey name) (kc_capture k)"
  shows "checkpoint_verify_plan env ''variables.recoverySnapshot'' ''{{variables.recoverySnapshotHash}}'' (recovery_variables step plan values) mode'
    = Inl (AppError ''VALIDATION_FAILED'')"
proof -
  obtain m where m: "jget (asRecord (Some plan)) ''capture'' = Some (JObj m)"
    "jget (asRecord (Some plan)) ''captureHash'' = Some (JStr (workflow_digest env (JObj m)))"
    "list_all (\<lambda>(k, v). assertCheckpointValueSafe env v) m" "fst ` set m = fst ` set (kc_capture k)"
    by (rule checkpoint_captured [OF assms(3,4)])
  obtain vars where "jget (recovery_variables step plan values) ''variables'' = Some (JObj vars)"
    "jget vars ''recoverySnapshot'' = Some (JObj m)" "jget vars ''recoverySnapshotHash'' = Some (JStr (workflow_digest env (JObj m)))"
    by (rule recovery_variables_hold [OF assms(1,2) m(1,2)])
  note verify = verify_snapshot [OF this]
  obtain n where "n \<in> fst ` set m" "isSensitiveKey n" using assms(5) m(4) by (force simp: list_ex_iff)
  then have "\<not> assertCheckpointValueSafe env (JObj m)" by (auto simp: list_all_iff)
  then show ?thesis by (simp add: verify)
qed

lemma sensitive_capture_unverifiable_witness:
  "checkpoint_verify_plan demo_env ''variables.recoverySnapshot'' ''{{variables.recoverySnapshotHash}}''
     (recovery_variables (demo_step ''save'' (CheckpointBody (demo_checkpoint ''tokenPath''))) (demo_capture ''tokenPath'') []) ''real_test''
   = Inl (AppError ''VALIDATION_FAILED'')"
proof (rule sensitive_capture_unverifiable [OF _ _ demo_capture(2)])
  show "list_ex (\<lambda>(name, path). isSensitiveKey name) (kc_capture (demo_checkpoint ''tokenPath''))" by code_simp
qed (simp_all add: demo_checkpoint_def)

end
