(* ===== verification/WorkflowTemplates.thy ===== *)
theory WorkflowTemplates
  imports WorkflowRuntime
begin

text \<open>
  Templates of workflows and their versions: the first part and the private methods of
  \<open>backend/src/modules/workflow-templates/domain/workflow-templates.domain-service.ts\<close>.

  The service keeps a copy of all templates and versions in memory and writes every change to two document repositories. The
  state holds both, so that a write that fails between the two leaves what it leaves. Objects of the copy are changed in
  place before they are written, as the code does. Content is the JSON document; \<open>te_validate\<close> stands for the schema registry,
  \<open>te_fault\<close> says which writes fail. New identifiers and the clock are arguments.
\<close>

section \<open>Semantic versions\<close>

text \<open>\<open>text.split(c, n)\<close>\<close>

definition split_limit :: "char \<Rightarrow> nat \<Rightarrow> string \<Rightarrow> string list" where
  "split_limit c n s = take n (split_on c s)"

definition nth_part :: "string list \<Rightarrow> nat \<Rightarrow> string option" where
  "nth_part xs i = (if i < length xs then Some (xs ! i) else None)"

definition semver_text :: "string \<Rightarrow> string list" where
  "semver_text v = split_limit (CHR ''-'') 2 (hd (split_limit (CHR ''+'') 1 v))"

definition core_part :: "string \<Rightarrow> nat \<Rightarrow> int" where
  "core_part v i = (case nth_part (split_on (CHR ''.'') (hd (semver_text v))) i of None \<Rightarrow> 0 | Some s \<Rightarrow> int (nat_of_digits s))"

definition preRelease :: "string \<Rightarrow> string" where
  "preRelease v = getOrElse (nth_part (semver_text v) 1) []"

fun str_below :: "string \<Rightarrow> string \<Rightarrow> bool" where
  "str_below [] [] = False"
| "str_below [] (d # ds) = True"
| "str_below (c # cs) [] = False"
| "str_below (c # cs) (d # ds) = ((of_char c :: nat) < of_char d \<or> c = d \<and> str_below cs ds)"

definition part_number :: "string \<Rightarrow> int option" where
  "part_number p = (if p \<noteq> [] \<and> list_all is_digit p then Some (int (nat_of_digits p)) else None)"

definition compare_part :: "string \<Rightarrow> string \<Rightarrow> int" where
  "compare_part l r = (case (part_number l, part_number r) of
     (Some a, Some b) \<Rightarrow> a - b | (Some _, None) \<Rightarrow> -1 | (None, Some _) \<Rightarrow> 1
   | (None, None) \<Rightarrow> if str_below l r then -1 else 1)"

fun compare_parts :: "string list \<Rightarrow> string list \<Rightarrow> int" where
  "compare_parts [] [] = 0"
| "compare_parts [] (r # rs) = -1"
| "compare_parts (l # ls) [] = 1"
| "compare_parts (l # ls) (r # rs) = (if l = r then compare_parts ls rs else compare_part l r)"

definition compareSemanticVersions :: "string \<Rightarrow> string \<Rightarrow> int" where
  "compareSemanticVersions left right = (case find (\<lambda>i. core_part left i \<noteq> core_part right i) [0, 1, 2] of
     Some i \<Rightarrow> core_part left i - core_part right i
   | None \<Rightarrow> if preRelease left = [] \<and> preRelease right = [] then 0
       else if preRelease left = [] then 1 else if preRelease right = [] then -1
       else compare_parts (split_on (CHR ''.'') (preRelease left)) (split_on (CHR ''.'') (preRelease right)))"

definition metadata_text :: "json \<Rightarrow> string \<Rightarrow> string" where
  "metadata_text content k = (case jget (asRecord (jget (asRecord (Some content)) ''metadata'')) k of Some (JStr s) \<Rightarrow> s | _ \<Rightarrow> [])"

definition assertPluginVersionIncrement :: "json \<Rightarrow> json \<Rightarrow> bool \<Rightarrow> unit result" where
  "assertPluginVersionIncrement previous content requireIncrement =
    (let p = metadata_text previous ''version''; n = metadata_text content ''version'' in
     if \<not> requireIncrement \<or> p = [] \<and> n = [] then Inr ()
     else if p = [] \<or> n = [] \<or> compareSemanticVersions n p \<le> 0 then Inl (AppError ''VALIDATION_FAILED'') else Inr ())"

section \<open>Templates, versions and the state\<close>

record plugin_source =
  ps_pluginId :: string
  ps_pluginVersionId :: string
  ps_capabilityKey :: string
  ps_sourceWorkflowVersionId :: string
  ps_sourceContentHash :: string
  ps_createdAt :: string
  ps_sourceWorkflowTemplateId :: "string option"

record wf_template =
  wp_id :: string
  wp_name :: string
  wp_origin :: string
  wp_ownerType :: "string option"
  wp_ownerId :: "string option"
  wp_tenantId :: "string option"
  wp_status :: string
  wp_currentVersionId :: "string option"
  wp_createdAt :: instant
  wp_updatedAt :: instant

record tpl_version =
  tv_id :: string
  tv_templateId :: string
  tv_version :: int
  tv_content :: json
  tv_contentHash :: string
  tv_status :: string
  tv_lifecycle :: "string option"
  tv_changeSummary :: "string option"
  tv_pluginSource :: "plugin_source option"
  tv_createdAt :: instant

record tpl_store =
  tp_templates :: "(string \<times> wf_template) list"
  tp_versions :: "(string \<times> tpl_version list) list"
  tp_templateDocs :: "wf_template docs"
  tp_versionDocs :: "tpl_version docs"
  tp_writes :: nat

record tpl_env =
  te_wf :: wf_env
  te_validate :: "json \<Rightarrow> json result"
  te_fault :: "nat \<Rightarrow> error option"
  te_lt :: "string \<Rightarrow> string \<Rightarrow> bool"

type_synonym 'a tpl_exec = "tpl_store \<Rightarrow> 'a result \<times> tpl_store"

definition tpl_check :: "bool \<Rightarrow> string \<Rightarrow> unit tpl_exec" where
  "tpl_check ok code st = ((if ok then Inr () else Inl (AppError code)), st)"

definition tpl_lift :: "'a result \<Rightarrow> 'a tpl_exec" where
  "tpl_lift r st = (r, st)"

definition versions_of :: "tpl_store \<Rightarrow> string \<Rightarrow> tpl_version list" where
  "versions_of st tid = getOrElse (map_of (tp_versions st) tid) []"

definition put_template :: "wf_template \<Rightarrow> tpl_store \<Rightarrow> tpl_store" where
  "put_template t st = st\<lparr>tp_templates := AList.update (wp_id t) t (tp_templates st)\<rparr>"

definition put_versions :: "string \<Rightarrow> tpl_version list \<Rightarrow> tpl_store \<Rightarrow> tpl_store" where
  "put_versions tid vs st = st\<lparr>tp_versions := AList.update tid vs (tp_versions st)\<rparr>"

text \<open>A change of a version object that a list holds.\<close>

definition put_version :: "string \<Rightarrow> tpl_version \<Rightarrow> tpl_store \<Rightarrow> tpl_store" where
  "put_version tid v st = put_versions tid (map (\<lambda>x. if tv_id x = tv_id v then v else x) (versions_of st tid)) st"

definition save_template :: "tpl_env \<Rightarrow> instant \<Rightarrow> wf_template \<Rightarrow> unit tpl_exec" where
  "save_template env now t st = (case te_fault env (tp_writes st) of
     Some e \<Rightarrow> (Inl e, st\<lparr>tp_writes := Suc (tp_writes st)\<rparr>)
   | None \<Rightarrow> (Inr (), st\<lparr>tp_writes := Suc (tp_writes st), tp_templateDocs := pg_upsert wp_id now t (tp_templateDocs st)\<rparr>))"

definition save_version :: "tpl_env \<Rightarrow> instant \<Rightarrow> tpl_version \<Rightarrow> unit tpl_exec" where
  "save_version env now v st = (case te_fault env (tp_writes st) of
     Some e \<Rightarrow> (Inl e, st\<lparr>tp_writes := Suc (tp_writes st)\<rparr>)
   | None \<Rightarrow> (Inr (), st\<lparr>tp_writes := Suc (tp_writes st), tp_versionDocs := pg_upsert tv_id now v (tp_versionDocs st)\<rparr>))"

section \<open>Reading\<close>

definition known_origin :: "string \<Rightarrow> bool" where
  "known_origin origin \<longleftrightarrow> origin \<in> {''plugin_internal'', ''user''}"

definition normalizeOrigin :: "string \<Rightarrow> string result" where
  "normalizeOrigin origin = (if known_origin origin then Inr origin else Inl (AppError ''VALIDATION_FAILED''))"

definition owner_type :: "string option \<Rightarrow> string \<Rightarrow> string" where
  "owner_type given origin = getOrElse given (if origin = ''plugin_internal'' then ''SYSTEM'' else ''TENANT'')"

definition owner_id :: "string option \<Rightarrow> string \<Rightarrow> string option" where
  "owner_id given ownerType = orElse given (if ownerType = ''SYSTEM'' then Some ''SYSTEM'' else None)"

definition normalizeTemplate :: "wf_template \<Rightarrow> wf_template" where
  "normalizeTemplate t = (let ownerType = owner_type (wp_ownerType t) (wp_origin t); ownerId = owner_id (wp_ownerId t) ownerType
     in t\<lparr>wp_ownerType := Some ownerType, wp_ownerId := (if truthy ownerId then ownerId else wp_ownerId t)\<rparr>)"

definition normalizeCurrentTemplate :: "wf_template \<Rightarrow> wf_template option" where
  "normalizeCurrentTemplate t = (if known_origin (wp_origin t) then Some (normalizeTemplate t) else None)"

definition normalizePluginSource :: "plugin_source \<Rightarrow> plugin_source" where
  "normalizePluginSource s = s\<lparr>ps_sourceWorkflowTemplateId := nullif_empty (ps_sourceWorkflowTemplateId s)\<rparr>"

definition normalizeVersion :: "tpl_version \<Rightarrow> tpl_version" where
  "normalizeVersion v = v\<lparr>tv_pluginSource := map_option normalizePluginSource (tv_pluginSource v)\<rparr>"

definition loadPersistedTemplate :: "string \<Rightarrow> wf_template option tpl_exec" where
  "loadPersistedTemplate tid st = (case Option.bind (pg_get (tp_templateDocs st) tid) normalizeCurrentTemplate of
     None \<Rightarrow> (Inr None, st) | Some t \<Rightarrow> (Inr (Some t), put_template t st))"

definition getTemplateOrThrow :: "string \<Rightarrow> wf_template tpl_exec" where
  "getTemplateOrThrow tid st = (case map_of (tp_templates st) tid of Some t \<Rightarrow> (Inr t, st)
   | None \<Rightarrow> andThen (loadPersistedTemplate tid st) (\<lambda>found st.
       case found of None \<Rightarrow> (Inl (AppError ''RESOURCE_NOT_FOUND''), st) | Some t \<Rightarrow> (Inr t, st)))"

definition version_before :: "tpl_env \<Rightarrow> tpl_version \<Rightarrow> tpl_version \<Rightarrow> bool" where
  "version_before env a b \<longleftrightarrow> tv_version a < tv_version b \<or> tv_version a = tv_version b \<and> (tv_createdAt a < tv_createdAt b
     \<or> tv_createdAt a = tv_createdAt b \<and> te_lt env (tv_id a) (tv_id b))"

definition cacheVersion :: "tpl_env \<Rightarrow> tpl_version \<Rightarrow> tpl_store \<Rightarrow> tpl_store" where
  "cacheVersion env v st = put_versions (tv_templateId v)
     (sort_by (version_before env) (filter (\<lambda>x. tv_id x \<noteq> tv_id v) (versions_of st (tv_templateId v)) @ [v])) st"

text \<open>The first list that holds the version, and the version in it.\<close>

fun find_in_lists :: "string \<Rightarrow> (string \<times> tpl_version list) list \<Rightarrow> (string \<times> tpl_version) option" where
  "find_in_lists vid [] = None"
| "find_in_lists vid ((tid, vs) # rest) = (case find (\<lambda>v. tv_id v = vid) vs of Some v \<Rightarrow> Some (tid, v) | None \<Rightarrow> find_in_lists vid rest)"

definition findVersion :: "tpl_env \<Rightarrow> string \<Rightarrow> (wf_template \<times> tpl_version) tpl_exec" where
  "findVersion env vid st = (case find_in_lists vid (tp_versions st) of
     Some (tid, v) \<Rightarrow> andThen (getTemplateOrThrow tid st) (\<lambda>t st. (Inr (t, v), st))
   | None \<Rightarrow> (case map_option normalizeVersion (pg_get (tp_versionDocs st) vid) of
       None \<Rightarrow> (Inl (AppError ''RESOURCE_NOT_FOUND''), st)
     | Some v \<Rightarrow> andThen (getTemplateOrThrow (tv_templateId v) st) (\<lambda>t st. (Inr (t, v), cacheVersion env v st))))"

definition deriveTemplateStatus :: "tpl_version list \<Rightarrow> string" where
  "deriveTemplateStatus vs = (let enabled = filter (\<lambda>v. tv_status v \<noteq> ''disabled'') vs in
     if \<exists>v \<in> set enabled. tv_status v = ''draft'' then ''draft'' else if enabled \<noteq> [] then ''published'' else ''draft'')"

record tpl_summary =
  ty_template :: wf_template
  ty_currentVersion :: "int option"
  ty_currentVersionLabel :: "string option"

definition withCurrentVersionSummary :: "tpl_store \<Rightarrow> wf_template \<Rightarrow> tpl_summary" where
  "withCurrentVersionSummary st t = (let vs = versions_of st (wp_id t); current = find (\<lambda>v. Some (tv_id v) = wp_currentVersionId t) vs
     in \<lparr>ty_template = t\<lparr>wp_status := (if wp_status t = ''disabled'' then ''disabled'' else deriveTemplateStatus vs)\<rparr>,
         ty_currentVersion = map_option tv_version current,
         ty_currentVersionLabel = map_option (\<lambda>v. ''V'' @ int_to_string (tv_version v)) current\<rparr>)"

text \<open>\<open>filter(status).sort((l, r) => r.version - l.version)[0]\<close>, after the current one when it has the status.\<close>

definition current_or_latest :: "string \<Rightarrow> wf_template \<Rightarrow> tpl_version list \<Rightarrow> tpl_version option" where
  "current_or_latest status t vs = (case find (\<lambda>v. Some (tv_id v) = wp_currentVersionId t \<and> tv_status v = status) vs of
     Some v \<Rightarrow> Some v
   | None \<Rightarrow> (case sort_by (\<lambda>l r. tv_version r < tv_version l) (filter (\<lambda>v. tv_status v = status) vs) of [] \<Rightarrow> None | v # _ \<Rightarrow> Some v))"

definition findEditableDraftVersion :: "wf_template \<Rightarrow> tpl_version list \<Rightarrow> tpl_version option" where
  "findEditableDraftVersion t vs = current_or_latest ''draft'' t vs"

definition getRuntimePublishedVersion :: "string \<Rightarrow> tpl_version option tpl_exec" where
  "getRuntimePublishedVersion tid st = andThen (getTemplateOrThrow tid st) (\<lambda>t st.
     (Inr (current_or_latest ''published'' t (versions_of st tid)), st))"

definition listTemplates :: "tpl_store \<Rightarrow> tpl_summary list" where
  "listTemplates st = map (withCurrentVersionSummary st) (filter (\<lambda>t. wp_status t \<noteq> ''disabled'') (map snd (tp_templates st)))"

definition listVersions :: "string \<Rightarrow> tpl_version list tpl_exec" where
  "listVersions tid st = andThen (getTemplateOrThrow tid st) (\<lambda>t st. (Inr (versions_of st tid), st))"

definition getVersion :: "tpl_env \<Rightarrow> string \<Rightarrow> tpl_version tpl_exec" where
  "getVersion env vid st = andThen (findVersion env vid st) (\<lambda>(t, v) st. (Inr v, st))"

definition getTemplate :: "string \<Rightarrow> tpl_summary tpl_exec" where
  "getTemplate tid st = andThen (getTemplateOrThrow tid st) (\<lambda>t st. (Inr (withCurrentVersionSummary st t), st))"

section \<open>Writing\<close>

definition computeWorkflowContentHash :: "tpl_env \<Rightarrow> json \<Rightarrow> string" where
  "computeWorkflowContentHash env content = workflow_digest (te_wf env) content"

definition createVersion :: "tpl_env \<Rightarrow> instant \<Rightarrow> string \<Rightarrow> string \<Rightarrow> int \<Rightarrow> json \<Rightarrow> string option \<Rightarrow> plugin_source option \<Rightarrow> tpl_version" where
  "createVersion env now vid tid n content changeSummary source = \<lparr>tv_id = vid, tv_templateId = tid, tv_version = n, tv_content = content,
     tv_contentHash = computeWorkflowContentHash env content, tv_status = ''draft'', tv_lifecycle = None, tv_changeSummary = changeSummary,
     tv_pluginSource = source, tv_createdAt = now\<rparr>"

record create_input =
  ci_content :: json
  ci_changeSummary :: "string option"
  ci_pluginSource :: "plugin_source option"

record ownership =
  ow_ownerType :: "string option"
  ow_ownerId :: "string option"
  ow_tenantId :: "string option"

definition createTemplate :: "tpl_env \<Rightarrow> instant \<Rightarrow> string \<Rightarrow> string \<Rightarrow> create_input \<Rightarrow> string \<Rightarrow> ownership \<Rightarrow> (wf_template \<times> tpl_version) tpl_exec" where
  "createTemplate env now tid vid inp origin ownership st =
     andThen (tpl_lift (te_validate env (ci_content inp)) st) (\<lambda>content st.
     andThen (tpl_lift (normalizeOrigin origin) st) (\<lambda>origin st.
     let ownerType = owner_type (ow_ownerType ownership) origin; ownerId = owner_id (ow_ownerId ownership) ownerType;
         v = (createVersion env now vid tid 1 content (ci_changeSummary inp) (ci_pluginSource inp))\<lparr>tv_lifecycle := Some ''CURRENT''\<rparr>;
         t = \<lparr>wp_id = tid, wp_name = metadata_text content ''name'', wp_origin = origin, wp_ownerType = Some ownerType,
           wp_ownerId = (if truthy ownerId then ownerId else None), wp_tenantId = nullif_empty (ow_tenantId ownership), wp_status = ''draft'',
           wp_currentVersionId = Some vid, wp_createdAt = now, wp_updatedAt = now\<rparr>
     in andThen (save_template env now t (put_versions tid [v] (put_template t st))) (\<lambda>_ st.
        andThen (save_version env now v st) (\<lambda>_ st. (Inr (t, v), st)))))"

definition assertUserEditable :: "wf_template \<Rightarrow> unit tpl_exec" where
  "assertUserEditable t = tpl_check (wp_origin t \<noteq> ''plugin_internal'') ''WORKFLOW_INTERNAL_READ_ONLY''"

definition assertTemplateEnabled :: "wf_template \<Rightarrow> unit tpl_exec" where
  "assertTemplateEnabled t = tpl_check (wp_status t \<noteq> ''disabled'') ''VALIDATION_FAILED''"

text \<open>The template of an edit: found, editable by users and enabled.\<close>

definition editable_template :: "string \<Rightarrow> wf_template tpl_exec" where
  "editable_template tid st = andThen (getTemplateOrThrow tid st) (\<lambda>t st.
     andThen (assertUserEditable t st) (\<lambda>_ st. andThen (assertTemplateEnabled t st) (\<lambda>_ st. (Inr t, st))))"

definition renameTemplate :: "tpl_env \<Rightarrow> instant \<Rightarrow> string \<Rightarrow> string \<Rightarrow> tpl_summary tpl_exec" where
  "renameTemplate env now tid newName st = andThen (editable_template tid st) (\<lambda>t st. let name = trim newName in
     andThen (tpl_check (name \<noteq> []) ''VALIDATION_FAILED'' st) (\<lambda>_ st.
     if name = wp_name t then (Inr (withCurrentVersionSummary st t), st)
     else (let t' = t\<lparr>wp_name := name, wp_updatedAt := now\<rparr> in
       andThen (save_template env now t' (put_template t' st)) (\<lambda>_ st. (Inr (withCurrentVersionSummary st t'), st)))))"

record append_options =
  ao_rejectDuplicateContent :: bool
  ao_enforcePluginVersionIncrement :: bool
  ao_requirePluginVersionIncrementAlways :: bool
  ao_pluginSource :: "plugin_source option"

definition next_version :: "tpl_version list \<Rightarrow> int" where
  "next_version vs = foldl (\<lambda>m v. max m (tv_version v)) 0 vs + 1"

definition appendDraftVersion :: "tpl_env \<Rightarrow> instant \<Rightarrow> string \<Rightarrow> wf_template \<Rightarrow> json \<Rightarrow> string option \<Rightarrow> append_options \<Rightarrow> tpl_version tpl_exec" where
  "appendDraftVersion env now vid t content changeSummary opts st =
    (let vs = versions_of st (wp_id t); hash = computeWorkflowContentHash env content in
     andThen (tpl_check (\<not> (ao_rejectDuplicateContent opts \<and> (\<exists>x \<in> set vs. tv_contentHash x = hash))) ''VALIDATION_FAILED'' st) (\<lambda>_ st.
     andThen (tpl_lift (case sort_by (\<lambda>l r. tv_version r < tv_version l) vs of
         [] \<Rightarrow> Inr ()
       | previous # _ \<Rightarrow> if ao_enforcePluginVersionIncrement opts
           then assertPluginVersionIncrement (tv_content previous) content (ao_requirePluginVersionIncrementAlways opts \<or> hash \<noteq> tv_contentHash previous)
           else Inr ()) st) (\<lambda>_ st.
     let v = createVersion env now vid (wp_id t) (next_version vs) content changeSummary (ao_pluginSource opts);
         t' = t\<lparr>wp_currentVersionId := Some vid, wp_status := ''draft'', wp_updatedAt := now\<rparr>
     in andThen (save_template env now t' (put_template t' (put_versions (wp_id t) (vs @ [v]) st))) (\<lambda>_ st.
        andThen (save_version env now v st) (\<lambda>_ st. (Inr v, st))))))"

record update_input =
  ui_templateId :: string
  ui_content :: json
  ui_changeSummary :: "string option"
  ui_pluginSource :: "plugin_source option"
  ui_allowDuplicateContent :: bool

definition createDraftVersion :: "tpl_env \<Rightarrow> instant \<Rightarrow> string \<Rightarrow> update_input \<Rightarrow> tpl_version tpl_exec" where
  "createDraftVersion env now vid inp st = andThen (editable_template (ui_templateId inp) st) (\<lambda>t st.
     andThen (tpl_lift (te_validate env (ui_content inp)) st) (\<lambda>content.
     appendDraftVersion env now vid t content (ui_changeSummary inp) \<lparr>ao_rejectDuplicateContent = \<not> ui_allowDuplicateContent inp,
       ao_enforcePluginVersionIncrement = True, ao_requirePluginVersionIncrementAlways = False, ao_pluginSource = None\<rparr>))"

definition createPluginInternalDraftVersion :: "tpl_env \<Rightarrow> instant \<Rightarrow> string \<Rightarrow> update_input \<Rightarrow> tpl_version tpl_exec" where
  "createPluginInternalDraftVersion env now vid inp st = andThen (getTemplateOrThrow (ui_templateId inp) st) (\<lambda>t st.
     andThen (tpl_check (wp_origin t = ''plugin_internal'') ''VALIDATION_FAILED'' st) (\<lambda>_ st.
     andThen (assertTemplateEnabled t st) (\<lambda>_ st.
     andThen (tpl_lift (te_validate env (ui_content inp)) st) (\<lambda>content.
     appendDraftVersion env now vid t content (ui_changeSummary inp) \<lparr>ao_rejectDuplicateContent = False,
       ao_enforcePluginVersionIncrement = True, ao_requirePluginVersionIncrementAlways = True, ao_pluginSource = None\<rparr>))))"

definition createDraftFromPluginCapability :: "tpl_env \<Rightarrow> instant \<Rightarrow> string \<Rightarrow> update_input \<Rightarrow> tpl_version tpl_exec" where
  "createDraftFromPluginCapability env now vid inp st = andThen (editable_template (ui_templateId inp) st) (\<lambda>t st.
     andThen (tpl_lift (te_validate env (ui_content inp)) st) (\<lambda>content.
     appendDraftVersion env now vid t content (ui_changeSummary inp) \<lparr>ao_rejectDuplicateContent = False,
       ao_enforcePluginVersionIncrement = False, ao_requirePluginVersionIncrementAlways = False, ao_pluginSource = ui_pluginSource inp\<rparr>))"

definition updateCurrentDraftVersion :: "tpl_env \<Rightarrow> instant \<Rightarrow> update_input \<Rightarrow> tpl_version tpl_exec" where
  "updateCurrentDraftVersion env now inp st = andThen (editable_template (ui_templateId inp) st) (\<lambda>t st.
     andThen (tpl_lift (te_validate env (ui_content inp)) st) (\<lambda>content st.
     let vs = versions_of st (wp_id t); hash = computeWorkflowContentHash env content in
     case findEditableDraftVersion t vs of None \<Rightarrow> (Inl (AppError ''VALIDATION_FAILED''), st)
     | Some v \<Rightarrow>
       andThen (tpl_check (\<not> (\<exists>x \<in> set vs. tv_id x \<noteq> tv_id v \<and> tv_contentHash x = hash)) ''VALIDATION_FAILED'' st) (\<lambda>_ st.
       andThen (tpl_lift (assertPluginVersionIncrement (tv_content v) content (hash \<noteq> tv_contentHash v)) st) (\<lambda>_ st.
       let v' = v\<lparr>tv_content := content, tv_contentHash := hash, tv_changeSummary := orElse (ui_changeSummary inp) (tv_changeSummary v)\<rparr>;
           t' = t\<lparr>wp_currentVersionId := Some (tv_id v), wp_status := ''draft'', wp_updatedAt := now\<rparr>
       in andThen (save_template env now t' (put_template t' (put_version (wp_id t) v' st))) (\<lambda>_ st.
          andThen (save_version env now v' st) (\<lambda>_ st. (Inr v', st)))))))"

text \<open>The loop over versions that changes each and writes it.\<close>

fun edit_each :: "tpl_env \<Rightarrow> instant \<Rightarrow> string \<Rightarrow> (tpl_version \<Rightarrow> tpl_version) \<Rightarrow> tpl_version list \<Rightarrow> unit tpl_exec" where
  "edit_each env now tid f [] st = (Inr (), st)"
| "edit_each env now tid f (v # vs) st =
     andThen (save_version env now (f v) (put_version tid (f v) st)) (\<lambda>_. edit_each env now tid f vs)"

text \<open>The older published versions of a plugin workflow become history.\<close>

definition retire_versions :: "tpl_env \<Rightarrow> instant \<Rightarrow> string \<Rightarrow> tpl_version list \<Rightarrow> unit tpl_exec" where
  "retire_versions env now tid = edit_each env now tid (\<lambda>v. v\<lparr>tv_lifecycle := Some ''HISTORICAL''\<rparr>)"

text \<open>The last part of \<open>publishVersion\<close>: the version is marked, its template points to it, and both are written.\<close>

definition mark_published :: "tpl_env \<Rightarrow> instant \<Rightarrow> wf_template \<Rightarrow> tpl_version \<Rightarrow> tpl_version tpl_exec" where
  "mark_published env now t v st =
    (let v' = v\<lparr>tv_lifecycle := (if wp_origin t = ''plugin_internal'' then Some ''CURRENT'' else tv_lifecycle v), tv_status := ''published''\<rparr>;
         st = put_version (wp_id t) v' st;
         t' = t\<lparr>wp_status := deriveTemplateStatus (versions_of st (wp_id t)), wp_currentVersionId := Some (tv_id v), wp_updatedAt := now\<rparr>
     in andThen (save_template env now t' (put_template t' st)) (\<lambda>_ st.
        andThen (save_version env now v' st) (\<lambda>_ st. (Inr v', st))))"

definition publishVersion :: "tpl_env \<Rightarrow> instant \<Rightarrow> string \<Rightarrow> bool \<Rightarrow> tpl_version tpl_exec" where
  "publishVersion env now vid allowInternal st = andThen (findVersion env vid st) (\<lambda>(t, v) st.
     andThen (if allowInternal then (Inr (), st) else assertUserEditable t st) (\<lambda>_ st.
     andThen (assertTemplateEnabled t st) (\<lambda>_ st.
     andThen (tpl_check (tv_status v \<noteq> ''disabled'') ''VALIDATION_FAILED'' st) (\<lambda>_ st.
     andThen (if wp_origin t = ''plugin_internal''
         then retire_versions env now (wp_id t) (filter (\<lambda>x. tv_id x \<noteq> vid \<and> tv_status x = ''published'') (versions_of st (wp_id t))) st
         else (Inr (), st)) (\<lambda>_. mark_published env now t v)))))"

definition updateVersionNote :: "tpl_env \<Rightarrow> instant \<Rightarrow> string \<Rightarrow> string option \<Rightarrow> tpl_version tpl_exec" where
  "updateVersionNote env now vid note st = andThen (findVersion env vid st) (\<lambda>(t, v) st.
     andThen (assertUserEditable t st) (\<lambda>_ st.
     andThen (assertTemplateEnabled t st) (\<lambda>_ st.
     andThen (tpl_check (tv_status v \<noteq> ''disabled'') ''VALIDATION_FAILED'' st) (\<lambda>_ st.
     let v' = v\<lparr>tv_changeSummary := nullif_empty (map_option trim note)\<rparr>
     in andThen (save_version env now v' (put_version (wp_id t) v' st)) (\<lambda>_ st. (Inr v', st))))))"

definition disable_versions :: "tpl_env \<Rightarrow> instant \<Rightarrow> string \<Rightarrow> tpl_version list \<Rightarrow> unit tpl_exec" where
  "disable_versions env now tid = edit_each env now tid (\<lambda>v. v\<lparr>tv_status := ''disabled''\<rparr>)"

definition disableTemplate :: "tpl_env \<Rightarrow> instant \<Rightarrow> string \<Rightarrow> wf_template tpl_exec" where
  "disableTemplate env now tid st = andThen (getTemplateOrThrow tid st) (\<lambda>t st.
     andThen (assertUserEditable t st) (\<lambda>_ st.
     let t' = t\<lparr>wp_status := ''disabled'', wp_updatedAt := now\<rparr> in
     andThen (save_template env now t' (put_template t' st)) (\<lambda>_ st.
     andThen (disable_versions env now tid (versions_of st tid) st) (\<lambda>_ st. (Inr t', st)))))"

section \<open>Restart\<close>

definition group_versions :: "tpl_version list \<Rightarrow> (string \<times> tpl_version list) list" where
  "group_versions vs = fold (\<lambda>v m. AList.update (tv_templateId v) (getOrElse (map_of m (tv_templateId v)) [] @ [v]) m) vs []"

definition rehydrate :: "tpl_store \<Rightarrow> tpl_store" where
  "rehydrate st =
    (let templates = List.map_filter normalizeCurrentTemplate (pg_list (\<lambda>_. True) (tp_templateDocs st));
         cache = fold (\<lambda>t m. AList.update (wp_id t) t m) templates [];
         groups = group_versions (pg_list (\<lambda>_. True) (tp_versionDocs st))
     in st\<lparr>tp_templates := cache,
         tp_versions := map (\<lambda>(tid, vs). (tid, map normalizeVersion (sort_key tv_version vs))) (filter (\<lambda>(tid, vs). tid \<in> fst ` set cache) groups)\<rparr>)"

section \<open>Operations and reachable states\<close>

datatype tpl_op =
    OpCreate instant string string create_input string ownership
  | OpRename instant string string
  | OpDraft instant string update_input
  | OpPluginDraft instant string update_input
  | OpDraftFromPlugin instant string update_input
  | OpUpdateDraft instant update_input
  | OpPublish instant string bool
  | OpNote instant string "string option"
  | OpDisable instant string

definition run_tpl_op :: "tpl_env \<Rightarrow> tpl_op \<Rightarrow> tpl_store \<Rightarrow> tpl_store" where
  "run_tpl_op env opn st = (case opn of
     OpCreate now tid vid inp origin ow \<Rightarrow> snd (createTemplate env now tid vid inp origin ow st)
   | OpRename now tid name \<Rightarrow> snd (renameTemplate env now tid name st)
   | OpDraft now vid inp \<Rightarrow> snd (createDraftVersion env now vid inp st)
   | OpPluginDraft now vid inp \<Rightarrow> snd (createPluginInternalDraftVersion env now vid inp st)
   | OpDraftFromPlugin now vid inp \<Rightarrow> snd (createDraftFromPluginCapability env now vid inp st)
   | OpUpdateDraft now inp \<Rightarrow> snd (updateCurrentDraftVersion env now inp st)
   | OpPublish now vid allowInternal \<Rightarrow> snd (publishVersion env now vid allowInternal st)
   | OpNote now vid note \<Rightarrow> snd (updateVersionNote env now vid note st)
   | OpDisable now tid \<Rightarrow> snd (disableTemplate env now tid st))"

end
