(* ===== verification/WorkflowVersions.thy ===== *)
theory WorkflowVersions
  imports WorkflowTemplates WorkflowProperties
begin

text \<open>
  Properties of templates and versions. Every operation is a sequence of the moves of \<open>tpl_move\<close>; what each move keeps, every
  reachable state has, whichever writes fail.
\<close>

section \<open>Well-formed states\<close>

definition used_id :: "tpl_store \<Rightarrow> string \<Rightarrow> bool" where
  "used_id st vid \<longleftrightarrow> (\<exists>k. vid \<in> tv_id ` set (versions_of st k))"

definition version_ok :: "tpl_env \<Rightarrow> string \<Rightarrow> tpl_version \<Rightarrow> bool" where
  "version_ok env tid v \<longleftrightarrow> tv_templateId v = tid \<and> tv_contentHash v = computeWorkflowContentHash env (tv_content v) \<and> 1 \<le> tv_version v
     \<and> tv_status v \<in> {''draft'', ''published'', ''disabled''}"

definition versions_ok :: "tpl_env \<Rightarrow> string \<Rightarrow> tpl_version list \<Rightarrow> bool" where
  "versions_ok env tid vs \<longleftrightarrow> list_all (version_ok env tid) vs \<and> sorted_wrt (<) (map tv_version vs) \<and> distinct (map tv_id vs)"

definition template_ok :: "tpl_store \<Rightarrow> string \<Rightarrow> wf_template \<Rightarrow> bool" where
  "template_ok st tid t \<longleftrightarrow> wp_id t = tid \<and> known_origin (wp_origin t) \<and> wp_currentVersionId t \<in> Some ` tv_id ` set (versions_of st tid)"

definition ids_unique :: "tpl_store \<Rightarrow> bool" where
  "ids_unique st \<longleftrightarrow> (\<forall>k k'. k \<noteq> k' \<longrightarrow> tv_id ` set (versions_of st k) \<inter> tv_id ` set (versions_of st k') = {})"

definition docs_known :: "tpl_store \<Rightarrow> bool" where
  "docs_known st \<longleftrightarrow> (\<forall>k. pg_get (tp_templateDocs st) k \<noteq> None \<longrightarrow> map_of (tp_templates st) k \<noteq> None)
     \<and> (\<forall>vid. pg_get (tp_versionDocs st) vid \<noteq> None \<longrightarrow> used_id st vid)"

text \<open>The shape of the copy in memory: keys are identifiers, the versions of a template are numbered upwards and belong to no
  other template, and the current version of a template is one of its versions. The documents hold nothing the copy does not
  know.\<close>

definition tpl_ok :: "tpl_env \<Rightarrow> tpl_store \<Rightarrow> bool" where
  "tpl_ok env st \<longleftrightarrow> distinct (map fst (tp_versions st))
     \<and> (\<forall>k t. map_of (tp_templates st) k = Some t \<longrightarrow> template_ok st k t)
     \<and> (\<forall>k. map_of (tp_templates st) k = None \<longrightarrow> versions_of st k = [])
     \<and> (\<forall>k. versions_ok env k (versions_of st k))
     \<and> ids_unique st \<and> docs_known st"

text \<open>What an edit may do to a version.\<close>

definition same_version :: "tpl_env \<Rightarrow> tpl_version \<Rightarrow> tpl_version \<Rightarrow> bool" where
  "same_version env v v' \<longleftrightarrow> tv_id v' = tv_id v \<and> tv_templateId v' = tv_templateId v \<and> tv_version v' = tv_version v
     \<and> tv_contentHash v' = computeWorkflowContentHash env (tv_content v') \<and> tv_status v' \<in> {''draft'', ''published'', ''disabled''}
     \<and> (tv_status v \<noteq> ''draft'' \<longrightarrow> tv_content v' = tv_content v \<and> tv_status v' \<noteq> ''draft'')
     \<and> (tv_status v = ''disabled'' \<longrightarrow> tv_status v' = ''disabled'')"

inductive tpl_move :: "tpl_env \<Rightarrow> tpl_store \<Rightarrow> tpl_store \<Rightarrow> bool" for env where
  move_template: "map_of (tp_templates st) (wp_id t) = Some t0 \<Longrightarrow> wp_origin t = wp_origin t0 \<Longrightarrow>
    wp_currentVersionId t \<in> Some ` tv_id ` set (versions_of st (wp_id t)) \<Longrightarrow>
    (wp_status t0 = ''disabled'' \<Longrightarrow> wp_status t = ''disabled'') \<Longrightarrow> tpl_move env st (put_template t st)"
| move_version: "v0 \<in> set (versions_of st tid) \<Longrightarrow> same_version env v0 v \<Longrightarrow> tpl_move env st (put_version tid v st)"
| move_append: "map_of (tp_templates st) tid = Some t \<Longrightarrow> wp_status t \<noteq> ''disabled'' \<Longrightarrow> version_ok env tid v \<Longrightarrow> tv_version v = next_version (versions_of st tid) \<Longrightarrow>
    \<not> used_id st (tv_id v) \<Longrightarrow> tpl_move env st (put_versions tid (versions_of st tid @ [v]) st)"
| move_create: "map_of (tp_templates st) (wp_id t) = None \<Longrightarrow> known_origin (wp_origin t) \<Longrightarrow> version_ok env (wp_id t) v \<Longrightarrow>
    \<not> used_id st (tv_id v) \<Longrightarrow> wp_currentVersionId t = Some (tv_id v) \<Longrightarrow>
    tpl_move env st (put_versions (wp_id t) [v] (put_template t st))"
| move_save_template: "map_of (tp_templates st) (wp_id t) = Some t0 \<Longrightarrow>
    tpl_move env st (st\<lparr>tp_writes := n, tp_templateDocs := pg_upsert wp_id now t (tp_templateDocs st)\<rparr>)"
| move_save_version: "used_id st (tv_id v) \<Longrightarrow>
    tpl_move env st (st\<lparr>tp_writes := n, tp_versionDocs := pg_upsert tv_id now v (tp_versionDocs st)\<rparr>)"
| move_fault: "tpl_move env st (st\<lparr>tp_writes := n\<rparr>)"

lemma put_simps [simp]:
  "versions_of (put_template t st) k = versions_of st k" "versions_of (put_versions tid vs st) k = (if k = tid then vs else versions_of st k)"
  "map_of (tp_templates (put_template t st)) k = (if k = wp_id t then Some t else map_of (tp_templates st) k)"
  "tp_templates (put_versions tid vs st) = tp_templates st" "tp_versions (put_template t st) = tp_versions st"
  "tp_versions (put_versions tid vs st) = AList.update tid vs (tp_versions st)"
  "tp_templateDocs (put_versions tid vs st) = tp_templateDocs st" "tp_versionDocs (put_versions tid vs st) = tp_versionDocs st"
  "tp_templateDocs (put_template t st) = tp_templateDocs st" "tp_versionDocs (put_template t st) = tp_versionDocs st"
  "used_id (put_template t st) vid = used_id st vid"
  by (simp_all add: put_template_def put_versions_def versions_of_def used_id_def update_conv')

lemma record_simps [simp]:
  "versions_of (st\<lparr>tp_writes := n\<rparr>) k = versions_of st k" "versions_of (st\<lparr>tp_templateDocs := d\<rparr>) k = versions_of st k"
  "versions_of (st\<lparr>tp_versionDocs := d'\<rparr>) k = versions_of st k"
  "used_id (st\<lparr>tp_writes := n\<rparr>) vid = used_id st vid" "used_id (st\<lparr>tp_templateDocs := d\<rparr>) vid = used_id st vid"
  "used_id (st\<lparr>tp_versionDocs := d'\<rparr>) vid = used_id st vid"
  by (simp_all add: versions_of_def used_id_def)

lemma ids_replaced: "map tv_id (map (\<lambda>x. if tv_id x = tv_id v then v else x) vs) = map tv_id vs"
  by (induction vs) auto

lemma ids_set_replaced: "tv_id ` set (map (\<lambda>x. if tv_id x = tv_id v then v else x) vs) = tv_id ` set vs"
  by (metis ids_replaced set_map)

lemma put_version_simps [simp]:
  "tp_templates (put_version tid v st) = tp_templates st" "tp_templateDocs (put_version tid v st) = tp_templateDocs st"
  "tp_versionDocs (put_version tid v st) = tp_versionDocs st"
  "versions_of (put_version tid v st) k = (if k = tid then map (\<lambda>x. if tv_id x = tv_id v then v else x) (versions_of st tid) else versions_of st k)"
  "used_id (put_version tid v st) vid = used_id st vid"
proof -
  have "tv_id ` set (versions_of (put_version tid v st) k) = tv_id ` set (versions_of st k)" for k
    unfolding put_version_def put_simps(2) using ids_set_replaced [of v "versions_of st tid"] by (cases "k = tid") (simp_all del: set_map)
  then show "used_id (put_version tid v st) vid = used_id st vid" by (simp only: used_id_def)
qed (simp_all add: put_version_def)

lemma used_id_put_versions: "used_id (put_versions tid (versions_of st tid @ [v]) st) vid \<longleftrightarrow> used_id st vid \<or> vid = tv_id v"
  by (auto simp: used_id_def split: if_splits)

lemma used_id_in [intro]: "v \<in> set (versions_of st k) \<Longrightarrow> used_id st (tv_id v)"
  by (auto simp: used_id_def)

lemma next_version_positive: "1 \<le> next_version vs"
proof -
  have "a \<le> foldl (\<lambda>m v. max m (tv_version v)) a vs" for a
    by (induction vs arbitrary: a) (auto, metis max.bounded_iff)
  then show ?thesis by (simp add: next_version_def)
qed

lemma andThen_snd_Inl: "fst m = Inl e \<Longrightarrow> snd (andThen m k) = snd m"
  by (cases m) simp

lemma next_version_above: "v \<in> set vs \<Longrightarrow> tv_version v < next_version vs"
proof -
  have "a \<le> foldl (\<lambda>m v. max m (tv_version v)) a vs \<and> (v \<in> set vs \<longrightarrow> tv_version v \<le> foldl (\<lambda>m v. max m (tv_version v)) a vs)" for a
    by (induction vs arbitrary: a) (auto, (metis max.bounded_iff max.cobounded2)+)
  then show "v \<in> set vs \<Longrightarrow> ?thesis" by (auto simp: next_version_def add1_zle_eq)
qed

section \<open>Every move keeps the shape\<close>

lemma numbers_replaced:
  assumes "v0 \<in> set vs" and "distinct (map tv_id vs)" and "tv_id v = tv_id v0" and "tv_version v = tv_version v0"
  shows "map tv_version (map (\<lambda>x. if tv_id x = tv_id v then v else x) vs) = map tv_version vs"
proof -
  have "tv_version (if tv_id x = tv_id v then v else x) = tv_version x" if "x \<in> set vs" for x
    using assms that by (auto simp: distinct_map dest: inj_onD)
  then show ?thesis by simp
qed

lemma versions_ok_replaced:
  assumes "versions_ok env tid vs" and "v0 \<in> set vs" and "same_version env v0 v"
  shows "versions_ok env tid (map (\<lambda>x. if tv_id x = tv_id v then v else x) vs)"
proof -
  have "version_ok env tid v" using assms by (auto simp: versions_ok_def list_all_iff version_ok_def same_version_def)
  then show ?thesis using assms(1) ids_replaced [of v vs] numbers_replaced [OF assms(2), of v] assms(3)
    by (auto simp: versions_ok_def list_all_iff same_version_def simp del: map_map)
qed

lemma versions_ok_append:
  "versions_ok env tid vs \<Longrightarrow> version_ok env tid v \<Longrightarrow> tv_version v = next_version vs \<Longrightarrow> tv_id v \<notin> tv_id ` set vs \<Longrightarrow> versions_ok env tid (vs @ [v])"
  using next_version_above [of _ vs] by (auto simp: versions_ok_def sorted_wrt_append)

lemma tpl_okD:
  assumes "tpl_ok env st"
  shows "distinct (map fst (tp_versions st))" "map_of (tp_templates st) k = Some t \<Longrightarrow> template_ok st k t"
    "map_of (tp_templates st) k = None \<Longrightarrow> versions_of st k = []" "versions_ok env k (versions_of st k)" "ids_unique st" "docs_known st"
  using assms unfolding tpl_ok_def by blast+

lemma tpl_okI:
  assumes "distinct (map fst (tp_versions st))" and "\<And>k t. map_of (tp_templates st) k = Some t \<Longrightarrow> template_ok st k t"
    and "\<And>k. map_of (tp_templates st) k = None \<Longrightarrow> versions_of st k = []" and "\<And>k. versions_ok env k (versions_of st k)"
    and "ids_unique st" and "docs_known st"
  shows "tpl_ok env st"
  using assms unfolding tpl_ok_def by blast

lemma template_ok_put [simp]: "template_ok (put_template t st) k t' = template_ok st k t'" "template_ok (st\<lparr>tp_writes := n\<rparr>) k t' = template_ok st k t'"
  "template_ok (st\<lparr>tp_templateDocs := d\<rparr>) k t' = template_ok st k t'" "template_ok (st\<lparr>tp_versionDocs := d'\<rparr>) k t' = template_ok st k t'"
  by (simp_all add: template_ok_def)

lemma ids_unique_put [simp]: "ids_unique (put_template t st) = ids_unique st" "ids_unique (st\<lparr>tp_writes := n\<rparr>) = ids_unique st"
  "ids_unique (st\<lparr>tp_templateDocs := d\<rparr>) = ids_unique st" "ids_unique (st\<lparr>tp_versionDocs := d'\<rparr>) = ids_unique st"
  by (simp_all add: ids_unique_def)

lemma docs_known_put:
  "docs_known st \<Longrightarrow> docs_known (put_template t st)"
  "docs_known st \<Longrightarrow> docs_known (put_version tid v st)"
  "docs_known st \<Longrightarrow> docs_known (put_versions tid (versions_of st tid @ [v]) st)"
  "docs_known (st\<lparr>tp_writes := n\<rparr>) = docs_known st"
  by (auto simp: docs_known_def used_id_put_versions)

lemma move_keeps_ok: "tpl_move env st st' \<Longrightarrow> tpl_ok env st \<Longrightarrow> tpl_ok env st'"
proof (induction rule: tpl_move.induct)
  case (move_template st t t0)
  note ok = tpl_okD [OF move_template(5)]
  have "template_ok st (wp_id t) t" using ok(2) [OF move_template(1)] move_template(2,3) by (simp add: template_ok_def)
  then show ?case using ok move_template(1) by (intro tpl_okI docs_known_put) (auto split: if_splits)
next
  case (move_version v0 st tid v)
  note ok = tpl_okD [OF move_version(3)]
  have ids: "tv_id ` set (versions_of (put_version tid v st) k) = tv_id ` set (versions_of st k)" for k
    using ids_set_replaced [of v "versions_of st tid"] by (cases "k = tid") (simp_all del: set_map)
  have "distinct (map fst (tp_versions (put_version tid v st)))" using ok(1) by (simp add: put_version_def distinct_update)
  moreover have "template_ok (put_version tid v st) k t = template_ok st k t" for k t using ids by (simp only: template_ok_def)
  moreover have "versions_ok env k (versions_of (put_version tid v st) k)" for k
    using ok(4) versions_ok_replaced [OF ok(4) move_version(1,2)] by simp
  moreover have "ids_unique (put_version tid v st)" using ok(5) ids by (simp only: ids_unique_def)
  ultimately show ?case using ok(2,3,6) by (intro tpl_okI docs_known_put) auto
next
  case (move_append st tid t v)
  note ok = tpl_okD [OF move_append(6)]
  have "tv_id v \<notin> tv_id ` set (versions_of st k)" for k using move_append(5) unfolding used_id_def by blast
  moreover have "versions_ok env tid (versions_of st tid @ [v])" using ok(4) move_append(3,4) calculation by (intro versions_ok_append)
  moreover have "ids_unique (put_versions tid (versions_of st tid @ [v]) st)" using ok(5) calculation(1) by (simp add: ids_unique_def)
  ultimately show ?case using ok move_append(1)
    by (intro tpl_okI docs_known_put) (auto simp: distinct_update template_ok_def)
next
  case (move_create st t v)
  note ok = tpl_okD [OF move_create(6)]
  have "tv_id v \<notin> tv_id ` set (versions_of st k)" for k using move_create(4) unfolding used_id_def by blast
  moreover have "versions_ok env (wp_id t) [v]" using move_create(3) by (simp add: versions_ok_def)
  moreover have "used_id (put_versions (wp_id t) [v] (put_template t st)) vid" if "used_id st vid" for vid
  proof -
    from that obtain k where "vid \<in> tv_id ` set (versions_of st k)" by (auto simp: used_id_def)
    moreover have "k \<noteq> wp_id t" using ok(3) [OF move_create(1)] calculation by auto
    ultimately show ?thesis unfolding used_id_def by (intro exI [of _ k]) simp
  qed
  then have "docs_known (put_versions (wp_id t) [v] (put_template t st))" using ok(6) by (auto simp: docs_known_def)
  moreover have "ids_unique (put_versions (wp_id t) [v] (put_template t st))" using ok(5) calculation(1) by (simp add: ids_unique_def)
  ultimately show ?case using ok(1-4) move_create(1,2,5)
    by (intro tpl_okI) (auto simp: distinct_update template_ok_def)
next
  case (move_save_template st t t0 n now)
  note ok = tpl_okD [OF move_save_template(2)]
  show ?case using ok(1-5) ok(6) move_save_template(1) by (intro tpl_okI) (auto simp: docs_known_def docs.get_put)
next
  case (move_save_version st v n now)
  note ok = tpl_okD [OF move_save_version(2)]
  show ?case using ok(1-5) ok(6) move_save_version(1) by (intro tpl_okI) (auto simp: docs_known_def docs.get_put)
next
  case (move_fault st n)
  note ok = tpl_okD [OF move_fault]
  show ?case using ok by (intro tpl_okI) (auto simp: docs_known_put)
qed

section \<open>What an operation reads\<close>

lemma tpl_check_simps [simp]: "andThen (tpl_check ok code st) k = (if ok then k () st else (Inl (AppError code), st))"
  by (simp add: tpl_check_def)

lemma tpl_lift_simps [simp]: "andThen (tpl_lift r st) k = (case r of Inl e \<Rightarrow> (Inl e, st) | Inr x \<Rightarrow> k x st)"
  by (simp add: tpl_lift_def split: sum.split)

lemma get_template_ok:
  "tpl_ok env st \<Longrightarrow> getTemplateOrThrow tid st = (case map_of (tp_templates st) tid of
     Some t \<Rightarrow> (Inr t, st) | None \<Rightarrow> (Inl (AppError ''RESOURCE_NOT_FOUND''), st))"
  using tpl_okD(6) [of env st]
  by (cases "pg_get (tp_templateDocs st) tid") (auto simp: getTemplateOrThrow_def loadPersistedTemplate_def docs_known_def split: option.split)

lemma editable_template_Inr:
  assumes "tpl_ok env st" and "editable_template tid st = (Inr t, st')"
  shows "st' = st \<and> map_of (tp_templates st) tid = Some t \<and> wp_id t = tid \<and> wp_origin t \<noteq> ''plugin_internal'' \<and> wp_status t \<noteq> ''disabled''"
  using assms tpl_okD(2) [OF assms(1)]
  by (auto simp: editable_template_def get_template_ok assertUserEditable_def assertTemplateEnabled_def template_ok_def split: option.splits if_splits)

lemma find_in_lists_Some:
  "find_in_lists vid m = Some (tid, v) \<Longrightarrow> \<exists>vs. (tid, vs) \<in> set m \<and> v \<in> set vs \<and> tv_id v = vid"
proof (induction m)
  case (Cons kv m)
  obtain k vs where kv: "kv = (k, vs)" by force
  show ?case
  proof (cases "find (\<lambda>v. tv_id v = vid) vs")
    case None
    then show ?thesis using Cons kv by auto
  next
    case (Some w)
    then have "w \<in> set vs" "tv_id w = vid" by (auto simp: find_Some_iff)
    then show ?thesis using Cons.prems kv Some by auto
  qed
qed simp

lemma find_in_lists_None: "find_in_lists vid m = None \<Longrightarrow> (tid, vs) \<in> set m \<Longrightarrow> v \<in> set vs \<Longrightarrow> tv_id v \<noteq> vid"
  by (induction m) (auto split: option.splits simp: find_None_iff)

lemma find_version_ok:
  assumes "tpl_ok env st" and "findVersion env vid st = (Inr (t, v), st')"
  shows "st' = st \<and> map_of (tp_templates st) (wp_id t) = Some t \<and> v \<in> set (versions_of st (wp_id t)) \<and> tv_id v = vid"
proof (cases "find_in_lists vid (tp_versions st)")
  case None
  have "\<not> used_id st vid"
  proof
    assume "used_id st vid"
    then obtain k v where "v \<in> set (versions_of st k)" "tv_id v = vid" by (auto simp: used_id_def)
    then show False using find_in_lists_None [OF None] by (auto simp: versions_of_def split: option.splits dest: map_of_SomeD) (cases "map_of (tp_versions st) k"; force dest: map_of_SomeD)
  qed
  then have "pg_get (tp_versionDocs st) vid = None" using tpl_okD(6) [OF assms(1)] by (auto simp: docs_known_def)
  then show ?thesis using assms(2) None by (simp add: findVersion_def)
next
  case (Some p)
  obtain tid w where p: "p = (tid, w)" by force
  then obtain vs where vs: "(tid, vs) \<in> set (tp_versions st)" "w \<in> set vs" "tv_id w = vid" using find_in_lists_Some Some by blast
  then have "versions_of st tid = vs" using tpl_okD(1) [OF assms(1)] by (simp add: versions_of_def)
  then show ?thesis using assms Some p vs tpl_okD(2) [OF assms(1)]
    by (auto simp: findVersion_def get_template_ok template_ok_def split: option.splits)
qed

section \<open>Every operation is a sequence of moves\<close>

abbreviation tpl_moves :: "tpl_env \<Rightarrow> tpl_store \<Rightarrow> tpl_store \<Rightarrow> bool" where
  "tpl_moves env \<equiv> (tpl_move env)\<^sup>*\<^sup>*"

lemma save_keeps [simp]:
  "versions_of (snd (save_template env now t st)) k = versions_of st k" "tp_templates (snd (save_template env now t st)) = tp_templates st"
  "versions_of (snd (save_version env now v st)) k = versions_of st k" "tp_templates (snd (save_version env now v st)) = tp_templates st"
  "used_id (snd (save_template env now t st)) vid = used_id st vid" "used_id (snd (save_version env now v st)) vid = used_id st vid"
  by (simp_all add: save_template_def save_version_def split: option.split)

lemma save_template_move: "map_of (tp_templates st) (wp_id t) = Some t0 \<Longrightarrow> tpl_move env st (snd (save_template env now t st))"
  by (auto simp: save_template_def intro: move_save_template move_fault split: option.split)

lemma save_version_move: "used_id st (tv_id v) \<Longrightarrow> tpl_move env st (snd (save_version env now v st))"
  by (auto simp: save_version_def intro: move_save_version move_fault split: option.split)

text \<open>Operations compose when what follows is a sequence of moves from the state before it.\<close>

lemma moves_andThen:
  "tpl_moves env s (snd m) \<Longrightarrow> (\<And>x. m = (Inr x, snd m) \<Longrightarrow> tpl_moves env (snd m) (snd (k x (snd m)))) \<Longrightarrow> tpl_moves env s (snd (andThen m k))"
  by (cases m; cases "fst m") auto

lemma save_both_moves:
  assumes "tpl_moves env s st" and "map_of (tp_templates st) (wp_id t) = Some t0" and "used_id st (tv_id v)"
  shows "tpl_moves env s (snd (andThen (save_template env now t st) (\<lambda>_ st. andThen (save_version env now v st) (\<lambda>_ st. (Inr x, st)))))"
proof (rule moves_andThen, goal_cases)
  case 1
  show ?case using assms(1) save_template_move [OF assms(2)] by (rule rtranclp.rtrancl_into_rtrancl)
next
  case (2 u)
  have "tpl_move env (snd (save_template env now t st)) (snd (save_version env now v (snd (save_template env now t st))))"
    using assms(3) by (intro save_version_move) simp
  then show ?case by (intro moves_andThen) auto
qed

lemma edit_moves:
  assumes "set vs \<subseteq> set (versions_of st tid)" and "distinct (map tv_id vs)" and "\<And>v. v \<in> set vs \<Longrightarrow> same_version env v (f v)"
  shows "tpl_moves env st (snd (edit_each env now tid f vs st)) \<and> tp_templates (snd (edit_each env now tid f vs st)) = tp_templates st
    \<and> (\<forall>w. w \<in> set (versions_of st tid) \<longrightarrow> tv_id w \<notin> tv_id ` set vs \<longrightarrow> w \<in> set (versions_of (snd (edit_each env now tid f vs st)) tid))"
  using assms
proof (induction vs arbitrary: st)
  case (Cons v vs)
  let ?s = "put_version tid (f v) st" and ?t = "snd (save_version env now (f v) (put_version tid (f v) st))"
  have v: "v \<in> set (versions_of st tid)" "same_version env v (f v)" "tv_id (f v) = tv_id v" using Cons.prems by (auto simp: same_version_def)
  have others: "w \<in> set (versions_of ?t tid)" if "w \<in> set (versions_of st tid)" "tv_id w \<noteq> tv_id v" for w
    using that v(3) by (force simp: image_iff)
  have here: "tpl_moves env st ?t"
    using move_version [OF v(1,2)] save_version_move [of ?s "f v" env now] v by (auto intro: converse_rtranclp_into_rtranclp)
  have "tv_id x \<noteq> tv_id v" if "x \<in> set vs" for x using Cons.prems(2) that by (metis distinct.simps(2) image_eqI list.simps(9) set_map)
  then have "set vs \<subseteq> set (versions_of ?t tid)" using Cons.prems(1) others by (meson list.set_intros(2) subset_code(1))
  from Cons.IH [OF this] Cons.prems have rest: "tpl_moves env ?t (snd (edit_each env now tid f vs ?t))"
    "tp_templates (snd (edit_each env now tid f vs ?t)) = tp_templates st"
    "\<And>w. w \<in> set (versions_of ?t tid) \<Longrightarrow> tv_id w \<notin> tv_id ` set vs \<Longrightarrow> w \<in> set (versions_of (snd (edit_each env now tid f vs ?t)) tid)" by auto
  show ?case
  proof (cases "fst (save_version env now (f v) ?s)")
    case (Inl e)
    then have "snd (edit_each env now tid f (v # vs) st) = ?t" by (simp add: andThen_snd_Inl)
    then show ?thesis using here others by auto
  next
    case (Inr x)
    then have "snd (edit_each env now tid f (v # vs) st) = snd (edit_each env now tid f vs ?t)" by (simp add: andThen_fst)
    then show ?thesis using here rest others by auto
  qed
qed simp

lemma reach_keeps_ok: "tpl_moves env st st' \<Longrightarrow> tpl_ok env st \<Longrightarrow> tpl_ok env st'"
  by (induction rule: rtranclp_induct) (auto intro: move_keeps_ok)

lemma latest_in: "current_or_latest status t vs = Some v \<Longrightarrow> v \<in> set vs \<and> tv_status v = status"
proof (cases "find (\<lambda>v. Some (tv_id v) = wp_currentVersionId t \<and> tv_status v = status) vs")
  case None
  assume latest: "current_or_latest status t vs = Some v"
  then obtain rest where "sort_by (\<lambda>l r. tv_version r < tv_version l) (filter (\<lambda>v. tv_status v = status) vs) = v # rest"
    using None by (auto simp: current_or_latest_def split: list.split_asm)
  then have "v \<in> set (filter (\<lambda>v. tv_status v = status) vs)" by (metis list.set_intros(1) set_sort_by)
  then show ?thesis by simp
qed (auto simp: current_or_latest_def find_Some_iff)

lemma create_moves:
  assumes "tpl_ok env st" and "map_of (tp_templates st) tid = None" and "\<not> used_id st vid"
  shows "tpl_moves env st (snd (createTemplate env now tid vid inp origin ow st))"
proof -
  have "tpl_move env st (put_versions tid [v] (put_template t st))"
    if "wp_id t = tid" "known_origin (wp_origin t)" "version_ok env tid v" "tv_id v = vid" "wp_currentVersionId t = Some vid" for t v
    using move_create [where st = st and t = t and v = v and env = env] that assms by simp
  then show ?thesis
    by (auto simp: createTemplate_def normalizeOrigin_def Let_def version_ok_def createVersion_def used_id_put_versions used_id_def
        split: sum.split intro!: save_both_moves)
qed

lemma append_moves:
  assumes "tpl_ok env st" and "map_of (tp_templates st) tid = Some t" and "wp_status t \<noteq> ''disabled''" and "\<not> used_id st vid"
  shows "tpl_moves env st (snd (appendDraftVersion env now vid t content cs opts st))"
proof -
  let ?v = "createVersion env now vid tid (next_version (versions_of st tid)) content cs (ao_pluginSource opts)"
  let ?t = "t\<lparr>wp_currentVersionId := Some vid, wp_status := ''draft'', wp_updatedAt := now\<rparr>"
  let ?s = "put_versions tid (versions_of st tid @ [?v]) st"
  have tid: "wp_id t = tid" using tpl_okD(2) [OF assms(1,2)] by (simp add: template_ok_def)
  have "tpl_move env st ?s" using assms next_version_positive by (intro move_append) (auto simp: version_ok_def createVersion_def)
  moreover have "tpl_move env ?s (put_template ?t ?s)" using assms(2,3) tid by (intro move_template) (auto simp: createVersion_def)
  ultimately have "tpl_moves env st (put_template ?t ?s)" by (meson converse_rtranclp_into_rtranclp r_into_rtranclp)
  moreover have "used_id (put_template ?t ?s) (tv_id ?v)" by (auto simp: used_id_put_versions)
  ultimately show ?thesis using tid
    by (auto simp: appendDraftVersion_def Let_def split: sum.split intro!: save_both_moves)
qed

lemma get_template_Inr:
  assumes "tpl_ok env st" and "getTemplateOrThrow tid st = (Inr t, st')"
  shows "st' = st \<and> map_of (tp_templates st) tid = Some t \<and> wp_id t = tid"
  using assms tpl_okD(2) [OF assms(1)] by (auto simp: get_template_ok template_ok_def split: option.splits)

lemma get_template_state: "tpl_ok env st \<Longrightarrow> snd (getTemplateOrThrow tid st) = st"
  by (simp add: get_template_ok split: option.split)

lemma editable_state: "tpl_ok env st \<Longrightarrow> snd (editable_template tid st) = st"
  by (auto simp: editable_template_def get_template_ok assertUserEditable_def assertTemplateEnabled_def split: option.split)

lemma find_version_state: "tpl_ok env st \<Longrightarrow> snd (findVersion env vid st) = st"
  using find_version_ok [of env st vid]
  by (cases "findVersion env vid st"; cases "fst (findVersion env vid st)")
    (auto simp: findVersion_def get_template_ok andThen_def split: option.splits prod.splits sum.splits)

text \<open>After a read that changes nothing.\<close>

lemma moves_after:
  "snd m = st \<Longrightarrow> (\<And>x. m = (Inr x, st) \<Longrightarrow> tpl_moves env st (snd (k x st))) \<Longrightarrow> tpl_moves env st (snd (andThen m k))"
  by (rule moves_andThen) auto

lemma current_kept: "tpl_ok env st \<Longrightarrow> map_of (tp_templates st) tid = Some t \<Longrightarrow> wp_currentVersionId t \<in> Some ` tv_id ` set (versions_of st tid)"
  by (auto dest: tpl_okD(2) simp: template_ok_def)

lemma rename_moves: "tpl_ok env st \<Longrightarrow> tpl_moves env st (snd (renameTemplate env now tid name st))"
  unfolding renameTemplate_def
proof (rule moves_after [OF editable_state], assumption, goal_cases)
  case (1 t)
  then have t: "map_of (tp_templates st) tid = Some t" "wp_id t = tid" "wp_status t \<noteq> ''disabled''" using editable_template_Inr by blast+
  let ?t = "t\<lparr>wp_name := trim name, wp_updatedAt := now\<rparr>"
  have "tpl_move env st (put_template ?t st)" using t current_kept [OF 1(1)] by (intro move_template) auto
  moreover have "tpl_move env (put_template ?t st) (snd (save_template env now ?t (put_template ?t st)))" by (rule save_template_move) simp
  ultimately have "tpl_moves env st (snd (save_template env now ?t (put_template ?t st)))" by (meson converse_rtranclp_into_rtranclp r_into_rtranclp)
  then show ?case by (auto simp: Let_def intro!: moves_andThen)
qed

lemma draft_moves:
  assumes "tpl_ok env st" and "\<not> used_id st vid"
  shows "tpl_moves env st (snd (createDraftVersion env now vid inp st))" and "tpl_moves env st (snd (createDraftFromPluginCapability env now vid inp st))"
    and "tpl_moves env st (snd (createPluginInternalDraftVersion env now vid inp st))"
proof -
  show "tpl_moves env st (snd (createDraftVersion env now vid inp st))"
    unfolding createDraftVersion_def by (rule moves_after [OF editable_state [OF assms(1)]])
      (auto split: sum.split intro!: append_moves assms dest!: editable_template_Inr [OF assms(1)])
  show "tpl_moves env st (snd (createDraftFromPluginCapability env now vid inp st))"
    unfolding createDraftFromPluginCapability_def by (rule moves_after [OF editable_state [OF assms(1)]])
      (auto split: sum.split intro!: append_moves assms dest!: editable_template_Inr [OF assms(1)])
  show "tpl_moves env st (snd (createPluginInternalDraftVersion env now vid inp st))"
    unfolding createPluginInternalDraftVersion_def assertTemplateEnabled_def by (rule moves_after [OF get_template_state [OF assms(1)]])
      (auto split: sum.split intro!: append_moves assms dest!: get_template_Inr [OF assms(1)])
qed

text \<open>An edit of one version followed by the two writes.\<close>

lemma edit_both_moves:
  assumes "tpl_ok env st" and "map_of (tp_templates st) tid = Some t" and "v0 \<in> set (versions_of st tid)" and "same_version env v0 v"
    and "wp_id t' = tid" and "wp_origin t' = wp_origin t" and "wp_currentVersionId t' = Some (tv_id v0)" and "wp_status t \<noteq> ''disabled''"
  shows "tpl_moves env st (snd (andThen (save_template env now t' (put_template t' (put_version tid v st)))
    (\<lambda>_ st. andThen (save_version env now v st) (\<lambda>_ st. (Inr x, st)))))"
proof (rule save_both_moves)
  have "tv_id ` set (versions_of (put_version tid v st) tid) = tv_id ` set (versions_of st tid)"
    using ids_set_replaced [of v "versions_of st tid"] by (simp del: set_map)
  then have "tpl_move env (put_version tid v st) (put_template t' (put_version tid v st))"
    using assms(2,3,5-8) by (intro move_template [where ?t0.0 = t]) auto
  then show "tpl_moves env st (put_template t' (put_version tid v st))" using move_version [OF assms(3,4)] by (meson converse_rtranclp_into_rtranclp r_into_rtranclp)
  show "used_id (put_template t' (put_version tid v st)) (tv_id v)" using assms(3,4) by (auto simp: same_version_def)
qed (use assms(5) in simp)

lemma version_status: "tpl_ok env st \<Longrightarrow> v \<in> set (versions_of st tid) \<Longrightarrow> version_ok env tid v"
  using tpl_okD(4) [of env st tid] by (auto simp: versions_ok_def list_all_iff)

lemma update_draft_moves:
  assumes "tpl_ok env st"
  shows "tpl_moves env st (snd (updateCurrentDraftVersion env now inp st))"
  unfolding updateCurrentDraftVersion_def
proof (rule moves_after [OF editable_state [OF assms]], goal_cases)
  case (1 t)
  have t: "map_of (tp_templates st) (wp_id t) = Some t" "wp_status t \<noteq> ''disabled''" using editable_template_Inr [OF assms 1] by auto
  have "same_version env v (v\<lparr>tv_content := c, tv_contentHash := computeWorkflowContentHash env c, tv_changeSummary := s\<rparr>)" if "tv_status v = ''draft''" for v c s
    using that by (simp add: same_version_def)
  then show ?case
    using latest_in t by (auto simp: Let_def findEditableDraftVersion_def split: sum.split option.split intro!: edit_both_moves [OF assms t(1)])
qed

lemma note_moves:
  assumes "tpl_ok env st"
  shows "tpl_moves env st (snd (updateVersionNote env now vid note st))"
  unfolding updateVersionNote_def
proof (rule moves_after [OF find_version_state [OF assms]], goal_cases)
  case (1 p)
  obtain t v where p: "p = (t, v)" by force
  then have v: "v \<in> set (versions_of st (wp_id t))" using 1 find_version_ok [OF assms] by blast
  let ?v = "v\<lparr>tv_changeSummary := nullif_empty (map_option trim note)\<rparr>"
  have "tpl_move env st (put_version (wp_id t) ?v st)"
    using version_status [OF assms v] by (intro move_version [OF v]) (auto simp: same_version_def version_ok_def)
  moreover have "tpl_move env (put_version (wp_id t) ?v st) (snd (save_version env now ?v (put_version (wp_id t) ?v st)))"
    using v by (intro save_version_move) auto
  ultimately have "tpl_moves env st (snd (save_version env now ?v (put_version (wp_id t) ?v st)))" by (meson converse_rtranclp_into_rtranclp r_into_rtranclp)
  then show ?case unfolding p by (auto simp: assertUserEditable_def assertTemplateEnabled_def Let_def intro!: moves_andThen)
qed

text \<open>Publishing: the older versions step back, then the version is marked.\<close>

lemma retire_moves:
  assumes "tpl_ok env st" and "v \<in> set (versions_of st tid)"
  defines "old \<equiv> filter (\<lambda>x. tv_id x \<noteq> tv_id v \<and> tv_status x = ''published'') (versions_of st tid)"
  shows "tpl_moves env st (snd (retire_versions env now tid old st)) \<and> tp_templates (snd (retire_versions env now tid old st)) = tp_templates st
    \<and> v \<in> set (versions_of (snd (retire_versions env now tid old st)) tid)"
proof -
  have "distinct (map tv_id old)" using tpl_okD(4) [OF assms(1), of tid] by (auto simp: versions_ok_def distinct_map_filter old_def)
  moreover have "same_version env x (x\<lparr>tv_lifecycle := l\<rparr>)" if "x \<in> set old" for x l
    using version_status [OF assms(1), of x tid] that by (auto simp: same_version_def version_ok_def old_def)
  ultimately show ?thesis
    unfolding retire_versions_def using edit_moves [of old st tid env "\<lambda>v. v\<lparr>tv_lifecycle := Some ''HISTORICAL''\<rparr>" now] assms(2) by (auto simp: old_def)
qed

lemma mark_published_moves:
  assumes "tpl_ok env s" and "map_of (tp_templates s) (wp_id t) = Some t" and "v \<in> set (versions_of s (wp_id t))"
    and "wp_status t \<noteq> ''disabled''" and "tv_status v \<noteq> ''disabled''"
  shows "tpl_moves env s (snd (mark_published env now t v s))"
proof -
  have "same_version env v (v\<lparr>tv_lifecycle := l, tv_status := ''published''\<rparr>)" for l
    using version_status [OF assms(1,3)] assms(5) by (auto simp: same_version_def version_ok_def)
  then show ?thesis unfolding mark_published_def Let_def using assms by (intro edit_both_moves [where t = t and ?v0.0 = v]) auto
qed

lemma publish_moves:
  assumes "tpl_ok env st"
  shows "tpl_moves env st (snd (publishVersion env now vid allowInternal st))"
  unfolding publishVersion_def
proof (rule moves_after [OF find_version_state [OF assms]], goal_cases)
  case (1 p)
  obtain t v where p: "p = (t, v)" by force
  then have found: "map_of (tp_templates st) (wp_id t) = Some t" "v \<in> set (versions_of st (wp_id t))" "vid = tv_id v"
    using 1 find_version_ok [OF assms, of vid t v st] by auto
  note retire = retire_moves [OF assms found(2), of now]
  show ?case unfolding p
    using retire found(1,2) reach_keeps_ok [OF conjunct1 [OF retire] assms] mark_published_moves assms
    by (auto simp: assertUserEditable_def assertTemplateEnabled_def found(3) Let_def intro!: moves_andThen)
qed

lemma disable_moves:
  assumes "tpl_ok env st"
  shows "tpl_moves env st (snd (disableTemplate env now tid st))"
  unfolding disableTemplate_def
proof (rule moves_after [OF get_template_state [OF assms]], goal_cases)
  case (1 t)
  have t: "map_of (tp_templates st) tid = Some t" "wp_id t = tid" using get_template_Inr [OF assms 1] by auto
  let ?t = "t\<lparr>wp_status := ''disabled'', wp_updatedAt := now\<rparr>"
  let ?s = "snd (save_template env now ?t (put_template ?t st))"
  have "tpl_move env st (put_template ?t st)" using t current_kept [OF assms t(1)] by (intro move_template) auto
  moreover have "tpl_move env (put_template ?t st) ?s" by (rule save_template_move) simp
  ultimately have s: "tpl_moves env st ?s" by (meson converse_rtranclp_into_rtranclp r_into_rtranclp)
  have "versions_ok env tid (versions_of st tid)" using tpl_okD(4) [OF assms] .
  moreover have "same_version env x (x\<lparr>tv_status := ''disabled''\<rparr>)" if "x \<in> set (versions_of st tid)" for x
    using version_status [OF assms that] by (auto simp: same_version_def version_ok_def)
  ultimately have "tpl_moves env ?s (snd (disable_versions env now tid (versions_of ?s tid) ?s))"
    unfolding disable_versions_def using edit_moves [of "versions_of ?s tid" ?s tid env "\<lambda>v. v\<lparr>tv_status := ''disabled''\<rparr>" now] by (auto simp: versions_ok_def)
  then show ?case using s by (auto simp: assertUserEditable_def Let_def intro!: moves_andThen)
qed

text \<open>New identifiers are new.\<close>

definition fresh_for :: "tpl_store \<Rightarrow> tpl_op \<Rightarrow> bool" where
  "fresh_for st opn \<longleftrightarrow> (case opn of OpCreate now tid vid inp origin ow \<Rightarrow> map_of (tp_templates st) tid = None \<and> \<not> used_id st vid
     | OpDraft now vid inp \<Rightarrow> \<not> used_id st vid | OpPluginDraft now vid inp \<Rightarrow> \<not> used_id st vid | OpDraftFromPlugin now vid inp \<Rightarrow> \<not> used_id st vid
     | _ \<Rightarrow> True)"

lemma op_moves: "tpl_ok env st \<Longrightarrow> fresh_for st opn \<Longrightarrow> tpl_moves env st (run_tpl_op env opn st)"
  by (cases opn) (simp_all add: run_tpl_op_def fresh_for_def create_moves rename_moves draft_moves update_draft_moves publish_moves note_moves disable_moves)

inductive tpl_step :: "tpl_env \<Rightarrow> tpl_store \<Rightarrow> tpl_store \<Rightarrow> bool" for env where
  tpl_step_op: "fresh_for st opn \<Longrightarrow> tpl_step env st (run_tpl_op env opn st)"

definition no_templates :: tpl_store where
  "no_templates = \<lparr>tp_templates = [], tp_versions = [], tp_templateDocs = [], tp_versionDocs = [], tp_writes = 0\<rparr>"

lemma no_templates_ok: "tpl_ok env no_templates"
  by (simp add: tpl_ok_def no_templates_def versions_of_def versions_ok_def ids_unique_def docs_known_def pg_get_def)

lemma step_keeps_ok: "tpl_step env st st' \<Longrightarrow> tpl_ok env st \<Longrightarrow> tpl_ok env st'"
  by (auto elim!: tpl_step.cases intro: reach_keeps_ok op_moves)

interpretation templates: step_invariant "tpl_step env" "tpl_ok env" for env
  by unfold_locales (rule step_keeps_ok)


section \<open>What happens to a version\<close>

definition evolves :: "tpl_version \<Rightarrow> tpl_version \<Rightarrow> bool" where
  "evolves v v' \<longleftrightarrow> tv_id v' = tv_id v \<and> tv_templateId v' = tv_templateId v \<and> tv_version v' = tv_version v
     \<and> (tv_status v \<noteq> ''draft'' \<longrightarrow> tv_content v' = tv_content v \<and> tv_contentHash v' = tv_contentHash v \<and> tv_status v' \<noteq> ''draft'')
     \<and> (tv_status v = ''disabled'' \<longrightarrow> tv_status v' = ''disabled'')"

definition versions_evolve :: "tpl_store \<Rightarrow> tpl_store \<Rightarrow> bool" where
  "versions_evolve st st' \<longleftrightarrow> (\<forall>k. \<forall>v \<in> set (versions_of st k). \<exists>v' \<in> set (versions_of st' k). evolves v v')"

lemma evolves_refl [simp]: "evolves v v"
  by (simp add: evolves_def)

lemma evolve_refl [simp]: "versions_of st' = versions_of st \<Longrightarrow> versions_evolve st st'"
  by (auto simp: versions_evolve_def intro: evolves_refl)

lemma evolves_trans: "evolves a b \<Longrightarrow> evolves b c \<Longrightarrow> evolves a c"
  by (auto simp: evolves_def)

lemma evolve_trans: "versions_evolve a b \<Longrightarrow> versions_evolve b c \<Longrightarrow> versions_evolve a c"
  unfolding versions_evolve_def by (meson evolves_trans)

lemma move_evolves: "tpl_move env st st' \<Longrightarrow> tpl_ok env st \<Longrightarrow> versions_evolve st st'"
proof (induction rule: tpl_move.induct)
  case (move_version v0 st tid v)
  have each: "evolves x (if tv_id x = tv_id v then v else x)" if x: "x \<in> set (versions_of st tid)" for x
  proof (cases "tv_id x = tv_id v")
    case True
    then have "x = v0" using move_version(1,2) x tpl_okD(4) [OF move_version(3), of tid]
      by (auto simp: versions_ok_def same_version_def distinct_map dest: inj_onD)
    then show ?thesis using move_version(2) version_status [OF move_version(3) x] by (auto simp: same_version_def evolves_def version_ok_def)
  qed simp
  have "\<exists>v' \<in> set (versions_of (put_version tid v st) k). evolves x v'" if x: "x \<in> set (versions_of st k)" for x k
  proof (cases "k = tid")
    case True
    have "(if tv_id x = tv_id v then v else x) \<in> set (map (\<lambda>x. if tv_id x = tv_id v then v else x) (versions_of st tid))"
      using x True by (simp only: set_map) (rule imageI)
    then show ?thesis using each [of x] x True by (simp only: put_version_simps simp_thms if_True) blast
  qed (use x in \<open>auto intro: evolves_refl\<close>)
  then show ?case unfolding versions_evolve_def by blast
next
  case (move_create st t v)
  then show ?case using tpl_okD(3) [OF move_create(6) move_create(1)] by (auto simp: versions_evolve_def intro: evolves_refl)
qed (auto simp: versions_evolve_def intro!: evolve_refl evolves_refl split: if_splits)

lemma moves_evolve: "tpl_moves env st st' \<Longrightarrow> tpl_ok env st \<Longrightarrow> versions_evolve st st'"
proof (induction rule: rtranclp_induct)
  case (step t u)
  then show ?case using evolve_trans [OF step.IH move_evolves [OF step.hyps(2) reach_keeps_ok [OF step.hyps(1)]]] by simp
qed simp

lemma steps_moves: "(tpl_step env)\<^sup>*\<^sup>* st st' \<Longrightarrow> tpl_ok env st \<Longrightarrow> tpl_moves env st st'"
proof (induction rule: rtranclp_induct)
  case (step t u)
  then have "tpl_ok env t" by (auto intro: reach_keeps_ok)
  then show ?case using step by (auto elim!: tpl_step.cases dest: op_moves)
qed simp

text \<open>C17. A version that was published is fixed: whatever happens later, it stays a version of its template under its number,
  with the content and digest it was published with, and never becomes a draft again.\<close>

theorem published_version_fixed:
  assumes "tpl_ok env st" and "(tpl_step env)\<^sup>*\<^sup>* st st'" and "v \<in> set (versions_of st tid)" and "tv_status v \<noteq> ''draft''"
  shows "\<exists>v' \<in> set (versions_of st' tid). tv_id v' = tv_id v \<and> tv_version v' = tv_version v \<and> tv_content v' = tv_content v
    \<and> tv_contentHash v' = tv_contentHash v \<and> tv_status v' \<noteq> ''draft''"
proof -
  have "versions_evolve st st'" using moves_evolve [OF steps_moves [OF assms(2,1)] assms(1)] .
  then obtain v' where "v' \<in> set (versions_of st' tid)" "evolves v v'" using assms(3) unfolding versions_evolve_def by blast
  then show ?thesis using assms(4) by (intro bexI [of _ v']) (auto simp: evolves_def)
qed

section \<open>Disabled templates\<close>

definition retired_template :: "string \<Rightarrow> tpl_store \<Rightarrow> bool" where
  "retired_template tid st \<longleftrightarrow> (\<exists>t. map_of (tp_templates st) tid = Some t \<and> wp_status t = ''disabled'')
     \<and> list_all (\<lambda>v. tv_status v = ''disabled'') (versions_of st tid)"

lemma move_keeps_retired:
  assumes "tpl_move env st st'" and "tpl_ok env st" and "retired_template tid st"
  shows "retired_template tid st'"
proof -
  obtain t where t: "map_of (tp_templates st) tid = Some t" "wp_status t = ''disabled''" "\<And>v. v \<in> set (versions_of st tid) \<Longrightarrow> tv_status v = ''disabled''"
    using assms(3) by (auto simp: retired_template_def list_all_iff)
  from assms(1) show ?thesis
    by cases (use t in \<open>auto simp: retired_template_def list_all_iff same_version_def\<close>)
qed

lemma moves_keep_retired: "tpl_moves env st st' \<Longrightarrow> tpl_ok env st \<Longrightarrow> retired_template tid st \<Longrightarrow> retired_template tid st'"
proof (induction rule: rtranclp_induct)
  case (step t u)
  then show ?case using move_keeps_retired [OF step.hyps(2) reach_keeps_ok [OF step.hyps(1)]] by simp
qed simp

lemma save_version_state: "save_version env now v st = (r, st') \<Longrightarrow> versions_of st' k = versions_of st k \<and> tp_templates st' = tp_templates st"
  using save_keeps(3,4) [of env now v st] by (metis snd_conv)

lemma save_template_state: "save_template env now t st = (r, st') \<Longrightarrow> versions_of st' k = versions_of st k \<and> tp_templates st' = tp_templates st"
  using save_keeps(1,2) [of env now t st] by (metis snd_conv)

text \<open>After the loop has ended, every version it named is the edited one.\<close>

lemma edited_all:
  assumes "edit_each env now tid f vs st = (Inr (), st')" and "\<And>v. P (f v)" and "\<And>v. tv_id (f v) = tv_id v"
    and "\<And>x. x \<in> set (versions_of st tid) \<Longrightarrow> tv_id x \<in> D \<Longrightarrow> P x"
  shows "tp_templates st' = tp_templates st \<and> tv_id ` set (versions_of st' tid) = tv_id ` set (versions_of st tid)
    \<and> (\<forall>x \<in> set (versions_of st' tid). tv_id x \<in> D \<union> tv_id ` set vs \<longrightarrow> P x)"
  using assms(1,4)
proof (induction vs arbitrary: st D)
  case (Cons v vs)
  obtain u where u: "save_version env now (f v) (put_version tid (f v) st) = (Inr (), u)" "edit_each env now tid f vs u = (Inr (), st')"
    using Cons.prems(1) by (auto simp: andThen_Inr)
  have same: "versions_of u tid = versions_of (put_version tid (f v) st) tid" "tp_templates u = tp_templates st" using save_version_state [OF u(1)] by simp_all
  have "P x" if "x \<in> set (versions_of u tid)" "tv_id x \<in> insert (tv_id v) D" for x
    using that same(1) Cons.prems(2) assms(2,3) by (auto split: if_splits)
  moreover have "tv_id ` set (versions_of u tid) = tv_id ` set (versions_of st tid)"
    using same(1) ids_set_replaced [of "f v" "versions_of st tid"] by (simp del: set_map)
  ultimately show ?case using Cons.IH [OF u(2), of "insert (tv_id v) D"] same(2) by auto
qed auto

lemma disable_retires:
  assumes "tpl_ok env st" and "disableTemplate env now tid st = (Inr t', st')"
  shows "retired_template tid st'"
proof -
  obtain t where t: "getTemplateOrThrow tid st = (Inr t, st)" "wp_id t = tid"
    using assms(2) get_template_Inr [OF assms(1)] get_template_state [OF assms(1), of tid]
    by (cases "getTemplateOrThrow tid st"; cases "fst (getTemplateOrThrow tid st)") (auto simp: disableTemplate_def)
  then obtain u where save: "save_template env now (t\<lparr>wp_status := ''disabled'', wp_updatedAt := now\<rparr>) (put_template (t\<lparr>wp_status := ''disabled'', wp_updatedAt := now\<rparr>) st) = (Inr (), u)"
    and all: "disable_versions env now tid (versions_of u tid) u = (Inr (), st')"
    using assms(2) by (auto simp: disableTemplate_def andThen_Inr assertUserEditable_def tpl_check_def Let_def split: if_splits)
  have "tp_templates st' = tp_templates u \<and> tv_id ` set (versions_of st' tid) = tv_id ` set (versions_of u tid)
    \<and> (\<forall>x \<in> set (versions_of st' tid). tv_id x \<in> {} \<union> tv_id ` set (versions_of u tid) \<longrightarrow> tv_status x = ''disabled'')"
    by (rule edited_all [OF all [unfolded disable_versions_def]]) simp_all
  then show ?thesis using save_template_state [OF save] t(2) by (auto simp: retired_template_def list_all_iff)
qed

text \<open>A disabled template stays disabled: once \<open>disableTemplate\<close> has returned, no later sequence of operations makes any version of
  the template the one that is executed.\<close>

theorem disabled_template_runs_nothing:
  assumes "tpl_ok env st" and "disableTemplate env now tid st = (Inr t', st1)" and "(tpl_step env)\<^sup>*\<^sup>* st1 st2"
  shows "getRuntimePublishedVersion tid st2 = (Inr None, st2)"
proof -
  have "tpl_moves env st st1" using disable_moves [OF assms(1), of now tid] assms(2) by simp
  then have ok: "tpl_ok env st1" using assms(1) by (rule reach_keeps_ok)
  from steps_moves [OF assms(3) ok] have moves: "tpl_moves env st1 st2" .
  have gone: "retired_template tid st2" using moves_keep_retired [OF moves ok disable_retires [OF assms(1,2)]] .
  have "current_or_latest ''published'' t (versions_of st2 tid) = None" for t
    using latest_in [of "''published''" t "versions_of st2 tid"] gone
    by (cases "current_or_latest ''published'' t (versions_of st2 tid)") (auto simp: retired_template_def list_all_iff)
  then show ?thesis using gone get_template_ok [OF reach_keeps_ok [OF moves ok]]
    by (auto simp: getRuntimePublishedVersion_def retired_template_def)
qed

section \<open>The version that is executed\<close>

lemma publish_Inr:
  assumes "tpl_ok env st" and "publishVersion env now vid allowInternal st = (Inr v', st')"
  shows "\<exists>t v s. tpl_ok env s \<and> map_of (tp_templates s) (wp_id t) = Some t \<and> v \<in> set (versions_of s (wp_id t))
    \<and> tv_id v = vid \<and> mark_published env now t v s = (Inr v', st')"
proof -
  obtain p u where "findVersion env vid st = (Inr p, u)" using assms(2) by (auto simp: publishVersion_def andThen_Inr)
  moreover obtain t v where p: "p = (t, v)" by force
  ultimately have found: "findVersion env vid st = (Inr (t, v), st)" "map_of (tp_templates st) (wp_id t) = Some t" "v \<in> set (versions_of st (wp_id t))" "tv_id v = vid"
    using find_version_ok [OF assms(1), of vid t v u] by auto
  define old where "old = filter (\<lambda>x. tv_id x \<noteq> vid \<and> tv_status x = ''published'') (versions_of st (wp_id t))"
  have retire: "tpl_moves env st (snd (retire_versions env now (wp_id t) old st))"
    "tp_templates (snd (retire_versions env now (wp_id t) old st)) = tp_templates st"
    "v \<in> set (versions_of (snd (retire_versions env now (wp_id t) old st)) (wp_id t))"
    using retire_moves [OF assms(1) found(3), of now] unfolding old_def found(4) by blast+
  show ?thesis
  proof (cases "wp_origin t = ''plugin_internal''")
    case True
    then obtain x s where s: "retire_versions env now (wp_id t) old st = (Inr x, s)" "mark_published env now t v s = (Inr v', st')"
      using assms(2) found(1) unfolding old_def
      by (auto simp: publishVersion_def andThen_Inr assertUserEditable_def assertTemplateEnabled_def tpl_check_def split: if_splits)
    then show ?thesis using retire found(2,4) reach_keeps_ok [OF retire(1) assms(1)] by (intro exI [of _ t] exI [of _ v] exI [of _ s]) simp
  next
    case False
    then have "mark_published env now t v st = (Inr v', st')"
      using assms(2) found(1) by (auto simp: publishVersion_def andThen_Inr assertUserEditable_def assertTemplateEnabled_def tpl_check_def split: if_splits)
    then show ?thesis using assms(1) found(2-4) by blast
  qed
qed

lemma find_only:
  assumes "v \<in> set vs" and "P v" and "\<And>x. x \<in> set vs \<Longrightarrow> P x \<Longrightarrow> x = v"
  shows "find P vs = Some v"
  using assms(1,3)
proof (induction vs)
  case (Cons a vs)
  show ?case
  proof (cases "P a")
    case True
    then have "a = v" using Cons.prems(2) [of a] by simp
    then show ?thesis using True by simp
  next
    case False
    then have "v \<in> set vs" using Cons.prems(1) assms(2) by auto
    moreover have "x = v" if "x \<in> set vs" "P x" for x using Cons.prems(2) [of x] that by simp
    ultimately show ?thesis using Cons.IH False by simp
  qed
qed simp

lemma id_determines:
  "tpl_ok env st \<Longrightarrow> x \<in> set (versions_of st tid) \<Longrightarrow> y \<in> set (versions_of st tid) \<Longrightarrow> tv_id x = tv_id y \<Longrightarrow> x = y"
  using tpl_okD(4) [of env st tid] by (auto simp: versions_ok_def distinct_map dest: inj_onD)

text \<open>What \<open>mark_published\<close> leaves when it returns.\<close>

lemma mark_published_Inr:
  assumes "mark_published env now t v s = (Inr v', st')" and "v \<in> set (versions_of s (wp_id t))"
  shows "tv_id v' = tv_id v \<and> tv_templateId v' = tv_templateId v \<and> tv_status v' = ''published'' \<and> v' \<in> set (versions_of st' (wp_id t))
    \<and> (\<exists>t'. map_of (tp_templates st') (wp_id t) = Some t' \<and> wp_currentVersionId t' = Some (tv_id v))"
proof -
  define w where "w = v\<lparr>tv_lifecycle := (if wp_origin t = ''plugin_internal'' then Some ''CURRENT'' else tv_lifecycle v), tv_status := ''published''\<rparr>"
  define t' where "t' = t\<lparr>wp_status := deriveTemplateStatus (versions_of (put_version (wp_id t) w s) (wp_id t)), wp_currentVersionId := Some (tv_id v), wp_updatedAt := now\<rparr>"
  let ?s = "put_template t' (put_version (wp_id t) w s)"
  have "andThen (save_template env now t' ?s) (\<lambda>_ st. andThen (save_version env now w st) (\<lambda>_ st. (Inr w, st))) = (Inr v', st')"
    using assms(1) unfolding mark_published_def Let_def w_def [symmetric] t'_def [symmetric] .
  then obtain x u y where u: "save_template env now t' ?s = (Inr x, u)" "save_version env now w u = (Inr y, st')" and v': "v' = w"
    by (auto simp: andThen_Inr)
  have same: "versions_of st' (wp_id t) = versions_of ?s (wp_id t)" "tp_templates st' = tp_templates ?s"
    using save_template_state [OF u(1)] save_version_state [OF u(2)] by simp_all
  have "w \<in> set (map (\<lambda>x. if tv_id x = tv_id w then w else x) (versions_of s (wp_id t)))" using assms(2) by (force simp: w_def)
  then have "w \<in> set (versions_of st' (wp_id t))" by (simp add: same(1) del: set_map)
  moreover have "map_of (tp_templates st') (wp_id t) = Some t'" by (simp add: same(2) t'_def)
  ultimately show ?thesis by (simp add: v' w_def t'_def)
qed

text \<open>C18. Publishing takes effect: after \<open>publishVersion\<close> has returned a version, it is published and is the one executed for its template.\<close>

theorem published_version_runs:
  assumes "tpl_ok env st" and "publishVersion env now vid allowInternal st = (Inr v, st')"
  shows "tv_id v = vid \<and> tv_status v = ''published'' \<and> getRuntimePublishedVersion (tv_templateId v) st' = (Inr (Some v), st')"
proof -
  from publish_Inr [OF assms] obtain t v0 s where s: "tpl_ok env s" "v0 \<in> set (versions_of s (wp_id t))" "tv_id v0 = vid"
    and mark: "mark_published env now t v0 s = (Inr v, st')" by blast
  have "tpl_moves env st st'" using publish_moves [OF assms(1), of now vid allowInternal] assms(2) by simp
  then have ok: "tpl_ok env st'" using assms(1) by (rule reach_keeps_ok)
  from mark_published_Inr [OF mark s(2)] obtain t' where after: "tv_id v = vid" "tv_templateId v = tv_templateId v0" "tv_status v = ''published''"
    "v \<in> set (versions_of st' (wp_id t))" "map_of (tp_templates st') (wp_id t) = Some t'" "wp_currentVersionId t' = Some vid"
    unfolding s(3) by blast
  have tid: "tv_templateId v = wp_id t" using version_status [OF ok after(4)] by (simp add: version_ok_def)
  have "find (\<lambda>x. Some (tv_id x) = wp_currentVersionId t' \<and> tv_status x = ''published'') (versions_of st' (wp_id t)) = Some v"
  proof (rule find_only [OF after(4)])
    fix x assume "x \<in> set (versions_of st' (wp_id t))" "Some (tv_id x) = wp_currentVersionId t' \<and> tv_status x = ''published''"
    then show "x = v" using after(1,6) id_determines [OF ok _ after(4)] by simp
  qed (use after(1,3,6) in simp)
  then show ?thesis using after(1,3,5) by (simp add: tid getRuntimePublishedVersion_def current_or_latest_def get_template_ok [OF ok])
qed

text \<open>The newest of the versions with a status.\<close>

lemma latest_only:
  assumes "v \<in> set vs" and "tv_status v = status" and "\<And>x. x \<in> set vs \<Longrightarrow> tv_status x = status \<Longrightarrow> x \<noteq> v \<Longrightarrow> tv_version x < tv_version v"
    and "\<And>x. x \<in> set vs \<Longrightarrow> tv_status x = status \<Longrightarrow> Some (tv_id x) \<noteq> wp_currentVersionId t"
  shows "current_or_latest status t vs = Some v"
proof -
  let ?lt = "\<lambda>l r. tv_version r < tv_version l" and ?xs = "filter (\<lambda>x. tv_status x = status) vs"
  have "find (\<lambda>x. Some (tv_id x) = wp_currentVersionId t \<and> tv_status x = status) vs = None" using assms(4) by (auto simp: find_None_iff)
  moreover obtain w rest where w: "sort_by ?lt ?xs = w # rest"
    using assms(1,2) set_sort_by [of ?lt ?xs] by (cases "sort_by ?lt ?xs") (auto simp: filter_empty_conv)
  have "sorted_wrt (\<lambda>a b. \<not> ?lt b a) (sort_by ?lt ?xs)" by (rule sorted_sort_by) auto
  then have "\<not> ?lt v w" using sort_by_hd_minimal [OF _ w, of v] assms(1,2) by simp
  moreover have "w \<in> set ?xs" using w set_sort_by [of ?lt ?xs] by (metis list.set_intros(1))
  ultimately show ?thesis using assms(3) [of w] w by (force simp: current_or_latest_def)
qed

text \<open>A draft that was created: the old versions and it.\<close>

lemma append_Inr:
  assumes "appendDraftVersion env now vid t content cs opts st = (Inr d, st')"
  shows "tv_status d = ''draft'' \<and> tv_id d = vid \<and> versions_of st' (wp_id t) = versions_of st (wp_id t) @ [d]
    \<and> (\<exists>t'. map_of (tp_templates st') (wp_id t) = Some t' \<and> wp_currentVersionId t' = Some vid)"
proof -
  define v where "v = createVersion env now vid (wp_id t) (next_version (versions_of st (wp_id t))) content cs (ao_pluginSource opts)"
  define t' where "t' = t\<lparr>wp_currentVersionId := Some vid, wp_status := ''draft'', wp_updatedAt := now\<rparr>"
  let ?s = "put_template t' (put_versions (wp_id t) (versions_of st (wp_id t) @ [v]) st)"
  have "andThen (save_template env now t' ?s) (\<lambda>_ st. andThen (save_version env now v st) (\<lambda>_ st. (Inr v, st))) = (Inr d, st')"
    using assms by (auto simp: appendDraftVersion_def Let_def v_def t'_def split: if_splits sum.splits)
  then obtain x u y where u: "save_template env now t' ?s = (Inr x, u)" "save_version env now v u = (Inr y, st')" and d: "d = v"
    by (auto simp: andThen_Inr)
  have "versions_of st' (wp_id t) = versions_of ?s (wp_id t)" "tp_templates st' = tp_templates ?s"
    using save_template_state [OF u(1)] save_version_state [OF u(2)] by simp_all
  then show ?thesis by (simp add: d v_def t'_def createVersion_def)
qed

lemma created_draft:
  assumes "tpl_ok env st" and "createDraftVersion env now vid inp st = (Inr d, st')"
  shows "tv_status d = ''draft'' \<and> tv_id d = vid \<and> versions_of st' (ui_templateId inp) = versions_of st (ui_templateId inp) @ [d]
    \<and> (\<exists>t'. map_of (tp_templates st') (ui_templateId inp) = Some t' \<and> wp_currentVersionId t' = Some vid)"
proof -
  obtain t s where t: "editable_template (ui_templateId inp) st = (Inr t, s)"
    using assms(2) by (auto simp: createDraftVersion_def andThen_Inr)
  then have "s = st" "wp_id t = ui_templateId inp" using editable_template_Inr [OF assms(1) t] by simp_all
  then show ?thesis using assms(2) t append_Inr [where t = t and st = st] by (auto simp: createDraftVersion_def split: sum.splits)
qed

text \<open>Creating a draft changes what is executed: the current version becomes the draft, so the published version with the
  highest number is executed from then on, whichever published version was current before. A published version that was
  withdrawn by publishing an older one again comes back.\<close>

theorem draft_revives_latest_version:
  assumes "tpl_ok env st" and "\<not> used_id st vid" and "createDraftVersion env now vid inp st = (Inr d, st')"
    and "v \<in> set (versions_of st (ui_templateId inp))" and "tv_status v = ''published''"
    and "list_all (\<lambda>x. tv_status x = ''published'' \<longrightarrow> tv_version x \<le> tv_version v) (versions_of st (ui_templateId inp))"
  shows "getRuntimePublishedVersion (ui_templateId inp) st' = (Inr (Some v), st')"
proof -
  let ?tid = "ui_templateId inp"
  from created_draft [OF assms(1,3)] obtain t' where d: "tv_status d = ''draft''" "tv_id d = vid" "versions_of st' ?tid = versions_of st ?tid @ [d]"
    and t': "map_of (tp_templates st') ?tid = Some t'" "wp_currentVersionId t' = Some vid" by blast
  have "tv_version x < tv_version v" if x: "x \<in> set (versions_of st ?tid)" "tv_status x = ''published''" "x \<noteq> v" for x
  proof -
    have "distinct (map tv_version (versions_of st ?tid))"
      using tpl_okD(4) [OF assms(1), of ?tid] by (auto simp: versions_ok_def strict_sorted_iff)
    then have "tv_version x \<noteq> tv_version v" using x(1,3) assms(4) by (auto simp: distinct_map dest: inj_onD)
    moreover have "tv_version x \<le> tv_version v" using assms(6) x(1,2) by (auto simp: list_all_iff)
    ultimately show ?thesis by simp
  qed
  moreover have "tv_id x \<noteq> vid" if "x \<in> set (versions_of st ?tid)" for x using assms(2) that by auto
  ultimately have "current_or_latest ''published'' t' (versions_of st' ?tid) = Some v"
    using assms(4,5) d t'(2) by (intro latest_only) auto
  moreover have "tpl_ok env st'" using reach_keeps_ok [OF draft_moves(1) [OF assms(1,2)] assms(1), of now inp] assms(3) by simp
  ultimately show ?thesis using t'(1) by (simp add: getRuntimePublishedVersion_def get_template_ok)
qed

section \<open>Comparing version numbers\<close>

lemma split_on_free: "c \<notin> set a \<Longrightarrow> split_on c a = [a]"
  by (induction a) auto

lemma split_on_first: "c \<notin> set a \<Longrightarrow> split_on c (a @ c # b) = a # split_on c b"
  by (induction a) auto

lemma compare_parts_same: "compare_parts xs xs = 0"
  by (induction xs) auto

lemma compare_same: "semver_text l = semver_text r \<Longrightarrow> compareSemanticVersions l r = 0"
  by (simp add: compareSemanticVersions_def core_part_def preRelease_def compare_parts_same)

lemma semver_text_hyphens:
  assumes "CHR ''-'' \<notin> set core" and "CHR ''-'' \<notin> set label" and "CHR ''+'' \<notin> set (core @ label @ rest)"
  shows "semver_text (core @ CHR ''-'' # label @ CHR ''-'' # rest) = [core, label]"
proof -
  have "split_on (CHR ''+'') (core @ CHR ''-'' # label @ CHR ''-'' # rest) = [core @ CHR ''-'' # label @ CHR ''-'' # rest]"
    using assms(3) by (intro split_on_free) auto
  then show ?thesis using assms(1,2) by (simp add: semver_text_def split_limit_def split_on_first)
qed

text \<open>A pre-release with a second hyphen is cut there, since \<open>split('-', 2)\<close> drops what follows: two releases that differ only after it
  compare equal, and the later one is refused as not newer.\<close>

theorem hyphen_release_refused:
  assumes "CHR ''-'' \<notin> set core" and "CHR ''-'' \<notin> set label" and "CHR ''+'' \<notin> set (core @ label @ old @ new)"
    and "metadata_text previous ''version'' = core @ CHR ''-'' # label @ CHR ''-'' # old"
    and "metadata_text content ''version'' = core @ CHR ''-'' # label @ CHR ''-'' # new"
  shows "assertPluginVersionIncrement previous content True = Inl (AppError ''VALIDATION_FAILED'')"
proof -
  have "semver_text (metadata_text content ''version'') = semver_text (metadata_text previous ''version'')"
    using semver_text_hyphens [OF assms(1,2), of new] semver_text_hyphens [OF assms(1,2), of old] assms(3-5) by simp
  then show ?thesis using compare_same assms(4) by (simp add: assertPluginVersionIncrement_def Let_def)
qed

theorem hyphen_release_refused_witness:
  "assertPluginVersionIncrement (JObj [(''metadata'', JObj [(''version'', JStr ''1.0.0-rc-1'')])]) (JObj [(''metadata'', JObj [(''version'', JStr ''1.0.0-rc-2'')])]) True
    = Inl (AppError ''VALIDATION_FAILED'')"
  by (rule hyphen_release_refused [where core = "''1.0.0''" and label = "''rc''" and old = "''1''" and new = "''2''"])
    (simp_all add: metadata_text_def asRecord_def jget_def)

section \<open>Examples\<close>

definition demo_tpl_env :: tpl_env where
  "demo_tpl_env = \<lparr>te_wf = demo_env, te_validate = Inr, te_fault = (\<lambda>n. None), te_lt = (\<lambda>a b. False)\<rparr>"

definition demo_tpl_content :: json where
  "demo_tpl_content = JObj [(''metadata'', JObj [(''name'', JStr ''renew'')])]"

definition demo_create :: tpl_op where
  "demo_create = OpCreate 1 ''t'' ''v1'' \<lparr>ci_content = demo_tpl_content, ci_changeSummary = None, ci_pluginSource = None\<rparr> ''user''
     \<lparr>ow_ownerType = None, ow_ownerId = None, ow_tenantId = None\<rparr>"

definition demo_update :: update_input where
  "demo_update = \<lparr>ui_templateId = ''t'', ui_content = demo_tpl_content, ui_changeSummary = None, ui_pluginSource = None, ui_allowDuplicateContent = True\<rparr>"

text \<open>A template whose second version was published and withdrawn by publishing the first again.\<close>

definition demo_created :: tpl_store where
  "demo_created = run_tpl_op demo_tpl_env demo_create no_templates"

definition demo_published :: tpl_store where
  "demo_published = run_tpl_op demo_tpl_env (OpPublish 2 ''v1'' False) demo_created"

definition demo_second :: tpl_store where
  "demo_second = run_tpl_op demo_tpl_env (OpPublish 4 ''v2'' False) (run_tpl_op demo_tpl_env (OpDraft 3 ''v2'' demo_update) demo_published)"

definition demo_withdrawn :: tpl_store where
  "demo_withdrawn = run_tpl_op demo_tpl_env (OpPublish 5 ''v1'' False) demo_second"

definition demo_v1 :: tpl_version where
  "demo_v1 = \<lparr>tv_id = ''v1'', tv_templateId = ''t'', tv_version = 1, tv_content = demo_tpl_content, tv_contentHash = ''0'', tv_status = ''published'',
     tv_lifecycle = Some ''CURRENT'', tv_changeSummary = None, tv_pluginSource = None, tv_createdAt = 1\<rparr>"

definition demo_v2 :: tpl_version where
  "demo_v2 = \<lparr>tv_id = ''v2'', tv_templateId = ''t'', tv_version = 2, tv_content = demo_tpl_content, tv_contentHash = ''0'', tv_status = ''published'',
     tv_lifecycle = None, tv_changeSummary = None, tv_pluginSource = None, tv_createdAt = 3\<rparr>"

text \<open>The two states the examples are about, evaluated once.\<close>

definition demo_template :: "string \<Rightarrow> instant \<Rightarrow> wf_template" where
  "demo_template vid now = \<lparr>wp_id = ''t'', wp_name = ''renew'', wp_origin = ''user'', wp_ownerType = Some ''TENANT'', wp_ownerId = None, wp_tenantId = None,
     wp_status = ''published'', wp_currentVersionId = Some vid, wp_createdAt = 1, wp_updatedAt = now\<rparr>"

lemma demo_published_value [code]:
  "demo_published = \<lparr>tp_templates = [(''t'', demo_template ''v1'' 2)], tp_versions = [(''t'', [demo_v1])],
     tp_templateDocs = [\<lparr>dr_id = ''t'', dr_payload = demo_template ''v1'' 2, dr_updatedAt = 2\<rparr>],
     tp_versionDocs = [\<lparr>dr_id = ''v1'', dr_payload = demo_v1, dr_updatedAt = 2\<rparr>], tp_writes = 4\<rparr>"
  by code_simp

lemma demo_second_value [code]:
  "demo_second = \<lparr>tp_templates = [(''t'', demo_template ''v2'' 4)], tp_versions = [(''t'', [demo_v1, demo_v2])],
     tp_templateDocs = [\<lparr>dr_id = ''t'', dr_payload = demo_template ''v2'' 4, dr_updatedAt = 4\<rparr>],
     tp_versionDocs = [\<lparr>dr_id = ''v1'', dr_payload = demo_v1, dr_updatedAt = 2\<rparr>, \<lparr>dr_id = ''v2'', dr_payload = demo_v2, dr_updatedAt = 4\<rparr>], tp_writes = 8\<rparr>"
  by code_simp

lemma demo_withdrawn_value [code]:
  "demo_withdrawn = \<lparr>tp_templates = [(''t'', demo_template ''v1'' 5)], tp_versions = [(''t'', [demo_v1, demo_v2])],
     tp_templateDocs = [\<lparr>dr_id = ''t'', dr_payload = demo_template ''v1'' 5, dr_updatedAt = 5\<rparr>],
     tp_versionDocs = [\<lparr>dr_id = ''v1'', dr_payload = demo_v1, dr_updatedAt = 5\<rparr>, \<lparr>dr_id = ''v2'', dr_payload = demo_v2, dr_updatedAt = 4\<rparr>], tp_writes = 10\<rparr>"
  by code_simp

lemma unused_id:
  assumes "list_all (\<lambda>(k, vs). vid \<notin> tv_id ` set vs) (tp_versions st)"
  shows "\<not> used_id st vid"
proof -
  have "vid \<notin> tv_id ` set (versions_of st k)" for k
    using assms by (cases "map_of (tp_versions st) k") (auto simp: versions_of_def list_all_iff dest: map_of_SomeD)
  then show ?thesis by (simp add: used_id_def)
qed

lemma demo_unused: "\<not> used_id no_templates ''v1''" "\<not> used_id demo_published ''v2''" "\<not> used_id demo_withdrawn ''v3''"
  by (rule unused_id, code_simp)+

lemma demo_steps:
  "tpl_step demo_tpl_env no_templates demo_created" "tpl_step demo_tpl_env demo_created demo_published"
  "(tpl_step demo_tpl_env)\<^sup>*\<^sup>* demo_published demo_second" "tpl_step demo_tpl_env demo_second demo_withdrawn"
proof -
  have create: "fresh_for no_templates demo_create" using demo_unused(1) by (simp add: fresh_for_def demo_create_def no_templates_def)
  show "tpl_step demo_tpl_env no_templates demo_created" unfolding demo_created_def by (rule tpl_step_op [OF create])
  show "tpl_step demo_tpl_env demo_created demo_published" unfolding demo_published_def by (rule tpl_step_op) (simp add: fresh_for_def)
  show "tpl_step demo_tpl_env demo_second demo_withdrawn" unfolding demo_withdrawn_def by (rule tpl_step_op) (simp add: fresh_for_def)
  have "tpl_step demo_tpl_env demo_published (run_tpl_op demo_tpl_env (OpDraft 3 ''v2'' demo_update) demo_published)"
    by (rule tpl_step_op) (use demo_unused(2) in \<open>simp add: fresh_for_def\<close>)
  moreover have "tpl_step demo_tpl_env (run_tpl_op demo_tpl_env (OpDraft 3 ''v2'' demo_update) demo_published) demo_second"
    unfolding demo_second_def by (rule tpl_step_op) (simp add: fresh_for_def)
  ultimately show "(tpl_step demo_tpl_env)\<^sup>*\<^sup>* demo_published demo_second" by (meson converse_rtranclp_into_rtranclp r_into_rtranclp)
qed

lemma demo_ok: "tpl_ok demo_tpl_env demo_created" "tpl_ok demo_tpl_env demo_published" "tpl_ok demo_tpl_env demo_second" "tpl_ok demo_tpl_env demo_withdrawn"
proof -
  show created: "tpl_ok demo_tpl_env demo_created" using step_keeps_ok [OF demo_steps(1) no_templates_ok] .
  show published: "tpl_ok demo_tpl_env demo_published" using step_keeps_ok [OF demo_steps(2) created] .
  show second: "tpl_ok demo_tpl_env demo_second" using templates.steps_preserve [OF demo_steps(3) published] .
  show "tpl_ok demo_tpl_env demo_withdrawn" using step_keeps_ok [OF demo_steps(4) second] .
qed


theorem published_version_fixed_witness:
  "list_ex (\<lambda>v. tv_id v = ''v1'' \<and> tv_content v = demo_tpl_content \<and> tv_status v \<noteq> ''draft'') (versions_of demo_withdrawn ''t'')"
proof -
  have "(tpl_step demo_tpl_env)\<^sup>*\<^sup>* demo_published demo_withdrawn" using demo_steps(3,4) by (rule rtranclp.rtrancl_into_rtrancl)
  moreover have "versions_of demo_published ''t'' = [demo_v1]" by code_simp
  ultimately show ?thesis using published_version_fixed [OF demo_ok(2), of demo_withdrawn demo_v1 "''t''"]
    by (auto simp: list_ex_iff demo_v1_def)
qed

theorem disabled_template_runs_nothing_witness:
  "fst (getRuntimePublishedVersion ''t'' demo_withdrawn) = Inr (Some demo_v1)
    \<and> fst (getRuntimePublishedVersion ''t'' (run_tpl_op demo_tpl_env (OpPublish 7 ''v2'' True) (run_tpl_op demo_tpl_env (OpDisable 6 ''t'') demo_withdrawn))) = Inr None"
proof
  show "fst (getRuntimePublishedVersion ''t'' demo_withdrawn) = Inr (Some demo_v1)" by code_simp
  let ?r = "disableTemplate demo_tpl_env 6 ''t'' demo_withdrawn" and ?last = "OpPublish 7 ''v2'' True"
  have "case fst ?r of Inr t \<Rightarrow> True | Inl e \<Rightarrow> False" by code_simp
  then obtain t where "?r = (Inr t, snd ?r)" by (cases ?r; cases "fst ?r") auto
  moreover have "tpl_step demo_tpl_env (snd ?r) (run_tpl_op demo_tpl_env ?last (snd ?r))" by (rule tpl_step_op) (simp add: fresh_for_def)
  ultimately have "getRuntimePublishedVersion ''t'' (run_tpl_op demo_tpl_env ?last (snd ?r)) = (Inr None, run_tpl_op demo_tpl_env ?last (snd ?r))"
    by (intro disabled_template_runs_nothing [OF demo_ok(4)] r_into_rtranclp)
  moreover have "run_tpl_op demo_tpl_env (OpDisable 6 ''t'') demo_withdrawn = snd ?r" by (simp add: run_tpl_op_def)
  ultimately show "fst (getRuntimePublishedVersion ''t'' (run_tpl_op demo_tpl_env ?last (run_tpl_op demo_tpl_env (OpDisable 6 ''t'') demo_withdrawn))) = Inr None"
    by simp
qed

theorem published_version_runs_witness:
  "getRuntimePublishedVersion ''t'' demo_withdrawn = (Inr (Some demo_v1), demo_withdrawn)"
proof -
  have "fst (publishVersion demo_tpl_env 5 ''v1'' False demo_second) = Inr demo_v1" by code_simp
  then have "publishVersion demo_tpl_env 5 ''v1'' False demo_second = (Inr demo_v1, demo_withdrawn)"
    by (simp add: demo_withdrawn_def run_tpl_op_def prod_eq_iff)
  from published_version_runs [OF demo_ok(3) this] show ?thesis by (simp add: demo_v1_def)
qed

theorem draft_revives_latest_version_witness:
  "fst (getRuntimePublishedVersion ''t'' demo_withdrawn) = Inr (Some demo_v1)
    \<and> fst (getRuntimePublishedVersion ''t'' (snd (createDraftVersion demo_tpl_env 6 ''v3'' demo_update demo_withdrawn))) = Inr (Some demo_v2)"
proof
  show "fst (getRuntimePublishedVersion ''t'' demo_withdrawn) = Inr (Some demo_v1)" by code_simp
  let ?r = "createDraftVersion demo_tpl_env 6 ''v3'' demo_update demo_withdrawn"
  have "case fst ?r of Inr d \<Rightarrow> True | Inl e \<Rightarrow> False" by code_simp
  then obtain d where d: "?r = (Inr d, snd ?r)" by (cases ?r; cases "fst ?r") auto
  have vs: "versions_of demo_withdrawn ''t'' = [demo_v1, demo_v2]" by code_simp
  have "getRuntimePublishedVersion (ui_templateId demo_update) (snd ?r) = (Inr (Some demo_v2), snd ?r)"
    by (rule draft_revives_latest_version [OF demo_ok(4) demo_unused(3) d])
      (use vs in \<open>simp_all add: demo_update_def, simp_all add: demo_v1_def demo_v2_def\<close>)
  then show "fst (getRuntimePublishedVersion ''t'' (snd ?r)) = Inr (Some demo_v2)" by (simp add: demo_update_def)
qed

section \<open>Writes that fail half way\<close>

definition failing_write :: "nat \<Rightarrow> tpl_env" where
  "failing_write k = demo_tpl_env\<lparr>te_fault := (\<lambda>n. if n = k then Some (PlainError ''db'') else None)\<rparr>"

text \<open>The template is written before its first version. When the second write fails, a restart brings back a template whose
  current version does not exist.\<close>

lemma half_created_template:
  "(let st = rehydrate (run_tpl_op (failing_write 1) demo_create no_templates)
    in map_option wp_currentVersionId (map_of (tp_templates st) ''t'') = Some (Some ''v1'') \<and> versions_of st ''t'' = [])"
  by code_simp

text \<open>\<open>disableTemplate\<close> writes the versions after the template. When the write of the first version fails, the others stay published, and what is executed
  does not depend on the status of the template: here the second version runs for a disabled template.\<close>

lemma half_disabled_template_runs:
  "(let st = run_tpl_op (failing_write 11) (OpDisable 6 ''t'') demo_withdrawn
    in map_option wp_status (map_of (tp_templates st) ''t'') = Some ''disabled'' \<and> fst (getRuntimePublishedVersion ''t'' st) = Inr (Some demo_v2))"
  by code_simp

end
