(* ===== verification/WorkflowCanvas.thy ===== *)
theory WorkflowCanvas
  imports WorkflowSteps
begin

text \<open>
  The graph editor of workflows: \<open>backend/src/modules/workflow-templates/domain/workflow-canvas.compiler.ts\<close>, which checks a
  drawn graph and compiles it to the content of a version.

  The compiled steps are JSON objects, as the code builds them; a member that the code sets to undefined is left out. A drawing is
  read with the types the source declares for it: coordinates are integers, a member of another type counts as absent.
  \<open>canvas_env\<close> holds \<open>Number\<close> (None when the result is not an integer; such a number is written as null, as
  \<open>JSON.stringify\<close> writes NaN), \<open>JSON.parse\<close>, the order of \<open>localeCompare\<close>, the checker of input contracts and the schema
  registry. Texts in Chinese are given in English.
\<close>

section \<open>Drawings\<close>

record canvas_node =
  nd_id :: string
  nd_type :: string
  nd_x :: "int option"
  nd_y :: "int option"
  nd_label :: "string option"
  nd_config :: jobject
  nd_ui :: jobject

record canvas_edge =
  ce_id :: "string option"
  ce_source :: string
  ce_target :: string
  ce_type :: "string option"

record canvas =
  cv_metadata :: jobject
  cv_inputContract :: "json option"
  cv_nodes :: "canvas_node list"
  cv_edges :: "canvas_edge list"
  cv_draftState :: jobject
  cv_legacy :: bool

record canvas_issue =
  vi_id :: string
  vi_severity :: string
  vi_targetType :: string
  vi_nodeId :: "string option"
  vi_edgeId :: "string option"
  vi_field :: "string option"

record canvas_env =
  cz_number :: "json \<Rightarrow> int option"
  cz_parse :: "string \<Rightarrow> json option"
  cz_lt :: "string \<Rightarrow> string \<Rightarrow> bool"
  cz_contract :: "json \<Rightarrow> unit result"
  cz_validate :: "json \<Rightarrow> json result"

definition typed_text :: "jobject \<Rightarrow> string \<Rightarrow> string option" where
  "typed_text m k = (case jget m k of Some (JStr s) \<Rightarrow> Some s | _ \<Rightarrow> None)"

definition int_member :: "jobject \<Rightarrow> string \<Rightarrow> int option" where
  "int_member m k = (case jget m k of Some (JNum i) \<Rightarrow> Some i | _ \<Rightarrow> None)"

definition array_member :: "jobject \<Rightarrow> string \<Rightarrow> json list" where
  "array_member m k = (case jget m k of Some (JArr xs) \<Rightarrow> xs | _ \<Rightarrow> [])"

definition node_of_json :: "json \<Rightarrow> canvas_node" where
  "node_of_json v = (let m = asRecord (Some v); p = asRecord (jget m ''position'') in
     \<lparr>nd_id = getOrElse (typed_text m ''id'') [], nd_type = getOrElse (typed_text m ''type'') [], nd_x = int_member p ''x'', nd_y = int_member p ''y'',
      nd_label = typed_text m ''label'', nd_config = asRecord (jget m ''config''), nd_ui = asRecord (jget m ''ui'')\<rparr>)"

definition edge_of_json :: "json \<Rightarrow> canvas_edge" where
  "edge_of_json v = (let m = asRecord (Some v) in
     \<lparr>ce_id = typed_text m ''id'', ce_source = getOrElse (typed_text m ''sourceNodeId'') [], ce_target = getOrElse (typed_text m ''targetNodeId'') [],
      ce_type = typed_text m ''edgeType''\<rparr>)"

definition canvas_of_json :: "jobject \<Rightarrow> canvas" where
  "canvas_of_json m = \<lparr>cv_metadata = asRecord (jget m ''metadata''), cv_inputContract = jget m ''inputContract'',
     cv_nodes = map node_of_json (array_member m ''nodes''), cv_edges = map edge_of_json (array_member m ''edges''),
     cv_draftState = asRecord (jget m ''draftState''), cv_legacy = (jget m ''variables'' \<noteq> None \<or> jget m ''connections'' \<noteq> None)\<rparr>"

definition readCanvas :: "json \<Rightarrow> canvas result" where
  "readCanvas inp = (case inp of
     JObj m \<Rightarrow> Inr (canvas_of_json (case jget m ''canvas'' of Some (JObj c) \<Rightarrow> c | _ \<Rightarrow> m))
   | _ \<Rightarrow> Inl (AppError ''VALIDATION_FAILED''))"

section \<open>Reading a configuration\<close>

text \<open>\<open>config.k ?? default\<close>: undefined and null count as missing.\<close>

definition given :: "jobject \<Rightarrow> string \<Rightarrow> json option" where
  "given config k = (case jget config k of Some JNull \<Rightarrow> None | v \<Rightarrow> v)"

definition text_or :: "jobject \<Rightarrow> string \<Rightarrow> string \<Rightarrow> string" where
  "text_or config k d = js_string (getOrElse (given config k) (JStr d))"

definition isBlank :: "json option \<Rightarrow> bool" where
  "isBlank v \<longleftrightarrow> (case v of None \<Rightarrow> True | Some JNull \<Rightarrow> True | Some x \<Rightarrow> trim (js_string x) = [])"

text \<open>\<open>...(isBlank(config.k) ? {} : { k: String(config.k) })\<close>\<close>

definition unless_blank :: "jobject \<Rightarrow> string \<Rightarrow> string \<Rightarrow> jobject" where
  "unless_blank config k name = (if isBlank (jget config k) then [] else [(name, JStr (text_or config k []))])"

definition number_or :: "canvas_env \<Rightarrow> jobject \<Rightarrow> string \<Rightarrow> json \<Rightarrow> json" where
  "number_or env config k d = (case cz_number env (getOrElse (given config k) d) of Some i \<Rightarrow> JNum i | None \<Rightarrow> JNull)"

definition parseLooseJson :: "canvas_env \<Rightarrow> string \<Rightarrow> json option" where
  "parseLooseJson env value = (let s = trim value in
     if s = [] then None else case cz_parse env s of Some v \<Rightarrow> Some v | None \<Rightarrow> Some (JStr s))"

text \<open>A value that is parsed when it is a text.\<close>

definition parsed :: "canvas_env \<Rightarrow> json option \<Rightarrow> json option" where
  "parsed env v = (case v of Some (JStr s) \<Rightarrow> parseLooseJson env s | _ \<Rightarrow> v)"

definition parseBrowserExtractions :: "canvas_env \<Rightarrow> json option \<Rightarrow> json result" where
  "parseBrowserExtractions env v = (case parsed env v of Some (JArr xs) \<Rightarrow> Inr (JArr xs) | _ \<Rightarrow> Inl (AppError ''VALIDATION_FAILED''))"

definition parseBrowserVerification :: "canvas_env \<Rightarrow> json option \<Rightarrow> json result" where
  "parseBrowserVerification env v = (case parsed env v of Some (JObj m) \<Rightarrow> Inr (JObj m) | _ \<Rightarrow> Inl (AppError ''VALIDATION_FAILED''))"

definition readForeachSteps :: "canvas_env \<Rightarrow> json option \<Rightarrow> json result" where
  "readForeachSteps env v = (case parsed env v of Some (JArr (x # xs)) \<Rightarrow> Inr (JArr (x # xs)) | _ \<Rightarrow> Inl (AppError ''VALIDATION_FAILED''))"

definition ident_char :: "char \<Rightarrow> bool" where
  "ident_char c \<longleftrightarrow> is_letter c \<or> is_digit c \<or> c = CHR ''_''"

text \<open>\<open>value.replace(/[^a-zA-Z0-9_]+/g, '_')\<close>; the first argument tells whether the character before was replaced.\<close>

fun squeeze :: "bool \<Rightarrow> string \<Rightarrow> string" where
  "squeeze run [] = []"
| "squeeze run (c # cs) = (if ident_char c then c # squeeze False cs else if run then squeeze True cs else CHR ''_'' # squeeze True cs)"

definition strip_underscores :: "string \<Rightarrow> string" where
  "strip_underscores s = rev (dropWhile (\<lambda>c. c = CHR ''_'') (rev (dropWhile (\<lambda>c. c = CHR ''_'') s)))"

definition normalizeIdentifier :: "string \<Rightarrow> string" where
  "normalizeIdentifier value = (let cleaned = strip_underscores (squeeze False (trim value));
       normalized = (if cleaned = [] then ''workflow_canvas_draft'' else cleaned)
     in if is_letter (hd normalized) then normalized else ''workflow_'' @ normalized)"

definition parse_decimal :: "string \<Rightarrow> bool" where
  "parse_decimal s \<longleftrightarrow> (let t = (if startsWith s ''-'' then drop 1 s else s); whole = takeWhile is_digit t; rest = drop (length whole) t
     in whole \<noteq> [] \<and> (rest = [] \<or> startsWith rest ''.'' \<and> drop 1 rest \<noteq> [] \<and> list_all is_digit (drop 1 rest)))"

definition parseConditionValue :: "canvas_env \<Rightarrow> json option \<Rightarrow> json option" where
  "parseConditionValue env v = (case v of Some (JStr s) \<Rightarrow>
       (let t = trim s in if t = ''true'' then Some (JBool True) else if t = ''false'' then Some (JBool False)
        else if parse_decimal t then Some (case cz_number env (JStr t) of Some i \<Rightarrow> JNum i | None \<Rightarrow> JNull) else Some (JStr s))
   | _ \<Rightarrow> v)"

definition buildDslCondition :: "canvas_env \<Rightarrow> jobject \<Rightarrow> jobject" where
  "buildDslCondition env config =
    (let name = trim (text_or config ''variable'' []); variable = (''variable'', JStr (if name = [] then ''deviceHost'' else name));
         operator = text_or config ''operator'' ''exists''; expected = parseConditionValue env (jget config ''expected'')
     in if operator = ''equals'' then variable # opt_member ''equals'' expected
        else if operator = ''notEquals'' then variable # opt_member ''notEquals'' expected
        else [variable, (''exists'', JBool (operator \<noteq> ''notExists''))])"

definition readHttpAuthType :: "json option \<Rightarrow> string option" where
  "readHttpAuthType v = (let t = js_string (case v of None \<Rightarrow> JStr ''none'' | Some JNull \<Rightarrow> JStr ''none'' | Some x \<Rightarrow> x)
     in if t \<in> {''none'', ''basic'', ''bearer'', ''api_key'', ''cookie'', ''custom_header'', ''mtls''} then Some t else None)"

definition slot_char :: "char \<Rightarrow> bool" where
  "slot_char c \<longleftrightarrow> ref_char c \<or> c = CHR ''-''"

text \<open>\<open>/^\{\{credentials\.[A-Za-z][A-Za-z0-9_.-]*\}\}$/\<close> on the trimmed text.\<close>

definition credential_slot :: "string \<Rightarrow> bool" where
  "credential_slot s \<longleftrightarrow> startsWith s ''{{credentials.'' \<and> endsWith s ''}}'' \<and> 17 \<le> length s
     \<and> (let slot = drop 14 (take (length s - 2) s) in is_letter (hd slot) \<and> list_all slot_char slot)"

definition isCredentialValue :: "json option \<Rightarrow> bool" where
  "isCredentialValue v \<longleftrightarrow> (case v of Some (JStr s) \<Rightarrow> credential_slot (trim s) | _ \<Rightarrow> False)"

definition readCredentialValue :: "json option \<Rightarrow> string option" where
  "readCredentialValue v = (case v of Some (JStr s) \<Rightarrow> if credential_slot (trim s) then Some (trim s) else None | _ \<Rightarrow> None)"

definition normalizeTransferDirection :: "jobject \<Rightarrow> string" where
  "normalizeTransferDirection config = (if toLowerCase (text_or config ''direction'' ''upload'') = ''download'' then ''download'' else ''upload'')"

definition readHttpMethod :: "jobject \<Rightarrow> string" where
  "readHttpMethod config = (let method = toUpperCase (text_or config ''method'' ''GET'')
     in if method \<in> {''GET'', ''POST'', ''PUT'', ''PATCH'', ''DELETE''} then method else ''GET'')"

section \<open>Stages and names\<close>

definition workflowStages :: "string list" where
  "workflowStages = [''prepare'', ''backup'', ''install'', ''refresh'', ''verify'']"

definition workflowStepTypes :: "string list" where
  "workflowStepTypes = [''http'', ''ssh'', ''browser'', ''sftp'', ''scp'', ''condition'', ''transform'', ''foreach'', ''checkpoint'', ''checkpoint_verify'',
     ''wait'', ''manual'', ''plugin.action'']"

definition defaultStageForType :: "string \<Rightarrow> string" where
  "defaultStageForType t =
    (if t \<in> {''http'', ''browser'', ''condition''} then ''prepare''
     else if t \<in> {''checkpoint'', ''checkpoint_verify''} then ''backup''
     else if t \<in> {''transform'', ''foreach''} then ''refresh''
     else if t \<in> {''sftp'', ''scp''} then ''install''
     else if t \<in> {''ssh'', ''wait''} then ''refresh''
     else if t = ''plugin.action'' then ''install''
     else if t = ''verify'' then ''verify''
     else ''backup'')"

definition getNodeStage :: "canvas_node \<Rightarrow> string" where
  "getNodeStage n = (let stage = text_or (nd_ui n) ''stage'' [] in
     if stage \<in> set workflowStages then stage else defaultStageForType (nd_type n))"

definition isWorkflowStepType :: "json option \<Rightarrow> bool" where
  "isWorkflowStepType v \<longleftrightarrow> (case v of Some (JStr t) \<Rightarrow> t \<in> set workflowStepTypes | _ \<Rightarrow> False)"

definition readImportedStep :: "canvas_node \<Rightarrow> jobject option" where
  "readImportedStep n = (case jget (nd_ui n) ''rawStep'' of
     Some (JObj m) \<Rightarrow> if typed_text m ''name'' \<noteq> None \<and> isWorkflowStepType (jget m ''type'') then Some m else None
   | _ \<Rightarrow> None)"

text \<open>The imported step when it has the given type.\<close>

definition imported_as :: "string \<Rightarrow> canvas_node \<Rightarrow> jobject option" where
  "imported_as t n = (case readImportedStep n of Some m \<Rightarrow> if jget m ''type'' = Some (JStr t) then Some m else None | None \<Rightarrow> None)"

definition buildDslStepName :: "canvas_node \<Rightarrow> nat \<Rightarrow> string" where
  "buildDslStepName n i =
    (case Option.bind (readImportedStep n) (\<lambda>m. typed_text m ''name'') of
       Some name \<Rightarrow> if name \<noteq> [] \<and> nd_label n = Some name then normalizeIdentifier name
         else normalizeIdentifier (nd_type n @ ''_'' @ int_to_string (int i + 1) @ ''_'' @ getOrElse (nd_label n) (nd_id n))
     | None \<Rightarrow> normalizeIdentifier (nd_type n @ ''_'' @ int_to_string (int i + 1) @ ''_'' @ getOrElse (nd_label n) (nd_id n)))"

definition stage_index :: "canvas_node \<Rightarrow> nat" where
  "stage_index n = length (takeWhile (\<lambda>s. s \<noteq> getNodeStage n) workflowStages)"

definition position_before :: "canvas_env \<Rightarrow> canvas_node \<Rightarrow> canvas_node \<Rightarrow> bool" where
  "position_before env l r = (let dx = getOrElse (nd_x l) 0 - getOrElse (nd_x r) 0; dy = getOrElse (nd_y l) 0 - getOrElse (nd_y r) 0 in
     if dx \<noteq> 0 then dx < 0 else if dy \<noteq> 0 then dy < 0 else cz_lt env (nd_id l) (nd_id r))"

definition node_before :: "canvas_env \<Rightarrow> canvas_node \<Rightarrow> canvas_node \<Rightarrow> bool" where
  "node_before env l r = (if stage_index l \<noteq> stage_index r then stage_index l < stage_index r else position_before env l r)"

definition sortNodesByStage :: "canvas_env \<Rightarrow> canvas_node list \<Rightarrow> canvas_node list" where
  "sortNodesByStage env = sort_by (node_before env)"

definition with_stage :: "canvas_node \<Rightarrow> canvas_node" where
  "with_stage n = n\<lparr>nd_ui := spread (nd_ui n) [(''stage'', JStr (getNodeStage n))]\<rparr>"

definition normalizeWorkflowCanvasFlow :: "canvas_env \<Rightarrow> canvas \<Rightarrow> canvas" where
  "normalizeWorkflowCanvasFlow env c = c\<lparr>cv_nodes := sortNodesByStage env (map with_stage (cv_nodes c))\<rparr>"

definition is_rollback :: "canvas_edge \<Rightarrow> bool" where
  "is_rollback e \<longleftrightarrow> ce_type e = Some ''rollback''"

definition isRollbackOnlyNode :: "canvas \<Rightarrow> string \<Rightarrow> bool" where
  "isRollbackOnlyNode c n \<longleftrightarrow> (\<exists>e \<in> set (cv_edges c). is_rollback e \<and> ce_target e = n)"

definition getExecutableDslNodes :: "canvas_env \<Rightarrow> canvas \<Rightarrow> canvas_node list" where
  "getExecutableDslNodes env c = (let normalized = normalizeWorkflowCanvasFlow env c in
     filter (\<lambda>n. \<not> isRollbackOnlyNode normalized (nd_id n)) (sortNodesByStage env (cv_nodes normalized)))"

section \<open>Steps\<close>

text \<open>A member that is set or, when the value is undefined, not there.\<close>

definition put_member :: "string \<Rightarrow> json option \<Rightarrow> jobject \<Rightarrow> jobject" where
  "put_member k v m = (case v of None \<Rightarrow> AList.delete k m | Some x \<Rightarrow> AList.update k x m)"

text \<open>\<open>{ ...imported, ...generated, k: { ...imported.k, ...generated.k }, retry, extract, assert }\<close>\<close>

definition merge_call :: "string \<Rightarrow> jobject \<Rightarrow> jobject \<Rightarrow> jobject" where
  "merge_call k imported generated =
     put_member ''assert'' (orElse (given imported ''assert'') (jget generated ''assert''))
    (put_member ''extract'' (orElse (given imported ''extract'') (jget generated ''extract''))
    (put_member ''retry'' (orElse (given generated ''retry'') (jget imported ''retry''))
    (put_member k (Some (JObj (spread (asRecord (jget imported k)) (asRecord (jget generated k))))) (spread imported generated))))"

definition mergeImportedDslStep :: "canvas_node \<Rightarrow> jobject \<Rightarrow> jobject result" where
  "mergeImportedDslStep n generated = (case readImportedStep n of None \<Rightarrow> Inr generated
   | Some imported \<Rightarrow> if jget imported ''type'' \<noteq> jget generated ''type'' then Inr generated
     else (case typed_text generated ''type'' of
         Some t \<Rightarrow> if t = ''http'' then Inr (merge_call ''request'' imported generated)
           else if t \<in> {''ssh'', ''sftp'', ''scp''} then Inr (merge_call t imported generated)
           else if t = ''condition''
           then Inr (put_member t (Some (JObj (spread (asRecord (jget imported t)) (asRecord (jget generated t))))) (spread imported generated))
           else if t = ''transform''
           then (if given imported t = None then Inl (PlainError ''TypeError'')
             else (let old = asRecord (jget imported t); new = asRecord (jget generated t);
                       outputs = spread (asRecord (jget old ''outputs'')) (asRecord (jget new ''outputs''))
               in Inr (put_member t (Some (JObj (put_member ''outputs'' (Some (JObj outputs)) (spread old new)))) (spread imported generated))))
           else Inr (spread imported generated)
       | None \<Rightarrow> Inr (spread imported generated)))"

definition buildHttpRequestAuth :: "jobject \<Rightarrow> jobject option" where
  "buildHttpRequestAuth config =
    (let authType = getOrElse (readHttpAuthType (jget config ''authType'')) ''none''; credential = readCredentialValue (jget config ''authCredential'');
         kind = (''type'', JStr authType); text = (\<lambda>k. JStr (text_or config k [])); blank = (\<lambda>k. isBlank (jget config k)) in
     if authType = ''none'' then Some [kind]
     else if authType = ''basic'' then
       (if credential = None \<or> blank ''authUsername'' then None
        else Some [kind, (''username'', text ''authUsername''), (''credential'', JStr (the credential))])
     else if authType = ''bearer'' then map_option (\<lambda>c. [kind, (''credential'', JStr c)]) credential
     else if authType = ''api_key'' then
       (if credential = None \<or> blank ''authApiKeyName'' then None
        else Some [kind, (''credential'', JStr (the credential)), (''name'', text ''authApiKeyName''),
          (''in'', JStr (if text_or config ''authApiKeyIn'' ''header'' = ''query'' then ''query'' else ''header''))])
     else if authType = ''cookie'' then
       (if blank ''authSecretValue'' then None
        else Some ([kind, (''secretRef'', text ''authSecretValue'')] @ unless_blank config ''authCookieName'' ''name''))
     else if authType = ''custom_header'' then
       (if blank ''authSecretValue'' \<or> blank ''authHeaderName'' then None
        else Some [kind, (''secretRef'', text ''authSecretValue''), (''headerName'', text ''authHeaderName'')])
     else if blank ''authCertSecretRef'' \<or> blank ''authKeySecretRef'' then None
     else Some [kind, (''certSecretRef'', text ''authCertSecretRef''), (''keySecretRef'', text ''authKeySecretRef'')])"

definition step_head :: "string \<Rightarrow> string \<Rightarrow> canvas_node \<Rightarrow> jobject" where
  "step_head name t n = [(''name'', JStr name), (''type'', JStr t), (''stage'', JStr (getNodeStage n))]"

text \<open>The request of an HTTP step; \<open>url\<close> is what the node says.\<close>

definition http_request_json :: "canvas_env \<Rightarrow> jobject \<Rightarrow> string \<Rightarrow> jobject" where
  "http_request_json env config url = [(''method'', JStr (readHttpMethod config)), (''url'', JStr url), (''connectionRef'', JStr (text_or config ''connectionRef'' []))]
     @ unless_blank config ''cookieSessionRef'' ''cookieSessionRef''
     @ opt_member ''auth'' (map_option JObj (buildHttpRequestAuth config))
     @ (if isBlank (jget config ''body'') then [] else opt_member ''body'' (parseLooseJson env (text_or config ''body'' [])))
     @ [(''timeoutSeconds'', number_or env config ''timeoutSeconds'' (JNum 30))]"

definition http_step_json :: "canvas_env \<Rightarrow> canvas_node \<Rightarrow> string \<Rightarrow> jobject" where
  "http_step_json env n name = step_head name ''http'' n
     @ [(''request'', JObj (http_request_json env (nd_config n) (text_or (nd_config n) ''url'' ''{{verifyUrl}}''))),
        (''extract'', JArr [JObj [(''name'', JStr (name @ ''_status'')), (''type'', JStr ''statusCode''), (''optional'', JBool True)]]),
        (''assert'', JArr [JObj [(''type'', JStr ''statusCode''), (''equals'', JNum 200)]])]"

definition browser_step_json :: "canvas_env \<Rightarrow> canvas_node \<Rightarrow> string \<Rightarrow> jobject result" where
  "browser_step_json env n name = (let config = nd_config n; action = text_or config ''action'' ''navigate'' in
     if action \<notin> {''navigate'', ''extract'', ''verify''} then Inl (AppError ''VALIDATION_FAILED'')
     else case (if isBlank (jget config ''extractions'') then Inr [] else map_sum id (\<lambda>v. [(''extractions'', v)]) (parseBrowserExtractions env (jget config ''extractions''))) of
       Inl e \<Rightarrow> Inl e
     | Inr extractions \<Rightarrow>
       (case (if isBlank (jget config ''verification'') then Inr [] else map_sum id (\<lambda>v. [(''verification'', v)]) (parseBrowserVerification env (jget config ''verification''))) of
         Inl e \<Rightarrow> Inl e
       | Inr verification \<Rightarrow> Inr (step_head name ''browser'' n
           @ [(''browser'', JObj ((''action'', JStr action) # unless_blank config ''url'' ''url'' @ extractions @ verification))])))"

definition ssh_step_json :: "canvas_env \<Rightarrow> canvas_node \<Rightarrow> string \<Rightarrow> jobject" where
  "ssh_step_json env n name = (let config = nd_config n;
       generated = step_head name ''ssh'' n @ [(''ssh'', JObj [(''connectionRef'', JStr (text_or config ''connectionRef'' [])),
           (''program'', JStr (text_or config ''program'' [])), (''args'', JArr (map (\<lambda>v. JStr (js_string v)) (array_member config ''args''))),
           (''argumentTemplate'', JStr (text_or config ''argumentTemplate'' [])), (''timeoutSeconds'', number_or env config ''timeoutSeconds'' (JNum 60))]),
         (''assert'', JArr [JObj [(''type'', JStr ''regex''), (''pattern'', JStr ''.*'')]])]
     in case imported_as ''ssh'' n of None \<Rightarrow> generated
      | Some imported \<Rightarrow> put_member ''assert'' (jget imported ''assert'') (put_member ''extract'' (jget imported ''extract'') (put_member ''retry'' (jget imported ''retry'') generated)))"

definition buildFileTransferDslStep :: "canvas_env \<Rightarrow> canvas_node \<Rightarrow> string \<Rightarrow> string \<Rightarrow> jobject" where
  "buildFileTransferDslStep env n name protocol = (let config = nd_config n in
     [(''name'', JStr name), (''stage'', JStr (getNodeStage n)),
      (''extract'', JArr [JObj [(''name'', JStr (name @ ''_hash'')), (''type'', JStr ''jsonPath''), (''path'', JStr ''$.transferResults[0].hash''), (''optional'', JBool True)]]),
      (''type'', JStr protocol),
      (protocol, JObj ([(''direction'', JStr (normalizeTransferDirection config)), (''connectionRef'', JStr (text_or config ''connectionRef'' [])),
          (''remotePath'', JStr (text_or config ''remotePath'' ''/tmp/cert.pem''))]
        @ unless_blank config ''temporaryPath'' ''temporaryPath'' @ unless_blank config ''contentRef'' ''contentRef''
        @ unless_blank config ''localPath'' ''localPath'' @ unless_blank config ''mode'' ''mode''
        @ [(''timeoutSeconds'', number_or env config ''timeoutSeconds'' (JNum 60))]))])"

definition verify_step_json :: "canvas_env \<Rightarrow> canvas_node \<Rightarrow> string \<Rightarrow> jobject" where
  "verify_step_json env n name = (let config = nd_config n in
     if text_or config ''verifyType'' ''httpStatus'' = ''httpStatus''
     then step_head name ''http'' n
       @ [(''request'', JObj (http_request_json env config (js_string (getOrElse (orElse (given config ''url'') (given config ''inputRef'')) (JStr ''{{verifyUrl}}''))))),
          (''assert'', JArr [JObj [(''type'', JStr ''statusCode''), (''equals'', number_or env config ''expected'' (JNum 200))]])]
     else step_head name ''manual'' n
       @ [(''instruction'', JStr (''verify '' @ text_or config ''inputRef'' [] @ '' matches '' @ text_or config ''expected'' []))])"

definition transform_step_json :: "canvas_env \<Rightarrow> canvas_node \<Rightarrow> string \<Rightarrow> jobject" where
  "transform_step_json env n name = (let config = nd_config n in step_head name ''transform'' n
     @ [(''transform'', JObj ((''engine'', JStr ''jsonata'') # opt_member ''input'' (parseLooseJson env (text_or config ''input'' ''{}''))
         @ [(''outputs'', JObj [(text_or config ''outputName'' ''value'', JObj [(''expression'', JStr (text_or config ''expression'' ''$'')),
              (''format'', JStr (if text_or config ''format'' ''raw'' = ''jsonString'' then ''jsonString'' else ''raw''))])]),
            (''timeoutMs'', number_or env config ''timeoutMs'' (JNum 200)), (''maxInputBytes'', number_or env config ''maxInputBytes'' (JNum 262144)),
            (''maxOutputBytes'', number_or env config ''maxOutputBytes'' (JNum 262144))]))])"

definition foreach_step_json :: "canvas_env \<Rightarrow> canvas_node \<Rightarrow> string \<Rightarrow> jobject result" where
  "foreach_step_json env n name = (let config = nd_config n in
     map_sum id (\<lambda>steps. step_head name ''foreach'' n
       @ [(''foreach'', JObj ([(''itemsPath'', JStr (text_or config ''itemsPath'' [])), (''itemVariable'', JStr (text_or config ''itemVariable'' []))]
           @ unless_blank config ''indexVariable'' ''indexVariable''
           @ [(''maxItems'', number_or env config ''maxItems'' (JNum 100)), (''continueOnError'', JBool (jget config ''continueOnError'' = Some (JBool True))), (''steps'', steps)]))])
       (readForeachSteps env (jget config ''steps'')))"

definition checkpoint_step_json :: "canvas_env \<Rightarrow> canvas_node \<Rightarrow> string \<Rightarrow> jobject result" where
  "checkpoint_step_json env n name = (let config = nd_config n in
     case parseLooseJson env (text_or config ''capture'' ''{}'') of
       Some (JObj capture) \<Rightarrow> Inr (step_head name ''checkpoint'' n
         @ [(''checkpoint'', JObj [(''name'', JStr (text_or config ''checkpointName'' [])), (''capture'', JObj capture), (''normalizedHash'', JBool True),
              (''requiredForRollback'', JBool (text_or config ''requiredForRollback'' ''true'' \<noteq> ''false''))])])
     | _ \<Rightarrow> Inl (AppError ''VALIDATION_FAILED''))"

definition plugin_step_json :: "canvas_env \<Rightarrow> canvas_node \<Rightarrow> string \<Rightarrow> jobject" where
  "plugin_step_json env n name = (let config = nd_config n; text = (\<lambda>k. (k, JStr (text_or config k []))) in step_head name ''plugin.action'' n
     @ [text ''pluginId'', text ''capability'', text ''actionId'', (''actionContractVersion'', JStr (text_or config ''actionContractVersion'' ''v1''))]
     @ opt_member ''input'' (parseLooseJson env (text_or config ''input'' ''{}''))
     @ [text ''inputSchemaSha256'', text ''outputSchemaSha256'', (''timeoutSeconds'', number_or env config ''timeoutSeconds'' (JNum 30)),
        (''writeEffect'', JBool (jget config ''writeEffect'' = Some (JBool True) \<or> toLowerCase (text_or config ''writeEffect'' []) = ''true'')),
        (''idempotencyKeyRef'', JStr (text_or config ''idempotencyKeyRef'' ''{{variables.idempotencyKey}}''))])"

definition nodeToDslStep :: "canvas_env \<Rightarrow> canvas_node \<Rightarrow> nat \<Rightarrow> jobject result" where
  "nodeToDslStep env n i = (let config = nd_config n; t = nd_type n; name = buildDslStepName n i; merged = (\<lambda>r. case r of Inl e \<Rightarrow> Inl e | Inr g \<Rightarrow> mergeImportedDslStep n g) in
     if t = ''http'' then mergeImportedDslStep n (http_step_json env n name)
     else if t = ''browser'' then merged (browser_step_json env n name)
     else if t = ''ssh'' then Inr (ssh_step_json env n name)
     else if t \<in> {''sftp'', ''scp''} then mergeImportedDslStep n (buildFileTransferDslStep env n name t)
     else if t = ''verify'' then mergeImportedDslStep n (verify_step_json env n name)
     else if t = ''condition'' then mergeImportedDslStep n (step_head name t n
         @ [(''condition'', JObj (buildDslCondition env config)), (''description'', JStr (text_or config ''description'' []))])
     else if t = ''transform'' then (if imported_as t n = None then Inr (transform_step_json env n name) else mergeImportedDslStep n (transform_step_json env n name))
     else if t = ''checkpoint_verify'' then mergeImportedDslStep n (step_head name t n
         @ [(''checkpointVerify'', JObj [(''valuePath'', JStr (text_or config ''valuePath'' [])), (''expectedHash'', JStr (text_or config ''expectedHash'' []))])])
     else if t = ''foreach'' then merged (foreach_step_json env n name)
     else if t = ''checkpoint'' then merged (checkpoint_step_json env n name)
     else if t = ''plugin.action'' then Inr (case imported_as t n of None \<Rightarrow> plugin_step_json env n name | Some imported \<Rightarrow> spread imported (plugin_step_json env n name))
     else if t = ''wait'' then mergeImportedDslStep n (step_head name t n @ [(''seconds'', number_or env config ''seconds'' (JNum 10))])
     else mergeImportedDslStep n (step_head name ''manual'' n @ [(''instruction'', JStr (text_or config ''instruction'' ''confirm by hand''))]))"

fun nodes_to_steps :: "canvas_env \<Rightarrow> nat \<Rightarrow> canvas_node list \<Rightarrow> json list result" where
  "nodes_to_steps env i [] = Inr []"
| "nodes_to_steps env i (n # ns) = (case nodeToDslStep env n i of Inl e \<Rightarrow> Inl e
     | Inr s \<Rightarrow> map_sum id (Cons (JObj s)) (nodes_to_steps env (Suc i) ns))"

definition manual_rollback :: json where
  "manual_rollback = JObj [(''name'', JStr ''manual_rollback''), (''type'', JStr ''manual''), (''instruction'', JStr ''return to the last stable certificate'')]"

definition resolveRollbackSteps :: "canvas_env \<Rightarrow> canvas \<Rightarrow> json list result" where
  "resolveRollbackSteps env c = (case array_member (cv_draftState c) ''importedRollback'' of
     x # xs \<Rightarrow> Inr (x # xs)
   | [] \<Rightarrow> map_sum id (\<lambda>steps. if steps = [] then [manual_rollback] else steps)
       (nodes_to_steps env 0 (filter (\<lambda>n. isRollbackOnlyNode c (nd_id n)) (cv_nodes c))))"

record compiled_canvas =
  cq_content :: json
  cq_issues :: "canvas_issue list"
  cq_stepNames :: jobject

text \<open>The content and the names of the steps by node.\<close>

definition workflowCanvasToDsl :: "canvas_env \<Rightarrow> canvas \<Rightarrow> (json \<times> jobject) result" where
  "workflowCanvasToDsl env c = (let normalized = normalizeWorkflowCanvasFlow env c; ordered = getExecutableDslNodes env normalized;
       stepNames = spread [] (map (\<lambda>(i, n). (nd_id n, JStr (buildDslStepName n i))) (enumerate 0 ordered))
     in case nodes_to_steps env 0 ordered of Inl e \<Rightarrow> Inl e
      | Inr steps \<Rightarrow> map_sum id (\<lambda>rollback.
          (JObj ([(''apiVersion'', JStr ''gcac.workflow/v1''), (''kind'', JStr ''CurlSshWorkflow''),
             (''metadata'', JObj (spread (cv_metadata c) [(''name'', JStr (normalizeIdentifier (text_or (cv_metadata c) ''name'' ''workflow-canvas-draft''))),
                (''tags'', JArr (array_member (cv_metadata c) ''tags''))]))]
             @ opt_member ''inputContract'' (cv_inputContract c) @ [(''steps'', JArr steps), (''rollback'', JArr rollback)]), stepNames))
          (resolveRollbackSteps env normalized))"

section \<open>Checking a drawing\<close>

definition canvasIssue :: "string \<Rightarrow> string \<Rightarrow> canvas_issue" where
  "canvasIssue i severity = \<lparr>vi_id = i, vi_severity = severity, vi_targetType = ''canvas'', vi_nodeId = None, vi_edgeId = None, vi_field = None\<rparr>"

definition fieldIssue :: "canvas_node \<Rightarrow> string \<Rightarrow> canvas_issue" where
  "fieldIssue n field = \<lparr>vi_id = nd_id n @ '':'' @ field, vi_severity = ''error'', vi_targetType = ''field'', vi_nodeId = Some (nd_id n), vi_edgeId = None, vi_field = Some field\<rparr>"

definition edgeIssue :: "string \<Rightarrow> canvas_issue" where
  "edgeIssue i = \<lparr>vi_id = i, vi_severity = ''error'', vi_targetType = ''edge'', vi_nodeId = None, vi_edgeId = Some i, vi_field = None\<rparr>"

definition requiredFieldsForType :: "string \<Rightarrow> string list" where
  "requiredFieldsForType t =
    (if t = ''http'' then [''method'', ''url'', ''connectionRef'', ''timeoutSeconds'']
     else if t = ''browser'' then [''action'']
     else if t = ''ssh'' then [''connectionRef'', ''program'', ''args'', ''argumentTemplate'', ''timeoutSeconds'']
     else if t \<in> {''sftp'', ''scp''} then [''direction'', ''connectionRef'', ''remotePath'', ''timeoutSeconds'']
     else if t = ''verify'' then [''verifyType'', ''inputRef'', ''expected'', ''timeoutSeconds'']
     else if t = ''condition'' then [''variable'', ''operator'']
     else if t = ''foreach'' then [''itemsPath'', ''itemVariable'', ''maxItems'', ''continueOnError'', ''steps'']
     else if t = ''checkpoint'' then [''checkpointName'', ''capture'', ''requiredForRollback'']
     else if t = ''checkpoint_verify'' then [''valuePath'', ''expectedHash'']
     else if t = ''plugin.action'' then [''pluginId'', ''capability'', ''actionId'', ''actionContractVersion'', ''input'', ''inputSchemaSha256'', ''outputSchemaSha256'',
       ''timeoutSeconds'', ''writeEffect'', ''idempotencyKeyRef'']
     else if t = ''wait'' then [''seconds'']
     else if t = ''manual'' then [''instruction'']
     else [])"

definition issue_if :: "bool \<Rightarrow> canvas_issue \<Rightarrow> canvas_issue list" where
  "issue_if b i = (if b then [i] else [])"

definition validateHttpNodeConfig :: "canvas_node \<Rightarrow> canvas_issue list" where
  "validateHttpNodeConfig n =
    (let config = nd_config n; blank = (\<lambda>k. issue_if (isBlank (jget config k)) (fieldIssue n k));
         credential = issue_if (\<not> isCredentialValue (jget config ''authCredential'')) (fieldIssue n ''authCredential'') in
     case readHttpAuthType (jget config ''authType'') of None \<Rightarrow> [fieldIssue n ''authType'']
     | Some t \<Rightarrow>
       if t = ''none'' then []
       else if t = ''basic'' then blank ''authUsername'' @ credential
       else if t = ''bearer'' then credential
       else if t = ''api_key'' then credential @ blank ''authApiKeyName''
         @ issue_if (text_or config ''authApiKeyIn'' ''header'' \<notin> {''header'', ''query''}) (fieldIssue n ''authApiKeyIn'')
       else if t = ''cookie'' then blank ''authSecretValue''
       else if t = ''custom_header'' then blank ''authSecretValue'' @ blank ''authHeaderName''
       else blank ''authCertSecretRef'' @ blank ''authKeySecretRef'')"

definition missing_field :: "jobject \<Rightarrow> string \<Rightarrow> bool" where
  "missing_field config field \<longleftrightarrow> \<not> (field = ''args'' \<and> (\<exists>xs \<in> set_option (jget config field). case xs of JArr ys \<Rightarrow> True | _ \<Rightarrow> False))
     \<and> isBlank (jget config field)"

definition validateRequiredConfig :: "canvas_node \<Rightarrow> canvas_issue list" where
  "validateRequiredConfig n = map (fieldIssue n) (filter (missing_field (nd_config n)) (requiredFieldsForType (nd_type n)))
     @ (if nd_type n = ''http'' then validateHttpNodeConfig n else [])"

text \<open>\<open>/-----BEGIN [A-Z ]*PRIVATE KEY-----|password\s*[:=]\s*[^{}\s]+|token\s*[:=]\s*[^{}\s]+|api[_-]?key\s*[:=]\s*[^{}\s]+/i\<close>, on a text in lower case.\<close>

definition assigned_value_at :: "string \<Rightarrow> bool" where
  "assigned_value_at s \<longleftrightarrow> (let r = dropWhile is_ws s in r \<noteq> [] \<and> hd r \<in> set '':='' \<and>
     (let v = dropWhile is_ws (drop 1 r) in v \<noteq> [] \<and> hd v \<noteq> CHR ''{'' \<and> hd v \<noteq> CHR ''}''))"

definition plain_secret_at :: "string \<Rightarrow> bool" where
  "plain_secret_at s \<longleftrightarrow> key_header_at s
     \<or> (\<exists>w \<in> set [''password'', ''token'', ''apikey'', ''api_key'', ''api-key'']. startsWith s w \<and> assigned_value_at (drop (length w) s))"

definition isSecretRef :: "string \<Rightarrow> bool" where
  "isSecretRef s \<longleftrightarrow> startsWith s ''secret://'' \<and> drop 9 s \<noteq> [] \<and> list_all secret_ref_char (drop 9 s)"

definition containsPlainSecret :: "json \<Rightarrow> bool" where
  "containsPlainSecret v \<longleftrightarrow> (case v of
     JStr s \<Rightarrow> \<not> str_includes s ''{{'' \<and> \<not> isSecretRef s \<and> (\<exists>i \<in> set [0..<length s]. plain_secret_at (drop i (toLowerCase s)))
   | _ \<Rightarrow> False)"

definition timeout_ok :: "canvas_env \<Rightarrow> jobject \<Rightarrow> bool" where
  "timeout_ok env config \<longleftrightarrow> (case orElse (given config ''timeoutSeconds'') (jget config ''seconds'') of None \<Rightarrow> False
     | Some v \<Rightarrow> (case cz_number env v of Some i \<Rightarrow> 0 < i | None \<Rightarrow> False))"

definition node_issues :: "canvas_env \<Rightarrow> canvas_node \<Rightarrow> canvas_issue list" where
  "node_issues env n = validateRequiredConfig n
     @ map (fieldIssue n \<circ> fst) (filter (\<lambda>(k, v). containsPlainSecret v) (nd_config n))
     @ issue_if (nd_type n \<in> {''http'', ''ssh'', ''sftp'', ''scp'', ''verify''} \<and> \<not> timeout_ok env (nd_config n)) (fieldIssue n ''timeoutSeconds'')"

definition edge_issues :: "string list \<Rightarrow> canvas_edge \<Rightarrow> canvas_issue list" where
  "edge_issues nodeIds e = (let i = getOrElse (ce_id e) (ce_source e @ '':'' @ ce_target e) in
     issue_if (ce_source e \<notin> set nodeIds \<or> ce_target e \<notin> set nodeIds) (edgeIssue i) @ issue_if (ce_source e = ce_target e) (edgeIssue i))"

text \<open>The search for a cycle: the identifiers visited when there is none, None when a node is found again on the way to itself.\<close>

definition next_nodes :: "canvas_edge list \<Rightarrow> string \<Rightarrow> string list" where
  "next_nodes edges n = map ce_target (filter (\<lambda>e. ce_source e = n \<and> \<not> is_rollback e) edges)"

function visit_node :: "canvas_edge list \<Rightarrow> string list \<Rightarrow> string list \<Rightarrow> string \<Rightarrow> string list option"
  and visit_targets :: "canvas_edge list \<Rightarrow> string list \<Rightarrow> string list \<Rightarrow> string list \<Rightarrow> string list option" where
  "visit_node edges visiting visited n =
    (if n \<in> set visiting then None else if n \<in> set visited then Some visited
     else map_option (Cons n) (visit_targets edges (n # visiting) visited (next_nodes edges n)))"
| "visit_targets edges visiting visited [] = Some visited"
| "visit_targets edges visiting visited (d # ds) = (case visit_node edges visiting visited d of
     None \<Rightarrow> None | Some visited' \<Rightarrow> visit_targets edges visiting visited' ds)"
  by pat_completeness auto
termination
proof (relation "(\<lambda>x. case x of
    Inl (edges, visiting, visited, n) \<Rightarrow> card (ce_source ` set edges - set visiting)
  | Inr (edges, visiting, visited, ds) \<Rightarrow> card (ce_source ` set edges - set visiting)) <*mlex*>
    measure (\<lambda>x. case x of Inl _ \<Rightarrow> 1 | Inr (edges, visiting, visited, ds) \<Rightarrow> 2 * length ds)", goal_cases)
  case 1
  then show ?case by (simp add: wf_mlex)
next
  case (2 edges visiting visited n)
  let ?s = "ce_source ` set edges"
  show ?case
  proof (cases "n \<in> ?s")
    case True
    then have "?s - set (n # visiting) \<subset> ?s - set visiting" using 2 by auto
    then show ?thesis by (simp add: mlex_prod_def psubset_card_mono)
  next
    case False
    then have "?s - set (n # visiting) = ?s - set visiting" by auto
    moreover have "next_nodes edges n = []" using False by (force simp: next_nodes_def filter_empty_conv)
    ultimately show ?thesis by (simp add: mlex_prod_def)
  qed
next
  case 3
  then show ?case by (simp add: mlex_prod_def)
next
  case 4
  then show ?case by (simp add: mlex_prod_def)
qed

declare visit_node.simps [simp del]

fun cycle_from :: "canvas_edge list \<Rightarrow> string list \<Rightarrow> canvas_node list \<Rightarrow> bool" where
  "cycle_from edges visited [] = False"
| "cycle_from edges visited (n # ns) = (case visit_node edges [] visited (nd_id n) of None \<Rightarrow> True | Some visited' \<Rightarrow> cycle_from edges visited' ns)"

definition hasCycle :: "canvas_node list \<Rightarrow> canvas_edge list \<Rightarrow> bool" where
  "hasCycle nodes edges = cycle_from edges [] nodes"

definition requiredNodeTypes :: "string list" where
  "requiredNodeTypes = [''http'', ''ssh'', ''sftp'', ''verify'']"

definition validateWorkflowCanvas :: "canvas_env \<Rightarrow> canvas \<Rightarrow> canvas_issue list" where
  "validateWorkflowCanvas env c =
     issue_if (cv_legacy c) (canvasIssue ''legacy-input-contract'' ''error'')
   @ (case cv_inputContract c of None \<Rightarrow> [canvasIssue ''input-contract-required'' ''error'']
      | Some v \<Rightarrow> issue_if (isl (cz_contract env v)) (canvasIssue ''input-contract-invalid'' ''error''))
   @ issue_if (cv_nodes c = []) (canvasIssue ''empty-canvas'' ''error'')
   @ concat (map (node_issues env) (cv_nodes c))
   @ concat (map (edge_issues (map nd_id (cv_nodes c))) (cv_edges c))
   @ issue_if (hasCycle (cv_nodes c) (cv_edges c)) (canvasIssue ''graph-cycle'' ''error'')
   @ map (\<lambda>t. canvasIssue (''missing-'' @ t) ''warning'') (filter (\<lambda>t. \<not> (\<exists>n \<in> set (cv_nodes c). nd_type n = t)) requiredNodeTypes)"

definition validateWorkflowCanvasInput :: "canvas_env \<Rightarrow> json \<Rightarrow> canvas_issue list result" where
  "validateWorkflowCanvasInput env inp = map_sum id (validateWorkflowCanvas env) (readCanvas inp)"

definition compileWorkflowCanvas :: "canvas_env \<Rightarrow> json \<Rightarrow> compiled_canvas result" where
  "compileWorkflowCanvas env inp = (case readCanvas inp of Inl e \<Rightarrow> Inl e | Inr c \<Rightarrow>
     (let issues = validateWorkflowCanvas env c in
      if \<exists>i \<in> set issues. vi_severity i = ''error'' then Inl (AppError ''VALIDATION_FAILED'')
      else (case workflowCanvasToDsl env c of Inl e \<Rightarrow> Inl e
        | Inr (content, stepNames) \<Rightarrow> map_sum id (\<lambda>content. \<lparr>cq_content = content, cq_issues = issues, cq_stepNames = stepNames\<rparr>) (cz_validate env content))))"

end
