(* ===== verification/WorkflowGraphs.thy ===== *)
theory WorkflowGraphs
  imports WorkflowCanvas
begin

text \<open>Properties of the graph editor: the cycle check, what the edges of a drawing decide, and the compiled steps.\<close>

section \<open>The cycle check is exact\<close>

definition flow :: "canvas_edge list \<Rightarrow> (string \<times> string) set" where
  "flow edges = {(ce_source e, ce_target e) | e. e \<in> set edges \<and> \<not> is_rollback e}"

lemma flow_next: "flow edges = {(a, b). b \<in> set (next_nodes edges a)}"
  by (auto simp: flow_def next_nodes_def)

definition reaches_cycle :: "canvas_edge list \<Rightarrow> string \<Rightarrow> bool" where
  "reaches_cycle edges n \<longleftrightarrow> (\<exists>m. (n, m) \<in> (flow edges)\<^sup>* \<and> (m, m) \<in> (flow edges)\<^sup>+)"

lemma reaches_cycle_step: "(n, d) \<in> flow edges \<Longrightarrow> reaches_cycle edges d \<Longrightarrow> reaches_cycle edges n"
  unfolding reaches_cycle_def by (meson converse_rtrancl_into_rtrancl)

lemma reaches_cycle_split: "reaches_cycle edges n \<Longrightarrow> \<exists>d \<in> set (next_nodes edges n). reaches_cycle edges d"
proof -
  assume "reaches_cycle edges n"
  then obtain m where m: "(n, m) \<in> (flow edges)\<^sup>*" "(m, m) \<in> (flow edges)\<^sup>+" by (auto simp: reaches_cycle_def)
  from m(1) show ?thesis
  proof (cases rule: converse_rtranclE)
    case base
    then obtain d where "(n, d) \<in> flow edges" "(d, m) \<in> (flow edges)\<^sup>*" using m(2) by (meson tranclD)
    then show ?thesis using m(2) by (auto simp: reaches_cycle_def flow_next)
  next
    case (step d)
    then show ?thesis using m(2) by (auto simp: reaches_cycle_def flow_next)
  qed
qed

lemma visit_calm:
  "visit_node edges visiting visited n = Some v \<Longrightarrow> \<forall>m \<in> set visited. \<not> reaches_cycle edges m
    \<Longrightarrow> n \<in> set v \<and> set visited \<subseteq> set v \<and> (\<forall>m \<in> set v. \<not> reaches_cycle edges m)"
  "visit_targets edges visiting visited ds = Some v \<Longrightarrow> \<forall>m \<in> set visited. \<not> reaches_cycle edges m
    \<Longrightarrow> set ds \<subseteq> set v \<and> set visited \<subseteq> set v \<and> (\<forall>m \<in> set v. \<not> reaches_cycle edges m)"
proof (induction edges visiting visited n and edges visiting visited ds arbitrary: v and v rule: visit_node_visit_targets.induct)
  case (1 edges visiting visited n)
  show ?case
  proof (cases "n \<in> set visited")
    case True
    then show ?thesis using 1(2,3) by (simp add: visit_node.simps split: if_splits)
  next
    case False
    then obtain v' where s: "n \<notin> set visiting" "visit_targets edges (n # visiting) visited (next_nodes edges n) = Some v'" "v = n # v'"
      using 1(2) by (subst (asm) visit_node.simps) (auto split: if_splits)
    have rest: "set (next_nodes edges n) \<subseteq> set v' \<and> set visited \<subseteq> set v' \<and> (\<forall>m \<in> set v'. \<not> reaches_cycle edges m)"
      using 1(1) [OF s(1) False s(2) 1(3)] .
    then have "\<not> reaches_cycle edges n" using reaches_cycle_split by blast
    then show ?thesis using rest s(3) by auto
  qed
next
  case (3 edges visiting visited d ds)
  then obtain v' where v': "visit_node edges visiting visited d = Some v'" "visit_targets edges visiting v' ds = Some v" by (auto split: option.splits)
  then show ?case using 3(1) [OF v'(1)] 3(2) [OF v'(1,2)] 3(4) by auto
qed auto

lemma visit_cyclic:
  "visit_node edges visiting visited n = None \<Longrightarrow> \<forall>m \<in> set visiting. (m, n) \<in> (flow edges)\<^sup>+ \<Longrightarrow> reaches_cycle edges n"
  "visit_targets edges visiting visited ds = None \<Longrightarrow> \<forall>d \<in> set ds. \<forall>m \<in> set visiting. (m, d) \<in> (flow edges)\<^sup>+
    \<Longrightarrow> \<exists>d \<in> set ds. reaches_cycle edges d"
proof (induction edges visiting visited n and edges visiting visited ds rule: visit_node_visit_targets.induct)
  case (1 edges visiting visited n)
  show ?case
  proof (cases "n \<in> set visiting")
    case True
    then show ?thesis using 1(3) by (auto simp: reaches_cycle_def)
  next
    case False
    then have s: "n \<notin> set visited" "visit_targets edges (n # visiting) visited (next_nodes edges n) = None"
      using 1(2) by (subst (asm) visit_node.simps, auto split: if_splits)+
    have edge: "(n, d) \<in> flow edges" if "d \<in> set (next_nodes edges n)" for d using that by (simp add: flow_next)
    then have "\<forall>d \<in> set (next_nodes edges n). \<forall>m \<in> set (n # visiting). (m, d) \<in> (flow edges)\<^sup>+" using 1(3) by (auto intro: trancl_into_trancl)
    from 1(1) [OF False s this] show ?thesis using edge reaches_cycle_step by blast
  qed
next
  case (3 edges visiting visited d ds)
  show ?case
  proof (cases "visit_node edges visiting visited d")
    case None
    then show ?thesis using 3(1,4) by auto
  next
    case (Some v)
    then show ?thesis using 3(2) [OF Some] 3(3,4) by auto
  qed
qed simp

lemma cycle_from_iff:
  "\<forall>m \<in> set visited. \<not> reaches_cycle edges m \<Longrightarrow> cycle_from edges visited nodes \<longleftrightarrow> (\<exists>n \<in> set nodes. reaches_cycle edges (nd_id n))"
proof (induction nodes arbitrary: visited)
  case (Cons n nodes)
  show ?case
  proof (cases "visit_node edges [] visited (nd_id n)")
    case None
    then show ?thesis using visit_cyclic(1) [OF None] by auto
  next
    case (Some v)
    then show ?thesis using visit_calm(1) [OF Some Cons.prems] Cons.IH [of v] by auto
  qed
qed simp

text \<open>C20. The cycle check is exact: a drawing is reported as cyclic exactly when a path that leaves out rollback edges leads from one
  of its nodes into a cycle.\<close>

theorem canvas_cycle_exact:
  "hasCycle nodes edges \<longleftrightarrow> (\<exists>n m. n \<in> nd_id ` set nodes \<and> (n, m) \<in> (flow edges)\<^sup>* \<and> (m, m) \<in> (flow edges)\<^sup>+)"
  using cycle_from_iff [of "[]" edges nodes] by (auto simp: hasCycle_def reaches_cycle_def)

section \<open>What the edges decide\<close>

definition rollback_targets :: "canvas_edge list \<Rightarrow> string set" where
  "rollback_targets edges = ce_target ` set (filter is_rollback edges)"

lemma rollback_only_iff: "isRollbackOnlyNode c n \<longleftrightarrow> n \<in> rollback_targets (cv_edges c)"
  by (auto simp: isRollbackOnlyNode_def rollback_targets_def)

text \<open>C21. The compiled workflow does not depend on the edges a user draws between steps: two drawings with the same nodes and the same targets of rollback
  edges compile to the same content. Edges of the types success, failure and always change neither the order of the steps nor
  the condition under which a step runs, so the target of a failure edge runs when everything succeeds.\<close>

theorem compile_ignores_flow:
  assumes "rollback_targets es = rollback_targets (cv_edges c)"
  shows "workflowCanvasToDsl env (c\<lparr>cv_edges := es\<rparr>) = workflowCanvasToDsl env c"
  by (simp add: workflowCanvasToDsl_def getExecutableDslNodes_def normalizeWorkflowCanvasFlow_def resolveRollbackSteps_def rollback_only_iff assms Let_def
      cong: sum.case_cong list.case_cong)

section \<open>The steps of a drawing\<close>

text \<open>A step keeps its name, type and stage when it is merged with an imported step of its type.\<close>

lemma jget_put_member: "jget (put_member k v m) k' = (if k' = k then v else jget m k')"
  by (auto simp: put_member_def jget_def update_conv' delete_conv' split: option.split)

lemma jget_merge_call:
  "distinct (map fst generated) \<Longrightarrow> k' \<notin> {''assert'', ''extract'', ''retry'', k} \<Longrightarrow>
   jget (merge_call k imported generated) k' = orElse (jget generated k') (jget imported k')"
  by (simp add: merge_call_def jget_put_member jget_spread_distinct)

lemma merged_member:
  assumes "mergeImportedDslStep n generated = Inr s" and "distinct (map fst generated)" and "jget generated ''type'' = Some (JStr t)"
    and "k \<in> {''name'', ''stage'', ''type''}" and "jget generated k = Some v"
  shows "jget s k = Some v"
proof (cases "readImportedStep n")
  case None
  then show ?thesis using assms(1,5) by (simp add: mergeImportedDslStep_def)
next
  case (Some imported)
  have "k \<notin> {''assert'', ''extract'', ''retry'', ''request'', ''ssh'', ''sftp'', ''scp'', ''condition'', ''transform''}" using assms(4) by auto
  then show ?thesis using assms(1,2,3,5) Some
    by (auto simp: mergeImportedDslStep_def typed_text_def jget_merge_call jget_put_member jget_spread_distinct Let_def split: if_splits)
qed

definition step_of_node :: "canvas_node \<Rightarrow> nat \<Rightarrow> jobject \<Rightarrow> bool" where
  "step_of_node n i s \<longleftrightarrow> jget s ''name'' = Some (JStr (buildDslStepName n i)) \<and> jget s ''stage'' = Some (JStr (getNodeStage n))"

lemma merged_step:
  assumes "mergeImportedDslStep n generated = Inr s" and "distinct (map fst generated)" and "jget generated ''type'' = Some (JStr t)"
    and "step_of_node n i generated"
  shows "step_of_node n i s"
  using assms(4) merged_member [OF assms(1-3)] by (auto simp: step_of_node_def)

lemma merged_head:
  assumes "mergeImportedDslStep n (step_head (buildDslStepName n i) t n @ rest) = Inr s" and "distinct ([''name'', ''type'', ''stage''] @ map fst rest)"
  shows "step_of_node n i s"
  using assms(2) by (intro merged_step [OF assms(1)]) (auto simp: step_head_def step_of_node_def jget_def)

lemma node_step:
  assumes "nodeToDslStep env n i = Inr s"
  shows "step_of_node n i s"
proof -
  let ?name = "buildDslStepName n i" and ?t = "nd_type n"
  consider (http) "?t = ''http''" | (browser) "?t = ''browser''" | (ssh) "?t = ''ssh''" | (transfer) "?t \<in> {''sftp'', ''scp''}" | (verify) "?t = ''verify''"
    | (transform) "?t = ''transform''" | (foreach) "?t = ''foreach''" | (checkpoint) "?t = ''checkpoint''" | (plugin) "?t = ''plugin.action''"
    | (head) "?t \<notin> {''http'', ''browser'', ''ssh'', ''sftp'', ''scp'', ''verify'', ''transform'', ''foreach'', ''checkpoint'', ''plugin.action''}"
    by blast
  then show ?thesis
  proof cases
    case http
    then have "mergeImportedDslStep n (http_step_json env n ?name) = Inr s" using assms by (simp add: nodeToDslStep_def Let_def)
    then show ?thesis unfolding http_step_json_def by (rule merged_head) simp
  next
    case browser
    then obtain g where g: "browser_step_json env n ?name = Inr g" "mergeImportedDslStep n g = Inr s"
      using assms by (auto simp: nodeToDslStep_def Let_def split: sum.splits)
    then obtain b where "g = step_head ?name ''browser'' n @ [(''browser'', b)]" by (auto simp: browser_step_json_def Let_def split: if_splits sum.splits)
    then show ?thesis using merged_head [of n i _ "[(_, b)]" s] g(2) by simp
  next
    case ssh
    then have "s = ssh_step_json env n ?name" using assms by (simp add: nodeToDslStep_def Let_def)
    then show ?thesis
      by (simp add: ssh_step_json_def step_of_node_def Let_def step_head_def jget_put_member split: option.split) (simp add: jget_def)
  next
    case transfer
    then have "mergeImportedDslStep n (buildFileTransferDslStep env n ?name ?t) = Inr s" using assms by (auto simp: nodeToDslStep_def Let_def)
    then show ?thesis
      by (rule merged_step) (use transfer in \<open>auto simp: buildFileTransferDslStep_def step_of_node_def Let_def jget_def\<close>)
  next
    case verify
    then have "mergeImportedDslStep n (verify_step_json env n ?name) = Inr s" using assms by (simp add: nodeToDslStep_def Let_def)
    then show ?thesis by (auto simp: verify_step_json_def Let_def split: if_splits elim!: merged_head)
  next
    case transform
    then have "s = transform_step_json env n ?name \<or> mergeImportedDslStep n (transform_step_json env n ?name) = Inr s"
      using assms by (simp add: nodeToDslStep_def Let_def split: if_splits)
    then show ?thesis
    proof
      assume "s = transform_step_json env n ?name"
      then show ?thesis by (simp add: transform_step_json_def Let_def step_head_def step_of_node_def jget_def)
    next
      assume "mergeImportedDslStep n (transform_step_json env n ?name) = Inr s"
      then show ?thesis unfolding transform_step_json_def Let_def by (rule merged_head) simp
    qed
  next
    case foreach
    then obtain g where g: "foreach_step_json env n ?name = Inr g" "mergeImportedDslStep n g = Inr s"
      using assms by (auto simp: nodeToDslStep_def Let_def split: sum.splits)
    then obtain b where "g = step_head ?name ''foreach'' n @ [(''foreach'', b)]"
      by (cases "readForeachSteps env (jget (nd_config n) ''steps'')") (auto simp: foreach_step_json_def Let_def)
    then show ?thesis using merged_head [of n i _ "[(_, b)]" s] g(2) by simp
  next
    case checkpoint
    then obtain g where g: "checkpoint_step_json env n ?name = Inr g" "mergeImportedDslStep n g = Inr s"
      using assms by (auto simp: nodeToDslStep_def Let_def split: sum.splits)
    then obtain b where "g = step_head ?name ''checkpoint'' n @ [(''checkpoint'', b)]"
      by (auto simp: checkpoint_step_json_def Let_def split: option.splits json.splits)
    then show ?thesis using merged_head [of n i _ "[(_, b)]" s] g(2) by simp
  next
    case plugin
    then have s: "s = (case imported_as ''plugin.action'' n of None \<Rightarrow> plugin_step_json env n ?name | Some imported \<Rightarrow> spread imported (plugin_step_json env n ?name))"
      using assms by (simp add: nodeToDslStep_def Let_def)
    have "distinct (map fst (plugin_step_json env n ?name))"
      by (simp add: plugin_step_json_def Let_def step_head_def opt_member_def split: option.split)
    moreover have "step_of_node n i (plugin_step_json env n ?name)" by (simp add: plugin_step_json_def Let_def step_head_def step_of_node_def jget_def)
    ultimately show ?thesis using s by (auto simp: step_of_node_def jget_spread_distinct split: option.splits)
  next
    case head
    then obtain t k b rest where "mergeImportedDslStep n (step_head ?name t n @ (k, b) # rest) = Inr s" "distinct ([''name'', ''type'', ''stage'', k] @ map fst rest)"
      using assms by (simp add: nodeToDslStep_def Let_def split: if_splits)
    then show ?thesis using merged_head [of n i t "(k, b) # rest" s] by simp
  qed
qed

definition step_text :: "string \<Rightarrow> json \<Rightarrow> string" where
  "step_text k v = getOrElse (typed_text (asRecord (Some v)) k) []"

lemma steps_of_nodes:
  "nodes_to_steps env i ns = Inr steps \<Longrightarrow>
   map (step_text ''name'') steps = map (\<lambda>(j, n). buildDslStepName n j) (enumerate i ns) \<and> map (step_text ''stage'') steps = map getNodeStage ns"
proof (induction ns arbitrary: i steps)
  case (Cons n ns)
  then obtain s rest where s: "nodeToDslStep env n i = Inr s" "nodes_to_steps env (Suc i) ns = Inr rest" "steps = JObj s # rest"
    by (cases "nodeToDslStep env n i"; cases "nodes_to_steps env (Suc i) ns") auto
  then show ?case using Cons.IH [OF s(2)] node_step [OF s(1)] by (simp add: step_of_node_def step_text_def typed_text_def asRecord_def)
qed simp

lemma sorted_key_insert_by:
  fixes f :: "'a \<Rightarrow> nat"
  assumes "\<And>x y. lt x y \<Longrightarrow> f x \<le> f y" and "\<And>x y. \<not> lt x y \<Longrightarrow> f y \<le> f x" and "sorted (map f xs)"
  shows "sorted (map f (insert_by lt x xs))"
  using assms(3)
proof (induction xs)
  case (Cons y ys)
  have "set (insert_by lt x ys) = insert x (set ys)" by (induction ys) auto
  then show ?case using Cons assms(1) [of y x] assms(2) [of y x] by auto
qed simp

lemma sorted_key_sort_by:
  fixes f :: "'a \<Rightarrow> nat"
  assumes "\<And>x y. lt x y \<Longrightarrow> f x \<le> f y" and "\<And>x y. \<not> lt x y \<Longrightarrow> f y \<le> f x"
  shows "sorted (map f (sort_by lt xs))"
  by (induction xs) (auto intro: sorted_key_insert_by assms)

lemma sorted_stages: "sorted (map stage_index (sortNodesByStage env ns))"
  unfolding sortNodesByStage_def by (rule sorted_key_sort_by) (auto simp: node_before_def split: if_splits)

lemma stage_known: "getNodeStage n \<in> set workflowStages"
  by (simp add: getNodeStage_def defaultStageForType_def workflowStages_def Let_def)

lemma with_stage_kept [simp]: "getNodeStage (with_stage n) = getNodeStage n" "nd_id (with_stage n) = nd_id n"
proof -
  have "text_or (spread (nd_ui n) [(''stage'', JStr (getNodeStage n))]) ''stage'' [] = getNodeStage n"
    by (simp add: text_or_def given_def jget_spread_distinct) (simp add: jget_def)
  then show "getNodeStage (with_stage n) = getNodeStage n" using stage_known [of n] by (simp add: with_stage_def getNodeStage_def [of "n\<lparr>nd_ui := _\<rparr>"] Let_def)
qed (simp add: with_stage_def)

lemma executable_ids:
  "mset (map nd_id (getExecutableDslNodes env (normalizeWorkflowCanvasFlow env c))) = filter_mset (\<lambda>i. i \<notin> rollback_targets (cv_edges c)) (mset (map nd_id (cv_nodes c)))"
proof -
  have ids: "mset (map nd_id (filter (\<lambda>n. P (nd_id n)) ns)) = filter_mset P (image_mset nd_id (mset ns))" for P ns
    by (induction ns) auto
  have "mset (map nd_id (getExecutableDslNodes env (normalizeWorkflowCanvasFlow env c)))
      = filter_mset (\<lambda>i. i \<notin> rollback_targets (cv_edges c)) (image_mset nd_id (mset (sortNodesByStage env (cv_nodes (normalizeWorkflowCanvasFlow env (normalizeWorkflowCanvasFlow env c))))))"
    unfolding getExecutableDslNodes_def Let_def ids [symmetric] by (simp add: normalizeWorkflowCanvasFlow_def rollback_only_iff)
  then show ?thesis by (simp add: normalizeWorkflowCanvasFlow_def sortNodesByStage_def multiset.map_comp comp_def)
qed

definition stage_order_of :: "json \<Rightarrow> nat" where
  "stage_order_of v = length (takeWhile (\<lambda>s. s \<noteq> step_text ''stage'' v) workflowStages)"

text \<open>The steps of the compiled workflow are those of the nodes no rollback edge leads to, one for each, ordered by their stages.\<close>

theorem compiled_steps:
  assumes "workflowCanvasToDsl env c = Inr (content, stepNames)"
  shows "\<exists>steps ordered. jget (asRecord (Some content)) ''steps'' = Some (JArr steps)
    \<and> mset (map nd_id ordered) = filter_mset (\<lambda>i. i \<notin> rollback_targets (cv_edges c)) (mset (map nd_id (cv_nodes c)))
    \<and> map (step_text ''name'') steps = map (\<lambda>(i, n). buildDslStepName n i) (enumerate 0 ordered)
    \<and> sorted (map stage_order_of steps)"
proof -
  define ordered where "ordered = getExecutableDslNodes env (normalizeWorkflowCanvasFlow env c)"
  obtain steps where steps: "nodes_to_steps env 0 ordered = Inr steps"
    using assms by (cases "nodes_to_steps env 0 ordered") (simp_all add: ordered_def workflowCanvasToDsl_def Let_def)
  obtain rollback where rollback: "resolveRollbackSteps env (normalizeWorkflowCanvasFlow env c) = Inr rollback"
    using assms steps by (cases "resolveRollbackSteps env (normalizeWorkflowCanvasFlow env c)") (simp_all add: ordered_def workflowCanvasToDsl_def Let_def)
  define meta where "meta = JObj (spread (cv_metadata c) [(''name'', JStr (normalizeIdentifier (text_or (cv_metadata c) ''name'' ''workflow-canvas-draft''))),
    (''tags'', JArr (array_member (cv_metadata c) ''tags''))])"
  have "content = JObj ([(''apiVersion'', JStr ''gcac.workflow/v1''), (''kind'', JStr ''CurlSshWorkflow''), (''metadata'', meta)]
      @ opt_member ''inputContract'' (cv_inputContract c) @ [(''steps'', JArr steps), (''rollback'', JArr rollback)])"
    using assms unfolding workflowCanvasToDsl_def Let_def ordered_def [symmetric] steps rollback meta_def by (simp only: sum.case map_sum.simps sum.inject prod.inject)
  then have content: "jget (asRecord (Some content)) ''steps'' = Some (JArr steps)"
    by (simp add: jget_def asRecord_def opt_member_def split: option.split)
  have "sorted (map stage_index ordered)"
    unfolding ordered_def getExecutableDslNodes_def Let_def by (rule sorted_filter) (rule sorted_stages)
  moreover have "map stage_order_of steps = map stage_index ordered"
  proof -
    define g where "g t = length (takeWhile (\<lambda>s. s \<noteq> t) workflowStages)" for t
    have "map g (map (step_text ''stage'') steps) = map g (map getNodeStage ordered)" by (simp only: conjunct2 [OF steps_of_nodes [OF steps]])
    moreover have "stage_order_of = g \<circ> step_text ''stage''" "stage_index = g \<circ> getNodeStage"
      by (auto simp: fun_eq_iff g_def stage_order_of_def stage_index_def)
    ultimately show ?thesis by simp
  qed
  ultimately have "sorted (map stage_order_of steps)" by simp
  then show ?thesis using content executable_ids [of env c] conjunct1 [OF steps_of_nodes [OF steps]] unfolding ordered_def [symmetric] by blast
qed

section \<open>Names of drawn steps are distinct\<close>

definition drawn_node :: "canvas_node \<Rightarrow> bool" where
  "drawn_node n \<longleftrightarrow> readImportedStep n = None \<and> nd_type n \<in> set (''verify'' # workflowStepTypes)"

lemma squeeze_append: "ident_char c \<Longrightarrow> squeeze r (a @ c # b) = squeeze r (a @ [c]) @ squeeze False b"
  by (induction r a rule: squeeze.induct) auto

lemma squeeze_ident: "list_all ident_char a \<Longrightarrow> squeeze r a = a"
  by (induction a arbitrary: r) auto

definition rstrip :: "(char \<Rightarrow> bool) \<Rightarrow> string \<Rightarrow> string" where
  "rstrip p s = rev (dropWhile p (rev s))"

lemma rstrip_append: "\<not> p c \<Longrightarrow> rstrip p (a @ c # b) = a @ c # rstrip p b"
proof (cases "list_all p b")
  case True
  moreover assume "\<not> p c"
  ultimately show ?thesis by (simp add: rstrip_def dropWhile_append list_all_iff)
next
  case False
  then show ?thesis by (auto simp: rstrip_def dropWhile_append list_all_iff)
qed

lemma rstrip_head: "rstrip p (c # b) = [] \<or> hd (rstrip p (c # b)) = c"
  by (auto simp: rstrip_def dropWhile_append)

declare digits_of.simps [simp del]

lemma digit_char: "n < 10 \<Longrightarrow> is_digit (char_of (48 + n)) \<and> (of_char (char_of (48 + n)) :: nat) - 48 = n"
  by (simp add: is_digit_def)

lemma digits_of_digits: "list_all is_digit (digits_of n) \<and> digits_of n \<noteq> [] \<and> nat_of_digits (digits_of n) = n"
proof (induction n rule: digits_of.induct)
  case (1 n)
  show ?case
  proof (cases "n < 10")
    case True
    then show ?thesis using digit_char [OF True] by (simp add: digits_of.simps [of n] nat_of_digits_def)
  next
    case False
    then show ?thesis using 1 [OF False] digit_char [of "n mod 10"] by (simp add: digits_of.simps [of n] nat_of_digits_def)
  qed
qed

text \<open>The number after the type in the name of a drawn step.\<close>

definition name_index :: "string \<Rightarrow> string" where
  "name_index s = takeWhile is_digit (dropWhile (\<lambda>c. \<not> is_digit c) s)"

lemma name_index_shape:
  assumes "list_all (\<lambda>c. \<not> is_digit c) t" and "list_all is_digit d" and "d \<noteq> []" and "z = [] \<or> \<not> is_digit (hd z)"
  shows "name_index (t @ d @ z) = d"
proof -
  have "dropWhile (\<lambda>c. \<not> is_digit c) (t @ d @ z) = dropWhile (\<lambda>c. \<not> is_digit c) (d @ z)" using assms(1) by (simp add: list_all_iff)
  moreover have "takeWhile is_digit (d @ z) = d" using assms(2,4) by (cases z) (auto simp: list_all_iff takeWhile_append)
  ultimately show ?thesis using assms(2,3) by (cases d) (auto simp: name_index_def list_all_iff)
qed

lemma digit_not_underscore: "is_digit c \<Longrightarrow> c \<noteq> CHR ''_'' \<and> ident_char c \<and> \<not> is_ws c"
  by (auto simp: is_digit_def ident_char_def is_ws_def)

lemma known_types:
  "list_all (\<lambda>t. t \<noteq> [] \<and> is_letter (hd t) \<and> squeeze False t \<noteq> [] \<and> is_letter (hd (squeeze False t)) \<and> ident_char (last t)
     \<and> list_all (\<lambda>c. \<not> is_digit c) (squeeze False t)) (''verify'' # workflowStepTypes)"
  by (simp add: workflowStepTypes_def is_letter_def is_digit_def ident_char_def)

text \<open>The name of a drawn step: its type, its number and what its label gives.\<close>

lemma identifier_shape:
  assumes "t \<noteq> []" and "is_letter (hd t)" and "ident_char (last t)" and "is_letter (hd (squeeze False t))" and "squeeze False t \<noteq> []"
  shows "\<exists>z. normalizeIdentifier (t @ ''_'' @ digits_of k @ ''_'' @ label) = squeeze False t @ ''_'' @ digits_of k @ z \<and> (z = [] \<or> hd z = CHR ''_'')"
proof -
  let ?u = "CHR ''_''" and ?d = "digits_of k"
  obtain d0 d1 where d: "?d = d0 @ [d1]" using digits_of_digits [of k] by (metis rev_exhaust)
  have d1: "is_digit d1" "list_all is_digit d0" using digits_of_digits [of k] d by auto
  define whole where "whole = t @ ''_'' @ ?d @ ''_'' @ label"
  have ws: "\<not> is_ws (hd t)" "hd t \<noteq> ?u" using assms(2) by (auto simp: is_letter_def is_ws_def)
  have front: "dropWhile is_ws whole = whole" using assms(1) ws by (cases t) (simp_all add: whole_def)
  have "trim whole = rstrip is_ws ((t @ ''_'' @ ?d) @ ?u # label)" unfolding trim_def front by (simp add: rstrip_def whole_def)
  then have trimmed: "trim whole = t @ ''_'' @ ?d @ ?u # rstrip is_ws label" by (subst (asm) rstrip_append) (simp_all add: is_ws_def)
  obtain t0 where t0: "t = t0 @ [last t]" using assms(1) by (metis append_butlast_last_id)
  have "squeeze False (trim whole) = squeeze False t @ squeeze False (''_'' @ ?d @ ?u # rstrip is_ws label)"
    using squeeze_append [OF assms(3), of False t0] trimmed t0 by (metis append.assoc append_Cons append_Nil)
  also have "squeeze False (''_'' @ ?d @ ?u # rstrip is_ws label) = ''_'' @ ?d @ ?u # squeeze False (rstrip is_ws label)"
  proof -
    have "list_all ident_char (d0 @ [d1])" using d1 by (auto simp: list_all_iff dest: digit_not_underscore)
    then have "squeeze False ((?u # d0) @ d1 # ?u # rstrip is_ws label) = squeeze False ((?u # d0) @ [d1]) @ squeeze False (?u # rstrip is_ws label)"
      "squeeze False ((?u # d0) @ [d1]) = (?u # d0) @ [d1]"
      using squeeze_append squeeze_ident by (auto simp: ident_char_def)
    then show ?thesis using d by (simp add: ident_char_def)
  qed
  finally have squeezed: "squeeze False (trim whole) = (squeeze False t @ ?u # d0) @ d1 # ?u # squeeze False (rstrip is_ws label)" using d by simp
  have "dropWhile (\<lambda>c. c = ?u) (squeeze False (trim whole)) = squeeze False (trim whole)"
    using assms(4,5) squeezed by (cases "squeeze False t") (auto simp: is_letter_def)
  then have "strip_underscores (squeeze False (trim whole)) = rstrip (\<lambda>c. c = ?u) (squeeze False (trim whole))" by (simp add: strip_underscores_def rstrip_def)
  then have stripped: "strip_underscores (squeeze False (trim whole)) = (squeeze False t @ ?u # d0) @ d1 # rstrip (\<lambda>c. c = ?u) (?u # squeeze False (rstrip is_ws label))"
    using digit_not_underscore [OF d1(1)] by (simp only: squeezed) (rule rstrip_append, simp)
  define z where "z = rstrip (\<lambda>c. c = ?u) (?u # squeeze False (rstrip is_ws label))"
  have z: "z = [] \<or> hd z = ?u" unfolding z_def by (rule rstrip_head)
  have "normalizeIdentifier whole = squeeze False t @ ''_'' @ ?d @ z"
    using assms(4,5) stripped d unfolding z_def [symmetric] by (simp add: normalizeIdentifier_def Let_def hd_append)
  then show ?thesis using z by (auto simp: whole_def)
qed

lemma drawn_name_index:
  assumes "drawn_node n"
  shows "name_index (buildDslStepName n i) = digits_of (Suc i)"
proof -
  let ?t = "nd_type n"
  have t: "?t \<noteq> []" "is_letter (hd ?t)" "squeeze False ?t \<noteq> []" "is_letter (hd (squeeze False ?t))" "ident_char (last ?t)"
    "list_all (\<lambda>c. \<not> is_digit c) (squeeze False ?t)"
    using known_types assms by (auto simp: drawn_node_def list_all_iff simp del: set_simps)
  have "buildDslStepName n i = normalizeIdentifier (?t @ ''_'' @ digits_of (Suc i) @ ''_'' @ getOrElse (nd_label n) (nd_id n))"
    using assms by (simp add: buildDslStepName_def drawn_node_def int_to_string_def nat_add_distrib)
  then obtain z where "buildDslStepName n i = squeeze False ?t @ ''_'' @ digits_of (Suc i) @ z" "z = [] \<or> hd z = CHR ''_''"
    using identifier_shape [OF t(1,2,5,4,3)] by metis
  then show ?thesis using name_index_shape [of "squeeze False ?t @ ''_''" "digits_of (Suc i)" z] t(6) digits_of_digits [of "Suc i"]
    by (auto simp: is_digit_def)
qed

text \<open>Nodes that were drawn, and not imported, get names that differ, whatever their labels are: no two steps share a name.\<close>

theorem drawn_names_distinct:
  assumes "list_all drawn_node ns"
  shows "distinct (map (\<lambda>(i, n). buildDslStepName n i) (enumerate 0 ns))"
proof -
  have "inj digits_of" using digits_of_digits by (metis injI)
  have "map (name_index \<circ> (\<lambda>(i, n). buildDslStepName n i)) (enumerate k ns) = map (digits_of \<circ> Suc) [k..<k + length ns]" for k
    using assms
  proof (induction ns arbitrary: k)
    case (Cons n ns)
    then show ?case by (simp add: drawn_name_index upt_conv_Cons del: upt_Suc)
  qed simp
  moreover have "distinct (map (digits_of \<circ> Suc) [0..<length ns])"
    using \<open>inj digits_of\<close> by (auto simp: distinct_map inj_on_def dest: injD)
  ultimately have "distinct (map name_index (map (\<lambda>(i, n). buildDslStepName n i) (enumerate 0 ns)))" by simp
  then show ?thesis by (simp only: distinct_map)
qed

section \<open>Time limits\<close>

text \<open>The member of a step that describes its call.\<close>

definition call_section :: "string \<Rightarrow> string" where
  "call_section t = (if t = ''http'' then ''request'' else t)"

definition timed :: "string \<Rightarrow> jobject \<Rightarrow> bool" where
  "timed t s \<longleftrightarrow> (case jget (asRecord (jget s (call_section t))) ''timeoutSeconds'' of Some (JNum i) \<Rightarrow> 0 < i | _ \<Rightarrow> False)"

lemma merged_timed:
  assumes "mergeImportedDslStep n g = Inr s" and "t \<in> {''http'', ''ssh'', ''sftp'', ''scp''}" and "jget g ''type'' = Some (JStr t)" and "timed t g"
    and "distinct (map fst (asRecord (jget g (call_section t))))"
  shows "timed t s"
proof (cases "\<exists>imported. readImportedStep n = Some imported \<and> jget imported ''type'' = jget g ''type''")
  case False
  then have "s = g" using assms(1) by (auto simp: mergeImportedDslStep_def split: option.splits if_splits)
  then show ?thesis using assms(4) by simp
next
  case True
  then obtain imported where "s = merge_call (call_section t) imported g"
    using assms(1,2,3) by (auto simp: mergeImportedDslStep_def typed_text_def call_section_def)
  moreover have "call_section t \<notin> {''assert'', ''extract'', ''retry''}" using assms(2) by (auto simp: call_section_def)
  ultimately have "jget s (call_section t) = Some (JObj (spread (asRecord (jget imported (call_section t))) (asRecord (jget g (call_section t)))))"
    by (simp add: merge_call_def jget_put_member)
  moreover obtain j where "jget (asRecord (jget g (call_section t))) ''timeoutSeconds'' = Some (JNum j)" "0 < j"
    using assms(4) by (auto simp: timed_def split: option.splits json.splits)
  ultimately show ?thesis using jget_spread_distinct [OF assms(5)] by (simp add: timed_def asRecord_def [of "Some (JObj _)"])
qed

lemma request_keys: "distinct (map fst (http_request_json env config url))" "jget (http_request_json env config url) ''timeoutSeconds'' = Some (number_or env config ''timeoutSeconds'' (JNum 30))"
  by (auto simp: http_request_json_def unless_blank_def opt_member_def jget_def split: option.split)

lemma timed_node:
  assumes "nodeToDslStep env n i = Inr s" and "nd_type n \<in> {''http'', ''ssh'', ''sftp'', ''scp''}"
    and "given (nd_config n) ''timeoutSeconds'' = Some v" and "cz_number env v = Some k" and "0 < k"
  shows "timed (nd_type n) s"
proof -
  let ?name = "buildDslStepName n i"
  have number: "number_or env (nd_config n) ''timeoutSeconds'' d = JNum k" for d using assms(3,4) by (simp add: number_or_def)
  consider (http) "nd_type n = ''http''" | (ssh) "nd_type n = ''ssh''" | (transfer) "nd_type n \<in> {''sftp'', ''scp''}" using assms(2) by blast
  then show ?thesis
  proof cases
    case http
    then have "mergeImportedDslStep n (http_step_json env n ?name) = Inr s" using assms(1) by (simp add: nodeToDslStep_def Let_def)
    moreover have "jget (http_step_json env n ?name) ''request'' = Some (JObj (http_request_json env (nd_config n) (text_or (nd_config n) ''url'' ''{{verifyUrl}}'')))"
      "jget (http_step_json env n ?name) ''type'' = Some (JStr ''http'')"
      by (simp_all add: http_step_json_def step_head_def jget_def)
    ultimately have "timed ''http'' s" using request_keys number assms(5)
      by (intro merged_timed [of n "http_step_json env n ?name" s]) (simp_all add: timed_def call_section_def asRecord_def)
    then show ?thesis using http by simp
  next
    case ssh
    then have "s = ssh_step_json env n ?name" using assms(1) by (simp add: nodeToDslStep_def Let_def)
    then show ?thesis using ssh number assms(5)
      by (simp add: timed_def call_section_def ssh_step_json_def Let_def jget_put_member split: option.split) (simp add: jget_def step_head_def asRecord_def)
  next
    case transfer
    let ?g = "buildFileTransferDslStep env n ?name (nd_type n)"
    have merged: "mergeImportedDslStep n ?g = Inr s" using transfer assms(1) by (auto simp: nodeToDslStep_def Let_def)
    obtain m where m: "jget ?g (nd_type n) = Some (JObj m)" "jget ?g ''type'' = Some (JStr (nd_type n))" "distinct (map fst m)" "jget m ''timeoutSeconds'' = Some (JNum k)"
      using transfer number by (auto simp: buildFileTransferDslStep_def Let_def jget_def unless_blank_def)
    then show ?thesis using transfer assms(2,5) by (intro merged_timed [OF merged]) (auto simp: timed_def call_section_def asRecord_def)
  qed
qed


section \<open>Examples\<close>

definition demo_canvas_env :: canvas_env where
  "demo_canvas_env = \<lparr>cz_number = (\<lambda>v. case v of JNum i \<Rightarrow> Some i | _ \<Rightarrow> None), cz_parse = (\<lambda>s. None), cz_lt = (\<lambda>a b. False), cz_contract = (\<lambda>v. Inr ()), cz_validate = Inr\<rparr>"

text \<open>A call drawn on the right, and left of it a message, to which an edge for failures leads.\<close>

definition demo_node :: "string \<Rightarrow> string \<Rightarrow> int \<Rightarrow> jobject \<Rightarrow> json" where
  "demo_node i t x config = JObj [(''id'', JStr i), (''type'', JStr t), (''position'', JObj [(''x'', JNum x)]), (''label'', JStr ''l''),
     (''config'', JObj config), (''ui'', JObj [(''stage'', JStr ''install'')])]"

definition demo_drawing :: json where
  "demo_drawing = JObj [(''inputContract'', JObj []),
     (''nodes'', JArr [demo_node ''call'' ''http'' 9 [(''method'', JStr ''GET''), (''url'', JStr ''/c''), (''connectionRef'', JStr ''a''), (''timeoutSeconds'', JNum 5)],
        demo_node ''tell'' ''manual'' 0 [(''instruction'', JStr ''call us'')]]),
     (''edges'', JArr [JObj [(''sourceNodeId'', JStr ''call''), (''targetNodeId'', JStr ''tell''), (''edgeType'', JStr ''failure'')]])]"

definition demo_canvas :: canvas where
  "demo_canvas = canvas_of_json (asRecord (Some demo_drawing))"

definition demo_compiled :: "compiled_canvas result" where
  "demo_compiled = compileWorkflowCanvas demo_canvas_env demo_drawing"

lemma demo_read: "readCanvas demo_drawing = Inr demo_canvas"
  by (simp add: readCanvas_def demo_drawing_def demo_canvas_def asRecord_def jget_def)

lemma returned: "(case x of Inl e \<Rightarrow> False | Inr r \<Rightarrow> True) \<Longrightarrow> \<exists>r. x = Inr r"
  by (cases x) simp_all

lemma demo_compiles: "\<exists>r. demo_compiled = Inr r"
  by (rule returned) code_simp

lemma demo_dsl: "\<exists>content names. workflowCanvasToDsl demo_canvas_env demo_canvas = Inr (content, names)"
proof -
  have "(case workflowCanvasToDsl demo_canvas_env demo_canvas of Inl e \<Rightarrow> False | Inr r \<Rightarrow> True)" by code_simp
  then show ?thesis by (cases "workflowCanvasToDsl demo_canvas_env demo_canvas") auto
qed

lemma no_rollback: "filter is_rollback (cv_edges demo_canvas) = []"
  by code_simp

theorem compile_ignores_flow_witness:
  "workflowCanvasToDsl demo_canvas_env (demo_canvas\<lparr>cv_edges := []\<rparr>) = workflowCanvasToDsl demo_canvas_env demo_canvas
    \<and> (case workflowCanvasToDsl demo_canvas_env demo_canvas of Inr (content, names) \<Rightarrow> names = [(''tell'', JStr ''manual_1_l''), (''call'', JStr ''http_2_l'')] | Inl e \<Rightarrow> False)"
proof
  have "rollback_targets (cv_edges demo_canvas) = {}" using no_rollback by (simp add: rollback_targets_def)
  then show "workflowCanvasToDsl demo_canvas_env (demo_canvas\<lparr>cv_edges := []\<rparr>) = workflowCanvasToDsl demo_canvas_env demo_canvas"
    by (intro compile_ignores_flow) (simp add: rollback_targets_def)
  show "case workflowCanvasToDsl demo_canvas_env demo_canvas of Inr (content, names) \<Rightarrow> names = [(''tell'', JStr ''manual_1_l''), (''call'', JStr ''http_2_l'')] | Inl e \<Rightarrow> False"
    by code_simp
qed

theorem compiled_steps_witness:
  "\<exists>content steps. jget (asRecord (Some content)) ''steps'' = Some (JArr steps) \<and> length steps = 2 \<and> sorted (map stage_order_of steps)"
proof -
  obtain content names where dsl: "workflowCanvasToDsl demo_canvas_env demo_canvas = Inr (content, names)" using demo_dsl by blast
  from compiled_steps [OF this] obtain steps ordered where s: "jget (asRecord (Some content)) ''steps'' = Some (JArr steps)"
    "mset (map nd_id ordered) = filter_mset (\<lambda>i. i \<notin> rollback_targets (cv_edges demo_canvas)) (mset (map nd_id (cv_nodes demo_canvas)))"
    "map (step_text ''name'') steps = map (\<lambda>(i, n). buildDslStepName n i) (enumerate 0 ordered)" "sorted (map stage_order_of steps)" by blast
  have "rollback_targets (cv_edges demo_canvas) = {}" "map nd_id (cv_nodes demo_canvas) = [''call'', ''tell'']"
    using no_rollback by (simp add: rollback_targets_def) code_simp
  then have "length ordered = 2" using s(2) by (metis (no_types, lifting) filter_mset_True length_map length_Cons list.size(3) numeral_2_eq_2 size_mset empty_iff filter_mset_cong)
  then have "length steps = 2" using s(3) by (metis length_enumerate length_map)
  then show ?thesis using s(1,4) by blast
qed

theorem drawn_names_distinct_witness:
  "distinct (map (\<lambda>(i, n). buildDslStepName n i) (enumerate 0 (map node_of_json [demo_node ''a'' ''wait'' 0 [], demo_node ''b'' ''wait'' 0 []])))"
proof (rule drawn_names_distinct)
  show "list_all drawn_node (map node_of_json [demo_node ''a'' ''wait'' 0 [], demo_node ''b'' ''wait'' 0 []])" by code_simp
qed


end
