(* ===== verification/AutomationModel.thy ===== *)
theory AutomationModel
  imports AutomationProgress Complex_Main
begin

text \<open>
  The rows of automations and the repository that reads and writes them: \<open>automations.dto.ts\<close>,
  \<open>automations.schema.ts\<close>, \<open>automations.repository.ts\<close> and \<open>automation-external-api-key.repository.ts\<close> of
  \<open>backend/src/modules/automations\<close>.

  \<open>auto_db\<close> holds the tables, the clock, the number of identifiers drawn, the tasks handed to the task service, and the
  calls made of the action port, which no table keeps. A patch is a function on the row; a member that is \<open>undefined\<close> in a
  patch clears the column, as the spread of the code does. A \<open>jsonb\<close> document the code only passes on is a JSON object.
  Foreign keys are left out: rows are never deleted. Columns that an update does not write are in no patch of the code.
\<close>

section \<open>Rows\<close>

datatype automation_status = AS_draft | AS_active | AS_disabled | AS_deleted

datatype trigger_type =
    TT_api | TT_once | TT_schedule | TT_on_demand | TT_certificate_version_created | TT_retry

datatype run_target_status =
    AT_pending | AT_running | AT_waiting_approval | AT_succeeded | AT_failed | AT_skipped | AT_cancelled

datatype failure_stage =
    FS_selection | FS_plan_creation | FS_dry_run | FS_approval | FS_execution | FS_verification | FS_rollback | FS_notification

datatype action_type = Create_deployment_plan | Execute_deployment_plan | Send_notification

datatype action_status = AX_pending | AX_running | AX_succeeded | AX_failed | AX_skipped

datatype reference_type = Ref_deployment_plan | Ref_execution_run | Ref_notification_request

datatype delivery_status = DL_pending | DL_matched | DL_waiting_approval | DL_run_created | DL_skipped | DL_failed

record deployment_schedule =
  sc_hour :: int
  sc_minute :: int
  sc_timeZone :: string

datatype automation_trigger =
    Trigger_api
  | Trigger_once string                                                          \<comment> \<open>\<open>runAt\<close>\<close>
  | Trigger_schedule string string "string option" "string option"               \<comment> \<open>\<open>cron\<close>, \<open>timeZone\<close>, \<open>startsAt\<close>, \<open>endsAt\<close>\<close>
  | Trigger_on_demand
  | Trigger_certificate "string list option" "deployment_schedule option"        \<comment> \<open>\<open>sources\<close>, \<open>deploymentSchedule\<close>\<close>

fun trigger_kind :: "automation_trigger \<Rightarrow> trigger_type" where
  "trigger_kind Trigger_api = TT_api"
| "trigger_kind (Trigger_once _) = TT_once"
| "trigger_kind (Trigger_schedule _ _ _ _) = TT_schedule"
| "trigger_kind Trigger_on_demand = TT_on_demand"
| "trigger_kind (Trigger_certificate _ _) = TT_certificate_version_created"

record automation_filter =
  fl_field :: string
  fl_operator :: string
  fl_value :: "json option"

record automation_action =
  ac_type :: action_type
  ac_position :: int
  ac_config :: jobject

record run_window =
  rw_daysOfWeek :: "nat list"
  rw_startTime :: string
  rw_endTime :: string
  rw_timeZone :: string

record guardrails =
  gd_maxTargetsPerRun :: int
  gd_concurrencyLimit :: int
  gd_requirePreview :: bool
  gd_requireDryRun :: bool
  gd_requireApproval :: bool
  gd_allowManualWhenDisabled :: "bool option"
  gd_allowedEnvironments :: "string list option"
  gd_failureCountThreshold :: "int option"
  gd_failureRateThreshold :: "rat option"
  gd_maintenanceWindow :: "run_window option"

record automation_configuration =
  cf_trigger :: automation_trigger
  cf_externalApi :: "string option"
  cf_filters :: "automation_filter list"
  cf_assetIds :: "string list option"       \<comment> \<open>of \<open>targetResolver\<close>, whose only type is \<open>certificate_version_targets\<close>\<close>
  cf_approvalStage :: "jobject option"
  cf_actions :: "automation_action list"
  cf_guardrails :: guardrails

record automation =
  ao_id :: string
  ao_tenantId :: string
  ao_name :: string
  ao_description :: "string option"
  ao_status :: automation_status
  ao_currentVersion :: int
  ao_nextRunAt :: "instant option"
  ao_lastRunAt :: "instant option"
  ao_createdBy :: string
  ao_createdAt :: instant
  ao_updatedAt :: instant
  ao_deletedAt :: "instant option"
  ao_version :: int

record automation_version =
  av_id :: string
  av_tenantId :: string
  av_automationId :: string
  av_version :: int
  av_configuration :: automation_configuration
  av_checksum :: string
  av_createdBy :: string
  av_createdAt :: instant

record execution_options =
  eo_stopOnError :: "bool option"
  eo_dryRun :: "bool option"

text \<open>\<open>AutomationRunDto\<close>: the members the progress of a task reads, and the rest.\<close>

record auto_run = automation_run +
  au_tenantId :: string
  au_automationVersion :: int
  au_triggerType :: trigger_type
  au_idempotencyKey :: string
  au_parentRunId :: "string option"
  au_triggerContext :: "jobject option"
  au_executionOptions :: "execution_options option"
  au_deliveryId :: "string option"
  au_actionTypes :: "action_type list"
  au_environmentSnapshots :: "string list"
  au_failureStage :: "failure_stage option"
  au_failureCode :: "string option"
  au_failureMessage :: "string option"
  au_startedAt :: "instant option"
  au_finishedAt :: "instant option"
  au_createdBy :: string
  au_createdAt :: instant

record target_snapshot =
  tn_certificateId :: string
  tn_certificateName :: string
  tn_certificateVersionId :: "string option"
  tn_certificateVersionImpact :: "string option"
  tn_bindingId :: "string option"
  tn_assetId :: "string option"
  tn_assetName :: "string option"
  tn_environment :: "string option"
  tn_ownerId :: "string option"
  tn_tags :: "string list"
  tn_rest :: jobject

record auto_target =
  tg_id :: string
  tg_tenantId :: string
  tg_runId :: string
  tg_sequenceNo :: int
  tg_targetSnapshot :: target_snapshot
  tg_environmentSnapshot :: "string option"
  tg_actionTypes :: "action_type list"
  tg_status :: run_target_status
  tg_currentAction :: "action_type option"
  tg_failureStage :: "failure_stage option"
  tg_deploymentPlanId :: "string option"
  tg_executionRunId :: "string option"
  tg_notificationRequestIds :: "string list"
  tg_errorCode :: "string option"
  tg_errorMessage :: "string option"
  tg_startedAt :: "instant option"
  tg_finishedAt :: "instant option"
  tg_createdAt :: instant
  tg_updatedAt :: instant

record action_result =
  ax_id :: string
  ax_tenantId :: string
  ax_runId :: string
  ax_runTargetId :: "string option"
  ax_actionType :: action_type
  ax_actionPosition :: int
  ax_status :: action_status
  ax_externalReferenceType :: "reference_type option"
  ax_externalReferenceId :: "string option"
  ax_failureStage :: "failure_stage option"
  ax_errorCode :: "string option"
  ax_errorMessage :: "string option"
  ax_startedAt :: "instant option"
  ax_finishedAt :: "instant option"
  ax_createdAt :: instant

record delivery =
  dl_id :: string
  dl_tenantId :: string
  dl_automationId :: string
  dl_automationVersion :: int
  dl_deliveryKey :: string
  dl_triggerType :: trigger_type
  dl_eventType :: "string option"
  dl_payload :: jobject
  dl_status :: delivery_status
  dl_runId :: "string option"
  dl_approvalId :: "string option"
  dl_errorCode :: "string option"
  dl_errorMessage :: "string option"
  dl_createdAt :: instant
  dl_updatedAt :: instant

record external_key =
  ek_id :: string
  ek_tenantId :: string
  ek_automationId :: string
  ek_keyPrefix :: string
  ek_keyHash :: string
  ek_createdBy :: string
  ek_createdAt :: instant
  ek_revokedAt :: "instant option"

record scheduler_lease =
  sl_key :: string
  sl_ownerId :: string
  sl_leasedUntil :: instant

text \<open>A task handed to \<open>enqueueTaskBestEffort\<close>.\<close>

record queued_task =
  qt_tenantId :: string
  qt_taskType :: string
  qt_requestedBy :: string
  qt_triggerSource :: string
  qt_idempotencyKey :: string
  qt_resourceSummary :: jobject
  qt_subject :: string
  qt_availableAt :: "string option"

text \<open>How a call of the action port ended.\<close>

datatype call_outcome = Call_succeeded | Call_running | Call_waiting_approval | Call_pending_error | Call_failed

record action_call =
  al_runId :: string
  al_targetId :: string
  al_action :: action_type
  al_position :: int
  al_outcome :: call_outcome

record 'w auto_db =
  ad_now :: instant
  ad_drawn :: nat
  ad_automations :: "automation list"
  ad_versions :: "automation_version list"
  ad_runs :: "auto_run list"
  ad_targets :: "auto_target list"
  ad_results :: "action_result list"
  ad_deliveries :: "delivery list"
  ad_leases :: "scheduler_lease list"
  ad_keys :: "external_key list"
  ad_tasks :: "queued_task list"
  ad_calls :: "action_call list"
  ad_world :: 'w

section \<open>Identifiers\<close>

text \<open>\<open>newId(prefix)\<close>: the prefix and the next of the random identifiers \<open>uuid 0, uuid 1, ...\<close>.\<close>

definition newId :: "(nat \<Rightarrow> string) \<Rightarrow> string \<Rightarrow> nat \<Rightarrow> string" where
  "newId uuid prefix n = prefix @ ''_'' @ uuid n"

definition drawId :: "(nat \<Rightarrow> string) \<Rightarrow> string \<Rightarrow> 'w auto_db \<Rightarrow> string \<times> 'w auto_db" where
  "drawId uuid prefix db = (newId uuid prefix (ad_drawn db), db\<lparr>ad_drawn := Suc (ad_drawn db)\<rparr>)"

section \<open>Runs, targets and results\<close>

text \<open>The trigger types the check constraint of \<open>automation_runs\<close> admits, its primary key and its unique key.\<close>

definition auto_createRun :: "auto_run \<Rightarrow> 'w auto_db \<Rightarrow> auto_run result \<times> 'w auto_db" where
  "auto_createRun r db = (if au_triggerType r \<notin> {TT_schedule, TT_on_demand, TT_retry, TT_certificate_version_created}
       then (Inl (DbError ''23514''), db)
     else if ar_id r \<in> ar_id ` set (ad_runs db)
       \<or> (au_tenantId r, au_idempotencyKey r) \<in> (\<lambda>x. (au_tenantId x, au_idempotencyKey x)) ` set (ad_runs db)
       then (Inl (DbError ''23505''), db)
     else (Inr r, db\<lparr>ad_runs := ad_runs db @ [r]\<rparr>))"

definition auto_getRun :: "string \<Rightarrow> string \<Rightarrow> 'w auto_db \<Rightarrow> auto_run option" where
  "auto_getRun i tenantId db = find (\<lambda>r. ar_id r = i \<and> au_tenantId r = tenantId) (ad_runs db)"

definition auto_findRunByIdempotencyKey :: "string \<Rightarrow> string \<Rightarrow> 'w auto_db \<Rightarrow> auto_run option" where
  "auto_findRunByIdempotencyKey tenantId key db = find (\<lambda>r. au_tenantId r = tenantId \<and> au_idempotencyKey r = key) (ad_runs db)"

definition auto_updateRun :: "string \<Rightarrow> string \<Rightarrow> (auto_run \<Rightarrow> auto_run) \<Rightarrow> 'w auto_db \<Rightarrow> auto_run result \<times> 'w auto_db" where
  "auto_updateRun i tenantId f db = (case auto_getRun i tenantId db of None \<Rightarrow> (Inl (AppError ''RESOURCE_NOT_FOUND''), db)
     | Some r \<Rightarrow> (Inr (f r), db\<lparr>ad_runs := upd_where (\<lambda>x. ar_id x = i \<and> au_tenantId x = tenantId) (\<lambda>_. f r) (ad_runs db)\<rparr>))"

definition auto_listRuns :: "string \<Rightarrow> string option \<Rightarrow> 'w auto_db \<Rightarrow> auto_run list" where
  "auto_listRuns tenantId automationId db = rev (sort_key au_createdAt (filter (\<lambda>r. au_tenantId r = tenantId
     \<and> (\<not> truthy automationId \<or> Some (ar_automationId r) = automationId)) (ad_runs db)))"

definition listRunnableRuns :: "nat \<Rightarrow> 'w auto_db \<Rightarrow> auto_run list" where
  "listRunnableRuns limit db = take limit (sort_key au_createdAt (filter
     (\<lambda>r. ar_status r \<in> {AR_queued, AR_running, AR_waiting_approval}) (ad_runs db)))"

definition createRunTarget :: "auto_target \<Rightarrow> 'w auto_db \<Rightarrow> auto_target result \<times> 'w auto_db" where
  "createRunTarget t db = (if tg_id t \<in> tg_id ` set (ad_targets db)
       \<or> (tg_runId t, tg_sequenceNo t) \<in> (\<lambda>x. (tg_runId x, tg_sequenceNo x)) ` set (ad_targets db)
     then (Inl (DbError ''23505''), db) else (Inr t, db\<lparr>ad_targets := ad_targets db @ [t]\<rparr>))"

definition listRunTargets :: "string \<Rightarrow> string \<Rightarrow> 'w auto_db \<Rightarrow> auto_target list" where
  "listRunTargets runId tenantId db =
     sort_key tg_sequenceNo (filter (\<lambda>t. tg_tenantId t = tenantId \<and> tg_runId t = runId) (ad_targets db))"

definition getRunTarget :: "string \<Rightarrow> string \<Rightarrow> 'w auto_db \<Rightarrow> auto_target option" where
  "getRunTarget i tenantId db = find (\<lambda>t. tg_id t = i \<and> tg_tenantId t = tenantId) (ad_targets db)"

definition updateRunTarget :: "string \<Rightarrow> string \<Rightarrow> (auto_target \<Rightarrow> auto_target) \<Rightarrow> 'w auto_db \<Rightarrow> auto_target result \<times> 'w auto_db" where
  "updateRunTarget i tenantId f db = (case getRunTarget i tenantId db of None \<Rightarrow> (Inl (AppError ''RESOURCE_NOT_FOUND''), db)
     | Some t \<Rightarrow> (Inr (f t), db\<lparr>ad_targets := upd_where (\<lambda>x. tg_id x = i \<and> tg_tenantId x = tenantId) (\<lambda>_. f t) (ad_targets db)\<rparr>))"

definition createActionResult :: "action_result \<Rightarrow> 'w auto_db \<Rightarrow> action_result result \<times> 'w auto_db" where
  "createActionResult x db = (if ax_id x \<in> ax_id ` set (ad_results db) then (Inl (DbError ''23505''), db)
     else (Inr x, db\<lparr>ad_results := ad_results db @ [x]\<rparr>))"

definition updateActionResult :: "string \<Rightarrow> string \<Rightarrow> (action_result \<Rightarrow> action_result) \<Rightarrow> 'w auto_db \<Rightarrow> action_result result \<times> 'w auto_db" where
  "updateActionResult i tenantId f db = (case find (\<lambda>x. ax_id x = i \<and> ax_tenantId x = tenantId) (ad_results db) of
       None \<Rightarrow> (Inl (AppError ''RESOURCE_NOT_FOUND''), db)
     | Some x \<Rightarrow> (Inr (f x), db\<lparr>ad_results := upd_where (\<lambda>y. ax_id y = i \<and> ax_tenantId y = tenantId) (\<lambda>_. f x) (ad_results db)\<rparr>))"

definition listActionResults :: "string \<Rightarrow> string \<Rightarrow> 'w auto_db \<Rightarrow> action_result list" where
  "listActionResults runId tenantId db =
     sort_key ax_actionPosition (filter (\<lambda>x. ax_tenantId x = tenantId \<and> ax_runId x = runId) (ad_results db))"

section \<open>Automations and versions\<close>

definition createAutomation :: "automation \<Rightarrow> 'w auto_db \<Rightarrow> automation result \<times> 'w auto_db" where
  "createAutomation a db = (if ao_id a \<in> ao_id ` set (ad_automations db) then (Inl (DbError ''23505''), db)
     else (Inr a, db\<lparr>ad_automations := ad_automations db @ [a]\<rparr>))"

definition getAutomation :: "string \<Rightarrow> string \<Rightarrow> bool \<Rightarrow> 'w auto_db \<Rightarrow> automation option" where
  "getAutomation i tenantId includeDeleted db = find (\<lambda>a. ao_id a = i \<and> ao_tenantId a = tenantId
     \<and> (includeDeleted \<or> ao_status a \<noteq> AS_deleted)) (ad_automations db)"

definition getAutomationOrThrow :: "string \<Rightarrow> string \<Rightarrow> bool \<Rightarrow> 'w auto_db \<Rightarrow> automation result" where
  "getAutomationOrThrow i tenantId includeDeleted db = (case getAutomation i tenantId includeDeleted db of
       None \<Rightarrow> Inl (AppError ''RESOURCE_NOT_FOUND'') | Some a \<Rightarrow> Inr a)"

definition listAutomations :: "string \<Rightarrow> bool \<Rightarrow> 'w auto_db \<Rightarrow> automation list" where
  "listAutomations tenantId includeDeleted db = rev (sort_key ao_updatedAt (filter (\<lambda>a. ao_tenantId a = tenantId
     \<and> (includeDeleted \<or> ao_status a \<noteq> AS_deleted)) (ad_automations db)))"

text \<open>\<open>lt\<close> is the order in which the database sorts text.\<close>

definition listAutomationTenantIds :: "(string \<Rightarrow> string \<Rightarrow> bool) \<Rightarrow> 'w auto_db \<Rightarrow> string list" where
  "listAutomationTenantIds lt db = sort_by lt (set_dedup
     (map ao_tenantId (filter (\<lambda>a. ao_status a \<noteq> AS_deleted) (ad_automations db))
      @ map au_tenantId (filter (\<lambda>r. ar_status r \<in> {AR_queued, AR_running, AR_waiting_approval}) (ad_runs db))))"

definition updateAutomation :: "string \<Rightarrow> string \<Rightarrow> (automation \<Rightarrow> automation) \<Rightarrow> 'w auto_db \<Rightarrow> automation result \<times> 'w auto_db" where
  "updateAutomation i tenantId f db = (case getAutomationOrThrow i tenantId True db of Inl e \<Rightarrow> (Inl e, db)
     | Inr current \<Rightarrow> (let a = (f current)\<lparr>ao_version := ao_version current + 1\<rparr> in
        (Inr a, db\<lparr>ad_automations := upd_where (\<lambda>x. ao_id x = i \<and> ao_tenantId x = tenantId) (\<lambda>_. a) (ad_automations db)\<rparr>)))"

definition auto_createVersion :: "automation_version \<Rightarrow> 'w auto_db \<Rightarrow> automation_version result \<times> 'w auto_db" where
  "auto_createVersion v db = (if av_id v \<in> av_id ` set (ad_versions db)
       \<or> (av_automationId v, av_version v) \<in> (\<lambda>x. (av_automationId x, av_version x)) ` set (ad_versions db)
     then (Inl (DbError ''23505''), db) else (Inr v, db\<lparr>ad_versions := ad_versions db @ [v]\<rparr>))"

definition auto_getVersion :: "string \<Rightarrow> int \<Rightarrow> string \<Rightarrow> 'w auto_db \<Rightarrow> automation_version option" where
  "auto_getVersion automationId version tenantId db = find (\<lambda>v. av_tenantId v = tenantId \<and> av_automationId v = automationId
     \<and> av_version v = version) (ad_versions db)"

definition auto_listVersions :: "string \<Rightarrow> string \<Rightarrow> 'w auto_db \<Rightarrow> automation_version list" where
  "auto_listVersions automationId tenantId db = rev (sort_key av_version (filter
     (\<lambda>v. av_tenantId v = tenantId \<and> av_automationId v = automationId) (ad_versions db)))"

section \<open>Deliveries, leases and keys\<close>

definition createDelivery :: "delivery \<Rightarrow> 'w auto_db \<Rightarrow> delivery result \<times> 'w auto_db" where
  "createDelivery d db = (if dl_id d \<in> dl_id ` set (ad_deliveries db)
       \<or> (dl_tenantId d, dl_automationId d, dl_automationVersion d, dl_deliveryKey d)
         \<in> (\<lambda>x. (dl_tenantId x, dl_automationId x, dl_automationVersion x, dl_deliveryKey x)) ` set (ad_deliveries db)
     then (Inl (DbError ''23505''), db) else (Inr d, db\<lparr>ad_deliveries := ad_deliveries db @ [d]\<rparr>))"

definition getDelivery :: "string \<Rightarrow> string \<Rightarrow> 'w auto_db \<Rightarrow> delivery option" where
  "getDelivery i tenantId db = find (\<lambda>d. dl_id d = i \<and> dl_tenantId d = tenantId) (ad_deliveries db)"

definition findDelivery :: "string \<Rightarrow> string \<Rightarrow> int \<Rightarrow> string \<Rightarrow> 'w auto_db \<Rightarrow> delivery option" where
  "findDelivery tenantId automationId version key db = find (\<lambda>d. dl_tenantId d = tenantId \<and> dl_automationId d = automationId
     \<and> dl_automationVersion d = version \<and> dl_deliveryKey d = key) (ad_deliveries db)"

definition updateDelivery :: "string \<Rightarrow> string \<Rightarrow> (delivery \<Rightarrow> delivery) \<Rightarrow> 'w auto_db \<Rightarrow> delivery result \<times> 'w auto_db" where
  "updateDelivery i tenantId f db = (case getDelivery i tenantId db of None \<Rightarrow> (Inl (AppError ''RESOURCE_NOT_FOUND''), db)
     | Some d \<Rightarrow> (Inr (f d), db\<lparr>ad_deliveries := upd_where (\<lambda>x. dl_id x = i \<and> dl_tenantId x = tenantId) (\<lambda>_. f d) (ad_deliveries db)\<rparr>))"

definition listDeliveries :: "string \<Rightarrow> string option \<Rightarrow> 'w auto_db \<Rightarrow> delivery list" where
  "listDeliveries tenantId automationId db = rev (sort_key dl_createdAt (filter (\<lambda>d. dl_tenantId d = tenantId
     \<and> (\<not> truthy automationId \<or> Some (dl_automationId d) = automationId)) (ad_deliveries db)))"

text \<open>\<open>insert ... on conflict do update ... where leased_until < now() returning\<close>.\<close>

definition acquireSchedulerLease :: "string \<Rightarrow> string \<Rightarrow> instant \<Rightarrow> 'w auto_db \<Rightarrow> bool \<times> 'w auto_db" where
  "acquireSchedulerLease key owner leasedUntil db = (let l = \<lparr>sl_key = key, sl_ownerId = owner, sl_leasedUntil = leasedUntil\<rparr> in
     case find (\<lambda>x. sl_key x = key) (ad_leases db) of None \<Rightarrow> (True, db\<lparr>ad_leases := ad_leases db @ [l]\<rparr>)
     | Some old \<Rightarrow> if sl_leasedUntil old < ad_now db
         then (True, db\<lparr>ad_leases := upd_where (\<lambda>x. sl_key x = key) (\<lambda>_. l) (ad_leases db)\<rparr>) else (False, db))"

definition releaseSchedulerLease :: "string \<Rightarrow> string \<Rightarrow> 'w auto_db \<Rightarrow> 'w auto_db" where
  "releaseSchedulerLease key owner db = db\<lparr>ad_leases := filter (\<lambda>x. \<not> (sl_key x = key \<and> sl_ownerId x = owner)) (ad_leases db)\<rparr>"

definition revokeActive :: "string \<Rightarrow> string \<Rightarrow> instant \<Rightarrow> 'w auto_db \<Rightarrow> 'w auto_db" where
  "revokeActive tenantId automationId revokedAt db = db\<lparr>ad_keys := upd_where (\<lambda>k. ek_tenantId k = tenantId
     \<and> ek_automationId k = automationId \<and> ek_revokedAt k = None) (\<lambda>k. k\<lparr>ek_revokedAt := Some revokedAt\<rparr>) (ad_keys db)\<rparr>"

definition findActiveByHash :: "string \<Rightarrow> 'w auto_db \<Rightarrow> external_key option" where
  "findActiveByHash hash db = find (\<lambda>k. ek_keyHash k = hash \<and> ek_revokedAt k = None) (ad_keys db)"

end
