(* ===== verification/AutomationRuns.thy ===== *)
theory AutomationRuns
  imports AutomationModel
begin

text \<open>
  The execution of a run, \<open>application/automation-run-coordinator.ts\<close> of \<open>modules/automations\<close>.

  The port that performs an action may change the database and the clock while it works: another request may stop the run
  meanwhile. \<open>action_error\<close> has the members of a JavaScript error that the coordinator reads; errors of the repository become such
  values by \<open>of_error\<close>. The local time of a time zone and the quotient of two counts are parameters.
\<close>

section \<open>Errors and the ports\<close>

record action_error =
  te_errorCode :: "string option"
  te_message :: string
  te_asyncPending :: bool
  te_failureStage :: "failure_stage option"

fun of_error :: "error \<Rightarrow> action_error" where
  "of_error (AppError c) = \<lparr>te_errorCode = Some c, te_message = c, te_asyncPending = False, te_failureStage = None\<rparr>"
| "of_error (SecurityError c r) = \<lparr>te_errorCode = Some c, te_message = r, te_asyncPending = False, te_failureStage = None\<rparr>"
| "of_error (PlainError m) = \<lparr>te_errorCode = None, te_message = m, te_asyncPending = False, te_failureStage = None\<rparr>"
| "of_error (DbError c) = \<lparr>te_errorCode = None, te_message = c, te_asyncPending = False, te_failureStage = None\<rparr>"

definition repo :: "'a result \<times> 's \<Rightarrow> (action_error + 'a) \<times> 's" where
  "repo x = (case x of (Inl e, s) \<Rightarrow> (Inl (of_error e), s) | (Inr v, s) \<Rightarrow> (Inr v, s))"

definition chain :: "(action_error + 'a) \<times> 's \<Rightarrow> ('a \<Rightarrow> 's \<Rightarrow> (action_error + 'b) \<times> 's) \<Rightarrow> (action_error + 'b) \<times> 's" where
  "chain x k = (case x of (Inl e, s) \<Rightarrow> (Inl e, s) | (Inr v, s) \<Rightarrow> k v s)"

datatype answer_status = Answer_succeeded | Answer_running | Answer_waiting_approval

record action_answer =
  an_status :: answer_status
  an_referenceType :: "reference_type option"
  an_referenceId :: "string option"

record 'w auto_env =
  ae_uuid :: "nat \<Rightarrow> string"
  ae_local :: "string \<Rightarrow> instant \<Rightarrow> nat \<times> nat \<times> nat"     \<comment> \<open>day of the week from Sunday, hour, minute\<close>
  ae_ratio :: "nat \<Rightarrow> nat \<Rightarrow> rat"
  ae_execute :: "auto_run \<Rightarrow> auto_target option \<Rightarrow> automation_action \<Rightarrow> 'w auto_db \<Rightarrow> (action_error + action_answer) \<times> 'w auto_db"
  ae_cleanup :: "(string \<Rightarrow> string \<Rightarrow> 'w auto_db \<Rightarrow> bool result \<times> 'w auto_db) option"

section \<open>Helpers\<close>

text \<open>\<open><=\<close> on strings, and a number with two digits.\<close>

fun text_le :: "string \<Rightarrow> string \<Rightarrow> bool" where
  "text_le [] _ = True"
| "text_le (_ # _) [] = False"
| "text_le (a # s) (b # t) = (of_char a < (of_char b :: nat) \<or> a = b \<and> text_le s t)"

definition two_digits :: "nat \<Rightarrow> string" where
  "two_digits n = [char_of (48 + n div 10), char_of (48 + n mod 10)]"

definition clock_text :: "nat \<Rightarrow> nat \<Rightarrow> string" where
  "clock_text h m = two_digits h @ '':'' @ two_digits m"

definition isWithinMaintenanceWindow :: "(string \<Rightarrow> instant \<Rightarrow> nat \<times> nat \<times> nat) \<Rightarrow> run_window option \<Rightarrow> instant \<Rightarrow> bool" where
  "isWithinMaintenanceWindow local w now = (case w of None \<Rightarrow> True | Some w \<Rightarrow>
     (case local (rw_timeZone w) now of (day, h, m) \<Rightarrow> (let time = clock_text h m in
        if text_le (rw_startTime w) (rw_endTime w)
        then day \<in> set (rw_daysOfWeek w) \<and> text_le (rw_startTime w) time \<and> text_le time (rw_endTime w)
        else if text_le (rw_startTime w) time then day \<in> set (rw_daysOfWeek w)
        else text_le time (rw_endTime w) \<and> (day + 6) mod 7 \<in> set (rw_daysOfWeek w))))"

definition count_targets :: "run_target_status \<Rightarrow> auto_target list \<Rightarrow> int" where
  "count_targets s ts = int (length (filter (\<lambda>t. tg_status t = s) ts))"

definition summarizeTargets :: "auto_target list \<Rightarrow> target_summary" where
  "summarizeTargets ts = \<lparr>sm_total = int (length ts), sm_pending = count_targets AT_pending ts, sm_running = count_targets AT_running ts,
     sm_waitingApproval = count_targets AT_waiting_approval ts, sm_succeeded = count_targets AT_succeeded ts,
     sm_failed = count_targets AT_failed ts, sm_skipped = count_targets AT_skipped ts, sm_cancelled = count_targets AT_cancelled ts\<rparr>"

definition failureStageFromError :: "action_error \<Rightarrow> failure_stage \<Rightarrow> failure_stage" where
  "failureStageFromError e fallback = (let code = toUpperCase (getOrElse (te_errorCode e) (te_message e)) in
     if str_includes code ''ROLLBACK'' then FS_rollback
     else if str_includes code ''VERIFY'' \<or> str_includes code ''TLS'' then FS_verification
     else if str_includes code ''APPROVAL'' then FS_approval else fallback)"

definition fallback_stage :: "action_type \<Rightarrow> failure_stage" where
  "fallback_stage a = (case a of Create_deployment_plan \<Rightarrow> FS_plan_creation | Send_notification \<Rightarrow> FS_notification
     | Execute_deployment_plan \<Rightarrow> FS_execution)"

definition requireRun :: "string \<Rightarrow> string \<Rightarrow> 'w auto_db \<Rightarrow> (action_error + auto_run) \<times> 'w auto_db" where
  "requireRun runId tenantId db = (case auto_getRun runId tenantId db of
       None \<Rightarrow> (Inl (of_error (PlainError ''automation run not found'')), db) | Some r \<Rightarrow> (Inr r, db))"

definition cancelPendingTargets :: "string \<Rightarrow> string \<Rightarrow> instant \<Rightarrow> 'w auto_db \<Rightarrow> unit result \<times> 'w auto_db" where
  "cancelPendingTargets runId tenantId finishedAt db = for_each (\<lambda>t db. andThen (updateRunTarget (tg_id t) tenantId
       (\<lambda>t. t\<lparr>tg_status := AT_cancelled, tg_finishedAt := Some finishedAt, tg_updatedAt := finishedAt\<rparr>) db) (\<lambda>_ db. (Inr (), db)))
     (filter (\<lambda>t. tg_status t = AT_pending) (listRunTargets runId tenantId db)) db"

definition cleanupTemporaryPlans :: "'w auto_env \<Rightarrow> string \<Rightarrow> string \<Rightarrow> 'w auto_db \<Rightarrow> unit result \<times> 'w auto_db" where
  "cleanupTemporaryPlans env runId tenantId db = (case ae_cleanup env of None \<Rightarrow> (Inr (), db)
     | Some cleanup \<Rightarrow> for_each (\<lambda>planId db. andThen (cleanup planId tenantId db) (\<lambda>_ db. (Inr (), db)))
         (set_dedup (filter (\<lambda>p. p \<noteq> []) (List.map_filter tg_deploymentPlanId (listRunTargets runId tenantId db)))) db)"

section \<open>One action\<close>

text \<open>The call of the port, kept in the log of calls.\<close>

definition call_outcome_of :: "action_error + action_answer \<Rightarrow> call_outcome" where
  "call_outcome_of r = (case r of Inl e \<Rightarrow> if te_asyncPending e then Call_pending_error else Call_failed
     | Inr a \<Rightarrow> (case an_status a of Answer_succeeded \<Rightarrow> Call_succeeded | Answer_running \<Rightarrow> Call_running
         | Answer_waiting_approval \<Rightarrow> Call_waiting_approval))"

definition call_action :: "'w auto_env \<Rightarrow> auto_run \<Rightarrow> string \<Rightarrow> auto_target \<Rightarrow> automation_action \<Rightarrow> 'w auto_db
    \<Rightarrow> (action_error + action_answer) \<times> 'w auto_db" where
  "call_action env run tenantId t a db = (case ae_execute env run (getRunTarget (tg_id t) tenantId db) a db of (r, db) \<Rightarrow>
     (r, db\<lparr>ad_calls := ad_calls db @ [\<lparr>al_runId = ar_id run, al_targetId = tg_id t, al_action = ac_type a,
        al_position = ac_position a, al_outcome = call_outcome_of r\<rparr>]\<rparr>))"

definition result_patch :: "instant \<Rightarrow> action_answer \<Rightarrow> action_result \<Rightarrow> action_result" where
  "result_patch now a x = x\<lparr>ax_status := (if an_status a = Answer_succeeded then AX_succeeded else AX_running),
     ax_externalReferenceType := an_referenceType a, ax_externalReferenceId := an_referenceId a, ax_failureStage := None,
     ax_errorCode := None, ax_errorMessage := None,
     ax_finishedAt := (if an_status a = Answer_succeeded then Some now else None)\<rparr>"

definition link_patch :: "auto_target option \<Rightarrow> action_answer \<Rightarrow> auto_target \<Rightarrow> auto_target" where
  "link_patch current a t = (case an_referenceType a of
       Some Ref_deployment_plan \<Rightarrow> t\<lparr>tg_deploymentPlanId := an_referenceId a\<rparr>
     | Some Ref_execution_run \<Rightarrow> t\<lparr>tg_executionRunId := an_referenceId a\<rparr>
     | Some Ref_notification_request \<Rightarrow> t\<lparr>tg_notificationRequestIds :=
         (case current of None \<Rightarrow> [] | Some c \<Rightarrow> tg_notificationRequestIds c) @ [getOrElse (an_referenceId a) ''undefined'']\<rparr>
     | None \<Rightarrow> t)"

definition perform_action :: "'w auto_env \<Rightarrow> auto_run \<Rightarrow> string \<Rightarrow> auto_target \<Rightarrow> automation_action \<Rightarrow> string \<Rightarrow> 'w auto_db
    \<Rightarrow> (action_error + answer_status) \<times> 'w auto_db" where
  "perform_action env run tenantId t a resultId db = chain (call_action env run tenantId t a db) (\<lambda>answer db.
     chain (repo (updateActionResult resultId tenantId (result_patch (ad_now db) answer) db)) (\<lambda>_ db.
     chain (repo (updateRunTarget (tg_id t) tenantId (\<lambda>x. (link_patch (getRunTarget (tg_id t) tenantId db) answer x)
         \<lparr>tg_currentAction := Some (ac_type a), tg_errorCode := None, tg_errorMessage := None, tg_updatedAt := ad_now db\<rparr>) db)) (\<lambda>_ db.
     (Inr (an_status answer), db))))"

definition existing_result :: "auto_run \<Rightarrow> string \<Rightarrow> auto_target \<Rightarrow> automation_action \<Rightarrow> 'w auto_db \<Rightarrow> action_result option" where
  "existing_result run tenantId t a db = (if tg_currentAction t = Some (ac_type a)
     then find (\<lambda>x. ax_runTargetId x = Some (tg_id t) \<and> ax_actionType x = ac_type a \<and> ax_status x = AX_running)
       (rev (listActionResults (ar_id run) tenantId db)) else None)"

definition new_result :: "string \<Rightarrow> auto_run \<Rightarrow> string \<Rightarrow> auto_target \<Rightarrow> automation_action \<Rightarrow> instant \<Rightarrow> action_result" where
  "new_result i run tenantId t a now = \<lparr>ax_id = i, ax_tenantId = tenantId, ax_runId = ar_id run, ax_runTargetId = Some (tg_id t),
     ax_actionType = ac_type a, ax_actionPosition = ac_position a, ax_status = AX_running, ax_externalReferenceType = None,
     ax_externalReferenceId = None, ax_failureStage = None, ax_errorCode = None, ax_errorMessage = None,
     ax_startedAt = Some now, ax_finishedAt = None, ax_createdAt = now\<rparr>"

text \<open>The result row of an action: one that is still running, or a new one.\<close>

definition open_result :: "'w auto_env \<Rightarrow> auto_run \<Rightarrow> string \<Rightarrow> auto_target \<Rightarrow> automation_action \<Rightarrow> 'w auto_db
    \<Rightarrow> (action_error + string) \<times> 'w auto_db" where
  "open_result env run tenantId t a db = (case existing_result run tenantId t a db of Some x \<Rightarrow> (Inr (ax_id x), db)
     | None \<Rightarrow> (case drawId (ae_uuid env) ''aar'' db of (i, db) \<Rightarrow>
         chain (repo (createActionResult (new_result i run tenantId t a (ad_now db)) db)) (\<lambda>_ db. (Inr i, db))))"

definition code_of :: "action_error \<Rightarrow> string \<Rightarrow> string" where
  "code_of e fallback = getOrElse (te_errorCode e) fallback"

text \<open>The inner \<open>catch\<close>: an action that waits for a receipt stays running, any other error fails its result.\<close>

definition catch_action :: "string \<Rightarrow> auto_target \<Rightarrow> automation_action \<Rightarrow> string \<Rightarrow> action_error \<Rightarrow> 'w auto_db
    \<Rightarrow> (action_error + answer_status) \<times> 'w auto_db" where
  "catch_action tenantId t a resultId e db = (if te_asyncPending e
     then chain (repo (updateActionResult resultId tenantId (\<lambda>x. x\<lparr>ax_status := AX_running,
            ax_errorCode := Some (code_of e ''AUTOMATION_ACTION_PENDING''), ax_errorMessage := Some (te_message e)\<rparr>) db)) (\<lambda>_ db.
          chain (repo (updateRunTarget (tg_id t) tenantId (\<lambda>x. x\<lparr>tg_status := AT_running, tg_currentAction := Some (ac_type a),
            tg_errorCode := Some (code_of e ''AUTOMATION_ACTION_PENDING''), tg_errorMessage := Some (te_message e),
            tg_updatedAt := ad_now db\<rparr>) db)) (\<lambda>_ db. (Inr Answer_running, db)))
     else (let stage = failureStageFromError e (fallback_stage (ac_type a)) in
          chain (repo (updateActionResult resultId tenantId (\<lambda>x. x\<lparr>ax_status := AX_failed, ax_failureStage := Some stage,
            ax_errorCode := Some (code_of e ''AUTOMATION_ACTION_FAILED''), ax_errorMessage := Some (te_message e),
            ax_finishedAt := Some (ad_now db)\<rparr>) db)) (\<lambda>_ db. (Inl (e\<lparr>te_failureStage := Some stage\<rparr>), db))))"

definition run_target_action :: "'w auto_env \<Rightarrow> auto_run \<Rightarrow> string \<Rightarrow> auto_target \<Rightarrow> automation_action \<Rightarrow> 'w auto_db
    \<Rightarrow> (action_error + answer_status) \<times> 'w auto_db" where
  "run_target_action env run tenantId t a db = chain (open_result env run tenantId t a db) (\<lambda>resultId db.
     case perform_action env run tenantId t a resultId db of (Inr s, db) \<Rightarrow> (Inr s, db)
     | (Inl e, db) \<Rightarrow> catch_action tenantId t a resultId e db)"

section \<open>One target\<close>

fun run_actions :: "'w auto_env \<Rightarrow> auto_run \<Rightarrow> string \<Rightarrow> auto_target \<Rightarrow> automation_action list \<Rightarrow> 'w auto_db
    \<Rightarrow> (action_error + answer_status) \<times> 'w auto_db" where
  "run_actions env run tenantId t [] db = (Inr Answer_succeeded, db)"
| "run_actions env run tenantId t (a # as) db = chain (run_target_action env run tenantId t a db) (\<lambda>s db.
     if s \<noteq> Answer_succeeded then (Inr s, db) else run_actions env run tenantId t as db)"

text \<open>\<open>findIndex\<close> of the type of the current action; an action that is not found counts as the first.\<close>

definition resume_index :: "automation_action list \<Rightarrow> auto_target \<Rightarrow> nat" where
  "resume_index ordered t = (case tg_currentAction t of None \<Rightarrow> 0
     | Some a \<Rightarrow> (let i = length (takeWhile (\<lambda>x. ac_type x \<noteq> a) ordered) in if i < length ordered then i else 0))"

definition target_after :: "answer_status \<Rightarrow> run_target_status" where
  "target_after s = (case s of Answer_succeeded \<Rightarrow> AT_succeeded | Answer_running \<Rightarrow> AT_running
     | Answer_waiting_approval \<Rightarrow> AT_waiting_approval)"

definition run_target :: "'w auto_env \<Rightarrow> auto_run \<Rightarrow> string \<Rightarrow> automation_action list \<Rightarrow> auto_target \<Rightarrow> 'w auto_db
    \<Rightarrow> (action_error + unit) \<times> 'w auto_db" where
  "run_target env run tenantId ordered t db =
     chain (repo (updateRunTarget (tg_id t) tenantId
       (\<lambda>x. x\<lparr>tg_status := AT_running, tg_startedAt := Some (ad_now db), tg_updatedAt := ad_now db\<rparr>) db)) (\<lambda>_ db.
     chain (run_actions env run tenantId t (drop (resume_index ordered t) ordered) db) (\<lambda>s db.
     chain (repo (updateRunTarget (tg_id t) tenantId (\<lambda>x. x\<lparr>tg_status := target_after s,
         tg_finishedAt := (if s = Answer_succeeded then Some (ad_now db) else None), tg_updatedAt := ad_now db\<rparr>) db)) (\<lambda>_ db.
     (Inr (), db))))"

definition fail_target :: "string \<Rightarrow> auto_target \<Rightarrow> action_error \<Rightarrow> 'w auto_db \<Rightarrow> (action_error + auto_target) \<times> 'w auto_db" where
  "fail_target tenantId t e db = repo (updateRunTarget (tg_id t) tenantId (\<lambda>x. x\<lparr>tg_status := AT_failed,
     tg_failureStage := Some (getOrElse (te_failureStage e) FS_execution), tg_errorCode := Some (code_of e ''AUTOMATION_ACTION_FAILED''),
     tg_errorMessage := Some (te_message e), tg_finishedAt := Some (ad_now db), tg_updatedAt := ad_now db\<rparr>) db)"

section \<open>All targets\<close>

text \<open>The end of a run that needs attention: what is pending is cancelled, the run written, temporary plans removed.\<close>

definition halt_run :: "'w auto_env \<Rightarrow> auto_run \<Rightarrow> string \<Rightarrow> failure_stage option \<Rightarrow> instant \<Rightarrow> 'w auto_db
    \<Rightarrow> (action_error + auto_run) \<times> 'w auto_db" where
  "halt_run env run tenantId stage finishedAt db =
     chain (repo (cancelPendingTargets (ar_id run) tenantId finishedAt db)) (\<lambda>_ db.
     chain (repo (auto_updateRun (ar_id run) tenantId (\<lambda>r. r\<lparr>ar_status := AR_needs_attention, au_failureStage := stage,
       ar_targetSummary := summarizeTargets (listRunTargets (ar_id run) tenantId db), au_finishedAt := Some finishedAt\<rparr>) db)) (\<lambda>run db.
     chain (repo (cleanupTemporaryPlans env (ar_id run) tenantId db)) (\<lambda>_ db. (Inr run, db))))"

definition first_failure :: "auto_target list \<Rightarrow> failure_stage option" where
  "first_failure ts = (case find (\<lambda>t. tg_status t = AT_failed) ts of None \<Rightarrow> None | Some t \<Rightarrow> tg_failureStage t)"

definition guard_tripped :: "(nat \<Rightarrow> nat \<Rightarrow> rat) \<Rightarrow> guardrails \<Rightarrow> nat \<Rightarrow> target_summary \<Rightarrow> bool" where
  "guard_tripped ratio g consecutiveFailures s =
     (let processed = sm_succeeded s + sm_failed s + sm_skipped s + sm_cancelled s;
          failureRate = (if processed = 0 then 0 else ratio (nat (sm_failed s)) (nat processed))
      in (case gd_failureCountThreshold g of None \<Rightarrow> False | Some k \<Rightarrow> k \<noteq> 0 \<and> k \<le> int consecutiveFailures)
         \<or> (case gd_failureRateThreshold g of None \<Rightarrow> False | Some k \<Rightarrow> k \<noteq> 0 \<and> k \<le> failureRate))"

definition stops_on_error :: "auto_run \<Rightarrow> bool" where
  "stops_on_error r \<longleftrightarrow> (case au_executionOptions r of None \<Rightarrow> False | Some x \<Rightarrow> eo_stopOnError x = Some True)"

text \<open>After a target: the run is halted when a threshold is reached, else the loop goes on.\<close>

definition after_target :: "'w auto_env \<Rightarrow> guardrails \<Rightarrow> auto_run \<Rightarrow> string \<Rightarrow> nat \<Rightarrow> 'w auto_db
    \<Rightarrow> (action_error + auto_run option) \<times> 'w auto_db" where
  "after_target env g run tenantId consecutiveFailures db =
     (let latest = listRunTargets (ar_id run) tenantId db in
      if guard_tripped (ae_ratio env) g consecutiveFailures (summarizeTargets latest)
      then chain (halt_run env run tenantId (first_failure latest) (ad_now db) db) (\<lambda>r db. (Inr (Some r), db))
      else (Inr None, db))"

text \<open>The failure of a target: None when the loop goes on.\<close>

definition after_failure :: "'w auto_env \<Rightarrow> auto_run \<Rightarrow> auto_run \<Rightarrow> string \<Rightarrow> auto_target \<Rightarrow> action_error \<Rightarrow> 'w auto_db
    \<Rightarrow> (action_error + auto_run option) \<times> 'w auto_db" where
  "after_failure env run latestRun tenantId t e db = chain (fail_target tenantId t e db) (\<lambda>_ db.
     if stops_on_error latestRun
     then chain (halt_run env run tenantId (Some (getOrElse (te_failureStage e) FS_execution)) (ad_now db) db) (\<lambda>r db. (Inr (Some r), db))
     else (Inr None, db))"

fun run_targets :: "'w auto_env \<Rightarrow> guardrails \<Rightarrow> auto_run \<Rightarrow> string \<Rightarrow> automation_action list \<Rightarrow> nat \<Rightarrow> auto_target list \<Rightarrow> 'w auto_db
    \<Rightarrow> (action_error + auto_run option) \<times> 'w auto_db" where
  "run_targets env g run tenantId ordered n [] db = (Inr None, db)"
| "run_targets env g run tenantId ordered n (t # ts) db =
     (if tg_status t \<notin> {AT_pending, AT_running, AT_waiting_approval} then run_targets env g run tenantId ordered n ts db
      else chain (requireRun (ar_id run) tenantId db) (\<lambda>latestRun db.
        if ar_status latestRun = AR_stopped then (Inr None, db)
        else (case run_target env run tenantId ordered t db of
          (Inr _, db) \<Rightarrow> chain (after_target env g run tenantId 0 db) (\<lambda>r db.
             case r of Some r \<Rightarrow> (Inr (Some r), db) | None \<Rightarrow> run_targets env g run tenantId ordered 0 ts db)
        | (Inl e, db) \<Rightarrow> chain (after_failure env run latestRun tenantId t e db) (\<lambda>r db.
             case r of Some r \<Rightarrow> (Inr (Some r), db)
             | None \<Rightarrow> chain (after_target env g run tenantId (Suc n) db) (\<lambda>r db.
                 case r of Some r \<Rightarrow> (Inr (Some r), db) | None \<Rightarrow> run_targets env g run tenantId ordered (Suc n) ts db)))))"

section \<open>Runs\<close>

definition finished_status :: "target_summary \<Rightarrow> AutomationRunStatus" where
  "finished_status s = (if sm_waitingApproval s > 0 then AR_waiting_approval else if sm_running s > 0 then AR_running
     else if sm_failed s = 0 then AR_succeeded else if sm_succeeded s > 0 then AR_partially_succeeded else AR_failed)"

definition finish :: "'w auto_env \<Rightarrow> string \<Rightarrow> string \<Rightarrow> 'w auto_db \<Rightarrow> (action_error + auto_run) \<times> 'w auto_db" where
  "finish env runId tenantId db =
     (let targets = listRunTargets runId tenantId db; summary = summarizeTargets targets; s = finished_status summary;
          over = s \<in> {AR_succeeded, AR_partially_succeeded, AR_failed}
      in chain (repo (auto_updateRun runId tenantId (\<lambda>r. r\<lparr>ar_status := s, ar_targetSummary := summary,
           au_failureStage := first_failure targets, au_finishedAt := (if over then Some (ad_now db) else None)\<rparr>) db)) (\<lambda>updated db.
         if over then chain (repo (cleanupTemporaryPlans env runId tenantId db)) (\<lambda>_ db. (Inr updated, db)) else (Inr updated, db)))"

definition terminal_run :: "auto_run \<Rightarrow> bool" where
  "terminal_run r \<longleftrightarrow> ar_status r \<in> {AR_succeeded, AR_partially_succeeded, AR_failed, AR_needs_attention, AR_stopped, AR_cancelled}"

definition ordered_actions :: "automation_version \<Rightarrow> automation_action list" where
  "ordered_actions v = sort_key ac_position (cf_actions (av_configuration v))"

definition start_run :: "string \<Rightarrow> string \<Rightarrow> 'w auto_db \<Rightarrow> (action_error + auto_run) \<times> 'w auto_db" where
  "start_run runId tenantId db = repo (auto_updateRun runId tenantId (\<lambda>r. r\<lparr>ar_status := AR_running,
     au_startedAt := Some (getOrElse (au_startedAt r) (ad_now db))\<rparr>) db)"

definition refuse_closed :: "'w auto_env \<Rightarrow> string \<Rightarrow> string \<Rightarrow> 'w auto_db \<Rightarrow> (action_error + auto_run) \<times> 'w auto_db" where
  "refuse_closed env runId tenantId db =
     chain (repo (auto_updateRun runId tenantId (\<lambda>r. r\<lparr>ar_status := AR_needs_attention, au_failureStage := Some FS_execution,
       au_failureCode := Some ''MAINTENANCE_WINDOW_CLOSED'', au_failureMessage := Some ''outside of the maintenance window'',
       au_finishedAt := Some (ad_now db)\<rparr>) db)) (\<lambda>updated db.
     chain (repo (cleanupTemporaryPlans env runId tenantId db)) (\<lambda>_ db. (Inr updated, db)))"

definition coordinator_execute :: "'w auto_env \<Rightarrow> string \<Rightarrow> string \<Rightarrow> 'w auto_db \<Rightarrow> (action_error + auto_run) \<times> 'w auto_db" where
  "coordinator_execute env runId tenantId db = chain (requireRun runId tenantId db) (\<lambda>run db.
     if terminal_run run then (Inr run, db)
     else (case auto_getVersion (ar_automationId run) (au_automationVersion run) tenantId db of
       None \<Rightarrow> (Inl (of_error (PlainError ''automation version missing'')), db)
     | Some version \<Rightarrow> (let g = cf_guardrails (av_configuration version) in
         if \<not> isWithinMaintenanceWindow (ae_local env) (gd_maintenanceWindow g) (ad_now db) then refuse_closed env runId tenantId db
         else chain (start_run runId tenantId db) (\<lambda>run db.
           chain (run_targets env g run tenantId (ordered_actions version) 0 (listRunTargets runId tenantId db) db) (\<lambda>r db.
             case r of Some r \<Rightarrow> (Inr r, db) | None \<Rightarrow> finish env runId tenantId db)))))"

definition coordinator_stop :: "'w auto_env \<Rightarrow> string \<Rightarrow> string \<Rightarrow> 'w auto_db \<Rightarrow> (action_error + auto_run) \<times> 'w auto_db" where
  "coordinator_stop env runId tenantId db = chain (requireRun runId tenantId db) (\<lambda>run db.
     chain (repo (cancelPendingTargets runId tenantId (ad_now db) db)) (\<lambda>_ db.
     chain (repo (auto_updateRun runId tenantId (\<lambda>r. r\<lparr>ar_status := AR_stopped,
       ar_targetSummary := summarizeTargets (listRunTargets runId tenantId db), au_finishedAt := Some (ad_now db)\<rparr>) db)) (\<lambda>stopped db.
     chain (repo (cleanupTemporaryPlans env runId tenantId db)) (\<lambda>_ db. (Inr stopped, db)))))"

section \<open>Retrying what failed\<close>

definition auto_transaction :: "('w auto_db \<Rightarrow> 'a result \<times> 'w auto_db) \<Rightarrow> 'w auto_db \<Rightarrow> 'a result \<times> 'w auto_db" where
  "auto_transaction f db = (case f db of (Inl e, _) \<Rightarrow> (Inl e, db) | (Inr x, db') \<Rightarrow> (Inr x, db'))"

definition retry_run :: "string \<Rightarrow> string \<Rightarrow> string \<Rightarrow> int \<Rightarrow> instant \<Rightarrow> auto_run \<Rightarrow> auto_run" where
  "retry_run i actorId key n now source = source\<lparr>ar_id := i, au_triggerType := TT_retry, au_parentRunId := Some (ar_id source),
     ar_approvalId := None, au_idempotencyKey := key, ar_status := AR_queued,
     ar_targetSummary := \<lparr>sm_total = n, sm_pending = n, sm_running = 0, sm_waitingApproval = 0, sm_succeeded = 0, sm_failed = 0,
       sm_skipped = 0, sm_cancelled = 0\<rparr>,
     au_failureStage := None, au_failureCode := None, au_failureMessage := None, au_startedAt := None, au_finishedAt := None,
     au_createdBy := actorId, au_createdAt := now\<rparr>"

definition retry_target :: "string \<Rightarrow> string \<Rightarrow> int \<Rightarrow> instant \<Rightarrow> auto_target \<Rightarrow> auto_target" where
  "retry_target i runId n now t = t\<lparr>tg_id := i, tg_runId := runId, tg_sequenceNo := n, tg_status := AT_pending, tg_currentAction := None,
     tg_failureStage := None, tg_deploymentPlanId := None, tg_executionRunId := None, tg_notificationRequestIds := [],
     tg_errorCode := None, tg_errorMessage := None, tg_startedAt := None, tg_finishedAt := None, tg_createdAt := now, tg_updatedAt := now\<rparr>"

definition create_retry_target :: "'w auto_env \<Rightarrow> string \<Rightarrow> instant \<Rightarrow> nat \<times> auto_target \<Rightarrow> 'w auto_db \<Rightarrow> unit result \<times> 'w auto_db" where
  "create_retry_target env runId now p db = (case drawId (ae_uuid env) ''art'' db of (i, db) \<Rightarrow>
     andThen (createRunTarget (retry_target i runId (int (fst p) + 1) now (snd p)) db) (\<lambda>_ db. (Inr (), db)))"

definition retryFailed :: "'w auto_env \<Rightarrow> string \<Rightarrow> string \<Rightarrow> string \<Rightarrow> string \<Rightarrow> 'w auto_db \<Rightarrow> (action_error + auto_run) \<times> 'w auto_db" where
  "retryFailed env runId tenantId actorId key db = chain (requireRun runId tenantId db) (\<lambda>source db.
     case auto_findRunByIdempotencyKey tenantId key db of Some r \<Rightarrow> (Inr r, db)
     | None \<Rightarrow> (let failed = filter (\<lambda>t. tg_status t = AT_failed) (listRunTargets runId tenantId db); now = ad_now db in
         case drawId (ae_uuid env) ''arun'' db of (i, db) \<Rightarrow>
           (let retry = retry_run i actorId key (int (length failed)) now source in
            chain (repo (auto_transaction (\<lambda>db. andThen (auto_createRun retry db) (\<lambda>_ db.
              for_each (create_retry_target env i now) (enumerate 0 failed) db)) db)) (\<lambda>_ db. (Inr retry, db)))))"

end
