(* ===== verification/AutomationRunProperties.thy ===== *)
theory AutomationRunProperties
  imports AutomationRuns "HOL-Library.Sublist"
begin

text \<open>
  What the execution of a run guarantees: which actions are called and in which order, when the failure threshold ends a
  run, and what becomes of a stop. A port is quiet when it leaves the log of calls alone; it may change everything else.
\<close>

section \<open>Sequencing\<close>

lemma chain_Inr: "chain x k = (Inr y, s') \<longleftrightarrow> (\<exists>v s. x = (Inr v, s) \<and> k v s = (Inr y, s'))"
  by (cases x; cases "fst x") (auto simp: chain_def)

lemma repo_Inr [simp]: "repo x = (Inr v, s) \<longleftrightarrow> x = (Inr v, s)"
  by (cases x; cases "fst x") (auto simp: repo_def)

lemma snd_repo [simp]: "snd (repo x) = snd x"
  by (cases x; cases "fst x") (auto simp: repo_def)

text \<open>A component \<open>f\<close> of the state that every call of a sequence leaves alone.\<close>

lemma chain_keeps:
  "f (snd x) = c \<Longrightarrow> (\<And>v s. f s = c \<Longrightarrow> f (snd (k v s)) = c) \<Longrightarrow> f (snd (chain x k)) = c"
  by (cases x; cases "fst x") (auto simp: chain_def)

lemma andThen_keeps:
  "f (snd x) = c \<Longrightarrow> (\<And>v s. f s = c \<Longrightarrow> f (snd (k v s)) = c) \<Longrightarrow> f (snd (andThen x k)) = c"
  by (cases x; cases "fst x") auto

lemma for_each_keeps:
  assumes "\<And>x s. f (snd (g x s)) = f s"
  shows "f (snd (for_each g xs s)) = f s"
proof (induction xs arbitrary: s)
  case (Cons x xs)
  show ?case by (simp, rule andThen_keeps) (simp_all add: assms Cons.IH)
qed simp

section \<open>The log of calls\<close>

definition quiet :: "'w auto_env \<Rightarrow> bool" where
  "quiet env \<longleftrightarrow> (\<forall>run t a db. ad_calls (snd (ae_execute env run t a db)) = ad_calls db)
     \<and> (\<forall>c p tenantId db. ae_cleanup env = Some c \<longrightarrow> ad_calls (snd (c p tenantId db)) = ad_calls db)"

lemma writes_keep_calls [simp]:
  "ad_calls (snd (updateRunTarget i tenantId f db)) = ad_calls db"
  "ad_calls (snd (updateActionResult i tenantId g db)) = ad_calls db"
  "ad_calls (snd (auto_updateRun i tenantId h db)) = ad_calls db"
  "ad_calls (snd (createActionResult x db)) = ad_calls db"
  by (simp_all add: updateRunTarget_def updateActionResult_def auto_updateRun_def createActionResult_def split: option.splits)

lemmas calls_kept = chain_keeps [where f = ad_calls] andThen_keeps [where f = ad_calls] for_each_keeps [where f = ad_calls]

lemma requireRun_same [simp]: "snd (requireRun runId tenantId db) = db"
  by (simp add: requireRun_def split: option.splits)

lemma cancel_keeps_calls [simp]: "ad_calls (snd (cancelPendingTargets runId tenantId now db)) = ad_calls db"
  unfolding cancelPendingTargets_def by (intro calls_kept) simp_all

lemma cleanup_keeps_calls [simp]:
  assumes "quiet env"
  shows "ad_calls (snd (cleanupTemporaryPlans env runId tenantId db)) = ad_calls db"
proof (cases "ae_cleanup env")
  case (Some c)
  then have "ad_calls (snd (c p t s)) = ad_calls s" for p t s using assms by (simp add: quiet_def)
  then show ?thesis unfolding cleanupTemporaryPlans_def Some option.case by (intro calls_kept) simp_all
qed (simp add: cleanupTemporaryPlans_def)

lemma halt_keeps_calls [simp]:
  assumes "quiet env" shows "ad_calls (snd (halt_run env run tenantId stage now db)) = ad_calls db"
  unfolding halt_run_def by (intro calls_kept) (simp_all add: assms)

lemma finish_keeps_calls [simp]:
  assumes "quiet env" shows "ad_calls (snd (finish env runId tenantId db)) = ad_calls db"
  unfolding finish_def Let_def by (intro calls_kept) (auto intro!: calls_kept simp: assms)

section \<open>The calls of a pass\<close>

definition call_of :: "auto_run \<Rightarrow> auto_target \<Rightarrow> automation_action \<Rightarrow> call_outcome \<Rightarrow> action_call" where
  "call_of run t a out = \<lparr>al_runId = ar_id run, al_targetId = tg_id t, al_action = ac_type a, al_position = ac_position a, al_outcome = out\<rparr>"

text \<open>The calls made for a target, from the action it resumes with, when they ended as \<open>outs\<close> says.\<close>

definition target_trace :: "auto_run \<Rightarrow> automation_action list \<Rightarrow> auto_target \<Rightarrow> call_outcome list \<Rightarrow> action_call list" where
  "target_trace run ordered t outs = map2 (call_of run t) (drop (resume_index ordered t) ordered) outs"

lemma open_result_keeps_calls [simp]: "ad_calls (snd (open_result env run tenantId t a db)) = ad_calls db"
  unfolding open_result_def by (auto simp: drawId_def split: option.splits intro!: calls_kept)

lemma call_action_calls:
  assumes "quiet env" "call_action env run tenantId t a db = (r, db')"
  shows "ad_calls db' = ad_calls db @ [call_of run t a (call_outcome_of r)]"
  using assms by (auto simp: call_action_def call_of_def quiet_def split: prod.splits) (metis snd_conv)

lemma of_error_sync [simp]: "\<not> te_asyncPending (of_error e)"
  by (cases e) simp_all

lemma perform_action_calls:
  assumes "quiet env" "perform_action env run tenantId t a i db = (r, db')"
  shows "\<exists>out. ad_calls db' = ad_calls db @ [call_of run t a out]
    \<and> (case r of Inr Answer_succeeded \<Rightarrow> out = Call_succeeded | Inr _ \<Rightarrow> out \<in> {Call_running, Call_waiting_approval}
       | Inl e \<Rightarrow> (if te_asyncPending e then out = Call_pending_error else True))"
proof -
  obtain r1 db1 where c: "call_action env run tenantId t a db = (r1, db1)" by fastforce
  note log = call_action_calls [OF assms(1) c]
  show ?thesis
  proof (cases r1)
    case (Inl e)
    then have "r = Inl e" "db' = db1" using assms(2) c by (simp_all add: perform_action_def chain_def)
    then show ?thesis using log Inl by (auto simp: call_outcome_of_def)
  next
    case (Inr x)
    let ?rest = "chain (repo (updateActionResult i tenantId (result_patch (ad_now db1) x) db1)) (\<lambda>_ db.
     chain (repo (updateRunTarget (tg_id t) tenantId (\<lambda>y. (link_patch (getRunTarget (tg_id t) tenantId db) x y)
         \<lparr>tg_currentAction := Some (ac_type a), tg_errorCode := None, tg_errorMessage := None, tg_updatedAt := ad_now db\<rparr>) db)) (\<lambda>_ db.
     (Inr (an_status x), db)))"
    have r: "?rest = (r, db')" using assms(2) c Inr by (simp add: perform_action_def chain_def)
    have "ad_calls (snd ?rest) = ad_calls db1" by (intro calls_kept) simp_all
    moreover have "case r of Inr s \<Rightarrow> s = an_status x | Inl e \<Rightarrow> \<not> te_asyncPending e"
      using r by (auto simp: chain_def repo_def split: sum.splits prod.splits)
    ultimately show ?thesis using log Inr r
      by (cases r; cases "an_status x") (auto simp: call_outcome_of_def)
  qed
qed

lemma catch_action_keeps_calls [simp]: "ad_calls (snd (catch_action tenantId t a i e db)) = ad_calls db"
  unfolding catch_action_def Let_def by (auto intro!: calls_kept)

lemma catch_action_result:
  "catch_action tenantId t a i e db = (r, db') \<Longrightarrow> isl r \<or> te_asyncPending e \<and> r = Inr Answer_running"
  by (auto simp: catch_action_def chain_def repo_def Let_def split: sum.splits prod.splits if_splits)

lemma kept_calls: "x = (r, db') \<Longrightarrow> ad_calls (snd x) = c \<Longrightarrow> ad_calls db' = c"
  by simp

lemma run_target_action_calls:
  assumes "quiet env" "run_target_action env run tenantId t a db = (r, db')"
  shows "\<exists>outs. length outs \<le> 1 \<and> ad_calls db' = ad_calls db @ map (call_of run t a) outs
    \<and> (case r of Inr Answer_succeeded \<Rightarrow> outs = [Call_succeeded] | Inr _ \<Rightarrow> outs \<noteq> [] \<and> Call_failed \<notin> set outs | Inl e \<Rightarrow> True)"
proof -
  obtain r1 db1 where o: "open_result env run tenantId t a db = (r1, db1)" by fastforce
  then have o1: "ad_calls db1 = ad_calls db" by (rule kept_calls) simp
  show ?thesis
  proof (cases r1)
    case (Inl e)
    then have "r = Inl e" "db' = db1" using assms(2) o by (simp_all add: run_target_action_def chain_def)
    then show ?thesis using o1 by (auto intro!: exI [of _ "[]"])
  next
    case (Inr i)
    obtain r2 db2 where p: "perform_action env run tenantId t a i db1 = (r2, db2)" by fastforce
    obtain out where out: "ad_calls db2 = ad_calls db @ [call_of run t a out]"
      "case r2 of Inr Answer_succeeded \<Rightarrow> out = Call_succeeded | Inr _ \<Rightarrow> out \<in> {Call_running, Call_waiting_approval}
       | Inl e \<Rightarrow> (if te_asyncPending e then out = Call_pending_error else True)"
      using perform_action_calls [OF assms(1) p] o1 by auto
    show ?thesis
    proof (cases r2)
      case (Inr s)
      then have "r = Inr s" "db' = db2" using assms(2) o p \<open>r1 = Inr i\<close> by (simp_all add: run_target_action_def chain_def)
      then show ?thesis using out Inr by (intro exI [of _ "[out]"]) (cases s; auto)
    next
      case (Inl e)
      then have step: "catch_action tenantId t a i e db2 = (r, db')"
        using assms(2) o p \<open>r1 = Inr i\<close> by (simp add: run_target_action_def chain_def)
      then have "ad_calls db' = ad_calls db2" by (rule kept_calls) simp
      then show ?thesis using catch_action_result [OF step] out Inl
        by (intro exI [of _ "[out]"]) (cases r; auto split: if_splits)
    qed
  qed
qed

lemma run_actions_calls:
  assumes "quiet env" "run_actions env run tenantId t as db = (r, db')"
  shows "\<exists>outs. length outs \<le> length as \<and> ad_calls db' = ad_calls db @ map2 (call_of run t) as outs
    \<and> (\<forall>out \<in> set (butlast outs). out = Call_succeeded)
    \<and> (\<not> isl r \<longrightarrow> Call_failed \<notin> set outs \<and> (as \<noteq> [] \<longrightarrow> outs \<noteq> []))"
  using assms(2)
proof (induction as arbitrary: db)
  case Nil
  then show ?case by (auto intro!: exI [of _ "[]"])
next
  case (Cons a as)
  obtain r1 db1 where one: "run_target_action env run tenantId t a db = (r1, db1)" by fastforce
  obtain o1 where o1: "length o1 \<le> 1" "ad_calls db1 = ad_calls db @ map (call_of run t a) o1"
    "case r1 of Inr Answer_succeeded \<Rightarrow> o1 = [Call_succeeded] | Inr _ \<Rightarrow> o1 \<noteq> [] \<and> Call_failed \<notin> set o1 | Inl e \<Rightarrow> True"
    using run_target_action_calls [OF assms(1) one] by blast
  show ?case
  proof (cases "r1 = Inr Answer_succeeded")
    case True
    then have "run_actions env run tenantId t as db1 = (r, db')" using Cons.prems one by (simp add: chain_def)
    then obtain outs where "length outs \<le> length as" "ad_calls db' = ad_calls db1 @ map2 (call_of run t) as outs"
      "\<forall>out \<in> set (butlast outs). out = Call_succeeded" "\<not> isl r \<longrightarrow> Call_failed \<notin> set outs"
      using Cons.IH by blast
    then show ?thesis using o1 True by (intro exI [of _ "Call_succeeded # outs"]) auto
  next
    case False
    then have "r = r1" "db' = db1" using Cons.prems one by (auto simp: chain_def split: sum.splits)
    moreover have "map (call_of run t a) o1 = map2 (call_of run t) (a # as) o1" "butlast o1 = []"
      using o1(1) by (cases o1; simp)+
    ultimately show ?thesis using o1 False
      by (intro exI [of _ o1]) (cases r1; auto split: answer_status.splits)
  qed
qed

lemma run_target_calls:
  assumes "quiet env" "run_target env run tenantId ordered t db = (r, db')"
  shows "\<exists>outs. length outs \<le> length ordered - resume_index ordered t \<and> ad_calls db' = ad_calls db @ target_trace run ordered t outs
    \<and> (\<forall>out \<in> set (butlast outs). out = Call_succeeded)
    \<and> (\<not> isl r \<longrightarrow> Call_failed \<notin> set outs \<and> (ordered \<noteq> [] \<longrightarrow> outs \<noteq> []))"
proof -
  let ?as = "drop (resume_index ordered t) ordered"
  have some: "?as \<noteq> []" if "ordered \<noteq> []" using that by (auto simp: resume_index_def Let_def split: option.splits)
  obtain r1 db1 where u: "repo (updateRunTarget (tg_id t) tenantId
       (\<lambda>x. x\<lparr>tg_status := AT_running, tg_startedAt := Some (ad_now db), tg_updatedAt := ad_now db\<rparr>) db) = (r1, db1)" by fastforce
  then have u1: "ad_calls db1 = ad_calls db" by (rule kept_calls) simp
  show ?thesis
  proof (cases r1)
    case (Inl e)
    then have "r = Inl e" "db' = db1" using assms(2) u by (simp_all add: run_target_def chain_def)
    then show ?thesis using u1 by (intro exI [of _ "[]"]) (simp add: target_trace_def)
  next
    case (Inr x)
    obtain r2 db2 where a: "run_actions env run tenantId t ?as db1 = (r2, db2)" by fastforce
    obtain outs where outs: "length outs \<le> length ?as" "ad_calls db2 = ad_calls db @ target_trace run ordered t outs"
      "\<forall>out \<in> set (butlast outs). out = Call_succeeded" "\<not> isl r2 \<longrightarrow> Call_failed \<notin> set outs \<and> (?as \<noteq> [] \<longrightarrow> outs \<noteq> [])"
      using run_actions_calls [OF assms(1) a] u1 by (auto simp: target_trace_def)
    have "ad_calls db' = ad_calls db2 \<and> (isl r2 \<longrightarrow> isl r)"
    proof (cases r2)
      case (Inl e)
      then show ?thesis using assms(2) u \<open>r1 = Inr x\<close> a by (auto simp: run_target_def chain_def)
    next
      case (Inr s)
      then have "chain (repo (updateRunTarget (tg_id t) tenantId (\<lambda>x. x\<lparr>tg_status := target_after s,
         tg_finishedAt := (if s = Answer_succeeded then Some (ad_now db2) else None), tg_updatedAt := ad_now db2\<rparr>) db2)) (\<lambda>_ db.
         (Inr (), db)) = (r, db')"
        using assms(2) u \<open>r1 = Inr x\<close> a by (simp add: run_target_def chain_def)
      then have "ad_calls db' = ad_calls db2" by (rule kept_calls) (intro calls_kept, simp_all)
      then show ?thesis using Inr by simp
    qed
    then show ?thesis using outs some by (intro exI [of _ outs]) auto
  qed
qed

lemma after_keep_calls [simp]:
  assumes "quiet env"
  shows "ad_calls (snd (after_target env g run tenantId n db)) = ad_calls db"
    "ad_calls (snd (after_failure env run latest tenantId t e db)) = ad_calls db"
  unfolding after_target_def after_failure_def fail_target_def Let_def
  by (auto intro!: calls_kept simp: assms)

text \<open>How the loop goes on after a target: it returned, and then the rest ran, or it ended there.\<close>

lemma run_targets_step:
  assumes "quiet env" "run_targets env g run tenantId ordered n (t # ts) db = (r, db')"
  obtains (skipped) "run_targets env g run tenantId ordered n ts db = (r, db')"
  | (ended) "ad_calls db' = ad_calls db" "\<forall>x. r \<noteq> Inr (Some x)"
  | (called) r1 db1 where "tg_status t \<in> {AT_pending, AT_running, AT_waiting_approval}"
      "run_target env run tenantId ordered t db = (r1, db1)" "ad_calls db' = ad_calls db1"
      "(\<exists>l e d. after_failure env run l tenantId t e d = (r, db')) \<or> (\<exists>m d. after_target env g run tenantId m d = (r, db'))"
  | (continued) r1 db1 db2 n' where "tg_status t \<in> {AT_pending, AT_running, AT_waiting_approval}"
      "run_target env run tenantId ordered t db = (r1, db1)" "ad_calls db2 = ad_calls db1"
      "run_targets env g run tenantId ordered n' ts db2 = (r, db')" "n' = (if isl r1 then Suc n else 0)"
      "\<not> guard_tripped (ae_ratio env) g n' (summarizeTargets (listRunTargets (ar_id run) tenantId db2))"
proof (cases "tg_status t \<in> {AT_pending, AT_running, AT_waiting_approval}")
  case False
  then show thesis using assms(2) skipped by simp
next
  case True
  obtain r0 where q: "requireRun (ar_id run) tenantId db = (r0, db)"
    using requireRun_same [of "ar_id run" tenantId db] by (metis prod.collapse)
  obtain r1 db1 where one: "run_target env run tenantId ordered t db = (r1, db1)" by fastforce
  show thesis
  proof (cases "\<exists>l. r0 = Inr l \<and> ar_status l \<noteq> AR_stopped")
    case False
    then have "db' = db \<and> (\<forall>x. r \<noteq> Inr (Some x))" using assms(2) True q by (auto simp: chain_def split: sum.splits if_splits)
    then show thesis using ended by simp
  next
    case go: True
    then obtain l where l: "r0 = Inr l" "ar_status l \<noteq> AR_stopped" by blast
    obtain r3 db3 where f: "(case r1 of Inl e \<Rightarrow> after_failure env run l tenantId t e db1 | Inr _ \<Rightarrow> (Inr None, db1)) = (r3, db3)" by fastforce
    then have f3: "ad_calls db3 = ad_calls db1" by (rule kept_calls) (simp add: assms(1) split: sum.splits)
    let ?n = "if isl r1 then Suc n else 0"
    obtain r4 db4 where a: "after_target env g run tenantId ?n db3 = (r4, db4)" by fastforce
    then have a4: "ad_calls db4 = ad_calls db3" by (rule kept_calls) (simp add: assms(1))
    have eq: "run_targets env g run tenantId ordered n (t # ts) db =
      (case r3 of Inl e \<Rightarrow> (Inl e, db3) | Inr (Some x) \<Rightarrow> (Inr (Some x), db3) | Inr None \<Rightarrow>
        (case r4 of Inl e \<Rightarrow> (Inl e, db4) | Inr (Some x) \<Rightarrow> (Inr (Some x), db4)
         | Inr None \<Rightarrow> run_targets env g run tenantId ordered ?n ts db4))"
      using True q l one f a by (cases r1; cases r3; cases r4) (auto simp: chain_def split: option.splits)
    show thesis
    proof (cases "r3 = Inr None \<and> r4 = Inr None")
      case False
      consider "(r3, db3) = (r, db')" "r3 \<noteq> Inr None" | "(r4, db4) = (r, db')" "r3 = Inr None"
        using eq assms(2) False by (auto split: sum.splits option.splits)
      then show thesis
      proof cases
        case 1
        then have "\<exists>e. after_failure env run l tenantId t e db1 = (r, db')" using f by (auto split: sum.splits)
        then show thesis using called [OF True one] 1 f3 by auto
      next
        case 2
        then have "\<exists>m d. after_target env g run tenantId m d = (r, db')" using a by auto
        then show thesis using called [OF True one] 2 f3 a4 by auto
      qed
    next
      case both: True
      then have "\<not> guard_tripped (ae_ratio env) g ?n (summarizeTargets (listRunTargets (ar_id run) tenantId db3)) \<and> db4 = db3"
        using a by (auto simp: after_target_def Let_def chain_def split: if_splits sum.splits prod.splits)
      then show thesis using continued [OF True one, of db4 ?n] f3 a4 eq assms(2) both by simp
    qed
  qed
qed

lemma run_targets_calls:
  assumes "quiet env" "run_targets env g run tenantId ordered n ts db = (r, db')"
  shows "\<exists>passes. subseq (map fst passes) ts \<and> ad_calls db' = ad_calls db @ concat (map (\<lambda>(t, outs). target_trace run ordered t outs) passes)
    \<and> (\<forall>(t, outs) \<in> set passes. tg_status t \<in> {AT_pending, AT_running, AT_waiting_approval}
        \<and> length outs \<le> length ordered - resume_index ordered t \<and> (\<forall>out \<in> set (butlast outs). out = Call_succeeded))"
  using assms(2)
proof (induction ts arbitrary: n db)
  case Nil
  then show ?case by (auto intro!: exI [of _ "[]"])
next
  case (Cons t ts)
  have none: ?case if "ad_calls db' = ad_calls db" using that by (intro exI [of _ "[]"]) simp
  show ?case
  proof (cases rule: run_targets_step [OF assms(1) Cons.prems])
    case 1
    then show ?thesis using Cons.IH [OF 1] by (elim exE conjE) (rule exI, intro conjI, erule list_emb_Cons)
  next
    case 2
    show ?thesis by (rule none) (rule 2(1))
  next
    case (3 r1 db1)
    obtain outs where "length outs \<le> length ordered - resume_index ordered t" "ad_calls db1 = ad_calls db @ target_trace run ordered t outs"
      "\<forall>out \<in> set (butlast outs). out = Call_succeeded"
      using run_target_calls [OF assms(1) 3(2)] by blast
    then show ?thesis using 3 by (intro exI [of _ "[(t, outs)]"]) simp
  next
    case (4 r1 db1 db2 n')
    obtain outs where outs: "length outs \<le> length ordered - resume_index ordered t" "ad_calls db1 = ad_calls db @ target_trace run ordered t outs"
      "\<forall>out \<in> set (butlast outs). out = Call_succeeded"
      using run_target_calls [OF assms(1) 4(2)] by blast
    obtain passes where "subseq (map fst passes) ts"
      "ad_calls db' = ad_calls db2 @ concat (map (\<lambda>(t, outs). target_trace run ordered t outs) passes)"
      "\<forall>(t, outs) \<in> set passes. tg_status t \<in> {AT_pending, AT_running, AT_waiting_approval}
        \<and> length outs \<le> length ordered - resume_index ordered t \<and> (\<forall>out \<in> set (butlast outs). out = Call_succeeded)"
      using Cons.IH [OF 4(4)] by blast
    then show ?thesis using outs 4 by (intro exI [of _ "(t, outs) # passes"]) simp
  qed
qed

section \<open>The failure threshold\<close>

text \<open>The longest stretch of failed calls in a log that follows \<open>n\<close> failed calls.\<close>

fun longest_failing :: "nat \<Rightarrow> action_call list \<Rightarrow> nat" where
  "longest_failing n [] = n"
| "longest_failing n (c # cs) = (if al_outcome c = Call_failed then longest_failing (Suc n) cs else max n (longest_failing 0 cs))"

lemma longest_failing_mono: "m \<le> n \<Longrightarrow> longest_failing m cs \<le> longest_failing n cs"
  by (induction cs arbitrary: m n) (auto simp: le_max_iff_disj)

lemma longest_failing_start: "n \<le> longest_failing n cs"
  by (induction cs arbitrary: n) (auto dest: Suc_leD intro: Suc_leD)

lemma longest_failing_pass:
  "\<forall>c \<in> set (butlast tr). al_outcome c \<noteq> Call_failed \<Longrightarrow> longest_failing n (tr @ rest) \<le> longest_failing (Suc n) rest"
proof (induction tr arbitrary: n)
  case Nil
  then show ?case by (simp add: longest_failing_mono)
next
  case (Cons c tr)
  have "n \<le> longest_failing (Suc n) rest" using longest_failing_start [of "Suc n" rest] by simp
  moreover have "longest_failing 0 rest \<le> longest_failing (Suc n) rest" "longest_failing (Suc 0) rest \<le> longest_failing (Suc n) rest"
    by (rule longest_failing_mono, simp)+
  moreover have "longest_failing 0 (tr @ rest) \<le> longest_failing (Suc 0) rest" if "tr \<noteq> []"
    using Cons.IH [of 0] Cons.prems that by simp
  ultimately show ?case using Cons.prems by (cases "tr = []") auto
qed

lemma longest_failing_good:
  "tr \<noteq> [] \<Longrightarrow> \<forall>c \<in> set tr. al_outcome c \<noteq> Call_failed \<Longrightarrow> longest_failing n (tr @ rest) \<le> max n (longest_failing 0 rest)"
proof (induction tr arbitrary: n)
  case (Cons c tr)
  have "longest_failing 0 (tr @ rest) \<le> longest_failing 0 rest" using Cons.IH [of 0] Cons.prems by (cases "tr = []") auto
  then show ?case using Cons.prems by simp
qed simp

lemma outcomes_of_trace:
  "length outs \<le> length ordered - resume_index ordered t \<Longrightarrow> map al_outcome (target_trace run ordered t outs) = outs"
  unfolding target_trace_def by (auto simp: call_of_def intro!: nth_equalityI)

lemma butlast_image: "map f xs = ys \<Longrightarrow> x \<in> set (butlast xs) \<Longrightarrow> f x \<in> set (butlast ys)"
  by (metis imageI map_butlast set_map)

lemma run_targets_failures:
  assumes "quiet env" "gd_failureCountThreshold g = Some (int k)" "n < k"
    and "run_targets env g run tenantId ordered n ts db = (r, db')"
  shows "\<exists>calls. ad_calls db' = ad_calls db @ calls \<and> longest_failing n calls \<le> k"
proof (cases "ordered = []")
  case True
  obtain passes where "ad_calls db' = ad_calls db @ concat (map (\<lambda>(t, outs). target_trace run ordered t outs) passes)"
    using run_targets_calls [OF assms(1,4)] by blast
  moreover have "concat (map (\<lambda>(t, outs). target_trace run ordered t outs) passes) = []"
    using True by (auto simp: target_trace_def)
  ultimately show ?thesis using assms(3) by (intro exI [of _ "[]"]) simp
next
  case some: False
  show ?thesis using assms(3,4)
  proof (induction ts arbitrary: n db)
    case Nil
    then show ?case by (intro exI [of _ "[]"]) simp
  next
    case (Cons t ts)
    have trace: "\<exists>tr. ad_calls db1 = ad_calls db @ tr \<and> (\<forall>c \<in> set (butlast tr). al_outcome c \<noteq> Call_failed)
        \<and> (\<not> isl r1 \<longrightarrow> tr \<noteq> [] \<and> (\<forall>c \<in> set tr. al_outcome c \<noteq> Call_failed))"
      if target: "run_target env run tenantId ordered t db = (r1, db1)" for r1 db1
    proof -
      obtain outs where outs: "length outs \<le> length ordered - resume_index ordered t" "ad_calls db1 = ad_calls db @ target_trace run ordered t outs"
        "\<forall>out \<in> set (butlast outs). out = Call_succeeded" "\<not> isl r1 \<longrightarrow> Call_failed \<notin> set outs \<and> outs \<noteq> []"
        using run_target_calls [OF assms(1) target] some by blast
      let ?tr = "target_trace run ordered t outs"
      have m: "map al_outcome ?tr = outs" by (rule outcomes_of_trace [OF outs(1)])
      have "\<forall>c \<in> set (butlast ?tr). al_outcome c \<noteq> Call_failed" using butlast_image [OF m] outs(3) by fastforce
      moreover have "\<forall>c \<in> set ?tr. al_outcome c \<noteq> Call_failed" if "\<not> isl r1"
        using that outs(4) m by (metis imageI set_map)
      moreover have "?tr \<noteq> []" if "\<not> isl r1" using that outs(4) m by auto
      ultimately show ?thesis using outs(2) by (intro exI [of _ ?tr]) simp
    qed
    show ?case
    proof (cases rule: run_targets_step [OF assms(1) Cons.prems(2)])
      case 1
      then show ?thesis using Cons.IH [OF Cons.prems(1)] by blast
    next
      case 2
      then show ?thesis using Cons.prems(1) by (intro exI [of _ "[]"]) simp
    next
      case (3 r1 db1)
      obtain tr where tr: "ad_calls db1 = ad_calls db @ tr" "\<forall>c \<in> set (butlast tr). al_outcome c \<noteq> Call_failed"
        using trace [OF 3(2)] by blast
      show ?thesis using longest_failing_pass [OF tr(2), of n "[]"] Cons.prems(1) tr(1) 3(3) by auto
    next
      case (4 r1 db1 db2 n')
      obtain tr where tr: "ad_calls db1 = ad_calls db @ tr" "\<forall>c \<in> set (butlast tr). al_outcome c \<noteq> Call_failed"
        "\<not> isl r1 \<longrightarrow> tr \<noteq> [] \<and> (\<forall>c \<in> set tr. al_outcome c \<noteq> Call_failed)"
        using trace [OF 4(2)] by blast
      have "n' < k" using 4(6) assms(2) Cons.prems(1) by (auto simp: guard_tripped_def Let_def)
      then obtain calls where calls: "ad_calls db' = ad_calls db2 @ calls" "longest_failing n' calls \<le> k"
        using Cons.IH [OF _ 4(4)] by blast
      have "longest_failing n (tr @ calls) \<le> k"
      proof (cases "isl r1")
        case True
        then show ?thesis using longest_failing_pass [OF tr(2), of n calls] calls(2) 4(5) by simp
      next
        case False
        then show ?thesis using longest_failing_good [of tr n calls] tr(3) calls(2) 4(5) Cons.prems(1) by auto
      qed
      then show ?thesis using tr(1) calls(1) 4(3) by (intro exI [of _ "tr @ calls"]) simp
    qed
  qed
qed

section \<open>A whole run\<close>

text \<open>An execution that reaches the targets of its run, or makes no call at all.\<close>

lemma coordinator_calls:
  assumes "quiet env" "coordinator_execute env runId tenantId db = (r, db')" "auto_getRun runId tenantId db = Some run"
    and "auto_getVersion (ar_automationId run) (au_automationVersion run) tenantId db = Some version"
  obtains (silent) "ad_calls db' = ad_calls db"
  | (ran) run1 r1 db1 db2 where "ar_id run1 = ar_id run" "ad_calls db1 = ad_calls db"
      "run_targets env (cf_guardrails (av_configuration version)) run1 tenantId (ordered_actions version) 0
         (listRunTargets runId tenantId db) db1 = (r1, db2)" "ad_calls db' = ad_calls db2"
      "\<not> terminal_run run" "isWithinMaintenanceWindow (ae_local env) (gd_maintenanceWindow (cf_guardrails (av_configuration version))) (ad_now db)"
proof -
  let ?g = "cf_guardrails (av_configuration version)"
  have run: "requireRun runId tenantId db = (Inr run, db)" using assms(3) by (simp add: requireRun_def)
  have closed: "ad_calls (snd (refuse_closed env runId tenantId db)) = ad_calls db"
    unfolding refuse_closed_def by (intro calls_kept) (simp_all add: assms(1))
  obtain r1 db1 where s: "start_run runId tenantId db = (r1, db1)" by fastforce
  have start: "r1 = Inr (run\<lparr>ar_status := AR_running, au_startedAt := Some (getOrElse (au_startedAt run) (ad_now db))\<rparr>)"
    "ad_calls db1 = ad_calls db" "listRunTargets runId tenantId db1 = listRunTargets runId tenantId db"
    using s assms(3) by (auto simp: start_run_def auto_updateRun_def repo_def listRunTargets_def)
  let ?run = "run\<lparr>ar_status := AR_running, au_startedAt := Some (getOrElse (au_startedAt run) (ad_now db))\<rparr>"
  obtain r2 db2 where t: "run_targets env ?g ?run tenantId (ordered_actions version) 0 (listRunTargets runId tenantId db) db1 = (r2, db2)"
    by fastforce
  consider "terminal_run run" | "\<not> terminal_run run" "\<not> isWithinMaintenanceWindow (ae_local env) (gd_maintenanceWindow ?g) (ad_now db)"
    | "\<not> terminal_run run" "isWithinMaintenanceWindow (ae_local env) (gd_maintenanceWindow ?g) (ad_now db)" by blast
  then show thesis
  proof cases
    case 1
    then show thesis using assms(2) run by (intro silent) (simp add: coordinator_execute_def chain_def)
  next
    case 2
    then have "refuse_closed env runId tenantId db = (r, db')"
      using assms(2,4) run by (simp add: coordinator_execute_def chain_def Let_def)
    then show thesis using closed by (intro silent) simp
  next
    case 3
    have "chain (r2, db2) (\<lambda>r db. case r of None \<Rightarrow> finish env runId tenantId db | Some r \<Rightarrow> (Inr r, db)) = (r, db')"
      using assms(2,4) run 3 s start t by (simp add: coordinator_execute_def chain_def Let_def)
    then have "ad_calls db' = ad_calls db2" by (rule kept_calls) (intro calls_kept, auto simp: assms(1) split: option.splits)
    then show thesis using ran [of ?run db1 r2 db2] start t 3 by simp
  qed
qed

text \<open>C23. Actions are called for one target after the other, in the order of the targets, and for a target in the order of positions,
  from the action at which it was left: an action is called only after the ones before it succeeded in the same pass. Targets
  that are finished are not called, and neither is a run that is finished or outside of its maintenance window.\<close>

theorem actions_in_order:
  assumes "quiet env" "coordinator_execute env runId tenantId db = (r, db')" "auto_getRun runId tenantId db = Some run"
    and "auto_getVersion (ar_automationId run) (au_automationVersion run) tenantId db = Some version"
  shows "\<exists>passes. subseq (map fst passes) (listRunTargets runId tenantId db)
    \<and> ad_calls db' = ad_calls db @ concat (map (\<lambda>(t, outs). target_trace run (ordered_actions version) t outs) passes)
    \<and> (\<forall>(t, outs) \<in> set passes. tg_status t \<in> {AT_pending, AT_running, AT_waiting_approval}
        \<and> length outs \<le> length (ordered_actions version) - resume_index (ordered_actions version) t
        \<and> (\<forall>out \<in> set (butlast outs). out = Call_succeeded))
    \<and> (passes \<noteq> [] \<longrightarrow> \<not> terminal_run run
        \<and> isWithinMaintenanceWindow (ae_local env) (gd_maintenanceWindow (cf_guardrails (av_configuration version))) (ad_now db))"
proof (cases rule: coordinator_calls [OF assms])
  case 1
  then show ?thesis by (intro exI [of _ "[]"]) simp
next
  case (2 run1 r1 db1 db2)
  have "target_trace run1 = target_trace run" using 2(1) by (intro ext) (simp add: target_trace_def call_of_def [abs_def])
  then show ?thesis using run_targets_calls [OF assms(1) 2(3)] 2 by auto
qed


section \<open>A stop during an execution\<close>

text \<open>The removal of temporary plans leaves the runs alone.\<close>

definition tidy :: "'w auto_env \<Rightarrow> bool" where
  "tidy env \<longleftrightarrow> (\<forall>c p tenantId db. ae_cleanup env = Some c \<longrightarrow> ad_runs (snd (c p tenantId db)) = ad_runs db)"

lemma cleanup_keeps_runs:
  assumes "tidy env"
  shows "ad_runs (snd (cleanupTemporaryPlans env runId tenantId db)) = ad_runs db"
proof (cases "ae_cleanup env")
  case (Some c)
  then have "ad_runs (snd (c p t s)) = ad_runs s" for p t s using assms by (simp add: tidy_def)
  then show ?thesis unfolding cleanupTemporaryPlans_def Some option.case
    by (intro andThen_keeps [where f = ad_runs] for_each_keeps [where f = ad_runs]) simp_all
qed (simp add: cleanupTemporaryPlans_def)

lemma cleanup_runs: "tidy env \<Longrightarrow> cleanupTemporaryPlans env runId tenantId db = (x, db') \<Longrightarrow> ad_runs db' = ad_runs db"
  using cleanup_keeps_runs [of env runId tenantId db] by simp

lemma find_upd_where_same:
  "find p xs = Some x \<Longrightarrow> p y \<Longrightarrow> find p (upd_where p (\<lambda>_. y) xs) = Some y"
  by (induction xs) (auto simp: upd_where_def split: if_splits)

lemma updateRun_reads:
  assumes "auto_updateRun i tenantId f db = (Inr r, db')" "\<And>x. ar_id (f x) = ar_id x" "\<And>x. au_tenantId (f x) = au_tenantId x"
  shows "auto_getRun i tenantId db' = Some r" "\<exists>old. auto_getRun i tenantId db = Some old \<and> r = f old"
proof -
  obtain old where old: "auto_getRun i tenantId db = Some old" "r = f old"
    "ad_runs db' = upd_where (\<lambda>x. ar_id x = i \<and> au_tenantId x = tenantId) (\<lambda>_. f old) (ad_runs db)"
    using assms(1) by (auto simp: auto_updateRun_def split: option.splits)
  then have "ar_id old = i \<and> au_tenantId old = tenantId" by (auto simp: auto_getRun_def find_Some_iff)
  then show "auto_getRun i tenantId db' = Some r" using old assms(2,3)
    by (simp add: auto_getRun_def find_upd_where_same)
  show "\<exists>old. auto_getRun i tenantId db = Some old \<and> r = f old" using old by blast
qed

lemma finish_writes:
  assumes "tidy env" "finish env runId tenantId db = (Inr r, db')"
  shows "auto_getRun runId tenantId db' = Some r" "ar_status r = finished_status (ar_targetSummary r)"
proof -
  let ?ts = "listRunTargets runId tenantId db"
  let ?s = "finished_status (summarizeTargets ?ts)"
  obtain db1 where u: "auto_updateRun runId tenantId (\<lambda>r. r\<lparr>ar_status := ?s, ar_targetSummary := summarizeTargets ?ts,
      au_failureStage := first_failure ?ts, au_finishedAt := (if ?s \<in> {AR_succeeded, AR_partially_succeeded, AR_failed}
        then Some (ad_now db) else None)\<rparr>) db = (Inr r, db1)" and d: "ad_runs db' = ad_runs db1"
    using assms(2) by (auto simp: finish_def Let_def chain_Inr split: if_splits dest: cleanup_runs [OF assms(1)])
  show "auto_getRun runId tenantId db' = Some r" using updateRun_reads(1) [OF u] d by (simp add: auto_getRun_def)
  show "ar_status r = finished_status (ar_targetSummary r)" using updateRun_reads(2) [OF u] by auto
qed

lemma halt_writes:
  assumes "tidy env" "halt_run env run tenantId stage now db = (Inr r, db')"
  shows "auto_getRun (ar_id run) tenantId db' = Some r" "ar_status r = AR_needs_attention"
proof -
  obtain db0 db1 where u: "auto_updateRun (ar_id run) tenantId (\<lambda>r. r\<lparr>ar_status := AR_needs_attention, au_failureStage := stage,
       ar_targetSummary := summarizeTargets (listRunTargets (ar_id run) tenantId db0), au_finishedAt := Some now\<rparr>) db0 = (Inr r, db1)"
      and "cleanupTemporaryPlans env (ar_id r) tenantId db1 = (Inr (), db')"
    using assms(2) by (auto simp: halt_run_def chain_Inr)
  then have d: "ad_runs db' = ad_runs db1" using cleanup_runs [OF assms(1)] by simp
  show "auto_getRun (ar_id run) tenantId db' = Some r" using updateRun_reads(1) [OF u] d by (simp add: auto_getRun_def)
  show "ar_status r = AR_needs_attention" using updateRun_reads(2) [OF u] by auto
qed

lemma run_targets_halts:
  assumes "quiet env" "tidy env" "run_targets env g run tenantId ordered n ts db = (Inr (Some r), db')"
  shows "auto_getRun (ar_id run) tenantId db' = Some r \<and> ar_status r = AR_needs_attention"
  using assms(3)
proof (induction ts arbitrary: n db)
  case (Cons t ts)
  show ?case
  proof (cases rule: run_targets_step [OF assms(1) Cons.prems])
    case 1
    then show ?thesis by (rule Cons.IH)
  next
    case 2
    then show ?thesis by simp
  next
    case 3
    then show ?thesis using halt_writes [OF assms(2)]
      by (auto simp: after_target_def after_failure_def chain_Inr Let_def split: if_splits)
  next
    case 4
    then show ?thesis using Cons.IH by blast
  qed
qed simp


section \<open>Maintenance windows\<close>

lemma digit_order:
  fixes a b :: nat
  assumes "a < 10" "b < 10"
  shows "(of_char (char_of (48 + a)) :: nat) < of_char (char_of (48 + b)) \<longleftrightarrow> a < b" "(char_of (48 + a) :: char) = char_of (48 + b) \<longleftrightarrow> a = b"
proof -
  have of: "(of_char (char_of (48 + n)) :: nat) = 48 + n" if "n < 10" for n using that by simp
  show "(of_char (char_of (48 + a)) :: nat) < of_char (char_of (48 + b)) \<longleftrightarrow> a < b" using of [OF assms(1)] of [OF assms(2)] by simp
  show "(char_of (48 + a) :: char) = char_of (48 + b) \<longleftrightarrow> a = b"
    using arg_cong [of "char_of (48 + a)" "char_of (48 + b) :: char" "of_char :: char \<Rightarrow> nat"] of [OF assms(1)] of [OF assms(2)] by auto
qed

lemma digits_order:
  fixes q r q' r' :: nat
  assumes "r < 10" "r' < 10"
  shows "q < q' \<or> q = q' \<and> (r < r' \<or> r = r' \<and> L) \<longleftrightarrow> 10 * q + r < 10 * q' + r' \<or> 10 * q + r = 10 * q' + r' \<and> L"
  using assms by (cases q q' rule: linorder_cases) auto

lemma two_digits_le:
  assumes "a < 100" "b < 100"
  shows "text_le (two_digits a @ s) (two_digits b @ t) \<longleftrightarrow> a < b \<or> a = b \<and> text_le s t"
proof -
  have "a div 10 < 10" "b div 10 < 10" "a mod 10 < 10" "b mod 10 < 10" using assms by auto
  then have "text_le (two_digits a @ s) (two_digits b @ t) \<longleftrightarrow>
      a div 10 < b div 10 \<or> a div 10 = b div 10 \<and> (a mod 10 < b mod 10 \<or> a mod 10 = b mod 10 \<and> text_le s t)"
    by (simp add: two_digits_def digit_order)
  also have "\<dots> \<longleftrightarrow> 10 * (a div 10) + a mod 10 < 10 * (b div 10) + b mod 10 \<or> 10 * (a div 10) + a mod 10 = 10 * (b div 10) + b mod 10 \<and> text_le s t"
    by (rule digits_order) simp_all
  finally show ?thesis by simp
qed

lemma clock_text_le:
  assumes "h < 24" "m < 60" "h' < 24" "m' < 60"
  shows "text_le (clock_text h m) (clock_text h' m') \<longleftrightarrow> h * 60 + m \<le> h' * 60 + m'"
proof -
  have "text_le (clock_text h m) (clock_text h' m') \<longleftrightarrow> h < h' \<or> h = h' \<and> m \<le> m'"
    using two_digits_le [of h h' "CHR '':'' # two_digits m" "CHR '':'' # two_digits m'"] two_digits_le [of m m' "[]" "[]"] assms
    by (auto simp: clock_text_def)
  then show ?thesis using assms by auto
qed

text \<open>The minute of the week at which a clock shows hour \<open>h\<close> and minute \<open>m\<close> on day \<open>d\<close>.\<close>

definition week_minute :: "nat \<Rightarrow> nat \<Rightarrow> nat \<Rightarrow> nat" where
  "week_minute d h m = d * 1440 + h * 60 + m"

lemma window_arith:
  fixes day t s e :: nat
  assumes "day < 7" "t < 1440" "s < 1440" "e < 1440" "\<forall>d \<in> set days. d < 7"
  shows "(if s \<le> e then day \<in> set days \<and> s \<le> t \<and> t \<le> e else if s \<le> t then day \<in> set days else t \<le> e \<and> (day + 6) mod 7 \<in> set days)
    \<longleftrightarrow> (\<exists>d \<in> set days. \<exists>k \<in> {0, 7 * 1440}. d * 1440 + s \<le> day * 1440 + t + k
          \<and> day * 1440 + t + k \<le> d * 1440 + e + (if e < s then 1440 else 0))"
  (is "?l \<longleftrightarrow> ?r")
proof
  assume l: ?l
  show ?r
  proof (cases "day \<in> set days \<and> s \<le> t \<and> (s \<le> e \<longrightarrow> t \<le> e)")
    case True
    then show ?thesis using assms(2) by (intro bexI [of _ day] bexI [of _ 0]) auto
  next
    case False
    then have b: "e < s" "t \<le> e" "(day + 6) mod 7 \<in> set days" using l by (auto split: if_splits)
    show ?thesis
    proof (cases "day = 0")
      case True
      then show ?thesis using b assms(3) by (intro bexI [of _ "(day + 6) mod 7"] bexI [of _ "7 * 1440"]) auto
    next
      case False
      then have "(day + 6) mod 7 + 1 = day" using assms(1) by presburger
      then show ?thesis using b assms(3) by (intro bexI [of _ "(day + 6) mod 7"] bexI [of _ 0]) auto
    qed
  qed
next
  assume ?r
  then obtain d k where k: "d \<in> set days" "k \<in> {0, 7 * 1440}" "d * 1440 + s \<le> day * 1440 + t + k"
    "day * 1440 + t + k \<le> d * 1440 + e + (if e < s then 1440 else 0)" by blast
  have d: "d \<in> set days" "d < 7" "k = 0 \<or> k = 7 * 1440" "d * 1440 + s \<le> day * 1440 + t + k"
    "day * 1440 + t + k \<le> d * 1440 + e + (if e < s then 1440 else 0)" using k assms(5) by auto
  show ?l
  proof (cases "e < s")
    case False
    then have "d = day" using d assms(1-4) by auto
    then have "d = day" "s \<le> t" "t \<le> e" using d assms(1-4) False by auto
    then show ?thesis using False d(1) by simp
  next
    case True
    have "d = day \<or> d + 1 = day \<or> day = 0 \<and> d = 6 \<and> k = 7 * 1440" using True d assms(1-4) by auto
    then have "d = day \<and> s \<le> t \<or> t \<le> e \<and> (d + 1 = day \<or> day = 0 \<and> d = 6)" using True d assms(1-4) by auto
    then show ?thesis
    proof (elim disjE conjE)
      assume "t \<le> e" "d + 1 = day"
      then have "(day + 6) mod 7 = d" using d(2) by presburger
      then show ?thesis using True d(1) \<open>t \<le> e\<close> by simp
    qed (use True d(1) in auto)
  qed
qed

text \<open>C26. A maintenance window is open exactly when the local minute of the week lies between the start and the end of the window of a chosen
  day, both included. A window that ends before it starts belongs to the day on which it starts and ends on the next one,
  also from Saturday to Sunday.\<close>

theorem window_exact:
  assumes "local (rw_timeZone w) now = (day, h, m)" "day < 7" "h < 24" "m < 60" "\<forall>d \<in> set (rw_daysOfWeek w). d < 7"
    and "rw_startTime w = clock_text sh sm" "sh < 24" "sm < 60" "rw_endTime w = clock_text eh em" "eh < 24" "em < 60"
  shows "isWithinMaintenanceWindow local (Some w) now \<longleftrightarrow> (\<exists>d \<in> set (rw_daysOfWeek w). \<exists>k \<in> {0, 7 * 1440}.
    week_minute d sh sm \<le> week_minute day h m + k
    \<and> week_minute day h m + k \<le> week_minute d eh em + (if week_minute 0 eh em < week_minute 0 sh sm then 1440 else 0))"
proof -
  have open_iff: "isWithinMaintenanceWindow local (Some w) now \<longleftrightarrow>
    (if sh * 60 + sm \<le> eh * 60 + em then day \<in> set (rw_daysOfWeek w) \<and> sh * 60 + sm \<le> h * 60 + m \<and> h * 60 + m \<le> eh * 60 + em
     else if sh * 60 + sm \<le> h * 60 + m then day \<in> set (rw_daysOfWeek w) else h * 60 + m \<le> eh * 60 + em \<and> (day + 6) mod 7 \<in> set (rw_daysOfWeek w))"
    using assms by (simp add: isWithinMaintenanceWindow_def Let_def clock_text_le)
  have minutes: "week_minute d x y = d * 1440 + (x * 60 + y)" for d x y by (simp add: week_minute_def)
  have "h * 60 + m < 1440" "sh * 60 + sm < 1440" "eh * 60 + em < 1440" using assms by auto
  then show ?thesis using window_arith [of day "h * 60 + m" "sh * 60 + sm" "eh * 60 + em" "rw_daysOfWeek w"] assms(2,5)
    by (simp only: open_iff minutes mult_0 add_0)
qed

section \<open>Witnesses\<close>

text \<open>A run of an automation with two actions for two targets, and environments that differ in their port.\<close>

definition demo_auto_run :: auto_run where
  "demo_auto_run = \<lparr>ar_id = ''r'', ar_automationId = ''a'', ar_automationNameSnapshot = ''renewal'', ar_scheduledAt = None, ar_approvalId = None,
     ar_status = AR_queued, ar_targetSummary = summarizeTargets [],
     au_tenantId = ''t'', au_automationVersion = 1, au_triggerType = TT_on_demand, au_idempotencyKey = ''k'', au_parentRunId = None,
     au_triggerContext = None, au_executionOptions = None, au_deliveryId = None, au_actionTypes = [Create_deployment_plan, Execute_deployment_plan],
     au_environmentSnapshots = [], au_failureStage = None, au_failureCode = None, au_failureMessage = None, au_startedAt = None,
     au_finishedAt = None, au_createdBy = ''u'', au_createdAt = 1\<rparr>"

definition demo_auto_target :: "string \<Rightarrow> int \<Rightarrow> auto_target" where
  "demo_auto_target i n = \<lparr>tg_id = i, tg_tenantId = ''t'', tg_runId = ''r'', tg_sequenceNo = n,
     tg_targetSnapshot = \<lparr>tn_certificateId = ''c'', tn_certificateName = ''c'', tn_certificateVersionId = None, tn_certificateVersionImpact = None,
       tn_bindingId = None, tn_assetId = Some i, tn_assetName = None, tn_environment = None, tn_ownerId = None, tn_tags = [], tn_rest = []\<rparr>,
     tg_environmentSnapshot = None, tg_actionTypes = [], tg_status = AT_pending, tg_currentAction = None, tg_failureStage = None,
     tg_deploymentPlanId = None, tg_executionRunId = None, tg_notificationRequestIds = [], tg_errorCode = None, tg_errorMessage = None,
     tg_startedAt = None, tg_finishedAt = None, tg_createdAt = 1, tg_updatedAt = 1\<rparr>"

definition demo_guardrails :: guardrails where
  "demo_guardrails = \<lparr>gd_maxTargetsPerRun = 5, gd_concurrencyLimit = 1, gd_requirePreview = False, gd_requireDryRun = False,
     gd_requireApproval = False, gd_allowManualWhenDisabled = None, gd_allowedEnvironments = None, gd_failureCountThreshold = Some 1,
     gd_failureRateThreshold = None, gd_maintenanceWindow = None\<rparr>"

definition demo_auto_version :: automation_version where
  "demo_auto_version = \<lparr>av_id = ''v'', av_tenantId = ''t'', av_automationId = ''a'', av_version = 1,
     av_configuration = \<lparr>cf_trigger = Trigger_on_demand, cf_externalApi = None, cf_filters = [], cf_assetIds = None, cf_approvalStage = None,
       cf_actions = [\<lparr>ac_type = Execute_deployment_plan, ac_position = 2, ac_config = []\<rparr>, \<lparr>ac_type = Create_deployment_plan, ac_position = 1, ac_config = []\<rparr>],
       cf_guardrails = demo_guardrails\<rparr>,
     av_checksum = '''', av_createdBy = ''u'', av_createdAt = 1\<rparr>"

definition demo_auto_db :: "unit auto_db" where
  "demo_auto_db = \<lparr>ad_now = 1, ad_drawn = 0, ad_automations = [], ad_versions = [demo_auto_version], ad_runs = [demo_auto_run],
     ad_targets = [demo_auto_target ''x'' 1, demo_auto_target ''y'' 2], ad_results = [], ad_deliveries = [], ad_leases = [], ad_keys = [],
     ad_tasks = [], ad_calls = [], ad_world = ()\<rparr>"

definition demo_auto_env :: "(unit auto_db \<Rightarrow> (action_error + action_answer) \<times> unit auto_db) \<Rightarrow> unit auto_env" where
  "demo_auto_env port = \<lparr>ae_uuid = (\<lambda>n. replicate n CHR ''x''), ae_local = (\<lambda>_ _. (1, 10, 0)), ae_ratio = (\<lambda>a b. Fract (int a) (int b)),
     ae_execute = (\<lambda>_ _ _. port), ae_cleanup = None\<rparr>"

definition answers :: "unit auto_db \<Rightarrow> (action_error + action_answer) \<times> unit auto_db" where
  "answers db = (Inr \<lparr>an_status = Answer_succeeded, an_referenceType = None, an_referenceId = None\<rparr>, db)"

definition refuses :: "unit auto_db \<Rightarrow> (action_error + action_answer) \<times> unit auto_db" where
  "refuses db = (Inl (of_error (PlainError ''no'')), db)"

text \<open>While this port works, an operator stops the run.\<close>

definition is_stopped_meanwhile :: "unit auto_db \<Rightarrow> (action_error + action_answer) \<times> unit auto_db" where
  "is_stopped_meanwhile db = answers (snd (coordinator_stop (demo_auto_env answers) ''r'' ''t'' db))"

lemma stop_keeps_calls [simp]: "quiet env \<Longrightarrow> ad_calls (snd (coordinator_stop env runId tenantId db)) = ad_calls db"
  unfolding coordinator_stop_def by (intro calls_kept) simp_all

lemma demo_quiet: "quiet (demo_auto_env answers)" "quiet (demo_auto_env refuses)" "quiet (demo_auto_env is_stopped_meanwhile)"
  "tidy (demo_auto_env port)"
proof -
  show q: "quiet (demo_auto_env answers)" by (simp add: quiet_def demo_auto_env_def answers_def)
  show "quiet (demo_auto_env refuses)" by (simp add: quiet_def demo_auto_env_def refuses_def)
  have "ad_calls (snd (is_stopped_meanwhile db)) = ad_calls db" for db
    using stop_keeps_calls [OF q] by (simp add: is_stopped_meanwhile_def answers_def)
  then show "quiet (demo_auto_env is_stopped_meanwhile)" unfolding quiet_def by (simp add: demo_auto_env_def)
  show "tidy (demo_auto_env port)" by (simp add: tidy_def demo_auto_env_def)
qed

lemma demo_reads:
  "auto_getRun ''r'' ''t'' demo_auto_db = Some demo_auto_run"
  "auto_getVersion (ar_automationId demo_auto_run) (au_automationVersion demo_auto_run) ''t'' demo_auto_db = Some demo_auto_version"
  "gd_failureCountThreshold (cf_guardrails (av_configuration demo_auto_version)) = Some (int 1)"
  by (simp_all add: auto_getRun_def auto_getVersion_def demo_auto_db_def demo_auto_run_def demo_auto_version_def demo_guardrails_def)

abbreviation demo_execution where
  "demo_execution port \<equiv> coordinator_execute (demo_auto_env port) ''r'' ''t'' demo_auto_db"

lemma demo_calls: "map al_position (ad_calls (snd (demo_execution answers))) = [1, 2, 1, 2]"
  by code_simp

lemma demo_failures: "length (ad_calls (snd (demo_execution refuses))) = 1"
  by code_simp

lemma demo_stop: "case fst (demo_execution is_stopped_meanwhile) of Inl e \<Rightarrow> False | Inr r \<Rightarrow> ar_status r = AR_succeeded"
  by code_simp

theorem actions_in_order_witness:
  "(\<exists>passes. subseq (map fst passes) [demo_auto_target ''x'' 1, demo_auto_target ''y'' 2]
     \<and> ad_calls (snd (demo_execution answers)) = concat (map (\<lambda>(t, outs). target_trace demo_auto_run (ordered_actions demo_auto_version) t outs) passes))
   \<and> map al_position (ad_calls (snd (demo_execution answers))) = [1, 2, 1, 2]"
proof
  have "listRunTargets ''r'' ''t'' demo_auto_db = [demo_auto_target ''x'' 1, demo_auto_target ''y'' 2]" "ad_calls demo_auto_db = []"
    by (simp_all add: listRunTargets_def demo_auto_db_def demo_auto_target_def)
  then show "\<exists>passes. subseq (map fst passes) [demo_auto_target ''x'' 1, demo_auto_target ''y'' 2]
    \<and> ad_calls (snd (demo_execution answers)) = concat (map (\<lambda>(t, outs). target_trace demo_auto_run (ordered_actions demo_auto_version) t outs) passes)"
    using actions_in_order [OF demo_quiet(1) surjective_pairing demo_reads(1,2)] by auto
qed (rule demo_calls)



theorem window_exact_witness:
  "isWithinMaintenanceWindow (\<lambda>_ _. (0, 1, 30)) (Some \<lparr>rw_daysOfWeek = [6], rw_startTime = clock_text 22 0, rw_endTime = clock_text 2 0,
     rw_timeZone = ''UTC''\<rparr>) 0"
  by (subst window_exact [of _ _ _ 0 1 30 22 0 2 0]) (simp_all add: week_minute_def)

end
