(* ===== verification/AutomationService.thy ===== *)
theory AutomationService
  imports AutomationRunProperties WorkflowValues
begin

text \<open>
  Automations themselves: \<open>automations.domain-service.ts\<close>, \<open>automation-schedule.ts\<close>, \<open>automation-trigger-registry.ts\<close>,
  \<open>automation-filter-evaluator.ts\<close>, \<open>automation-action-registry.ts\<close>, \<open>automation-version-compiler.ts\<close>,
  \<open>automations.application-service.ts\<close>, \<open>automation-event-delivery.service.ts\<close>, \<open>automation-scheduler.ts\<close> and
  \<open>automation-external-api.service.ts\<close> of \<open>modules/automations\<close>.

  \<open>service_env\<close> has what the code takes from its platform (\<open>Number\<close>, \<open>Date.parse\<close>, \<open>toISOString\<close>, the calendar of a time zone, digests)
  and \<open>sv_find\<close>, the part of \<open>CertificateVersionTargetResolver\<close> that reads certificates, bindings and assets. Tasks go to \<open>ad_tasks\<close>,
  as with \<open>enqueueTaskBestEffort\<close> when the task worker is enabled.
\<close>

section \<open>Parameters\<close>

record preview_target =
  pt_target :: target_snapshot
  pt_executable :: bool
  pt_excludedReason :: "string option"

record resolver_input =
  ri_tenantId :: string
  ri_actorId :: string
  ri_triggerContext :: "jobject option"
  ri_allowCertificateDowngrade :: bool
  ri_guardrails :: guardrails
  ri_assetIds :: "string list option"

record calendar =
  ca_minute :: int
  ca_hour :: int
  ca_day :: int
  ca_month :: int
  ca_weekday :: int

record 'w service_env =
  sv_uuid :: "nat \<Rightarrow> string"
  sv_number :: "string \<Rightarrow> int option"                       \<comment> \<open>\<open>Number\<close>, None for \<open>NaN\<close>\<close>
  sv_parse :: "string \<Rightarrow> instant option"                    \<comment> \<open>\<open>Date.parse\<close>, None for \<open>NaN\<close>\<close>
  sv_iso :: "instant \<Rightarrow> string"                              \<comment> \<open>\<open>toISOString\<close>\<close>
  sv_zone :: "string \<Rightarrow> bool"                                 \<comment> \<open>a time zone \<open>Intl.DateTimeFormat\<close> accepts\<close>
  sv_local :: "string \<Rightarrow> instant \<Rightarrow> calendar"
  sv_checksum :: "automation_configuration \<Rightarrow> string"
  sv_sha :: "string \<Rightarrow> string"
  sv_pct :: "int \<Rightarrow> int \<Rightarrow> int"
  sv_tenant_lt :: "string \<Rightarrow> string \<Rightarrow> bool"
  sv_find :: "resolver_input \<Rightarrow> string \<Rightarrow> 'w auto_db \<Rightarrow> preview_target list result"

section \<open>Schedules\<close>

text \<open>\<open>cron.trim().split(/\s+/)\<close>.\<close>

fun split_blanks :: "string \<Rightarrow> string list" where
  "split_blanks [] = [[]]"
| "split_blanks (c # s) = (if is_ws c then [] # split_blanks s else (case split_blanks s of [] \<Rightarrow> [[c]] | w # ws \<Rightarrow> (c # w) # ws))"

definition cron_fields :: "string \<Rightarrow> string list" where
  "cron_fields cron = (if trim cron = [] then [[]] else filter (\<lambda>w. w \<noteq> []) (split_blanks (trim cron)))"

definition all_digits :: "string \<Rightarrow> bool" where
  "all_digits s \<longleftrightarrow> s \<noteq> [] \<and> list_all (\<lambda>c. 48 \<le> (of_char c :: nat) \<and> (of_char c :: nat) \<le> 57) s"

definition cron_field_ok :: "string \<Rightarrow> bool" where
  "cron_field_ok f \<longleftrightarrow> f = ''*'' \<or> all_digits f
     \<or> (let ps = split_on CHR ''-'' f in length ps = 2 \<and> list_all all_digits ps)
     \<or> startsWith f ''*/'' \<and> all_digits (drop 2 f)
     \<or> (let ps = split_on CHR '','' f in 2 \<le> length ps \<and> list_all all_digits ps)"

definition validateCron :: "string \<Rightarrow> unit result" where
  "validateCron cron = (if length (cron_fields cron) \<noteq> 5 \<or> \<not> list_all cron_field_ok (cron_fields cron)
     then Inl (AppError ''VALIDATION_FAILED'') else Inr ())"

definition cronFieldMatches :: "(string \<Rightarrow> int option) \<Rightarrow> string \<Rightarrow> int option \<Rightarrow> bool" where
  "cronFieldMatches number f v = (if f = ''*'' then True
     else if startsWith f ''*/'' then (case (v, number (drop 2 f)) of (Some x, Some n) \<Rightarrow> n \<noteq> 0 \<and> x mod n = 0 | _ \<Rightarrow> False)
     else if CHR ''-'' \<in> set f then (case (v, map number (split_on CHR ''-'' f)) of
         (Some x, Some a # Some b # _) \<Rightarrow> a \<le> x \<and> x \<le> b | _ \<Rightarrow> False)
     else v \<noteq> None \<and> number f = v)"

definition cronMatches :: "'w service_env \<Rightarrow> string \<Rightarrow> instant \<Rightarrow> string \<Rightarrow> bool" where
  "cronMatches env cron date timeZone = (let c = sv_local env timeZone date;
       local = [ca_minute c, ca_hour c, ca_day c, ca_month c, ca_weekday c]
     in list_all (\<lambda>(i, f). list_ex (\<lambda>v. cronFieldMatches (sv_number env) v (if i < 5 then Some (local ! i) else None)) (split_on CHR '','' f))
       (enumerate 0 (cron_fields cron)))"

text \<open>The first of \<open>n\<close> minutes that \<open>hit\<close> accepts, unless one that \<open>stop\<close> accepts comes first.\<close>

fun search_minutes :: "(instant \<Rightarrow> bool) \<Rightarrow> (instant \<Rightarrow> bool) \<Rightarrow> nat \<Rightarrow> instant \<Rightarrow> instant option" where
  "search_minutes stop hit 0 c = None"
| "search_minutes stop hit (Suc n) c = (if stop c then None else if hit c then Some c else search_minutes stop hit n (c + 60000))"

definition date_of :: "'w service_env \<Rightarrow> string option \<Rightarrow> instant option" where
  "date_of env d = (if truthy d then sv_parse env (the d) else None)"

definition search_from :: "'w service_env \<Rightarrow> string option \<Rightarrow> instant \<Rightarrow> instant" where
  "search_from env startsAt from = (case date_of env startsAt of Some s \<Rightarrow> if from < s then s else from | None \<Rightarrow> from)"

definition past_end :: "'w service_env \<Rightarrow> string option \<Rightarrow> instant \<Rightarrow> bool" where
  "past_end env endsAt c \<longleftrightarrow> (case date_of env endsAt of Some e \<Rightarrow> e < c | None \<Rightarrow> False)"

definition nextCronOccurrence :: "'w service_env \<Rightarrow> string \<Rightarrow> string \<Rightarrow> string option \<Rightarrow> string option \<Rightarrow> instant \<Rightarrow> instant option" where
  "nextCronOccurrence env cron timeZone startsAt endsAt from = (let s = search_from env startsAt from in
     search_minutes (past_end env endsAt) (\<lambda>c. cronMatches env cron c timeZone) (366 * 24 * 60) (s + 60000 - s mod 60000))"

definition nextAutomationRunAt :: "'w service_env \<Rightarrow> automation_trigger \<Rightarrow> instant \<Rightarrow> instant option result" where
  "nextAutomationRunAt env trigger from = (case trigger of
       Trigger_once runAt \<Rightarrow> (case sv_parse env runAt of None \<Rightarrow> Inl (PlainError ''Invalid time value'') | Some t \<Rightarrow> Inr (Some t))
     | Trigger_schedule cron tz startsAt endsAt \<Rightarrow> Inr (nextCronOccurrence env cron tz startsAt endsAt from)
     | _ \<Rightarrow> Inr None)"

definition nextCertificateDeploymentAt :: "'w service_env \<Rightarrow> deployment_schedule option \<Rightarrow> instant \<Rightarrow> instant option" where
  "nextCertificateDeploymentAt env schedule from = (case schedule of None \<Rightarrow> None
     | Some s \<Rightarrow> search_minutes (\<lambda>_. False) (\<lambda>c. let l = sv_local env (sc_timeZone s) c in
           ca_hour l = sc_hour s \<and> ca_minute l = sc_minute s \<and> from \<le> c) (3 * 24 * 60 + 1) (- (- from div 60000) * 60000))"

section \<open>Triggers\<close>

definition ctx_text :: "jobject option \<Rightarrow> string \<Rightarrow> string option" where
  "ctx_text ctx k = (case ojget ctx k of Some (JStr s) \<Rightarrow> if s = [] then None else Some s | _ \<Rightarrow> None)"

definition normalizeCertificateEventSource :: "string \<Rightarrow> string option" where
  "normalizeCertificateEventSource s = (if s = ''external_source'' then Some ''acme_issue''
     else if s \<in> {''manual_import'', ''acme_issue''} then Some s else None)"

definition validate_deployment_schedule :: "'w service_env \<Rightarrow> deployment_schedule option \<Rightarrow> bool" where
  "validate_deployment_schedule env schedule \<longleftrightarrow> (case schedule of None \<Rightarrow> True
     | Some s \<Rightarrow> 0 \<le> sc_hour s \<and> sc_hour s \<le> 23 \<and> 0 \<le> sc_minute s \<and> sc_minute s \<le> 59 \<and> trim (sc_timeZone s) \<noteq> [] \<and> sv_zone env (sc_timeZone s))"

definition validate_trigger :: "'w service_env \<Rightarrow> automation_trigger \<Rightarrow> unit result" where
  "validate_trigger env trigger = (let ok = (case trigger of
       Trigger_once runAt \<Rightarrow> runAt \<noteq> [] \<and> sv_parse env runAt \<noteq> None
     | Trigger_schedule cron tz _ _ \<Rightarrow> trim cron \<noteq> [] \<and> trim tz \<noteq> []
     | Trigger_certificate sources schedule \<Rightarrow>
         list_all (\<lambda>s. s \<in> {''external_source'', ''manual_import'', ''acme_issue''}) (getOrElse sources []) \<and> validate_deployment_schedule env schedule
     | _ \<Rightarrow> True) in if ok then Inr () else Inl (AppError ''VALIDATION_FAILED''))"

definition isEventTrigger :: "automation_trigger \<Rightarrow> bool" where
  "isEventTrigger trigger \<longleftrightarrow> trigger_kind trigger = TT_certificate_version_created"

definition matchesContext :: "automation_trigger \<Rightarrow> jobject option \<Rightarrow> bool" where
  "matchesContext trigger ctx = (case trigger of Trigger_certificate sources _ \<Rightarrow>
       if (case ctx_text ctx ''eventType'' of None \<Rightarrow> False | Some t \<Rightarrow> t \<noteq> ''certificate.version.created'') then False
       else (case (sources, ctx_text ctx ''sourceType'') of
           (Some (x # xs), Some s) \<Rightarrow> (case normalizeCertificateEventSource s of None \<Rightarrow> False
              | Some n \<Rightarrow> list_ex (\<lambda>y. normalizeCertificateEventSource y = Some n) (x # xs))
         | _ \<Rightarrow> True)
     | _ \<Rightarrow> True)"

definition buildDeliveryKey :: "automation_trigger \<Rightarrow> jobject \<Rightarrow> string result" where
  "buildDeliveryKey trigger ctx = (if \<not> isEventTrigger trigger then Inl (AppError ''VALIDATION_FAILED'')
     else (case ctx_text (Some ctx) ''certificateVersionId'' of None \<Rightarrow> Inl (AppError ''VALIDATION_FAILED'')
       | Some v \<Rightarrow> Inr (''certificate.version.created:'' @ v)))"

section \<open>Filters\<close>

definition array_of :: "json option \<Rightarrow> json list" where
  "array_of v = (case v of Some (JArr xs) \<Rightarrow> xs | None \<Rightarrow> [] | Some JNull \<Rightarrow> [] | Some x \<Rightarrow> [x])"

definition normalize_filter :: "json option \<Rightarrow> string" where
  "normalize_filter v = (case v of None \<Rightarrow> [] | Some JNull \<Rightarrow> [] | Some (JStr s) \<Rightarrow> toLowerCase (trim s) | Some x \<Rightarrow> json_stringify x)"

definition contains_item :: "json option \<Rightarrow> json \<Rightarrow> bool" where
  "contains_item actual expected = list_ex (\<lambda>x. normalize_filter (Some x) = normalize_filter (Some expected)) (array_of actual)"

definition normalizeEventSourceType :: "json \<Rightarrow> json" where
  "normalizeEventSourceType v = (if v = JStr ''external_source'' then JStr ''acme_issue'' else v)"

definition normalizeEventSourceFilterValue :: "json \<Rightarrow> json" where
  "normalizeEventSourceFilterValue v = (case v of JArr xs \<Rightarrow> JArr (map normalizeEventSourceType xs) | _ \<Rightarrow> normalizeEventSourceType v)"

text \<open>The registered accessors: None for a field that is not registered.\<close>

definition filter_accessor :: "string \<Rightarrow> jobject option \<Rightarrow> target_snapshot option \<Rightarrow> json option option" where
  "filter_accessor field event target = (let text = (\<lambda>f. Option.bind target (\<lambda>t. map_option JStr (f t))) in
     if field \<in> {''event.eventType'', ''event.certificateAssetId'', ''event.certificateVersionId''} then Some (ojget event (drop 6 field))
     else if field = ''event.sourceType'' then Some (map_option normalizeEventSourceType (ojget event ''sourceType''))
     else if field \<in> {''event.domains'', ''event.tags''} then
       Some (Some (case ojget event (drop 6 field) of None \<Rightarrow> JArr [] | Some JNull \<Rightarrow> JArr [] | Some v \<Rightarrow> v))
     else if field = ''target.certificateId'' then Some (map_option (JStr \<circ> tn_certificateId) target)
     else if field = ''target.certificateVersionId'' then Some (text tn_certificateVersionId)
     else if field = ''target.bindingId'' then Some (text tn_bindingId)
     else if field = ''target.assetId'' then Some (text tn_assetId)
     else if field = ''target.environment'' then Some (text tn_environment)
     else if field = ''target.ownerId'' then Some (text tn_ownerId)
     else if field = ''target.tags'' then Some (Some (case target of None \<Rightarrow> JArr [] | Some t \<Rightarrow> JArr (map JStr (tn_tags t))))
     else None)"

definition validate_filters :: "automation_filter list \<Rightarrow> unit result" where
  "validate_filters fs = (if list_all (\<lambda>f. filter_accessor (fl_field f) None None \<noteq> None
       \<and> fl_operator f \<in> {''eq'', ''neq'', ''in'', ''contains_any'', ''contains_all''}) fs then Inr () else Inl (AppError ''VALIDATION_FAILED''))"

definition match_filter :: "json option \<Rightarrow> string \<Rightarrow> json option \<Rightarrow> bool" where
  "match_filter actual operator expected =
     (if operator = ''eq'' then normalize_filter actual = normalize_filter expected
      else if operator = ''neq'' then normalize_filter actual \<noteq> normalize_filter expected
      else if operator = ''in'' then list_ex (\<lambda>x. normalize_filter (Some x) = normalize_filter actual) (array_of expected)
      else if operator = ''contains_any'' then list_ex (contains_item actual) (array_of expected)
      else if operator = ''contains_all'' then list_all (contains_item actual) (array_of expected)
      else False)"

definition evaluate_filters :: "automation_filter list \<Rightarrow> jobject option \<Rightarrow> target_snapshot option \<Rightarrow> bool result" where
  "evaluate_filters fs event target = (case validate_filters fs of Inl e \<Rightarrow> Inl e
     | Inr _ \<Rightarrow> Inr (list_all (\<lambda>f. match_filter (Option.bind (filter_accessor (fl_field f) event target) id) (fl_operator f)
         (if fl_field f = ''event.sourceType'' then map_option normalizeEventSourceFilterValue (fl_value f) else fl_value f)) fs))"

section \<open>Configurations\<close>

definition invalid :: error where
  "invalid = AppError ''VALIDATION_FAILED''"

definition check :: "bool \<Rightarrow> unit result" where
  "check ok = (if ok then Inr () else Inl invalid)"

fun first_error :: "unit result list \<Rightarrow> unit result" where
  "first_error [] = Inr ()"
| "first_error (Inl e # rs) = Inl e"
| "first_error (Inr _ # rs) = first_error rs"

text \<open>\<open>AutomationActionRegistry.validate\<close>: the positions are 1 to \<open>n\<close>, each once.\<close>

definition validate_actions :: "automation_action list \<Rightarrow> unit result" where
  "validate_actions as = (let ps = map ac_position as in check (as \<noteq> [] \<and> list_all (\<lambda>p. 1 \<le> p) ps \<and> distinct ps
     \<and> list_all (\<lambda>(i, p). p = int i + 1) (enumerate 0 (sort ps))))"

definition defaultApprovalStage :: "bool \<Rightarrow> jobject option" where
  "defaultApprovalStage requireApproval = (if requireApproval then Some [(''type'', JStr ''run''), (''mode'', JStr ''before_actions''),
     (''operationType'', JStr ''automation.run.approve''), (''riskLevel'', JStr ''high'')] else None)"

definition compile_configuration :: "'w service_env \<Rightarrow> automation_configuration \<Rightarrow> automation_configuration result" where
  "compile_configuration env c = (case first_error [validate_trigger env (cf_trigger c), validate_filters (cf_filters c), validate_actions (cf_actions c)] of
       Inl e \<Rightarrow> Inl e
     | Inr _ \<Rightarrow> Inr (c\<lparr>cf_approvalStage := orElse (cf_approvalStage c) (defaultApprovalStage (gd_requireApproval (cf_guardrails c)))\<rparr>))"

definition configured_domains :: "automation_configuration \<Rightarrow> string list" where
  "configured_domains c = concat (map (\<lambda>f. List.map_filter (\<lambda>v. case v of JStr s \<Rightarrow> if trim s \<noteq> [] then Some s else None | _ \<Rightarrow> None)
     (case fl_value f of Some (JArr xs) \<Rightarrow> xs | Some x \<Rightarrow> [x] | None \<Rightarrow> [])) (filter (\<lambda>f. fl_field f = ''event.domains'') (cf_filters c)))"

definition validate_guardrails :: "guardrails \<Rightarrow> unit result" where
  "validate_guardrails g = check (1 \<le> gd_maxTargetsPerRun g \<and> gd_maxTargetsPerRun g \<le> 5000
     \<and> 1 \<le> gd_concurrencyLimit g \<and> gd_concurrencyLimit g \<le> gd_maxTargetsPerRun g
     \<and> (case gd_failureCountThreshold g of None \<Rightarrow> True | Some k \<Rightarrow> 1 \<le> k \<and> k \<le> gd_maxTargetsPerRun g)
     \<and> (case gd_failureRateThreshold g of None \<Rightarrow> True | Some k \<Rightarrow> 0 < k \<and> k \<le> 1))"

definition validateConfiguration :: "'w service_env \<Rightarrow> automation_configuration \<Rightarrow> unit result" where
  "validateConfiguration env c = (let api = trigger_kind (cf_trigger c) = TT_api in first_error
     [check (case cf_externalApi c of None \<Rightarrow> True | Some mode \<Rightarrow> api \<and> mode \<in> {''direct'', ''approval''}),
      check (\<not> api \<or> configured_domains c \<noteq> []),
      (case cf_trigger c of Trigger_once runAt \<Rightarrow> check (runAt \<noteq> [] \<and> sv_parse env runAt \<noteq> None)
       | Trigger_schedule cron tz startsAt endsAt \<Rightarrow> first_error [validateCron cron, check (sv_zone env tz),
           check (\<not> (truthy startsAt \<and> truthy endsAt \<and> text_le (the endsAt) (the startsAt)))]
       | _ \<Rightarrow> Inr ()),
      validate_guardrails (cf_guardrails c),
      map_sum id (\<lambda>_. ()) (compile_configuration env c)])"

definition domain_createVersion :: "'w service_env \<Rightarrow> string \<Rightarrow> string \<Rightarrow> int \<Rightarrow> automation_configuration \<Rightarrow> string \<Rightarrow> 'w auto_db
    \<Rightarrow> automation_version result \<times> 'w auto_db" where
  "domain_createVersion env tenantId automationId version c actorId db =
     (case compile_configuration env c of Inl e \<Rightarrow> (Inl e, db)
      | Inr c \<Rightarrow> (case validateConfiguration env c of Inl e \<Rightarrow> (Inl e, db)
        | Inr _ \<Rightarrow> (case drawId (sv_uuid env) ''autv'' db of (i, db) \<Rightarrow>
            (Inr \<lparr>av_id = i, av_tenantId = tenantId, av_automationId = automationId, av_version = version, av_configuration = c,
               av_checksum = sv_checksum env c, av_createdBy = actorId, av_createdAt = ad_now db\<rparr>, db))))"

section \<open>Definitions and their status\<close>

fun statusTransitions :: "automation_status \<Rightarrow> automation_status list" where
  "statusTransitions AS_draft = [AS_active, AS_disabled, AS_deleted]"
| "statusTransitions AS_active = [AS_disabled, AS_deleted]"
| "statusTransitions AS_disabled = [AS_active, AS_deleted]"
| "statusTransitions AS_deleted = []"

definition auto_assertVersion :: "automation \<Rightarrow> int \<Rightarrow> unit result" where
  "auto_assertVersion a expected = (if ao_version a \<noteq> expected then Inl (AppError ''RESOURCE_VERSION_CONFLICT'') else Inr ())"

definition auto_assertTransition :: "automation_status \<Rightarrow> automation_status \<Rightarrow> unit result" where
  "auto_assertTransition current target = check (target \<in> set (statusTransitions current))"

definition blank_to_none :: "string option \<Rightarrow> string option" where
  "blank_to_none s = (case s of None \<Rightarrow> None | Some s \<Rightarrow> if trim s = [] then None else Some (trim s))"

definition createAutomationDefinition :: "'w service_env \<Rightarrow> string \<Rightarrow> string \<Rightarrow> string \<Rightarrow> string option \<Rightarrow> automation_configuration \<Rightarrow> 'w auto_db
    \<Rightarrow> automation result \<times> 'w auto_db" where
  "createAutomationDefinition env tenantId actorId name description c db = (case drawId (sv_uuid env) ''aut'' db of (i, db) \<Rightarrow>
     (let now = ad_now db; a = \<lparr>ao_id = i, ao_tenantId = tenantId, ao_name = trim name, ao_description = blank_to_none description, ao_status = AS_draft,
        ao_currentVersion = 1, ao_nextRunAt = None, ao_lastRunAt = None, ao_createdBy = actorId, ao_createdAt = now, ao_updatedAt = now,
        ao_deletedAt = None, ao_version = 1\<rparr> in
      andThen (domain_createVersion env tenantId i 1 c actorId db) (\<lambda>v. auto_transaction (\<lambda>db.
        andThen (createAutomation a db) (\<lambda>_ db. andThen (auto_createVersion v db) (\<lambda>_ db. (Inr a, db)))))))"

record automation_update =
  up_expectedVersion :: int
  up_name :: "string option"
  up_description :: "string option"
  up_configuration :: "automation_configuration option"

definition lift_db :: "'a result \<Rightarrow> 's \<Rightarrow> 'a result \<times> 's" where
  "lift_db r db = (r, db)"

definition update_row :: "string \<Rightarrow> string \<Rightarrow> automation_update \<Rightarrow> automation \<Rightarrow> int \<Rightarrow> instant option option \<Rightarrow> 'w auto_db \<Rightarrow> automation result \<times> 'w auto_db" where
  "update_row tenantId i u current version nextRunAt db = updateAutomation i tenantId (\<lambda>a. a\<lparr>
     ao_name := (case up_name u of None \<Rightarrow> ao_name current | Some n \<Rightarrow> if trim n = [] then ao_name current else trim n),
     ao_description := (if up_description u = None then ao_description current else blank_to_none (up_description u)),
     ao_currentVersion := version, ao_nextRunAt := getOrElse nextRunAt (ao_nextRunAt a), ao_updatedAt := ad_now db\<rparr>) db"

definition updateAutomationDefinition :: "'w service_env \<Rightarrow> string \<Rightarrow> string \<Rightarrow> string \<Rightarrow> automation_update \<Rightarrow> 'w auto_db \<Rightarrow> automation result \<times> 'w auto_db" where
  "updateAutomationDefinition env tenantId actorId i u = auto_transaction (\<lambda>db.
     andThen (lift_db (getAutomationOrThrow i tenantId False db) db) (\<lambda>current db.
     andThen (lift_db (auto_assertVersion current (up_expectedVersion u)) db) (\<lambda>_ db.
     case auto_getVersion i (ao_currentVersion current) tenantId db of None \<Rightarrow> (Inl (PlainError ''automation version missing''), db)
     | Some _ \<Rightarrow> (case up_configuration u of None \<Rightarrow> update_row tenantId i u current (ao_currentVersion current) None db
       | Some c \<Rightarrow> andThen (domain_createVersion env tenantId i (ao_currentVersion current + 1) c actorId db) (\<lambda>v db.
           andThen (auto_createVersion v db) (\<lambda>v db.
           if ao_status current = AS_active
           then andThen (lift_db (nextAutomationRunAt env (cf_trigger (av_configuration v)) (ad_now db)) db) (\<lambda>next db.
             update_row tenantId i u current (ao_currentVersion current + 1) (Some next) db)
           else update_row tenantId i u current (ao_currentVersion current + 1) None db))))))"

definition deleteAutomation :: "string \<Rightarrow> string \<Rightarrow> int \<Rightarrow> 'w auto_db \<Rightarrow> automation result \<times> 'w auto_db" where
  "deleteAutomation tenantId i expectedVersion db =
     andThen (lift_db (getAutomationOrThrow i tenantId False db) db) (\<lambda>current db.
     andThen (lift_db (auto_assertVersion current expectedVersion) db) (\<lambda>_ db.
     andThen (lift_db (auto_assertTransition (ao_status current) AS_deleted) db) (\<lambda>_ db.
     updateAutomation i tenantId (\<lambda>a. a\<lparr>ao_status := AS_deleted, ao_deletedAt := Some (ad_now db), ao_updatedAt := ad_now db,
       ao_nextRunAt := None\<rparr>) db)))"

definition activation :: "'w service_env \<Rightarrow> automation_version option \<Rightarrow> instant \<Rightarrow> instant option option result" where
  "activation env v now = (case v of None \<Rightarrow> Inr None
     | Some v \<Rightarrow> (let trigger = cf_trigger (av_configuration v) in
         if (case trigger of Trigger_once runAt \<Rightarrow> (case sv_parse env runAt of None \<Rightarrow> False | Some t \<Rightarrow> t \<le> now) | _ \<Rightarrow> False)
         then Inl invalid else map_sum id Some (nextAutomationRunAt env trigger now)))"

definition transitionAutomation :: "'w service_env \<Rightarrow> string \<Rightarrow> string \<Rightarrow> int \<Rightarrow> automation_status \<Rightarrow> 'w auto_db \<Rightarrow> automation result \<times> 'w auto_db" where
  "transitionAutomation env tenantId i expectedVersion status db =
     andThen (lift_db (getAutomationOrThrow i tenantId False db) db) (\<lambda>current db.
     andThen (lift_db (auto_assertVersion current expectedVersion) db) (\<lambda>_ db.
     andThen (lift_db (auto_assertTransition (ao_status current) status) db) (\<lambda>_ db.
     andThen (lift_db (if status = AS_active then activation env (auto_getVersion i (ao_currentVersion current) tenantId db) (ad_now db)
         else if status = AS_disabled then Inr (Some None) else Inr None) db) (\<lambda>next db.
     updateAutomation i tenantId (\<lambda>a. a\<lparr>ao_status := status, ao_updatedAt := ad_now db, ao_nextRunAt := getOrElse next (ao_nextRunAt a)\<rparr>) db))))"

definition enableAutomation :: "'w service_env \<Rightarrow> string \<Rightarrow> string \<Rightarrow> int \<Rightarrow> 'w auto_db \<Rightarrow> automation result \<times> 'w auto_db" where
  "enableAutomation env tenantId i v = transitionAutomation env tenantId i v AS_active"

definition disableAutomation :: "'w service_env \<Rightarrow> string \<Rightarrow> string \<Rightarrow> int \<Rightarrow> 'w auto_db \<Rightarrow> automation result \<times> 'w auto_db" where
  "disableAutomation env tenantId i v = transitionAutomation env tenantId i v AS_disabled"

definition copyAutomation :: "'w service_env \<Rightarrow> string \<Rightarrow> string \<Rightarrow> string \<Rightarrow> 'w auto_db \<Rightarrow> automation result \<times> 'w auto_db" where
  "copyAutomation env tenantId actorId i db =
     andThen (lift_db (getAutomationOrThrow i tenantId False db) db) (\<lambda>source db.
     case auto_getVersion i (ao_currentVersion source) tenantId db of None \<Rightarrow> (Inl (PlainError ''automation version missing''), db)
     | Some v \<Rightarrow> createAutomationDefinition env tenantId actorId (ao_name source @ '' Copy'') (ao_description source) (av_configuration v) db)"

section \<open>The targets of a run\<close>

definition resolve_versions :: "'w service_env \<Rightarrow> resolver_input \<Rightarrow> 'w auto_db \<Rightarrow> preview_target list result" where
  "resolve_versions env inp db = (case ctx_text (ri_triggerContext inp) ''certificateVersionId'' of None \<Rightarrow> Inr []
     | Some reference \<Rightarrow> sv_find env inp reference db)"

definition effectiveResolver :: "string list option \<Rightarrow> automation_filter list \<Rightarrow> string list option" where
  "effectiveResolver assetIds fs = (if assetIds \<noteq> None \<and> assetIds \<noteq> Some [] then assetIds
     else (let selected = concat (map (\<lambda>f. List.map_filter (\<lambda>v. case v of JStr s \<Rightarrow> if s \<noteq> [] then Some s else None | _ \<Rightarrow> None)
         (case fl_value f of Some (JArr xs) \<Rightarrow> xs | _ \<Rightarrow> [])) (filter (\<lambda>f. fl_field f = ''target.assetId'') fs))
       in if selected \<noteq> [] then Some (set_dedup selected) else assetIds))"

definition filter_preview :: "automation_filter list \<Rightarrow> jobject option \<Rightarrow> preview_target \<Rightarrow> preview_target result" where
  "filter_preview fs ctx item = (if \<not> pt_executable item then Inr item
     else (case evaluate_filters fs ctx (Some (pt_target item)) of Inl e \<Rightarrow> Inl e
       | Inr m \<Rightarrow> Inr (if m then item else item\<lparr>pt_executable := False, pt_excludedReason := Some ''filter_not_matched''\<rparr>)))"

fun map_results :: "('a \<Rightarrow> 'b result) \<Rightarrow> 'a list \<Rightarrow> 'b list result" where
  "map_results f [] = Inr []"
| "map_results f (x # xs) = (case f x of Inl e \<Rightarrow> Inl e | Inr y \<Rightarrow> map_sum id (Cons y) (map_results f xs))"

definition resolveTargets :: "'w service_env \<Rightarrow> resolver_input \<Rightarrow> automation_filter list \<Rightarrow> 'w auto_db \<Rightarrow> preview_target list result" where
  "resolveTargets env inp fs0 db = (let fs = filter (\<lambda>f. fl_field f \<noteq> ''event.domains'' \<and> fl_field f \<noteq> ''target.assetId'') fs0;
       eventFilters = filter (\<lambda>f. startsWith (fl_field f) ''event.'') fs; ctx = ri_triggerContext inp
     in case (if eventFilters = [] then Inr True else evaluate_filters eventFilters ctx None) of Inl e \<Rightarrow> Inl e
        | Inr m \<Rightarrow> if \<not> m then Inr [] else (case resolve_versions env inp db of Inl e \<Rightarrow> Inl e | Inr items \<Rightarrow> map_results (filter_preview fs ctx) items))"

section \<open>Previews\<close>

record impact_summary =
  im_total :: int
  im_upgrade :: int
  im_same :: int
  im_downgrade :: int
  im_missingCurrent :: int

record automation_preview =
  pv_previewId :: string
  pv_automationId :: string
  pv_automationVersion :: int
  pv_configurationChecksum :: string
  pv_totalMatched :: int
  pv_executableCount :: int
  pv_excludedCount :: int
  pv_excludedReasons :: jobject
  pv_page :: int
  pv_pageSize :: int
  pv_items :: "preview_target list"
  pv_versionImpactSummary :: "impact_summary option"

text \<open>How often each reason occurs, in the order of the first occurrence.\<close>

definition tally_reasons :: "string list \<Rightarrow> jobject" where
  "tally_reasons rs = fold (\<lambda>r m. AList.update r (JNum (case jget m r of Some (JNum n) \<Rightarrow> n + 1 | _ \<Rightarrow> 1)) m) rs []"

text \<open>\<open>Array.prototype.slice\<close>: a negative bound counts from the end.\<close>

definition js_slice :: "int \<Rightarrow> int \<Rightarrow> 'a list \<Rightarrow> 'a list" where
  "js_slice from until xs = (let n = int (length xs); clamp = (\<lambda>i. nat (if i < 0 then max (n + i) 0 else min i n))
     in take (clamp until - clamp from) (drop (clamp from) xs))"

definition count_impact :: "string \<Rightarrow> preview_target list \<Rightarrow> int" where
  "count_impact impact items = int (length (filter (\<lambda>t. tn_certificateVersionImpact (pt_target t) = Some impact) items))"

definition impact_summary_of :: "preview_target list \<Rightarrow> impact_summary option" where
  "impact_summary_of limited = (let items = filter (\<lambda>t. truthy (tn_certificateVersionImpact (pt_target t))) limited in
     if items = [] then None else Some \<lparr>im_total = int (length items), im_upgrade = count_impact ''upgrade'' items,
       im_same = count_impact ''same'' items, im_downgrade = count_impact ''downgrade'' items,
       im_missingCurrent = count_impact ''missing_current'' items\<rparr>)"

definition toPreview :: "string \<Rightarrow> automation_version \<Rightarrow> preview_target list \<Rightarrow> int option \<Rightarrow> int option \<Rightarrow> automation_preview" where
  "toPreview i v items page pageSize = (let limited = take (nat (gd_maxTargetsPerRun (cf_guardrails (av_configuration v)))) items;
       page = getOrElse page 1; size = min (getOrElse pageSize 50) 200; start = (page - 1) * size in
     \<lparr>pv_previewId = i @ '':'' @ int_to_string (av_version v) @ '':'' @ av_checksum v, pv_automationId = i,
      pv_automationVersion = av_version v, pv_configurationChecksum = av_checksum v, pv_totalMatched = int (length limited),
      pv_executableCount = int (length (filter pt_executable limited)),
      pv_excludedCount = int (length (filter (\<lambda>t. \<not> pt_executable t) limited)),
      pv_excludedReasons = tally_reasons (List.map_filter pt_excludedReason (filter (\<lambda>t. truthy (pt_excludedReason t)) limited)),
      pv_page = page, pv_pageSize = size, pv_items = js_slice start (start + size) limited,
      pv_versionImpactSummary = impact_summary_of limited\<rparr>)"

definition previewAutomation :: "'w service_env \<Rightarrow> string \<Rightarrow> string \<Rightarrow> string \<Rightarrow> int option \<Rightarrow> int option \<Rightarrow> jobject option \<Rightarrow> bool option
    \<Rightarrow> 'w auto_db \<Rightarrow> automation_preview result" where
  "previewAutomation env tenantId actorId i page pageSize ctx allowDowngrade db = (case getAutomationOrThrow i tenantId False db of Inl e \<Rightarrow> Inl e
     | Inr a \<Rightarrow> (case auto_getVersion i (ao_currentVersion a) tenantId db of None \<Rightarrow> Inl (PlainError ''automation version missing'')
       | Some v \<Rightarrow> (let c = av_configuration v in map_sum id (\<lambda>items. toPreview i v items page pageSize)
           (resolveTargets env \<lparr>ri_tenantId = tenantId, ri_actorId = actorId, ri_triggerContext = ctx,
              ri_allowCertificateDowngrade = (allowDowngrade = Some True), ri_guardrails = cf_guardrails c,
              ri_assetIds = effectiveResolver (cf_assetIds c) (cf_filters c)\<rparr> (cf_filters c) db))))"

section \<open>Creation of runs\<close>

definition requireRunnableVersion :: "string \<Rightarrow> automation \<Rightarrow> bool \<Rightarrow> 'w auto_db \<Rightarrow> automation_version result" where
  "requireRunnableVersion tenantId a allowDisabledManual db =
     (if ao_status a = AS_deleted then Inl (PlainError ''automation is not available for execution'')
      else (case auto_getVersion (ao_id a) (ao_currentVersion a) tenantId db of None \<Rightarrow> Inl (PlainError ''automation version missing'')
        | Some v \<Rightarrow> if ao_status a = AS_disabled
             \<and> \<not> (allowDisabledManual \<and> gd_allowManualWhenDisabled (cf_guardrails (av_configuration v)) = Some True)
           then Inl (PlainError ''automation is not available for manual execution'') else Inr v))"

record run_request =
  rq_tenantId :: string
  rq_actorId :: string
  rq_automation :: automation
  rq_version :: automation_version
  rq_triggerType :: trigger_type
  rq_idempotencyKey :: string
  rq_scheduledAt :: "string option"
  rq_triggerContext :: "jobject option"
  rq_executionOptions :: "execution_options option"
  rq_deliveryId :: "string option"

definition count_reasons :: "preview_target list \<Rightarrow> jobject" where
  "count_reasons items = tally_reasons
     (List.map_filter pt_excludedReason (filter (\<lambda>t. \<not> pt_executable t \<and> truthy (pt_excludedReason t)) items))"

definition persisted_context :: "preview_target list \<Rightarrow> jobject \<Rightarrow> jobject" where
  "persisted_context limited ctx = (let n = int (length limited); k = int (length (filter pt_executable limited)) in
     spread ctx [(''totalMatched'', JNum n), (''executableCount'', JNum k), (''excludedCount'', JNum (n - k)), (''excludedReasons'', JObj (count_reasons limited))])"

definition new_auto_run :: "string \<Rightarrow> run_request \<Rightarrow> preview_target list \<Rightarrow> instant \<Rightarrow> auto_run" where
  "new_auto_run i q limited now = (let targets = filter pt_executable limited; n = int (length targets) in
     \<lparr>ar_id = i, ar_automationId = ao_id (rq_automation q), ar_automationNameSnapshot = ao_name (rq_automation q),
      ar_scheduledAt = rq_scheduledAt q, ar_approvalId = None, ar_status = AR_queued,
      ar_targetSummary = \<lparr>sm_total = n, sm_pending = n, sm_running = 0, sm_waitingApproval = 0, sm_succeeded = 0, sm_failed = 0,
        sm_skipped = int (length limited) - n, sm_cancelled = 0\<rparr>,
      au_tenantId = rq_tenantId q, au_automationVersion = av_version (rq_version q), au_triggerType = rq_triggerType q,
      au_idempotencyKey = rq_idempotencyKey q, au_parentRunId = None,
      au_triggerContext = map_option (persisted_context limited) (rq_triggerContext q),
      au_executionOptions = rq_executionOptions q, au_deliveryId = rq_deliveryId q,
      au_actionTypes = map ac_type (ordered_actions (rq_version q)),
      au_environmentSnapshots = set_dedup (filter (\<lambda>e. e \<noteq> []) (List.map_filter (tn_environment \<circ> pt_target) targets)),
      au_failureStage = None, au_failureCode = None, au_failureMessage = None, au_startedAt = None, au_finishedAt = None,
      au_createdBy = rq_actorId q, au_createdAt = now\<rparr>)"

definition new_run_target :: "string \<Rightarrow> auto_run \<Rightarrow> nat \<Rightarrow> target_snapshot \<Rightarrow> instant \<Rightarrow> auto_target" where
  "new_run_target i run n snapshot now = \<lparr>tg_id = i, tg_tenantId = au_tenantId run, tg_runId = ar_id run, tg_sequenceNo = int n + 1,
     tg_targetSnapshot = snapshot, tg_environmentSnapshot = tn_environment snapshot, tg_actionTypes = au_actionTypes run,
     tg_status = AT_pending, tg_currentAction = None, tg_failureStage = None, tg_deploymentPlanId = None, tg_executionRunId = None,
     tg_notificationRequestIds = [], tg_errorCode = None, tg_errorMessage = None, tg_startedAt = None, tg_finishedAt = None,
     tg_createdAt = now, tg_updatedAt = now\<rparr>"

definition persist_target :: "'w service_env \<Rightarrow> auto_run \<Rightarrow> instant \<Rightarrow> nat \<times> preview_target \<Rightarrow> 'w auto_db \<Rightarrow> unit result \<times> 'w auto_db" where
  "persist_target env run now p db = (case drawId (sv_uuid env) ''art'' db of (i, db) \<Rightarrow>
     andThen (createRunTarget (new_run_target i run (fst p) (pt_target (snd p)) now) db) (\<lambda>_ db. (Inr (), db)))"

definition persistRunFromTargets :: "'w service_env \<Rightarrow> run_request \<Rightarrow> preview_target list \<Rightarrow> 'w auto_db \<Rightarrow> auto_run result \<times> 'w auto_db" where
  "persistRunFromTargets env q items db = (let g = cf_guardrails (av_configuration (rq_version q)) in
     if gd_requirePreview g \<and> items = [] then (Inl (PlainError ''automation preview is required''), db)
     else (case drawId (sv_uuid env) ''arun'' db of (i, db) \<Rightarrow>
       (let now = ad_now db; limited = take (nat (gd_maxTargetsPerRun g)) items; run = new_auto_run i q limited now in
        auto_transaction (\<lambda>db. andThen (auto_createRun run db) (\<lambda>_ db.
          andThen (for_each (persist_target env run now) (enumerate 0 (filter pt_executable limited)) db) (\<lambda>_ db. (Inr run, db)))) db)))"

definition enqueueRunTask :: "'w service_env \<Rightarrow> auto_run \<Rightarrow> string \<Rightarrow> string \<Rightarrow> 'w auto_db \<Rightarrow> 'w auto_db" where
  "enqueueRunTask env run actorId triggerSource db =
     (let deferred = au_triggerType run = TT_certificate_version_created \<and> truthy (ar_scheduledAt run)
        \<and> (case sv_parse env (the (ar_scheduledAt run)) of None \<Rightarrow> False | Some t \<Rightarrow> ad_now db < t)
      in db\<lparr>ad_tasks := ad_tasks db @ [\<lparr>qt_tenantId = au_tenantId run, qt_taskType = ''AUTOMATION_RUN'', qt_requestedBy = actorId,
        qt_triggerSource = triggerSource, qt_idempotencyKey = ''automation-run:'' @ ar_id run,
        qt_resourceSummary = buildAutomationTaskResourceSummary (sv_pct env) (automation_run.truncate run), qt_subject = ar_id run,
        qt_availableAt = (if deferred then ar_scheduledAt run else None)\<rparr>]\<rparr>)"

record on_demand_options =
  od_triggerType :: "trigger_type option"
  od_scheduledAt :: "string option"
  od_triggerContext :: "jobject option"
  od_executionOptions :: "execution_options option"
  od_allowCertificateDowngrade :: "bool option"
  od_confirmCertificateDowngrade :: "bool option"
  od_externalExecutionMode :: "string option"

definition same_request :: "string \<Rightarrow> automation \<Rightarrow> on_demand_options \<Rightarrow> auto_run \<Rightarrow> bool" where
  "same_request i a opts run \<longleftrightarrow> ar_automationId run = i \<and> au_automationVersion run = ao_currentVersion a
     \<and> (ojget (od_triggerContext opts) ''certificateVersionId'' = None
        \<or> ojget (au_triggerContext run) ''certificateVersionId'' = ojget (od_triggerContext opts) ''certificateVersionId'')"

definition is_downgrade :: "preview_target \<Rightarrow> bool" where
  "is_downgrade t \<longleftrightarrow> pt_executable t \<and> tn_certificateVersionImpact (pt_target t) = Some ''downgrade''"

text \<open>The guards between the resolution of the targets and the creation of the run.\<close>

definition on_demand_guards :: "on_demand_options \<Rightarrow> bool \<Rightarrow> preview_target list \<Rightarrow> unit result" where
  "on_demand_guards opts isManualRun preview =
     (if od_externalExecutionMode opts \<noteq> None \<and> list_ex (\<lambda>t. pt_excludedReason t = Some ''missing_version'') preview
        then Inl (AppError ''RESOURCE_NOT_FOUND'')
      else if od_externalExecutionMode opts \<noteq> None \<and> \<not> list_ex pt_executable preview then Inl invalid
      else if list_ex is_downgrade preview \<and> (\<not> isManualRun \<or> od_confirmCertificateDowngrade opts \<noteq> Some True) then Inl invalid
      else Inr ())"

definition on_demand_context :: "on_demand_options \<Rightarrow> jobject option" where
  "on_demand_context opts = (let mode = str_opt ''externalExecutionMode'' (od_externalExecutionMode opts) in
     case od_triggerContext opts of Some c \<Rightarrow> Some (spread c mode) | None \<Rightarrow> if mode = [] then None else Some mode)"

definition trigger_source :: "on_demand_options \<Rightarrow> string" where
  "trigger_source opts = (if ojget (od_triggerContext opts) ''sourceType'' = Some (JStr ''external_api'') then ''automation.external_api''
     else if od_externalExecutionMode opts = None \<and> od_triggerType opts = Some TT_schedule then ''automation.scheduler'' else ''automation.manual'')"

definition on_demand_request :: "string \<Rightarrow> string \<Rightarrow> automation \<Rightarrow> automation_version \<Rightarrow> string \<Rightarrow> on_demand_options \<Rightarrow> run_request" where
  "on_demand_request tenantId actorId a v key opts = \<lparr>rq_tenantId = tenantId, rq_actorId = actorId, rq_automation = a, rq_version = v,
     rq_triggerType = getOrElse (od_triggerType opts) TT_on_demand, rq_idempotencyKey = key, rq_scheduledAt = od_scheduledAt opts,
     rq_triggerContext = on_demand_context opts, rq_executionOptions = od_executionOptions opts, rq_deliveryId = None\<rparr>"

definition createOnDemandRun :: "'w service_env \<Rightarrow> string \<Rightarrow> string \<Rightarrow> string \<Rightarrow> string \<Rightarrow> int \<Rightarrow> on_demand_options \<Rightarrow> 'w auto_db
    \<Rightarrow> auto_run result \<times> 'w auto_db" where
  "createOnDemandRun env tenantId actorId i key expectedVersion opts db =
     andThen (lift_db (getAutomationOrThrow i tenantId False db) db) (\<lambda>a db.
     case auto_findRunByIdempotencyKey tenantId key db of
       Some run \<Rightarrow> (if same_request i a opts run then Inr run else Inl (AppError ''IDEMPOTENCY_CONFLICT''), db)
     | None \<Rightarrow> andThen (lift_db (auto_assertVersion a expectedVersion) db) (\<lambda>_ db.
         andThen (lift_db (requireRunnableVersion tenantId a True db) db) (\<lambda>v db.
         (let c = av_configuration v; triggerType = getOrElse (od_triggerType opts) TT_on_demand; isManualRun = triggerType = TT_on_demand in
          if trigger_kind (cf_trigger c) = TT_certificate_version_created \<and> ctx_text (od_triggerContext opts) ''certificateVersionId'' = None
          then (Inl invalid, db)
          else andThen (lift_db (resolveTargets env \<lparr>ri_tenantId = tenantId, ri_actorId = actorId, ri_triggerContext = od_triggerContext opts,
                 ri_allowCertificateDowngrade = (isManualRun \<and> od_allowCertificateDowngrade opts = Some True), ri_guardrails = cf_guardrails c,
                 ri_assetIds = effectiveResolver (cf_assetIds c) (cf_filters c)\<rparr> (cf_filters c) db) db) (\<lambda>preview db.
            andThen (lift_db (on_demand_guards opts isManualRun preview) db) (\<lambda>_ db.
            andThen (persistRunFromTargets env (on_demand_request tenantId actorId a v key opts) preview db) (\<lambda>run db.
            (Inr run, enqueueRunTask env run actorId (trigger_source opts) db))))))))"

section \<open>Events\<close>

definition valid_date :: "'w service_env \<Rightarrow> string option \<Rightarrow> instant option" where
  "valid_date env s = (if truthy s then sv_parse env (the s) else None)"

record trigger_request =
  tz_tenantId :: string
  tz_actorId :: string
  tz_automationId :: string
  tz_idempotencyKey :: string
  tz_triggerType :: trigger_type
  tz_triggerContext :: jobject
  tz_deliveryId :: string

definition createRunFromTrigger :: "'w service_env \<Rightarrow> trigger_request \<Rightarrow> 'w auto_db \<Rightarrow> (auto_run option \<times> preview_target list) result \<times> 'w auto_db" where
  "createRunFromTrigger env q db = (case auto_findRunByIdempotencyKey (tz_tenantId q) (tz_idempotencyKey q) db of
       Some run \<Rightarrow> (Inr (Some run, []), db)
     | None \<Rightarrow> andThen (lift_db (getAutomationOrThrow (tz_automationId q) (tz_tenantId q) False db) db) (\<lambda>a db.
         andThen (lift_db (requireRunnableVersion (tz_tenantId q) a False db) db) (\<lambda>v db.
         (let c = av_configuration v in
          if \<not> matchesContext (cf_trigger c) (Some (tz_triggerContext q)) then (Inr (None, []), db)
          else andThen (lift_db (resolveTargets env \<lparr>ri_tenantId = tz_tenantId q, ri_actorId = tz_actorId q,
                 ri_triggerContext = Some (tz_triggerContext q), ri_allowCertificateDowngrade = False, ri_guardrails = cf_guardrails c,
                 ri_assetIds = effectiveResolver (cf_assetIds c) (cf_filters c)\<rparr> (cf_filters c) db) db) (\<lambda>items db.
            if filter pt_executable items = [] then (Inr (None, items), db)
            else andThen (persistRunFromTargets env \<lparr>rq_tenantId = tz_tenantId q, rq_actorId = tz_actorId q, rq_automation = a, rq_version = v,
                 rq_triggerType = tz_triggerType q, rq_idempotencyKey = tz_idempotencyKey q,
                 rq_scheduledAt = (case cf_trigger c of Trigger_certificate _ schedule \<Rightarrow> map_option (sv_iso env)
                     (nextCertificateDeploymentAt env schedule (getOrElse (valid_date env (ctx_text (Some (tz_triggerContext q)) ''occurredAt'')) (ad_now db)))
                   | _ \<Rightarrow> None),
                 rq_triggerContext = Some (spread (tz_triggerContext q) [(''deliveryId'', JStr (tz_deliveryId q))]),
                 rq_executionOptions = None, rq_deliveryId = Some (tz_deliveryId q)\<rparr> items db) (\<lambda>run db.
              (Inr (Some run, items), enqueueRunTask env run (tz_actorId q) ''automation.event'' db)))))))"

definition matchesApplicationPlan :: "automation_configuration \<Rightarrow> string option \<Rightarrow> bool" where
  "matchesApplicationPlan c applicationAssetId = (case applicationAssetId of None \<Rightarrow> True | Some x \<Rightarrow>
     x \<in> set (getOrElse (cf_assetIds c) [] @ concat (map (\<lambda>f. List.map_filter (\<lambda>v. case v of JStr s \<Rightarrow> if trim s \<noteq> [] then Some s else None | _ \<Rightarrow> None)
       (case fl_value f of Some (JArr xs) \<Rightarrow> xs | Some v \<Rightarrow> [v] | None \<Rightarrow> [])) (filter (\<lambda>f. fl_field f = ''target.assetId'') (cf_filters c)))))"

definition new_delivery :: "string \<Rightarrow> string \<Rightarrow> automation_version \<Rightarrow> string \<Rightarrow> jobject \<Rightarrow> instant \<Rightarrow> delivery" where
  "new_delivery i tenantId v key event now = \<lparr>dl_id = i, dl_tenantId = tenantId, dl_automationId = av_automationId v, dl_automationVersion = av_version v,
     dl_deliveryKey = key, dl_triggerType = trigger_kind (cf_trigger (av_configuration v)), dl_eventType = ctx_text (Some event) ''eventType'',
     dl_payload = event, dl_status = DL_pending, dl_runId = None, dl_approvalId = None, dl_errorCode = None, dl_errorMessage = None,
     dl_createdAt = now, dl_updatedAt = now\<rparr>"

definition delivery_task :: "string \<Rightarrow> string \<Rightarrow> string \<Rightarrow> queued_task" where
  "delivery_task tenantId eventType i = \<lparr>qt_tenantId = tenantId, qt_taskType = ''AUTOMATION_TRIGGER_DELIVERY'', qt_requestedBy = ''system_automation_event'',
     qt_triggerSource = eventType, qt_idempotencyKey = ''automation-delivery:'' @ i, qt_resourceSummary = [], qt_subject = i, qt_availableAt = None\<rparr>"

definition deliver_to :: "'w service_env \<Rightarrow> string \<Rightarrow> jobject \<Rightarrow> automation \<Rightarrow> 'w auto_db \<Rightarrow> string list result \<times> 'w auto_db" where
  "deliver_to env tenantId event a db = (if ao_status a \<noteq> AS_active then (Inr [], db)
     else (case auto_getVersion (ao_id a) (ao_currentVersion a) tenantId db of None \<Rightarrow> (Inr [], db)
       | Some v \<Rightarrow> (let trigger = cf_trigger (av_configuration v) in
           if \<not> isEventTrigger trigger \<or> \<not> matchesContext trigger (Some event)
             \<or> \<not> matchesApplicationPlan (av_configuration v) (ctx_text (Some event) ''applicationAssetId'') then (Inr [], db)
           else andThen (lift_db (buildDeliveryKey trigger event) db) (\<lambda>key db.
             andThen (case findDelivery tenantId (ao_id a) (av_version v) key db of Some d \<Rightarrow> (Inr d, db)
               | None \<Rightarrow> (case drawId (sv_uuid env) ''adel'' db of (i, db) \<Rightarrow> createDelivery (new_delivery i tenantId v key event (ad_now db)) db)) (\<lambda>d db.
             (Inr [dl_id d], db\<lparr>ad_tasks := ad_tasks db @ [delivery_task tenantId (getOrElse (ctx_text (Some event) ''eventType'') []) (dl_id d)]\<rparr>))))))"

fun collect_results :: "('a \<Rightarrow> 's \<Rightarrow> 'b list result \<times> 's) \<Rightarrow> 'a list \<Rightarrow> 's \<Rightarrow> 'b list result \<times> 's" where
  "collect_results f [] s = (Inr [], s)"
| "collect_results f (x # xs) s = andThen (f x s) (\<lambda>ys s. andThen (collect_results f xs s) (\<lambda>zs s. (Inr (ys @ zs), s)))"

definition publishCertificateVersionCreated :: "'w service_env \<Rightarrow> string \<Rightarrow> jobject \<Rightarrow> 'w auto_db \<Rightarrow> string list result \<times> 'w auto_db" where
  "publishCertificateVersionCreated env tenantId event db = (if jget event ''automationEligible'' = Some (JBool False) then (Inr [], db)
     else collect_results (deliver_to env tenantId event) (listAutomations tenantId False db) db)"

definition skip_delivery :: "delivery \<Rightarrow> string \<Rightarrow> string \<Rightarrow> 'w auto_db \<Rightarrow> unit result \<times> 'w auto_db" where
  "skip_delivery d tenantId code db = andThen (updateDelivery (dl_id d) tenantId (\<lambda>d. d\<lparr>dl_status := DL_skipped, dl_errorCode := Some code,
     dl_errorMessage := Some code, dl_updatedAt := ad_now db\<rparr>) db) (\<lambda>_ db. (Inr (), db))"

text \<open>The code and the message an error leaves in a delivery.\<close>

fun delivery_error :: "error \<Rightarrow> string \<times> string" where
  "delivery_error (AppError c) = (c, c)"
| "delivery_error (SecurityError c r) = (c, r)"
| "delivery_error (PlainError m) = (''AUTOMATION_DELIVERY_FAILED'', m)"
| "delivery_error (DbError c) = (''AUTOMATION_DELIVERY_FAILED'', c)"

definition fail_delivery :: "delivery \<Rightarrow> string \<Rightarrow> error \<Rightarrow> 'w auto_db \<Rightarrow> unit result \<times> 'w auto_db" where
  "fail_delivery d tenantId e db = andThen (updateDelivery (dl_id d) tenantId (\<lambda>d. d\<lparr>dl_status := DL_failed,
     dl_errorCode := Some (fst (delivery_error e)), dl_errorMessage := Some (snd (delivery_error e)), dl_updatedAt := ad_now db\<rparr>) db) (\<lambda>_ db. (Inl e, db))"

definition delivery_request :: "string \<Rightarrow> delivery \<Rightarrow> automation_version \<Rightarrow> trigger_request" where
  "delivery_request tenantId d v = \<lparr>tz_tenantId = tenantId, tz_actorId = ''system_automation_event'', tz_automationId = dl_automationId d,
     tz_idempotencyKey = ''event:'' @ dl_automationId d @ '':'' @ int_to_string (dl_automationVersion d) @ '':'' @ dl_deliveryKey d,
     tz_triggerType = trigger_kind (cf_trigger (av_configuration v)),
     tz_triggerContext = spread (dl_payload d) [(''deliveryId'', JStr (dl_id d)), (''deliveryKey'', JStr (dl_deliveryKey d))], tz_deliveryId = dl_id d\<rparr>"

text \<open>The \<open>try\<close> block: the run, and the delivery that names it.\<close>

definition record_run :: "delivery \<Rightarrow> string \<Rightarrow> auto_run option \<times> preview_target list \<Rightarrow> 'w auto_db \<Rightarrow> unit result \<times> 'w auto_db" where
  "record_run d tenantId created db = (case fst created of None \<Rightarrow> skip_delivery d tenantId ''AUTOMATION_TARGETS_EMPTY'' db
     | Some run \<Rightarrow> andThen (updateDelivery (dl_id d) tenantId (\<lambda>d. d\<lparr>
         dl_status := (if ar_status run = AR_waiting_approval then DL_waiting_approval else DL_run_created), dl_runId := Some (ar_id run),
         dl_approvalId := ar_approvalId run, dl_updatedAt := ad_now db\<rparr>) db) (\<lambda>_ db. (Inr (), db)))"

definition processDelivery :: "'w service_env \<Rightarrow> string \<Rightarrow> string \<Rightarrow> 'w auto_db \<Rightarrow> unit result \<times> 'w auto_db" where
  "processDelivery env tenantId deliveryId db = (case getDelivery deliveryId tenantId db of None \<Rightarrow> (Inr (), db)
     | Some d \<Rightarrow> if truthy (dl_runId d) then (Inr (), db)
       else if ctx_text (Some (dl_payload d)) ''applicationAssetId'' \<noteq> None \<and> jget (dl_payload d) ''automationEligible'' \<noteq> Some (JBool True)
         then skip_delivery d tenantId ''AUTOMATION_SUPPRESSED_FOR_APPLICATION_CERTIFICATE'' db
       else (case getAutomation (dl_automationId d) tenantId False db of None \<Rightarrow> skip_delivery d tenantId ''AUTOMATION_DISABLED'' db
         | Some a \<Rightarrow> if ao_status a \<noteq> AS_active then skip_delivery d tenantId ''AUTOMATION_DISABLED'' db
           else (case auto_getVersion (dl_automationId d) (dl_automationVersion d) tenantId db of
               None \<Rightarrow> skip_delivery d tenantId ''AUTOMATION_TRIGGER_UNMATCHED'' db
             | Some v \<Rightarrow> if \<not> matchesContext (cf_trigger (av_configuration v)) (Some (dl_payload d))
                 then skip_delivery d tenantId ''AUTOMATION_TRIGGER_UNMATCHED'' db
               else (case andThen (createRunFromTrigger env (delivery_request tenantId d v) db) (record_run d tenantId) of
                   (Inr _, db) \<Rightarrow> (Inr (), db) | (Inl e, db) \<Rightarrow> fail_delivery d tenantId e db))))"

section \<open>The scheduler\<close>

definition due_now :: "instant \<Rightarrow> automation \<Rightarrow> bool" where
  "due_now now a \<longleftrightarrow> ao_status a = AS_active \<and> (case ao_nextRunAt a of None \<Rightarrow> False | Some t \<Rightarrow> t \<le> now)"

definition schedule_key :: "'w service_env \<Rightarrow> automation_trigger \<Rightarrow> automation \<Rightarrow> string" where
  "schedule_key env trigger a = (if trigger_kind trigger = TT_once then ''once'' else ''schedule'') @ '':'' @ ao_id a @ '':''
     @ sv_iso env (the (ao_nextRunAt a))"

definition scan_automation :: "'w service_env \<Rightarrow> string \<Rightarrow> instant \<Rightarrow> automation \<Rightarrow> 'w auto_db \<Rightarrow> string list result \<times> 'w auto_db" where
  "scan_automation env tenantId now a db = (if \<not> due_now now a then (Inr [], db)
     else (case auto_getVersion (ao_id a) (ao_currentVersion a) tenantId db of None \<Rightarrow> (Inr [], db)
       | Some v \<Rightarrow> (let trigger = cf_trigger (av_configuration v) in
           if trigger_kind trigger \<notin> {TT_once, TT_schedule} then (Inr [], db)
           else andThen (createOnDemandRun env tenantId ''system_scheduler'' (ao_id a) (schedule_key env trigger a) (ao_version a)
               \<lparr>od_triggerType = Some TT_schedule, od_scheduledAt = Some (sv_iso env (the (ao_nextRunAt a))), od_triggerContext = None,
                od_executionOptions = None, od_allowCertificateDowngrade = None, od_confirmCertificateDowngrade = None,
                od_externalExecutionMode = None\<rparr> db) (\<lambda>run db.
             andThen (updateAutomation (ao_id a) tenantId (\<lambda>x. x\<lparr>
               ao_nextRunAt := (case trigger of Trigger_schedule cron tz s e \<Rightarrow> nextCronOccurrence env cron tz s e now | _ \<Rightarrow> None),
               ao_lastRunAt := ao_nextRunAt a, ao_updatedAt := now\<rparr>) db) (\<lambda>_ db. (Inr [ar_id run], db))))))"

definition scan_tenant :: "'w service_env \<Rightarrow> string \<Rightarrow> string \<Rightarrow> 'w auto_db \<Rightarrow> string list result \<times> 'w auto_db" where
  "scan_tenant env owner tenantId db = (let now = ad_now db in
     case acquireSchedulerLease (''automation-scan:'' @ tenantId @ '':'' @ take 16 (sv_iso env now)) owner (now + 30000) db of
       (False, db) \<Rightarrow> (Inr [], db)
     | (True, db) \<Rightarrow> collect_results (scan_automation env tenantId now) (listAutomations tenantId False db) db)"

fun schedule_tenants :: "'w service_env \<Rightarrow> string \<Rightarrow> nat \<Rightarrow> string list \<Rightarrow> string list \<Rightarrow> 'w auto_db \<Rightarrow> string list result \<times> 'w auto_db" where
  "schedule_tenants env owner maxRuns created [] db = (Inr created, db)"
| "schedule_tenants env owner maxRuns created (t # ts) db = (if maxRuns \<le> length created then (Inr created, db)
     else andThen (scan_tenant env owner t db) (\<lambda>ids db.
       schedule_tenants env owner maxRuns (created @ take (maxRuns - length created) ids) ts db))"

definition scheduleDueRuns :: "'w service_env \<Rightarrow> string \<Rightarrow> nat \<Rightarrow> 'w auto_db \<Rightarrow> string list result \<times> 'w auto_db" where
  "scheduleDueRuns env owner maxRuns db = schedule_tenants env owner maxRuns [] (listAutomationTenantIds (sv_tenant_lt env) db) db"

text \<open>\<open>runRun\<close>: the lease is released however the execution ends.\<close>

definition runRun :: "'w auto_env \<Rightarrow> string \<Rightarrow> string \<Rightarrow> string \<Rightarrow> 'w auto_db \<Rightarrow> (action_error + bool) \<times> 'w auto_db" where
  "runRun aenv owner runId tenantId db = (let key = ''automation-run:'' @ tenantId @ '':'' @ runId in
     case acquireSchedulerLease key owner (ad_now db + 300000) db of (False, db) \<Rightarrow> (Inr False, db)
     | (True, db) \<Rightarrow> (case coordinator_execute aenv runId tenantId db of (r, db) \<Rightarrow> (map_sum id (\<lambda>_. True) r, releaseSchedulerLease key owner db)))"

text \<open>The runs that \<open>runOnce\<close> takes up: the read of the runnable ones comes after the scan.\<close>

fun run_each :: "'w auto_env \<Rightarrow> string \<Rightarrow> auto_run list \<Rightarrow> 'w auto_db \<Rightarrow> (action_error + string list) \<times> 'w auto_db" where
  "run_each aenv owner [] db = (Inr [], db)"
| "run_each aenv owner (r # rs) db = chain (runRun aenv owner (ar_id r) (au_tenantId r) db) (\<lambda>ran db.
     chain (run_each aenv owner rs db) (\<lambda>ids db. (Inr (if ran then ar_id r # ids else ids), db)))"

definition scheduler_runOnce :: "'w service_env \<Rightarrow> 'w auto_env \<Rightarrow> string \<Rightarrow> nat \<Rightarrow> 'w auto_db
    \<Rightarrow> (action_error + string list \<times> string list) \<times> 'w auto_db" where
  "scheduler_runOnce env aenv owner maxRuns db = chain (repo (scheduleDueRuns env owner maxRuns db)) (\<lambda>created db.
     chain (run_each aenv owner (listRunnableRuns maxRuns db) db) (\<lambda>executed db. (Inr (created, executed), db)))"

section \<open>Keys of the external interface\<close>

text \<open>\<open>secret\<close> is the random text behind \<open>ak_\<close>.\<close>

definition issue_key :: "'w service_env \<Rightarrow> string \<Rightarrow> string \<Rightarrow> string \<Rightarrow> string \<Rightarrow> 'w auto_db \<Rightarrow> string result \<times> 'w auto_db" where
  "issue_key env secret tenantId automationId createdBy db = (let plaintext = ''ak_'' @ secret in
     case drawId (sv_uuid env) ''aek'' db of (i, db) \<Rightarrow> auto_transaction (\<lambda>db. (let db = revokeActive tenantId automationId (ad_now db) db in
       if i \<in> ek_id ` set (ad_keys db) \<or> sv_sha env plaintext \<in> ek_keyHash ` set (ad_keys db) then (Inl (DbError ''23505''), db)
       else (Inr plaintext, db\<lparr>ad_keys := ad_keys db @ [\<lparr>ek_id = i, ek_tenantId = tenantId, ek_automationId = automationId,
         ek_keyPrefix = take 11 plaintext, ek_keyHash = sv_sha env plaintext, ek_createdBy = createdBy, ek_createdAt = ad_now db, ek_revokedAt = None\<rparr>]\<rparr>))) db)"

definition authenticate_key :: "'w service_env \<Rightarrow> string option \<Rightarrow> 'w auto_db \<Rightarrow> external_key result" where
  "authenticate_key env rawKey db = (let key = trim (getOrElse rawKey []) in
     if length key < 16 \<or> 256 < length key then Inl (AppError ''AUTH_UNAUTHENTICATED'')
     else (case findActiveByHash (sv_sha env key) db of None \<Rightarrow> Inl (AppError ''AUTH_UNAUTHENTICATED'') | Some k \<Rightarrow> Inr k))"

definition revoke_key :: "string \<Rightarrow> string \<Rightarrow> 'w auto_db \<Rightarrow> 'w auto_db" where
  "revoke_key tenantId automationId db = revokeActive tenantId automationId (ad_now db) db"

end
