(* ===== verification/AutomationProperties.thy ===== *)
theory AutomationProperties
  imports AutomationService
begin

text \<open>
  What the creation of runs guarantees, and what the scheduler makes of scheduled automations.
\<close>

section \<open>Sequencing\<close>

lemma transaction_Inr: "auto_transaction f db = (Inr x, db') \<longleftrightarrow> f db = (Inr x, db')"
  by (auto simp: auto_transaction_def split: prod.splits sum.splits)

lemma lift_db_Inr [simp]: "lift_db r db = (Inr x, db') \<longleftrightarrow> r = Inr x \<and> db' = db"
  by (auto simp: lift_db_def)

lemma andThen_lift [simp]: "andThen (lift_db (Inr x) db) k = k x db" "andThen (lift_db (Inl e) db) k = (Inl e, db)"
  by (simp_all add: lift_db_def)

section \<open>New targets\<close>

lemma persist_targets:
  assumes "for_each (persist_target env run now) (enumerate n items) db = (Inr u, db')"
  shows "\<exists>new. ad_targets db' = ad_targets db @ new \<and> map tg_targetSnapshot new = map pt_target items
    \<and> map tg_sequenceNo new = map (\<lambda>k. int k + 1) [n..<n + length items]
    \<and> (\<forall>t \<in> set new. tg_runId t = ar_id run \<and> tg_tenantId t = au_tenantId run \<and> tg_status t = AT_pending)
    \<and> ad_runs db' = ad_runs db \<and> ad_tasks db' = ad_tasks db"
  using assms
proof (induction items arbitrary: n db)
  case Nil
  then show ?case by (intro exI [of _ "[]"]) simp
next
  case (Cons x items)
  obtain u1 db1 where one: "persist_target env run now (n, x) db = (Inr u1, db1)"
    "for_each (persist_target env run now) (enumerate (Suc n) items) db1 = (Inr u, db')"
    using Cons.prems by (auto simp: andThen_Inr)
  obtain i where t: "ad_targets db1 = ad_targets db @ [new_run_target i run n (pt_target x) now]" "ad_runs db1 = ad_runs db" "ad_tasks db1 = ad_tasks db"
    using one(1) by (auto simp: persist_target_def drawId_def createRunTarget_def andThen_Inr split: if_splits)
  let ?t = "new_run_target i run n (pt_target x) now"
  obtain new where "ad_targets db' = ad_targets db1 @ new" "map tg_targetSnapshot new = map pt_target items"
    "map tg_sequenceNo new = map (\<lambda>k. int k + 1) [Suc n..<Suc n + length items]"
    "\<forall>t \<in> set new. tg_runId t = ar_id run \<and> tg_tenantId t = au_tenantId run \<and> tg_status t = AT_pending"
    "ad_runs db' = ad_runs db1" "ad_tasks db' = ad_tasks db1"
    using Cons.IH [OF one(2)] by blast
  moreover have "[n..<n + length (x # items)] = n # [Suc n..<Suc n + length items]" by (simp add: upt_rec)
  ultimately show ?case using t
    by (intro exI [of _ "?t # new"]) (simp add: new_run_target_def)
qed

lemma persist_run:
  assumes "persistRunFromTargets env q items db = (Inr run, db')"
  shows "\<exists>new i. ad_targets db' = ad_targets db @ new \<and> run = new_auto_run i q (take (nat (gd_maxTargetsPerRun (cf_guardrails (av_configuration (rq_version q))))) items) (ad_now db)
    \<and> map tg_targetSnapshot new = map pt_target (filter pt_executable (take (nat (gd_maxTargetsPerRun (cf_guardrails (av_configuration (rq_version q))))) items))
    \<and> map tg_sequenceNo new = map (\<lambda>k. int k + 1) [0..<length new]
    \<and> (\<forall>t \<in> set new. tg_runId t = ar_id run \<and> tg_tenantId t = au_tenantId run \<and> tg_status t = AT_pending)
    \<and> ad_runs db' = ad_runs db @ [run] \<and> ad_tasks db' = ad_tasks db"
proof -
  obtain i db1 where d: "drawId (sv_uuid env) ''arun'' db = (i, db1)" by fastforce
  let ?l = "take (nat (gd_maxTargetsPerRun (cf_guardrails (av_configuration (rq_version q))))) items"
  let ?r = "new_auto_run i q ?l (ad_now db)"
  have db1: "ad_targets db1 = ad_targets db" "ad_runs db1 = ad_runs db" "ad_tasks db1 = ad_tasks db" "ad_now db1 = ad_now db"
    using d by (auto simp: drawId_def)
  have r: "run = ?r" "for_each (persist_target env ?r (ad_now db)) (enumerate 0 (filter pt_executable ?l)) (db1\<lparr>ad_runs := ad_runs db1 @ [?r]\<rparr>) = (Inr (), db')"
    using assms d db1
    by (auto simp: persistRunFromTargets_def Let_def transaction_Inr andThen_Inr auto_createRun_def split: if_splits)
  obtain new where "ad_targets db' = ad_targets db1 @ new" "map tg_targetSnapshot new = map pt_target (filter pt_executable ?l)"
    "map tg_sequenceNo new = map (\<lambda>k. int k + 1) [0..<length (filter pt_executable ?l)]"
    "\<forall>t \<in> set new. tg_runId t = ar_id ?r \<and> tg_tenantId t = au_tenantId ?r \<and> tg_status t = AT_pending"
    "ad_runs db' = ad_runs db1 @ [?r]" "ad_tasks db' = ad_tasks db1"
    using persist_targets [OF r(2)] by auto
  moreover then have "length new = length (filter pt_executable ?l)" by (metis length_map)
  ultimately show ?thesis using r(1) db1 by auto
qed

text \<open>What a call that creates a run did on its way.\<close>

lemma on_demand_new:
  assumes "createOnDemandRun env tenantId actorId i key ver opts db = (Inr run, db')" "auto_findRunByIdempotencyKey tenantId key db = None"
  obtains a v preview db1 where "getAutomationOrThrow i tenantId False db = Inr a" "requireRunnableVersion tenantId a True db = Inr v"
    "on_demand_guards opts (getOrElse (od_triggerType opts) TT_on_demand = TT_on_demand) preview = Inr ()"
    "persistRunFromTargets env (on_demand_request tenantId actorId a v key opts) preview db = (Inr run, db1)"
    "db' = enqueueRunTask env run actorId (trigger_source opts) db1"
  using assms by (auto simp: createOnDemandRun_def andThen_Inr Let_def split: if_splits)


section \<open>Retries\<close>

lemma retry_targets:
  assumes "for_each (create_retry_target env i now) (enumerate n ts) db = (Inr u, db')"
  shows "\<exists>new. ad_targets db' = ad_targets db @ new \<and> map tg_targetSnapshot new = map tg_targetSnapshot ts
    \<and> map tg_sequenceNo new = map (\<lambda>k. int k + 1) [n..<n + length ts]
    \<and> (\<forall>t \<in> set new. tg_runId t = i \<and> tg_status t = AT_pending \<and> tg_currentAction t = None \<and> tg_deploymentPlanId t = None)
    \<and> ad_runs db' = ad_runs db \<and> ad_tasks db' = ad_tasks db"
  using assms
proof (induction ts arbitrary: n db)
  case Nil
  then show ?case by (intro exI [of _ "[]"]) simp
next
  case (Cons x ts)
  obtain u1 db1 where one: "create_retry_target env i now (n, x) db = (Inr u1, db1)"
    "for_each (create_retry_target env i now) (enumerate (Suc n) ts) db1 = (Inr u, db')"
    using Cons.prems by (auto simp: andThen_Inr)
  obtain j where t: "ad_targets db1 = ad_targets db @ [retry_target j i (int n + 1) now x]" "ad_runs db1 = ad_runs db" "ad_tasks db1 = ad_tasks db"
    using one(1) by (auto simp: create_retry_target_def drawId_def createRunTarget_def andThen_Inr split: if_splits)
  obtain new where "ad_targets db' = ad_targets db1 @ new" "map tg_targetSnapshot new = map tg_targetSnapshot ts"
    "map tg_sequenceNo new = map (\<lambda>k. int k + 1) [Suc n..<Suc n + length ts]"
    "\<forall>t \<in> set new. tg_runId t = i \<and> tg_status t = AT_pending \<and> tg_currentAction t = None \<and> tg_deploymentPlanId t = None"
    "ad_runs db' = ad_runs db1" "ad_tasks db' = ad_tasks db1"
    using Cons.IH [OF one(2)] by blast
  moreover have "[n..<n + length (x # ts)] = n # [Suc n..<Suc n + length ts]" by (simp add: upt_rec)
  ultimately show ?case using t
    by (intro exI [of _ "retry_target j i (int n + 1) now x # new"]) (simp add: retry_target_def)
qed

text \<open>C28. A retry creates a queued run with a pending copy of each failed target, in their order and numbered from one, that starts with the first
  action again. It hands no task over: the run is queued and nothing executes it, since runs are only executed by the tasks that
  name them.\<close>

theorem retry_never_queued:
  assumes "retryFailed env runId tenantId actorId key db = (Inr r, db')" "auto_findRunByIdempotencyKey tenantId key db = None"
  shows "\<exists>new. ad_runs db' = ad_runs db @ [r] \<and> ad_targets db' = ad_targets db @ new \<and> ad_tasks db' = ad_tasks db \<and> ar_status r = AR_queued
    \<and> map tg_targetSnapshot new = map tg_targetSnapshot (filter (\<lambda>t. tg_status t = AT_failed) (listRunTargets runId tenantId db))
    \<and> map tg_sequenceNo new = map (\<lambda>k. int k + 1) [0..<length new]
    \<and> (\<forall>t \<in> set new. tg_runId t = ar_id r \<and> tg_status t = AT_pending \<and> tg_currentAction t = None \<and> tg_deploymentPlanId t = None)"
proof -
  let ?failed = "filter (\<lambda>t. tg_status t = AT_failed) (listRunTargets runId tenantId db)"
  obtain i db1 where d: "drawId (ae_uuid env) ''arun'' db = (i, db1)" by fastforce
  have db1: "ad_targets db1 = ad_targets db" "ad_runs db1 = ad_runs db" "ad_tasks db1 = ad_tasks db" "ad_now db1 = ad_now db"
    using d by (auto simp: drawId_def)
  obtain source where source: "requireRun runId tenantId db = (Inr source, db)"
    using assms(1) by (auto simp: retryFailed_def chain_Inr requireRun_def split: option.splits)
  let ?r = "retry_run i actorId key (int (length ?failed)) (ad_now db) source"
  obtain db2 where r: "r = ?r" "auto_createRun ?r db1 = (Inr ?r, db2)" "for_each (create_retry_target env i (ad_now db)) (enumerate 0 ?failed) db2 = (Inr (), db')"
    using assms d source by (auto simp: retryFailed_def chain_Inr Let_def transaction_Inr andThen_Inr auto_createRun_def split: if_splits)
  have db2: "ad_runs db2 = ad_runs db @ [?r]" "ad_targets db2 = ad_targets db" "ad_tasks db2 = ad_tasks db"
    using r(2) db1 by (auto simp: auto_createRun_def split: if_splits)
  obtain new where new: "ad_targets db' = ad_targets db2 @ new" "map tg_targetSnapshot new = map tg_targetSnapshot ?failed"
    "map tg_sequenceNo new = map (\<lambda>k. int k + 1) [0..<length ?failed]"
    "\<forall>t \<in> set new. tg_runId t = i \<and> tg_status t = AT_pending \<and> tg_currentAction t = None \<and> tg_deploymentPlanId t = None"
    "ad_runs db' = ad_runs db2" "ad_tasks db' = ad_tasks db2"
    using retry_targets [OF r(3)] by auto
  moreover have "length new = length ?failed" using new(2) by (metis length_map)
  ultimately show ?thesis using r(1) db2 by (auto simp: retry_run_def)
qed

section \<open>What the scheduler starts\<close>

lemma resolve_without_context:
  "ri_triggerContext inp = None \<Longrightarrow> resolveTargets env inp fs db = Inr items \<Longrightarrow> items = []"
  by (auto simp: resolveTargets_def resolve_versions_def ctx_text_def ojget_def Let_def split: sum.splits if_splits)

lemmas targets_kept = andThen_keeps [where f = ad_targets]

lemma lift_db_same [simp]: "snd (lift_db r db) = db"
  by (simp add: lift_db_def)

lemma persist_nothing [simp]: "ad_targets (snd (persistRunFromTargets env q [] db)) = ad_targets db"
  by (auto simp: persistRunFromTargets_def auto_transaction_def drawId_def auto_createRun_def Let_def split: prod.splits sum.splits)

lemma enqueue_same [simp]: "ad_targets (enqueueRunTask env run actorId source db) = ad_targets db"
  by (simp add: enqueueRunTask_def Let_def)

lemma andThen_lift_db: "andThen (lift_db r db) k = (case r of Inl e \<Rightarrow> (Inl e, db) | Inr v \<Rightarrow> k v db)"
  by (simp add: lift_db_def andThen_def split: sum.splits)

lemma on_demand_without_context [simp]:
  assumes "od_triggerContext opts = None"
  shows "ad_targets (snd (createOnDemandRun env tenantId actorId i key ver opts db)) = ad_targets db"
  using assms
  by (auto simp: createOnDemandRun_def andThen_lift_db Let_def dest!: resolve_without_context [rotated] intro!: targets_kept
      split: sum.splits option.splits)

lemma update_automation_targets [simp]: "ad_targets (snd (updateAutomation i tenantId f db)) = ad_targets db"
  by (simp add: updateAutomation_def Let_def split: sum.splits)

lemma scan_automation_targets [simp]: "ad_targets (snd (scan_automation env tenantId now a db)) = ad_targets db"
  unfolding scan_automation_def Let_def by (auto intro!: targets_kept split: option.splits)

lemma collect_targets:
  assumes "\<And>x s. ad_targets (snd (f x s)) = ad_targets s"
  shows "ad_targets (snd (collect_results f xs s)) = ad_targets s"
proof (induction xs arbitrary: s)
  case (Cons x xs)
  show ?case by (simp, intro targets_kept) (simp_all add: assms Cons.IH)
qed simp

lemma scan_tenant_targets [simp]: "ad_targets (snd (scan_tenant env owner tenantId db)) = ad_targets db"
proof -
  have "ad_targets (snd (acquireSchedulerLease key owner u db)) = ad_targets db" for key u
    by (auto simp: acquireSchedulerLease_def Let_def split: option.splits)
  then have "acquireSchedulerLease key owner u db = (b, db') \<Longrightarrow> ad_targets db' = ad_targets db" for key u b db'
    by (metis snd_conv)
  then show ?thesis
    by (auto simp: scan_tenant_def Let_def collect_targets split: prod.splits bool.splits)
qed

text \<open>C29. The scheduler never creates a target: it starts scheduled automations without a certificate version, and the only resolver of
  targets finds none without one. Every run of a scheduled automation is empty.\<close>

theorem scheduler_starts_nothing:
  "ad_targets (snd (scheduleDueRuns env owner maxRuns db)) = ad_targets db"
proof -
  have "ad_targets (snd (schedule_tenants env owner maxRuns created ts db)) = ad_targets db" for created ts
  proof (induction ts arbitrary: created db)
    case (Cons t ts)
    have "ad_targets (snd (andThen (scan_tenant env owner t db) (\<lambda>ids.
        schedule_tenants env owner maxRuns (created @ take (maxRuns - length created) ids) ts))) = ad_targets db"
      by (rule targets_kept) (simp_all add: Cons.IH)
    then show ?case by simp
  qed simp
  then show ?thesis by (simp add: scheduleDueRuns_def)
qed


section \<open>Schedules\<close>

lemma search_minutes_iff:
  "search_minutes stop hit n c = Some t \<longleftrightarrow> (\<exists>k < n. t = c + int k * 60000 \<and> hit t \<and> \<not> stop t
     \<and> (\<forall>j < k. \<not> hit (c + int j * 60000) \<and> \<not> stop (c + int j * 60000)))"
proof (induction n arbitrary: c)
  case (Suc n)
  have shift: "(\<exists>k < Suc n. P k) \<longleftrightarrow> P 0 \<or> (\<exists>k < n. P (Suc k))" for P by (simp add: Ex_less_Suc2)
  have later: "(\<forall>j < Suc k. Q j) \<longleftrightarrow> Q 0 \<and> (\<forall>j < k. Q (Suc j))" for Q k by (simp add: All_less_Suc2)
  show ?case unfolding shift later search_minutes.simps using Suc.IH [of "c + 60000"]
    by (auto simp: algebra_simps)
qed simp

text \<open>The next occurrence of a schedule is the first whole minute after the later of the given time and its start that its expression
  matches, when it lies within 366 days and no minute up to it is past the end of the schedule. A schedule whose next minute is
  further away, such as one on 29 February, has none.\<close>

theorem next_cron_exact:
  "nextCronOccurrence env cron tz startsAt endsAt from = Some t \<longleftrightarrow> (let s = search_from env startsAt from; minute = (\<lambda>k. s + 60000 - s mod 60000 + int k * 60000) in
     \<exists>k < 366 * 24 * 60. t = minute k \<and> cronMatches env cron t tz \<and> \<not> past_end env endsAt t
       \<and> (\<forall>j < k. \<not> cronMatches env cron (minute j) tz \<and> \<not> past_end env endsAt (minute j)))"
  by (simp only: nextCronOccurrence_def Let_def search_minutes_iff)

end
