(* ===== verification/AutomationInvariants.thy ===== *)
theory AutomationInvariants
  imports AutomationProperties
begin

text \<open>
  An invariant of the tables of automations that every operation of the component keeps: automations and runs name versions
  that exist, and an idempotency key belongs to one run. \<open>auto_step\<close> has one rule for each operation; of the action port it is
  only asked that what happens while an action works keeps the invariant too.
\<close>

section \<open>The invariant\<close>

definition versioned :: "'w auto_db \<Rightarrow> string \<Rightarrow> string \<Rightarrow> int \<Rightarrow> bool" where
  "versioned db tenantId i n \<longleftrightarrow> auto_getVersion i n tenantId db \<noteq> None"

definition run_version :: "auto_run \<Rightarrow> string \<times> string \<times> int" where
  "run_version r = (au_tenantId r, ar_automationId r, au_automationVersion r)"

definition current_version :: "automation \<Rightarrow> string \<times> string \<times> int" where
  "current_version a = (ao_tenantId a, ao_id a, ao_currentVersion a)"

definition run_key :: "auto_run \<Rightarrow> string \<times> string" where
  "run_key r = (au_tenantId r, au_idempotencyKey r)"

definition automation_store_ok :: "'w auto_db \<Rightarrow> bool" where
  "automation_store_ok db \<longleftrightarrow>
     list_all (\<lambda>(t, i, n). versioned db t i n) (map current_version (ad_automations db))
     \<and> list_all (\<lambda>(t, i, n). versioned db t i n) (map run_version (ad_runs db))
     \<and> distinct (map ao_id (ad_automations db)) \<and> distinct (map ar_id (ad_runs db)) \<and> distinct (map run_key (ad_runs db))"

abbreviation (input) store_ok :: "'w auto_db \<Rightarrow> bool" where
  "store_ok \<equiv> automation_store_ok"

lemmas store_kept = andThen_inv [where P = automation_store_ok] for_each_inv [where P = automation_store_ok]

lemma chain_store: "store_ok (snd x) \<Longrightarrow> (\<And>v s. store_ok s \<Longrightarrow> store_ok (snd (k v s))) \<Longrightarrow> store_ok (snd (chain x k))"
  by (cases x; cases "fst x") (auto simp: chain_def)

lemma chain_simps: "chain (Inr v, s) k = k v s" "chain (Inl e, s) k = (Inl e, s)"
  by (simp_all add: chain_def)

lemma other_tables [simp]:
  "store_ok (db\<lparr>ad_drawn := d\<rparr>) = store_ok db" "store_ok (db\<lparr>ad_targets := ts\<rparr>) = store_ok db"
  "store_ok (db\<lparr>ad_results := xs\<rparr>) = store_ok db" "store_ok (db\<lparr>ad_deliveries := ds\<rparr>) = store_ok db"
  "store_ok (db\<lparr>ad_leases := ls\<rparr>) = store_ok db" "store_ok (db\<lparr>ad_keys := ks\<rparr>) = store_ok db"
  "store_ok (db\<lparr>ad_tasks := qs\<rparr>) = store_ok db" "store_ok (db\<lparr>ad_calls := cs\<rparr>) = store_ok db"
  "store_ok (db\<lparr>ad_now := n\<rparr>) = store_ok db"
  by (simp_all add: automation_store_ok_def versioned_def auto_getVersion_def)

lemma other_writes [simp]:
  "store_ok (snd (updateRunTarget i tenantId f db)) = store_ok db"
  "store_ok (snd (updateActionResult i tenantId g db)) = store_ok db"
  "store_ok (snd (createActionResult x db)) = store_ok db"
  "store_ok (snd (createRunTarget t db)) = store_ok db"
  "store_ok (snd (createDelivery d db)) = store_ok db"
  "store_ok (snd (updateDelivery i tenantId h db)) = store_ok db"
  "store_ok (snd (acquireSchedulerLease key owner u db)) = store_ok db"
  "store_ok (releaseSchedulerLease key owner db) = store_ok db"
  "store_ok (snd (drawId uuid p db)) = store_ok db"
  "store_ok (snd (lift_db r db)) = store_ok db"
  by (simp_all add: updateRunTarget_def updateActionResult_def createActionResult_def createRunTarget_def createDelivery_def
      updateDelivery_def acquireSchedulerLease_def releaseSchedulerLease_def drawId_def lift_db_def Let_def split: option.splits)

section \<open>Writes of runs, automations and versions\<close>

lemma upd_where_id:
  "(\<And>x. x \<in> set xs \<Longrightarrow> p x \<Longrightarrow> g (f x) = g x) \<Longrightarrow> map g (upd_where p f xs) = map g xs"
  by (auto simp: upd_where_def)

lemma versioned_runs [simp]: "versioned (db\<lparr>ad_runs := rs\<rparr>) = versioned db" "versioned (db\<lparr>ad_automations := as\<rparr>) = versioned db"
  "versioned (db\<lparr>ad_drawn := n\<rparr>) = versioned db"
  by (simp_all add: fun_eq_iff versioned_def auto_getVersion_def)

lemma find_distinct:
  assumes "distinct (map k xs)" "find p xs = Some r" "x \<in> set xs" "k x = k r"
  shows "x = r"
  proof -
  have "r \<in> set xs" using assms(2) by (auto simp: find_Some_iff)
  then show ?thesis using assms(1,3,4) by (metis distinct_key_eq)
qed

lemma updateRun_ok:
  assumes "store_ok db" "\<And>r. ar_id (f r) = ar_id r" "\<And>r. run_version (f r) = run_version r" "\<And>r. run_key (f r) = run_key r"
  shows "store_ok (snd (auto_updateRun i tenantId f db))"
proof (cases "auto_getRun i tenantId db")
  case (Some r)
  let ?p = "\<lambda>x. ar_id x = i \<and> au_tenantId x = tenantId"
  have r: "?p r" using Some by (auto simp: auto_getRun_def find_Some_iff)
  have same: "x = r" if "x \<in> set (ad_runs db)" "?p x" for x
    using find_distinct [of ar_id "ad_runs db" ?p r x] assms(1) Some that r by (auto simp: automation_store_ok_def auto_getRun_def)
  note keeps = upd_where_id [of "ad_runs db" ?p, where f = "\<lambda>_. f r"]
  have "map ar_id (upd_where ?p (\<lambda>_. f r) (ad_runs db)) = map ar_id (ad_runs db)"
    "map run_version (upd_where ?p (\<lambda>_. f r) (ad_runs db)) = map run_version (ad_runs db)"
    "map run_key (upd_where ?p (\<lambda>_. f r) (ad_runs db)) = map run_key (ad_runs db)"
    by (rule keeps, use same assms(2-4) in auto)+
  then show ?thesis using Some assms(1) by (simp add: auto_updateRun_def automation_store_ok_def del: map_map)
qed (simp add: auto_updateRun_def assms)

lemma createRun_ok:
  assumes "store_ok db" "versioned db (au_tenantId r) (ar_automationId r) (au_automationVersion r)"
  shows "store_ok (snd (auto_createRun r db))"
  using assms by (auto simp: auto_createRun_def automation_store_ok_def run_version_def run_key_def)

lemma updateAutomation_ok:
  assumes "store_ok db" "\<And>a. ao_id (f a) = ao_id a" "\<And>a. ao_tenantId (f a) = ao_tenantId a"
    and "\<And>a. getAutomation i tenantId True db = Some a \<Longrightarrow> versioned db tenantId i (ao_currentVersion (f a))"
  shows "store_ok (snd (updateAutomation i tenantId f db))"
proof (cases "getAutomation i tenantId True db")
  case (Some a)
  let ?p = "\<lambda>x. ao_id x = i \<and> ao_tenantId x = tenantId" and ?a = "(f a)\<lparr>ao_version := ao_version a + 1\<rparr>"
  have a: "?p a" using Some by (auto simp: getAutomation_def find_Some_iff)
  have same: "x = a" if "x \<in> set (ad_automations db)" "?p x" for x
    using find_distinct [of ao_id "ad_automations db" _ a x] assms(1) Some that a by (auto simp: automation_store_ok_def getAutomation_def)
  have "map ao_id (upd_where ?p (\<lambda>_. ?a) (ad_automations db)) = map ao_id (ad_automations db)"
    by (rule upd_where_id) (use a assms(2) in auto)
  moreover have "versioned db tenantId i (ao_currentVersion (f a))" using assms(4) Some by blast
  moreover have "list_all (\<lambda>(t, i, n). versioned db t i n) (map current_version (upd_where ?p (\<lambda>_. ?a) (ad_automations db)))"
    using assms(1-3) a calculation(2) by (auto simp: automation_store_ok_def list_all_iff upd_where_def current_version_def)
  ultimately show ?thesis using Some assms(1)
    by (simp add: updateAutomation_def getAutomationOrThrow_def automation_store_ok_def Let_def del: map_map)
qed (simp add: updateAutomation_def getAutomationOrThrow_def assms)

lemma version_added: "versioned db t i n \<Longrightarrow> versioned (db\<lparr>ad_versions := ad_versions db @ vs\<rparr>) t i n"
  by (auto simp: versioned_def auto_getVersion_def find_None_iff_all)

lemma createVersion_ok: "store_ok db \<Longrightarrow> store_ok (snd (auto_createVersion v db))"
  by (auto simp: auto_createVersion_def automation_store_ok_def list_all_iff intro!: version_added)

lemma transaction_ok: "store_ok db \<Longrightarrow> store_ok (snd (f db)) \<Longrightarrow> store_ok (snd (auto_transaction f db))"
  by (auto simp: auto_transaction_def split: prod.splits sum.splits)

section \<open>Automations\<close>

lemma current_versioned:
  assumes "store_ok db" "getAutomation i tenantId b db = Some a"
  shows "versioned db tenantId i (ao_currentVersion a)"
  using assms by (auto simp: automation_store_ok_def list_all_iff current_version_def getAutomation_def find_Some_iff)

lemma drawId_ok: "drawId uuid p db = (i, db') \<Longrightarrow> store_ok db' = store_ok db"
  using other_writes(9) [of uuid p db] by simp

lemma domain_createVersion_ok [simp]: "store_ok (snd (domain_createVersion env tenantId i n c actorId db)) = store_ok db"
  by (auto simp: domain_createVersion_def drawId_def split: sum.splits)

lemma domain_createVersion_row:
  "domain_createVersion env tenantId i n c actorId db = (Inr v, db') \<Longrightarrow> av_tenantId v = tenantId \<and> av_automationId v = i \<and> av_version v = n"
  by (auto simp: domain_createVersion_def split: sum.splits prod.splits)

lemma createVersion_versioned:
  "auto_createVersion v db = (Inr x, db') \<Longrightarrow> x = v \<and> versioned db' (av_tenantId v) (av_automationId v) (av_version v)"
  by (auto simp: auto_createVersion_def versioned_def auto_getVersion_def find_None_iff_all split: if_splits)

lemma create_ok:
  assumes "store_ok db"
  shows "store_ok (snd (createAutomationDefinition env tenantId actorId name description c db))"
proof -
  obtain i db1 where d: "drawId (sv_uuid env) ''aut'' db = (i, db1)" by fastforce
  obtain r db2 where v: "domain_createVersion env tenantId i 1 c actorId db1 = (r, db2)" by fastforce
  have ok: "store_ok db2" using domain_createVersion_ok [of env tenantId i 1 c actorId db1] v drawId_ok [OF d] assms by simp
  show ?thesis
  proof (cases r)
    case (Inl e)
    then show ?thesis using d v ok by (simp add: createAutomationDefinition_def Let_def)
  next
    case (Inr w)
    have w: "av_tenantId w = tenantId" "av_automationId w = i" "av_version w = 1" using domain_createVersion_row v Inr by blast+
    show ?thesis using d v ok Inr w
      by (auto simp: createAutomationDefinition_def Let_def auto_transaction_def createAutomation_def auto_createVersion_def automation_store_ok_def
          list_all_iff current_version_def intro!: version_added split: prod.splits)
        (auto simp: versioned_def auto_getVersion_def find_None_iff_all)
  qed
qed

lemma update_row_ok: "store_ok db \<Longrightarrow> versioned db tenantId i n \<Longrightarrow> store_ok (snd (update_row tenantId i u current n next db))"
  unfolding update_row_def by (rule updateAutomation_ok) auto

lemma update_ok:
  assumes "store_ok db"
  shows "store_ok (snd (updateAutomationDefinition env tenantId actorId i u db))"
  unfolding updateAutomationDefinition_def
proof (rule transaction_ok [OF assms], unfold andThen_lift_db, goal_cases)
  case 1
  have new: "store_ok (snd (andThen (domain_createVersion env tenantId i n c actorId db) (\<lambda>v db. andThen (auto_createVersion v db) k)))"
    if "\<And>v db'. store_ok db' \<Longrightarrow> versioned db' tenantId i n \<Longrightarrow> store_ok (snd (k v db'))" for n c k
  proof -
    obtain r db1 where v: "domain_createVersion env tenantId i n c actorId db = (r, db1)" by fastforce
    have ok1: "store_ok db1" using domain_createVersion_ok [of env tenantId i n c actorId db] v assms by simp
    show ?thesis
    proof (cases r)
      case (Inl e)
      then show ?thesis using v ok1 by simp
    next
      case (Inr w)
      obtain r2 db2 where c: "auto_createVersion w db1 = (r2, db2)" by fastforce
      then have "store_ok db2" using createVersion_ok [OF ok1, of w] by simp
      then show ?thesis using v c Inr that [of db2] createVersion_versioned [of w db1 _ db2] domain_createVersion_row [of env tenantId i n c actorId db w db1]
        by (cases r2) auto
    qed
  qed
  show ?case
    using assms by (auto simp: versioned_def intro!: new update_row_ok split: sum.splits option.splits)
qed

lemma delete_ok: "store_ok db \<Longrightarrow> store_ok (snd (deleteAutomation tenantId i n db))"
  by (auto simp: deleteAutomation_def andThen_lift_db current_versioned intro!: updateAutomation_ok split: sum.splits)

lemma transition_ok: "store_ok db \<Longrightarrow> store_ok (snd (transitionAutomation env tenantId i n st db))"
  by (auto simp: transitionAutomation_def andThen_lift_db current_versioned intro!: updateAutomation_ok split: sum.splits)

lemma copy_ok: "store_ok db \<Longrightarrow> store_ok (snd (copyAutomation env tenantId actorId i db))"
  by (auto simp: copyAutomation_def andThen_lift_db intro!: create_ok split: sum.splits option.splits)

section \<open>Runs\<close>

lemma persist_target_ok: "store_ok db \<Longrightarrow> store_ok (snd (persist_target env run now p db))"
  by (auto simp: persist_target_def drawId_ok intro!: store_kept split: prod.splits)

lemma persist_ok:
  assumes "store_ok db" "versioned db (rq_tenantId q) (ao_id (rq_automation q)) (av_version (rq_version q))"
  shows "store_ok (snd (persistRunFromTargets env q items db))"
proof -
  have "store_ok (snd (auto_transaction (\<lambda>db. andThen (auto_createRun (new_auto_run i q l now) db) (\<lambda>_ db.
          andThen (for_each (persist_target env (new_auto_run i q l now) now) ps db) (\<lambda>_ db. (Inr (new_auto_run i q l now), db)))) (db\<lparr>ad_drawn := n\<rparr>)))" for i l now ps n
    using assms by (intro transaction_ok store_kept createRun_ok) (simp_all add: persist_target_ok, simp add: new_auto_run_def Let_def)
  then show ?thesis using assms by (auto simp: persistRunFromTargets_def drawId_def Let_def)
qed

lemma runnable_versioned:
  assumes "requireRunnableVersion tenantId a b db = Inr v"
  shows "versioned db tenantId (ao_id a) (av_version v)"
proof -
  have "auto_getVersion (ao_id a) (ao_currentVersion a) tenantId db = Some v"
    using assms by (auto simp: requireRunnableVersion_def split: option.splits if_splits)
  moreover from this have "av_version v = ao_currentVersion a" by (auto simp: auto_getVersion_def find_Some_iff)
  ultimately show ?thesis by (simp add: versioned_def)
qed

lemma enqueueRun_ok [simp]: "store_ok (enqueueRunTask env run actorId source db) = store_ok db"
  by (simp add: enqueueRunTask_def Let_def)

lemma on_demand_ok: "store_ok db \<Longrightarrow> store_ok (snd (createOnDemandRun env tenantId actorId i key n opts db))"
  by (auto simp: createOnDemandRun_def andThen_lift_db Let_def on_demand_request_def runnable_versioned intro!: store_kept persist_ok
      split: sum.splits option.splits)

lemma from_trigger_ok: "store_ok db \<Longrightarrow> store_ok (snd (createRunFromTrigger env q db))"
  by (auto simp: createRunFromTrigger_def andThen_lift_db Let_def runnable_versioned intro!: store_kept persist_ok
      split: sum.splits option.splits)

lemma collect_ok:
  assumes "\<And>x s. store_ok s \<Longrightarrow> store_ok (snd (f x s))" "store_ok s"
  shows "store_ok (snd (collect_results f xs s))"
  using assms(2)
proof (induction xs arbitrary: s)
  case (Cons x xs)
  show ?case by (simp, intro store_kept) (simp_all add: assms(1) Cons)
qed simp

lemma deliver_ok: "store_ok db \<Longrightarrow> store_ok (snd (deliver_to env tenantId event a db))"
  by (auto simp: deliver_to_def andThen_lift_db Let_def drawId_ok intro!: store_kept split: sum.splits option.splits prod.splits)

lemma publish_ok: "store_ok db \<Longrightarrow> store_ok (snd (publishCertificateVersionCreated env tenantId event db))"
  by (simp add: publishCertificateVersionCreated_def collect_ok deliver_ok)

lemma delivery_writes_ok [simp]:
  "store_ok db \<Longrightarrow> store_ok (snd (skip_delivery d tenantId code db))" "store_ok db \<Longrightarrow> store_ok (snd (fail_delivery d tenantId e db))"
  "store_ok db \<Longrightarrow> store_ok (snd (record_run d tenantId created db))"
  by (auto simp: skip_delivery_def fail_delivery_def record_run_def intro!: store_kept split: option.splits)

lemma process_ok:
  assumes "store_ok db"
  shows "store_ok (snd (processDelivery env tenantId deliveryId db))"
proof -
  have "store_ok (snd (andThen (createRunFromTrigger env q db) (record_run d tenantId)))" for q d
    using assms by (intro store_kept) (simp_all add: from_trigger_ok)
  then have "andThen (createRunFromTrigger env q db) (record_run d tenantId) = (r, db') \<Longrightarrow> store_ok db'" for q d r db'
    by (metis snd_conv)
  then show ?thesis using assms by (auto simp: processDelivery_def split: option.splits sum.splits prod.splits)
qed

lemma scan_automation_ok: "store_ok db \<Longrightarrow> store_ok (snd (scan_automation env tenantId now a db))"
  by (auto simp: scan_automation_def Let_def on_demand_ok current_versioned intro!: store_kept updateAutomation_ok split: option.splits)

lemma scan_tenant_ok:
  assumes "store_ok db" shows "store_ok (snd (scan_tenant env owner tenantId db))"
proof -
  have "acquireSchedulerLease key owner u db = (b, db') \<Longrightarrow> store_ok db'" for key u b db'
    using other_writes(7) [of key owner u db] assms by simp
  then show ?thesis by (auto simp: scan_tenant_def Let_def collect_ok scan_automation_ok split: prod.splits bool.splits)
qed

lemma schedule_ok: "store_ok db \<Longrightarrow> store_ok (snd (scheduleDueRuns env owner maxRuns db))"
proof -
  have "store_ok db \<Longrightarrow> store_ok (snd (schedule_tenants env owner maxRuns created ts db))" for created ts
  proof (induction ts arbitrary: created db)
    case (Cons t ts)
    have "store_ok (snd (andThen (scan_tenant env owner t db) (\<lambda>ids.
        schedule_tenants env owner maxRuns (created @ take (maxRuns - length created) ids) ts)))"
      by (intro store_kept) (simp_all add: Cons scan_tenant_ok)
    then show ?case using Cons.prems by simp
  qed simp
  then show "store_ok db \<Longrightarrow> store_ok (snd (scheduleDueRuns env owner maxRuns db))" by (simp add: scheduleDueRuns_def)
qed

section \<open>Executions\<close>

text \<open>What happens while an action works, or while temporary plans are removed, keeps the invariant.\<close>

definition lawful :: "'w auto_env \<Rightarrow> bool" where
  "lawful env \<longleftrightarrow> (\<forall>run t a db. store_ok db \<longrightarrow> store_ok (snd (ae_execute env run t a db)))
     \<and> (\<forall>c p tenantId db. ae_cleanup env = Some c \<longrightarrow> store_ok db \<longrightarrow> store_ok (snd (c p tenantId db)))"

lemma requireRun_ok: "store_ok db \<Longrightarrow> store_ok (snd (requireRun runId tenantId db))"
  by simp

lemma cancel_ok: "store_ok db \<Longrightarrow> store_ok (snd (cancelPendingTargets runId tenantId now db))"
  unfolding cancelPendingTargets_def by (intro store_kept) simp_all

lemma cleanup_ok:
  assumes "lawful env" "store_ok db" shows "store_ok (snd (cleanupTemporaryPlans env runId tenantId db))"
proof (cases "ae_cleanup env")
  case (Some c)
  then have "store_ok s \<Longrightarrow> store_ok (snd (c p t s))" for p t s using assms(1) by (simp add: lawful_def)
  then show ?thesis unfolding cleanupTemporaryPlans_def Some option.case using assms(2) by (intro store_kept) simp_all
qed (simp add: cleanupTemporaryPlans_def assms)

lemma run_writes_ok:
  assumes "store_ok db" "\<And>r. ar_id (f r) = ar_id r" "\<And>r. run_version (f r) = run_version r" "\<And>r. run_key (f r) = run_key r"
  shows "store_ok (snd (repo (auto_updateRun i tenantId f db)))"
  using updateRun_ok [OF assms] by simp

lemmas execution_kept = chain_store run_writes_ok

lemma halt_ok: "lawful env \<Longrightarrow> store_ok db \<Longrightarrow> store_ok (snd (halt_run env run tenantId stage now db))"
  unfolding halt_run_def by (intro execution_kept) (simp_all add: cancel_ok cleanup_ok run_version_def run_key_def)

lemma finish_ok: "lawful env \<Longrightarrow> store_ok db \<Longrightarrow> store_ok (snd (finish env runId tenantId db))"
  unfolding finish_def Let_def
  by (intro execution_kept) (auto intro!: execution_kept simp: cleanup_ok run_version_def run_key_def)

lemma call_ok:
  assumes "lawful env" "store_ok db" shows "store_ok (snd (call_action env run tenantId t a db))"
proof -
  have "store_ok (snd (ae_execute env run (getRunTarget (tg_id t) tenantId db) a db))" using assms by (simp add: lawful_def)
  then show ?thesis by (auto simp: call_action_def split: prod.splits)
qed

lemma open_result_ok: "store_ok db \<Longrightarrow> store_ok (snd (open_result env run tenantId t a db))"
  by (auto simp: open_result_def drawId_ok intro!: chain_store split: option.splits prod.splits)

lemma catch_ok: "store_ok db \<Longrightarrow> store_ok (snd (catch_action tenantId t a i e db))"
  unfolding catch_action_def Let_def by (auto intro!: chain_store)

lemma perform_ok: "lawful env \<Longrightarrow> store_ok db \<Longrightarrow> store_ok (snd (perform_action env run tenantId t a i db))"
  unfolding perform_action_def by (intro chain_store) (simp_all add: call_ok)

lemma run_target_action_ok:
  assumes "lawful env" "store_ok db" shows "store_ok (snd (run_target_action env run tenantId t a db))"
proof -
  have "store_ok (snd (case perform_action env run tenantId t a i s of (Inr x, s) \<Rightarrow> (Inr x, s) | (Inl e, s) \<Rightarrow> catch_action tenantId t a i e s))"
    if "store_ok s" for i s
    using perform_ok [OF assms(1) that, of run tenantId t a i] by (auto simp: catch_ok split: prod.splits sum.splits)
  then show ?thesis unfolding run_target_action_def by (intro chain_store) (simp_all add: open_result_ok assms)
qed

lemma run_actions_ok:
  assumes "lawful env" shows "store_ok db \<Longrightarrow> store_ok (snd (run_actions env run tenantId t as db))"
proof (induction as arbitrary: db)
  case (Cons a as)
  show ?case by (simp, intro chain_store) (simp_all add: Cons run_target_action_ok assms)
qed simp

lemma run_target_ok: "lawful env \<Longrightarrow> store_ok db \<Longrightarrow> store_ok (snd (run_target env run tenantId ordered t db))"
  unfolding run_target_def by (intro chain_store) (simp_all add: run_actions_ok)

lemma after_ok:
  "lawful env \<Longrightarrow> store_ok db \<Longrightarrow> store_ok (snd (after_target env g run tenantId n db))"
  "lawful env \<Longrightarrow> store_ok db \<Longrightarrow> store_ok (snd (after_failure env run latest tenantId t e db))"
  unfolding after_target_def after_failure_def fail_target_def Let_def
  by (auto intro!: chain_store simp: halt_ok)

lemma run_targets_ok:
  assumes "lawful env" shows "store_ok db \<Longrightarrow> store_ok (snd (run_targets env g run tenantId ordered n ts db))"
proof (induction ts arbitrary: n db)
  case (Cons t ts)
  have target: "run_target env run tenantId ordered t s = (r, s') \<Longrightarrow> store_ok s \<Longrightarrow> store_ok s'" for s r s'
    using run_target_ok [OF assms, of s run tenantId ordered t] by simp
  show ?case using Cons.prems
    by (auto intro!: chain_store Cons.IH after_ok [OF assms] split: prod.splits sum.splits option.splits) (erule target, assumption)+
qed simp

lemma execute_ok: "lawful env \<Longrightarrow> store_ok db \<Longrightarrow> store_ok (snd (coordinator_execute env runId tenantId db))"
  unfolding coordinator_execute_def refuse_closed_def start_run_def Let_def
  by (auto intro!: execution_kept simp: run_targets_ok finish_ok cleanup_ok run_version_def run_key_def split: option.splits)

lemma stop_ok: "lawful env \<Longrightarrow> store_ok db \<Longrightarrow> store_ok (snd (coordinator_stop env runId tenantId db))"
  unfolding coordinator_stop_def
  by (intro execution_kept) (simp_all add: cancel_ok cleanup_ok run_version_def run_key_def)

lemma create_retry_target_ok: "store_ok db \<Longrightarrow> store_ok (snd (create_retry_target env i now p db))"
  by (auto simp: create_retry_target_def drawId_ok intro!: store_kept split: prod.splits)

lemma retry_ok:
  assumes "store_ok db" shows "store_ok (snd (retryFailed env runId tenantId actorId key db))"
proof (cases "auto_getRun runId tenantId db")
  case (Some source)
  then have "versioned db (au_tenantId source) (ar_automationId source) (au_automationVersion source)"
    using assms by (auto simp: automation_store_ok_def list_all_iff run_version_def auto_getRun_def find_Some_iff)
  then have "store_ok (snd (auto_transaction (\<lambda>db. andThen (auto_createRun (retry_run i actorId key n now source) db) (\<lambda>_ db.
      for_each (create_retry_target env i now) ps db)) (db\<lparr>ad_drawn := k\<rparr>)))" for i n now ps k
    using assms by (intro transaction_ok store_kept createRun_ok) (simp_all add: create_retry_target_ok, simp add: retry_run_def)
  then show ?thesis using assms Some
    by (simp add: retryFailed_def requireRun_def chain_simps) (auto simp: drawId_def Let_def intro!: chain_store split: option.splits)
qed (simp add: retryFailed_def requireRun_def chain_def assms)

section \<open>All operations\<close>

inductive auto_step :: "'w service_env \<Rightarrow> 'w auto_env \<Rightarrow> 'w auto_db \<Rightarrow> 'w auto_db \<Rightarrow> bool" for env aenv where
  step_create: "auto_step env aenv db (snd (createAutomationDefinition env t u name description c db))"
| step_update: "auto_step env aenv db (snd (updateAutomationDefinition env t u i input db))"
| step_copy: "auto_step env aenv db (snd (copyAutomation env t u i db))"
| step_enable: "auto_step env aenv db (snd (enableAutomation env t i n db))"
| step_disable: "auto_step env aenv db (snd (disableAutomation env t i n db))"
| step_delete: "auto_step env aenv db (snd (deleteAutomation t i n db))"
| step_run: "auto_step env aenv db (snd (createOnDemandRun env t u i key n opts db))"
| step_publish: "auto_step env aenv db (snd (publishCertificateVersionCreated env t event db))"
| step_deliver: "auto_step env aenv db (snd (processDelivery env t i db))"
| step_schedule: "auto_step env aenv db (snd (scheduleDueRuns env owner maxRuns db))"
| step_execute: "auto_step env aenv db (snd (runRun aenv owner i t db))"
| step_stop: "auto_step env aenv db (snd (coordinator_stop aenv i t db))"
| step_retry: "auto_step env aenv db (snd (retryFailed aenv i t u key db))"
| step_key: "auto_step env aenv db (snd (issue_key env secret t i u db))"
| step_revoke: "auto_step env aenv db (revoke_key t i db)"
| step_time: "auto_step env aenv db (db\<lparr>ad_now := now\<rparr>)"

lemma runRun_ok:
  assumes "lawful env" "store_ok db" shows "store_ok (snd (runRun env owner i t db))"
proof -
  have lease: "acquireSchedulerLease key owner u db = (b, db') \<Longrightarrow> store_ok db'" for key u b db'
    using other_writes(7) [of key owner u db] assms(2) by simp
  have exec: "coordinator_execute env i t s = (r, s') \<Longrightarrow> store_ok s \<Longrightarrow> store_ok s'" for s r s'
    using execute_ok [OF assms(1), of s i t] by simp
  show ?thesis by (auto simp: runRun_def Let_def dest: lease exec split: prod.splits bool.splits)
qed

lemma key_ok: "store_ok db \<Longrightarrow> store_ok (snd (issue_key env secret t i u db))" "store_ok db \<Longrightarrow> store_ok (revoke_key t i db)"
  by (auto simp: issue_key_def revoke_key_def revokeActive_def Let_def drawId_ok intro!: transaction_ok split: prod.splits)

lemma auto_step_ok: "auto_step env aenv db db' \<Longrightarrow> lawful aenv \<Longrightarrow> store_ok db \<Longrightarrow> store_ok db'"
  by (induction rule: auto_step.induct)
    (simp_all add: create_ok update_ok copy_ok enableAutomation_def disableAutomation_def transition_ok delete_ok on_demand_ok publish_ok
      process_ok schedule_ok runRun_ok stop_ok retry_ok key_ok)

interpretation automation_steps: step_invariant "\<lambda>db db'. lawful aenv \<and> auto_step env aenv db db'" automation_store_ok for env aenv
  by unfold_locales (use auto_step_ok in blast)


section \<open>Witnesses\<close>

definition demo_automation :: automation where
  "demo_automation = \<lparr>ao_id = ''a'', ao_tenantId = ''t'', ao_name = ''renewal'', ao_description = None, ao_status = AS_active, ao_currentVersion = 1,
     ao_nextRunAt = Some 1, ao_lastRunAt = None, ao_createdBy = ''u'', ao_createdAt = 1, ao_updatedAt = 1, ao_deletedAt = None, ao_version = 1\<rparr>"

definition demo_snapshot :: target_snapshot where
  "demo_snapshot = tg_targetSnapshot (demo_auto_target ''x'' 1)"

text \<open>One target is found for every certificate version.\<close>

definition demo_service :: "unit service_env" where
  "demo_service = \<lparr>sv_uuid = (\<lambda>n. replicate n CHR ''x''), sv_number = (\<lambda>_. None), sv_parse = (\<lambda>_. Some 9), sv_iso = (\<lambda>_. ''now''), sv_zone = (\<lambda>_. True),
     sv_local = (\<lambda>_ _. \<lparr>ca_minute = 0, ca_hour = 0, ca_day = 1, ca_month = 1, ca_weekday = 1\<rparr>), sv_checksum = (\<lambda>_. ''sum''), sv_sha = id,
     sv_pct = (\<lambda>_ _. 0), sv_tenant_lt = (\<lambda>_ _. False),
     sv_find = (\<lambda>_ _ _. Inr [\<lparr>pt_target = demo_snapshot, pt_executable = True, pt_excludedReason = None\<rparr>])\<rparr>"

definition demo_options :: on_demand_options where
  "demo_options = \<lparr>od_triggerType = None, od_scheduledAt = None, od_triggerContext = Some [(''certificateVersionId'', JStr ''v'')],
     od_executionOptions = None, od_allowCertificateDowngrade = None, od_confirmCertificateDowngrade = None, od_externalExecutionMode = None\<rparr>"

definition demo_service_db :: "unit auto_db" where
  "demo_service_db = demo_auto_db\<lparr>ad_automations := [demo_automation], ad_runs := [], ad_targets := []\<rparr>"

abbreviation demo_creation where
  "demo_creation \<equiv> createOnDemandRun demo_service ''t'' ''u'' ''a'' ''k'' 1 demo_options demo_service_db"

lemma demo_creates: "case fst demo_creation of Inl e \<Rightarrow> False | Inr r \<Rightarrow> True"
  by code_simp

lemma demo_key_unused: "auto_findRunByIdempotencyKey ''t'' ''k'' demo_service_db = None"
  by code_simp


definition demo_failed_db :: "unit auto_db" where
  "demo_failed_db = demo_auto_db\<lparr>ad_targets := [(demo_auto_target ''x'' 1)\<lparr>tg_status := AT_failed\<rparr>]\<rparr>"

abbreviation demo_retry where
  "demo_retry \<equiv> retryFailed (demo_auto_env answers) ''r'' ''t'' ''u'' ''again'' demo_failed_db"

lemma demo_retried: "case fst demo_retry of Inl e \<Rightarrow> False | Inr r \<Rightarrow> True"
  by code_simp

theorem retry_never_queued_witness:
  "\<exists>r. fst demo_retry = Inr r \<and> ad_runs (snd demo_retry) = [demo_auto_run, r] \<and> ar_status r = AR_queued \<and> ad_tasks (snd demo_retry) = []"
proof -
  obtain r where r: "fst demo_retry = Inr r" using demo_retried by (cases "fst demo_retry") auto
  then have c: "demo_retry = (Inr r, snd demo_retry)" by (metis prod.collapse)
  have "auto_findRunByIdempotencyKey ''t'' ''again'' demo_failed_db = None" by code_simp
  then show ?thesis using retry_never_queued [OF c] r by (auto simp: demo_failed_db_def demo_auto_db_def)
qed

text \<open>An automation that runs every night and requires a preview.\<close>

definition demo_scheduled_db :: "unit auto_db" where
  "demo_scheduled_db = demo_service_db\<lparr>ad_versions := [demo_auto_version\<lparr>av_configuration := (av_configuration demo_auto_version)
     \<lparr>cf_trigger := Trigger_schedule ''0 2 * * *'' ''UTC'' None None, cf_guardrails := demo_guardrails\<lparr>gd_requirePreview := True\<rparr>\<rparr>\<rparr>]\<rparr>"

lemma demo_due: "listAutomationTenantIds (sv_tenant_lt demo_service) demo_scheduled_db = [''t'']"
  "listAutomations ''t'' False demo_scheduled_db = [demo_automation]" "due_now (ad_now demo_scheduled_db) demo_automation"
  "getAutomation (ao_id demo_automation) ''t'' False demo_scheduled_db = Some demo_automation"
  "auto_getVersion (ao_id demo_automation) (ao_currentVersion demo_automation) ''t'' demo_scheduled_db = Some (hd (ad_versions demo_scheduled_db))"
  by (simp_all add: listAutomationTenantIds_def listAutomations_def due_now_def getAutomation_def auto_getVersion_def demo_scheduled_db_def
      demo_service_db_def demo_auto_db_def demo_automation_def demo_auto_version_def)


lemma demo_lawful: "lawful (demo_auto_env answers)"
  by (simp add: lawful_def demo_auto_env_def answers_def)

lemma demo_store_ok: "automation_store_ok demo_service_db"
  by (simp add: automation_store_ok_def versioned_def auto_getVersion_def current_version_def demo_service_db_def demo_auto_db_def
      demo_automation_def demo_auto_version_def)


end
