(* ===== verification/Spec2Isabelle.thy ===== *)
theory Spec2Isabelle
  imports CoreStateMachine ExecutionGrants Approvals TenantScope TenantHierarchy Rbac AutomationProgress TaskServiceProperties JobQueue
    StepGraph ResourceLocks RecoveryLedger ZoneRouting ResultSyncProperties ExecutionLoopProperties
    WorkflowSecrets WorkflowVersions WorkflowGraphs AutomationInvariants
begin

text \<open>
  A verification library for TLSFlow, a control plane that deploys TLS certificates to servers, load balancers and cloud
  services. The model follows the TypeScript of \<open>backend/src\<close>; file names below are relative to that directory.

  \<^bold>\<open>The program\<close>. An operator prepares a deployment plan for the tenants he is admitted to, somebody else approves it, and a
  run with one step per target and phase carries it out. The run is driven by a task of the task worker, its steps go to
  executors, and what executors and agents report comes back through the result synchroniser, which may continue the run.
  The theories follow these layers from the bottom up.

  \<^bold>\<open>Foundations\<close>
  \<^item> \<open>Prelude\<close>: errors, results (\<open>error + 'a\<close>), JSON values, the string functions of JavaScript, generic facts on lists and
    tables, sequencing of calls on a state (\<open>andThen\<close>, \<open>for_each\<close>), and the locale \<open>step_invariant\<close> by which every theory
    with a step relation lifts an invariant of one operation to all reachable states.
  \<^item> \<open>CoreStateMachine\<close>: \<open>shared/state-machine/core-state-machine.ts\<close> and the enumerations, with the transition tables. The
    tables are closed and total, and bound the number of moves of a run and a step.
  \<^item> \<open>DocumentStore\<close>: \<open>persistence/repositories/pg-document-repository.ts\<close>, a table of JSON documents with versions. The
    locale \<open>keyed_store\<close> states what its clients use of it; the repository interprets it.

  \<^bold>\<open>Who may do what\<close>
  \<^item> \<open>TenantScope\<close>, \<open>TenantHierarchy\<close>: \<open>modules/security/tenant-scope.service.ts\<close>, \<open>tenant.domain-service.ts\<close> and
    \<open>tenant.repository.ts\<close>: admission of resources by a scope, and that tenants stay a forest of groups and companies.
  \<^item> \<open>Rbac\<close>: \<open>modules/rbac/rbac.service.ts\<close>: roles, policies, and the decision \<open>can\<close>.
  \<^item> \<open>Approvals\<close>: \<open>modules/approvals/approval.service.ts\<close> and \<open>shared/canonical-json.ts\<close>: four eyes, one use, and that
    changed parameters cancel a request.
  \<^item> \<open>ExecutionGrants\<close>: \<open>modules/executions/execution-grant.service.ts\<close>: what a grant admits and that it is used once.

  \<^bold>\<open>Tasks and jobs\<close>
  \<^item> \<open>TaskModel\<close>, \<open>TaskRepository\<close>, \<open>TaskResolution\<close>: the rows and all writes of \<open>modules/tasks/task.repository.ts\<close>;
    \<open>TaskInvariants\<close> and \<open>TaskProperties\<close> prove what every write keeps, and claims, leases, cancellation and retries.
  \<^item> \<open>AutomationProgress\<close>: \<open>automations/application/automation-task-progress.ts\<close> over the task tables.
  \<^item> \<open>TaskService\<close>, \<open>TaskSupervisor\<close>, \<open>TaskServiceProperties\<close>: \<open>task.application-service.ts\<close> and
    \<open>task-worker-supervisor.ts\<close>; the locale \<open>idempotent_store\<close> is the contract of \<open>enqueue\<close>.
  \<^item> \<open>JobQueue\<close>: \<open>queue/pg-job-runner.ts\<close>, refined to an abstract queue, in every interleaving of its transactions.

  \<^bold>\<open>Runs of a deployment\<close>, all under \<open>modules/executions\<close> and \<open>modules/deployment-plans\<close>
  \<^item> \<open>StepGraph\<close>: \<open>step-graph-builder.ts\<close>, \<open>scheduler.ts\<close>, \<open>failure-policy-engine.ts\<close>, \<open>run-recovery-worker.ts\<close> and
    \<open>executions.domain-service.ts\<close>: the cycle check is exact, picks are safe, schedules end.
  \<^item> \<open>ResourceLocks\<close>, \<open>RecoveryLedger\<close>: \<open>plugin-resource-lock.service.ts\<close> and \<open>workflow-recovery-ledger.service.ts\<close>.
  \<^item> \<open>ExecutionStore\<close>: \<open>executions.repository.ts\<close> and \<open>deployment-plans.repository.ts\<close>. The state \<open>exec_db\<close> holds runs,
    steps, plans, targets and transition events. Its lemmas say what an update does to the status of a step
    (\<open>status_at\<close>) and to its place (\<open>home_at\<close>), so that later theories never unfold a document.
  \<^item> \<open>DryRunChecks\<close>: \<open>agent-v2-dry-run-result.ts\<close> and the check functions at the end of \<open>execution-result-sync.service.ts\<close>.
  \<^item> \<open>ResultSync\<close>, \<open>ResultSyncProperties\<close>: \<open>applyAgentTaskResult\<close> and what it calls in
    \<open>execution-result-sync.service.ts\<close>.
  \<^item> \<open>ExecutionRunner\<close>: the execution of one step in \<open>executions.application-service.ts\<close>: materialising the step,
    calling the executor, and the branches for an unknown, asynchronous, synchronised, successful or failed result.
  \<^item> \<open>ExecutionLoop\<close>, \<open>ExecutionLoopProperties\<close>: the loop \<open>runDispatchedExecution\<close>, polling, recovery of unknown writes,
    failure and cancellation of a run. \<open>connected\<close> ties the loop and the synchroniser together as \<open>app.module.ts\<close> does.

  \<^bold>\<open>Workflows\<close>, all under \<open>modules/workflow-templates\<close>
  \<^item> \<open>WorkflowValues\<close>, \<open>WorkflowSteps\<close>, \<open>WorkflowPlan\<close>: the values of a run, its templates and masking, the kinds of step,
    extractors, assertions, transforms, and \<open>adaptStep\<close>, the plan a step is dispatched with.
  \<^item> \<open>WorkflowRuntime\<close>: \<open>runStep\<close>, \<open>runForeachStep\<close> and \<open>executeRuntime\<close> of \<open>domain/workflow-templates.domain-service.ts\<close>. The
    state is the context the steps share and the calls made of the dispatcher, which may answer each as it likes. The nesting
    of loops is bounded by the size of the step, so a run terminates for every dispatcher.
  \<^item> \<open>WorkflowProperties\<close>: which calls a run makes, their order, retries and the automatic rollback. The locale
    \<open>call_relation\<close> lifts what one call respects to a whole run. \<open>WorkflowSecrets\<close>: what the log hides, and that a checkpoint
    and its verification fit.
  \<^item> \<open>WorkflowTemplates\<close>: templates and their versions, from the same file: the copy in memory, the two document repositories, the
    order of the writes, and the comparison of plugin versions. \<open>WorkflowVersions\<close> shows that every operation is a sequence of the
    moves \<open>tpl_move\<close>, also when a write fails, and derives from the moves the shape of the store, what stays of a published
    version, and which version is executed.
  \<^item> \<open>WorkflowCanvas\<close>: \<open>domain/workflow-canvas.compiler.ts\<close>, the compiler from a drawing to the content of a version.
    \<open>WorkflowGraphs\<close> shows what the drawn edges mean to it (the cycle check, and almost nothing else), which steps come out in
    which order, and that every compiled call has a time limit.

  \<^bold>\<open>Automations\<close>, all under \<open>modules/automations\<close>
  \<^item> \<open>AutomationModel\<close>: the rows and \<open>automations.repository.ts\<close>. The state \<open>auto_db\<close> has one list per table, the tasks handed to
    the task worker and the calls made of the port that performs an action.
  \<^item> \<open>AutomationRuns\<close>: \<open>automation-run-coordinator.ts\<close>: the execution of a run over its targets and their actions, its guard
    rails, maintenance windows, stop and retry. \<open>AutomationRunProperties\<close> describes the calls of an execution as a trace and
    derives their order and the bound on failures in a row.
  \<^item> \<open>AutomationService\<close>: definitions, versions, schedules, filters, previews, and the creation of runs by hand, by a clock and by
    an event (\<open>automations.domain-service.ts\<close>, \<open>automation-schedule.ts\<close>, \<open>automations.application-service.ts\<close>,
    \<open>automation-event-delivery.service.ts\<close>, \<open>automation-scheduler.ts\<close> and the registries). \<open>AutomationProperties\<close> shows what
    the creation of a run does and where the scheduler fails; \<open>AutomationInvariants\<close> that every operation keeps versions,
    runs and keys consistent.

  \<^bold>\<open>Routing\<close>
  \<^item> \<open>ZoneRouting\<close>: \<open>modules/gateway-agents/zone-router.ts\<close>, \<open>reachability.service.ts\<close> and \<open>failover.service.ts\<close>.

  \<^bold>\<open>Parameters\<close>. What is not in the repository is an argument of the definitions that use it: the digest \<open>sha\<close>, the locale
  order \<open>lt\<close> of \<open>localeCompare\<close>, audit sinks, clocks and time zones, \<open>Number\<close> and the rounding of floating point numbers,
  executors of tasks, and the records \<open>sync_env\<close> and \<open>runner_env\<close> for the collaborators of result synchronisation (asset and
  binding tables, probes, certificate life cycle, redaction) and of the run loop (executors, stored input snapshots,
  agent tasks, the TLS verifier, creation of a rollback run); \<open>wf_env\<close> holds what the workflow runtime takes from its platform
  (regular expressions given by a user, JSONata, SHA-256, buffers), and \<open>canvas_env\<close> what the canvas compiler takes
  (\<open>Number\<close>, \<open>JSON.parse\<close>, \<open>localeCompare\<close>, the checker of input contracts and the schema registry). \<open>auto_env\<close> is the
  port of the actions with the calendar, and \<open>service_env\<close> has dates, digests and the lookup of the targets of a certificate
  version. A property that needs more of a parameter than its type says so in a hypothesis, and its witness instantiates the
  parameter.

  \<^bold>\<open>Concurrency\<close>. The database port runs one transaction at a time, so a transaction is one function. Where code reads
  and writes in separate statements, the theories split it and prove the race or its absence. A batch of steps is
  \<open>Promise.all\<close> in the code; the model runs its members in order and keeps the first error, and an executor may change the
  database arbitrarily while it runs.

  \<^bold>\<open>Termination\<close>. Recursion is structural or has a measure. The task worker takes its limit, and \<open>drive_run\<close> is the run
  loop with a number of iterations: \<open>PlainError ''fuel''\<close> stands for a loop that has not returned yet. \<open>schedule_completes\<close>
  bounds the rounds of a schedule by the number of waiting steps, and \<open>run_busy_wait\<close> shows the case where no number of
  iterations is enough.

  \<^bold>\<open>Not modelled\<close>. Messages are shortened to ASCII text, since nothing reads them. Cryptography, network and device access,
  the web front end, and the agents written in Go are outside. Left to later extensions: the creation of runs and steps and
  the payloads they compile, the compilation of deployment plans, what an action of an automation
  does and how it finds its targets, the schema check of workflow content, and licences; listing monitoring probes is the one
  operation of the task repository that is missing.
\<close>

end
